(* ===== verification/Prelude.thy ===== *)
theory Prelude
  imports Main "HOL-Library.Sublist" "HOL-Library.Char_ord" "HOL-Library.List_Lexorder"
begin

text \<open>
  Shared vocabulary of the development: the parts of Go and of its standard library that
  \<^verbatim>\<open>sidecar/internal/policy\<close> uses (strings, 64-bit integers, instants and
  the proleptic Gregorian calendar), results as sums, and the collections of rewrite rules
  the component theories extend.

  A Go string is a list of characters; a character stands for one of the code points
  U+0000 to U+00FF, so the letter, space and case tables below are the ones of Unicode on
  that range. An instant is the number of nanoseconds since Go's zero time
  (January 1, year 1, 00:00 UTC), so \<^verbatim>\<open>Time.IsZero\<close> is \<open>t = 0\<close>.
\<close>

named_theorems go_simps \<open>computation rules of the Go library model\<close>
named_theorems rank_simps \<open>the permissiveness of a verdict\<close>
named_theorems gate_defs \<open>the non-recursive definitions of the gate\<close>

subsection \<open>Results\<close>

type_synonym err = string

definition ebind :: "'e + 'a \<Rightarrow> ('a \<Rightarrow> 'e + 'b) \<Rightarrow> 'e + 'b" where
  "ebind r f = (case r of Inl e \<Rightarrow> Inl e | Inr a \<Rightarrow> f a)"

lemma ebind_simps [simp, go_simps]:
  "ebind (Inl e) f = Inl e"
  "ebind (Inr a) f = f a"
  by (simp_all add: ebind_def)

lemma ebind_Inr_iff: "ebind r f = Inr b \<longleftrightarrow> (\<exists>a. r = Inr a \<and> f a = Inr b)"
  by (cases r) auto

lemma case_err_Inr_iff:
  "(case r of Inl _ \<Rightarrow> Inl e | Inr b \<Rightarrow> f b) = Inr y \<longleftrightarrow> (\<exists>b. r = Inr b \<and> f b = Inr y)"
  by (cases r) auto

definition isOk :: "'e + 'a \<Rightarrow> bool" where
  "isOk r = (case r of Inl _ \<Rightarrow> False | Inr _ \<Rightarrow> True)"

lemma isOk_simps [simp]: "\<not> isOk (Inl e)" "isOk (Inr a)"
  by (simp_all add: isOk_def)

lemma isOk_iff: "isOk r \<longleftrightarrow> (\<exists>a. r = Inr a)"
  by (cases r) auto

lemma isOk_ebind_const [simp]: "isOk (ebind r (\<lambda>_. s)) \<longleftrightarrow> isOk r \<and> isOk s"
  by (cases r) auto

lemma isOk_ebind: "isOk (ebind r f) \<longleftrightarrow> (\<exists>a. r = Inr a \<and> isOk (f a))"
  by (cases r) auto

text \<open>Apply a checker to every element, stopping at the first error, as a Go loop that
  returns the error does.\<close>

fun eall :: "('a \<Rightarrow> 'e + unit) \<Rightarrow> 'a list \<Rightarrow> 'e + unit" where
  "eall f [] = Inr ()"
| "eall f (x # xs) = ebind (f x) (\<lambda>_. eall f xs)"

lemma isOk_eall [simp]: "isOk (eall f xs) \<longleftrightarrow> (\<forall>x\<in>set xs. isOk (f x))"
  by (induction xs) (auto simp: isOk_iff ebind_Inr_iff)

fun emap :: "('a \<Rightarrow> 'e + 'b) \<Rightarrow> 'a list \<Rightarrow> 'e + 'b list" where
  "emap f [] = Inr []"
| "emap f (x # xs) = ebind (f x) (\<lambda>y. ebind (emap f xs) (\<lambda>ys. Inr (y # ys)))"

lemma emap_length: "emap f xs = Inr ys \<Longrightarrow> length ys = length xs"
  by (induction xs arbitrary: ys) (auto simp: ebind_Inr_iff)

lemma emap_set: "emap f xs = Inr ys \<Longrightarrow> y \<in> set ys \<Longrightarrow> \<exists>x\<in>set xs. f x = Inr y"
  by (induction xs arbitrary: ys) (auto simp: ebind_Inr_iff)

subsection \<open>Characters and strings\<close>

definition in_range :: "nat \<Rightarrow> nat \<Rightarrow> char \<Rightarrow> bool" where
  "in_range lo hi c \<longleftrightarrow> lo \<le> of_char c \<and> of_char c \<le> hi"

definition is_digit :: "char \<Rightarrow> bool" where
  "is_digit c = in_range 48 57 c"

definition is_upper :: "char \<Rightarrow> bool" where
  "is_upper c \<longleftrightarrow> in_range 65 90 c \<or> (in_range 192 222 c \<and> of_char c \<noteq> (215::nat))"

definition is_letter :: "char \<Rightarrow> bool" where
  "is_letter c \<longleftrightarrow> in_range 65 90 c \<or> in_range 97 122 c \<or> of_char c = (170::nat) \<or>
     of_char c = (181::nat) \<or> of_char c = (186::nat) \<or>
     (in_range 192 255 c \<and> of_char c \<noteq> (215::nat) \<and> of_char c \<noteq> (247::nat))"

definition is_space :: "char \<Rightarrow> bool" where
  "is_space c \<longleftrightarrow> in_range 9 13 c \<or> of_char c = (32::nat) \<or> of_char c = (133::nat) \<or>
     of_char c = (160::nat)"

definition to_lower :: "char \<Rightarrow> char" where
  "to_lower c = (if is_upper c then char_of (of_char c + 32 :: nat) else c)"

definition ToLower :: "string \<Rightarrow> string" where
  "ToLower s = map to_lower s"

definition EqualFold :: "string \<Rightarrow> string \<Rightarrow> bool" where
  "EqualFold s t \<longleftrightarrow> ToLower s = ToLower t"

definition TrimSpace :: "string \<Rightarrow> string" where
  "TrimSpace s = rev (dropWhile is_space (rev (dropWhile is_space s)))"

definition HasPrefix :: "string \<Rightarrow> string \<Rightarrow> bool" where
  "HasPrefix s p = prefix p s"

definition contains_char :: "char \<Rightarrow> string \<Rightarrow> bool" where
  "contains_char c s \<longleftrightarrow> c \<in> set s"

text \<open>\<^verbatim>\<open>strings.Split\<close> with a one-character separator,
  \<^verbatim>\<open>strings.Cut\<close>, \<^verbatim>\<open>strings.Fields\<close> and
  \<^verbatim>\<open>strings.Join\<close>.\<close>

fun split_on :: "char \<Rightarrow> string \<Rightarrow> string list" where
  "split_on c [] = [[]]"
| "split_on c (x # xs) =
     (if x = c then [] # split_on c xs
      else (case split_on c xs of [] \<Rightarrow> [[x]] | w # ws \<Rightarrow> (x # w) # ws))"

definition cut_at :: "char \<Rightarrow> string \<Rightarrow> string \<times> string \<times> bool" where
  "cut_at c s =
     (if c \<in> set s then (takeWhile (\<lambda>x. x \<noteq> c) s, tl (dropWhile (\<lambda>x. x \<noteq> c) s), True)
      else (s, [], False))"

fun fields_aux :: "string \<Rightarrow> string \<Rightarrow> string list" where
  "fields_aux w [] = (if w = [] then [] else [rev w])"
| "fields_aux w (x # xs) =
     (if is_space x then (if w = [] then fields_aux [] xs else rev w # fields_aux [] xs)
      else fields_aux (x # w) xs)"

definition Fields :: "string \<Rightarrow> string list" where
  "Fields s = fields_aux [] s"

fun Join :: "string list \<Rightarrow> string \<Rightarrow> string" where
  "Join [] sep = []"
| "Join [w] sep = w"
| "Join (w # v # ws) sep = w @ sep @ Join (v # ws) sep"

lemma split_on_not_Nil [simp]: "split_on c s \<noteq> []"
  by (induction s) (auto split: list.splits)

lemma Join_split_on: "Join (split_on c s) [c] = s"
proof (induction s)
  case Nil
  then show ?case by simp
next
  case (Cons x s)
  obtain w ws where w: "split_on c s = w # ws"
    by (cases "split_on c s") auto
  with Cons show ?case by (cases ws) auto
qed

lemma split_on_free: "w \<in> set (split_on c s) \<Longrightarrow> c \<notin> set w"
  by (induction s arbitrary: w) (auto split: list.splits if_splits)

lemma fields_aux_nonempty: "w \<in> set (fields_aux acc s) \<Longrightarrow> w \<noteq> []"
  by (induction acc s rule: fields_aux.induct) (auto split: if_splits)

lemma Fields_nonempty: "w \<in> set (Fields s) \<Longrightarrow> w \<noteq> []"
  by (simp add: Fields_def fields_aux_nonempty)

text \<open>Decimal rendering of an integer (the \<^verbatim>\<open>%d\<close> verb) and
  \<^verbatim>\<open>strconv.Atoi\<close> at 64 bits.\<close>

definition digit_char :: "nat \<Rightarrow> char" where
  "digit_char d = char_of (48 + d)"

fun nat_digits :: "nat \<Rightarrow> string" where
  "nat_digits n = (if n < 10 then [digit_char n]
     else nat_digits (n div 10) @ [digit_char (n mod 10)])"

declare nat_digits.simps [simp del]

definition itoa :: "int \<Rightarrow> string" where
  "itoa i = (if i < 0 then CHR ''-'' # nat_digits (nat (- i)) else nat_digits (nat i))"

definition digit_val :: "char \<Rightarrow> int" where
  "digit_val c = int (of_char c) - 48"

definition digits_val :: "string \<Rightarrow> int" where
  "digits_val s = foldl (\<lambda>n c. n * 10 + digit_val c) 0 s"

definition min64 :: int where "min64 = - (2 ^ 63)"
definition max64 :: int where "max64 = 2 ^ 63 - 1"

definition fits64 :: "int \<Rightarrow> bool" where
  "fits64 x \<longleftrightarrow> min64 \<le> x \<and> x \<le> max64"

definition wrap64 :: "int \<Rightarrow> int" where
  "wrap64 x = (x + 2 ^ 63) mod 2 ^ 64 - 2 ^ 63"

definition Atoi :: "string \<Rightarrow> int option" where
  "Atoi s =
     (let neg = HasPrefix s ''-'';
          body = (if neg \<or> HasPrefix s ''+'' then tl s else s);
          v = (if neg then - digits_val body else digits_val body)
      in if body \<noteq> [] \<and> list_all is_digit body \<and> fits64 v then Some v else None)"

lemma wrap64_fits [simp]: "fits64 (wrap64 x)"
proof -
  have "0 \<le> (x + 2 ^ 63) mod (2 ^ 64 :: int)" "(x + 2 ^ 63) mod (2 ^ 64 :: int) < 2 ^ 64"
    by simp_all
  then show ?thesis by (simp add: fits64_def min64_def max64_def wrap64_def)
qed

lemma wrap64_id: "fits64 x \<Longrightarrow> wrap64 x = x"
  by (simp add: fits64_def min64_def max64_def wrap64_def)

lemma wrap64_over: "max64 < x \<Longrightarrow> x \<le> max64 + 2 ^ 64 \<Longrightarrow> wrap64 x = x - 2 ^ 64"
proof -
  assume a: "max64 < x" "x \<le> max64 + 2 ^ 64"
  have "(x + 2 ^ 63) mod 2 ^ 64 = (x + 2 ^ 63 - 2 ^ 64) mod 2 ^ 64"
    by (metis minus_mod_self2)
  also have "\<dots> = x + 2 ^ 63 - 2 ^ 64"
    using a by (simp add: max64_def)
  finally show ?thesis by (simp add: wrap64_def)
qed

lemma Atoi_fits: "Atoi s = Some v \<Longrightarrow> fits64 v"
  by (auto simp: Atoi_def Let_def split: if_splits)

lemma digits_val_snoc: "digits_val (s @ [c]) = digits_val s * 10 + digit_val c"
  by (simp add: digits_val_def)

lemma digit_char_val: "d < 10 \<Longrightarrow> digit_val (digit_char d) = int d"
  by (simp add: digit_val_def digit_char_def of_char_of)

lemma digits_val_nat_digits: "digits_val (nat_digits n) = int n"
proof (induction n rule: nat_digits.induct)
  case (1 n)
  show ?case
  proof (cases "n < 10")
    case True
    then show ?thesis
      by (simp add: nat_digits.simps digits_val_def digit_char_val)
  next
    case False
    then show ?thesis using "1.IH"
      by (simp add: nat_digits.simps [of n] digits_val_snoc digit_char_val) arith
  qed
qed

lemma is_digit_digit_char: "d < 10 \<Longrightarrow> is_digit (digit_char d)"
  by (simp add: is_digit_def in_range_def digit_char_def of_char_of)

lemma nat_digits_digits: "list_all is_digit (nat_digits n)"
  by (induction n rule: nat_digits.induct)
     (subst nat_digits.simps, simp add: is_digit_digit_char)

lemma nat_digits_not_Nil [simp]: "nat_digits n \<noteq> []"
  by (subst nat_digits.simps) simp

lemma nat_digits_inj: "nat_digits m = nat_digits n \<Longrightarrow> m = n"
  by (metis digits_val_nat_digits of_nat_eq_iff)

lemma digit_not_sign: "is_digit c \<Longrightarrow> c \<noteq> CHR ''-'' \<and> c \<noteq> CHR ''+''"
  by (auto simp: is_digit_def in_range_def)

lemma Atoi_itoa: "fits64 i \<Longrightarrow> Atoi (itoa i) = Some i"
proof (cases "i < 0")
  case True
  assume "fits64 i"
  with True show ?thesis
    by (simp add: Atoi_def itoa_def HasPrefix_def Let_def digits_val_nat_digits
        nat_digits_digits)
next
  case False
  assume f: "fits64 i"
  obtain c cs where c: "nat_digits (nat i) = c # cs"
    by (cases "nat_digits (nat i)") auto
  with nat_digits_digits [of "nat i"] have "is_digit c" by simp
  then have "c \<noteq> CHR ''-''" "c \<noteq> CHR ''+''" using digit_not_sign by auto
  with f False c digits_val_nat_digits [of "nat i"] nat_digits_digits [of "nat i"]
  show ?thesis
    by (simp add: Atoi_def itoa_def HasPrefix_def Let_def)
qed

subsection \<open>Time\<close>

type_synonym instant = int
type_synonym duration = int

text \<open>A zone gives the offset from UTC, in seconds, that is in force at an instant. A Go
  time is an instant with the zone its clock readings use.\<close>

type_synonym zone = "instant \<Rightarrow> int"

record gotime =
  t_inst :: instant
  t_zone :: zone

definition nanosecond :: duration where "nanosecond = 1"
definition second :: duration where "second = 1000000000"
definition minute :: duration where "minute = 60 * second"
definition hour :: duration where "hour = 60 * minute"

lemmas duration_defs = second_def minute_def hour_def

definition UTC :: zone where "UTC = (\<lambda>_. 0)"

definition IsZero :: "instant \<Rightarrow> bool" where
  "IsZero t \<longleftrightarrow> t = 0"

text \<open>\<^verbatim>\<open>Time.Sub\<close> saturates at the range of a duration.\<close>

definition time_Sub :: "instant \<Rightarrow> instant \<Rightarrow> duration" where
  "time_Sub t u = max min64 (min max64 (t - u))"

definition local_seconds :: "gotime \<Rightarrow> int" where
  "local_seconds t = t_inst t div second + t_zone t (t_inst t)"

definition t_Hour :: "gotime \<Rightarrow> int" where
  "t_Hour t = local_seconds t mod 86400 div 3600"

definition t_Minute :: "gotime \<Rightarrow> int" where
  "t_Minute t = local_seconds t mod 3600 div 60"

definition t_Second :: "gotime \<Rightarrow> int" where
  "t_Second t = local_seconds t mod 60"

definition local_days :: "gotime \<Rightarrow> int" where
  "local_days t = local_seconds t div 86400"

text \<open>January 1 of year 1 is a Monday; Sunday is 0.\<close>

definition t_Weekday :: "gotime \<Rightarrow> int" where
  "t_Weekday t = (local_days t + 1) mod 7"

text \<open>The civil date of a day number (days since January 1, year 1), computed on years that
  start in March so that the leap day is the last day of a year.\<close>

definition civil_of_days :: "int \<Rightarrow> int \<times> int \<times> int" where
  "civil_of_days d =
     (let z = d + 306;
          era = z div 146097;
          doe = z mod 146097;
          yoe = (doe - doe div 1460 + doe div 36524 - doe div 146096) div 365;
          doy = doe - (365 * yoe + yoe div 4 - yoe div 100);
          mp = (5 * doy + 2) div 153;
          day = doy - (153 * mp + 2) div 5 + 1;
          month = (if mp < 10 then mp + 3 else mp - 9);
          year = yoe + era * 400 + (if month \<le> 2 then 1 else 0)
      in (year, month, day))"

definition t_Month :: "gotime \<Rightarrow> int" where
  "t_Month t = fst (snd (civil_of_days (local_days t)))"

definition t_Day :: "gotime \<Rightarrow> int" where
  "t_Day t = snd (snd (civil_of_days (local_days t)))"

definition t_Truncate :: "gotime \<Rightarrow> duration \<Rightarrow> gotime" where
  "t_Truncate t d = t\<lparr>t_inst := t_inst t - t_inst t mod d\<rparr>"

definition t_Add :: "gotime \<Rightarrow> duration \<Rightarrow> gotime" where
  "t_Add t d = t\<lparr>t_inst := t_inst t + d\<rparr>"

definition pad :: "nat \<Rightarrow> int \<Rightarrow> string" where
  "pad n i = (let s = nat_digits (nat i) in replicate (n - length s) (CHR ''0'') @ s)"

definition FormatDate :: "instant \<Rightarrow> string" where
  "FormatDate i =
     (case civil_of_days (i div second div 86400) of
        (y, m, d) \<Rightarrow> pad 4 y @ ''-'' @ pad 2 m @ ''-'' @ pad 2 d)"

definition FormatRFC3339 :: "instant \<Rightarrow> string" where
  "FormatRFC3339 i =
     (let t = \<lparr>t_inst = i, t_zone = UTC\<rparr>
      in FormatDate i @ ''T'' @ pad 2 (t_Hour t) @ '':'' @ pad 2 (t_Minute t) @ '':'' @
         pad 2 (t_Second t) @ ''Z'')"

lemma t_Hour_range: "0 \<le> t_Hour t \<and> t_Hour t < 24"
  by (auto simp: t_Hour_def intro: pos_imp_zdiv_nonneg_iff [THEN iffD2])

lemma t_Minute_range: "0 \<le> t_Minute t \<and> t_Minute t < 60"
  by (auto simp: t_Minute_def intro: pos_imp_zdiv_nonneg_iff [THEN iffD2])

lemma t_Weekday_range: "0 \<le> t_Weekday t \<and> t_Weekday t < 7"
  by (simp add: t_Weekday_def)

subsection \<open>Library functions the policy package only calls\<close>

text \<open>
  \<^verbatim>\<open>time.LoadLocation\<close> reads the embedded IANA zone data and
  \<^verbatim>\<open>time.ParseDuration\<close> is floating-point text parsing; the development
  holds for every such pair of functions.
\<close>

record golib =
  lib_LoadLocation :: "string \<Rightarrow> zone option"
  lib_ParseDuration :: "string \<Rightarrow> duration option"

subsection \<open>Simplifying inside branches\<close>

lemmas branch_congs = option.case_cong sum.case_cong prod.case_cong if_cong

subsection \<open>Lists\<close>

lemma list_all_subset: "list_all P ys \<Longrightarrow> set xs \<subseteq> set ys \<Longrightarrow> list_all P xs"
  by (auto simp: list_all_iff)

lemma find_Some_first:
  "List.find P xs = Some x \<Longrightarrow>
    \<exists>ys zs. xs = ys @ x # zs \<and> P x \<and> (\<forall>y\<in>set ys. \<not> P y)"
proof (induction xs)
  case Nil
  then show ?case by simp
next
  case (Cons a xs)
  show ?case
  proof (cases "P a")
    case True
    with Cons.prems have "a # xs = [] @ x # xs \<and> P x" by simp
    then show ?thesis by fastforce
  next
    case False
    with Cons obtain ys zs where "xs = ys @ x # zs \<and> P x \<and> (\<forall>y\<in>set ys. \<not> P y)"
      by auto
    with False have "a # xs = (a # ys) @ x # zs \<and> P x \<and> (\<forall>y\<in>set (a # ys). \<not> P y)"
      by simp
    then show ?thesis by blast
  qed
qed

end
