(* ===== verification/Windows.thy ===== *)
theory Windows
  imports Prelude
begin

text \<open>
  Maintenance windows: \<^verbatim>\<open>window.go\<close>, \<^verbatim>\<open>window_days.go\<close> and
  \<^verbatim>\<open>window_cron.go\<close>. A window expression is parsed to a predicate on Go
  times with an optional zone; the gate and the trust configuration share this engine.
  The loops are kept as loops: the cron step loop runs on 64-bit integers that wrap, and is
  proved to return; the backwards minute scan and the day range walk are total functions
  with a measure.
\<close>

subsection \<open>Errors\<close>

datatype window_error =
    WEmpty
  | WZoneLocal
  | WZoneUnknown string
  | WNotDayList string
  | WNotRecognized
  | WBadRange string
  | WZeroDuration string
  | WBadClock string
  | WCronFields
  | WCronWidth string
  | WCronStep string
  | WCronRange string
  | WCronValue string int int
  | WCronNoValues
  | WCronDiverges

subsection \<open>Clock ranges\<close>

record minuteRange =
  mr_start :: int
  mr_end :: int

definition minuteRange_contains :: "minuteRange \<Rightarrow> int \<Rightarrow> bool" where
  "minuteRange_contains r m =
     (if mr_start r \<le> mr_end r then mr_start r \<le> m \<and> m < mr_end r
      else mr_start r \<le> m \<or> m < mr_end r)"

definition fullDayRange :: minuteRange where
  "fullDayRange = \<lparr>mr_start = 0, mr_end = 24 * 60\<rparr>"

fun parseDigits_loop :: "int \<Rightarrow> string \<Rightarrow> int option" where
  "parseDigits_loop n [] = Some n"
| "parseDigits_loop n (c # cs) =
     (if is_digit c then parseDigits_loop (n * 10 + digit_val c) cs else None)"

definition parseDigits :: "string \<Rightarrow> int option" where
  "parseDigits s = (if s = [] \<or> length s > 2 then None else parseDigits_loop 0 s)"

definition parseClock :: "string \<Rightarrow> window_error + int" where
  "parseClock s =
     (case cut_at (CHR '':'') s of (hourText, minuteText, found) \<Rightarrow>
        (case (parseDigits hourText, parseDigits minuteText) of
           (Some h, Some m) \<Rightarrow>
             (if \<not> found \<or> h > 23 \<or> m > 59 then Inl (WBadClock s) else Inr (h * 60 + m))
         | _ \<Rightarrow> Inl (WBadClock s)))"

definition parseClockRange :: "string \<Rightarrow> window_error + minuteRange" where
  "parseClockRange s =
     (case split_on (CHR ''-'') s of
        [a, b] \<Rightarrow>
          ebind (parseClock a) (\<lambda>start. ebind (parseClock b) (\<lambda>end.
            if start = end then Inl (WZeroDuration s)
            else Inr \<lparr>mr_start = start, mr_end = end\<rparr>))
      | _ \<Rightarrow> Inl (WBadRange s))"

subsection \<open>Days\<close>

datatype Weekday = Sunday | Monday | Tuesday | Wednesday | Thursday | Friday | Saturday

primrec day_index :: "Weekday \<Rightarrow> int" where
  "day_index Sunday = 0"
| "day_index Monday = 1"
| "day_index Tuesday = 2"
| "day_index Wednesday = 3"
| "day_index Thursday = 4"
| "day_index Friday = 5"
| "day_index Saturday = 6"

primrec next_day :: "Weekday \<Rightarrow> Weekday" where
  "next_day Sunday = Monday"
| "next_day Monday = Tuesday"
| "next_day Tuesday = Wednesday"
| "next_day Wednesday = Thursday"
| "next_day Thursday = Friday"
| "next_day Friday = Saturday"
| "next_day Saturday = Sunday"

primrec prev_day :: "Weekday \<Rightarrow> Weekday" where
  "prev_day Sunday = Saturday"
| "prev_day Monday = Sunday"
| "prev_day Tuesday = Monday"
| "prev_day Wednesday = Tuesday"
| "prev_day Thursday = Wednesday"
| "prev_day Friday = Thursday"
| "prev_day Saturday = Friday"

lemma day_index_range: "0 \<le> day_index d \<and> day_index d < 7"
  by (cases d) auto

lemma day_index_next: "day_index (next_day d) = (day_index d + 1) mod 7"
  by (cases d) auto

lemma day_index_prev: "day_index (prev_day d) = (day_index d + 6) mod 7"
  by (cases d) auto

lemma day_index_inj: "day_index d = day_index e \<longleftrightarrow> d = e"
  by (cases d; cases e) auto

lemma next_prev_day [simp]: "next_day (prev_day d) = d" "prev_day (next_day d) = d"
  by (cases d; simp)+

definition day_of :: "gotime \<Rightarrow> Weekday" where
  "day_of t =
     (let i = t_Weekday t in
      if i = 0 then Sunday else if i = 1 then Monday else if i = 2 then Tuesday
      else if i = 3 then Wednesday else if i = 4 then Thursday else if i = 5 then Friday
      else Saturday)"

lemma day_index_day_of: "day_index (day_of t) = t_Weekday t"
  using t_Weekday_range [of t] by (auto simp: day_of_def Let_def)

definition weekdayDays :: "Weekday list" where
  "weekdayDays = [Monday, Tuesday, Wednesday, Thursday, Friday]"

definition weekendDays :: "Weekday list" where
  "weekendDays = [Saturday, Sunday]"

definition allDays :: "Weekday list" where
  "allDays = [Sunday, Monday, Tuesday, Wednesday, Thursday, Friday, Saturday]"

definition dayNumber :: "string \<Rightarrow> Weekday option" where
  "dayNumber name =
     (let n = ToLower name in
      if n \<in> set [''sun'', ''sunday''] then Some Sunday
      else if n \<in> set [''mon'', ''monday''] then Some Monday
      else if n \<in> set [''tue'', ''tues'', ''tuesday''] then Some Tuesday
      else if n \<in> set [''wed'', ''weds'', ''wednesday''] then Some Wednesday
      else if n \<in> set [''thu'', ''thur'', ''thurs'', ''thursday''] then Some Thursday
      else if n \<in> set [''fri'', ''friday''] then Some Friday
      else if n \<in> set [''sat'', ''saturday''] then Some Saturday
      else None)"

text \<open>The inclusive walk from one day to another, which wraps at the end of the week.\<close>

function day_range :: "Weekday \<Rightarrow> Weekday \<Rightarrow> Weekday list" where
  "day_range d e = (if d = e then [d] else d # day_range (next_day d) e)"
  by pat_completeness auto
termination
proof (relation "measure (\<lambda>(d, e). nat ((day_index e - day_index d) mod 7))")
  fix d e :: Weekday
  assume "d \<noteq> e"
  then show "((next_day d, e), (d, e)) \<in>
    measure (\<lambda>(d, e). nat ((day_index e - day_index d) mod 7))"
    by (cases d; cases e) auto
qed simp

declare day_range.simps [simp del]

definition addDayPart :: "Weekday list \<Rightarrow> string \<Rightarrow> Weekday list option" where
  "addDayPart days part =
     (case cut_at (CHR ''-'') part of (startText, endText, isRange) \<Rightarrow>
        (case dayNumber startText of
           None \<Rightarrow> None
         | Some start \<Rightarrow>
             if \<not> isRange then Some (start # days)
             else (case dayNumber endText of
                     None \<Rightarrow> None
                   | Some end \<Rightarrow> Some (day_range start end @ days))))"

fun addDayParts :: "Weekday list \<Rightarrow> string list \<Rightarrow> Weekday list option" where
  "addDayParts days [] = Some days"
| "addDayParts days (p # ps) =
     (case addDayPart days p of None \<Rightarrow> None | Some days' \<Rightarrow> addDayParts days' ps)"

definition parseDaySpec :: "string \<Rightarrow> Weekday list option" where
  "parseDaySpec spec =
     (let s = ToLower spec in
      if s \<in> set [''daily'', ''everyday'', ''every-day'', ''all'', ''all-days'']
      then Some allDays
      else if s \<in> set [''weekdays'', ''weekday''] then Some weekdayDays
      else if s \<in> set [''weekends'', ''weekend''] then Some weekendDays
      else addDayParts [] (split_on (CHR '','') spec))"

definition dayWindow :: "Weekday list \<Rightarrow> minuteRange \<Rightarrow> gotime \<Rightarrow> bool" where
  "dayWindow days active at =
     (let minute = t_Hour at * 60 + t_Minute at;
          day = (if mr_start active > mr_end active \<and> minute < mr_end active
                 then prev_day (day_of at) else day_of at)
      in day \<in> set days \<and> minuteRange_contains active minute)"

definition parseFriendlyWindow :: "string list \<Rightarrow> window_error + (gotime \<Rightarrow> bool)" where
  "parseFriendlyWindow fs =
     (case fs of
        [f] \<Rightarrow>
          (if contains_char (CHR '':'') f
           then ebind (parseClockRange f) (\<lambda>r. Inr (dayWindow allDays r))
           else (case parseDaySpec f of
                   None \<Rightarrow> Inl (WNotDayList f)
                 | Some days \<Rightarrow> Inr (dayWindow days fullDayRange)))
      | [f, g] \<Rightarrow>
          (case parseDaySpec f of
             None \<Rightarrow> Inl (WNotDayList f)
           | Some days \<Rightarrow> ebind (parseClockRange g) (\<lambda>r. Inr (dayWindow days r)))
      | _ \<Rightarrow> Inl WNotRecognized)"

subsection \<open>Cron fs\<close>

record cronField =
  cf_values :: "int list"
  cf_wildcard :: bool

record cronWindow =
  cw_minute :: cronField
  cw_hour :: cronField
  cw_day :: cronField
  cw_month :: cronField
  cw_week :: cronField

definition boundedInteger :: "string \<Rightarrow> int \<Rightarrow> int \<Rightarrow> window_error + int" where
  "boundedInteger v lo hi =
     (case Atoi v of
        None \<Rightarrow> Inl (WCronValue v lo hi)
      | Some n \<Rightarrow> if n < lo \<or> n > hi then Inl (WCronValue v lo hi) else Inr n)"

definition cronBounds :: "string \<Rightarrow> int \<Rightarrow> int \<Rightarrow> window_error + int \<times> int" where
  "cronBounds base lo hi =
     (if base = ''*'' then Inr (lo, hi)
      else (case split_on (CHR ''-'') base of
              [a] \<Rightarrow> ebind (boundedInteger a lo hi) (\<lambda>start. Inr (start, start))
            | [a, b] \<Rightarrow>
                ebind (boundedInteger a lo hi) (\<lambda>start.
                  (case boundedInteger b lo hi of
                     Inl _ \<Rightarrow> Inl (WCronRange base)
                   | Inr end \<Rightarrow> if end < start then Inl (WCronRange base)
                                else Inr (start, end)))
            | _ \<Rightarrow> Inl (WCronRange base)))"

definition splitStep :: "string \<Rightarrow> window_error + string \<times> int" where
  "splitStep item =
     (case split_on (CHR ''/'') item of
        [a] \<Rightarrow> Inr (a, 1)
      | [a, b] \<Rightarrow>
          (case Atoi b of
             None \<Rightarrow> Inl (WCronStep item)
           | Some step \<Rightarrow> if step \<le> 0 then Inl (WCronStep item) else Inr (a, step))
      | _ \<Rightarrow> Inl (WCronStep item))"

text \<open>The loop \<^verbatim>\<open>for value := start; value <= end; value += step\<close> on 64-bit
  integers: the increment wraps.\<close>

partial_function (option) cron_loop :: "int \<Rightarrow> int \<Rightarrow> int \<Rightarrow> int list \<Rightarrow> int list option" where
  "cron_loop v e s acc =
     (if v \<le> e then cron_loop (wrap64 (v + s)) e s (v # acc) else Some acc)"

definition addCronItem :: "cronField \<Rightarrow> string \<Rightarrow> int \<Rightarrow> int \<Rightarrow> window_error + cronField" where
  "addCronItem field item lo hi =
     ebind (splitStep item) (\<lambda>(base, step).
       ebind (cronBounds base lo hi) (\<lambda>(start, end).
         (case cron_loop start end step (cf_values field) of
            None \<Rightarrow> Inl WCronDiverges
          | Some vs \<Rightarrow> Inr (field\<lparr>cf_values := vs\<rparr>))))"

fun addCronItems :: "cronField \<Rightarrow> string list \<Rightarrow> int \<Rightarrow> int \<Rightarrow> window_error + cronField" where
  "addCronItems field [] lo hi = Inr field"
| "addCronItems field (i # is) lo hi =
     ebind (addCronItem field i lo hi) (\<lambda>field'. addCronItems field' is lo hi)"

definition parseCronField :: "string \<Rightarrow> int \<Rightarrow> int \<Rightarrow> window_error + cronField" where
  "parseCronField expression lo hi =
     ebind (addCronItems \<lparr>cf_values = [], cf_wildcard = (expression = ''*'')\<rparr>
              (split_on (CHR '','') expression) lo hi)
       (\<lambda>field. if cf_values field = [] then Inl WCronNoValues else Inr field)"

subsection \<open>Cron windows\<close>

definition defaultCronWidth :: duration where "defaultCronWidth = hour"
definition maxCronWidth :: duration where "maxCronWidth = 24 * hour"

definition parseCronWidth :: "golib \<Rightarrow> string \<Rightarrow> window_error + duration" where
  "parseCronWidth lib token =
     (case lib_ParseDuration lib (ToLower (if HasPrefix token ''@'' then tl token else token)) of
        None \<Rightarrow> Inl (WCronWidth token)
      | Some width \<Rightarrow>
          if width < minute \<or> width > maxCronWidth \<or> width mod minute \<noteq> 0
          then Inl (WCronWidth token) else Inr width)"

definition cron_matches :: "cronWindow \<Rightarrow> gotime \<Rightarrow> bool" where
  "cron_matches cron at =
     (if t_Minute at \<notin> set (cf_values (cw_minute cron)) \<or>
         t_Hour at \<notin> set (cf_values (cw_hour cron)) \<or>
         t_Month at \<notin> set (cf_values (cw_month cron))
      then False
      else
        (let dayMatch = t_Day at \<in> set (cf_values (cw_day cron));
             weekDay = t_Weekday at;
             weekMatch = weekDay \<in> set (cf_values (cw_week cron)) \<or>
               (weekDay = 0 \<and> 7 \<in> set (cf_values (cw_week cron)))
         in if cf_wildcard (cw_day cron) \<or> cf_wildcard (cw_week cron)
            then (cf_wildcard (cw_day cron) \<or> dayMatch) \<and>
                 (cf_wildcard (cw_week cron) \<or> weekMatch)
            else dayMatch \<or> weekMatch))"

function opened_loop :: "cronWindow \<Rightarrow> gotime \<Rightarrow> instant \<Rightarrow> bool" where
  "opened_loop cron opened earliest =
     (if t_inst opened > earliest
      then (if cron_matches cron opened then True
            else opened_loop cron (t_Add opened (- minute)) earliest)
      else False)"
  by pat_completeness auto
termination
  by (relation "measure (\<lambda>(cron, opened, earliest). nat (t_inst opened - earliest))")
     (auto simp: t_Add_def duration_defs)

declare opened_loop.simps [simp del]

definition openedWithin :: "cronWindow \<Rightarrow> gotime \<Rightarrow> duration \<Rightarrow> bool" where
  "openedWithin cron at width =
     opened_loop cron (t_Truncate at minute) (t_inst (t_Add at (- width)))"

definition parseCronWindow :: "golib \<Rightarrow> string list \<Rightarrow> window_error + (gotime \<Rightarrow> bool)" where
  "parseCronWindow lib fs =
     ebind (if HasPrefix (last fs) ''@''
            then ebind (parseCronWidth lib (last fs)) (\<lambda>w. Inr (w, butlast fs))
            else Inr (defaultCronWidth, fs))
       (\<lambda>(width, fs).
          (case fs of
             [f1, f2, f3, f4, f5] \<Rightarrow>
               ebind (parseCronField f1 0 59) (\<lambda>c1.
               ebind (parseCronField f2 0 23) (\<lambda>c2.
               ebind (parseCronField f3 1 31) (\<lambda>c3.
               ebind (parseCronField f4 1 12) (\<lambda>c4.
               ebind (parseCronField f5 0 7) (\<lambda>c5.
                 Inr (\<lambda>at. openedWithin \<lparr>cw_minute = c1, cw_hour = c2, cw_day = c3,
                        cw_month = c4, cw_week = c5\<rparr> at width))))))
           | _ \<Rightarrow> Inl WCronFields))"

subsection \<open>Window expressions\<close>

record Window =
  w_contains :: "(gotime \<Rightarrow> bool) option"
  w_location :: "zone option"

definition Window_Contains :: "Window \<Rightarrow> gotime \<Rightarrow> bool" where
  "Window_Contains w at =
     (case w_contains w of
        None \<Rightarrow> False
      | Some f \<Rightarrow>
          f (case w_location w of None \<Rightarrow> at | Some z \<Rightarrow> at\<lparr>t_zone := z\<rparr>))"

definition windowPresets :: "(string \<times> string) list" where
  "windowPresets =
     [(''nights'', ''daily 22:00-06:00''), (''nightly'', ''daily 22:00-06:00''),
      (''overnight'', ''daily 22:00-06:00''), (''weeknights'', ''weekdays 22:00-06:00''),
      (''off-hours'', ''daily 20:00-08:00''), (''off-peak'', ''daily 20:00-08:00''),
      (''business-hours'', ''weekdays 09:00-17:00'')]"

definition keywordWindow :: "string \<Rightarrow> (gotime \<Rightarrow> bool) option" where
  "keywordWindow token =
     (if ToLower token \<in> set [''always'', ''anytime'', ''24x7'', ''24/7'']
      then Some (\<lambda>_. True)
      else (case map_of windowPresets (ToLower token) of
              None \<Rightarrow> None
            | Some expansion \<Rightarrow>
                (case parseFriendlyWindow (Fields expansion) of
                   Inl _ \<Rightarrow> None | Inr c \<Rightarrow> Some c)))"

definition parseWindowBody :: "golib \<Rightarrow> string list \<Rightarrow> window_error + (gotime \<Rightarrow> bool)" where
  "parseWindowBody lib fs =
     (case (if length fs = 1 then keywordWindow (hd fs) else None) of
        Some c \<Rightarrow> Inr c
      | None \<Rightarrow>
          if HasPrefix (last fs) ''@'' \<or> length fs = 5
          then parseCronWindow lib fs else parseFriendlyWindow fs)"

definition splitZone :: "golib \<Rightarrow> string list \<Rightarrow> window_error + zone option \<times> string list" where
  "splitZone lib fs =
     (let z = last fs in
      if length fs < 2 \<or> \<not> is_letter (hd z) then Inr (None, fs)
      else if z = ''Local'' then Inl WZoneLocal
      else (case lib_LoadLocation lib z of
              None \<Rightarrow> Inl (WZoneUnknown z)
            | Some l \<Rightarrow> Inr (Some l, butlast fs)))"

definition parseWindow :: "golib \<Rightarrow> string \<Rightarrow> window_error + Window" where
  "parseWindow lib expression =
     (let fs = Fields expression in
      if fs = [] then Inl WEmpty
      else ebind (splitZone lib fs) (\<lambda>(location, fs).
             ebind (parseWindowBody lib fs) (\<lambda>contains.
               Inr \<lparr>w_contains = Some contains, w_location = location\<rparr>)))"

definition ParseWindow :: "golib \<Rightarrow> string \<Rightarrow> window_error + Window" where
  "ParseWindow lib expression = parseWindow lib expression"

definition inAnyWindow :: "golib \<Rightarrow> string list \<Rightarrow> gotime \<Rightarrow> bool" where
  "inAnyWindow lib expressions now =
     list_ex (\<lambda>e. case ParseWindow lib e of
                Inl _ \<Rightarrow> False | Inr w \<Rightarrow> Window_Contains w now) expressions"

subsection \<open>The cron step loop returns\<close>

text \<open>
  The increment can wrap: for a step close to \<open>2 ^ 63\<close> the loop leaves the field's range
  at the bottom and comes back two values lower. It still ends, because each such round
  trip lowers the value; \<open>cron_rank\<close> counts what is left.
\<close>

definition cron_rank :: "int \<Rightarrow> int \<Rightarrow> int \<Rightarrow> nat" where
  "cron_rank v e s =
     (if v > e then 0
      else if s \<le> max64 - e then nat (e - v + 1)
      else if v + s > max64 then 2 * nat v + 2
      else if v + s > e then 1
      else 2 * nat (v + s) + 3)"

definition cron_args :: "int \<Rightarrow> int \<Rightarrow> int \<Rightarrow> bool" where
  "cron_args v e s \<longleftrightarrow> fits64 v \<and> 0 < s \<and> s \<le> max64 \<and> 0 \<le> e \<and> e \<le> 59"

lemma wrap64_plus:
  assumes "cron_args v e s" "v \<le> e"
  shows "wrap64 (v + s) = (if v + s > max64 then v + s - 2 ^ 64 else v + s)"
proof (cases "v + s > max64")
  case True
  with assms show ?thesis
    by (subst wrap64_over) (auto simp: cron_args_def max64_def)
next
  case False
  with assms have "fits64 (v + s)"
    by (auto simp: cron_args_def fits64_def)
  with False show ?thesis by (simp add: wrap64_id)
qed

lemma cron_rank_decreases:
  assumes a: "cron_args v e s" and le: "v \<le> e"
  shows "cron_rank (wrap64 (v + s)) e s < cron_rank v e s"
proof (cases "s \<le> max64 - e")
  case True
  then have "wrap64 (v + s) = v + s"
    using a le by (simp add: wrap64_plus)
  with True le a show ?thesis by (auto simp: cron_rank_def cron_args_def)
next
  case False
  show ?thesis
  proof (cases "v + s > max64")
    case True
    then have "wrap64 (v + s) = v + s - 2 ^ 64" "1 \<le> v"
      using a le by (simp_all add: wrap64_plus) (simp add: cron_args_def)
    with False True a le show ?thesis
      by (auto simp: cron_rank_def cron_args_def max64_def)
  next
    case nowrap: False
    then have w: "wrap64 (v + s) = v + s"
      using a le by (simp add: wrap64_plus)
    have "v + s \<le> e \<Longrightarrow> v + s + s > e"
      using a False by (auto simp: cron_args_def fits64_def min64_def max64_def)
    with w nowrap False a le show ?thesis
      by (auto simp: cron_rank_def)
  qed
qed

lemma cron_args_step: "cron_args v e s \<Longrightarrow> cron_args (wrap64 (v + s)) e s"
  by (simp add: cron_args_def)

lemma cron_loop_returns: "cron_args v e s \<Longrightarrow> \<exists>vs. cron_loop v e s acc = Some vs"
proof (induction "cron_rank v e s" arbitrary: v acc rule: less_induct)
  case less
  show ?case
  proof (cases "v \<le> e")
    case True
    have "\<exists>vs. cron_loop (wrap64 (v + s)) e s (v # acc) = Some vs"
      by (rule less.hyps [OF cron_rank_decreases [OF less.prems True]
            cron_args_step [OF less.prems]])
    with True show ?thesis by (subst cron_loop.simps) simp
  next
    case False
    then show ?thesis by (subst cron_loop.simps) simp
  qed
qed

text \<open>With a step that cannot overflow, the loop visits exactly the arithmetic progression.\<close>

lemma progression_step:
  fixes v e s x :: int
  assumes "0 < s" "v \<le> e"
  shows "(v \<le> x \<and> x \<le> e \<and> s dvd x - v) \<longleftrightarrow>
    x = v \<or> (v + s \<le> x \<and> x \<le> e \<and> s dvd x - (v + s))"
proof -
  have *: "s dvd x - v \<longleftrightarrow> s dvd x - (v + s)"
    using dvd_add_triv_right_iff [of s "x - (v + s)"] by simp
  have "s dvd x - v \<Longrightarrow> v \<le> x \<Longrightarrow> x \<noteq> v \<Longrightarrow> v + s \<le> x"
    using zdvd_imp_le [of s "x - v"] by simp
  with * assms show ?thesis by auto
qed

lemma cron_loop_progression:
  assumes "0 < s" "s \<le> max64 - e" "fits64 v" "cron_loop v e s acc = Some vs"
  shows "set vs = set acc \<union> {x. v \<le> x \<and> x \<le> e \<and> s dvd x - v}"
  using assms
proof (induction "nat (e - v + 1)" arbitrary: v acc rule: less_induct)
  case less
  show ?case
  proof (cases "v \<le> e")
    case True
    then have f: "fits64 (v + s)" using less.prems by (auto simp: fits64_def)
    have "cron_loop (v + s) e s (v # acc) = Some vs"
      using less.prems(4) True f by (subst (asm) cron_loop.simps) (simp add: wrap64_id)
    then have "set vs = set (v # acc) \<union> {x. v + s \<le> x \<and> x \<le> e \<and> s dvd x - (v + s)}"
      using less.hyps [of "v + s"] less.prems(1,2) f True by simp
    then show ?thesis
      using progression_step [OF less.prems(1) True] by auto
  next
    case False
    then show ?thesis using less.prems(4) by (subst (asm) cron_loop.simps) auto
  qed
qed

lemma boundedInteger_Inr:
  "boundedInteger a lo hi = Inr n \<Longrightarrow> lo \<le> n \<and> n \<le> hi"
  by (auto simp: boundedInteger_def split: option.splits if_splits)

lemma cronBounds_Inr:
  assumes "cronBounds base lo hi = Inr (start, end)" "lo \<le> hi"
  shows "lo \<le> start \<and> start \<le> end \<and> end \<le> hi"
  using assms
  by (auto simp: cronBounds_def ebind_Inr_iff case_err_Inr_iff
      split: if_split_asm list.split_asm dest!: boundedInteger_Inr)

lemma splitStep_Inr: "splitStep item = Inr (base, step) \<Longrightarrow> 0 < step \<and> step \<le> max64"
  by (auto simp: splitStep_def max64_def fits64_def split: list.splits option.splits if_splits
      dest!: Atoi_fits)

lemma cron_args_item:
  assumes "splitStep item = Inr (base, step)" "cronBounds base lo hi = Inr (start, end)"
    and "0 \<le> lo" "lo \<le> hi" "hi \<le> 59"
  shows "cron_args start end step"
  using splitStep_Inr [OF assms(1)] cronBounds_Inr [OF assms(2,4)] assms(3-)
  by (auto simp: cron_args_def fits64_def min64_def max64_def)

lemma addCronItem_no_divergence:
  assumes "0 \<le> lo" "lo \<le> hi" "hi \<le> 59"
  shows "addCronItem field item lo hi \<noteq> Inl WCronDiverges"
proof
  assume d: "addCronItem field item lo hi = Inl WCronDiverges"
  then obtain base step start "end" where
    s: "splitStep item = Inr (base, step)" "cronBounds base lo hi = Inr (start, end)"
    and n: "cron_loop start end step (cf_values field) = None"
    by (auto simp: addCronItem_def ebind_def splitStep_def cronBounds_def boundedInteger_def
        split: sum.splits option.splits list.splits if_splits)
  with cron_loop_returns [OF cron_args_item [OF s assms], of "cf_values field"]
  show False by simp
qed

text \<open>
  A cron field always parses to a verdict: for every expression and every field range
  of the grammar the step loop returns, whatever step the expression gives, including steps
  that overflow a 64-bit integer.
\<close>

theorem parseCronField_returns:
  assumes "0 \<le> lo" "lo \<le> hi" "hi \<le> 59"
  shows "parseCronField expression lo hi \<noteq> Inl WCronDiverges"
proof -
  have "addCronItems field items lo hi \<noteq> Inl WCronDiverges" for field items
    using assms
    by (induction items arbitrary: field)
       (auto simp: ebind_def addCronItem_no_divergence split: sum.splits)
  then show ?thesis by (auto simp: parseCronField_def ebind_def split: sum.splits)
qed

theorem parseCronField_returns_witness:
  "parseCronField ''2/9223372036854775807'' 0 59 \<noteq> Inl WCronDiverges"
  by (rule parseCronField_returns) simp_all

text \<open>
  An item of a cron field whose step does not overflow adds exactly the arithmetic
  progression it denotes, inside the bounds of the field, and changes nothing else.
\<close>

theorem addCronItem_values:
  assumes step: "splitStep item = Inr (base, step)"
    and bounds: "cronBounds base lo hi = Inr (start, end)"
    and range: "0 \<le> lo" "lo \<le> hi" "hi \<le> 59" and small: "step \<le> max64 - 59"
  shows "\<exists>f. addCronItem field item lo hi = Inr f \<and> cf_wildcard f = cf_wildcard field \<and>
    set (cf_values f) =
      set (cf_values field) \<union> {x. start \<le> x \<and> x \<le> end \<and> step dvd x - start} \<and>
    set (cf_values f) \<subseteq> set (cf_values field) \<union> {lo..hi}"
proof -
  have args: "cron_args start end step"
    by (rule cron_args_item [OF step bounds range])
  then obtain vs where vs: "cron_loop start end step (cf_values field) = Some vs"
    using cron_loop_returns by blast
  have se: "lo \<le> start \<and> start \<le> end \<and> end \<le> hi"
    by (rule cronBounds_Inr [OF bounds range(2)])
  with args small range have "0 < step" "step \<le> max64 - end" "fits64 start"
    by (auto simp: cron_args_def)
  then have set_vs: "set vs = set (cf_values field) \<union>
      {x. start \<le> x \<and> x \<le> end \<and> step dvd x - start}"
    using vs by (rule cron_loop_progression)
  have "addCronItem field item lo hi = Inr (field\<lparr>cf_values := vs\<rparr>)"
    using step bounds vs by (simp add: addCronItem_def)
  with set_vs se show ?thesis by auto
qed

theorem addCronItem_values_witness:
  "\<exists>f. addCronItem \<lparr>cf_values = [], cf_wildcard = False\<rparr> ''10-30/10'' 0 59 = Inr f \<and>
     set (cf_values f) = {x. 10 \<le> x \<and> x \<le> 30 \<and> 10 dvd x - 10}"
proof -
  have s: "splitStep ''10-30/10'' = Inr (''10-30'', 10)"
    and b: "cronBounds ''10-30'' 0 59 = Inr (10, 30)"
    by code_simp+
  have "(10::int) \<le> max64 - 59" by (simp add: max64_def)
  then obtain f where
    "addCronItem \<lparr>cf_values = [], cf_wildcard = False\<rparr> ''10-30/10'' 0 59 = Inr f"
    "set (cf_values f) = {x. 10 \<le> x \<and> x \<le> 30 \<and> 10 dvd x - 10}"
    using addCronItem_values [OF s b, of "\<lparr>cf_values = [], cf_wildcard = False\<rparr>"] by auto
  then show ?thesis by blast
qed

text \<open>
  A step near 2 ^ 63 overflows the loop variable, so the field also matches values
  the expression does not denote: minute 2 with the largest step admits minute 0, although
  the progression it denotes holds minute 2 only.
\<close>

theorem cron_step_overflow:
  "\<exists>f. parseCronField ''2/9223372036854775807'' 0 59 = Inr f \<and> 0 \<in> set (cf_values f) \<and>
     0 \<notin> {x :: int. 2 \<le> x \<and> x \<le> 2 \<and> 9223372036854775807 dvd x - 2}"
proof -
  have s: "splitStep ''2/9223372036854775807'' = Inr (''2'', 9223372036854775807)"
    and b: "cronBounds ''2'' 0 59 = Inr (2, 2)"
    and i: "split_on (CHR '','') ''2/9223372036854775807'' = [''2/9223372036854775807'']"
    by code_simp+
  have l: "cron_loop 2 2 9223372036854775807 [] = Some [0, - 9223372036854775807, 2]"
    by (simp add: cron_loop.simps wrap64_def)
  have "addCronItem \<lparr>cf_values = [], cf_wildcard = False\<rparr> ''2/9223372036854775807'' 0 59 =
      Inr \<lparr>cf_values = [0, - 9223372036854775807, 2], cf_wildcard = False\<rparr>"
    using s b l by (simp add: addCronItem_def)
  then show ?thesis by (simp add: parseCronField_def i)
qed

subsection \<open>The backwards minute scan\<close>

lemma opened_loop_iff:
  "opened_loop cron opened earliest \<longleftrightarrow>
    (\<exists>k::nat. t_inst opened - int k * minute > earliest \<and>
       cron_matches cron (t_Add opened (- (int k * minute))))"
proof (induction cron opened earliest rule: opened_loop.induct)
  case (1 cron opened earliest)
  let ?P = "\<lambda>k::nat. t_inst opened - int k * minute > earliest \<and>
       cron_matches cron (t_Add opened (- (int k * minute)))"
  have pos: "0 < minute" by (simp add: duration_defs)
  have add: "t_Add (t_Add opened (- minute)) d = t_Add opened (- minute + d)" for d
    by (simp add: t_Add_def)
  have split: "(\<exists>k. ?P k) \<longleftrightarrow> ?P 0 \<or> (\<exists>k. ?P (Suc k))"
    by (metis old.nat.exhaust)
  have suc: "?P (Suc k) \<longleftrightarrow> t_inst (t_Add opened (- minute)) - int k * minute > earliest \<and>
       cron_matches cron (t_Add (t_Add opened (- minute)) (- (int k * minute)))" for k
    by (simp add: add t_Add_def algebra_simps)
  have zero: "?P 0 \<longleftrightarrow> t_inst opened > earliest \<and> cron_matches cron opened"
    by (simp add: t_Add_def)
  show ?case
  proof (cases "t_inst opened > earliest \<and> \<not> cron_matches cron opened")
    case True
    then have "opened_loop cron opened earliest =
        opened_loop cron (t_Add opened (- minute)) earliest"
      by (subst opened_loop.simps) simp
    with "1.IH" True show ?thesis unfolding split suc zero by simp
  next
    case False
    show ?thesis
    proof (cases "t_inst opened > earliest")
      case True
      with False have "?P 0" unfolding zero by simp
      moreover from True False have "opened_loop cron opened earliest"
        by (subst opened_loop.simps) simp
      ultimately show ?thesis by blast
    next
      case closed: False
      have "0 \<le> int k * minute" for k using pos by simp
      with closed have "\<not> ?P k" for k by (smt (verit))
      with closed show ?thesis by (subst opened_loop.simps) auto
    qed
  qed
qed

text \<open>
  A cron window of some width is open at a time exactly when some whole minute that
  matches the cron expression lies at most the width before it; the minutes are stepped in
  absolute time.
\<close>

theorem openedWithin_iff:
  "openedWithin cron at width \<longleftrightarrow>
    (\<exists>k::nat. let opened = t_Add (t_Truncate at minute) (- (int k * minute)) in
       t_inst at - width < t_inst opened \<and> t_inst opened \<le> t_inst at \<and>
       cron_matches cron opened)"
proof -
  have "t_inst (t_Truncate at minute) \<le> t_inst at"
    by (simp add: t_Truncate_def duration_defs)
  moreover have "int k * minute \<ge> 0" for k :: nat by (simp add: duration_defs)
  ultimately have "t_inst (t_Add (t_Truncate at minute) (- (int k * minute))) \<le> t_inst at"
    for k :: nat
    by (smt (verit) t_Add_def gotime.select_convs(1) gotime.surjective gotime.update_convs(1))
  then show ?thesis
    by (simp add: openedWithin_def opened_loop_iff Let_def t_Add_def)
qed

lemma parseCronWidth_range:
  "parseCronWidth lib token = Inr w \<Longrightarrow> minute \<le> w \<and> w \<le> 24 * hour \<and> minute dvd w"
  by (auto simp: parseCronWidth_def maxCronWidth_def split: option.splits if_splits)

subsection \<open>Day windows\<close>

text \<open>
  A day window whose range wraps midnight belongs to the day it starts on: it is open
  late on a listed day and early on the day after a listed day. A range that does not wrap
  is open between its ends on the listed days.
\<close>

theorem dayWindow_iff:
  "dayWindow days r at \<longleftrightarrow>
    (let m = t_Hour at * 60 + t_Minute at in
     if mr_start r \<le> mr_end r
     then day_of at \<in> set days \<and> mr_start r \<le> m \<and> m < mr_end r
     else (day_of at \<in> set days \<and> mr_start r \<le> m) \<or>
          (prev_day (day_of at) \<in> set days \<and> m < mr_end r))"
  by (auto simp: dayWindow_def minuteRange_contains_def Let_def)

lemma day_range_mem:
  "x \<in> set (day_range d e) \<longleftrightarrow>
    (day_index x - day_index d) mod 7 \<le> (day_index e - day_index d) mod 7"
proof (induction d e rule: day_range.induct)
  case (1 d e)
  show ?case
  proof (cases "d = e")
    case True
    then show ?thesis by (subst day_range.simps) (cases x; cases e; simp)
  next
    case False
    with "1.IH" have "x \<in> set (day_range (next_day d) e) \<longleftrightarrow>
      (day_index x - day_index (next_day d)) mod 7 \<le>
      (day_index e - day_index (next_day d)) mod 7" by simp
    then have "x \<in> set (day_range d e) \<longleftrightarrow> x = d \<or>
      (day_index x - day_index (next_day d)) mod 7 \<le>
      (day_index e - day_index (next_day d)) mod 7"
      using False by (subst day_range.simps) simp
    then show ?thesis using False by (cases d; cases e; cases x) simp_all
  qed
qed

subsection \<open>Clock texts\<close>

definition clock_text :: "int \<Rightarrow> string" where
  "clock_text m = pad 2 (m div 60) @ '':'' @ pad 2 (m mod 60)"

lemma nat_digits_two:
  "n < 100 \<Longrightarrow> nat_digits n =
    (if n < 10 then [digit_char n] else [digit_char (n div 10), digit_char (n mod 10)])"
  using nat_digits.simps [of n] nat_digits.simps [of "n div 10"]
  by (simp add: div_less_iff_less_mult)

lemma digit_char_0: "digit_char 0 = CHR ''0''"
  by code_simp

lemma pad2: "0 \<le> n \<Longrightarrow> n < 100 \<Longrightarrow>
    pad 2 n = [digit_char (nat n div 10), digit_char (nat n mod 10)]"
proof -
  assume "0 \<le> n" "n < 100"
  then have "nat n < 100" by simp
  then show ?thesis
    by (simp add: pad_def Let_def nat_digits_two digit_char_0 numeral_2_eq_2)
qed

lemma pad2_digits: "0 \<le> n \<Longrightarrow> n < 100 \<Longrightarrow> c \<in> set (pad 2 n) \<Longrightarrow> is_digit c"
  using is_digit_digit_char [of "nat n div 10"] is_digit_digit_char [of "nat n mod 10"]
  by (auto simp: pad2)

lemma not_is_digit [simp]: "\<not> is_digit (CHR '':'')" "\<not> is_digit (CHR ''-'')"
  by code_simp+

lemma parseDigits_pad2:
  assumes "0 \<le> n" "n < 100"
  shows "parseDigits (pad 2 n) = Some n"
proof -
  have "nat n div 10 < 10" "nat n mod 10 < 10" using assms by simp_all
  moreover have "int (nat n div 10) * 10 + int (nat n mod 10) = n"
    using assms by (simp add: zdiv_int zmod_int)
  ultimately show ?thesis
    using assms by (simp add: parseDigits_def pad2 is_digit_digit_char digit_char_val)
qed

lemma parseClock_clock_text:
  assumes "0 \<le> m" "m < 1440"
  shows "parseClock (clock_text m) = Inr m"
proof -
  have h: "0 \<le> m div 60" "m div 60 < 100" "m div 60 \<le> 23"
    and mm: "0 \<le> m mod 60" "m mod 60 < 100" "m mod 60 \<le> 59"
    using assms by auto
  have "CHR '':'' \<notin> set (pad 2 (m div 60))"
    using pad2_digits [OF h(1,2)] by fastforce
  then have "cut_at (CHR '':'') (clock_text m) = (pad 2 (m div 60), pad 2 (m mod 60), True)"
    by (simp add: cut_at_def clock_text_def takeWhile_append dropWhile_append)
  then show ?thesis
    using parseDigits_pad2 [OF h(1,2)] parseDigits_pad2 [OF mm(1,2)] h mm
    by (simp add: parseClock_def)
qed

lemma clock_text_no_dash: "0 \<le> m \<Longrightarrow> m < 1440 \<Longrightarrow> CHR ''-'' \<notin> set (clock_text m)"
proof -
  assume a: "0 \<le> m" "m < 1440"
  then have "0 \<le> m div 60" "m div 60 < 100" "0 \<le> m mod 60" "m mod 60 < 100" by auto
  then show ?thesis
    using pad2_digits [of "m div 60" "CHR ''-''"] pad2_digits [of "m mod 60" "CHR ''-''"]
    by (auto simp: clock_text_def)
qed

lemma split_on_append: "c \<notin> set s \<Longrightarrow> split_on c (s @ c # t) = s # split_on c t"
  by (induction s) auto

lemma split_on_free_id: "c \<notin> set s \<Longrightarrow> split_on c s = [s]"
  by (induction s) auto

text \<open>
  Printing two different minutes of the day as HH:MM-HH:MM and parsing
  the text gives them back, for every pair, in either order.
\<close>

theorem parseClockRange_roundtrip:
  assumes "0 \<le> a" "a < 1440" "0 \<le> b" "b < 1440" "a \<noteq> b"
  shows "parseClockRange (clock_text a @ ''-'' @ clock_text b) =
    Inr \<lparr>mr_start = a, mr_end = b\<rparr>"
proof -
  have "split_on (CHR ''-'') (clock_text a @ ''-'' @ clock_text b) =
      [clock_text a, clock_text b]"
    using split_on_append [OF clock_text_no_dash [OF assms(1,2)], of "clock_text b"]
      split_on_free_id [OF clock_text_no_dash [OF assms(3,4)]] by simp
  then show ?thesis
    using parseClock_clock_text assms by (simp add: parseClockRange_def)
qed

theorem parseClockRange_roundtrip_witness:
  "parseClockRange (clock_text 1320 @ ''-'' @ clock_text 360) =
     Inr \<lparr>mr_start = 1320, mr_end = 360\<rparr> \<and> clock_text 1320 = ''22:00''"
proof
  show "parseClockRange (clock_text 1320 @ ''-'' @ clock_text 360) =
     Inr \<lparr>mr_start = 1320, mr_end = 360\<rparr>"
    by (rule parseClockRange_roundtrip) simp_all
  show "clock_text 1320 = ''22:00''" by code_simp
qed

end
