(* ===== verification/Policy_Types.thy ===== *)
theory Policy_Types
  imports Prelude
begin

text \<open>
  The data model of the policy package: \<^verbatim>\<open>types.go\<close> and the types that
  \<^verbatim>\<open>document.go\<close>, \<^verbatim>\<open>budget.go\<close>,
  \<^verbatim>\<open>agent_gate.go\<close>, \<^verbatim>\<open>autonomy.go\<close>,
  \<^verbatim>\<open>facts.go\<close> and \<^verbatim>\<open>verification_wait.go\<close> declare.
  A Go string type with named constants is a datatype with one constructor per constant and
  one for every other string, so that values the program does not know keep their own
  meaning; the zero value is the empty other string. Pointers that may be nil are options.
\<close>

subsection \<open>Verdicts, risk, reasons\<close>

datatype Verdict =
    VerdictExecute
  | VerdictQueueApproval
  | VerdictPark
  | VerdictBlocked
  | VerdictObserveOnly
  | VerdictOther string

datatype RiskTier = RiskReadOnly | RiskSafe | RiskModerate | RiskHigh | RiskOther string

datatype Guardrail = GuardrailApprovalRequired | GuardrailOther string

primrec guardrail_string :: "Guardrail \<Rightarrow> string" where
  "guardrail_string GuardrailApprovalRequired = ''approval_required''"
| "guardrail_string (GuardrailOther s) = s"

datatype Reason =
    ReasonAuthorized | ReasonExecutorDisabled | ReasonEmergencyStop | ReasonReplicaMutation
  | ReasonNoTypedContract | ReasonObserveOnly | ReasonPolicyUnavailable
  | ReasonApprovalRequired | ReasonUnknownGuardrail | ReasonBudgetExceeded
  | ReasonBlastRadiusExceeded | ReasonRateLimitExceeded | ReasonOutsideMaintenanceWindow
  | ReasonDeadlineOverride | ReasonUnknownRiskTier | ReasonChangeClassNotAllowed
  | ReasonTrustRampNotSatisfied | ReasonProviderUnsupported | ReasonOperatorApproved
  | ReasonUnknownTrustLevel | ReasonSQLValidationDegraded | ReasonRefusedByPolicy
  | ReasonDDLConflict | ReasonNarrowing | ReasonNarrowingDuringStop
  | ReasonAgentLevel0 | ReasonAgentProposalRecorded | ReasonAgentL3Envelope
  | ReasonAutonomyLevel | ReasonAutonomyHandoff | ReasonAutonomyL3
  | ReasonAutonomyDowngraded | ReasonAutonomyUnavailable
  | ReasonBoundByFact | ReasonFactsUnavailable | ReasonAwaitingVerification
  | ReasonOther string

primrec reason_string :: "Reason \<Rightarrow> string" where
  "reason_string ReasonAuthorized = ''authorized''"
| "reason_string ReasonExecutorDisabled = ''executor_disabled''"
| "reason_string ReasonEmergencyStop = ''emergency_stop''"
| "reason_string ReasonReplicaMutation = ''replica_mutation''"
| "reason_string ReasonNoTypedContract = ''no_typed_contract''"
| "reason_string ReasonObserveOnly = ''observe_only''"
| "reason_string ReasonPolicyUnavailable = ''policy_unavailable''"
| "reason_string ReasonApprovalRequired = ''approval_required''"
| "reason_string ReasonUnknownGuardrail = ''unknown_guardrail''"
| "reason_string ReasonBudgetExceeded = ''budget_exceeded''"
| "reason_string ReasonBlastRadiusExceeded = ''blast_radius_exceeded''"
| "reason_string ReasonRateLimitExceeded = ''rate_limit_exceeded''"
| "reason_string ReasonOutsideMaintenanceWindow = ''outside_maintenance_window''"
| "reason_string ReasonDeadlineOverride = ''deadline_override''"
| "reason_string ReasonUnknownRiskTier = ''unknown_risk_tier''"
| "reason_string ReasonChangeClassNotAllowed = ''change_class_not_allowed''"
| "reason_string ReasonTrustRampNotSatisfied = ''trust_ramp_not_satisfied''"
| "reason_string ReasonProviderUnsupported = ''provider_unsupported''"
| "reason_string ReasonOperatorApproved = ''operator_approved''"
| "reason_string ReasonUnknownTrustLevel = ''unknown_trust_level''"
| "reason_string ReasonSQLValidationDegraded = ''sql_validation_degraded''"
| "reason_string ReasonRefusedByPolicy = ''refused_by_policy''"
| "reason_string ReasonDDLConflict = ''ddl_conflict''"
| "reason_string ReasonNarrowing = ''narrowing''"
| "reason_string ReasonNarrowingDuringStop = ''narrowing_during_stop''"
| "reason_string ReasonAgentLevel0 = ''agent_level0''"
| "reason_string ReasonAgentProposalRecorded = ''agent_proposal_recorded''"
| "reason_string ReasonAgentL3Envelope = ''agent_l3_envelope''"
| "reason_string ReasonAutonomyLevel = ''autonomy_level''"
| "reason_string ReasonAutonomyHandoff = ''autonomy_handoff''"
| "reason_string ReasonAutonomyL3 = ''autonomy_l3''"
| "reason_string ReasonAutonomyDowngraded = ''autonomy_downgraded''"
| "reason_string ReasonAutonomyUnavailable = ''autonomy_unavailable''"
| "reason_string ReasonBoundByFact = ''bound_by_fact''"
| "reason_string ReasonFactsUnavailable = ''facts_unavailable''"
| "reason_string ReasonAwaitingVerification = ''awaiting_verification''"
| "reason_string (ReasonOther s) = s"

datatype RollbackClass =
    RollbackReversible
  | RollbackNoRollbackNeeded
  | RollbackNotApplicable
  | RollbackApplication
  | RollbackForwardFixOnly
  | RollbackNotReversible
  | RollbackMitigationOnly
  | RollbackOther string

datatype DropKind = DropDerivable | DropNonDerivable | DropOther string

datatype DeadlineKind = DeadlineXID | DeadlineDisk | DeadlineOther string

datatype Urgency = UrgencyCritical | UrgencyOther string

datatype BudgetKind = BudgetPerformance | BudgetHygiene | BudgetBypass | BudgetOther string

primrec budgetKind_string :: "BudgetKind \<Rightarrow> string" where
  "budgetKind_string BudgetPerformance = ''performance''"
| "budgetKind_string BudgetHygiene = ''hygiene''"
| "budgetKind_string BudgetBypass = ''bypass''"
| "budgetKind_string (BudgetOther s) = s"

abbreviation TrustObservation :: string where "TrustObservation \<equiv> ''observation''"
abbreviation TrustAdvisory :: string where "TrustAdvisory \<equiv> ''advisory''"
abbreviation TrustAutonomous :: string where "TrustAutonomous \<equiv> ''autonomous''"
abbreviation ExecutionAuto :: string where "ExecutionAuto \<equiv> ''auto''"
abbreviation ExecutionApproval :: string where "ExecutionApproval \<equiv> ''approval''"
abbreviation ExecutionManual :: string where "ExecutionManual \<equiv> ''manual''"

subsection \<open>Requests\<close>

record DeadlineContext =
  dl_Kind :: DeadlineKind
  dl_Urgency :: Urgency
  dl_HardAt :: instant

record ActionContract =
  c_ActionType :: string
  c_RiskTier :: RiskTier
  c_Guardrails :: "Guardrail list"
  c_ProviderSupport :: "string list"
  c_RollbackClass :: RollbackClass
  c_DropKind :: DropKind
  c_Narrowing :: bool

record PrincipalRef =
  p_ID :: string
  p_SponsorID :: int
  p_TaskID :: string
  p_OnBehalfOf :: string
  p_Tool :: string

record ActionRequest =
  r_DatabaseID :: "int option"
  r_Contract :: "ActionContract option"
  r_Arguments :: string
  r_InternalControl :: bool
  r_SQL :: string
  r_TargetObjs :: "string list"
  r_Feature :: string
  r_Deadline :: "DeadlineContext option"
  r_Evidence :: "(string \<times> string) list"
  r_IsReplica :: bool
  r_ExplainFamily :: bool
  r_OperatorApproved :: bool
  r_OwnerDeclared :: bool
  r_IncidentFamily :: string
  r_EvidenceObservedAt :: instant
  r_LeaseHeld :: bool
  r_Rollback :: bool
  r_Principal :: "PrincipalRef option"
  r_CapabilityClass :: string
  r_ArtifactHash :: string

subsection \<open>Decisions\<close>

record TrustedVerdict =
  tv_Verdict :: Verdict
  tv_Reason :: Reason
  tv_Detail :: string
  tv_Granted :: int
  tv_Level :: int

record PendingVerification =
  pv_ActionID :: int
  pv_DecisionID :: int
  pv_Object :: string
  pv_Until :: instant
  pv_HardDeadline :: instant
  pv_Release :: string

record VerificationWait =
  vw_Pending :: "PendingVerification list"
  vw_Released :: "PendingVerification list"
  vw_Overridden :: bool

record Decision =
  d_Verdict :: Verdict
  d_RiskTier :: RiskTier
  d_Reason :: Reason
  d_Detail :: string
  d_Guardrails :: "Guardrail list"
  d_OffWindowOK :: bool
  d_EvidenceID :: string
  d_DecisionID :: int
  d_LockCeilingMS :: int
  d_SerializeMode :: string
  d_BudgetKind :: BudgetKind
  d_RowsRewritten :: int
  d_Trusted :: "TrustedVerdict option"
  d_VerificationWait :: "VerificationWait option"

text \<open>The zero value, as a Go composite literal that names no other field.\<close>

definition Decision0 :: Decision where
  "Decision0 = \<lparr>d_Verdict = VerdictOther [], d_RiskTier = RiskOther [], d_Reason = ReasonOther [],
     d_Detail = [], d_Guardrails = [], d_OffWindowOK = False, d_EvidenceID = [],
     d_DecisionID = 0, d_LockCeilingMS = 0, d_SerializeMode = [],
     d_BudgetKind = BudgetOther [], d_RowsRewritten = 0, d_Trusted = None,
     d_VerificationWait = None\<rparr>"

subsection \<open>Runtime state and usage\<close>

record RuntimeState =
  rt_ExecutorEnabled :: bool
  rt_EmergencyStop :: bool
  rt_IsReplica :: bool
  rt_TrustLevel :: string
  rt_ExecutionMode :: string
  rt_Tier3Safe :: bool
  rt_Tier3Moderate :: bool
  rt_RampStart :: instant
  rt_SafeRampAge :: duration
  rt_ModerateRampAge :: duration
  rt_InConfiguredWindow :: bool
  rt_Provider :: string
  rt_WindowConfigured :: bool
  rt_SQLValidationDegraded :: bool

record LimitUsage =
  u_StorageBytes :: int
  u_RowsRewritten :: int
  u_RequestRowsRewritten :: int
  u_TablesInWindow :: int
  u_SelfInitiatedChangesInWindow :: int
  u_TablesFreeAt :: instant
  u_ChangesFreeAt :: instant
  u_RowsFreeAt :: instant

definition LimitUsage0 :: LimitUsage where
  "LimitUsage0 = \<lparr>u_StorageBytes = 0, u_RowsRewritten = 0, u_RequestRowsRewritten = 0,
     u_TablesInWindow = 0, u_SelfInitiatedChangesInWindow = 0, u_TablesFreeAt = 0,
     u_ChangesFreeAt = 0, u_RowsFreeAt = 0\<rparr>"

subsection \<open>Policy documents\<close>

datatype Profile = ProfileStaffed | ProfileUnattended | ProfileOther string

type_synonym ChangeClass = string

record BudgetLimit =
  bl_Present :: bool
  bl_value :: "int option"

record Budgets =
  b_StorageBytes :: BudgetLimit
  b_SpendDaily :: BudgetLimit
  b_LLMTokensDaily :: BudgetLimit

record KindBudget =
  kb_MaxTablesPerWindow :: int
  kb_MaxChangesPerWindow :: int

record BlastRadius =
  br_MaxRowsRewritten :: int
  br_MaxTablesPerWindow :: int
  br_Hygiene :: KindBudget

record RateLimits =
  rl_MaxSelfInitiatedChangesPerWindow :: int

record Document =
  doc_Profile :: Profile
  doc_AllowedChangeClasses :: "ChangeClass list"
  doc_ApprovalRequiredClasses :: "ChangeClass list"
  doc_MaintenanceWindows :: "string list"
  doc_LockDurationCeilingMS :: int
  doc_BlastRadius :: BlastRadius
  doc_Budgets :: Budgets
  doc_RateLimits :: RateLimits
  doc_DeadlineOverrides :: "(DeadlineKind \<times> bool) list"
  doc_RefusalSet :: "string list"
  doc_UnknownClassification :: string
  doc_SerializeMode :: string

text \<open>The other zero values, from which concrete requests, contracts, runtime states and
  documents are built by field updates.\<close>

definition ActionContract0 :: ActionContract where
  "ActionContract0 = \<lparr>c_ActionType = [], c_RiskTier = RiskOther [], c_Guardrails = [],
     c_ProviderSupport = [], c_RollbackClass = RollbackOther [], c_DropKind = DropOther [],
     c_Narrowing = False\<rparr>"

definition ActionRequest0 :: ActionRequest where
  "ActionRequest0 = \<lparr>r_DatabaseID = None, r_Contract = None, r_Arguments = [],
     r_InternalControl = False, r_SQL = [], r_TargetObjs = [], r_Feature = [],
     r_Deadline = None, r_Evidence = [], r_IsReplica = False, r_ExplainFamily = False,
     r_OperatorApproved = False, r_OwnerDeclared = False, r_IncidentFamily = [],
     r_EvidenceObservedAt = 0, r_LeaseHeld = False, r_Rollback = False, r_Principal = None,
     r_CapabilityClass = [], r_ArtifactHash = []\<rparr>"

definition RuntimeState0 :: RuntimeState where
  "RuntimeState0 = \<lparr>rt_ExecutorEnabled = False, rt_EmergencyStop = False,
     rt_IsReplica = False, rt_TrustLevel = [], rt_ExecutionMode = [], rt_Tier3Safe = False,
     rt_Tier3Moderate = False, rt_RampStart = 0, rt_SafeRampAge = 0, rt_ModerateRampAge = 0,
     rt_InConfiguredWindow = False, rt_Provider = [], rt_WindowConfigured = False,
     rt_SQLValidationDegraded = False\<rparr>"

definition Document0 :: Document where
  "Document0 = \<lparr>doc_Profile = ProfileOther [], doc_AllowedChangeClasses = [],
     doc_ApprovalRequiredClasses = [], doc_MaintenanceWindows = [],
     doc_LockDurationCeilingMS = 0,
     doc_BlastRadius = \<lparr>br_MaxRowsRewritten = 0, br_MaxTablesPerWindow = 0,
       br_Hygiene = \<lparr>kb_MaxTablesPerWindow = 0, kb_MaxChangesPerWindow = 0\<rparr>\<rparr>,
     doc_Budgets = \<lparr>b_StorageBytes = \<lparr>bl_Present = False, bl_value = None\<rparr>,
       b_SpendDaily = \<lparr>bl_Present = False, bl_value = None\<rparr>,
       b_LLMTokensDaily = \<lparr>bl_Present = False, bl_value = None\<rparr>\<rparr>,
     doc_RateLimits = \<lparr>rl_MaxSelfInitiatedChangesPerWindow = 0\<rparr>,
     doc_DeadlineOverrides = [], doc_RefusalSet = [], doc_UnknownClassification = [],
     doc_SerializeMode = []\<rparr>"

text \<open>Reading a Go map gives the zero value for a missing key.\<close>

definition map_get_bool :: "('k \<times> bool) list \<Rightarrow> 'k \<Rightarrow> bool" where
  "map_get_bool m k = (case map_of m k of None \<Rightarrow> False | Some b \<Rightarrow> b)"

subsection \<open>Ledger answers and binding facts\<close>

record AutonomyLimit =
  al_Level :: int
  al_Granted :: int
  al_Downgraded :: bool
  al_Reasons :: "string list"
  al_Class :: string
  al_Family :: string

record FactBinding =
  fb_FactID :: int
  fb_Type :: string
  fb_Subject :: string
  fb_Route :: string
  fb_Summary :: string
  fb_Object :: string
  fb_ConfirmedBy :: string
  fb_ConfirmedAt :: instant

subsection \<open>Permissiveness\<close>

text \<open>
  How far a verdict lets a request go: execute runs it, an approval lets a person run it,
  and every other verdict holds it back. Every restriction of the gate is a map that does
  not raise this rank.
\<close>

primrec rank :: "Verdict \<Rightarrow> nat" where
  "rank VerdictExecute = 2"
| "rank VerdictQueueApproval = 1"
| "rank VerdictPark = 0"
| "rank VerdictBlocked = 0"
| "rank VerdictObserveOnly = 0"
| "rank (VerdictOther s) = 0"

lemmas [rank_simps] = rank.simps

lemma rank_2_iff [simp]: "rank v = 2 \<longleftrightarrow> v = VerdictExecute"
  by (cases v) auto

lemma rank_le_2 [simp]: "rank v \<le> 2"
  by (cases v) auto

lemma rank_0_not_execute: "rank v \<le> 1 \<Longrightarrow> v \<noteq> VerdictExecute"
  by auto

end
