(* ===== verification/Regex.thy ===== *)
theory Regex
  imports Prelude
begin

text \<open>
  The fragment of \<^verbatim>\<open>regexp\<close> (RE2 syntax) that the refusal predicates use:
  character classes, concatenation, alternation, repetition, the word boundary
  \<^verbatim>\<open>\b\<close> and the anchor \<^verbatim>\<open>^\<close>. A matching state is the previous
  character (none at the start of the text) and the text that is left. The executable
  matcher returns every state a match can end in; it is sound and complete for the
  inductive matching relation.
\<close>

type_synonym rstate = "char option \<times> string"

datatype rx =
    RChar "char \<Rightarrow> bool"
  | REps
  | RSeq rx rx
  | RAlt rx rx
  | RStar rx
  | RWordB
  | RBegin

definition is_word :: "char \<Rightarrow> bool" where
  "is_word c \<longleftrightarrow> in_range 48 57 c \<or> in_range 65 90 c \<or> in_range 97 122 c \<or> c = CHR ''_''"

definition re_space :: "char \<Rightarrow> bool" where
  "re_space c \<longleftrightarrow> c = CHR '' '' \<or> of_char c = (9::nat) \<or> of_char c = (10::nat) \<or>
     of_char c = (12::nat) \<or> of_char c = (13::nat)"

definition opt_word :: "char option \<Rightarrow> bool" where
  "opt_word q = (case q of None \<Rightarrow> False | Some c \<Rightarrow> is_word c)"

definition boundary :: "rstate \<Rightarrow> bool" where
  "boundary s \<longleftrightarrow>
     opt_word (fst s) \<noteq> opt_word (case snd s of [] \<Rightarrow> None | c # _ \<Rightarrow> Some c)"

text \<open>Repetition: an iteration that consumes nothing is dropped.\<close>

fun star_ends :: "(rstate \<Rightarrow> rstate list) \<Rightarrow> nat \<Rightarrow> rstate \<Rightarrow> rstate list" where
  "star_ends f 0 s = [s]"
| "star_ends f (Suc n) s =
     s # concat (map (star_ends f n) (filter (\<lambda>t. length (snd t) < length (snd s)) (f s)))"

primrec ends :: "rx \<Rightarrow> rstate \<Rightarrow> rstate list" where
  "ends (RChar p) =
     (\<lambda>s. case snd s of [] \<Rightarrow> [] | c # cs \<Rightarrow> if p c then [(Some c, cs)] else [])"
| "ends REps = (\<lambda>s. [s])"
| "ends (RSeq a b) = (\<lambda>s. concat (map (ends b) (ends a s)))"
| "ends (RAlt a b) = (\<lambda>s. ends a s @ ends b s)"
| "ends (RStar r) = (\<lambda>s. star_ends (ends r) (length (snd s)) s)"
| "ends RWordB = (\<lambda>s. if boundary s then [s] else [])"
| "ends RBegin = (\<lambda>s. if fst s = None then [s] else [])"

fun match_from :: "rx \<Rightarrow> char option \<Rightarrow> string \<Rightarrow> bool" where
  "match_from r q [] = (ends r (q, []) \<noteq> [])"
| "match_from r q (c # cs) = (ends r (q, c # cs) \<noteq> [] \<or> match_from r (Some c) cs)"

definition MatchString :: "rx \<Rightarrow> string \<Rightarrow> bool" where
  "MatchString r s = match_from r None s"

subsection \<open>Building expressions\<close>

definition fold_char :: "char \<Rightarrow> rx" where
  "fold_char c = RChar (\<lambda>d. to_lower d = to_lower c)"

primrec rword :: "string \<Rightarrow> rx" where
  "rword [] = REps"
| "rword (c # cs) = RSeq (fold_char c) (rword cs)"

definition rspace :: rx where "rspace = RChar re_space"
definition rspaces :: rx where "rspaces = RSeq rspace (RStar rspace)"
definition rany :: rx where "rany = RChar (\<lambda>_. True)"

fun ralts :: "rx list \<Rightarrow> rx" where
  "ralts [] = RChar (\<lambda>_. False)"
| "ralts [r] = r"
| "ralts (r # s # rs) = RAlt r (ralts (s # rs))"

fun rseqs :: "rx list \<Rightarrow> rx" where
  "rseqs [] = REps"
| "rseqs [r] = r"
| "rseqs (r # s # rs) = RSeq r (rseqs (s # rs))"

subsection \<open>The matching relation\<close>

inductive rmatch :: "rx \<Rightarrow> rstate \<Rightarrow> rstate \<Rightarrow> bool" where
  m_char: "p c \<Longrightarrow> rmatch (RChar p) (q, c # cs) (Some c, cs)"
| m_eps: "rmatch REps s s"
| m_seq: "rmatch a s t \<Longrightarrow> rmatch b t u \<Longrightarrow> rmatch (RSeq a b) s u"
| m_alt1: "rmatch a s t \<Longrightarrow> rmatch (RAlt a b) s t"
| m_alt2: "rmatch b s t \<Longrightarrow> rmatch (RAlt a b) s t"
| m_star0: "rmatch (RStar r) s s"
| m_star1: "rmatch r s t \<Longrightarrow> rmatch (RStar r) t u \<Longrightarrow> rmatch (RStar r) s u"
| m_wordb: "boundary s \<Longrightarrow> rmatch RWordB s s"
| m_begin: "rmatch RBegin (None, cs) (None, cs)"

inductive_cases m_charE [elim!]: "rmatch (RChar p) s t"
inductive_cases m_epsE [elim!]: "rmatch REps s t"
inductive_cases m_seqE [elim!]: "rmatch (RSeq a b) s t"
inductive_cases m_altE [elim!]: "rmatch (RAlt a b) s t"
inductive_cases m_wordbE [elim!]: "rmatch RWordB s t"
inductive_cases m_beginE [elim!]: "rmatch RBegin s t"

lemma rmatch_progress:
  "rmatch r s t \<Longrightarrow> length (snd t) < length (snd s) \<or> t = s"
  by (induction rule: rmatch.induct) auto

lemma star_ends_sound:
  assumes "\<And>s t. t \<in> set (f s) \<Longrightarrow> rmatch r s t"
  shows "t \<in> set (star_ends f n s) \<Longrightarrow> rmatch (RStar r) s t"
proof (induction n arbitrary: s)
  case 0
  then show ?case by (simp add: m_star0)
next
  case (Suc n)
  then consider "t = s" | u where "u \<in> set (f s)" "t \<in> set (star_ends f n u)" by auto
  then show ?case
  proof cases
    case 1
    then show ?thesis by (simp add: m_star0)
  next
    case 2
    then show ?thesis by (blast intro: m_star1 assms Suc.IH)
  qed
qed

lemma star_ends_complete:
  assumes f: "\<And>s t. rmatch r s t \<Longrightarrow> t \<in> set (f s)"
  shows "rmatch R s t \<Longrightarrow> R = RStar r \<Longrightarrow> length (snd s) \<le> n \<Longrightarrow> t \<in> set (star_ends f n s)"
proof (induction R s t arbitrary: n rule: rmatch.induct)
  case (m_star0 r' s)
  then show ?case by (cases n) auto
next
  case (m_star1 r' s t u)
  then have st: "rmatch r s t" by simp
  show ?case
  proof (cases "t = s")
    case True
    with m_star1 show ?thesis by simp
  next
    case False
    with st rmatch_progress have less: "length (snd t) < length (snd s)" by blast
    with m_star1.prems obtain m where m: "n = Suc m" by (cases n) auto
    with less m_star1 have "u \<in> set (star_ends f m t)" by simp
    with less f [OF st] have
      "\<exists>x\<in>set (filter (\<lambda>t. length (snd t) < length (snd s)) (f s)). u \<in> set (star_ends f m x)"
      by (intro bexI [of _ t]) auto
    then show ?thesis by (simp add: m del: split_paired_Ex)
  qed
qed simp_all

text \<open>
  The executable matcher returns exactly the states in which the regular expression can
  stop matching, for every expression and every position of a text.
\<close>

lemma ends_iff_rmatch: "t \<in> set (ends r s) \<longleftrightarrow> rmatch r s t"
proof (induction r arbitrary: s t)
  case (RChar p)
  obtain q cs where s: "s = (q, cs)" by (cases s)
  then show ?case by (cases cs) (auto intro: m_char)
next
  case (RSeq a b)
  have "t \<in> set (ends (RSeq a b) s) \<longleftrightarrow> (\<exists>u. rmatch a s u \<and> rmatch b u t)"
    by (simp add: RSeq.IH Bex_def del: split_paired_Ex)
  then show ?case by (blast intro: m_seq)
next
  case (RAlt a b)
  then show ?case by (auto intro: m_alt1 m_alt2)
next
  case (RStar r)
  have "t \<in> set (star_ends (ends r) (length (snd s)) s) \<Longrightarrow> rmatch (RStar r) s t"
    by (rule star_ends_sound [where f = "ends r"]) (simp_all add: RStar.IH)
  moreover have "rmatch (RStar r) s t \<Longrightarrow> t \<in> set (star_ends (ends r) (length (snd s)) s)"
    by (rule star_ends_complete [where r = r and f = "ends r"]) (simp_all add: RStar.IH)
  ultimately show ?case by auto
next
  case RBegin
  obtain q cs where s: "s = (q, cs)" by (cases s)
  then show ?case by (auto intro: m_begin)
qed (auto intro: m_eps m_wordb)

lemma ends_nonempty_iff: "ends r s \<noteq> [] \<longleftrightarrow> (\<exists>t. rmatch r s t)"
  unfolding ends_iff_rmatch [symmetric] by (metis ex_in_conv set_empty)

lemma match_from_iff:
  "match_from r q s \<longleftrightarrow>
    (\<exists>pre post. s = pre @ post \<and>
       (\<exists>t. rmatch r (if pre = [] then q else Some (last pre), post) t))"
proof (induction r q s rule: match_from.induct)
  case (1 r q)
  show ?case by (simp add: ends_nonempty_iff)
next
  case (2 r q c cs)
  let ?at = "\<lambda>q pre post. \<exists>t. rmatch r (if pre = [] then q else Some (last pre), post) t"
  have shift: "?at (Some c) pre post \<longleftrightarrow> ?at q (c # pre) post" for pre post
    by (cases pre) simp_all
  have "match_from r q (c # cs) \<longleftrightarrow> ?at q [] (c # cs) \<or>
      (\<exists>pre post. cs = pre @ post \<and> ?at q (c # pre) post)"
    unfolding match_from.simps ends_nonempty_iff "2.IH" shift by simp
  also have "\<dots> \<longleftrightarrow> (\<exists>pre post. c # cs = pre @ post \<and> ?at q pre post)"
    unfolding Cons_eq_append_conv by blast
  finally show ?case .
qed

subsection \<open>Letter case\<close>

text \<open>An expression whose classes do not distinguish letter case matches a text exactly when
  it matches the text in lower case.\<close>

primrec caseless :: "rx \<Rightarrow> bool" where
  "caseless (RChar p) = (\<forall>c. p (to_lower c) = p c)"
| "caseless REps = True"
| "caseless (RSeq a b) = (caseless a \<and> caseless b)"
| "caseless (RAlt a b) = (caseless a \<and> caseless b)"
| "caseless (RStar r) = caseless r"
| "caseless RWordB = True"
| "caseless RBegin = True"

definition lower_state :: "rstate \<Rightarrow> rstate" where
  "lower_state s = (map_option to_lower (fst s), ToLower (snd s))"

lemma to_lower_idem [simp]: "to_lower (to_lower c) = to_lower c"
proof -
  have "\<not> is_upper (char_of (of_char c + 32 :: nat))" if "is_upper c"
    using that by (auto simp: is_upper_def in_range_def of_char_of)
  then show ?thesis by (simp add: to_lower_def)
qed

lemma of_char_to_lower:
  "of_char (to_lower c) = (if is_upper c then of_char c + 32 else (of_char c :: nat))"
  by (auto simp: to_lower_def is_upper_def in_range_def of_char_of)

lemma char_eq_of_char: "c = d \<longleftrightarrow> of_char c = (of_char d :: nat)"
  by (metis char_of_char)

lemma is_word_to_lower [simp]: "is_word (to_lower c) = is_word c"
  by (auto simp: is_word_def in_range_def of_char_to_lower is_upper_def char_eq_of_char)

lemma re_space_to_lower [simp]: "re_space (to_lower c) = re_space c"
  by (auto simp: re_space_def of_char_to_lower is_upper_def in_range_def char_eq_of_char)

lemma boundary_lower [simp]: "boundary (lower_state s) = boundary s"
  by (cases s)
     (auto simp: boundary_def lower_state_def opt_word_def ToLower_def
       split: option.splits list.splits)

lemma length_lower [simp]: "length (snd (lower_state s)) = length (snd s)"
  by (simp add: lower_state_def ToLower_def)

lemma star_ends_lower:
  assumes "\<And>s. f (lower_state s) = map lower_state (f s)"
  shows "star_ends f n (lower_state s) = map lower_state (star_ends f n s)"
  by (induction n arbitrary: s)
     (simp_all add: assms filter_map o_def map_concat cong: map_cong)

lemma ends_lower: "caseless r \<Longrightarrow> ends r (lower_state s) = map lower_state (ends r s)"
proof (induction r arbitrary: s)
  case (RChar p)
  then show ?case
    by (cases s) (auto simp: lower_state_def ToLower_def split: list.splits)
next
  case (RSeq a b)
  then show ?case by (simp add: map_concat o_def cong: map_cong)
next
  case (RStar r)
  then show ?case by (simp add: star_ends_lower)
next
  case RBegin
  then show ?case by (cases s) (auto simp: lower_state_def)
qed simp_all

lemma match_from_lower:
  "caseless r \<Longrightarrow> match_from r (map_option to_lower q) (ToLower s) = match_from r q s"
proof (induction s arbitrary: q)
  case Nil
  then show ?case
    using ends_lower [OF Nil, of "(q, [])"] by (simp add: lower_state_def ToLower_def)
next
  case (Cons c s)
  have "ends r (map_option to_lower q, ToLower (c # s)) = map lower_state (ends r (q, c # s))"
    using ends_lower [OF Cons.prems, of "(q, c # s)"] by (simp add: lower_state_def)
  moreover have "match_from r (map_option to_lower (Some c)) (ToLower s) =
      match_from r (Some c) s"
    by (rule Cons.IH [OF Cons.prems])
  ultimately show ?case by (simp add: ToLower_def)
qed

lemma MatchString_lower: "caseless r \<Longrightarrow> MatchString r (ToLower s) = MatchString r s"
  using match_from_lower [of r None s] by (simp add: MatchString_def)

lemma caseless_build [simp]:
  "caseless (fold_char c)" "caseless (rword w)" "caseless rspace" "caseless rspaces"
  "caseless rany"
proof -
  show f: "caseless (fold_char c)" for c by (simp add: fold_char_def)
  show "caseless (rword w)" by (induction w) (simp_all add: f)
qed (simp_all add: rspace_def rspaces_def rany_def)

lemma caseless_ralts: "list_all caseless rs \<Longrightarrow> caseless (ralts rs)"
  by (induction rs rule: ralts.induct) simp_all

lemma caseless_rseqs: "list_all caseless rs \<Longrightarrow> caseless (rseqs rs)"
  by (induction rs rule: rseqs.induct) simp_all

end
