(* ===== verification/Refusal.thy ===== *)
theory Refusal
  imports Policy_Types Regex
begin

text \<open>
  The refusal set (\<^verbatim>\<open>refusal.go\<close>): the tokens a policy document may list, the
  predicate each token stands for, and the first token, in document order, that refuses a
  request. The SQL patterns are the source's regular expressions, written with the
  combinators of \<open>Regex\<close>; all of them ignore letter case.
\<close>

subsection \<open>Patterns\<close>

definition rword_alts :: "string list \<Rightarrow> rx" where
  "rword_alts ws = ralts (map rword ws)"

definition rlsChangeSQL :: rx where
  "rlsChangeSQL = RAlt
     (rseqs [RWordB, rword_alts [''ENABLE'', ''DISABLE'', ''FORCE''], rspaces, rword ''ROW'',
        rspaces, rword ''LEVEL'', rspaces, rword ''SECURITY'', RWordB])
     (rseqs [RWordB, rword_alts [''CREATE'', ''ALTER'', ''DROP''], rspaces, rword ''POLICY'',
        RWordB])"

definition grantExpansionSQL :: rx where
  "grantExpansionSQL = ralts
     [rseqs [RBegin, RStar rspace, rword ''GRANT'', RWordB],
      rseqs [RWordB, rword ''ALTER'', rspaces, rword_alts [''ROLE'', ''USER'', ''GROUP''], RWordB],
      rseqs [RWordB, rword ''OWNER'', rspaces, rword ''TO'', RWordB],
      rseqs [RWordB, rword ''ALTER'', rspaces, rword ''DEFAULT'', rspaces, rword ''PRIVILEGES'',
        RWordB]]"

definition extensionUpgradeSQL :: rx where
  "extensionUpgradeSQL = rseqs
     [RBegin, RStar rspace, rword ''ALTER'', rspaces, rword ''EXTENSION'', RWordB, RStar rany,
      RWordB, rword ''UPDATE'', RWordB]"

definition nonDerivableDropSQL :: rx where
  "nonDerivableDropSQL = RAlt
     (rseqs [RBegin, RStar rspace, rword ''DROP'', rspaces,
        ralts [rword ''TABLE'', rword ''SCHEMA'', rword ''SEQUENCE'', rword ''VIEW'',
          rseqs [rword ''MATERIALIZED'', rspaces, rword ''VIEW''], rword ''TYPE'',
          rword ''DOMAIN'', rword ''FUNCTION'', rword ''PROCEDURE'', rword ''EXTENSION'',
          rword ''DATABASE'', rword ''PUBLICATION'', rword ''SUBSCRIPTION''], RWordB])
     (rseqs [RWordB, rword ''pg_drop_replication_slot'', RStar rspace, rword ''(''])"

definition alterTableSQL :: rx where
  "alterTableSQL = rseqs [RBegin, RStar rspace, rword ''ALTER'', rspaces, rword ''TABLE'', RWordB]"

text \<open>The words captured by all matches of \<^verbatim>\<open>(?i)\bDROP\s+(\w+)\<close>, left to
  right. White space and word characters are disjoint, so the greedy match is the only one
  at a position.\<close>

definition drop_word_at :: "char option \<Rightarrow> string \<Rightarrow> (string \<times> string) option" where
  "drop_word_at q s =
     (let rest = drop 4 s; ws = takeWhile re_space rest; after = dropWhile re_space rest;
          w = takeWhile is_word after
      in if boundary (q, s) \<and> EqualFold (take 4 s) ''DROP'' \<and> ws \<noteq> [] \<and> w \<noteq> []
         then Some (w, dropWhile is_word after) else None)"

lemma drop_word_at_shorter:
  "drop_word_at q s = Some (w, t) \<Longrightarrow> length t < length s"
proof -
  assume a: "drop_word_at q s = Some (w, t)"
  let ?after = "dropWhile re_space (drop 4 s)"
  from a have w: "w = takeWhile is_word ?after" "w \<noteq> []" "t = dropWhile is_word ?after"
    by (auto simp: drop_word_at_def Let_def split: if_splits)
  have "length w + length t = length ?after"
    using w by (metis length_append takeWhile_dropWhile_id)
  moreover have "length ?after \<le> length s"
    using length_dropWhile_le [of re_space "drop 4 s"] by simp
  ultimately show ?thesis using w(2) by (cases w) auto
qed

function drop_words :: "char option \<Rightarrow> string \<Rightarrow> string list" where
  "drop_words q s =
     (case drop_word_at q s of
        Some (w, t) \<Rightarrow> w # drop_words (Some (last w)) t
      | None \<Rightarrow> (case s of [] \<Rightarrow> [] | c # cs \<Rightarrow> drop_words (Some c) cs))"
  by pat_completeness auto
termination
  by (relation "measure (\<lambda>(q, s). length s)") (auto dest: drop_word_at_shorter)

declare drop_words.simps [simp del]

definition alterTableDropsObject :: "string \<Rightarrow> bool" where
  "alterTableDropsObject sql \<longleftrightarrow>
     MatchString alterTableSQL sql \<and>
     list_ex (\<lambda>w. ToLower w \<notin> set [''default'', ''not'', ''expression'', ''identity''])
       (drop_words None sql)"

subsection \<open>Predicates\<close>

definition rlsChange :: "ActionContract \<Rightarrow> ActionRequest \<Rightarrow> bool" where
  "rlsChange c req = MatchString rlsChangeSQL (r_SQL req)"

definition grantExpansion :: "ActionContract \<Rightarrow> ActionRequest \<Rightarrow> bool" where
  "grantExpansion c req = MatchString grantExpansionSQL (r_SQL req)"

definition majorUpgrade :: "ActionContract \<Rightarrow> ActionRequest \<Rightarrow> bool" where
  "majorUpgrade c req \<longleftrightarrow>
     c_ActionType c \<in> set [''major_upgrade'', ''extension_update''] \<or>
     MatchString extensionUpgradeSQL (r_SQL req)"

definition unrollbackable :: "ActionContract \<Rightarrow> ActionRequest \<Rightarrow> bool" where
  "unrollbackable c req \<longleftrightarrow>
     (c_RollbackClass c = RollbackNotReversible \<or>
      c_RollbackClass c = RollbackForwardFixOnly) \<and> \<not> r_OwnerDeclared req"

definition dropKind :: "ActionContract \<Rightarrow> ActionRequest \<Rightarrow> DropKind" where
  "dropKind c req =
     (if c_DropKind c \<noteq> DropOther [] then c_DropKind c
      else if MatchString nonDerivableDropSQL (r_SQL req) \<or> alterTableDropsObject (r_SQL req)
      then DropNonDerivable else DropOther [])"

definition nonDerivableDrop :: "ActionContract \<Rightarrow> ActionRequest \<Rightarrow> bool" where
  "nonDerivableDrop c req = (dropKind c req = DropNonDerivable)"

definition refusalPredicates :: "(string \<times> (ActionContract \<Rightarrow> ActionRequest \<Rightarrow> bool)) list" where
  "refusalPredicates =
     [(''rls_change'', rlsChange), (''grant_expansion'', grantExpansion),
      (''major_upgrade'', majorUpgrade), (''non_dup_object_drop'', nonDerivableDrop),
      (''unrollbackable'', unrollbackable)]"

definition KnownRefusalTokens :: "string list" where
  "KnownRefusalTokens = sort (map fst refusalPredicates)"

subsection \<open>The refusal decision\<close>

definition token_refuses :: "ActionContract \<Rightarrow> ActionRequest \<Rightarrow> string \<Rightarrow> bool" where
  "token_refuses c req token =
     (case map_of refusalPredicates token of None \<Rightarrow> False | Some p \<Rightarrow> p c req)"

definition RefusedBy :: "Document \<Rightarrow> ActionRequest \<Rightarrow> string option" where
  "RefusedBy doc req =
     (case r_Contract req of
        None \<Rightarrow> None
      | Some c \<Rightarrow> List.find (token_refuses c req) (doc_RefusalSet doc))"

definition validateRefusalSet :: "string list \<Rightarrow> err + unit" where
  "validateRefusalSet tokens =
     eall (\<lambda>token. case map_of refusalPredicates token of
             None \<Rightarrow> Inl (''refusal_set: unknown token '' @ token) | Some _ \<Rightarrow> Inr ()) tokens"

definition knownRollbackClass :: "RollbackClass \<Rightarrow> bool" where
  "knownRollbackClass class =
     (case class of RollbackOther s \<Rightarrow> s = [] | _ \<Rightarrow> True)"

definition knownDropKind :: "DropKind \<Rightarrow> bool" where
  "knownDropKind kind = (case kind of DropOther s \<Rightarrow> s = [] | _ \<Rightarrow> True)"

subsection \<open>What the refusal set guarantees\<close>

lemma RefusedBy_Some_iff:
  "RefusedBy doc req = Some token \<longleftrightarrow>
    (\<exists>c ys zs. r_Contract req = Some c \<and> doc_RefusalSet doc = ys @ token # zs \<and>
       token_refuses c req token \<and> (\<forall>y\<in>set ys. \<not> token_refuses c req y))"
proof
  assume "RefusedBy doc req = Some token"
  then obtain c where c: "r_Contract req = Some c"
    and f: "List.find (token_refuses c req) (doc_RefusalSet doc) = Some token"
    by (auto simp: RefusedBy_def split: option.splits)
  from find_Some_first [OF f] c show
    "\<exists>c ys zs. r_Contract req = Some c \<and> doc_RefusalSet doc = ys @ token # zs \<and>
       token_refuses c req token \<and> (\<forall>y\<in>set ys. \<not> token_refuses c req y)"
    by blast
next
  assume "\<exists>c ys zs. r_Contract req = Some c \<and> doc_RefusalSet doc = ys @ token # zs \<and>
       token_refuses c req token \<and> (\<forall>y\<in>set ys. \<not> token_refuses c req y)"
  then obtain c ys zs where c: "r_Contract req = Some c"
    and d: "doc_RefusalSet doc = ys @ token # zs" "token_refuses c req token"
      "\<forall>y\<in>set ys. \<not> token_refuses c req y"
    by blast
  have "List.find (token_refuses c req) (ys @ token # zs) = Some token"
    using d(2,3) by (induction ys) auto
  with c d(1) show "RefusedBy doc req = Some token" by (simp add: RefusedBy_def)
qed

lemma RefusedBy_None_iff:
  "RefusedBy doc req = None \<longleftrightarrow>
    (case r_Contract req of None \<Rightarrow> True
     | Some c \<Rightarrow> \<forall>token\<in>set (doc_RefusalSet doc). \<not> token_refuses c req token)"
  by (auto simp: RefusedBy_def find_None_iff split: option.splits)

lemma RefusedBy_mono:
  "set (doc_RefusalSet d) \<subseteq> set (doc_RefusalSet d') \<Longrightarrow> RefusedBy d' req = None \<Longrightarrow>
    RefusedBy d req = None"
  by (auto simp: RefusedBy_None_iff split: option.splits)

lemma caseless_patterns [simp]:
  "caseless rlsChangeSQL" "caseless grantExpansionSQL" "caseless extensionUpgradeSQL"
  "caseless nonDerivableDropSQL" "caseless alterTableSQL"
  by (simp_all add: rlsChangeSQL_def grantExpansionSQL_def extensionUpgradeSQL_def
      nonDerivableDropSQL_def alterTableSQL_def rword_alts_def caseless_ralts caseless_rseqs)

lemma ToLower_ToLower [simp]: "ToLower (ToLower s) = ToLower s"
  by (simp add: ToLower_def)

lemma take_drop_ToLower [simp]:
  "take n (ToLower s) = ToLower (take n s)" "drop n (ToLower s) = ToLower (drop n s)"
  by (simp_all add: ToLower_def take_map drop_map)

lemma while_ToLower:
  assumes "\<And>c. p (to_lower c) = p c"
  shows "takeWhile p (ToLower s) = ToLower (takeWhile p s)"
    and "dropWhile p (ToLower s) = ToLower (dropWhile p s)"
  by (simp_all add: ToLower_def takeWhile_map dropWhile_map o_def assms)

lemma ToLower_Nil_iff [simp]: "ToLower s = [] \<longleftrightarrow> s = []"
  by (simp add: ToLower_def)

lemma EqualFold_ToLower [simp]: "EqualFold (ToLower s) t = EqualFold s t"
  by (simp add: EqualFold_def)

lemma boundary_ToLower: "boundary (map_option to_lower q, ToLower s) = boundary (q, s)"
  using boundary_lower [of "(q, s)"] by (simp add: lower_state_def del: boundary_lower)

lemma drop_word_at_ToLower:
  "drop_word_at (map_option to_lower q) (ToLower s) =
    map_option (\<lambda>(w, t). (ToLower w, ToLower t)) (drop_word_at q s)"
  by (simp add: drop_word_at_def Let_def while_ToLower boundary_ToLower)

lemma drop_words_ToLower:
  "drop_words (map_option to_lower q) (ToLower s) = map ToLower (drop_words q s)"
proof (induction q s rule: drop_words.induct)
  case (1 q s)
  show ?case
  proof (cases "drop_word_at q s")
    case None
    show ?thesis
    proof (cases s)
      case Nil
      with None show ?thesis
        using drop_word_at_ToLower [of q s]
        by (subst (1 2) drop_words.simps) (simp add: ToLower_def)
    next
      case (Cons c cs)
      have "drop_words (Some (to_lower c)) (ToLower cs) = map ToLower (drop_words (Some c) cs)"
        using "1.IH"(1) [OF None Cons] by simp
      with None Cons show ?thesis
        using drop_word_at_ToLower [of q s]
        by (subst (1 2) drop_words.simps) (simp add: ToLower_def)
    qed
  next
    case (Some p)
    obtain w t where p: "p = (w, t)" by (cases p)
    with Some have "w \<noteq> []" by (auto simp: drop_word_at_def Let_def split: if_splits)
    then have "drop_words (Some (last (ToLower w))) (ToLower t) =
        map ToLower (drop_words (Some (last w)) t)"
      using "1.IH"(2) [OF Some p [symmetric]] by (simp add: ToLower_def last_map)
    with Some p show ?thesis
      using drop_word_at_ToLower [of q s]
      by (subst (1 2) drop_words.simps) simp
  qed
qed

lemma alterTableDropsObject_ToLower [simp]:
  "alterTableDropsObject (ToLower s) = alterTableDropsObject s"
  using drop_words_ToLower [of None s]
  by (simp add: alterTableDropsObject_def MatchString_lower list_ex_iff)

lemma token_refuses_ToLower:
  "token_refuses c (req\<lparr>r_SQL := ToLower (r_SQL req)\<rparr>) token = token_refuses c req token"
  by (auto simp: token_refuses_def refusalPredicates_def rlsChange_def grantExpansion_def
      majorUpgrade_def nonDerivableDrop_def dropKind_def unrollbackable_def MatchString_lower
      split: option.splits)

text \<open>
  Letter case cannot evade the refusal set: a request is refused by exactly the tokens
  that refuse it with its SQL in lower case, so two spellings of a statement that differ in
  case only are refused by the same first token.
\<close>

theorem RefusedBy_ignores_case:
  assumes "ToLower sql = ToLower sql'"
  shows "RefusedBy doc (req\<lparr>r_SQL := sql\<rparr>) = RefusedBy doc (req\<lparr>r_SQL := sql'\<rparr>)"
proof -
  have "token_refuses c (req\<lparr>r_SQL := sql\<rparr>) token =
      token_refuses c (req\<lparr>r_SQL := sql'\<rparr>) token" for c token
    using token_refuses_ToLower [of c "req\<lparr>r_SQL := sql\<rparr>" token]
      token_refuses_ToLower [of c "req\<lparr>r_SQL := sql'\<rparr>" token] assms
    by simp
  then have "token_refuses c (req\<lparr>r_SQL := sql\<rparr>) = token_refuses c (req\<lparr>r_SQL := sql'\<rparr>)" for c
    by (rule ext)
  then show ?thesis by (cases "r_Contract req") (simp_all add: RefusedBy_def)
qed

theorem RefusedBy_ignores_case_witness:
  "RefusedBy (Document0\<lparr>doc_RefusalSet := [''non_dup_object_drop'']\<rparr>)
     (ActionRequest0\<lparr>r_Contract := Some ActionContract0, r_SQL := ''drop TABLE t''\<rparr>) =
   Some ''non_dup_object_drop''"
proof -
  let ?doc = "Document0\<lparr>doc_RefusalSet := [''non_dup_object_drop'']\<rparr>"
  let ?req = "ActionRequest0\<lparr>r_Contract := Some ActionContract0\<rparr>"
  have "ToLower ''drop TABLE t'' = ToLower ''DROP table t''" by code_simp
  then have "RefusedBy ?doc (?req\<lparr>r_SQL := ''drop TABLE t''\<rparr>) =
      RefusedBy ?doc (?req\<lparr>r_SQL := ''DROP table t''\<rparr>)"
    by (rule RefusedBy_ignores_case)
  moreover have "RefusedBy ?doc (?req\<lparr>r_SQL := ''DROP table t''\<rparr>) =
      Some ''non_dup_object_drop''"
    by code_simp
  ultimately show ?thesis by simp
qed

end
