(* ===== verification/Document.thy ===== *)
theory Document
  imports Windows Refusal "HOL-Library.AList"
begin

text \<open>
  Standing policy documents: \<^verbatim>\<open>document.go\<close>,
  \<^verbatim>\<open>budget_document.go\<close>, the document part of \<^verbatim>\<open>budget.go\<close>,
  \<^verbatim>\<open>agent_classes.go\<close>, \<^verbatim>\<open>lock_ceiling.go\<close> and
  \<^verbatim>\<open>widen.go\<close>. A stored document is a JSON value; strict decoding follows
  \<^verbatim>\<open>encoding/json\<close> with unknown fields refused (a field name matches in any
  letter case, a later duplicate overwrites, null leaves the zero value). Turning text into
  a JSON value and back is the library's and is not modelled. A nil and an empty slice are
  the same list.
\<close>

subsection \<open>Change classes\<close>

abbreviation ChangeIndex :: ChangeClass where "ChangeIndex \<equiv> ''index''"
abbreviation ChangeAnalyze :: ChangeClass where "ChangeAnalyze \<equiv> ''analyze''"
abbreviation ChangeVacuum :: ChangeClass where "ChangeVacuum \<equiv> ''vacuum''"
abbreviation ChangeFreeze :: ChangeClass where "ChangeFreeze \<equiv> ''freeze''"
abbreviation ChangeAutovacuumTuning :: ChangeClass where
  "ChangeAutovacuumTuning \<equiv> ''autovacuum_tuning''"
abbreviation ChangeConfigGUC :: ChangeClass where "ChangeConfigGUC \<equiv> ''config_guc''"
abbreviation ChangeRetention :: ChangeClass where "ChangeRetention \<equiv> ''retention''"
abbreviation ChangeFKIndex :: ChangeClass where "ChangeFKIndex \<equiv> ''fk_index''"
abbreviation ChangeOnlineMigration :: ChangeClass where
  "ChangeOnlineMigration \<equiv> ''online_migration''"
abbreviation ChangeBackendSignal :: ChangeClass where "ChangeBackendSignal \<equiv> ''backend_signal''"
abbreviation ChangeQueryHint :: ChangeClass where "ChangeQueryHint \<equiv> ''query_hint''"
abbreviation ChangeSchemaChange :: ChangeClass where "ChangeSchemaChange \<equiv> ''schema_change''"
abbreviation ChangeAgentAccess :: ChangeClass where "ChangeAgentAccess \<equiv> ''agent_access''"
abbreviation ChangeAgentDataWrite :: ChangeClass where
  "ChangeAgentDataWrite \<equiv> ''agent_data_write''"
abbreviation ChangeAgentSchemaChange :: ChangeClass where
  "ChangeAgentSchemaChange \<equiv> ''agent_schema_change''"
abbreviation ChangeAgentMaintenance :: ChangeClass where
  "ChangeAgentMaintenance \<equiv> ''agent_maintenance''"
abbreviation ChangeAgentSandbox :: ChangeClass where "ChangeAgentSandbox \<equiv> ''agent_sandbox''"
abbreviation ChangeAgentEstate :: ChangeClass where "ChangeAgentEstate \<equiv> ''agent_estate''"

definition containsChangeClass :: "ChangeClass list \<Rightarrow> ChangeClass \<Rightarrow> bool" where
  "containsChangeClass classes target = list_ex (\<lambda>class. class = target) classes"

lemma containsChangeClass_iff [simp]: "containsChangeClass cs c \<longleftrightarrow> c \<in> set cs"
  by (auto simp: containsChangeClass_def list_ex_iff)

definition AgentChangeClasses :: "ChangeClass list" where
  "AgentChangeClasses = [ChangeAgentAccess, ChangeAgentDataWrite, ChangeAgentSchemaChange,
     ChangeAgentMaintenance, ChangeAgentSandbox, ChangeAgentEstate]"

definition IsAgentChangeClass :: "ChangeClass \<Rightarrow> bool" where
  "IsAgentChangeClass class = containsChangeClass AgentChangeClasses class"

definition allChangeClasses :: "ChangeClass list" where
  "allChangeClasses =
     [ChangeIndex, ChangeAnalyze, ChangeVacuum, ChangeFreeze, ChangeAutovacuumTuning,
      ChangeConfigGUC, ChangeRetention, ChangeFKIndex, ChangeOnlineMigration,
      ChangeBackendSignal, ChangeQueryHint, ChangeSchemaChange, ChangeAgentAccess,
      ChangeAgentDataWrite, ChangeAgentSchemaChange, ChangeAgentMaintenance,
      ChangeAgentSandbox, ChangeAgentEstate]"

definition knownChangeClasses :: "ChangeClass \<Rightarrow> bool" where
  "knownChangeClasses class = (class \<in> set allChangeClasses)"

subsection \<open>Limits and budgets\<close>

definition NewBudgetLimit :: "int \<Rightarrow> BudgetLimit" where
  "NewBudgetLimit value = \<lparr>bl_Present = True, bl_value = Some value\<rparr>"

definition NoCapBudget :: BudgetLimit where
  "NoCapBudget = \<lparr>bl_Present = True, bl_value = None\<rparr>"

definition NoCap :: "BudgetLimit \<Rightarrow> bool" where
  "NoCap l \<longleftrightarrow> bl_Present l \<and> bl_value l = None"

definition DefaultHygieneBudget :: KindBudget where
  "DefaultHygieneBudget = \<lparr>kb_MaxTablesPerWindow = 10, kb_MaxChangesPerWindow = 25\<rparr>"

definition Document_Budget :: "Document \<Rightarrow> BudgetKind \<Rightarrow> KindBudget" where
  "Document_Budget doc kind =
     (if kind = BudgetHygiene then br_Hygiene (doc_BlastRadius doc)
      else \<lparr>kb_MaxTablesPerWindow = br_MaxTablesPerWindow (doc_BlastRadius doc),
            kb_MaxChangesPerWindow =
              rl_MaxSelfInitiatedChangesPerWindow (doc_RateLimits doc)\<rparr>)"

subsection \<open>Validation\<close>

definition validateBlastRadius :: "Document \<Rightarrow> err + unit" where
  "validateBlastRadius doc =
     (if br_MaxRowsRewritten (doc_BlastRadius doc) < 0
      then Inl ''max_rows_rewritten cannot be negative''
      else eall (\<lambda>kind.
             let budget = Document_Budget doc kind in
             if kb_MaxTablesPerWindow budget < 0
             then Inl (''blast_radius.'' @ budgetKind_string kind @
               ''.max_tables_per_window cannot be negative'')
             else if kb_MaxChangesPerWindow budget < 0
             then Inl (''blast_radius.'' @ budgetKind_string kind @
               ''.max_changes_per_window cannot be negative'')
             else Inr ()) [BudgetPerformance, BudgetHygiene])"

definition validateBudgets :: "Budgets \<Rightarrow> err + unit" where
  "validateBudgets b =
     eall (\<lambda>(name, limit).
       if \<not> bl_Present limit then Inl (''budgets.'' @ name @ '': missing'')
       else (case bl_value limit of
               Some v \<Rightarrow> if v < 0 then Inl (''budgets.'' @ name @ '' cannot be negative'')
                         else Inr ()
             | None \<Rightarrow> Inr ()))
       [(''storage_bytes'', b_StorageBytes b), (''spend_daily'', b_SpendDaily b),
        (''llm_tokens_daily'', b_LLMTokensDaily b)]"

definition validateClasses :: "ChangeClass list \<Rightarrow> err + unit" where
  "validateClasses classes =
     eall (\<lambda>class. if knownChangeClasses class then Inr ()
             else Inl (''unknown change class '' @ class)) classes"

definition validateWindows :: "golib \<Rightarrow> string list \<Rightarrow> err + unit" where
  "validateWindows lib windows =
     (if windows = [] then Inl ''maintenance_windows cannot be empty''
      else eall (\<lambda>e. case ParseWindow lib e of
             Inl _ \<Rightarrow> Inl (''window '' @ e) | Inr _ \<Rightarrow> Inr ()) windows)"

definition ValidateDocument :: "golib \<Rightarrow> Document \<Rightarrow> err + unit" where
  "ValidateDocument lib doc =
     (if doc_UnknownClassification doc \<noteq> ''fail_closed''
      then Inl ''unknown_classification must be fail_closed''
      else if doc_SerializeMode doc \<noteq> ''park'' \<and> doc_SerializeMode doc \<noteq> ''queue''
      then Inl (''serialize_mode '' @ doc_SerializeMode doc @ '' is invalid'')
      else if doc_LockDurationCeilingMS doc < 0
      then Inl ''lock_duration_ceiling_ms cannot be negative''
      else ebind (validateRefusalSet (doc_RefusalSet doc)) (\<lambda>_.
           ebind (validateBlastRadius doc) (\<lambda>_.
           ebind (validateBudgets (doc_Budgets doc)) (\<lambda>_.
           ebind (validateClasses (doc_AllowedChangeClasses doc)) (\<lambda>_.
           ebind (validateClasses (doc_ApprovalRequiredClasses doc)) (\<lambda>_.
             validateWindows lib (doc_MaintenanceWindows doc)))))))"

lemma isOk_ValidateDocument_iff:
  "isOk (ValidateDocument lib doc) \<longleftrightarrow>
     doc_UnknownClassification doc = ''fail_closed'' \<and>
     (doc_SerializeMode doc = ''park'' \<or> doc_SerializeMode doc = ''queue'') \<and>
     0 \<le> doc_LockDurationCeilingMS doc \<and>
     isOk (validateRefusalSet (doc_RefusalSet doc)) \<and> isOk (validateBlastRadius doc) \<and>
     isOk (validateBudgets (doc_Budgets doc)) \<and>
     isOk (validateClasses (doc_AllowedChangeClasses doc)) \<and>
     isOk (validateClasses (doc_ApprovalRequiredClasses doc)) \<and>
     isOk (validateWindows lib (doc_MaintenanceWindows doc))"
  by (simp add: ValidateDocument_def not_less)

definition knownRisk :: "RiskTier \<Rightarrow> bool" where
  "knownRisk risk = (case risk of RiskOther _ \<Rightarrow> False | _ \<Rightarrow> True)"

definition ValidateContract :: "ActionContract \<Rightarrow> err + unit" where
  "ValidateContract c =
     (if TrimSpace (c_ActionType c) = [] then Inl ''action type is missing''
      else if \<not> knownRisk (c_RiskTier c) then Inl ''unknown risk tier''
      else ebind (eall (\<lambda>g. if g \<noteq> GuardrailApprovalRequired
                          then Inl (''unknown guardrail '' @ guardrail_string g) else Inr ())
                   (c_Guardrails c)) (\<lambda>_.
           if \<not> knownRollbackClass (c_RollbackClass c) then Inl ''unknown rollback class''
           else if \<not> knownDropKind (c_DropKind c) then Inl ''unknown drop kind''
           else Inr ()))"

subsection \<open>Profiles\<close>

definition baseProfile :: Document where
  "baseProfile = Document0\<lparr>
     doc_AllowedChangeClasses := allChangeClasses,
     doc_ApprovalRequiredClasses := ChangeOnlineMigration # AgentChangeClasses,
     doc_LockDurationCeilingMS := 3000,
     doc_BlastRadius := \<lparr>br_MaxRowsRewritten = 5000000, br_MaxTablesPerWindow = 10,
       br_Hygiene = DefaultHygieneBudget\<rparr>,
     doc_Budgets := \<lparr>b_StorageBytes = NoCapBudget, b_SpendDaily = NoCapBudget,
       b_LLMTokensDaily = NewBudgetLimit 500000\<rparr>,
     doc_RateLimits := \<lparr>rl_MaxSelfInitiatedChangesPerWindow = 25\<rparr>,
     doc_RefusalSet := [''rls_change'', ''grant_expansion'', ''major_upgrade'',
       ''non_dup_object_drop'', ''unrollbackable''],
     doc_UnknownClassification := ''fail_closed'',
     doc_SerializeMode := ''park''\<rparr>"

definition StaffedProfile :: Document where
  "StaffedProfile = baseProfile\<lparr>doc_Profile := ProfileStaffed,
     doc_MaintenanceWindows := [''weekdays 01:00-05:00''],
     doc_DeadlineOverrides := [(DeadlineXID, False), (DeadlineDisk, False)]\<rparr>"

definition UnattendedProfile :: Document where
  "UnattendedProfile = baseProfile\<lparr>doc_Profile := ProfileUnattended,
     doc_MaintenanceWindows := [''always'', ''weekends''],
     doc_DeadlineOverrides := [(DeadlineXID, True), (DeadlineDisk, True)]\<rparr>"

subsection \<open>Lock ceiling\<close>

definition EffectiveLockTimeoutMS :: "int \<Rightarrow> int \<Rightarrow> int" where
  "EffectiveLockTimeoutMS ceilingMS safetyMS =
     (if ceilingMS \<le> 0 then safetyMS
      else if safetyMS \<le> 0 then ceilingMS
      else min ceilingMS safetyMS)"

definition withDocumentBounds :: "Document \<Rightarrow> Decision \<Rightarrow> Decision" where
  "withDocumentBounds doc decision =
     (if d_Verdict decision \<noteq> VerdictExecute then decision
      else (let decision =
                  (if doc_LockDurationCeilingMS doc > 0
                   then decision\<lparr>d_LockCeilingMS := doc_LockDurationCeilingMS doc\<rparr>
                   else decision)
            in decision\<lparr>d_SerializeMode := doc_SerializeMode doc\<rparr>))"

subsection \<open>Widening\<close>

definition profileWidens :: "Profile \<Rightarrow> Profile \<Rightarrow> bool" where
  "profileWidens base next \<longleftrightarrow> base \<noteq> next \<and> next \<noteq> ProfileStaffed"

definition ceilingWidens :: "int \<Rightarrow> int \<Rightarrow> bool" where
  "ceilingWidens base next = (if base = 0 then False else next = 0 \<or> next > base)"

definition limitsWiden :: "Document \<Rightarrow> Document \<Rightarrow> bool" where
  "limitsWiden base next =
     (let b = doc_BlastRadius base; n = doc_BlastRadius next in
      br_MaxRowsRewritten n > br_MaxRowsRewritten b \<or>
      br_MaxTablesPerWindow n > br_MaxTablesPerWindow b \<or>
      kb_MaxTablesPerWindow (br_Hygiene n) > kb_MaxTablesPerWindow (br_Hygiene b) \<or>
      kb_MaxChangesPerWindow (br_Hygiene n) > kb_MaxChangesPerWindow (br_Hygiene b) \<or>
      rl_MaxSelfInitiatedChangesPerWindow (doc_RateLimits next) >
        rl_MaxSelfInitiatedChangesPerWindow (doc_RateLimits base))"

definition limitWidens :: "BudgetLimit \<Rightarrow> BudgetLimit \<Rightarrow> bool" where
  "limitWidens base next =
     (if NoCap base then False
      else (case bl_value base of
              None \<Rightarrow> bl_value next = None \<and> bl_Present next \<noteq> bl_Present base
            | Some baseValue \<Rightarrow>
                (case bl_value next of None \<Rightarrow> True | Some nextValue \<Rightarrow> nextValue > baseValue)))"

definition budgetsWiden :: "Budgets \<Rightarrow> Budgets \<Rightarrow> bool" where
  "budgetsWiden base next \<longleftrightarrow>
     limitWidens (b_StorageBytes base) (b_StorageBytes next) \<or>
     limitWidens (b_SpendDaily base) (b_SpendDaily next) \<or>
     limitWidens (b_LLMTokensDaily base) (b_LLMTokensDaily next)"

definition overridesWiden ::
    "(DeadlineKind \<times> bool) list \<Rightarrow> (DeadlineKind \<times> bool) list \<Rightarrow> bool" where
  "overridesWiden base next =
     list_ex (\<lambda>(kind, _). map_get_bool next kind \<and> \<not> map_get_bool base kind) next"

definition subsetClasses :: "ChangeClass list \<Rightarrow> ChangeClass list \<Rightarrow> bool" where
  "subsetClasses sub super = list_all (containsChangeClass super) sub"

definition subsetStrings :: "string list \<Rightarrow> string list \<Rightarrow> bool" where
  "subsetStrings sub super = list_all (\<lambda>s. s \<in> set super) sub"

definition Widens :: "Document \<Rightarrow> Document \<Rightarrow> bool" where
  "Widens base next \<longleftrightarrow>
     profileWidens (doc_Profile base) (doc_Profile next) \<or>
     \<not> subsetClasses (doc_AllowedChangeClasses next) (doc_AllowedChangeClasses base) \<or>
     \<not> subsetClasses (doc_ApprovalRequiredClasses base) (doc_ApprovalRequiredClasses next) \<or>
     \<not> subsetStrings (doc_MaintenanceWindows next) (doc_MaintenanceWindows base) \<or>
     ceilingWidens (doc_LockDurationCeilingMS base) (doc_LockDurationCeilingMS next) \<or>
     limitsWiden base next \<or>
     budgetsWiden (doc_Budgets base) (doc_Budgets next) \<or>
     overridesWiden (doc_DeadlineOverrides base) (doc_DeadlineOverrides next) \<or>
     \<not> subsetStrings (doc_RefusalSet base) (doc_RefusalSet next) \<or>
     doc_UnknownClassification base \<noteq> doc_UnknownClassification next \<or>
     doc_SerializeMode base \<noteq> doc_SerializeMode next"

lemma subsetClasses_iff [simp]: "subsetClasses xs ys \<longleftrightarrow> set xs \<subseteq> set ys"
  by (auto simp: subsetClasses_def list_all_iff)

lemma subsetStrings_iff [simp]: "subsetStrings xs ys \<longleftrightarrow> set xs \<subseteq> set ys"
  by (auto simp: subsetStrings_def list_all_iff)

lemma map_get_bool_mem: "map_get_bool m k \<Longrightarrow> (k, True) \<in> set m"
  by (auto simp: map_get_bool_def split: option.splits dest: map_of_SomeD)

lemma overridesWiden_iff:
  "overridesWiden base next \<longleftrightarrow> (\<exists>k. map_get_bool next k \<and> \<not> map_get_bool base k)"
  by (auto simp: overridesWiden_def list_ex_iff split: prod.splits dest: map_get_bool_mem)

end
