(* ===== verification/Wire.thy ===== *)
theory Wire
  imports Document
begin

text \<open>
  The stored form of a policy document: \<^verbatim>\<open>ParseDocument\<close> and
  \<^verbatim>\<open>MarshalDocument\<close> of \<^verbatim>\<open>document.go\<close> and the
  blast-radius wire format of \<^verbatim>\<open>budget_document.go\<close>, on JSON values.
\<close>

subsection \<open>JSON values and strict decoding\<close>

datatype json = JNull | JBool bool | JInt int | JStr string | JArr "json list"
  | JObj "(string \<times> json) list"

definition dec_int :: "json \<Rightarrow> int \<Rightarrow> err + int" where
  "dec_int j old =
     (case j of JNull \<Rightarrow> Inr old
      | JInt i \<Rightarrow> if fits64 i then Inr i else Inl ''number out of range''
      | _ \<Rightarrow> Inl ''cannot unmarshal into int64'')"

definition dec_str :: "json \<Rightarrow> string \<Rightarrow> err + string" where
  "dec_str j old =
     (case j of JNull \<Rightarrow> Inr old | JStr s \<Rightarrow> Inr s | _ \<Rightarrow> Inl ''cannot unmarshal into string'')"

definition dec_bool :: "json \<Rightarrow> bool \<Rightarrow> err + bool" where
  "dec_bool j old =
     (case j of JNull \<Rightarrow> Inr old | JBool b \<Rightarrow> Inr b | _ \<Rightarrow> Inl ''cannot unmarshal into bool'')"

definition dec_ptr_int :: "json \<Rightarrow> err + int option" where
  "dec_ptr_int j =
     (case j of JNull \<Rightarrow> Inr None | _ \<Rightarrow> ebind (dec_int j 0) (\<lambda>i. Inr (Some i)))"

definition dec_strs :: "json \<Rightarrow> err + string list" where
  "dec_strs j =
     (case j of JNull \<Rightarrow> Inr [] | JArr xs \<Rightarrow> emap (\<lambda>x. dec_str x []) xs
      | _ \<Rightarrow> Inl ''cannot unmarshal into slice'')"

fun dec_members :: "(string \<times> json \<Rightarrow> 'r \<Rightarrow> err + 'r) \<Rightarrow> (string \<times> json) list \<Rightarrow> 'r \<Rightarrow> err + 'r" where
  "dec_members f [] r = Inr r"
| "dec_members f (m # ms) r = ebind (f m r) (dec_members f ms)"

definition dec_struct :: "(string \<times> json \<Rightarrow> 'r \<Rightarrow> err + 'r) \<Rightarrow> json \<Rightarrow> 'r \<Rightarrow> err + 'r" where
  "dec_struct f j r =
     (case j of JNull \<Rightarrow> Inr r | JObj ms \<Rightarrow> dec_members f ms r
      | _ \<Rightarrow> Inl ''cannot unmarshal into struct'')"

definition unknown_field :: "string \<Rightarrow> err + 'r" where
  "unknown_field k = Inl (''json: unknown field '' @ k)"

definition dec_bool_map :: "json \<Rightarrow> (string \<times> bool) list \<Rightarrow> err + (string \<times> bool) list" where
  "dec_bool_map j old =
     (case j of JNull \<Rightarrow> Inr []
      | JObj ms \<Rightarrow>
          dec_members (\<lambda>(k, v) m. ebind (dec_bool v False) (\<lambda>b. Inr (AList.update k b m))) ms old
      | _ \<Rightarrow> Inl ''cannot unmarshal into map'')"

subsection \<open>Wire records\<close>

record kindBudgetWire =
  kw_MaxTablesPerWindow :: "int option"
  kw_MaxChangesPerWindow :: "int option"

record blastRadiusWire =
  bw_MaxRowsRewritten :: int
  bw_MaxTablesPerWindow :: "int option"
  bw_Performance :: "kindBudgetWire option"
  bw_Hygiene :: "kindBudgetWire option"

record rateLimitsWire =
  rw_MaxSelfInitiatedChangesPerWindow :: "int option"

record documentWire =
  dw_AllowedChangeClasses :: "string list"
  dw_ApprovalRequiredClasses :: "string list"
  dw_MaintenanceWindows :: "string list"
  dw_LockDurationCeilingMS :: int
  dw_BlastRadius :: blastRadiusWire
  dw_Budgets :: "json option"
  dw_RateLimits :: rateLimitsWire
  dw_DeadlineOverrides :: "(string \<times> bool) list"
  dw_RefusalSet :: "string list"
  dw_UnknownClassification :: string
  dw_SerializeMode :: string

record budgetWire =
  bu_StorageBytes :: "json option"
  bu_SpendDaily :: "json option"
  bu_LLMTokensDaily :: "json option"

definition kindBudgetWire0 :: kindBudgetWire where
  "kindBudgetWire0 = \<lparr>kw_MaxTablesPerWindow = None, kw_MaxChangesPerWindow = None\<rparr>"

definition documentWire0 :: documentWire where
  "documentWire0 = \<lparr>dw_AllowedChangeClasses = [], dw_ApprovalRequiredClasses = [],
     dw_MaintenanceWindows = [], dw_LockDurationCeilingMS = 0,
     dw_BlastRadius = \<lparr>bw_MaxRowsRewritten = 0, bw_MaxTablesPerWindow = None,
       bw_Performance = None, bw_Hygiene = None\<rparr>,
     dw_Budgets = None, dw_RateLimits = \<lparr>rw_MaxSelfInitiatedChangesPerWindow = None\<rparr>,
     dw_DeadlineOverrides = [], dw_RefusalSet = [], dw_UnknownClassification = [],
     dw_SerializeMode = []\<rparr>"

definition budgetWire0 :: budgetWire where
  "budgetWire0 = \<lparr>bu_StorageBytes = None, bu_SpendDaily = None, bu_LLMTokensDaily = None\<rparr>"

subsection \<open>Decoding\<close>

fun dec_kindBudget :: "string \<times> json \<Rightarrow> kindBudgetWire \<Rightarrow> err + kindBudgetWire" where
  "dec_kindBudget (k, v) r =
     (if EqualFold k ''max_tables_per_window''
      then ebind (dec_ptr_int v) (\<lambda>i. Inr (r\<lparr>kw_MaxTablesPerWindow := i\<rparr>))
      else if EqualFold k ''max_changes_per_window''
      then ebind (dec_ptr_int v) (\<lambda>i. Inr (r\<lparr>kw_MaxChangesPerWindow := i\<rparr>))
      else unknown_field k)"

definition dec_ptr_kindBudget ::
    "json \<Rightarrow> kindBudgetWire option \<Rightarrow> err + kindBudgetWire option" where
  "dec_ptr_kindBudget j old =
     (case j of JNull \<Rightarrow> Inr None
      | _ \<Rightarrow> ebind (dec_struct dec_kindBudget j
                (case old of None \<Rightarrow> kindBudgetWire0 | Some r \<Rightarrow> r)) (\<lambda>r. Inr (Some r)))"

fun dec_blastRadius :: "string \<times> json \<Rightarrow> blastRadiusWire \<Rightarrow> err + blastRadiusWire" where
  "dec_blastRadius (k, v) r =
     (if EqualFold k ''max_rows_rewritten''
      then ebind (dec_int v (bw_MaxRowsRewritten r)) (\<lambda>i. Inr (r\<lparr>bw_MaxRowsRewritten := i\<rparr>))
      else if EqualFold k ''max_tables_per_window''
      then ebind (dec_ptr_int v) (\<lambda>i. Inr (r\<lparr>bw_MaxTablesPerWindow := i\<rparr>))
      else if EqualFold k ''performance''
      then ebind (dec_ptr_kindBudget v (bw_Performance r)) (\<lambda>b. Inr (r\<lparr>bw_Performance := b\<rparr>))
      else if EqualFold k ''hygiene''
      then ebind (dec_ptr_kindBudget v (bw_Hygiene r)) (\<lambda>b. Inr (r\<lparr>bw_Hygiene := b\<rparr>))
      else unknown_field k)"

fun dec_rateLimits :: "string \<times> json \<Rightarrow> rateLimitsWire \<Rightarrow> err + rateLimitsWire" where
  "dec_rateLimits (k, v) r =
     (if EqualFold k ''max_self_initiated_changes_per_window''
      then ebind (dec_ptr_int v) (\<lambda>i. Inr (r\<lparr>rw_MaxSelfInitiatedChangesPerWindow := i\<rparr>))
      else unknown_field k)"

fun dec_document :: "string \<times> json \<Rightarrow> documentWire \<Rightarrow> err + documentWire" where
  "dec_document (k, v) r =
     (if EqualFold k ''allowed_change_classes''
      then ebind (dec_strs v) (\<lambda>x. Inr (r\<lparr>dw_AllowedChangeClasses := x\<rparr>))
      else if EqualFold k ''approval_required_classes''
      then ebind (dec_strs v) (\<lambda>x. Inr (r\<lparr>dw_ApprovalRequiredClasses := x\<rparr>))
      else if EqualFold k ''maintenance_windows''
      then ebind (dec_strs v) (\<lambda>x. Inr (r\<lparr>dw_MaintenanceWindows := x\<rparr>))
      else if EqualFold k ''lock_duration_ceiling_ms''
      then ebind (dec_int v (dw_LockDurationCeilingMS r))
             (\<lambda>x. Inr (r\<lparr>dw_LockDurationCeilingMS := x\<rparr>))
      else if EqualFold k ''blast_radius''
      then ebind (dec_struct dec_blastRadius v (dw_BlastRadius r))
             (\<lambda>x. Inr (r\<lparr>dw_BlastRadius := x\<rparr>))
      else if EqualFold k ''budgets'' then Inr (r\<lparr>dw_Budgets := Some v\<rparr>)
      else if EqualFold k ''rate_limits''
      then ebind (dec_struct dec_rateLimits v (dw_RateLimits r))
             (\<lambda>x. Inr (r\<lparr>dw_RateLimits := x\<rparr>))
      else if EqualFold k ''deadline_overrides''
      then ebind (dec_bool_map v (dw_DeadlineOverrides r))
             (\<lambda>x. Inr (r\<lparr>dw_DeadlineOverrides := x\<rparr>))
      else if EqualFold k ''refusal_set''
      then ebind (dec_strs v) (\<lambda>x. Inr (r\<lparr>dw_RefusalSet := x\<rparr>))
      else if EqualFold k ''unknown_classification''
      then ebind (dec_str v (dw_UnknownClassification r))
             (\<lambda>x. Inr (r\<lparr>dw_UnknownClassification := x\<rparr>))
      else if EqualFold k ''serialize_mode''
      then ebind (dec_str v (dw_SerializeMode r)) (\<lambda>x. Inr (r\<lparr>dw_SerializeMode := x\<rparr>))
      else unknown_field k)"

fun dec_budgets :: "string \<times> json \<Rightarrow> budgetWire \<Rightarrow> err + budgetWire" where
  "dec_budgets (k, v) r =
     (if EqualFold k ''storage_bytes'' then Inr (r\<lparr>bu_StorageBytes := Some v\<rparr>)
      else if EqualFold k ''spend_daily'' then Inr (r\<lparr>bu_SpendDaily := Some v\<rparr>)
      else if EqualFold k ''llm_tokens_daily'' then Inr (r\<lparr>bu_LLMTokensDaily := Some v\<rparr>)
      else unknown_field k)"

definition parseBudgetLimit :: "string \<Rightarrow> json option \<Rightarrow> err + BudgetLimit" where
  "parseBudgetLimit name raw =
     (case raw of
        None \<Rightarrow> Inl (''budgets.'' @ name @ '': missing'')
      | Some JNull \<Rightarrow> Inr NoCapBudget
      | Some j \<Rightarrow> ebind (dec_int j 0) (\<lambda>v. Inr (NewBudgetLimit v)))"

definition parseBudgets :: "json option \<Rightarrow> err + Budgets" where
  "parseBudgets raw =
     (case raw of
        None \<Rightarrow> Inl ''budgets: missing''
      | Some j \<Rightarrow>
          ebind (dec_struct dec_budgets j budgetWire0) (\<lambda>w.
          ebind (parseBudgetLimit ''storage_bytes'' (bu_StorageBytes w)) (\<lambda>storage.
          ebind (parseBudgetLimit ''spend_daily'' (bu_SpendDaily w)) (\<lambda>spend.
          ebind (parseBudgetLimit ''llm_tokens_daily'' (bu_LLMTokensDaily w)) (\<lambda>tokens.
            Inr \<lparr>b_StorageBytes = storage, b_SpendDaily = spend,
                 b_LLMTokensDaily = tokens\<rparr>)))))"

definition valueOr :: "int option \<Rightarrow> int \<Rightarrow> int" where
  "valueOr value fallback = (case value of None \<Rightarrow> fallback | Some v \<Rightarrow> v)"

definition agreeingLimit :: "string \<Rightarrow> int option \<Rightarrow> string \<Rightarrow> int option \<Rightarrow> err + int" where
  "agreeingLimit name current legacyName legacy =
     (case (current, legacy) of
        (Some c, Some l) \<Rightarrow>
          if c \<noteq> l then Inl (''blast_radius.performance.'' @ name @ ''='' @ itoa c @
                         '' conflicts with '' @ legacyName @ ''='' @ itoa l)
          else Inr c
      | _ \<Rightarrow> Inr (valueOr current (valueOr legacy 0)))"

definition blastRadiusFromWire ::
    "blastRadiusWire \<Rightarrow> rateLimitsWire \<Rightarrow> err + BlastRadius \<times> RateLimits" where
  "blastRadiusFromWire radius rates =
     (let performance = (case bw_Performance radius of
                           None \<Rightarrow> kindBudgetWire0 | Some p \<Rightarrow> p) in
      ebind (agreeingLimit ''max_tables_per_window'' (kw_MaxTablesPerWindow performance)
               ''blast_radius.max_tables_per_window'' (bw_MaxTablesPerWindow radius)) (\<lambda>tables.
      ebind (agreeingLimit ''max_changes_per_window'' (kw_MaxChangesPerWindow performance)
               ''rate_limits.max_self_initiated_changes_per_window''
               (rw_MaxSelfInitiatedChangesPerWindow rates)) (\<lambda>changes.
        let hygiene =
              (case bw_Hygiene radius of
                 None \<Rightarrow> DefaultHygieneBudget
               | Some h \<Rightarrow>
                   \<lparr>kb_MaxTablesPerWindow = valueOr (kw_MaxTablesPerWindow h)
                      (kb_MaxTablesPerWindow DefaultHygieneBudget),
                    kb_MaxChangesPerWindow = valueOr (kw_MaxChangesPerWindow h)
                      (kb_MaxChangesPerWindow DefaultHygieneBudget)\<rparr>)
        in Inr (\<lparr>br_MaxRowsRewritten = bw_MaxRowsRewritten radius,
                 br_MaxTablesPerWindow = tables, br_Hygiene = hygiene\<rparr>,
                \<lparr>rl_MaxSelfInitiatedChangesPerWindow = changes\<rparr>))))"

definition deadline_of_string :: "string \<Rightarrow> DeadlineKind" where
  "deadline_of_string s =
     (if s = ''xid'' then DeadlineXID else if s = ''disk'' then DeadlineDisk
      else DeadlineOther s)"

primrec deadline_string :: "DeadlineKind \<Rightarrow> string" where
  "deadline_string DeadlineXID = ''xid''"
| "deadline_string DeadlineDisk = ''disk''"
| "deadline_string (DeadlineOther s) = s"

definition documentFromWire :: "documentWire \<Rightarrow> Budgets \<Rightarrow> err + Document" where
  "documentFromWire wire budgets =
     ebind (blastRadiusFromWire (dw_BlastRadius wire) (dw_RateLimits wire)) (\<lambda>(radius, rates).
       Inr \<lparr>doc_Profile = ProfileOther [],
         doc_AllowedChangeClasses = dw_AllowedChangeClasses wire,
         doc_ApprovalRequiredClasses = dw_ApprovalRequiredClasses wire,
         doc_MaintenanceWindows = dw_MaintenanceWindows wire,
         doc_LockDurationCeilingMS = dw_LockDurationCeilingMS wire,
         doc_BlastRadius = radius, doc_Budgets = budgets, doc_RateLimits = rates,
         doc_DeadlineOverrides =
           map (\<lambda>(k, b). (deadline_of_string k, b)) (dw_DeadlineOverrides wire),
         doc_RefusalSet = dw_RefusalSet wire,
         doc_UnknownClassification = dw_UnknownClassification wire,
         doc_SerializeMode = dw_SerializeMode wire\<rparr>)"

definition ParseDocument :: "golib \<Rightarrow> json \<Rightarrow> err + Document" where
  "ParseDocument lib raw =
     ebind (dec_struct dec_document raw documentWire0) (\<lambda>wire.
     ebind (parseBudgets (dw_Budgets wire)) (\<lambda>budgets.
     ebind (documentFromWire wire budgets) (\<lambda>doc.
     ebind (ValidateDocument lib doc) (\<lambda>_. Inr doc))))"

subsection \<open>Encoding\<close>

definition budgetJSONValue :: "BudgetLimit \<Rightarrow> json" where
  "budgetJSONValue limit = (case bl_value limit of Some v \<Rightarrow> JInt v | None \<Rightarrow> JNull)"

definition kindBudgetJSON :: "KindBudget \<Rightarrow> json" where
  "kindBudgetJSON b = JObj [(''max_tables_per_window'', JInt (kb_MaxTablesPerWindow b)),
     (''max_changes_per_window'', JInt (kb_MaxChangesPerWindow b))]"

definition blastRadiusJSON :: "Document \<Rightarrow> json" where
  "blastRadiusJSON doc = JObj
     ((if Document_Budget doc BudgetHygiene \<noteq> DefaultHygieneBudget
       then [(''hygiene'', kindBudgetJSON (Document_Budget doc BudgetHygiene))] else []) @
      [(''max_rows_rewritten'', JInt (br_MaxRowsRewritten (doc_BlastRadius doc))),
       (''max_tables_per_window'',
        JInt (kb_MaxTablesPerWindow (Document_Budget doc BudgetPerformance)))])"

definition rateLimitsJSON :: "Document \<Rightarrow> json" where
  "rateLimitsJSON doc = JObj [(''max_self_initiated_changes_per_window'',
     JInt (kb_MaxChangesPerWindow (Document_Budget doc BudgetPerformance)))]"

definition strings_json :: "string list \<Rightarrow> json" where
  "strings_json ss = JArr (map JStr ss)"

definition MarshalDocument :: "golib \<Rightarrow> Document \<Rightarrow> err + json" where
  "MarshalDocument lib doc =
     ebind (ValidateDocument lib doc) (\<lambda>_.
       Inr (JObj
         [(''allowed_change_classes'', strings_json (doc_AllowedChangeClasses doc)),
          (''approval_required_classes'', strings_json (doc_ApprovalRequiredClasses doc)),
          (''blast_radius'', blastRadiusJSON doc),
          (''budgets'', JObj
             [(''llm_tokens_daily'', budgetJSONValue (b_LLMTokensDaily (doc_Budgets doc))),
              (''spend_daily'', budgetJSONValue (b_SpendDaily (doc_Budgets doc))),
              (''storage_bytes'', budgetJSONValue (b_StorageBytes (doc_Budgets doc)))]),
          (''deadline_overrides'',
             JObj (map (\<lambda>(k, b). (deadline_string k, JBool b)) (doc_DeadlineOverrides doc))),
          (''lock_duration_ceiling_ms'', JInt (doc_LockDurationCeilingMS doc)),
          (''maintenance_windows'', strings_json (doc_MaintenanceWindows doc)),
          (''rate_limits'', rateLimitsJSON doc),
          (''refusal_set'', strings_json (doc_RefusalSet doc)),
          (''serialize_mode'', JStr (doc_SerializeMode doc)),
          (''unknown_classification'', JStr (doc_UnknownClassification doc))]))"

definition WidensJSON :: "golib \<Rightarrow> json \<Rightarrow> json \<Rightarrow> bool \<times> err option" where
  "WidensJSON lib base next =
     (case ParseDocument lib next of
        Inl e \<Rightarrow> (True, Some (''invalid policy document: '' @ e))
      | Inr nextDoc \<Rightarrow>
          (case ParseDocument lib base of
             Inl e \<Rightarrow> (True, Some (''current policy unreadable: '' @ e))
           | Inr baseDoc \<Rightarrow> (Widens baseDoc nextDoc, None)))"

subsection \<open>Round trip\<close>

text \<open>The field names are their own lower-case form, so on them folding is equality.\<close>

lemma ToLower_names [simp]:
  "ToLower ''allowed_change_classes'' = ''allowed_change_classes''"
  "ToLower ''approval_required_classes'' = ''approval_required_classes''"
  "ToLower ''blast_radius'' = ''blast_radius''"
  "ToLower ''budgets'' = ''budgets''"
  "ToLower ''deadline_overrides'' = ''deadline_overrides''"
  "ToLower ''lock_duration_ceiling_ms'' = ''lock_duration_ceiling_ms''"
  "ToLower ''maintenance_windows'' = ''maintenance_windows''"
  "ToLower ''rate_limits'' = ''rate_limits''"
  "ToLower ''refusal_set'' = ''refusal_set''"
  "ToLower ''serialize_mode'' = ''serialize_mode''"
  "ToLower ''unknown_classification'' = ''unknown_classification''"
  "ToLower ''hygiene'' = ''hygiene''"
  "ToLower ''performance'' = ''performance''"
  "ToLower ''max_rows_rewritten'' = ''max_rows_rewritten''"
  "ToLower ''max_tables_per_window'' = ''max_tables_per_window''"
  "ToLower ''max_changes_per_window'' = ''max_changes_per_window''"
  "ToLower ''max_self_initiated_changes_per_window'' = ''max_self_initiated_changes_per_window''"
  "ToLower ''llm_tokens_daily'' = ''llm_tokens_daily''"
  "ToLower ''spend_daily'' = ''spend_daily''"
  "ToLower ''storage_bytes'' = ''storage_bytes''"
  by code_simp+

lemma dec_strs_json [simp]: "dec_strs (strings_json ss) = Inr ss"
proof -
  have "emap (\<lambda>x. dec_str x []) (map JStr ss) = Inr ss"
    by (induction ss) (simp_all add: dec_str_def)
  then show ?thesis by (simp add: dec_strs_def strings_json_def)
qed

text \<open>What the Go types guarantee of any document value: the integers are 64-bit, the
  overrides are a map, and a kind is spelled by its constant.\<close>

definition limit_typed :: "BudgetLimit \<Rightarrow> bool" where
  "limit_typed l = (case bl_value l of None \<Rightarrow> True | Some v \<Rightarrow> fits64 v)"

definition doc_typed :: "Document \<Rightarrow> bool" where
  "doc_typed doc \<longleftrightarrow>
     fits64 (doc_LockDurationCeilingMS doc) \<and>
     fits64 (br_MaxRowsRewritten (doc_BlastRadius doc)) \<and>
     fits64 (br_MaxTablesPerWindow (doc_BlastRadius doc)) \<and>
     fits64 (kb_MaxTablesPerWindow (br_Hygiene (doc_BlastRadius doc))) \<and>
     fits64 (kb_MaxChangesPerWindow (br_Hygiene (doc_BlastRadius doc))) \<and>
     fits64 (rl_MaxSelfInitiatedChangesPerWindow (doc_RateLimits doc)) \<and>
     limit_typed (b_StorageBytes (doc_Budgets doc)) \<and>
     limit_typed (b_SpendDaily (doc_Budgets doc)) \<and>
     limit_typed (b_LLMTokensDaily (doc_Budgets doc)) \<and>
     distinct (map fst (doc_DeadlineOverrides doc)) \<and>
     list_all (\<lambda>(k, _). deadline_of_string (deadline_string k) = k) (doc_DeadlineOverrides doc)"

lemma dec_bool_members:
  assumes "distinct (map fst m @ map fst kvs)"
  shows "dec_members (\<lambda>(k, v) m. ebind (dec_bool v False) (\<lambda>b. Inr (AList.update k b m)))
     (map (\<lambda>(k, b). (k, JBool b)) kvs) m = Inr (m @ kvs)"
  using assms
proof (induction kvs arbitrary: m)
  case Nil
  then show ?case by simp
next
  case (Cons kv kvs)
  obtain k b where kv: "kv = (k, b)" by (cases kv)
  have new: "AList.update k b m = m @ [(k, b)]"
    using Cons.prems kv by (induction m) auto
  show ?case using Cons.IH [of "m @ [(k, b)]"] Cons.prems kv
    by (auto simp: dec_bool_def new)
qed

lemma deadline_string_inj:
  assumes "list_all (\<lambda>(k, _). deadline_of_string (deadline_string k) = k) m"
    and "distinct (map fst m)"
  shows "distinct (map (deadline_string \<circ> fst) m)"
    and "map (\<lambda>(k, b). (deadline_of_string k, b)) (map (\<lambda>(k, b). (deadline_string k, b)) m) = m"
proof -
  have "inj_on deadline_string (fst ` set m)"
    using assms(1)
    by (intro inj_on_inverseI [where g = deadline_of_string]) (auto simp: list_all_iff)
  then show "distinct (map (deadline_string \<circ> fst) m)"
    using assms(2) by (simp add: distinct_map comp_inj_on)
  show "map (\<lambda>(k, b). (deadline_of_string k, b)) (map (\<lambda>(k, b). (deadline_string k, b)) m) = m"
    using assms(1) by (induction m) auto
qed

lemma dec_overrides_json:
  assumes "list_all (\<lambda>(k, _). deadline_of_string (deadline_string k) = k) m"
    and "distinct (map fst m)"
  shows "dec_bool_map (JObj (map (\<lambda>(k, b). (deadline_string k, JBool b)) m)) [] =
    Inr (map (\<lambda>(k, b). (deadline_string k, b)) m)"
proof -
  let ?kvs = "map (\<lambda>(k, b). (deadline_string k, b)) m"
  have "map fst ?kvs = map (deadline_string \<circ> fst) m" by (auto simp: o_def split_def)
  with deadline_string_inj(1) [OF assms] have "distinct (map fst ?kvs)"
    by (simp only:)
  then have "distinct (map fst [] @ map fst ?kvs)"
    by (simp only: list.map append_Nil)
  from dec_bool_members [OF this] show ?thesis
    by (simp add: dec_bool_map_def o_def split_def)
qed

lemma parseBudgetLimit_json:
  assumes "bl_Present l" "limit_typed l"
  shows "parseBudgetLimit name (Some (budgetJSONValue l)) = Inr l"
proof -
  have "l = \<lparr>bl_Present = True, bl_value = bl_value l\<rparr>"
    using assms(1) by (cases l) simp
  then show ?thesis
    using assms(2)
    by (cases "bl_value l")
       (simp_all add: parseBudgetLimit_def budgetJSONValue_def NoCapBudget_def
         NewBudgetLimit_def dec_int_def limit_typed_def)
qed

lemma validateBudgets_present:
  "isOk (validateBudgets b) \<Longrightarrow>
    bl_Present (b_StorageBytes b) \<and> bl_Present (b_SpendDaily b) \<and>
    bl_Present (b_LLMTokensDaily b)"
  by (auto simp: validateBudgets_def isOk_def split: if_splits sum.splits option.splits)

lemma dec_blastRadius_json:
  assumes "doc_typed doc"
  shows "\<exists>w. dec_struct dec_blastRadius (blastRadiusJSON doc) (dw_BlastRadius documentWire0) = Inr w \<and>
    blastRadiusFromWire w \<lparr>rw_MaxSelfInitiatedChangesPerWindow =
      Some (rl_MaxSelfInitiatedChangesPerWindow (doc_RateLimits doc))\<rparr> =
    Inr (doc_BlastRadius doc, doc_RateLimits doc)"
proof -
  obtain rows tables ht hc where br: "doc_BlastRadius doc = \<lparr>br_MaxRowsRewritten = rows,
      br_MaxTablesPerWindow = tables,
      br_Hygiene = \<lparr>kb_MaxTablesPerWindow = ht, kb_MaxChangesPerWindow = hc\<rparr>\<rparr>"
    by (metis BlastRadius.cases KindBudget.cases unit.exhaust)
  then show ?thesis
    using assms
    by (auto simp: blastRadiusJSON_def Document_Budget_def dec_struct_def EqualFold_def
        dec_int_def dec_ptr_int_def doc_typed_def documentWire0_def blastRadiusFromWire_def
        agreeingLimit_def valueOr_def kindBudgetWire0_def kindBudgetJSON_def
        dec_ptr_kindBudget_def DefaultHygieneBudget_def)
qed

lemma ValidateDocument_profile [simp]:
  "ValidateDocument lib (doc\<lparr>doc_Profile := p\<rparr>) = ValidateDocument lib doc"
  by (simp add: ValidateDocument_def validateBlastRadius_def Document_Budget_def Let_def
      cong: if_cong)

lemma ValidateDocument_budgets:
  "ValidateDocument lib doc = Inr () \<Longrightarrow> isOk (validateBudgets (doc_Budgets doc))"
  by (auto simp: ValidateDocument_def ebind_Inr_iff isOk_def split: if_splits)

lemma parseBudgets_json:
  assumes "isOk (validateBudgets b)"
    "limit_typed (b_StorageBytes b)" "limit_typed (b_SpendDaily b)"
    "limit_typed (b_LLMTokensDaily b)"
  shows "parseBudgets (Some (JObj
     [(''llm_tokens_daily'', budgetJSONValue (b_LLMTokensDaily b)),
      (''spend_daily'', budgetJSONValue (b_SpendDaily b)),
      (''storage_bytes'', budgetJSONValue (b_StorageBytes b))])) = Inr b"
  using validateBudgets_present [OF assms(1)] assms(2-)
  by (simp add: parseBudgets_def dec_struct_def EqualFold_def budgetWire0_def
      parseBudgetLimit_json)

lemma dec_document_json:
  assumes w: "dec_struct dec_blastRadius (blastRadiusJSON doc) (dw_BlastRadius documentWire0) = Inr w"
    and o: "dec_bool_map (JObj (map (\<lambda>(k, b). (deadline_string k, JBool b))
        (doc_DeadlineOverrides doc))) [] =
      Inr (map (\<lambda>(k, b). (deadline_string k, b)) (doc_DeadlineOverrides doc))"
    and typed: "doc_typed doc"
  shows "dec_struct dec_document (JObj
         [(''allowed_change_classes'', strings_json (doc_AllowedChangeClasses doc)),
          (''approval_required_classes'', strings_json (doc_ApprovalRequiredClasses doc)),
          (''blast_radius'', blastRadiusJSON doc), (''budgets'', B),
          (''deadline_overrides'',
             JObj (map (\<lambda>(k, b). (deadline_string k, JBool b)) (doc_DeadlineOverrides doc))),
          (''lock_duration_ceiling_ms'', JInt (doc_LockDurationCeilingMS doc)),
          (''maintenance_windows'', strings_json (doc_MaintenanceWindows doc)),
          (''rate_limits'', rateLimitsJSON doc),
          (''refusal_set'', strings_json (doc_RefusalSet doc)),
          (''serialize_mode'', JStr (doc_SerializeMode doc)),
          (''unknown_classification'', JStr (doc_UnknownClassification doc))]) documentWire0 =
      Inr \<lparr>dw_AllowedChangeClasses = doc_AllowedChangeClasses doc,
        dw_ApprovalRequiredClasses = doc_ApprovalRequiredClasses doc,
        dw_MaintenanceWindows = doc_MaintenanceWindows doc,
        dw_LockDurationCeilingMS = doc_LockDurationCeilingMS doc, dw_BlastRadius = w,
        dw_Budgets = Some B, dw_RateLimits = \<lparr>rw_MaxSelfInitiatedChangesPerWindow =
          Some (rl_MaxSelfInitiatedChangesPerWindow (doc_RateLimits doc))\<rparr>,
        dw_DeadlineOverrides =
          map (\<lambda>(k, b). (deadline_string k, b)) (doc_DeadlineOverrides doc),
        dw_RefusalSet = doc_RefusalSet doc,
        dw_UnknownClassification = doc_UnknownClassification doc,
        dw_SerializeMode = doc_SerializeMode doc\<rparr>"
  using w o typed
  by (simp add: dec_struct_def [of dec_document] dec_struct_def [of dec_rateLimits]
      EqualFold_def documentWire0_def dec_int_def dec_str_def rateLimitsJSON_def
      Document_Budget_def dec_ptr_int_def doc_typed_def)

lemma parse_marshal:
  assumes valid: "ValidateDocument lib doc = Inr ()" and typed: "doc_typed doc"
  shows "ebind (MarshalDocument lib doc) (ParseDocument lib) =
    Inr (doc\<lparr>doc_Profile := ProfileOther []\<rparr>)"
proof -
  obtain w where
    w: "dec_struct dec_blastRadius (blastRadiusJSON doc) (dw_BlastRadius documentWire0) = Inr w"
    and br: "blastRadiusFromWire w \<lparr>rw_MaxSelfInitiatedChangesPerWindow =
      Some (rl_MaxSelfInitiatedChangesPerWindow (doc_RateLimits doc))\<rparr> =
    Inr (doc_BlastRadius doc, doc_RateLimits doc)"
    using dec_blastRadius_json [OF typed] by blast
  have o: "dec_bool_map (JObj (map (\<lambda>(k, b). (deadline_string k, JBool b))
        (doc_DeadlineOverrides doc))) [] =
      Inr (map (\<lambda>(k, b). (deadline_string k, b)) (doc_DeadlineOverrides doc))"
    and o': "map (\<lambda>(k, b). (deadline_of_string k, b))
        (map (\<lambda>(k, b). (deadline_string k, b)) (doc_DeadlineOverrides doc)) =
      doc_DeadlineOverrides doc"
    using typed dec_overrides_json deadline_string_inj(2) unfolding doc_typed_def by blast+
  have b: "parseBudgets (Some (JObj
     [(''llm_tokens_daily'', budgetJSONValue (b_LLMTokensDaily (doc_Budgets doc))),
      (''spend_daily'', budgetJSONValue (b_SpendDaily (doc_Budgets doc))),
      (''storage_bytes'', budgetJSONValue (b_StorageBytes (doc_Budgets doc)))])) =
      Inr (doc_Budgets doc)"
    using parseBudgets_json [OF ValidateDocument_budgets [OF valid]] typed
    by (simp add: doc_typed_def)
  have doc': "\<lparr>doc_Profile = ProfileOther [],
      doc_AllowedChangeClasses = doc_AllowedChangeClasses doc,
      doc_ApprovalRequiredClasses = doc_ApprovalRequiredClasses doc,
      doc_MaintenanceWindows = doc_MaintenanceWindows doc,
      doc_LockDurationCeilingMS = doc_LockDurationCeilingMS doc,
      doc_BlastRadius = doc_BlastRadius doc, doc_Budgets = doc_Budgets doc,
      doc_RateLimits = doc_RateLimits doc, doc_DeadlineOverrides = doc_DeadlineOverrides doc,
      doc_RefusalSet = doc_RefusalSet doc,
      doc_UnknownClassification = doc_UnknownClassification doc,
      doc_SerializeMode = doc_SerializeMode doc\<rparr> = doc\<lparr>doc_Profile := ProfileOther []\<rparr>"
    by (cases doc) simp
  show ?thesis
    using valid
    by (simp add: MarshalDocument_def ParseDocument_def dec_document_json [OF w o typed] b documentFromWire_def br o' doc'
        del: map_map)
qed

text \<open>
  C29: reading back a saved policy document gives the document, for every valid document:
  every class, window, limit, budget, override and refusal token survives, whatever they
  are. Only the profile name, which is stored in its own column, is not in the document.
\<close>

theorem ParseDocument_MarshalDocument:
  assumes "ValidateDocument lib doc = Inr ()" and "doc_typed doc"
  shows "ebind (MarshalDocument lib doc) (ParseDocument lib) =
    Inr (doc\<lparr>doc_Profile := ProfileOther []\<rparr>)"
  by (rule parse_marshal [OF assms])

theorem ParseDocument_MarshalDocument_witness:
  "ebind (MarshalDocument \<lparr>lib_LoadLocation = (\<lambda>_. None), lib_ParseDuration = (\<lambda>_. None)\<rparr>
       UnattendedProfile)
     (ParseDocument \<lparr>lib_LoadLocation = (\<lambda>_. None), lib_ParseDuration = (\<lambda>_. None)\<rparr>) =
   Inr (UnattendedProfile\<lparr>doc_Profile := ProfileOther []\<rparr>)"
  by (rule ParseDocument_MarshalDocument) code_simp+

end
