(* ===== verification/Budget.thy ===== *)
theory Budget
  imports Wire
begin

text \<open>
  Decision constructors (\<^verbatim>\<open>gate.go\<close>) and the blast-radius budgets of
  \<^verbatim>\<open>budget.go\<close>: which kind a request spends, which requests bypass the kind
  budgets, and the limit check itself. A Go pair \<open>(Decision, bool)\<close> whose flag says
  "stop here" is an option.
\<close>

subsection \<open>Decisions\<close>

definition blocked :: "Reason \<Rightarrow> string \<Rightarrow> Decision" where
  "blocked reason detail =
     Decision0\<lparr>d_Verdict := VerdictBlocked, d_Reason := reason, d_Detail := detail\<rparr>"

definition blockedAs :: "Verdict \<Rightarrow> Reason \<Rightarrow> Decision" where
  "blockedAs verdict reason = Decision0\<lparr>d_Verdict := verdict, d_Reason := reason\<rparr>"

definition parked :: "Reason \<Rightarrow> string \<Rightarrow> Decision" where
  "parked reason detail =
     Decision0\<lparr>d_Verdict := VerdictPark, d_Reason := reason, d_Detail := detail\<rparr>"

definition decisionForRequest :: "ActionRequest \<Rightarrow> Decision \<Rightarrow> Decision" where
  "decisionForRequest req decision =
     (case r_Contract req of
        None \<Rightarrow> decision
      | Some c \<Rightarrow> decision\<lparr>d_RiskTier := c_RiskTier c, d_Guardrails := c_Guardrails c\<rparr>)"

definition gate_decision :: "ActionRequest \<Rightarrow> Verdict \<Rightarrow> Reason \<Rightarrow> Decision" where
  "gate_decision req verdict reason = decisionForRequest req (blockedAs verdict reason)"

definition restricted :: "ActionRequest \<Rightarrow> Verdict \<Rightarrow> Reason \<Rightarrow> string \<Rightarrow> Decision" where
  "restricted req verdict reason detail =
     (decisionForRequest req (blockedAs verdict reason))\<lparr>d_Detail := detail\<rparr>"

text \<open>What the constructors put in the fields the gate reads back.\<close>

lemma decision_fields [simp]:
  "d_Verdict (blocked r s) = VerdictBlocked" "d_Reason (blocked r s) = r"
  "d_Detail (blocked r s) = s"
  "d_Verdict (blockedAs v r) = v" "d_Reason (blockedAs v r) = r" "d_Detail (blockedAs v r) = []"
  "d_Verdict (parked r s) = VerdictPark" "d_Reason (parked r s) = r" "d_Detail (parked r s) = s"
  "d_OffWindowOK (blocked r s) = False" "d_OffWindowOK (blockedAs v r) = False"
  "d_OffWindowOK (parked r s) = False"
  "d_VerificationWait (blockedAs v r) = None" "d_VerificationWait (blocked r s) = None"
  "d_VerificationWait (parked r s) = None"
  by (simp_all add: blocked_def blockedAs_def parked_def Decision0_def)

lemma decisionForRequest_fields [simp]:
  "d_Verdict (decisionForRequest req d) = d_Verdict d"
  "d_Reason (decisionForRequest req d) = d_Reason d"
  "d_Detail (decisionForRequest req d) = d_Detail d"
  "d_OffWindowOK (decisionForRequest req d) = d_OffWindowOK d"
  "d_BudgetKind (decisionForRequest req d) = d_BudgetKind d"
  "d_RowsRewritten (decisionForRequest req d) = d_RowsRewritten d"
  "d_LockCeilingMS (decisionForRequest req d) = d_LockCeilingMS d"
  "d_SerializeMode (decisionForRequest req d) = d_SerializeMode d"
  "d_Trusted (decisionForRequest req d) = d_Trusted d"
  "d_VerificationWait (decisionForRequest req d) = d_VerificationWait d"
  by (simp_all add: decisionForRequest_def split: option.splits)

lemma decisionForRequest_idem [simp]:
  "decisionForRequest req (decisionForRequest req d) = decisionForRequest req d"
  by (simp add: decisionForRequest_def split: option.splits)

lemma gate_decision_fields [simp]:
  "d_Verdict (gate_decision req v r) = v" "d_Reason (gate_decision req v r) = r"
  "d_Detail (gate_decision req v r) = []" "d_OffWindowOK (gate_decision req v r) = False"
  by (simp_all add: gate_decision_def)

lemma restricted_fields [simp]:
  "d_Verdict (restricted req v r s) = v" "d_Reason (restricted req v r s) = r"
  "d_Detail (restricted req v r s) = s"
  by (simp_all add: restricted_def)

subsection \<open>Budget kinds\<close>

definition BudgetWindow :: duration where "BudgetWindow = 24 * hour"

definition BudgetKindFor :: "ActionRequest \<Rightarrow> BudgetKind" where
  "BudgetKindFor req =
     (case r_Contract req of
        None \<Rightarrow> BudgetPerformance
      | Some c \<Rightarrow>
          if c_ActionType c \<in> {''drop_unused_index'', ''vacuum_table'', ''analyze_table''}
          then BudgetHygiene else BudgetPerformance)"

definition spendsBudget :: "ActionRequest \<Rightarrow> bool" where
  "spendsBudget req \<longleftrightarrow>
     \<not> r_OperatorApproved req \<and>
     (case r_Contract req of
        None \<Rightarrow> False
      | Some c \<Rightarrow> c_RiskTier c \<noteq> RiskReadOnly \<and> \<not> c_Narrowing c)"

record budgetNote =
  n_read :: bool
  n_kind :: BudgetKind
  n_rows :: int
  n_bypass :: string

definition budgetNote0 :: budgetNote where
  "budgetNote0 = \<lparr>n_read = False, n_kind = BudgetOther [], n_rows = 0, n_bypass = []\<rparr>"

definition stamp :: "budgetNote \<Rightarrow> Decision \<Rightarrow> Decision" where
  "stamp note decision =
     (let decision = (if n_read note
                      then decision\<lparr>d_BudgetKind := n_kind note, d_RowsRewritten := n_rows note\<rparr>
                      else decision)
      in if n_bypass note \<noteq> []
         then (let decision = decision\<lparr>d_BudgetKind := BudgetBypass\<rparr>
               in if d_Detail decision = []
                  then decision\<lparr>d_Detail := ''budget bypass: '' @ n_bypass note\<rparr>
                  else decision)
         else decision)"

lemma stamp_fields [simp]:
  "d_Verdict (stamp n d) = d_Verdict d" "d_Reason (stamp n d) = d_Reason d"
  "d_OffWindowOK (stamp n d) = d_OffWindowOK d" "d_LockCeilingMS (stamp n d) = d_LockCeilingMS d"
  "d_SerializeMode (stamp n d) = d_SerializeMode d"
  by (simp_all add: stamp_def Let_def)

subsection \<open>The limit check\<close>

definition budgetExceeded :: "BudgetLimit \<Rightarrow> int \<Rightarrow> bool" where
  "budgetExceeded limit usage =
     (if NoCap limit then False
      else (case bl_value limit of
              None \<Rightarrow> True
            | Some value \<Rightarrow> value = 0 \<or> usage > value))"

definition positiveExceeded :: "int \<Rightarrow> int \<Rightarrow> bool \<Rightarrow> bool" where
  "positiveExceeded limit usage includeEqual =
     (if limit = 0 then usage > 0
      else if includeEqual then usage \<ge> limit
      else usage > limit)"

definition freesAt :: "instant \<Rightarrow> string" where
  "freesAt at =
     (if IsZero at then ''it does not free until the policy limit is raised''
      else ''next frees at '' @ FormatRFC3339 at)"

definition windowName :: string where
  "windowName = itoa (BudgetWindow div hour) @ ''h''"

definition kindDetail :: "BudgetKind \<Rightarrow> string \<Rightarrow> int \<Rightarrow> int \<Rightarrow> instant \<Rightarrow> string" where
  "kindDetail kind unit used limit freeAt =
     budgetKind_string kind @ '' budget full: '' @ itoa used @ '' of '' @ itoa limit @ '' '' @
     unit @ '' in the '' @ windowName @ '' window; '' @ freesAt freeAt"

definition rowsDetail :: "Document \<Rightarrow> LimitUsage \<Rightarrow> string" where
  "rowsDetail doc usage =
     (let limit = br_MaxRowsRewritten (doc_BlastRadius doc);
          free = (if u_RequestRowsRewritten usage > limit
                  then ''this change alone exceeds the limit; '' @ freesAt 0
                  else freesAt (u_RowsFreeAt usage))
      in ''rows rewritten budget full (shared by all kinds): '' @ itoa (u_RowsRewritten usage) @
         '' of '' @ itoa limit @ '' rows in the '' @ windowName @ '' window, '' @
         itoa (u_RequestRowsRewritten usage) @ '' of them this change's; '' @ free)"

definition limitDecision ::
    "Document \<Rightarrow> BudgetKind \<Rightarrow> LimitUsage \<Rightarrow> bool \<Rightarrow> Decision option" where
  "limitDecision doc kind usage bypass =
     (if budgetExceeded (b_StorageBytes (doc_Budgets doc)) (u_StorageBytes usage)
      then Some (blockedAs VerdictPark ReasonBudgetExceeded)
      else if positiveExceeded (br_MaxRowsRewritten (doc_BlastRadius doc))
                (u_RowsRewritten usage) False
      then Some (parked ReasonBlastRadiusExceeded (rowsDetail doc usage))
      else if bypass then None
      else (let budget = Document_Budget doc kind; changes = u_SelfInitiatedChangesInWindow usage
            in if positiveExceeded (kb_MaxTablesPerWindow budget) (u_TablesInWindow usage) False
               then Some (parked ReasonBlastRadiusExceeded
                 (kindDetail kind ''tables'' (u_TablesInWindow usage)
                   (kb_MaxTablesPerWindow budget) (u_TablesFreeAt usage)))
               else if positiveExceeded (kb_MaxChangesPerWindow budget) changes True
               then Some (parked ReasonRateLimitExceeded
                 (kindDetail kind ''changes'' changes (kb_MaxChangesPerWindow budget)
                   (u_ChangesFreeAt usage)))
               else None))"

subsection \<open>Bypass\<close>

definition diskMitigation :: "string \<Rightarrow> bool" where
  "diskMitigation actionType \<longleftrightarrow>
     actionType \<in> {''vacuum_table'', ''drop_unused_index'', ''reindex_concurrently''}"

definition BudgetBypassFor :: "ActionRequest \<Rightarrow> instant \<Rightarrow> string" where
  "BudgetBypassFor req now =
     (case r_Contract req of
        None \<Rightarrow> []
      | Some c \<Rightarrow>
          let action = c_ActionType c in
          if action = ''revert_created_index'' then ''revert of an index pg_sage created''
          else if r_Rollback req then ''rollback of pg_sage's own change''
          else (case r_Deadline req of
                  None \<Rightarrow> []
                | Some deadline \<Rightarrow>
                    if dl_Urgency deadline \<noteq> UrgencyCritical \<or> \<not> dl_HardAt deadline > now
                    then []
                    else if dl_Kind deadline = DeadlineXID \<and> action = ''vacuum_table''
                    then ''xid runway critical, wraparound hard deadline '' @
                         FormatRFC3339 (dl_HardAt deadline)
                    else if dl_Kind deadline = DeadlineDisk \<and> diskMitigation action
                    then ''disk runway critical, hard deadline '' @
                         FormatRFC3339 (dl_HardAt deadline)
                    else []))"

subsection \<open>Lemmas\<close>

lemma limitDecision_verdict: "limitDecision doc k u b = Some d \<Longrightarrow> d_Verdict d = VerdictPark"
  by (auto simp: limitDecision_def Let_def split: if_splits)

text \<open>What being inside the limits means, on documents that pass validation.\<close>

definition within_limits :: "Document \<Rightarrow> BudgetKind \<Rightarrow> LimitUsage \<Rightarrow> bool \<Rightarrow> bool" where
  "within_limits doc kind usage bypass \<longleftrightarrow>
     (case bl_value (b_StorageBytes (doc_Budgets doc)) of
        None \<Rightarrow> True | Some v \<Rightarrow> v \<noteq> 0 \<and> u_StorageBytes usage \<le> v) \<and>
     u_RowsRewritten usage \<le> br_MaxRowsRewritten (doc_BlastRadius doc) \<and>
     (bypass \<or>
       u_TablesInWindow usage \<le> kb_MaxTablesPerWindow (Document_Budget doc kind) \<and>
       u_SelfInitiatedChangesInWindow usage < max 1 (kb_MaxChangesPerWindow (Document_Budget doc kind)))"

lemma positiveExceeded_simps:
  "positiveExceeded l u False \<longleftrightarrow> u > l"
  "0 \<le> l \<Longrightarrow> positiveExceeded l u True \<longleftrightarrow> u \<ge> max 1 l"
  by (auto simp: positiveExceeded_def)

lemma validate_budget_nonneg:
  assumes "isOk (ValidateDocument lib doc)"
  shows "0 \<le> br_MaxRowsRewritten (doc_BlastRadius doc)"
    "0 \<le> kb_MaxTablesPerWindow (Document_Budget doc kind)"
    "0 \<le> kb_MaxChangesPerWindow (Document_Budget doc kind)"
    "bl_Present (b_StorageBytes (doc_Budgets doc))"
    "bl_value (b_StorageBytes (doc_Budgets doc)) = Some v \<Longrightarrow> 0 \<le> v"
proof -
  from assms have r: "isOk (validateBlastRadius doc)" and b: "isOk (validateBudgets (doc_Budgets doc))"
    by (simp_all add: isOk_ValidateDocument_iff)
  from r show "0 \<le> br_MaxRowsRewritten (doc_BlastRadius doc)"
    by (auto simp: validateBlastRadius_def split: if_splits)
  from r have "0 \<le> kb_MaxTablesPerWindow (Document_Budget doc k) \<and>
      0 \<le> kb_MaxChangesPerWindow (Document_Budget doc k)"
    if "k \<in> {BudgetPerformance, BudgetHygiene}" for k
    using that by (auto simp: validateBlastRadius_def Let_def split: if_splits)
  from this [of "if kind = BudgetHygiene then BudgetHygiene else BudgetPerformance"]
  show "0 \<le> kb_MaxTablesPerWindow (Document_Budget doc kind)"
    "0 \<le> kb_MaxChangesPerWindow (Document_Budget doc kind)"
    by (auto simp: Document_Budget_def split: if_splits)
  from b show "bl_Present (b_StorageBytes (doc_Budgets doc))"
    by (auto simp: validateBudgets_def split: if_splits)
  from b show "0 \<le> v" if "bl_value (b_StorageBytes (doc_Budgets doc)) = Some v"
    using that by (auto simp: validateBudgets_def split: if_splits)
qed

lemma limitDecision_None_iff:
  assumes "isOk (ValidateDocument lib doc)"
  shows "limitDecision doc kind usage bypass = None \<longleftrightarrow> within_limits doc kind usage bypass"
  using validate_budget_nonneg [OF assms]
  by (auto simp: limitDecision_def within_limits_def budgetExceeded_def NoCap_def Let_def
      positiveExceeded_simps not_less not_le split: option.splits)

text \<open>A document that does not widen another admits no usage the other parks.\<close>

lemma within_limits_mono:
  assumes w: "\<not> limitsWiden base next" "\<not> budgetsWiden (doc_Budgets base) (doc_Budgets next)"
    and ok: "isOk (ValidateDocument lib base)" "isOk (ValidateDocument lib next)"
    and n: "within_limits next kind usage bypass"
  shows "within_limits base kind usage bypass"
proof -
  have "\<not> limitWidens (b_StorageBytes (doc_Budgets base)) (b_StorageBytes (doc_Budgets next))"
    using w(2) by (simp add: budgetsWiden_def)
  with validate_budget_nonneg(4,5) [OF ok(1)] validate_budget_nonneg(4,5) [OF ok(2)] n
  have "case bl_value (b_StorageBytes (doc_Budgets base)) of
        None \<Rightarrow> True | Some v \<Rightarrow> v \<noteq> 0 \<and> u_StorageBytes usage \<le> v"
    by (fastforce simp: within_limits_def limitWidens_def NoCap_def split: option.splits)
  moreover have "kb_MaxTablesPerWindow (Document_Budget next kind) \<le>
      kb_MaxTablesPerWindow (Document_Budget base kind)"
    "kb_MaxChangesPerWindow (Document_Budget next kind) \<le>
      kb_MaxChangesPerWindow (Document_Budget base kind)"
    using w(1) by (auto simp: limitsWiden_def Document_Budget_def Let_def)
  ultimately show ?thesis using n w(1)
    by (auto simp: within_limits_def limitsWiden_def Let_def)
qed

subsection \<open>Properties\<close>



text \<open>
  The budget-kind test says that a zero limit lets a kind change nothing, but a zero
  max_changes_per_window still admits the first change of every window, as
  a limit of one does: with no change in the window, and the other limits respected, nothing
  is parked.\<close>

theorem zero_change_limit_admits_one:
  "positiveExceeded 0 usage True = positiveExceeded 1 usage True \<and>
   limitDecision (UnattendedProfile\<lparr>doc_RateLimits :=
       \<lparr>rl_MaxSelfInitiatedChangesPerWindow = 0\<rparr>\<rparr>) BudgetPerformance
     (LimitUsage0\<lparr>u_TablesInWindow := 1\<rparr>) False = None"
proof
  show "positiveExceeded 0 usage True = positiveExceeded 1 usage True"
    by (auto simp: positiveExceeded_def)
qed code_simp

text \<open>
  Exactly these requests bypass the kind budgets: the revert of an index pg_sage created,
  a rollback of its own change, and, under a critical deadline that is still ahead, a VACUUM
  for the XID runway or a space-freeing action for the disk runway.\<close>

theorem BudgetBypassFor_iff:
  "BudgetBypassFor req now \<noteq> [] \<longleftrightarrow>
     (\<exists>c. r_Contract req = Some c \<and>
       (c_ActionType c = ''revert_created_index'' \<or> r_Rollback req \<or>
        (\<exists>d. r_Deadline req = Some d \<and> dl_Urgency d = UrgencyCritical \<and> now < dl_HardAt d \<and>
          (dl_Kind d = DeadlineXID \<and> c_ActionType c = ''vacuum_table'' \<or>
           dl_Kind d = DeadlineDisk \<and> c_ActionType c \<in>
             {''vacuum_table'', ''drop_unused_index'', ''reindex_concurrently''}))))"
  by (auto simp: BudgetBypassFor_def Let_def diskMitigation_def split: option.splits)

end
