(* ===== verification/Gate_Config.thy ===== *)
theory Gate_Config
  imports Budget
begin

text \<open>
  What the gate is built from: \<^verbatim>\<open>GateConfig\<close>, the interfaces it calls
  (\<^verbatim>\<open>AutonomyLimiter\<close> with its optional \<^verbatim>\<open>AutonomyScope\<close> and
  \<^verbatim>\<open>AutonomyDeadlineRecorder\<close>, \<^verbatim>\<open>FactBinder\<close>,
  \<^verbatim>\<open>VerificationTracker\<close>, \<^verbatim>\<open>AgentDecider\<close>), the context and
  the clock, and the accessors of \<^verbatim>\<open>gate.go\<close>.

  The callbacks belong to other packages and are fields of the configuration. They look at
  the world (the database, the ledger) they are called in, of type \<open>'w\<close>; the ones
  that write return it changed. A nil function or interface is \<open>None\<close>.
\<close>

subsection \<open>Context and clock\<close>

text \<open>Of a context the package reads the agent bound to it; the transaction a budget lock
  opens is carried to the callbacks.\<close>

record gctx =
  ctx_Principal :: "PrincipalRef option"
  ctx_Tx :: "nat option"

text \<open>
  \<^verbatim>\<open>gate.now()\<close> is read at several places, and every place is reached at most
  once in an evaluation, so the clock of an evaluation gives one reading per place. Nothing
  is assumed about how the readings relate.
\<close>

datatype clock_site =
    NowBudget | NowTier | NowWindow | NowOperatorWindow | NowMandatory | NowTrusted | NowL3
  | NowWaitApplies | NowSplitWaits | NowReport

type_synonym clock = "clock_site \<Rightarrow> gotime"

subsection \<open>Configuration\<close>

record 'w AutonomyLimiter =
  lim_Limit :: "gctx \<Rightarrow> ActionRequest \<Rightarrow> 'w \<Rightarrow> err + AutonomyLimit"
  lim_Governs :: "(ActionRequest \<Rightarrow> bool) option"
  lim_RecordDeadlineOverride ::
    "(gctx \<Rightarrow> ActionRequest \<Rightarrow> Decision \<Rightarrow> 'w \<Rightarrow> 'w) option"

record 'w GateConfig =
  gc_Runtime :: "(gctx \<Rightarrow> ActionRequest \<Rightarrow> 'w \<Rightarrow> err + RuntimeState) option"
  gc_ValidateSQL :: "(string \<Rightarrow> err option) option"
  gc_Policy :: "(gctx \<Rightarrow> ActionRequest \<Rightarrow> 'w \<Rightarrow> err + Document) option"
  gc_Usage :: "(gctx \<Rightarrow> ActionRequest \<Rightarrow> 'w \<Rightarrow> err + LimitUsage) option"
  gc_WindowObserved :: "('w \<Rightarrow> 'w) option"
  gc_RecordDecision ::
    "(gctx \<Rightarrow> ActionRequest \<Rightarrow> Decision \<Rightarrow> 'w \<Rightarrow> (err + string) \<times> 'w) option"
  gc_RecordDecisionDetailed ::
    "(gctx \<Rightarrow> ActionRequest \<Rightarrow> Decision \<Rightarrow> 'w \<Rightarrow> (err + string \<times> int) \<times> 'w) option"
  gc_Now :: "clock option"
  gc_Autonomy :: "'w AutonomyLimiter option"
  gc_Serialize ::
    "(gctx \<Rightarrow> ActionRequest \<Rightarrow> 'w \<Rightarrow>
       (err + gctx \<times> (bool \<Rightarrow> 'w \<Rightarrow> err option \<times> 'w)) \<times> 'w) option"
  gc_Facts :: "(gctx \<Rightarrow> ActionRequest \<Rightarrow> 'w \<Rightarrow> err + FactBinding list) option"
  gc_Verification ::
    "(gctx \<Rightarrow> ActionRequest \<Rightarrow> 'w \<Rightarrow> err + PendingVerification list) option"
  gc_Agents :: "(gctx \<Rightarrow> ActionRequest \<Rightarrow> 'w \<Rightarrow> Decision \<times> int \<times> bool) option"
  gc_Clock :: clock \<comment> \<open>\<^verbatim>\<open>time.Now\<close>\<close>
  gc_Lib :: golib

text \<open>A configuration with no callback set, which examples fill in.\<close>

definition GateConfig0 :: "clock \<Rightarrow> golib \<Rightarrow> 'w GateConfig" where
  "GateConfig0 clk lib = \<lparr>gc_Runtime = None, gc_ValidateSQL = None, gc_Policy = None,
     gc_Usage = None, gc_WindowObserved = None, gc_RecordDecision = None,
     gc_RecordDecisionDetailed = None, gc_Now = None, gc_Autonomy = None, gc_Serialize = None,
     gc_Facts = None, gc_Verification = None, gc_Agents = None, gc_Clock = clk, gc_Lib = lib\<rparr>"

text \<open>A clock that stands still at 2026-10-01T12:00:00Z (a Thursday), and a library that knows
  no zone and no duration.\<close>

definition ex_now :: instant where "ex_now = 63926452800 * second"

definition ex_clock :: clock where "ex_clock = (\<lambda>_. \<lparr>t_inst = ex_now, t_zone = UTC\<rparr>)"

definition ex_lib :: golib where
  "ex_lib = \<lparr>lib_LoadLocation = \<lambda>_. None, lib_ParseDuration = \<lambda>_. None\<rparr>"

definition gate_runtime :: "'w GateConfig \<Rightarrow> gctx \<Rightarrow> ActionRequest \<Rightarrow> 'w \<Rightarrow> err + RuntimeState" where
  "gate_runtime cfg ctx req w =
     (case gc_Runtime cfg of
        None \<Rightarrow> Inl ''runtime state is unavailable''
      | Some read \<Rightarrow> read ctx req w)"

definition gate_policy :: "'w GateConfig \<Rightarrow> gctx \<Rightarrow> ActionRequest \<Rightarrow> 'w \<Rightarrow> err + Document" where
  "gate_policy cfg ctx req w =
     (case gc_Policy cfg of
        None \<Rightarrow> Inl ''policy not found''
      | Some read \<Rightarrow> read ctx req w)"

definition gate_usage :: "'w GateConfig \<Rightarrow> gctx \<Rightarrow> ActionRequest \<Rightarrow> 'w \<Rightarrow> err + LimitUsage" where
  "gate_usage cfg ctx req w =
     (case gc_Usage cfg of
        None \<Rightarrow> Inr LimitUsage0
      | Some read \<Rightarrow> read ctx req w)"

definition gate_now :: "'w GateConfig \<Rightarrow> clock_site \<Rightarrow> gotime" where
  "gate_now cfg site =
     (case gc_Now cfg of Some f \<Rightarrow> f site | None \<Rightarrow> gc_Clock cfg site)"

text \<open>The document the gate may use: read without an error and valid. The error is the detail
  of the refusal otherwise.\<close>

definition valid_policy :: "'w GateConfig \<Rightarrow> gctx \<Rightarrow> ActionRequest \<Rightarrow> 'w \<Rightarrow> err + Document" where
  "valid_policy cfg ctx req w =
     (case gate_policy cfg ctx req w of
        Inl e \<Rightarrow> Inl e
      | Inr doc \<Rightarrow> if isOk (ValidateDocument (gc_Lib cfg) doc) then Inr doc
                   else Inl ''invalid policy'')"

lemma valid_policy_Inr_iff:
  "valid_policy cfg ctx req w = Inr doc \<longleftrightarrow>
     gate_policy cfg ctx req w = Inr doc \<and> isOk (ValidateDocument (gc_Lib cfg) doc)"
  by (auto simp: valid_policy_def split: sum.splits if_splits)

subsection \<open>Requests\<close>

text \<open>
  A pointer to a contract is dereferenced only after \<^verbatim>\<open>validateRequest\<close> found
  it; the other case of this accessor is not reached.
\<close>

definition contract_of :: "ActionRequest \<Rightarrow> ActionContract" where
  "contract_of req = (case r_Contract req of Some c \<Rightarrow> c | None \<Rightarrow> ActionContract0)"

lemma contract_of_Some [simp]: "r_Contract req = Some c \<Longrightarrow> contract_of req = c"
  by (simp add: contract_of_def)

abbreviation risk_of :: "ActionRequest \<Rightarrow> RiskTier" where
  "risk_of req \<equiv> c_RiskTier (contract_of req)"

definition IsNarrowing :: "ActionRequest \<Rightarrow> bool" where
  "IsNarrowing req = (case r_Contract req of None \<Rightarrow> False | Some c \<Rightarrow> c_Narrowing c)"

definition requestIsReadOnly :: "ActionRequest \<Rightarrow> bool" where
  "requestIsReadOnly req =
     (case r_Contract req of None \<Rightarrow> False | Some c \<Rightarrow> c_RiskTier c = RiskReadOnly)"

definition isBackendSignal :: "string \<Rightarrow> bool" where
  "isBackendSignal actionType \<longleftrightarrow>
     actionType = ''cancel_backend'' \<or> actionType = ''terminate_backend''"

definition hasGuardrail :: "ActionContract \<Rightarrow> Guardrail \<Rightarrow> bool" where
  "hasGuardrail contract target = list_ex (\<lambda>g. g = target) (c_Guardrails contract)"

definition unknownGuardrail :: "ActionContract \<Rightarrow> Guardrail option" where
  "unknownGuardrail contract =
     List.find (\<lambda>g. g \<noteq> GuardrailApprovalRequired) (c_Guardrails contract)"

definition typedInternalActions :: "string list" where
  "typedInternalActions =
     [''declare_table_contract'', ''register_consumer'', ''retention_delete'',
      ''guard_role_ensure'', ''guard_role_retire'', ''guard_freeze'', ''guard_unfreeze'',
      ''guard_kill'', ''guard_grant'', ''guard_revoke'']"

definition trustedInternalControl :: "ActionRequest \<Rightarrow> bool" where
  "trustedInternalControl req =
     (if \<not> r_InternalControl req \<or> r_SQL req \<noteq> [] then False
      else (case r_Contract req of
              None \<Rightarrow> False
            | Some c \<Rightarrow> c_ActionType c \<in> set typedInternalActions))"

definition WithPrincipalRef :: "gctx \<Rightarrow> PrincipalRef \<Rightarrow> gctx" where
  "WithPrincipalRef ctx ref = ctx\<lparr>ctx_Principal := Some ref\<rparr>"

definition PrincipalRefFromContext :: "gctx \<Rightarrow> PrincipalRef option" where
  "PrincipalRefFromContext ctx = ctx_Principal ctx"

definition withContextPrincipal :: "gctx \<Rightarrow> ActionRequest \<Rightarrow> ActionRequest" where
  "withContextPrincipal ctx req =
     (if r_Principal req \<noteq> None then req
      else (case PrincipalRefFromContext ctx of
              Some ref \<Rightarrow> req\<lparr>r_Principal := Some ref\<rparr>
            | None \<Rightarrow> req))"

definition RequestPrincipal :: "gctx \<Rightarrow> ActionRequest \<Rightarrow> PrincipalRef option" where
  "RequestPrincipal ctx req = r_Principal (withContextPrincipal ctx req)"

lemma withContextPrincipal_idem [simp]:
  "withContextPrincipal ctx (withContextPrincipal ctx req) = withContextPrincipal ctx req"
  by (simp add: withContextPrincipal_def PrincipalRefFromContext_def split: option.splits)

lemma withContextPrincipal_fields [simp]:
  "r_Contract (withContextPrincipal ctx req) = r_Contract req"
  "r_OperatorApproved (withContextPrincipal ctx req) = r_OperatorApproved req"
  "r_ExplainFamily (withContextPrincipal ctx req) = r_ExplainFamily req"
  by (simp_all add: withContextPrincipal_def split: option.splits)

lemma contract_of_withContextPrincipal [simp]:
  "contract_of (withContextPrincipal ctx req) = contract_of req"
  "IsNarrowing (withContextPrincipal ctx req) = IsNarrowing req"
  by (simp_all add: contract_of_def IsNarrowing_def)

text \<open>
  A request seen under an agent's context is an agent's request: the principal it carries,
  or else the one bound to the context, and never none; a request that already names its
  principal keeps it, so code below an agent's call cannot lose the agent.\<close>

theorem WithPrincipalRef_binds:
  "RequestPrincipal (WithPrincipalRef ctx ref) req =
     (case r_Principal req of Some p \<Rightarrow> Some p | None \<Rightarrow> Some ref)"
  by (simp add: RequestPrincipal_def withContextPrincipal_def PrincipalRefFromContext_def
      WithPrincipalRef_def split: option.splits)

end
