(* ===== verification/Restrict.thy ===== *)
theory Restrict
  imports Gate_Config
begin

text \<open>
  The two contracts the stages of the gate share. A \<^emph>\<open>stopper\<close> looks at a request
  before the verdict is known and may end the evaluation, but never by letting it run. A
  \<^emph>\<open>restrictor\<close> turns a verdict into another one that is not more permissive. The
  gate is a chain of stoppers, one place that says execute, and a chain of restrictors; the
  lemmas proved here once are what every soundness theorem of the gate rests on.
\<close>

locale stopper =
  fixes stage :: "'x \<Rightarrow> Decision option"
  assumes stop_rank: "stage x = Some d \<Longrightarrow> rank (d_Verdict d) \<le> 1"
begin

lemma stop_not_execute: "stage x = Some d \<Longrightarrow> d_Verdict d \<noteq> VerdictExecute"
  using stop_rank by fastforce

lemma passes_if_execute:
  "d_Verdict (case stage x of Some d \<Rightarrow> d | None \<Rightarrow> k) = VerdictExecute \<Longrightarrow>
     stage x = None \<and> d_Verdict k = VerdictExecute"
  using stop_not_execute by (auto split: option.splits)

lemma passes_if_execute_fst:
  "d_Verdict (fst (case stage x of Some d \<Rightarrow> (d, w) | None \<Rightarrow> k)) = VerdictExecute \<Longrightarrow>
     stage x = None \<and> d_Verdict (fst k) = VerdictExecute"
  using stop_not_execute by (auto split: option.splits)

end

locale blocking_stopper = stopper +
  assumes stop_blocks: "stage x = Some d \<Longrightarrow> rank (d_Verdict d) = 0"
begin

lemma passes_if_ranked:
  "0 < rank (d_Verdict (case stage x of Some d \<Rightarrow> d | None \<Rightarrow> k)) \<Longrightarrow>
     stage x = None \<and> 0 < rank (d_Verdict k)"
  using stop_blocks by (auto split: option.splits)

end

locale restrictor =
  fixes restrict :: "Decision \<Rightarrow> Decision"
  assumes restricts: "rank (d_Verdict (restrict d)) \<le> rank (d_Verdict d)"
begin

lemma execute_before: "d_Verdict (restrict d) = VerdictExecute \<Longrightarrow> d_Verdict d = VerdictExecute"
  using restricts [of d] rank_le_2 [of "d_Verdict d"] by (simp add: order_antisym)

lemma held_stays_held: "rank (d_Verdict d) = 0 \<Longrightarrow> rank (d_Verdict (restrict d)) = 0"
  using restricts [of d] by simp

end

text \<open>Restrictions compose.\<close>

lemma restrictor_comp: "restrictor f \<Longrightarrow> restrictor g \<Longrightarrow> restrictor (\<lambda>d. f (g d))"
  by (auto simp: restrictor_def intro: order_trans)

lemma rank_withDocumentBounds [simp]:
  "d_Verdict (withDocumentBounds doc d) = d_Verdict d"
  "d_Reason (withDocumentBounds doc d) = d_Reason d"
  "d_Detail (withDocumentBounds doc d) = d_Detail d"
  "d_OffWindowOK (withDocumentBounds doc d) = d_OffWindowOK d"
  by (simp_all add: withDocumentBounds_def Let_def)

interpretation bounds: restrictor "withDocumentBounds doc" for doc
  by unfold_locales simp

interpretation stamping: restrictor "stamp n" for n
  by unfold_locales simp

interpretation for_request: restrictor "decisionForRequest req" for req
  by unfold_locales simp

interpretation limits: blocking_stopper "\<lambda>(doc, kind, usage, bypass). limitDecision doc kind usage bypass"
  by unfold_locales (auto dest: limitDecision_verdict simp: rank_simps)

end
