(* ===== verification/Autonomy.thy ===== *)
theory Autonomy
  imports Restrict
begin

text \<open>
  Earned autonomy, \<^verbatim>\<open>autonomy.go\<close> and \<^verbatim>\<open>autonomy_trusted.go\<close>: the
  ledger's level restricts an otherwise granted verdict, except under a mandatory deadline.
\<close>

definition autonomyHandoffLevel :: int where "autonomyHandoffLevel = 2"
definition autonomyExecuteLevel :: int where "autonomyExecuteLevel = 3"

definition validDeadlineOverride :: "Document \<Rightarrow> DeadlineContext option \<Rightarrow> gotime \<Rightarrow> bool" where
  "validDeadlineOverride doc deadline now =
     (case deadline of
        None \<Rightarrow> False
      | Some dl \<Rightarrow>
          if \<not> dl_HardAt dl > t_inst now then False
          else if dl_Kind dl \<noteq> DeadlineXID \<and> dl_Kind dl \<noteq> DeadlineDisk then False
          else map_get_bool (doc_DeadlineOverrides doc) (dl_Kind dl))"

definition governedByAutonomy :: "'w GateConfig \<Rightarrow> ActionRequest \<Rightarrow> bool" where
  "governedByAutonomy cfg req =
     (case (gc_Autonomy cfg, r_Contract req) of
        (Some lim, Some c) \<Rightarrow>
          if r_OperatorApproved req \<or> r_Rollback req \<or> c_RiskTier c = RiskReadOnly then False
          else if TrimSpace (r_IncidentFamily req) \<noteq> [] then True
          else (case lim_Governs lim of
                  None \<Rightarrow> False
                | Some Governs \<Rightarrow> \<not> r_OwnerDeclared req \<and> Governs req)
      | _ \<Rightarrow> False)"

definition selfGoverned :: "'w GateConfig \<Rightarrow> ActionRequest \<Rightarrow> bool" where
  "selfGoverned cfg req \<longleftrightarrow>
     TrimSpace (r_IncidentFamily req) = [] \<and> governedByAutonomy cfg req"

definition mandatoryDeadline :: "Document \<Rightarrow> ActionRequest \<Rightarrow> gotime \<Rightarrow> bool" where
  "mandatoryDeadline doc req now =
     (case r_Deadline req of
        None \<Rightarrow> False
      | Some dl \<Rightarrow> dl_Urgency dl = UrgencyCritical \<and> validDeadlineOverride doc (Some dl) now)"

definition passMandatoryDeadline ::
    "'w AutonomyLimiter \<Rightarrow> gctx \<Rightarrow> ActionRequest \<Rightarrow> Decision \<Rightarrow> 'w \<Rightarrow> Decision \<times> 'w" where
  "passMandatoryDeadline lim ctx req base w =
     (if d_Verdict base \<noteq> VerdictExecute then (base, w)
      else (case lim_RecordDeadlineOverride lim of
              Some record \<Rightarrow> (base, record ctx req base w)
            | None \<Rightarrow> (base, w)))"

definition reversibilityCap :: "RollbackClass \<Rightarrow> int" where
  "reversibilityCap class =
     (case class of
        RollbackReversible \<Rightarrow> autonomyExecuteLevel
      | RollbackNoRollbackNeeded \<Rightarrow> autonomyExecuteLevel
      | RollbackMitigationOnly \<Rightarrow> autonomyHandoffLevel
      | _ \<Rightarrow> 1)"

definition effectiveAutonomyLevel :: "AutonomyLimit \<Rightarrow> RollbackClass \<Rightarrow> int" where
  "effectiveAutonomyLevel limit rollback =
     (let level = min (max (al_Level limit) 0) autonomyExecuteLevel;
          level = (if al_Downgraded limit then min level 1 else level)
      in min level (reversibilityCap rollback))"

definition l3Blocker ::
    "golib \<Rightarrow> Document \<Rightarrow> RuntimeState \<Rightarrow> ActionRequest \<Rightarrow> gotime \<Rightarrow> bool \<Rightarrow> string" where
  "l3Blocker lib doc runtime req now self =
     (if length (r_TargetObjs req) \<noteq> 1 then ''unbounded: L3 acts on exactly one object''
      else if self then []
      else if \<not> inAnyWindow lib (doc_MaintenanceWindows doc) now \<or>
              (rt_WindowConfigured runtime \<and> \<not> rt_InConfiguredWindow runtime)
      then ''outside_window: L3 acts only inside the maintenance window''
      else [])"

definition autonomyNote :: "int \<Rightarrow> AutonomyLimit \<Rightarrow> Decision \<Rightarrow> string" where
  "autonomyNote level limit base =
     (let pair = (if al_Family limit \<noteq> [] then al_Family limit @ ''/'' @ al_Class limit
                  else ''class '' @ al_Class limit);
          note = ''autonomy L'' @ itoa level @ '' (granted L'' @ itoa (al_Granted limit) @ '', '' @
                 pair @ ''); restricted '' @ reason_string (d_Reason base);
          note = (if d_Detail base \<noteq> [] then note @ '' ('' @ d_Detail base @ '')'' else note)
      in if al_Downgraded limit then note @ ''; downgraded: '' @ Join (al_Reasons limit) '',''
         else note)"

definition trustedVerdict ::
    "'w GateConfig \<Rightarrow> Document \<Rightarrow> RuntimeState \<Rightarrow> ActionRequest \<Rightarrow> Decision \<Rightarrow> AutonomyLimit \<Rightarrow>
     int \<Rightarrow> TrustedVerdict option" where
  "trustedVerdict cfg doc runtime req base limit level =
     (if level \<ge> autonomyExecuteLevel then None
      else (let t = \<lparr>tv_Verdict = VerdictExecute, tv_Reason = ReasonAutonomyL3, tv_Detail = [],
                     tv_Granted = al_Granted limit, tv_Level = level\<rparr>
            in if d_Verdict base = VerdictQueueApproval
               then Some (t\<lparr>tv_Verdict := VerdictQueueApproval, tv_Reason := d_Reason base,
                           tv_Detail := d_Detail base\<rparr>)
               else (let why = l3Blocker (gc_Lib cfg) doc runtime req
                                 (gate_now cfg NowTrusted) (selfGoverned cfg req)
                     in if why \<noteq> []
                        then Some (t\<lparr>tv_Verdict := VerdictQueueApproval,
                                    tv_Reason := ReasonAutonomyHandoff, tv_Detail := why\<rparr>)
                        else Some t)))"

definition withTrusted :: "Decision \<Rightarrow> TrustedVerdict option \<Rightarrow> Decision" where
  "withTrusted d trusted = d\<lparr>d_Trusted := trusted\<rparr>"

text \<open>The ledger's restriction of \<open>base\<close> once it has answered with \<open>limit\<close>.\<close>

definition applyLimit ::
    "'w GateConfig \<Rightarrow> Document \<Rightarrow> RuntimeState \<Rightarrow> ActionRequest \<Rightarrow> AutonomyLimit \<Rightarrow> Decision \<Rightarrow>
     Decision" where
  "applyLimit cfg doc runtime req limit base =
     (let level = effectiveAutonomyLevel limit (c_RollbackClass (contract_of req));
          note = autonomyNote level limit base;
          trusted = trustedVerdict cfg doc runtime req base limit level
      in if level < autonomyHandoffLevel \<and> al_Downgraded limit
         then withTrusted (restricted req VerdictObserveOnly ReasonAutonomyDowngraded note) trusted
         else if level < autonomyHandoffLevel
         then withTrusted (restricted req VerdictObserveOnly ReasonAutonomyLevel note) trusted
         else if level = autonomyHandoffLevel \<or> d_Verdict base = VerdictQueueApproval
         then withTrusted (restricted req VerdictQueueApproval ReasonAutonomyHandoff note) trusted
         else (let why = l3Blocker (gc_Lib cfg) doc runtime req (gate_now cfg NowL3)
                           (selfGoverned cfg req)
               in if why \<noteq> []
                  then restricted req VerdictQueueApproval ReasonAutonomyHandoff
                         (why @ ''; '' @ note)
                  else base\<lparr>d_Reason := ReasonAutonomyL3, d_OffWindowOK := False,
                            d_Detail := note\<rparr>))"

definition restrictAutonomy ::
    "'w GateConfig \<Rightarrow> gctx \<Rightarrow> Document \<Rightarrow> RuntimeState \<Rightarrow> ActionRequest \<Rightarrow> Decision \<Rightarrow> 'w \<Rightarrow>
     Decision \<times> 'w" where
  "restrictAutonomy cfg ctx doc runtime req base w =
     (case gc_Autonomy cfg of
        None \<Rightarrow> (base, w)
      | Some lim \<Rightarrow>
          if \<not> governedByAutonomy cfg req \<or>
             (d_Verdict base \<noteq> VerdictExecute \<and> d_Verdict base \<noteq> VerdictQueueApproval)
          then (base, w)
          else if mandatoryDeadline doc req (gate_now cfg NowMandatory)
          then passMandatoryDeadline lim ctx req base w
          else (case lim_Limit lim ctx req w of
                  Inl e \<Rightarrow> (decisionForRequest req (blocked ReasonAutonomyUnavailable e), w)
                | Inr limit \<Rightarrow> (applyLimit cfg doc runtime req limit base, w)))"

subsection \<open>The restriction contract\<close>

lemma withTrusted_fields [simp]:
  "d_Verdict (withTrusted d t) = d_Verdict d" "d_Reason (withTrusted d t) = d_Reason d"
  "d_Trusted (withTrusted d t) = t"
  by (simp_all add: withTrusted_def)

lemma reversibilityCap_range: "1 \<le> reversibilityCap c \<and> reversibilityCap c \<le> 3"
  by (simp add: reversibilityCap_def autonomyExecuteLevel_def autonomyHandoffLevel_def
      split: RollbackClass.splits)

lemma effectiveAutonomyLevel_bounds:
  "0 \<le> effectiveAutonomyLevel limit rb" "effectiveAutonomyLevel limit rb \<le> 3"
  "effectiveAutonomyLevel limit rb \<le> reversibilityCap rb"
  "effectiveAutonomyLevel limit rb \<le> max (al_Level limit) 0"
  "al_Downgraded limit \<Longrightarrow> effectiveAutonomyLevel limit rb \<le> 1"
  using reversibilityCap_range [of rb]
  by (auto simp: effectiveAutonomyLevel_def autonomyExecuteLevel_def Let_def)

lemma applyLimit_execute:
  assumes "d_Verdict (applyLimit cfg doc rt req limit base) = VerdictExecute"
  shows "d_Verdict base = VerdictExecute"
    and "effectiveAutonomyLevel limit (c_RollbackClass (contract_of req)) = 3"
    and "l3Blocker (gc_Lib cfg) doc rt req (gate_now cfg NowL3) (selfGoverned cfg req) = []"
    and "d_Reason (applyLimit cfg doc rt req limit base) = ReasonAutonomyL3"
  using assms effectiveAutonomyLevel_bounds(2) [of limit "c_RollbackClass (contract_of req)"]
  by (auto simp: applyLimit_def Let_def autonomyHandoffLevel_def split: if_splits)

lemma applyLimit_rank:
  assumes "d_Verdict base = VerdictExecute \<or> d_Verdict base = VerdictQueueApproval"
  shows "rank (d_Verdict (applyLimit cfg doc rt req limit base)) \<le> rank (d_Verdict base)"
  using assms by (auto simp: applyLimit_def Let_def rank_simps)

lemma restrictAutonomy_rank:
  "rank (d_Verdict (fst (restrictAutonomy cfg ctx doc rt req base w))) \<le> rank (d_Verdict base)"
  using applyLimit_rank [of base]
  by (auto simp: restrictAutonomy_def passMandatoryDeadline_def rank_simps
      split: option.splits sum.splits)

interpretation autonomy: restrictor "\<lambda>d. fst (restrictAutonomy cfg ctx doc rt req d w)"
  for cfg ctx doc rt req w
  by unfold_locales (rule restrictAutonomy_rank)

lemma restrictAutonomy_ungoverned:
  "\<not> governedByAutonomy cfg req \<Longrightarrow> restrictAutonomy cfg ctx doc rt req base w = (base, w)"
  by (simp add: restrictAutonomy_def split: option.splits)

lemma governed_limiter: "governedByAutonomy cfg req \<Longrightarrow> \<exists>lim. gc_Autonomy cfg = Some lim"
  by (auto simp: governedByAutonomy_def split: option.splits)

text \<open>What an execute that survived the ledger means.\<close>

lemma restrictAutonomy_execute:
  assumes "governedByAutonomy cfg req" and "gc_Autonomy cfg = Some lim"
    and "d_Verdict (fst (restrictAutonomy cfg ctx doc rt req base w)) = VerdictExecute"
  shows "mandatoryDeadline doc req (gate_now cfg NowMandatory) \<or>
    (\<exists>limit. lim_Limit lim ctx req w = Inr limit \<and>
       effectiveAutonomyLevel limit (c_RollbackClass (contract_of req)) = 3 \<and>
       l3Blocker (gc_Lib cfg) doc rt req (gate_now cfg NowL3) (selfGoverned cfg req) = [])"
proof -
  have "d_Verdict base = VerdictExecute"
    using assms(3) by (rule autonomy.execute_before)
  with assms show ?thesis
    using applyLimit_execute
    by (auto simp: restrictAutonomy_def split: if_splits sum.splits)
qed

subsection \<open>Properties\<close>

text \<open>
  Whatever the ledger answers, the restriction never makes a verdict more permissive, and
  a request it governs runs only at effective level 3 on exactly one object (and inside the
  windows, for an incident's remediation) or under a mandatory deadline the policy lets
  override. Level 3 needs a ledger level of at least 3, no downgrade signal, and a reversible
  (or no-rollback-needed) contract, so no ledger answer runs an irreversible action.\<close>

theorem restrictAutonomy_sound:
  assumes "governedByAutonomy cfg req" and "gc_Autonomy cfg = Some lim"
    and "d_Verdict (fst (restrictAutonomy cfg ctx doc rt req base w)) = VerdictExecute"
    and "\<not> mandatoryDeadline doc req (gate_now cfg NowMandatory)"
  shows "d_Verdict base = VerdictExecute \<and>
    (\<exists>limit. lim_Limit lim ctx req w = Inr limit \<and> 3 \<le> al_Level limit \<and>
       \<not> al_Downgraded limit) \<and>
    c_RollbackClass (contract_of req) \<in> {RollbackReversible, RollbackNoRollbackNeeded} \<and>
    length (r_TargetObjs req) = 1 \<and>
    (TrimSpace (r_IncidentFamily req) \<noteq> [] \<longrightarrow>
       inAnyWindow (gc_Lib cfg) (doc_MaintenanceWindows doc) (gate_now cfg NowL3) \<and>
       (rt_WindowConfigured rt \<longrightarrow> rt_InConfiguredWindow rt))"
proof -
  let ?rb = "c_RollbackClass (contract_of req)"
  from restrictAutonomy_execute [OF assms(1-3)] assms(4) obtain limit
    where lim: "lim_Limit lim ctx req w = Inr limit" "effectiveAutonomyLevel limit ?rb = 3"
      and l3: "l3Blocker (gc_Lib cfg) doc rt req (gate_now cfg NowL3) (selfGoverned cfg req) = []"
    by blast
  note b = effectiveAutonomyLevel_bounds [of limit ?rb]
  have "3 \<le> reversibilityCap ?rb" "3 \<le> al_Level limit" "\<not> al_Downgraded limit"
    using b lim(2) by auto
  moreover from this(1) have "?rb \<in> {RollbackReversible, RollbackNoRollbackNeeded}"
    by (auto simp: reversibilityCap_def autonomyHandoffLevel_def split: RollbackClass.splits)
  moreover from l3 have "length (r_TargetObjs req) = 1"
    by (auto simp: l3Blocker_def split: if_splits)
  moreover from l3 have "TrimSpace (r_IncidentFamily req) \<noteq> [] \<longrightarrow>
       inAnyWindow (gc_Lib cfg) (doc_MaintenanceWindows doc) (gate_now cfg NowL3) \<and>
       (rt_WindowConfigured rt \<longrightarrow> rt_InConfiguredWindow rt)"
    by (auto simp: l3Blocker_def selfGoverned_def split: if_splits)
  moreover have "d_Verdict base = VerdictExecute"
    using assms(3) by (rule autonomy.execute_before)
  ultimately show ?thesis using lim(1) by blast
qed

definition ex_limiter :: "unit AutonomyLimiter" where
  "ex_limiter = \<lparr>lim_Limit = (\<lambda>_ _ _. Inr \<lparr>al_Level = 3, al_Granted = 3,
       al_Downgraded = False, al_Reasons = [], al_Class = ''index_create'',
       al_Family = ''lock_storm''\<rparr>),
     lim_Governs = None, lim_RecordDeadlineOverride = None\<rparr>"

definition ex_incident_request :: ActionRequest where
  "ex_incident_request = ActionRequest0\<lparr>
     r_Contract := Some (ActionContract0\<lparr>c_ActionType := ''create_index_concurrently'',
       c_RiskTier := RiskModerate, c_RollbackClass := RollbackReversible\<rparr>),
     r_Feature := ChangeIndex, r_TargetObjs := [''public.orders''],
     r_IncidentFamily := ''lock_storm''\<rparr>"

theorem restrictAutonomy_sound_witness:
  "inAnyWindow ex_lib (doc_MaintenanceWindows UnattendedProfile) (ex_clock NowL3)"
proof -
  let ?cfg = "(GateConfig0 ex_clock ex_lib)\<lparr>gc_Autonomy := Some ex_limiter\<rparr>"
  let ?base = "blockedAs VerdictExecute ReasonAuthorized"
  have "governedByAutonomy ?cfg ex_incident_request"
    and "d_Verdict (fst (restrictAutonomy ?cfg \<lparr>ctx_Principal = None, ctx_Tx = None\<rparr>
      UnattendedProfile RuntimeState0 ex_incident_request ?base ())) = VerdictExecute"
    and "\<not> mandatoryDeadline UnattendedProfile ex_incident_request (gate_now ?cfg NowMandatory)"
    and "TrimSpace (r_IncidentFamily ex_incident_request) \<noteq> []"
    by code_simp+
  with restrictAutonomy_sound [of ?cfg ex_incident_request ex_limiter
      "\<lparr>ctx_Principal = None, ctx_Tx = None\<rparr>" UnattendedProfile RuntimeState0 ?base "()"]
  show ?thesis by (simp add: GateConfig0_def gate_now_def)
qed

text \<open>
  The shadow verdict attached to a withheld decision says what the gate would have decided
  at level 3: it is present exactly below level 3 on those paths, and it says execute only if
  the base verdict was execute and no level 3 condition fails, so recording it never claims
  more than the gate would have granted.\<close>

theorem trustedVerdict_iff:
  "trustedVerdict cfg doc rt req base limit level = Some t \<and> tv_Verdict t = VerdictExecute \<longleftrightarrow>
     level < 3 \<and> d_Verdict base \<noteq> VerdictQueueApproval \<and>
     l3Blocker (gc_Lib cfg) doc rt req (gate_now cfg NowTrusted) (selfGoverned cfg req) = [] \<and>
     t = \<lparr>tv_Verdict = VerdictExecute, tv_Reason = ReasonAutonomyL3, tv_Detail = [],
          tv_Granted = al_Granted limit, tv_Level = level\<rparr>"
  by (auto simp: trustedVerdict_def Let_def autonomyExecuteLevel_def)

end
