(* ===== verification/Verification_Wait.thy ===== *)
theory Verification_Wait
  imports Restrict
begin

text \<open>
  One self-initiated change per object, \<^verbatim>\<open>verification_wait.go\<close>: a change
  waits while an earlier change to the same object is still being verified, until the
  verification concludes or its hard deadline passes.
\<close>

abbreviation ReleaseHardDeadline :: string where "ReleaseHardDeadline \<equiv> ''hard_deadline''"
abbreviation ReleaseDropFirstWindow :: string where
  "ReleaseDropFirstWindow \<equiv> ''drop_first_window''"

definition ReleaseCause :: "PendingVerification \<Rightarrow> string" where
  "ReleaseCause p = (if pv_Release p = ReleaseDropFirstWindow then ReleaseDropFirstWindow
     else ReleaseHardDeadline)"

definition ReleaseReason :: "PendingVerification \<Rightarrow> string" where
  "ReleaseReason p = (if ReleaseCause p = ReleaseDropFirstWindow
     then ''drop's first window concluded'' else ''hard deadline passed without a verdict'')"

definition Expired :: "PendingVerification \<Rightarrow> instant \<Rightarrow> bool" where
  "Expired p now \<longleftrightarrow> \<not> IsZero (pv_HardDeadline p) \<and> \<not> now < pv_HardDeadline p"

definition waitApplies :: "ActionRequest \<Rightarrow> Decision \<Rightarrow> instant \<Rightarrow> bool" where
  "waitApplies req base now =
     (if r_Contract req = None \<or> requestIsReadOnly req \<or> r_OwnerDeclared req then False
      else if d_Verdict base \<noteq> VerdictExecute \<and> d_Verdict base \<noteq> VerdictQueueApproval then False
      else BudgetBypassFor req now = [])"

fun splitWaits_loop :: "instant \<Rightarrow> VerificationWait \<Rightarrow> PendingVerification list \<Rightarrow> VerificationWait" where
  "splitWaits_loop now wait [] = wait"
| "splitWaits_loop now wait (p # ps) =
     splitWaits_loop now
       (if Expired p now then wait\<lparr>vw_Released := vw_Released wait @ [p]\<rparr>
        else wait\<lparr>vw_Pending := vw_Pending wait @ [p]\<rparr>) ps"

definition splitWaits :: "PendingVerification list \<Rightarrow> instant \<Rightarrow> VerificationWait" where
  "splitWaits pending now =
     splitWaits_loop now \<lparr>vw_Pending = [], vw_Released = [], vw_Overridden = False\<rparr> pending"

definition pendingName :: "PendingVerification \<Rightarrow> string" where
  "pendingName p =
     (if pv_ActionID p > 0 then ''verification of action '' @ itoa (pv_ActionID p)
      else ''the change authorized by decision '' @ itoa (pv_DecisionID p))"

definition formatWaitTime :: "instant \<Rightarrow> string" where
  "formatWaitTime at = (if IsZero at then ''unknown'' else FormatRFC3339 at)"

definition joinDetail :: "string \<Rightarrow> string \<Rightarrow> string" where
  "joinDetail detail added =
     (if added = [] then detail else if detail = [] then added else detail @ ''; '' @ added)"

fun waitParts :: "string \<Rightarrow> PendingVerification list \<Rightarrow> string list" where
  "waitParts lead [] = []"
| "waitParts lead (p # ps) =
     (lead @ pendingName p @ '' (until '' @ formatWaitTime (pv_Until p) @ '') on '' @ pv_Object p)
     # waitParts ''and '' ps"

definition WaitDetail :: "PendingVerification list \<Rightarrow> string" where
  "WaitDetail pending = Join (waitParts ''awaiting '' pending) ''; ''"

definition OverrideDetail :: "PendingVerification list \<Rightarrow> string" where
  "OverrideDetail pending =
     (if pending = [] then [] else ''overrides pending '' @ Join (map pendingName pending) '', '')"

definition releasePart :: "PendingVerification \<Rightarrow> string" where
  "releasePart p =
     (if ReleaseCause p = ReleaseDropFirstWindow
      then pendingName p @ '': '' @ ReleaseReason p @ '' at '' @
           formatWaitTime (pv_HardDeadline p) @
           '': wait released (its soft-drop monitoring continues)''
      else pendingName p @ '' passed its hard deadline '' @ formatWaitTime (pv_HardDeadline p) @
           '' without a verdict: wait released'')"

definition ReleaseDetail :: "PendingVerification list \<Rightarrow> string" where
  "ReleaseDetail released = Join (map releasePart released) ''; ''"

definition awaitVerification ::
    "'w GateConfig \<Rightarrow> gctx \<Rightarrow> ActionRequest \<Rightarrow> 'w \<Rightarrow> Decision \<Rightarrow> Decision" where
  "awaitVerification cfg ctx req w base =
     (case gc_Verification cfg of
        None \<Rightarrow> base
      | Some PendingVerifications \<Rightarrow>
          if \<not> waitApplies req base (t_inst (gate_now cfg NowWaitApplies)) then base
          else (case PendingVerifications ctx req w of
            Inl e \<Rightarrow>
              let why = ''read in-flight verifications: '' @ e in
              if r_OperatorApproved req then base\<lparr>d_Detail := joinDetail (d_Detail base) why\<rparr>
              else decisionForRequest req (blocked ReasonPolicyUnavailable why)
          | Inr pending \<Rightarrow>
              let wait = splitWaits pending (t_inst (gate_now cfg NowSplitWaits)) in
              if vw_Pending wait = [] \<and> vw_Released wait = [] then base
              else if vw_Pending wait = []
              then base\<lparr>d_Detail := joinDetail (d_Detail base) (ReleaseDetail (vw_Released wait)),
                        d_VerificationWait := Some wait\<rparr>
              else if r_OperatorApproved req
              then base\<lparr>d_Detail := joinDetail (d_Detail base) (OverrideDetail (vw_Pending wait)),
                        d_VerificationWait := Some (wait\<lparr>vw_Overridden := True\<rparr>)\<rparr>
              else if d_Verdict base = VerdictExecute
              then (decisionForRequest req
                      (parked ReasonAwaitingVerification (WaitDetail (vw_Pending wait))))
                   \<lparr>d_BudgetKind := d_BudgetKind base, d_RowsRewritten := d_RowsRewritten base,
                    d_VerificationWait := Some wait\<rparr>
              else base\<lparr>d_Detail := joinDetail (d_Detail base) (WaitDetail (vw_Pending wait)),
                        d_VerificationWait := Some wait\<rparr>))"

subsection \<open>The restriction contract\<close>

lemma splitWaits_loop_eq:
  "splitWaits_loop now wait ps =
     wait\<lparr>vw_Released := vw_Released wait @ filter (\<lambda>p. Expired p now) ps,
          vw_Pending := vw_Pending wait @ filter (\<lambda>p. \<not> Expired p now) ps\<rparr>"
  by (induction ps arbitrary: wait) auto

lemma splitWaits_eq:
  "splitWaits ps now = \<lparr>vw_Pending = filter (\<lambda>p. \<not> Expired p now) ps,
     vw_Released = filter (\<lambda>p. Expired p now) ps, vw_Overridden = False\<rparr>"
  by (simp add: splitWaits_def splitWaits_loop_eq)

lemma awaitVerification_verdict:
  "d_Verdict (awaitVerification cfg ctx req w base) = d_Verdict base \<or>
   rank (d_Verdict (awaitVerification cfg ctx req w base)) = 0"
  by (simp add: awaitVerification_def Let_def rank_simps split: option.splits sum.splits)

lemma awaitVerification_rank:
  "rank (d_Verdict (awaitVerification cfg ctx req w base)) \<le> rank (d_Verdict base)"
  using awaitVerification_verdict [of cfg ctx req w base] by auto

interpretation waiting: restrictor "awaitVerification cfg ctx req w" for cfg ctx req w
  by unfold_locales (rule awaitVerification_rank)

lemma awaitVerification_operator:
  "r_OperatorApproved req \<Longrightarrow> d_Verdict (awaitVerification cfg ctx req w base) = d_Verdict base"
  by (simp add: awaitVerification_def Let_def split: option.splits sum.splits)

lemma awaitVerification_execute_reason:
  "d_Verdict (awaitVerification cfg ctx req w base) = VerdictExecute \<Longrightarrow>
     d_Reason (awaitVerification cfg ctx req w base) = d_Reason base \<and>
     d_OffWindowOK (awaitVerification cfg ctx req w base) = d_OffWindowOK base \<and>
     d_LockCeilingMS (awaitVerification cfg ctx req w base) = d_LockCeilingMS base \<and>
     d_SerializeMode (awaitVerification cfg ctx req w base) = d_SerializeMode base \<and>
     d_BudgetKind (awaitVerification cfg ctx req w base) = d_BudgetKind base \<and>
     d_RowsRewritten (awaitVerification cfg ctx req w base) = d_RowsRewritten base"
  by (simp add: awaitVerification_def Let_def split: option.splits sum.splits if_splits)

subsection \<open>Properties\<close>

text \<open>
  A pg_sage change that the wait applies to (a mutation that is not owner-declared, not an
  emergency mitigation and not an operator's approval) runs only if the changes in flight on
  its objects could be read and every one of them has passed its hard deadline; otherwise an
  execute is withheld.\<close>

theorem awaitVerification_execute_iff:
  assumes "gc_Verification cfg = Some PendingVerifications" and "\<not> r_OperatorApproved req"
    and "d_Verdict base = VerdictExecute"
    and "waitApplies req base (t_inst (gate_now cfg NowWaitApplies))"
  shows "d_Verdict (awaitVerification cfg ctx req w base) = VerdictExecute \<longleftrightarrow>
     (\<exists>pending. PendingVerifications ctx req w = Inr pending \<and>
       (\<forall>p \<in> set pending. Expired p (t_inst (gate_now cfg NowSplitWaits))))"
  using assms
  by (simp add: awaitVerification_def Let_def splitWaits_eq filter_empty_conv
      split: sum.splits if_splits)

definition ex_drop :: ActionRequest where
  "ex_drop = ActionRequest0\<lparr>r_Contract := Some (ActionContract0\<lparr>
     c_ActionType := ''create_index_concurrently'', c_RiskTier := RiskModerate\<rparr>)\<rparr>"

definition ex_in_flight :: PendingVerification where
  "ex_in_flight = \<lparr>pv_ActionID = 6407, pv_DecisionID = 0, pv_Object = ''guc:work_mem'',
     pv_Until = ex_now, pv_HardDeadline = ex_now + hour, pv_Release = []\<rparr>"

theorem awaitVerification_execute_iff_witness:
  "d_Verdict (awaitVerification ((GateConfig0 ex_clock ex_lib)\<lparr>gc_Verification :=
       Some (\<lambda>_ _ _. Inr [ex_in_flight])\<rparr>)
     \<lparr>ctx_Principal = None, ctx_Tx = None\<rparr> ex_drop ()
     (blockedAs VerdictExecute ReasonAuthorized)) \<noteq> VerdictExecute"
proof -
  let ?cfg = "(GateConfig0 ex_clock ex_lib)\<lparr>gc_Verification :=
       Some (\<lambda>_ _ _. Inr [ex_in_flight])\<rparr> :: unit GateConfig"
  have "waitApplies ex_drop (blockedAs VerdictExecute ReasonAuthorized)
      (t_inst (gate_now ?cfg NowWaitApplies))"
    and "\<not> Expired ex_in_flight (t_inst (gate_now ?cfg NowSplitWaits))"
    and "\<not> r_OperatorApproved ex_drop"
    by code_simp+
  with awaitVerification_execute_iff [of ?cfg "\<lambda>_ _ _. Inr [ex_in_flight]" ex_drop
      "blockedAs VerdictExecute ReasonAuthorized"]
  show ?thesis by simp
qed

text \<open>
  A wait never parks forever: once the clock has reached the latest hard deadline of the
  changes in flight, and each has one, the verdict is the one the rest of the gate gave.\<close>

theorem awaitVerification_releases:
  assumes "gc_Verification cfg = Some PendingVerifications"
    and "PendingVerifications ctx req w = Inr pending"
    and "\<And>p. p \<in> set pending \<Longrightarrow>
      pv_HardDeadline p \<noteq> 0 \<and> pv_HardDeadline p \<le> t_inst (gate_now cfg NowSplitWaits)"
  shows "d_Verdict (awaitVerification cfg ctx req w base) = d_Verdict base"
proof -
  have "filter (\<lambda>p. \<not> Expired p (t_inst (gate_now cfg NowSplitWaits))) pending = []"
    using assms(3) by (fastforce simp: filter_empty_conv Expired_def IsZero_def)
  with assms(1,2) show ?thesis
    by (simp add: awaitVerification_def Let_def splitWaits_eq)
qed

theorem awaitVerification_releases_witness:
  "d_Verdict (awaitVerification ((GateConfig0 ex_clock ex_lib)\<lparr>gc_Verification :=
       Some (\<lambda>_ _ _. Inr [ex_in_flight\<lparr>pv_HardDeadline := ex_now\<rparr>])\<rparr>)
     \<lparr>ctx_Principal = None, ctx_Tx = None\<rparr> ex_drop ()
     (blockedAs VerdictExecute ReasonAuthorized)) = VerdictExecute"
proof -
  let ?pend = "[ex_in_flight\<lparr>pv_HardDeadline := ex_now\<rparr>]"
  let ?cfg = "(GateConfig0 ex_clock ex_lib)\<lparr>gc_Verification := Some (\<lambda>_ _ _. Inr ?pend)\<rparr>
    :: unit GateConfig"
  have "t_inst (gate_now ?cfg NowSplitWaits) = ex_now" "ex_now \<noteq> 0"
    by code_simp+
  with awaitVerification_releases [of ?cfg "\<lambda>_ _ _. Inr ?pend"
      "\<lparr>ctx_Principal = None, ctx_Tx = None\<rparr>" ex_drop "()" ?pend
      "blockedAs VerdictExecute ReasonAuthorized"]
  show ?thesis by simp
qed

end
