(* ===== verification/Gate.thy ===== *)
theory Gate
  imports Autonomy Verification_Wait
begin

text \<open>
  The authorization gate itself: \<^verbatim>\<open>gate.go\<close>, \<^verbatim>\<open>gate_operator.go\<close>,
  \<^verbatim>\<open>agent_gate.go\<close>, \<^verbatim>\<open>facts.go\<close>,
  \<^verbatim>\<open>provider_decision.go\<close>, \<^verbatim>\<open>window_status.go\<close> and the refusal
  stage of \<^verbatim>\<open>refusal.go\<close>. An evaluation reads the world and returns the decision
  with the world it leaves: the only writes before the decision is recorded are the window
  observation and the ledger's record of a mandatory deadline.
\<close>

subsection \<open>Stops before a verdict\<close>

definition hardStop :: "RuntimeState \<Rightarrow> ActionRequest \<Rightarrow> Decision option" where
  "hardStop runtime req =
     (if \<not> rt_ExecutorEnabled runtime then Some (blocked ReasonExecutorDisabled [])
      else if rt_EmergencyStop runtime then Some (blocked ReasonEmergencyStop [])
      else if rt_IsReplica runtime \<and> \<not> requestIsReadOnly req
      then Some (blocked ReasonReplicaMutation [])
      else None)"

definition validateRequest :: "'w GateConfig \<Rightarrow> ActionRequest \<Rightarrow> Decision option" where
  "validateRequest cfg req =
     (case r_Contract req of
        None \<Rightarrow> Some (blockedAs VerdictPark ReasonNoTypedContract)
      | Some c \<Rightarrow>
          if c_ActionType c = [] then Some (blockedAs VerdictPark ReasonNoTypedContract)
          else (case unknownGuardrail c of
            Some guardrail \<Rightarrow>
              Some ((gate_decision req VerdictBlocked ReasonUnknownGuardrail)
                \<lparr>d_Detail := guardrail_string guardrail\<rparr>)
          | None \<Rightarrow>
              if trustedInternalControl req \<or> (r_ExplainFamily req \<and> r_SQL req = []) then None
              else (case gc_ValidateSQL cfg of
                      None \<Rightarrow> Some (gate_decision req VerdictPark ReasonNoTypedContract)
                    | Some ValidateSQL \<Rightarrow>
                        (case ValidateSQL (r_SQL req) of
                           Some e \<Rightarrow> Some ((gate_decision req VerdictPark ReasonNoTypedContract)
                             \<lparr>d_Detail := e\<rparr>)
                         | None \<Rightarrow> None))))"

definition providerDecision :: "RuntimeState \<Rightarrow> ActionRequest \<Rightarrow> Decision option" where
  "providerDecision runtime req =
     (let support = c_ProviderSupport (contract_of req) in
      if support = [] then None
      else (let provider = ToLower (TrimSpace (rt_Provider runtime));
                provider = (if provider = [] \<or> provider = ''self-managed'' then ''postgres''
                            else provider)
            in if list_ex (\<lambda>item. EqualFold provider item) support then None
               else Some (blocked ReasonProviderUnsupported (''provider '' @ provider))))"

definition factPart :: "FactBinding \<Rightarrow> string" where
  "factPart b =
     (let part = ''fact #'' @ itoa (fb_FactID b) @ '': '' @ fb_Summary b;
          part = (if fb_ConfirmedBy b \<noteq> []
                  then part @ '' (confirmed by '' @ fb_ConfirmedBy b @ '' on '' @
                       FormatDate (fb_ConfirmedAt b) @ '')''
                  else part)
      in if fb_Route b \<noteq> [] then part @ ''; route: '' @ fb_Route b else part)"

definition FactDetail :: "FactBinding list \<Rightarrow> string" where
  "FactDetail bindings = Join (map factPart bindings) '' | ''"

definition factDecision ::
    "'w GateConfig \<Rightarrow> gctx \<Rightarrow> ActionRequest \<Rightarrow> 'w \<Rightarrow> Decision option" where
  "factDecision cfg ctx req w =
     (case gc_Facts cfg of
        None \<Rightarrow> None
      | Some Bind \<Rightarrow>
          if r_Rollback req \<or> requestIsReadOnly req then None
          else (case Bind ctx req w of
                  Inl e \<Rightarrow> Some (decisionForRequest req
                    (blocked ReasonFactsUnavailable (''read confirmed facts: '' @ e)))
                | Inr bindings \<Rightarrow>
                    if bindings = [] then None
                    else Some (decisionForRequest req
                      (blocked ReasonBoundByFact (FactDetail bindings)))))"

definition narrowingDecision :: "ActionRequest \<Rightarrow> bool \<Rightarrow> Decision" where
  "narrowingDecision req duringStop =
     (let reason = (if duringStop then ReasonNarrowingDuringStop else ReasonNarrowing)
      in decisionForRequest req (blockedAs VerdictExecute reason))"

definition observeOnly :: "RuntimeState \<Rightarrow> bool" where
  "observeOnly runtime \<longleftrightarrow>
     rt_TrustLevel runtime = TrustObservation \<or> rt_ExecutionMode runtime = ExecutionManual"

subsection \<open>The standing policy document\<close>

text \<open>The pair is the decision, if the document ends the evaluation, and what the gate learned
  of the budgets; the document itself is the one \<open>valid_policy\<close> gives. On an unreadable
  or invalid document the decision is a block, which no later stage looks behind.\<close>

definition documentDecision ::
    "'w GateConfig \<Rightarrow> gctx \<Rightarrow> ActionRequest \<Rightarrow> 'w \<Rightarrow> Document \<times> Decision option \<times> budgetNote" where
  "documentDecision cfg ctx req w =
     (case valid_policy cfg ctx req w of
        Inl e \<Rightarrow> (Document0, Some (blocked ReasonPolicyUnavailable e), budgetNote0)
      | Inr doc \<Rightarrow>
          if risk_of req = RiskReadOnly then (doc, None, budgetNote0)
          else if \<not> containsChangeClass (doc_AllowedChangeClasses doc) (r_Feature req)
          then (doc, Some (gate_decision req VerdictBlocked ReasonChangeClassNotAllowed),
                budgetNote0)
          else if hasGuardrail (contract_of req) GuardrailApprovalRequired \<or>
                  isBackendSignal (c_ActionType (contract_of req)) \<or>
                  containsChangeClass (doc_ApprovalRequiredClasses doc) (r_Feature req)
          then (doc, Some (gate_decision req VerdictQueueApproval ReasonApprovalRequired),
                budgetNote0)
          else (case gate_usage cfg ctx req w of
                  Inl e \<Rightarrow> (doc, Some (blocked ReasonPolicyUnavailable e), budgetNote0)
                | Inr usage \<Rightarrow>
                    let kind = BudgetKindFor req;
                        nt = \<lparr>n_read = True, n_kind = kind, n_rows = u_RequestRowsRewritten usage,
                              n_bypass = BudgetBypassFor req (t_inst (gate_now cfg NowBudget))\<rparr>
                    in (case limitDecision doc kind usage (n_bypass nt \<noteq> []) of
                          Some decision \<Rightarrow> (doc, Some (decisionForRequest req decision), nt)
                        | None \<Rightarrow> (doc, None, nt))))"

definition refusalDecision :: "Document \<Rightarrow> ActionRequest \<Rightarrow> Decision option" where
  "refusalDecision doc req =
     (if risk_of req = RiskReadOnly then None
      else (case RefusedBy doc req of
              None \<Rightarrow> None
            | Some token \<Rightarrow>
                Some ((decisionForRequest req
                         (blockedAs VerdictQueueApproval ReasonRefusedByPolicy))
                      \<lparr>d_Detail := token\<rparr>)))"

definition degradedValidationDecision :: Decision where
  "degradedValidationDecision = Decision0\<lparr>d_Verdict := VerdictQueueApproval,
     d_Reason := ReasonSQLValidationDegraded,
     d_Detail := ''built without cgo: parse-tree SQL validation is unavailable, '' @
       ''so unattended changes need operator approval''\<rparr>"

subsection \<open>Tiers, the trust ramp and windows\<close>

definition SpecSafeRampAge :: duration where "SpecSafeRampAge = 8 * 24 * hour"
definition SpecModerateRampAge :: duration where "SpecModerateRampAge = 31 * 24 * hour"
definition MinRampAge :: duration where "MinRampAge = hour"

definition rampAge :: "duration \<Rightarrow> duration \<Rightarrow> RollbackClass \<Rightarrow> duration" where
  "rampAge configured spec rollback =
     (if configured \<le> 0 then spec
      else if reversibilityCap rollback < autonomyExecuteLevel then max configured spec
      else max configured MinRampAge)"

definition RampAge :: "duration \<Rightarrow> duration \<Rightarrow> RollbackClass \<Rightarrow> duration" where
  "RampAge configured spec rollback = rampAge configured spec rollback"

definition rampSatisfied :: "RuntimeState \<Rightarrow> duration \<Rightarrow> gotime \<Rightarrow> bool \<Rightarrow> bool" where
  "rampSatisfied runtime minimum now ledgerDecides =
     (if ledgerDecides then True
      else \<not> IsZero (rt_RampStart runtime) \<and>
           time_Sub (t_inst now) (rt_RampStart runtime) \<ge> minimum)"

definition tierDecision :: "RuntimeState \<Rightarrow> ActionRequest \<Rightarrow> gotime \<Rightarrow> bool \<Rightarrow> Decision" where
  "tierDecision runtime req now ledgerDecides =
     (if rt_ExecutionMode runtime = ExecutionApproval
      then decisionForRequest req (blockedAs VerdictQueueApproval ReasonApprovalRequired)
      else
        let trusted = (rt_TrustLevel runtime = TrustAdvisory \<or>
                       rt_TrustLevel runtime = TrustAutonomous);
            rollback = c_RollbackClass (contract_of req);
            safeRampAge = rampAge (rt_SafeRampAge runtime) SpecSafeRampAge rollback;
            moderateRampAge = rampAge (rt_ModerateRampAge runtime) SpecModerateRampAge rollback;
            unknown = decisionForRequest req (blocked ReasonUnknownRiskTier [])
        in (case risk_of req of
              RiskReadOnly \<Rightarrow>
                if trusted then decisionForRequest req (blockedAs VerdictExecute ReasonAuthorized)
                else unknown
            | RiskSafe \<Rightarrow>
                if trusted \<and> (\<not> rt_Tier3Safe runtime \<or>
                     \<not> rampSatisfied runtime safeRampAge now ledgerDecides)
                then decisionForRequest req (blocked ReasonTrustRampNotSatisfied [])
                else if trusted
                then decisionForRequest req (blockedAs VerdictExecute ReasonAuthorized)
                else unknown
            | RiskModerate \<Rightarrow>
                if rt_TrustLevel runtime = TrustAutonomous \<and> (\<not> rt_Tier3Moderate runtime \<or>
                     \<not> rampSatisfied runtime moderateRampAge now ledgerDecides)
                then decisionForRequest req (blocked ReasonTrustRampNotSatisfied [])
                else if rt_TrustLevel runtime = TrustAutonomous
                then decisionForRequest req (blockedAs VerdictExecute ReasonAuthorized)
                else if rt_TrustLevel runtime = TrustAdvisory
                then decisionForRequest req
                       (blockedAs VerdictQueueApproval ReasonApprovalRequired)
                else unknown
            | RiskHigh \<Rightarrow>
                decisionForRequest req (blockedAs VerdictQueueApproval ReasonApprovalRequired)
            | RiskOther _ \<Rightarrow> unknown))"

definition windowDecision ::
    "'w GateConfig \<Rightarrow> Document \<Rightarrow> RuntimeState \<Rightarrow> ActionRequest \<Rightarrow> 'w \<Rightarrow> Decision option \<times> 'w" where
  "windowDecision cfg doc runtime req w =
     (if risk_of req \<noteq> RiskModerate \<and> risk_of req \<noteq> RiskHigh then (None, w)
      else
        let w = (case gc_WindowObserved cfg of None \<Rightarrow> w | Some observe \<Rightarrow> observe w);
            now = gate_now cfg NowWindow;
            configured = (risk_of req \<noteq> RiskModerate \<or> rt_InConfiguredWindow runtime)
        in if configured \<and> inAnyWindow (gc_Lib cfg) (doc_MaintenanceWindows doc) now
           then (None, w)
           else if validDeadlineOverride doc (r_Deadline req) now
           then (Some ((gate_decision req VerdictExecute ReasonDeadlineOverride)
                   \<lparr>d_OffWindowOK := True\<rparr>), w)
           else (Some (gate_decision req VerdictBlocked ReasonOutsideMaintenanceWindow), w))"

definition selfInitiatedDecision ::
    "'w GateConfig \<Rightarrow> Document \<Rightarrow> RuntimeState \<Rightarrow> ActionRequest \<Rightarrow> 'w \<Rightarrow> Decision \<times> 'w" where
  "selfInitiatedDecision cfg doc runtime req w =
     (let tier = tierDecision runtime req (gate_now cfg NowTier) (selfGoverned cfg req) in
      if d_Verdict tier \<noteq> VerdictExecute then (tier, w)
      else (case refusalDecision doc req of
              Some decision \<Rightarrow> (decision, w)
            | None \<Rightarrow>
                if rt_SQLValidationDegraded runtime \<and> risk_of req \<noteq> RiskReadOnly
                then (decisionForRequest req degradedValidationDecision, w)
                else (case windowDecision cfg doc runtime req w of
                        (Some decision, w) \<Rightarrow> (decision, w)
                      | (None, w) \<Rightarrow> (tier, w))))"

definition MaintenanceWindowOpen ::
    "'w GateConfig \<Rightarrow> gctx \<Rightarrow> ActionRequest \<Rightarrow> 'w \<Rightarrow> err + bool" where
  "MaintenanceWindowOpen cfg ctx req w =
     ebind (gate_runtime cfg ctx req w) (\<lambda>runtime.
     ebind (gate_policy cfg ctx req w) (\<lambda>doc.
     ebind (ValidateDocument (gc_Lib cfg) doc) (\<lambda>_.
       Inr (rt_InConfiguredWindow runtime \<and>
            inAnyWindow (gc_Lib cfg) (doc_MaintenanceWindows doc) (gate_now cfg NowReport)))))"

subsection \<open>Operator approvals\<close>

definition approvedMitigation :: "ActionRequest \<Rightarrow> bool" where
  "approvedMitigation req \<longleftrightarrow> r_OperatorApproved req \<and>
     (case r_Contract req of
        None \<Rightarrow> False
      | Some c \<Rightarrow> c_ActionType c = ''cancel_backend'' \<and>
                  c_RollbackClass c = RollbackMitigationOnly)"

definition operatorWindowDecision ::
    "'w GateConfig \<Rightarrow> Document \<Rightarrow> RuntimeState \<Rightarrow> ActionRequest \<Rightarrow> Decision option" where
  "operatorWindowDecision cfg doc runtime req =
     (if risk_of req \<noteq> RiskModerate \<and> risk_of req \<noteq> RiskHigh then None
      else if approvedMitigation req then None
      else
        let now = gate_now cfg NowOperatorWindow;
            trustWindowOpen = (\<not> rt_WindowConfigured runtime \<or> rt_InConfiguredWindow runtime)
        in if trustWindowOpen \<and> inAnyWindow (gc_Lib cfg) (doc_MaintenanceWindows doc) now
           then None
           else if validDeadlineOverride doc (r_Deadline req) now
           then Some ((gate_decision req VerdictExecute ReasonDeadlineOverride)
                  \<lparr>d_OffWindowOK := True\<rparr>)
           else Some (gate_decision req VerdictBlocked ReasonOutsideMaintenanceWindow))"

definition operatorDecision ::
    "'w GateConfig \<Rightarrow> gctx \<Rightarrow> RuntimeState \<Rightarrow> ActionRequest \<Rightarrow> 'w \<Rightarrow> Decision" where
  "operatorDecision cfg ctx runtime req w =
     (if rt_TrustLevel runtime = TrustObservation
      then blockedAs VerdictObserveOnly ReasonObserveOnly
      else if rt_TrustLevel runtime \<noteq> TrustAdvisory \<and> rt_TrustLevel runtime \<noteq> TrustAutonomous
      then blocked ReasonUnknownTrustLevel (rt_TrustLevel runtime)
      else if \<not> knownRisk (risk_of req) then blocked ReasonUnknownRiskTier []
      else (case valid_policy cfg ctx req w of
              Inl e \<Rightarrow> blocked ReasonPolicyUnavailable e
            | Inr doc \<Rightarrow>
                if \<not> containsChangeClass (doc_AllowedChangeClasses doc) (r_Feature req)
                then gate_decision req VerdictBlocked ReasonChangeClassNotAllowed
                else (case operatorWindowDecision cfg doc runtime req of
                        Some decision \<Rightarrow> withDocumentBounds doc decision
                      | None \<Rightarrow> withDocumentBounds doc
                          (gate_decision req VerdictExecute ReasonOperatorApproved))))"

subsection \<open>Agent requests\<close>

definition AgentUngovernedCap :: int where "AgentUngovernedCap = 2"

definition agentOperatorCeiling :: "string \<Rightarrow> int" where
  "agentOperatorCeiling trust =
     (if trust = TrustObservation then 1
      else if trust = TrustAdvisory then 2
      else if trust = TrustAutonomous then 3
      else 0)"

definition agentRollbackCap :: "RollbackClass \<Rightarrow> int" where
  "agentRollbackCap class =
     (case class of
        RollbackReversible \<Rightarrow> 3
      | RollbackNoRollbackNeeded \<Rightarrow> 3
      | RollbackNotApplicable \<Rightarrow> 3
      | _ \<Rightarrow> 2)"

definition agentStop :: "ActionRequest \<Rightarrow> Decision \<Rightarrow> Decision" where
  "agentStop req decision =
     (if d_Verdict decision \<noteq> VerdictBlocked \<and> d_Verdict decision \<noteq> VerdictPark
      then blocked ReasonPolicyUnavailable
             ''agent governance returned a final verdict other than blocked or park''
      else decisionForRequest req decision)"

definition agentLevelDecision ::
    "'w GateConfig \<Rightarrow> gctx \<Rightarrow> ActionRequest \<Rightarrow> int \<Rightarrow> 'w \<Rightarrow> Decision" where
  "agentLevelDecision cfg ctx req level w =
     (if level \<le> 0 then gate_decision req VerdictBlocked ReasonAgentLevel0
      else if level = 1 then gate_decision req VerdictObserveOnly ReasonAgentProposalRecorded
      else if risk_of req \<noteq> RiskReadOnly
      then (case valid_policy cfg ctx req w of
              Inl e \<Rightarrow> blocked ReasonPolicyUnavailable e
            | Inr doc \<Rightarrow>
                if \<not> containsChangeClass (doc_AllowedChangeClasses doc) (r_Feature req)
                then gate_decision req VerdictBlocked ReasonChangeClassNotAllowed
                else gate_decision req VerdictQueueApproval ReasonApprovalRequired)
      else gate_decision req VerdictQueueApproval ReasonApprovalRequired)"

definition agentDecision ::
    "'w GateConfig \<Rightarrow> gctx \<Rightarrow> RuntimeState \<Rightarrow> ActionRequest \<Rightarrow> 'w \<Rightarrow> Decision" where
  "agentDecision cfg ctx runtime req w =
     (case (case gc_Agents cfg of
              None \<Rightarrow> (Decision0, AgentUngovernedCap, False)
            | Some Decide \<Rightarrow> Decide ctx req w) of
        (decision, level, stop) \<Rightarrow>
          if stop then agentStop req decision
          else if agentOperatorCeiling (rt_TrustLevel runtime) = 0
          then blocked ReasonUnknownTrustLevel (rt_TrustLevel runtime)
          else if r_OperatorApproved req \<and> level \<ge> 2
          then awaitVerification cfg ctx req w (operatorDecision cfg ctx runtime req w)
          else
            let level = min level (min (agentOperatorCeiling (rt_TrustLevel runtime))
                          (agentRollbackCap (c_RollbackClass (contract_of req))));
                level = (if rt_ExecutionMode runtime = ExecutionManual then min level 1 else level)
            in agentLevelDecision cfg ctx req level w)"

subsection \<open>The evaluation\<close>

text \<open>The tail of \<^verbatim>\<open>evaluate\<close> for pg_sage's own requests.\<close>

definition evaluateOwn ::
    "'w GateConfig \<Rightarrow> gctx \<Rightarrow> RuntimeState \<Rightarrow> ActionRequest \<Rightarrow> 'w \<Rightarrow> Decision \<times> 'w" where
  "evaluateOwn cfg ctx runtime req w =
     (case documentDecision cfg ctx req w of
        (doc, stop, nt) \<Rightarrow>
          (case (case stop of
                   Some decision \<Rightarrow> (decision, w)
                 | None \<Rightarrow>
                     (case selfInitiatedDecision cfg doc runtime req w of
                        (decision, w) \<Rightarrow> (withDocumentBounds doc decision, w))) of
             (decision, w) \<Rightarrow>
               (case restrictAutonomy cfg ctx doc runtime req decision w of
                  (decision, w) \<Rightarrow>
                    (awaitVerification cfg ctx req w (stamp nt decision), w))))"

text \<open>From the validation of the request on; \<open>isStop\<close> says that a hard stop holds.\<close>

definition evaluateRequest ::
    "'w GateConfig \<Rightarrow> gctx \<Rightarrow> RuntimeState \<Rightarrow> bool \<Rightarrow> ActionRequest \<Rightarrow> 'w \<Rightarrow> Decision \<times> 'w" where
  "evaluateRequest cfg ctx runtime isStop req w =
     (case validateRequest cfg req of
        Some decision \<Rightarrow> (decision, w)
      | None \<Rightarrow>
     (case providerDecision runtime req of
        Some decision \<Rightarrow> (decision, w)
      | None \<Rightarrow>
     (case factDecision cfg ctx req w of
        Some decision \<Rightarrow> (decision, w)
      | None \<Rightarrow>
          if IsNarrowing req then (narrowingDecision req isStop, w)
          else if r_Principal req \<noteq> None then (agentDecision cfg ctx runtime req w, w)
          else if r_OperatorApproved req
          then (awaitVerification cfg ctx req w (operatorDecision cfg ctx runtime req w), w)
          else if observeOnly runtime then (blockedAs VerdictObserveOnly ReasonObserveOnly, w)
          else if rt_TrustLevel runtime \<noteq> TrustAdvisory \<and> rt_TrustLevel runtime \<noteq> TrustAutonomous
          then (blocked ReasonUnknownTrustLevel (rt_TrustLevel runtime), w)
          else evaluateOwn cfg ctx runtime req w)))"

definition evaluate ::
    "'w GateConfig \<Rightarrow> gctx \<Rightarrow> ActionRequest \<Rightarrow> 'w \<Rightarrow> Decision \<times> 'w" where
  "evaluate cfg ctx req w =
     (case gate_runtime cfg ctx req w of
        Inl e \<Rightarrow> (blocked ReasonPolicyUnavailable e, w)
      | Inr runtime \<Rightarrow>
          (case (hardStop runtime req, IsNarrowing req) of
             (Some stopped, False) \<Rightarrow> (stopped, w)
           | (stop, _) \<Rightarrow> evaluateRequest cfg ctx runtime (stop \<noteq> None) req w))"

end
