(* ===== verification/Gate_Spec.thy ===== *)
theory Gate_Spec
  imports Gate
begin

text \<open>
  What the gate promises, stated without its control flow: the independent conditions under
  which a request may run, one predicate per authority (document, tier and ramp, refusal set,
  windows, ledger, verification waits, operator, agent governance). The refinement lemmas show
  that the staged evaluation of \<open>Gate\<close> says execute exactly when all of them agree.
\<close>

subsection \<open>Specification\<close>

definition document_permits :: "'w GateConfig \<Rightarrow> gctx \<Rightarrow> Document \<Rightarrow> ActionRequest \<Rightarrow> 'w \<Rightarrow> bool" where
  "document_permits cfg ctx doc req w \<longleftrightarrow>
     risk_of req = RiskReadOnly \<or>
     r_Feature req \<in> set (doc_AllowedChangeClasses doc) \<and>
     r_Feature req \<notin> set (doc_ApprovalRequiredClasses doc) \<and>
     GuardrailApprovalRequired \<notin> set (c_Guardrails (contract_of req)) \<and>
     \<not> isBackendSignal (c_ActionType (contract_of req)) \<and>
     (\<exists>usage. gate_usage cfg ctx req w = Inr usage \<and>
        within_limits doc (BudgetKindFor req) usage
          (BudgetBypassFor req (t_inst (gate_now cfg NowBudget)) \<noteq> []))"

definition tier_permits :: "'w GateConfig \<Rightarrow> RuntimeState \<Rightarrow> ActionRequest \<Rightarrow> bool" where
  "tier_permits cfg rt req \<longleftrightarrow>
     rt_ExecutionMode rt \<noteq> ExecutionApproval \<and>
     (let rb = c_RollbackClass (contract_of req); ledger = selfGoverned cfg req;
          now = gate_now cfg NowTier;
          trusted = (rt_TrustLevel rt = TrustAdvisory \<or> rt_TrustLevel rt = TrustAutonomous)
      in (risk_of req = RiskReadOnly \<and> trusted \<or>
          risk_of req = RiskSafe \<and> trusted \<and> rt_Tier3Safe rt \<and>
            rampSatisfied rt (rampAge (rt_SafeRampAge rt) SpecSafeRampAge rb) now ledger \<or>
          risk_of req = RiskModerate \<and> rt_TrustLevel rt = TrustAutonomous \<and>
            rt_Tier3Moderate rt \<and>
            rampSatisfied rt (rampAge (rt_ModerateRampAge rt) SpecModerateRampAge rb) now ledger))"

definition content_permits :: "Document \<Rightarrow> RuntimeState \<Rightarrow> ActionRequest \<Rightarrow> bool" where
  "content_permits doc rt req \<longleftrightarrow>
     risk_of req = RiskReadOnly \<or> RefusedBy doc req = None \<and> \<not> rt_SQLValidationDegraded rt"

definition window_permits :: "'w GateConfig \<Rightarrow> Document \<Rightarrow> RuntimeState \<Rightarrow> ActionRequest \<Rightarrow> bool" where
  "window_permits cfg doc rt req \<longleftrightarrow>
     (risk_of req = RiskModerate \<or> risk_of req = RiskHigh) \<longrightarrow>
     (risk_of req = RiskModerate \<longrightarrow> rt_InConfiguredWindow rt) \<and>
       inAnyWindow (gc_Lib cfg) (doc_MaintenanceWindows doc) (gate_now cfg NowWindow) \<or>
     validDeadlineOverride doc (r_Deadline req) (gate_now cfg NowWindow)"

text \<open>The world the ledger is asked in: the window observation has happened.\<close>

definition observed :: "'w GateConfig \<Rightarrow> ActionRequest \<Rightarrow> 'w \<Rightarrow> 'w" where
  "observed cfg req w =
     (if risk_of req = RiskModerate \<or> risk_of req = RiskHigh
      then (case gc_WindowObserved cfg of None \<Rightarrow> w | Some observe \<Rightarrow> observe w) else w)"

definition ledger_permits ::
    "'w GateConfig \<Rightarrow> gctx \<Rightarrow> Document \<Rightarrow> RuntimeState \<Rightarrow> ActionRequest \<Rightarrow> 'w \<Rightarrow> bool" where
  "ledger_permits cfg ctx doc rt req w \<longleftrightarrow>
     governedByAutonomy cfg req \<longrightarrow>
     mandatoryDeadline doc req (gate_now cfg NowMandatory) \<or>
     (\<exists>lim limit. gc_Autonomy cfg = Some lim \<and> lim_Limit lim ctx req w = Inr limit \<and>
        effectiveAutonomyLevel limit (c_RollbackClass (contract_of req)) = 3 \<and>
        l3Blocker (gc_Lib cfg) doc rt req (gate_now cfg NowL3) (selfGoverned cfg req) = [])"

definition wait_permits :: "'w GateConfig \<Rightarrow> gctx \<Rightarrow> ActionRequest \<Rightarrow> 'w \<Rightarrow> bool" where
  "wait_permits cfg ctx req w \<longleftrightarrow>
     (case gc_Verification cfg of
        None \<Rightarrow> True
      | Some PendingVerifications \<Rightarrow>
          requestIsReadOnly req \<or> r_OwnerDeclared req \<or>
          BudgetBypassFor req (t_inst (gate_now cfg NowWaitApplies)) \<noteq> [] \<or>
          (\<exists>pending. PendingVerifications ctx req w = Inr pending \<and>
             (\<forall>p \<in> set pending. Expired p (t_inst (gate_now cfg NowSplitWaits)))))"

definition own_permitted ::
    "'w GateConfig \<Rightarrow> gctx \<Rightarrow> RuntimeState \<Rightarrow> Document \<Rightarrow> ActionRequest \<Rightarrow> 'w \<Rightarrow> bool" where
  "own_permitted cfg ctx rt doc req w \<longleftrightarrow>
     document_permits cfg ctx doc req w \<and> tier_permits cfg rt req \<and>
     content_permits doc rt req \<and> window_permits cfg doc rt req \<and>
     ledger_permits cfg ctx doc rt req (observed cfg req w)"

definition operator_permitted ::
    "'w GateConfig \<Rightarrow> RuntimeState \<Rightarrow> Document \<Rightarrow> ActionRequest \<Rightarrow> bool" where
  "operator_permitted cfg rt doc req \<longleftrightarrow>
     (rt_TrustLevel rt = TrustAdvisory \<or> rt_TrustLevel rt = TrustAutonomous) \<and>
     knownRisk (risk_of req) \<and> r_Feature req \<in> set (doc_AllowedChangeClasses doc) \<and>
     ((risk_of req = RiskModerate \<or> risk_of req = RiskHigh) \<longrightarrow>
        approvedMitigation req \<or>
        (rt_WindowConfigured rt \<longrightarrow> rt_InConfiguredWindow rt) \<and>
          inAnyWindow (gc_Lib cfg) (doc_MaintenanceWindows doc) (gate_now cfg NowOperatorWindow) \<or>
        validDeadlineOverride doc (r_Deadline req) (gate_now cfg NowOperatorWindow))"

subsection \<open>The stages keep the stopper contract\<close>

interpretation validation: blocking_stopper "validateRequest cfg" for cfg
  by unfold_locales
     (auto simp: validateRequest_def rank_simps split: option.splits if_splits)

interpretation provider: blocking_stopper "providerDecision rt" for rt
  by unfold_locales (auto simp: providerDecision_def Let_def rank_simps split: if_splits)

interpretation facts: blocking_stopper "\<lambda>req. factDecision cfg ctx req w" for cfg ctx w
  by unfold_locales
     (auto simp: factDecision_def rank_simps split: option.splits if_splits sum.splits)

interpretation hard_stop: blocking_stopper "hardStop rt" for rt
  by unfold_locales (auto simp: hardStop_def rank_simps split: if_splits)

interpretation refusal: stopper "refusalDecision doc" for doc
  by unfold_locales (auto simp: refusalDecision_def rank_simps split: option.splits if_splits)

lemma validateRequest_contract: "validateRequest cfg req = None \<Longrightarrow> r_Contract req \<noteq> None"
  by (cases "r_Contract req") (simp_all add: validateRequest_def)

subsection \<open>Refinement, stage by stage\<close>

lemma tierDecision_execute_iff:
  "d_Verdict (tierDecision rt req (gate_now cfg NowTier) (selfGoverned cfg req)) = VerdictExecute
     \<longleftrightarrow> tier_permits cfg rt req"
  by (cases "risk_of req") (auto simp: tierDecision_def tier_permits_def Let_def)

lemma refusalDecision_None_iff:
  "refusalDecision doc req = None \<longleftrightarrow> risk_of req = RiskReadOnly \<or> RefusedBy doc req = None"
  by (simp add: refusalDecision_def split: option.splits)

lemma windowDecision_world: "snd (windowDecision cfg doc rt req w) = observed cfg req w"
  by (auto simp: windowDecision_def observed_def Let_def)

lemma windowDecision_permits:
  "(case fst (windowDecision cfg doc rt req w) of
      None \<Rightarrow> True | Some d \<Rightarrow> d_Verdict d = VerdictExecute) \<longleftrightarrow> window_permits cfg doc rt req"
  by (auto simp: windowDecision_def window_permits_def Let_def)

lemma selfInitiatedDecision_execute_iff:
  "d_Verdict (fst (selfInitiatedDecision cfg doc rt req w)) = VerdictExecute \<longleftrightarrow>
     tier_permits cfg rt req \<and> content_permits doc rt req \<and> window_permits cfg doc rt req"
proof (cases "tier_permits cfg rt req \<and> content_permits doc rt req")
  case True
  then have "refusalDecision doc req = None"
    by (auto simp: refusalDecision_None_iff content_permits_def)
  with True show ?thesis
    using windowDecision_permits [of cfg doc rt req w]
    by (auto simp: selfInitiatedDecision_def Let_def tierDecision_execute_iff content_permits_def
        split: prod.splits option.splits)
next
  case False
  then show ?thesis
    using refusal.stop_not_execute [of doc req]
    by (auto simp: selfInitiatedDecision_def Let_def tierDecision_execute_iff content_permits_def
        refusalDecision_None_iff degradedValidationDecision_def split: option.splits)
qed

lemma selfInitiatedDecision_world:
  "d_Verdict (fst (selfInitiatedDecision cfg doc rt req w)) = VerdictExecute \<Longrightarrow>
     snd (selfInitiatedDecision cfg doc rt req w) = observed cfg req w"
  using windowDecision_world [of cfg doc rt req w] refusal.stop_not_execute [of doc req]
  by (auto simp: selfInitiatedDecision_def Let_def degradedValidationDecision_def
      split: prod.splits option.splits if_splits)

lemma documentDecision_stop_rank:
  "documentDecision cfg ctx req w = (doc, Some d, nt) \<Longrightarrow> d_Verdict d \<noteq> VerdictExecute"
  by (auto simp: documentDecision_def Let_def dest: limitDecision_verdict
      split: sum.splits if_splits option.splits)

lemma documentDecision_pass_iff:
  "(\<exists>nt. documentDecision cfg ctx req w = (doc, None, nt)) \<longleftrightarrow>
     valid_policy cfg ctx req w = Inr doc \<and> document_permits cfg ctx doc req w"
proof (cases "valid_policy cfg ctx req w")
  case (Inr d)
  then have ok: "isOk (ValidateDocument (gc_Lib cfg) d)"
    by (simp add: valid_policy_Inr_iff)
  have l: "limitDecision d k u b = Some x \<Longrightarrow> \<not> within_limits d k u b" for k u b x
    using limitDecision_None_iff [OF ok, of k u b] by auto
  show ?thesis
  proof (cases "doc = d")
    case True
    then show ?thesis
      using Inr l
      by (auto simp: documentDecision_def document_permits_def Let_def hasGuardrail_def
          list_ex_iff limitDecision_None_iff [OF ok] split: sum.splits option.splits)
  next
    case False
    then show ?thesis
      using Inr by (auto simp: documentDecision_def Let_def split: sum.splits option.splits)
  qed
qed (simp add: documentDecision_def)

lemma restrictAutonomy_execute_iff:
  "d_Verdict (fst (restrictAutonomy cfg ctx doc rt req base w)) = VerdictExecute \<longleftrightarrow>
     d_Verdict base = VerdictExecute \<and> ledger_permits cfg ctx doc rt req w"
proof
  assume x: "d_Verdict (fst (restrictAutonomy cfg ctx doc rt req base w)) = VerdictExecute"
  have "ledger_permits cfg ctx doc rt req w"
    using restrictAutonomy_execute [OF _ _ x] governed_limiter
    by (fastforce simp: ledger_permits_def)
  with autonomy.execute_before [OF x]
  show "d_Verdict base = VerdictExecute \<and> ledger_permits cfg ctx doc rt req w" ..
next
  assume "d_Verdict base = VerdictExecute \<and> ledger_permits cfg ctx doc rt req w"
  then show "d_Verdict (fst (restrictAutonomy cfg ctx doc rt req base w)) = VerdictExecute"
    by (auto simp: restrictAutonomy_def ledger_permits_def passMandatoryDeadline_def
        applyLimit_def Let_def autonomyHandoffLevel_def split: option.splits sum.splits)
qed

lemma awaitVerification_permits:
  assumes "r_Contract req \<noteq> None" and "\<not> r_OperatorApproved req"
  shows "d_Verdict (awaitVerification cfg ctx req w base) = VerdictExecute \<longleftrightarrow>
     d_Verdict base = VerdictExecute \<and> wait_permits cfg ctx req w"
proof (cases "d_Verdict base = VerdictExecute")
  case True
  with assms show ?thesis
    by (auto simp: awaitVerification_def wait_permits_def waitApplies_def Let_def splitWaits_eq
        filter_empty_conv split: option.splits sum.splits)
next
  case False
  then show ?thesis by (auto dest: waiting.execute_before)
qed

text \<open>The own path: execute exactly when every authority permits.\<close>

lemma evaluateOwn_execute_iff:
  assumes "r_Contract req \<noteq> None" and "\<not> r_OperatorApproved req"
  shows "d_Verdict (fst (evaluateOwn cfg ctx rt req w)) = VerdictExecute \<longleftrightarrow>
     (\<exists>doc. valid_policy cfg ctx req w = Inr doc \<and> own_permitted cfg ctx rt doc req w) \<and>
     wait_permits cfg ctx req (snd (evaluateOwn cfg ctx rt req w))"
proof (cases "documentDecision cfg ctx req w")
  case (fields doc stop nt)
  show ?thesis
  proof (cases stop)
    case None
    obtain d w1 where s: "selfInitiatedDecision cfg doc rt req w = (d, w1)"
      by (cases "selfInitiatedDecision cfg doc rt req w")
    obtain e w2 where r: "restrictAutonomy cfg ctx doc rt req (withDocumentBounds doc d) w1 = (e, w2)"
      by (cases "restrictAutonomy cfg ctx doc rt req (withDocumentBounds doc d) w1")
    have ev: "evaluateOwn cfg ctx rt req w = (awaitVerification cfg ctx req w2 (stamp nt e), w2)"
      using fields None s r by (simp add: evaluateOwn_def)
    have doc: "valid_policy cfg ctx req w = Inr doc" "document_permits cfg ctx doc req w"
      using documentDecision_pass_iff [of cfg ctx req w doc] fields None by auto
    have "d_Verdict e = VerdictExecute \<longleftrightarrow>
        d_Verdict d = VerdictExecute \<and> ledger_permits cfg ctx doc rt req w1"
      using restrictAutonomy_execute_iff [of cfg ctx doc rt req "withDocumentBounds doc d" w1] r
      by simp
    then have "d_Verdict e = VerdictExecute \<longleftrightarrow> own_permitted cfg ctx rt doc req w"
      using selfInitiatedDecision_execute_iff [of cfg doc rt req w]
        selfInitiatedDecision_world [of cfg doc rt req w] s doc(2)
      by (auto simp: own_permitted_def)
    then show ?thesis
      using awaitVerification_permits [OF assms, of cfg ctx w2 "stamp nt e"] doc(1)
      by (simp add: ev)
  next
    case (Some d)
    with fields have "d_Verdict d \<noteq> VerdictExecute" by (simp add: documentDecision_stop_rank)
    then have "d_Verdict (fst (restrictAutonomy cfg ctx doc rt req d w)) \<noteq> VerdictExecute"
      by (auto dest: autonomy.execute_before)
    then have "d_Verdict (fst (evaluateOwn cfg ctx rt req w)) \<noteq> VerdictExecute"
      using fields Some
      by (auto simp: evaluateOwn_def split: prod.splits dest: waiting.execute_before)
    moreover have "\<not> (\<exists>doc. valid_policy cfg ctx req w = Inr doc \<and>
        document_permits cfg ctx doc req w)"
      using documentDecision_pass_iff [of cfg ctx req w] fields Some by auto
    ultimately show ?thesis by (auto simp: own_permitted_def)
  qed
qed

lemma operatorDecision_execute_iff:
  "d_Verdict (operatorDecision cfg ctx rt req w) = VerdictExecute \<longleftrightarrow>
     (\<exists>doc. valid_policy cfg ctx req w = Inr doc \<and> operator_permitted cfg rt doc req)"
  by (auto simp: operatorDecision_def operator_permitted_def operatorWindowDecision_def Let_def
      split: sum.splits)

end
