(* ===== verification/Gate_Props.thy ===== *)
theory Gate_Props
  imports Gate_Sound
begin

text \<open>
  Properties of one evaluation of the gate, drawn from the refinement lemmas of
  \<open>Gate_Sound\<close>.
\<close>

subsection \<open>Execution bounds\<close>

lemma withDocumentBounds_execute:
  "d_Verdict d = VerdictExecute \<Longrightarrow> 0 \<le> doc_LockDurationCeilingMS doc \<Longrightarrow> d_LockCeilingMS d = 0 \<Longrightarrow>
     d_LockCeilingMS (withDocumentBounds doc d) = doc_LockDurationCeilingMS doc \<and>
     d_SerializeMode (withDocumentBounds doc d) = doc_SerializeMode doc"
  by (simp add: withDocumentBounds_def Let_def)

lemma gate_decision_ceiling [simp]: "d_LockCeilingMS (gate_decision req v r) = 0"
  by (simp add: gate_decision_def blockedAs_def Decision0_def)

lemma tierDecision_ceiling [simp]: "d_LockCeilingMS (tierDecision rt req now led) = 0"
  by (auto simp: tierDecision_def Let_def blockedAs_def blocked_def Decision0_def
      split: RiskTier.splits)

lemma selfInitiatedDecision_ceiling:
  "d_Verdict (fst (selfInitiatedDecision cfg doc rt req w)) = VerdictExecute \<Longrightarrow>
     d_LockCeilingMS (fst (selfInitiatedDecision cfg doc rt req w)) = 0"
  by (auto simp: selfInitiatedDecision_def Let_def windowDecision_def degradedValidationDecision_def
      split: option.splits prod.splits if_splits dest: refusal.stop_not_execute)

lemma restrictAutonomy_bounds:
  "d_Verdict (fst (restrictAutonomy cfg ctx doc rt req base w)) = VerdictExecute \<Longrightarrow>
     d_LockCeilingMS (fst (restrictAutonomy cfg ctx doc rt req base w)) = d_LockCeilingMS base \<and>
     d_SerializeMode (fst (restrictAutonomy cfg ctx doc rt req base w)) = d_SerializeMode base"
  by (auto simp: restrictAutonomy_def passMandatoryDeadline_def applyLimit_def Let_def
      split: option.splits sum.splits if_splits)

definition carries_bounds :: "Document \<Rightarrow> Decision \<Rightarrow> bool" where
  "carries_bounds doc d \<longleftrightarrow>
     d_LockCeilingMS d = doc_LockDurationCeilingMS doc \<and> d_SerializeMode d = doc_SerializeMode doc"

lemma carries_bounds_wait:
  "d_Verdict (awaitVerification cfg ctx req w d) = VerdictExecute \<Longrightarrow>
     carries_bounds doc (awaitVerification cfg ctx req w d) = carries_bounds doc d"
  by (simp add: carries_bounds_def awaitVerification_execute_reason)

lemma valid_policy_ceiling:
  "valid_policy cfg ctx req w = Inr doc \<Longrightarrow> 0 \<le> doc_LockDurationCeilingMS doc"
  by (simp add: valid_policy_Inr_iff isOk_ValidateDocument_iff)

lemma operatorWindowDecision_ceiling:
  "operatorWindowDecision cfg doc rt req = Some d \<Longrightarrow> d_LockCeilingMS d = 0"
  by (auto simp: operatorWindowDecision_def Let_def split: if_splits)

lemma operatorDecision_bounds:
  assumes "d_Verdict (operatorDecision cfg ctx rt req w) = VerdictExecute"
    and "valid_policy cfg ctx req w = Inr doc"
  shows "carries_bounds doc (operatorDecision cfg ctx rt req w)"
proof -
  obtain d where d: "operatorDecision cfg ctx rt req w = withDocumentBounds doc d"
      "d_LockCeilingMS d = 0"
    using assms operatorWindowDecision_ceiling [of cfg doc rt req]
    by (auto simp: operatorDecision_def split: option.splits if_splits)
  with assms(1) show ?thesis
    using withDocumentBounds_execute [OF _ valid_policy_ceiling [OF assms(2)]]
    by (simp add: carries_bounds_def)
qed

lemma documentDecision_doc:
  "documentDecision cfg ctx req w = (doc, None, nt) \<Longrightarrow> valid_policy cfg ctx req w = Inr doc"
  using documentDecision_pass_iff [of cfg ctx req w doc] by simp

lemma evaluateOwn_bounds:
  assumes x: "d_Verdict (fst (evaluateOwn cfg ctx rt req w)) = VerdictExecute"
  shows "\<exists>doc. valid_policy cfg ctx req w = Inr doc \<and>
    carries_bounds doc (fst (evaluateOwn cfg ctx rt req w))"
proof (cases "documentDecision cfg ctx req w")
  case (fields doc stop nt)
  obtain d w1 where d: "(case stop of Some decision \<Rightarrow> (decision, w)
      | None \<Rightarrow> (case selfInitiatedDecision cfg doc rt req w of
                   (decision, w) \<Rightarrow> (withDocumentBounds doc decision, w))) = (d, w1)"
    by (cases "case stop of Some decision \<Rightarrow> (decision, w)
      | None \<Rightarrow> (case selfInitiatedDecision cfg doc rt req w of
                   (decision, w) \<Rightarrow> (withDocumentBounds doc decision, w))")
  obtain e w2 where r: "restrictAutonomy cfg ctx doc rt req d w1 = (e, w2)"
    by (cases "restrictAutonomy cfg ctx doc rt req d w1")
  have ev: "evaluateOwn cfg ctx rt req w = (awaitVerification cfg ctx req w2 (stamp nt e), w2)"
    using fields d r by (simp add: evaluateOwn_def)
  then have e: "d_Verdict e = VerdictExecute"
    using x waiting.execute_before [of cfg ctx req w2 "stamp nt e"] by simp
  then have dx: "d_Verdict d = VerdictExecute"
    using r autonomy.execute_before [of cfg ctx doc rt req d w1] by simp
  then have s: "stop = None"
    using d fields documentDecision_stop_rank [of cfg ctx req w doc _ nt]
    by (cases stop) auto
  with fields have doc: "valid_policy cfg ctx req w = Inr doc"
    by (simp add: documentDecision_doc)
  have "carries_bounds doc d"
    using dx d s selfInitiatedDecision_ceiling [of cfg doc rt req w]
      withDocumentBounds_execute [OF _ valid_policy_ceiling [OF doc]]
    by (auto simp: carries_bounds_def split: prod.splits)
  then have "carries_bounds doc (stamp nt e)"
    using e r restrictAutonomy_bounds [of cfg ctx doc rt req d w1]
    by (simp add: carries_bounds_def)
  with doc x ev show ?thesis by (simp add: carries_bounds_wait)
qed

lemma agentDecision_bounds:
  assumes "d_Verdict (agentDecision cfg ctx rt req w) = VerdictExecute"
    and "valid_policy cfg ctx req w = Inr doc"
  shows "carries_bounds doc (agentDecision cfg ctx rt req w)"
proof -
  have "agentDecision cfg ctx rt req w =
      awaitVerification cfg ctx req w (operatorDecision cfg ctx rt req w)"
    using assms(1) by (auto simp: agentDecision_def Let_def split: prod.splits if_splits)
  with assms show ?thesis
    using operatorDecision_bounds [of cfg ctx rt req w doc]
      waiting.execute_before [of cfg ctx req w "operatorDecision cfg ctx rt req w"]
    by (simp add: carries_bounds_wait)
qed

lemma evaluateRequest_bounds:
  assumes "d_Verdict (fst (evaluateRequest cfg ctx rt isStop req w)) = VerdictExecute"
    and "\<not> IsNarrowing req"
  shows "\<exists>doc. valid_policy cfg ctx req w = Inr doc \<and>
    carries_bounds doc (fst (evaluateRequest cfg ctx rt isStop req w))"
proof -
  note x = assms(1) [unfolded evaluateRequest_execute_iff]
  consider (agent) "r_Principal req \<noteq> None" | (operator) "r_Principal req = None"
      "r_OperatorApproved req" | (own) "r_Principal req = None" "\<not> r_OperatorApproved req"
    by blast
  then show ?thesis
  proof cases
    case agent
    then have "fst (evaluateRequest cfg ctx rt isStop req w) = agentDecision cfg ctx rt req w"
      using x assms(2) by (simp add: evaluateRequest_def)
    with agent x assms show ?thesis
      using agentDecision_bounds [of cfg ctx rt req w] by (auto simp: agent_permitted_def)
  next
    case operator
    then have "fst (evaluateRequest cfg ctx rt isStop req w) =
        awaitVerification cfg ctx req w (operatorDecision cfg ctx rt req w)"
      using x assms(2) by (simp add: evaluateRequest_def)
    with operator x assms show ?thesis
      using operatorDecision_bounds [of cfg ctx rt req w]
        waiting.execute_before [of cfg ctx req w "operatorDecision cfg ctx rt req w"]
      by (auto simp: carries_bounds_wait)
  next
    case own
    then have "evaluateRequest cfg ctx rt isStop req w = evaluateOwn cfg ctx rt req w"
      using x assms(2) by (auto simp: evaluateRequest_def own_permitted_def tier_permits_def Let_def)
    with assms(1) show ?thesis using evaluateOwn_bounds [of cfg ctx rt req w] by simp
  qed
qed

subsection \<open>Callbacks a stage does not read\<close>

lemma gate_facts_irrelevant_reads [simp]:
  "gate_runtime (cfg\<lparr>gc_Facts := f\<rparr>) = gate_runtime cfg"
  "gate_policy (cfg\<lparr>gc_Facts := f\<rparr>) = gate_policy cfg"
  "gate_usage (cfg\<lparr>gc_Facts := f\<rparr>) = gate_usage cfg"
  "gate_now (cfg\<lparr>gc_Facts := f\<rparr>) = gate_now cfg"
  "valid_policy (cfg\<lparr>gc_Facts := f\<rparr>) = valid_policy cfg"
  "governedByAutonomy (cfg\<lparr>gc_Facts := f\<rparr>) = governedByAutonomy cfg"
  "selfGoverned (cfg\<lparr>gc_Facts := f\<rparr>) = selfGoverned cfg"
  by (auto simp: fun_eq_iff gate_runtime_def gate_policy_def gate_usage_def gate_now_def
      valid_policy_def governedByAutonomy_def selfGoverned_def cong: branch_congs)

lemma gate_facts_irrelevant:
  "validateRequest (cfg\<lparr>gc_Facts := f\<rparr>) req = validateRequest cfg req"
  "agentDecision (cfg\<lparr>gc_Facts := f\<rparr>) ctx rt req w = agentDecision cfg ctx rt req w"
  "awaitVerification (cfg\<lparr>gc_Facts := f\<rparr>) ctx req w d = awaitVerification cfg ctx req w d"
  "operatorDecision (cfg\<lparr>gc_Facts := f\<rparr>) ctx rt req w = operatorDecision cfg ctx rt req w"
  "evaluateOwn (cfg\<lparr>gc_Facts := f\<rparr>) ctx rt req w = evaluateOwn cfg ctx rt req w"
proof -
  show v: "validateRequest (cfg\<lparr>gc_Facts := f\<rparr>) req = validateRequest cfg req"
    by (simp add: validateRequest_def cong: branch_congs)
  show a: "awaitVerification (cfg\<lparr>gc_Facts := f\<rparr>) ctx req w d = awaitVerification cfg ctx req w d"
    for w d by (simp add: awaitVerification_def cong: branch_congs)
  show o: "operatorDecision (cfg\<lparr>gc_Facts := f\<rparr>) ctx rt req w = operatorDecision cfg ctx rt req w"
    by (simp add: operatorDecision_def operatorWindowDecision_def cong: branch_congs)
  show "agentDecision (cfg\<lparr>gc_Facts := f\<rparr>) ctx rt req w = agentDecision cfg ctx rt req w"
    by (simp add: agentDecision_def agentLevelDecision_def a o cong: branch_congs)
  have d: "documentDecision (cfg\<lparr>gc_Facts := f\<rparr>) ctx req w = documentDecision cfg ctx req w"
    by (simp add: documentDecision_def cong: branch_congs)
  have s: "selfInitiatedDecision (cfg\<lparr>gc_Facts := f\<rparr>) doc rt req w =
      selfInitiatedDecision cfg doc rt req w" for doc
    by (simp add: selfInitiatedDecision_def windowDecision_def cong: branch_congs)
  have r: "restrictAutonomy (cfg\<lparr>gc_Facts := f\<rparr>) ctx doc rt req e w =
      restrictAutonomy cfg ctx doc rt req e w" for doc e w
    by (simp add: restrictAutonomy_def applyLimit_def trustedVerdict_def cong: branch_congs)
  show "evaluateOwn (cfg\<lparr>gc_Facts := f\<rparr>) ctx rt req w = evaluateOwn cfg ctx rt req w"
    by (simp add: evaluateOwn_def a d s r cong: branch_congs)
qed

subsection \<open>Properties\<close>

text \<open>
  C1: The staged evaluation says execute exactly when the specification permits the request:
  the runtime state is readable, the request is typed and its SQL valid, the provider is
  supported, no confirmed fact binds it, and it only takes access away, or no hard stop holds
  and its own authority agrees: agent governance and a person for an agent, the person's
  bounds for an approval, and for pg_sage's own initiative the document with its limits, tier
  and ramp, refusal set, windows, ledger level and verification waits, all of them.\<close>

theorem evaluate_refines_spec:
  "d_Verdict (fst (evaluate cfg ctx req w)) = VerdictExecute \<longleftrightarrow> permitted cfg ctx req w"
  by (rule evaluate_permitted)

text \<open>
  C8: While the executor is disabled, an emergency stop holds, or the target is a replica and
  the request not read-only, the only thing that runs is a request that takes access away; it
  is marked as having run during the stop, and evaluating changes nothing.\<close>

theorem hard_stop_only_narrowing:
  assumes "gate_runtime cfg ctx req w = Inr rt"
    and "\<not> rt_ExecutorEnabled rt \<or> rt_EmergencyStop rt \<or>
      rt_IsReplica rt \<and> \<not> requestIsReadOnly req"
    and "d_Verdict (fst (evaluate cfg ctx req w)) = VerdictExecute"
  shows "IsNarrowing req \<and>
    d_Reason (fst (evaluate cfg ctx req w)) = ReasonNarrowingDuringStop \<and>
    snd (evaluate cfg ctx req w) = w"
proof -
  from assms(2) have h: "hardStop rt req \<noteq> None" by (auto simp: hardStop_def)
  with assms(1,3) have n: "IsNarrowing req"
    by (auto simp: evaluate_permitted permitted_def)
  with h have "evaluate cfg ctx req w = evaluateRequest cfg ctx rt True req w"
    using evaluate_cases(3) [OF assms(1)] by simp
  with n assms(3) show ?thesis
    by (auto simp: evaluateRequest_execute_iff, simp_all add: evaluateRequest_def narrowingDecision_def)
qed

definition ex_ctx :: gctx where "ex_ctx = \<lparr>ctx_Principal = None, ctx_Tx = None\<rparr>"

definition ex_revoke :: ActionRequest where
  "ex_revoke = ActionRequest0\<lparr>r_Contract := Some (ActionContract0\<lparr>c_ActionType := ''guard_freeze'',
     c_RiskTier := RiskSafe, c_Narrowing := True\<rparr>), r_InternalControl := True\<rparr>"

definition ex_stopped :: "unit GateConfig" where
  "ex_stopped = (GateConfig0 ex_clock ex_lib)\<lparr>gc_Runtime :=
     Some (\<lambda>_ _ _. Inr (RuntimeState0\<lparr>rt_ExecutorEnabled := True, rt_EmergencyStop := True\<rparr>))\<rparr>"

theorem hard_stop_only_narrowing_witness:
  "d_Reason (fst (evaluate ex_stopped ex_ctx ex_revoke ())) = ReasonNarrowingDuringStop"
proof -
  have "gate_runtime ex_stopped ex_ctx ex_revoke () =
      Inr (RuntimeState0\<lparr>rt_ExecutorEnabled := True, rt_EmergencyStop := True\<rparr>)"
    by (simp add: gate_runtime_def ex_stopped_def)
  moreover have "d_Verdict (fst (evaluate ex_stopped ex_ctx ex_revoke ())) = VerdictExecute"
    by code_simp
  ultimately show ?thesis
    using hard_stop_only_narrowing [of ex_stopped ex_ctx ex_revoke "()"] by simp
qed

text \<open>
  Every request that runs and does more than take access away carries the execution bounds
  of the valid document it was judged by: its lock ceiling, which caps the lock timeout, and
  its serialize mode, which decides what a lease conflict does.\<close>

theorem execute_carries_bounds:
  assumes "d_Verdict (fst (evaluate cfg ctx req w)) = VerdictExecute" and "\<not> IsNarrowing req"
  shows "\<exists>doc. gate_policy cfg ctx req w = Inr doc \<and> isOk (ValidateDocument (gc_Lib cfg) doc) \<and>
    d_LockCeilingMS (fst (evaluate cfg ctx req w)) = doc_LockDurationCeilingMS doc \<and>
    d_SerializeMode (fst (evaluate cfg ctx req w)) = doc_SerializeMode doc"
proof -
  from assms obtain rt where rt: "gate_runtime cfg ctx req w = Inr rt" "hardStop rt req = None"
    by (auto simp: evaluate_permitted permitted_def)
  then have "evaluate cfg ctx req w = evaluateRequest cfg ctx rt False req w"
    using evaluate_cases(3) [of cfg ctx req w rt] by simp
  with assms show ?thesis
    using evaluateRequest_bounds [of cfg ctx rt False req w]
    by (auto simp: carries_bounds_def valid_policy_Inr_iff)
qed

definition ex_doc :: Document where
  "ex_doc = UnattendedProfile\<lparr>doc_RefusalSet := [''unrollbackable'']\<rparr>"

definition ex_runtime :: RuntimeState where
  "ex_runtime = RuntimeState0\<lparr>rt_ExecutorEnabled := True, rt_TrustLevel := TrustAutonomous,
     rt_ExecutionMode := ExecutionAuto, rt_Tier3Safe := True, rt_Tier3Moderate := True,
     rt_RampStart := ex_now - 40 * 24 * hour, rt_InConfiguredWindow := True\<rparr>"

definition ex_running :: "Document \<Rightarrow> unit GateConfig" where
  "ex_running doc = (GateConfig0 ex_clock ex_lib)\<lparr>
     gc_Runtime := Some (\<lambda>_ _ _. Inr ex_runtime), gc_ValidateSQL := Some (\<lambda>_. None),
     gc_Policy := Some (\<lambda>_ _ _. Inr doc)\<rparr>"

definition ex_index :: ActionRequest where
  "ex_index = ActionRequest0\<lparr>
     r_Contract := Some (ActionContract0\<lparr>c_ActionType := ''reindex_concurrently'',
       c_RiskTier := RiskModerate, c_RollbackClass := RollbackReversible\<rparr>),
     r_Feature := ChangeIndex, r_SQL := ''REINDEX i'', r_TargetObjs := [''i'']\<rparr>"

lemma ex_index_fields [simp]:
  "\<not> IsNarrowing ex_index" "r_Principal ex_index = None" "\<not> r_OperatorApproved ex_index"
  "risk_of ex_index = RiskModerate"
  by code_simp+

lemma ex_index_contract: "r_Contract ex_index = Some (contract_of ex_index)"
  by code_simp

lemma ex_running_reads [simp]:
  "gate_runtime (ex_running doc) ctx req w = Inr ex_runtime"
  "gate_policy (ex_running doc) ctx req w = Inr doc"
  "gate_usage (ex_running doc) ctx req w = Inr LimitUsage0"
  "gate_now (ex_running doc) site = ex_clock site" "gc_Lib (ex_running doc) = ex_lib"
  by (simp_all add: gate_runtime_def gate_policy_def gate_usage_def gate_now_def ex_running_def
      GateConfig0_def)

lemma ex_doc_valid [simp]: "isOk (ValidateDocument ex_lib ex_doc)"
  by code_simp

lemma ex_index_admitted:
  "validateRequest (ex_running doc) ex_index = None" "providerDecision ex_runtime ex_index = None"
  "factDecision (ex_running doc) ctx ex_index w = None" "hardStop ex_runtime ex_index = None"
  "\<not> observeOnly ex_runtime" "\<not> governedByAutonomy (ex_running doc) ex_index"
  "tier_permits (ex_running doc) ex_runtime ex_index"
  by (simp_all add: validateRequest_def ex_running_def GateConfig0_def ex_index_def
      ActionRequest0_def ActionContract0_def unknownGuardrail_def providerDecision_def
      factDecision_def hardStop_def ex_runtime_def RuntimeState0_def observeOnly_def
      governedByAutonomy_def tier_permits_def contract_of_def rampSatisfied_def rampAge_def
      SpecModerateRampAge_def IsZero_def time_Sub_def gate_now_def ex_clock_def ex_now_def
      duration_defs min64_def max64_def)

lemma ex_index_document:
  "RefusedBy ex_doc ex_index = None"
  "within_limits ex_doc (BudgetKindFor ex_index) LimitUsage0 False"
  "BudgetBypassFor ex_index (t_inst (ex_clock NowBudget)) = []"
  "inAnyWindow ex_lib (doc_MaintenanceWindows ex_doc) (ex_clock NowWindow)"
  "r_Feature ex_index \<in> set (doc_AllowedChangeClasses ex_doc)"
  "r_Feature ex_index \<notin> set (doc_ApprovalRequiredClasses ex_doc)"
  "\<not> isBackendSignal (c_ActionType (contract_of ex_index))"
  "GuardrailApprovalRequired \<notin> set (c_Guardrails (contract_of ex_index))"
  "\<not> rt_SQLValidationDegraded ex_runtime" "rt_InConfiguredWindow ex_runtime"
  by code_simp+

lemma ex_index_runs [simp]:
  "d_Verdict (fst (evaluate (ex_running ex_doc) ex_ctx ex_index ())) = VerdictExecute"
proof -
  have "wait_permits (ex_running ex_doc) ctx ex_index w" for ctx w
    by (simp add: wait_permits_def ex_running_def GateConfig0_def)
  then show ?thesis
    by (simp add: evaluate_permitted permitted_def ex_index_admitted ex_index_document
        valid_policy_def own_permitted_def document_permits_def content_permits_def
        window_permits_def ledger_permits_def)
qed

theorem execute_carries_bounds_witness:
  "d_LockCeilingMS (fst (evaluate (ex_running ex_doc) ex_ctx ex_index ())) = 3000"
proof -
  have "doc_LockDurationCeilingMS ex_doc = 3000" by code_simp
  then show ?thesis
    using execute_carries_bounds [of "ex_running ex_doc" ex_ctx ex_index "()"]
    by simp
qed

text \<open>
  C6: When a mutation pg_sage starts on its own runs, every one of these holds: the executor is
  on, no emergency stop, not a replica; trust is advisory or autonomous and the mode neither
  manual nor approval; the document is valid, allows the class and does not require approval
  for it, no approval guardrail and no backend signal; usage is within the limits; the refusal
  set does not refuse it and the SQL validator is not degraded; the tier's flag is on; and a
  high-risk or unknown tier never runs, a moderate one only at autonomous trust.\<close>

theorem unattended_mutation_sound:
  assumes "d_Verdict (fst (evaluate cfg ctx req w)) = VerdictExecute"
    and "r_Principal req = None" "\<not> r_OperatorApproved req" "\<not> IsNarrowing req"
    and "r_Contract req = Some c" "c_RiskTier c \<noteq> RiskReadOnly"
  shows "\<exists>rt doc usage. gate_runtime cfg ctx req w = Inr rt \<and> gate_policy cfg ctx req w = Inr doc \<and>
    gate_usage cfg ctx req w = Inr usage \<and>
    rt_ExecutorEnabled rt \<and> \<not> rt_EmergencyStop rt \<and> \<not> rt_IsReplica rt \<and>
    rt_TrustLevel rt \<in> {TrustAdvisory, TrustAutonomous} \<and>
    rt_ExecutionMode rt \<notin> {ExecutionManual, ExecutionApproval} \<and>
    \<not> rt_SQLValidationDegraded rt \<and>
    isOk (ValidateDocument (gc_Lib cfg) doc) \<and>
    r_Feature req \<in> set (doc_AllowedChangeClasses doc) - set (doc_ApprovalRequiredClasses doc) \<and>
    GuardrailApprovalRequired \<notin> set (c_Guardrails c) \<and>
    c_ActionType c \<notin> {''cancel_backend'', ''terminate_backend''} \<and>
    limitDecision doc (BudgetKindFor req) usage
      (BudgetBypassFor req (t_inst (gate_now cfg NowBudget)) \<noteq> []) = None \<and>
    RefusedBy doc req = None \<and>
    (c_RiskTier c = RiskSafe \<and> rt_Tier3Safe rt \<or>
     c_RiskTier c = RiskModerate \<and> rt_Tier3Moderate rt \<and> rt_TrustLevel rt = TrustAutonomous)"
proof -
  from assms obtain rt doc where rt: "gate_runtime cfg ctx req w = Inr rt" "hardStop rt req = None"
      "\<not> observeOnly rt"
    and doc: "valid_policy cfg ctx req w = Inr doc" "own_permitted cfg ctx rt doc req w"
    by (auto simp: evaluate_permitted permitted_def)
  have c: "contract_of req = c" using assms(5) by simp
  have ok: "isOk (ValidateDocument (gc_Lib cfg) doc)" "gate_policy cfg ctx req w = Inr doc"
    using doc(1) by (simp_all add: valid_policy_Inr_iff)
  from doc(2) assms(6) c obtain usage where u: "gate_usage cfg ctx req w = Inr usage"
    "within_limits doc (BudgetKindFor req) usage
      (BudgetBypassFor req (t_inst (gate_now cfg NowBudget)) \<noteq> [])"
    by (auto simp: own_permitted_def document_permits_def)
  have stop: "rt_ExecutorEnabled rt" "\<not> rt_EmergencyStop rt" "\<not> rt_IsReplica rt"
    using rt(2) assms(5,6) by (auto simp: hardStop_def requestIsReadOnly_def split: if_splits)
  have mode: "rt_ExecutionMode rt \<noteq> ExecutionManual" "rt_ExecutionMode rt \<noteq> ExecutionApproval"
    using rt(3) doc(2) by (simp_all add: observeOnly_def own_permitted_def tier_permits_def)
  have tier: "rt_TrustLevel rt = TrustAdvisory \<or> rt_TrustLevel rt = TrustAutonomous"
    "c_RiskTier c = RiskSafe \<and> rt_Tier3Safe rt \<or>
     c_RiskTier c = RiskModerate \<and> rt_Tier3Moderate rt \<and> rt_TrustLevel rt = TrustAutonomous"
    using doc(2) assms(6) c by (auto simp: own_permitted_def tier_permits_def Let_def)
  have permits: "document_permits cfg ctx doc req w" "content_permits doc rt req"
    using doc(2) by (simp_all add: own_permitted_def)
  have doc': "r_Feature req \<in> set (doc_AllowedChangeClasses doc)"
    "r_Feature req \<notin> set (doc_ApprovalRequiredClasses doc)"
    "GuardrailApprovalRequired \<notin> set (c_Guardrails c)" "\<not> isBackendSignal (c_ActionType c)"
    "RefusedBy doc req = None" "\<not> rt_SQLValidationDegraded rt"
    using permits assms(6) by (simp_all add: document_permits_def content_permits_def c)
  show ?thesis
    using rt(1) u(1) ok stop mode tier doc' limitDecision_None_iff [OF ok(1), THEN iffD2, OF u(2)]
    by (intro exI [of _ rt] exI [of _ doc] exI [of _ usage] conjI)
       (simp_all add: isBackendSignal_def)
qed

theorem unattended_mutation_sound_witness:
  "limitDecision ex_doc BudgetPerformance LimitUsage0 False = None"
proof -
  have n: "c_RiskTier (contract_of ex_index) \<noteq> RiskReadOnly" by code_simp
  have k: "BudgetKindFor ex_index = BudgetPerformance" by code_simp
  have b: "BudgetBypassFor ex_index (t_inst (ex_clock NowBudget)) = []"
    by code_simp
  show ?thesis
    using unattended_mutation_sound [OF ex_index_runs ex_index_fields(2,3,1) ex_index_contract n]
    by (simp only: ex_running_reads k b) auto
qed

text \<open>
  C9: A request that comes from an agent never runs on its own: unless it only takes access
  away it needs a person's approval, agent governance (when configured) must neither end the
  evaluation nor cap the agent below level 2, and the person's bounds hold: known trust, an
  allowed change class, and the windows for moderate and high risk.\<close>

theorem agent_needs_person:
  assumes "d_Verdict (fst (evaluate cfg ctx req w)) = VerdictExecute"
    and "r_Principal req \<noteq> None" "\<not> IsNarrowing req"
  shows "r_OperatorApproved req \<and>
    (\<forall>Decide d maxLevel stop. gc_Agents cfg = Some Decide \<and> Decide ctx req w = (d, maxLevel, stop) \<longrightarrow>
       \<not> stop \<and> 2 \<le> maxLevel) \<and>
    (\<exists>rt doc. gate_runtime cfg ctx req w = Inr rt \<and> valid_policy cfg ctx req w = Inr doc \<and>
       operator_permitted cfg rt doc req)"
  using assms by (auto simp: evaluate_permitted permitted_def agent_permitted_def)

definition ex_agent :: ActionRequest where
  "ex_agent = ex_index\<lparr>r_OperatorApproved := True, r_Principal := Some \<lparr>p_ID = ''agp_1'',
     p_SponsorID = 7, p_TaskID = [], p_OnBehalfOf = [], p_Tool = []\<rparr>\<rparr>"

theorem agent_needs_person_witness: "r_OperatorApproved ex_agent"
proof -
  have "operator_permitted (ex_running ex_doc) ex_runtime ex_doc ex_agent"
    by code_simp
  moreover have "validateRequest (ex_running ex_doc) ex_agent = None"
    "providerDecision ex_runtime ex_agent = None" "hardStop ex_runtime ex_agent = None"
    "factDecision (ex_running ex_doc) ex_ctx ex_agent () = None" "\<not> IsNarrowing ex_agent"
    "r_OperatorApproved ex_agent" "gc_Agents (ex_running ex_doc) = None"
    "r_Principal ex_agent \<noteq> None"
    by code_simp+
  ultimately have "d_Verdict (fst (evaluate (ex_running ex_doc) ex_ctx ex_agent ())) =
      VerdictExecute" "r_Principal ex_agent \<noteq> None" "\<not> IsNarrowing ex_agent"
    unfolding evaluate_permitted permitted_def agent_permitted_def valid_policy_def by simp_all
  from agent_needs_person [OF this] show ?thesis by simp
qed

text \<open>
  Confirmed facts only narrow. With a fact binder configured, an evaluation is either the
  one without facts, to the letter, or a blocked verdict that names the facts or says that they
  could not be read.\<close>

theorem facts_only_narrow:
  "evaluate cfg ctx req w = evaluate (cfg\<lparr>gc_Facts := None\<rparr>) ctx req w \<or>
   d_Verdict (fst (evaluate cfg ctx req w)) = VerdictBlocked \<and>
     d_Reason (fst (evaluate cfg ctx req w)) \<in> {ReasonBoundByFact, ReasonFactsUnavailable}"
proof -
  let ?cfg = "cfg\<lparr>gc_Facts := None\<rparr>"
  have facts: "factDecision ?cfg ctx req w = None" by (simp add: factDecision_def)
  have bind: "d_Verdict d = VerdictBlocked \<and>
      d_Reason d \<in> {ReasonBoundByFact, ReasonFactsUnavailable}"
    if "factDecision cfg ctx req w = Some d" for d
    using that by (auto simp: factDecision_def split: option.splits if_splits sum.splits)
  have "evaluateRequest cfg ctx rt isStop req w = evaluateRequest ?cfg ctx rt isStop req w \<or>
      d_Verdict (fst (evaluateRequest cfg ctx rt isStop req w)) = VerdictBlocked \<and>
      d_Reason (fst (evaluateRequest cfg ctx rt isStop req w)) \<in>
        {ReasonBoundByFact, ReasonFactsUnavailable}" for rt isStop
  proof (cases "factDecision cfg ctx req w")
    case None
    then show ?thesis
      by (simp add: evaluateRequest_def facts gate_facts_irrelevant cong: branch_congs)
  next
    case (Some d)
    with bind [OF Some] show ?thesis
      by (simp add: evaluateRequest_def gate_facts_irrelevant split: option.splits)
  qed
  then show ?thesis
    by (simp add: evaluate_def gate_facts_irrelevant split: sum.splits option.splits bool.splits)
qed

text \<open>
  C10: Authority that cannot be read is no authority. A self-initiated mutation does not run
  when the runtime state, the policy document (or its validation), the usage, the confirmed
  facts, the ledger (for a governed request without a mandatory deadline) or the changes in
  flight (for a request that must wait for them) cannot be read.\<close>

theorem fails_closed:
  assumes "r_Principal req = None" "\<not> r_OperatorApproved req" "\<not> IsNarrowing req"
    and "\<not> requestIsReadOnly req"
    and "(\<exists>e. gate_runtime cfg ctx req w = Inl e) \<or> (\<exists>e. valid_policy cfg ctx req w = Inl e) \<or>
      (\<exists>e. gate_usage cfg ctx req w = Inl e) \<or>
      (\<exists>Bind e. gc_Facts cfg = Some Bind \<and> \<not> r_Rollback req \<and> Bind ctx req w = Inl e) \<or>
      (\<exists>lim e doc. gc_Autonomy cfg = Some lim \<and> governedByAutonomy cfg req \<and>
         lim_Limit lim ctx req (observed cfg req w) = Inl e \<and>
         valid_policy cfg ctx req w = Inr doc \<and>
         \<not> mandatoryDeadline doc req (gate_now cfg NowMandatory)) \<or>
      (\<exists>Pending e. gc_Verification cfg = Some Pending \<and> \<not> r_OwnerDeclared req \<and>
         BudgetBypassFor req (t_inst (gate_now cfg NowWaitApplies)) = [] \<and>
         Pending ctx req (snd (evaluate cfg ctx req w)) = Inl e)"
  shows "d_Verdict (fst (evaluate cfg ctx req w)) \<noteq> VerdictExecute"
proof
  assume "d_Verdict (fst (evaluate cfg ctx req w)) = VerdictExecute"
  then have p: "permitted cfg ctx req w" by (simp add: evaluate_permitted)
  then obtain rt doc where r: "gate_runtime cfg ctx req w = Inr rt"
    and v: "validateRequest cfg req = None" and f: "factDecision cfg ctx req w = None"
    and d: "valid_policy cfg ctx req w = Inr doc" and o: "own_permitted cfg ctx rt doc req w"
    and w: "wait_permits cfg ctx req (snd (evaluate cfg ctx req w))"
    using assms(1-3) by (auto simp: permitted_def)
  from v obtain c where c: "r_Contract req = Some c" using validateRequest_contract by blast
  with assms(4) have ro: "risk_of req \<noteq> RiskReadOnly" by (simp add: requestIsReadOnly_def)
  from o ro have u: "\<exists>usage. gate_usage cfg ctx req w = Inr usage"
    by (auto simp: own_permitted_def document_permits_def)
  from f assms(4) have b: "\<not> (\<exists>Bind e. gc_Facts cfg = Some Bind \<and> \<not> r_Rollback req \<and>
      Bind ctx req w = Inl e)"
    by (auto simp: factDecision_def)
  from o have l: "ledger_permits cfg ctx doc rt req (observed cfg req w)"
    by (simp add: own_permitted_def)
  show False
    using assms(4,5) r d u b l w by (auto simp: ledger_permits_def wait_permits_def)
qed

theorem fails_closed_witness:
  "d_Verdict (fst (evaluate ((ex_running ex_doc)\<lparr>gc_Usage := Some (\<lambda>_ _ _. Inl ''timeout'')\<rparr>)
     ex_ctx ex_index ())) \<noteq> VerdictExecute"
proof -
  have "\<not> requestIsReadOnly ex_index" by code_simp
  moreover have "gate_usage ((ex_running ex_doc)\<lparr>gc_Usage := Some (\<lambda>_ _ _. Inl ''timeout'')\<rparr>)
      ex_ctx ex_index () = Inl ''timeout''"
    by (simp add: gate_usage_def)
  ultimately show ?thesis by (intro fails_closed [OF ex_index_fields(2,3,1)]) simp_all
qed

text \<open>
  No configuration shortens the trust ramp below an hour, and for an action that cannot be
  rolled back (anything the ledger's reversibility cap holds below level 3) none shortens it
  below the specified age.\<close>

theorem rampAge_floor:
  "(MinRampAge \<le> spec \<longrightarrow> MinRampAge \<le> rampAge configured spec rollback) \<and>
   (rollback \<notin> {RollbackReversible, RollbackNoRollbackNeeded} \<longrightarrow>
      spec \<le> rampAge configured spec rollback)"
  by (auto simp: rampAge_def reversibilityCap_def autonomyExecuteLevel_def autonomyHandoffLevel_def
      split: RollbackClass.splits)

theorem rampAge_floor_witness: "8 * 24 * hour \<le> rampAge hour SpecSafeRampAge RollbackNotReversible"
  using rampAge_floor [of SpecSafeRampAge hour RollbackNotReversible]
  by (simp add: SpecSafeRampAge_def)

text \<open>
  The window report agrees with the gate: with the two readings of the clock equal, it says
  open exactly when the window stage lets an unattended moderate action pass on its own, and a
  missing or invalid policy or an unreadable runtime state is an error, never open.\<close>

theorem MaintenanceWindowOpen_agrees:
  assumes "risk_of req = RiskModerate" and "gate_now cfg NowReport = gate_now cfg NowWindow"
  shows "MaintenanceWindowOpen cfg ctx req w = Inr True \<longleftrightarrow>
    (\<exists>rt doc. gate_runtime cfg ctx req w = Inr rt \<and> valid_policy cfg ctx req w = Inr doc \<and>
       fst (windowDecision cfg doc rt req w) = None)"
  using assms
  by (auto simp: MaintenanceWindowOpen_def ebind_Inr_iff valid_policy_Inr_iff isOk_iff
      windowDecision_def Let_def)

theorem MaintenanceWindowOpen_agrees_witness:
  "MaintenanceWindowOpen (ex_running ex_doc) ex_ctx ex_index () = Inr True"
proof -
  have "fst (windowDecision (ex_running ex_doc) ex_doc ex_runtime ex_index ()) = None"
    by code_simp
  then show ?thesis
    using MaintenanceWindowOpen_agrees [of ex_index "ex_running ex_doc" ex_ctx "()"]
    by (simp add: valid_policy_def ex_clock_def)
qed

end
