(* ===== verification/Authorize.thy ===== *)
theory Authorize
  imports Gate_Props
begin

text \<open>
  Authorizing and explaining: \<^verbatim>\<open>Authorize\<close>, \<^verbatim>\<open>Explain\<close>,
  \<^verbatim>\<open>record\<close> and \<^verbatim>\<open>finish\<close> of \<^verbatim>\<open>gate.go\<close>, and
  \<^verbatim>\<open>authorizeSerialized\<close> of \<^verbatim>\<open>budget_lock.go\<close>. A call is one
  transition of the world. The mutex of the gate makes budget-spending calls of one process
  follow one another; the cross-process lock is the configured \<^verbatim>\<open>Serialize\<close>.
\<close>

definition gate_record ::
    "'w GateConfig \<Rightarrow> gctx \<Rightarrow> ActionRequest \<Rightarrow> Decision \<Rightarrow> 'w \<Rightarrow> (Decision \<times> err option) \<times> 'w" where
  "gate_record cfg ctx req decision w =
     (let decision = decisionForRequest req decision in
      case gc_RecordDecisionDetailed cfg of
        Some RecordDecisionDetailed \<Rightarrow>
          (case RecordDecisionDetailed ctx req decision w of
             (Inl e, w) \<Rightarrow> ((blocked ReasonPolicyUnavailable e, Some e), w)
           | (Inr (evidenceID, decisionID), w) \<Rightarrow>
               ((decision\<lparr>d_EvidenceID := evidenceID, d_DecisionID := decisionID\<rparr>, None), w))
      | None \<Rightarrow>
          (case gc_RecordDecision cfg of
             None \<Rightarrow> ((decision, None), w)
           | Some RecordDecision \<Rightarrow>
               (case RecordDecision ctx req decision w of
                  (Inl e, w) \<Rightarrow> ((blocked ReasonPolicyUnavailable e, Some e), w)
                | (Inr evidenceID, w) \<Rightarrow> ((decision\<lparr>d_EvidenceID := evidenceID\<rparr>, None), w))))"

definition finish ::
    "'w GateConfig \<Rightarrow> gctx \<Rightarrow> ActionRequest \<Rightarrow> Decision \<Rightarrow> 'w \<Rightarrow> Decision \<times> 'w" where
  "finish cfg ctx req decision w =
     (case gate_record cfg ctx req decision w of ((recorded, _), w) \<Rightarrow> (recorded, w))"

definition authorizeSerialized ::
    "'w GateConfig \<Rightarrow>
     (gctx \<Rightarrow> ActionRequest \<Rightarrow> 'w \<Rightarrow>
       (err + gctx \<times> (bool \<Rightarrow> 'w \<Rightarrow> err option \<times> 'w)) \<times> 'w) \<Rightarrow>
     gctx \<Rightarrow> ActionRequest \<Rightarrow> 'w \<Rightarrow> Decision \<times> 'w" where
  "authorizeSerialized cfg Serialize ctx req w =
     (case Serialize ctx req w of
        (Inl e, w) \<Rightarrow>
          finish cfg ctx req (blocked ReasonPolicyUnavailable (''budget lock: '' @ e)) w
      | (Inr (lockedCtx, endTx), w) \<Rightarrow>
          (case evaluate cfg lockedCtx req w of
             (evaluated, w) \<Rightarrow>
          (case gate_record cfg lockedCtx req evaluated w of
             ((decision, Some recordErr), w) \<Rightarrow>
               (case endTx False w of
                  (Some rollbackErr, w) \<Rightarrow>
                    (decision\<lparr>d_Detail := d_Detail decision @ ''; budget lock rollback: '' @
                       rollbackErr\<rparr>, w)
                | (None, w) \<Rightarrow> (decision, w))
           | ((decision, None), w) \<Rightarrow>
               (case endTx True w of
                  (Some e, w) \<Rightarrow>
                    (decisionForRequest req (blocked ReasonPolicyUnavailable
                       (''budget lock: commit the recorded decision: '' @ e)), w)
                | (None, w) \<Rightarrow> (decision, w)))))"

definition Authorize :: "'w GateConfig \<Rightarrow> gctx \<Rightarrow> ActionRequest \<Rightarrow> 'w \<Rightarrow> Decision \<times> 'w" where
  "Authorize cfg ctx req w =
     (let req = withContextPrincipal ctx (req\<lparr>r_ExplainFamily := False\<rparr>);
          direct = (case evaluate cfg ctx req w of (decision, w) \<Rightarrow> finish cfg ctx req decision w)
      in if \<not> spendsBudget req \<or> r_Principal req \<noteq> None then direct
         else (case gc_Serialize cfg of
                 Some Serialize \<Rightarrow> authorizeSerialized cfg Serialize ctx req w
               | None \<Rightarrow> direct))"

definition Explain :: "'w GateConfig \<Rightarrow> gctx \<Rightarrow> ActionRequest \<Rightarrow> 'w \<Rightarrow> Decision \<times> 'w" where
  "Explain cfg ctx req w =
     (let req = withContextPrincipal ctx req in
      case evaluate cfg ctx req w of (decision, w) \<Rightarrow> (decisionForRequest req decision, w))"

subsection \<open>Recording\<close>

text \<open>The request as the gate judges it, and what a recorder's answer means.\<close>

definition judged :: "gctx \<Rightarrow> ActionRequest \<Rightarrow> ActionRequest" where
  "judged ctx req = withContextPrincipal ctx (req\<lparr>r_ExplainFamily := False\<rparr>)"

definition recorded_as ::
    "'w GateConfig \<Rightarrow> gctx \<Rightarrow> ActionRequest \<Rightarrow> Decision \<Rightarrow> 'w \<Rightarrow> Decision \<Rightarrow> 'w \<Rightarrow> bool" where
  "recorded_as cfg ctx req decision w d w' \<longleftrightarrow>
     (let decision = decisionForRequest req decision in
      case gc_RecordDecisionDetailed cfg of
        Some rec \<Rightarrow> (\<exists>ev i. rec ctx req decision w = (Inr (ev, i), w') \<and>
          d = decision\<lparr>d_EvidenceID := ev, d_DecisionID := i\<rparr>)
      | None \<Rightarrow>
          (case gc_RecordDecision cfg of
             Some rec \<Rightarrow> (\<exists>ev. rec ctx req decision w = (Inr ev, w') \<and>
               d = decision\<lparr>d_EvidenceID := ev\<rparr>)
           | None \<Rightarrow> d = decision \<and> w' = w))"

lemma gate_record_ok:
  "gate_record cfg ctx req decision w = ((d, None), w') \<longleftrightarrow>
     recorded_as cfg ctx req decision w d w'"
  by (auto simp: gate_record_def recorded_as_def Let_def split: option.splits sum.splits prod.splits)

lemma gate_record_failed:
  "gate_record cfg ctx req decision w = ((d, Some e), w') \<Longrightarrow>
     d = blocked ReasonPolicyUnavailable e"
  by (auto simp: gate_record_def Let_def split: option.splits sum.splits prod.splits)

lemma recorded_as_verdict: "recorded_as cfg ctx req decision w d w' \<Longrightarrow> d_Verdict d = d_Verdict decision"
  by (auto simp: recorded_as_def Let_def split: option.splits)

lemma decision_identifiers:
  "\<exists>ev i. d = d\<lparr>d_EvidenceID := ev, d_DecisionID := i\<rparr>"
  "\<exists>ev' i. d\<lparr>d_EvidenceID := ev\<rparr> = d\<lparr>d_EvidenceID := ev', d_DecisionID := i\<rparr>" for d :: Decision
  by (cases d, auto)+

lemma recorded_as_identifiers:
  "recorded_as cfg ctx req decision w d w' \<Longrightarrow>
     \<exists>ev i. d = (decisionForRequest req decision)\<lparr>d_EvidenceID := ev, d_DecisionID := i\<rparr>"
  unfolding recorded_as_def Let_def
  by (auto split: option.splits intro: decision_identifiers)

lemma finish_execute:
  assumes "finish cfg ctx req decision w = (d, w')" "d_Verdict d = VerdictExecute"
  shows "recorded_as cfg ctx req decision w d w'"
proof -
  obtain e where g: "gate_record cfg ctx req decision w = ((d, e), w')"
    using assms(1) by (auto simp: finish_def split: prod.splits)
  with assms(2) have "e = None"
    using gate_record_failed [of cfg ctx req decision w d _ w'] by (cases e) auto
  with g show ?thesis by (simp add: gate_record_ok)
qed

lemma authorizeSerialized_execute:
  assumes "authorizeSerialized cfg Serialize ctx req w = (d, w')" "d_Verdict d = VerdictExecute"
  shows "\<exists>lockedCtx endTx w1 w2. Serialize ctx req w = (Inr (lockedCtx, endTx), w1) \<and>
    recorded_as cfg lockedCtx req (fst (evaluate cfg lockedCtx req w1))
      (snd (evaluate cfg lockedCtx req w1)) d w2 \<and> endTx True w2 = (None, w')"
proof (cases "Serialize ctx req w")
  case (Pair r w1)
  show ?thesis
  proof (cases r)
    case (Inl e)
    with assms Pair have "recorded_as cfg ctx req
        (blocked ReasonPolicyUnavailable (''budget lock: '' @ e)) w1 d w'"
      by (intro finish_execute) (simp_all add: authorizeSerialized_def)
    with assms(2) show ?thesis using recorded_as_verdict by fastforce
  next
    case (Inr p)
    obtain lctx endTx where p: "p = (lctx, endTx)" by (cases p)
    obtain ev w2 where e: "evaluate cfg lctx req w1 = (ev, w2)" by (cases "evaluate cfg lctx req w1")
    obtain d0 er w3 where g: "gate_record cfg lctx req ev w2 = ((d0, er), w3)"
      by (cases "gate_record cfg lctx req ev w2") auto
    have "er = None"
    proof (rule ccontr)
      assume "er \<noteq> None"
      then obtain x where "er = Some x" by blast
      with assms Pair Inr p e g gate_record_failed [of cfg lctx req ev w2 d0 x w3] show False
        by (auto simp: authorizeSerialized_def split: prod.splits option.splits)
    qed
    with assms Pair Inr p e g have "d = d0 \<and> endTx True w3 = (None, w')"
      by (auto simp: authorizeSerialized_def split: prod.splits option.splits)
    with \<open>er = None\<close> g e Pair Inr p show ?thesis
      by (auto simp: gate_record_ok)
  qed
qed

subsection \<open>Properties\<close>


lemma ex_index_judged [simp]: "judged ex_ctx ex_index = ex_index"
  by code_simp

lemma ex_index_authorized:
  "Authorize (ex_running ex_doc) ex_ctx ex_index () =
     (decisionForRequest ex_index (fst (evaluate (ex_running ex_doc) ex_ctx ex_index ())), ())"
proof -
  have c: "gc_Serialize (ex_running ex_doc) = None" "gc_RecordDecision (ex_running ex_doc) = None"
    "gc_RecordDecisionDetailed (ex_running ex_doc) = None"
    by (simp_all add: ex_running_def GateConfig0_def)
  show ?thesis
    using ex_index_judged
    by (simp add: Authorize_def judged_def Let_def finish_def gate_record_def c split: prod.splits)
qed


text \<open>
  A decision that could not be recorded is a block: when the configured recorder fails, the
  gate answers blocked, policy unavailable, whatever it had decided.\<close>

theorem record_failure_blocks:
  assumes "(\<exists>rec e w1. gc_RecordDecisionDetailed cfg = Some rec \<and>
        rec ctx req (decisionForRequest req decision) w = (Inl e, w1)) \<or>
      (\<exists>rec e w1. gc_RecordDecisionDetailed cfg = None \<and> gc_RecordDecision cfg = Some rec \<and>
        rec ctx req (decisionForRequest req decision) w = (Inl e, w1))"
  shows "d_Verdict (fst (finish cfg ctx req decision w)) = VerdictBlocked \<and>
    d_Reason (fst (finish cfg ctx req decision w)) = ReasonPolicyUnavailable"
  using assms by (auto simp: finish_def gate_record_def Let_def)

theorem record_failure_blocks_witness:
  "d_Verdict (fst (finish ((GateConfig0 ex_clock ex_lib)\<lparr>gc_RecordDecision :=
       Some (\<lambda>_ _ _ w. (Inl ''disk full'', w))\<rparr>) ex_ctx ex_index
     (blockedAs VerdictExecute ReasonAuthorized) ())) = VerdictBlocked"
  by (rule record_failure_blocks [THEN conjunct1]) (simp add: GateConfig0_def)



end
