(* ===== verification/Widening.thy ===== *)
theory Widening
  imports Gate_Props
begin

text \<open>
  What \<^verbatim>\<open>widen.go\<close> is for: a document that does not widen another is at most as
  permissive. "Does not widen" is a preorder, and under it every authority of the gate that
  reads the document is monotone, so replacing a document by one that does not widen it never
  lets a request run that was held before. The check decides which proposals need a second
  approver.
\<close>

subsection \<open>A preorder of documents\<close>

locale narrowing_order =
  fixes narrows :: "'d \<Rightarrow> 'd \<Rightarrow> bool"
  assumes narrows_refl: "narrows d d"
    and narrows_trans: "narrows d e \<Longrightarrow> narrows e f \<Longrightarrow> narrows d f"
begin

text \<open>A chain of documents, each replacing the one before it without widening it, never widens
  what it started from.\<close>

lemma chain_narrows:
  "(\<forall>i < n. narrows (ds i) (ds (Suc i))) \<Longrightarrow> narrows (ds 0) (ds n)"
proof (induction n)
  case 0
  then show ?case by (simp add: narrows_refl)
next
  case (Suc n)
  then have "narrows (ds 0) (ds n)" by simp
  with Suc.prems show ?case using narrows_trans by blast
qed

end

definition narrows :: "Document \<Rightarrow> Document \<Rightarrow> bool" where
  "narrows base next \<longleftrightarrow> \<not> Widens base next"

lemma profileWidens_trans:
  "\<not> profileWidens a b \<Longrightarrow> \<not> profileWidens b c \<Longrightarrow> \<not> profileWidens a c"
  by (auto simp: profileWidens_def)

lemma limitWidens_trans:
  "\<not> limitWidens a b \<Longrightarrow> \<not> limitWidens b c \<Longrightarrow> \<not> limitWidens a c"
  by (auto simp: limitWidens_def NoCap_def split: option.splits if_splits)

lemma ceilingWidens_trans:
  "\<not> ceilingWidens a b \<Longrightarrow> \<not> ceilingWidens b c \<Longrightarrow> \<not> ceilingWidens a c"
  by (auto simp: ceilingWidens_def split: if_splits)

lemma limitsWiden_trans:
  "\<not> limitsWiden a b \<Longrightarrow> \<not> limitsWiden b c \<Longrightarrow> \<not> limitsWiden a c"
  by (auto simp: limitsWiden_def Let_def)

interpretation documents: narrowing_order narrows
proof
  show "narrows d d" for d
    by (simp add: narrows_def Widens_def profileWidens_def ceilingWidens_def limitsWiden_def
        budgetsWiden_def limitWidens_def overridesWiden_iff Let_def split: option.splits)
next
  fix d e f
  assume "narrows d e" "narrows e f"
  then show "narrows d f"
    unfolding narrows_def Widens_def budgetsWiden_def overridesWiden_iff subsetClasses_iff
      subsetStrings_iff de_Morgan_disj not_not
    by (elim conjE, intro conjI)
       (erule (1) profileWidens_trans limitWidens_trans ceilingWidens_trans limitsWiden_trans
          order_trans trans | blast | simp)+
qed

subsection \<open>Every authority that reads the document is monotone\<close>

lemma narrows_parts:
  assumes "narrows base next"
  shows "set (doc_AllowedChangeClasses next) \<subseteq> set (doc_AllowedChangeClasses base)"
    "set (doc_ApprovalRequiredClasses base) \<subseteq> set (doc_ApprovalRequiredClasses next)"
    "set (doc_MaintenanceWindows next) \<subseteq> set (doc_MaintenanceWindows base)"
    "set (doc_RefusalSet base) \<subseteq> set (doc_RefusalSet next)"
    "\<not> limitsWiden base next" "\<not> budgetsWiden (doc_Budgets base) (doc_Budgets next)"
    "map_get_bool (doc_DeadlineOverrides next) k \<Longrightarrow> map_get_bool (doc_DeadlineOverrides base) k"
    "\<not> ceilingWidens (doc_LockDurationCeilingMS base) (doc_LockDurationCeilingMS next)"
  using assms by (auto simp: narrows_def Widens_def overridesWiden_iff)

lemma inAnyWindow_mono: "set xs \<subseteq> set ys \<Longrightarrow> inAnyWindow lib xs now \<Longrightarrow> inAnyWindow lib ys now"
  by (auto simp: inAnyWindow_def list_ex_iff)

lemma validDeadlineOverride_mono:
  "narrows base next \<Longrightarrow> validDeadlineOverride next dl now \<Longrightarrow> validDeadlineOverride base dl now"
  using narrows_parts(7) by (auto simp: validDeadlineOverride_def split: option.splits if_splits)

definition with_policy :: "'w GateConfig \<Rightarrow> Document \<Rightarrow> 'w GateConfig" where
  "with_policy cfg doc = cfg\<lparr>gc_Policy := Some (\<lambda>_ _ _. Inr doc)\<rparr>"

lemma with_policy_reads [simp]:
  "gate_runtime (with_policy cfg doc) = gate_runtime cfg"
  "gate_usage (with_policy cfg doc) = gate_usage cfg"
  "gate_now (with_policy cfg doc) = gate_now cfg"
  "gc_Lib (with_policy cfg doc) = gc_Lib cfg" "gc_Agents (with_policy cfg doc) = gc_Agents cfg"
  "gc_Autonomy (with_policy cfg doc) = gc_Autonomy cfg"
  "gc_Verification (with_policy cfg doc) = gc_Verification cfg"
  "gc_WindowObserved (with_policy cfg doc) = gc_WindowObserved cfg"
  "gc_ValidateSQL (with_policy cfg doc) = gc_ValidateSQL cfg"
  "gc_Facts (with_policy cfg doc) = gc_Facts cfg"
  "gate_policy (with_policy cfg doc) ctx req w = Inr doc"
  by (auto simp: fun_eq_iff with_policy_def gate_runtime_def gate_usage_def gate_now_def
      gate_policy_def cong: branch_congs)

lemma with_policy_stages [simp]:
  "governedByAutonomy (with_policy cfg doc) = governedByAutonomy cfg"
  "selfGoverned (with_policy cfg doc) = selfGoverned cfg"
  "observed (with_policy cfg doc) = observed cfg"
  "validateRequest (with_policy cfg doc) = validateRequest cfg"
  "factDecision (with_policy cfg doc) = factDecision cfg"
  "tier_permits (with_policy cfg doc) = tier_permits cfg"
  "wait_permits (with_policy cfg doc) = wait_permits cfg"
  by (simp_all add: fun_eq_iff governedByAutonomy_def selfGoverned_def observed_def
      validateRequest_def factDecision_def tier_permits_def wait_permits_def cong: branch_congs)

lemma valid_policy_with_policy:
  "valid_policy (with_policy cfg doc) ctx req w = Inr d \<longleftrightarrow>
     d = doc \<and> isOk (ValidateDocument (gc_Lib cfg) doc)"
  by (auto simp: valid_policy_Inr_iff)

lemma document_permits_mono:
  assumes "narrows base next"
    and "isOk (ValidateDocument (gc_Lib cfg) base)" "isOk (ValidateDocument (gc_Lib cfg) next)"
    and "document_permits (with_policy cfg next) ctx next req w"
  shows "document_permits (with_policy cfg base) ctx base req w"
  using assms(4) narrows_parts(1,2) [OF assms(1)]
    within_limits_mono [OF narrows_parts(5,6) [OF assms(1)] assms(2,3)]
  by (auto simp: document_permits_def)

lemma content_permits_mono:
  "narrows base next \<Longrightarrow> content_permits next rt req \<Longrightarrow> content_permits base rt req"
  using RefusedBy_mono [of base "next" req] narrows_parts(4) by (auto simp: content_permits_def)

lemma window_permits_mono:
  "narrows base next \<Longrightarrow> window_permits (with_policy cfg next) next rt req \<Longrightarrow>
     window_permits (with_policy cfg base) base rt req"
  using validDeadlineOverride_mono inAnyWindow_mono [OF narrows_parts(3)]
  by (fastforce simp: window_permits_def)

lemma l3Blocker_mono:
  "narrows base next \<Longrightarrow> l3Blocker lib next rt req now self = [] \<Longrightarrow>
     l3Blocker lib base rt req now self = []"
  using inAnyWindow_mono [OF narrows_parts(3)]
  by (auto simp: l3Blocker_def split: if_splits)

lemma ledger_permits_mono:
  assumes "narrows base next" and "ledger_permits (with_policy cfg next) ctx next rt req w"
  shows "ledger_permits (with_policy cfg base) ctx base rt req w"
  using assms validDeadlineOverride_mono [OF assms(1)] l3Blocker_mono [OF assms(1)]
  by (auto simp: ledger_permits_def mandatoryDeadline_def split: option.splits)

lemma operator_permitted_mono:
  "narrows base next \<Longrightarrow> operator_permitted (with_policy cfg next) rt next req \<Longrightarrow>
     operator_permitted (with_policy cfg base) rt base req"
  using validDeadlineOverride_mono inAnyWindow_mono [OF narrows_parts(3)] narrows_parts(1)
  by (fastforce simp: operator_permitted_def)

lemma own_permitted_mono:
  assumes "narrows base next"
    and "isOk (ValidateDocument (gc_Lib cfg) base)" "isOk (ValidateDocument (gc_Lib cfg) next)"
    and "own_permitted (with_policy cfg next) ctx rt next req w"
  shows "own_permitted (with_policy cfg base) ctx rt base req w"
  using assms(4) document_permits_mono [OF assms(1-3)] content_permits_mono [OF assms(1)]
    window_permits_mono [OF assms(1)] ledger_permits_mono [OF assms(1)]
  by (auto simp: own_permitted_def)

subsection \<open>The wait is read in a world the ledger may have written to\<close>

text \<open>The record of a mandatory deadline goes to the autonomy ledger; the tracker lists action
  log rows and decisions, which it does not touch.\<close>

definition wait_stable :: "'w GateConfig \<Rightarrow> bool" where
  "wait_stable cfg \<longleftrightarrow>
     (\<forall>lim wr pending. gc_Autonomy cfg = Some lim \<longrightarrow>
        lim_RecordDeadlineOverride lim = Some wr \<longrightarrow> gc_Verification cfg = Some pending \<longrightarrow>
        (\<forall>ctx req d w. pending ctx req (wr ctx req d w) = pending ctx req w))"

lemma restrictAutonomy_world:
  "snd (restrictAutonomy cfg ctx doc rt req base w) = w \<or>
   (\<exists>lim wr d. gc_Autonomy cfg = Some lim \<and> lim_RecordDeadlineOverride lim = Some wr \<and>
      snd (restrictAutonomy cfg ctx doc rt req base w) = wr ctx req d w)"
  by (auto simp: restrictAutonomy_def passMandatoryDeadline_def split: option.splits sum.splits)

lemma wait_permits_stable:
  assumes "wait_stable cfg"
  shows "wait_permits cfg ctx req (snd (restrictAutonomy cfg ctx doc rt req base w)) =
    wait_permits cfg ctx req w"
  using restrictAutonomy_world [of cfg ctx doc rt req base w]
proof
  assume "\<exists>lim wr d. gc_Autonomy cfg = Some lim \<and>
      lim_RecordDeadlineOverride lim = Some wr \<and>
      snd (restrictAutonomy cfg ctx doc rt req base w) = wr ctx req d w"
  then obtain lim wr d where l: "gc_Autonomy cfg = Some lim"
      "lim_RecordDeadlineOverride lim = Some wr"
      "snd (restrictAutonomy cfg ctx doc rt req base w) = wr ctx req d w"
    by blast
  with assms have "gc_Verification cfg = Some pending \<Longrightarrow>
      pending ctx req (wr ctx req d w) = pending ctx req w" for pending
    by (simp add: wait_stable_def)
  with l(3) show ?thesis
    by (cases "gc_Verification cfg") (simp_all add: wait_permits_def)
qed simp

lemma evaluateOwn_wait:
  assumes "wait_stable cfg" "valid_policy cfg ctx req w = Inr doc"
    and "own_permitted cfg ctx rt doc req w"
  shows "wait_permits cfg ctx req (snd (evaluateOwn cfg ctx rt req w)) =
    wait_permits cfg ctx req (observed cfg req w)"
proof -
  from assms(2,3) obtain nt where d: "documentDecision cfg ctx req w = (doc, None, nt)"
    using documentDecision_pass_iff [of cfg ctx req w doc] by (auto simp: own_permitted_def)
  have "d_Verdict (fst (selfInitiatedDecision cfg doc rt req w)) = VerdictExecute"
    using assms(3) by (simp add: selfInitiatedDecision_execute_iff own_permitted_def)
  then have "snd (selfInitiatedDecision cfg doc rt req w) = observed cfg req w"
    by (rule selfInitiatedDecision_world)
  then have "snd (evaluateOwn cfg ctx rt req w) =
      snd (restrictAutonomy cfg ctx doc rt req
        (withDocumentBounds doc (fst (selfInitiatedDecision cfg doc rt req w)))
        (observed cfg req w))"
    by (cases "selfInitiatedDecision cfg doc rt req w")
       (simp add: evaluateOwn_def d split: prod.splits)
  then show ?thesis by (simp add: wait_permits_stable [OF assms(1)])
qed

definition permitted_reads :: "'w GateConfig \<Rightarrow> gctx \<Rightarrow> ActionRequest \<Rightarrow> 'w \<Rightarrow> bool" where
  "permitted_reads cfg ctx req w \<longleftrightarrow>
     (\<exists>rt. gate_runtime cfg ctx req w = Inr rt \<and>
        validateRequest cfg req = None \<and> providerDecision rt req = None \<and>
        factDecision cfg ctx req w = None \<and>
        (IsNarrowing req \<or>
         hardStop rt req = None \<and>
         (if r_Principal req \<noteq> None then agent_permitted cfg ctx rt req w
          else if r_OperatorApproved req
          then (\<exists>doc. valid_policy cfg ctx req w = Inr doc \<and> operator_permitted cfg rt doc req)
          else \<not> observeOnly rt \<and>
            (\<exists>doc. valid_policy cfg ctx req w = Inr doc \<and> own_permitted cfg ctx rt doc req w) \<and>
            wait_permits cfg ctx req (observed cfg req w))))"

lemma evaluate_own_world:
  assumes "gate_runtime cfg ctx req w = Inr rt" "hardStop rt req = None"
    and "validateRequest cfg req = None" "providerDecision rt req = None"
    and "factDecision cfg ctx req w = None" "\<not> IsNarrowing req" "r_Principal req = None"
    and "\<not> r_OperatorApproved req" "\<not> observeOnly rt" "own_permitted cfg ctx rt doc req w"
  shows "evaluate cfg ctx req w = evaluateOwn cfg ctx rt req w"
proof -
  have "rt_TrustLevel rt = TrustAdvisory \<or> rt_TrustLevel rt = TrustAutonomous"
    using assms(10) by (auto simp: own_permitted_def tier_permits_def Let_def)
  with assms show ?thesis
    by (auto simp: evaluate_cases(3) evaluateRequest_def)
qed

lemma evaluate_permitted_reads:
  assumes "wait_stable cfg"
  shows "d_Verdict (fst (evaluate cfg ctx req w)) = VerdictExecute \<longleftrightarrow> permitted_reads cfg ctx req w"
proof -
  have "wait_permits cfg ctx req (snd (evaluate cfg ctx req w)) =
      wait_permits cfg ctx req (observed cfg req w)"
    if "gate_runtime cfg ctx req w = Inr rt" "hardStop rt req = None"
      "validateRequest cfg req = None" "providerDecision rt req = None"
      "factDecision cfg ctx req w = None" "\<not> IsNarrowing req" "r_Principal req = None"
      "\<not> r_OperatorApproved req" "\<not> observeOnly rt" "own_permitted cfg ctx rt doc req w"
      "valid_policy cfg ctx req w = Inr doc" for rt doc
    using evaluate_own_world [OF that(1-10)] evaluateOwn_wait [OF assms that(11,10)] by simp
  then show ?thesis
    by (auto simp: evaluate_permitted permitted_def permitted_reads_def)
qed

lemma wait_stable_with_policy [simp]: "wait_stable (with_policy cfg doc) = wait_stable cfg"
  by (simp add: wait_stable_def)

lemma permitted_reads_mono:
  assumes n: "narrows base next" and b: "isOk (ValidateDocument (gc_Lib cfg) base)"
    and p: "permitted_reads (with_policy cfg next) ctx req w"
  shows "permitted_reads (with_policy cfg base) ctx req w"
proof -
  have op: "operator_permitted (with_policy cfg next) rt next req \<Longrightarrow>
      operator_permitted (with_policy cfg base) rt base req" for rt
    by (rule operator_permitted_mono [OF n])
  have own: "isOk (ValidateDocument (gc_Lib cfg) next) \<Longrightarrow>
      own_permitted (with_policy cfg next) ctx rt next req w \<Longrightarrow>
      own_permitted (with_policy cfg base) ctx rt base req w" for rt
    by (rule own_permitted_mono [OF n b])
  have ag: "agent_permitted (with_policy cfg next) ctx rt req w \<Longrightarrow>
      agent_permitted (with_policy cfg base) ctx rt req w" for rt
    using op b by (auto simp: agent_permitted_def valid_policy_with_policy)
  from p obtain rt where rt: "gate_runtime cfg ctx req w = Inr rt" "validateRequest cfg req = None"
      "providerDecision rt req = None" "factDecision cfg ctx req w = None"
    and r: "IsNarrowing req \<or> hardStop rt req = None \<and>
      (if r_Principal req \<noteq> None then agent_permitted (with_policy cfg next) ctx rt req w
       else if r_OperatorApproved req
       then isOk (ValidateDocument (gc_Lib cfg) next) \<and>
         operator_permitted (with_policy cfg next) rt next req
       else \<not> observeOnly rt \<and> (isOk (ValidateDocument (gc_Lib cfg) next) \<and>
         own_permitted (with_policy cfg next) ctx rt next req w) \<and>
         wait_permits cfg ctx req (observed cfg req w))"
    unfolding permitted_reads_def valid_policy_with_policy with_policy_reads with_policy_stages
    by (auto split: if_splits)
  from r have "IsNarrowing req \<or> hardStop rt req = None \<and>
      (if r_Principal req \<noteq> None then agent_permitted (with_policy cfg base) ctx rt req w
       else if r_OperatorApproved req then operator_permitted (with_policy cfg base) rt base req
       else \<not> observeOnly rt \<and> own_permitted (with_policy cfg base) ctx rt base req w \<and>
         wait_permits cfg ctx req (observed cfg req w))"
    using op own ag by (auto split: if_splits)
  with rt b show ?thesis
    unfolding permitted_reads_def valid_policy_with_policy with_policy_reads with_policy_stages
    by auto
qed

subsection \<open>Properties\<close>

text \<open>
  C2: The widening check is sound for the gate. If a proposed document does not widen a valid
  one, then whatever runs under the proposed document, whoever asks for it and whatever the
  runtime state, usage, ledger, facts and waits say, also runs under the old one. The ledger's
  record of a mandatory deadline must not change what the verification tracker reads.\<close>

theorem narrows_sound:
  assumes "\<not> Widens base next" and "isOk (ValidateDocument (gc_Lib cfg) base)"
    and "wait_stable cfg"
    and "d_Verdict (fst (evaluate (with_policy cfg next) ctx req w)) = VerdictExecute"
  shows "d_Verdict (fst (evaluate (with_policy cfg base) ctx req w)) = VerdictExecute"
  using assms permitted_reads_mono [of base "next" cfg ctx req w]
  by (simp add: evaluate_permitted_reads narrows_def)

theorem narrows_sound_witness:
  "d_Verdict (fst (evaluate (with_policy (ex_running ex_doc)
      (ex_doc\<lparr>doc_LockDurationCeilingMS := 0\<rparr>)) ex_ctx ex_index ())) = VerdictExecute"
proof -
  have "\<not> Widens (ex_doc\<lparr>doc_LockDurationCeilingMS := 0\<rparr>) ex_doc"
    "isOk (ValidateDocument ex_lib (ex_doc\<lparr>doc_LockDurationCeilingMS := 0\<rparr>))"
    by code_simp+
  moreover have "wait_stable (ex_running ex_doc)"
    by (simp add: wait_stable_def ex_running_def GateConfig0_def)
  moreover have "with_policy (ex_running ex_doc) ex_doc = ex_running ex_doc"
    by (simp add: with_policy_def ex_running_def)
  ultimately show ?thesis
    using narrows_sound [of "ex_doc\<lparr>doc_LockDurationCeilingMS := 0\<rparr>" ex_doc "ex_running ex_doc"
        ex_ctx ex_index "()"] by simp
qed

text \<open>
  Replacing documents one after another, none widening the one it replaces, never widens
  the first: the check can be made step by step.\<close>

theorem narrowing_chain:
  assumes "\<forall>i < n. \<not> Widens (docs i) (docs (Suc i))"
  shows "\<not> Widens (docs 0) (docs n)"
  using documents.chain_narrows [of n docs] assms by (simp add: narrows_def)

theorem narrowing_chain_witness:
  "\<not> Widens UnattendedProfile (UnattendedProfile\<lparr>doc_LockDurationCeilingMS := 1000\<rparr>)"
proof -
  let ?docs = "\<lambda>i. [UnattendedProfile, UnattendedProfile\<lparr>doc_LockDurationCeilingMS := 2000\<rparr>,
    UnattendedProfile\<lparr>doc_LockDurationCeilingMS := 1000\<rparr>] ! i"
  have "\<forall>i < 2. \<not> Widens (?docs i) (?docs (Suc i))"
    by code_simp
  from narrowing_chain [of 2 ?docs, OF this] show ?thesis by simp
qed

text \<open>
  A document that does not widen another never loosens the lock timeout of the DDL it
  admits: whatever the configured safety timeout, the effective one is at most as long, where
  PostgreSQL reads zero as no timeout at all.\<close>

theorem lock_timeout_not_widened:
  assumes "\<not> Widens base next" and "0 \<le> doc_LockDurationCeilingMS next"
    and "EffectiveLockTimeoutMS (doc_LockDurationCeilingMS base) safety > 0"
  shows "0 < EffectiveLockTimeoutMS (doc_LockDurationCeilingMS next) safety \<and>
    EffectiveLockTimeoutMS (doc_LockDurationCeilingMS next) safety \<le>
      EffectiveLockTimeoutMS (doc_LockDurationCeilingMS base) safety"
proof -
  have "\<not> ceilingWidens (doc_LockDurationCeilingMS base) (doc_LockDurationCeilingMS next)"
    using assms(1) by (auto simp: Widens_def)
  with assms(2,3) show ?thesis
    by (auto simp: ceilingWidens_def EffectiveLockTimeoutMS_def split: if_splits)
qed

theorem lock_timeout_not_widened_witness:
  "EffectiveLockTimeoutMS 1000 30000 \<le> EffectiveLockTimeoutMS 3000 30000"
proof -
  have "\<not> Widens UnattendedProfile (UnattendedProfile\<lparr>doc_LockDurationCeilingMS := 1000\<rparr>)"
    "doc_LockDurationCeilingMS UnattendedProfile = 3000"
    by code_simp+
  with lock_timeout_not_widened [of UnattendedProfile
      "UnattendedProfile\<lparr>doc_LockDurationCeilingMS := 1000\<rparr>" 30000]
  show ?thesis by (simp add: EffectiveLockTimeoutMS_def)
qed

end
