(* ===== verification/Store.thy ===== *)
theory Store
  imports Widening
begin

text \<open>
  The policy store: \<^verbatim>\<open>store.go\<close>, \<^verbatim>\<open>store_types.go\<close>,
  \<^verbatim>\<open>store_queries.go\<close> and \<^verbatim>\<open>store_approvals.go\<close>. The tables
  \<^verbatim>\<open>sage.policy\<close> and \<^verbatim>\<open>sage.policy_approvals\<close> are lists of rows, each SQL
  statement the function of the tables that it computes, and a transaction that ends in an
  error leaves the tables as they were. Ratifications of one scope exclude each other by the
  advisory lock and the row locks the code takes, so each is one step; a proposal reads the
  current policy and inserts its row in two steps, between which other operations may run.
  Failures of the connection are not modelled.
\<close>

subsection \<open>Tables\<close>

datatype store_error =
    ErrNotFound | ErrVersionConflict | ErrInvalidDocument | ErrSecondApprovalRequired
  | ErrSponsorCannotApprove | ErrReasonRequired | ErrBootstrapActor

datatype row_status = StatusProposed | StatusActive | StatusSuperseded

record Scope =
  sc_DatabaseID :: "int option"

record Policy =
  po_ID :: int
  po_Scope :: Scope
  po_Version :: int
  po_Profile :: string
  po_Document :: json
  po_UpdatedBy :: string
  po_UpdatedAt :: instant

record PendingOutcomeChange =
  oc_ActionID :: int
  oc_Before :: string
  oc_After :: string

record Proposal =
  pp_ID :: int
  pp_Scope :: Scope
  pp_BaseVersion :: int
  pp_Profile :: string
  pp_Document :: json
  pp_Actor :: string
  pp_Preview :: "PendingOutcomeChange list"
  pp_CreatedAt :: instant
  pp_PrincipalID :: string
  pp_SponsorID :: int
  pp_Widening :: bool

record ProposalRequest =
  pq_Scope :: Scope
  pq_ExpectedVersion :: int
  pq_Profile :: string
  pq_Document :: json
  pq_Actor :: string
  pq_Preview :: "PendingOutcomeChange list"
  pq_Principal :: "PrincipalRef option"

record RatifyRequest =
  rq_ProposalID :: int
  rq_ExpectedVersion :: int
  rq_Actor :: string
  rq_ApproverUserID :: int
  rq_Reason :: string
  rq_SingleOperatorMode :: bool

record policy_row =
  w_id :: int
  w_database_id :: "int option"
  w_version :: int
  w_scope :: string
  w_profile :: string
  w_doc :: json
  w_preview :: "PendingOutcomeChange list"
  w_status :: row_status
  w_proposed_by :: string
  w_ratified_by :: "string option"
  w_proposed_at :: instant
  w_activated_at :: "instant option"
  w_supersedes_id :: "int option"
  w_principal_id :: "string option"
  w_sponsor_id :: "int option"
  w_widening :: bool

record Approval =
  ap_PolicyID :: int
  ap_Approver :: string
  ap_ApproverUserID :: int
  ap_Reason :: string
  ap_SingleOperator :: bool
  ap_ReviewStatus :: "string option"
  ap_DecidedAt :: instant

record tables =
  tb_policy :: "policy_row list"
  tb_approvals :: "Approval list"
  tb_seq :: int

definition tables0 :: tables where
  "tables0 = \<lparr>tb_policy = [], tb_approvals = [], tb_seq = 1\<rparr>"

subsection \<open>Queries\<close>

definition scopeName :: "Scope \<Rightarrow> string" where
  "scopeName scope = (if sc_DatabaseID scope = None then ''global'' else ''database'')"

definition active_rows :: "tables \<Rightarrow> int option \<Rightarrow> policy_row list" where
  "active_rows t db =
     filter (\<lambda>r. w_database_id r = db \<and> w_status r = StatusActive) (tb_policy t)"

text \<open>\<^verbatim>\<open>ORDER BY version DESC LIMIT 1\<close>.\<close>

fun first_by_version :: "policy_row list \<Rightarrow> policy_row option" where
  "first_by_version [] = None"
| "first_by_version (r # rs) =
     (case first_by_version rs of
        None \<Rightarrow> Some r
      | Some s \<Rightarrow> if w_version s > w_version r then Some s else Some r)"

definition currentPolicySQL :: "tables \<Rightarrow> int option \<Rightarrow> policy_row option" where
  "currentPolicySQL t db = first_by_version (active_rows t db)"

definition scanPolicy :: "policy_row \<Rightarrow> Policy" where
  "scanPolicy r = \<lparr>po_ID = w_id r, po_Scope = \<lparr>sc_DatabaseID = w_database_id r\<rparr>,
     po_Version = w_version r, po_Profile = w_profile r, po_Document = w_doc r,
     po_UpdatedBy = (case w_ratified_by r of None \<Rightarrow> [] | Some s \<Rightarrow> s),
     po_UpdatedAt = (case w_activated_at r of None \<Rightarrow> 0 | Some i \<Rightarrow> i)\<rparr>"

definition Current :: "tables \<Rightarrow> Scope \<Rightarrow> store_error + Policy" where
  "Current t scope =
     (case currentPolicySQL t (sc_DatabaseID scope) of
        None \<Rightarrow> Inl ErrNotFound
      | Some r \<Rightarrow> Inr (scanPolicy r))"

definition policyHistorySQL :: "tables \<Rightarrow> int option \<Rightarrow> nat \<Rightarrow> policy_row list" where
  "policyHistorySQL t db limit =
     take limit (sort_key (\<lambda>r. - w_version r)
       (filter (\<lambda>r. w_database_id r = db \<and> w_status r \<in> {StatusActive, StatusSuperseded})
         (tb_policy t)))"

text \<open>The history falls back from ratifier to proposer and from activation to proposal.\<close>

definition History :: "tables \<Rightarrow> Scope \<Rightarrow> int \<Rightarrow> Policy list" where
  "History t scope limit =
     (let limit = (if limit \<le> 0 \<or> limit > 1000 then 100 else limit)
      in map (\<lambda>r. (scanPolicy r)
                \<lparr>po_UpdatedBy := (case w_ratified_by r of None \<Rightarrow> w_proposed_by r | Some s \<Rightarrow> s),
                 po_UpdatedAt := (case w_activated_at r of None \<Rightarrow> w_proposed_at r | Some i \<Rightarrow> i)\<rparr>)
             (policyHistorySQL t (sc_DatabaseID scope) (nat limit)))"

definition profileDocument :: "golib \<Rightarrow> string \<Rightarrow> store_error + json" where
  "profileDocument lib profile =
     (if profile = ''staffed''
      then (case MarshalDocument lib StaffedProfile of
              Inl _ \<Rightarrow> Inl ErrInvalidDocument | Inr j \<Rightarrow> Inr j)
      else if profile = ''unattended''
      then (case MarshalDocument lib UnattendedProfile of
              Inl _ \<Rightarrow> Inl ErrInvalidDocument | Inr j \<Rightarrow> Inr j)
      else Inl ErrInvalidDocument)"

subsection \<open>Operations\<close>

definition Bootstrap ::
    "golib \<Rightarrow> instant \<Rightarrow> Scope \<Rightarrow> string \<Rightarrow> string \<Rightarrow> tables \<Rightarrow> (store_error + Policy) \<times> tables" where
  "Bootstrap lib now scope profile actor t =
     (case Current t scope of
        Inr current \<Rightarrow> (Inr current, t)
      | Inl _ \<Rightarrow>
          (case profileDocument lib profile of
             Inl e \<Rightarrow> (Inl e, t)
           | Inr document \<Rightarrow>
               if TrimSpace actor = [] then (Inl ErrBootstrapActor, t)
               else
                 let row = \<lparr>w_id = tb_seq t, w_database_id = sc_DatabaseID scope, w_version = 1,
                            w_scope = scopeName scope, w_profile = profile, w_doc = document,
                            w_preview = [], w_status = StatusActive, w_proposed_by = actor,
                            w_ratified_by = Some actor, w_proposed_at = now,
                            w_activated_at = Some now, w_supersedes_id = None,
                            w_principal_id = None, w_sponsor_id = None, w_widening = False\<rparr>;
                     t = (if active_rows t (sc_DatabaseID scope) = []
                          then t\<lparr>tb_policy := tb_policy t @ [row], tb_seq := tb_seq t + 1\<rparr>
                          else t)
                 in (Current t scope, t)))"

definition validateProposal :: "golib \<Rightarrow> ProposalRequest \<Rightarrow> store_error + unit" where
  "validateProposal lib request =
     (if pq_ExpectedVersion request \<le> 0 \<or> TrimSpace (pq_Actor request) = [] \<or>
         (pq_Profile request \<noteq> ''staffed'' \<and> pq_Profile request \<noteq> ''unattended'')
      then Inl ErrInvalidDocument
      else if \<not> isOk (ParseDocument lib (pq_Document request)) then Inl ErrInvalidDocument
      else Inr ())"

text \<open>The proposing agent and whether the proposal widens the current policy; the zero
  reference has the empty id and no sponsor.\<close>

definition proposalProvenance :: "golib \<Rightarrow> ProposalRequest \<Rightarrow> Policy \<Rightarrow> (string \<times> int) \<times> bool" where
  "proposalProvenance lib request current =
     (case pq_Principal request of
        None \<Rightarrow> (([], 0), False)
      | Some ref \<Rightarrow>
          (case WidensJSON lib (po_Document current) (pq_Document request) of
             (widening, e) \<Rightarrow> ((p_ID ref, p_SponsorID ref), widening \<or> e \<noteq> None)))"

definition proposal_row ::
    "golib \<Rightarrow> instant \<Rightarrow> ProposalRequest \<Rightarrow> Policy \<Rightarrow> int \<Rightarrow> policy_row" where
  "proposal_row lib now request current i =
     (case proposalProvenance lib request current of
        ((agentID, sponsorID), widening) \<Rightarrow>
          \<lparr>w_id = i, w_database_id = sc_DatabaseID (pq_Scope request), w_version = - i,
           w_scope = scopeName (pq_Scope request), w_profile = pq_Profile request,
           w_doc = pq_Document request, w_preview = pq_Preview request,
           w_status = StatusProposed, w_proposed_by = pq_Actor request,
           w_ratified_by = None, w_proposed_at = now, w_activated_at = None,
           w_supersedes_id = Some (po_ID current),
           w_principal_id = (if agentID = [] then None else Some agentID),
           w_sponsor_id = (if sponsorID = 0 then None else Some sponsorID),
           w_widening = widening\<rparr>)"

definition insertProposal ::
    "golib \<Rightarrow> instant \<Rightarrow> ProposalRequest \<Rightarrow> Policy \<Rightarrow> tables \<Rightarrow> Proposal \<times> tables" where
  "insertProposal lib now request current t =
     (let i = tb_seq t; row = proposal_row lib now request current i in
      (\<lparr>pp_ID = w_id row, pp_Scope = \<lparr>sc_DatabaseID = w_database_id row\<rparr>,
        pp_BaseVersion = po_Version current, pp_Profile = w_profile row,
        pp_Document = w_doc row, pp_Actor = w_proposed_by row, pp_Preview = w_preview row,
        pp_CreatedAt = w_proposed_at row,
        pp_PrincipalID = (case w_principal_id row of None \<Rightarrow> [] | Some s \<Rightarrow> s),
        pp_SponsorID = (case w_sponsor_id row of None \<Rightarrow> 0 | Some s \<Rightarrow> s),
        pp_Widening = w_widening row\<rparr>,
       t\<lparr>tb_policy := tb_policy t @ [row], tb_seq := i + 1\<rparr>))"

text \<open>What \<^verbatim>\<open>Propose\<close> does before it inserts: validate, read, compare versions.\<close>

definition proposeRead :: "golib \<Rightarrow> ProposalRequest \<Rightarrow> tables \<Rightarrow> store_error + Policy" where
  "proposeRead lib request t =
     ebind (validateProposal lib request) (\<lambda>_.
     ebind (Current t (pq_Scope request)) (\<lambda>current.
       if po_Version current \<noteq> pq_ExpectedVersion request then Inl ErrVersionConflict
       else Inr current))"

definition Propose ::
    "golib \<Rightarrow> instant \<Rightarrow> ProposalRequest \<Rightarrow> tables \<Rightarrow> (store_error + Proposal) \<times> tables" where
  "Propose lib now request t =
     (case proposeRead lib request t of
        Inl e \<Rightarrow> (Inl e, t)
      | Inr current \<Rightarrow>
          (case insertProposal lib now request current t of (p, t) \<Rightarrow> (Inr p, t)))"

definition loadProposalForUpdate :: "tables \<Rightarrow> int \<Rightarrow> policy_row option" where
  "loadProposalForUpdate t proposalID =
     List.find (\<lambda>r. w_id r = proposalID \<and> w_status r = StatusProposed) (tb_policy t)"

definition insertApproval ::
    "instant \<Rightarrow> int \<Rightarrow> RatifyRequest \<Rightarrow> string \<Rightarrow> bool \<Rightarrow> tables \<Rightarrow> tables" where
  "insertApproval now policyID request reason single t =
     (let row = \<lparr>ap_PolicyID = policyID, ap_Approver = TrimSpace (rq_Actor request),
                 ap_ApproverUserID = rq_ApproverUserID request, ap_Reason = reason,
                 ap_SingleOperator = single,
                 ap_ReviewStatus = (if single then Some ''pending'' else None),
                 ap_DecidedAt = now\<rparr>
      in if list_ex (\<lambda>a. ap_PolicyID a = policyID \<and> ap_Approver a = ap_Approver row) (tb_approvals t)
         then t
         else t\<lparr>tb_approvals := tb_approvals t @ [row]\<rparr>)"

definition requiredApprovals :: nat where "requiredApprovals = 2"

definition approvers :: "tables \<Rightarrow> int \<Rightarrow> int \<Rightarrow> int list" where
  "approvers t policyID sponsorID =
     remdups (map ap_ApproverUserID
       (filter (\<lambda>a. ap_PolicyID a = policyID \<and> ap_ApproverUserID a \<noteq> sponsorID) (tb_approvals t)))"

definition row_principal :: "policy_row \<Rightarrow> string" where
  "row_principal r = (case w_principal_id r of None \<Rightarrow> [] | Some s \<Rightarrow> s)"

definition row_sponsor :: "policy_row \<Rightarrow> int" where
  "row_sponsor r = (case w_sponsor_id r of None \<Rightarrow> 0 | Some s \<Rightarrow> s)"

definition approveProposal ::
    "instant \<Rightarrow> policy_row \<Rightarrow> RatifyRequest \<Rightarrow> tables \<Rightarrow> store_error option \<times> tables" where
  "approveProposal now proposal request t =
     (if row_principal proposal = [] \<or> \<not> w_widening proposal then (None, t)
      else if rq_ApproverUserID request \<le> 0 then (Some ErrInvalidDocument, t)
      else
        let reason = TrimSpace (rq_Reason request) in
        if rq_SingleOperatorMode request
        then (if reason = [] then (Some ErrReasonRequired, t)
              else (None, insertApproval now (w_id proposal) request reason True t))
        else if row_sponsor proposal > 0 \<and> rq_ApproverUserID request = row_sponsor proposal
        then (Some ErrSponsorCannotApprove, t)
        else
          let t = insertApproval now (w_id proposal) request reason False t in
          if length (approvers t (w_id proposal) (row_sponsor proposal)) < requiredApprovals
          then (Some ErrSecondApprovalRequired, t)
          else (None, t))"

definition supersede :: "int \<Rightarrow> tables \<Rightarrow> tables" where
  "supersede i t = t\<lparr>tb_policy :=
     map (\<lambda>r. if w_id r = i then r\<lparr>w_status := StatusSuperseded\<rparr> else r) (tb_policy t)\<rparr>"

definition activate_row :: "instant \<Rightarrow> int \<Rightarrow> string \<Rightarrow> policy_row \<Rightarrow> policy_row" where
  "activate_row now version actor r =
     r\<lparr>w_version := version, w_status := StatusActive, w_ratified_by := Some actor,
       w_activated_at := Some now\<rparr>"

definition activateProposal ::
    "instant \<Rightarrow> policy_row \<Rightarrow> int \<Rightarrow> string \<Rightarrow> tables \<Rightarrow> Policy \<times> tables" where
  "activateProposal now proposal currentVersion actor t =
     (scanPolicy (activate_row now (currentVersion + 1) actor proposal),
      t\<lparr>tb_policy := map (\<lambda>r. if w_id r = w_id proposal
          then activate_row now (currentVersion + 1) actor r else r) (tb_policy t)\<rparr>)"

definition ratifyInTransaction ::
    "instant \<Rightarrow> RatifyRequest \<Rightarrow> tables \<Rightarrow> (store_error + Policy) \<times> tables" where
  "ratifyInTransaction now request t =
     (case loadProposalForUpdate t (rq_ProposalID request) of
        None \<Rightarrow> (Inl ErrNotFound, t)
      | Some proposal \<Rightarrow>
          (case currentPolicySQL t (w_database_id proposal) of
             None \<Rightarrow> (Inl ErrNotFound, t)
           | Some current \<Rightarrow>
               if w_supersedes_id proposal \<noteq> Some (w_id current) \<or>
                  w_version current \<noteq> rq_ExpectedVersion request
               then (Inl ErrVersionConflict, t)
               else (case approveProposal now proposal request t of
                       (Some e, t) \<Rightarrow> (Inl e, t)
                     | (None, t) \<Rightarrow>
                         (case activateProposal now proposal (w_version current)
                                 (rq_Actor request) (supersede (w_id current) t) of
                            (p, t) \<Rightarrow> (Inr p, t)))))"

text \<open>Only a first approval survives an error; every other error rolls back.\<close>

definition Ratify ::
    "instant \<Rightarrow> RatifyRequest \<Rightarrow> tables \<Rightarrow> (store_error + Policy) \<times> tables" where
  "Ratify now request t =
     (if rq_ProposalID request \<le> 0 \<or> rq_ExpectedVersion request \<le> 0 \<or>
         TrimSpace (rq_Actor request) = []
      then (Inl ErrInvalidDocument, t)
      else (case ratifyInTransaction now request t of
              (Inl ErrSecondApprovalRequired, t') \<Rightarrow> (Inl ErrSecondApprovalRequired, t')
            | (Inl e, _) \<Rightarrow> (Inl e, t)
            | (Inr p, t') \<Rightarrow> (Inr p, t')))"

definition Approvals :: "tables \<Rightarrow> int \<Rightarrow> Approval list" where
  "Approvals t policyID =
     sort_key ap_DecidedAt (sort_key ap_Approver
       (filter (\<lambda>a. ap_PolicyID a = policyID) (tb_approvals t)))"

definition PendingReviews :: "tables \<Rightarrow> int \<Rightarrow> Approval list" where
  "PendingReviews t limit =
     (let limit = (if limit \<le> 0 \<or> limit > 1000 then 100 else limit)
      in take (nat limit) (sort_key ap_DecidedAt
           (filter (\<lambda>a. ap_ReviewStatus a = Some ''pending'') (tb_approvals t))))"

end
