(* ===== verification/Store_Props.thy ===== *)
theory Store_Props
  imports Store
begin

text \<open>
  The policy store as a state machine: the operations of \<open>Store\<close> in any order, a
  proposal's read and its insert as separate steps. The invariant (ids, one active policy per
  scope, growing versions, widening flags that describe the documents they were computed from)
  holds in every reachable state; the properties of ratification follow from it.
\<close>

subsection \<open>Steps\<close>

record system =
  sy_tables :: tables
  sy_inflight :: "(ProposalRequest \<times> Policy) list"

inductive store_step :: "golib \<Rightarrow> system \<Rightarrow> system \<Rightarrow> bool" for lib where
  step_bootstrap: "store_step lib s
     (s\<lparr>sy_tables := snd (Bootstrap lib now scope profile actor (sy_tables s))\<rparr>)"
| step_read: "proposeRead lib request (sy_tables s) = Inr current \<Longrightarrow>
     store_step lib s (s\<lparr>sy_inflight := (request, current) # sy_inflight s\<rparr>)"
| step_insert: "(request, current) \<in> set (sy_inflight s) \<Longrightarrow>
     store_step lib s (s\<lparr>sy_tables := snd (insertProposal lib now request current (sy_tables s)),
       sy_inflight := remove1 (request, current) (sy_inflight s)\<rparr>)"
| step_ratify: "store_step lib s (s\<lparr>sy_tables := snd (Ratify now ratify (sy_tables s))\<rparr>)"

inductive reachable :: "golib \<Rightarrow> system \<Rightarrow> bool" for lib where
  reachable_init: "reachable lib \<lparr>sy_tables = tables0, sy_inflight = []\<rparr>"
| reachable_step: "reachable lib s \<Longrightarrow> store_step lib s s' \<Longrightarrow> reachable lib s'"

inductive_cases store_step_cases: "store_step lib s s'"

subsection \<open>The invariant of the tables\<close>

definition is_active :: "policy_row \<Rightarrow> bool" where
  "is_active r \<longleftrightarrow> w_status r = StatusActive"

definition store_inv :: "tables \<Rightarrow> bool" where
  "store_inv t \<longleftrightarrow>
     0 < tb_seq t \<and> distinct (map w_id (tb_policy t)) \<and>
     (\<forall>r \<in> set (tb_policy t). 0 < w_id r \<and> w_id r < tb_seq t) \<and>
     (\<forall>r \<in> set (tb_policy t). \<forall>s \<in> set (tb_policy t).
        is_active r \<and> is_active s \<and> w_database_id r = w_database_id s \<longrightarrow> r = s) \<and>
     (\<forall>r \<in> set (tb_policy t). w_status r = StatusProposed \<or> 1 \<le> w_version r) \<and>
     (\<forall>s \<in> set (tb_policy t). w_status s = StatusSuperseded \<longrightarrow>
        (\<exists>r \<in> set (tb_policy t). is_active r \<and> w_database_id r = w_database_id s \<and>
           w_version s < w_version r))"

text \<open>Introducing and using the parts by name.\<close>

lemma store_invI [intro?]:
  assumes "0 < tb_seq t" "distinct (map w_id (tb_policy t))"
    "\<And>r. r \<in> set (tb_policy t) \<Longrightarrow> 0 < w_id r \<and> w_id r < tb_seq t"
    "\<And>r s. r \<in> set (tb_policy t) \<Longrightarrow> s \<in> set (tb_policy t) \<Longrightarrow> is_active r \<Longrightarrow> is_active s \<Longrightarrow>
       w_database_id r = w_database_id s \<Longrightarrow> r = s"
    "\<And>r. r \<in> set (tb_policy t) \<Longrightarrow> w_status r = StatusProposed \<or> 1 \<le> w_version r"
    "\<And>s. s \<in> set (tb_policy t) \<Longrightarrow> w_status s = StatusSuperseded \<Longrightarrow>
       \<exists>r \<in> set (tb_policy t). is_active r \<and> w_database_id r = w_database_id s \<and>
         w_version s < w_version r"
  shows "store_inv t"
  unfolding store_inv_def using assms by blast

lemma store_invD:
  assumes "store_inv t"
  shows "0 < tb_seq t" "distinct (map w_id (tb_policy t))"
    "r \<in> set (tb_policy t) \<Longrightarrow> 0 < w_id r \<and> w_id r < tb_seq t"
    "r \<in> set (tb_policy t) \<Longrightarrow> s \<in> set (tb_policy t) \<Longrightarrow> is_active r \<Longrightarrow> is_active s \<Longrightarrow>
       w_database_id r = w_database_id s \<Longrightarrow> r = s"
    "r \<in> set (tb_policy t) \<Longrightarrow> w_status r = StatusProposed \<or> 1 \<le> w_version r"
    "s \<in> set (tb_policy t) \<Longrightarrow> w_status s = StatusSuperseded \<Longrightarrow>
       \<exists>r \<in> set (tb_policy t). is_active r \<and> w_database_id r = w_database_id s \<and>
         w_version s < w_version r"
  using assms unfolding store_inv_def by blast+

lemma row_by_id:
  "store_inv t \<Longrightarrow> r \<in> set (tb_policy t) \<Longrightarrow> s \<in> set (tb_policy t) \<Longrightarrow> w_id r = w_id s \<Longrightarrow> r = s"
  using store_invD(2) [of t] by (auto simp: distinct_map inj_on_def)

lemma first_by_version_mem: "first_by_version rs = Some r \<Longrightarrow> r \<in> set rs"
  by (induction rs arbitrary: r) (auto split: option.splits if_splits)

lemma first_by_version_None [simp]: "first_by_version rs = None \<longleftrightarrow> rs = []"
  by (cases rs) (auto split: option.splits)

lemma currentPolicySQL_Some:
  "currentPolicySQL t db = Some r \<Longrightarrow>
     r \<in> set (tb_policy t) \<and> is_active r \<and> w_database_id r = db"
  using first_by_version_mem [of "active_rows t db" r]
  by (auto simp: currentPolicySQL_def active_rows_def is_active_def)

lemma currentPolicySQL_iff:
  assumes "store_inv t"
  shows "currentPolicySQL t db = Some r \<longleftrightarrow>
    r \<in> set (tb_policy t) \<and> is_active r \<and> w_database_id r = db"
proof
  assume r: "r \<in> set (tb_policy t) \<and> is_active r \<and> w_database_id r = db"
  then have "active_rows t db \<noteq> []"
    by (auto simp: active_rows_def is_active_def filter_empty_conv)
  then obtain s where s: "currentPolicySQL t db = Some s"
    by (cases "currentPolicySQL t db") (auto simp: currentPolicySQL_def)
  with r store_invD(4) [OF assms, of r s] currentPolicySQL_Some [OF s]
  show "currentPolicySQL t db = Some r" by simp
qed (rule currentPolicySQL_Some)

subsection \<open>Appending a row\<close>

lemma store_inv_append:
  assumes i: "store_inv t" and id: "w_id row = tb_seq t"
    and s: "w_status row = StatusProposed \<or>
      w_status row = StatusActive \<and> 1 \<le> w_version row \<and> active_rows t (w_database_id row) = []"
  shows "store_inv (t\<lparr>tb_policy := tb_policy t @ [row], tb_seq := tb_seq t + 1\<rparr>)"
proof
  have new: "w_id row \<notin> set (map w_id (tb_policy t))"
    using store_invD(3) [OF i] id by fastforce
  then show "distinct (map w_id (tb_policy (t\<lparr>tb_policy := tb_policy t @ [row],
      tb_seq := tb_seq t + 1\<rparr>)))"
    using store_invD(2) [OF i] by simp
  have act: "is_active row \<Longrightarrow> r \<in> set (tb_policy t) \<Longrightarrow> is_active r \<Longrightarrow>
      w_database_id r \<noteq> w_database_id row" for r
    using s by (auto simp: is_active_def active_rows_def filter_empty_conv)
  fix r
  assume r: "r \<in> set (tb_policy (t\<lparr>tb_policy := tb_policy t @ [row], tb_seq := tb_seq t + 1\<rparr>))"
  then show "0 < w_id r \<and> w_id r < tb_seq (t\<lparr>tb_policy := tb_policy t @ [row],
      tb_seq := tb_seq t + 1\<rparr>)"
    using store_invD(1,3) [OF i] id by fastforce
  show "w_status r = StatusProposed \<or> 1 \<le> w_version r"
    using r s store_invD(5) [OF i] by auto
  show "r = r'" if "r' \<in> set (tb_policy (t\<lparr>tb_policy := tb_policy t @ [row],
      tb_seq := tb_seq t + 1\<rparr>))" "is_active r" "is_active r'"
      "w_database_id r = w_database_id r'" for r'
    using r that act [of r] act [of r'] store_invD(4) [OF i, of r r'] by auto
  show "\<exists>r' \<in> set (tb_policy (t\<lparr>tb_policy := tb_policy t @ [row], tb_seq := tb_seq t + 1\<rparr>)).
      is_active r' \<and> w_database_id r' = w_database_id r \<and> w_version r < w_version r'"
    if "w_status r = StatusSuperseded"
    using r s that store_invD(6) [OF i, of r] by auto
qed (use store_invD(1) [OF i] in simp)

lemma store_inv_Bootstrap:
  "store_inv t \<Longrightarrow> store_inv (snd (Bootstrap lib now scope profile actor t))"
  by (auto simp: Bootstrap_def Let_def intro!: store_inv_append split: sum.splits)

lemma store_inv_insertProposal:
  "store_inv t \<Longrightarrow> store_inv (snd (insertProposal lib now request current t))"
  by (simp add: insertProposal_def Let_def store_inv_append proposal_row_def split: prod.splits)

subsection \<open>Ratifying\<close>

text \<open>The rows after a ratification.\<close>

definition ratified_row ::
    "instant \<Rightarrow> policy_row \<Rightarrow> policy_row \<Rightarrow> string \<Rightarrow> policy_row \<Rightarrow> policy_row" where
  "ratified_row now proposal current actor r =
     (if w_id r = w_id proposal then activate_row now (w_version current + 1) actor r
      else if w_id r = w_id current then r\<lparr>w_status := StatusSuperseded\<rparr> else r)"

lemma ratified_row_fields [simp]:
  "w_id (ratified_row now p c actor r) = w_id r"
  "w_database_id (ratified_row now p c actor r) = w_database_id r"
  "w_doc (ratified_row now p c actor r) = w_doc r"
  "w_principal_id (ratified_row now p c actor r) = w_principal_id r"
  "w_widening (ratified_row now p c actor r) = w_widening r"
  "w_supersedes_id (ratified_row now p c actor r) = w_supersedes_id r"
  by (simp_all add: ratified_row_def activate_row_def)

lemma insertApproval_fields [simp]:
  "tb_policy (insertApproval now i request reason single t) = tb_policy t"
  "tb_seq (insertApproval now i request reason single t) = tb_seq t"
  by (simp_all add: insertApproval_def Let_def)

lemma approveProposal_fields:
  "tb_policy (snd (approveProposal now proposal request t)) = tb_policy t"
  "tb_seq (snd (approveProposal now proposal request t)) = tb_seq t"
  by (simp_all add: approveProposal_def Let_def)

lemma loadProposal_Some:
  "loadProposalForUpdate t i = Some p \<Longrightarrow>
     p \<in> set (tb_policy t) \<and> w_id p = i \<and> w_status p = StatusProposed"
  by (auto simp: loadProposalForUpdate_def find_Some_iff in_set_conv_nth)

lemma ratify_success:
  assumes "ratifyInTransaction now request t = (Inr pol, t')"
  obtains p c ta where "loadProposalForUpdate t (rq_ProposalID request) = Some p"
    "currentPolicySQL t (w_database_id p) = Some c" "w_supersedes_id p = Some (w_id c)"
    "w_version c = rq_ExpectedVersion request" "approveProposal now p request t = (None, ta)"
    "pol = scanPolicy (activate_row now (w_version c + 1) (rq_Actor request) p)"
    "tb_policy t' = map (ratified_row now p c (rq_Actor request)) (tb_policy t)"
    "tb_seq t' = tb_seq t" "tb_approvals t' = tb_approvals ta"
proof -
  from assms obtain p c ta where
    p: "loadProposalForUpdate t (rq_ProposalID request) = Some p"
    and c: "currentPolicySQL t (w_database_id p) = Some c" "w_supersedes_id p = Some (w_id c)"
      "w_version c = rq_ExpectedVersion request"
    and a: "approveProposal now p request t = (None, ta)"
    and r: "activateProposal now p (w_version c) (rq_Actor request) (supersede (w_id c) ta) = (pol, t')"
    by (auto simp: ratifyInTransaction_def split: option.splits if_splits prod.splits)
  have ta: "tb_policy ta = tb_policy t" "tb_seq ta = tb_seq t"
    using approveProposal_fields [of now p request t] a by simp_all
  have "tb_policy t' = map (ratified_row now p c (rq_Actor request)) (tb_policy t)"
    using r ta
    by (auto simp: activateProposal_def supersede_def ratified_row_def activate_row_def)
  then show ?thesis
    using that p c a r ta by (auto simp: activateProposal_def supersede_def)
qed

lemma store_inv_ratified:
  assumes i: "store_inv t" and p: "p \<in> set (tb_policy t)" "w_status p = StatusProposed"
    and c: "c \<in> set (tb_policy t)" "is_active c" "w_database_id p = w_database_id c"
    and t': "tb_policy t' = map (ratified_row now p c actor) (tb_policy t)" "tb_seq t' = tb_seq t"
  shows "store_inv t'"
proof
  have pc: "w_id p \<noteq> w_id c"
    using row_by_id [OF i p(1) c(1)] p(2) c(2) by (auto simp: is_active_def)
  then have p_not_c: "p \<noteq> c" by blast
  let ?f = "ratified_row now p c actor"
  have act: "is_active (?f r) \<longleftrightarrow> r = p \<or> is_active r \<and> r \<noteq> c"
    if "r \<in> set (tb_policy t)" for r
    using that row_by_id [OF i that p(1)] row_by_id [OF i that c(1)] pc
    by (auto simp: ratified_row_def activate_row_def is_active_def)
  have vp: "w_version (?f p) = w_version c + 1"
    by (simp add: ratified_row_def activate_row_def)
  have keep: "w_version (?f r) = w_version r" if "r \<in> set (tb_policy t)" "r \<noteq> p" for r
    using that row_by_id [OF i that(1) p(1)] by (auto simp: ratified_row_def)
  have only: "w_database_id x \<noteq> w_database_id c"
    if "x \<in> set (tb_policy t)" "is_active x" "x \<noteq> c" for x
    using store_invD(4) [OF i that(1) c(1) that(2) c(2)] that(3) by blast
  show "0 < tb_seq t'" using store_invD(1) [OF i] t'(2) by simp
  have "map w_id (tb_policy t') = map w_id (tb_policy t)" by (simp add: t'(1))
  then show "distinct (map w_id (tb_policy t'))" using store_invD(2) [OF i] by simp
  fix r'
  assume "r' \<in> set (tb_policy t')"
  then obtain r where r: "r \<in> set (tb_policy t)" "r' = ?f r" by (auto simp: t'(1))
  show "0 < w_id r' \<and> w_id r' < tb_seq t'" using store_invD(3) [OF i r(1)] r(2) t'(2) by simp
  show "w_status r' = StatusProposed \<or> 1 \<le> w_version r'"
  proof (cases "r = p")
    case True
    then show ?thesis using vp r(2) store_invD(5) [OF i c(1)] c(2) by (auto simp: is_active_def)
  next
    case False
    then show ?thesis
      using keep [OF r(1)] r store_invD(5) [OF i r(1)] store_invD(5) [OF i c(1)] c(2)
        row_by_id [OF i r(1) c(1)]
      by (auto simp: ratified_row_def activate_row_def is_active_def)
  qed
  show "r' = s'" if "s' \<in> set (tb_policy t')" "is_active r'" "is_active s'"
      "w_database_id r' = w_database_id s'" for s'
  proof -
    from that(1) obtain s where s: "s \<in> set (tb_policy t)" "s' = ?f s" by (auto simp: t'(1))
    have "r = p \<or> is_active r \<and> r \<noteq> c" "s = p \<or> is_active s \<and> s \<noteq> c"
      using that(2,3) r s act by simp_all
    moreover have "w_database_id r = w_database_id s" using that(4) r(2) s(2) by simp
    ultimately have "r = s"
      using only [OF r(1)] only [OF s(1)] c(3) store_invD(4) [OF i r(1) s(1)] by metis
    then show ?thesis using r s by simp
  qed
  show "\<exists>s' \<in> set (tb_policy t'). is_active s' \<and> w_database_id s' = w_database_id r' \<and>
      w_version r' < w_version s'" if sup: "w_status r' = StatusSuperseded"
  proof (cases "r = c")
    case True
    then have "is_active (?f p) \<and> w_database_id (?f p) = w_database_id r' \<and>
        w_version r' < w_version (?f p)"
      using act [OF p(1)] vp r c keep [OF c(1) not_sym [OF p_not_c]] by auto
    with p(1) show ?thesis by (auto simp: t'(1))
  next
    case False
    with sup r have "w_status r = StatusSuperseded" "r \<noteq> p"
      using row_by_id [OF i r(1) c(1)] p(2)
      by (auto simp: ratified_row_def activate_row_def split: if_splits)
    with store_invD(6) [OF i r(1)] obtain s where s: "s \<in> set (tb_policy t)" "is_active s"
        "w_database_id s = w_database_id r" "w_version r < w_version s" by blast
    show ?thesis
    proof (cases "s = c")
      case True
      then have "is_active (?f p) \<and> w_database_id (?f p) = w_database_id r' \<and>
          w_version r' < w_version (?f p)"
        using act [OF p(1)] vp r s c keep [OF r(1) \<open>r \<noteq> p\<close>] by auto
      with p(1) show ?thesis by (auto simp: t'(1))
    next
      case False
      have "s \<noteq> p" using s(2) p(2) by (auto simp: is_active_def)
      with False have "is_active (?f s) \<and> w_database_id (?f s) = w_database_id r' \<and>
          w_version r' < w_version (?f s)"
        using act [OF s(1)] s r keep [OF r(1) \<open>r \<noteq> p\<close>] keep [OF s(1) \<open>s \<noteq> p\<close>] by auto
      with s(1) show ?thesis by (auto simp: t'(1))
    qed
  qed
qed

lemma Ratify_tables:
  "snd (Ratify now request t) = t \<or>
   (\<exists>p. fst (Ratify now request t) = Inl ErrSecondApprovalRequired \<and>
      loadProposalForUpdate t (rq_ProposalID request) = Some p \<and>
      snd (Ratify now request t) = snd (approveProposal now p request t)) \<or>
   (\<exists>pol. Ratify now request t = (Inr pol, snd (Ratify now request t)) \<and>
      ratifyInTransaction now request t = (Inr pol, snd (Ratify now request t)))"
proof (cases "ratifyInTransaction now request t")
  case (Pair res t')
  show ?thesis
  proof (cases "\<exists>pol. res = Inr pol")
    case True
    with Pair show ?thesis by (auto simp: Ratify_def)
  next
    case False
    then obtain e where e: "res = Inl e" by (cases res) auto
    show ?thesis
    proof (cases "e = ErrSecondApprovalRequired")
      case True
      with Pair e show ?thesis
        by (auto simp: Ratify_def ratifyInTransaction_def activateProposal_def
            split: option.splits if_splits prod.splits)
    next
      case False
      with Pair e show ?thesis by (cases e) (auto simp: Ratify_def)
    qed
  qed
qed

lemma store_inv_cong:
  "tb_policy t' = tb_policy t \<Longrightarrow> tb_seq t' = tb_seq t \<Longrightarrow> store_inv t \<Longrightarrow> store_inv t'"
  by (simp add: store_inv_def)

lemma store_inv_Ratify:
  assumes "store_inv t"
  shows "store_inv (snd (Ratify now request t))"
  using Ratify_tables [of now request t]
proof (elim disjE exE conjE)
  assume "snd (Ratify now request t) = t"
  with assms show ?thesis by simp
next
  fix p
  assume "snd (Ratify now request t) = snd (approveProposal now p request t)"
  with assms show ?thesis
    using store_inv_cong [OF approveProposal_fields] by simp
next
  fix pol
  assume "ratifyInTransaction now request t = (Inr pol, snd (Ratify now request t))"
  then show ?thesis
  proof (rule ratify_success)
    fix p c ta
    assume p: "loadProposalForUpdate t (rq_ProposalID request) = Some p"
      and c: "currentPolicySQL t (w_database_id p) = Some c"
      and t': "tb_policy (snd (Ratify now request t)) =
        map (ratified_row now p c (rq_Actor request)) (tb_policy t)"
        "tb_seq (snd (Ratify now request t)) = tb_seq t"
    from currentPolicySQL_Some [OF c] loadProposal_Some [OF p] t' show ?thesis
      using store_inv_ratified [OF assms, of p c "snd (Ratify now request t)" now
          "rq_Actor request"] by simp
  qed
qed

subsection \<open>Widening flags\<close>

text \<open>Rows are never deleted and keep their document, so a flag computed against the document
  of a row stays right: a row that names an agent carries the outcome of the widening check of
  its document against the row it supersedes.\<close>

definition doc_of :: "tables \<Rightarrow> int \<Rightarrow> json \<Rightarrow> bool" where
  "doc_of t i d \<longleftrightarrow> (\<exists>r \<in> set (tb_policy t). w_id r = i \<and> w_doc r = d)"

definition flag_ok :: "golib \<Rightarrow> tables \<Rightarrow> policy_row \<Rightarrow> bool" where
  "flag_ok lib t r \<longleftrightarrow>
     w_principal_id r = None \<or>
     (\<exists>i d. w_supersedes_id r = Some i \<and> doc_of t i d \<and>
        w_widening r = (fst (WidensJSON lib d (w_doc r)) \<or> snd (WidensJSON lib d (w_doc r)) \<noteq> None))"

definition system_inv :: "golib \<Rightarrow> system \<Rightarrow> bool" where
  "system_inv lib s \<longleftrightarrow>
     store_inv (sy_tables s) \<and>
     (\<forall>r \<in> set (tb_policy (sy_tables s)). flag_ok lib (sy_tables s) r) \<and>
     (\<forall>(request, current) \<in> set (sy_inflight s).
        doc_of (sy_tables s) (po_ID current) (po_Document current))"

lemma flag_ok_mono:
  "(\<And>i d. doc_of t i d \<Longrightarrow> doc_of t' i d) \<Longrightarrow> flag_ok lib t r \<Longrightarrow> flag_ok lib t' r"
  unfolding flag_ok_def by blast

lemma doc_of_append: "doc_of t i d \<Longrightarrow> doc_of (t\<lparr>tb_policy := tb_policy t @ rs, tb_seq := n\<rparr>) i d"
  by (auto simp: doc_of_def)

lemma Current_doc: "Current t scope = Inr p \<Longrightarrow> doc_of t (po_ID p) (po_Document p)"
  using currentPolicySQL_Some [of t "sc_DatabaseID scope"]
  by (auto simp: Current_def scanPolicy_def doc_of_def split: option.splits)

lemma proposeRead_doc: "proposeRead lib request t = Inr p \<Longrightarrow> doc_of t (po_ID p) (po_Document p)"
  by (auto simp: proposeRead_def ebind_Inr_iff split: if_splits intro: Current_doc)

lemma Bootstrap_tables:
  "snd (Bootstrap lib now scope profile actor t) = t \<or>
   (\<exists>row n. snd (Bootstrap lib now scope profile actor t) =
      t\<lparr>tb_policy := tb_policy t @ [row], tb_seq := n\<rparr> \<and> w_principal_id row = None)"
  by (auto simp: Bootstrap_def Let_def split: sum.splits)

lemma insertProposal_tables:
  fixes lib now request
  assumes "doc_of t (po_ID current) (po_Document current)"
  defines "row \<equiv> proposal_row lib now request current (tb_seq t)"
  shows "snd (insertProposal lib now request current t) =
      t\<lparr>tb_policy := tb_policy t @ [row], tb_seq := tb_seq t + 1\<rparr>"
    and "flag_ok lib (snd (insertProposal lib now request current t)) row"
proof -
  show t: "snd (insertProposal lib now request current t) =
      t\<lparr>tb_policy := tb_policy t @ [row], tb_seq := tb_seq t + 1\<rparr>"
    by (simp add: insertProposal_def Let_def row_def)
  show "flag_ok lib (snd (insertProposal lib now request current t)) row"
    using doc_of_append [OF assms(1), of "tb_seq t + 1" "[row]"] unfolding t flag_ok_def
    by (auto simp: row_def proposal_row_def proposalProvenance_def split: prod.splits option.splits)
qed

lemma Ratify_rows:
  "\<exists>f. tb_policy (snd (Ratify now request t)) = map f (tb_policy t) \<and>
     (\<forall>r. w_id (f r) = w_id r \<and> w_doc (f r) = w_doc r \<and> w_principal_id (f r) = w_principal_id r \<and>
        w_widening (f r) = w_widening r \<and> w_supersedes_id (f r) = w_supersedes_id r)"
  using Ratify_tables [of now request t]
proof (elim disjE exE conjE)
  fix pol
  assume "ratifyInTransaction now request t = (Inr pol, snd (Ratify now request t))"
  then show ?thesis
    by (rule ratify_success) (metis ratified_row_fields)
qed (rule exI [of _ "\<lambda>r. r"], simp add: approveProposal_fields)+

lemma system_inv_append:
  assumes "system_inv lib s" "store_inv t'" "flag_ok lib t' row"
    and t': "t' = (sy_tables s)\<lparr>tb_policy := tb_policy (sy_tables s) @ [row], tb_seq := n\<rparr>"
    and "set inflight \<subseteq> set (sy_inflight s)"
  shows "system_inv lib (s\<lparr>sy_tables := t', sy_inflight := inflight\<rparr>)"
proof -
  have d: "doc_of (sy_tables s) i d \<Longrightarrow> doc_of t' i d" for i d
    unfolding t' by (rule doc_of_append)
  have "flag_ok lib t' r" if "r \<in> set (tb_policy (sy_tables s))" for r
    using assms(1) that d by (auto simp: system_inv_def intro: flag_ok_mono [of "sy_tables s"])
  then have "\<forall>r \<in> set (tb_policy t'). flag_ok lib t' r"
    using assms(3) by (simp add: t')
  moreover have "\<forall>(request, current) \<in> set inflight. doc_of t' (po_ID current) (po_Document current)"
    using assms(1,5) d by (fastforce simp: system_inv_def)
  ultimately show ?thesis using assms(2) by (simp add: system_inv_def)
qed

lemma system_inv_step:
  assumes "system_inv lib s" "store_step lib s s'"
  shows "system_inv lib s'"
  using assms(2)
proof cases
  case (step_bootstrap now scope profile actor)
  let ?t = "snd (Bootstrap lib now scope profile actor (sy_tables s))"
  have inv: "store_inv ?t" using assms(1) by (simp add: system_inv_def store_inv_Bootstrap)
  show ?thesis
    using Bootstrap_tables [of lib now scope profile actor "sy_tables s"]
  proof
    assume "?t = sy_tables s"
    with step_bootstrap assms(1) show ?thesis by simp
  next
    assume "\<exists>row n. ?t = (sy_tables s)\<lparr>tb_policy := tb_policy (sy_tables s) @ [row],
        tb_seq := n\<rparr> \<and> w_principal_id row = None"
    then obtain row n where "?t = (sy_tables s)\<lparr>tb_policy := tb_policy (sy_tables s) @ [row],
        tb_seq := n\<rparr>" "w_principal_id row = None" by blast
    with system_inv_append [OF assms(1) inv _ this(1), of "sy_inflight s"] step_bootstrap
    show ?thesis by (simp add: flag_ok_def)
  qed
next
  case (step_read request current)
  with assms(1) show ?thesis by (auto simp: system_inv_def dest: proposeRead_doc)
next
  case (step_insert request current now)
  with assms(1) have d: "doc_of (sy_tables s) (po_ID current) (po_Document current)"
    by (auto simp: system_inv_def)
  have inv: "store_inv (snd (insertProposal lib now request current (sy_tables s)))"
    using assms(1) by (simp add: system_inv_def store_inv_insertProposal)
  from system_inv_append [OF assms(1) inv insertProposal_tables(2) [OF d] insertProposal_tables(1) [OF d],
      of "remove1 (request, current) (sy_inflight s)"] step_insert
  show ?thesis by (simp add: set_remove1_subset)
next
  case (step_ratify now request)
  obtain f where f: "tb_policy (sy_tables s') = map f (tb_policy (sy_tables s))"
    "\<And>r. w_id (f r) = w_id r \<and> w_doc (f r) = w_doc r \<and> w_principal_id (f r) = w_principal_id r \<and>
        w_widening (f r) = w_widening r \<and> w_supersedes_id (f r) = w_supersedes_id r"
    using Ratify_rows [of now request "sy_tables s"] step_ratify by auto
  have d: "doc_of (sy_tables s) i d \<Longrightarrow> doc_of (sy_tables s') i d" for i d
    using f by (auto simp: doc_of_def)
  have "flag_ok lib (sy_tables s') (f r)" if "flag_ok lib (sy_tables s) r" for r
    using that f(2) [of r] d unfolding flag_ok_def by metis
  with assms(1) step_ratify f(1) d show ?thesis
    using store_inv_Ratify [of "sy_tables s" now request]
    by (auto simp: system_inv_def)
qed

lemma reachable_inv: "reachable lib s \<Longrightarrow> system_inv lib s"
proof (induction rule: reachable.induct)
  case reachable_init
  then show ?case by (simp add: system_inv_def store_inv_def tables0_def)
next
  case (reachable_step s s')
  then show ?case by (blast intro: system_inv_step)
qed

lemma Ratify_success:
  "Ratify now request t = (Inr pol, t') \<Longrightarrow> ratifyInTransaction now request t = (Inr pol, t')"
  using Ratify_tables [of now request t]
  by (auto simp: Ratify_def split: if_splits prod.splits sum.splits store_error.splits)

lemma Propose_reachable:
  assumes "reachable lib \<lparr>sy_tables = t, sy_inflight = []\<rparr>"
  shows "reachable lib \<lparr>sy_tables = snd (Propose lib now request t), sy_inflight = []\<rparr>"
proof (cases "proposeRead lib request t")
  case (Inl e)
  with assms show ?thesis by (simp add: Propose_def)
next
  case (Inr c)
  have "reachable lib \<lparr>sy_tables = t, sy_inflight = [(request, c)]\<rparr>"
    using reachable_step [OF assms step_read [of lib request _ c]] Inr by simp
  from reachable_step [OF this step_insert [of request c _ lib now]] Inr show ?thesis
    by (cases "insertProposal lib now request c t") (simp add: Propose_def)
qed

subsection \<open>An example store\<close>

definition ex_json :: "Document \<Rightarrow> json" where
  "ex_json doc = (case MarshalDocument ex_lib doc of Inl _ \<Rightarrow> JNull | Inr j \<Rightarrow> j)"

definition ex_profile :: "int \<Rightarrow> Document" where
  "ex_profile ceiling = UnattendedProfile\<lparr>doc_LockDurationCeilingMS := ceiling\<rparr>"

definition ex_scope :: Scope where "ex_scope = \<lparr>sc_DatabaseID = Some 7\<rparr>"

definition ex_booted :: tables where
  "ex_booted = snd (Bootstrap ex_lib ex_now ex_scope ''unattended'' ''ops'' tables0)"

text \<open>The agent \<open>agent\<close>, sponsored by user 3, proposes the unattended profile with
  another lock ceiling.\<close>

definition ex_proposal :: "string \<Rightarrow> int \<Rightarrow> ProposalRequest" where
  "ex_proposal agent ceiling = \<lparr>pq_Scope = ex_scope, pq_ExpectedVersion = 1,
     pq_Profile = ''unattended'',
     pq_Document = ex_json (ex_profile ceiling),
     pq_Actor = ''mcp'', pq_Preview = [],
     pq_Principal = Some \<lparr>p_ID = agent, p_SponsorID = 3, p_TaskID = [], p_OnBehalfOf = [],
       p_Tool = []\<rparr>\<rparr>"

definition ex_proposed :: "string \<Rightarrow> int \<Rightarrow> tables" where
  "ex_proposed agent ceiling = snd (Propose ex_lib ex_now (ex_proposal agent ceiling) ex_booted)"

definition ex_ratify :: "string \<Rightarrow> int \<Rightarrow> bool \<Rightarrow> RatifyRequest" where
  "ex_ratify actor user single = \<lparr>rq_ProposalID = 2, rq_ExpectedVersion = 1, rq_Actor = actor,
     rq_ApproverUserID = user, rq_Reason = ''ok'', rq_SingleOperatorMode = single\<rparr>"

lemma ex_profile_ok:
  assumes "0 \<le> ceiling" "fits64 ceiling"
  shows "ValidateDocument ex_lib (ex_profile ceiling) = Inr ()"
    and "ParseDocument ex_lib (ex_json (ex_profile ceiling)) =
      Inr ((ex_profile ceiling)\<lparr>doc_Profile := ProfileOther []\<rparr>)"
proof -
  have v: "isOk (ValidateDocument ex_lib UnattendedProfile)" "doc_typed UnattendedProfile"
    by code_simp+
  then have "isOk (ValidateDocument ex_lib (ex_profile ceiling))"
    using assms(1)
    by (simp add: isOk_ValidateDocument_iff ex_profile_def validateBlastRadius_def
        Document_Budget_def Let_def cong: if_cong)
  then show ok: "ValidateDocument ex_lib (ex_profile ceiling) = Inr ()"
    by (auto simp: isOk_iff)
  have "doc_typed (ex_profile ceiling)"
    using v(2) assms(2) by (simp add: doc_typed_def ex_profile_def)
  from parse_marshal [OF ok this]
  show "ParseDocument ex_lib (ex_json (ex_profile ceiling)) =
      Inr ((ex_profile ceiling)\<lparr>doc_Profile := ProfileOther []\<rparr>)"
    by (cases "MarshalDocument ex_lib (ex_profile ceiling)") (simp_all add: ex_json_def)
qed

lemma ex_ceilings [simp]: "fits64 1000" "fits64 3000" "fits64 5000"
  by (simp_all add: fits64_def min64_def max64_def)

lemma ex_widens:
  "Widens ((ex_profile 3000)\<lparr>doc_Profile := ProfileOther []\<rparr>)
     ((ex_profile 5000)\<lparr>doc_Profile := ProfileOther []\<rparr>)"
  "\<not> Widens ((ex_profile 3000)\<lparr>doc_Profile := ProfileOther []\<rparr>)
     ((ex_profile 1000)\<lparr>doc_Profile := ProfileOther []\<rparr>)"
  by code_simp+

lemma ex_marshal: "MarshalDocument ex_lib UnattendedProfile = Inr (ex_json (ex_profile 3000))"
proof -
  have "ex_profile 3000 = UnattendedProfile" by code_simp
  then show ?thesis using ex_profile_ok(1) [of 3000] by (simp add: ex_json_def MarshalDocument_def)
qed

definition ex_row1 :: policy_row where
  "ex_row1 = \<lparr>w_id = 1, w_database_id = Some 7, w_version = 1, w_scope = ''database'',
     w_profile = ''unattended'', w_doc = ex_json (ex_profile 3000), w_preview = [],
     w_status = StatusActive, w_proposed_by = ''ops'', w_ratified_by = Some ''ops'',
     w_proposed_at = ex_now, w_activated_at = Some ex_now, w_supersedes_id = None,
     w_principal_id = None, w_sponsor_id = None, w_widening = False\<rparr>"

lemma ex_booted_eq: "ex_booted = \<lparr>tb_policy = [ex_row1], tb_approvals = [], tb_seq = 2\<rparr>"
proof -
  have a: "TrimSpace ''ops'' \<noteq> []" by code_simp
  show ?thesis
    by (simp add: ex_booted_def Bootstrap_def Current_def currentPolicySQL_def active_rows_def
        tables0_def profileDocument_def ex_marshal a ex_scope_def scopeName_def Let_def ex_row1_def)
qed

definition ex_row2 :: "string \<Rightarrow> int \<Rightarrow> policy_row" where
  "ex_row2 agent ceiling = \<lparr>w_id = 2, w_database_id = Some 7, w_version = -2,
     w_scope = ''database'', w_profile = ''unattended'', w_doc = ex_json (ex_profile ceiling),
     w_preview = [], w_status = StatusProposed, w_proposed_by = ''mcp'', w_ratified_by = None,
     w_proposed_at = ex_now, w_activated_at = None, w_supersedes_id = Some 1,
     w_principal_id = (if agent = [] then None else Some agent), w_sponsor_id = Some 3,
     w_widening = Widens ((ex_profile 3000)\<lparr>doc_Profile := ProfileOther []\<rparr>)
       ((ex_profile ceiling)\<lparr>doc_Profile := ProfileOther []\<rparr>)\<rparr>"

lemma ex_row_fields [simp]:
  "w_id ex_row1 = 1" "w_database_id ex_row1 = Some 7" "w_version ex_row1 = 1"
  "w_status ex_row1 = StatusActive" "w_doc ex_row1 = ex_json (ex_profile 3000)"
  "w_id (ex_row2 agent c) = 2" "w_database_id (ex_row2 agent c) = Some 7"
  "w_status (ex_row2 agent c) = StatusProposed" "w_supersedes_id (ex_row2 agent c) = Some 1"
  "w_doc (ex_row2 agent c) = ex_json (ex_profile c)" "row_sponsor (ex_row2 agent c) = 3"
  "row_principal (ex_row2 agent c) = agent"
  "w_principal_id (ex_row2 agent c) = (if agent = [] then None else Some agent)"
  "w_widening (ex_row2 agent 1000) = False" "w_widening (ex_row2 agent 5000) = True"
  by (simp_all add: ex_row1_def ex_row2_def row_sponsor_def row_principal_def ex_widens)

lemma ex_proposed_eq:
  assumes "0 \<le> ceiling" "fits64 ceiling"
  shows "ex_proposed agent ceiling =
    \<lparr>tb_policy = [ex_row1, ex_row2 agent ceiling], tb_approvals = [], tb_seq = 3\<rparr>"
proof -
  have a: "TrimSpace ''mcp'' \<noteq> []" by code_simp
  note parse = ex_profile_ok(2) [OF assms] ex_profile_ok(2) [of 3000]
  have "proposeRead ex_lib (ex_proposal agent ceiling) ex_booted = Inr (scanPolicy ex_row1)"
    by (simp add: proposeRead_def validateProposal_def ex_proposal_def a parse Current_def
        currentPolicySQL_def active_rows_def ex_booted_eq ex_scope_def, simp add: ex_row1_def
        scanPolicy_def)
  then show ?thesis
    by (simp add: ex_proposed_def Propose_def insertProposal_def proposal_row_def
        proposalProvenance_def ex_proposal_def WidensJSON_def scanPolicy_def ex_booted_eq
        ex_row1_def ex_row2_def ex_scope_def scopeName_def parse)
qed

lemma ex_booted_reachable: "reachable ex_lib \<lparr>sy_tables = ex_booted, sy_inflight = []\<rparr>"
  using reachable_step [OF reachable_init step_bootstrap [of ex_lib
      "\<lparr>sy_tables = tables0, sy_inflight = []\<rparr>" ex_now ex_scope "''unattended''" "''ops''"]]
  by (simp add: ex_booted_def)

lemma ex_proposed_reachable:
  "reachable ex_lib \<lparr>sy_tables = ex_proposed agent ceiling, sy_inflight = []\<rparr>"
  unfolding ex_proposed_def by (rule Propose_reachable [OF ex_booted_reachable])

subsection \<open>Properties\<close>

text \<open>
  C26: In every reachable state of the store a scope has at most one active policy, the current
  one is it, and its version is above that of every policy it superseded.\<close>

theorem one_active_policy:
  assumes "reachable lib s" and "r \<in> set (tb_policy (sy_tables s))" and "w_status r = StatusActive"
  shows "Current (sy_tables s) \<lparr>sc_DatabaseID = w_database_id r\<rparr> = Inr (scanPolicy r) \<and>
    (\<forall>q \<in> set (tb_policy (sy_tables s)). w_database_id q = w_database_id r \<longrightarrow>
       (w_status q = StatusActive \<longrightarrow> q = r) \<and>
       (w_status q = StatusSuperseded \<longrightarrow> w_version q < w_version r))"
proof -
  have i: "store_inv (sy_tables s)" using reachable_inv [OF assms(1)] by (simp add: system_inv_def)
  have a: "is_active r" using assms(3) by (simp add: is_active_def)
  have "Current (sy_tables s) \<lparr>sc_DatabaseID = w_database_id r\<rparr> = Inr (scanPolicy r)"
    using currentPolicySQL_iff [OF i, of "w_database_id r" r] assms(2) a by (simp add: Current_def)
  moreover have "w_version q < w_version r" if "q \<in> set (tb_policy (sy_tables s))"
      "w_database_id q = w_database_id r" "w_status q = StatusSuperseded" for q
    using store_invD(6) [OF i that(1,3)] store_invD(4) [OF i _ assms(2) _ a] that(2) by auto
  moreover have "q = r" if "q \<in> set (tb_policy (sy_tables s))"
      "w_database_id q = w_database_id r" "w_status q = StatusActive" for q
    using store_invD(4) [OF i that(1) assms(2) _ a that(2)] that(3) by (simp add: is_active_def)
  ultimately show ?thesis by blast
qed

theorem one_active_policy_witness:
  "\<exists>p. Current ex_booted ex_scope = Inr p \<and> po_Version p = 1"
proof -
  have "ex_row1 \<in> set (tb_policy (sy_tables \<lparr>sy_tables = ex_booted, sy_inflight = []\<rparr>))"
    "w_status ex_row1 = StatusActive"
    by (simp_all add: ex_booted_eq)
  from one_active_policy [OF ex_booted_reachable this]
  show ?thesis by (simp add: ex_scope_def scanPolicy_def)
qed

text \<open>
  A successful ratification replaces the policy the caller expected, and no other: the
  proposal was made against the policy that is still current, at the version the caller named;
  afterwards the proposal's document is the current one of its scope at the next version, and
  the document it replaced is kept as superseded. Stale proposals are refused.\<close>

theorem Ratify_replaces:
  assumes "reachable lib s" and "Ratify now request (sy_tables s) = (Inr pol, t')"
  shows "\<exists>p c. p \<in> set (tb_policy (sy_tables s)) \<and> w_id p = rq_ProposalID request \<and>
    w_status p = StatusProposed \<and>
    Current (sy_tables s) \<lparr>sc_DatabaseID = w_database_id p\<rparr> = Inr (scanPolicy c) \<and>
    w_supersedes_id p = Some (w_id c) \<and> w_version c = rq_ExpectedVersion request \<and>
    Current t' \<lparr>sc_DatabaseID = w_database_id p\<rparr> = Inr pol \<and>
    po_Version pol = w_version c + 1 \<and> po_Document pol = w_doc p \<and>
    (\<exists>c' \<in> set (tb_policy t'). w_id c' = w_id c \<and> w_status c' = StatusSuperseded \<and>
       w_version c' = w_version c \<and> w_doc c' = w_doc c)"
proof -
  have i: "store_inv (sy_tables s)" using reachable_inv [OF assms(1)] by (simp add: system_inv_def)
  from Ratify_success [OF assms(2)] show ?thesis
  proof (rule ratify_success)
    fix p c ta
    assume p: "loadProposalForUpdate (sy_tables s) (rq_ProposalID request) = Some p"
      and c: "currentPolicySQL (sy_tables s) (w_database_id p) = Some c"
        "w_supersedes_id p = Some (w_id c)" "w_version c = rq_ExpectedVersion request"
      and pol: "pol = scanPolicy (activate_row now (w_version c + 1) (rq_Actor request) p)"
      and t': "tb_policy t' = map (ratified_row now p c (rq_Actor request)) (tb_policy (sy_tables s))"
        "tb_seq t' = tb_seq (sy_tables s)"
    note p' = loadProposal_Some [OF p] and c' = currentPolicySQL_Some [OF c(1)]
    have i': "store_inv t'" using store_inv_ratified [OF i _ _ _ _ _ t'] p' c' by simp
    have neq: "w_id p \<noteq> w_id c"
      using row_by_id [OF i, of p c] p' c' by (auto simp: is_active_def)
    let ?p = "activate_row now (w_version c + 1) (rq_Actor request) p"
    have "?p = ratified_row now p c (rq_Actor request) p" by (simp add: ratified_row_def)
    then have "?p \<in> set (tb_policy t')" using p' by (auto simp: t'(1))
    then have "Current t' \<lparr>sc_DatabaseID = w_database_id p\<rparr> = Inr pol"
      using currentPolicySQL_iff [OF i', of "w_database_id p" ?p]
      by (simp add: Current_def pol activate_row_def is_active_def)
    moreover have "c\<lparr>w_status := StatusSuperseded\<rparr> = ratified_row now p c (rq_Actor request) c"
      using neq by (simp add: ratified_row_def)
    then have "c\<lparr>w_status := StatusSuperseded\<rparr> \<in> set (tb_policy t')" using c' by (auto simp: t'(1))
    moreover have "Current (sy_tables s) \<lparr>sc_DatabaseID = w_database_id p\<rparr> = Inr (scanPolicy c)"
      using c(1) by (simp add: Current_def)
    ultimately show ?thesis
      using p' c(2,3) pol
      by (intro exI [of _ p] exI [of _ c] conjI bexI [of _ "c\<lparr>w_status := StatusSuperseded\<rparr>"])
         (simp_all add: scanPolicy_def activate_row_def)
  qed
qed

lemma ex_rows_select:
  "loadProposalForUpdate (ex_proposed agent ceiling) 2 = Some (ex_row2 agent ceiling)"
  "currentPolicySQL (ex_proposed agent ceiling) (Some 7) = Some ex_row1"
  "tb_approvals (ex_proposed agent ceiling) = []"
  if "0 \<le> ceiling" "fits64 ceiling"
  using that
  by (simp_all add: ex_proposed_eq loadProposalForUpdate_def currentPolicySQL_def active_rows_def
      cong: if_cong)

lemma ex_trim [simp]: "TrimSpace ''ann'' = ''ann''" "TrimSpace ''bob'' = ''bob''"
  "TrimSpace ''ok'' = ''ok''"
  by code_simp+

lemma ex_narrow_activated:
  "isOk (fst (Ratify ex_now (ex_ratify ''ann'' 4 False) (ex_proposed ''agp_1'' 1000)))"
  by (simp add: Ratify_def ratifyInTransaction_def ex_ratify_def ex_rows_select
      approveProposal_def activateProposal_def)

theorem Ratify_replaces_witness:
  "\<exists>pol t'. Ratify ex_now (ex_ratify ''ann'' 4 False) (ex_proposed ''agp_1'' 1000) = (Inr pol, t') \<and>
     po_Version pol = 2"
proof -
  obtain pol t' where r: "Ratify ex_now (ex_ratify ''ann'' 4 False) (ex_proposed ''agp_1'' 1000) =
      (Inr pol, t')"
    using ex_narrow_activated by (metis isOk_iff prod.collapse)
  with Ratify_replaces [OF ex_proposed_reachable, of ex_now "ex_ratify ''ann'' 4 False" "''agp_1''" 1000]
  show ?thesis by (auto simp: ex_ratify_def)
qed

text \<open>
  C25: An agent cannot widen its own authority with one signature. When a widening proposal that
  names its agent is activated outside single-operator mode, at least two different people have
  approved it, none of them the agent's sponsor; in single-operator mode the person gave a
  reason.\<close>

theorem widening_needs_two_people:
  assumes "Ratify now request t = (Inr pol, t')"
    and "loadProposalForUpdate t (rq_ProposalID request) = Some p"
    and "w_principal_id p = Some agent" "agent \<noteq> []" "w_widening p"
  shows "if rq_SingleOperatorMode request then TrimSpace (rq_Reason request) \<noteq> []
    else rq_ApproverUserID request \<noteq> row_sponsor p \<and>
      (\<exists>a b. a \<in> set (tb_approvals t') \<and> b \<in> set (tb_approvals t') \<and>
         ap_PolicyID a = w_id p \<and> ap_PolicyID b = w_id p \<and>
         ap_ApproverUserID a \<noteq> ap_ApproverUserID b \<and>
         ap_ApproverUserID a \<noteq> row_sponsor p \<and> ap_ApproverUserID b \<noteq> row_sponsor p)"
proof -
  from Ratify_success [OF assms(1)] obtain ta where a: "approveProposal now p request t = (None, ta)"
    "tb_approvals t' = tb_approvals ta"
    by (rule ratify_success) (use assms(2) in auto)
  have agent: "row_principal p \<noteq> []" using assms(3,4) by (simp add: row_principal_def)
  have two: "\<exists>a b. a \<in> set xs \<and> b \<in> set xs \<and> a \<noteq> b" if "2 \<le> length (remdups xs)" for xs :: "int list"
  proof (rule ccontr)
    assume "\<not> ?thesis"
    then have "set xs \<subseteq> {hd xs}" by (cases xs) auto
    then have "card (set xs) \<le> 1" using card_mono [of "{hd xs}" "set xs"] by simp
    with that show False by (simp add: length_remdups_card_conv)
  qed
  show ?thesis
  proof (cases "rq_SingleOperatorMode request")
    case True
    with a(1) agent assms(5) show ?thesis
      by (auto simp: approveProposal_def Let_def split: if_splits)
  next
    case False
    with a(1) agent assms(5) have l: "2 \<le> length (approvers ta (w_id p) (row_sponsor p))"
      and s: "rq_ApproverUserID request \<noteq> row_sponsor p" "0 < rq_ApproverUserID request"
      by (auto simp: approveProposal_def Let_def requiredApprovals_def split: if_splits)
    from two [OF l [unfolded approvers_def]] obtain x y where "x \<noteq> y"
      "x \<in> set (map ap_ApproverUserID (filter (\<lambda>a. ap_PolicyID a = w_id p \<and>
         ap_ApproverUserID a \<noteq> row_sponsor p) (tb_approvals ta)))"
      "y \<in> set (map ap_ApproverUserID (filter (\<lambda>a. ap_PolicyID a = w_id p \<and>
         ap_ApproverUserID a \<noteq> row_sponsor p) (tb_approvals ta)))"
      by blast
    with False s(1) a(2) show ?thesis by auto
  qed
qed

text \<open>Two people approve the widening proposal one after the other.\<close>

definition ex_first :: tables where
  "ex_first = snd (Ratify ex_now (ex_ratify ''ann'' 4 False) (ex_proposed ''agp_1'' 5000))"

lemma ex_first_eq:
  "fst (Ratify ex_now (ex_ratify ''ann'' 4 False) (ex_proposed ''agp_1'' 5000)) =
     Inl ErrSecondApprovalRequired"
  "ex_first = (ex_proposed ''agp_1'' 5000)\<lparr>tb_approvals := [\<lparr>ap_PolicyID = 2, ap_Approver = ''ann'',
     ap_ApproverUserID = 4, ap_Reason = ''ok'', ap_SingleOperator = False, ap_ReviewStatus = None,
     ap_DecidedAt = ex_now\<rparr>]\<rparr>"
  by (simp_all add: ex_first_def Ratify_def ratifyInTransaction_def ex_ratify_def ex_rows_select
      approveProposal_def insertApproval_def approvers_def requiredApprovals_def Let_def)

lemma ex_first_select:
  "loadProposalForUpdate ex_first 2 = Some (ex_row2 ''agp_1'' 5000)"
  "currentPolicySQL ex_first (Some 7) = Some ex_row1"
  "tb_approvals ex_first = [\<lparr>ap_PolicyID = 2, ap_Approver = ''ann'', ap_ApproverUserID = 4,
     ap_Reason = ''ok'', ap_SingleOperator = False, ap_ReviewStatus = None, ap_DecidedAt = ex_now\<rparr>]"
  using ex_rows_select [of 5000 "''agp_1''"]
  by (simp_all add: ex_first_eq loadProposalForUpdate_def currentPolicySQL_def active_rows_def)

lemma ex_second_activated:
  "isOk (fst (Ratify ex_now (ex_ratify ''bob'' 5 False) ex_first))"
  by (simp add: Ratify_def ratifyInTransaction_def ex_ratify_def ex_first_select
      approveProposal_def activateProposal_def Let_def insertApproval_def approvers_def
      requiredApprovals_def)

theorem widening_needs_two_people_witness:
  "\<exists>pol t'. Ratify ex_now (ex_ratify ''bob'' 5 False) ex_first = (Inr pol, t') \<and>
     (\<exists>a b. a \<in> set (tb_approvals t') \<and> b \<in> set (tb_approvals t') \<and>
        ap_ApproverUserID a \<noteq> ap_ApproverUserID b)"
proof -
  obtain pol t' where r: "Ratify ex_now (ex_ratify ''bob'' 5 False) ex_first = (Inr pol, t')"
    using ex_second_activated by (metis isOk_iff prod.collapse)
  have "rq_ProposalID (ex_ratify ''bob'' 5 False) = 2"
    "\<not> rq_SingleOperatorMode (ex_ratify ''bob'' 5 False)"
    by (simp_all add: ex_ratify_def)
  with widening_needs_two_people [OF r, of "ex_row2 ''agp_1'' 5000" "''agp_1''"] ex_first_select r
  show ?thesis by auto
qed

text \<open>
  An agent without a principal escapes the quorum. Its reference has the empty id, which
  is stored as no principal at all, so its widening proposal, though marked as widening, is
  activated by a single approver, here even by the agent's own sponsor, where the same proposal
  of a named agent waits for a second person.\<close>

theorem anonymous_agent_needs_one_person:
  "w_widening (ex_row2 [] 5000) \<and>
   isOk (fst (Ratify ex_now (ex_ratify ''ann'' 3 False) (ex_proposed [] 5000))) \<and>
   fst (Ratify ex_now (ex_ratify ''ann'' 4 False) (ex_proposed ''agp_1'' 5000)) =
     Inl ErrSecondApprovalRequired"
proof (intro conjI)
  show "isOk (fst (Ratify ex_now (ex_ratify ''ann'' 3 False) (ex_proposed [] 5000)))"
    by (simp add: Ratify_def ratifyInTransaction_def ex_ratify_def ex_rows_select
        approveProposal_def activateProposal_def)
qed (simp_all add: ex_first_eq)

text \<open>
  A single-operator approval can vanish from the review queue. When the person had already
  approved the proposal before single-operator mode was switched on, the insert of the second
  approval does nothing, so the widening proposal is activated by one person and no approval is
  pending review.\<close>

theorem single_operator_review_lost:
  "isOk (fst (Ratify ex_now (ex_ratify ''ann'' 4 True) ex_first)) \<and>
   PendingReviews (snd (Ratify ex_now (ex_ratify ''ann'' 4 True) ex_first)) 100 = []"
proof -
  have "Ratify ex_now (ex_ratify ''ann'' 4 True) ex_first =
      (case activateProposal ex_now (ex_row2 ''agp_1'' 5000) 1 ''ann'' (supersede 1 ex_first) of
         (p, t) \<Rightarrow> (Inr p, t))"
    by (simp add: Ratify_def ratifyInTransaction_def ex_ratify_def ex_first_select
        approveProposal_def Let_def insertApproval_def activateProposal_def)
  then show ?thesis
    by (simp add: activateProposal_def supersede_def PendingReviews_def ex_first_select)
qed

text \<open>
  C24: An agent's proposal that one person may activate does not widen. In a reachable state,
  when a proposal that names its agent is activated and was not marked as widening, both
  documents parse and the proposed one does not widen the one it replaced, even though the
  mark was computed when the proposal was made and other operations may have run since. By the
  widening theorem nothing runs under it that was held before.\<close>

theorem unmarked_agent_proposal_narrows:
  assumes "reachable lib s" and "Ratify now request (sy_tables s) = (Inr pol, t')"
    and "loadProposalForUpdate (sy_tables s) (rq_ProposalID request) = Some p"
    and "w_principal_id p = Some agent" "\<not> w_widening p"
    and "Current (sy_tables s) \<lparr>sc_DatabaseID = w_database_id p\<rparr> = Inr old"
  shows "\<exists>base next. ParseDocument lib (po_Document old) = Inr base \<and>
    ParseDocument lib (po_Document pol) = Inr next \<and> \<not> Widens base next"
proof -
  have i: "system_inv lib s" using reachable_inv [OF assms(1)] .
  then have si: "store_inv (sy_tables s)" by (simp add: system_inv_def)
  from Ratify_success [OF assms(2)] obtain c where
    c: "currentPolicySQL (sy_tables s) (w_database_id p) = Some c" "w_supersedes_id p = Some (w_id c)"
      and pol: "po_Document pol = w_doc p"
    by (rule ratify_success) (use assms(3) in \<open>auto simp: scanPolicy_def activate_row_def\<close>)
  from c(1) assms(6) have old: "po_Document old = w_doc c"
    by (auto simp: Current_def scanPolicy_def)
  have "flag_ok lib (sy_tables s) p"
    using i loadProposal_Some [OF assms(3)] by (simp add: system_inv_def)
  with assms(4,5) c(2) obtain d where d: "doc_of (sy_tables s) (w_id c) d"
    "WidensJSON lib d (w_doc p) = (False, None)"
    by (auto simp: flag_ok_def prod_eq_iff)
  from d(1) currentPolicySQL_Some [OF c(1)] have "d = w_doc c"
    using row_by_id [OF si] by (auto simp: doc_of_def)
  with d(2) show ?thesis
    by (auto simp: WidensJSON_def old pol split: sum.splits)
qed

theorem unmarked_agent_proposal_narrows_witness:
  "\<exists>base next. ParseDocument ex_lib (ex_json (ex_profile 3000)) = Inr base \<and>
     ParseDocument ex_lib (ex_json (ex_profile 1000)) = Inr next \<and> \<not> Widens base next"
proof -
  obtain pol t' where r: "Ratify ex_now (ex_ratify ''ann'' 4 False) (ex_proposed ''agp_1'' 1000) =
      (Inr pol, t')"
    using ex_narrow_activated by (metis isOk_iff prod.collapse)
  then have "po_Document pol = ex_json (ex_profile 1000)"
    by (auto simp: Ratify_def ratifyInTransaction_def ex_ratify_def ex_rows_select
        approveProposal_def activateProposal_def scanPolicy_def activate_row_def)
  moreover have "rq_ProposalID (ex_ratify ''ann'' 4 False) = 2" by (simp add: ex_ratify_def)
  ultimately show ?thesis
    using unmarked_agent_proposal_narrows [of ex_lib
        "\<lparr>sy_tables = ex_proposed ''agp_1'' 1000, sy_inflight = []\<rparr>" ex_now
        "ex_ratify ''ann'' 4 False" pol t' "ex_row2 ''agp_1'' 1000" "''agp_1''" "scanPolicy ex_row1"]
      ex_proposed_reachable r ex_rows_select [of 1000 "''agp_1''"]
    by (simp add: Current_def scanPolicy_def)
qed

end
