(* ===== verification/Sha256.thy ===== *)
theory Sha256
  imports Prelude "HOL-Library.Word"
begin

text \<open>
  The parts of Go's \<^verbatim>\<open>crypto/sha256\<close>, \<^verbatim>\<open>encoding/hex\<close> and
  \<^verbatim>\<open>encoding/binary\<close> that the lease code uses: the SHA-256 digest of the UTF-8
  bytes of a string, its hexadecimal text, and the big-endian integer of its first eight bytes.
\<close>

unbundle bit_operations_syntax

subsection \<open>The digest\<close>

type_synonym byte = "8 word"

definition utf8_char :: "char \<Rightarrow> byte list" where
  "utf8_char c =
     (let n = of_char c :: nat in
      if n < 128 then [of_nat n] else [of_nat (192 + n div 64), of_nat (128 + n mod 64)])"

definition utf8 :: "string \<Rightarrow> byte list" where
  "utf8 s = concat (map utf8_char s)"

fun be_bytes :: "nat \<Rightarrow> nat \<Rightarrow> byte list" where
  "be_bytes 0 n = []"
| "be_bytes (Suc k) n = be_bytes k (n div 256) @ [of_nat (n mod 256)]"

text \<open>The message, a set bit, zeros up to 56 modulo 64 bytes, and the length in bits.\<close>

definition sha_pad :: "byte list \<Rightarrow> byte list" where
  "sha_pad m =
     m @ [128] @ replicate ((119 - length m mod 64) mod 64) 0 @ be_bytes 8 (8 * length m)"

fun be_words :: "byte list \<Rightarrow> 32 word list" where
  "be_words (a # b # c # d # bs) =
     (push_bit 24 (ucast a) OR push_bit 16 (ucast b) OR push_bit 8 (ucast c) OR ucast d)
     # be_words bs"
| "be_words _ = []"

definition rotr :: "nat \<Rightarrow> 32 word \<Rightarrow> 32 word" where
  "rotr n w = drop_bit n w OR push_bit (32 - n) w"

definition sha_k :: "32 word list" where
  "sha_k =
     [1116352408, 1899447441, 3049323471, 3921009573, 961987163, 1508970993, 2453635748,
      2870763221, 3624381080, 310598401, 607225278, 1426881987, 1925078388, 2162078206,
      2614888103, 3248222580, 3835390401, 4022224774, 264347078, 604807628, 770255983, 1249150122,
      1555081692, 1996064986, 2554220882, 2821834349, 2952996808, 3210313671, 3336571891,
      3584528711, 113926993, 338241895, 666307205, 773529912, 1294757372, 1396182291, 1695183700,
      1986661051, 2177026350, 2456956037, 2730485921, 2820302411, 3259730800, 3345764771,
      3516065817, 3600352804, 4094571909, 275423344, 430227734, 506948616, 659060556, 883997877,
      958139571, 1322822218, 1537002063, 1747873779, 1955562222, 2024104815, 2227730452,
      2361852424, 2428436474, 2756734187, 3204031479, 3329325298]"

definition sha_h0 :: "32 word list" where
  "sha_h0 =
     [1779033703, 3144134277, 1013904242, 2773480762, 1359893119, 2600822924, 528734635,
      1541459225]"

text \<open>The message schedule, newest word first.\<close>

fun sha_schedule :: "nat \<Rightarrow> 32 word list \<Rightarrow> 32 word list" where
  "sha_schedule 0 ws = ws"
| "sha_schedule (Suc n) ws =
     (let w15 = ws ! 14; w2 = ws ! 1;
          s0 = rotr 7 w15 XOR rotr 18 w15 XOR drop_bit 3 w15;
          s1 = rotr 17 w2 XOR rotr 19 w2 XOR drop_bit 10 w2
      in sha_schedule n ((ws ! 15 + s0 + ws ! 6 + s1) # ws))"

fun sha_round :: "32 word list \<Rightarrow> 32 word \<times> 32 word \<Rightarrow> 32 word list" where
  "sha_round [a, b, c, d, e, f, g, h] (k, w) =
     (let s1 = rotr 6 e XOR rotr 11 e XOR rotr 25 e;
          ch = (e AND f) XOR (NOT e AND g);
          t1 = h + s1 + ch + k + w;
          s0 = rotr 2 a XOR rotr 13 a XOR rotr 22 a;
          maj = (a AND b) XOR (a AND c) XOR (b AND c)
      in [t1 + (s0 + maj), a, b, c, d + t1, e, f, g])"
| "sha_round hs _ = hs"

definition sha_block :: "32 word list \<Rightarrow> 32 word list \<Rightarrow> 32 word list" where
  "sha_block hs block =
     map2 (+) hs (foldl sha_round hs (zip sha_k (rev (sha_schedule 48 (rev block)))))"

function sha_blocks :: "32 word list \<Rightarrow> 32 word list \<Rightarrow> 32 word list" where
  "sha_blocks hs ws =
     (if length ws < 16 then hs else sha_blocks (sha_block hs (take 16 ws)) (drop 16 ws))"
  by pat_completeness auto
termination by (relation "measure (length \<circ> snd)") auto

declare sha_blocks.simps [simp del]

definition word_bytes :: "32 word \<Rightarrow> byte list" where
  "word_bytes w =
     [ucast (drop_bit 24 w), ucast (drop_bit 16 w), ucast (drop_bit 8 w), ucast w]"

definition Sum256 :: "byte list \<Rightarrow> byte list" where
  "Sum256 m = concat (map word_bytes (sha_blocks sha_h0 (be_words (sha_pad m))))"

subsection \<open>Reading the digest\<close>

definition hex_digit :: "byte \<Rightarrow> char" where
  "hex_digit d = (if d < 10 then char_of (48 + unat d) else char_of (87 + unat d))"

definition EncodeToString :: "byte list \<Rightarrow> string" where
  "EncodeToString bs = concat (map (\<lambda>b. [hex_digit (drop_bit 4 b), hex_digit (b AND 15)]) bs)"

definition BigEndian_Uint64 :: "byte list \<Rightarrow> 64 word" where
  "BigEndian_Uint64 bs = foldl (\<lambda>n b. push_bit 8 n OR ucast b) 0 (take 8 bs)"

lemma sha_block_length:
  "length hs = 8 \<Longrightarrow> length (sha_block hs block) = 8"
proof -
  have round: "length (sha_round hs x) = 8" if "length hs = 8" for hs x
    using that by (cases "(hs, x)" rule: sha_round.cases) (simp_all add: Let_def)
  have "length (foldl sha_round hs xs) = 8" if "length hs = 8" for hs xs
    using that by (induction xs arbitrary: hs) (simp_all add: round)
  then show "length hs = 8 \<Longrightarrow> length (sha_block hs block) = 8"
    by (simp add: sha_block_def)
qed

lemma sha_blocks_length: "length hs = 8 \<Longrightarrow> length (sha_blocks hs ws) = 8"
proof (induction hs ws rule: sha_blocks.induct)
  case (1 hs ws)
  then show ?case
    by (subst sha_blocks.simps) (simp add: sha_block_length)
qed

lemma Sum256_length: "length (Sum256 m) = 32"
proof -
  have "length (concat (map word_bytes ws)) = 4 * length ws" for ws
    by (induction ws) (simp_all add: word_bytes_def)
  then show ?thesis
    by (simp add: Sum256_def sha_blocks_length sha_h0_def)
qed

lemma sha_pad_blocks: "length (sha_pad m) mod 64 = 0"
proof -
  have be: "length (be_bytes k n) = k" for k n
    by (induction k arbitrary: n) simp_all
  have "length (sha_pad m) = length m + 9 + (119 - length m mod 64) mod 64"
    by (simp add: sha_pad_def be)
  moreover obtain q r where m: "length m = 64 * q + r" "r < 64"
    using that [of "length m div 64" "length m mod 64"] by simp
  moreover have "(119 - r) mod 64 = (if r \<le> 55 then 55 - r else 119 - r)"
    using m(2) by (cases "r \<le> 55") (simp_all add: mod_if)
  ultimately have "length (sha_pad m) = 64 * (if r \<le> 55 then q + 1 else q + 2)"
    by auto
  then show ?thesis by simp
qed

text \<open>The published test vector of the standard, evaluated by the kernel.\<close>

lemma Sum256_abc:
  "EncodeToString (Sum256 (utf8 ''abc'')) =
     ''ba7816bf8f01cfea414140de5dae2223b00361a396177a9cb410ff61f20015ad''"
  by code_simp

end
