(* ===== verification/Lease_Target.thy ===== *)
theory Lease_Target
  imports Sha256 "HOL-Library.AList"
begin

text \<open>
  The objects a change lease covers: \<^verbatim>\<open>lease.go\<close>,
  \<^verbatim>\<open>typed_target.go\<close>, \<^verbatim>\<open>change_table.go\<close> and the key list of
  \<^verbatim>\<open>lease_conflict.go\<close>. Relation names are read as a statement writes them,
  normalized, resolved through the catalog and turned into lease keys. The catalog is the part of
  PostgreSQL's system tables that the two resolving queries read; the queries are functions of it.
\<close>

subsection \<open>Identifiers\<close>

datatype ident_error =
    EmptyIdentifier | UnsafeDelimiter | UnterminatedQuoted | InvalidQuoted
  | InvalidIdentifier string

datatype target_error =
    NotQualified string
  | BadIdentifier string ident_error
  | NotRelationName string
  | TargetsUnavailable
  | ResolveFailed err
  | UnresolvedUnqualified int

abbreviation dquote :: char where "dquote \<equiv> CHR 0x22"

fun split_parts :: "bool \<Rightarrow> string \<Rightarrow> string \<Rightarrow> ident_error + string list" where
  "split_parts quoted part [] = (if quoted then Inl UnterminatedQuoted else Inr [rev part])"
| "split_parts quoted part (c # cs) =
     (if c = dquote then split_parts (\<not> quoted) (c # part) cs
      else if c = CHR ''.'' \<and> \<not> quoted
      then ebind (split_parts quoted [] cs) (\<lambda>parts. Inr (rev part # parts))
      else if c = CHR '';'' \<and> \<not> quoted then Inl UnsafeDelimiter
      else split_parts quoted (c # part) cs)"

definition splitQualifiedIdentifier :: "string \<Rightarrow> ident_error + string list" where
  "splitQualifiedIdentifier input =
     (if input = [] then Inl EmptyIdentifier else split_parts False [] input)"

definition ident_start :: "char \<Rightarrow> bool" where
  "ident_start c \<longleftrightarrow> c = CHR ''_'' \<or> is_letter c"

definition ident_char :: "char \<Rightarrow> bool" where
  "ident_char c \<longleftrightarrow> c = CHR ''_'' \<or> c = CHR ''$'' \<or> is_letter c \<or> is_digit c"

definition validUnquotedIdentifier :: "string \<Rightarrow> bool" where
  "validUnquotedIdentifier value =
     (case value of [] \<Rightarrow> False | c # cs \<Rightarrow> ident_start c \<and> list_all ident_char cs)"

text \<open>The name and its canonical spelling.\<close>

definition normalizeIdentifier :: "string \<Rightarrow> ident_error + string \<times> string" where
  "normalizeIdentifier input =
     (let input = TrimSpace input in
      if length input \<ge> 2 \<and> hd input = dquote \<and> last input = dquote
      then let name = butlast (tl input) in
           if name = [] \<or> contains_char dquote name then Inl InvalidQuoted
           else Inr (name, dquote # name @ [dquote])
      else if \<not> validUnquotedIdentifier input then Inl (InvalidIdentifier input)
      else Inr (ToLower input, ToLower input))"

subsection \<open>Target objects by name\<close>

record TargetObject =
  to_Schema :: string
  to_Name :: string
  to_Canonical :: string

definition normalizeTargetObject :: "string \<Rightarrow> target_error + TargetObject" where
  "normalizeTargetObject input =
     (case splitQualifiedIdentifier (TrimSpace input) of
        Inr [p0, p1] \<Rightarrow>
          (case normalizeIdentifier p0 of
             Inl e \<Rightarrow> Inl (BadIdentifier input e)
           | Inr (schema, schemaCanonical) \<Rightarrow>
               (case normalizeIdentifier p1 of
                  Inl e \<Rightarrow> Inl (BadIdentifier input e)
                | Inr (name, nameCanonical) \<Rightarrow>
                    Inr \<lparr>to_Schema = schema, to_Name = name,
                         to_Canonical = schemaCanonical @ ''.'' @ nameCanonical\<rparr>))
      | _ \<Rightarrow> Inl (NotQualified input))"

text \<open>The map of the code, with a later object replacing one of the same canonical name.\<close>

fun unique_objects ::
    "string list \<Rightarrow> (string \<times> TargetObject) list \<Rightarrow> target_error + (string \<times> TargetObject) list" where
  "unique_objects [] unique = Inr unique"
| "unique_objects (input # inputs) unique =
     ebind (normalizeTargetObject input) (\<lambda>object.
       unique_objects inputs (AList.update (to_Canonical object) object unique))"

definition NormalizeTargetObjects :: "string list \<Rightarrow> target_error + TargetObject list" where
  "NormalizeTargetObjects inputs =
     ebind (unique_objects inputs []) (\<lambda>unique.
       Inr (sort_key to_Canonical (map snd unique)))"

definition LeaseKey :: "TargetObject list \<Rightarrow> string" where
  "LeaseKey objects =
     EncodeToString (Sum256 (utf8 (Join (sort (map to_Canonical objects)) [CHR 0x00])))"

subsection \<open>Typed targets\<close>

datatype TargetKind =
    TargetTable | TargetPartitionedTable | TargetIndex | TargetMaterializedView
  | TargetRelation | TargetUnresolved

type_synonym oid = "32 word"

record TypedTarget =
  tt_Kind :: TargetKind
  tt_Schema :: string
  tt_Name :: string
  tt_OID :: oid

definition canonicalIdentifier :: "string \<Rightarrow> string" where
  "canonicalIdentifier name =
     (if validUnquotedIdentifier name \<and> name = ToLower name then name
      else dquote # name @ [dquote])"

definition canonical_name :: "string \<Rightarrow> string \<Rightarrow> string" where
  "canonical_name schema name = canonicalIdentifier schema @ ''.'' @ canonicalIdentifier name"

definition Canonical :: "TypedTarget \<Rightarrow> string" where
  "Canonical t = canonical_name (tt_Schema t) (tt_Name t)"

definition oidLeaseKey :: "oid \<Rightarrow> string" where
  "oidLeaseKey i = ''oid:'' @ nat_digits (unat i)"

definition LeaseKeys :: "TypedTarget \<Rightarrow> string list" where
  "LeaseKeys t = Canonical t # (if tt_OID t > 0 then [oidLeaseKey (tt_OID t)] else [])"

definition add_unseen :: "string \<Rightarrow> string list \<Rightarrow> string list" where
  "add_unseen key keys = (if key \<in> set keys then keys else keys @ [key])"

definition TypedLeaseKeys :: "TypedTarget list \<Rightarrow> string list" where
  "TypedLeaseKeys targets =
     sort (foldl (\<lambda>keys target. foldl (\<lambda>keys key. add_unseen key keys) keys (LeaseKeys target))
       [] targets)"

record leaseKey =
  lk_key :: string
  lk_kind :: string
  lk_oid :: oid
  lk_name :: string

definition kind_text :: "TargetKind \<Rightarrow> string" where
  "kind_text k =
     (case k of TargetTable \<Rightarrow> ''table'' | TargetPartitionedTable \<Rightarrow> ''partitioned_table''
      | TargetIndex \<Rightarrow> ''index'' | TargetMaterializedView \<Rightarrow> ''materialized_view''
      | TargetRelation \<Rightarrow> ''relation'' | TargetUnresolved \<Rightarrow> ''unresolved'')"

text \<open>Keys in order of first appearance, the first target to contribute a key keeping it.\<close>

definition add_key :: "TypedTarget \<Rightarrow> leaseKey list \<Rightarrow> string \<Rightarrow> leaseKey list" where
  "add_key target byKey key =
     (if key \<in> lk_key ` set byKey then byKey
      else byKey @ [\<lparr>lk_key = key, lk_kind = kind_text (tt_Kind target), lk_oid = tt_OID target,
                     lk_name = Canonical target\<rparr>])"

definition typedKeys :: "TypedTarget list \<Rightarrow> leaseKey list" where
  "typedKeys targets =
     sort_key lk_key
       (foldl (\<lambda>byKey target. foldl (add_key target) byKey (LeaseKeys target)) [] targets)"

subsection \<open>Resolving names\<close>

record pg_class =
  pc_relkind :: string
  pc_nspname :: string
  pc_relname :: string

record catalog =
  cat_to_regclass :: "string \<Rightarrow> oid option"
  cat_class :: "oid \<Rightarrow> pg_class option"
  cat_indrelid :: "oid \<Rightarrow> oid option"
  cat_partition_root :: "oid \<Rightarrow> oid option"

record resolved_row =
  rr_ord :: int
  rr_oid :: oid
  rr_kind :: string
  rr_schema :: string
  rr_name :: string
  rr_parentOID :: oid
  rr_parentKind :: string
  rr_parentSchema :: string
  rr_parentName :: string

text \<open>A left join on the object id, with every missing column read as zero or empty.\<close>

definition class_columns :: "catalog \<Rightarrow> oid option \<Rightarrow> oid \<times> string \<times> string \<times> string" where
  "class_columns cat i =
     (case i of None \<Rightarrow> (0, [], [], [])
      | Some i \<Rightarrow>
          (case cat_class cat i of
             None \<Rightarrow> (0, [], [], [])
           | Some c \<Rightarrow> (i, pc_relkind c, pc_nspname c, pc_relname c)))"

definition joined :: "catalog \<Rightarrow> oid option \<Rightarrow> oid option" where
  "joined cat i = (case i of None \<Rightarrow> None
     | Some i \<Rightarrow> if cat_class cat i = None then None else Some i)"

definition resolve_row :: "catalog \<Rightarrow> nat \<times> string \<Rightarrow> resolved_row" where
  "resolve_row cat = (\<lambda>(n, input).
     let c = joined cat (cat_to_regclass cat input);
         p = (case c of None \<Rightarrow> None | Some i \<Rightarrow> cat_indrelid cat i)
     in (case class_columns cat c of (i, kind, schema, name) \<Rightarrow>
         (case class_columns cat p of (pi, pkind, pschema, pname) \<Rightarrow>
           \<lparr>rr_ord = int n, rr_oid = i, rr_kind = kind, rr_schema = schema, rr_name = name,
            rr_parentOID = pi, rr_parentKind = pkind, rr_parentSchema = pschema,
            rr_parentName = pname\<rparr>)))"

definition resolveTargetsSQL :: "catalog \<Rightarrow> string list \<Rightarrow> resolved_row list" where
  "resolveTargetsSQL cat inputs = map (resolve_row cat) (enumerate 1 inputs)"

definition quoteIdentifier :: "string \<Rightarrow> string" where
  "quoteIdentifier name =
     dquote # concat (map (\<lambda>c. if c = dquote then [dquote, dquote] else [c]) name) @ [dquote]"

text \<open>One name: its text for \<^verbatim>\<open>to_regclass\<close> and, when it is qualified, the target
  its name alone gives.\<close>

definition target_input :: "string \<Rightarrow> target_error + string \<times> TypedTarget option" where
  "target_input name =
     (case splitQualifiedIdentifier (TrimSpace name) of
        Inl _ \<Rightarrow> Inl (NotRelationName name)
      | Inr parts \<Rightarrow>
          if length parts < 1 \<or> length parts > 2 then Inl (NotRelationName name)
          else (case emap normalizeIdentifier parts of
                  Inl e \<Rightarrow> Inl (BadIdentifier name e)
                | Inr vs \<Rightarrow>
                    Inr (Join (map (quoteIdentifier \<circ> fst) vs) ''.'',
                         (case map fst vs of
                            [s, n] \<Rightarrow> Some \<lparr>tt_Kind = TargetUnresolved, tt_Schema = s,
                                            tt_Name = n, tt_OID = 0\<rparr>
                          | _ \<Rightarrow> None))))"

text \<open>The rendered names and the map from ordinals to the targets of qualified names.\<close>

definition targetInputs ::
    "string list \<Rightarrow> target_error + string list \<times> (int \<Rightarrow> TypedTarget option)" where
  "targetInputs names =
     ebind (emap target_input names) (\<lambda>rs.
       Inr (map fst rs,
            (\<lambda>ord. if 1 \<le> ord \<and> nat ord \<le> length rs then snd (rs ! (nat ord - 1)) else None)))"

definition targetKind :: "string \<Rightarrow> TargetKind" where
  "targetKind relkind =
     (if relkind = ''r'' then TargetTable
      else if relkind = ''p'' then TargetPartitionedTable
      else if relkind = ''i'' \<or> relkind = ''I'' then TargetIndex
      else if relkind = ''m'' then TargetMaterializedView
      else TargetRelation)"

definition scanResolvedTarget ::
    "resolved_row \<Rightarrow> (int \<Rightarrow> TypedTarget option) \<Rightarrow> target_error + TypedTarget list" where
  "scanResolvedTarget row qualified =
     (if rr_oid row = 0
      then (case qualified (rr_ord row) of
              Some target \<Rightarrow> Inr [target]
            | None \<Rightarrow> Inl (UnresolvedUnqualified (rr_ord row)))
      else Inr (\<lparr>tt_Kind = targetKind (rr_kind row), tt_Schema = rr_schema row,
                 tt_Name = rr_name row, tt_OID = rr_oid row\<rparr> #
                (if rr_parentOID row > 0
                 then [\<lparr>tt_Kind = targetKind (rr_parentKind row),
                        tt_Schema = rr_parentSchema row, tt_Name = rr_parentName row,
                        tt_OID = rr_parentOID row\<rparr>]
                 else [])))"

definition dedupe_key :: "TypedTarget \<Rightarrow> string" where
  "dedupe_key t = Canonical t @ [CHR 0x00] @ nat_digits (unat (tt_OID t))"

definition dedupeTargets :: "TypedTarget list \<Rightarrow> TypedTarget list" where
  "dedupeTargets targets =
     foldl (\<lambda>result t. if dedupe_key t \<in> dedupe_key ` set result then result else result @ [t])
       [] targets"

text \<open>A database that cannot be asked, a failing query (also one that fails while its rows are
  read), or the catalog the query sees.\<close>

type_synonym target_db = "(err + catalog) option"

definition ResolveTypedTargets ::
    "target_db \<Rightarrow> string list \<Rightarrow> target_error + TypedTarget list" where
  "ResolveTypedTargets db names =
     (if names = [] then Inr []
      else case db of
        None \<Rightarrow> Inl TargetsUnavailable
      | Some answer \<Rightarrow>
          ebind (targetInputs names) (\<lambda>(inputs, qualified).
            case answer of
              Inl e \<Rightarrow> Inl (ResolveFailed e)
            | Inr cat \<Rightarrow>
                ebind (emap (\<lambda>row. scanResolvedTarget row qualified)
                         (resolveTargetsSQL cat inputs)) (\<lambda>tss.
                  Inr (dedupeTargets (concat tss)))))"

subsection \<open>Change tables\<close>

record ChangeTable =
  ct_Table :: string
  ct_Root :: string

definition renderRelationName :: "string \<Rightarrow> string option" where
  "renderRelationName name =
     (case splitQualifiedIdentifier (TrimSpace name) of
        Inl _ \<Rightarrow> None
      | Inr parts \<Rightarrow>
          if length parts < 1 \<or> length parts > 2 then None
          else (case emap normalizeIdentifier parts of
                  Inl _ \<Rightarrow> None
                | Inr vs \<Rightarrow> if list_ex (\<lambda>v. fst v = []) vs then None
                    else Some (Join (map (quoteIdentifier \<circ> fst) vs) ''.'')))"

definition changeTable ::
    "string \<Rightarrow> oid \<Rightarrow> string \<Rightarrow> string \<Rightarrow> string \<Rightarrow> string \<Rightarrow> ChangeTable option" where
  "changeTable input i schema name rootSchema rootName =
     (if i > 0
      then Some \<lparr>ct_Table = canonical_name schema name,
                 ct_Root = (if rootName \<noteq> [] then canonical_name rootSchema rootName else [])\<rparr>
      else (case splitQualifiedIdentifier (TrimSpace input) of
              Inr [p0, p1] \<Rightarrow>
                (case emap normalizeIdentifier [p0, p1] of
                   Inr [s, n] \<Rightarrow>
                     Some \<lparr>ct_Table = canonical_name (fst s) (fst n), ct_Root = []\<rparr>
                 | _ \<Rightarrow> None)
            | _ \<Rightarrow> None))"

definition change_row :: "catalog \<Rightarrow> string \<Rightarrow> oid \<times> string \<times> string \<times> string \<times> string" where
  "change_row cat input =
     (let c = joined cat (cat_to_regclass cat input);
          t = joined cat (case c of None \<Rightarrow> None
                | Some i \<Rightarrow> (case cat_indrelid cat i of None \<Rightarrow> Some i | Some ti \<Rightarrow> Some ti));
          r = joined cat (case t of None \<Rightarrow> None | Some i \<Rightarrow> cat_partition_root cat i)
      in (case class_columns cat t of (i, _, schema, name) \<Rightarrow>
          (case class_columns cat r of (_, _, rootSchema, rootName) \<Rightarrow>
             (i, schema, name, rootSchema, rootName))))"

definition resolveChangeTablesSQL ::
    "catalog \<Rightarrow> string list \<Rightarrow> (oid \<times> string \<times> string \<times> string \<times> string) list" where
  "resolveChangeTablesSQL cat inputs = map (change_row cat) inputs"

definition row_table ::
    "string \<times> oid \<times> string \<times> string \<times> string \<times> string \<Rightarrow> ChangeTable option" where
  "row_table = (\<lambda>(name, i, schema, tname, rootSchema, rootName).
     changeTable name i schema tname rootSchema rootName)"

definition add_table ::
    "(string \<times> ChangeTable) list \<Rightarrow> string \<times> oid \<times> string \<times> string \<times> string \<times> string \<Rightarrow>
     (string \<times> ChangeTable) list" where
  "add_table result row =
     (case row_table row of
        None \<Rightarrow> result
      | Some table \<Rightarrow> AList.update (fst row) table result)"

definition ResolveChangeTables ::
    "target_db \<Rightarrow> string list \<Rightarrow> target_error + (string \<times> ChangeTable) list" where
  "ResolveChangeTables db names =
     (let kept = filter (\<lambda>n. renderRelationName n \<noteq> None) names;
          inputs = map (the \<circ> renderRelationName) kept
      in if inputs = [] then Inr []
         else case db of
           None \<Rightarrow> Inl TargetsUnavailable
         | Some (Inl e) \<Rightarrow> Inl (ResolveFailed e)
         | Some (Inr cat) \<Rightarrow>
             Inr (foldl add_table [] (zip kept (resolveChangeTablesSQL cat inputs))))"

end
