(* ===== verification/Lease_Db.thy ===== *)
theory Lease_Db
  imports Lease_Target
begin

text \<open>
  What the lease manager and the lease queue ask of PostgreSQL: the tables
  \<^verbatim>\<open>sage.change_lease\<close> and \<^verbatim>\<open>sage.lease_queue\<close> with their unique
  indexes, session-level advisory locks, and the clock. Every SQL statement of
  \<^verbatim>\<open>postgres_lease.go\<close>, \<^verbatim>\<open>lease_conflict.go\<close>,
  \<^verbatim>\<open>lease_queue.go\<close> and \<^verbatim>\<open>lease_queue_wait.go\<close> is one function of the
  database. Sidecar processes interleave between statements: the relation \<open>other_step\<close> says
  what the other sessions can do there.
\<close>

subsection \<open>Tables\<close>

type_synonym session = nat

datatype lease_state = LeaseActive | LeaseReleased | LeaseExpired

record lease_row =
  cl_database_id :: "int option"
  cl_object_key :: string
  cl_decision_id :: int
  cl_holder :: string
  cl_intent :: string
  cl_acquired_at :: instant
  cl_expires_at :: instant
  cl_released_at :: "instant option"
  cl_state :: lease_state
  cl_actor :: "string option"
  cl_object_type :: "string option"
  cl_object_oid :: "oid option"
  cl_object_name :: "string option"

datatype queue_state = QueueWaiting | QueueGranted | QueueTimedOut | QueueCancelled

record queue_row =
  lq_id :: int
  lq_database_id :: "int option"
  lq_request_key :: string
  lq_object_keys :: "string list"
  lq_kind :: string
  lq_actor :: string
  lq_intent :: string
  lq_decision_id :: int
  lq_instance :: string
  lq_state :: queue_state
  lq_enqueued_at :: instant
  lq_heartbeat_at :: instant
  lq_deadline_at :: instant
  lq_resolved_at :: "instant option"
  lq_resumed_count :: int

text \<open>An advisory lock held by a session, once for every time the session took it.\<close>

record lease_db =
  ld_leases :: "lease_row list"
  ld_queue :: "queue_row list"
  ld_seq :: int
  ld_locks :: "(int \<times> session) list"
  ld_now :: instant

definition lease_db0 :: lease_db where
  "lease_db0 = \<lparr>ld_leases = [], ld_queue = [], ld_seq = 1, ld_locks = [], ld_now = 1\<rparr>"

text \<open>\<^verbatim>\<open>COALESCE(database_id, 0)\<close>.\<close>

definition coalesce_db :: "int option \<Rightarrow> int" where
  "coalesce_db i = (case i of None \<Rightarrow> 0 | Some i \<Rightarrow> i)"

subsection \<open>Advisory locks\<close>

definition pg_try_advisory_lock :: "session \<Rightarrow> int \<Rightarrow> lease_db \<Rightarrow> bool \<times> lease_db" where
  "pg_try_advisory_lock c k db =
     (if list_ex (\<lambda>(k', c'). k' = k \<and> c' \<noteq> c) (ld_locks db) then (False, db)
      else (True, db\<lparr>ld_locks := (k, c) # ld_locks db\<rparr>))"

definition pg_advisory_unlock :: "session \<Rightarrow> int \<Rightarrow> lease_db \<Rightarrow> lease_db" where
  "pg_advisory_unlock c k db = db\<lparr>ld_locks := remove1 (k, c) (ld_locks db)\<rparr>"

text \<open>A session that ends, by closing or by a lost connection, frees its locks.\<close>

definition session_end :: "session \<Rightarrow> lease_db \<Rightarrow> lease_db" where
  "session_end c db = db\<lparr>ld_locks := filter (\<lambda>(_, c'). c' \<noteq> c) (ld_locks db)\<rparr>"

subsection \<open>Statements on leases\<close>

definition sql_reclaim_expired :: "lease_db \<Rightarrow> lease_db" where
  "sql_reclaim_expired db = db\<lparr>ld_leases := map (\<lambda>r.
     if cl_state r = LeaseActive \<and> cl_expires_at r \<le> ld_now db
     then r\<lparr>cl_state := LeaseExpired, cl_released_at := Some (ld_now db)\<rparr> else r)
     (ld_leases db)\<rparr>"

text \<open>False when the unique index on active leases refuses the row.\<close>

definition sql_insert_lease :: "lease_row \<Rightarrow> lease_db \<Rightarrow> bool \<times> lease_db" where
  "sql_insert_lease row db =
     (if list_ex (\<lambda>r. cl_state r = LeaseActive \<and> cl_object_key r = cl_object_key row \<and>
           coalesce_db (cl_database_id r) = coalesce_db (cl_database_id row)) (ld_leases db)
      then (False, db)
      else (True, db\<lparr>ld_leases := ld_leases db @ [row]\<rparr>))"

definition sql_release_holder :: "string \<Rightarrow> lease_db \<Rightarrow> lease_db" where
  "sql_release_holder holder db = db\<lparr>ld_leases := map (\<lambda>r.
     if cl_holder r = holder \<and> cl_state r = LeaseActive
     then r\<lparr>cl_state := LeaseReleased, cl_released_at := Some (ld_now db)\<rparr> else r)
     (ld_leases db)\<rparr>"

text \<open>The active lease on a key: its actor (or holder), decision and object name (or key).\<close>

definition sql_conflict_holder ::
    "int option \<Rightarrow> string \<Rightarrow> lease_db \<Rightarrow> (string \<times> int \<times> string) option" where
  "sql_conflict_holder databaseID key db =
     (case sort_key cl_acquired_at (filter (\<lambda>r. cl_state r = LeaseActive \<and>
             cl_expires_at r > ld_now db \<and> cl_object_key r = key \<and>
             coalesce_db (cl_database_id r) = coalesce_db databaseID) (ld_leases db)) of
        [] \<Rightarrow> None
      | r # _ \<Rightarrow>
          Some ((case cl_actor r of None \<Rightarrow> cl_holder r | Some a \<Rightarrow> a), cl_decision_id r,
                (case cl_object_name r of None \<Rightarrow> cl_object_key r | Some n \<Rightarrow> n)))"

subsection \<open>Statements on the queue\<close>

definition overlap :: "string list \<Rightarrow> string list \<Rightarrow> bool" where
  "overlap ks ls = list_ex (\<lambda>k. k \<in> set ls) ks"

definition live_waiting :: "int option \<Rightarrow> lease_db \<Rightarrow> queue_row \<Rightarrow> bool" where
  "live_waiting databaseID db r \<longleftrightarrow> lq_state r = QueueWaiting \<and> lq_deadline_at r > ld_now db \<and>
     coalesce_db (lq_database_id r) = coalesce_db databaseID"

definition sql_waiting :: "int option \<Rightarrow> string list \<Rightarrow> lease_db \<Rightarrow> bool" where
  "sql_waiting databaseID keys db =
     list_ex (\<lambda>r. live_waiting databaseID db r \<and> overlap (lq_object_keys r) keys) (ld_queue db)"

definition time_out_row :: "lease_db \<Rightarrow> queue_row \<Rightarrow> queue_row" where
  "time_out_row db r = r\<lparr>lq_state := QueueTimedOut, lq_resolved_at := Some (ld_now db)\<rparr>"

definition sql_sweep :: "int option \<Rightarrow> lease_db \<Rightarrow> lease_db" where
  "sql_sweep databaseID db = db\<lparr>ld_queue := map (\<lambda>r.
     if lq_state r = QueueWaiting \<and> lq_deadline_at r \<le> ld_now db \<and>
        coalesce_db (lq_database_id r) = coalesce_db databaseID
     then time_out_row db r else r) (ld_queue db)\<rparr>"

text \<open>The entry that this request resumes; the unique index leaves at most one.\<close>

definition resumable :: "int option \<Rightarrow> string \<Rightarrow> string \<Rightarrow> duration \<Rightarrow> lease_db \<Rightarrow> queue_row \<Rightarrow> bool" where
  "resumable databaseID requestKey inst stale db r \<longleftrightarrow>
     live_waiting databaseID db r \<and> lq_request_key r = requestKey \<and> lq_instance r \<noteq> inst \<and>
     lq_heartbeat_at r < ld_now db - stale"

definition sql_resume ::
    "int option \<Rightarrow> string \<Rightarrow> string \<Rightarrow> int \<Rightarrow> string \<Rightarrow> duration \<Rightarrow> lease_db \<Rightarrow> int option \<times> lease_db" where
  "sql_resume databaseID requestKey inst decision actor stale db =
     (let p = resumable databaseID requestKey inst stale db in
      (map_option lq_id (List.find p (ld_queue db)),
       db\<lparr>ld_queue := map (\<lambda>r. if p r
          then r\<lparr>lq_instance := inst, lq_heartbeat_at := ld_now db, lq_decision_id := decision,
                 lq_actor := actor, lq_resumed_count := lq_resumed_count r + 1\<rparr> else r)
          (ld_queue db)\<rparr>))"

definition sql_depth :: "int option \<Rightarrow> string list \<Rightarrow> lease_db \<Rightarrow> nat \<times> nat" where
  "sql_depth databaseID keys db =
     (let live = filter (live_waiting databaseID db) (ld_queue db)
      in (length (filter (\<lambda>r. overlap (lq_object_keys r) keys) live), length live))"

text \<open>\<^verbatim>\<open>ON CONFLICT DO NOTHING RETURNING id\<close>; the sequence advances either way.\<close>

definition sql_insert_entry :: "queue_row \<Rightarrow> lease_db \<Rightarrow> int option \<times> lease_db" where
  "sql_insert_entry row db =
     (let r = row\<lparr>lq_id := ld_seq db\<rparr>; db' = db\<lparr>ld_seq := ld_seq db + 1\<rparr> in
      if list_ex (\<lambda>o'. lq_state o' = QueueWaiting \<and> lq_request_key o' = lq_request_key r \<and>
           coalesce_db (lq_database_id o') = coalesce_db (lq_database_id r)) (ld_queue db)
      then (None, db')
      else (Some (ld_seq db), db'\<lparr>ld_queue := ld_queue db @ [r]\<rparr>))"

definition sql_position ::
    "int option \<Rightarrow> int \<Rightarrow> lease_db \<Rightarrow> (nat \<times> bool) option \<times> lease_db" where
  "sql_position databaseID i db =
     (let me = List.find (\<lambda>r. lq_id r = i \<and> lq_state r = QueueWaiting) (ld_queue db);
          ahead = (\<lambda>m. length (filter (\<lambda>r. live_waiting (lq_database_id m) db r \<and> lq_id r < lq_id m \<and>
                     overlap (lq_object_keys r) (lq_object_keys m)) (ld_queue db)))
      in (map_option (\<lambda>m. (ahead m, lq_deadline_at m \<le> ld_now db)) me,
          db\<lparr>ld_queue := map (\<lambda>r.
             if lq_id r = i
             then (if lq_state r = QueueWaiting then r\<lparr>lq_heartbeat_at := ld_now db\<rparr> else r)
             else if lq_state r = QueueWaiting \<and> lq_deadline_at r \<le> ld_now db \<and>
                     coalesce_db (lq_database_id r) = coalesce_db databaseID
             then time_out_row db r else r) (ld_queue db)\<rparr>))"

definition sql_resolve :: "int \<Rightarrow> queue_state \<Rightarrow> lease_db \<Rightarrow> lease_db" where
  "sql_resolve i st db = db\<lparr>ld_queue := map (\<lambda>r.
     if lq_id r = i \<and> lq_state r = QueueWaiting
     then r\<lparr>lq_state := st, lq_resolved_at := Some (ld_now db)\<rparr> else r) (ld_queue db)\<rparr>"

subsection \<open>Other sessions\<close>

text \<open>One statement of a session other than the given one, or the passing of time.\<close>

inductive other_step :: "session \<Rightarrow> lease_db \<Rightarrow> lease_db \<Rightarrow> bool" for c :: session where
  step_lock: "c' \<noteq> c \<Longrightarrow> other_step c db (snd (pg_try_advisory_lock c' k db))"
| step_unlock: "c' \<noteq> c \<Longrightarrow> other_step c db (pg_advisory_unlock c' k db)"
| step_end: "c' \<noteq> c \<Longrightarrow> other_step c db (session_end c' db)"
| step_reclaim: "other_step c db (sql_reclaim_expired db)"
| step_insert: "other_step c db (snd (sql_insert_lease row db))"
| step_release: "other_step c db (sql_release_holder holder db)"
| step_sweep: "other_step c db (sql_sweep databaseID db)"
| step_resume: "other_step c db (snd (sql_resume databaseID rk inst d a stale db))"
| step_entry: "other_step c db (snd (sql_insert_entry qrow db))"
| step_position: "other_step c db (snd (sql_position databaseID i db))"
| step_resolve: "st \<noteq> QueueWaiting \<Longrightarrow> other_step c db (sql_resolve i st db)"
| step_tick: "ld_now db \<le> t \<Longrightarrow> other_step c db (db\<lparr>ld_now := t\<rparr>)"

abbreviation others :: "session \<Rightarrow> lease_db \<Rightarrow> lease_db \<Rightarrow> bool" where
  "others c \<equiv> (other_step c)\<^sup>*\<^sup>*"

subsection \<open>A call among other sessions\<close>

text \<open>What the environment does at one point of a call: what other sessions did since the last
  statement, whether the statement fails, whether the caller's context has ended, what the pool
  and the random source answer, and whether a select with two ready branches takes the ticker.\<close>

datatype conn_answer = GotConn session | PoolDeadline | PoolFailed err

record event =
  ev_others :: "lease_db \<Rightarrow> lease_db"
  ev_fault :: "err option"
  ev_ctx :: "err option"
  ev_conn :: conn_answer
  ev_rand :: "err + byte list"
  ev_ticker :: bool

definition quiet :: event where
  "quiet = \<lparr>ev_others = (\<lambda>db. db), ev_fault = None, ev_ctx = None, ev_conn = PoolDeadline,
     ev_rand = Inl ''no randomness'', ev_ticker = False\<rparr>"

record lease_world =
  lw_db :: lease_db
  lw_ctx :: "err option"
  lw_script :: "event list"

definition next_event :: "lease_world \<Rightarrow> event \<times> lease_world" where
  "next_event w =
     (case lw_script w of
        [] \<Rightarrow> (quiet, w)
      | e # es \<Rightarrow>
          (e, w\<lparr>lw_db := ev_others e (lw_db w),
               lw_ctx := (case lw_ctx w of Some x \<Rightarrow> Some x | None \<Rightarrow> ev_ctx e),
               lw_script := es\<rparr>))"

text \<open>One statement: a fault is reported and the statement does nothing.\<close>

definition stmt :: "(lease_db \<Rightarrow> 'a \<times> lease_db) \<Rightarrow> lease_world \<Rightarrow> (err + 'a) \<times> lease_world" where
  "stmt f w =
     (case next_event w of (e, w) \<Rightarrow>
        (case ev_fault e of
           Some x \<Rightarrow> (Inl x, w)
         | None \<Rightarrow> (case f (lw_db w) of (a, db) \<Rightarrow> (Inr a, w\<lparr>lw_db := db\<rparr>))))"

definition exec :: "(lease_db \<Rightarrow> lease_db) \<Rightarrow> lease_world \<Rightarrow> (err + unit) \<times> lease_world" where
  "exec f = stmt (\<lambda>db. ((), f db))"

text \<open>Scripts whose interference is what sessions other than the given one can do.\<close>

definition script_for :: "session \<Rightarrow> event list \<Rightarrow> bool" where
  "script_for c es \<longleftrightarrow> (\<forall>e\<in>set es. \<forall>db. others c db (ev_others e db))"

end
