(* ===== verification/Lease_Manager.thy ===== *)
theory Lease_Manager
  imports Lease_Db
begin

text \<open>
  The lease manager: \<^verbatim>\<open>postgres_lease.go\<close> and the conflict report of
  \<^verbatim>\<open>lease_conflict.go\<close>. A call is a sequence of statements on one session, with other
  sessions acting before each of them. A failing unlock is ignored by the code; it has lost its
  session, which frees its locks, so an unlock always takes effect here.
\<close>

subsection \<open>Errors and data\<close>

record LeaseConflictError =
  ce_ObjectKey :: string
  ce_Object :: string
  ce_Holder :: string
  ce_DecisionID :: int

datatype lease_error =
    ErrLeaseConflict LeaseConflictError
  | ErrHolderUnreadable LeaseConflictError err
  | ErrLeaseQueueTimeout "lease_error option" nat
  | ErrLeaseQueueFull nat nat
  | ErrLeaseQueueDuplicate
  | ErrLeaseNotFound
  | ErrLeaseBusy
  | ErrContext err
  | ErrPool err
  | ErrStatement string err
  | ErrInvalid string
  | ErrJoined lease_error lease_error

record heldLease =
  hl_conn :: session
  hl_keys :: "int list"

record PostgresLeaseManager =
  lm_pool :: bool
  lm_databaseID :: "int option"
  lm_decisionID :: int
  lm_ttl :: duration
  lm_held :: "(string \<times> heldLease) list"

definition NewPostgresLeaseManager ::
    "bool \<Rightarrow> int option \<Rightarrow> int \<Rightarrow> duration \<Rightarrow> PostgresLeaseManager" where
  "NewPostgresLeaseManager pool databaseID decisionID ttl =
     \<lparr>lm_pool = pool, lm_databaseID = databaseID, lm_decisionID = decisionID, lm_ttl = ttl,
      lm_held = []\<rparr>"

subsection \<open>Operations\<close>

definition advisoryObjectKey :: "string \<Rightarrow> int" where
  "advisoryObjectKey canonical = sint (BigEndian_Uint64 (Sum256 (utf8 canonical)))"

definition validateAcquire ::
    "PostgresLeaseManager \<Rightarrow> string \<Rightarrow> nat \<Rightarrow> string \<Rightarrow> lease_error option" where
  "validateAcquire m actor keys intent =
     (if \<not> lm_pool m then Some (ErrInvalid ''lease manager database is unavailable'')
      else if lm_decisionID m \<le> 0 then Some (ErrInvalid ''lease decision ID is required'')
      else if lm_ttl m \<le> 0 then Some (ErrInvalid ''lease TTL must be positive'')
      else if TrimSpace actor = [] \<or> TrimSpace intent = []
      then Some (ErrInvalid ''lease actor and intent are required'')
      else if keys = 0 then Some (ErrInvalid ''lease target objects are required'')
      else None)"

definition acquireConn :: "lease_world \<Rightarrow> (lease_error + session) \<times> lease_world" where
  "acquireConn w =
     (case next_event w of (e, w) \<Rightarrow>
        (case ev_conn e of
           GotConn c \<Rightarrow> (Inr c, w)
         | PoolDeadline \<Rightarrow>
             ((case lw_ctx w of Some x \<Rightarrow> Inl (ErrContext x) | None \<Rightarrow> Inl ErrLeaseBusy), w)
         | PoolFailed x \<Rightarrow>
             ((case lw_ctx w of Some x \<Rightarrow> Inl (ErrContext x) | None \<Rightarrow> Inl (ErrPool x)), w)))"

definition conflict ::
    "PostgresLeaseManager \<Rightarrow> string \<Rightarrow> lease_world \<Rightarrow> lease_error \<times> lease_world" where
  "conflict m key w =
     (let base = \<lparr>ce_ObjectKey = key, ce_Object = key, ce_Holder = [], ce_DecisionID = 0\<rparr> in
      case stmt (\<lambda>db. (sql_conflict_holder (lm_databaseID m) key db, db)) w of
        (Inl e, w) \<Rightarrow> (ErrHolderUnreadable base e, w)
      | (Inr None, w) \<Rightarrow> (ErrLeaseConflict base, w)
      | (Inr (Some (holder, decision, object)), w) \<Rightarrow>
          (ErrLeaseConflict (base\<lparr>ce_Holder := holder, ce_DecisionID := decision,
                                 ce_Object := object\<rparr>), w))"

text \<open>Unlocks from the last key to the first.\<close>

definition unlock :: "session \<Rightarrow> int \<Rightarrow> lease_world \<Rightarrow> lease_world" where
  "unlock c k w = (case next_event w of (_, w) \<Rightarrow> w\<lparr>lw_db := pg_advisory_unlock c k (lw_db w)\<rparr>)"

definition releaseAdvisoryLocks :: "session \<Rightarrow> int list \<Rightarrow> lease_world \<Rightarrow> lease_world" where
  "releaseAdvisoryLocks c keys w = foldl (\<lambda>w k. unlock c k w) w (rev keys)"

fun acquireLoop ::
    "PostgresLeaseManager \<Rightarrow> session \<Rightarrow> leaseKey list \<Rightarrow> int list \<Rightarrow> lease_world \<Rightarrow>
     (lease_error + int list) \<times> lease_world" where
  "acquireLoop m c [] held w = (Inr held, w)"
| "acquireLoop m c (key # keys) held w =
     (let advisory = advisoryObjectKey (lk_key key) in
      case stmt (pg_try_advisory_lock c advisory) w of
        (Inl e, w) \<Rightarrow>
          (Inl (ErrStatement ''acquire advisory lease'' e), releaseAdvisoryLocks c held w)
      | (Inr acquired, w) \<Rightarrow>
          if acquired then acquireLoop m c keys (held @ [advisory]) w
          else (case conflict m (lk_key key) (releaseAdvisoryLocks c held w) of
                  (e, w) \<Rightarrow> (Inl e, w)))"

definition acquireAdvisoryLocks ::
    "PostgresLeaseManager \<Rightarrow> session \<Rightarrow> leaseKey list \<Rightarrow> lease_world \<Rightarrow>
     (lease_error + int list) \<times> lease_world" where
  "acquireAdvisoryLocks m c keys w = acquireLoop m c keys [] w"

definition lease_row_of ::
    "PostgresLeaseManager \<Rightarrow> string \<Rightarrow> string \<Rightarrow> leaseKey \<Rightarrow> string \<Rightarrow> instant \<Rightarrow> lease_row" where
  "lease_row_of m leaseID actor key intent now =
     \<lparr>cl_database_id = lm_databaseID m, cl_object_key = lk_key key,
      cl_decision_id = lm_decisionID m, cl_holder = leaseID, cl_intent = intent,
      cl_acquired_at = now, cl_expires_at = now + lm_ttl m, cl_released_at = None,
      cl_state = LeaseActive, cl_actor = Some actor,
      cl_object_type = (if lk_kind key = [] then None else Some (lk_kind key)),
      cl_object_oid = (if lk_oid key = 0 then None else Some (lk_oid key)),
      cl_object_name = Some (lk_name key)\<rparr>"

fun persistLoop ::
    "PostgresLeaseManager \<Rightarrow> string \<Rightarrow> string \<Rightarrow> leaseKey list \<Rightarrow> string \<Rightarrow> lease_world \<Rightarrow>
     lease_error option \<times> lease_world" where
  "persistLoop m leaseID actor [] intent w = (None, w)"
| "persistLoop m leaseID actor (key # keys) intent w =
     (case stmt (\<lambda>db. sql_insert_lease (lease_row_of m leaseID actor key intent (ld_now db)) db) w of
        (Inl e, w) \<Rightarrow>
          (Some (ErrStatement ''persist DDL change lease'' e),
           snd (exec (sql_release_holder leaseID) w))
      | (Inr inserted, w) \<Rightarrow>
          if inserted then persistLoop m leaseID actor keys intent w
          else (case conflict m (lk_key key) (snd (exec (sql_release_holder leaseID) w)) of
                  (e, w) \<Rightarrow> (Some e, w)))"

definition persistLease ::
    "PostgresLeaseManager \<Rightarrow> string \<Rightarrow> string \<Rightarrow> leaseKey list \<Rightarrow> string \<Rightarrow> lease_world \<Rightarrow>
     lease_error option \<times> lease_world" where
  "persistLease m leaseID actor keys intent w =
     (case exec sql_reclaim_expired w of
        (Inl e, w) \<Rightarrow> (Some (ErrStatement ''reclaim expired DDL leases'' e), w)
      | (Inr _, w) \<Rightarrow> persistLoop m leaseID actor keys intent w)"

definition newLeaseID :: "lease_world \<Rightarrow> (lease_error + string) \<times> lease_world" where
  "newLeaseID w =
     (case next_event w of (e, w) \<Rightarrow>
        (case ev_rand e of
           Inl x \<Rightarrow> (Inl (ErrStatement ''generate lease ID'' x), w)
         | Inr raw \<Rightarrow> (Inr (''lease_'' @ EncodeToString raw), w)))"

text \<open>After the locks: the identifier, the rows, and the entry in the manager.\<close>

definition finishAcquire ::
    "PostgresLeaseManager \<Rightarrow> session \<Rightarrow> int list \<Rightarrow> string \<Rightarrow> leaseKey list \<Rightarrow> string \<Rightarrow> lease_world \<Rightarrow>
     (lease_error + string) \<times> PostgresLeaseManager \<times> lease_world" where
  "finishAcquire m c held actor keys intent w =
     (case newLeaseID w of
        (Inl e, w) \<Rightarrow> (Inl e, m, releaseAdvisoryLocks c held w)
      | (Inr leaseID, w) \<Rightarrow>
          (case persistLease m leaseID actor keys intent w of
             (Some e, w) \<Rightarrow> (Inl e, m, releaseAdvisoryLocks c held w)
           | (None, w) \<Rightarrow>
               (Inr leaseID,
                m\<lparr>lm_held := AList.update leaseID \<lparr>hl_conn = c, hl_keys = held\<rparr> (lm_held m)\<rparr>,
                w)))"

definition acquireKeys ::
    "PostgresLeaseManager \<Rightarrow> string \<Rightarrow> leaseKey list \<Rightarrow> string \<Rightarrow> lease_world \<Rightarrow>
     (lease_error + string) \<times> PostgresLeaseManager \<times> lease_world" where
  "acquireKeys m actor keys intent w =
     (case validateAcquire m actor (length keys) intent of
        Some e \<Rightarrow> (Inl e, m, w)
      | None \<Rightarrow>
          (case acquireConn w of
             (Inl e, w) \<Rightarrow> (Inl e, m, w)
           | (Inr c, w) \<Rightarrow>
               (case acquireAdvisoryLocks m c keys w of
                  (Inl e, w) \<Rightarrow> (Inl e, m, w)
                | (Inr held, w) \<Rightarrow> finishAcquire m c held actor keys intent w)))"

definition AcquireLease ::
    "PostgresLeaseManager \<Rightarrow> string \<Rightarrow> TargetObject list \<Rightarrow> string \<Rightarrow> lease_world \<Rightarrow>
     (lease_error + string) \<times> PostgresLeaseManager \<times> lease_world" where
  "AcquireLease m actor objects intent w =
     acquireKeys m actor
       (map (\<lambda>o'. \<lparr>lk_key = to_Canonical o', lk_kind = [], lk_oid = 0, lk_name = to_Canonical o'\<rparr>)
          objects) intent w"

definition AcquireTyped ::
    "PostgresLeaseManager \<Rightarrow> string \<Rightarrow> TypedTarget list \<Rightarrow> string \<Rightarrow> lease_world \<Rightarrow>
     (lease_error + string) \<times> PostgresLeaseManager \<times> lease_world" where
  "AcquireTyped m actor targets intent w = acquireKeys m actor (typedKeys targets) intent w"

definition ReleaseLease ::
    "PostgresLeaseManager \<Rightarrow> string \<Rightarrow> lease_world \<Rightarrow>
     lease_error option \<times> PostgresLeaseManager \<times> lease_world" where
  "ReleaseLease m i w =
     (case map_of (lm_held m) i of
        None \<Rightarrow> (Some ErrLeaseNotFound, m, w)
      | Some held \<Rightarrow>
          (case exec (sql_release_holder i) w of
             (r, w) \<Rightarrow>
               ((case r of Inl e \<Rightarrow> Some (ErrStatement ''release DDL change lease'' e) | Inr _ \<Rightarrow> None),
                m\<lparr>lm_held := AList.delete i (lm_held m)\<rparr>,
                releaseAdvisoryLocks (hl_conn held) (hl_keys held) w)))"

end
