(* ===== verification/Lease_Queue.thy ===== *)
theory Lease_Queue
  imports Lease_Manager
begin

text \<open>
  The lease queue: \<^verbatim>\<open>lease_queue.go\<close> and \<^verbatim>\<open>lease_queue_wait.go\<close>. The
  transaction that adds an entry holds the queue mutex from its depth check to its commit, so it
  is one step. The waiting loop takes a bound on its polls: no result within the bound means
  that it is still waiting.
\<close>

subsection \<open>Configuration\<close>

record LeaseQueueConfig =
  qc_MaxWait :: duration
  qc_OperatorMaxWait :: duration
  qc_MaxDepthPerTarget :: int
  qc_MaxDepth :: int
  qc_PollInterval :: duration
  qc_StaleAfter :: duration

definition DefaultLeaseQueueConfig :: LeaseQueueConfig where
  "DefaultLeaseQueueConfig =
     \<lparr>qc_MaxWait = 2 * minute, qc_OperatorMaxWait = 30 * second, qc_MaxDepthPerTarget = 8,
      qc_MaxDepth = 64, qc_PollInterval = 500000000, qc_StaleAfter = 5 * second\<rparr>"

definition or_default :: "int \<Rightarrow> int \<Rightarrow> int" where
  "or_default x d = (if x \<le> 0 then d else x)"

definition withQueueDefaults :: "LeaseQueueConfig \<Rightarrow> LeaseQueueConfig" where
  "withQueueDefaults cfg =
     (let d = DefaultLeaseQueueConfig in
      \<lparr>qc_MaxWait = or_default (qc_MaxWait cfg) (qc_MaxWait d),
       qc_OperatorMaxWait = or_default (qc_OperatorMaxWait cfg) (qc_OperatorMaxWait d),
       qc_MaxDepthPerTarget = or_default (qc_MaxDepthPerTarget cfg) (qc_MaxDepthPerTarget d),
       qc_MaxDepth = or_default (qc_MaxDepth cfg) (qc_MaxDepth d),
       qc_PollInterval = or_default (qc_PollInterval cfg) (qc_PollInterval d),
       qc_StaleAfter = or_default (qc_StaleAfter cfg) (qc_StaleAfter d)\<rparr>)"

record LeaseQueue =
  qu_pool :: bool
  qu_databaseID :: "int option"
  qu_cfg :: LeaseQueueConfig
  qu_instance :: string

definition NewLeaseQueue ::
    "bool \<Rightarrow> int option \<Rightarrow> LeaseQueueConfig \<Rightarrow> string \<Rightarrow> LeaseQueue" where
  "NewLeaseQueue pool databaseID cfg inst =
     \<lparr>qu_pool = pool, qu_databaseID = databaseID, qu_cfg = withQueueDefaults cfg,
      qu_instance = inst\<rparr>"

text \<open>The manager of a request is passed beside it, since its leases change.\<close>

record QueuedLeaseRequest =
  qr_Kind :: string
  qr_Actor :: string
  qr_Intent :: string
  qr_Targets :: "TypedTarget list"
  qr_Operator :: bool
  qr_MaxWait :: duration

type_synonym lease_result = "(lease_error + string) \<times> PostgresLeaseManager \<times> lease_world"

subsection \<open>Checks\<close>

definition queue_validate ::
    "LeaseQueue \<Rightarrow> PostgresLeaseManager option \<Rightarrow> QueuedLeaseRequest \<Rightarrow> lease_error option" where
  "queue_validate q m req =
     (if \<not> qu_pool q then Some (ErrInvalid ''lease queue database is unavailable'')
      else if (case m of None \<Rightarrow> True | Some m \<Rightarrow> lm_decisionID m \<le> 0)
      then Some (ErrInvalid ''lease queue request needs a lease manager with a decision'')
      else if qr_Targets req = [] then Some (ErrInvalid ''lease queue request has no target objects'')
      else if TrimSpace (qr_Kind req) = [] \<or> TrimSpace (qr_Actor req) = [] \<or>
              TrimSpace (qr_Intent req) = []
      then Some (ErrInvalid ''lease queue request needs a kind, actor and intent'')
      else if qr_MaxWait req < 0
      then Some (ErrInvalid ''lease queue wait bound must not be negative'')
      else None)"

definition maxWait :: "LeaseQueue \<Rightarrow> QueuedLeaseRequest \<Rightarrow> duration" where
  "maxWait q req =
     (if qr_MaxWait req > 0 then qr_MaxWait req
      else if qr_Operator req then qc_OperatorMaxWait (qu_cfg q)
      else qc_MaxWait (qu_cfg q))"

fun retryableLeaseError :: "lease_error \<Rightarrow> bool" where
  "retryableLeaseError (ErrLeaseConflict _) = True"
| "retryableLeaseError (ErrHolderUnreadable _ _) = True"
| "retryableLeaseError (ErrLeaseQueueTimeout _ _) = True"
| "retryableLeaseError (ErrLeaseQueueFull _ _) = True"
| "retryableLeaseError ErrLeaseQueueDuplicate = True"
| "retryableLeaseError ErrLeaseBusy = True"
| "retryableLeaseError (ErrJoined a b) = (retryableLeaseError a \<or> retryableLeaseError b)"
| "retryableLeaseError _ = False"

definition leaseRequestKey :: "string \<Rightarrow> string \<Rightarrow> string list \<Rightarrow> string" where
  "leaseRequestKey kind intent keys =
     EncodeToString (Sum256 (utf8
       (kind @ [CHR 0x00] @ intent @ [CHR 0x00] @ Join keys [CHR 0x00])))"

subsection \<open>Entering the queue\<close>

definition queue_sweep :: "LeaseQueue \<Rightarrow> lease_world \<Rightarrow> lease_error option \<times> lease_world" where
  "queue_sweep q w =
     (case exec (sql_sweep (qu_databaseID q)) w of
        (Inl e, w) \<Rightarrow> (Some (ErrStatement ''expire lease queue entries'' e), w)
      | (Inr _, w) \<Rightarrow> (None, w))"

definition queue_resume ::
    "LeaseQueue \<Rightarrow> PostgresLeaseManager \<Rightarrow> QueuedLeaseRequest \<Rightarrow> string \<Rightarrow> lease_world \<Rightarrow>
     (lease_error + int option) \<times> lease_world" where
  "queue_resume q m req requestKey w =
     (case stmt (sql_resume (qu_databaseID q) requestKey (qu_instance q) (lm_decisionID m)
                   (qr_Actor req) (qc_StaleAfter (qu_cfg q))) w of
        (Inl e, w) \<Rightarrow> (Inl (ErrStatement ''resume lease queue entry'' e), w)
      | (Inr i, w) \<Rightarrow> (Inr i, w))"

text \<open>The lease at once, or None to queue.\<close>

definition tryImmediate ::
    "LeaseQueue \<Rightarrow> PostgresLeaseManager \<Rightarrow> QueuedLeaseRequest \<Rightarrow> string list \<Rightarrow> lease_world \<Rightarrow>
     (lease_error + string) option \<times> PostgresLeaseManager \<times> lease_world" where
  "tryImmediate q m req keys w =
     (case stmt (\<lambda>db. (sql_waiting (qu_databaseID q) keys db, db)) w of
        (Inl e, w) \<Rightarrow> (Some (Inl (ErrStatement ''read lease queue'' e)), m, w)
      | (Inr waiting, w) \<Rightarrow>
          if waiting then (None, m, w)
          else (case AcquireTyped m (qr_Actor req) (qr_Targets req) (qr_Intent req) w of
                  (Inl e, m, w) \<Rightarrow>
                    if retryableLeaseError e then (None, m, w) else (Some (Inl e), m, w)
                | (Inr leaseID, m, w) \<Rightarrow> (Some (Inr leaseID), m, w)))"

definition entry_row ::
    "LeaseQueue \<Rightarrow> PostgresLeaseManager \<Rightarrow> QueuedLeaseRequest \<Rightarrow> string \<Rightarrow> string list \<Rightarrow> instant \<Rightarrow>
     queue_row" where
  "entry_row q m req requestKey keys now =
     \<lparr>lq_id = 0, lq_database_id = qu_databaseID q, lq_request_key = requestKey,
      lq_object_keys = keys, lq_kind = qr_Kind req, lq_actor = qr_Actor req,
      lq_intent = qr_Intent req, lq_decision_id = lm_decisionID m, lq_instance = qu_instance q,
      lq_state = QueueWaiting, lq_enqueued_at = now, lq_heartbeat_at = now,
      lq_deadline_at = now + maxWait q req, lq_resolved_at = None, lq_resumed_count = 0\<rparr>"

definition insertEntry ::
    "LeaseQueue \<Rightarrow> PostgresLeaseManager \<Rightarrow> QueuedLeaseRequest \<Rightarrow> string \<Rightarrow> string list \<Rightarrow> lease_db \<Rightarrow>
     (lease_error + int) \<times> lease_db" where
  "insertEntry q m req requestKey keys db =
     (case sql_insert_entry (entry_row q m req requestKey keys (ld_now db)) db of
        (None, db) \<Rightarrow> (Inl ErrLeaseQueueDuplicate, db)
      | (Some i, db) \<Rightarrow> (Inr i, db))"

text \<open>The depth check and the insert under the queue mutex.\<close>

definition enqueue_tx ::
    "LeaseQueue \<Rightarrow> PostgresLeaseManager \<Rightarrow> QueuedLeaseRequest \<Rightarrow> string \<Rightarrow> string list \<Rightarrow> lease_db \<Rightarrow>
     (lease_error + int) \<times> lease_db" where
  "enqueue_tx q m req requestKey keys db =
     (case sql_depth (qu_databaseID q) keys db of
        (perTarget, waiting) \<Rightarrow>
          if int perTarget \<ge> qc_MaxDepthPerTarget (qu_cfg q) \<or> int waiting \<ge> qc_MaxDepth (qu_cfg q)
          then (Inl (ErrLeaseQueueFull perTarget waiting), db)
          else insertEntry q m req requestKey keys db)"

definition enqueue ::
    "LeaseQueue \<Rightarrow> PostgresLeaseManager \<Rightarrow> QueuedLeaseRequest \<Rightarrow> string \<Rightarrow> string list \<Rightarrow> lease_world \<Rightarrow>
     (lease_error + int) \<times> lease_world" where
  "enqueue q m req requestKey keys w =
     (case stmt (enqueue_tx q m req requestKey keys) w of
        (Inl e, w) \<Rightarrow> (Inl (ErrStatement ''enqueue lease request'' e), w)
      | (Inr r, w) \<Rightarrow> (r, w))"

subsection \<open>Waiting\<close>

definition queue_resolve :: "int \<Rightarrow> queue_state \<Rightarrow> lease_world \<Rightarrow> lease_error option \<times> lease_world" where
  "queue_resolve i st w =
     (case exec (sql_resolve i st) w of
        (Inl e, w) \<Rightarrow> (Some (ErrStatement ''resolve lease queue entry'' e), w)
      | (Inr _, w) \<Rightarrow> (None, w))"

definition leave :: "int \<Rightarrow> queue_state \<Rightarrow> lease_error \<Rightarrow> lease_world \<Rightarrow> lease_error \<times> lease_world" where
  "leave i st cause w =
     (case queue_resolve i st w of
        (Some e, w) \<Rightarrow> (ErrJoined cause e, w)
      | (None, w) \<Rightarrow> (cause, w))"

definition callerError :: "lease_world \<Rightarrow> lease_error \<Rightarrow> lease_error" where
  "callerError w e = (case lw_ctx w of Some x \<Rightarrow> ErrContext x | None \<Rightarrow> e)"

definition queueTimeout :: "lease_error option \<Rightarrow> nat \<Rightarrow> lease_error" where
  "queueTimeout lastConflict ahead = ErrLeaseQueueTimeout lastConflict ahead"

text \<open>How many live entries are ahead, and whether the entry has expired.\<close>

definition position :: "LeaseQueue \<Rightarrow> int \<Rightarrow> lease_world \<Rightarrow> (lease_error + nat \<times> bool) \<times> lease_world" where
  "position q i w =
     (case stmt (sql_position (qu_databaseID q) i) w of
        (Inl e, w) \<Rightarrow> (Inl (ErrStatement ''read lease queue position'' e), w)
      | (Inr None, w) \<Rightarrow> (Inr (0, True), w)
      | (Inr (Some p), w) \<Rightarrow> (Inr p, w))"

definition grant ::
    "PostgresLeaseManager \<Rightarrow> int \<Rightarrow> string \<Rightarrow> lease_world \<Rightarrow> lease_result" where
  "grant m i leaseID w =
     (case queue_resolve i QueueGranted w of
        (None, w) \<Rightarrow> (Inr leaseID, m, w)
      | (Some e, w) \<Rightarrow>
          (case ReleaseLease m leaseID w of
             (None, m, w) \<Rightarrow> (Inl e, m, w)
           | (Some r, m, w) \<Rightarrow> (Inl (ErrJoined e r), m, w)))"

text \<open>What one poll does: an outcome, or the conflict to remember.\<close>

definition poll ::
    "LeaseQueue \<Rightarrow> QueuedLeaseRequest \<Rightarrow> int \<Rightarrow> lease_error option \<Rightarrow> PostgresLeaseManager \<Rightarrow> lease_world \<Rightarrow>
     ((lease_error + string) + lease_error option) \<times> PostgresLeaseManager \<times> lease_world" where
  "poll q req i lastConflict m w =
     (case position q i w of
        (Inl e, w) \<Rightarrow>
          (case leave i QueueCancelled (callerError w e) w of (e, w) \<Rightarrow> (Inl (Inl e), m, w))
      | (Inr (ahead, expired), w) \<Rightarrow>
          if expired
          then (case leave i QueueTimedOut (queueTimeout lastConflict ahead) w of
                  (e, w) \<Rightarrow> (Inl (Inl e), m, w))
          else if ahead = 0
          then (case AcquireTyped m (qr_Actor req) (qr_Targets req) (qr_Intent req) w of
                  (Inr leaseID, m, w) \<Rightarrow>
                    (case grant m i leaseID w of (r, m, w) \<Rightarrow> (Inl r, m, w))
                | (Inl e, m, w) \<Rightarrow>
                    if retryableLeaseError e then (Inr (Some e), m, w)
                    else (case leave i QueueCancelled (callerError w e) w of
                            (e, w) \<Rightarrow> (Inl (Inl e), m, w)))
          else (Inr lastConflict, m, w))"

text \<open>The select after a poll: True when the context ended the wait.\<close>

definition select :: "lease_world \<Rightarrow> bool \<times> lease_world" where
  "select w = (case next_event w of (e, w) \<Rightarrow> (lw_ctx w \<noteq> None \<and> \<not> ev_ticker e, w))"

fun queue_wait ::
    "nat \<Rightarrow> LeaseQueue \<Rightarrow> QueuedLeaseRequest \<Rightarrow> int \<Rightarrow> lease_error option \<Rightarrow> PostgresLeaseManager \<Rightarrow>
     lease_world \<Rightarrow> (lease_error + string) option \<times> PostgresLeaseManager \<times> lease_world" where
  "queue_wait 0 q req i lastConflict m w = (None, m, w)"
| "queue_wait (Suc n) q req i lastConflict m w =
     (case poll q req i lastConflict m w of
        (Inl r, m, w) \<Rightarrow> (Some r, m, w)
      | (Inr lastConflict, m, w) \<Rightarrow>
          (case select w of
             (True, w) \<Rightarrow>
               (case leave i QueueCancelled
                       (case lw_ctx w of Some x \<Rightarrow> ErrContext x | None \<Rightarrow> ErrContext []) w of
                  (e, w) \<Rightarrow> (Some (Inl e), m, w))
           | (False, w) \<Rightarrow> queue_wait n q req i lastConflict m w))"

subsection \<open>Acquiring through the queue\<close>

definition queue_Acquire ::
    "nat \<Rightarrow> LeaseQueue \<Rightarrow> PostgresLeaseManager option \<Rightarrow> QueuedLeaseRequest \<Rightarrow> lease_world \<Rightarrow>
     (lease_error + string) option \<times> PostgresLeaseManager option \<times> lease_world" where
  "queue_Acquire polls q mgr req w =
     (case (queue_validate q mgr req, mgr) of
        (Some e, _) \<Rightarrow> (Some (Inl e), mgr, w)
      | (None, None) \<Rightarrow> (Some (Inl ErrLeaseNotFound), mgr, w)
      | (None, Some m) \<Rightarrow>
          let keys = TypedLeaseKeys (qr_Targets req);
              requestKey = leaseRequestKey (qr_Kind req) (qr_Intent req) keys
          in (case queue_sweep q w of
                (Some e, w) \<Rightarrow> (Some (Inl e), mgr, w)
              | (None, w) \<Rightarrow>
                  (case queue_resume q m req requestKey w of
                     (Inl e, w) \<Rightarrow> (Some (Inl e), mgr, w)
                   | (Inr (Some i), w) \<Rightarrow>
                       (case queue_wait polls q req i None m w of (r, m, w) \<Rightarrow> (r, Some m, w))
                   | (Inr None, w) \<Rightarrow>
                       (case tryImmediate q m req keys w of
                          (Some r, m, w) \<Rightarrow> (Some r, Some m, w)
                        | (None, m, w) \<Rightarrow>
                            (case enqueue q m req requestKey keys w of
                               (Inl e, w) \<Rightarrow> (Some (Inl e), Some m, w)
                             | (Inr i, w) \<Rightarrow>
                                 (case queue_wait polls q req i None m w of
                                    (r, m, w) \<Rightarrow> (r, Some m, w)))))))"

end
