(* ===== verification/Target_Props.thy ===== *)
theory Target_Props
  imports Lease_Target "HOL-Library.Multiset"
begin

text \<open>
  What name resolution and lease keys guarantee: canonical names are a fixed point of
  normalization, the two key lists of the code agree, every name a change mentions is covered by
  the targets it leases, and two changes that touch one relation share a lease key however they
  spell it.
\<close>

subsection \<open>Characters of identifiers\<close>

lemma lower_of_char:
  "of_char (to_lower c) = (if is_upper c then of_char c + 32 else of_char c :: nat)"
proof -
  have "is_upper c \<Longrightarrow> of_char c + 32 < (256 :: nat)"
    by (auto simp: is_upper_def in_range_def)
  then show ?thesis by (simp add: to_lower_def of_char_of)
qed

lemma to_lower_letter [simp]: "is_letter c \<Longrightarrow> is_letter (to_lower c)"
  by (auto simp: is_letter_def in_range_def lower_of_char is_upper_def split: if_splits)

lemma lower_idem [simp]: "to_lower (to_lower c) = to_lower c"
proof -
  have "\<not> is_upper (to_lower c)"
    by (auto simp: is_upper_def in_range_def lower_of_char split: if_splits)
  then show ?thesis by (simp add: to_lower_def)
qed

lemma ToLower_idem [simp]: "ToLower (ToLower s) = ToLower s"
  by (simp add: ToLower_def)

lemma to_lower_plain: "\<not> is_letter c \<Longrightarrow> to_lower c = c"
  by (auto simp: to_lower_def is_upper_def is_letter_def in_range_def)

lemma ident_start_lower [simp]: "ident_start c \<Longrightarrow> ident_start (to_lower c)"
  by (cases "is_letter c") (auto simp: ident_start_def to_lower_plain)

lemma ident_char_lower [simp]: "ident_char c \<Longrightarrow> ident_char (to_lower c)"
  by (cases "is_letter c") (auto simp: ident_char_def to_lower_plain)

lemma ident_start_char: "ident_start c \<Longrightarrow> ident_char c"
  by (auto simp: ident_start_def ident_char_def)

lemma ident_char_plain:
  "ident_char c \<Longrightarrow> c \<noteq> dquote \<and> c \<noteq> CHR ''.'' \<and> c \<noteq> CHR '';'' \<and> c \<noteq> CHR '':'' \<and> \<not> is_space c"
  by (auto simp: ident_char_def is_letter_def is_digit_def is_space_def in_range_def)

lemma valid_chars: "validUnquotedIdentifier s \<Longrightarrow> s \<noteq> [] \<and> list_all ident_char s"
  by (cases s) (auto simp: validUnquotedIdentifier_def ident_start_char)

lemma valid_lower [simp]: "validUnquotedIdentifier s \<Longrightarrow> validUnquotedIdentifier (ToLower s)"
  by (cases s) (auto simp: validUnquotedIdentifier_def ToLower_def list_all_iff)

lemma valid_Nil [simp]: "\<not> validUnquotedIdentifier []"
  by (simp add: validUnquotedIdentifier_def)

lemma ToLower_Nil [simp]: "ToLower s = [] \<longleftrightarrow> s = []"
  by (simp add: ToLower_def)

lemma TrimSpace_id:
  assumes "s \<noteq> []" "\<not> is_space (hd s)" "\<not> is_space (last s)"
  shows "TrimSpace s = s"
proof -
  obtain c cs where s: "s = c # cs" using assms(1) by (cases s) auto
  obtain d ds where r: "rev s = d # ds" using assms(1) by (cases "rev s") auto
  then have "last s = d" by (metis hd_rev list.sel(1))
  with assms s r have "dropWhile is_space s = s" "dropWhile is_space (rev s) = rev s"
    by simp_all
  then show ?thesis by (simp add: TrimSpace_def)
qed

subsection \<open>Canonical identifiers\<close>

text \<open>A canonical spelling of a name: bare and lower-case, or between quotes.\<close>

definition canonical_ident :: "string \<Rightarrow> string \<Rightarrow> bool" where
  "canonical_ident name c \<longleftrightarrow>
     c = name \<and> validUnquotedIdentifier name \<and> ToLower name = name \<or>
     c = dquote # name @ [dquote] \<and> name \<noteq> [] \<and> dquote \<notin> set name"

lemma canonical_ident_ends:
  assumes "canonical_ident n c"
  shows "c \<noteq> []" "\<not> is_space (hd c)" "\<not> is_space (last c)"
proof -
  have q: "\<not> is_space dquote" by (simp add: is_space_def in_range_def)
  have b: "list_all ident_char s \<Longrightarrow> s \<noteq> [] \<Longrightarrow> \<not> is_space (hd s) \<and> \<not> is_space (last s)" for s
    using ident_char_plain by (auto simp: list_all_iff)
  show "c \<noteq> []" "\<not> is_space (hd c)" "\<not> is_space (last c)"
    using assms q b [of n] valid_chars [of n] by (auto simp: canonical_ident_def)
qed

lemma normalizeIdentifier_canonical:
  "normalizeIdentifier s = Inr (n, c) \<Longrightarrow> canonical_ident n c"
  by (auto simp: normalizeIdentifier_def Let_def canonical_ident_def contains_char_def
      split: if_splits)

lemma normalizeIdentifier_fixed:
  assumes "canonical_ident n c"
  shows "normalizeIdentifier c = Inr (n, c)"
proof -
  have t: "TrimSpace c = c"
    using canonical_ident_ends [OF assms] by (rule TrimSpace_id)
  from assms consider
      "c = n" "validUnquotedIdentifier n" "ToLower n = n"
    | "c = dquote # n @ [dquote]" "n \<noteq> []" "dquote \<notin> set n"
    by (auto simp: canonical_ident_def)
  then show ?thesis
  proof cases
    case 1
    then have "hd c \<noteq> dquote"
      using valid_chars [of n] ident_char_plain by (cases n) auto
    with 1 t show ?thesis by (simp add: normalizeIdentifier_def Let_def)
  next
    case 2
    with t show ?thesis
      by (simp add: normalizeIdentifier_def Let_def contains_char_def)
  qed
qed

lemma split_parts_plain:
  "list_all ident_char s \<Longrightarrow> split_parts False acc (s @ rest) = split_parts False (rev s @ acc) rest"
  by (induction s arbitrary: acc) (auto dest: ident_char_plain)

lemma split_parts_quoted:
  "dquote \<notin> set s \<Longrightarrow> split_parts True acc (s @ rest) = split_parts True (rev s @ acc) rest"
  by (induction s arbitrary: acc) auto

lemma split_parts_ident:
  assumes "canonical_ident n c"
  shows "split_parts False acc (c @ rest) = split_parts False (rev c @ acc) rest"
  using assms valid_chars [of n]
  by (auto simp: canonical_ident_def split_parts_plain split_parts_quoted)

lemma split_canonical:
  assumes "canonical_ident n c" "canonical_ident m d"
  shows "splitQualifiedIdentifier (c @ ''.'' @ d) = Inr [c, d]"
proof -
  have "split_parts False [] (d @ []) = Inr [d]"
    by (subst split_parts_ident [OF assms(2)]) simp
  then show ?thesis
    by (simp add: splitQualifiedIdentifier_def split_parts_ident [OF assms(1)])
qed

lemma normalizeTargetObject_canonical:
  assumes "normalizeTargetObject s = Inr x"
  obtains c d where "canonical_ident (to_Schema x) c" "canonical_ident (to_Name x) d"
    "to_Canonical x = c @ ''.'' @ d"
  using assms that
  by (auto simp: normalizeTargetObject_def split: sum.splits list.splits
      dest!: normalizeIdentifier_canonical)

lemma normalizeTargetObject_fixed:
  assumes "normalizeTargetObject s = Inr x"
  shows "normalizeTargetObject (to_Canonical x) = Inr x"
proof -
  obtain c d where c: "canonical_ident (to_Schema x) c" and d: "canonical_ident (to_Name x) d"
    and x: "to_Canonical x = c @ ''.'' @ d"
    using assms by (rule normalizeTargetObject_canonical)
  have "TrimSpace (to_Canonical x) = to_Canonical x"
    using canonical_ident_ends [OF c] canonical_ident_ends [OF d] x by (intro TrimSpace_id) auto
  then show ?thesis
    using x split_canonical [OF c d] normalizeIdentifier_fixed [OF c] normalizeIdentifier_fixed [OF d]
    by (simp add: normalizeTargetObject_def)
qed

subsection \<open>Normalizing a list of names\<close>

definition canonical_alist :: "(string \<times> TargetObject) list \<Rightarrow> bool" where
  "canonical_alist u \<longleftrightarrow> distinct (map fst u) \<and>
     (\<forall>(k, x)\<in>set u. k = to_Canonical x \<and> normalizeTargetObject k = Inr x)"

lemma canonical_alist_update:
  assumes "canonical_alist u" "normalizeTargetObject s = Inr x"
  shows "canonical_alist (AList.update (to_Canonical x) x u)"
    "set (map snd (AList.update (to_Canonical x) x u)) = insert x (set (map snd u))"
proof -
  let ?v = "AList.update (to_Canonical x) x u"
  have d: "distinct (map fst ?v)"
    using assms(1) by (simp add: canonical_alist_def distinct_update)
  have m: "set ?v = {(k, y). map_of ?v k = Some y}"
    using d by auto
  have same: "map_of u (to_Canonical x) = Some y \<Longrightarrow> y = x" for y
    using assms normalizeTargetObject_fixed [OF assms(2)]
    by (auto simp: canonical_alist_def dest!: map_of_SomeD)
  have u: "set u = {(k, y). map_of u k = Some y}"
    using assms(1) by (auto simp: canonical_alist_def)
  have v: "set ?v = insert (to_Canonical x, x) (set u)"
    unfolding m u by (auto simp: update_conv' dest: same split: if_splits)
  show "canonical_alist ?v"
    using assms(1) d v normalizeTargetObject_fixed [OF assms(2)]
    by (auto simp: canonical_alist_def)
  show "set (map snd ?v) = insert x (set (map snd u))"
    using v by auto
qed

lemma unique_objects_canonical:
  assumes "unique_objects inputs u = Inr v" "canonical_alist u"
  shows "canonical_alist v \<and>
    set (map snd v) = set (map snd u) \<union> {x. \<exists>i\<in>set inputs. normalizeTargetObject i = Inr x}"
  using assms
proof (induction inputs u rule: unique_objects.induct)
  case (1 u)
  then show ?case by simp
next
  case (2 i inputs u)
  then obtain x where x: "normalizeTargetObject i = Inr x"
    "unique_objects inputs (AList.update (to_Canonical x) x u) = Inr v"
    by (auto simp: ebind_Inr_iff)
  with "2.IH" [OF this(2)] canonical_alist_update [OF "2.prems"(2) x(1)]
  show ?case by auto
qed

lemma unique_objects_total:
  "\<forall>i\<in>set inputs. isOk (normalizeTargetObject i) \<Longrightarrow> isOk (unique_objects inputs u)"
  by (induction inputs u rule: unique_objects.induct) (auto simp: isOk_iff)

lemma distinct_map_sort_key: "distinct (map f (sort_key g xs)) \<longleftrightarrow> distinct (map f xs)"
  by (simp add: distinct_map)

lemma sorted_key_unique:
  assumes "sorted (map f xs)" "distinct (map f xs)" "sorted (map f ys)" "distinct (map f ys)"
    "set xs = set ys"
  shows "xs = ys"
proof -
  have "map f xs = map f ys"
    using assms by (intro sorted_distinct_set_unique) auto
  moreover have "inj_on f (set xs \<union> set ys)"
    using assms by (simp add: distinct_map)
  ultimately show ?thesis by (rule map_inj_on)
qed

lemma NormalizeTargetObjects_sound:
  assumes "NormalizeTargetObjects inputs = Inr objs"
  shows "sorted (map to_Canonical objs)" "distinct (map to_Canonical objs)"
    "set objs = {x. \<exists>i\<in>set inputs. normalizeTargetObject i = Inr x}"
proof -
  obtain u where u: "unique_objects inputs [] = Inr u" "objs = sort_key to_Canonical (map snd u)"
    using assms by (auto simp: NormalizeTargetObjects_def ebind_Inr_iff)
  have c: "canonical_alist u"
    "set (map snd u) = {x. \<exists>i\<in>set inputs. normalizeTargetObject i = Inr x}"
    using unique_objects_canonical [OF u(1)] by (auto simp: canonical_alist_def)
  have "map to_Canonical (map snd u) = map fst u"
    using c(1) by (auto simp: canonical_alist_def)
  then have "distinct (map to_Canonical (map snd u))"
    using c(1) by (simp only: canonical_alist_def)
  then show "distinct (map to_Canonical objs)"
    unfolding u(2) by (rule distinct_map_sort_key [THEN iffD2])
  show "sorted (map to_Canonical objs)" by (simp add: u(2))
  show "set objs = {x. \<exists>i\<in>set inputs. normalizeTargetObject i = Inr x}"
    using c(2) by (simp add: u(2))
qed

lemma emap_isOk: "isOk (emap f xs) \<longleftrightarrow> (\<forall>x\<in>set xs. isOk (f x))"
  by (induction xs) (auto simp: isOk_iff ebind_Inr_iff)

text \<open>
  Normalizing a list of names gives the objects of exactly those names, each once, in the
  order of their canonical names, and is a fixed point on its own output: normalizing the
  canonical names gives the same objects back.\<close>

theorem NormalizeTargetObjects_canonical:
  assumes "NormalizeTargetObjects inputs = Inr objs"
  shows "sorted (map to_Canonical objs) \<and> distinct (map to_Canonical objs) \<and>
    set objs = {x. \<exists>i\<in>set inputs. normalizeTargetObject i = Inr x} \<and>
    NormalizeTargetObjects (map to_Canonical objs) = Inr objs"
proof -
  note s = NormalizeTargetObjects_sound [OF assms]
  have fixed: "normalizeTargetObject (to_Canonical x) = Inr x" if "x \<in> set objs" for x
    using that s(3) normalizeTargetObject_fixed by auto
  then have "isOk (unique_objects (map to_Canonical objs) [])"
    by (intro unique_objects_total) simp
  then obtain ys where ys: "NormalizeTargetObjects (map to_Canonical objs) = Inr ys"
    by (auto simp: isOk_iff NormalizeTargetObjects_def)
  note t = NormalizeTargetObjects_sound [OF ys]
  have "set ys = set objs"
    using fixed t(3) by auto
  then have "ys = objs"
    using sorted_key_unique [OF t(1,2) s(1,2)] by simp
  with ys s show ?thesis by simp
qed

subsection \<open>Lease keys\<close>

lemma set_add_unseen [simp]: "set (add_unseen k ks) = insert k (set ks)"
  by (auto simp: add_unseen_def)

lemma distinct_add_unseen [simp]: "distinct (add_unseen k ks) \<longleftrightarrow> distinct ks"
  by (simp add: add_unseen_def)

lemma add_unseens:
  "set (foldl (\<lambda>ks k. add_unseen k ks) ks xs) = set ks \<union> set xs"
  "distinct (foldl (\<lambda>ks k. add_unseen k ks) ks xs) \<longleftrightarrow> distinct ks"
  by (induction xs arbitrary: ks) auto

lemma TypedLeaseKeys_set: "set (TypedLeaseKeys ts) = (\<Union>t\<in>set ts. set (LeaseKeys t))"
proof -
  let ?f = "\<lambda>ks t. foldl (\<lambda>ks k. add_unseen k ks) ks (LeaseKeys t)"
  have "set (foldl ?f ks ts) = set ks \<union> (\<Union>t\<in>set ts. set (LeaseKeys t))" for ks
    by (induction ts arbitrary: ks) (auto simp: add_unseens)
  then show ?thesis by (simp add: TypedLeaseKeys_def)
qed

lemma TypedLeaseKeys_sorted: "sorted (TypedLeaseKeys ts)"
  by (simp add: TypedLeaseKeys_def)

lemma TypedLeaseKeys_distinct: "distinct (TypedLeaseKeys ts)"
proof -
  let ?f = "\<lambda>ks t. foldl (\<lambda>ks k. add_unseen k ks) ks (LeaseKeys t)"
  have "distinct ks \<Longrightarrow> distinct (foldl ?f ks ts)" for ks
    by (induction ts arbitrary: ks) (auto simp: add_unseens)
  then show ?thesis by (simp add: TypedLeaseKeys_def)
qed

lemma map_sort_key: "map f (sort_key f xs) = sort (map f xs)"
  by (rule properties_for_sort [symmetric]) simp_all

lemma map_add_key: "map lk_key (add_key t ks k) = add_unseen k (map lk_key ks)"
  by (simp add: add_key_def add_unseen_def)

text \<open>The keys a lease takes and the keys its queue entry lists are the same.\<close>

lemma typedKeys_keys: "map lk_key (typedKeys ts) = TypedLeaseKeys ts"
proof -
  have k: "map lk_key (foldl (add_key t) ks xs) = foldl (\<lambda>ks k. add_unseen k ks) (map lk_key ks) xs"
    for t ks xs
    by (induction xs arbitrary: ks) (simp_all add: map_add_key)
  have "map lk_key (foldl (\<lambda>ks t. foldl (add_key t) ks (LeaseKeys t)) ks ts) =
      foldl (\<lambda>ks t. foldl (\<lambda>ks k. add_unseen k ks) ks (LeaseKeys t)) (map lk_key ks) ts" for ks
    by (induction ts arbitrary: ks) (simp_all add: k)
  then show ?thesis
    by (simp add: typedKeys_def TypedLeaseKeys_def map_sort_key)
qed

subsection \<open>Resolution covers every name\<close>

lemma append_sep_inj:
  assumes "a @ x # d = b @ x # e" "x \<notin> set d" "x \<notin> set e"
  shows "a = b \<and> d = e"
  using assms
proof (induction a arbitrary: b)
  case Nil
  then show ?case by (cases b) auto
next
  case (Cons y a)
  then show ?case by (cases b) auto
qed

lemma nat_digits_no_nul: "CHR 0x00 \<notin> set (nat_digits n)"
  using nat_digits_digits [of n] by (auto simp: list_all_iff is_digit_def in_range_def)

lemma dedupe_key_LeaseKeys: "dedupe_key t = dedupe_key u \<Longrightarrow> LeaseKeys t = LeaseKeys u"
proof -
  assume "dedupe_key t = dedupe_key u"
  then have "Canonical t = Canonical u \<and> nat_digits (unat (tt_OID t)) = nat_digits (unat (tt_OID u))"
    unfolding dedupe_key_def
    by (intro append_sep_inj [OF _ nat_digits_no_nul nat_digits_no_nul]) simp
  then have "Canonical t = Canonical u" "tt_OID t = tt_OID u"
    by (auto dest!: nat_digits_inj simp: word_unat_eq_iff)
  then show ?thesis by (simp add: LeaseKeys_def)
qed

lemma dedupeTargets_keys:
  "(\<Union>t\<in>set (dedupeTargets ts). set (LeaseKeys t)) = (\<Union>t\<in>set ts. set (LeaseKeys t))"
proof -
  let ?f = "\<lambda>r t. if dedupe_key t \<in> dedupe_key ` set r then r else r @ [t]"
  have "(\<Union>t\<in>set (foldl ?f r ts). set (LeaseKeys t)) =
      (\<Union>t\<in>set r. set (LeaseKeys t)) \<union> (\<Union>t\<in>set ts. set (LeaseKeys t))" for r
  proof (induction ts arbitrary: r)
    case Nil
    then show ?case by simp
  next
    case (Cons t ts)
    have "(\<Union>u\<in>set (?f r t). set (LeaseKeys u)) = (\<Union>u\<in>set r. set (LeaseKeys u)) \<union> set (LeaseKeys t)"
    proof (cases "dedupe_key t \<in> dedupe_key ` set r")
      case True
      then obtain u where "u \<in> set r" "LeaseKeys t = LeaseKeys u"
        using dedupe_key_LeaseKeys by blast
      with True show ?thesis by auto
    next
      case False
      then show ?thesis by auto
    qed
    with Cons.IH [of "?f r t"] show ?case by (simp add: Un_ac)
  qed
  then show ?thesis by (simp add: dedupeTargets_def)
qed

text \<open>The relations a change to a name touches: the relation the name resolves to and, for an
  index, its table.\<close>

definition touched :: "catalog \<Rightarrow> string \<Rightarrow> oid set" where
  "touched cat name =
     (case target_input name of
        Inl _ \<Rightarrow> {}
      | Inr (input, _) \<Rightarrow>
          (case joined cat (cat_to_regclass cat input) of
             None \<Rightarrow> {}
           | Some i \<Rightarrow> if i = 0 then {}
               else {i} \<union> (set_option (joined cat (cat_indrelid cat i)) - {0})))"

lemma joined_SomeD:
  "joined cat x = Some i \<Longrightarrow> x = Some i \<and> cat_class cat i \<noteq> None"
  by (cases x) (auto simp: joined_def split: if_splits)

lemma joined_None [simp]: "joined cat None = None"
  by (simp add: joined_def)

lemma class_columns_joined: "class_columns cat (joined cat x) = class_columns cat x"
  by (cases x) (auto simp: joined_def class_columns_def)

lemma class_columns_oid:
  "fst (class_columns cat x) = (case joined cat x of None \<Rightarrow> 0 | Some i \<Rightarrow> i)"
  by (cases x) (auto simp: class_columns_def joined_def)

text \<open>The targets of one name, as the query and the scan produce them.\<close>

definition name_targets :: "catalog \<Rightarrow> nat \<Rightarrow> string \<times> TypedTarget option \<Rightarrow> target_error + TypedTarget list" where
  "name_targets cat n = (\<lambda>(input, q).
     scanResolvedTarget (resolve_row cat (n, input)) (\<lambda>_. q))"

lemma scan_ord_only:
  "qualified (rr_ord row) = q \<Longrightarrow> scanResolvedTarget row qualified = scanResolvedTarget row (\<lambda>_. q)"
  by (simp add: scanResolvedTarget_def)

lemma resolve_row_ord [simp]: "rr_ord (resolve_row cat (n, input)) = int n"
  by (simp add: resolve_row_def Let_def split: prod.splits)

lemma scan_rows:
  assumes "emap (\<lambda>row. scanResolvedTarget row qualified) (map (resolve_row cat) (enumerate k inputs)) = Inr tss"
    and "j < length inputs"
  shows "\<exists>ts\<in>set tss. scanResolvedTarget (resolve_row cat (k + j, inputs ! j)) qualified = Inr ts"
  using assms
proof (induction inputs arbitrary: k tss j)
  case Nil
  then show ?case by simp
next
  case (Cons i inputs)
  from Cons.prems(1) obtain ts uss where t: "scanResolvedTarget (resolve_row cat (k, i)) qualified = Inr ts"
    "emap (\<lambda>row. scanResolvedTarget row qualified) (map (resolve_row cat) (enumerate (Suc k) inputs)) = Inr uss"
    "tss = ts # uss"
    by (auto simp: ebind_Inr_iff)
  show ?case
  proof (cases j)
    case 0
    with t show ?thesis by simp
  next
    case (Suc j')
    with Cons.IH [OF t(2)] Cons.prems(2) t(3) show ?thesis by auto
  qed
qed

lemma emap_nth: "emap f xs = Inr ys \<Longrightarrow> j < length xs \<Longrightarrow> f (xs ! j) = Inr (ys ! j)"
proof (induction xs arbitrary: ys j)
  case Nil
  then show ?case by simp
next
  case (Cons x xs)
  then show ?case by (cases j) (auto simp: ebind_Inr_iff)
qed

text \<open>On success every name contributed its targets, and the keys of the result are theirs.\<close>

lemma ResolveTypedTargets_names:
  assumes "ResolveTypedTargets (Some (Inr cat)) names = Inr ts" "name \<in> set names"
  obtains r n us where "target_input name = Inr r" "name_targets cat n r = Inr us"
    "\<forall>u\<in>set us. set (LeaseKeys u) \<subseteq> set (TypedLeaseKeys ts)"
proof -
  from assms obtain rs tss where r: "emap target_input names = Inr rs"
    and t: "emap (\<lambda>row. scanResolvedTarget row (\<lambda>ord. if 1 \<le> ord \<and> nat ord \<le> length rs
        then snd (rs ! (nat ord - 1)) else None)) (resolveTargetsSQL cat (map fst rs)) = Inr tss"
    and ts: "ts = dedupeTargets (concat tss)"
    by (auto simp: ResolveTypedTargets_def targetInputs_def ebind_Inr_iff split: if_splits)
  obtain j where j: "j < length names" "names ! j = name"
    using assms(2) by (auto simp: in_set_conv_nth)
  with r have n: "target_input name = Inr (rs ! j)" "j < length rs"
    using emap_nth emap_length by fastforce+
  let ?q = "\<lambda>ord. if 1 \<le> ord \<and> nat ord \<le> length rs then snd (rs ! (nat ord - 1)) else None"
  let ?row = "resolve_row cat (1 + j, fst (rs ! j))"
  have "\<exists>us\<in>set tss. scanResolvedTarget ?row ?q = Inr us"
    using scan_rows [OF t [unfolded resolveTargetsSQL_def], of j] n(2) by simp
  moreover have "?q (rr_ord ?row) = snd (rs ! j)"
    using n(2) by (simp add: nat_add_distrib)
  then have "scanResolvedTarget ?row ?q = name_targets cat (1 + j) (rs ! j)"
    unfolding name_targets_def case_prod_beta by (rule scan_ord_only)
  ultimately obtain us where us: "us \<in> set tss" "name_targets cat (1 + j) (rs ! j) = Inr us"
    by auto
  have "set (LeaseKeys u) \<subseteq> set (TypedLeaseKeys ts)" if "u \<in> set us" for u
    using that us(1) dedupeTargets_keys [of "concat tss"] by (auto simp: ts TypedLeaseKeys_set)
  with n us show ?thesis using that by blast
qed

lemma resolve_row_oids:
  assumes "joined cat (cat_to_regclass cat input) = Some i"
  shows "rr_oid (resolve_row cat (n, input)) = i"
    "rr_parentOID (resolve_row cat (n, input)) =
      (case joined cat (cat_indrelid cat i) of None \<Rightarrow> 0 | Some p \<Rightarrow> p)"
proof -
  have "joined cat (Some i) = Some i"
    using joined_SomeD [OF assms] by (auto simp: joined_def)
  with assms class_columns_oid [of cat "Some i"] class_columns_oid [of cat "cat_indrelid cat i"]
  show "rr_oid (resolve_row cat (n, input)) = i"
    "rr_parentOID (resolve_row cat (n, input)) =
      (case joined cat (cat_indrelid cat i) of None \<Rightarrow> 0 | Some p \<Rightarrow> p)"
    by (simp_all add: resolve_row_def Let_def case_prod_beta)
qed

lemma name_targets_touched:
  assumes "target_input name = Inr r" "name_targets cat n r = Inr us" "i \<in> touched cat name"
  shows "i > 0 \<and> (\<exists>u\<in>set us. tt_OID u = i)"
proof -
  obtain c where c: "joined cat (cat_to_regclass cat (fst r)) = Some c" "c \<noteq> 0" "i \<noteq> 0"
    and i: "i = c \<or> joined cat (cat_indrelid cat c) = Some i"
    using assms(1,3)
    by (cases r) (auto simp: touched_def split: option.splits if_splits)
  have scan: "scanResolvedTarget (resolve_row cat (n, fst r)) (\<lambda>_. snd r) = Inr us"
    using assms(2) by (simp add: name_targets_def case_prod_beta)
  note row = resolve_row_oids [OF c(1), of n]
  have "i > 0" using c(3) by (simp add: word_neq_0_conv)
  moreover from i have "\<exists>u\<in>set us. tt_OID u = i"
  proof
    assume "i = c"
    with scan row(1) c(2) show ?thesis by (auto simp: scanResolvedTarget_def)
  next
    assume p: "joined cat (cat_indrelid cat c) = Some i"
    with row(2) have "rr_parentOID (resolve_row cat (n, fst r)) = i" by simp
    with scan row(1) c(2) \<open>i > 0\<close> show ?thesis by (auto simp: scanResolvedTarget_def)
  qed
  ultimately show ?thesis by simp
qed

lemma resolve_covers:
  assumes "ResolveTypedTargets (Some (Inr cat)) names = Inr ts" "name \<in> set names"
    "i \<in> touched cat name"
  shows "oidLeaseKey i \<in> set (TypedLeaseKeys ts)"
proof -
  obtain r n us where r: "target_input name = Inr r" "name_targets cat n r = Inr us"
    and k: "\<forall>u\<in>set us. set (LeaseKeys u) \<subseteq> set (TypedLeaseKeys ts)"
    by (rule ResolveTypedTargets_names [OF assms(1,2)])
  obtain u where "i > 0" "u \<in> set us" "tt_OID u = i"
    using name_targets_touched [OF r assms(3)] by blast
  with k show ?thesis by (auto simp: LeaseKeys_def)
qed

text \<open>
  Two changes that touch one relation ask for a common lease key, however each spells its
  names, whether one names the table and the other an index of it, and also when the relation was
  renamed between the two resolutions: resolving the names of each, on the catalog it saw, gives
  key lists that overlap.\<close>

theorem shared_relation_shares_key:
  assumes "ResolveTypedTargets (Some (Inr cat)) names = Inr ts" "n \<in> set names"
    and "ResolveTypedTargets (Some (Inr cat')) names' = Inr ts'" "n' \<in> set names'"
    and "i \<in> touched cat n" "i \<in> touched cat' n'"
  shows "\<exists>k. k \<in> set (TypedLeaseKeys ts) \<and> k \<in> set (TypedLeaseKeys ts') \<and>
    k \<in> set (map lk_key (typedKeys ts)) \<and> k \<in> set (map lk_key (typedKeys ts'))"
  using resolve_covers [OF assms(1,2,5)] resolve_covers [OF assms(3,4,6)]
  by (auto simp: typedKeys_keys)

definition ex_catalog :: catalog where
  "ex_catalog =
     \<lparr>cat_to_regclass = (\<lambda>s. if s = quoteIdentifier ''public'' @ ''.'' @ quoteIdentifier ''t''
        then Some 5 else if s = quoteIdentifier ''t_idx'' then Some 6 else None),
      cat_class = (\<lambda>i. if i = 5
        then Some \<lparr>pc_relkind = ''r'', pc_nspname = ''public'', pc_relname = ''t''\<rparr>
        else if i = 6
        then Some \<lparr>pc_relkind = ''i'', pc_nspname = ''public'', pc_relname = ''t_idx''\<rparr>
        else None),
      cat_indrelid = (\<lambda>i. if i = 6 then Some 5 else None),
      cat_partition_root = (\<lambda>i. None)\<rparr>"

definition ex_table :: TypedTarget where
  "ex_table = \<lparr>tt_Kind = TargetTable, tt_Schema = ''public'', tt_Name = ''t'', tt_OID = 5\<rparr>"

definition ex_idx :: TypedTarget where
  "ex_idx = \<lparr>tt_Kind = TargetIndex, tt_Schema = ''public'', tt_Name = ''t_idx'', tt_OID = 6\<rparr>"

lemma ex_resolved:
  "ResolveTypedTargets (Some (Inr ex_catalog)) ['' PUBLIC.T''] = Inr [ex_table]"
  "ResolveTypedTargets (Some (Inr ex_catalog)) [''t_idx''] = Inr [ex_idx, ex_table]"
  by code_simp+

lemma ex_touched:
  "(5 :: oid) \<in> touched ex_catalog '' PUBLIC.T''" "(5 :: oid) \<in> touched ex_catalog ''t_idx''"
  by code_simp+

theorem shared_relation_shares_key_witness:
  "\<exists>k. k \<in> set (TypedLeaseKeys [ex_table]) \<and> k \<in> set (TypedLeaseKeys [ex_idx, ex_table]) \<and>
    k \<in> set (map lk_key (typedKeys [ex_table])) \<and> k \<in> set (map lk_key (typedKeys [ex_idx, ex_table]))"
  by (rule shared_relation_shares_key [OF ex_resolved(1) _ ex_resolved(2) _ ex_touched]) simp_all

theorem NormalizeTargetObjects_canonical_witness:
  "sorted (map to_Canonical [\<lparr>to_Schema = ''a'', to_Name = ''b'', to_Canonical = ''a.b''\<rparr>]) \<and>
   NormalizeTargetObjects [''a.b''] = Inr [\<lparr>to_Schema = ''a'', to_Name = ''b'', to_Canonical = ''a.b''\<rparr>]"
proof -
  have "NormalizeTargetObjects ['' A.b '', ''a.B''] =
      Inr [\<lparr>to_Schema = ''a'', to_Name = ''b'', to_Canonical = ''a.b''\<rparr>]"
    by code_simp
  from NormalizeTargetObjects_canonical [OF this] show ?thesis by simp
qed

subsection \<open>Change tables are leased\<close>

lemma normalizeIdentifier_nonempty: "normalizeIdentifier s = Inr (n, c) \<Longrightarrow> n \<noteq> []"
  using normalizeIdentifier_canonical valid_chars by (fastforce simp: canonical_ident_def)

lemma renderRelationName_input:
  "renderRelationName name = Some input \<longleftrightarrow> (\<exists>q. target_input name = Inr (input, q))"
proof -
  have "\<not> list_ex (\<lambda>v. fst v = []) vs" if "emap normalizeIdentifier parts = Inr vs" for parts vs
    using emap_set [OF that] normalizeIdentifier_nonempty
    by (fastforce simp: list_ex_iff)
  then show ?thesis
    by (auto simp: renderRelationName_def target_input_def split: sum.splits if_splits)
qed

text \<open>What PostgreSQL keeps true of its catalog: no relation has the id zero, and an index has a
  table.\<close>

definition catalog_wf :: "catalog \<Rightarrow> bool" where
  "catalog_wf cat \<longleftrightarrow> cat_class cat 0 = None \<and>
     (\<forall>i p. cat_indrelid cat i = Some p \<longrightarrow> cat_class cat p \<noteq> None)"

lemma ResolveChangeTables_entry:
  assumes "ResolveChangeTables (Some (Inr cat)) names = Inr tables" "(name, ct) \<in> set tables"
  obtains input i schema tname rs rn where "name \<in> set names" "renderRelationName name = Some input"
    "change_row cat input = (i, schema, tname, rs, rn)"
    "changeTable name i schema tname rs rn = Some ct"
proof -
  have upd: "set (AList.update k v al) \<subseteq> insert (k, v) (set al)" for k :: string and v :: ChangeTable and al
    by (induction al) auto
  have fold: "set (foldl add_table al rows) \<subseteq> set al \<union>
      {e. \<exists>row\<in>set rows. fst e = fst row \<and> row_table row = Some (snd e)}" for al rows
  proof (induction rows arbitrary: al)
    case Nil
    then show ?case by simp
  next
    case (Cons row rows)
    have "set (add_table al row) \<subseteq> set al \<union> {e. fst e = fst row \<and> row_table row = Some (snd e)}"
      using upd [of "fst row" _ al] by (fastforce simp: add_table_def split: option.splits)
    with Cons.IH [of "add_table al row"] show ?case by auto
  qed
  define kept where "kept = filter (\<lambda>n. renderRelationName n \<noteq> None) names"
  let ?rows = "zip kept (map (change_row cat) (map (the \<circ> renderRelationName) kept))"
  have "tables = (if kept = [] then [] else foldl add_table [] ?rows)"
    using assms(1) by (simp add: ResolveChangeTables_def kept_def resolveChangeTablesSQL_def Let_def
        split: if_splits)
  with assms(2) fold [of "[]" ?rows] obtain row where
    row: "row \<in> set ?rows" "name = fst row" "row_table row = Some ct"
    by (auto split: if_splits)
  have "name \<in> set kept" "snd row = change_row cat (the (renderRelationName name))"
    using row(1,2) by (auto simp: in_set_zip dest: nth_mem)
  moreover obtain i schema tname rs rn
    where "change_row cat (the (renderRelationName name)) = (i, schema, tname, rs, rn)"
    using prod_cases5 by blast
  moreover have "row = (name, snd row)" using row(2) by simp
  ultimately have "name \<in> set names" "renderRelationName name = Some (the (renderRelationName name))"
    "change_row cat (the (renderRelationName name)) = (i, schema, tname, rs, rn)"
    "changeTable name i schema tname rs rn = Some ct"
    using row(2,3) by (auto simp: kept_def row_table_def case_prod_beta)
  then show ?thesis by (rule that)
qed

lemma change_row_table:
  assumes "catalog_wf cat" "joined cat (cat_to_regclass cat input) = Some i"
    "change_row cat input = (t, schema, tname, rs, rn)"
  shows "t \<noteq> 0 \<and> (\<exists>c. cat_class cat t = Some c \<and> schema = pc_nspname c \<and> tname = pc_relname c) \<and>
    t = (case cat_indrelid cat i of None \<Rightarrow> i | Some p \<Rightarrow> p)"
proof -
  define t' where "t' = (case cat_indrelid cat i of None \<Rightarrow> i | Some p \<Rightarrow> p)"
  obtain c where c: "cat_class cat t' = Some c"
    using joined_SomeD [OF assms(2)] assms(1)
    by (cases "cat_indrelid cat i") (auto simp: t'_def catalog_wf_def)
  have "joined cat (case cat_indrelid cat i of None \<Rightarrow> Some i | Some p \<Rightarrow> Some p) = Some t'"
    using c by (cases "cat_indrelid cat i") (auto simp: t'_def joined_def)
  with assms(2,3) c have "t = t'" "schema = pc_nspname c" "tname = pc_relname c"
    by (auto simp: change_row_def Let_def class_columns_def case_prod_beta)
  moreover have "t' \<noteq> 0" using c assms(1) by (auto simp: catalog_wf_def)
  ultimately show ?thesis using c t'_def by simp
qed

lemma qualified_change_table:
  assumes "target_input name = Inr (input, q)" "changeTable name 0 schema tname rs rn = Some ct"
  shows "\<exists>u. q = Some u \<and> ct_Table ct = Canonical u"
  using assms
  by (auto simp: target_input_def changeTable_def Canonical_def ebind_Inr_iff
      split: sum.splits if_splits list.splits)

lemma name_targets_change_table:
  assumes wf: "catalog_wf cat" and r: "target_input name = Inr r" "name_targets cat n r = Inr us"
    and ct: "change_row cat (fst r) = (t, schema, tname, rs, rn)"
      "changeTable name t schema tname rs rn = Some ct"
  shows "\<exists>u\<in>set us. Canonical u = ct_Table ct"
proof (cases "joined cat (cat_to_regclass cat (fst r))")
  case None
  then have "rr_oid (resolve_row cat (n, fst r)) = 0" "t = 0"
    using ct(1) by (simp_all add: resolve_row_def change_row_def class_columns_def)
  moreover have "scanResolvedTarget (resolve_row cat (n, fst r)) (\<lambda>_. snd r) = Inr us"
    using r(2) by (simp add: name_targets_def case_prod_beta)
  moreover obtain u where "snd r = Some u" "ct_Table ct = Canonical u"
    using qualified_change_table [of name "fst r" "snd r" schema tname rs rn ct] r(1) ct(2) \<open>t = 0\<close>
    by auto
  ultimately show ?thesis by (auto simp: scanResolvedTarget_def)
next
  case (Some i)
  note t = change_row_table [OF wf Some ct(1)]
  then obtain c where c: "cat_class cat t = Some c" "schema = pc_nspname c" "tname = pc_relname c"
    by blast
  have table: "ct_Table ct = canonical_name (pc_nspname c) (pc_relname c)"
    using ct(2) t c by (auto simp: changeTable_def word_neq_0_conv split: if_splits)
  have scan: "scanResolvedTarget (resolve_row cat (n, fst r)) (\<lambda>_. snd r) = Inr us"
    using r(2) by (simp add: name_targets_def case_prod_beta)
  have "i \<noteq> 0" using joined_SomeD [OF Some] wf by (auto simp: catalog_wf_def)
  then obtain ci where ci: "cat_class cat i = Some ci" "i \<noteq> 0"
    using joined_SomeD [OF Some] by auto
  let ?row = "resolve_row cat (n, fst r)"
  have row: "rr_oid ?row = i" "rr_schema ?row = pc_nspname ci" "rr_name ?row = pc_relname ci"
    using Some ci by (simp_all add: resolve_row_def class_columns_def case_prod_beta Let_def)
  show ?thesis
  proof (cases "cat_indrelid cat i")
    case None
    with t c ci have "t = i" "ci = c" by auto
    with scan row ci show ?thesis
      by (auto simp: scanResolvedTarget_def table Canonical_def)
  next
    case (Some p)
    with t have p: "t = p" "p > 0" by (auto simp: word_neq_0_conv)
    have "rr_parentOID ?row = p" "rr_parentSchema ?row = pc_nspname c" "rr_parentName ?row = pc_relname c"
      using Some \<open>joined cat (cat_to_regclass cat (fst r)) = Some i\<close> c p
      by (simp_all add: resolve_row_def class_columns_def case_prod_beta Let_def)
    with scan row(1) ci p show ?thesis
      by (auto simp: scanResolvedTarget_def table Canonical_def)
  qed
qed

text \<open>
  A change never modifies a table outside its lease. When one catalog answers both
  resolutions, the table that the verification tracker attributes to a name (an index counts as its
  table) is, by its canonical name, one of the keys the change leases for the same names.\<close>

theorem change_table_leased:
  assumes "catalog_wf cat" "ResolveTypedTargets (Some (Inr cat)) names = Inr ts"
    and "ResolveChangeTables (Some (Inr cat)) names = Inr tables" "(name, ct) \<in> set tables"
  shows "ct_Table ct \<in> set (TypedLeaseKeys ts)"
proof -
  obtain input t schema tname rs rn where e: "name \<in> set names"
      "renderRelationName name = Some input" "change_row cat input = (t, schema, tname, rs, rn)"
      "changeTable name t schema tname rs rn = Some ct"
    by (rule ResolveChangeTables_entry [OF assms(3,4)])
  obtain r n us where r: "target_input name = Inr r" "name_targets cat n r = Inr us"
    and k: "\<forall>u\<in>set us. set (LeaseKeys u) \<subseteq> set (TypedLeaseKeys ts)"
    by (rule ResolveTypedTargets_names [OF assms(2) e(1)])
  have "fst r = input"
    using e(2) r(1) by (auto simp: renderRelationName_input)
  with e name_targets_change_table [OF assms(1) r, of t schema tname rs rn ct]
  obtain u where "u \<in> set us" "Canonical u = ct_Table ct" by auto
  with k show ?thesis by (fastforce simp: LeaseKeys_def)
qed

theorem change_table_leased_witness:
  "ct_Table \<lparr>ct_Table = ''public.t'', ct_Root = []\<rparr> \<in> set (TypedLeaseKeys [ex_idx, ex_table])"
proof -
  have tables: "ResolveChangeTables (Some (Inr ex_catalog)) [''t_idx''] =
      Inr [(''t_idx'', \<lparr>ct_Table = ''public.t'', ct_Root = []\<rparr>)]"
    by code_simp
  have wf: "catalog_wf ex_catalog" by (simp add: catalog_wf_def ex_catalog_def)
  show ?thesis
    by (rule change_table_leased [OF wf ex_resolved(2) tables list.set_intros(1)])
qed

text \<open>
  The name of a table written in quotes does not have the canonical form the typed targets
  use: the documented form of a canonical name keeps a lower-case identifier bare, but
  normalizing the quoted spelling of a lower-case table keeps the quotes, so its key is none of
  the keys of a typed lease of the same table.\<close>

theorem quoted_name_misses_lease:
  "let quoted = quoteIdentifier ''public'' @ ''.'' @ quoteIdentifier ''t'' in
   ResolveTypedTargets (Some (Inr ex_catalog)) [quoted] = Inr [ex_table] \<and>
   NormalizeTargetObjects [quoted] =
     Inr [\<lparr>to_Schema = tt_Schema ex_table, to_Name = tt_Name ex_table, to_Canonical = quoted\<rparr>] \<and>
   quoted \<noteq> Canonical ex_table \<and> quoted \<notin> set (TypedLeaseKeys [ex_table])"
  by code_simp

end
