(* ===== verification/Lease_Props.thy ===== *)
theory Lease_Props
  imports Lease_Manager Target_Props
begin

text \<open>
  What a lease guarantees. Statements of other sessions never take a session's advisory locks
  away and never give one key to two sessions; a call that fails leaves its session's locks as
  they were, so a pooled connection carries no lock of an earlier lease; and while a lease is held
  no other call can lease an object it covers.
\<close>

subsection \<open>The lock table\<close>

definition own :: "session \<Rightarrow> lease_db \<Rightarrow> (int \<times> session) list" where
  "own c db = filter (\<lambda>(_, c'). c' = c) (ld_locks db)"

definition exclusive :: "lease_db \<Rightarrow> bool" where
  "exclusive db \<longleftrightarrow>
     (\<forall>k c c'. (k, c) \<in> set (ld_locks db) \<and> (k, c') \<in> set (ld_locks db) \<longrightarrow> c = c')"

lemma own_mem: "(k, c) \<in> set (own c db) \<longleftrightarrow> (k, c) \<in> set (ld_locks db)"
  by (auto simp: own_def)

lemma filter_remove1_other:
  "\<not> P x \<Longrightarrow> filter P (remove1 x xs) = filter P xs"
  by (induction xs) auto

lemma filter_remove1_same: "P x \<Longrightarrow> filter P (remove1 x xs) = remove1 x (filter P xs)"
  by (induction xs) auto

lemma unlock_own_other [simp]: "c' \<noteq> c \<Longrightarrow> own c (pg_advisory_unlock c' k db) = own c db"
  by (simp add: own_def pg_advisory_unlock_def filter_remove1_other)

lemma unlock_own: "own c (pg_advisory_unlock c k db) = remove1 (k, c) (own c db)"
  by (simp add: own_def pg_advisory_unlock_def filter_remove1_same)

lemma lock_own_other [simp]: "c' \<noteq> c \<Longrightarrow> own c (snd (pg_try_advisory_lock c' k db)) = own c db"
  by (simp add: own_def pg_try_advisory_lock_def)

lemma lock_own:
  "pg_try_advisory_lock c k db = (b, db') \<Longrightarrow> own c db' = (if b then (k, c) # own c db else own c db)"
  by (auto simp: own_def pg_try_advisory_lock_def split: if_splits)

lemma exclusive_unlock [simp]: "exclusive db \<Longrightarrow> exclusive (pg_advisory_unlock c k db)"
  unfolding exclusive_def pg_advisory_unlock_def
  by (auto dest: set_remove1_subset [THEN subsetD])

lemma exclusive_lock: "exclusive db \<Longrightarrow> exclusive (snd (pg_try_advisory_lock c k db))"
  unfolding exclusive_def pg_try_advisory_lock_def by (auto simp: list_ex_iff)

lemma locks_frame [simp]:
  "ld_locks (sql_reclaim_expired db) = ld_locks db"
  "ld_locks (snd (sql_insert_lease row db)) = ld_locks db"
  "ld_locks (sql_release_holder holder db) = ld_locks db"
  "ld_locks (sql_sweep databaseID db) = ld_locks db"
  "ld_locks (snd (sql_resume databaseID rk inst d a stale db)) = ld_locks db"
  "ld_locks (snd (sql_insert_entry qrow db)) = ld_locks db"
  "ld_locks (snd (sql_position databaseID i db)) = ld_locks db"
  "ld_locks (sql_resolve i st db) = ld_locks db"
  by (simp_all add: sql_reclaim_expired_def sql_insert_lease_def sql_release_holder_def
      sql_sweep_def sql_resume_def sql_insert_entry_def sql_position_def sql_resolve_def Let_def)

lemma own_frame: "ld_locks db' = ld_locks db \<Longrightarrow> own c db' = own c db"
  by (simp add: own_def)

lemma exclusive_frame: "ld_locks db' = ld_locks db \<Longrightarrow> exclusive db' \<longleftrightarrow> exclusive db"
  by (simp add: exclusive_def)

lemma other_step_keeps:
  assumes "other_step c db db'"
  shows "own c db' = own c db \<and> (exclusive db \<longrightarrow> exclusive db')"
  using assms
proof cases
  case (step_lock c' k)
  then show ?thesis by (simp add: exclusive_lock)
next
  case (step_unlock c' k)
  then show ?thesis by simp
next
  case (step_end c')
  then show ?thesis by (auto simp: own_def session_end_def exclusive_def intro!: filter_cong)
qed (simp_all add: own_def exclusive_def)

lemma others_keep:
  assumes "others c db db'"
  shows "own c db' = own c db" "exclusive db \<Longrightarrow> exclusive db'"
  using assms by (induction) (auto dest: other_step_keeps)

subsection \<open>Statements among other sessions\<close>

definition among :: "session \<Rightarrow> lease_world \<Rightarrow> bool" where
  "among c w \<longleftrightarrow> script_for c (lw_script w) \<and> exclusive (lw_db w)"

lemma next_event_keeps:
  assumes "next_event w = (e, w')" "among c w"
  shows "own c (lw_db w') = own c (lw_db w) \<and> among c w'"
proof (cases "lw_script w")
  case Nil
  with assms show ?thesis by (simp add: next_event_def)
next
  case (Cons x xs)
  with assms(2) have o: "others c (lw_db w) (ev_others x (lw_db w))"
    by (simp add: among_def script_for_def)
  with assms Cons others_keep [OF o] show ?thesis
    by (auto simp: next_event_def among_def script_for_def)
qed

text \<open>An operation of a call that leaves its session's advisory locks alone.\<close>

locale lock_neutral =
  fixes oper :: "lease_world \<Rightarrow> 'r \<times> lease_world"
  assumes neutral: "among c w \<Longrightarrow> oper w = (r, w') \<Longrightarrow>
    own c (lw_db w') = own c (lw_db w) \<and> among c w'"
begin

lemma keeps_own: "among c w \<Longrightarrow> oper w = (r, w') \<Longrightarrow> own c (lw_db w') = own c (lw_db w)"
  using neutral by blast

lemma keeps_among: "among c w \<Longrightarrow> oper w = (r, w') \<Longrightarrow> among c w'"
  using neutral by blast

lemma snd_neutral: "among c w \<Longrightarrow> own c (lw_db (snd (oper w))) = own c (lw_db w) \<and> among c (snd (oper w))"
  using neutral [of c w "fst (oper w)" "snd (oper w)"] by simp

end

lemma stmt_cases:
  assumes "stmt f w = (r, w')"
  obtains (fault) e x where "next_event w = (e, w')" "r = Inl x"
    | (ok) e w1 a db where "next_event w = (e, w1)" "f (lw_db w1) = (a, db)" "r = Inr a"
        "w' = w1\<lparr>lw_db := db\<rparr>"
  using assms by (auto simp: stmt_def split: prod.splits option.splits)

lemma stmt_neutral:
  assumes "stmt f w = (r, w')" "among c w" "\<And>db. ld_locks (snd (f db)) = ld_locks db"
  shows "own c (lw_db w') = own c (lw_db w) \<and> among c w'"
  using assms(1)
proof (cases rule: stmt_cases)
  case (fault e x)
  then show ?thesis using next_event_keeps assms(2) by blast
next
  case (ok e w1 a db)
  have "ld_locks db = ld_locks (lw_db w1)" using assms(3) [of "lw_db w1"] ok(2) by simp
  moreover have "own c (lw_db w1) = own c (lw_db w) \<and> among c w1"
    using next_event_keeps [OF ok(1) assms(2)] .
  ultimately show ?thesis
    using ok(4) by (simp add: among_def own_frame [of db] exclusive_frame [of db])
qed

interpretation connecting: lock_neutral acquireConn
proof
  fix c w r w' assume "among c w" "acquireConn w = (r, w')"
  moreover from this(2) have "w' = snd (next_event w)"
    by (auto simp: acquireConn_def split: prod.splits conn_answer.splits)
  ultimately show "own c (lw_db w') = own c (lw_db w) \<and> among c w'"
    using next_event_keeps by (metis prod.collapse)
qed

interpretation naming: lock_neutral newLeaseID
proof
  fix c w r w' assume "among c w" "newLeaseID w = (r, w')"
  moreover from this(2) have "w' = snd (next_event w)"
    by (auto simp: newLeaseID_def split: prod.splits sum.splits)
  ultimately show "own c (lw_db w') = own c (lw_db w) \<and> among c w'"
    using next_event_keeps by (metis prod.collapse)
qed

interpretation conflict: lock_neutral "conflict m key" for m key
proof
  fix c w r w' assume a: "among c w" "conflict m key w = (r, w')"
  then obtain x where "stmt (\<lambda>db. (sql_conflict_holder (lm_databaseID m) key db, db)) w = (x, w')"
    by (auto simp: conflict_def Let_def split: prod.splits sum.splits option.splits)
  then show "own c (lw_db w') = own c (lw_db w) \<and> among c w'"
    by (rule stmt_neutral [OF _ a(1)]) simp_all
qed

interpretation reclaiming: lock_neutral "exec sql_reclaim_expired"
  unfolding exec_def by unfold_locales (erule stmt_neutral, simp_all)

interpretation releasing: lock_neutral "exec (sql_release_holder i)" for i
  unfolding exec_def by unfold_locales (erule stmt_neutral, simp_all)

interpretation inserting: lock_neutral "stmt (\<lambda>db. sql_insert_lease (row db) db)" for row
  by unfold_locales (erule stmt_neutral, simp_all)

subsection \<open>Taking and giving back locks\<close>

lemma unlock_keeps:
  assumes "among c w"
  shows "own c (lw_db (unlock c k w)) = remove1 (k, c) (own c (lw_db w)) \<and> among c (unlock c k w)"
proof -
  obtain e w1 where e: "next_event w = (e, w1)" by fastforce
  from next_event_keeps [OF this assms] show ?thesis
    by (simp add: unlock_def e unlock_own among_def)
qed

lemma releaseAdvisoryLocks_own:
  assumes "among c w" "own c (lw_db w) = map (\<lambda>k. (k, c)) (rev ks) @ base"
  shows "own c (lw_db (releaseAdvisoryLocks c ks w)) = base \<and> among c (releaseAdvisoryLocks c ks w)"
proof -
  have "own c (lw_db w) = map (\<lambda>k. (k, c)) ls @ base \<Longrightarrow> among c w \<Longrightarrow>
      own c (lw_db (foldl (\<lambda>w k. unlock c k w) w ls)) = base \<and>
      among c (foldl (\<lambda>w k. unlock c k w) w ls)" for ls w
    using unlock_keeps by (induction ls arbitrary: w) auto
  with assms show ?thesis by (simp add: releaseAdvisoryLocks_def)
qed

lemma try_lock_stmt:
  assumes "stmt (pg_try_advisory_lock c k) w = (r, w')" "among c w"
  shows "among c w' \<and>
    own c (lw_db w') = (if r = Inr True then (k, c) # own c (lw_db w) else own c (lw_db w))"
  using assms(1)
proof (cases rule: stmt_cases)
  case (fault e x)
  then show ?thesis using next_event_keeps [OF fault(1) assms(2)] by simp
next
  case (ok e w1 a db)
  have "own c (lw_db w1) = own c (lw_db w) \<and> among c w1"
    using next_event_keeps [OF ok(1) assms(2)] .
  moreover have "own c db = (if a then (k, c) # own c (lw_db w1) else own c (lw_db w1))"
    using lock_own [OF ok(2)] .
  moreover have "exclusive (lw_db w1) \<Longrightarrow> exclusive db"
    using exclusive_lock [of "lw_db w1" c k] ok(2) by simp
  ultimately show ?thesis using ok by (auto simp: among_def)
qed

lemma acquireLoop_own:
  assumes "acquireLoop m c keys held w = (r, w')" "among c w"
    "own c (lw_db w) = map (\<lambda>k. (k, c)) (rev held) @ base"
  shows "among c w' \<and> (case r of
      Inl _ \<Rightarrow> own c (lw_db w') = base
    | Inr held' \<Rightarrow> held' = held @ map (advisoryObjectKey \<circ> lk_key) keys \<and>
        own c (lw_db w') = map (\<lambda>k. (k, c)) (rev held') @ base)"
  using assms
proof (induction keys arbitrary: held w)
  case Nil
  then show ?case by auto
next
  case (Cons key keys)
  let ?k = "advisoryObjectKey (lk_key key)"
  obtain x w1 where x: "stmt (pg_try_advisory_lock c ?k) w = (x, w1)" by fastforce
  note t = try_lock_stmt [OF x Cons.prems(2)]
  show ?case
  proof (cases "x = Inr True")
    case True
    have "acquireLoop m c keys (held @ [?k]) w1 = (r, w')"
      using Cons.prems(1) x True by simp
    from Cons.IH [OF this] t True Cons.prems(3) show ?thesis
      by (auto split: sum.splits)
  next
    case False
    let ?w2 = "releaseAdvisoryLocks c held w1"
    have w2: "own c (lw_db ?w2) = base \<and> among c ?w2"
      using t False Cons.prems(3) by (intro releaseAdvisoryLocks_own) auto
    obtain e w3 where e: "conflict m (lk_key key) ?w2 = (e, w3)" by fastforce
    then have "own c (lw_db w3) = base \<and> among c w3"
      using w2 conflict.neutral by auto
    with w2 e False Cons.prems(1) x show ?thesis
      by (auto split: sum.splits if_splits)
  qed
qed

lemma persistLoop_neutral:
  "among c w \<Longrightarrow> persistLoop m i actor keys intent w = (r, w') \<Longrightarrow>
    own c (lw_db w') = own c (lw_db w) \<and> among c w'"
proof (induction keys arbitrary: w)
  case Nil
  then show ?case by simp
next
  case (Cons key keys)
  let ?ins = "stmt (\<lambda>db. sql_insert_lease (lease_row_of m i actor key intent (ld_now db)) db)"
  obtain x w1 where x: "?ins w = (x, w1)" by fastforce
  note w1 = inserting.neutral [OF Cons.prems(1) x]
  then have w2: "own c (lw_db (snd (exec (sql_release_holder i) w1))) = own c (lw_db w) \<and>
      among c (snd (exec (sql_release_holder i) w1))"
    using releasing.snd_neutral by metis
  show ?case
  proof (cases "x = Inr True")
    case True
    with Cons.prems(2) x have "persistLoop m i actor keys intent w1 = (r, w')" by simp
    from Cons.IH [OF _ this] w1 show ?thesis by simp
  next
    case False
    with Cons.prems(2) x w2 conflict.neutral show ?thesis
      by (auto split: sum.splits if_splits prod.splits)
  qed
qed

interpretation persisting: lock_neutral "persistLease m i actor keys intent" for m i actor keys intent
proof
  fix c w r w' assume a: "among c w" "persistLease m i actor keys intent w = (r, w')"
  obtain x w1 where x: "exec sql_reclaim_expired w = (x, w1)" by fastforce
  with reclaiming.neutral [OF a(1) x] a(2) persistLoop_neutral
  show "own c (lw_db w') = own c (lw_db w) \<and> among c w'"
    by (auto simp: persistLease_def split: sum.splits)
qed

subsection \<open>A whole call\<close>

definition lease_locks :: "session \<Rightarrow> leaseKey list \<Rightarrow> (int \<times> session) list" where
  "lease_locks c keys = map (\<lambda>key. (advisoryObjectKey (lk_key key), c)) (rev keys)"

lemma lease_locks_held: "map (\<lambda>k. (k, c)) (rev (map (advisoryObjectKey \<circ> lk_key) keys)) = lease_locks c keys"
  by (simp add: lease_locks_def rev_map comp_def)

lemma finishAcquire_own:
  assumes "finishAcquire m c held actor keys intent w = (r, m', w')" "among c w"
    "own c (lw_db w) = map (\<lambda>k. (k, c)) (rev held) @ base"
  shows "among c w' \<and> (case r of
      Inl _ \<Rightarrow> own c (lw_db w') = base \<and> m' = m
    | Inr i \<Rightarrow> own c (lw_db w') = own c (lw_db w) \<and>
        map_of (lm_held m') i = Some \<lparr>hl_conn = c, hl_keys = held\<rparr>)"
proof -
  obtain x w1 where x: "newLeaseID w = (x, w1)" by fastforce
  note n = naming.neutral [OF assms(2) x]
  show ?thesis
  proof (cases x)
    case (Inl e)
    with n x assms releaseAdvisoryLocks_own [of c w1 held base] show ?thesis
      by (auto simp: finishAcquire_def)
  next
    case (Inr i)
    obtain y w2 where y: "persistLease m i actor keys intent w1 = (y, w2)" by fastforce
    with persisting.neutral [OF _ y] n have w2: "own c (lw_db w2) = own c (lw_db w)" "among c w2"
      by auto
    with x y Inr assms releaseAdvisoryLocks_own [of c w2 held base] show ?thesis
      by (auto simp: finishAcquire_def update_conv' split: option.splits)
  qed
qed

lemma acquireKeys_own:
  assumes "acquireKeys m actor keys intent w = (r, m', w')" "fst (acquireConn w) = Inr c" "among c w"
  shows "among c w' \<and> (case r of
      Inl _ \<Rightarrow> own c (lw_db w') = own c (lw_db w) \<and> m' = m
    | Inr i \<Rightarrow> own c (lw_db w') = lease_locks c keys @ own c (lw_db w) \<and>
        map_of (lm_held m') i =
          Some \<lparr>hl_conn = c, hl_keys = map (advisoryObjectKey \<circ> lk_key) keys\<rparr>)"
proof (cases "validateAcquire m actor (length keys) intent")
  case (Some e)
  with assms show ?thesis by (auto simp: acquireKeys_def)
next
  case None
  obtain w1 where w1: "acquireConn w = (Inr c, w1)" using assms(2) by (metis prod.collapse)
  note n = connecting.neutral [OF assms(3) w1]
  obtain x w2 where x: "acquireAdvisoryLocks m c keys w1 = (x, w2)" by fastforce
  have loop: "among c w2 \<and> (case x of Inl _ \<Rightarrow> own c (lw_db w2) = own c (lw_db w)
      | Inr held \<Rightarrow> held = map (advisoryObjectKey \<circ> lk_key) keys \<and>
          own c (lw_db w2) = map (\<lambda>k. (k, c)) (rev held) @ own c (lw_db w))"
    using acquireLoop_own [of m c keys "[]" w1 x w2 "own c (lw_db w)"] n x
    by (auto simp: acquireAdvisoryLocks_def split: sum.splits)
  show ?thesis
  proof (cases x)
    case (Inl e)
    with loop assms(1) None w1 x show ?thesis by (auto simp: acquireKeys_def)
  next
    case (Inr held)
    with assms(1) None w1 x have f: "finishAcquire m c held actor keys intent w2 = (r, m', w')"
      by (simp add: acquireKeys_def)
    from finishAcquire_own [OF f, of "own c (lw_db w)"] loop Inr show ?thesis
      by (auto simp: lease_locks_held [unfolded comp_def] comp_def split: sum.splits)
  qed
qed


subsection \<open>Exclusion\<close>

lemma try_lock_other:
  assumes "stmt (pg_try_advisory_lock c' k) w = (r, w')" "among c w" "c' \<noteq> c"
  shows "own c (lw_db w') = own c (lw_db w) \<and> among c w' \<and>
    ((k, c) \<in> set (own c (lw_db w)) \<longrightarrow> r \<noteq> Inr True)"
  using assms(1)
proof (cases rule: stmt_cases)
  case (fault e x)
  then show ?thesis using next_event_keeps [OF fault(1) assms(2)] by simp
next
  case (ok e w1 a db)
  have n: "own c (lw_db w1) = own c (lw_db w) \<and> among c w1"
    using next_event_keeps [OF ok(1) assms(2)] .
  have db: "db = snd (pg_try_advisory_lock c' k (lw_db w1))" using ok(2) by simp
  have "own c db = own c (lw_db w1)" "exclusive db"
    unfolding db using n assms(3) by (simp_all add: exclusive_lock among_def)
  moreover have "(k, c) \<in> set (own c (lw_db w1)) \<Longrightarrow> \<not> a"
    using ok(2) assms(3) by (auto simp: own_mem pg_try_advisory_lock_def list_ex_iff split: if_splits)
  ultimately show ?thesis using ok n by (auto simp: among_def)
qed

lemma acquireLoop_blocked:
  assumes "among c w" "c' \<noteq> c" "key \<in> set keys"
    "(advisoryObjectKey (lk_key key), c) \<in> set (own c (lw_db w))"
  shows "\<exists>e. fst (acquireLoop m c' keys held w) = Inl e"
  using assms
proof (induction keys arbitrary: held w)
  case Nil
  then show ?case by simp
next
  case (Cons k ks)
  obtain x w1 where x: "stmt (pg_try_advisory_lock c' (advisoryObjectKey (lk_key k))) w = (x, w1)"
    by fastforce
  note t = try_lock_other [OF x Cons.prems(1,2)]
  show ?case
  proof (cases "x = Inr True")
    case True
    with t Cons.prems have "key \<in> set ks" by auto
    with Cons.IH [of w1] t Cons.prems True x show ?thesis by simp
  next
    case False
    with x show ?thesis by (auto split: sum.splits if_splits prod.splits)
  qed
qed

lemma held_lease_blocks:
  assumes "acquireKeys m actor keys intent w = (Inr i, m', w')" "fst (acquireConn w) = Inr c" "among c w"
    and "others c (lw_db w') (lw_db v)" "script_for c (lw_script v)"
    and "fst (acquireConn v) = Inr c'" "c' \<noteq> c"
    and "key \<in> set keys" "key' \<in> set keys'" "lk_key key = lk_key key'"
  shows "\<exists>e. fst (acquireKeys m2 actor2 keys' intent2 v) = Inl e"
proof -
  note a = acquireKeys_own [OF assms(1-3), unfolded sum.case]
  have v: "among c v" using a others_keep(2) [OF assms(4)] assms(5) by (simp add: among_def)
  obtain v1 where v1: "acquireConn v = (Inr c', v1)" using assms(6) by (metis prod.collapse)
  note n = connecting.neutral [OF v v1]
  have "(advisoryObjectKey (lk_key key'), c) \<in> set (own c (lw_db v1))"
    using a n others_keep(1) [OF assms(4)] assms(8,10)
    by (auto simp: lease_locks_def intro: image_eqI [where x = key])
  with acquireLoop_blocked [OF _ assms(7,9)] n
  obtain e v2 where "acquireAdvisoryLocks m2 c' keys' v1 = (Inl e, v2)"
    by (metis acquireAdvisoryLocks_def prod.collapse)
  with v1 show ?thesis
    by (cases "validateAcquire m2 actor2 (length keys') intent2") (simp_all add: acquireKeys_def)
qed

text \<open>
  C11: While a lease is held, no other session can lease a relation it touches. Take a change that
  resolved its names and got a typed lease on its session, and let other sessions do anything
  meanwhile; then a second change, on any other session and for any database catalog it saw, whose
  names touch a relation of the first (the same table, an index of it, another spelling, or the
  table renamed) gets an error and no lease.\<close>

theorem touching_changes_exclude:
  assumes "ResolveTypedTargets (Some (Inr cat)) names = Inr targets" "n \<in> set names"
    and "ResolveTypedTargets (Some (Inr cat')) names' = Inr targets'" "n' \<in> set names'"
    and "i \<in> touched cat n" "i \<in> touched cat' n'"
    and "AcquireTyped m actor targets intent w = (Inr lease, m', w')"
      "fst (acquireConn w) = Inr c" "among c w"
    and "others c (lw_db w') (lw_db v)" "script_for c (lw_script v)"
      "fst (acquireConn v) = Inr c'" "c' \<noteq> c"
  shows "\<exists>e. fst (AcquireTyped m2 actor2 targets' intent2 v) = Inl e"
proof -
  obtain k where "k \<in> lk_key ` set (typedKeys targets)" "k \<in> lk_key ` set (typedKeys targets')"
    using resolve_covers [OF assms(1,2,5)] resolve_covers [OF assms(3,4,6)]
    by (metis list.set_map typedKeys_keys)
  then obtain a b where "a \<in> set (typedKeys targets)" "b \<in> set (typedKeys targets')" "lk_key a = lk_key b"
    by auto
  with held_lease_blocks [OF assms(7) [unfolded AcquireTyped_def] assms(8-13)]
  show ?thesis unfolding AcquireTyped_def by blast
qed

subsection \<open>An example\<close>

definition ex_manager :: PostgresLeaseManager where
  "ex_manager = NewPostgresLeaseManager True None 7 (10 * second)"

definition ex_event :: "session \<Rightarrow> event" where
  "ex_event c = quiet\<lparr>ev_conn := GotConn c, ev_rand := Inr [1, 2]\<rparr>"

definition ex_world :: "session \<Rightarrow> lease_db \<Rightarrow> lease_world" where
  "ex_world c db = \<lparr>lw_db = db, lw_ctx = None, lw_script = replicate 8 (ex_event c)\<rparr>"

definition ex_lease :: "(lease_error + string) \<times> PostgresLeaseManager \<times> lease_world" where
  "ex_lease = AcquireTyped ex_manager ''agent'' [ex_table] ''reindex'' (ex_world 1 lease_db0)"

lemma ex_script: "script_for c (replicate n (ex_event c'))"
  by (simp add: script_for_def ex_event_def quiet_def)

lemma ex_conn: "acquireConn (ex_world c db) = (Inr c, (ex_world c db)\<lparr>lw_script := replicate 7 (ex_event c)\<rparr>)"
  by (simp add: acquireConn_def next_event_def ex_world_def ex_event_def quiet_def eval_nat_numeral)

lemma ex_among: "exclusive db \<Longrightarrow> among c (ex_world c' db)"
  by (simp add: among_def ex_world_def ex_script)

lemma ex_keys:
  "typedKeys [ex_table] =
     [\<lparr>lk_key = ''oid:5'', lk_kind = ''table'', lk_oid = 5, lk_name = ''public.t''\<rparr>,
      \<lparr>lk_key = ''public.t'', lk_kind = ''table'', lk_oid = 5, lk_name = ''public.t''\<rparr>]"
  by code_simp

lemma ex_lease_ok: "fst ex_lease = Inr ''lease_0102''"
proof -
  have id: "EncodeToString [1, 2] = ''0102''" by code_simp
  have v: "validateAcquire ex_manager ''agent'' (Suc (Suc 0)) ''reindex'' = None" by code_simp
  show ?thesis
    by (simp add: ex_lease_def AcquireTyped_def ex_keys acquireKeys_def v acquireConn_def ex_world_def
        acquireAdvisoryLocks_def stmt_def exec_def next_event_def ex_event_def quiet_def lease_db0_def
        pg_try_advisory_lock_def finishAcquire_def newLeaseID_def id persistLease_def
        sql_reclaim_expired_def sql_insert_lease_def lease_row_of_def Let_def eval_nat_numeral)
qed

lemma exclusive_db0: "exclusive lease_db0"
  by (simp add: exclusive_def lease_db0_def)

theorem touching_changes_exclude_witness:
  "\<exists>e. fst (AcquireTyped ex_manager ''operator'' [ex_idx, ex_table] ''drop''
     (ex_world 2 (lw_db (snd (snd ex_lease))))) = Inl e"
proof -
  obtain m' w' where l: "ex_lease = (Inr ''lease_0102'', m', w')"
    using ex_lease_ok by (metis prod.collapse)
  show ?thesis
    unfolding l fst_conv snd_conv
    by (rule touching_changes_exclude [OF ex_resolved(1) _ ex_resolved(2) _ ex_touched
          l [unfolded ex_lease_def]])
       (simp_all add: ex_conn ex_among exclusive_db0, simp_all add: ex_world_def ex_script)
qed


end
