(* ===== verification/Lease_Steps.thy ===== *)
theory Lease_Steps
  imports Lease_Queue Lease_Props
begin

text \<open>
  Every operation of the lease manager and of the lease queue changes the database only by
  sequences of the statements that any session may run, whatever the other sessions do in between:
  an invariant of the statements is an invariant of the operations.
\<close>

subsection \<open>Statements of any session\<close>

definition any_step :: "lease_db \<Rightarrow> lease_db \<Rightarrow> bool" where
  "any_step db db' \<longleftrightarrow> (\<exists>c. other_step c db db')"

abbreviation any_steps :: "lease_db \<Rightarrow> lease_db \<Rightarrow> bool" where
  "any_steps \<equiv> any_step\<^sup>*\<^sup>*"

definition open_script :: "event list \<Rightarrow> bool" where
  "open_script es \<longleftrightarrow> (\<forall>e\<in>set es. \<forall>db. any_steps db (ev_others e db))"

lemma others_any: "others c db db' \<Longrightarrow> any_steps db db'"
proof (induction rule: rtranclp_induct)
  case (step y z)
  then have "any_step y z" by (auto simp: any_step_def)
  with step.IH show ?case by simp
qed simp

lemma script_for_open: "script_for c es \<Longrightarrow> open_script es"
  unfolding script_for_def open_script_def using others_any by blast

lemma any_stepI:
  "any_step db (snd (pg_try_advisory_lock c k db))"
  "any_step db (pg_advisory_unlock c k db)"
  "any_step db (sql_reclaim_expired db)"
  "any_step db (snd (sql_insert_lease row db))"
  "any_step db (sql_release_holder holder db)"
  "any_step db (sql_sweep databaseID db)"
  "any_step db (snd (sql_resume databaseID rk inst d a stale db))"
  "any_step db (snd (sql_insert_entry qrow db))"
  "any_step db (snd (sql_position databaseID i db))"
  "st \<noteq> QueueWaiting \<Longrightarrow> any_step db (sql_resolve i st db)"
proof -
  have "c \<noteq> Suc c" by simp
  then show "any_step db (snd (pg_try_advisory_lock c k db))" "any_step db (pg_advisory_unlock c k db)"
    unfolding any_step_def using other_step.step_lock other_step.step_unlock by blast+
qed (auto simp: any_step_def intro: other_step.intros)

text \<open>An operation whose effect on the database is a sequence of statements.\<close>

locale stepping =
  fixes oper :: "lease_world \<Rightarrow> 'r \<times> lease_world"
  assumes steps: "open_script (lw_script w) \<Longrightarrow> oper w = (r, w') \<Longrightarrow>
    any_steps (lw_db w) (lw_db w') \<and> open_script (lw_script w')"
begin

lemma reaches: "open_script (lw_script w) \<Longrightarrow> any_steps (lw_db w) (lw_db (snd (oper w)))"
  using steps [of w "fst (oper w)" "snd (oper w)"] by simp

lemma keeps_script: "open_script (lw_script w) \<Longrightarrow> open_script (lw_script (snd (oper w)))"
  using steps [of w "fst (oper w)" "snd (oper w)"] by simp

lemma keeps_invariant:
  assumes "\<And>db db'. any_step db db' \<Longrightarrow> I db \<Longrightarrow> I db'" "open_script (lw_script w)" "I (lw_db w)"
  shows "I (lw_db (snd (oper w)))"
  using reaches [OF assms(2)] assms(3) by (induction) (auto intro: assms(1))

end

lemma next_event_steps:
  "open_script (lw_script w) \<Longrightarrow> next_event w = (e, w') \<Longrightarrow>
    any_steps (lw_db w) (lw_db w') \<and> open_script (lw_script w')"
  by (cases "lw_script w") (auto simp: next_event_def open_script_def)

interpretation event_step: stepping next_event
  by unfold_locales (rule next_event_steps)

lemma stmt_steps:
  assumes "stmt f w = (r, w')" "open_script (lw_script w)" "\<And>db. any_steps db (snd (f db))"
  shows "any_steps (lw_db w) (lw_db w') \<and> open_script (lw_script w')"
  using assms(1)
proof (cases rule: stmt_cases)
  case (fault e x)
  then show ?thesis using next_event_steps assms(2) by blast
next
  case (ok e w1 a db)
  then have "any_steps (lw_db w1) db" using assms(3) [of "lw_db w1"] by simp
  with next_event_steps [OF assms(2) ok(1)] ok(4) show ?thesis by auto
qed

lemma read_steps:
  "stmt (\<lambda>db. (f db, db)) w = (r, w') \<Longrightarrow> open_script (lw_script w) \<Longrightarrow>
    any_steps (lw_db w) (lw_db w') \<and> open_script (lw_script w')"
  by (erule stmt_steps) auto

lemma exec_steps:
  assumes "exec f w = (r, w')" "open_script (lw_script w)" "\<And>db. any_step db (f db)"
  shows "any_steps (lw_db w) (lw_db w') \<and> open_script (lw_script w')"
  using assms(1) [unfolded exec_def] assms(2) by (rule stmt_steps) (use assms(3) in auto)

subsection \<open>Operations are sequences of statements\<close>

lemma unlock_steps:
  "open_script (lw_script w) \<Longrightarrow>
    any_steps (lw_db w) (lw_db (unlock c k w)) \<and> open_script (lw_script (unlock c k w))"
proof -
  assume o: "open_script (lw_script w)"
  obtain e w1 where e: "next_event w = (e, w1)" by fastforce
  have "any_step (lw_db w1) (pg_advisory_unlock c k (lw_db w1))" by (rule any_stepI)
  with next_event_steps [OF o e] show ?thesis
    by (auto simp: unlock_def e)
qed

lemma release_locks_steps:
  "open_script (lw_script w) \<Longrightarrow>
    any_steps (lw_db w) (lw_db (releaseAdvisoryLocks c ks w)) \<and>
    open_script (lw_script (releaseAdvisoryLocks c ks w))"
proof -
  have "open_script (lw_script w) \<Longrightarrow> any_steps (lw_db w) (lw_db (foldl (\<lambda>w k. unlock c k w) w ls)) \<and>
      open_script (lw_script (foldl (\<lambda>w k. unlock c k w) w ls))" for ls
  proof (induction ls arbitrary: w)
    case Nil
    then show ?case by simp
  next
    case (Cons k ls)
    from unlock_steps [OF Cons.prems, of c k] Cons.IH [of "unlock c k w"] show ?case
      by (auto intro: rtranclp_trans)
  qed
  then show "open_script (lw_script w) \<Longrightarrow> any_steps (lw_db w) (lw_db (releaseAdvisoryLocks c ks w)) \<and>
    open_script (lw_script (releaseAdvisoryLocks c ks w))"
    by (simp add: releaseAdvisoryLocks_def)
qed

interpretation conn_step: stepping acquireConn
proof
  fix w r w' assume "open_script (lw_script w)" "acquireConn w = (r, w')"
  moreover from this(2) have "w' = snd (next_event w)"
    by (auto simp: acquireConn_def split: prod.splits conn_answer.splits)
  ultimately show "any_steps (lw_db w) (lw_db w') \<and> open_script (lw_script w')"
    using event_step.reaches event_step.keeps_script by auto
qed

interpretation id_step: stepping newLeaseID
proof
  fix w r w' assume "open_script (lw_script w)" "newLeaseID w = (r, w')"
  moreover from this(2) have "w' = snd (next_event w)"
    by (auto simp: newLeaseID_def split: prod.splits sum.splits)
  ultimately show "any_steps (lw_db w) (lw_db w') \<and> open_script (lw_script w')"
    using event_step.reaches event_step.keeps_script by auto
qed

interpretation conflict_step: stepping "conflict m key" for m key
proof
  fix w r w' assume a: "open_script (lw_script w)" "conflict m key w = (r, w')"
  then obtain x where "stmt (\<lambda>db. (sql_conflict_holder (lm_databaseID m) key db, db)) w = (x, w')"
    by (auto simp: conflict_def Let_def split: prod.splits sum.splits option.splits)
  then show "any_steps (lw_db w) (lw_db w') \<and> open_script (lw_script w')"
    using a(1) by (rule read_steps)
qed

interpretation try_step: stepping "stmt (pg_try_advisory_lock c k)" for c k
  by unfold_locales (erule stmt_steps, simp_all add: r_into_rtranclp any_stepI)

interpretation insert_step: stepping "stmt (\<lambda>db. sql_insert_lease (row db) db)" for row
  by unfold_locales (erule stmt_steps, simp_all add: r_into_rtranclp any_stepI)

interpretation reclaim_step: stepping "exec sql_reclaim_expired"
  by unfold_locales (erule exec_steps, simp_all add: any_stepI)

interpretation release_step: stepping "exec (sql_release_holder i)" for i
  by unfold_locales (erule exec_steps, simp_all add: any_stepI)

lemma acquireLoop_steps:
  "acquireLoop m c keys held w = (r, w') \<Longrightarrow> open_script (lw_script w) \<Longrightarrow>
    any_steps (lw_db w) (lw_db w') \<and> open_script (lw_script w')"
proof (induction keys arbitrary: held w)
  case Nil
  then show ?case by simp
next
  case (Cons key keys)
  let ?k = "advisoryObjectKey (lk_key key)"
  obtain x w1 where x: "stmt (pg_try_advisory_lock c ?k) w = (x, w1)" by fastforce
  note t = try_step.steps [OF Cons.prems(2) x]
  show ?case
  proof (cases "x = Inr True")
    case True
    have "acquireLoop m c keys (held @ [?k]) w1 = (r, w')"
      using Cons.prems(1) x True by simp
    from Cons.IH [OF this] t show ?thesis by (auto intro: rtranclp_trans)
  next
    case False
    let ?w2 = "releaseAdvisoryLocks c held w1"
    have w2: "any_steps (lw_db w) (lw_db ?w2) \<and> open_script (lw_script ?w2)"
      using t release_locks_steps [of w1 c held] by (auto intro: rtranclp_trans)
    obtain e w3 where e: "conflict m (lk_key key) ?w2 = (e, w3)" by fastforce
    then have "any_steps (lw_db w) (lw_db w3) \<and> open_script (lw_script w3)"
      using w2 conflict_step.steps by (blast intro: rtranclp_trans)
    with w2 e False Cons.prems(1) x show ?thesis
      by (auto split: sum.splits if_splits)
  qed
qed

lemma persistLoop_steps:
  "persistLoop m i actor keys intent w = (r, w') \<Longrightarrow> open_script (lw_script w) \<Longrightarrow>
    any_steps (lw_db w) (lw_db w') \<and> open_script (lw_script w')"
proof (induction keys arbitrary: w)
  case Nil
  then show ?case by simp
next
  case (Cons key keys)
  let ?ins = "stmt (\<lambda>db. sql_insert_lease (lease_row_of m i actor key intent (ld_now db)) db)"
  obtain x w1 where x: "?ins w = (x, w1)" by fastforce
  note w1 = insert_step.steps [OF Cons.prems(2) x]
  let ?w2 = "snd (exec (sql_release_holder i) w1)"
  have w2: "any_steps (lw_db w) (lw_db ?w2) \<and> open_script (lw_script ?w2)"
    using w1 release_step.reaches [of w1 i] release_step.keeps_script [of w1 i]
    by (blast intro: rtranclp_trans)
  show ?case
  proof (cases "x = Inr True")
    case True
    with Cons.prems(1) x have "persistLoop m i actor keys intent w1 = (r, w')" by simp
    from Cons.IH [OF this] w1 show ?thesis by (blast intro: rtranclp_trans)
  next
    case False
    obtain e w3 where e: "conflict m (lk_key key) ?w2 = (e, w3)" by fastforce
    then have "any_steps (lw_db w) (lw_db w3) \<and> open_script (lw_script w3)"
      using w2 conflict_step.steps by (blast intro: rtranclp_trans)
    with w2 e False Cons.prems(1) x show ?thesis
      by (auto split: sum.splits if_splits)
  qed
qed

interpretation persist_step: stepping "persistLease m i actor keys intent" for m i actor keys intent
proof
  fix w r w' assume a: "open_script (lw_script w)" "persistLease m i actor keys intent w = (r, w')"
  obtain x w1 where x: "exec sql_reclaim_expired w = (x, w1)" by fastforce
  with reclaim_step.steps [OF a(1) x] a(2) persistLoop_steps
  show "any_steps (lw_db w) (lw_db w') \<and> open_script (lw_script w')"
    by (fastforce simp: persistLease_def split: sum.splits intro: rtranclp_trans)
qed

lemma finishAcquire_steps:
  assumes "finishAcquire m c held actor keys intent w = (r, m', w')" "open_script (lw_script w)"
  shows "any_steps (lw_db w) (lw_db w') \<and> open_script (lw_script w')"
proof -
  obtain x w1 where x: "newLeaseID w = (x, w1)" by fastforce
  note n = id_step.steps [OF assms(2) x]
  show ?thesis
  proof (cases x)
    case (Inl e)
    with n x assms release_locks_steps [of w1 c held] show ?thesis
      by (auto simp: finishAcquire_def intro: rtranclp_trans)
  next
    case (Inr i)
    obtain y w2 where y: "persistLease m i actor keys intent w1 = (y, w2)" by fastforce
    then have "any_steps (lw_db w) (lw_db w2) \<and> open_script (lw_script w2)"
      using n persist_step.steps by (blast intro: rtranclp_trans)
    with x y Inr assms release_locks_steps [of w2 c held] show ?thesis
      by (auto simp: finishAcquire_def intro: rtranclp_trans split: option.splits)
  qed
qed

interpretation acquire_step: stepping
  "\<lambda>w. case acquireKeys m actor keys intent w of (r, m', w') \<Rightarrow> ((r, m'), w')" for m actor keys intent
proof
  fix w :: lease_world and x and w'
  assume o: "open_script (lw_script w)"
    and "(case acquireKeys m actor keys intent w of (r, m', w') \<Rightarrow> ((r, m'), w')) = (x, w')"
  then have k: "acquireKeys m actor keys intent w = (fst x, snd x, w')"
    by (auto split: prod.splits)
  obtain y w1 where y: "acquireConn w = (y, w1)" by fastforce
  note n = conn_step.steps [OF o y]
  show "any_steps (lw_db w) (lw_db w') \<and> open_script (lw_script w')"
  proof (cases "validateAcquire m actor (length keys) intent = None \<and> isOk y")
    case False
    with k y n o show ?thesis
      by (auto simp: acquireKeys_def isOk_def split: option.splits sum.splits)
  next
    case True
    then obtain c where c: "y = Inr c" by (auto simp: isOk_iff)
    obtain z w2 where z: "acquireLoop m c keys [] w1 = (z, w2)" by fastforce
    then have "any_steps (lw_db w) (lw_db w2) \<and> open_script (lw_script w2)"
      using n acquireLoop_steps by (blast intro: rtranclp_trans)
    with k y c True z finishAcquire_steps show ?thesis
      by (fastforce simp: acquireKeys_def acquireAdvisoryLocks_def split: sum.splits intro: rtranclp_trans)
  qed
qed

lemma AcquireTyped_steps:
  assumes "AcquireTyped m actor targets intent w = (r, m', w')" "open_script (lw_script w)"
  shows "any_steps (lw_db w) (lw_db w') \<and> open_script (lw_script w')"
  using acquire_step.steps [OF assms(2), of m actor "typedKeys targets" intent] assms(1)
  by (simp add: AcquireTyped_def)

lemma ReleaseLease_steps:
  assumes "ReleaseLease m i w = (r, m', w')" "open_script (lw_script w)"
  shows "any_steps (lw_db w) (lw_db w') \<and> open_script (lw_script w')"
proof (cases "map_of (lm_held m) i")
  case None
  with assms show ?thesis by (simp add: ReleaseLease_def)
next
  case (Some h)
  let ?w1 = "snd (exec (sql_release_holder i) w)"
  have "any_steps (lw_db w) (lw_db ?w1) \<and> open_script (lw_script ?w1)"
    using release_step.reaches release_step.keeps_script assms(2) by blast
  with Some assms(1) release_locks_steps [of ?w1 "hl_conn h" "hl_keys h"] show ?thesis
    by (auto simp: ReleaseLease_def case_prod_beta intro: rtranclp_trans)
qed

subsection \<open>Queue operations are sequences of statements\<close>

lemma sql_steps:
  "any_steps db (snd (sql_resume databaseID rk inst d a stale db))"
  "any_steps db (snd (sql_position databaseID i db))"
  "any_steps db (snd (enqueue_tx q m req rk keys db))"
proof -
  show "any_steps db (snd (sql_resume databaseID rk inst d a stale db))"
    "any_steps db (snd (sql_position databaseID i db))"
    by (simp_all add: r_into_rtranclp any_stepI)
  have "any_step db (snd (insertEntry q m req rk keys db))"
    using any_stepI(8) [of db "entry_row q m req rk keys (ld_now db)"]
    by (auto simp: insertEntry_def split: prod.splits option.splits)
  then show "any_steps db (snd (enqueue_tx q m req rk keys db))"
    by (auto simp: enqueue_tx_def split: prod.splits)
qed

interpretation sweep_step: stepping "queue_sweep q" for q
proof
  fix w r w' assume a: "open_script (lw_script w)" "queue_sweep q w = (r, w')"
  then obtain x where "exec (sql_sweep (qu_databaseID q)) w = (x, w')"
    by (auto simp: queue_sweep_def split: prod.splits sum.splits)
  then show "any_steps (lw_db w) (lw_db w') \<and> open_script (lw_script w')"
    using a(1) by (rule exec_steps) (rule any_stepI)
qed

interpretation resume_step: stepping "queue_resume q m req rk" for q m req rk
proof
  fix w r w' assume a: "open_script (lw_script w)" "queue_resume q m req rk w = (r, w')"
  then obtain x where "stmt (sql_resume (qu_databaseID q) rk (qu_instance q) (lm_decisionID m)
      (qr_Actor req) (qc_StaleAfter (qu_cfg q))) w = (x, w')"
    by (auto simp: queue_resume_def split: prod.splits sum.splits)
  then show "any_steps (lw_db w) (lw_db w') \<and> open_script (lw_script w')"
    using a(1) by (rule stmt_steps) (rule sql_steps)
qed

interpretation enqueue_step: stepping "enqueue q m req rk keys" for q m req rk keys
proof
  fix w r w' assume a: "open_script (lw_script w)" "enqueue q m req rk keys w = (r, w')"
  then obtain x where "stmt (enqueue_tx q m req rk keys) w = (x, w')"
    by (auto simp: enqueue_def split: prod.splits sum.splits)
  then show "any_steps (lw_db w) (lw_db w') \<and> open_script (lw_script w')"
    using a(1) by (rule stmt_steps) (rule sql_steps)
qed

interpretation position_step: stepping "position q i" for q i
proof
  fix w r w' assume a: "open_script (lw_script w)" "position q i w = (r, w')"
  then obtain x where "stmt (sql_position (qu_databaseID q) i) w = (x, w')"
    by (auto simp: position_def split: prod.splits sum.splits option.splits)
  then show "any_steps (lw_db w) (lw_db w') \<and> open_script (lw_script w')"
    using a(1) by (rule stmt_steps) (rule sql_steps)
qed

lemma queue_resolve_steps:
  assumes "queue_resolve i st w = (r, w')" "open_script (lw_script w)" "st \<noteq> QueueWaiting"
  shows "any_steps (lw_db w) (lw_db w') \<and> open_script (lw_script w')"
proof -
  obtain x where "exec (sql_resolve i st) w = (x, w')"
    using assms(1) by (auto simp: queue_resolve_def split: prod.splits sum.splits)
  then show ?thesis using assms(2) by (rule exec_steps) (rule any_stepI(10) [OF assms(3)])
qed

lemma leave_steps:
  assumes "leave i st cause w = (r, w')" "open_script (lw_script w)" "st \<noteq> QueueWaiting"
  shows "any_steps (lw_db w) (lw_db w') \<and> open_script (lw_script w')"
proof -
  obtain x where "queue_resolve i st w = (x, w')"
    using assms(1) by (auto simp: leave_def split: prod.splits option.splits)
  then show ?thesis using assms(2,3) by (rule queue_resolve_steps)
qed

lemma grant_steps:
  assumes "grant m i lease w = (r, m', w')" "open_script (lw_script w)"
  shows "any_steps (lw_db w) (lw_db w') \<and> open_script (lw_script w')"
proof -
  obtain x w1 where x: "queue_resolve i QueueGranted w = (x, w1)" by fastforce
  note s = queue_resolve_steps [OF x assms(2)]
  show ?thesis
  proof (cases x)
    case None
    with s x assms(1) show ?thesis by (simp add: grant_def)
  next
    case (Some e)
    obtain y m2 w2 where y: "ReleaseLease m lease w1 = (y, m2, w2)" using prod_cases3 by blast
    with ReleaseLease_steps [OF y] s x Some assms(1) show ?thesis
      by (auto simp: grant_def intro: rtranclp_trans split: option.splits)
  qed
qed

lemma tryImmediate_steps:
  assumes "tryImmediate q m req keys w = (r, m', w')" "open_script (lw_script w)"
  shows "any_steps (lw_db w) (lw_db w') \<and> open_script (lw_script w')"
proof -
  obtain x w1 where x: "stmt (\<lambda>db. (sql_waiting (qu_databaseID q) keys db, db)) w = (x, w1)" by fastforce
  note s = read_steps [OF x assms(2)]
  obtain y m2 w2 where y: "AcquireTyped m (qr_Actor req) (qr_Targets req) (qr_Intent req) w1 = (y, m2, w2)"
    using prod_cases3 by blast
  have "any_steps (lw_db w) (lw_db w2) \<and> open_script (lw_script w2)"
    using AcquireTyped_steps [OF y] s by (auto intro: rtranclp_trans)
  with s x y assms(1) show ?thesis
    by (auto simp: tryImmediate_def split: sum.splits if_splits)
qed

lemma poll_steps:
  assumes "poll q req i lc m w = (r, m', w')" "open_script (lw_script w)"
  shows "any_steps (lw_db w) (lw_db w') \<and> open_script (lw_script w')"
proof -
  obtain x w1 where x: "position q i w = (x, w1)" by fastforce
  note s = position_step.steps [OF assms(2) x]
  have leaving: "any_steps (lw_db w) (lw_db w3) \<and> open_script (lw_script w3)"
    if "any_steps (lw_db w) (lw_db w2) \<and> open_script (lw_script w2)"
      "leave i st cause w2 = (e, w3)" "st \<noteq> QueueWaiting" for w2 w3 st cause e
    using leave_steps [OF that(2) _ that(3)] that(1) by (auto intro: rtranclp_trans)
  obtain y m2 w2 where y: "AcquireTyped m (qr_Actor req) (qr_Targets req) (qr_Intent req) w1 = (y, m2, w2)"
    using prod_cases3 by blast
  have a: "any_steps (lw_db w) (lw_db w2) \<and> open_script (lw_script w2)"
    using AcquireTyped_steps [OF y] s by (auto intro: rtranclp_trans)
  have g: "any_steps (lw_db w) (lw_db w3) \<and> open_script (lw_script w3)"
    if "grant m2 i lease w2 = (r3, m3, w3)" for lease r3 m3 w3
    using grant_steps [OF that] a by (auto intro: rtranclp_trans)
  show ?thesis
    using assms(1) x y s a g leaving [OF s] leaving [OF a]
    by (auto simp: poll_def split: sum.splits if_splits prod.splits)
qed

lemma queue_wait_steps:
  "queue_wait n q req i lc m w = (r, m', w') \<Longrightarrow> open_script (lw_script w) \<Longrightarrow>
    any_steps (lw_db w) (lw_db w') \<and> open_script (lw_script w')"
proof (induction n arbitrary: lc m w)
  case 0
  then show ?case by simp
next
  case (Suc n)
  obtain x m1 w1 where x: "poll q req i lc m w = (x, m1, w1)" using prod_cases3 by blast
  note s = poll_steps [OF x Suc.prems(2)]
  obtain d w2 where d: "select w1 = (d, w2)" by fastforce
  then have w2: "w2 = snd (next_event w1)" by (auto simp: select_def split: prod.splits)
  have s2: "any_steps (lw_db w) (lw_db w2) \<and> open_script (lw_script w2)"
    unfolding w2 using s event_step.reaches [of w1] event_step.keeps_script [of w1]
    by (auto intro: rtranclp_trans)
  have left: "any_steps (lw_db w) (lw_db w3) \<and> open_script (lw_script w3)"
    if "leave i QueueCancelled cause w2 = (e, w3)" for cause e w3
    using leave_steps [OF that] s2 by (auto intro: rtranclp_trans)
  show ?case
  proof (cases x)
    case (Inl o')
    with x s Suc.prems(1) show ?thesis by simp
  next
    case (Inr lc')
    with x d Suc.prems(1) s2 Suc.IH [of lc' m1 w2] left show ?thesis
      by (auto intro: rtranclp_trans split: prod.splits bool.splits)
  qed
qed

end
