(* ===== verification/Queue_Props.thy ===== *)
theory Queue_Props
  imports Lease_Steps
begin

text \<open>
  What the lease tables and the queue guarantee under every interleaving: the unique indexes of
  the schema are invariants of all operations, a queued request is granted only when no earlier
  live request shares an object with it, and a wait ends at its deadline.
\<close>

subsection \<open>The invariant of the tables\<close>

definition lease_id :: "lease_row \<Rightarrow> int \<times> string" where
  "lease_id r = (coalesce_db (cl_database_id r), cl_object_key r)"

definition request_id :: "queue_row \<Rightarrow> int \<times> string" where
  "request_id r = (coalesce_db (lq_database_id r), lq_request_key r)"

definition lease_tables_ok :: "lease_db \<Rightarrow> bool" where
  "lease_tables_ok db \<longleftrightarrow>
     distinct (map lease_id (filter (\<lambda>r. cl_state r = LeaseActive) (ld_leases db))) \<and>
     distinct (map request_id (filter (\<lambda>r. lq_state r = QueueWaiting) (ld_queue db))) \<and>
     distinct (map lq_id (ld_queue db)) \<and> (\<forall>r\<in>set (ld_queue db). lq_id r < ld_seq db) \<and>
     exclusive db"

lemma distinct_filter_map:
  assumes "\<And>r. P (f r) \<Longrightarrow> P r \<and> k (f r) = k r" "distinct (map k (filter P rs))"
  shows "distinct (map k (filter P (map f rs)))"
proof -
  have "k (f r) \<in> k ` set (filter P rs)" if "r \<in> set rs" "P (f r)" for r rs
    using that assms(1) [of r] by auto
  then have sub: "k ` set (filter P (map f rs)) \<subseteq> k ` set (filter P rs)" for rs by fastforce
  show ?thesis
    using assms(2)
  proof (induction rs)
    case (Cons r rs)
    then show ?case using assms(1) [of r] sub [of rs] by (auto split: if_splits)
  qed simp
qed

lemma lease_tables_ok_step:
  assumes "any_step db db'" "lease_tables_ok db"
  shows "lease_tables_ok db'"
proof -
  obtain c where c: "other_step c db db'" using assms(1) by (auto simp: any_step_def)
  have e: "exclusive db'" using other_step_keeps [OF c] assms(2) by (simp add: lease_tables_ok_def)
  from c show ?thesis
  proof cases
    case (step_reclaim)
    with assms(2) e show ?thesis
      by (auto simp: lease_tables_ok_def sql_reclaim_expired_def lease_id_def intro!: distinct_filter_map
          split: if_splits)
  next
    case (step_insert row)
    with assms(2) e show ?thesis
      by (auto simp: lease_tables_ok_def sql_insert_lease_def lease_id_def list_ex_iff)
  next
    case (step_release holder)
    with assms(2) e show ?thesis
      by (auto simp: lease_tables_ok_def sql_release_holder_def lease_id_def intro!: distinct_filter_map
          split: if_splits)
  next
    case (step_sweep databaseID)
    with assms(2) e show ?thesis
      by (auto simp: lease_tables_ok_def sql_sweep_def request_id_def time_out_row_def comp_def
          if_distrib [of lq_id] cong: if_cong intro!: distinct_filter_map split: if_splits)
  next
    case (step_resume databaseID rk inst d a stale)
    with assms(2) e show ?thesis
      by (auto simp: lease_tables_ok_def sql_resume_def request_id_def Let_def comp_def
          if_distrib [of lq_id] cong: if_cong intro!: distinct_filter_map split: if_splits)
  next
    case (step_entry qrow)
    with assms(2) e show ?thesis
      by (auto simp: lease_tables_ok_def sql_insert_entry_def request_id_def Let_def list_ex_iff
          less_Suc_eq)
  next
    case (step_position databaseID i)
    with assms(2) e show ?thesis
      by (auto simp: lease_tables_ok_def sql_position_def request_id_def Let_def time_out_row_def comp_def
          if_distrib [of lq_id] cong: if_cong intro!: distinct_filter_map split: if_splits)
  next
    case (step_resolve st i)
    have ids: "map lq_id (ld_queue db') = map lq_id (ld_queue db)"
      by (auto simp: step_resolve(1) sql_resolve_def)
    have "distinct (map request_id (filter (\<lambda>r. lq_state r = QueueWaiting) (ld_queue db')))"
      using assms(2) step_resolve(2)
      by (auto simp: step_resolve(1) lease_tables_ok_def sql_resolve_def request_id_def
          intro!: distinct_filter_map split: if_splits)
    moreover have "\<forall>r\<in>set (ld_queue db'). lq_id r < ld_seq db'"
      using assms(2) by (auto simp: step_resolve(1) lease_tables_ok_def sql_resolve_def)
    moreover have l: "ld_leases db' = ld_leases db"
      by (simp add: step_resolve(1) sql_resolve_def)
    ultimately show ?thesis
      using assms(2) e unfolding lease_tables_ok_def l ids by blast
  qed (use assms(2) e in \<open>auto simp: lease_tables_ok_def pg_try_advisory_lock_def
        pg_advisory_unlock_def session_end_def\<close>)
qed

lemma lease_tables_ok_steps: "any_steps db db' \<Longrightarrow> lease_tables_ok db \<Longrightarrow> lease_tables_ok db'"
  by (induction rule: rtranclp_induct) (auto intro: lease_tables_ok_step)

lemma queue_Acquire_steps:
  assumes "queue_Acquire polls q mgr req w = (r, mgr', w')" "open_script (lw_script w)"
  shows "any_steps (lw_db w) (lw_db w')"
proof (cases "queue_validate q mgr req = None \<and> mgr \<noteq> None")
  case False
  with assms(1) show ?thesis
    by (auto simp: queue_Acquire_def split: option.splits)
next
  case True
  then obtain m where m: "mgr = Some m" "queue_validate q (Some m) req = None" by auto
  define keys where "keys = TypedLeaseKeys (qr_Targets req)"
  define rk where "rk = leaseRequestKey (qr_Kind req) (qr_Intent req) keys"
  obtain x1 w1 where x1: "queue_sweep q w = (x1, w1)" by fastforce
  note s1 = sweep_step.steps [OF assms(2) x1]
  obtain x2 w2 where x2: "queue_resume q m req rk w1 = (x2, w2)" by fastforce
  have s2: "any_steps (lw_db w) (lw_db w2) \<and> open_script (lw_script w2)"
    using resume_step.steps [OF _ x2] s1 by (auto intro: rtranclp_trans)
  obtain x3 m3 w3 where x3: "tryImmediate q m req keys w2 = (x3, m3, w3)" using prod_cases3 by blast
  have s3: "any_steps (lw_db w) (lw_db w3) \<and> open_script (lw_script w3)"
    using tryImmediate_steps [OF x3] s2 by (auto intro: rtranclp_trans)
  obtain x4 w4 where x4: "enqueue q m3 req rk keys w3 = (x4, w4)" by fastforce
  have s4: "any_steps (lw_db w) (lw_db w4) \<and> open_script (lw_script w4)"
    using enqueue_step.steps [OF _ x4] s3 by (auto intro: rtranclp_trans)
  have waits: "any_steps (lw_db w) (lw_db v')"
    if "any_steps (lw_db w) (lw_db v) \<and> open_script (lw_script v)"
      "queue_wait polls q req i None m5 v = (y, m6, v')" for v v' i y m5 m6
    using queue_wait_steps [OF that(2)] that(1) by (auto intro: rtranclp_trans)
  show ?thesis
    using assms(1) m x1 x2 x3 x4 s1 s2 s3 s4 waits
    by (auto simp: queue_Acquire_def Let_def keys_def [symmetric] rk_def [symmetric]
        split: option.splits sum.splits prod.splits)
qed


subsection \<open>First in, first out\<close>

text \<open>No live waiting entry with a smaller id shares one of the keys.\<close>

definition first_in_line :: "int \<Rightarrow> int option \<Rightarrow> string list \<Rightarrow> lease_db \<Rightarrow> bool" where
  "first_in_line i databaseID keys db \<longleftrightarrow> i < ld_seq db \<and>
     (\<forall>r\<in>set (ld_queue db). live_waiting databaseID db r \<and> overlap (lq_object_keys r) keys \<longrightarrow>
        i \<le> lq_id r)"

text \<open>What stays fixed of an entry: its objects, its database and its deadline.\<close>

definition entry_is :: "int \<Rightarrow> int option \<Rightarrow> string list \<Rightarrow> instant \<Rightarrow> lease_db \<Rightarrow> bool" where
  "entry_is i databaseID keys deadline db \<longleftrightarrow> i < ld_seq db \<and>
     (\<forall>r\<in>set (ld_queue db). lq_id r = i \<longrightarrow>
        lq_database_id r = databaseID \<and> lq_object_keys r = keys \<and> lq_deadline_at r = deadline)"

lemma queue_frame [simp]:
  "ld_queue (snd (pg_try_advisory_lock c k db)) = ld_queue db"
  "ld_queue (pg_advisory_unlock c k db) = ld_queue db"
  "ld_queue (session_end c db) = ld_queue db"
  "ld_queue (sql_reclaim_expired db) = ld_queue db"
  "ld_queue (snd (sql_insert_lease row db)) = ld_queue db"
  "ld_queue (sql_release_holder h db) = ld_queue db"
  by (simp_all add: pg_try_advisory_lock_def pg_advisory_unlock_def session_end_def
      sql_reclaim_expired_def sql_insert_lease_def sql_release_holder_def)

lemma seq_frame [simp]:
  "ld_seq (snd (pg_try_advisory_lock c k db)) = ld_seq db"
  "ld_seq (pg_advisory_unlock c k db) = ld_seq db"
  "ld_seq (session_end c db) = ld_seq db"
  "ld_seq (sql_reclaim_expired db) = ld_seq db"
  "ld_seq (snd (sql_insert_lease row db)) = ld_seq db"
  "ld_seq (sql_release_holder h db) = ld_seq db"
  "ld_seq (sql_sweep d db) = ld_seq db"
  "ld_seq (snd (sql_resume d rk inst dc a stale db)) = ld_seq db"
  "ld_seq (snd (sql_insert_entry qrow db)) = ld_seq db + 1"
  "ld_seq (snd (sql_position d i db)) = ld_seq db"
  "ld_seq (sql_resolve i st db) = ld_seq db"
  by (simp_all add: pg_try_advisory_lock_def pg_advisory_unlock_def session_end_def
      sql_reclaim_expired_def sql_insert_lease_def sql_release_holder_def sql_sweep_def
      sql_resume_def sql_insert_entry_def sql_position_def sql_resolve_def Let_def)

lemma now_frame [simp]:
  "ld_now (snd (pg_try_advisory_lock c k db)) = ld_now db"
  "ld_now (pg_advisory_unlock c k db) = ld_now db"
  "ld_now (session_end c db) = ld_now db"
  "ld_now (sql_reclaim_expired db) = ld_now db"
  "ld_now (snd (sql_insert_lease row db)) = ld_now db"
  "ld_now (sql_release_holder h db) = ld_now db"
  "ld_now (sql_sweep d db) = ld_now db"
  "ld_now (snd (sql_resume d rk inst dc a stale db)) = ld_now db"
  "ld_now (snd (sql_insert_entry qrow db)) = ld_now db"
  "ld_now (snd (sql_position d i db)) = ld_now db"
  "ld_now (sql_resolve i st db) = ld_now db"
  by (simp_all add: pg_try_advisory_lock_def pg_advisory_unlock_def session_end_def
      sql_reclaim_expired_def sql_insert_lease_def sql_release_holder_def sql_sweep_def
      sql_resume_def sql_insert_entry_def sql_position_def sql_resolve_def Let_def)

text \<open>A row after a statement comes from a row with the same id, objects, database and deadline,
  waiting before if it waits after, or is new with the next id.\<close>

definition same_entry :: "queue_row \<Rightarrow> queue_row \<Rightarrow> bool" where
  "same_entry r r' \<longleftrightarrow> lq_id r = lq_id r' \<and> lq_object_keys r = lq_object_keys r' \<and>
     lq_database_id r = lq_database_id r' \<and> lq_deadline_at r = lq_deadline_at r' \<and>
     (lq_state r' = QueueWaiting \<longrightarrow> lq_state r = QueueWaiting)"

lemma step_entries:
  assumes "any_step db db'"
  shows "ld_seq db \<le> ld_seq db' \<and> ld_now db \<le> ld_now db' \<and>
    (\<forall>r'\<in>set (ld_queue db'). lq_id r' = ld_seq db \<or> (\<exists>r\<in>set (ld_queue db). same_entry r r'))"
proof -
  obtain c where "other_step c db db'" using assms by (auto simp: any_step_def)
  then show ?thesis
  proof cases
    case (step_sweep databaseID)
    then show ?thesis by (auto simp: sql_sweep_def same_entry_def time_out_row_def)
  next
    case (step_resume databaseID rk inst d a stale)
    then show ?thesis by (auto simp: sql_resume_def same_entry_def Let_def)
  next
    case (step_entry qrow)
    then show ?thesis by (auto simp: sql_insert_entry_def same_entry_def Let_def)
  next
    case (step_position databaseID i)
    then show ?thesis by (auto simp: sql_position_def same_entry_def time_out_row_def Let_def)
  next
    case (step_resolve st i)
    then show ?thesis by (auto simp: sql_resolve_def same_entry_def)
  qed (auto simp: same_entry_def)
qed

lemma first_in_line_step:
  assumes "any_step db db'" "first_in_line i databaseID keys db"
  shows "first_in_line i databaseID keys db'"
  unfolding first_in_line_def
proof (intro conjI ballI impI)
  note e = step_entries [OF assms(1)]
  show "i < ld_seq db'" using e assms(2) by (simp add: first_in_line_def)
  fix r' assume r': "r' \<in> set (ld_queue db')"
    and l: "live_waiting databaseID db' r' \<and> overlap (lq_object_keys r') keys"
  with e consider "lq_id r' = ld_seq db" | r where "r \<in> set (ld_queue db)" "same_entry r r'" by blast
  then show "i \<le> lq_id r'"
  proof cases
    case 1
    with assms(2) show ?thesis by (simp add: first_in_line_def)
  next
    case 2
    with l e have "live_waiting databaseID db r" "overlap (lq_object_keys r) keys"
      by (auto simp: live_waiting_def same_entry_def)
    with 2 assms(2) show ?thesis by (auto simp: first_in_line_def same_entry_def)
  qed
qed

lemma entry_is_step:
  assumes "any_step db db'" "entry_is i databaseID keys d db"
  shows "entry_is i databaseID keys d db'"
proof -
  note e = step_entries [OF assms(1)]
  show ?thesis
    unfolding entry_is_def
  proof (intro conjI ballI impI)
    show "i < ld_seq db'" using e assms(2) by (simp add: entry_is_def)
    fix r' assume r': "r' \<in> set (ld_queue db')" "lq_id r' = i"
    with e assms(2) obtain r where "r \<in> set (ld_queue db)" "same_entry r r'"
      by (auto simp: entry_is_def)
    with r' assms(2)
    show "lq_database_id r' = databaseID" "lq_object_keys r' = keys" "lq_deadline_at r' = d"
      by (auto simp: entry_is_def same_entry_def)
  qed
qed

lemma steps_keep:
  "any_steps db db' \<Longrightarrow> first_in_line i databaseID keys db \<Longrightarrow> first_in_line i databaseID keys db'"
  "any_steps db db' \<Longrightarrow> entry_is i databaseID keys d db \<Longrightarrow> entry_is i databaseID keys d db'"
  "any_steps db db' \<Longrightarrow> ld_now db \<le> ld_now db'"
  by (induction rule: rtranclp_induct) (auto intro: first_in_line_step entry_is_step dest: step_entries)

lemma find_Some_mem: "List.find P xs = Some x \<Longrightarrow> x \<in> set xs \<and> P x"
  by (auto simp: find_Some_iff)

lemma position_first:
  assumes "position q i w = (Inr (0, False), w')" "open_script (lw_script w)"
    "entry_is i databaseID keys d (lw_db w)"
  shows "first_in_line i databaseID keys (lw_db w')"
proof -
  obtain w1 e where w1: "next_event w = (e, w1)" "w' = w1\<lparr>lw_db := snd (sql_position (qu_databaseID q) i (lw_db w1))\<rparr>"
    and p: "fst (sql_position (qu_databaseID q) i (lw_db w1)) = Some (0, False)"
    using assms(1) by (auto simp: position_def stmt_def split: prod.splits option.splits sum.splits)
  let ?db = "lw_db w1"
  have s: "entry_is i databaseID keys d ?db"
    using next_event_steps [OF assms(2) w1(1)] assms(3) steps_keep(2) by blast
  obtain me where me: "me \<in> set (ld_queue ?db)" "lq_id me = i"
    and none: "filter (\<lambda>r. live_waiting (lq_database_id me) ?db r \<and> lq_id r < lq_id me \<and>
        overlap (lq_object_keys r) (lq_object_keys me)) (ld_queue ?db) = []"
    using p by (auto simp: sql_position_def Let_def dest!: find_Some_mem)
  have "lq_database_id me = databaseID" "lq_object_keys me = keys"
    using s me by (auto simp: entry_is_def)
  with none me have "\<forall>r\<in>set (ld_queue ?db).
      \<not> (live_waiting databaseID ?db r \<and> lq_id r < i \<and> overlap (lq_object_keys r) keys)"
    by (simp add: filter_empty_conv)
  moreover have "i < ld_seq ?db" using s by (simp add: entry_is_def)
  ultimately have "first_in_line i databaseID keys ?db"
    unfolding first_in_line_def by (meson not_less)
  then show ?thesis
    unfolding w1(2) using first_in_line_step [OF any_stepI(9)] by simp
qed

lemma grant_resolves:
  assumes "grant m i lease w = (Inr l, m', w')"
  shows "\<forall>r\<in>set (ld_queue (lw_db w')). lq_id r = i \<longrightarrow> lq_state r \<noteq> QueueWaiting"
proof -
  obtain x w1 where x: "queue_resolve i QueueGranted w = (x, w1)" by fastforce
  have "x = None \<and> w' = w1"
    using assms x by (cases x) (auto simp: grant_def split: prod.splits option.splits)
  moreover obtain y v where y: "exec (sql_resolve i QueueGranted) w = (y, v)" by fastforce
  ultimately have ex: "exec (sql_resolve i QueueGranted) w = (Inr (), w')"
    using x by (cases y) (simp_all add: queue_resolve_def)
  obtain e w2 where "next_event w = (e, w2)" by fastforce
  with ex have "lw_db w' = sql_resolve i QueueGranted (lw_db w2)"
    by (auto simp: exec_def stmt_def split: option.splits)
  then have "ld_queue (lw_db w') = map (\<lambda>r. if lq_id r = i \<and> lq_state r = QueueWaiting
      then r\<lparr>lq_state := QueueGranted, lq_resolved_at := Some (ld_now (lw_db w2))\<rparr> else r)
      (ld_queue (lw_db w2))"
    by (simp add: sql_resolve_def)
  then show ?thesis by (simp only: set_map ball_simps) simp
qed

lemma poll_grants_first:
  assumes "poll q req i lc m w = (Inl (Inr lease), m', w')" "open_script (lw_script w)"
    "entry_is i databaseID keys d (lw_db w)"
  shows "\<forall>r\<in>set (ld_queue (lw_db w')). live_waiting databaseID (lw_db w') r \<and>
    overlap (lq_object_keys r) keys \<longrightarrow> i < lq_id r"
proof -
  obtain w1 m2 w2 l where p: "position q i w = (Inr (0, False), w1)"
    and a: "AcquireTyped m (qr_Actor req) (qr_Targets req) (qr_Intent req) w1 = (Inr l, m2, w2)"
    and g: "grant m2 i l w2 = (Inr lease, m', w')"
    using assms(1) by (auto simp: poll_def split: prod.splits sum.splits if_splits)
  have "open_script (lw_script w1)" using position_step.steps [OF assms(2) p] by blast
  note s = AcquireTyped_steps [OF a this]
  have "any_steps (lw_db w1) (lw_db w')"
    using s grant_steps [OF g] by (auto intro: rtranclp_trans)
  then have "first_in_line i databaseID keys (lw_db w')"
    using steps_keep(1) position_first [OF p assms(2,3)] by blast
  with grant_resolves [OF g] show ?thesis
    by (fastforce simp: first_in_line_def live_waiting_def order.strict_iff_order)
qed

text \<open>
  C31: The queue grants in order. Whatever other sessions do between the statements of a waiting
  request, when the wait returns a lease no earlier entry is still waiting, before its deadline,
  for an object of the request: every such entry of the same database that remains was queued
  later.\<close>

theorem queue_grants_in_order:
  assumes "queue_wait n q req i lc m w = (Some (Inr lease), m', w')" "open_script (lw_script w)"
    "entry_is i databaseID keys d (lw_db w)"
  shows "\<forall>r\<in>set (ld_queue (lw_db w')). live_waiting databaseID (lw_db w') r \<and>
    overlap (lq_object_keys r) keys \<longrightarrow> i < lq_id r"
  using assms
proof (induction n arbitrary: lc m w)
  case 0
  then show ?case by simp
next
  case (Suc n)
  obtain x m1 w1 where x: "poll q req i lc m w = (x, m1, w1)" using prod_cases3 by blast
  note s = poll_steps [OF x Suc.prems(2)]
  obtain b w2 where b: "select w1 = (b, w2)" by fastforce
  then have w2: "w2 = snd (next_event w1)" by (auto simp: select_def split: prod.splits)
  show ?case
  proof (cases x)
    case (Inl r)
    with x Suc.prems(1) poll_grants_first [OF _ Suc.prems(2,3)] show ?thesis by auto
  next
    case (Inr lc')
    with x b Suc.prems(1) have "queue_wait n q req i lc' m1 w2 = (Some (Inr lease), m', w')"
      by (auto split: bool.splits prod.splits)
    moreover have "any_steps (lw_db w) (lw_db w2) \<and> open_script (lw_script w2)"
      unfolding w2 using s event_step.reaches [of w1] event_step.keeps_script [of w1]
      by (auto intro: rtranclp_trans)
    ultimately show ?thesis using Suc.IH Suc.prems(3) steps_keep(2) by blast
  qed
qed

text \<open>
  A wait ends at its deadline. A poll that starts at or after the deadline of the entry, or
  for an entry that is no longer waiting, ends the wait with an error, whatever other sessions do
  and even when statements fail: it neither grants nor keeps waiting.\<close>

theorem queue_wait_ends:
  assumes "open_script (lw_script w)" "entry_is i databaseID keys d (lw_db w)" "d \<le> ld_now (lw_db w)"
  shows "\<exists>e. fst (queue_wait (Suc n) q req i lc m w) = Some (Inl e)"
proof -
  obtain e w1 where w1: "next_event w = (e, w1)" by fastforce
  note s = next_event_steps [OF assms(1) w1]
  then have en: "entry_is i databaseID keys d (lw_db w1)" "d \<le> ld_now (lw_db w1)"
    using steps_keep(2,3) assms by (blast, force)
  have "fst (sql_position (qu_databaseID q) i (lw_db w1)) = Some (a, b) \<Longrightarrow> b" for a b
    using en by (auto simp: sql_position_def Let_def entry_is_def dest!: find_Some_mem)
  then have "isOk (fst (position q i w)) \<Longrightarrow> \<exists>a. fst (position q i w) = Inr (a, True)"
    by (auto simp: position_def stmt_def w1 split: option.splits prod.splits)
  then show ?thesis
    by (cases "position q i w") (auto simp: poll_def isOk_def split: sum.splits prod.splits)
qed

subsection \<open>An example\<close>

definition ex_queue :: LeaseQueue where
  "ex_queue = NewLeaseQueue True None DefaultLeaseQueueConfig ''process-1''"

definition ex_req :: QueuedLeaseRequest where
  "ex_req = \<lparr>qr_Kind = ''finding'', qr_Actor = ''agent'', qr_Intent = ''reindex'',
     qr_Targets = [ex_table], qr_Operator = False, qr_MaxWait = 0\<rparr>"

definition ex_entry :: queue_row where
  "ex_entry = (entry_row ex_queue ex_manager ex_req ''rk'' [''oid:5'', ''public.t''] 1)\<lparr>lq_id := 1\<rparr>"

definition ex_waiting :: lease_db where
  "ex_waiting = lease_db0\<lparr>ld_queue := [ex_entry], ld_seq := 2\<rparr>"

lemma ex_entry_fields:
  "lq_id ex_entry = 1" "lq_state ex_entry = QueueWaiting" "lq_database_id ex_entry = None"
  "lq_object_keys ex_entry = [''oid:5'', ''public.t'']" "lq_deadline_at ex_entry = 120000000001"
  by (simp_all add: ex_entry_def entry_row_def maxWait_def ex_req_def ex_queue_def NewLeaseQueue_def
      withQueueDefaults_def DefaultLeaseQueueConfig_def or_default_def Let_def duration_defs)

lemma ex_entry_is:
  "entry_is 1 None [''oid:5'', ''public.t''] 120000000001 ex_waiting"
  by (simp add: entry_is_def ex_waiting_def ex_entry_fields)

lemma ex_open: "open_script (lw_script (ex_world c db))"
  using script_for_open ex_script by (simp add: ex_world_def)

lemma ex_wait_ok:
  "fst (queue_wait (Suc 0) ex_queue ex_req 1 None ex_manager (ex_world 1 ex_waiting)) =
     Some (Inr ''lease_0102'')"
proof -
  have id: "EncodeToString [1, 2] = ''0102''" by code_simp
  have v: "validateAcquire ex_manager ''agent'' (Suc (Suc 0)) ''reindex'' = None" by code_simp
  show ?thesis
    by (simp add: poll_def position_def sql_position_def ex_waiting_def ex_entry_fields live_waiting_def
        ex_req_def ex_queue_def NewLeaseQueue_def grant_def queue_resolve_def sql_resolve_def
        AcquireTyped_def ex_keys acquireKeys_def v acquireConn_def ex_world_def
        acquireAdvisoryLocks_def stmt_def exec_def next_event_def ex_event_def quiet_def lease_db0_def
        pg_try_advisory_lock_def finishAcquire_def newLeaseID_def id persistLease_def
        sql_reclaim_expired_def sql_insert_lease_def lease_row_of_def Let_def eval_nat_numeral)
qed

theorem queue_grants_in_order_witness:
  "filter (\<lambda>r. live_waiting None (lw_db (snd (snd (queue_wait (Suc 0) ex_queue ex_req 1 None ex_manager
         (ex_world 1 ex_waiting))))) r \<and> overlap (lq_object_keys r) [''oid:5'', ''public.t''] \<and> lq_id r \<le> 1)
     (ld_queue (lw_db (snd (snd (queue_wait (Suc 0) ex_queue ex_req 1 None ex_manager
       (ex_world 1 ex_waiting)))))) = []"
proof -
  obtain m' w' where q: "queue_wait (Suc 0) ex_queue ex_req 1 None ex_manager (ex_world 1 ex_waiting) =
      (Some (Inr ''lease_0102''), m', w')"
    using ex_wait_ok by (metis prod.collapse)
  have "entry_is 1 None [''oid:5'', ''public.t''] 120000000001 (lw_db (ex_world 1 ex_waiting))"
    using ex_entry_is by (simp add: ex_world_def)
  from queue_grants_in_order [OF q ex_open this] show ?thesis
    unfolding q snd_conv filter_empty_conv by force
qed

theorem queue_wait_ends_witness:
  "\<exists>e. fst (queue_wait (Suc 0) ex_queue ex_req 1 None ex_manager
     (ex_world 1 (ex_waiting\<lparr>ld_now := 120000000001\<rparr>))) = Some (Inl e)"
proof -
  have "entry_is 1 None [''oid:5'', ''public.t''] 120000000001
      (lw_db (ex_world 1 (ex_waiting\<lparr>ld_now := 120000000001\<rparr>)))"
    using ex_entry_is by (simp add: ex_world_def entry_is_def)
  from queue_wait_ends [OF ex_open this] show ?thesis by (simp add: ex_world_def)
qed


end
