(* ===== verification/Ledger_Class.thy ===== *)
theory Ledger_Class
  imports Gate
begin

text \<open>
  The vocabulary of the earned-autonomy ledger, package \<^verbatim>\<open>src/sidecar/internal/earned\<close>:
  levels (\<^verbatim>\<open>level.go\<close>), incident families and action classes with their caps
  (\<^verbatim>\<open>class.go\<close>), the self-initiated trust families (\<^verbatim>\<open>selfinit.go\<close>) and
  the carried-over pairs (\<^verbatim>\<open>carryover.go\<close>). Families and classes are strings with named
  constants, as in the code; a level is an integer, of which only 0 to 3 can be stored.
\<close>

subsection \<open>Strings\<close>

text \<open>\<^verbatim>\<open>strings.ToUpper\<close> on the characters modelled here (two of them have their
  upper-case form outside, and keep their form), \<^verbatim>\<open>strings.TrimPrefix\<close> and
  \<^verbatim>\<open>strings.Contains\<close>.\<close>

definition to_upper :: "char \<Rightarrow> char" where
  "to_upper c = (if in_range 97 122 c \<or> (in_range 224 254 c \<and> of_char c \<noteq> (247::nat))
     then char_of (of_char c - 32 :: nat) else c)"

definition ToUpper :: "string \<Rightarrow> string" where
  "ToUpper s = map to_upper s"

definition TrimPrefix :: "string \<Rightarrow> string \<Rightarrow> string" where
  "TrimPrefix s p = (if HasPrefix s p then drop (length p) s else s)"

fun Contains :: "string \<Rightarrow> string \<Rightarrow> bool" where
  "Contains [] p \<longleftrightarrow> p = []"
| "Contains (c # s) p \<longleftrightarrow> HasPrefix (c # s) p \<or> Contains s p"

subsection \<open>Levels\<close>

type_synonym Level = int

abbreviation L0 :: Level where "L0 \<equiv> 0"
abbreviation L1 :: Level where "L1 \<equiv> 1"
abbreviation L2 :: Level where "L2 \<equiv> 2"
abbreviation L3 :: Level where "L3 \<equiv> 3"
abbreviation L4 :: Level where "L4 \<equiv> 4"

definition MaxGrantable :: Level where "MaxGrantable = L3"

definition Level_String :: "Level \<Rightarrow> string" where
  "Level_String l = (if l < L0 \<or> l > L4 then ''L?'' else ''L'' @ itoa l)"

definition Grantable :: "Level \<Rightarrow> bool" where
  "Grantable l \<longleftrightarrow> l \<ge> L0 \<and> l \<le> MaxGrantable"

definition ParseLevel :: "string \<Rightarrow> err + Level" where
  "ParseLevel s =
     (let v = TrimPrefix (ToUpper (TrimSpace s)) ''L''
      in if length v \<noteq> 1 \<or> \<not> in_range 48 52 (hd v)
         then Inl (''level '' @ s @ '' is not L0..L4'')
         else Inr (int (of_char (hd v)) - 48))"

text \<open>\<^verbatim>\<open>MarshalJSON\<close> and \<^verbatim>\<open>UnmarshalJSON\<close>, on JSON values: a label, or an
  integer as its digits.\<close>

definition Level_MarshalJSON :: "Level \<Rightarrow> json" where
  "Level_MarshalJSON l = JStr (Level_String l)"

definition Level_UnmarshalJSON :: "json \<Rightarrow> Level \<Rightarrow> err + Level" where
  "Level_UnmarshalJSON raw old =
     (case dec_str raw [] of
        Inr s \<Rightarrow> ParseLevel s
      | Inl _ \<Rightarrow> (case dec_int raw 0 of
                     Inl e \<Rightarrow> Inl (''level: '' @ e)
                   | Inr n \<Rightarrow> ParseLevel (itoa n)))"

definition MinLevel :: "Level list \<Rightarrow> Level" where
  "MinLevel levels = (case levels of [] \<Rightarrow> L0 | l # ls \<Rightarrow> foldl min l ls)"

subsection \<open>Families and classes\<close>

type_synonym Family = string
type_synonym ActionClass = string

abbreviation FamilyLockBlocking :: Family where "FamilyLockBlocking \<equiv> ''lock_blocking''"
abbreviation FamilyConnections :: Family where "FamilyConnections \<equiv> ''connection_pressure''"
abbreviation FamilyWAL :: Family where "FamilyWAL \<equiv> ''wal_retention''"
abbreviation FamilyPlanRegression :: Family where "FamilyPlanRegression \<equiv> ''plan_regression''"
abbreviation FamilyCheckpoint :: Family where "FamilyCheckpoint \<equiv> ''checkpoint_storm''"
abbreviation FamilyTempFiles :: Family where "FamilyTempFiles \<equiv> ''temp_file_explosion''"
abbreviation FamilyReplicationLag :: Family where "FamilyReplicationLag \<equiv> ''replication_lag''"
abbreviation FamilyLWLock :: Family where "FamilyLWLock \<equiv> ''lwlock_contention''"
abbreviation FamilyWraparound :: Family where "FamilyWraparound \<equiv> ''wraparound_runway''"
abbreviation FamilyDiskWAL :: Family where "FamilyDiskWAL \<equiv> ''disk_wal_runway''"
abbreviation FamilySequence :: Family where "FamilySequence \<equiv> ''sequence_runway''"
abbreviation FamilyTuning :: Family where "FamilyTuning \<equiv> ''tuning''"
abbreviation FamilyHygiene :: Family where "FamilyHygiene \<equiv> ''hygiene''"

abbreviation ClassFreeze :: ActionClass where "ClassFreeze \<equiv> ''freeze''"
abbreviation ClassVacuum :: ActionClass where "ClassVacuum \<equiv> ''vacuum''"
abbreviation ClassAnalyze :: ActionClass where "ClassAnalyze \<equiv> ''analyze''"
abbreviation ClassAutovacuumTuning :: ActionClass where
  "ClassAutovacuumTuning \<equiv> ''autovacuum_tuning''"
abbreviation ClassIndexCreate :: ActionClass where "ClassIndexCreate \<equiv> ''index_create''"
abbreviation ClassIndexDrop :: ActionClass where "ClassIndexDrop \<equiv> ''index_drop''"
abbreviation ClassReindex :: ActionClass where "ClassReindex \<equiv> ''reindex''"
abbreviation ClassStatistics :: ActionClass where "ClassStatistics \<equiv> ''statistics''"
abbreviation ClassQueryHint :: ActionClass where "ClassQueryHint \<equiv> ''query_hint''"
abbreviation ClassConfigGUC :: ActionClass where "ClassConfigGUC \<equiv> ''config_guc''"
abbreviation ClassWALBound :: ActionClass where "ClassWALBound \<equiv> ''wal_bound''"
abbreviation ClassSlotDrop :: ActionClass where "ClassSlotDrop \<equiv> ''slot_drop''"
abbreviation ClassBackendCancel :: ActionClass where "ClassBackendCancel \<equiv> ''backend_cancel''"
abbreviation ClassBackendTerminate :: ActionClass where
  "ClassBackendTerminate \<equiv> ''backend_terminate''"
abbreviation ClassSchemaChange :: ActionClass where "ClassSchemaChange \<equiv> ''schema_change''"
abbreviation ClassSequenceMigration :: ActionClass where
  "ClassSequenceMigration \<equiv> ''sequence_migration''"
abbreviation ClassRetention :: ActionClass where "ClassRetention \<equiv> ''retention''"
abbreviation ClassIndexReplace :: ActionClass where "ClassIndexReplace \<equiv> ''index_replace''"
abbreviation ClassUnclassified :: ActionClass where "ClassUnclassified \<equiv> ''unclassified''"
abbreviation AllClasses :: ActionClass where "AllClasses \<equiv> ''*''"

datatype Reversibility = Reversible | MitigationOnly | Irreversible

text \<open>The description of a class is not modelled.\<close>

record ClassSpec =
  cs_Class :: ActionClass
  cs_Reversibility :: Reversibility
  cs_Cap :: Level
  cs_ActionTypes :: "string list"

abbreviation class_spec :: "ActionClass \<Rightarrow> Reversibility \<Rightarrow> Level \<Rightarrow> string list \<Rightarrow> ClassSpec" where
  "class_spec c r l ts \<equiv> \<lparr>cs_Class = c, cs_Reversibility = r, cs_Cap = l, cs_ActionTypes = ts\<rparr>"

definition classSpecs :: "ClassSpec list" where
  "classSpecs =
     [class_spec ClassFreeze Reversible L3 [''vacuum_table''],
      class_spec ClassVacuum Reversible L3 [''vacuum_table''],
      class_spec ClassAnalyze Reversible L3 [''analyze_table''],
      class_spec ClassAutovacuumTuning Reversible L3 [''set_table_autovacuum''],
      class_spec ClassIndexCreate Reversible L3 [''create_index_concurrently''],
      class_spec ClassIndexDrop Reversible L3 [''drop_unused_index'', ''revert_created_index''],
      class_spec ClassReindex Reversible L3 [''reindex_concurrently''],
      class_spec ClassStatistics Reversible L3
        [''create_statistics'', ''revert_created_statistics''],
      class_spec ClassQueryHint Reversible L3 [''apply_query_hint'', ''retire_query_hint''],
      class_spec ClassConfigGUC Reversible L2
        [''alter_system_guc'', ''alter_database_guc'', ''promote_role_work_mem''],
      class_spec ClassWALBound MitigationOnly L2 [''alter_system_guc''],
      class_spec ClassSlotDrop Irreversible L1 [],
      class_spec ClassBackendCancel MitigationOnly L2 [''cancel_backend''],
      class_spec ClassBackendTerminate Irreversible L1 [''terminate_backend''],
      class_spec ClassSchemaChange Irreversible L1 [''alter_table''],
      class_spec ClassSequenceMigration Irreversible L1 [''prepare_sequence_capacity_migration''],
      class_spec ClassRetention Irreversible L1 [''retention_delete''],
      class_spec ClassIndexReplace Reversible L2 [''replace_index''],
      class_spec ClassUnclassified Irreversible L1 []]"

definition Spec :: "ActionClass \<Rightarrow> ClassSpec option" where
  "Spec class = List.find (\<lambda>s. cs_Class s = class) classSpecs"

definition CapFor :: "ActionClass \<Rightarrow> Level" where
  "CapFor class = (case Spec class of Some s \<Rightarrow> cs_Cap s | None \<Rightarrow> L1)"

definition RollbackCap :: "RollbackClass \<Rightarrow> Level" where
  "RollbackCap class =
     (case class of
        RollbackReversible \<Rightarrow> L3
      | RollbackNoRollbackNeeded \<Rightarrow> L3
      | RollbackMitigationOnly \<Rightarrow> L2
      | _ \<Rightarrow> L1)"

definition ClassFor :: "ActionRequest \<Rightarrow> ActionClass" where
  "ClassFor req =
     (let upper = ToUpper (r_SQL req);
          unclassified = (if Contains upper ''PG_DROP_REPLICATION_SLOT'' then ClassSlotDrop
                          else ClassUnclassified)
      in case r_Contract req of
           None \<Rightarrow> unclassified
         | Some contract \<Rightarrow>
             if c_ActionType contract = [] then unclassified
             else if c_ActionType contract = ''vacuum_table''
             then (if r_Feature req = ChangeFreeze then ClassFreeze else ClassVacuum)
             else if c_ActionType contract = ''alter_system_guc''
             then (if Contains upper ''MAX_SLOT_WAL_KEEP_SIZE'' then ClassWALBound
                   else ClassConfigGUC)
             else (case List.find (\<lambda>s. c_ActionType contract \<in> set (cs_ActionTypes s)) classSpecs of
                     Some s \<Rightarrow> cs_Class s
                   | None \<Rightarrow> ClassUnclassified))"

definition ClassForActionType :: "string \<Rightarrow> ActionClass" where
  "ClassForActionType actionType =
     (if list_ex (\<lambda>s. actionType \<in> set (cs_ActionTypes s)) classSpecs
      then ClassFor (ActionRequest0\<lparr>r_Contract := Some (ActionContract0\<lparr>c_ActionType := actionType\<rparr>)\<rparr>)
      else [])"

definition applicable :: "(Family \<times> ActionClass list) list" where
  "applicable =
     [(FamilyLockBlocking, [ClassBackendCancel, ClassBackendTerminate]),
      (FamilyConnections, [ClassBackendCancel, ClassBackendTerminate, ClassConfigGUC]),
      (FamilyWAL, [ClassWALBound, ClassSlotDrop]),
      (FamilyPlanRegression, [ClassIndexCreate, ClassAnalyze, ClassStatistics, ClassQueryHint]),
      (FamilyCheckpoint, [ClassConfigGUC]),
      (FamilyTempFiles, [ClassConfigGUC, ClassBackendCancel]),
      (FamilyReplicationLag, [ClassBackendCancel, ClassConfigGUC]),
      (FamilyLWLock, [ClassConfigGUC]),
      (FamilyWraparound, [ClassFreeze, ClassVacuum, ClassAutovacuumTuning, ClassBackendCancel,
         ClassBackendTerminate]),
      (FamilyDiskWAL, [ClassWALBound, ClassSlotDrop]),
      (FamilySequence, [ClassSequenceMigration]),
      (FamilyTuning, [ClassIndexCreate, ClassConfigGUC, ClassAutovacuumTuning, ClassQueryHint,
         ClassStatistics, ClassIndexReplace]),
      (FamilyHygiene, [ClassIndexDrop, ClassVacuum, ClassAnalyze, ClassRetention, ClassReindex])]"

definition familyOrder :: "Family list" where
  "familyOrder =
     [FamilyLockBlocking, FamilyConnections, FamilyWAL, FamilyPlanRegression, FamilyCheckpoint,
      FamilyTempFiles, FamilyReplicationLag, FamilyLWLock, FamilyWraparound, FamilyDiskWAL,
      FamilySequence]"

definition Families :: "Family list" where "Families = familyOrder"

definition KnownFamily :: "Family \<Rightarrow> bool" where
  "KnownFamily f \<longleftrightarrow> map_of applicable f \<noteq> None"

definition ApplicableClasses :: "Family \<Rightarrow> ActionClass list" where
  "ApplicableClasses f = (case map_of applicable f of Some cs \<Rightarrow> cs | None \<Rightarrow> [])"

definition Applicable :: "Family \<Rightarrow> ActionClass \<Rightarrow> bool" where
  "Applicable f class \<longleftrightarrow> class \<in> set (ApplicableClasses f)"

definition knownClass :: "ActionClass \<Rightarrow> bool" where
  "knownClass class \<longleftrightarrow> Spec class \<noteq> None"

subsection \<open>Self-initiated classes\<close>

record selfClass =
  sc_family :: Family
  sc_class :: ActionClass
  sc_tier :: RiskTier
  sc_outcome :: string

abbreviation self_class :: "Family \<Rightarrow> ActionClass \<Rightarrow> RiskTier \<Rightarrow> string \<Rightarrow> selfClass" where
  "self_class f c t out \<equiv> \<lparr>sc_family = f, sc_class = c, sc_tier = t, sc_outcome = out\<rparr>"

definition selfClasses :: "selfClass list" where
  "selfClasses =
     [self_class FamilyTuning ClassIndexCreate RiskModerate ''index_create'',
      self_class FamilyTuning ClassConfigGUC RiskModerate ''guc'',
      self_class FamilyTuning ClassAutovacuumTuning RiskModerate ''reloption'',
      self_class FamilyTuning ClassQueryHint RiskModerate ''query_hint'',
      self_class FamilyTuning ClassStatistics RiskModerate ''statistics'',
      self_class FamilyTuning ClassIndexReplace RiskModerate ''index_replace'',
      self_class FamilyHygiene ClassIndexDrop RiskModerate ''index_drop'',
      self_class FamilyHygiene ClassVacuum RiskSafe ''vacuum'',
      self_class FamilyHygiene ClassAnalyze RiskSafe ''analyze'',
      self_class FamilyHygiene ClassRetention RiskModerate ''retention'',
      self_class FamilyHygiene ClassReindex RiskModerate ''reindex'']"

definition selfFamilyOrder :: "Family list" where
  "selfFamilyOrder = [FamilyTuning, FamilyHygiene]"

definition AllFamilies :: "Family list" where
  "AllFamilies = Families @ selfFamilyOrder"

definition IsSelfInitiated :: "Family \<Rightarrow> bool" where
  "IsSelfInitiated f \<longleftrightarrow> f = FamilyTuning \<or> f = FamilyHygiene"

definition IsIncidentFamily :: "Family \<Rightarrow> bool" where
  "IsIncidentFamily f \<longleftrightarrow> KnownFamily f \<and> \<not> IsSelfInitiated f"

text \<open>The zero declaration has an empty family, an empty tier and an empty outcome class.\<close>

definition selfSpec :: "ActionClass \<Rightarrow> selfClass option" where
  "selfSpec c = List.find (\<lambda>s. sc_class s = c) selfClasses"

definition SelfFamilyFor :: "ActionClass \<Rightarrow> Family" where
  "SelfFamilyFor c = (case selfSpec c of Some s \<Rightarrow> sc_family s | None \<Rightarrow> [])"

definition ClassForOutcomeClass :: "string \<Rightarrow> ActionClass" where
  "ClassForOutcomeClass outcome =
     (case List.find (\<lambda>s. sc_outcome s \<noteq> [] \<and> sc_outcome s = outcome) selfClasses of
        Some s \<Rightarrow> sc_class s
      | None \<Rightarrow> [])"

definition OutcomeClassFor :: "ActionClass \<Rightarrow> string" where
  "OutcomeClassFor c = (case selfSpec c of Some s \<Rightarrow> sc_outcome s | None \<Rightarrow> [])"

definition SelfClassTier :: "ActionClass \<Rightarrow> RiskTier" where
  "SelfClassTier c = (case selfSpec c of Some s \<Rightarrow> sc_tier s | None \<Rightarrow> RiskOther [])"

type_synonym pairKey = "Family \<times> ActionClass"

definition composites :: "(ActionClass \<times> pairKey list) list" where
  "composites =
     [(ClassIndexReplace, [(FamilyTuning, ClassIndexCreate), (FamilyHygiene, ClassIndexDrop)])]"

definition ComponentClasses :: "ActionClass \<Rightarrow> pairKey list" where
  "ComponentClasses c = (case map_of composites c of Some ps \<Rightarrow> ps | None \<Rightarrow> [])"

definition CapForPair :: "Family \<Rightarrow> ActionClass \<Rightarrow> Level" where
  "CapForPair f c =
     (if \<not> IsSelfInitiated f then (if \<not> KnownFamily f then L1 else CapFor c)
      else (case Spec c of
              None \<Rightarrow> L1
            | Some spec \<Rightarrow>
                if SelfFamilyFor c \<noteq> f then L1
                else if ComponentClasses c \<noteq> [] then cs_Cap spec
                else (case cs_Reversibility spec of
                        Reversible \<Rightarrow> L3
                      | MitigationOnly \<Rightarrow> L2
                      | Irreversible \<Rightarrow> L1)))"

definition FamilyForRequest :: "ActionRequest \<Rightarrow> pairKey" where
  "FamilyForRequest req =
     (let c = ClassFor req; f = TrimSpace (r_IncidentFamily req)
      in if f \<noteq> [] then (f, c) else (SelfFamilyFor c, c))"

definition Governs :: "ActionRequest \<Rightarrow> bool" where
  "Governs req \<longleftrightarrow> r_Contract req \<noteq> None \<and> fst (FamilyForRequest req) \<noteq> []"

definition classForActionLabel :: "string \<Rightarrow> ActionClass" where
  "classForActionLabel label =
     (if label = ''create_index'' then ClassIndexCreate
      else if label = ''drop_index'' then ClassIndexDrop
      else if label = ''reindex'' then ClassReindex
      else if label = ''create_statistics'' then ClassStatistics
      else if label = ''vacuum'' then ClassVacuum
      else if label = ''analyze'' then ClassAnalyze
      else if label = ''retention_delete'' then ClassRetention
      else if label = ''replace_index'' then ClassIndexReplace
      else [])"

subsection \<open>Carried-over pairs\<close>

text \<open>The text of the decision behind a carried-over pair is not modelled; its name is kept.\<close>

record CarryOver =
  co_Family :: Family
  co_Class :: ActionClass
  co_Tier :: RiskTier
  co_Ref :: string

definition carryOvers :: "CarryOver list" where
  "carryOvers =
     [\<lparr>co_Family = FamilyWraparound, co_Class = ClassFreeze, co_Tier = RiskSafe,
       co_Ref = ''spec F3''\<rparr>,
      \<lparr>co_Family = FamilyWraparound, co_Class = ClassAutovacuumTuning, co_Tier = RiskModerate,
       co_Ref = ''spec F3''\<rparr>,
      \<lparr>co_Family = FamilyWAL, co_Class = ClassWALBound, co_Tier = RiskModerate,
       co_Ref = ''spec F4''\<rparr>,
      \<lparr>co_Family = FamilyPlanRegression, co_Class = ClassIndexCreate, co_Tier = RiskModerate,
       co_Ref = ''decision D6''\<rparr>]"

definition carryOverFor :: "Family \<Rightarrow> ActionClass \<Rightarrow> CarryOver option" where
  "carryOverFor f c = List.find (\<lambda>co. co_Family co = f \<and> co_Class co = c) carryOvers"

definition carryCap :: "ActionClass \<Rightarrow> Level" where
  "carryCap c =
     (case Spec c of
        None \<Rightarrow> L1
      | Some spec \<Rightarrow> if cs_Reversibility spec = Irreversible then L1 else L3)"

definition autonomousUnder :: "RuntimeState \<Rightarrow> RiskTier \<Rightarrow> bool" where
  "autonomousUnder b tier =
     (if \<not> rt_ExecutorEnabled b \<or> rt_ExecutionMode b \<noteq> ExecutionAuto then False
      else (case tier of
              RiskSafe \<Rightarrow> rt_Tier3Safe b \<and>
                (rt_TrustLevel b = TrustAdvisory \<or> rt_TrustLevel b = TrustAutonomous)
            | RiskModerate \<Rightarrow> rt_Tier3Moderate b \<and> rt_TrustLevel b = TrustAutonomous
            | _ \<Rightarrow> False))"

definition CarriedLevel :: "RuntimeState \<Rightarrow> Family \<Rightarrow> ActionClass \<Rightarrow> Level" where
  "CarriedLevel bound f c =
     (case carryOverFor f c of
        None \<Rightarrow> L1
      | Some co \<Rightarrow> if \<not> autonomousUnder bound (co_Tier co) then L1
                   else MinLevel [L3, carryCap c])"

definition defaultLevel :: "Family \<Rightarrow> Level" where
  "defaultLevel f = (if KnownFamily f then L1 else L0)"

subsection \<open>Levels and caps\<close>

named_theorems level_simps \<open>levels of declared pairs\<close>

lemma MinLevel_simps [simp, level_simps]:
  "MinLevel [a] = a" "MinLevel [a, b] = min a b" "MinLevel [a, b, c] = min (min a b) c"
  by (simp_all add: MinLevel_def)

lemma Grantable_iff [level_simps]: "Grantable l \<longleftrightarrow> 0 \<le> l \<and> l \<le> 3"
  by (simp add: Grantable_def MaxGrantable_def)

lemma find_in_set: "List.find P xs = Some x \<Longrightarrow> x \<in> set xs \<and> P x"
  by (auto simp: find_Some_iff)

lemma Spec_in: "Spec c = Some s \<Longrightarrow> s \<in> set classSpecs \<and> cs_Class s = c"
  unfolding Spec_def by (rule find_in_set)

text \<open>Caps follow reversibility: what cannot be undone stays a manual script, what only mitigates
  stays behind a click.\<close>

fun reversibility_cap :: "Reversibility \<Rightarrow> Level" where
  "reversibility_cap Reversible = L3"
| "reversibility_cap MitigationOnly = L2"
| "reversibility_cap Irreversible = L1"

lemma reversibility_cap_range: "1 \<le> reversibility_cap r \<and> reversibility_cap r \<le> 3"
  by (cases r) auto

lemma classSpecs_caps:
  "\<forall>s\<in>set classSpecs. 1 \<le> cs_Cap s \<and> cs_Cap s \<le> reversibility_cap (cs_Reversibility s)"
  by (simp add: classSpecs_def)

lemma Spec_cap: "Spec c = Some s \<Longrightarrow> 1 \<le> cs_Cap s \<and> cs_Cap s \<le> reversibility_cap (cs_Reversibility s)"
  using Spec_in classSpecs_caps by blast

lemma Spec_cap_range: "Spec c = Some s \<Longrightarrow> 1 \<le> cs_Cap s \<and> cs_Cap s \<le> 3"
  using Spec_cap [of c s] reversibility_cap_range [of "cs_Reversibility s"] by linarith

lemma CapFor_range [level_simps]: "1 \<le> CapFor c" "CapFor c \<le> 3"
  by (auto simp: CapFor_def Spec_cap_range split: option.splits)

lemma RollbackCap_range [level_simps]: "1 \<le> RollbackCap r" "RollbackCap r \<le> 3"
  by (auto simp: RollbackCap_def split: RollbackClass.splits)

lemma CapForPair_range [level_simps]: "1 \<le> CapForPair f c" "CapForPair f c \<le> 3"
  by (auto simp: CapForPair_def CapFor_range Spec_cap_range split: option.splits Reversibility.splits)

lemma CapForPair_reversibility:
  "Spec c = Some s \<Longrightarrow> CapForPair f c \<le> reversibility_cap (cs_Reversibility s)"
  using Spec_cap [of c s] reversibility_cap_range [of "cs_Reversibility s"]
  by (auto simp: CapForPair_def CapFor_def split: Reversibility.splits)

lemma carryCap_range [level_simps]: "1 \<le> carryCap c" "carryCap c \<le> 3"
  by (auto simp: carryCap_def split: option.splits)

lemma CarriedLevel_range [level_simps]: "1 \<le> CarriedLevel b f c" "CarriedLevel b f c \<le> carryCap c"
  by (auto simp: CarriedLevel_def level_simps split: option.splits)

lemma defaultLevel_range [level_simps]: "0 \<le> defaultLevel f" "defaultLevel f \<le> 1"
  by (simp_all add: defaultLevel_def)

lemma Applicable_known: "Applicable f c \<Longrightarrow> KnownFamily f"
  by (cases "map_of applicable f") (auto simp: Applicable_def ApplicableClasses_def KnownFamily_def)

lemma Applicable_default: "Applicable f c \<Longrightarrow> defaultLevel f = L1"
  by (simp add: Applicable_known defaultLevel_def)

lemma selfClasses_applicable: "\<forall>s\<in>set selfClasses. Applicable (sc_family s) (sc_class s)"
  by (simp add: selfClasses_def Applicable_def ApplicableClasses_def applicable_def)

lemma SelfFamilyFor_applicable: "SelfFamilyFor c \<noteq> [] \<Longrightarrow> Applicable (SelfFamilyFor c) c"
  using selfClasses_applicable find_in_set [of "\<lambda>s. sc_class s = c" selfClasses]
  by (auto simp: SelfFamilyFor_def selfSpec_def split: option.splits)

text \<open>The ledger and the gate cap a contract's rollback class alike.\<close>

lemma RollbackCap_gate: "RollbackCap r = reversibilityCap r"
  by (simp add: RollbackCap_def reversibilityCap_def autonomyExecuteLevel_def
      autonomyHandoffLevel_def split: RollbackClass.split)

text \<open>A level survives being written and read, as text and as JSON; what is not a level label is
  refused.\<close>

lemma ParseLevel_labels: "list_all (\<lambda>l. ParseLevel (Level_String l) = Inr l) [0, 1, 2, 3, 4]"
  by code_simp

lemma ParseLevel_String: "0 \<le> l \<Longrightarrow> l \<le> 4 \<Longrightarrow> ParseLevel (Level_String l) = Inr l"
proof -
  assume "0 \<le> l" "l \<le> 4"
  then have "l \<in> set [0, 1, 2, 3, 4]" by auto
  with ParseLevel_labels show ?thesis by (simp only: list_all_iff)
qed

lemma Level_JSON_roundtrip:
  "0 \<le> l \<Longrightarrow> l \<le> 4 \<Longrightarrow> Level_UnmarshalJSON (Level_MarshalJSON l) old = Inr l"
  by (simp add: Level_UnmarshalJSON_def Level_MarshalJSON_def dec_str_def ParseLevel_String)

lemma ParseLevel_range: "ParseLevel s = Inr l \<Longrightarrow> 0 \<le> l \<and> l \<le> 4"
  by (auto simp: ParseLevel_def Let_def in_range_def split: if_splits)

end
