(* ===== verification/Float64.thy ===== *)
theory Float64
  imports Prelude Complex_Main
begin

text \<open>
  Go's \<^verbatim>\<open>float64\<close> as the ledger uses it: quotients of counts and comparisons with
  thresholds. A finite value is a rational number; a quotient is rounded to 53 significant bits,
  to the nearest value and to even on a tie. Rates lie between 0 and 1 with denominators that fit
  a machine integer, far above the subnormal range, so exponents are unbounded here.
\<close>

datatype float64 = Finite rat | Infinite bool | NaN

definition round_even :: "rat \<Rightarrow> int" where
  "round_even x =
     (let f = \<lfloor>x\<rfloor>; d = x - of_int f
      in if d < 1 / 2 then f else if d > 1 / 2 then f + 1 else if even f then f else f + 1)"

function f64_pos :: "rat \<Rightarrow> rat" where
  "f64_pos x =
     (if x \<le> 0 then 0
      else if x < 2 ^ 52 then f64_pos (2 * x) / 2
      else if x < 2 ^ 53 then of_int (round_even x)
      else 2 * f64_pos (x / 2))"
  by auto

lemma ceiling_halves: "1 < y \<Longrightarrow> nat \<lceil>y / 2\<rceil> < nat \<lceil>y\<rceil>" for y :: rat
proof -
  assume y: "1 < y"
  have "of_int \<lceil>y / 2\<rceil> < y / 2 + 1" by linarith
  moreover have "y \<le> of_int \<lceil>y\<rceil>" by linarith
  moreover have "\<lceil>y\<rceil> \<ge> 2" using y by linarith
  ultimately have "\<lceil>y / 2\<rceil> < \<lceil>y\<rceil>"
  proof (cases "\<lceil>y\<rceil> = 2")
    case True
    then have "y / 2 \<le> 1" using \<open>y \<le> of_int \<lceil>y\<rceil>\<close> by simp
    then have "\<lceil>y / 2\<rceil> \<le> 1" by (simp add: ceiling_le_iff)
    then show ?thesis using True by simp
  next
    case False
    then have "2 < \<lceil>y\<rceil>" using \<open>2 \<le> \<lceil>y\<rceil>\<close> by linarith
    then have "2 < y" by linarith
    then have "y / 2 + 1 < y" by simp
    with \<open>of_int \<lceil>y / 2\<rceil> < y / 2 + 1\<close> \<open>y \<le> of_int \<lceil>y\<rceil>\<close>
    have "of_int \<lceil>y / 2\<rceil> < (of_int \<lceil>y\<rceil> :: rat)" by linarith
    then show ?thesis by simp
  qed
  then show ?thesis using \<open>2 \<le> \<lceil>y\<rceil>\<close> by linarith
qed

definition f64_measure :: "rat \<Rightarrow> nat" where
  "f64_measure x =
     (if x < 2 ^ 52 then Suc (nat \<lceil>2 ^ 52 / x\<rceil>) else if x < 2 ^ 53 then 0 else nat \<lceil>x\<rceil>)"

lemma f64_measure_double:
  assumes "0 < x" "x < 2 ^ 52"
  shows "f64_measure (2 * x) < f64_measure x"
proof -
  have "2 ^ 52 / (2 * x) = (2 ^ 52 / x) / 2" by simp
  moreover have "1 < 2 ^ 52 / x" using assms by (simp add: field_simps)
  ultimately show ?thesis
    using assms ceiling_halves [of "2 ^ 52 / x"] by (auto simp: f64_measure_def)
qed

lemma f64_measure_halve:
  assumes "\<not> x < 2 ^ 53"
  shows "f64_measure (x / 2) < f64_measure x"
proof -
  have "1 < x" using assms by simp
  from ceiling_halves [OF this] show ?thesis using assms by (auto simp: f64_measure_def)
qed

termination f64_pos
  by (relation "measure f64_measure") (auto intro: f64_measure_double f64_measure_halve)

declare f64_pos.simps [simp del]

definition f64 :: "rat \<Rightarrow> rat" where
  "f64 x = (if x < 0 then - f64_pos (- x) else f64_pos x)"

definition float_of_int :: "int \<Rightarrow> float64" where
  "float_of_int i = Finite (f64 (of_int i))"

text \<open>The quotient of two finite values; the code divides by positive counts only.\<close>

fun float_div :: "float64 \<Rightarrow> float64 \<Rightarrow> float64" where
  "float_div (Finite a) (Finite b) = (if b = 0 then NaN else Finite (f64 (a / b)))"
| "float_div _ _ = NaN"

text \<open>A constant is the nearest value to its decimal.\<close>

definition float_const :: "rat \<Rightarrow> float64" where
  "float_const x = Finite (f64 x)"

fun float_less :: "float64 \<Rightarrow> float64 \<Rightarrow> bool" where
  "float_less (Finite a) (Finite b) \<longleftrightarrow> a < b"
| "float_less (Finite a) (Infinite up) \<longleftrightarrow> up"
| "float_less (Infinite up) (Finite b) \<longleftrightarrow> \<not> up"
| "float_less (Infinite p) (Infinite q) \<longleftrightarrow> \<not> p \<and> q"
| "float_less _ _ \<longleftrightarrow> False"

fun float_le :: "float64 \<Rightarrow> float64 \<Rightarrow> bool" where
  "float_le (Finite a) (Finite b) \<longleftrightarrow> a \<le> b"
| "float_le (Finite a) (Infinite up) \<longleftrightarrow> up"
| "float_le (Infinite up) (Finite b) \<longleftrightarrow> \<not> up"
| "float_le (Infinite p) (Infinite q) \<longleftrightarrow> \<not> p \<or> q"
| "float_le _ _ \<longleftrightarrow> False"

subsection \<open>Rounding keeps the order\<close>

lemma round_even_mono: "x \<le> y \<Longrightarrow> round_even x \<le> round_even y"
proof -
  assume le: "x \<le> y"
  have f: "\<lfloor>x\<rfloor> \<le> \<lfloor>y\<rfloor>" using le by (rule floor_mono)
  have b: "\<lfloor>z\<rfloor> \<le> round_even z \<and> round_even z \<le> \<lfloor>z\<rfloor> + 1" for z
    by (simp add: round_even_def Let_def)
  show ?thesis
  proof (cases "\<lfloor>x\<rfloor> = \<lfloor>y\<rfloor>")
    case True
    then show ?thesis using le by (auto simp: round_even_def Let_def)
  next
    case False
    with f have "\<lfloor>x\<rfloor> + 1 \<le> \<lfloor>y\<rfloor>" by simp
    with b [of x] b [of y] show ?thesis by linarith
  qed
qed

lemma round_even_of_int [simp]: "round_even (of_int i) = i"
  by (simp add: round_even_def)

lemma f64_pos_double: "0 < x \<Longrightarrow> f64_pos (2 * x) = 2 * f64_pos x"
proof (cases "x < 2 ^ 52")
  case True
  moreover assume "0 < x"
  ultimately have "f64_pos x = f64_pos (2 * x) / 2" by (subst f64_pos.simps) simp
  then show ?thesis by simp
next
  case False
  then show ?thesis by (subst f64_pos.simps) simp
qed

lemma f64_pos_halve: "0 < x \<Longrightarrow> f64_pos x = 2 * f64_pos (x / 2)"
  using f64_pos_double [of "x / 2"] by simp

lemma f64_pos_normal: "2 ^ 52 \<le> x \<Longrightarrow> x < 2 ^ 53 \<Longrightarrow> f64_pos x = of_int (round_even x)"
  by (subst f64_pos.simps) auto

lemma f64_pos_lower: "2 ^ 52 \<le> x \<Longrightarrow> 2 ^ 52 \<le> f64_pos x"
proof (induction x rule: f64_pos.induct)
  case (1 x)
  show ?case
  proof (cases "x < 2 ^ 53")
    case True
    have "round_even (of_int (2 ^ 52)) \<le> round_even x" using 1(3) by (intro round_even_mono) simp
    then have "2 ^ 52 \<le> round_even x" by (simp only: round_even_of_int)
    then show ?thesis using f64_pos_normal [OF 1(3) True] 
      by (metis of_int_le_iff of_int_numeral of_int_power)
  next
    case False
    then have "2 ^ 52 \<le> f64_pos (x / 2)" using 1 by (intro 1(2)) auto
    with False show ?thesis by (subst f64_pos_halve) auto
  qed
qed

lemma f64_pos_upper:
  assumes "2 ^ 52 \<le> x" "x < 2 ^ 53"
  shows "f64_pos x \<le> 2 ^ 53"
proof -
  have "round_even x \<le> round_even (of_int (2 ^ 53))" using assms by (intro round_even_mono) simp
  then have "round_even x \<le> 2 ^ 53" by (simp only: round_even_of_int)
  then show ?thesis using f64_pos_normal [OF assms]
    by (metis of_int_le_iff of_int_numeral of_int_power)
qed

lemma f64_pos_mono: "0 < x \<Longrightarrow> x \<le> y \<Longrightarrow> f64_pos x \<le> f64_pos y"
proof (induction x arbitrary: y rule: f64_pos.induct)
  case (1 x)
  note d = f64_pos_double
  consider "x < 2 ^ 52" | "2 ^ 52 \<le> x" "x < 2 ^ 53" "y < 2 ^ 53" | "2 ^ 52 \<le> x" "x < 2 ^ 53" "2 ^ 53 \<le> y"
    | "2 ^ 53 \<le> x" by linarith
  then show ?case
  proof cases
    case 1
    with "1.prems" have "f64_pos (2 * x) \<le> f64_pos (2 * y)" by (intro "1.IH"(1)) auto
    with "1.prems" show ?thesis by (simp add: d)
  next
    case 2
    with "1.prems" show ?thesis by (simp add: f64_pos_normal of_int_le_iff round_even_mono)
  next
    case 3
    then have "2 ^ 52 \<le> f64_pos (y / 2)" by (intro f64_pos_lower) simp
    with 3 f64_pos_upper [OF 3(1,2)] "1.prems" show ?thesis by (subst (2) f64_pos_halve) auto
  next
    case 4
    with "1.prems" have "f64_pos (x / 2) \<le> f64_pos (y / 2)" by (intro "1.IH"(2)) auto
    with "1.prems" show ?thesis by (simp add: f64_pos_halve [of x] f64_pos_halve [of y])
  qed
qed

lemma f64_pos_0 [simp]: "f64_pos 0 = 0"
  by (subst f64_pos.simps) simp

lemma f64_pos_nonneg: "0 \<le> f64_pos x"
proof (induction x rule: f64_pos.induct)
  case (1 x)
  show ?case
  proof (cases "2 ^ 52 \<le> x")
    case True
    from f64_pos_lower [OF this] show ?thesis by (rule order_trans [rotated]) simp
  next
    case False
    then show ?thesis using "1.IH"(1) by (subst f64_pos.simps) simp
  qed
qed

lemma f64_mono: "x \<le> y \<Longrightarrow> f64 x \<le> f64 y"
proof -
  assume le: "x \<le> y"
  consider "y < 0" | "x < 0" "0 \<le> y" | "x = 0" "0 \<le> y" | "0 < x" using le by linarith
  then show ?thesis
  proof cases
    case 1
    with le f64_pos_mono [of "- y" "- x"] show ?thesis by (simp add: f64_def)
  next
    case 2
    with f64_pos_nonneg [of "- x"] f64_pos_nonneg [of y] show ?thesis by (simp add: f64_def)
  next
    case 3
    with f64_pos_nonneg [of y] show ?thesis by (simp add: f64_def)
  next
    case 4
    with le f64_pos_mono [of x y] show ?thesis by (simp add: f64_def)
  qed
qed

lemma f64_pos_integer: "0 < x \<Longrightarrow> x < 2 ^ 53 \<Longrightarrow> x \<in> \<int> \<Longrightarrow> f64_pos x = x"
proof (induction x rule: f64_pos.induct)
  case (1 x)
  show ?case
  proof (cases "x < 2 ^ 52")
    case True
    with 1 have "f64_pos (2 * x) = 2 * x" by (intro "1.IH"(1)) auto
    with "1.prems" show ?thesis by (simp add: f64_pos_double)
  next
    case False
    with 1 obtain i where "x = of_int i" by (auto elim: Ints_cases)
    with False 1 show ?thesis by (subst f64_pos_normal) auto
  qed
qed

lemma f64_int: "0 \<le> i \<Longrightarrow> i < 2 ^ 53 \<Longrightarrow> f64 (of_int i) = of_int i"
proof (cases "i = 0")
  case False
  moreover assume "0 \<le> i" "i < 2 ^ 53"
  moreover from this(2) have "(of_int i :: rat) < 2 ^ 53"
    by (metis of_int_less_iff of_int_numeral of_int_power)
  ultimately show ?thesis using f64_pos_integer [of "of_int i"] by (simp add: f64_def)
qed (simp add: f64_def)

end
