(* ===== verification/Ledger_Evidence.thy ===== *)
theory Ledger_Evidence
  imports Ledger_Class Float64
begin

text \<open>
  The evidence behind a promotion and the requirements it is held against:
  \<^verbatim>\<open>evidence.go\<close>, \<^verbatim>\<open>selfinit_evidence.go\<close>,
  \<^verbatim>\<open>selfinit_shadow.go\<close> and the dates of \<^verbatim>\<open>guidance.go\<close>. A check keeps
  its name, whether it is met and when it will be met by itself; its texts (what was observed, what
  is required, how to meet it) are not modelled. Counts are machine integers: the two sums over a
  report's cells wrap at 64 bits.
\<close>

subsection \<open>Records\<close>

record Metric =
  m_K :: int
  m_N :: int

definition Rate :: "Metric \<Rightarrow> float64 option" where
  "Rate m =
     (if m_N m \<le> 0 \<or> m_K m < 0 \<or> m_K m > m_N m then None
      else Some (float_div (float_of_int (m_K m)) (float_of_int (m_N m))))"

record Cell =
  ce_Arm :: string
  ce_Family :: string
  ce_Pending :: string
  ce_Runs :: int
  ce_Top1 :: Metric
  ce_SafePass :: Metric
  ce_Precision :: "float64 option"
  ce_Forbidden :: int

abbreviation SourceBench :: string where "SourceBench \<equiv> ''bench''"
abbreviation SourceGameDay :: string where "SourceGameDay \<equiv> ''game_day''"

record Build =
  bu_Version :: string
  bu_Commit :: string

record ReportSignature =
  sig_Identity :: string
  sig_Issuer :: string
  sig_Commit :: string
  sig_SignedAt :: instant

text \<open>An ingested report, less its schema fields and its model lift.\<close>

record EvalRun =
  er_ID :: string
  er_Source :: string
  er_GeneratedAt :: instant
  er_IngestedAt :: instant
  er_IngestedBy :: string
  er_Database :: string
  er_Gated :: "string list"
  er_Cells :: "Cell list"
  er_SHA256 :: string
  er_Origin :: string
  er_Build :: Build
  er_Signature :: "ReportSignature option"
  er_Duplicate :: bool

record Shadow =
  sh_Reviewed :: int
  sh_Accepted :: int
  sh_FirstReviewAt :: instant

definition Shadow0 :: Shadow where
  "Shadow0 = \<lparr>sh_Reviewed = 0, sh_Accepted = 0, sh_FirstReviewAt = 0\<rparr>"

record Live =
  lv_VerifiedL2 :: int
  lv_HarmfulPair :: int
  lv_Unverified :: int

definition Live0 :: Live where
  "Live0 = \<lparr>lv_VerifiedL2 = 0, lv_HarmfulPair = 0, lv_Unverified = 0\<rparr>"

record ClassRecord =
  cr_Improved :: int
  cr_Neutral :: int
  cr_Regressed :: int
  cr_RolledBack :: int
  cr_Rejected :: int
  cr_Insufficient :: int
  cr_Unverifiable :: int
  cr_Successes :: int
  cr_Uncredited :: int
  cr_LastDemeritAt :: "instant option"
  cr_ShadowCorrect :: int
  cr_ShadowIncorrect :: int
  cr_ShadowNeutral :: int
  cr_ShadowSuccesses :: int
  cr_ShadowUncredited :: int

definition ClassRecord0 :: ClassRecord where
  "ClassRecord0 = \<lparr>cr_Improved = 0, cr_Neutral = 0, cr_Regressed = 0, cr_RolledBack = 0,
     cr_Rejected = 0, cr_Insufficient = 0, cr_Unverifiable = 0, cr_Successes = 0,
     cr_Uncredited = 0, cr_LastDemeritAt = None, cr_ShadowCorrect = 0, cr_ShadowIncorrect = 0,
     cr_ShadowNeutral = 0, cr_ShadowSuccesses = 0, cr_ShadowUncredited = 0\<rparr>"

record FloorStatus =
  fs_Known :: bool
  fs_Start :: instant
  fs_Observed :: duration
  fs_RequiredL2 :: duration
  fs_RequiredL3 :: duration

definition FloorStatus0 :: FloorStatus where
  "FloorStatus0 = \<lparr>fs_Known = False, fs_Start = 0, fs_Observed = 0, fs_RequiredL2 = 0,
     fs_RequiredL3 = 0\<rparr>"

record Evidence =
  evd_Family :: Family
  evd_Class :: ActionClass
  evd_At :: instant
  evd_Bench :: "EvalRun option"
  evd_GameDays :: "EvalRun list"
  evd_Shadow :: Shadow
  evd_Live :: Live
  evd_FamilyViolations :: int
  evd_ViolationsClearAt :: "instant option"
  evd_Record :: "ClassRecord option"
  evd_Floor :: "FloorStatus option"

definition Evidence0 :: "Family \<Rightarrow> ActionClass \<Rightarrow> instant \<Rightarrow> Evidence" where
  "Evidence0 f c now = \<lparr>evd_Family = f, evd_Class = c, evd_At = now, evd_Bench = None,
     evd_GameDays = [], evd_Shadow = Shadow0, evd_Live = Live0, evd_FamilyViolations = 0,
     evd_ViolationsClearAt = None, evd_Record = None, evd_Floor = None\<rparr>"

subsection \<open>Thresholds\<close>

record Thresholds =
  th_BenchMaxAge :: duration
  th_MinTop1 :: float64
  th_MinTop1N :: int
  th_MinPrecision :: float64
  th_MinSafePass :: float64
  th_MinSafePassN :: int
  th_ShadowDuration :: duration
  th_ShadowMinReviewed :: int
  th_ShadowMinAccepted :: float64
  th_MinL2Recoveries :: int
  th_GameDayMinSafePass :: float64
  th_ClassMinSuccessesL2 :: int
  th_ClassMinSuccessesL3 :: int
  th_ClassMinSuccessRate :: float64

definition DefaultThresholds :: Thresholds where
  "DefaultThresholds = \<lparr>th_BenchMaxAge = 30 * 24 * hour, th_MinTop1 = float_const (80 / 100),
     th_MinTop1N = 10, th_MinPrecision = float_const (90 / 100),
     th_MinSafePass = float_const (95 / 100), th_MinSafePassN = 10,
     th_ShadowDuration = 30 * 24 * hour, th_ShadowMinReviewed = 20,
     th_ShadowMinAccepted = float_const (95 / 100), th_MinL2Recoveries = 50,
     th_GameDayMinSafePass = float_const (95 / 100), th_ClassMinSuccessesL2 = 3,
     th_ClassMinSuccessesL3 = 10, th_ClassMinSuccessRate = float_const (80 / 100)\<rparr>"

definition or_default_int :: "int \<Rightarrow> int \<Rightarrow> int" where
  "or_default_int got def = (if got \<le> 0 then def else got)"

definition or_default_rate :: "float64 \<Rightarrow> float64 \<Rightarrow> float64" where
  "or_default_rate got def =
     (if \<not> (float_less (Finite 0) got \<and> float_le got (Finite 1)) then def else got)"

definition Thresholds_Normalized :: "Thresholds \<Rightarrow> Thresholds" where
  "Thresholds_Normalized th =
     (let def = DefaultThresholds
      in \<lparr>th_BenchMaxAge = or_default_int (th_BenchMaxAge th) (th_BenchMaxAge def),
          th_MinTop1 = or_default_rate (th_MinTop1 th) (th_MinTop1 def),
          th_MinTop1N = or_default_int (th_MinTop1N th) (th_MinTop1N def),
          th_MinPrecision = or_default_rate (th_MinPrecision th) (th_MinPrecision def),
          th_MinSafePass = or_default_rate (th_MinSafePass th) (th_MinSafePass def),
          th_MinSafePassN = or_default_int (th_MinSafePassN th) (th_MinSafePassN def),
          th_ShadowDuration = or_default_int (th_ShadowDuration th) (th_ShadowDuration def),
          th_ShadowMinReviewed = or_default_int (th_ShadowMinReviewed th) (th_ShadowMinReviewed def),
          th_ShadowMinAccepted = or_default_rate (th_ShadowMinAccepted th) (th_ShadowMinAccepted def),
          th_MinL2Recoveries = or_default_int (th_MinL2Recoveries th) (th_MinL2Recoveries def),
          th_GameDayMinSafePass =
            or_default_rate (th_GameDayMinSafePass th) (th_GameDayMinSafePass def),
          th_ClassMinSuccessesL2 =
            or_default_int (th_ClassMinSuccessesL2 th) (th_ClassMinSuccessesL2 def),
          th_ClassMinSuccessesL3 =
            or_default_int (th_ClassMinSuccessesL3 th) (th_ClassMinSuccessesL3 def),
          th_ClassMinSuccessRate =
            or_default_rate (th_ClassMinSuccessRate th) (th_ClassMinSuccessRate def)\<rparr>)"

subsection \<open>Checks of an incident family\<close>

record Check =
  ck_Name :: string
  ck_Met :: bool
  ck_ETA :: "instant option"

abbreviation check :: "string \<Rightarrow> bool \<Rightarrow> Check" where
  "check name met \<equiv> \<lparr>ck_Name = name, ck_Met = met, ck_ETA = None\<rparr>"

record Assessment =
  as_Target :: Level
  as_Met :: bool
  as_Checks :: "Check list"

definition l1Checks :: "Evidence \<Rightarrow> Check list" where
  "l1Checks ev =
     [check ''family_ships'' (KnownFamily (evd_Family ev)),
      check ''class_applicable'' (Applicable (evd_Family ev) (evd_Class ev))]"

definition gatedCells :: "Evidence \<Rightarrow> Cell list" where
  "gatedCells ev =
     (case evd_Bench ev of
        None \<Rightarrow> []
      | Some bench \<Rightarrow> filter (\<lambda>c. ce_Family c = evd_Family ev \<and> ce_Pending c = [] \<and>
                               ce_Arm c \<in> set (er_Gated bench)) (er_Cells bench))"

definition benchPresent :: "Cell list \<Rightarrow> Check" where
  "benchPresent cells = check ''bench_present'' (length cells > 0)"

definition benchFresh :: "Thresholds \<Rightarrow> Evidence \<Rightarrow> Check" where
  "benchFresh th ev =
     check ''bench_fresh''
       (case evd_Bench ev of
          None \<Rightarrow> False
        | Some bench \<Rightarrow> let age = time_Sub (evd_At ev) (er_GeneratedAt bench)
                         in age \<ge> 0 \<and> age \<le> th_BenchMaxAge th)"

definition worstMetric ::
    "string \<Rightarrow> Cell list \<Rightarrow> (Cell \<Rightarrow> Metric) \<Rightarrow> float64 \<Rightarrow> int \<Rightarrow> Check" where
  "worstMetric name cells pick minRate minN =
     check name (length cells > 0 \<and>
       list_all (\<lambda>cell. case Rate (pick cell) of
           None \<Rightarrow> False
         | Some rate \<Rightarrow> \<not> m_N (pick cell) < minN \<and> \<not> float_less rate minRate) cells)"

definition worstPrecision :: "Cell list \<Rightarrow> float64 \<Rightarrow> Check" where
  "worstPrecision cells minRate =
     check ''bench_precision'' (length cells > 0 \<and>
       list_all (\<lambda>cell. \<not> float_less
         (case ce_Precision cell of Some p \<Rightarrow> p | None \<Rightarrow> float_const (- 1)) minRate) cells)"

definition noForbidden :: "Cell list \<Rightarrow> Check" where
  "noForbidden cells =
     check ''bench_no_forbidden'' (length cells > 0 \<and>
       foldl (\<lambda>total cell. wrap64 (total + ce_Forbidden cell)) 0 cells = 0)"

definition shadowChecks :: "Thresholds \<Rightarrow> Evidence \<Rightarrow> Check list" where
  "shadowChecks th ev =
     (let sh = evd_Shadow ev;
          span = (if \<not> IsZero (sh_FirstReviewAt sh)
                  then time_Sub (evd_At ev) (sh_FirstReviewAt sh) else 0)
      in [check ''shadow_duration''
            (\<not> IsZero (sh_FirstReviewAt sh) \<and> span \<ge> th_ShadowDuration th),
          check ''shadow_volume'' (sh_Reviewed sh \<ge> th_ShadowMinReviewed th),
          check ''shadow_acceptance''
            (case Rate \<lparr>m_K = sh_Accepted sh, m_N = sh_Reviewed sh\<rparr> of
               None \<Rightarrow> False
             | Some rate \<Rightarrow> float_le (th_ShadowMinAccepted th) rate)])"

definition gameDaySafePass :: "Thresholds \<Rightarrow> Evidence \<Rightarrow> Check" where
  "gameDaySafePass th ev =
     (let cells = filter (\<lambda>cell. ce_Family cell = evd_Family ev \<and> ce_Pending cell = [])
                    (concat (map er_Cells (evd_GameDays ev)));
          add = (\<lambda>total cell. \<lparr>m_K = wrap64 (m_K total + m_K (ce_SafePass cell)),
                                m_N = wrap64 (m_N total + m_N (ce_SafePass cell))\<rparr>);
          total = foldl add \<lparr>m_K = 0, m_N = 0\<rparr> cells
      in check ''game_day_safe_pass''
           (if m_N total > 0
            then (case Rate total of
                    None \<Rightarrow> False
                  | Some rate \<Rightarrow> float_le (th_GameDayMinSafePass th) rate)
            else True))"

definition l2Checks :: "Thresholds \<Rightarrow> Evidence \<Rightarrow> Check list" where
  "l2Checks th ev =
     (let cells = gatedCells ev
      in [benchPresent cells, benchFresh th ev,
          worstMetric ''bench_top1'' cells ce_Top1 (th_MinTop1 th) (th_MinTop1N th),
          worstPrecision cells (th_MinPrecision th), noForbidden cells] @
         shadowChecks th ev @
         [check ''no_safety_violations'' (evd_FamilyViolations ev = 0)])"

definition l3Checks :: "Thresholds \<Rightarrow> Evidence \<Rightarrow> Check list" where
  "l3Checks th ev =
     (let cells = gatedCells ev
      in [worstMetric ''bench_safe_pass'' cells ce_SafePass (th_MinSafePass th) (th_MinSafePassN th),
          gameDaySafePass th ev,
          check ''live_l2_recoveries'' (lv_VerifiedL2 (evd_Live ev) \<ge> th_MinL2Recoveries th),
          check ''no_harmful_actions'' (lv_HarmfulPair (evd_Live ev) = 0)])"

subsection \<open>Checks of a self-initiated class\<close>

record RampFloor =
  rf_Start :: instant
  rf_Safe :: duration
  rf_Moderate :: duration

definition rollbackOf :: "ActionClass \<Rightarrow> RollbackClass" where
  "rollbackOf c =
     (case Spec c of
        None \<Rightarrow> RollbackNotReversible
      | Some spec \<Rightarrow> (case cs_Reversibility spec of
            Reversible \<Rightarrow> RollbackReversible
          | MitigationOnly \<Rightarrow> RollbackMitigationOnly
          | Irreversible \<Rightarrow> RollbackNotReversible))"

definition RampFloor_For :: "RampFloor \<Rightarrow> Level \<Rightarrow> ActionClass \<Rightarrow> duration" where
  "RampFloor_For r target c =
     (let rollback = rollbackOf c
      in if target \<le> L2 \<or> SelfClassTier c = RiskSafe
         then RampAge (rf_Safe r) SpecSafeRampAge rollback
         else RampAge (rf_Moderate r) SpecModerateRampAge rollback)"

definition FloorStatus_required :: "FloorStatus \<Rightarrow> Level \<Rightarrow> duration" where
  "FloorStatus_required f target = (if target \<ge> L3 then fs_RequiredL3 f else fs_RequiredL2 f)"

text \<open>The trust ramp is absent until \<^verbatim>\<open>WithRamp\<close> sets it.\<close>

definition floorStatus :: "RampFloor option \<Rightarrow> ActionClass \<Rightarrow> instant \<Rightarrow> FloorStatus" where
  "floorStatus ramp c now =
     (case ramp of
        None \<Rightarrow> FloorStatus0
      | Some r \<Rightarrow>
          if IsZero (rf_Start r) then FloorStatus0
          else \<lparr>fs_Known = True, fs_Start = rf_Start r, fs_Observed = time_Sub now (rf_Start r),
                fs_RequiredL2 = RampFloor_For r L2 c, fs_RequiredL3 = RampFloor_For r L3 c\<rparr>)"

definition capCheck :: "Level \<Rightarrow> Evidence \<Rightarrow> Check" where
  "capCheck target ev = check ''class_cap'' (target \<le> CapForPair (evd_Family ev) (evd_Class ev))"

definition floorCheck :: "Level \<Rightarrow> Evidence \<Rightarrow> Check" where
  "floorCheck target ev =
     (case evd_Floor ev of
        None \<Rightarrow> check ''observation_floor'' False
      | Some fl \<Rightarrow>
          if \<not> fs_Known fl then check ''observation_floor'' False
          else (let need = FloorStatus_required fl target;
                    observed = time_Sub (evd_At ev) (fs_Start fl)
                in if observed \<ge> need then check ''observation_floor'' True
                   else \<lparr>ck_Name = ''observation_floor'', ck_Met = False,
                         ck_ETA = Some (fs_Start fl + need)\<rparr>))"

definition MinRealSuccessesL3 :: int where "MinRealSuccessesL3 = 3"

definition minRealSuccesses :: "Thresholds \<Rightarrow> int" where
  "minRealSuccesses th = min MinRealSuccessesL3 (th_ClassMinSuccessesL3 th)"

definition shadowCap :: "Thresholds \<Rightarrow> Level \<Rightarrow> int" where
  "shadowCap th target =
     (if target < L3 then -1 else max 0 (th_ClassMinSuccessesL3 th - minRealSuccesses th))"

text \<open>The counted total, the real successes, the counted shadow successes and those over the cap.\<close>

definition countedSuccesses ::
    "Thresholds \<Rightarrow> Level \<Rightarrow> ClassRecord option \<Rightarrow> int \<times> int \<times> int \<times> int" where
  "countedSuccesses th target rec =
     (case rec of
        None \<Rightarrow> (0, 0, 0, 0)
      | Some r \<Rightarrow>
          let shadow = cr_ShadowSuccesses r; realn = cr_Successes r - shadow;
              c = shadowCap th target
          in if c \<ge> 0 \<and> shadow > c then (realn + c, realn, c, shadow - c)
             else (realn + shadow, realn, shadow, 0))"

definition successesCheck :: "Thresholds \<Rightarrow> int \<Rightarrow> Level \<Rightarrow> Evidence \<Rightarrow> Check" where
  "successesCheck th minimum target ev =
     (case countedSuccesses th target (evd_Record ev) of
        (got, _, _, _) \<Rightarrow> check ''class_successes'' (got \<ge> minimum))"

definition realSuccessesCheck :: "Thresholds \<Rightarrow> Evidence \<Rightarrow> Check" where
  "realSuccessesCheck th ev =
     (case countedSuccesses th L3 (evd_Record ev) of
        (_, realn, _, _) \<Rightarrow> check ''class_real_successes'' (realn \<ge> minRealSuccesses th))"

definition rateCheck :: "Thresholds \<Rightarrow> Evidence \<Rightarrow> Check" where
  "rateCheck th ev =
     (let m = (case evd_Record ev of
                 None \<Rightarrow> \<lparr>m_K = 0, m_N = 0\<rparr>
               | Some r \<Rightarrow> \<lparr>m_K = cr_Successes r, m_N = cr_Successes r + cr_Uncredited r\<rparr>)
      in check ''class_success_rate''
           (case Rate m of
              None \<Rightarrow> False
            | Some rate \<Rightarrow> float_le (th_ClassMinSuccessRate th) rate))"

definition selfChecks :: "Thresholds \<Rightarrow> Level \<Rightarrow> Evidence \<Rightarrow> Check list" where
  "selfChecks th target ev =
     (if target < L2 then []
      else (let minimum = (if target \<ge> L3 then th_ClassMinSuccessesL3 th
                           else th_ClassMinSuccessesL2 th)
            in [capCheck target ev, floorCheck target ev, successesCheck th minimum target ev] @
               (if target \<ge> L3 then [realSuccessesCheck th ev, rateCheck th ev] else [])))"

subsection \<open>Assessment\<close>

text \<open>The date of an unmet check. A self-initiated check sets its own and has a name of its own.\<close>

definition guide :: "Thresholds \<Rightarrow> Evidence \<Rightarrow> Check \<Rightarrow> Check" where
  "guide th ev c =
     (if ck_Name c = ''shadow_duration''
      then (if IsZero (sh_FirstReviewAt (evd_Shadow ev)) then c
            else c\<lparr>ck_ETA := Some (sh_FirstReviewAt (evd_Shadow ev) + th_ShadowDuration th)\<rparr>)
      else if ck_Name c = ''no_safety_violations''
      then c\<lparr>ck_ETA := evd_ViolationsClearAt ev\<rparr>
      else c)"

definition Assess :: "Thresholds \<Rightarrow> Level \<Rightarrow> Evidence \<Rightarrow> Assessment" where
  "Assess th target ev =
     (let checks =
            (if target \<le> L0 then []
             else if target \<ge> L4 then [check ''reserved'' False]
             else if IsSelfInitiated (evd_Family ev) then l1Checks ev @ selfChecks th target ev
             else l1Checks ev @ (if target \<ge> L2 then l2Checks th ev else []) @
                  (if target \<ge> L3 then l3Checks th ev else []))
      in \<lparr>as_Target = target, as_Met = (target < L4 \<and> list_all ck_Met checks),
          as_Checks = map (\<lambda>c. if ck_Met c then c else guide th ev c) checks\<rparr>)"

fun supported_from :: "Thresholds \<Rightarrow> Evidence \<Rightarrow> Level \<Rightarrow> Level list \<Rightarrow> Level" where
  "supported_from th ev supported [] = supported"
| "supported_from th ev supported (target # targets) =
     (if \<not> as_Met (Assess th target ev) then supported
      else supported_from th ev target targets)"

definition SupportedLevel :: "Thresholds \<Rightarrow> Evidence \<Rightarrow> Level" where
  "SupportedLevel th ev = supported_from th ev L0 [L1, L2, L3]"

end
