(* ===== verification/Ledger_Db.thy ===== *)
theory Ledger_Db
  imports Ledger_Evidence Sha256
begin

text \<open>
  The tables of the earned-autonomy ledger and every statement its store runs on them
  (\<^verbatim>\<open>store.go\<close>, \<^verbatim>\<open>store_proposals.go\<close>,
  \<^verbatim>\<open>store_events.go\<close>, \<^verbatim>\<open>store_evidence.go\<close>,
  \<^verbatim>\<open>store_evidence_set.go\<close>, \<^verbatim>\<open>store_evidence_records.go\<close>, and the
  statements of \<^verbatim>\<open>carryover.go\<close>, \<^verbatim>\<open>legacy.go\<close> and
  \<^verbatim>\<open>grandfather.go\<close>). Rows are scoped by deployment and database. A statement is a
  function of the tables that gives an error, and then changes nothing, or a result and new tables.
  Constraints of the schema that a statement relies on (keys, unique indexes, the checks on levels,
  actors and reasons) are part of the statements. A JSON column holds the value it encodes; the hash
  of a proposal's evidence, which nothing reads, is left out.
\<close>

subsection \<open>Errors and constants\<close>

datatype ledger_error =
    ErrInvalidRequest string
  | ErrInvalidReport string
  | ErrNotFound string
  | ErrNotPending string
  | ErrProposalExpired string
  | EvidenceNotMetError Assessment
  | ErrHumanApprovalRequired string
  | ErrConflict string
  | ErrNotADowngrade string
  | ErrUnavailable string
  | ErrContext string

abbreviation ActorPgSage :: string where "ActorPgSage \<equiv> ''pg_sage''"

abbreviation ProvenanceLedger :: string where "ProvenanceLedger \<equiv> ''ledger''"
abbreviation ProvenanceCarriedOver :: string where "ProvenanceCarriedOver \<equiv> ''carried_over''"
abbreviation ProvenanceGrandfathered :: string where
  "ProvenanceGrandfathered \<equiv> ''grandfathered''"

abbreviation StatusPending :: string where "StatusPending \<equiv> ''pending''"
abbreviation StatusApproved :: string where "StatusApproved \<equiv> ''approved''"
abbreviation StatusRejected :: string where "StatusRejected \<equiv> ''rejected''"
abbreviation StatusExpired :: string where "StatusExpired \<equiv> ''expired''"
abbreviation StatusSuperseded :: string where "StatusSuperseded \<equiv> ''superseded''"

datatype EventType =
    EventPromotionProposed | EventPromotionApproved | EventPromotionRejected
  | EventPromotionExpired | EventDowngraded | EventAutoDowngraded | EventCapped
  | EventCapCleared | EventAutoExecuted | EventCarriedOver | EventDeadlineOverride
  | EventDatabaseScoped | EventGrandfathered

primrec eventType_string :: "EventType \<Rightarrow> string" where
  "eventType_string EventPromotionProposed = ''promotion_proposed''"
| "eventType_string EventPromotionApproved = ''promotion_approved''"
| "eventType_string EventPromotionRejected = ''promotion_rejected''"
| "eventType_string EventPromotionExpired = ''promotion_expired''"
| "eventType_string EventDowngraded = ''downgraded''"
| "eventType_string EventAutoDowngraded = ''auto_downgraded''"
| "eventType_string EventCapped = ''capped''"
| "eventType_string EventCapCleared = ''cap_cleared''"
| "eventType_string EventAutoExecuted = ''auto_executed''"
| "eventType_string EventCarriedOver = ''carried_over''"
| "eventType_string EventDeadlineOverride = ''deadline_override''"
| "eventType_string EventDatabaseScoped = ''database_scoped''"
| "eventType_string EventGrandfathered = ''grandfathered''"

abbreviation ResultVerifiedRecovery :: string where "ResultVerifiedRecovery \<equiv> ''verified_recovery''"
abbreviation ResultNotRecovered :: string where "ResultNotRecovered \<equiv> ''not_recovered''"
abbreviation ResultHarmful :: string where "ResultHarmful \<equiv> ''harmful''"
abbreviation ResultSafetyViolation :: string where "ResultSafetyViolation \<equiv> ''safety_violation''"
abbreviation ResultUnverified :: string where "ResultUnverified \<equiv> ''unverified''"
abbreviation ResultRejected :: string where "ResultRejected \<equiv> ''rejected''"
abbreviation SourceExecutor :: string where "SourceExecutor \<equiv> ''executor''"
abbreviation SourceOperator :: string where "SourceOperator \<equiv> ''operator''"
abbreviation SourceRollout :: string where "SourceRollout \<equiv> ''rollout''"
abbreviation SourceRollback :: string where "SourceRollback \<equiv> ''rollback''"
abbreviation CauseRegressed :: string where "CauseRegressed \<equiv> ''regressed''"
abbreviation CauseRolledBack :: string where "CauseRolledBack \<equiv> ''rolled_back''"
abbreviation CauseRejected :: string where "CauseRejected \<equiv> ''rejected''"
abbreviation CauseHarmful :: string where "CauseHarmful \<equiv> ''harmful''"
abbreviation CauseShadowIncorrect :: string where "CauseShadowIncorrect \<equiv> ''shadow_incorrect''"
abbreviation VerdictAccepted :: string where "VerdictAccepted \<equiv> ''accepted''"
abbreviation VerdictRejected :: string where "VerdictRejected \<equiv> ''rejected''"

subsection \<open>Rows\<close>

record Demotion =
  dm_Database :: string
  dm_Family :: Family
  dm_Class :: ActionClass
  dm_From :: Level
  dm_To :: Level
  dm_Cause :: string
  dm_ActionLogID :: int
  dm_QueueID :: int
  dm_Detail :: string
  dm_At :: instant

record Downgrade =
  dg_Reason :: string
  dg_Detail :: string

text \<open>What a JSON evidence column encodes.\<close>

datatype raw =
    RawEmpty
  | RawAssessed Evidence Assessment
  | RawDemotion Demotion
  | RawBound RiskTier RuntimeState
  | RawAdopted int
  | RawDowngrades "Downgrade list"
  | RawDeadline "string list" DeadlineContext Reason Level

record State =
  st_Family :: Family
  st_Class :: ActionClass
  st_Level :: Level
  st_Version :: int
  st_Evidence :: raw
  st_ChangedBy :: string
  st_Reason :: string
  st_ChangedAt :: instant
  st_Stored :: bool
  st_Provenance :: string
  st_CarriedRef :: string

definition State0 :: State where
  "State0 = \<lparr>st_Family = [], st_Class = [], st_Level = L0, st_Version = 0, st_Evidence = RawEmpty,
     st_ChangedBy = [], st_Reason = [], st_ChangedAt = 0, st_Stored = False, st_Provenance = [],
     st_CarriedRef = []\<rparr>"

record Proposal =
  pp_ID :: string
  pp_Family :: Family
  pp_Class :: ActionClass
  pp_From :: Level
  pp_To :: Level
  pp_Evidence :: raw
  pp_Status :: string
  pp_ProposedAt :: instant
  pp_ExpiresAt :: instant
  pp_DecidedBy :: string
  pp_DecidedAt :: "instant option"
  pp_Note :: string

text \<open>An entry of the history; its serial number is its position.\<close>

record Event =
  en_Family :: Family
  en_Class :: ActionClass
  en_Type :: EventType
  en_From :: "Level option"
  en_To :: "Level option"
  en_Actor :: string
  en_Reason :: string
  en_ProposalID :: string
  en_ActionLogID :: int
  en_Evidence :: raw
  en_At :: instant

record Outcome =
  oc_Database :: string
  oc_ActionLogID :: int
  oc_Family :: Family
  oc_Class :: ActionClass
  oc_Level :: Level
  oc_Result :: string
  oc_Source :: string
  oc_Actor :: string
  oc_Detail :: string
  oc_At :: instant
  oc_Verdict :: string
  oc_ObservedAt :: "instant option"
  oc_QueueID :: int

record Review =
  rv_Database :: string
  rv_InvestigationID :: string
  rv_Family :: Family
  rv_Verdict :: string
  rv_Reviewer :: string
  rv_Note :: string
  rv_At :: instant

record shadow_row =
  se_family :: Family
  se_action_class :: ActionClass
  se_fingerprint :: string
  se_score :: string
  se_observed_at :: instant

type_synonym scope = "string \<times> string" \<comment> \<open>deployment, database\<close>

record ledger_db =
  lg_levels :: "(scope \<times> State) list"
  lg_proposals :: "(scope \<times> Proposal) list"
  lg_events :: "(scope \<times> Event) list"
  lg_outcomes :: "(scope \<times> Outcome) list"
  lg_reviews :: "(scope \<times> Review \<times> bool) list"
  lg_runs :: "(string \<times> EvalRun) list"
  lg_shadow :: "(scope \<times> shadow_row) list"
  lg_grandfathered :: "(scope \<times> instant option) list"

definition ledger_db0 :: ledger_db where
  "ledger_db0 = \<lparr>lg_levels = [], lg_proposals = [], lg_events = [], lg_outcomes = [],
     lg_reviews = [], lg_runs = [], lg_shadow = [], lg_grandfathered = []\<rparr>"

text \<open>The store of one database's ledger; the running build is the service's.\<close>

record PostgresStore =
  ps_deployment :: string
  ps_database :: string
  ps_build :: Build

definition ps_scope :: "PostgresStore \<Rightarrow> scope" where
  "ps_scope s = (ps_deployment s, ps_database s)"

definition legacyDatabase :: string where "legacyDatabase = []"

subsection \<open>Identifiers\<close>

definition is_lower_hex :: "char \<Rightarrow> bool" where
  "is_lower_hex c \<longleftrightarrow> in_range 48 57 c \<or> in_range 97 102 c"

definition uuidPattern :: "string \<Rightarrow> bool" where
  "uuidPattern s \<longleftrightarrow>
     map length (split_on (CHR ''-'') s) = [8, 4, 4, 4, 12] \<and>
     list_all (list_all is_lower_hex) (split_on (CHR ''-'') s)"

text \<open>A version 4 identifier from 16 random bytes; a failure of the random source is a panic and is
  not modelled.\<close>

definition newID :: "byte list \<Rightarrow> string" where
  "newID r =
     (let b = r[6 := (r ! 6 AND 0x0f) OR 0x40, 8 := (r ! 8 AND 0x3f) OR 0x80];
          x = (\<lambda>i j. EncodeToString (drop i (take j b)))
      in Join [x 0 4, x 4 6, x 6 8, x 8 10, x 10 16] ''-'')"

definition maxDatabaseName :: nat where "maxDatabaseName = 200"

definition NewPostgresStore :: "string \<Rightarrow> string \<Rightarrow> Build \<Rightarrow> ledger_error + PostgresStore" where
  "NewPostgresStore deploymentID database build =
     (if \<not> uuidPattern deploymentID then Inl (ErrInvalidRequest ''deployment id is not a UUID'')
      else if TrimSpace database = [] \<or> length database > maxDatabaseName
      then Inl (ErrInvalidRequest ''a ledger needs a database name'')
      else Inr \<lparr>ps_deployment = deploymentID, ps_database = database, ps_build = build\<rparr>)"

definition checkDatabase :: "PostgresStore \<Rightarrow> string \<Rightarrow> ledger_error + unit" where
  "checkDatabase s database =
     (if database \<noteq> ps_database s
      then Inl (ErrInvalidRequest (database @ '' is not this ledger's database''))
      else Inr ())"

text \<open>The check on family and class columns.\<close>

definition name_ok :: "string \<Rightarrow> bool" where
  "name_ok s \<longleftrightarrow> s \<noteq> [] \<and> length s \<le> 64 \<and> in_range 97 122 (hd s) \<and>
     list_all (\<lambda>c. in_range 97 122 c \<or> is_digit c \<or> c = CHR ''_'') s"

abbreviation check_violation :: "'a \<Rightarrow> (ledger_error + 'b) \<times> 'a" where
  "check_violation db \<equiv> (Inl (ErrUnavailable ''check constraint''), db)"

subsection \<open>Levels\<close>

definition level_is :: "scope \<Rightarrow> Family \<Rightarrow> ActionClass \<Rightarrow> scope \<times> State \<Rightarrow> bool" where
  "level_is sc f c row \<longleftrightarrow> fst row = sc \<and> st_Family (snd row) = f \<and> st_Class (snd row) = c"

definition stored_level :: "scope \<Rightarrow> Family \<Rightarrow> ActionClass \<Rightarrow> ledger_db \<Rightarrow> State option" where
  "stored_level sc f c db = map_option snd (List.find (level_is sc f c) (lg_levels db))"

definition sql_readLevel ::
    "PostgresStore \<Rightarrow> Family \<Rightarrow> ActionClass \<Rightarrow> ledger_db \<Rightarrow> State option" where
  "sql_readLevel s f c db = stored_level (ps_scope s) f c db"

definition sql_readLevels :: "PostgresStore \<Rightarrow> ledger_db \<Rightarrow> State list" where
  "sql_readLevels s db = map snd (filter (\<lambda>r. fst r = ps_scope s) (lg_levels db))"

definition level_checks :: "State \<Rightarrow> bool" where
  "level_checks st \<longleftrightarrow> name_ok (st_Family st) \<and> name_ok (st_Class st) \<and>
     0 \<le> st_Level st \<and> st_Level st \<le> 3 \<and>
     1 \<le> length (st_ChangedBy st) \<and> length (st_ChangedBy st) \<le> 200 \<and>
     1 \<le> length (st_Reason st) \<and> length (st_Reason st) \<le> 1000"

record levelChange =
  ch_Family :: Family
  ch_Class :: ActionClass
  ch_To :: Level
  ch_ExpectVersion :: int
  ch_Actor :: string
  ch_Reason :: string
  ch_Evidence :: raw
  ch_At :: instant

definition insert_level ::
    "scope \<Rightarrow> State \<Rightarrow> ledger_db \<Rightarrow> (ledger_error + State option) \<times> ledger_db" where
  "insert_level sc st db =
     (if \<not> level_checks st then check_violation db
      else if stored_level sc (st_Family st) (st_Class st) db \<noteq> None then (Inr None, db)
      else (Inr (Some st), db\<lparr>lg_levels := lg_levels db @ [(sc, st)]\<rparr>))"

definition sql_writeLevel ::
    "PostgresStore \<Rightarrow> levelChange \<Rightarrow> ledger_db \<Rightarrow> (ledger_error + State) \<times> ledger_db" where
  "sql_writeLevel s ch db =
     (let st = \<lparr>st_Family = ch_Family ch, st_Class = ch_Class ch, st_Level = ch_To ch,
                st_Version = ch_ExpectVersion ch + 1, st_Evidence = ch_Evidence ch,
                st_ChangedBy = ch_Actor ch, st_Reason = ch_Reason ch, st_ChangedAt = ch_At ch,
                st_Stored = True, st_Provenance = ProvenanceLedger, st_CarriedRef = []\<rparr>;
          conflict = (Inl (ErrConflict (ch_Family ch @ ''/'' @ ch_Class ch)), db)
      in if ch_ExpectVersion ch = 0
         then (case insert_level (ps_scope s) st db of
                 (Inl e, db') \<Rightarrow> (Inl e, db')
               | (Inr None, _) \<Rightarrow> conflict
               | (Inr (Some st), db') \<Rightarrow> (Inr st, db'))
         else (case stored_level (ps_scope s) (ch_Family ch) (ch_Class ch) db of
                 None \<Rightarrow> conflict
               | Some old \<Rightarrow>
                   if st_Version old \<noteq> ch_ExpectVersion ch then conflict
                   else if \<not> level_checks st then check_violation db
                   else (Inr st, db\<lparr>lg_levels := map (\<lambda>row.
                          if level_is (ps_scope s) (ch_Family ch) (ch_Class ch) row
                          then (fst row, st) else row) (lg_levels db)\<rparr>)))"

definition seed_row ::
    "Family \<Rightarrow> ActionClass \<Rightarrow> Level \<Rightarrow> raw \<Rightarrow> string \<Rightarrow> instant \<Rightarrow> string \<Rightarrow> string \<Rightarrow> State" where
  "seed_row f c level evidence reason now provenance ref =
     \<lparr>st_Family = f, st_Class = c, st_Level = level, st_Version = 1, st_Evidence = evidence,
      st_ChangedBy = ActorPgSage, st_Reason = reason, st_ChangedAt = now, st_Stored = True,
      st_Provenance = provenance, st_CarriedRef = ref\<rparr>"

text \<open>A database's copy of every deployment-wide row it has no row for.\<close>

definition adopted_row :: "instant \<Rightarrow> State \<Rightarrow> State" where
  "adopted_row now st = st\<lparr>st_Version := 1, st_Reason := ''adopted for this database: '' @
     take 950 (st_Reason st), st_ChangedAt := now, st_Stored := True,
     st_Provenance := ProvenanceLedger, st_CarriedRef := []\<rparr>"

fun adopt_rows :: "scope \<Rightarrow> instant \<Rightarrow> State list \<Rightarrow> ledger_db \<Rightarrow> State list \<times> ledger_db" where
  "adopt_rows sc now [] db = ([], db)"
| "adopt_rows sc now (legacy # rows) db =
     (if stored_level sc (st_Family legacy) (st_Class legacy) db \<noteq> None then adopt_rows sc now rows db
      else (let st = adopted_row now legacy
            in case adopt_rows sc now rows (db\<lparr>lg_levels := lg_levels db @ [(sc, st)]\<rparr>) of
                 (sts, db') \<Rightarrow> (st # sts, db')))"

definition sql_adoptLegacyRows :: "PostgresStore \<Rightarrow> instant \<Rightarrow> ledger_db \<Rightarrow> State list \<times> ledger_db" where
  "sql_adoptLegacyRows s now db =
     adopt_rows (ps_scope s) now
       (map snd (filter (\<lambda>row. fst row = (ps_deployment s, legacyDatabase) \<and>
          st_Provenance (snd row) = ProvenanceLedger) (lg_levels db))) db"

subsection \<open>Proposals\<close>

definition proposal_checks :: "Proposal \<Rightarrow> bool" where
  "proposal_checks p \<longleftrightarrow> name_ok (pp_Family p) \<and> name_ok (pp_Class p) \<and>
     0 \<le> pp_From p \<and> pp_From p \<le> 2 \<and> pp_To p = pp_From p + 1 \<and>
     pp_ProposedAt p < pp_ExpiresAt p"

text \<open>Unique: the identifier within the deployment, and one pending proposal per pair.\<close>

definition sql_insertProposal ::
    "PostgresStore \<Rightarrow> Proposal \<Rightarrow> ledger_db \<Rightarrow> (ledger_error + bool) \<times> ledger_db" where
  "sql_insertProposal s p db =
     (let p = p\<lparr>pp_Status := StatusPending, pp_DecidedBy := [], pp_DecidedAt := None, pp_Note := []\<rparr>
      in if \<not> proposal_checks p then check_violation db
         else if list_ex (\<lambda>(sc, q). fst sc = ps_deployment s \<and> pp_ID q = pp_ID p \<or>
                  sc = ps_scope s \<and> pp_Status q = StatusPending \<and> pp_Family q = pp_Family p \<and>
                  pp_Class q = pp_Class p) (lg_proposals db)
         then (Inr False, db)
         else (Inr True, db\<lparr>lg_proposals := lg_proposals db @ [(ps_scope s, p)]\<rparr>))"

definition sql_readProposal :: "PostgresStore \<Rightarrow> string \<Rightarrow> ledger_db \<Rightarrow> Proposal option" where
  "sql_readProposal s i db =
     map_option snd (List.find (\<lambda>(sc, p). sc = ps_scope s \<and> pp_ID p = i) (lg_proposals db))"

text \<open>Newest first, then by identifier.\<close>

definition sql_readProposals :: "PostgresStore \<Rightarrow> string \<Rightarrow> nat \<Rightarrow> ledger_db \<Rightarrow> Proposal list" where
  "sql_readProposals s status limit db =
     take limit (sort_key (\<lambda>p. - pp_ProposedAt p) (sort_key (\<lambda>p. String.implode (pp_ID p))
       (map snd (filter (\<lambda>(sc, p). sc = ps_scope s \<and> pp_Status p = status) (lg_proposals db)))))"

definition decided :: "string \<Rightarrow> string \<Rightarrow> string \<Rightarrow> instant \<Rightarrow> Proposal \<Rightarrow> Proposal" where
  "decided status actor remark now p = p\<lparr>pp_Status := status, pp_DecidedBy := actor,
     pp_Note := remark, pp_DecidedAt := Some now\<rparr>"

definition sql_decideProposal ::
    "PostgresStore \<Rightarrow> string \<Rightarrow> string \<Rightarrow> string \<Rightarrow> string \<Rightarrow> instant \<Rightarrow> ledger_db \<Rightarrow>
     (ledger_error + unit) \<times> ledger_db" where
  "sql_decideProposal s i status actor remark now db =
     (let hit = (\<lambda>(sc, p). sc = ps_scope s \<and> pp_ID p = i \<and> pp_Status p = StatusPending)
      in if length (filter hit (lg_proposals db)) \<noteq> 1 then (Inl (ErrNotPending i), db)
         else if length remark > 2000 then check_violation db
         else (Inr (), db\<lparr>lg_proposals := map (\<lambda>row. if hit row
                 then (fst row, decided status actor remark now (snd row)) else row)
                 (lg_proposals db)\<rparr>))"

definition update_pending ::
    "(scope \<times> Proposal \<Rightarrow> bool) \<Rightarrow> (Proposal \<Rightarrow> Proposal) \<Rightarrow> ledger_db \<Rightarrow> Proposal list \<times> ledger_db" where
  "update_pending hit upd db =
     (map (\<lambda>row. upd (snd row)) (filter hit (lg_proposals db)),
      db\<lparr>lg_proposals := map (\<lambda>row. if hit row then (fst row, upd (snd row)) else row)
           (lg_proposals db)\<rparr>)"

definition sql_closePending ::
    "PostgresStore \<Rightarrow> Family \<Rightarrow> ActionClass \<Rightarrow> string \<Rightarrow> string \<Rightarrow> string \<Rightarrow> instant \<Rightarrow> ledger_db \<Rightarrow>
     Proposal list \<times> ledger_db" where
  "sql_closePending s f c status actor remark now db =
     update_pending (\<lambda>(sc, p). sc = ps_scope s \<and> pp_Family p = f \<and> pp_Status p = StatusPending \<and>
         (c = AllClasses \<or> pp_Class p = c)) (decided status actor remark now) db"

definition sql_expireDue :: "PostgresStore \<Rightarrow> instant \<Rightarrow> ledger_db \<Rightarrow> Proposal list \<times> ledger_db" where
  "sql_expireDue s now db =
     update_pending (\<lambda>(sc, p). sc = ps_scope s \<and> pp_Status p = StatusPending \<and>
         pp_ExpiresAt p \<le> now) (decided StatusExpired ActorPgSage StatusExpired now) db"

subsection \<open>History\<close>

definition sql_appendEvent :: "PostgresStore \<Rightarrow> Event \<Rightarrow> ledger_db \<Rightarrow> (ledger_error + unit) \<times> ledger_db" where
  "sql_appendEvent s e db =
     (if length (en_Actor e) \<notin> {1..200} \<or> length (en_Reason e) \<notin> {1..2000} \<or>
         \<not> name_ok (en_Family e) \<or> \<not> name_ok (en_Class e)
      then check_violation db
      else (Inr (), db\<lparr>lg_events := lg_events db @ [(ps_scope s, e)]\<rparr>))"

record EventFilter =
  ef_Family :: Family
  ef_Class :: ActionClass
  ef_Database :: string
  ef_Limit :: int

definition MaxEventPage :: int where "MaxEventPage = 500"

text \<open>The database's own entries and, unless the filter names the database, those recorded before
  the ledger was per database; newest first, the later of equal times first.\<close>

definition sql_events :: "PostgresStore \<Rightarrow> EventFilter \<Rightarrow> ledger_db \<Rightarrow> Event list" where
  "sql_events s f db =
     take (nat (ef_Limit f)) (sort_key (\<lambda>e. - en_At e) (rev (map snd (filter (\<lambda>(sc, e).
         fst sc = ps_deployment s \<and> (ef_Family f = [] \<or> en_Family e = ef_Family f) \<and>
         (ef_Class f = [] \<or> en_Class e = ef_Class f) \<and>
         (snd sc = ps_database s \<or> ef_Database f = [] \<and> snd sc = []))
         (lg_events db)))))"

subsection \<open>Outcomes, reviews and reports\<close>

definition outcome_checks :: "Outcome \<Rightarrow> bool" where
  "outcome_checks o' \<longleftrightarrow> name_ok (oc_Family o') \<and> name_ok (oc_Class o') \<and> Grantable (oc_Level o') \<and>
     oc_Verdict o' \<in> set [[], ''improved'', ''neutral'', ''regressed'', ''insufficient_evidence'',
       ''unverifiable'', ''rolled_back'', ''rejected'']"

definition sql_insertOutcome ::
    "PostgresStore \<Rightarrow> Outcome \<Rightarrow> ledger_db \<Rightarrow> (ledger_error + bool) \<times> ledger_db" where
  "sql_insertOutcome s o' db =
     (if \<not> outcome_checks o' then check_violation db
      else if list_ex (\<lambda>(sc, p). sc = (ps_deployment s, oc_Database o') \<and>
           (oc_ActionLogID o' \<noteq> 0 \<and> oc_ActionLogID p = oc_ActionLogID o' \<and>
              oc_Source p = oc_Source o' \<or>
            oc_QueueID o' \<noteq> 0 \<and> oc_QueueID p = oc_QueueID o')) (lg_outcomes db)
      then (Inr False, db)
      else (Inr True, db\<lparr>lg_outcomes := lg_outcomes db @ [((ps_deployment s, oc_Database o'), o')]\<rparr>))"

definition human_session :: "string \<Rightarrow> bool" where
  "human_session s \<longleftrightarrow> HasPrefix s ''user:'' \<and>
     (let rest = drop 5 s; digits = takeWhile is_digit rest; tail = dropWhile is_digit rest
      in digits \<noteq> [] \<and> (tail = [] \<or> hd tail = CHR '':'' \<and> CHR 0x0A \<notin> set tail))"

definition ReviewCountsAsEvidence :: "string \<Rightarrow> bool" where
  "ReviewCountsAsEvidence actor = human_session actor"

text \<open>A review that does not count never replaces one that does; the flag says whether a row was
  written.\<close>

definition sql_upsertReview :: "PostgresStore \<Rightarrow> Review \<Rightarrow> ledger_db \<Rightarrow> bool \<times> ledger_db" where
  "sql_upsertReview s r db =
     (let sc = (ps_deployment s, rv_Database r);
          counts = ReviewCountsAsEvidence (rv_Reviewer r);
          hit = (\<lambda>(sc', r', _). sc' = sc \<and> rv_InvestigationID r' = rv_InvestigationID r)
      in case List.find hit (lg_reviews db) of
           None \<Rightarrow> (True, db\<lparr>lg_reviews := lg_reviews db @ [(sc, r, counts)]\<rparr>)
         | Some (_, _, old) \<Rightarrow>
             if counts \<or> \<not> old
             then (True, db\<lparr>lg_reviews := map (\<lambda>row. if hit row then (sc, r, counts) else row)
                     (lg_reviews db)\<rparr>)
             else (False, db))"

abbreviation OriginSignedRelease :: string where "OriginSignedRelease \<equiv> ''signed_release''"
abbreviation OriginLocalRun :: string where "OriginLocalRun \<equiv> ''local_run''"
abbreviation OriginOperator :: string where "OriginOperator \<equiv> ''operator''"
abbreviation OriginGameDay :: string where "OriginGameDay \<equiv> ''game_day''"

text \<open>Inserting a report unless its hash is stored, marking a stored unsigned bench report signed,
  and reading a stored one.\<close>

definition same_report :: "PostgresStore \<Rightarrow> EvalRun \<Rightarrow> string \<times> EvalRun \<Rightarrow> bool" where
  "same_report s run row \<longleftrightarrow> fst row = ps_deployment s \<and> er_SHA256 (snd row) = er_SHA256 run"

definition sql_insertEvalRun :: "PostgresStore \<Rightarrow> EvalRun \<Rightarrow> ledger_db \<Rightarrow> bool \<times> ledger_db" where
  "sql_insertEvalRun s run db =
     (if list_ex (same_report s run) (lg_runs db) then (False, db)
      else (True, db\<lparr>lg_runs := lg_runs db @ [(ps_deployment s, run)]\<rparr>))"

definition sql_markSigned :: "PostgresStore \<Rightarrow> EvalRun \<Rightarrow> ledger_db \<Rightarrow> ledger_db" where
  "sql_markSigned s run db =
     db\<lparr>lg_runs := map (\<lambda>row. if same_report s run row \<and> er_Source (snd row) = SourceBench \<and>
          er_Signature (snd row) = None
        then (fst row, (snd row)\<lparr>er_Origin := OriginSignedRelease, er_Signature := er_Signature run\<rparr>)
        else row) (lg_runs db)\<rparr>"

definition sql_readReport :: "PostgresStore \<Rightarrow> EvalRun \<Rightarrow> ledger_db \<Rightarrow> EvalRun option" where
  "sql_readReport s run db = map_option snd (List.find (same_report s run) (lg_runs db))"

subsection \<open>Evidence\<close>

definition Build_Normalized :: "Build \<Rightarrow> Build" where
  "Build_Normalized b =
     (let v = TrimPrefix (TrimSpace (bu_Version b)) ''v'';
          c = ToLower (TrimSpace (bu_Commit b));
          c = (if c = ''none'' \<or> c = ''unknown'' then [] else c)
      in \<lparr>bu_Version = v, bu_Commit = c\<rparr>)"

definition Build_Known :: "Build \<Rightarrow> bool" where
  "Build_Known b \<longleftrightarrow> bu_Version (Build_Normalized b) \<noteq> [] \<or> bu_Commit (Build_Normalized b) \<noteq> []"

definition Build_Matches :: "Build \<Rightarrow> Build \<Rightarrow> bool" where
  "Build_Matches b running =
     (let r = Build_Normalized b; x = Build_Normalized running
      in if bu_Commit r \<noteq> [] \<and> bu_Commit x \<noteq> [] then bu_Commit r = bu_Commit x
         else bu_Version r \<noteq> [] \<and> bu_Version r = bu_Version x)"

definition runningBuild :: "PostgresStore \<Rightarrow> Build" where
  "runningBuild s = Build_Normalized (ps_build s)"

text \<open>The condition of the bench query on a stored report's build.\<close>

definition build_counts :: "Build \<Rightarrow> Build \<Rightarrow> bool" where
  "build_counts b running \<longleftrightarrow>
     bu_Version b = [] \<and> bu_Commit b = [] \<or>
     bu_Commit running \<noteq> [] \<and> bu_Commit b = bu_Commit running \<or>
     (bu_Commit running = [] \<or> bu_Commit b = []) \<and> bu_Version running \<noteq> [] \<and>
       bu_Version b = bu_Version running"

definition newest_first :: "EvalRun list \<Rightarrow> EvalRun list" where
  "newest_first runs = sort_key (\<lambda>r. - er_GeneratedAt r) (sort_key (\<lambda>r. - er_IngestedAt r) runs)"

definition sql_bench :: "PostgresStore \<Rightarrow> Family \<Rightarrow> ledger_db \<Rightarrow> EvalRun option" where
  "sql_bench s f db =
     (case newest_first (map snd (filter (\<lambda>(dep, r). dep = ps_deployment s \<and>
         er_Source r = SourceBench \<and>
         (if f = [] then list_ex (\<lambda>c. ce_Family c \<noteq> ''all'') (er_Cells r)
          else list_ex (\<lambda>c. ce_Family c = f) (er_Cells r)) \<and>
         build_counts (er_Build r) (runningBuild s)) (lg_runs db))) of
        [] \<Rightarrow> None
      | r # _ \<Rightarrow> Some r)"

definition sql_gameDays :: "PostgresStore \<Rightarrow> instant \<Rightarrow> ledger_db \<Rightarrow> EvalRun list" where
  "sql_gameDays s since db =
     take 200 (sort_key (\<lambda>r. - er_GeneratedAt r) (map snd (filter (\<lambda>(dep, r).
         dep = ps_deployment s \<and> er_Source r = SourceGameDay \<and> er_Database r = ps_database s \<and>
         since \<le> er_GeneratedAt r) (lg_runs db))))"

definition sql_shadow :: "PostgresStore \<Rightarrow> Family \<Rightarrow> instant \<Rightarrow> ledger_db \<Rightarrow> Shadow" where
  "sql_shadow s f since db =
     (let rs = map (\<lambda>(_, r, _). r) (filter (\<lambda>(sc, r, counts). sc = ps_scope s \<and>
                 rv_Family r = f \<and> counts) (lg_reviews db));
          recent = filter (\<lambda>r. since \<le> rv_At r) rs
      in \<lparr>sh_Reviewed = int (length recent),
          sh_Accepted = int (length (filter (\<lambda>r. rv_Verdict r = VerdictAccepted) recent)),
          sh_FirstReviewAt = (case rs of [] \<Rightarrow> 0 | r # rs' \<Rightarrow> foldl min (rv_At r) (map rv_At rs'))\<rparr>)"

definition pair_outcomes :: "PostgresStore \<Rightarrow> Family \<Rightarrow> ActionClass \<Rightarrow> ledger_db \<Rightarrow> Outcome list" where
  "pair_outcomes s f c db = map snd (filter (\<lambda>(sc, o'). sc = ps_scope s \<and> oc_Family o' = f \<and>
     oc_Class o' = c) (lg_outcomes db))"

abbreviation count_if :: "('a \<Rightarrow> bool) \<Rightarrow> 'a list \<Rightarrow> int" where
  "count_if P xs \<equiv> int (length (filter P xs))"

definition is_harm :: "string \<Rightarrow> bool" where
  "is_harm result \<longleftrightarrow> result = ResultHarmful \<or> result = ResultSafetyViolation"

definition sql_live :: "PostgresStore \<Rightarrow> Family \<Rightarrow> ActionClass \<Rightarrow> ledger_db \<Rightarrow> Live" where
  "sql_live s f c db =
     (let os = pair_outcomes s f c db
      in \<lparr>lv_VerifiedL2 = count_if (\<lambda>o'. oc_Result o' = ResultVerifiedRecovery \<and> oc_Level o' = 2) os,
          lv_HarmfulPair = count_if (\<lambda>o'. is_harm (oc_Result o')) os,
          lv_Unverified = count_if (\<lambda>o'. oc_Result o' = ResultUnverified) os\<rparr>)"

text \<open>The number of harmful or unsafe outcomes of a family since an instant, and the newest one's
  time (zero without one).\<close>

definition sql_safety :: "PostgresStore \<Rightarrow> Family \<Rightarrow> instant \<Rightarrow> ledger_db \<Rightarrow> int \<times> instant" where
  "sql_safety s f since db =
     (let os = map snd (filter (\<lambda>(sc, o'). sc = ps_scope s \<and> oc_Family o' = f \<and>
                 since \<le> oc_At o' \<and> is_harm (oc_Result o')) (lg_outcomes db))
      in (int (length os), case os of [] \<Rightarrow> 0 | o' # os' \<Rightarrow> foldl max (oc_At o') (map oc_At os')))"

definition observed_at :: "Outcome \<Rightarrow> instant" where
  "observed_at o' = (case oc_ObservedAt o' of Some t \<Rightarrow> t | None \<Rightarrow> oc_At o')"

definition is_demerit :: "Outcome \<Rightarrow> bool" where
  "is_demerit o' \<longleftrightarrow> is_harm (oc_Result o') \<or> oc_Result o' = ResultRejected"

definition after_demerit :: "instant option \<Rightarrow> instant \<Rightarrow> bool" where
  "after_demerit lastAt t \<longleftrightarrow> (case lastAt of None \<Rightarrow> True | Some l \<Rightarrow> t > l)"

text \<open>The verdict record of a pair; an empty verdict is the stored null. The last demerit is the
  newest of the recorded demerits and the incorrect shadow decisions.\<close>

definition sql_classRecord :: "PostgresStore \<Rightarrow> Family \<Rightarrow> ActionClass \<Rightarrow> ledger_db \<Rightarrow> ClassRecord" where
  "sql_classRecord s f c db =
     (let os = pair_outcomes s f c db;
          es = map snd (filter (\<lambda>(sc, e). sc = ps_scope s \<and> se_family e = f \<and>
                 se_action_class e = c) (lg_shadow db));
          demerits = map observed_at (filter is_demerit os) @
                     map se_observed_at (filter (\<lambda>e. se_score e = ''incorrect'') es);
          lastAt = (case demerits of [] \<Rightarrow> None | d # ds \<Rightarrow> Some (foldl max d ds));
          prints = (\<lambda>score. int (length (remdups (map se_fingerprint
                     (filter (\<lambda>e. se_score e = score \<and> after_demerit lastAt (se_observed_at e)) es)))));
          shadowSuccesses = prints ''correct'';
          shadowUncredited = prints ''neutral''
      in \<lparr>cr_Improved = count_if (\<lambda>o'. oc_Verdict o' = ''improved'' \<or>
            oc_Verdict o' = [] \<and> oc_Result o' = ResultVerifiedRecovery) os,
          cr_Neutral = count_if (\<lambda>o'. oc_Verdict o' = ''neutral'') os,
          cr_Regressed = count_if (\<lambda>o'. oc_Verdict o' = CauseRegressed \<or>
            oc_Verdict o' = [] \<and> is_harm (oc_Result o')) os,
          cr_RolledBack = count_if (\<lambda>o'. oc_Verdict o' = CauseRolledBack) os,
          cr_Rejected = count_if (\<lambda>o'. oc_Verdict o' = CauseRejected \<or>
            oc_Verdict o' = [] \<and> oc_Result o' = ResultRejected) os,
          cr_Insufficient = count_if (\<lambda>o'. oc_Verdict o' = ''insufficient_evidence'') os,
          cr_Unverifiable = count_if (\<lambda>o'. oc_Verdict o' = ''unverifiable'' \<or>
            oc_Verdict o' = [] \<and> oc_Result o' = ResultUnverified) os,
          cr_Successes = count_if (\<lambda>o'. oc_Result o' = ResultVerifiedRecovery \<and>
            after_demerit lastAt (observed_at o')) os + shadowSuccesses,
          cr_Uncredited = count_if (\<lambda>o'. oc_Result o' = ResultUnverified \<and>
            oc_Verdict o' = ''neutral'' \<and> after_demerit lastAt (observed_at o')) os + shadowUncredited,
          cr_LastDemeritAt = lastAt,
          cr_ShadowCorrect = count_if (\<lambda>e. se_score e = ''correct'') es,
          cr_ShadowIncorrect = count_if (\<lambda>e. se_score e = ''incorrect'') es,
          cr_ShadowNeutral = count_if (\<lambda>e. se_score e = ''neutral'') es,
          cr_ShadowSuccesses = shadowSuccesses,
          cr_ShadowUncredited = shadowUncredited\<rparr>)"

subsection \<open>Grandfathering\<close>

definition sql_lockGrandfatherMarker :: "PostgresStore \<Rightarrow> ledger_db \<Rightarrow> instant option \<times> ledger_db" where
  "sql_lockGrandfatherMarker s db =
     (case map_of (lg_grandfathered db) (ps_scope s) of
        Some t \<Rightarrow> (t, db)
      | None \<Rightarrow> (None, db\<lparr>lg_grandfathered := lg_grandfathered db @ [(ps_scope s, None)]\<rparr>))"

definition sql_markGrandfathered :: "PostgresStore \<Rightarrow> instant \<Rightarrow> ledger_db \<Rightarrow> ledger_db" where
  "sql_markGrandfathered s now db =
     db\<lparr>lg_grandfathered := map (\<lambda>row. if fst row = ps_scope s then (fst row, Some now) else row)
          (lg_grandfathered db)\<rparr>"

end
