(* ===== verification/Ledger_World.thy ===== *)
theory Ledger_World
  imports Ledger_Db
begin

text \<open>
  How the ledger's service runs statements. A statement outside a transaction commits at once.
  Inside a transaction (\<^verbatim>\<open>withTx\<close>) statements see the committed tables with the
  transaction's own writes on top; other sessions may commit between two statements, as under
  PostgreSQL's default isolation. The writes and row locks of a transaction take effect together at
  its commit, which finds the rows they found: where it does not, which row locks exclude, the
  transaction fails. A script says, for every statement, what the other sessions committed before
  it, what the clock reads then, and whether it fails. A statement whose answer is lost may have
  taken effect.
\<close>

subsection \<open>World\<close>

datatype fault = Failed ledger_error | Lost ledger_error

record ledger_event =
  le_others :: "ledger_db \<Rightarrow> ledger_db"
  le_fault :: "fault option"
  le_now :: instant

text \<open>The service's cache of supported levels and the limiter's memory are process state.\<close>

record cachedLevel =
  ca_level :: Level
  ca_at :: instant

record ledger_world =
  gw_db :: ledger_db
  gw_tx :: "(ledger_db \<Rightarrow> ledger_db option) option"
  gw_now :: instant
  gw_script :: "ledger_event list"
  gw_rand :: "byte list list"
  gw_cache :: "(pairKey \<times> cachedLevel) list"
  gw_last :: "(pairKey \<times> string) list"
  gw_overrides :: "(string \<times> instant) list"

definition ledger_tick :: "ledger_world \<Rightarrow> fault option \<times> ledger_world" where
  "ledger_tick w =
     (case gw_script w of
        [] \<Rightarrow> (None, w)
      | e # es \<Rightarrow> (le_fault e, w\<lparr>gw_db := le_others e (gw_db w), gw_now := le_now e,
                                gw_script := es\<rparr>))"

subsection \<open>Calls\<close>

type_synonym 'a led = "ledger_world \<Rightarrow> (ledger_error + 'a) \<times> ledger_world"

definition lreturn :: "'a \<Rightarrow> 'a led" where "lreturn a w = (Inr a, w)"

definition lfail :: "ledger_error \<Rightarrow> 'a led" where "lfail e w = (Inl e, w)"

definition lbind :: "'a led \<Rightarrow> ('a \<Rightarrow> 'b led) \<Rightarrow> 'b led" where
  "lbind m f w = (case m w of (Inl e, w) \<Rightarrow> (Inl e, w) | (Inr a, w) \<Rightarrow> f a w)"

definition lcheck :: "ledger_error + 'a \<Rightarrow> 'a led" where "lcheck r w = (r, w)"

definition lnow :: "instant led" where "lnow w = (Inr (gw_now w), w)"

text \<open>Sixteen random bytes.\<close>

definition lrand :: "byte list led" where
  "lrand w = (case gw_rand w of
     [] \<Rightarrow> (Inr (replicate 16 0), w) | r # rs \<Rightarrow> (Inr r, w\<lparr>gw_rand := rs\<rparr>))"

definition lretry :: "(ledger_error \<Rightarrow> bool) \<Rightarrow> 'a led \<Rightarrow> 'a led" where
  "lretry again m w = (case m w of
     (Inl e, w) \<Rightarrow> if again e then m w else (Inl e, w) | (Inr a, w) \<Rightarrow> (Inr a, w))"

fun lforeach :: "('a \<Rightarrow> unit led) \<Rightarrow> 'a list \<Rightarrow> unit led" where
  "lforeach f [] = lreturn ()"
| "lforeach f (x # xs) = lbind (f x) (\<lambda>_. lforeach f xs)"

fun lmapM :: "('a \<Rightarrow> 'b led) \<Rightarrow> 'a list \<Rightarrow> 'b list led" where
  "lmapM f [] = lreturn []"
| "lmapM f (x # xs) = lbind (f x) (\<lambda>y. lbind (lmapM f xs) (\<lambda>ys. lreturn (y # ys)))"

text \<open>Dropping the cache of supported levels, whatever the call gives.\<close>

definition invalidate :: "ledger_world \<Rightarrow> ledger_world" where
  "invalidate w = w\<lparr>gw_cache := []\<rparr>"

definition linvalidate :: "'a led \<Rightarrow> 'a led" where
  "linvalidate m w = (case m w of (r, w) \<Rightarrow> (r, invalidate w))"

subsection \<open>Statements and transactions\<close>

definition tx_then ::
    "(ledger_db \<Rightarrow> ledger_db option) \<Rightarrow> (ledger_db \<Rightarrow> (ledger_error + 'a) \<times> ledger_db) \<Rightarrow> 'a \<Rightarrow>
     ledger_db \<Rightarrow> ledger_db option" where
  "tx_then tx f a db =
     (case tx db of
        None \<Rightarrow> None
      | Some d \<Rightarrow> (case f d of (Inr a', d') \<Rightarrow> if a' = a then Some d' else None | _ \<Rightarrow> None))"

definition lstmt :: "(ledger_db \<Rightarrow> (ledger_error + 'a) \<times> ledger_db) \<Rightarrow> 'a led" where
  "lstmt f w =
     (case ledger_tick w of
        (Some (Failed e), w) \<Rightarrow> (Inl e, w)
      | (Some (Lost e), w) \<Rightarrow>
          (Inl e, case gw_tx w of None \<Rightarrow> w\<lparr>gw_db := snd (f (gw_db w))\<rparr> | Some _ \<Rightarrow> w)
      | (None, w) \<Rightarrow>
          (case gw_tx w of
             None \<Rightarrow> (case f (gw_db w) of (r, db) \<Rightarrow> (r, w\<lparr>gw_db := db\<rparr>))
           | Some tx \<Rightarrow>
               (case tx (gw_db w) of
                  None \<Rightarrow> (Inl (ErrUnavailable ''could not serialize access''), w)
                | Some view \<Rightarrow>
                    (case f view of
                       (Inl e, _) \<Rightarrow> (Inl e, w)
                     | (Inr a, _) \<Rightarrow> (Inr a, w\<lparr>gw_tx := Some (tx_then tx f a)\<rparr>)))))"

text \<open>A query that takes no lock.\<close>

definition lread :: "(ledger_db \<Rightarrow> 'a) \<Rightarrow> 'a led" where
  "lread g w =
     (case ledger_tick w of
        (Some (Failed e), w) \<Rightarrow> (Inl e, w)
      | (Some (Lost e), w) \<Rightarrow> (Inl e, w)
      | (None, w) \<Rightarrow>
          (case gw_tx w of
             None \<Rightarrow> (Inr (g (gw_db w)), w)
           | Some tx \<Rightarrow>
               (case tx (gw_db w) of
                  None \<Rightarrow> (Inl (ErrUnavailable ''could not serialize access''), w)
                | Some view \<Rightarrow> (Inr (g view), w))))"

text \<open>A statement that cannot break a constraint.\<close>

definition lupdate :: "(ledger_db \<Rightarrow> 'a \<times> ledger_db) \<Rightarrow> 'a led" where
  "lupdate f = lstmt (\<lambda>db. case f db of (a, db') \<Rightarrow> (Inr a, db'))"

definition commit :: "(ledger_db \<Rightarrow> ledger_db option) \<Rightarrow> unit led" where
  "commit tx w =
     (case ledger_tick w of
        (Some (Failed e), w) \<Rightarrow> (Inl e, w)
      | (Some (Lost e), w) \<Rightarrow>
          (Inl e, case tx (gw_db w) of None \<Rightarrow> w | Some db \<Rightarrow> w\<lparr>gw_db := db\<rparr>)
      | (None, w) \<Rightarrow>
          (case tx (gw_db w) of
             None \<Rightarrow> (Inl (ErrUnavailable ''could not serialize access''), w)
           | Some db \<Rightarrow> (Inr (), w\<lparr>gw_db := db\<rparr>)))"

text \<open>\<^verbatim>\<open>pgx.BeginFunc\<close>: begin, the body, then commit, or rollback on an error.\<close>

definition withTx :: "'a led \<Rightarrow> 'a led" where
  "withTx body w =
     (case ledger_tick w of
        (Some (Failed e), w) \<Rightarrow> (Inl e, w)
      | (Some (Lost e), w) \<Rightarrow> (Inl e, w)
      | (None, w) \<Rightarrow>
          (case body (w\<lparr>gw_tx := Some Some\<rparr>) of
             (Inl e, w) \<Rightarrow> (Inl e, w\<lparr>gw_tx := None\<rparr>)
           | (Inr a, w) \<Rightarrow>
               (case gw_tx w of
                  None \<Rightarrow> (Inr a, w)
                | Some tx \<Rightarrow>
                    (case commit tx (w\<lparr>gw_tx := None\<rparr>) of
                       (Inl e, w) \<Rightarrow> (Inl e, w)
                     | (Inr _, w) \<Rightarrow> (Inr a, w)))))"

end
