(* ===== verification/Ledger_Service.thy ===== *)
theory Ledger_Service
  imports Ledger_World
begin

text \<open>
  The ledger's service: \<^verbatim>\<open>service.go\<close>, \<^verbatim>\<open>evidence_set.go\<close>,
  \<^verbatim>\<open>evaluate.go\<close>, \<^verbatim>\<open>service_decide.go\<close>, \<^verbatim>\<open>demote.go\<close>,
  \<^verbatim>\<open>carryover.go\<close>, \<^verbatim>\<open>legacy.go\<close>, \<^verbatim>\<open>grandfather.go\<close> and the
  provenance of bench reports (\<^verbatim>\<open>provenance.go\<close>). A call is a function of the world of
  theory Ledger_World; its statements and transactions are those of the code, in order.
\<close>

subsection \<open>Configuration\<close>

record LedgerConfig =
  lc_Thresholds :: Thresholds
  lc_ProposalTTL :: duration
  lc_MaxEvidenceAge :: duration
  lc_ConcurrencyWindow :: duration
  lc_SafetyWindow :: duration
  lc_FailoverCooldown :: duration
  lc_EvidenceCacheTTL :: duration
  lc_Build :: Build

definition DefaultConfig :: LedgerConfig where
  "DefaultConfig = \<lparr>lc_Thresholds = DefaultThresholds, lc_ProposalTTL = 7 * 24 * hour,
     lc_MaxEvidenceAge = 5 * minute, lc_ConcurrencyWindow = 15 * minute,
     lc_SafetyWindow = 30 * 24 * hour, lc_FailoverCooldown = 30 * minute,
     lc_EvidenceCacheTTL = minute, lc_Build = \<lparr>bu_Version = [], bu_Commit = []\<rparr>\<rparr>"

text \<open>The trust ramp is set once at start (\<^verbatim>\<open>WithRamp\<close>); what it reads is constant
  here.\<close>

record Service =
  sv_store :: PostgresStore
  sv_cfg :: LedgerConfig
  sv_ramp :: "RampFloor option"

definition NewService :: "PostgresStore \<Rightarrow> LedgerConfig \<Rightarrow> Service" where
  "NewService store cfg =
     (let def = DefaultConfig;
          cfg = cfg\<lparr>lc_Thresholds := Thresholds_Normalized (lc_Thresholds cfg),
            lc_ProposalTTL := or_default_int (lc_ProposalTTL cfg) (lc_ProposalTTL def),
            lc_MaxEvidenceAge := or_default_int (lc_MaxEvidenceAge cfg) (lc_MaxEvidenceAge def),
            lc_ConcurrencyWindow :=
              or_default_int (lc_ConcurrencyWindow cfg) (lc_ConcurrencyWindow def),
            lc_SafetyWindow := or_default_int (lc_SafetyWindow cfg) (lc_SafetyWindow def),
            lc_FailoverCooldown :=
              or_default_int (lc_FailoverCooldown cfg) (lc_FailoverCooldown def),
            lc_EvidenceCacheTTL := max 0 (lc_EvidenceCacheTTL cfg)\<rparr>
      in \<lparr>sv_store = store\<lparr>ps_build := Build_Normalized (lc_Build cfg)\<rparr>, sv_cfg = cfg,
          sv_ramp = None\<rparr>)"

definition WithRamp :: "RampFloor \<Rightarrow> Service \<Rightarrow> Service" where
  "WithRamp ramp sv = sv\<lparr>sv_ramp := Some ramp\<rparr>"

subsection \<open>Granted levels\<close>

definition readLevel :: "Service \<Rightarrow> Family \<Rightarrow> ActionClass \<Rightarrow> State option led" where
  "readLevel sv f c = lread (sql_readLevel (sv_store sv) f c)"

definition defaultState :: "Family \<Rightarrow> ActionClass \<Rightarrow> State" where
  "defaultState f c = State0\<lparr>st_Family := f, st_Class := c, st_Level := defaultLevel f,
     st_Provenance := ProvenanceLedger\<rparr>"

definition composedLevel :: "State \<Rightarrow> bool \<Rightarrow> (pairKey \<Rightarrow> Level) \<Rightarrow> State" where
  "composedLevel st found componentLevel =
     (case ComponentClasses (st_Class st) of
        [] \<Rightarrow> st
      | comps \<Rightarrow>
          let lowest = foldl (\<lambda>l p. MinLevel [l, componentLevel p]) MaxGrantable comps;
              lowest = (if found then MinLevel [st_Level st, lowest] else lowest)
          in st\<lparr>st_Level := lowest\<rparr>)"

definition boundByComponents ::
    "(Family \<Rightarrow> ActionClass \<Rightarrow> State led) \<Rightarrow> State \<Rightarrow> bool \<Rightarrow> State led" where
  "boundByComponents Granted st found =
     lbind (lmapM (\<lambda>p. lbind (Granted (fst p) (snd p)) (\<lambda>cs. lreturn (p, st_Level cs)))
              (ComponentClasses (st_Class st)))
       (\<lambda>levels. lreturn (composedLevel st found (\<lambda>p. case map_of levels p of
          Some l \<Rightarrow> l | None \<Rightarrow> L0)))"

text \<open>Granted and boundByComponents call each other: a composite class reads its components. The
  components of a composite are plain, so two levels are enough.\<close>

fun granted_within :: "nat \<Rightarrow> Service \<Rightarrow> Family \<Rightarrow> ActionClass \<Rightarrow> State led" where
  "granted_within 0 sv f c = lfail (ErrUnavailable ''nested composites'')"
| "granted_within (Suc n) sv f c =
     lbind (readLevel sv f c) (\<lambda>row.
       boundByComponents (granted_within n sv)
         (case row of Some st \<Rightarrow> st | None \<Rightarrow> defaultState f c) (row \<noteq> None))"

definition Granted :: "Service \<Rightarrow> Family \<Rightarrow> ActionClass \<Rightarrow> State led" where
  "Granted sv f c = granted_within 2 sv f c"

subsection \<open>Evidence of a pair\<close>

definition Evidence_of :: "Service \<Rightarrow> Family \<Rightarrow> ActionClass \<Rightarrow> Evidence led" where
  "Evidence_of sv f c =
     lbind lnow (\<lambda>now.
       let s = sv_store sv; th = lc_Thresholds (sv_cfg sv); ev = Evidence0 f c now
       in if IsSelfInitiated f
          then lbind (lread (sql_classRecord s f c)) (\<lambda>r.
                 lreturn (ev\<lparr>evd_Record := Some r, evd_Floor := Some (floorStatus (sv_ramp sv) c now)\<rparr>))
          else lbind (lread (sql_bench s f)) (\<lambda>bench.
               lbind (lread (sql_gameDays s (now - th_BenchMaxAge th))) (\<lambda>gameDays.
               lbind (lread (sql_shadow s f (now - th_ShadowDuration th))) (\<lambda>shadow.
               lbind (lread (sql_live s f c)) (\<lambda>live.
               lbind (lread (sql_safety s f (now - lc_SafetyWindow (sv_cfg sv)))) (\<lambda>safety.
                 lreturn (ev\<lparr>evd_Bench := bench, evd_GameDays := gameDays, evd_Shadow := shadow,
                   evd_Live := live, evd_FamilyViolations := fst safety,
                   evd_ViolationsClearAt := (if fst safety > 0
                     then Some (snd safety + lc_SafetyWindow (sv_cfg sv)) else None)\<rparr>)))))))"

text \<open>The level the evidence supports, cached.\<close>

definition supportedLevel :: "Service \<Rightarrow> Family \<Rightarrow> ActionClass \<Rightarrow> Level led" where
  "supportedLevel sv f c w =
     (let now = gw_now w; ttl = lc_EvidenceCacheTTL (sv_cfg sv)
      in case (if ttl > 0 then map_of (gw_cache w) (f, c) else None) of
           Some hit \<Rightarrow>
             if time_Sub now (ca_at hit) < ttl then (Inr (ca_level hit), w)
             else lbind (Evidence_of sv f c) (\<lambda>ev w.
               let level = SupportedLevel (lc_Thresholds (sv_cfg sv)) ev
               in (Inr level, w\<lparr>gw_cache := ((f, c), \<lparr>ca_level = level, ca_at = now\<rparr>) # gw_cache w\<rparr>)) w
         | None \<Rightarrow>
             lbind (Evidence_of sv f c) (\<lambda>ev w.
               let level = SupportedLevel (lc_Thresholds (sv_cfg sv)) ev
               in (Inr level, w\<lparr>gw_cache := ((f, c), \<lparr>ca_level = level, ca_at = now\<rparr>) # gw_cache w\<rparr>)) w)"

subsection \<open>Proposals\<close>

definition appendEvent :: "Service \<Rightarrow> Event \<Rightarrow> unit led" where
  "appendEvent sv e = lstmt (sql_appendEvent (sv_store sv) e)"

definition ledger_entry :: "Family \<Rightarrow> ActionClass \<Rightarrow> EventType \<Rightarrow> string \<Rightarrow> string \<Rightarrow> instant \<Rightarrow> Event" where
  "ledger_entry f c t actor reason now = \<lparr>en_Family = f, en_Class = c, en_Type = t, en_From = None,
     en_To = None, en_Actor = actor, en_Reason = reason, en_ProposalID = [], en_ActionLogID = 0,
     en_Evidence = RawEmpty, en_At = now\<rparr>"

definition readProposal :: "Service \<Rightarrow> string \<Rightarrow> bool \<Rightarrow> Proposal led" where
  "readProposal sv i forUpdate =
     (if \<not> uuidPattern i then lfail (ErrInvalidRequest (''proposal id '' @ i))
      else lbind (if forUpdate then lstmt (\<lambda>db. (Inr (sql_readProposal (sv_store sv) i db), db))
                  else lread (sql_readProposal (sv_store sv) i))
             (\<lambda>p. case p of None \<Rightarrow> lfail (ErrNotFound i) | Some p \<Rightarrow> lreturn p))"

definition createProposal ::
    "Service \<Rightarrow> State \<Rightarrow> Level \<Rightarrow> Evidence \<Rightarrow> Assessment \<Rightarrow> Proposal option led" where
  "createProposal sv st target ev a =
     lbind lnow (\<lambda>now. lbind lrand (\<lambda>r.
       let p = \<lparr>pp_ID = newID r, pp_Family = st_Family st, pp_Class = st_Class st,
                pp_From = st_Level st, pp_To = target, pp_Evidence = RawAssessed ev a,
                pp_Status = StatusPending, pp_ProposedAt = now,
                pp_ExpiresAt = now + lc_ProposalTTL (sv_cfg sv), pp_DecidedBy = [],
                pp_DecidedAt = None, pp_Note = []\<rparr>
       in lbind (lstmt (sql_insertProposal (sv_store sv) p)) (\<lambda>inserted.
            if \<not> inserted then lreturn None
            else lbind (appendEvent sv ((ledger_entry (pp_Family p) (pp_Class p) EventPromotionProposed
                   ActorPgSage (''evidence supports '' @ Level_String (pp_To p)) now)
                   \<lparr>en_From := Some (pp_From p), en_To := Some (pp_To p), en_ProposalID := pp_ID p,
                    en_Evidence := pp_Evidence p\<rparr>))
                 (\<lambda>_. lbind (readProposal sv (pp_ID p) False) (\<lambda>stored. lreturn (Some stored))))))"

definition expire :: "Service \<Rightarrow> unit led" where
  "expire sv =
     lbind lnow (\<lambda>now. lbind (lupdate (sql_expireDue (sv_store sv) now)) (\<lambda>expired.
       lforeach (\<lambda>p. appendEvent sv ((ledger_entry (pp_Family p) (pp_Class p) EventPromotionExpired
         ActorPgSage ''no decision before expiry'' now)
         \<lparr>en_From := Some (pp_From p), en_To := Some (pp_To p), en_ProposalID := pp_ID p\<rparr>)) expired))"

definition listProposals :: "Service \<Rightarrow> string \<Rightarrow> nat \<Rightarrow> Proposal list led" where
  "listProposals sv status limit = lread (sql_readProposals (sv_store sv) status limit)"

definition PendingProposals :: "Service \<Rightarrow> Proposal list led" where
  "PendingProposals sv = lbind (expire sv) (\<lambda>_. listProposals sv StatusPending 200)"

definition History :: "Service \<Rightarrow> EventFilter \<Rightarrow> Event list led" where
  "History sv f =
     (let f = (if ef_Limit f = 0 then f\<lparr>ef_Limit := 100\<rparr> else f)
      in if ef_Limit f < 1 \<or> ef_Limit f > MaxEventPage
         then lfail (ErrInvalidRequest (''limit '' @ itoa (ef_Limit f)))
         else lbind (lcheck (if ef_Database f \<noteq> [] then checkDatabase (sv_store sv) (ef_Database f)
                             else Inr ()))
                (\<lambda>_. lread (sql_events (sv_store sv) f)))"

subsection \<open>Evaluation\<close>

datatype NotProposedReason = NotProposedEvidence | NotProposedPending | NotProposedAtCap

record NotProposed =
  np_Family :: Family
  np_Class :: ActionClass
  np_Granted :: Level
  np_Target :: "Level option"
  np_Reason :: NotProposedReason
  np_Pending :: string
  np_Unmet :: "Check list"

record Evaluation =
  el_Created :: "Proposal list"
  el_NotProposed :: "NotProposed list"

definition add_np :: "Evaluation \<Rightarrow> NotProposed \<Rightarrow> Evaluation led" where
  "add_np e np = lreturn (e\<lparr>el_NotProposed := el_NotProposed e @ [np]\<rparr>)"

definition evaluateOne ::
    "Service \<Rightarrow> (pairKey \<times> string) list \<Rightarrow> Evaluation \<Rightarrow> pairKey \<Rightarrow> Evaluation led" where
  "evaluateOne sv waiting e pair =
     (case pair of (f, c) \<Rightarrow> lbind (Granted sv f c) (\<lambda>st.
       let np = \<lparr>np_Family = f, np_Class = c, np_Granted = st_Level st, np_Target = None,
                 np_Reason = NotProposedAtCap, np_Pending = [], np_Unmet = []\<rparr>;
           target = st_Level st + 1
       in if target > CapForPair f c \<or> \<not> Grantable target then add_np e np
          else (let np = np\<lparr>np_Target := Some target\<rparr>
                in case map_of waiting (f, c) of
                     Some i \<Rightarrow> add_np e (np\<lparr>np_Reason := NotProposedPending, np_Pending := i\<rparr>)
                   | None \<Rightarrow> lbind (Evidence_of sv f c) (\<lambda>ev.
                       let a = Assess (lc_Thresholds (sv_cfg sv)) target ev
                       in if \<not> as_Met a
                          then add_np e (np\<lparr>np_Reason := NotProposedEvidence,
                                 np_Unmet := filter (\<lambda>k. \<not> ck_Met k) (as_Checks a)\<rparr>)
                          else lbind (createProposal sv st target ev a) (\<lambda>p.
                            case p of
                              None \<Rightarrow> add_np e (np\<lparr>np_Reason := NotProposedPending\<rparr>)
                            | Some p \<Rightarrow> lreturn (e\<lparr>el_Created := el_Created e @ [p]\<rparr>))))))"

fun lfoldM :: "('s \<Rightarrow> 'a \<Rightarrow> 's led) \<Rightarrow> 's \<Rightarrow> 'a list \<Rightarrow> 's led" where
  "lfoldM f s [] = lreturn s"
| "lfoldM f s (x # xs) = lbind (f s x) (\<lambda>s. lfoldM f s xs)"

definition gridPairs :: "pairKey list" where
  "gridPairs = concat (map (\<lambda>f. map (\<lambda>c. (f, c)) (ApplicableClasses f)) AllFamilies)"

text \<open>A later entry of the list overrides an earlier one of the same pair. On an error the code also
  returns what it had created.\<close>

definition Evaluate :: "Service \<Rightarrow> Evaluation led" where
  "Evaluate sv =
     lbind (expire sv) (\<lambda>_. lbind (listProposals sv StatusPending 200) (\<lambda>pending.
       let waiting = rev (map (\<lambda>p. ((pp_Family p, pp_Class p), pp_ID p)) pending)
       in lfoldM (evaluateOne sv waiting) \<lparr>el_Created = [], el_NotProposed = []\<rparr> gridPairs))"

definition ProposePromotions :: "Service \<Rightarrow> Proposal list led" where
  "ProposePromotions sv = lbind (Evaluate sv) (\<lambda>e. lreturn (el_Created e))"

subsection \<open>Deciding a promotion\<close>

definition nonHumanPrefixes :: "string list" where
  "nonHumanPrefixes = [ActorPgSage, ''system'', ''mcp:'', ''mcp-agent'', ''stdio'']"

definition humanActor :: "string \<Rightarrow> bool" where
  "humanActor actor =
     (let actor = TrimSpace actor
      in \<not> (actor = [] \<or> length actor > 200) \<and>
         \<not> list_ex (HasPrefix actor) nonHumanPrefixes)"

definition reviewerAllowed :: "string \<Rightarrow> bool" where
  "reviewerAllowed actor =
     (let trimmed = TrimSpace actor
      in humanActor actor \<or> (HasPrefix trimmed ''mcp:'' \<and> length trimmed > length ''mcp:'' \<and>
           length trimmed \<le> 200))"

definition checkDecidable :: "Service \<Rightarrow> Proposal \<Rightarrow> unit led" where
  "checkDecidable sv p =
     (if pp_Status p \<noteq> StatusPending then lfail (ErrNotPending (pp_ID p))
      else lbind lnow (\<lambda>now.
        if \<not> now < pp_ExpiresAt p
        then lbind (expire sv) (\<lambda>_. lfail (ErrProposalExpired (pp_ID p)))
        else if pp_To p > CapForPair (pp_Family p) (pp_Class p) \<or> \<not> Grantable (pp_To p) \<or>
                \<not> Applicable (pp_Family p) (pp_Class p)
        then lfail (ErrInvalidRequest (''above the cap of '' @ pp_Class p))
        else lreturn ()))"

definition noteOr :: "string \<Rightarrow> string \<Rightarrow> string" where
  "noteOr remark fallback = (if TrimSpace remark = [] then fallback else remark)"

text \<open>The state row a change is compared with: none stands for version 0.\<close>

definition version_of :: "State option \<Rightarrow> int" where
  "version_of row = (case row of None \<Rightarrow> 0 | Some st \<Rightarrow> st_Version st)"

definition level_or :: "Level \<Rightarrow> State option \<Rightarrow> Level" where
  "level_or def row = (case row of None \<Rightarrow> def | Some st \<Rightarrow> st_Level st)"

definition approval_tx ::
    "Service \<Rightarrow> Proposal \<Rightarrow> string \<Rightarrow> string \<Rightarrow> raw \<Rightarrow> instant \<Rightarrow> State led" where
  "approval_tx sv p approver remark evidence now =
     lbind (readProposal sv (pp_ID p) True) (\<lambda>locked.
       if pp_Status locked \<noteq> StatusPending then lfail (ErrNotPending (pp_ID p))
       else lbind (readLevel sv (pp_Family p) (pp_Class p)) (\<lambda>current.
         if level_or (defaultLevel (pp_Family p)) current \<noteq> pp_From p
         then lfail (ErrConflict ''the level moved since the proposal'')
         else lbind (lstmt (sql_writeLevel (sv_store sv) \<lparr>ch_Family = pp_Family p,
                  ch_Class = pp_Class p, ch_To = pp_To p, ch_ExpectVersion = version_of current,
                  ch_Actor = approver, ch_Reason = ''promotion '' @ pp_ID p @ '' approved'',
                  ch_Evidence = evidence, ch_At = now\<rparr>)) (\<lambda>out.
              lbind (lstmt (sql_decideProposal (sv_store sv) (pp_ID p) StatusApproved approver
                       remark now)) (\<lambda>_.
              lbind (appendEvent sv ((ledger_entry (pp_Family p) (pp_Class p) EventPromotionApproved
                       approver (noteOr remark ''approved'') now)
                       \<lparr>en_From := Some (pp_From p), en_To := Some (pp_To p),
                        en_ProposalID := pp_ID p, en_Evidence := evidence\<rparr>)) (\<lambda>_.
                lreturn out)))))"

definition applyApproval ::
    "Service \<Rightarrow> Proposal \<Rightarrow> string \<Rightarrow> string \<Rightarrow> Evidence \<Rightarrow> Assessment \<Rightarrow> State led" where
  "applyApproval sv p approver remark ev a =
     lbind lnow (\<lambda>now. linvalidate (withTx
       (approval_tx sv p approver remark (RawAssessed ev a) now)))"

definition Approve :: "Service \<Rightarrow> string \<Rightarrow> string \<Rightarrow> string \<Rightarrow> State led" where
  "Approve sv i approver remark =
     (if \<not> humanActor approver then lfail (ErrHumanApprovalRequired (''approver '' @ approver))
      else if length remark > 2000 then lfail (ErrInvalidRequest ''note longer than 2000 characters'')
      else lbind (readProposal sv i False) (\<lambda>p.
           lbind (checkDecidable sv p) (\<lambda>_.
           lbind (Evidence_of sv (pp_Family p) (pp_Class p)) (\<lambda>ev.
             let a = Assess (lc_Thresholds (sv_cfg sv)) (pp_To p) ev
             in if \<not> as_Met a then lfail (EvidenceNotMetError a)
                else applyApproval sv p approver remark ev a))))"

definition Reject :: "Service \<Rightarrow> string \<Rightarrow> string \<Rightarrow> string \<Rightarrow> Proposal led" where
  "Reject sv i actor remark =
     (if TrimSpace actor = [] \<or> length actor > 200 \<or> length remark > 2000
      then lfail (ErrInvalidRequest ''a reject needs an actor and a short note'')
      else lbind (readProposal sv i False) (\<lambda>p. lbind lnow (\<lambda>now.
        lbind (withTx (lbind (lstmt (sql_decideProposal (sv_store sv) i StatusRejected actor remark now))
          (\<lambda>_. appendEvent sv ((ledger_entry (pp_Family p) (pp_Class p) EventPromotionRejected actor
                 (noteOr remark ''rejected'') now)
                 \<lparr>en_From := Some (pp_From p), en_To := Some (pp_To p), en_ProposalID := i\<rparr>))))
          (\<lambda>_. readProposal sv i False))))"

subsection \<open>Lowering\<close>

record DowngradeRequest =
  dr_Family :: Family
  dr_Class :: ActionClass
  dr_To :: Level
  dr_Actor :: string
  dr_Reason :: string

definition DowngradeRequest_validate :: "DowngradeRequest \<Rightarrow> ledger_error + unit" where
  "DowngradeRequest_validate r =
     (if \<not> KnownFamily (dr_Family r) then Inl (ErrInvalidRequest (''unknown family '' @ dr_Family r))
      else if dr_Class r \<noteq> AllClasses \<and> \<not> Applicable (dr_Family r) (dr_Class r)
      then Inl (ErrInvalidRequest (dr_Class r @ '' is not a class of '' @ dr_Family r))
      else if \<not> Grantable (dr_To r) then Inl (ErrInvalidRequest (''level '' @ itoa (dr_To r)))
      else if TrimSpace (dr_Actor r) = [] \<or> length (dr_Actor r) > 200
      then Inl (ErrInvalidRequest ''a downgrade needs an actor'')
      else if TrimSpace (dr_Reason r) = [] \<or> length (dr_Reason r) > 1000
      then Inl (ErrInvalidRequest ''a downgrade needs a reason'')
      else Inr ())"

definition lowerOne ::
    "Service \<Rightarrow> Family \<Rightarrow> Level \<Rightarrow> string \<Rightarrow> string \<Rightarrow> EventType \<Rightarrow> ActionClass \<Rightarrow> State option led" where
  "lowerOne sv f to actor reason kind c =
     lbind lnow (\<lambda>now. lbind (readLevel sv f c) (\<lambda>current.
       let from = level_or (defaultLevel f) current;
           carried = (case current of Some st \<Rightarrow> st_Provenance st = ProvenanceCarriedOver
                      | None \<Rightarrow> False)
       in if from \<le> to \<or> (carried \<and> kind = EventAutoDowngraded) then lreturn None
          else lbind (lstmt (sql_writeLevel (sv_store sv) \<lparr>ch_Family = f, ch_Class = c, ch_To = to,
                   ch_ExpectVersion = version_of current, ch_Actor = actor, ch_Reason = reason,
                   ch_Evidence = RawEmpty, ch_At = now\<rparr>)) (\<lambda>st.
               lbind (lupdate (sql_closePending (sv_store sv) f c StatusSuperseded actor
                        (''superseded by '' @ eventType_string kind) now)) (\<lambda>_.
               lbind (appendEvent sv ((ledger_entry f c kind actor reason now)
                        \<lparr>en_From := Some from, en_To := Some to\<rparr>)) (\<lambda>_.
                 lreturn (Some st))))))"

definition somes :: "'a option list \<Rightarrow> 'a list" where
  "somes xs = map the (filter (\<lambda>x. x \<noteq> None) xs)"

definition lower ::
    "Service \<Rightarrow> Family \<Rightarrow> ActionClass list \<Rightarrow> Level \<Rightarrow> string \<Rightarrow> string \<Rightarrow> EventType \<Rightarrow> State list led" where
  "lower sv f classes to actor reason kind =
     linvalidate (withTx (lbind (lmapM (lowerOne sv f to actor reason kind) classes)
       (\<lambda>sts. lreturn (somes sts))))"

definition Service_Downgrade :: "Service \<Rightarrow> DowngradeRequest \<Rightarrow> State list led" where
  "Service_Downgrade sv r =
     lbind (lcheck (DowngradeRequest_validate r)) (\<lambda>_.
       let classes = (if dr_Class r = AllClasses then ApplicableClasses (dr_Family r)
                      else [dr_Class r])
       in lbind (lower sv (dr_Family r) classes (dr_To r) (dr_Actor r) (dr_Reason r)
                  EventDowngraded) (\<lambda>out.
            if out = [] then lfail (ErrNotADowngrade (dr_Family r @ ''/'' @ dr_Class r))
            else lreturn out))"

subsection \<open>Demotion\<close>

definition DemotionTarget :: "Level \<Rightarrow> Level" where
  "DemotionTarget from = (if from \<le> L1 then from else from - 1)"

definition demeritCause :: "Outcome \<Rightarrow> string option" where
  "demeritCause o' =
     (if oc_Result o' = ResultRejected \<and> oc_Verdict o' = CauseRolledBack then Some CauseRolledBack
      else if oc_Result o' = ResultRejected then Some CauseRejected
      else if \<not> IsSelfInitiated (oc_Family o') then None
      else if oc_Verdict o' = CauseRegressed then Some CauseRegressed
      else if is_harm (oc_Result o') then Some CauseHarmful
      else None)"

definition demotionReason :: "Demotion \<Rightarrow> string \<Rightarrow> string" where
  "demotionReason d actor =
     (let what = ''action '' @ itoa (dm_ActionLogID d) @ '' ('' @ dm_Class d @ '')'';
          what = (if dm_Cause d = CauseRegressed then ''regressed: '' @ what
                  else if dm_Cause d = CauseRolledBack then ''rolled back by an operator: '' @ what
                  else if dm_Cause d = CauseRejected
                  then ''rejected by an operator: queue item '' @ itoa (dm_QueueID d) @ '' ('' @
                       dm_Class d @ '')''
                  else ''harmful outcome recorded by '' @ actor @ '' for '' @ dm_Class d)
      in what @ '' on '' @ dm_Database d @ ''; '' @ Level_String (dm_From d) @ '' -> '' @
         Level_String (dm_To d))"

definition truncate_to :: "nat \<Rightarrow> string \<Rightarrow> string" where
  "truncate_to n s = take n s"

definition writeDemotion :: "Service \<Rightarrow> State \<Rightarrow> Demotion \<Rightarrow> unit led" where
  "writeDemotion sv st d =
     (let reason = truncate_to 1000 (dm_Detail d)
      in lbind (lstmt (sql_writeLevel (sv_store sv) \<lparr>ch_Family = dm_Family d, ch_Class = dm_Class d,
             ch_To = dm_To d, ch_ExpectVersion = st_Version st, ch_Actor = ActorPgSage,
             ch_Reason = reason, ch_Evidence = RawDemotion d, ch_At = dm_At d\<rparr>)) (\<lambda>_.
         lbind (lupdate (sql_closePending (sv_store sv) (dm_Family d) (dm_Class d) StatusSuperseded
             ActorPgSage (''superseded by a demotion: '' @ dm_Cause d) (dm_At d))) (\<lambda>_.
         appendEvent sv ((ledger_entry (dm_Family d) (dm_Class d) EventAutoDowngraded ActorPgSage reason
             (dm_At d))\<lparr>en_From := Some (dm_From d), en_To := Some (dm_To d),
             en_ActionLogID := dm_ActionLogID d, en_Evidence := RawDemotion d\<rparr>))))"

definition demoteOnce :: "Service \<Rightarrow> Outcome \<Rightarrow> string \<Rightarrow> Demotion option led" where
  "demoteOnce sv o' cause =
     withTx (lbind (readLevel sv (oc_Family o') (oc_Class o')) (\<lambda>row.
       case row of
         None \<Rightarrow> lreturn None
       | Some st \<Rightarrow>
           if st_Provenance st = ProvenanceCarriedOver then lreturn None
           else if (case oc_ObservedAt o' of Some t \<Rightarrow> \<not> t > st_ChangedAt st | None \<Rightarrow> False)
           then lreturn None
           else if DemotionTarget (st_Level st) \<ge> st_Level st then lreturn None
           else lbind lnow (\<lambda>now.
             let d = \<lparr>dm_Database = ps_database (sv_store sv), dm_Family = oc_Family o',
                      dm_Class = oc_Class o', dm_From = st_Level st,
                      dm_To = DemotionTarget (st_Level st), dm_Cause = cause,
                      dm_ActionLogID = oc_ActionLogID o', dm_QueueID = oc_QueueID o',
                      dm_Detail = [], dm_At = now\<rparr>;
                 d = d\<lparr>dm_Detail := demotionReason d (oc_Actor o')\<rparr>
             in lbind (writeDemotion sv st d) (\<lambda>_. lreturn (Some d)))))"

definition is_conflict :: "ledger_error \<Rightarrow> bool" where
  "is_conflict e = (case e of ErrConflict _ \<Rightarrow> True | _ \<Rightarrow> False)"

definition demoteForDemerit :: "Service \<Rightarrow> Outcome \<Rightarrow> string \<Rightarrow> Demotion option led" where
  "demoteForDemerit sv o' cause = linvalidate (lretry is_conflict (demoteOnce sv o' cause))"

definition demoteFamily :: "Service \<Rightarrow> Outcome \<Rightarrow> unit led" where
  "demoteFamily sv o' =
     (let reason = truncate_to 1000 (''family safety regression: '' @ oc_Class o' @ '' '' @
            oc_Result o' @ '' on '' @ oc_Database o' @ '' ('' @ oc_Source o' @ '')'')
      in lbind (lretry is_conflict (lower sv (oc_Family o') (ApplicableClasses (oc_Family o')) L1
           ActorPgSage reason EventAutoDowngraded)) (\<lambda>_. lreturn ()))"

subsection \<open>Outcomes and reviews\<close>

definition validateOutcome :: "Outcome \<Rightarrow> ledger_error + unit" where
  "validateOutcome o' =
     (if oc_Result o' \<notin> set [ResultVerifiedRecovery, ResultNotRecovered, ResultHarmful,
           ResultSafetyViolation, ResultUnverified, ResultRejected]
      then Inl (ErrInvalidRequest (''result '' @ oc_Result o'))
      else if oc_Source o' \<notin> set [SourceExecutor, SourceOperator, SourceGameDay, SourceRollout,
           SourceBench, SourceRollback]
      then Inl (ErrInvalidRequest (''source '' @ oc_Source o'))
      else if \<not> KnownFamily (oc_Family o') \<or> \<not> knownClass (oc_Class o')
      then Inl (ErrInvalidRequest (''pair '' @ oc_Family o' @ ''/'' @ oc_Class o'))
      else if \<not> Grantable (oc_Level o') then Inl (ErrInvalidRequest (''level '' @ itoa (oc_Level o')))
      else if TrimSpace (oc_Database o') = [] \<or> length (oc_Database o') > 200
      then Inl (ErrInvalidRequest ''database'')
      else if TrimSpace (oc_Actor o') = [] \<or> length (oc_Actor o') > 200 \<or>
              length (oc_Detail o') > 2000
      then Inl (ErrInvalidRequest ''actor or detail'')
      else Inr ())"

definition insertOutcome :: "Service \<Rightarrow> Outcome \<Rightarrow> bool led" where
  "insertOutcome sv o' =
     lbind (lcheck (checkDatabase (sv_store sv) (oc_Database o')))
       (\<lambda>_. lstmt (sql_insertOutcome (sv_store sv) o'))"

definition recordOutcomeDemoting :: "Service \<Rightarrow> Outcome \<Rightarrow> (bool \<times> Demotion option) led" where
  "recordOutcomeDemoting sv o' =
     lbind (lcheck (validateOutcome o')) (\<lambda>_. lbind lnow (\<lambda>now.
       let o' = o'\<lparr>oc_At := now\<rparr>
       in lbind (linvalidate (insertOutcome sv o')) (\<lambda>inserted.
            if \<not> inserted then lreturn (False, None)
            else (case demeritCause o' of
                    Some cause \<Rightarrow>
                      lbind (demoteForDemerit sv o' cause) (\<lambda>d. lreturn (True, d))
                  | None \<Rightarrow>
                      if \<not> is_harm (oc_Result o') then lreturn (True, None)
                      else lbind (demoteFamily sv o') (\<lambda>_. lreturn (True, None))))))"

definition recordOutcome :: "Service \<Rightarrow> Outcome \<Rightarrow> bool led" where
  "recordOutcome sv o' = lbind (recordOutcomeDemoting sv o') (\<lambda>r. lreturn (fst r))"

definition RecordOutcome :: "Service \<Rightarrow> Outcome \<Rightarrow> unit led" where
  "RecordOutcome sv o' = lbind (recordOutcome sv o') (\<lambda>_. lreturn ())"

definition RecordReview :: "Service \<Rightarrow> Review \<Rightarrow> unit led" where
  "RecordReview sv r =
     (if rv_Verdict r \<noteq> VerdictAccepted \<and> rv_Verdict r \<noteq> VerdictRejected
      then lfail (ErrInvalidRequest (''verdict '' @ rv_Verdict r))
      else if \<not> IsIncidentFamily (rv_Family r)
      then lfail (ErrInvalidRequest (''family '' @ rv_Family r @ '' has no investigation packets''))
      else if \<not> uuidPattern (rv_InvestigationID r) then lfail (ErrInvalidRequest ''investigation id'')
      else if \<not> reviewerAllowed (rv_Reviewer r)
      then lfail (ErrInvalidRequest (''reviewer '' @ rv_Reviewer r @ '' cannot record a review''))
      else if TrimSpace (rv_Database r) = [] \<or> length (rv_Database r) > 200 \<or>
              length (rv_Note r) > 2000
      then lfail (ErrInvalidRequest ''database or note'')
      else lbind lnow (\<lambda>now. linvalidate (
        lbind (lcheck (checkDatabase (sv_store sv) (rv_Database r))) (\<lambda>_.
        lbind (lupdate (sql_upsertReview (sv_store sv) (r\<lparr>rv_At := now\<rparr>))) (\<lambda>stored.
          if stored then lreturn ()
          else lfail (ErrConflict ''a person already reviewed the investigation''))))))"

subsection \<open>Seeding\<close>

text \<open>Carried-over levels: each pair in its own transaction. A pair that has a row stays as it is:
  the insertion returns no row, which rolls the transaction back and is no error of the call.\<close>

abbreviation ErrNoRows :: ledger_error where "ErrNoRows \<equiv> ErrNotFound ''no rows in result set''"

definition no_rows_none :: "'a led \<Rightarrow> 'a option led" where
  "no_rows_none m w =
     (case m w of
        (Inl e, w) \<Rightarrow> (if e = ErrNoRows then Inr None else Inl e, w)
      | (Inr a, w) \<Rightarrow> (Inr (Some a), w))"

definition seedCarried :: "Service \<Rightarrow> CarryOver \<Rightarrow> Level \<Rightarrow> RuntimeState \<Rightarrow> instant \<Rightarrow> State option led" where
  "seedCarried sv co level bound now =
     (let reason = ''carried over from the pre-M7 policy'';
          st = seed_row (co_Family co) (co_Class co) level (RawBound (co_Tier co) bound) reason now
                 ProvenanceCarriedOver (co_Ref co)
      in no_rows_none (withTx (lbind (lstmt (insert_level (ps_scope (sv_store sv)) st)) (\<lambda>row.
           case row of
             None \<Rightarrow> lfail ErrNoRows
           | Some st \<Rightarrow>
               lbind (appendEvent sv ((ledger_entry (co_Family co) (co_Class co) EventCarriedOver ActorPgSage
                   (reason @ '': '' @ co_Ref co) now)
                   \<lparr>en_From := Some (defaultLevel (co_Family co)), en_To := Some level,
                    en_Evidence := RawBound (co_Tier co) bound\<rparr>)) (\<lambda>_. lreturn st)))))"

definition SeedCarriedOver :: "Service \<Rightarrow> string \<Rightarrow> RuntimeState \<Rightarrow> State list led" where
  "SeedCarriedOver sv database bound =
     lbind (lcheck (checkDatabase (sv_store sv) database)) (\<lambda>_.
       lbind (lmapM (\<lambda>co.
         let level = CarriedLevel bound (co_Family co) (co_Class co)
         in if level \<le> defaultLevel (co_Family co) then lreturn None
            else lbind lnow (\<lambda>now. seedCarried sv co level bound now)) carryOvers) (\<lambda>sts.
         linvalidate (lreturn (somes sts))))"

definition AdoptLegacy :: "Service \<Rightarrow> State list led" where
  "AdoptLegacy sv =
     linvalidate (withTx (lbind lnow (\<lambda>now.
       lbind (lupdate (sql_adoptLegacyRows (sv_store sv) now)) (\<lambda>states.
       lbind (lforeach (\<lambda>st. appendEvent sv ((ledger_entry (st_Family st) (st_Class st) EventDatabaseScoped
           ActorPgSage ''adopted the deployment-wide level stored before the ledger was per database''
           (st_ChangedAt st))\<lparr>en_From := Some (defaultLevel (st_Family st)),
           en_To := Some (st_Level st), en_Evidence := RawAdopted (st_Version st)\<rparr>)) states)
         (\<lambda>_. lreturn states)))))"

definition rampElapsed :: "RuntimeState \<Rightarrow> instant \<Rightarrow> duration \<Rightarrow> bool" where
  "rampElapsed b now age \<longleftrightarrow> \<not> IsZero (rt_RampStart b) \<and> time_Sub now (rt_RampStart b) \<ge> age"

definition day :: duration where "day = 24 * hour"

text \<open>A duration as an instruction shows it; \<^verbatim>\<open>Duration.Round\<close> rounds half up.\<close>

definition rounded :: "duration \<Rightarrow> duration \<Rightarrow> int" where
  "rounded d m = (d + m div 2) div m"

definition humanDuration :: "duration \<Rightarrow> string" where
  "humanDuration d =
     (if d \<le> 0 then ''0 min''
      else if d = day then ''1 day''
      else if d mod day = 0 \<or> d \<ge> 2 * day then itoa (rounded d day) @ '' days''
      else if d mod hour = 0 \<or> d \<ge> 2 * hour then itoa (rounded d hour) @ '' h''
      else itoa (rounded d minute) @ '' min'')"

text \<open>The level the time ramp granted, and what granted it.\<close>

definition rampLevel :: "RuntimeState \<Rightarrow> instant \<Rightarrow> selfClass \<Rightarrow> Level \<times> string" where
  "rampLevel b now spec =
     (let head = ''trust.level='' @ rt_TrustLevel b @ '', execution_mode='' @ rt_ExecutionMode b;
          rollback = rollbackOf (sc_class spec)
      in if rt_ExecutionMode b = ExecutionApproval
         then (L2, head @ '': every action queued for one-click approval'')
         else if rt_ExecutionMode b \<noteq> ExecutionAuto then (L1, [])
         else if sc_tier spec = RiskSafe
         then (let age = RampAge (rt_SafeRampAge b) SpecSafeRampAge rollback
               in if rt_Tier3Safe b \<and> rampElapsed b now age
                  then (L3, head @ '', tier3_safe, ramp '' @ humanDuration age @ '' elapsed'')
                  else (L1, []))
         else if rt_TrustLevel b = TrustAdvisory
         then (L2, head @ '': moderate actions queued for one-click approval'')
         else (let age = RampAge (rt_ModerateRampAge b) SpecModerateRampAge rollback
               in if rt_Tier3Moderate b \<and> rampElapsed b now age
                  then (L3, head @ '', tier3_moderate, ramp '' @ humanDuration age @ '' elapsed'')
                  else (L1, [])))"

definition GrandfatheredLevel :: "RuntimeState \<Rightarrow> instant \<Rightarrow> ActionClass \<Rightarrow> Level \<times> string" where
  "GrandfatheredLevel bound now c =
     (case selfSpec c of
        None \<Rightarrow> (L1, [])
      | Some spec \<Rightarrow>
          if \<not> rt_ExecutorEnabled bound \<or> rt_TrustLevel bound = TrustObservation \<or>
             (rt_TrustLevel bound \<noteq> TrustAdvisory \<and> rt_TrustLevel bound \<noteq> TrustAutonomous)
          then (L1, [])
          else (case rampLevel bound now spec of (level, why) \<Rightarrow>
                  let limit = CapForPair (sc_family spec) c;
                      level = (if level > limit then limit else level)
                  in if level \<le> L1 then (L1, []) else (level, why)))"

definition seedGrandfathered ::
    "Service \<Rightarrow> Family \<Rightarrow> ActionClass \<Rightarrow> Level \<Rightarrow> string \<Rightarrow> instant \<Rightarrow> State option led" where
  "seedGrandfathered sv f c level why now =
     (let why = truncate_to 500 why; reason = ''grandfathered from the time ramp'';
          st = seed_row f c level RawEmpty reason now ProvenanceGrandfathered why
      in lbind (lstmt (insert_level (ps_scope (sv_store sv)) st)) (\<lambda>row.
           case row of
             None \<Rightarrow> lreturn None
           | Some st \<Rightarrow>
               lbind (appendEvent sv ((ledger_entry f c EventGrandfathered ActorPgSage
                   (reason @ '': '' @ why) now)
                   \<lparr>en_From := Some (defaultLevel f), en_To := Some level\<rparr>))
                 (\<lambda>_. lreturn (Some st))))"

definition seedOne :: "Service \<Rightarrow> RuntimeState \<Rightarrow> instant \<Rightarrow> selfClass \<Rightarrow> State option led" where
  "seedOne sv bound now sc =
     (if ComponentClasses (sc_class sc) \<noteq> [] then lreturn None
      else (case GrandfatheredLevel bound now (sc_class sc) of (level, why) \<Rightarrow>
              if level \<le> defaultLevel (sc_family sc) then lreturn None
              else seedGrandfathered sv (sc_family sc) (sc_class sc) level why now))"

record GrandfatherReport =
  gr_Migrated :: bool
  gr_MigratedAt :: instant
  gr_Seeded :: "State list"

definition SeedGrandfathered :: "Service \<Rightarrow> string \<Rightarrow> RuntimeState \<Rightarrow> GrandfatherReport led" where
  "SeedGrandfathered sv database bound =
     lbind (lcheck (checkDatabase (sv_store sv) database)) (\<lambda>_. lbind lnow (\<lambda>now.
       linvalidate (withTx (
         lbind (lupdate (sql_lockGrandfatherMarker (sv_store sv))) (\<lambda>done_at.
           case done_at of
             Some t \<Rightarrow> lreturn \<lparr>gr_Migrated = False, gr_MigratedAt = t, gr_Seeded = []\<rparr>
           | None \<Rightarrow>
               lbind (lmapM (seedOne sv bound now) selfClasses) (\<lambda>sts.
               lbind (lupdate (\<lambda>db. ((), sql_markGrandfathered (sv_store sv) now db))) (\<lambda>_.
                 lreturn \<lparr>gr_Migrated = True, gr_MigratedAt = now, gr_Seeded = somes sts\<rparr>)))))))"

subsection \<open>Bench reports\<close>

record BenchIngest =
  bi_Origin :: string
  bi_Actor :: string
  bi_Signature :: "ReportSignature option"
  bi_RequireBuild :: bool

definition BenchIngest_validate :: "BenchIngest \<Rightarrow> ledger_error + unit" where
  "BenchIngest_validate b =
     (if bi_Origin b \<notin> set [OriginSignedRelease, OriginLocalRun, OriginOperator]
      then Inl (ErrInvalidRequest (''bench origin '' @ bi_Origin b))
      else if (bi_Origin b = OriginSignedRelease) \<noteq> (bi_Signature b \<noteq> None)
      then Inl (ErrInvalidRequest ''only a signed release report carries a signature'')
      else if TrimSpace (bi_Actor b) = [] \<or> length (bi_Actor b) > 200
      then Inl (ErrInvalidRequest ''actor'')
      else Inr ())"

definition checkProvenance :: "Service \<Rightarrow> EvalRun \<Rightarrow> BenchIngest \<Rightarrow> ledger_error + unit" where
  "checkProvenance sv run b =
     (let stampRequired = bi_RequireBuild b \<or> bi_Origin b \<noteq> OriginOperator;
          known = Build_Known (er_Build run)
      in if \<not> known \<and> stampRequired then Inl (ErrInvalidReport ''the report names no pg_sage build'')
         else if known \<and> \<not> Build_Matches (er_Build run) (lc_Build (sv_cfg sv))
         then Inl (ErrInvalidReport ''report is for another pg_sage build'')
         else (case bi_Signature b of
                 None \<Rightarrow> Inr ()
               | Some sig \<Rightarrow>
                   if sig_Commit sig \<noteq> [] \<and> ToLower (sig_Commit sig) \<noteq> bu_Commit (er_Build run)
                   then Inl (ErrInvalidReport ''the signature does not cover this report's commit'')
                   else Inr ()))"

text \<open>Storing a parsed report; one whose hash is stored is returned as a duplicate, marked signed
  when it arrives signed.\<close>

definition insertEvalRun :: "Service \<Rightarrow> EvalRun \<Rightarrow> EvalRun led" where
  "insertEvalRun sv run =
     lbind (lcheck (if er_Source run = SourceGameDay
                    then checkDatabase (sv_store sv) (er_Database run) else Inr ())) (\<lambda>_.
     lbind (lupdate (sql_insertEvalRun (sv_store sv) run)) (\<lambda>inserted.
       if inserted then lreturn run
       else lbind (if er_Signature run \<noteq> None
                   then lupdate (\<lambda>db. ((), sql_markSigned (sv_store sv) run db)) else lreturn ())
              (\<lambda>_. lbind (lread (sql_readReport (sv_store sv) run)) (\<lambda>r.
                 case r of
                   None \<Rightarrow> lfail (ErrUnavailable ''read duplicate eval run'')
                 | Some existing \<Rightarrow> lreturn (existing\<lparr>er_Duplicate := True\<rparr>)))))"

text \<open>\<^verbatim>\<open>ParseBenchReport\<close> is an argument: it reads the bytes of a report at an
  instant.\<close>

definition IngestBench ::
    "(string \<Rightarrow> instant \<Rightarrow> ledger_error + EvalRun) \<Rightarrow> Service \<Rightarrow> string \<Rightarrow> BenchIngest \<Rightarrow> EvalRun led" where
  "IngestBench ParseBenchReport sv raw b =
     lbind (lcheck (BenchIngest_validate b)) (\<lambda>_. lbind lnow (\<lambda>now.
     lbind (lcheck (ParseBenchReport raw now)) (\<lambda>run.
     lbind (lcheck (checkProvenance sv run b)) (\<lambda>_. lbind lrand (\<lambda>r.
       linvalidate (insertEvalRun sv (run\<lparr>er_ID := newID r, er_Source := SourceBench,
         er_IngestedAt := now, er_IngestedBy := bi_Actor b, er_Origin := bi_Origin b,
         er_Signature := bi_Signature b\<rparr>)))))))"

definition IngestEvalRun ::
    "(string \<Rightarrow> instant \<Rightarrow> ledger_error + EvalRun) \<Rightarrow> Service \<Rightarrow> string \<Rightarrow> string \<Rightarrow> string \<Rightarrow> string \<Rightarrow>
     EvalRun led" where
  "IngestEvalRun ParseBenchReport sv raw source actor database =
     (if source \<noteq> SourceBench \<and> source \<noteq> SourceGameDay
      then lfail (ErrInvalidRequest (''source '' @ source))
      else if (source = SourceGameDay) \<noteq> (TrimSpace database \<noteq> [])
      then lfail (ErrInvalidRequest ''a game day names its database, a bench does not'')
      else if TrimSpace actor = [] \<or> length actor > 200 \<or> length database > 200
      then lfail (ErrInvalidRequest ''actor'')
      else if source = SourceBench
      then IngestBench ParseBenchReport sv raw \<lparr>bi_Origin = OriginOperator, bi_Actor = actor,
             bi_Signature = None, bi_RequireBuild = False\<rparr>
      else lbind lnow (\<lambda>now. lbind (lcheck (ParseBenchReport raw now)) (\<lambda>run. lbind lrand (\<lambda>r.
        linvalidate (insertEvalRun sv (run\<lparr>er_ID := newID r, er_Source := source,
          er_IngestedAt := now, er_IngestedBy := actor, er_Database := database,
          er_Origin := OriginGameDay\<rparr>))))))"

end
