(* ===== verification/Limiter.thy ===== *)
theory Limiter
  imports Ledger_Service Lease_Db
begin

text \<open>
  The ledger as a database's gate sees it: \<^verbatim>\<open>limiter.go\<close>,
  \<^verbatim>\<open>deadline.go\<close>, the downgrade signals of \<^verbatim>\<open>signals.go\<close> with their
  sources, the error budget (\<^verbatim>\<open>budget.go\<close>) and the concurrency count
  (\<^verbatim>\<open>concurrency.go\<close>). The SLO engine and the HA monitor behind the sources are arguments.
\<close>

subsection \<open>Signals\<close>

abbreviation DowngradeBudgetBurn :: string where "DowngradeBudgetBurn \<equiv> ''error_budget_fast_burn''"
abbreviation DowngradeBudgetUnknown :: string where
  "DowngradeBudgetUnknown \<equiv> ''error_budget_unknown''"
abbreviation DowngradeBudgetUnavailable :: string where
  "DowngradeBudgetUnavailable \<equiv> ''error_budget_unavailable''"
abbreviation DowngradeHARole :: string where "DowngradeHARole \<equiv> ''ha_role_not_primary''"
abbreviation DowngradeFailover :: string where "DowngradeFailover \<equiv> ''failover_in_progress''"
abbreviation DowngradeStaleEvidence :: string where "DowngradeStaleEvidence \<equiv> ''evidence_stale''"
abbreviation DowngradeConcurrent :: string where "DowngradeConcurrent \<equiv> ''concurrent_action''"
abbreviation DowngradeConcurrencyUnknown :: string where
  "DowngradeConcurrencyUnknown \<equiv> ''concurrency_unknown''"
abbreviation DowngradeSafetyRegression :: string where
  "DowngradeSafetyRegression \<equiv> ''family_safety_regression''"

abbreviation downgrade :: "string \<Rightarrow> string \<Rightarrow> Downgrade" where
  "downgrade reason detail \<equiv> \<lparr>dg_Reason = reason, dg_Detail = detail\<rparr>"

record BudgetState =
  bs_Configured :: bool
  bs_FastBurning :: bool
  bs_Unknown :: bool
  bs_Detail :: string

abbreviation RolePrimary :: string where "RolePrimary \<equiv> ''primary''"

record HAState =
  ha_Role :: string
  ha_SafeMode :: bool
  ha_LastRoleChange :: instant

text \<open>The sources of one database's signals; a source reads the world.\<close>

record Binding =
  bd_Database :: string
  bd_Budget :: "(string \<Rightarrow> ledger_world \<Rightarrow> err + BudgetState) option"
  bd_HA :: "(ledger_world \<Rightarrow> err + HAState) option"
  bd_Concurrency :: "(string list \<Rightarrow> bool \<Rightarrow> duration \<Rightarrow> ledger_world \<Rightarrow> err + int) option"

record Limiter =
  lm_svc :: Service
  lm_b :: Binding

subsection \<open>Error budget\<close>

record BudgetSummary =
  bsum_Database :: string
  bsum_FastBurning :: bool
  bsum_AppFastBurning :: bool
  bsum_AppSLOs :: int
  bsum_UnknownApp :: "string list"

definition BudgetStateOf :: "BudgetSummary \<Rightarrow> BudgetState" where
  "BudgetStateOf sm =
     (let st = \<lparr>bs_Configured = bsum_AppSLOs sm > 0 \<or> bsum_FastBurning sm,
                bs_FastBurning = bsum_FastBurning sm, bs_Unknown = length (bsum_UnknownApp sm) > 0,
                bs_Detail = []\<rparr>
      in if bs_FastBurning st \<and> bsum_AppFastBurning sm
         then st\<lparr>bs_Detail := ''an app SLO is burning its error budget at the page rate''\<rparr>
         else if bs_FastBurning st
         then st\<lparr>bs_Detail := ''a database proxy SLO is burning its error budget at the page rate''\<rparr>
         else if bs_Unknown st
         then st\<lparr>bs_Detail := ''app SLO state unknown: '' @ Join (bsum_UnknownApp sm) '', ''\<rparr>
         else st)"

definition ErrorBudget ::
    "(ledger_world \<Rightarrow> err + BudgetSummary) option \<Rightarrow> string \<Rightarrow> ledger_world \<Rightarrow> err + BudgetState" where
  "ErrorBudget source database w =
     (case source of
        None \<Rightarrow> Inl ''error budget: no SLO summary source''
      | Some summary \<Rightarrow>
          (case summary w of
             Inl e \<Rightarrow> Inl (''error budget of '' @ database @ '': '' @ e)
           | Inr sm \<Rightarrow>
               if bsum_Database sm \<noteq> [] \<and> database \<noteq> [] \<and> bsum_Database sm \<noteq> database
               then Inl (''error budget: summary is for '' @ bsum_Database sm @ '', not '' @ database)
               else Inr (BudgetStateOf sm)))"

subsection \<open>Concurrent actions\<close>

text \<open>Actions executed in the monitored database, with the targets of their decision; the lease table
  is the one of theory Lease_Db. A fault of one of the two queries is an argument.\<close>

record executed_action =
  xa_executed_at :: instant
  xa_database_id :: "int option"
  xa_targets :: "string list"

definition leaseKeys :: "string list \<Rightarrow> string list" where
  "leaseKeys targets =
     concat (map (\<lambda>t. case NormalizeTargetObjects [t] of
        Inr [obj] \<Rightarrow> [to_Canonical obj] | _ \<Rightarrow> []) targets)"

definition active_leases :: "int option \<Rightarrow> string list \<Rightarrow> lease_db \<Rightarrow> int" where
  "active_leases databaseID keys db =
     int (length (filter (\<lambda>l. cl_state l = LeaseActive \<and> cl_expires_at l > ld_now db \<and>
        coalesce_db (cl_database_id l) = coalesce_db databaseID \<and> cl_object_key l \<in> set keys)
        (ld_leases db)))"

definition recent_actions ::
    "int option \<Rightarrow> string list \<Rightarrow> duration \<Rightarrow> instant \<Rightarrow> executed_action list \<Rightarrow> int" where
  "recent_actions databaseID targets window now actions =
     int (length (filter (\<lambda>a. xa_executed_at a > now - window \<and>
        coalesce_db (xa_database_id a) = coalesce_db databaseID \<and>
        list_ex (\<lambda>t. t \<in> set (xa_targets a)) targets) actions))"

definition ConcurrentActions ::
    "int option \<Rightarrow> (ledger_world \<Rightarrow> err + lease_db) \<Rightarrow>
     (ledger_world \<Rightarrow> err + instant \<times> executed_action list) \<Rightarrow>
     string list \<Rightarrow> bool \<Rightarrow> duration \<Rightarrow> ledger_world \<Rightarrow> err + int" where
  "ConcurrentActions databaseID leases actions targets leaseHeld window w =
     (if targets = [] then Inl ''no target objects to check''
      else (let keys = leaseKeys targets
            in case (if \<not> leaseHeld \<and> length keys > 0
                     then (case leases w of
                             Inl e \<Rightarrow> Inl (''count active change leases: '' @ e)
                           | Inr db \<Rightarrow> Inr (active_leases databaseID keys db))
                     else Inr 0) of
                 Inl e \<Rightarrow> Inl e
               | Inr n \<Rightarrow>
                   (case actions w of
                      Inl e \<Rightarrow> Inl (''count recent actions on the targets: '' @ e)
                    | Inr (now, done_actions) \<Rightarrow>
                        Inr (n + recent_actions databaseID targets window now done_actions))))"

subsection \<open>Downgrades of a request\<close>

definition budget_downgrades :: "Limiter \<Rightarrow> ledger_world \<Rightarrow> Downgrade list" where
  "budget_downgrades l w =
     (case bd_Budget (lm_b l) of
        None \<Rightarrow> []
      | Some source \<Rightarrow>
          (case source (bd_Database (lm_b l)) w of
             Inl e \<Rightarrow> [downgrade DowngradeBudgetUnavailable e]
           | Inr st \<Rightarrow>
               if \<not> bs_Configured st then []
               else if bs_FastBurning st then [downgrade DowngradeBudgetBurn (bs_Detail st)]
               else if bs_Unknown st then [downgrade DowngradeBudgetUnknown (bs_Detail st)]
               else []))"

definition haState :: "Limiter \<Rightarrow> ledger_world \<Rightarrow> Downgrade list" where
  "haState l w =
     (case bd_HA (lm_b l) of
        None \<Rightarrow> [downgrade DowngradeHARole ''no HA source'']
      | Some source \<Rightarrow>
          (case source w of
             Inl e \<Rightarrow> [downgrade DowngradeHARole e]
           | Inr st \<Rightarrow>
               (if ha_Role st \<noteq> RolePrimary
                then [downgrade DowngradeHARole (''role '' @ ha_Role st)] else []) @
               (if ha_SafeMode st then [downgrade DowngradeFailover ''HA safe mode (role flapping)'']
                else if \<not> IsZero (ha_LastRoleChange st) \<and>
                        time_Sub (gw_now w) (ha_LastRoleChange st) <
                          lc_FailoverCooldown (sv_cfg (lm_svc l))
                then [downgrade DowngradeFailover
                        (''role changed at '' @ FormatRFC3339 (ha_LastRoleChange st))]
                else [])))"

text \<open>The age in a stale-evidence detail is not modelled.\<close>

definition evidenceAge :: "Limiter \<Rightarrow> instant \<Rightarrow> ledger_world \<Rightarrow> Downgrade list" where
  "evidenceAge l t w =
     (let now = gw_now w
      in if IsZero t then [downgrade DowngradeStaleEvidence ''no evidence time'']
         else if t > now + minute
         then [downgrade DowngradeStaleEvidence ''evidence time is in the future'']
         else if time_Sub now t > lc_MaxEvidenceAge (sv_cfg (lm_svc l))
         then [downgrade DowngradeStaleEvidence ''evidence is old'']
         else [])"

definition concurrency :: "Limiter \<Rightarrow> ActionRequest \<Rightarrow> ledger_world \<Rightarrow> Downgrade list" where
  "concurrency l req w =
     (case (bd_Concurrency (lm_b l), r_TargetObjs req) of
        (None, _) \<Rightarrow> [downgrade DowngradeConcurrencyUnknown ''no target or no source'']
      | (Some source, []) \<Rightarrow> [downgrade DowngradeConcurrencyUnknown ''no target or no source'']
      | (Some source, targets) \<Rightarrow>
          (case source targets (r_LeaseHeld req) (lc_ConcurrencyWindow (sv_cfg (lm_svc l))) w of
             Inl e \<Rightarrow> [downgrade DowngradeConcurrencyUnknown e]
           | Inr n \<Rightarrow>
               if n > 0
               then [downgrade DowngradeConcurrent
                       (itoa n @ '' other pg_sage actions on the object'')]
               else []))"

text \<open>The detail of an unreadable safety record is not modelled.\<close>

definition safetyDowngrades :: "ledger_error + int \<Rightarrow> Downgrade list" where
  "safetyDowngrades r =
     (case r of
        Inl _ \<Rightarrow> [downgrade DowngradeSafetyRegression ''safety record unreadable'']
      | Inr n \<Rightarrow>
          if n > 0
          then [downgrade DowngradeSafetyRegression
                  (itoa n @ '' harmful or unsafe outcomes in the window'')]
          else [])"

definition safety :: "Limiter \<Rightarrow> Family \<Rightarrow> ledger_world \<Rightarrow> Downgrade list \<times> ledger_world" where
  "safety l f w =
     (case lread (sql_safety (sv_store (lm_svc l)) f
             (gw_now w - lc_SafetyWindow (sv_cfg (lm_svc l)))) w of
        (Inl e, w) \<Rightarrow> (safetyDowngrades (Inl e), w)
      | (Inr row, w) \<Rightarrow> (safetyDowngrades (Inr (fst row)), w))"

definition selfDowngrades :: "Limiter \<Rightarrow> ledger_world \<Rightarrow> Downgrade list" where
  "selfDowngrades l w = budget_downgrades l w @ haState l w"

definition databaseDowngrades :: "Limiter \<Rightarrow> Family \<Rightarrow> ledger_world \<Rightarrow> Downgrade list \<times> ledger_world" where
  "databaseDowngrades l f w =
     (let out = budget_downgrades l w @ haState l w
      in case safety l f w of (s, w) \<Rightarrow> (out @ s, w))"

definition requestDowngrades ::
    "Limiter \<Rightarrow> ActionRequest \<Rightarrow> Family \<Rightarrow> ledger_world \<Rightarrow> Downgrade list \<times> ledger_world" where
  "requestDowngrades l req f w =
     (if IsSelfInitiated f then (selfDowngrades l w, w)
      else (case databaseDowngrades l f w of (out, w) \<Rightarrow>
              (out @ evidenceAge l (r_EvidenceObservedAt req) w @ concurrency l req w, w)))"

subsection \<open>Noting a change of the downgrades\<close>

definition noteTransition ::
    "Limiter \<Rightarrow> Family \<Rightarrow> ActionClass \<Rightarrow> Downgrade list \<Rightarrow> ledger_world \<Rightarrow> ledger_world" where
  "noteTransition l f c downs w =
     (let joined = Join (sort_key String.implode (map dg_Reason downs)) '','';
          previous = map_of (gw_last w) (f, c)
      in if previous = Some joined \<or> (previous = None \<and> joined = []) then w
         else (let e = (if joined = []
                        then ledger_entry f c EventCapCleared ActorPgSage
                               ''downgrade signals cleared'' (gw_now w)
                        else ledger_entry f c EventCapped ActorPgSage
                               (''downgraded to at most L1: '' @ joined) (gw_now w))
               in case appendEvent (lm_svc l) (e\<lparr>en_Evidence := RawDowngrades downs\<rparr>) w of
                    (Inl _, w) \<Rightarrow> w
                  | (Inr _, w) \<Rightarrow> w\<lparr>gw_last := ((f, c), joined) # gw_last w\<rparr>))"

subsection \<open>The limit of a request\<close>

definition effectiveCap :: "State \<Rightarrow> ActionClass \<Rightarrow> Level" where
  "effectiveCap st c =
     (if st_Provenance st = ProvenanceCarriedOver then carryCap c
      else if IsSelfInitiated (st_Family st) then CapForPair (st_Family st) c
      else CapFor c)"

definition contractCap :: "ActionRequest \<Rightarrow> Level" where
  "contractCap req =
     (case r_Contract req of None \<Rightarrow> L1 | Some contract \<Rightarrow> RollbackCap (c_RollbackClass contract))"

text \<open>The level the grant and the caps allow, before the evidence and the signals.\<close>

definition capped_level :: "State \<Rightarrow> ActionRequest \<Rightarrow> Family \<Rightarrow> ActionClass \<Rightarrow> Level" where
  "capped_level st req f c =
     (let level = MinLevel [st_Level st, effectiveCap st c, contractCap req]
      in if \<not> Applicable f c then MinLevel [level, L1] else level)"

definition Limit :: "Limiter \<Rightarrow> ActionRequest \<Rightarrow> AutonomyLimit led" where
  "Limit l req =
     lbind (lcheck (checkDatabase (sv_store (lm_svc l)) (bd_Database (lm_b l)))) (\<lambda>_.
       case FamilyForRequest req of (f, c) \<Rightarrow>
       lbind (Granted (lm_svc l) f c) (\<lambda>st.
         let level = capped_level st req f c;
             out = \<lparr>al_Level = level, al_Granted = st_Level st, al_Downgraded = False,
                    al_Reasons = [], al_Class = c, al_Family = f\<rparr>
         in if st_Level st < L2 then lreturn out
            else lbind (if level \<ge> L2 \<and> st_Provenance st \<noteq> ProvenanceCarriedOver \<and>
                           \<not> IsSelfInitiated f
                        then lbind (supportedLevel (lm_svc l) f c)
                               (\<lambda>supported. lreturn (MinLevel [level, supported]))
                        else lreturn level) (\<lambda>level w.
              case requestDowngrades l req f w of (downs, w) \<Rightarrow>
                let w = noteTransition l f c downs w
                in (Inr (if downs \<noteq> []
                         then out\<lparr>al_Level := MinLevel [level, L1], al_Downgraded := True,
                                  al_Reasons := map dg_Reason downs\<rparr>
                         else out\<lparr>al_Level := level\<rparr>), w))))"

subsection \<open>Deadline overrides\<close>

text \<open>The key of an override has the deadline in nanoseconds since 1970.\<close>

definition unix_epoch :: instant where "unix_epoch = 62135596800 * second"

definition claimOverride ::
    "Family \<Rightarrow> ActionClass \<Rightarrow> ActionRequest \<Rightarrow> DeadlineContext \<Rightarrow> ledger_world \<Rightarrow>
     (string \<times> bool) \<times> ledger_world" where
  "claimOverride f c req dl w =
     (let key = f @ ''|'' @ c @ ''|'' @ Join (sort_key String.implode (r_TargetObjs req)) '','' @
                ''|'' @ itoa (dl_HardAt dl - unix_epoch);
          live = filter (\<lambda>(_, hardAt). hardAt > gw_now w) (gw_overrides w)
      in if map_of live key \<noteq> None then ((key, False), w\<lparr>gw_overrides := live\<rparr>)
         else ((key, True), w\<lparr>gw_overrides := (key, dl_HardAt dl) # live\<rparr>))"

text \<open>The text of a recorded override is not modelled.\<close>

definition appendOverride ::
    "Limiter \<Rightarrow> Family \<Rightarrow> ActionClass \<Rightarrow> ActionRequest \<Rightarrow> DeadlineContext \<Rightarrow> Decision \<Rightarrow> unit led" where
  "appendOverride l f c req dl d =
     lbind (Granted (lm_svc l) f c) (\<lambda>st. lbind lnow (\<lambda>now.
       appendEvent (lm_svc l) ((ledger_entry f c EventDeadlineOverride ActorPgSage
         ''mandatory deadline ran without the ledger level'' now)
         \<lparr>en_Evidence := RawDeadline (r_TargetObjs req) dl (d_Reason d) (st_Level st)\<rparr>)))"

definition RecordDeadlineOverride ::
    "Limiter \<Rightarrow> ActionRequest \<Rightarrow> Decision \<Rightarrow> ledger_world \<Rightarrow> ledger_world" where
  "RecordDeadlineOverride l req d w =
     (case r_Deadline req of
        None \<Rightarrow> w
      | Some dl \<Rightarrow>
          let f = TrimSpace (r_IncidentFamily req); c = ClassFor req
          in case claimOverride f c req dl w of
               ((_, False), w) \<Rightarrow> w
             | ((key, True), w) \<Rightarrow>
                 (case appendOverride l f c req dl d w of
                    (Inl _, w) \<Rightarrow> w\<lparr>gw_overrides := filter (\<lambda>kv. fst kv \<noteq> key) (gw_overrides w)\<rparr>
                  | (Inr _, w) \<Rightarrow> w))"

text \<open>The limiter behind the gate's callback. The gate reads the limit; what the limiter notes on the
  way (its cache and its history entries) is not part of the gate's world.\<close>

definition ledger_error_string :: "ledger_error \<Rightarrow> string" where
  "ledger_error_string e =
     (case e of
        ErrInvalidRequest s \<Rightarrow> ''invalid autonomy request: '' @ s
      | ErrInvalidReport s \<Rightarrow> ''invalid PGIncidentBench report: '' @ s
      | ErrNotFound s \<Rightarrow> ''autonomy proposal not found: '' @ s
      | ErrNotPending s \<Rightarrow> ''autonomy proposal is not pending: '' @ s
      | ErrProposalExpired s \<Rightarrow> ''autonomy proposal expired: '' @ s
      | EvidenceNotMetError _ \<Rightarrow> ''promotion evidence is not met''
      | ErrHumanApprovalRequired s \<Rightarrow> ''a promotion needs a human approver: '' @ s
      | ErrConflict s \<Rightarrow> ''autonomy ledger changed concurrently: '' @ s
      | ErrNotADowngrade s \<Rightarrow> ''the target level is not below the current level: '' @ s
      | ErrUnavailable s \<Rightarrow> ''autonomy ledger unavailable: '' @ s
      | ErrContext s \<Rightarrow> s)"

definition ledger_limiter :: "Limiter \<Rightarrow> ledger_world AutonomyLimiter" where
  "ledger_limiter l =
     \<lparr>lim_Limit = (\<lambda>_ req w. case fst (Limit l req w) of
         Inl e \<Rightarrow> Inl (ledger_error_string e) | Inr limit \<Rightarrow> Inr limit),
      lim_Governs = Some Governs,
      lim_RecordDeadlineOverride = Some (\<lambda>_ req d w. RecordDeadlineOverride l req d w)\<rparr>"

end
