(* ===== verification/Ledger_Steps.thy ===== *)
theory Ledger_Steps
  imports Limiter
begin

text \<open>
  The ledger as an abstract state machine: what one committed transaction may do to the tables
  (\<open>ledger_step\<close>), and the proof that every call of the service and of the limiter does nothing
  else, whatever other sessions commit between its statements. The locale of calls carries the
  closure rules, and each operation interprets it. The optimistic concurrency of the code, a
  compare-and-set of a row's version, is what turns a level read earlier into the level replaced.
\<close>

subsection \<open>What survives\<close>

definition same_proposal :: "Proposal \<Rightarrow> Proposal \<Rightarrow> bool" where
  "same_proposal p q \<longleftrightarrow> pp_ID q = pp_ID p \<and> pp_Family q = pp_Family p \<and> pp_Class q = pp_Class p \<and>
     pp_From q = pp_From p \<and> pp_To q = pp_To p"

lemma same_proposal_refl [simp]: "same_proposal p p"
  by (simp add: same_proposal_def)

lemma same_proposal_trans: "same_proposal p q \<Longrightarrow> same_proposal q r \<Longrightarrow> same_proposal p r"
  by (simp add: same_proposal_def)

lemma same_proposal_decided [simp]: "same_proposal p (decided st a r t p)"
  by (simp add: same_proposal_def decided_def)

text \<open>A row keeps its version until it changes, and its version then grows; a proposal keeps its
  pair and its levels.\<close>

definition rows_grow :: "ledger_db \<Rightarrow> ledger_db \<Rightarrow> bool" where
  "rows_grow d d' \<longleftrightarrow> (\<forall>sc f c r. stored_level sc f c d = Some r \<longrightarrow>
     (\<exists>r'. stored_level sc f c d' = Some r' \<and> (st_Version r < st_Version r' \<or> r' = r)))"

definition proposals_stay :: "ledger_db \<Rightarrow> ledger_db \<Rightarrow> bool" where
  "proposals_stay d d' \<longleftrightarrow> (\<forall>s i p. sql_readProposal s i d = Some p \<longrightarrow>
     (\<exists>q. sql_readProposal s i d' = Some q \<and> same_proposal p q))"

definition grows :: "ledger_db \<Rightarrow> ledger_db \<Rightarrow> bool" where
  "grows d d' \<longleftrightarrow> rows_grow d d' \<and> proposals_stay d d'"

lemma grows_refl [simp]: "grows d d"
  by (auto simp: grows_def rows_grow_def proposals_stay_def)

lemma rows_grow_trans: "rows_grow d d' \<Longrightarrow> rows_grow d' d'' \<Longrightarrow> rows_grow d d''"
proof (unfold rows_grow_def, intro allI impI)
  fix sc f c r
  assume a: "\<forall>sc f c r. stored_level sc f c d = Some r \<longrightarrow>
      (\<exists>r'. stored_level sc f c d' = Some r' \<and> (st_Version r < st_Version r' \<or> r' = r))"
    and b: "\<forall>sc f c r. stored_level sc f c d' = Some r \<longrightarrow>
      (\<exists>r'. stored_level sc f c d'' = Some r' \<and> (st_Version r < st_Version r' \<or> r' = r))"
    and r: "stored_level sc f c d = Some r"
  from a r obtain r' where r': "stored_level sc f c d' = Some r'" "st_Version r < st_Version r' \<or> r' = r"
    by blast
  from b r'(1) obtain r'' where "stored_level sc f c d'' = Some r''" "st_Version r' < st_Version r'' \<or> r'' = r'"
    by blast
  with r'(2) show "\<exists>r'. stored_level sc f c d'' = Some r' \<and> (st_Version r < st_Version r' \<or> r' = r)"
    by auto
qed

lemma proposals_stay_trans: "proposals_stay d d' \<Longrightarrow> proposals_stay d' d'' \<Longrightarrow> proposals_stay d d''"
  unfolding proposals_stay_def using same_proposal_trans by blast

lemma grows_trans: "grows d d' \<Longrightarrow> grows d' d'' \<Longrightarrow> grows d d''"
  unfolding grows_def using rows_grow_trans proposals_stay_trans by blast

subsection \<open>Statements on levels\<close>

lemma stored_level_cong:
  "lg_levels d = lg_levels d' \<Longrightarrow> stored_level sc f c d = stored_level sc f c d'"
  by (simp add: stored_level_def)

lemma readProposal_cong:
  "lg_proposals d = lg_proposals d' \<Longrightarrow> sql_readProposal s i d = sql_readProposal s i d'"
  by (simp add: sql_readProposal_def)

lemma find_append: "List.find P (xs @ ys) = (case List.find P xs of None \<Rightarrow> List.find P ys | r \<Rightarrow> r)"
  by (induction xs) auto

lemma stored_level_snoc:
  "stored_level sc f c (d\<lparr>lg_levels := lg_levels d @ [(sc', st)]\<rparr>) =
     (case stored_level sc f c d of
        None \<Rightarrow> if sc' = sc \<and> st_Family st = f \<and> st_Class st = c then Some st else None
      | Some r \<Rightarrow> Some r)"
  by (auto simp: stored_level_def find_append level_is_def split: option.splits)

lemma stored_level_key:
  "stored_level sc f c d = Some r \<Longrightarrow> st_Family r = f \<and> st_Class r = c"
  by (auto simp: stored_level_def level_is_def dest!: find_in_set)

lemma stored_level_in: "stored_level sc f c d = Some r \<Longrightarrow> (sc, r) \<in> set (lg_levels d)"
  by (auto simp: stored_level_def level_is_def dest!: find_in_set)

lemma find_map_same:
  assumes "\<And>x. P (g x) = P x"
  shows "List.find P (map g xs) = map_option g (List.find P xs)"
  by (induction xs) (simp_all add: assms)

lemma stored_level_replace:
  assumes "st_Family st = f1" "st_Class st = c1"
  shows "stored_level sc f c (d\<lparr>lg_levels := map (\<lambda>row. if level_is k f1 c1 row
      then (fst row, st) else row) (lg_levels d)\<rparr>) =
    (if sc = k \<and> f = f1 \<and> c = c1 then map_option (\<lambda>_. st) (stored_level sc f c d)
     else stored_level sc f c d)"
proof -
  let ?g = "\<lambda>row. if level_is k f1 c1 row then (fst row, st) else row"
  have p: "level_is sc f c (?g row) = level_is sc f c row" for row
    using assms by (auto simp: level_is_def)
  note m = find_map_same [of "level_is sc f c" ?g, OF p]
  show ?thesis
  proof (cases "List.find (level_is sc f c) (lg_levels d)")
    case None
    then show ?thesis by (auto simp: stored_level_def m)
  next
    case (Some row)
    from find_in_set [OF this] have "level_is sc f c row" by simp
    then have "level_is k f1 c1 row \<longleftrightarrow> sc = k \<and> f = f1 \<and> c = c1" by (auto simp: level_is_def)
    moreover have "stored_level sc f c (d\<lparr>lg_levels := map ?g (lg_levels d)\<rparr>) = Some (snd (?g row))"
      unfolding stored_level_def by (simp add: m Some)
    moreover have "stored_level sc f c d = Some (snd row)"
      unfolding stored_level_def Some by simp
    ultimately show ?thesis by (cases "level_is k f1 c1 row") auto
  qed
qed

text \<open>The compare-and-set of a level: it replaces the row of the expected version, and only it.\<close>

definition written :: "levelChange \<Rightarrow> State" where
  "written ch = \<lparr>st_Family = ch_Family ch, st_Class = ch_Class ch, st_Level = ch_To ch,
     st_Version = ch_ExpectVersion ch + 1, st_Evidence = ch_Evidence ch,
     st_ChangedBy = ch_Actor ch, st_Reason = ch_Reason ch, st_ChangedAt = ch_At ch,
     st_Stored = True, st_Provenance = ProvenanceLedger, st_CarriedRef = []\<rparr>"

lemma writeLevel_ok:
  assumes "sql_writeLevel s ch d = (Inr st, d')"
  shows "st = written ch \<and> level_checks st \<and>
    (if ch_ExpectVersion ch = 0 then stored_level (ps_scope s) (ch_Family ch) (ch_Class ch) d = None
     else \<exists>old. stored_level (ps_scope s) (ch_Family ch) (ch_Class ch) d = Some old \<and>
       st_Version old = ch_ExpectVersion ch) \<and>
    (\<forall>sc f c. stored_level sc f c d' =
       (if sc = ps_scope s \<and> f = ch_Family ch \<and> c = ch_Class ch then Some st
        else stored_level sc f c d)) \<and>
    d' = d\<lparr>lg_levels := lg_levels d'\<rparr>"
proof (cases "ch_ExpectVersion ch = 0")
  case True
  with assms show ?thesis
    by (auto simp: sql_writeLevel_def Let_def insert_level_def written_def stored_level_snoc
        split: if_splits option.splits)
next
  case False
  with assms obtain old where o: "stored_level (ps_scope s) (ch_Family ch) (ch_Class ch) d = Some old"
    "st_Version old = ch_ExpectVersion ch" "st = written ch" "level_checks st"
    and d': "d' = d\<lparr>lg_levels := map (\<lambda>row.
        if level_is (ps_scope s) (ch_Family ch) (ch_Class ch) row then (fst row, st) else row)
        (lg_levels d)\<rparr>"
    by (auto simp: sql_writeLevel_def Let_def written_def split: if_splits option.splits)
  have "st_Family st = ch_Family ch" "st_Class st = ch_Class ch" by (simp_all add: o written_def)
  note r = stored_level_replace [OF this]
  show ?thesis unfolding d' using o False by (simp add: r)
qed

lemma insert_level_ok:
  assumes "insert_level sc st d = (Inr r, d')"
  shows "case r of
      None \<Rightarrow> d' = d
    | Some st' \<Rightarrow> st' = st \<and> level_checks st \<and> stored_level sc (st_Family st) (st_Class st) d = None \<and>
        d' = d\<lparr>lg_levels := lg_levels d @ [(sc, st)]\<rparr>"
  using assms by (auto simp: insert_level_def split: if_splits)

subsection \<open>Statements that leave levels alone\<close>

lemma update_pending_same [simp]:
  "lg_levels (snd (update_pending hit upd d)) = lg_levels d"
  "lg_events (snd (update_pending hit upd d)) = lg_events d"
  by (simp_all add: update_pending_def)

lemma insertProposal_levels [simp]: "lg_levels (snd (sql_insertProposal s p d)) = lg_levels d"
  by (simp add: sql_insertProposal_def Let_def)

lemma decideProposal_levels [simp]: "lg_levels (snd (sql_decideProposal s i st a r t d)) = lg_levels d"
  by (simp add: sql_decideProposal_def Let_def)

lemma closePending_levels [simp]: "lg_levels (snd (sql_closePending s f c st a r t d)) = lg_levels d"
  by (simp add: sql_closePending_def)

lemma expireDue_levels [simp]: "lg_levels (snd (sql_expireDue s t d)) = lg_levels d"
  by (simp add: sql_expireDue_def)

lemma appendEvent_same [simp]:
  "lg_levels (snd (sql_appendEvent s e d)) = lg_levels d"
  "lg_proposals (snd (sql_appendEvent s e d)) = lg_proposals d"
  by (simp_all add: sql_appendEvent_def)

lemma insertOutcome_same [simp]:
  "lg_levels (snd (sql_insertOutcome s o' d)) = lg_levels d"
  "lg_proposals (snd (sql_insertOutcome s o' d)) = lg_proposals d"
  by (simp_all add: sql_insertOutcome_def)

lemma upsertReview_same [simp]:
  "lg_levels (snd (sql_upsertReview s rv d)) = lg_levels d"
  "lg_proposals (snd (sql_upsertReview s rv d)) = lg_proposals d"
  by (simp_all add: sql_upsertReview_def Let_def split: option.split)

lemma runs_same [simp]:
  "lg_levels (snd (sql_insertEvalRun s run d)) = lg_levels d"
  "lg_proposals (snd (sql_insertEvalRun s run d)) = lg_proposals d"
  "lg_levels (sql_markSigned s run d) = lg_levels d"
  "lg_proposals (sql_markSigned s run d) = lg_proposals d"
  by (simp_all add: sql_insertEvalRun_def sql_markSigned_def)

lemma marker_same [simp]:
  "lg_levels (snd (sql_lockGrandfatherMarker s d)) = lg_levels d"
  "lg_proposals (snd (sql_lockGrandfatherMarker s d)) = lg_proposals d"
  "lg_levels (sql_markGrandfathered s t d) = lg_levels d"
  "lg_proposals (sql_markGrandfathered s t d) = lg_proposals d"
  by (simp_all add: sql_lockGrandfatherMarker_def sql_markGrandfathered_def split: option.split)

lemma insert_level_proposals [simp]: "lg_proposals (snd (insert_level sc st d)) = lg_proposals d"
  by (simp add: insert_level_def)

lemma writeLevel_proposals [simp]: "lg_proposals (snd (sql_writeLevel s ch d)) = lg_proposals d"
  by (simp add: sql_writeLevel_def insert_level_def Let_def split: option.split)

lemma rows_grow_same: "lg_levels d' = lg_levels d \<Longrightarrow> rows_grow d d'"
  using stored_level_cong [of d' d] by (auto simp: rows_grow_def)

lemma proposals_stay_same: "lg_proposals d' = lg_proposals d \<Longrightarrow> proposals_stay d d'"
  using readProposal_cong [of d' d] by (auto simp: proposals_stay_def)

text \<open>Updating proposals in place, and appending one.\<close>

lemma proposals_stay_map:
  assumes "lg_proposals d' = map (\<lambda>row. if hit row then (fst row, upd (snd row)) else row) (lg_proposals d)"
    "\<And>p. same_proposal p (upd p)"
  shows "proposals_stay d d'"
proof -
  let ?g = "\<lambda>row. if hit row then (fst row, upd (snd row)) else row"
  have p: "(case ?g row of (sc, p) \<Rightarrow> sc = ps_scope s \<and> pp_ID p = i) =
      (case row of (sc, p) \<Rightarrow> sc = ps_scope s \<and> pp_ID p = i)" for s i row
    using assms(2) [of "snd row"] by (auto simp: same_proposal_def split: prod.splits)
  show ?thesis
  proof (unfold proposals_stay_def, intro allI impI)
    fix s i p
    assume "sql_readProposal s i d = Some p"
    then obtain row where row: "List.find (\<lambda>(sc, p). sc = ps_scope s \<and> pp_ID p = i) (lg_proposals d) = Some row"
      "p = snd row" by (auto simp: sql_readProposal_def)
    have "sql_readProposal s i d' = Some (snd (?g row))"
      unfolding sql_readProposal_def assms(1) 
        find_map_same [where g = ?g and P = "\<lambda>(sc, p). sc = ps_scope s \<and> pp_ID p = i", OF p] row(1)
      by simp
    moreover have "same_proposal p (snd (?g row))" using row(2) assms(2) by simp
    ultimately show "\<exists>q. sql_readProposal s i d' = Some q \<and> same_proposal p q" by blast
  qed
qed

lemma proposals_stay_append: "lg_proposals d' = lg_proposals d @ ps \<Longrightarrow> proposals_stay d d'"
  by (auto simp: proposals_stay_def sql_readProposal_def find_append)

subsection \<open>Steps\<close>

text \<open>Entries of the history that tell a change of a level.\<close>

definition level_event :: "EventType \<Rightarrow> bool" where
  "level_event t \<longleftrightarrow> t \<in> {EventPromotionApproved, EventDowngraded, EventAutoDowngraded,
     EventCarriedOver, EventGrandfathered, EventDatabaseScoped}"

definition tells :: "Event \<Rightarrow> EventType \<Rightarrow> Family \<Rightarrow> ActionClass \<Rightarrow> Level \<Rightarrow> bool" where
  "tells e t f c l \<longleftrightarrow> en_Type e = t \<and> en_Family e = f \<and> en_Class e = c \<and> en_To e = Some l"

text \<open>The level of a pair: its row's, or the family's default.\<close>

definition level_at :: "scope \<Rightarrow> Family \<Rightarrow> ActionClass \<Rightarrow> ledger_db \<Rightarrow> Level" where
  "level_at sc f c d = level_or (defaultLevel f) (stored_level sc f c d)"

text \<open>A proposal that is waiting, and what a person may approve.\<close>

definition approvable :: "PostgresStore \<Rightarrow> string \<Rightarrow> Proposal \<Rightarrow> ledger_db \<Rightarrow> bool" where
  "approvable s i p d \<longleftrightarrow> sql_readProposal s i d = Some p \<and> pp_Status p = StatusPending \<and>
     pp_From p = level_at (ps_scope s) (pp_Family p) (pp_Class p) d \<and>
     pp_To p \<le> CapForPair (pp_Family p) (pp_Class p) \<and> Grantable (pp_To p) \<and>
     Applicable (pp_Family p) (pp_Class p)"

text \<open>Levels rise by the approval of a person (\<open>promote\<close>) and fall by \<open>lower\<close>; a pair without a row
  gets one by \<open>seed\<close> or \<open>adopt\<close>. Each of these writes its entry of the history in the same
  transaction. The other steps do not touch the levels.\<close>

inductive ledger_step :: "ledger_db \<Rightarrow> ledger_db \<Rightarrow> bool" where
  promote: "humanActor approver \<Longrightarrow> approvable s i p d \<Longrightarrow>
     sql_writeLevel s ch d = (Inr st, d1) \<Longrightarrow> ch_Family ch = pp_Family p \<Longrightarrow> ch_Class ch = pp_Class p \<Longrightarrow>
     ch_To ch = pp_To p \<Longrightarrow>
     sql_decideProposal s i StatusApproved approver remark now d1 = (Inr (), d2) \<Longrightarrow>
     sql_appendEvent s e d2 = (Inr (), d3) \<Longrightarrow>
     tells e EventPromotionApproved (pp_Family p) (pp_Class p) (pp_To p) \<Longrightarrow> en_Actor e = approver \<Longrightarrow>
     ledger_step d d3"
| lower: "ch_To ch < level_at (ps_scope s) (ch_Family ch) (ch_Class ch) d \<Longrightarrow>
     kind \<in> {EventDowngraded, EventAutoDowngraded} \<Longrightarrow>
     (kind = EventAutoDowngraded \<Longrightarrow> case stored_level (ps_scope s) (ch_Family ch) (ch_Class ch) d of
        Some st \<Rightarrow> st_Provenance st \<noteq> ProvenanceCarriedOver | None \<Rightarrow> True) \<Longrightarrow>
     sql_writeLevel s ch d = (Inr st, d1) \<Longrightarrow>
     sql_closePending s (ch_Family ch) (ch_Class ch) StatusSuperseded actor remark now d1 = (ps, d2) \<Longrightarrow>
     sql_appendEvent s e d2 = (Inr (), d3) \<Longrightarrow>
     tells e kind (ch_Family ch) (ch_Class ch) (ch_To ch) \<Longrightarrow> ledger_step d d3"
| seed: "insert_level (ps_scope s) st d = (Inr (Some st), d1) \<Longrightarrow> st_Version st = 1 \<Longrightarrow> st_Stored st \<Longrightarrow>
     (kind, st_Provenance st) \<in> {(EventCarriedOver, ProvenanceCarriedOver),
       (EventGrandfathered, ProvenanceGrandfathered)} \<Longrightarrow>
     (kind = EventCarriedOver \<Longrightarrow> st_Level st \<le> carryCap (st_Class st)) \<Longrightarrow>
     (kind = EventGrandfathered \<Longrightarrow> st_Level st \<le> CapForPair (st_Family st) (st_Class st)) \<Longrightarrow>
     sql_appendEvent s e d1 = (Inr (), d2) \<Longrightarrow>
     tells e kind (st_Family st) (st_Class st) (st_Level st) \<Longrightarrow> ledger_step d d2"
| adopt: "((ps_deployment s, legacyDatabase), legacy) \<in> set (lg_levels d) \<Longrightarrow>
     st_Provenance legacy = ProvenanceLedger \<Longrightarrow>
     stored_level (ps_scope s) (st_Family legacy) (st_Class legacy) d = None \<Longrightarrow>
     d1 = d\<lparr>lg_levels := lg_levels d @ [(ps_scope s, adopted_row now legacy)]\<rparr> \<Longrightarrow>
     sql_appendEvent s e d1 = (Inr (), d2) \<Longrightarrow>
     tells e EventDatabaseScoped (st_Family legacy) (st_Class legacy) (st_Level legacy) \<Longrightarrow>
     ledger_step d d2"
| propose: "pp_To p \<le> CapForPair (pp_Family p) (pp_Class p) \<Longrightarrow>
     sql_insertProposal s p d = (r, d') \<Longrightarrow> ledger_step d d'"
| decide: "status \<noteq> StatusPending \<Longrightarrow> status \<noteq> StatusApproved \<Longrightarrow>
     sql_decideProposal s i status actor remark now d = (r, d') \<Longrightarrow> ledger_step d d'"
| expire: "sql_expireDue s now d = (ps, d') \<Longrightarrow> ledger_step d d'"
| note_event: "\<not> level_event (en_Type e) \<Longrightarrow> sql_appendEvent s e d = (r, d') \<Longrightarrow> ledger_step d d'"
| outcome: "sql_insertOutcome s oc d = (r, d') \<Longrightarrow> ledger_step d d'"
| review: "sql_upsertReview s rv d = (b, d') \<Longrightarrow> ledger_step d d'"
| report: "sql_insertEvalRun s run d = (b, d') \<Longrightarrow> ledger_step d d'"
| mark_signed: "ledger_step d (sql_markSigned s run d)"
| shadow: "ledger_step d (d\<lparr>lg_shadow := lg_shadow d @ [row]\<rparr>)"
| marker: "sql_lockGrandfatherMarker s d = (t, d') \<Longrightarrow> ledger_step d d'"
| mark: "ledger_step d (sql_markGrandfathered s now d)"

abbreviation ledger_steps :: "ledger_db \<Rightarrow> ledger_db \<Rightarrow> bool" where
  "ledger_steps \<equiv> ledger_step\<^sup>*\<^sup>*"

abbreviation pending_id :: "PostgresStore \<Rightarrow> string \<Rightarrow> scope \<times> Proposal \<Rightarrow> bool" where
  "pending_id s i \<equiv> \<lambda>(sc, p). sc = ps_scope s \<and> pp_ID p = i \<and> pp_Status p = StatusPending"

lemma decideProposal_cases:
  assumes "sql_decideProposal s i status actor remark now d = (r, d')"
  obtains (refused) e where "r = Inl e" "d' = d"
  | (ok) "r = Inr ()" "length (filter (pending_id s i) (lg_proposals d)) = 1"
      "d' = d\<lparr>lg_proposals := map (\<lambda>row. if pending_id s i row
         then (fst row, decided status actor remark now (snd row)) else row) (lg_proposals d)\<rparr>"
proof -
  let ?map = "map (\<lambda>row. if pending_id s i row
         then (fst row, decided status actor remark now (snd row)) else row) (lg_proposals d)"
  show thesis
  proof (cases "length (filter (pending_id s i) (lg_proposals d)) = 1 \<and> \<not> 2000 < length remark")
    case True
    with assms have "r = Inr ()" "d' = d\<lparr>lg_proposals := ?map\<rparr>"
      unfolding sql_decideProposal_def Let_def by (simp_all only: if_False if_True prod.inject) auto
    with True ok show thesis by blast
  next
    case False
    with assms have "isl r" "d' = d" unfolding sql_decideProposal_def Let_def
      by (auto simp only: prod.inject sum.disc split: if_splits)
    then show thesis using refused by (cases r) auto
  qed
qed

lemma decideProposal_stay:
  "sql_decideProposal s i status actor remark now d = (r, d') \<Longrightarrow> proposals_stay d d'"
proof (erule decideProposal_cases)
  assume "d' = d\<lparr>lg_proposals := map (\<lambda>row. if pending_id s i row
         then (fst row, decided status actor remark now (snd row)) else row) (lg_proposals d)\<rparr>"
  then have "lg_proposals d' = map (\<lambda>row. if pending_id s i row
         then (fst row, decided status actor remark now (snd row)) else row) (lg_proposals d)" by simp
  then show ?thesis by (rule proposals_stay_map) simp
qed (simp add: proposals_stay_same)

lemma update_pending_stay:
  "update_pending hit upd d = (ps, d') \<Longrightarrow> (\<And>p. same_proposal p (upd p)) \<Longrightarrow> proposals_stay d d'"
  by (rule proposals_stay_map [where hit = hit and upd = upd]) (auto simp: update_pending_def)

lemma closePending_stay:
  "sql_closePending s f c st a r t d = (ps, d') \<Longrightarrow> proposals_stay d d'"
  unfolding sql_closePending_def by (erule update_pending_stay) simp

lemma expireDue_stay: "sql_expireDue s t d = (ps, d') \<Longrightarrow> proposals_stay d d'"
  unfolding sql_expireDue_def by (erule update_pending_stay) simp

lemma insertProposal_stay: "sql_insertProposal s p d = (r, d') \<Longrightarrow> proposals_stay d d'"
  by (auto simp: sql_insertProposal_def Let_def proposals_stay_same split: if_splits
      intro: proposals_stay_append)

lemma writeLevel_grows: "sql_writeLevel s ch d = (Inr st, d') \<Longrightarrow> rows_grow d d'"
  using writeLevel_ok [of s ch d st d'] by (auto simp: rows_grow_def written_def split: if_splits)

lemma snoc_grows: "rows_grow d (d\<lparr>lg_levels := lg_levels d @ [row]\<rparr>)"
  by (cases row) (auto simp: rows_grow_def stored_level_snoc)

lemma insert_level_grows: "insert_level sc st d = (Inr r, d') \<Longrightarrow> rows_grow d d'"
  using insert_level_ok [of sc st d r d'] by (auto simp: rows_grow_same snoc_grows split: option.splits)

lemma appendEvent_grows: "sql_appendEvent s e d = (r, d') \<Longrightarrow> grows d d'"
  using appendEvent_same [of s e d] by (simp add: grows_def rows_grow_same proposals_stay_same)

lemma ledger_step_grows: "ledger_step d d' \<Longrightarrow> grows d d'"
proof (induction rule: ledger_step.induct)
  case (promote approver s i p d ch st d1 remark now d2 e d3)
  have "rows_grow d d1" using promote(3) by (rule writeLevel_grows)
  moreover have "lg_proposals d1 = lg_proposals d"
    using writeLevel_proposals [of s ch d] promote(3) by simp
  moreover have "lg_levels d2 = lg_levels d1"
    using decideProposal_levels [of s i StatusApproved approver remark now d1] promote(7) by simp
  ultimately have "grows d d2"
    unfolding grows_def using decideProposal_stay [OF promote(7)] rows_grow_trans
      proposals_stay_trans rows_grow_same proposals_stay_same by blast
  with appendEvent_grows [OF promote(8)] show ?case by (rule grows_trans [rotated])
next
  case (lower ch s d kind st d1 actor remark now ps d2 e d3)
  have "rows_grow d d1" using lower(4) by (rule writeLevel_grows)
  moreover have "lg_proposals d1 = lg_proposals d"
    using writeLevel_proposals [of s ch d] lower(4) by simp
  moreover have "lg_levels d2 = lg_levels d1"
    using closePending_levels [of s "ch_Family ch" "ch_Class ch" StatusSuperseded actor remark now d1]
      lower(5) by simp
  ultimately have "grows d d2"
    unfolding grows_def using closePending_stay [OF lower(5)] rows_grow_trans
      proposals_stay_trans rows_grow_same proposals_stay_same by blast
  with appendEvent_grows [OF lower(6)] show ?case by (rule grows_trans [rotated])
next
  case (seed s st d d1 kind e d2)
  have "lg_proposals d1 = lg_proposals d"
    using insert_level_proposals [of "ps_scope s" st d] seed(1) by simp
  with insert_level_grows [OF seed(1)] have "grows d d1"
    by (simp add: grows_def proposals_stay_same)
  with appendEvent_grows [OF seed(7)] show ?case by (rule grows_trans [rotated])
next
  case (adopt s legacy d d1 now e d2)
  then have "grows d d1" by (simp add: grows_def snoc_grows proposals_stay_same)
  with appendEvent_grows [OF adopt(5)] show ?case by (rule grows_trans [rotated])
next
  case (propose p s d r d')
  then show ?case
    using insertProposal_levels [of s p d] by (simp add: grows_def rows_grow_same insertProposal_stay)
next
  case (decide status s i actor remark now d r d')
  then show ?case
    using decideProposal_levels [of s i status actor remark now d]
    by (simp add: grows_def rows_grow_same decideProposal_stay)
next
  case (expire s now d ps d')
  then show ?case
    using expireDue_levels [of s now d] by (simp add: grows_def rows_grow_same expireDue_stay)
next
  case (note_event e s d r d')
  then show ?case using appendEvent_grows by blast
next
  case (outcome s oc d r d')
  then show ?case
    using insertOutcome_same [of s oc d] by (simp add: grows_def rows_grow_same proposals_stay_same)
next
  case (review s rv d b d')
  then show ?case
    using upsertReview_same [of s rv d] by (simp add: grows_def rows_grow_same proposals_stay_same)
next
  case (report s run d b d')
  then show ?case
    using runs_same(1,2) [of s run d] by (simp add: grows_def rows_grow_same proposals_stay_same)
next
  case (marker s d t d')
  then show ?case
    using marker_same(1,2) [of s d] by (simp add: grows_def rows_grow_same proposals_stay_same)
qed (simp_all add: grows_def rows_grow_same proposals_stay_same)

lemma ledger_steps_grow: "ledger_steps d d' \<Longrightarrow> grows d d'"
  by (induction rule: rtranclp_induct) (auto intro: grows_trans ledger_step_grows)

subsection \<open>Calls among other sessions\<close>

definition open_ledger :: "ledger_world \<Rightarrow> bool" where
  "open_ledger w \<longleftrightarrow> (\<forall>e\<in>set (gw_script w). \<forall>d. ledger_steps d (le_others e d))"

lemma open_ledger_update [simp]:
  "open_ledger (w\<lparr>gw_db := d\<rparr>) = open_ledger w" "open_ledger (w\<lparr>gw_tx := t\<rparr>) = open_ledger w"
  "open_ledger (w\<lparr>gw_rand := r\<rparr>) = open_ledger w" "open_ledger (w\<lparr>gw_cache := c\<rparr>) = open_ledger w"
  "open_ledger (w\<lparr>gw_last := l\<rparr>) = open_ledger w" "open_ledger (w\<lparr>gw_overrides := v\<rparr>) = open_ledger w"
  by (simp_all add: open_ledger_def)

lemma tick_steps:
  assumes "open_ledger w" "ledger_tick w = (flt, w')"
  shows "ledger_steps (gw_db w) (gw_db w') \<and> open_ledger w' \<and> gw_tx w' = gw_tx w"
  using assms by (cases "gw_script w") (auto simp: ledger_tick_def open_ledger_def)

text \<open>A call outside a transaction whose effect on the tables is a sequence of steps.\<close>

locale ledger_call =
  fixes m :: "'a led"
  assumes call: "open_ledger w \<Longrightarrow> gw_tx w = None \<Longrightarrow> m w = (r, w') \<Longrightarrow>
    ledger_steps (gw_db w) (gw_db w') \<and> open_ledger w' \<and> gw_tx w' = None"
begin

lemma reaches:
  "open_ledger w \<Longrightarrow> gw_tx w = None \<Longrightarrow> ledger_steps (gw_db w) (gw_db (snd (m w)))"
  using call [of w "fst (m w)" "snd (m w)"] by simp

lemma keeps_open:
  "open_ledger w \<Longrightarrow> gw_tx w = None \<Longrightarrow> open_ledger (snd (m w)) \<and> gw_tx (snd (m w)) = None"
  using call [of w "fst (m w)" "snd (m w)"] by simp

lemma keeps_invariant:
  assumes "\<And>d d'. ledger_step d d' \<Longrightarrow> I d \<Longrightarrow> I d'" "open_ledger w" "gw_tx w = None" "I (gw_db w)"
  shows "I (gw_db (snd (m w)))"
  using reaches [OF assms(2,3)] assms(4) by induction (auto intro: assms(1))

end

named_theorems calls \<open>calls of the service are sequences of steps\<close>

lemma call_return [calls]: "ledger_call (lreturn a)"
  by unfold_locales (auto simp: lreturn_def)

lemma call_fail [calls]: "ledger_call (lfail e)"
  by unfold_locales (auto simp: lfail_def)

lemma call_check [calls]: "ledger_call (lcheck r)"
  by unfold_locales (auto simp: lcheck_def)

lemma call_now [calls]: "ledger_call lnow"
  by unfold_locales (auto simp: lnow_def)

lemma call_rand [calls]: "ledger_call lrand"
  by unfold_locales (auto simp: lrand_def split: list.splits)

lemma call_bind [calls]:
  assumes "ledger_call m" "\<And>a. ledger_call (f a)"
  shows "ledger_call (lbind m f)"
proof
  fix w r w'
  assume o: "open_ledger w" "gw_tx w = None" and b: "lbind m f w = (r, w')"
  obtain x w1 where x: "m w = (x, w1)" by fastforce
  note s = ledger_call.call [OF assms(1) o x]
  show "ledger_steps (gw_db w) (gw_db w') \<and> open_ledger w' \<and> gw_tx w' = None"
  proof (cases x)
    case (Inl e)
    with b x s show ?thesis by (simp add: lbind_def)
  next
    case (Inr a)
    with b x have "f a w1 = (r, w')" by (simp add: lbind_def)
    with ledger_call.call [OF assms(2) [of a], of w1 r w'] s show ?thesis by auto
  qed
qed

lemma call_retry [calls]:
  assumes "ledger_call m"
  shows "ledger_call (lretry again m)"
proof
  fix w r w'
  assume o: "open_ledger w" "gw_tx w = None" and b: "lretry again m w = (r, w')"
  obtain x w1 where x: "m w = (x, w1)" by fastforce
  note s = ledger_call.call [OF assms o x]
  obtain y w2 where y: "m w1 = (y, w2)" by fastforce
  from s have "ledger_steps (gw_db w1) (gw_db w2) \<and> open_ledger w2 \<and> gw_tx w2 = None"
    using ledger_call.call [OF assms _ _ y] by blast
  with b x y s show "ledger_steps (gw_db w) (gw_db w') \<and> open_ledger w' \<and> gw_tx w' = None"
    by (auto simp: lretry_def split: sum.splits if_splits)
qed

lemma call_invalidate [calls]: "ledger_call m \<Longrightarrow> ledger_call (linvalidate m)"
proof
  fix w r w'
  assume m: "ledger_call m" and o: "open_ledger w" "gw_tx w = None" and b: "linvalidate m w = (r, w')"
  obtain w1 where "m w = (r, w1)" "w' = invalidate w1"
    using b by (auto simp: linvalidate_def split: prod.splits)
  with ledger_call.call [OF m o this(1)]
  show "ledger_steps (gw_db w) (gw_db w') \<and> open_ledger w' \<and> gw_tx w' = None"
    by (simp add: invalidate_def)
qed

lemma call_no_rows [calls]: "ledger_call m \<Longrightarrow> ledger_call (no_rows_none m)"
proof
  fix w r w'
  assume m: "ledger_call m" and o: "open_ledger w" "gw_tx w = None" and b: "no_rows_none m w = (r, w')"
  obtain x where "m w = (x, w')" using b by (cases "m w") (auto simp: no_rows_none_def split: sum.splits)
  from ledger_call.call [OF m o this]
  show "ledger_steps (gw_db w) (gw_db w') \<and> open_ledger w' \<and> gw_tx w' = None" .
qed

lemma call_foreach [calls]: "(\<And>x. ledger_call (f x)) \<Longrightarrow> ledger_call (lforeach f xs)"
  by (induction xs) (simp_all add: calls)

lemma call_mapM [calls]: "(\<And>x. ledger_call (f x)) \<Longrightarrow> ledger_call (lmapM f xs)"
  by (induction xs) (simp_all add: calls)

lemma call_foldM [calls]: "(\<And>s x. ledger_call (f s x)) \<Longrightarrow> ledger_call (lfoldM f s xs)"
  by (induction xs arbitrary: s) (simp_all add: calls)

lemma call_read [calls]: "ledger_call (lread g)"
proof
  fix w r w'
  assume o: "open_ledger w" "gw_tx w = None" and b: "lread g w = (r, w')"
  obtain flt w1 where t: "ledger_tick w = (flt, w1)" by fastforce
  from tick_steps [OF o(1) t] o b t
  show "ledger_steps (gw_db w) (gw_db w') \<and> open_ledger w' \<and> gw_tx w' = None"
    by (auto simp: lread_def split: option.splits fault.splits)
qed

lemma call_stmt:
  assumes "\<And>d r d'. f d = (r, d') \<Longrightarrow> ledger_steps d d'"
  shows "ledger_call (lstmt f)"
proof
  fix w r w'
  assume o: "open_ledger w" "gw_tx w = None" and b: "lstmt f w = (r, w')"
  obtain flt w1 where t: "ledger_tick w = (flt, w1)" by fastforce
  note s = tick_steps [OF o(1) t]
  obtain x d where x: "f (gw_db w1) = (x, d)" by fastforce
  from assms [OF this] have "ledger_steps (gw_db w) d" using s by auto
  with s o b t x show "ledger_steps (gw_db w) (gw_db w') \<and> open_ledger w' \<and> gw_tx w' = None"
    by (auto simp: lstmt_def split: option.splits fault.splits)
qed

lemma call_update:
  assumes "\<And>d a d'. f d = (a, d') \<Longrightarrow> ledger_steps d d'"
  shows "ledger_call (lupdate f)"
  unfolding lupdate_def by (rule call_stmt) (auto intro: assms split: prod.splits)

end
