(* ===== verification/Ledger_Calls.thy ===== *)
theory Ledger_Calls
  imports Ledger_Steps
begin

text \<open>
  Transactions of the ledger, and every call of the service and the limiter as an instance of the
  locale of calls. Inside a transaction a statement sees the tables as they are then and takes effect
  on the tables as they are at the commit; in between other sessions move on. What a transaction read
  earlier holds at its commit only as far as the version it compares says so.
\<close>

subsection \<open>Transactions\<close>

text \<open>The writes so far, replayed on later tables, give later tables.\<close>

definition tx_grows :: "(ledger_db \<Rightarrow> ledger_db option) \<Rightarrow> bool" where
  "tx_grows tx \<longleftrightarrow> (\<forall>db0 db d0 d. ledger_steps db0 db \<longrightarrow> tx db0 = Some d0 \<longrightarrow> tx db = Some d \<longrightarrow>
     grows d0 d)"

definition stmt_grows :: "(ledger_db \<Rightarrow> (ledger_error + 'a) \<times> ledger_db) \<Rightarrow> bool" where
  "stmt_grows f \<longleftrightarrow> (\<forall>d0 d a e0 e. grows d0 d \<longrightarrow> f d0 = (Inr a, e0) \<longrightarrow> f d = (Inr a, e) \<longrightarrow>
     grows e0 e)"

text \<open>A body that, run in a transaction, adds writes which relate the tables they find at the commit
  to the tables they leave there.\<close>

definition tx_body :: "'a led \<Rightarrow> (ledger_db \<Rightarrow> 'a \<Rightarrow> ledger_db \<Rightarrow> bool) \<Rightarrow> bool" where
  "tx_body m P \<longleftrightarrow> (\<forall>w tx r w'. open_ledger w \<longrightarrow> gw_tx w = Some tx \<longrightarrow> tx_grows tx \<longrightarrow> m w = (r, w') \<longrightarrow>
     ledger_steps (gw_db w) (gw_db w') \<and> open_ledger w' \<and>
     (\<forall>a. r = Inr a \<longrightarrow> (\<exists>tx'. gw_tx w' = Some tx' \<and> tx_grows tx' \<and>
        (\<forall>db d'. ledger_steps (gw_db w') db \<longrightarrow> tx' db = Some d' \<longrightarrow> (\<exists>d. tx db = Some d \<and> P d a d')))))"

lemma tx_bodyI:
  assumes "\<And>w tx r w'. open_ledger w \<Longrightarrow> gw_tx w = Some tx \<Longrightarrow> tx_grows tx \<Longrightarrow> m w = (r, w') \<Longrightarrow>
     ledger_steps (gw_db w) (gw_db w') \<and> open_ledger w' \<and>
     (\<forall>a. r = Inr a \<longrightarrow> (\<exists>tx'. gw_tx w' = Some tx' \<and> tx_grows tx' \<and>
        (\<forall>db d'. ledger_steps (gw_db w') db \<longrightarrow> tx' db = Some d' \<longrightarrow> (\<exists>d. tx db = Some d \<and> P d a d'))))"
  shows "tx_body m P"
  unfolding tx_body_def using assms by blast

lemma tx_bodyD:
  assumes "tx_body m P" "open_ledger w" "gw_tx w = Some tx" "tx_grows tx" "m w = (r, w')"
  shows "ledger_steps (gw_db w) (gw_db w') \<and> open_ledger w'"
    "r = Inr a \<Longrightarrow> \<exists>tx'. gw_tx w' = Some tx' \<and> tx_grows tx' \<and>
        (\<forall>db d'. ledger_steps (gw_db w') db \<longrightarrow> tx' db = Some d' \<longrightarrow> (\<exists>d. tx db = Some d \<and> P d a d'))"
  using assms unfolding tx_body_def by blast+

lemma tx_return: "tx_body (lreturn a) (\<lambda>d a' d'. a' = a \<and> d' = d)"
  by (rule tx_bodyI) (auto simp: lreturn_def)

lemma tx_fail: "tx_body (lfail e) (\<lambda>_ _ _. False)"
  by (rule tx_bodyI) (auto simp: lfail_def)

lemma tx_now: "tx_body lnow (\<lambda>d a d'. d' = d)"
  by (rule tx_bodyI) (auto simp: lnow_def)

lemma tx_weaken:
  assumes "tx_body m P" "\<And>d a d'. P d a d' \<Longrightarrow> Q d a d'"
  shows "tx_body m Q"
proof (rule tx_bodyI)
  fix w tx r w'
  assume "open_ledger w" "gw_tx w = Some tx" "tx_grows tx" "m w = (r, w')"
  note b = tx_bodyD [OF assms(1) this]
  show "ledger_steps (gw_db w) (gw_db w') \<and> open_ledger w' \<and>
     (\<forall>a. r = Inr a \<longrightarrow> (\<exists>tx'. gw_tx w' = Some tx' \<and> tx_grows tx' \<and>
        (\<forall>db d'. ledger_steps (gw_db w') db \<longrightarrow> tx' db = Some d' \<longrightarrow> (\<exists>d. tx db = Some d \<and> Q d a d'))))"
    using b(1) b(2) assms(2) by blast
qed

lemma tx_bind:
  assumes "tx_body m P" "\<And>a. tx_body (f a) (Q a)"
  shows "tx_body (lbind m f) (\<lambda>d b d'. \<exists>a d1. P d a d1 \<and> Q a d1 b d')"
proof (rule tx_bodyI)
  fix w tx r w'
  assume w: "open_ledger w" "gw_tx w = Some tx" "tx_grows tx" and b: "lbind m f w = (r, w')"
  obtain x w1 where x: "m w = (x, w1)" by fastforce
  note s = tx_bodyD [OF assms(1) w x]
  show "ledger_steps (gw_db w) (gw_db w') \<and> open_ledger w' \<and>
     (\<forall>b. r = Inr b \<longrightarrow> (\<exists>tx'. gw_tx w' = Some tx' \<and> tx_grows tx' \<and>
        (\<forall>db d'. ledger_steps (gw_db w') db \<longrightarrow> tx' db = Some d' \<longrightarrow>
          (\<exists>d. tx db = Some d \<and> (\<exists>a d1. P d a d1 \<and> Q a d1 b d')))))"
  proof (cases x)
    case (Inl e)
    with b x s show ?thesis by (auto simp: lbind_def)
  next
    case (Inr a)
    from s(2) [OF this] obtain tx1 where t1: "gw_tx w1 = Some tx1" "tx_grows tx1"
      "\<And>db d'. ledger_steps (gw_db w1) db \<Longrightarrow> tx1 db = Some d' \<Longrightarrow> \<exists>d. tx db = Some d \<and> P d a d'" by blast
    from b x Inr have f: "f a w1 = (r, w')" by (simp add: lbind_def)
    note s1 = tx_bodyD [OF assms(2) _ t1(1,2) f]
    have o: "open_ledger w1" "ledger_steps (gw_db w) (gw_db w1)" using s by auto
    note s2 = s1(1) [OF o(1)] s1(2) [OF o(1)]
    have "\<exists>tx'. gw_tx w' = Some tx' \<and> tx_grows tx' \<and>
        (\<forall>db d'. ledger_steps (gw_db w') db \<longrightarrow> tx' db = Some d' \<longrightarrow>
          (\<exists>d. tx db = Some d \<and> (\<exists>a d1. P d a d1 \<and> Q a d1 b d')))" if "r = Inr b" for b
    proof -
      from s2(2) [OF that] obtain tx' where t': "gw_tx w' = Some tx'" "tx_grows tx'"
        "\<And>db d'. ledger_steps (gw_db w') db \<Longrightarrow> tx' db = Some d' \<Longrightarrow> \<exists>d. tx1 db = Some d \<and> Q a d b d'"
        by blast
      have "\<exists>d. tx db = Some d \<and> (\<exists>a d1. P d a d1 \<and> Q a d1 b d')"
        if db: "ledger_steps (gw_db w') db" "tx' db = Some d'" for db d'
      proof -
        from t'(3) [OF db] obtain d1 where d1: "tx1 db = Some d1" "Q a d1 b d'" by blast
        have "ledger_steps (gw_db w1) db" using s2(1) db(1) by auto
        from t1(3) [OF this d1(1)] d1(2) show ?thesis by blast
      qed
      with t' show ?thesis by blast
    qed
    with s2(1) o(2) show ?thesis by auto
  qed
qed

lemma tx_read: "tx_body (lread g) (\<lambda>d a d'. d' = d \<and> (\<exists>d0. a = g d0 \<and> grows d0 d))"
proof (rule tx_bodyI)
  fix w tx r w'
  assume w: "open_ledger w" "gw_tx w = Some tx" "tx_grows tx" and b: "lread g w = (r, w')"
  obtain flt w1 where t: "ledger_tick w = (flt, w1)" by fastforce
  note s = tick_steps [OF w(1) t]
  show "ledger_steps (gw_db w) (gw_db w') \<and> open_ledger w' \<and>
     (\<forall>a. r = Inr a \<longrightarrow> (\<exists>tx'. gw_tx w' = Some tx' \<and> tx_grows tx' \<and>
        (\<forall>db d'. ledger_steps (gw_db w') db \<longrightarrow> tx' db = Some d' \<longrightarrow>
          (\<exists>d. tx db = Some d \<and> d' = d \<and> (\<exists>d0. a = g d0 \<and> grows d0 d)))))"
  proof (cases "flt = None \<and> tx (gw_db w1) \<noteq> None")
    case True
    then obtain view where v: "flt = None" "tx (gw_db w1) = Some view" by auto
    with b t s w have "r = Inr (g view)" "w' = w1" by (auto simp: lread_def)
    moreover have "grows view d" if "ledger_steps (gw_db w1) db" "tx db = Some d" for db d
      using w(3) v(2) that unfolding tx_grows_def by blast
    ultimately show ?thesis using s w by auto
  next
    case False
    with b t s w have "isl r" "w' = w1" by (auto simp: lread_def split: option.splits fault.splits)
    with s show ?thesis by auto
  qed
qed

lemma tx_then_Some:
  "tx_then tx f a db = Some e \<longleftrightarrow> (\<exists>d. tx db = Some d \<and> f d = (Inr a, e))"
  by (auto simp: tx_then_def split: option.splits prod.splits sum.splits)

lemma tx_stmt:
  assumes "stmt_grows f"
  shows "tx_body (lstmt f) (\<lambda>d a d'. f d = (Inr a, d'))"
proof (rule tx_bodyI)
  fix w tx r w'
  assume w: "open_ledger w" "gw_tx w = Some tx" "tx_grows tx" and b: "lstmt f w = (r, w')"
  obtain flt w1 where t: "ledger_tick w = (flt, w1)" by fastforce
  note s = tick_steps [OF w(1) t]
  have g: "tx_grows (tx_then tx f a)" for a
    using w(3) assms unfolding tx_grows_def stmt_grows_def tx_then_Some by blast
  show "ledger_steps (gw_db w) (gw_db w') \<and> open_ledger w' \<and>
     (\<forall>a. r = Inr a \<longrightarrow> (\<exists>tx'. gw_tx w' = Some tx' \<and> tx_grows tx' \<and>
        (\<forall>db d'. ledger_steps (gw_db w') db \<longrightarrow> tx' db = Some d' \<longrightarrow>
          (\<exists>d. tx db = Some d \<and> f d = (Inr a, d')))))"
    using b t s w(2) g
    by (auto simp: lstmt_def tx_then_Some split: option.splits fault.splits prod.splits sum.splits)
qed

lemma tx_update:
  assumes "stmt_grows (\<lambda>d. case f d of (a, d') \<Rightarrow> (Inr a, d'))"
  shows "tx_body (lupdate f) (\<lambda>d a d'. f d = (a, d'))"
  unfolding lupdate_def by (rule tx_weaken [OF tx_stmt [OF assms]]) (auto split: prod.splits)

text \<open>Bodies whose writes are a sequence of steps.\<close>

abbreviation tx_steps :: "'a led \<Rightarrow> bool" where
  "tx_steps m \<equiv> tx_body m (\<lambda>d a d'. ledger_steps d d')"

lemma tx_steps_return: "tx_steps (lreturn a)"
  by (rule tx_weaken [OF tx_return]) simp

lemma tx_steps_bind: "tx_steps m \<Longrightarrow> (\<And>a. tx_steps (f a)) \<Longrightarrow> tx_steps (lbind m f)"
  by (rule tx_weaken [OF tx_bind]) auto

lemma tx_steps_mapM: "(\<And>x. x \<in> set xs \<Longrightarrow> tx_steps (f x)) \<Longrightarrow> tx_steps (lmapM f xs)"
  by (induction xs) (simp_all add: tx_steps_return tx_steps_bind)

fun tx_path :: "('a \<Rightarrow> ledger_db \<Rightarrow> unit \<Rightarrow> ledger_db \<Rightarrow> bool) \<Rightarrow> 'a list \<Rightarrow> ledger_db \<Rightarrow> ledger_db \<Rightarrow> bool" where
  "tx_path Q [] d d' \<longleftrightarrow> d' = d"
| "tx_path Q (x # xs) d d' \<longleftrightarrow> (\<exists>d1. Q x d () d1 \<and> tx_path Q xs d1 d')"

lemma tx_foreach:
  assumes "\<And>x. tx_body (f x) (Q x)"
  shows "tx_body (lforeach f xs) (\<lambda>d _ d'. tx_path Q xs d d')"
proof (induction xs)
  case Nil
  show ?case by (rule tx_weaken [OF tx_return [of "()"], folded lforeach.simps(1) [of f]]) simp
next
  case (Cons x xs)
  show ?case unfolding lforeach.simps by (rule tx_weaken [OF tx_bind [OF assms Cons]]) auto
qed

text \<open>A committed transaction.\<close>

lemma withTx_cases:
  assumes "tx_body m P" "open_ledger w" "gw_tx w = None" "withTx m w = (r, w')"
  shows "open_ledger w' \<and> gw_tx w' = None \<and>
    (ledger_steps (gw_db w) (gw_db w') \<and> isl r \<or>
     (\<exists>db a. ledger_steps (gw_db w) db \<and> P db a (gw_db w') \<and> (isl r \<or> r = Inr a)))"
proof -
  obtain flt w1 where t: "ledger_tick w = (flt, w1)" by fastforce
  note s = tick_steps [OF assms(2) t]
  show ?thesis
  proof (cases flt)
    case (Some f)
    with assms(4) t have "isl r" "w' = w1" by (auto simp: withTx_def split: fault.splits)
    with s assms(3) show ?thesis by auto
  next
    case None
    let ?w = "w1\<lparr>gw_tx := Some Some\<rparr>"
    have g: "tx_grows Some" by (auto simp: tx_grows_def ledger_steps_grow)
    obtain x w2 where x: "m ?w = (x, w2)" by fastforce
    have o: "open_ledger ?w" "gw_tx ?w = Some Some" using s by auto
    note b = tx_bodyD [OF assms(1) o g x]
    show ?thesis
    proof (cases x)
      case (Inl e)
      with assms(4) t None x have "isl r" "w' = w2\<lparr>gw_tx := None\<rparr>" by (auto simp: withTx_def)
      with b(1) s show ?thesis by auto
    next
      case (Inr a)
      from b(2) [OF this] obtain tx where tx: "gw_tx w2 = Some tx"
        "\<And>db d'. ledger_steps (gw_db w2) db \<Longrightarrow> tx db = Some d' \<Longrightarrow> P db a d'" by fastforce
      obtain flt3 w3 where t3: "ledger_tick (w2\<lparr>gw_tx := None\<rparr>) = (flt3, w3)" by fastforce
      have s3: "ledger_steps (gw_db w2) (gw_db w3) \<and> open_ledger w3 \<and> gw_tx w3 = None"
        using tick_steps [OF _ t3] b(1) by auto
      have all: "ledger_steps (gw_db w) (gw_db w3)" using s b(1) s3 by auto
      have eq: "withTx m w = (case commit tx (w2\<lparr>gw_tx := None\<rparr>) of
          (Inl e, w) \<Rightarrow> (Inl e, w) | (Inr _, w) \<Rightarrow> (Inr a, w))"
        using t None x Inr tx(1) by (simp add: withTx_def)
      show ?thesis
      proof (cases "tx (gw_db w3)")
        case None
        with assms(4) eq t3 have "isl r" "w' = w3"
          by (auto simp: commit_def split: option.splits fault.splits)
        with all s3 show ?thesis by auto
      next
        case (Some d')
        have "P (gw_db w3) a d'" using tx(2) s3 Some by blast
        with assms(4) eq t3 Some all s3 show ?thesis
          by (auto simp: commit_def split: option.splits fault.splits)
      qed
    qed
  qed
qed

lemma call_withTx:
  assumes "tx_body m P" "\<And>db a d'. P db a d' \<Longrightarrow> ledger_steps db d'"
  shows "ledger_call (withTx m)"
proof
  fix w r w'
  assume "open_ledger w" "gw_tx w = None" "withTx m w = (r, w')"
  from withTx_cases [OF assms(1) this] show "ledger_steps (gw_db w) (gw_db w') \<and> open_ledger w' \<and> gw_tx w' = None"
    using assms(2) by (meson rtranclp_trans)
qed

subsection \<open>Statements of transactions\<close>

lemma stmt_growsI:
  assumes "\<And>d0 d a e0 e. grows d0 d \<Longrightarrow> f d0 = (Inr a, e0) \<Longrightarrow> f d = (Inr a, e) \<Longrightarrow> grows e0 e"
  shows "stmt_grows f"
  unfolding stmt_grows_def using assms by blast

lemma grows_same: "lg_levels d' = lg_levels d \<Longrightarrow> lg_proposals d' = lg_proposals d \<Longrightarrow> grows d d'"
  by (simp add: grows_def rows_grow_same proposals_stay_same)

lemma stmt_grows_back:
  assumes "\<And>d a d'. f d = (Inr a, d') \<Longrightarrow> grows d d' \<and> grows d' d"
  shows "stmt_grows f"
  by (rule stmt_growsI) (meson assms grows_trans)

lemma stmt_grows_same:
  assumes "\<And>d. lg_levels (snd (f d)) = lg_levels d" "\<And>d. lg_proposals (snd (f d)) = lg_proposals d"
  shows "stmt_grows f"
proof (rule stmt_grows_back)
  fix d a d'
  assume "f d = (Inr a, d')"
  with assms [of d] show "grows d d' \<and> grows d' d" by (simp add: grows_same)
qed

lemma stmt_update_same:
  assumes "\<And>d. lg_levels (snd (f d)) = lg_levels d" "\<And>d. lg_proposals (snd (f d)) = lg_proposals d"
  shows "stmt_grows (\<lambda>d. case f d of (a, d') \<Rightarrow> (Inr a, d'))"
  by (rule stmt_grows_same) (simp_all add: assms split_beta)

lemma stmt_appendEvent: "stmt_grows (sql_appendEvent s e)"
  by (rule stmt_grows_same) simp_all

lemma stmt_read: "stmt_grows (\<lambda>d. (Inr (g d), d))"
  by (rule stmt_grows_same) simp_all

lemma same_proposal_sym: "same_proposal p q \<Longrightarrow> same_proposal q p"
  by (simp add: same_proposal_def)

text \<open>Updating proposals in place can be read backwards.\<close>

lemma proposals_back_map:
  assumes "lg_proposals d' = map (\<lambda>row. if hit row then (fst row, upd (snd row)) else row) (lg_proposals d)"
    "\<And>p. same_proposal p (upd p)"
  shows "proposals_stay d' d"
proof (unfold proposals_stay_def, intro allI impI)
  fix s i q
  assume q: "sql_readProposal s i d' = Some q"
  show "\<exists>p. sql_readProposal s i d = Some p \<and> same_proposal q p"
  proof (cases "sql_readProposal s i d")
    case None
    then have n: "\<forall>row\<in>set (lg_proposals d). \<not> (fst row = ps_scope s \<and> pp_ID (snd row) = i)"
      by (auto simp: sql_readProposal_def find_None_iff)
    from q obtain row where "row \<in> set (lg_proposals d')" "fst row = ps_scope s" "pp_ID (snd row) = i"
      unfolding sql_readProposal_def by (auto dest!: find_in_set)
    then have "row \<in> (\<lambda>row. if hit row then (fst row, upd (snd row)) else row) ` set (lg_proposals d)"
      by (simp only: assms(1) list.set_map)
    then obtain old where "old \<in> set (lg_proposals d)"
      "row = (if hit old then (fst old, upd (snd old)) else old)" by (rule imageE)
    moreover have "pp_ID (upd p) = pp_ID p" for p using assms(2) [of p] by (simp add: same_proposal_def)
    ultimately have "fst old = ps_scope s \<and> pp_ID (snd old) = i"
      using \<open>fst row = ps_scope s\<close> \<open>pp_ID (snd row) = i\<close> by (auto split: if_splits)
    with n \<open>old \<in> set (lg_proposals d)\<close> show ?thesis by blast
  next
    case (Some p)
    have "proposals_stay d d'" using assms by (rule proposals_stay_map)
    with Some q show ?thesis unfolding proposals_stay_def by (metis option.inject same_proposal_sym)
  qed
qed

lemma stmt_decideProposal: "stmt_grows (sql_decideProposal s i st actor remark now)"
proof (rule stmt_grows_back)
  fix d a d'
  assume u: "sql_decideProposal s i st actor remark now d = (Inr a, d')"
  have l: "lg_levels d' = lg_levels d" using decideProposal_levels [of s i st actor remark now d] u by simp
  have "proposals_stay d' d"
    using u
  proof (rule decideProposal_cases)
    assume "d' = d\<lparr>lg_proposals := map (\<lambda>row. if pending_id s i row
         then (fst row, decided st actor remark now (snd row)) else row) (lg_proposals d)\<rparr>"
    then show ?thesis
      by (intro proposals_back_map [where hit = "pending_id s i" and upd = "decided st actor remark now"]) simp_all
  qed simp
  then show "grows d d' \<and> grows d' d"
    using l decideProposal_stay [OF u] by (simp add: grows_def rows_grow_same)
qed

lemma stmt_update_pending:
  assumes "\<And>p. same_proposal p (upd p)"
  shows "stmt_grows (\<lambda>d. case update_pending hit upd d of (a, d') \<Rightarrow> (Inr a, d'))"
proof (rule stmt_grows_back)
  fix d a d'
  assume "(case update_pending hit upd d of (a, d') \<Rightarrow> (Inr a, d')) = (Inr a, d')"
  then have u: "update_pending hit upd d = (a, d')" by (simp add: split_beta prod_eq_iff)
  have l: "lg_levels d' = lg_levels d" using update_pending_same(1) [of hit upd d] u by simp
  have "proposals_stay d' d"
    by (rule proposals_back_map [where hit = hit and upd = upd])
      (use u assms in \<open>auto simp: update_pending_def\<close>)
  then show "grows d d' \<and> grows d' d"
    using l update_pending_stay [OF u assms] by (simp add: grows_def rows_grow_same)
qed

lemma stmt_closePending:
  "stmt_grows (\<lambda>d. case sql_closePending s f c st a r t d of (a, d') \<Rightarrow> (Inr a, d'))"
  unfolding sql_closePending_def by (rule stmt_update_pending) simp

text \<open>Writes of the same rows on top of rows that grew.\<close>

lemma rows_grow_write:
  assumes "rows_grow d0 d"
    "\<And>sc f c. stored_level sc f c e0 = (if K sc f c then n sc f c else stored_level sc f c d0)"
    "\<And>sc f c. stored_level sc f c e = (if K sc f c then n sc f c else stored_level sc f c d)"
  shows "rows_grow e0 e"
proof (unfold rows_grow_def, intro allI impI)
  fix sc f c r
  assume r: "stored_level sc f c e0 = Some r"
  show "\<exists>r'. stored_level sc f c e = Some r' \<and> (st_Version r < st_Version r' \<or> r' = r)"
  proof (cases "K sc f c")
    case True
    with r show ?thesis by (simp add: assms(2,3))
  next
    case False
    with r have "stored_level sc f c d0 = Some r" by (simp add: assms(2))
    with assms(1) obtain r' where "stored_level sc f c d = Some r'" "st_Version r < st_Version r' \<or> r' = r"
      unfolding rows_grow_def by blast
    with False show ?thesis by (simp add: assms(3))
  qed
qed

lemma proposals_stay_cong:
  "lg_proposals e0 = lg_proposals d0 \<Longrightarrow> lg_proposals e = lg_proposals d \<Longrightarrow>
   proposals_stay d0 d \<Longrightarrow> proposals_stay e0 e"
  by (simp add: proposals_stay_def sql_readProposal_def)

lemma writeLevel_stored:
  assumes "sql_writeLevel s ch d = (Inr st, d')"
  shows "stored_level sc f c d' = (if sc = ps_scope s \<and> f = ch_Family ch \<and> c = ch_Class ch then Some st
    else stored_level sc f c d)"
  using writeLevel_ok [OF assms] by (cases sc) (simp only: split: if_splits)

lemma stmt_writeLevel: "stmt_grows (sql_writeLevel s ch)"
proof (rule stmt_growsI)
  fix d0 d st e0 e
  assume g: "grows d0 d" and w0: "sql_writeLevel s ch d0 = (Inr st, e0)" and w: "sql_writeLevel s ch d = (Inr st, e)"
  let ?K = "\<lambda>sc f c. sc = ps_scope s \<and> f = ch_Family ch \<and> c = ch_Class ch"
  have "lg_proposals e0 = lg_proposals d0" "lg_proposals e = lg_proposals d"
    using writeLevel_proposals [of s ch] w0 w by (metis snd_conv)+
  with g have p: "proposals_stay e0 e" using proposals_stay_cong by (simp add: grows_def)
  have "stored_level sc f c e0 = (if ?K sc f c then Some st else stored_level sc f c d0)"
    "stored_level sc f c e = (if ?K sc f c then Some st else stored_level sc f c d)" for sc f c
    by (rule writeLevel_stored [OF w0], rule writeLevel_stored [OF w])
  note k = this
  have "rows_grow d0 d" using g by (simp add: grows_def)
  then have "rows_grow e0 e" using k by (rule rows_grow_write)
  with p show "grows e0 e" by (simp add: grows_def)
qed

lemma stored_level_append:
  "stored_level sc f c (d\<lparr>lg_levels := lg_levels d @ rows\<rparr>) =
     (case stored_level sc f c d of
        None \<Rightarrow> map_option snd (List.find (level_is sc f c) rows) | Some r \<Rightarrow> Some r)"
  by (auto simp: stored_level_def find_append split: option.splits)

lemma grows_append:
  assumes "grows d0 d"
    "\<And>sc st. (sc, st) \<in> set rows \<Longrightarrow> stored_level sc (st_Family st) (st_Class st) d = None"
  shows "grows (d0\<lparr>lg_levels := lg_levels d0 @ rows\<rparr>) (d\<lparr>lg_levels := lg_levels d @ rows\<rparr>)"
proof -
  let ?old = "d0\<lparr>lg_levels := lg_levels d0 @ rows\<rparr>" and ?new = "d\<lparr>lg_levels := lg_levels d @ rows\<rparr>"
  have "proposals_stay ?old ?new" using assms(1) proposals_stay_cong [of ?old d0 ?new d] by (simp add: grows_def)
  moreover have "rows_grow ?old ?new"
  proof (unfold rows_grow_def, intro allI impI)
    fix sc f c r
    assume r: "stored_level sc f c ?old = Some r"
    show "\<exists>r'. stored_level sc f c ?new = Some r' \<and> (st_Version r < st_Version r' \<or> r' = r)"
    proof (cases "stored_level sc f c d0")
      case (Some q)
      with r have q: "q = r" by (simp add: stored_level_append)
      from assms(1) Some obtain r' where "stored_level sc f c d = Some r'" "st_Version r < st_Version r' \<or> r' = r"
        unfolding grows_def rows_grow_def q by blast
      then show ?thesis by (simp add: stored_level_append)
    next
      case None
      with r obtain row where row: "List.find (level_is sc f c) rows = Some row" "r = snd row"
        by (auto simp: stored_level_append)
      from find_in_set [OF row(1)] have "stored_level sc f c d = None"
        using assms(2) [of "fst row" "snd row"] by (cases row) (simp add: level_is_def)
      with row show ?thesis by (simp add: stored_level_append)
    qed
  qed
  ultimately show ?thesis by (simp add: grows_def)
qed

lemma stmt_insert_level: "stmt_grows (insert_level sc st)"
proof (rule stmt_growsI)
  fix d0 d r e0 e
  assume g: "grows d0 d" and i0: "insert_level sc st d0 = (Inr r, e0)" and i: "insert_level sc st d = (Inr r, e)"
  show "grows e0 e"
  proof (cases r)
    case None
    with insert_level_ok [OF i0] insert_level_ok [OF i] g show ?thesis by simp
  next
    case (Some st')
    with insert_level_ok [OF i0] insert_level_ok [OF i] g grows_append [OF g, of "[(sc, st)]"]
    show ?thesis by simp
  qed
qed

text \<open>The compare-and-set at work: a row read earlier whose version is still the expected one at the
  commit is the row of the commit.\<close>

lemma compare_and_set:
  assumes "grows d0 d" "sql_writeLevel s ch d = (Inr st, d')"
    "ch_ExpectVersion ch = version_of (stored_level (ps_scope s) (ch_Family ch) (ch_Class ch) d0)"
  shows "stored_level (ps_scope s) (ch_Family ch) (ch_Class ch) d =
    stored_level (ps_scope s) (ch_Family ch) (ch_Class ch) d0"
proof (cases "stored_level (ps_scope s) (ch_Family ch) (ch_Class ch) d0")
  case None
  with assms(3) writeLevel_ok [OF assms(2)] show ?thesis by (simp add: version_of_def)
next
  case (Some r)
  with assms(1) obtain r' where r': "stored_level (ps_scope s) (ch_Family ch) (ch_Class ch) d = Some r'"
    "st_Version r < st_Version r' \<or> r' = r" unfolding grows_def rows_grow_def by blast
  have "st_Version r' = st_Version r"
    using writeLevel_ok [OF assms(2)] r'(1) assms(3) Some by (auto simp: version_of_def split: if_splits)
  with r' Some show ?thesis by auto
qed

subsection \<open>Bodies\<close>

named_theorems tx \<open>bodies of transactions\<close>

lemma tx_if [tx]:
  "tx_body m P \<Longrightarrow> tx_body n Q \<Longrightarrow>
   tx_body (if b then m else n) (\<lambda>d a d'. b \<and> P d a d' \<or> \<not> b \<and> Q d a d')"
  by simp

lemma tx_option [tx]:
  "tx_body m P \<Longrightarrow> (\<And>x. tx_body (n x) (Q x)) \<Longrightarrow>
   tx_body (case v of None \<Rightarrow> m | Some x \<Rightarrow> n x)
     (\<lambda>d a d'. case v of None \<Rightarrow> P d a d' | Some x \<Rightarrow> Q x d a d')"
  by (simp split: option.split)

lemmas [tx] = tx_return tx_fail tx_now tx_bind tx_read tx_stmt tx_update
  stmt_appendEvent stmt_read stmt_decideProposal stmt_closePending stmt_writeLevel stmt_insert_level

text \<open>A level read in the transaction and lowered by it.\<close>

lemma lower_commit:
  assumes "grows seen d" "sql_writeLevel s ch d = (Inr st, d1)"
    and cur: "current = stored_level (ps_scope s) (ch_Family ch) (ch_Class ch) seen"
    and "ch_ExpectVersion ch = version_of current"
    "ch_To ch < level_or (defaultLevel (ch_Family ch)) current"
    "kind = EventDowngraded \<or> kind = EventAutoDowngraded \<and>
       (case current of Some st \<Rightarrow> st_Provenance st \<noteq> ProvenanceCarriedOver | None \<Rightarrow> True)"
    "sql_closePending s (ch_Family ch) (ch_Class ch) StatusSuperseded actor remark now d1 = (ps, d2)"
    "sql_appendEvent s e d2 = (Inr (), d3)" "tells e kind (ch_Family ch) (ch_Class ch) (ch_To ch)"
  shows "ledger_steps d d3"
proof -
  have "stored_level (ps_scope s) (ch_Family ch) (ch_Class ch) d = current"
    using compare_and_set [OF assms(1,2)] assms(3,4) by simp
  then have "ledger_step d d3"
    using assms(2,5-9) by (intro ledger_step.lower [where kind = kind]) (auto simp: level_at_def)
  then show ?thesis by (rule r_into_rtranclp)
qed

lemma tx_lowerOne:
  assumes "kind \<in> {EventDowngraded, EventAutoDowngraded}"
  shows "tx_steps (lowerOne sv f to actor reason kind c)"
  apply (rule tx_weaken)
   apply (unfold lowerOne_def readLevel_def appendEvent_def Let_def)
   apply (rule tx)+
  apply (elim exE conjE disjE)
    apply simp
   apply simp
  subgoal for d a d' now d1 current d2 seen st d3 ps d4 u d5
    by (rule lower_commit [where kind = kind and current = current and seen = seen and st = st and ps = ps
          and remark = "''superseded by '' @ eventType_string kind"])
      (use assms in \<open>auto simp: sql_readLevel_def tells_def ledger_entry_def split: option.splits\<close>)
  done

lemma tx_writeDemotion [tx]:
  "tx_body (writeDemotion sv st d) (\<lambda>db a db'. \<forall>seen. grows seen db \<longrightarrow>
    stored_level (ps_scope (sv_store sv)) (dm_Family d) (dm_Class d) seen = Some st \<longrightarrow>
    st_Provenance st \<noteq> ProvenanceCarriedOver \<longrightarrow> dm_To d < st_Level st \<longrightarrow> ledger_steps db db')"
  apply (rule tx_weaken)
   apply (unfold writeDemotion_def appendEvent_def Let_def)
   apply (rule tx)+
  apply (elim exE conjE, intro allI impI)
  subgoal for db a db' st' d1 ps d2 seen
    by (rule lower_commit [where kind = EventAutoDowngraded and seen = seen and st = st' and
          current = "Some st" and remark = "''superseded by a demotion: '' @ dm_Cause d"])
      (auto simp: tells_def ledger_entry_def level_or_def version_of_def)
  done

lemma call_demoteOnce [calls]: "ledger_call (demoteOnce sv o' cause)"
  unfolding demoteOnce_def readLevel_def Let_def
  apply (rule call_withTx)
   apply (rule tx)+
  apply (elim exE conjE)
  subgoal for db a d' current d1 seen
    by (cases "stored_level (ps_scope (sv_store sv)) (oc_Family o') (oc_Class o') seen")
      (auto simp: sql_readLevel_def)
  done

lemma call_lower [calls]:
  assumes "kind \<in> {EventDowngraded, EventAutoDowngraded}"
  shows "ledger_call (lower sv f classes to actor reason kind)"
proof -
  have "tx_steps (lbind (lmapM (lowerOne sv f to actor reason kind) classes) (\<lambda>sts. lreturn (somes sts)))"
    by (intro tx_steps_bind tx_steps_mapM tx_lowerOne tx_steps_return assms)
  then show ?thesis unfolding lower_def by (intro call_invalidate) (rule call_withTx)
qed

text \<open>A row seeded for a pair that has none.\<close>

lemma seed_commit:
  assumes "insert_level (ps_scope s) st d = (Inr (Some st'), d1)" "sql_appendEvent s e d1 = (Inr (), d2)"
    "st_Version st = 1" "st_Stored st"
    "(kind, st_Provenance st) \<in> {(EventCarriedOver, ProvenanceCarriedOver),
       (EventGrandfathered, ProvenanceGrandfathered)}"
    "kind = EventCarriedOver \<Longrightarrow> st_Level st \<le> carryCap (st_Class st)"
    "kind = EventGrandfathered \<Longrightarrow> st_Level st \<le> CapForPair (st_Family st) (st_Class st)"
    "tells e kind (st_Family st) (st_Class st) (st_Level st)"
  shows "ledger_steps d d2"
proof -
  have "st' = st" using insert_level_ok [OF assms(1)] by simp
  with assms(1) have "insert_level (ps_scope s) st d = (Inr (Some st), d1)" by simp
  then have "ledger_step d d2" using assms(3-7) assms(2,8) by (rule ledger_step.seed)
  then show ?thesis by (rule r_into_rtranclp)
qed

lemma call_seedCarried [calls]:
  assumes "level \<le> carryCap (co_Class co)"
  shows "ledger_call (seedCarried sv co level bound now)"
  unfolding seedCarried_def appendEvent_def Let_def
  apply (rule call_no_rows, rule call_withTx)
   apply (rule tx)+
  apply (elim exE conjE)
  subgoal for db a d' row
    apply (cases row; simp)
    by (rule seed_commit [where kind = EventCarriedOver], assumption, assumption)
      (use assms in \<open>auto simp: tells_def ledger_entry_def seed_row_def\<close>)
  done

lemma tx_seedGrandfathered:
  assumes "level \<le> CapForPair f c"
  shows "tx_steps (seedGrandfathered sv f c level why now)"
  unfolding seedGrandfathered_def appendEvent_def Let_def
  apply (rule tx_weaken)
   apply (rule tx)+
  apply (elim exE conjE)
  subgoal for db a d' row
    apply (cases row; simp)
    subgoal using insert_level_ok by fastforce
    by (elim exE conjE; rule seed_commit [where kind = EventGrandfathered], assumption, simp)
      (use assms in \<open>auto simp: tells_def ledger_entry_def seed_row_def\<close>)
  done

lemma selfSpec_selfClasses: "list_all (\<lambda>sc. selfSpec (sc_class sc) = Some sc) selfClasses"
  by code_simp

lemma GrandfatheredLevel_cap:
  assumes "sc \<in> set selfClasses" "GrandfatheredLevel bound now (sc_class sc) = (level, why)"
  shows "level \<le> CapForPair (sc_family sc) (sc_class sc)"
proof -
  have "selfSpec (sc_class sc) = Some sc" using selfSpec_selfClasses assms(1) by (auto simp: list_all_iff)
  with assms(2) CapForPair_range(1) [of "sc_family sc" "sc_class sc"] show ?thesis
    by (auto simp: GrandfatheredLevel_def Let_def split: if_splits prod.splits)
qed

lemma tx_seedOne: "sc \<in> set selfClasses \<Longrightarrow> tx_steps (seedOne sv bound now sc)"
  unfolding seedOne_def
  by (auto intro!: tx_steps_return tx_seedGrandfathered dest: GrandfatheredLevel_cap split: prod.splits)

lemma tx_steps_update:
  assumes "\<And>d a d'. f d = (a, d') \<Longrightarrow> ledger_step d d'"
    "\<And>d. lg_levels (snd (f d)) = lg_levels d" "\<And>d. lg_proposals (snd (f d)) = lg_proposals d"
  shows "tx_steps (lupdate f)"
  by (rule tx_weaken [OF tx_update [OF stmt_update_same]]) (auto simp: assms)

lemma tx_marker: "tx_steps (lupdate (sql_lockGrandfatherMarker s))"
  by (rule tx_steps_update) (auto intro: ledger_step.marker)

lemma tx_mark: "tx_steps (lupdate (\<lambda>db. ((), sql_markGrandfathered s now db)))"
  by (rule tx_steps_update) (auto intro: ledger_step.mark)

lemma call_SeedGrandfathered [calls]: "ledger_call (SeedGrandfathered sv database bound)"
proof -
  have "tx_steps (lbind (lupdate (sql_lockGrandfatherMarker (sv_store sv))) (\<lambda>done_at.
      case done_at of
        Some t \<Rightarrow> lreturn \<lparr>gr_Migrated = False, gr_MigratedAt = t, gr_Seeded = []\<rparr>
      | None \<Rightarrow>
          lbind (lmapM (seedOne sv bound now) selfClasses) (\<lambda>sts.
          lbind (lupdate (\<lambda>db. ((), sql_markGrandfathered (sv_store sv) now db))) (\<lambda>_.
            lreturn \<lparr>gr_Migrated = True, gr_MigratedAt = now, gr_Seeded = somes sts\<rparr>))))" for now
    by (auto intro!: tx_steps_bind tx_marker tx_mark tx_steps_mapM tx_seedOne tx_steps_return split: option.splits)
  then show ?thesis
    unfolding SeedGrandfathered_def by (intro call_bind calls call_withTx) 
qed

text \<open>Adoption inserts all rows and then writes all entries; one row with its entry at a time gives
  the same tables.\<close>

lemma adopt_rows_events:
  "adopt_rows sc now rows (d\<lparr>lg_events := es\<rparr>) =
     (fst (adopt_rows sc now rows d), (snd (adopt_rows sc now rows d))\<lparr>lg_events := es\<rparr>)"
proof (induction rows arbitrary: d)
  case (Cons legacy rows)
  have sl: "stored_level sc f c (d\<lparr>lg_events := es\<rparr>) = stored_level sc f c d" for f c
    by (simp add: stored_level_def)
  have sw: "d\<lparr>lg_events := es, lg_levels := l\<rparr> = d\<lparr>lg_levels := l, lg_events := es\<rparr>" for l
    by (cases d) simp
  have "adopt_rows sc now rows (d\<lparr>lg_events := es, lg_levels := l\<rparr>) =
      (fst (adopt_rows sc now rows (d\<lparr>lg_levels := l\<rparr>)),
       (snd (adopt_rows sc now rows (d\<lparr>lg_levels := l\<rparr>)))\<lparr>lg_events := es\<rparr>)" for l
    unfolding sw by (rule Cons)
  then show ?case by (simp add: Let_def split_beta Cons sl)
qed simp

lemma adopt_rows_levels:
  "adopt_rows sc now rows d = (sts, d1) \<Longrightarrow>
     d1 = d\<lparr>lg_levels := lg_levels d @ map (Pair sc) sts\<rparr> \<and>
     (\<forall>st\<in>set sts. stored_level sc (st_Family st) (st_Class st) d = None)"
proof (induction rows arbitrary: d sts)
  case (Cons legacy rows)
  show ?case
  proof (cases "stored_level sc (st_Family legacy) (st_Class legacy) d")
    case None
    let ?st = "adopted_row now legacy"
    let ?d = "d\<lparr>lg_levels := lg_levels d @ [(sc, ?st)]\<rparr>"
    obtain sts' where sts: "adopt_rows sc now rows ?d = (sts', d1)" "sts = ?st # sts'"
      using Cons.prems None by (auto simp: Let_def split: prod.splits)
    have "stored_level sc f c ?d = None \<Longrightarrow> stored_level sc f c d = None" for f c
      by (auto simp: stored_level_snoc split: option.splits)
    with Cons.IH [OF sts(1)] sts(2) None show ?thesis by (auto simp: adopted_row_def)
  next
    case (Some r)
    with Cons show ?thesis by simp
  qed
qed simp

lemma adopt_path:
  assumes "adopt_rows (ps_scope s) now rows d = (sts, d1)"
    "\<forall>legacy\<in>set rows. ((ps_deployment s, legacyDatabase), legacy) \<in> set (lg_levels d) \<and>
       st_Provenance legacy = ProvenanceLedger"
    "tx_path (\<lambda>st d a d'. sql_appendEvent s (ev st) d = (Inr a, d')) sts d1 d2"
    "\<And>st. tells (ev st) EventDatabaseScoped (st_Family st) (st_Class st) (st_Level st)"
  shows "ledger_steps d d2"
  using assms(1-3)
proof (induction rows arbitrary: d sts d1)
  case Nil
  then show ?case by simp
next
  case (Cons legacy rows)
  show ?case
  proof (cases "stored_level (ps_scope s) (st_Family legacy) (st_Class legacy) d")
    case (Some r)
    with Cons show ?thesis by simp
  next
    case None
    let ?st = "adopted_row now legacy"
    let ?d = "d\<lparr>lg_levels := lg_levels d @ [(ps_scope s, ?st)]\<rparr>"
    obtain sts' where sts: "adopt_rows (ps_scope s) now rows ?d = (sts', d1)" "sts = ?st # sts'"
      using Cons.prems(1) None by (auto simp: Let_def split: prod.splits)
    from Cons.prems(3) sts(2) obtain d1' where e: "sql_appendEvent s (ev ?st) d1 = (Inr (), d1')"
      and path: "tx_path (\<lambda>st d a d'. sql_appendEvent s (ev st) d = (Inr a, d')) sts' d1' d2" by auto
    have lev: "lg_events d1 = lg_events d" using adopt_rows_levels [OF sts(1)] by simp
    let ?es = "lg_events d @ [(ps_scope s, ev ?st)]"
    have d1': "d1' = d1\<lparr>lg_events := ?es\<rparr>" "sql_appendEvent s (ev ?st) ?d = (Inr (), ?d\<lparr>lg_events := ?es\<rparr>)"
      using e lev by (auto simp: sql_appendEvent_def split: if_splits)
    have "tells (ev ?st) EventDatabaseScoped (st_Family legacy) (st_Class legacy) (st_Level legacy)"
      using assms(4) [of ?st] by (simp add: adopted_row_def)
    then have "ledger_step d (?d\<lparr>lg_events := ?es\<rparr>)"
      using Cons.prems(2) None d1'(2) by (intro ledger_step.adopt [where legacy = legacy]) auto
    moreover have "ledger_steps (?d\<lparr>lg_events := ?es\<rparr>) d2"
    proof (rule Cons.IH)
      show "adopt_rows (ps_scope s) now rows (?d\<lparr>lg_events := ?es\<rparr>) = (sts', d1')"
        by (simp add: adopt_rows_events sts(1) d1'(1) del: update_convs)
      show "\<forall>legacy\<in>set rows. ((ps_deployment s, legacyDatabase), legacy) \<in> set (lg_levels (?d\<lparr>lg_events := ?es\<rparr>)) \<and>
          st_Provenance legacy = ProvenanceLedger" using Cons.prems(2) by simp
      show "tx_path (\<lambda>st d a d'. sql_appendEvent s (ev st) d = (Inr a, d')) sts' d1' d2" by (rule path)
    qed
    ultimately show ?thesis by (rule converse_rtranclp_into_rtranclp)
  qed
qed

lemma stmt_adopt [tx]: "stmt_grows (\<lambda>d. case sql_adoptLegacyRows s now d of (a, d') \<Rightarrow> (Inr a, d'))"
proof (rule stmt_growsI)
  fix d0 d sts e0 e
  assume g: "grows d0 d" and a: "(case sql_adoptLegacyRows s now d0 of (a, d') \<Rightarrow> (Inr a, d')) = (Inr sts, e0)"
    "(case sql_adoptLegacyRows s now d of (a, d') \<Rightarrow> (Inr a, d')) = (Inr sts, e)"
  from a have "sql_adoptLegacyRows s now d0 = (sts, e0)" "sql_adoptLegacyRows s now d = (sts, e)"
    by (simp_all add: split_beta prod_eq_iff)
  note l = this [unfolded sql_adoptLegacyRows_def, THEN adopt_rows_levels]
  have "grows (d0\<lparr>lg_levels := lg_levels d0 @ map (Pair (ps_scope s)) sts\<rparr>)
      (d\<lparr>lg_levels := lg_levels d @ map (Pair (ps_scope s)) sts\<rparr>)"
    using l(2) by (intro grows_append [OF g]) (simp add: image_iff)
  with l show "grows e0 e" by simp
qed

lemma call_AdoptLegacy [calls]: "ledger_call (AdoptLegacy sv)"
  unfolding AdoptLegacy_def appendEvent_def
  apply (rule call_invalidate, rule call_withTx)
   apply (rule tx tx_foreach)+
  apply (elim exE conjE)
  subgoal for db a d' now d1 sts d2
    by (rule adopt_path [where now = now and sts = sts]) (auto simp: sql_adoptLegacyRows_def tells_def ledger_entry_def)
  done

lemma tx_steps_stmt:
  "stmt_grows f \<Longrightarrow> (\<And>d a d'. f d = (Inr a, d') \<Longrightarrow> ledger_step d d') \<Longrightarrow> tx_steps (lstmt f)"
  by (rule tx_weaken [OF tx_stmt]) auto

lemma call_withTx_steps: "tx_steps m \<Longrightarrow> ledger_call (withTx m)"
  by (rule call_withTx)

lemma call_appendEvent [calls]: "\<not> level_event (en_Type e) \<Longrightarrow> ledger_call (appendEvent sv e)"
  unfolding appendEvent_def by (rule call_stmt) (auto intro: ledger_step.note_event)

lemma call_if [calls]:
  "(b \<Longrightarrow> ledger_call m) \<Longrightarrow> (\<not> b \<Longrightarrow> ledger_call n) \<Longrightarrow> ledger_call (if b then m else n)"
  by simp

lemma call_option [calls]:
  "ledger_call m \<Longrightarrow> (\<And>x. ledger_call (n x)) \<Longrightarrow> ledger_call (case v of None \<Rightarrow> m | Some x \<Rightarrow> n x)"
  by (simp split: option.split)

lemma call_prod [calls]: "(\<And>x y. ledger_call (n x y)) \<Longrightarrow> ledger_call (case v of (x, y) \<Rightarrow> n x y)"
  by (simp split: prod.split)

lemma call_locked_read [calls]: "ledger_call (lstmt (\<lambda>db. (Inr (g db), db)))"
  by (rule call_stmt) simp

lemma call_readLevel [calls]: "ledger_call (readLevel sv f c)"
  unfolding readLevel_def by (rule calls)

lemma call_readProposal [calls]: "ledger_call (readProposal sv i upd)"
  unfolding readProposal_def by (intro calls)

lemma call_Reject [calls]: "ledger_call (Reject sv i actor remark)"
proof -
  have "tx_steps (lbind (lstmt (sql_decideProposal s i StatusRejected actor remark now))
      (\<lambda>_. lstmt (sql_appendEvent s e)))" if "\<not> level_event (en_Type e)" for s e now
    by (intro tx_steps_bind tx_steps_stmt stmt_decideProposal stmt_appendEvent,
        rule ledger_step.decide [rotated 2], assumption, simp, simp, rule ledger_step.note_event [OF that])
  note body = this
  show ?thesis
    unfolding Reject_def appendEvent_def
    by (intro calls call_withTx_steps body) (simp add: level_event_def ledger_entry_def)
qed

subsection \<open>Approval\<close>

lemma lbind_laws:
  "lbind (lreturn a) f = f a" "lbind (lfail e) f = lfail e"
  "lbind (lbind m f) g = lbind m (\<lambda>a. lbind (f a) g)"
  by (auto simp: lbind_def lreturn_def lfail_def fun_eq_iff split: prod.split sum.split)

text \<open>A call made after the tables had a property that steps keep.\<close>

definition call_from :: "(ledger_db \<Rightarrow> bool) \<Rightarrow> 'a led \<Rightarrow> bool" where
  "call_from K m \<longleftrightarrow> (\<forall>w r w'. open_ledger w \<longrightarrow> gw_tx w = None \<longrightarrow> (\<exists>d0. K d0 \<and> grows d0 (gw_db w)) \<longrightarrow>
     m w = (r, w') \<longrightarrow> ledger_steps (gw_db w) (gw_db w') \<and> open_ledger w' \<and> gw_tx w' = None)"

lemma call_from_call: "ledger_call m \<Longrightarrow> call_from K m"
  unfolding call_from_def using ledger_call.call by blast

lemma call_from_weaken: "call_from K m \<Longrightarrow> (\<And>d. L d \<Longrightarrow> K d) \<Longrightarrow> call_from L m"
  unfolding call_from_def by blast

lemma call_from_read:
  assumes "\<And>a. call_from (\<lambda>d. g d = a) (f a)"
  shows "ledger_call (lbind (lread g) f)"
proof
  fix w r w'
  assume o: "open_ledger w" "gw_tx w = None" and b: "lbind (lread g) f w = (r, w')"
  obtain x w1 where x: "lread g w = (x, w1)" by fastforce
  note s = ledger_call.call [OF call_read o x]
  show "ledger_steps (gw_db w) (gw_db w') \<and> open_ledger w' \<and> gw_tx w' = None"
  proof (cases x)
    case (Inl e)
    with b x s show ?thesis by (simp add: lbind_def)
  next
    case (Inr a)
    with x have a: "g (gw_db w1) = a" using s o
      by (auto simp: lread_def split: option.splits fault.splits prod.splits dest: tick_steps [OF o(1)])
    from b x Inr have "f a w1 = (r, w')" by (simp add: lbind_def)
    with assms [of a] s a grows_refl have "ledger_steps (gw_db w1) (gw_db w') \<and> open_ledger w' \<and> gw_tx w' = None"
      unfolding call_from_def by blast
    with s show ?thesis by auto
  qed
qed

lemma call_from_bind:
  assumes "ledger_call m" "\<And>w w' a. m w = (Inr a, w') \<Longrightarrow> Q a" "\<And>a. Q a \<Longrightarrow> call_from K (f a)"
  shows "call_from K (lbind m f)"
proof (unfold call_from_def, intro allI impI)
  fix w r w'
  assume o: "open_ledger w" "gw_tx w = None" and k: "\<exists>d0. K d0 \<and> grows d0 (gw_db w)"
    and b: "lbind m f w = (r, w')"
  obtain x w1 where x: "m w = (x, w1)" by fastforce
  note s = ledger_call.call [OF assms(1) o x]
  show "ledger_steps (gw_db w) (gw_db w') \<and> open_ledger w' \<and> gw_tx w' = None"
  proof (cases x)
    case (Inl e)
    with b x s show ?thesis by (simp add: lbind_def)
  next
    case (Inr a)
    with x assms(2) have "Q a" by blast
    note f = assms(3) [OF this]
    have "\<exists>d0. K d0 \<and> grows d0 (gw_db w1)" using k s ledger_steps_grow grows_trans by blast
    moreover from b x Inr have "f a w1 = (r, w')" by (simp add: lbind_def)
    ultimately have "ledger_steps (gw_db w1) (gw_db w') \<and> open_ledger w' \<and> gw_tx w' = None"
      using f s unfolding call_from_def by blast
    with s show ?thesis by auto
  qed
qed

lemma call_from_withTx:
  assumes "tx_body m P" "\<And>d0 d a d'. K d0 \<Longrightarrow> grows d0 d \<Longrightarrow> P d a d' \<Longrightarrow> ledger_steps d d'"
  shows "call_from K (withTx m)"
proof (unfold call_from_def, intro allI impI)
  fix w r w'
  assume o: "open_ledger w" "gw_tx w = None" and k: "\<exists>d0. K d0 \<and> grows d0 (gw_db w)"
    and b: "withTx m w = (r, w')"
  from k obtain d0 where k: "K d0" "grows d0 (gw_db w)" by blast
  have "ledger_steps (gw_db w) (gw_db w')"
    if "ledger_steps (gw_db w) db" "P db a (gw_db w')" for db a
  proof -
    have "grows d0 db" using k(2) ledger_steps_grow [OF that(1)] by (rule grows_trans)
    from assms(2) [OF k(1) this that(2)] that(1) show ?thesis by (rule rtranclp_trans [rotated])
  qed
  note c = this
  show "ledger_steps (gw_db w) (gw_db w') \<and> open_ledger w' \<and> gw_tx w' = None"
    using withTx_cases [OF assms(1) o b] by (auto intro: c)
qed

lemma call_from_invalidate:
  assumes "call_from K m"
  shows "call_from K (linvalidate m)"
proof (unfold call_from_def, intro allI impI)
  fix w r w'
  assume w: "open_ledger w" "gw_tx w = None" "\<exists>d0. K d0 \<and> grows d0 (gw_db w)" and b: "linvalidate m w = (r, w')"
  obtain x w1 where x: "m w = (x, w1)" by fastforce
  with b have "w' = invalidate w1" by (simp add: linvalidate_def)
  moreover have "ledger_steps (gw_db w) (gw_db w1) \<and> open_ledger w1 \<and> gw_tx w1 = None"
    using assms w x unfolding call_from_def by blast
  ultimately show "ledger_steps (gw_db w) (gw_db w') \<and> open_ledger w' \<and> gw_tx w' = None"
    by (simp add: invalidate_def)
qed

lemma call_update_step: "(\<And>d a d'. f d = (a, d') \<Longrightarrow> ledger_step d d') \<Longrightarrow> ledger_call (lupdate f)"
  by (rule call_update) auto

lemma call_expire [calls]: "ledger_call (expire sv)"
  unfolding expire_def
  by (intro calls call_update_step, erule ledger_step.expire) (simp add: level_event_def ledger_entry_def)

lemma call_Evidence_of [calls]: "ledger_call (Evidence_of sv f c)"
  unfolding Evidence_of_def Let_def by (intro calls)

lemma call_checkDecidable [calls]: "ledger_call (checkDecidable sv p)"
  unfolding checkDecidable_def by (intro calls)

lemma checkDecidable_ok:
  assumes "checkDecidable sv p w = (Inr (), w')"
  shows "pp_Status p = StatusPending \<and> pp_To p \<le> CapForPair (pp_Family p) (pp_Class p) \<and>
    Grantable (pp_To p) \<and> Applicable (pp_Family p) (pp_Class p) \<and> gw_now w < pp_ExpiresAt p \<and> w' = w"
  using assms
  by (auto simp: checkDecidable_def lfail_def lreturn_def lbind_def lnow_def split: if_splits sum.splits prod.splits)

text \<open>The committed approval: the proposal is the one checked before, still waiting, and the level of
  the pair is still the one it starts from.\<close>

lemma promote_commit:
  assumes human: "humanActor approver" and p: "sql_readProposal s i before = Some p"
    and ok: "pp_To p \<le> CapForPair (pp_Family p) (pp_Class p)" "Grantable (pp_To p)"
      "Applicable (pp_Family p) (pp_Class p)"
    and g: "grows before d" and locked: "sql_readProposal s i d = Some q" "pp_Status q = StatusPending"
    and cur: "grows seen d" "current = stored_level (ps_scope s) (pp_Family p) (pp_Class p) seen"
      "level_or (defaultLevel (pp_Family p)) current = pp_From p"
    and w: "sql_writeLevel s ch d = (Inr st, d1)" "ch_Family ch = pp_Family p" "ch_Class ch = pp_Class p"
      "ch_To ch = pp_To p" "ch_ExpectVersion ch = version_of current"
    and dec: "sql_decideProposal s i StatusApproved approver remark now d1 = (Inr (), d2)"
    and ev: "sql_appendEvent s e d2 = (Inr (), d3)"
      "tells e EventPromotionApproved (pp_Family p) (pp_Class p) (pp_To p)" "en_Actor e = approver"
  shows "ledger_steps d d3"
proof -
  from g p obtain q' where "sql_readProposal s i d = Some q'" "same_proposal p q'"
    unfolding grows_def proposals_stay_def by blast
  with locked(1) have q: "same_proposal p q" by simp
  have "stored_level (ps_scope s) (pp_Family p) (pp_Class p) d = current"
    using compare_and_set [OF cur(1) w(1)] w(2,3,5) cur(2) by simp
  with cur(3) have "pp_From p = level_at (ps_scope s) (pp_Family p) (pp_Class p) d"
    by (simp add: level_at_def)
  with q ok locked have "approvable s i q d" by (simp add: approvable_def same_proposal_def)
  with q have "ledger_step d d3"
    using ledger_step.promote [OF human _ w(1) _ _ _ dec ev(1)] w(2-4) ev(2,3) by (simp add: same_proposal_def)
  then show ?thesis by (rule r_into_rtranclp)
qed

lemma call_applyApproval:
  assumes "humanActor approver" "pp_To p \<le> CapForPair (pp_Family p) (pp_Class p)" "Grantable (pp_To p)"
    "Applicable (pp_Family p) (pp_Class p)"
  shows "call_from (\<lambda>d. sql_readProposal (sv_store sv) (pp_ID p) d = Some p)
    (applyApproval sv p approver remark ev a)"
  unfolding applyApproval_def
  apply (rule call_from_bind [where Q = "\<lambda>_. True"])
    apply (rule call_now)
   apply simp
  apply (rule call_from_invalidate)
  apply (rule call_from_withTx)
   apply (unfold approval_tx_def readProposal_def readLevel_def appendEvent_def if_True)
   apply (rule tx)+
  apply (elim exE conjE disjE; simp)
  apply (simp split: option.splits)
  subgoal for now before d r d' q dq row current dc seen st d1 d2 d3
    by (rule promote_commit [where current = current and seen = seen and before = before and q = q and st = st and
          remark = remark and now = now, OF assms(1) _ assms(2-4)])
      (auto simp: sql_readLevel_def tells_def ledger_entry_def)
  done

lemma readProposal_id: "sql_readProposal s i d = Some p \<Longrightarrow> pp_ID p = i"
  by (auto simp: sql_readProposal_def dest!: find_in_set)

lemma call_Approve [calls]: "ledger_call (Approve sv i approver remark)"
proof (cases "humanActor approver \<and> uuidPattern i")
  case False
  then show ?thesis
    by (auto simp: Approve_def readProposal_def lbind_laws intro!: calls)
next
  case True
  let ?rest = "\<lambda>p. lbind (checkDecidable sv p) (\<lambda>_. lbind (Evidence_of sv (pp_Family p) (pp_Class p)) (\<lambda>ev.
      let a = Assess (lc_Thresholds (sv_cfg sv)) (pp_To p) ev
      in if \<not> as_Met a then lfail (EvidenceNotMetError a) else applyApproval sv p approver remark ev a))"
  have "call_from (\<lambda>d. sql_readProposal (sv_store sv) (pp_ID p) d = Some p) (?rest p)" for p
  proof (rule call_from_bind)
    show "ledger_call (checkDecidable sv p)" by (rule calls)
    show "pp_To p \<le> CapForPair (pp_Family p) (pp_Class p) \<and> Grantable (pp_To p) \<and>
        Applicable (pp_Family p) (pp_Class p)" if "checkDecidable sv p w = (Inr a, w')" for w w' a
      using checkDecidable_ok [of sv p w w'] that by simp
    show "call_from (\<lambda>d. sql_readProposal (sv_store sv) (pp_ID p) d = Some p)
        (lbind (Evidence_of sv (pp_Family p) (pp_Class p)) (\<lambda>ev.
          let a = Assess (lc_Thresholds (sv_cfg sv)) (pp_To p) ev
          in if \<not> as_Met a then lfail (EvidenceNotMetError a) else applyApproval sv p approver remark ev a))"
      if "pp_To p \<le> CapForPair (pp_Family p) (pp_Class p) \<and> Grantable (pp_To p) \<and>
        Applicable (pp_Family p) (pp_Class p)"
      by (rule call_from_bind [where Q = "\<lambda>_. True"], rule calls)
        (simp_all add: Let_def call_from_call [OF call_fail] call_applyApproval True that)
  qed
  note r = this
  have "call_from (\<lambda>d. sql_readProposal (sv_store sv) i d = v)
      (case v of None \<Rightarrow> lfail (ErrNotFound i) | Some p \<Rightarrow> ?rest p)" for v
  proof (cases v)
    case None
    then show ?thesis by (simp add: call_from_call [OF call_fail])
  next
    case (Some p)
    have "call_from (\<lambda>d. sql_readProposal (sv_store sv) i d = Some p) (?rest p)"
      by (rule call_from_weaken [OF r [of p]]) (simp add: readProposal_id)
    with Some show ?thesis by simp
  qed
  note rest = this
  have "ledger_call (lbind (lread (sql_readProposal (sv_store sv) i))
      (\<lambda>v. case v of None \<Rightarrow> lfail (ErrNotFound i) | Some p \<Rightarrow> ?rest p))"
    by (rule call_from_read [OF rest])
  moreover have "lbind (case v of None \<Rightarrow> lfail e | Some p \<Rightarrow> lreturn p) f =
      (case v of None \<Rightarrow> lfail e | Some p \<Rightarrow> f p)" for v e and f :: "Proposal \<Rightarrow> State led"
    by (cases v) (simp_all add: lbind_laws)
  ultimately show ?thesis
    using True by (simp add: Approve_def readProposal_def lbind_laws(3) call_fail)
qed

subsection \<open>The remaining calls\<close>

lemma call_granted_within [calls]: "ledger_call (granted_within n sv f c)"
proof (induction n arbitrary: f c)
  case (Suc n)
  then show ?case unfolding granted_within.simps boundByComponents_def by (intro calls)
qed (simp add: call_fail)

lemma call_Granted [calls]: "ledger_call (Granted sv f c)"
  unfolding Granted_def by (rule calls)

lemma call_createProposal [calls]:
  assumes "target \<le> CapForPair (st_Family st) (st_Class st)"
  shows "ledger_call (createProposal sv st target ev a)"
  unfolding createProposal_def Let_def
  apply (intro calls call_stmt)
   apply (rule r_into_rtranclp, rule ledger_step.propose [rotated], assumption)
   apply (simp add: assms)
  apply (simp add: level_event_def ledger_entry_def)
  done

text \<open>Levels read for a pair carry the pair.\<close>

lemma boundByComponents_key:
  "boundByComponents G st found w = (Inr st', w') \<Longrightarrow> st_Family st' = st_Family st \<and> st_Class st' = st_Class st"
  by (auto simp: boundByComponents_def lbind_def lreturn_def composedLevel_def Let_def
      split: sum.splits prod.splits list.splits)

lemma readLevel_key: "sql_readLevel s f c d = Some st \<Longrightarrow> st_Family st = f \<and> st_Class st = c"
  unfolding sql_readLevel_def by (rule stored_level_key)

lemma lread_key:
  "lread g w = (Inr a, w') \<Longrightarrow> \<exists>d. a = g d"
  by (auto simp: lread_def split: option.splits fault.splits prod.splits)

lemma granted_key:
  assumes "granted_within n sv f c w = (Inr st, w')"
  shows "st_Family st = f \<and> st_Class st = c"
proof (cases n)
  case (Suc m)
  with assms obtain row w1 where r: "readLevel sv f c w = (Inr row, w1)"
    and b: "boundByComponents (granted_within m sv) (case row of Some st \<Rightarrow> st | None \<Rightarrow> defaultState f c)
      (row \<noteq> None) w1 = (Inr st, w')"
    by (auto simp: lbind_def split: sum.splits prod.splits)
  from lread_key [OF r [unfolded readLevel_def]] obtain d where "row = sql_readLevel (sv_store sv) f c d" by blast
  then have "st_Family (case row of Some st \<Rightarrow> st | None \<Rightarrow> defaultState f c) = f \<and>
      st_Class (case row of Some st \<Rightarrow> st | None \<Rightarrow> defaultState f c) = c"
    using readLevel_key [of "sv_store sv" f c d]
    by (auto simp: defaultState_def State0_def split: option.split)
  with boundByComponents_key [OF b] show ?thesis by simp
qed (use assms in \<open>simp add: lfail_def\<close>)

lemma call_bind_ok:
  assumes "ledger_call m" "\<And>w w' a. m w = (Inr a, w') \<Longrightarrow> Q a" "\<And>a. Q a \<Longrightarrow> ledger_call (f a)"
  shows "ledger_call (lbind m f)"
proof
  fix w r w'
  assume w: "open_ledger w" "gw_tx w = None" "lbind m f w = (r, w')"
  have "call_from (\<lambda>_. True) (lbind m f)"
    by (rule call_from_bind [where Q = Q, OF assms(1,2)]) (auto intro: call_from_call assms(3))
  with w show "ledger_steps (gw_db w) (gw_db w') \<and> open_ledger w' \<and> gw_tx w' = None"
    unfolding call_from_def using grows_refl by blast
qed

lemma call_evaluateOne [calls]: "ledger_call (evaluateOne sv waiting e pair)"
proof (cases pair)
  case (Pair f c)
  show ?thesis unfolding evaluateOne_def Pair prod.case
    apply (rule call_bind_ok [where Q = "\<lambda>st. st_Family st = f \<and> st_Class st = c"])
      apply (rule calls)
    subgoal unfolding Granted_def by (rule granted_key)
    unfolding Let_def add_np_def
    by (intro calls) auto
qed

lemma call_listProposals [calls]: "ledger_call (listProposals sv status limit)"
  unfolding listProposals_def by (rule calls)

lemma call_Evaluate [calls]: "ledger_call (Evaluate sv)"
  unfolding Evaluate_def Let_def by (intro calls)

lemma call_Downgrade [calls]: "ledger_call (Service_Downgrade sv r)"
  unfolding Service_Downgrade_def Let_def by (intro calls) simp

lemma call_recordOutcome [calls]: "ledger_call (recordOutcomeDemoting sv o')"
  unfolding recordOutcomeDemoting_def insertOutcome_def demoteForDemerit_def demoteFamily_def Let_def
  by (intro calls call_stmt) (auto intro: ledger_step.outcome)

lemma call_RecordReview [calls]: "ledger_call (RecordReview sv r)"
  unfolding RecordReview_def by (intro calls call_update_step) (auto intro: ledger_step.review)

lemma call_SeedCarriedOver [calls]: "ledger_call (SeedCarriedOver sv database bound)"
  unfolding SeedCarriedOver_def Let_def by (intro calls) (simp add: CarriedLevel_range)

lemma call_insertEvalRun [calls]: "ledger_call (insertEvalRun sv run)"
  unfolding insertEvalRun_def
  by (intro calls call_update_step) (auto intro: ledger_step.report ledger_step.mark_signed)

lemma call_IngestBench [calls]: "ledger_call (IngestBench parse sv raw b)"
  unfolding IngestBench_def by (intro calls)

lemma call_IngestEvalRun [calls]: "ledger_call (IngestEvalRun parse sv raw source actor database)"
  unfolding IngestEvalRun_def by (intro calls)

subsection \<open>The limiter\<close>

lemma call_supportedLevel [calls]: "ledger_call (supportedLevel sv f c)"
proof
  fix w r w'
  assume o: "open_ledger w" "gw_tx w = None" and b: "supportedLevel sv f c w = (r, w')"
  obtain x w1 where x: "Evidence_of sv f c w = (x, w1)" by fastforce
  note s = ledger_call.call [OF call_Evidence_of o x]
  have "w' = w \<or> w' = w1 \<or> (\<exists>k. w' = w1\<lparr>gw_cache := k\<rparr>)"
    using b x by (auto simp: supportedLevel_def lbind_def Let_def split: if_splits option.splits sum.splits)
  with o s show "ledger_steps (gw_db w) (gw_db w') \<and> open_ledger w' \<and> gw_tx w' = None" by auto
qed

text \<open>State functions of the limiter.\<close>

definition quiet :: "(ledger_world \<Rightarrow> 'a \<times> ledger_world) \<Rightarrow> bool" where
  "quiet m \<longleftrightarrow> (\<forall>w. open_ledger w \<longrightarrow> gw_tx w = None \<longrightarrow>
     ledger_steps (gw_db w) (gw_db (snd (m w))) \<and> open_ledger (snd (m w)) \<and> gw_tx (snd (m w)) = None)"

lemma quiet_call: "ledger_call m \<Longrightarrow> quiet m"
  unfolding quiet_def using ledger_call.reaches ledger_call.keeps_open by blast

lemma quietD:
  assumes "quiet m" "open_ledger w" "gw_tx w = None" "m w = (a, w')"
  shows "ledger_steps (gw_db w) (gw_db w') \<and> open_ledger w' \<and> gw_tx w' = None"
  using assms(1) [unfolded quiet_def, rule_format, OF assms(2,3)] assms(4) by simp

lemma quiet_safety: "quiet (safety l f)"
  unfolding quiet_def safety_def
  by (auto split: prod.split sum.split dest: quietD [OF quiet_call [OF call_read]])

lemma quiet_requestDowngrades: "quiet (requestDowngrades l req f)"
proof (unfold quiet_def, intro allI impI)
  fix w
  assume o: "open_ledger w" "gw_tx w = None"
  have "snd (requestDowngrades l req f w) = w \<or> snd (requestDowngrades l req f w) = snd (safety l f w)"
    by (simp add: requestDowngrades_def databaseDowngrades_def Let_def split: prod.split)
  moreover note quiet_safety [unfolded quiet_def, rule_format, OF o, of l f]
  ultimately show "ledger_steps (gw_db w) (gw_db (snd (requestDowngrades l req f w))) \<and>
      open_ledger (snd (requestDowngrades l req f w)) \<and> gw_tx (snd (requestDowngrades l req f w)) = None"
    using o by auto
qed

lemma noteTransition_steps:
  assumes "open_ledger w" "gw_tx w = None"
  shows "ledger_steps (gw_db w) (gw_db (noteTransition l f c downs w)) \<and>
    open_ledger (noteTransition l f c downs w) \<and> gw_tx (noteTransition l f c downs w) = None"
proof -
  have "ledger_call (appendEvent (lm_svc l) (ledger_entry f c k a r n\<lparr>en_Evidence := v\<rparr>))"
    if "k \<in> {EventCapCleared, EventCapped}" for k a r n v
    by (rule call_appendEvent) (use that in \<open>auto simp: level_event_def ledger_entry_def\<close>)
  note q = quietD [OF quiet_call [OF this] assms]
  show ?thesis
    unfolding noteTransition_def Let_def
    using assms by (auto split: prod.split sum.split dest: q [rotated])
qed

lemma call_Limit [calls]: "ledger_call (Limit l req)"
proof -
  have "ledger_call (\<lambda>w. case requestDowngrades l req f w of (downs, w) \<Rightarrow>
      let w = noteTransition l f c downs w in (Inr (g downs), w))" for f c and g :: "Downgrade list \<Rightarrow> AutonomyLimit"
  proof
    fix w r w'
    assume o: "open_ledger w" "gw_tx w = None" and b: "(case requestDowngrades l req f w of (downs, w) \<Rightarrow>
      let w = noteTransition l f c downs w in (Inr (g downs), w)) = (r, w')"
    obtain downs w1 where d: "requestDowngrades l req f w = (downs, w1)" by fastforce
    note s = quietD [OF quiet_requestDowngrades o d]
    from b d have "w' = noteTransition l f c downs w1" by (simp add: Let_def)
    with noteTransition_steps [of w1 l f c downs] s
    show "ledger_steps (gw_db w) (gw_db w') \<and> open_ledger w' \<and> gw_tx w' = None" by auto
  qed
  note tail = this
  show ?thesis unfolding Limit_def Let_def
    by (intro calls) (rule tail [unfolded Let_def])
qed

lemma call_appendOverride [calls]: "ledger_call (appendOverride l f c req dl d)"
  unfolding appendOverride_def by (intro calls) (simp add: level_event_def ledger_entry_def)

lemma override_steps:
  assumes "open_ledger w" "gw_tx w = None"
  shows "ledger_steps (gw_db w) (gw_db (RecordDeadlineOverride l req d w)) \<and>
    open_ledger (RecordDeadlineOverride l req d w) \<and> gw_tx (RecordDeadlineOverride l req d w) = None"
proof (cases "r_Deadline req")
  case (Some dl)
  let ?f = "TrimSpace (r_IncidentFamily req)" and ?c = "ClassFor req"
  obtain k b w1 where cl: "claimOverride ?f ?c req dl w = ((k, b), w1)" by (metis prod.exhaust)
  then obtain v where w1: "w1 = w\<lparr>gw_overrides := v\<rparr>"
    by (auto simp: claimOverride_def Let_def split: if_splits)
  with assms have o: "open_ledger w1" "gw_tx w1 = None" by simp_all
  note q = quiet_call [OF call_appendOverride, unfolded quiet_def, rule_format, OF o, of l ?f ?c req dl d]
  show ?thesis
    unfolding RecordDeadlineOverride_def Some option.case Let_def cl
    using q o w1 by (cases b) (auto split: prod.split sum.split)
qed (use assms in \<open>simp add: RecordDeadlineOverride_def\<close>)

end
