(* ===== verification/Ledger_Example.thy ===== *)
theory Ledger_Example
  imports Limiter
begin

text \<open>
  A database's ledger for the examples: three index creations were verified, enough time was observed,
  and a promotion of the pair from L1 to L2 is waiting.
\<close>

definition ex_thresholds :: Thresholds where
  "ex_thresholds = \<lparr>th_BenchMaxAge = 720 * hour, th_MinTop1 = Finite 1, th_MinTop1N = 10,
     th_MinPrecision = Finite 1, th_MinSafePass = Finite 1, th_MinSafePassN = 10,
     th_ShadowDuration = 720 * hour, th_ShadowMinReviewed = 20, th_ShadowMinAccepted = Finite 1,
     th_MinL2Recoveries = 50, th_GameDayMinSafePass = Finite 1, th_ClassMinSuccessesL2 = 3,
     th_ClassMinSuccessesL3 = 10, th_ClassMinSuccessRate = Finite 1\<rparr>"

definition ex_service :: Service where
  "ex_service = \<lparr>
     sv_store = \<lparr>ps_deployment = ''dep'', ps_database = ''app'', ps_build = \<lparr>bu_Version = [], bu_Commit = []\<rparr>\<rparr>,
     sv_cfg = \<lparr>lc_Thresholds = ex_thresholds, lc_ProposalTTL = 168 * hour, lc_MaxEvidenceAge = 5 * minute,
       lc_ConcurrencyWindow = 15 * minute, lc_SafetyWindow = 720 * hour, lc_FailoverCooldown = 30 * minute,
       lc_EvidenceCacheTTL = minute, lc_Build = \<lparr>bu_Version = [], bu_Commit = []\<rparr>\<rparr>,
     sv_ramp = Some \<lparr>rf_Start = 1, rf_Safe = hour, rf_Moderate = hour\<rparr>\<rparr>"

definition ex_scope :: scope where "ex_scope = (''dep'', ''app'')"

definition ex_instant :: instant where "ex_instant = 1000000 * hour"

definition ex_outcome :: "int \<Rightarrow> Outcome" where
  "ex_outcome n = \<lparr>oc_Database = ''app'', oc_ActionLogID = n, oc_Family = FamilyTuning,
     oc_Class = ClassIndexCreate, oc_Level = 1, oc_Result = ResultVerifiedRecovery,
     oc_Source = SourceExecutor, oc_Actor = ''pg_sage'', oc_Detail = [], oc_At = ex_instant - n,
     oc_Verdict = ''improved'', oc_ObservedAt = None, oc_QueueID = 0\<rparr>"

definition ex_id :: string where "ex_id = ''00000000-0000-4000-8000-000000000001''"

definition ex_proposal :: Proposal where
  "ex_proposal = \<lparr>pp_ID = ex_id, pp_Family = FamilyTuning, pp_Class = ClassIndexCreate, pp_From = 1, pp_To = 2,
     pp_Evidence = RawEmpty, pp_Status = StatusPending, pp_ProposedAt = ex_instant - 1,
     pp_ExpiresAt = ex_instant + hour, pp_DecidedBy = [], pp_DecidedAt = None, pp_Note = []\<rparr>"

definition ex_tables :: ledger_db where
  "ex_tables = ledger_db0\<lparr>lg_proposals := [(ex_scope, ex_proposal)],
     lg_outcomes := map (\<lambda>n. (ex_scope, ex_outcome n)) [1, 2, 3]\<rparr>"

definition ex_ledger_world :: "ledger_db \<Rightarrow> ledger_world" where
  "ex_ledger_world d = \<lparr>gw_db = d, gw_tx = None, gw_now = ex_instant, gw_script = [], gw_rand = [],
     gw_cache = [], gw_last = [], gw_overrides = []\<rparr>"

text \<open>The same pair at L3, with the entries that tell it, and one waiting nowhere.\<close>

definition ex_row :: "Level \<Rightarrow> State" where
  "ex_row level = \<lparr>st_Family = FamilyTuning, st_Class = ClassIndexCreate, st_Level = level, st_Version = 2,
     st_Evidence = RawEmpty, st_ChangedBy = ''user:1'', st_Reason = ''approved'', st_ChangedAt = 1,
     st_Stored = True, st_Provenance = ProvenanceLedger, st_CarriedRef = []\<rparr>"

definition ex_trusted :: "Level \<Rightarrow> ledger_db" where
  "ex_trusted level = ledger_db0\<lparr>lg_levels := [(ex_scope, ex_row level)],
     lg_events := [(ex_scope, (ledger_entry FamilyTuning ClassIndexCreate EventPromotionApproved ''user:1''
       ''approved'' 1)\<lparr>en_To := Some level\<rparr>)]\<rparr>"

definition ex_demerit :: Outcome where
  "ex_demerit = (ex_outcome 9)\<lparr>oc_Result := ResultHarmful, oc_Verdict := CauseRegressed\<rparr>"

definition ex_binding :: Binding where
  "ex_binding = \<lparr>bd_Database = ''app'', bd_Budget = None,
     bd_HA = Some (\<lambda>_. Inr \<lparr>ha_Role = RolePrimary, ha_SafeMode = False, ha_LastRoleChange = 0\<rparr>),
     bd_Concurrency = None\<rparr>"

definition ex_ledger_limiter :: Limiter where
  "ex_ledger_limiter = \<lparr>lm_svc = ex_service, lm_b = ex_binding\<rparr>"

definition ex_self_request :: ActionRequest where
  "ex_self_request = ActionRequest0\<lparr>
     r_Contract := Some (ActionContract0\<lparr>c_ActionType := ''create_index_concurrently'',
       c_RiskTier := RiskModerate, c_RollbackClass := RollbackReversible\<rparr>),
     r_Feature := ChangeIndex, r_TargetObjs := [''public.orders'']\<rparr>"

end
