(* ===== verification/Ledger_Props.thy ===== *)
theory Ledger_Props
  imports Ledger_Calls Ledger_Example
begin

text \<open>
  What the ledger keeps, whatever its callers ask and in whatever order their statements interleave:
  well-formed tables, a history that replays to the stored levels, and levels that rise only by the
  approvals of people. The state machine of theory Ledger_Steps carries the invariants, and the
  interpretations of the locale of calls carry them to the operations.
\<close>

subsection \<open>Requests\<close>

text \<open>Every operation of the service and of a limiter, as one request.\<close>

datatype ledger_request =
    DoEvaluate
  | DoApprove string string string
  | DoReject string string string
  | DoDowngrade DowngradeRequest
  | DoRecordOutcome Outcome
  | DoRecordReview Review
  | DoSeedCarriedOver string RuntimeState
  | DoSeedGrandfathered string RuntimeState
  | DoAdoptLegacy
  | DoIngest string string string string
  | DoPendingProposals
  | DoLimit Binding ActionRequest
  | DoOverride Binding ActionRequest Decision

fun serve ::
    "(string \<Rightarrow> instant \<Rightarrow> ledger_error + EvalRun) \<Rightarrow> Service \<Rightarrow> ledger_request \<Rightarrow> ledger_world \<Rightarrow>
     ledger_world" where
  "serve parse sv DoEvaluate w = snd (Evaluate sv w)"
| "serve parse sv (DoApprove i approver remark) w = snd (Approve sv i approver remark w)"
| "serve parse sv (DoReject i actor remark) w = snd (Reject sv i actor remark w)"
| "serve parse sv (DoDowngrade r) w = snd (Service_Downgrade sv r w)"
| "serve parse sv (DoRecordOutcome oc) w = snd (RecordOutcome sv oc w)"
| "serve parse sv (DoRecordReview rv) w = snd (RecordReview sv rv w)"
| "serve parse sv (DoSeedCarriedOver db bound) w = snd (SeedCarriedOver sv db bound w)"
| "serve parse sv (DoSeedGrandfathered db bound) w = snd (SeedGrandfathered sv db bound w)"
| "serve parse sv DoAdoptLegacy w = snd (AdoptLegacy sv w)"
| "serve parse sv (DoIngest raw source actor db) w = snd (IngestEvalRun parse sv raw source actor db w)"
| "serve parse sv DoPendingProposals w = snd (PendingProposals sv w)"
| "serve parse sv (DoLimit b req) w = snd (Limit \<lparr>lm_svc = sv, lm_b = b\<rparr> req w)"
| "serve parse sv (DoOverride b req d) w = RecordDeadlineOverride \<lparr>lm_svc = sv, lm_b = b\<rparr> req d w"

text \<open>Requests one after another, each to a service of its own database.\<close>

definition serve_all ::
    "(string \<Rightarrow> instant \<Rightarrow> ledger_error + EvalRun) \<Rightarrow> (Service \<times> ledger_request) list \<Rightarrow> ledger_world \<Rightarrow>
     ledger_world" where
  "serve_all parse rqs w = foldl (\<lambda>w (sv, rq). serve parse sv rq w) w rqs"

interpretation evaluating: ledger_call "Evaluate sv" for sv by (rule calls)
interpretation approving: ledger_call "Approve sv i approver remark" for sv i approver remark by (rule calls)
interpretation rejecting: ledger_call "Reject sv i actor remark" for sv i actor remark by (rule calls)
interpretation downgrading: ledger_call "Service_Downgrade sv r" for sv r by (rule calls)
interpretation recording: ledger_call "RecordOutcome sv oc" for sv oc
  unfolding RecordOutcome_def recordOutcome_def by (intro calls)
interpretation reviewing: ledger_call "RecordReview sv rv" for sv rv by (rule calls)
interpretation carrying: ledger_call "SeedCarriedOver sv db bound" for sv db bound by (rule calls)
interpretation grandfathering: ledger_call "SeedGrandfathered sv db bound" for sv db bound by (rule calls)
interpretation adopting: ledger_call "AdoptLegacy sv" for sv by (rule calls)
interpretation ingesting: ledger_call "IngestEvalRun parse sv raw source actor db" for parse sv raw source actor db
  by (rule calls)
interpretation pending: ledger_call "PendingProposals sv" for sv
  unfolding PendingProposals_def by (intro calls)
interpretation limiting: ledger_call "Limit l req" for l req by (rule calls)

lemmas call_reaches = evaluating.reaches approving.reaches rejecting.reaches downgrading.reaches
  recording.reaches reviewing.reaches carrying.reaches grandfathering.reaches adopting.reaches
  ingesting.reaches pending.reaches limiting.reaches

lemmas call_keeps_open = evaluating.keeps_open approving.keeps_open rejecting.keeps_open
  downgrading.keeps_open recording.keeps_open reviewing.keeps_open carrying.keeps_open
  grandfathering.keeps_open adopting.keeps_open ingesting.keeps_open pending.keeps_open
  limiting.keeps_open

lemma serve_steps:
  assumes "open_ledger w" "gw_tx w = None"
  shows "ledger_steps (gw_db w) (gw_db (serve parse sv rq w)) \<and> open_ledger (serve parse sv rq w) \<and>
    gw_tx (serve parse sv rq w) = None"
  by (cases rq) (simp_all add: assms call_reaches call_keeps_open override_steps)

lemma serve_all_steps:
  assumes "open_ledger w" "gw_tx w = None"
  shows "ledger_steps (gw_db w) (gw_db (serve_all parse rqs w)) \<and> open_ledger (serve_all parse rqs w) \<and>
    gw_tx (serve_all parse rqs w) = None"
  using assms
proof (induction rqs arbitrary: w)
  case (Cons rq rqs)
  obtain sv q where rq: "rq = (sv, q)" by fastforce
  from serve_steps [OF Cons.prems, of parse sv q] Cons.IH [of "serve parse sv q w"]
  show ?case by (auto simp: serve_all_def rq)
qed (simp add: serve_all_def)

lemma serve_all_invariant:
  assumes "\<And>d d'. ledger_step d d' \<Longrightarrow> I d \<Longrightarrow> I d'" "open_ledger w" "gw_tx w = None" "I (gw_db w)"
  shows "I (gw_db (serve_all parse rqs w))"
  using serve_all_steps [OF assms(2,3), of parse rqs, THEN conjunct1] assms(4)
  by induction (auto intro: assms(1))

subsection \<open>What a step does to levels and history\<close>

lemma writeLevel_events [simp]: "lg_events (snd (sql_writeLevel s ch d)) = lg_events d"
  by (simp add: sql_writeLevel_def insert_level_def Let_def split: option.split)

lemma insert_level_events [simp]: "lg_events (snd (insert_level sc st d)) = lg_events d"
  by (simp add: insert_level_def)

lemma proposal_events [simp]:
  "lg_events (snd (sql_insertProposal s p d)) = lg_events d"
  "lg_events (snd (sql_decideProposal s i st a r t d)) = lg_events d"
  "lg_events (snd (sql_closePending s f c st a r t d)) = lg_events d"
  "lg_events (snd (sql_expireDue s t d)) = lg_events d"
  by (simp_all add: sql_insertProposal_def sql_decideProposal_def sql_closePending_def sql_expireDue_def Let_def)

lemma record_events [simp]:
  "lg_events (snd (sql_insertOutcome s oc d)) = lg_events d"
  "lg_events (snd (sql_upsertReview s rv d)) = lg_events d"
  "lg_events (snd (sql_insertEvalRun s run d)) = lg_events d"
  "lg_events (sql_markSigned s run d) = lg_events d"
  "lg_events (snd (sql_lockGrandfatherMarker s d)) = lg_events d"
  "lg_events (sql_markGrandfathered s t d) = lg_events d"
  by (simp_all add: sql_insertOutcome_def sql_upsertReview_def sql_insertEvalRun_def sql_markSigned_def
      sql_lockGrandfatherMarker_def sql_markGrandfathered_def Let_def split: option.split)

lemma appendEvent_ok:
  "sql_appendEvent s e d = (Inr (), d') \<Longrightarrow> d' = d\<lparr>lg_events := lg_events d @ [(ps_scope s, e)]\<rparr>"
  by (auto simp: sql_appendEvent_def split: if_splits)

lemma appendEvent_events:
  "sql_appendEvent s e d = (r, d') \<Longrightarrow> lg_events d' = lg_events d \<or> lg_events d' = lg_events d @ [(ps_scope s, e)]"
  by (auto simp: sql_appendEvent_def split: if_splits)

definition moved :: "scope \<Rightarrow> State \<Rightarrow> Event \<Rightarrow> ledger_db \<Rightarrow> ledger_db \<Rightarrow> bool" where
  "moved k st e d d' \<longleftrightarrow>
     (\<forall>sc f c. stored_level sc f c d' = (if sc = k \<and> f = st_Family st \<and> c = st_Class st then Some st
        else stored_level sc f c d)) \<and>
     lg_events d' = lg_events d @ [(k, e)] \<and> level_event (en_Type e) \<and> en_Family e = st_Family st \<and>
     en_Class e = st_Class st \<and> en_To e = Some (st_Level st)"

definition still :: "ledger_db \<Rightarrow> ledger_db \<Rightarrow> bool" where
  "still d d' \<longleftrightarrow> lg_levels d' = lg_levels d \<and>
     (lg_events d' = lg_events d \<or> (\<exists>k e. lg_events d' = lg_events d @ [(k, e)] \<and> \<not> level_event (en_Type e)))"

lemma movedI:
  assumes "sql_writeLevel s ch d = (Inr st, d1)" "lg_levels d2 = lg_levels d1" "lg_events d2 = lg_events d1"
    "sql_appendEvent s e d2 = (Inr (), d3)" "tells e kind (ch_Family ch) (ch_Class ch) (ch_To ch)" "level_event kind"
  shows "moved (ps_scope s) st e d d3"
proof -
  have st: "st_Family st = ch_Family ch" "st_Class st = ch_Class ch" "st_Level st = ch_To ch"
    using writeLevel_ok [OF assms(1)] by (simp_all add: written_def)
  have "stored_level sc f c d3 = stored_level sc f c d1" for sc f c
    using appendEvent_ok [OF assms(4)] assms(2) by (simp add: stored_level_def)
  moreover have "lg_events d1 = lg_events d" using writeLevel_events [of s ch d] assms(1) by simp
  ultimately show ?thesis
    using writeLevel_stored [OF assms(1)] appendEvent_ok [OF assms(4)] assms(3,5,6) st
    by (simp add: moved_def tells_def)
qed

lemma movedI_snoc:
  assumes "stored_level k (st_Family st) (st_Class st) d = None"
    "d1 = d\<lparr>lg_levels := lg_levels d @ [(k, st)]\<rparr>" "k = ps_scope s"
    "sql_appendEvent s e d1 = (Inr (), d2)" "tells e kind (st_Family st) (st_Class st) (st_Level st)" "level_event kind"
  shows "moved k st e d d2"
proof -
  have "stored_level sc f c d2 = stored_level sc f c d1" for sc f c
    using appendEvent_ok [OF assms(4)] by (simp add: stored_level_def)
  then show ?thesis
    using assms(1,5,6) appendEvent_ok [OF assms(4)] unfolding assms(2,3)
    by (auto simp: moved_def tells_def stored_level_snoc split: option.split)
qed

text \<open>The three ways a level moves: a person's approval of a waiting proposal, a lowering, and the first
  row of a pair.\<close>

lemma step_cases:
  assumes "ledger_step d d'"
  obtains (still) "still d d'"
  | (approved) s st e i p where "moved (ps_scope s) st e d d'" "en_Type e = EventPromotionApproved"
      "humanActor (en_Actor e)" "approvable s i p d" "st_Family st = pp_Family p" "st_Class st = pp_Class p"
      "st_Level st = pp_To p" "st_Provenance st = ProvenanceLedger"
  | (lowered) s st e where "moved (ps_scope s) st e d d'"
      "st_Level st < level_at (ps_scope s) (st_Family st) (st_Class st) d"
      "en_Type e \<in> {EventDowngraded, EventAutoDowngraded}"
  | (first) k st e where "moved k st e d d'" "stored_level k (st_Family st) (st_Class st) d = None"
      "en_Type e \<in> {EventCarriedOver, EventGrandfathered, EventDatabaseScoped}"
  using assms
proof (cases rule: ledger_step.cases)
  case (promote approver s i p ch st d1 remark now d2 e)
  have "lg_levels d2 = lg_levels d1" "lg_events d2 = lg_events d1"
    using decideProposal_levels [of s i StatusApproved approver remark now d1]
      proposal_events(2) [of s i StatusApproved approver remark now d1] promote(7) by simp_all
  from movedI [OF promote(3) this promote(8)] promote
  have "moved (ps_scope s) st e d d'" by (simp add: level_event_def)
  moreover have "st = written ch" using writeLevel_ok [OF promote(3)] by simp
  ultimately show thesis using promote approved [of s st e i p] by (simp add: written_def tells_def)
next
  case (lower ch s kind st d1 actor remark now ps d2 e)
  have "lg_levels d2 = lg_levels d1" "lg_events d2 = lg_events d1"
    using closePending_levels [of s "ch_Family ch" "ch_Class ch" StatusSuperseded actor remark now d1]
      proposal_events(3) [of s "ch_Family ch" "ch_Class ch" StatusSuperseded actor remark now d1] lower(5)
    by simp_all
  from movedI [OF lower(4) this lower(6,7)] lower(2) have "moved (ps_scope s) st e d d'"
    by (auto simp: level_event_def)
  moreover have "st = written ch" using writeLevel_ok [OF lower(4)] by simp
  ultimately show thesis using lower lowered [of s st e] by (simp add: written_def tells_def)
next
  case (seed s st d1 kind e)
  note i = insert_level_ok [OF seed(1), simplified]
  from movedI_snoc [of "ps_scope s" st d d1 s e d' kind] i seed(4,7,8) first [of "ps_scope s" st e]
  show thesis by (auto simp: level_event_def tells_def)
next
  case (adopt s legacy d1 now e)
  from movedI_snoc [of "ps_scope s" "adopted_row now legacy" d d1 s e d' EventDatabaseScoped] adopt
    first [of "ps_scope s" "adopted_row now legacy" e]
  show thesis by (auto simp: level_event_def tells_def adopted_row_def)
next
  case (propose p s r)
  show thesis by (rule still) (use insertProposal_levels [of s p d] proposal_events(1) [of s p d] propose(2)
      in \<open>simp add: still_def\<close>)
next
  case (decide status s i actor remark now r)
  show thesis by (rule still) (use decideProposal_levels [of s i status actor remark now d]
      proposal_events(2) [of s i status actor remark now d] decide(3) in \<open>simp add: still_def\<close>)
next
  case (expire s now ps)
  show thesis by (rule still) (use expireDue_levels [of s now d] proposal_events(4) [of s now d] expire(1)
      in \<open>simp add: still_def\<close>)
next
  case (note_event e s r)
  show thesis by (rule still) (use appendEvent_same(1) [of s e d] appendEvent_events [OF note_event(2)] note_event
      in \<open>auto simp: still_def\<close>)
next
  case (outcome s oc r)
  show thesis by (rule still) (use insertOutcome_same(1) [of s oc d] record_events(1) [of s oc d] outcome
      in \<open>simp add: still_def\<close>)
next
  case (review s rv b)
  show thesis by (rule still) (use upsertReview_same(1) [of s rv d] record_events(2) [of s rv d] review
      in \<open>simp add: still_def\<close>)
next
  case (report s run b)
  show thesis by (rule still) (use runs_same(1) [of s run d] record_events(3) [of s run d] report
      in \<open>simp add: still_def\<close>)
next
  case (marker s t)
  show thesis by (rule still) (use marker_same(1) [of s d] record_events(5) [of s d] marker
      in \<open>simp add: still_def\<close>)
qed (auto intro!: still simp: still_def)

subsection \<open>The history replays to the levels\<close>

definition level_entry :: "scope \<Rightarrow> Family \<Rightarrow> ActionClass \<Rightarrow> scope \<times> Event \<Rightarrow> bool" where
  "level_entry sc f c row \<longleftrightarrow> fst row = sc \<and> en_Family (snd row) = f \<and> en_Class (snd row) = c \<and>
     level_event (en_Type (snd row))"

text \<open>The level the last entry on a pair tells.\<close>

definition told :: "scope \<Rightarrow> Family \<Rightarrow> ActionClass \<Rightarrow> (scope \<times> Event) list \<Rightarrow> Level option" where
  "told sc f c es = foldl (\<lambda>l row. if level_entry sc f c row then en_To (snd row) else l) None es"

definition replays :: "ledger_db \<Rightarrow> bool" where
  "replays d \<longleftrightarrow> (\<forall>sc f c. map_option st_Level (stored_level sc f c d) = told sc f c (lg_events d))"

lemma told_snoc:
  "told sc f c (es @ [row]) = (if level_entry sc f c row then en_To (snd row) else told sc f c es)"
  by (simp add: told_def)

lemma still_stored: "still d d' \<Longrightarrow> stored_level sc f c d' = stored_level sc f c d"
  by (simp add: still_def stored_level_def)

lemma moved_stored:
  "moved k st e d d' \<Longrightarrow> stored_level sc f c d' =
     (if sc = k \<and> f = st_Family st \<and> c = st_Class st then Some st else stored_level sc f c d)"
  unfolding moved_def by blast

lemma replays_moved:
  assumes "moved k st e d d'" "replays d"
  shows "replays d'"
proof -
  have "map_option st_Level (stored_level sc f c d') = told sc f c (lg_events d')" for sc f c
  proof -
    have "level_entry sc f c (k, e) \<longleftrightarrow> sc = k \<and> f = st_Family st \<and> c = st_Class st"
      using assms(1) by (auto simp: moved_def level_entry_def)
    moreover have "lg_events d' = lg_events d @ [(k, e)]" "en_To e = Some (st_Level st)"
      using assms(1) by (simp_all add: moved_def)
    moreover have "map_option st_Level (stored_level sc f c d) = told sc f c (lg_events d)"
      using assms(2) unfolding replays_def by blast
    ultimately show ?thesis unfolding moved_stored [OF assms(1)] by (simp add: told_snoc)
  qed
  then show ?thesis by (simp add: replays_def)
qed

lemma replays_still:
  assumes "still d d'" "replays d"
  shows "replays d'"
proof -
  have "told sc f c (lg_events d') = told sc f c (lg_events d)" for sc f c
    using assms(1) by (auto simp: still_def told_snoc level_entry_def)
  with assms show ?thesis by (simp add: replays_def still_stored)
qed

lemma replays_step: "ledger_step d d' \<Longrightarrow> replays d \<Longrightarrow> replays d'"
  by (erule step_cases) (auto intro: replays_still replays_moved)

text \<open>C7: Whatever requests are served, in whatever order their statements interleave with those of
  other sessions, and whichever of them fail: if the history told every stored level before, the last
  entry on a pair tells the level stored for it afterwards, and a pair without an entry has no row.\<close>

theorem history_replays_levels:
  assumes "open_ledger w" "gw_tx w = None" "replays (gw_db w)"
  shows "replays (gw_db (serve_all parse rqs w))"
  using replays_step assms by (rule serve_all_invariant)

theorem history_replays_levels_witness:
  "replays (gw_db (serve_all (\<lambda>_ _. Inl (ErrInvalidReport [])) [(ex_service, DoApprove ex_id ''user:1'' [])]
     (ex_ledger_world ex_tables)))"
  by (rule history_replays_levels)
    (simp_all add: ex_ledger_world_def open_ledger_def replays_def told_def stored_level_def ex_tables_def ledger_db0_def)

subsection \<open>Well-formed tables\<close>

definition row_key :: "scope \<times> State \<Rightarrow> scope \<times> Family \<times> ActionClass" where
  "row_key row = (fst row, st_Family (snd row), st_Class (snd row))"

definition waiting_key :: "scope \<times> Proposal \<Rightarrow> scope \<times> Family \<times> ActionClass" where
  "waiting_key row = (fst row, pp_Family (snd row), pp_Class (snd row))"

definition is_pending :: "scope \<times> Proposal \<Rightarrow> bool" where
  "is_pending row \<longleftrightarrow> pp_Status (snd row) = StatusPending"

definition levels_wf :: "ledger_db \<Rightarrow> bool" where
  "levels_wf d \<longleftrightarrow> distinct (map row_key (lg_levels d)) \<and>
     list_all (\<lambda>row. level_checks (snd row) \<and> st_Version (snd row) \<ge> 1) (lg_levels d)"

definition proposal_id :: "scope \<times> Proposal \<Rightarrow> string \<times> string" where
  "proposal_id row = (fst (fst row), pp_ID (snd row))"

definition proposals_wf :: "ledger_db \<Rightarrow> bool" where
  "proposals_wf d \<longleftrightarrow> distinct (map proposal_id (lg_proposals d)) \<and>
     distinct (map waiting_key (filter is_pending (lg_proposals d))) \<and>
     list_all (\<lambda>row. 0 \<le> pp_From (snd row) \<and> pp_To (snd row) = pp_From (snd row) + 1 \<and>
        pp_To (snd row) \<le> CapForPair (pp_Family (snd row)) (pp_Class (snd row))) (lg_proposals d)"

definition ledger_wf :: "ledger_db \<Rightarrow> bool" where
  "ledger_wf d \<longleftrightarrow> levels_wf d \<and> proposals_wf d"

lemma stored_level_None:
  "stored_level sc f c d = None \<longleftrightarrow> (sc, f, c) \<notin> row_key ` set (lg_levels d)"
  by (auto simp: stored_level_def find_None_iff level_is_def row_key_def image_iff)

lemma levels_wf_snoc:
  assumes "levels_wf d" "stored_level k (st_Family st) (st_Class st) d = None" "level_checks st" "st_Version st \<ge> 1"
    "lg_levels d' = lg_levels d @ [(k, st)]"
  shows "levels_wf d'"
  using assms by (auto simp: levels_wf_def stored_level_None row_key_def image_iff)

lemma levels_wf_write:
  assumes "levels_wf d" "sql_writeLevel s ch d = (Inr st, d')"
  shows "levels_wf d'"
proof (cases "ch_ExpectVersion ch = 0")
  case True
  with assms(2) have "stored_level (ps_scope s) (st_Family st) (st_Class st) d = None" "level_checks st"
    "st_Version st = 1" "lg_levels d' = lg_levels d @ [(ps_scope s, st)]"
    by (auto simp: sql_writeLevel_def Let_def insert_level_def split: if_splits option.splits)
  with assms(1) show ?thesis by (auto intro: levels_wf_snoc)
next
  case False
  let ?g = "\<lambda>row. if level_is (ps_scope s) (ch_Family ch) (ch_Class ch) row then (fst row, st) else row"
  from False assms(2) obtain old where o: "stored_level (ps_scope s) (ch_Family ch) (ch_Class ch) d = Some old"
    "st_Version old = ch_ExpectVersion ch" "st = written ch" "level_checks st"
    and d': "lg_levels d' = map ?g (lg_levels d)"
    by (auto simp: sql_writeLevel_def Let_def written_def split: if_splits option.splits)
  have "st_Version old \<ge> 1"
    using stored_level_in [OF o(1)] assms(1) by (auto simp: levels_wf_def list_all_iff)
  then have st: "st_Version st \<ge> 1" using o by (simp add: written_def)
  have "row_key (?g row) = row_key row" for row using o(3) by (auto simp: row_key_def level_is_def written_def)
  then have "map row_key (lg_levels d') = map row_key (lg_levels d)" by (simp add: d')
  with assms(1) have "distinct (map row_key (lg_levels d'))" by (simp only: levels_wf_def)
  moreover have "list_all (\<lambda>row. level_checks (snd row) \<and> st_Version (snd row) \<ge> 1) (lg_levels d')"
    using assms(1) st o(4) by (auto simp: levels_wf_def d' list_all_iff)
  ultimately show ?thesis by (simp add: levels_wf_def)
qed

lemma levels_wf_same: "levels_wf d \<Longrightarrow> lg_levels d' = lg_levels d \<Longrightarrow> levels_wf d'"
  by (simp add: levels_wf_def)

lemma adopted_row_checks:
  "level_checks st \<Longrightarrow> level_checks (adopted_row now st)"
  by (auto simp: level_checks_def adopted_row_def)

lemma levels_wf_step:
  assumes "ledger_step d d'" "levels_wf d"
  shows "levels_wf d'"
  using assms
proof (cases rule: ledger_step.cases)
  case (promote approver s i p ch st d1 remark now d2 e)
  have "lg_levels d' = lg_levels d1"
    using decideProposal_levels [of s i StatusApproved approver remark now d1]
      appendEvent_same(1) [of s e d2] promote(7,8) by simp
  with levels_wf_write [OF assms(2) promote(3)] show ?thesis by (rule levels_wf_same)
next
  case (lower ch s kind st d1 actor remark now ps d2 e)
  have "lg_levels d' = lg_levels d1"
    using closePending_levels [of s "ch_Family ch" "ch_Class ch" StatusSuperseded actor remark now d1]
      appendEvent_same(1) [of s e d2] lower(5,6) by simp
  with levels_wf_write [OF assms(2) lower(4)] show ?thesis by (rule levels_wf_same)
next
  case (seed s st d1 kind e)
  have "lg_levels d' = lg_levels d1" using appendEvent_same(1) [of s e d1] seed(7) by simp
  with insert_level_ok [OF seed(1), simplified] seed(2) assms(2) show ?thesis
    by (auto intro: levels_wf_snoc)
next
  case (adopt s legacy d1 now e)
  have "lg_levels d' = lg_levels d1" using appendEvent_same(1) [of s e d1] adopt(5) by simp
  moreover have "level_checks legacy" using assms(2) adopt(1) by (auto simp: levels_wf_def list_all_iff)
  then have "level_checks (adopted_row now legacy)" by (rule adopted_row_checks)
  moreover have "st_Family (adopted_row now legacy) = st_Family legacy"
    "st_Class (adopted_row now legacy) = st_Class legacy" "st_Version (adopted_row now legacy) = 1"
    by (simp_all add: adopted_row_def)
  ultimately show ?thesis using assms(2) adopt(3,4) by (intro levels_wf_snoc [OF assms(2)]) simp_all
next
  case (propose p s r)
  then show ?thesis using insertProposal_levels [of s p d] by (intro levels_wf_same [OF assms(2)]) simp
next
  case (decide status s i actor remark now r)
  then show ?thesis using decideProposal_levels [of s i status actor remark now d] by (intro levels_wf_same [OF assms(2)]) simp
next
  case (expire s now ps)
  then show ?thesis using expireDue_levels [of s now d] by (intro levels_wf_same [OF assms(2)]) simp
next
  case (note_event e s r)
  then show ?thesis using appendEvent_same(1) [of s e d] by (intro levels_wf_same [OF assms(2)]) simp
next
  case (outcome s oc r)
  then show ?thesis using insertOutcome_same(1) [of s oc d] by (intro levels_wf_same [OF assms(2)]) simp
next
  case (review s rv b)
  then show ?thesis using upsertReview_same(1) [of s rv d] by (intro levels_wf_same [OF assms(2)]) simp
next
  case (report s run b)
  then show ?thesis using runs_same(1) [of s run d] by (intro levels_wf_same [OF assms(2)]) simp
next
  case (marker s t)
  then show ?thesis using marker_same(1) [of s d] by (intro levels_wf_same [OF assms(2)]) simp
qed (auto simp: levels_wf_def)

text \<open>Deciding proposals takes them from the waiting ones.\<close>

lemma proposals_wf_map:
  assumes "proposals_wf d"
    "lg_proposals d' = map (\<lambda>row. if hit row then (fst row, upd (snd row)) else row) (lg_proposals d)"
    "\<And>p. same_proposal p (upd p)" "\<And>p. pp_Status (upd p) \<noteq> StatusPending"
  shows "proposals_wf d'"
proof -
  let ?g = "\<lambda>row. if hit row then (fst row, upd (snd row)) else row"
  have f: "filter is_pending (map ?g rows) = filter (\<lambda>row. \<not> hit row) (filter is_pending rows)" for rows
    by (induction rows) (auto simp: is_pending_def assms(4))
  have "distinct (map waiting_key (filter is_pending (lg_proposals d')))"
    unfolding assms(2) f by (rule distinct_map_filter) (use assms(1) in \<open>simp add: proposals_wf_def\<close>)
  moreover have "proposal_id (?g row) = proposal_id row" for row
    using assms(3) [of "snd row"] by (simp add: proposal_id_def same_proposal_def)
  then have "map proposal_id (lg_proposals d') = map proposal_id (lg_proposals d)" by (simp add: assms(2))
  with assms(1) have "distinct (map proposal_id (lg_proposals d'))" by (simp only: proposals_wf_def)
  moreover have "pp_From (upd p) = pp_From p" "pp_To (upd p) = pp_To p" "pp_Family (upd p) = pp_Family p"
    "pp_Class (upd p) = pp_Class p" for p
    using assms(3) [of p] by (simp_all add: same_proposal_def)
  then have "list_all (\<lambda>row. 0 \<le> pp_From (snd row) \<and> pp_To (snd row) = pp_From (snd row) + 1 \<and>
      pp_To (snd row) \<le> CapForPair (pp_Family (snd row)) (pp_Class (snd row))) (lg_proposals d')"
    using assms(1) unfolding assms(2) by (auto simp: proposals_wf_def list_all_iff)
  ultimately show ?thesis by (simp add: proposals_wf_def)
qed

lemma proposals_wf_same: "proposals_wf d \<Longrightarrow> lg_proposals d' = lg_proposals d \<Longrightarrow> proposals_wf d'"
  by (simp add: proposals_wf_def)

lemma decided_status [simp]: "pp_Status (decided st a r t p) = st"
  by (simp add: decided_def)

lemma proposals_wf_decide:
  assumes "proposals_wf d" "sql_decideProposal s i status actor remark now d = (r, d')" "status \<noteq> StatusPending"
  shows "proposals_wf d'"
  using assms(2)
proof (rule decideProposal_cases)
  assume "d' = d\<lparr>lg_proposals := map (\<lambda>row. if pending_id s i row
         then (fst row, decided status actor remark now (snd row)) else row) (lg_proposals d)\<rparr>"
  then show ?thesis using assms(3)
    by (intro proposals_wf_map [OF assms(1), where hit = "pending_id s i" and
        upd = "decided status actor remark now"]) simp_all
qed (use assms(1) in simp)

lemma proposals_wf_update:
  assumes "proposals_wf d" "update_pending hit upd d = (ps, d')" "\<And>p. same_proposal p (upd p)"
    "\<And>p. pp_Status (upd p) \<noteq> StatusPending"
  shows "proposals_wf d'"
  by (rule proposals_wf_map [OF assms(1) _ assms(3,4), where hit = hit]) (use assms(2) in \<open>auto simp: update_pending_def\<close>)

lemma proposals_wf_insert:
  assumes "proposals_wf d" "sql_insertProposal s p d = (r, d')" "pp_To p \<le> CapForPair (pp_Family p) (pp_Class p)"
  shows "proposals_wf d'"
proof -
  let ?p = "p\<lparr>pp_Status := StatusPending, pp_DecidedBy := [], pp_DecidedAt := None, pp_Note := []\<rparr>"
  let ?taken = "list_ex (\<lambda>(sc, q). fst sc = ps_deployment s \<and> pp_ID q = pp_ID ?p \<or>
      sc = ps_scope s \<and> pp_Status q = StatusPending \<and> pp_Family q = pp_Family ?p \<and>
      pp_Class q = pp_Class ?p) (lg_proposals d)"
  consider "lg_proposals d' = lg_proposals d"
    | "proposal_checks ?p" "\<not> ?taken" "lg_proposals d' = lg_proposals d @ [(ps_scope s, ?p)]"
  proof (cases "proposal_checks ?p \<and> \<not> ?taken")
    case True
    with assms(2) have "d' = d\<lparr>lg_proposals := lg_proposals d @ [(ps_scope s, ?p)]\<rparr>"
      unfolding sql_insertProposal_def Let_def by (simp only: not_not if_False if_True prod.inject) auto
    with True that(2) show thesis by simp
  next
    case False
    with assms(2) have "d' = d"
      unfolding sql_insertProposal_def Let_def by (auto simp only: prod.inject split: if_splits)
    with that(1) show thesis by simp
  qed
  then show ?thesis
  proof cases
    case 1
    with assms(1) show ?thesis by (rule proposals_wf_same)
  next
    case 2
    have "proposal_id (ps_scope s, ?p) \<notin> proposal_id ` set (lg_proposals d)"
      using 2(2) by (auto simp: proposal_id_def list_ex_iff ps_scope_def)
    then have "distinct (map proposal_id (lg_proposals d'))"
      using assms(1) by (simp add: 2(3) proposals_wf_def)
    moreover have "waiting_key (ps_scope s, ?p) \<notin> waiting_key ` set (filter is_pending (lg_proposals d))"
      using 2(2) by (auto simp: waiting_key_def is_pending_def list_ex_iff)
    then have "distinct (map waiting_key (filter is_pending (lg_proposals d')))"
      using assms(1) by (simp add: 2(3) proposals_wf_def is_pending_def)
    moreover have "list_all (\<lambda>row. 0 \<le> pp_From (snd row) \<and> pp_To (snd row) = pp_From (snd row) + 1 \<and>
        pp_To (snd row) \<le> CapForPair (pp_Family (snd row)) (pp_Class (snd row))) (lg_proposals d')"
      using assms(1,3) 2(1) by (simp add: 2(3) proposals_wf_def proposal_checks_def)
    ultimately show ?thesis by (simp add: proposals_wf_def)
  qed
qed

lemma proposals_wf_step:
  assumes "ledger_step d d'" "proposals_wf d"
  shows "proposals_wf d'"
  using assms
proof (cases rule: ledger_step.cases)
  case (promote approver s i p ch st d1 remark now d2 e)
  have "lg_proposals d1 = lg_proposals d" using writeLevel_proposals [of s ch d] promote(3) by simp
  with assms(2) have "proposals_wf d1" by (rule proposals_wf_same)
  from proposals_wf_decide [OF this promote(7)] have "proposals_wf d2" by simp
  then show ?thesis by (rule proposals_wf_same) (use appendEvent_same(2) [of s e d2] promote(8) in simp)
next
  case (lower ch s kind st d1 actor remark now ps d2 e)
  have "lg_proposals d1 = lg_proposals d" using writeLevel_proposals [of s ch d] lower(4) by simp
  with assms(2) have "proposals_wf d1" by (rule proposals_wf_same)
  from proposals_wf_update [OF this lower(5) [unfolded sql_closePending_def]] have "proposals_wf d2" by simp
  then show ?thesis by (rule proposals_wf_same) (use appendEvent_same(2) [of s e d2] lower(6) in simp)
next
  case (seed s st d1 kind e)
  have "lg_proposals d' = lg_proposals d"
    using insert_level_proposals [of "ps_scope s" st d] appendEvent_same(2) [of s e d1] seed(1,7) by simp
  with assms(2) show ?thesis by (rule proposals_wf_same)
next
  case (adopt s legacy d1 now e)
  have "lg_proposals d' = lg_proposals d1" using appendEvent_same(2) [of s e d1] adopt(5) by simp
  also have "\<dots> = lg_proposals d" by (simp add: adopt(4))
  finally have "lg_proposals d' = lg_proposals d" .
  with assms(2) show ?thesis by (rule proposals_wf_same)
next
  case (propose p s r)
  from proposals_wf_insert [OF assms(2) propose(2,1)] show ?thesis .
next
  case (decide status s i actor remark now r)
  from proposals_wf_decide [OF assms(2) decide(3,1)] show ?thesis .
next
  case (expire s now ps)
  from proposals_wf_update [OF assms(2) expire(1) [unfolded sql_expireDue_def]] show ?thesis by simp
next
  case (note_event e s r)
  then show ?thesis using appendEvent_same(2) [of s e d] by (intro proposals_wf_same [OF assms(2)]) simp
next
  case (outcome s oc r)
  then show ?thesis using insertOutcome_same(2) [of s oc d] by (intro proposals_wf_same [OF assms(2)]) simp
next
  case (review s rv b)
  then show ?thesis using upsertReview_same(2) [of s rv d] by (intro proposals_wf_same [OF assms(2)]) simp
next
  case (report s run b)
  then show ?thesis using runs_same(2) [of s run d] by (intro proposals_wf_same [OF assms(2)]) simp
next
  case (marker s t)
  then show ?thesis using marker_same(2) [of s d] by (intro proposals_wf_same [OF assms(2)]) simp
qed (auto simp: proposals_wf_def)

lemma ledger_wf_step: "ledger_step d d' \<Longrightarrow> ledger_wf d \<Longrightarrow> ledger_wf d'"
  unfolding ledger_wf_def using levels_wf_step proposals_wf_step by blast

text \<open>C12: The tables stay well formed, whatever requests are served and however they interleave: one row
  per pair of a database with a level of 0 to 3, a version and an actor and a reason within their
  bounds; proposals with an identifier of their own, at most one waiting per pair, and every one by one
  level within the cap of its pair.\<close>

theorem ledger_tables_well_formed:
  assumes "open_ledger w" "gw_tx w = None" "ledger_wf (gw_db w)"
  shows "ledger_wf (gw_db (serve_all parse rqs w))"
  using ledger_wf_step assms by (rule serve_all_invariant)

lemma ex_tables_wf: "ledger_wf ex_tables"
  by code_simp

theorem ledger_tables_well_formed_witness:
  "ledger_wf (gw_db (serve_all (\<lambda>_ _. Inl (ErrInvalidReport [])) [(ex_service, DoApprove ex_id ''user:1'' [])]
     (ex_ledger_world ex_tables)))"
  by (rule ledger_tables_well_formed) (simp_all add: ex_ledger_world_def open_ledger_def ex_tables_wf)

subsection \<open>Levels rise by approvals\<close>

definition approval_entry :: "scope \<Rightarrow> Family \<Rightarrow> ActionClass \<Rightarrow> scope \<times> Event \<Rightarrow> bool" where
  "approval_entry sc f c row \<longleftrightarrow> fst row = sc \<and> en_Family (snd row) = f \<and> en_Class (snd row) = c \<and>
     en_Type (snd row) = EventPromotionApproved \<and> humanActor (en_Actor (snd row))"

definition approvals :: "scope \<Rightarrow> Family \<Rightarrow> ActionClass \<Rightarrow> (scope \<times> Event) list \<Rightarrow> int" where
  "approvals sc f c es = int (length (filter (approval_entry sc f c) es))"

definition rise :: "scope \<Rightarrow> Family \<Rightarrow> ActionClass \<Rightarrow> ledger_db \<Rightarrow> ledger_db \<Rightarrow> bool" where
  "rise sc f c d d' \<longleftrightarrow> (\<exists>new. lg_events d' = lg_events d @ new \<and>
     (stored_level sc f c d \<noteq> None \<longrightarrow> stored_level sc f c d' \<noteq> None \<and>
        level_at sc f c d' \<le> level_at sc f c d + approvals sc f c new \<and>
        level_at sc f c d' \<le> max (level_at sc f c d) (CapForPair f c)))"

lemma approvals_append: "approvals sc f c (xs @ ys) = approvals sc f c xs + approvals sc f c ys"
  by (simp add: approvals_def)

lemma approvals_nonneg: "0 \<le> approvals sc f c es"
  by (simp add: approvals_def)

lemma rise_trans:
  assumes "rise sc f c d d'" "rise sc f c d' d''"
  shows "rise sc f c d d''"
proof -
  from assms(1) obtain xs where x: "lg_events d' = lg_events d @ xs"
    "stored_level sc f c d \<noteq> None \<longrightarrow> stored_level sc f c d' \<noteq> None \<and>
        level_at sc f c d' \<le> level_at sc f c d + approvals sc f c xs \<and>
        level_at sc f c d' \<le> max (level_at sc f c d) (CapForPair f c)" unfolding rise_def by blast
  from assms(2) obtain ys where y: "lg_events d'' = lg_events d' @ ys"
    "stored_level sc f c d' \<noteq> None \<longrightarrow> stored_level sc f c d'' \<noteq> None \<and>
        level_at sc f c d'' \<le> level_at sc f c d' + approvals sc f c ys \<and>
        level_at sc f c d'' \<le> max (level_at sc f c d') (CapForPair f c)" unfolding rise_def by blast
  show ?thesis unfolding rise_def
    by (rule exI [of _ "xs @ ys"]) (use x y in \<open>auto simp: approvals_append\<close>)
qed

lemma moved_rise:
  assumes "moved k st e d d'"
    "stored_level sc f c d \<noteq> None \<Longrightarrow> sc = k \<Longrightarrow> f = st_Family st \<Longrightarrow> c = st_Class st \<Longrightarrow>
       st_Level st \<le> level_at sc f c d + approvals sc f c [(k, e)] \<and>
       st_Level st \<le> max (level_at sc f c d) (CapForPair f c)"
  shows "rise sc f c d d'"
  unfolding rise_def
proof (rule exI [of _ "[(k, e)]"], intro conjI impI)
  show "lg_events d' = lg_events d @ [(k, e)]" using assms(1) by (simp add: moved_def)
  assume "stored_level sc f c d \<noteq> None"
  then show "stored_level sc f c d' \<noteq> None"
    "level_at sc f c d' \<le> level_at sc f c d + approvals sc f c [(k, e)]"
    "level_at sc f c d' \<le> max (level_at sc f c d) (CapForPair f c)"
    using assms(2) approvals_nonneg [of sc f c "[(k, e)]"]
    by (auto simp: moved_stored [OF assms(1)] level_at_def level_or_def)
qed

lemma step_rise:
  assumes "ledger_step d d'" "proposals_wf d"
  shows "rise sc f c d d'"
  using assms(1)
proof (cases rule: step_cases)
  case still
  then obtain new where "lg_events d' = lg_events d @ new" by (auto simp: still_def)
  with still_stored [OF still] show ?thesis
    unfolding rise_def level_at_def by (intro exI [of _ new]) (simp add: approvals_nonneg)
next
  case (approved s st e i p)
  from approved(4) have "(ps_scope s, p) \<in> set (lg_proposals d)"
    by (auto simp: approvable_def sql_readProposal_def dest!: find_in_set)
  with assms(2) have to: "pp_To p = pp_From p + 1" by (auto simp: proposals_wf_def list_all_iff)
  have en: "en_Family e = st_Family st" "en_Class e = st_Class st" using approved(1) by (simp_all add: moved_def)
  show ?thesis
    by (rule moved_rise [OF approved(1)])
      (use approved to en in \<open>simp add: approvable_def approvals_def approval_entry_def\<close>)
next
  case (lowered s st e)
  show ?thesis
    by (rule moved_rise [OF lowered(1)]) (use lowered(2) approvals_nonneg [of sc f c "[(ps_scope s, e)]"] in simp)
next
  case (first k st e)
  show ?thesis by (rule moved_rise [OF first(1)]) (use first(2) in simp)
qed

text \<open>C3: A stored level rises only by approvals of people: over any requests, whatever fails and however
  they interleave with other sessions, the history is only appended to, and a pair that has a row ends
  at most as many levels higher as the history gained approvals of the pair by a human actor, and never
  above both its old level and its cap.\<close>

theorem levels_rise_by_approval:
  assumes "open_ledger w" "gw_tx w = None" "ledger_wf (gw_db w)"
  shows "rise sc f c (gw_db w) (gw_db (serve_all parse rqs w))"
proof -
  have "ledger_wf d' \<and> rise sc f c d d'" if "ledger_steps d d'" "ledger_wf d" for d d'
    using that
  proof (induction rule: rtranclp_induct)
    case base
    then show ?case by (simp add: rise_def approvals_nonneg)
  next
    case (step d1 d2)
    then have "ledger_wf d1" "rise sc f c d d1" by simp_all
    moreover have "rise sc f c d1 d2"
      using step_rise [OF step(2)] \<open>ledger_wf d1\<close> by (simp add: ledger_wf_def)
    ultimately show ?case using ledger_wf_step [OF step(2)] rise_trans [of sc f c d d1 d2] by simp
  qed
  with serve_all_steps [OF assms(1,2), of parse rqs] assms(3) show ?thesis by blast
qed

lemma ex_trusted_wf: "ledger_wf (ex_trusted 3)"
  by code_simp

theorem levels_rise_by_approval_witness:
  "rise ex_scope FamilyTuning ClassIndexCreate (ex_trusted 3)
     (gw_db (serve_all (\<lambda>_ _. Inl (ErrInvalidReport [])) [(ex_service, DoRecordOutcome ex_demerit)]
       (ex_ledger_world (ex_trusted 3))))"
  using levels_rise_by_approval [of "ex_ledger_world (ex_trusted 3)" ex_scope FamilyTuning ClassIndexCreate
      "\<lambda>_ _. Inl (ErrInvalidReport [])" "[(ex_service, DoRecordOutcome ex_demerit)]"]
  by (simp add: ex_ledger_world_def open_ledger_def ex_trusted_wf)

end
