(* ===== verification/Ledger_Alone.thy ===== *)
theory Ledger_Alone
  imports Ledger_Props
begin

text \<open>
  Calls that run alone and without a failure: what they give and what they leave. The rules follow the
  statements of a call, inside and outside a transaction, and give the progress of the service: a
  promotion that is due takes effect, an outcome that counts against a pair lowers it.
\<close>

subsection \<open>Running alone\<close>

definition view :: "ledger_world \<Rightarrow> ledger_db option" where
  "view w = (case gw_tx w of None \<Rightarrow> Some (gw_db w) | Some tx \<Rightarrow> tx (gw_db w))"

text \<open>Alone at an instant, in a transaction or not, with these tables in view.\<close>

definition alone :: "bool \<Rightarrow> instant \<Rightarrow> ledger_db \<Rightarrow> ledger_world \<Rightarrow> bool" where
  "alone t now d w \<longleftrightarrow> gw_script w = [] \<and> gw_now w = now \<and> (gw_tx w \<noteq> None) = t \<and> view w = Some d"

definition does :: "bool \<Rightarrow> instant \<Rightarrow> 'a led \<Rightarrow> ledger_db \<Rightarrow> 'a \<Rightarrow> ledger_db \<Rightarrow> bool" where
  "does t now m d a d' \<longleftrightarrow> (\<forall>w. alone t now d w \<longrightarrow> (\<exists>w'. m w = (Inr a, w') \<and> alone t now d' w'))"

lemma alone_outside: "alone False now d w \<longleftrightarrow> gw_script w = [] \<and> gw_now w = now \<and> gw_tx w = None \<and> gw_db w = d"
  by (auto simp: alone_def view_def)

lemma does_return: "does t now (lreturn a) d a d"
  by (simp add: does_def lreturn_def)

lemma does_now: "does t now lnow d now d"
  by (auto simp: does_def lnow_def alone_def)

lemma does_check: "r = Inr a \<Longrightarrow> does t now (lcheck r) d a d"
  by (simp add: does_def lcheck_def)

lemma does_bind: "does t now m d a d1 \<Longrightarrow> does t now (f a) d1 b d' \<Longrightarrow> does t now (lbind m f) d b d'"
  unfolding does_def lbind_def by fastforce

lemma does_read: "does t now (lread g) d (g d) d"
  by (auto simp: does_def lread_def ledger_tick_def alone_def view_def split: option.splits)

lemma does_stmt:
  assumes "f d = (Inr a, d')"
  shows "does t now (lstmt f) d a d'"
  using assms
  by (auto simp: does_def lstmt_def ledger_tick_def alone_def view_def tx_then_def split: option.splits)

lemma does_update: "f d = (a, d') \<Longrightarrow> does t now (lupdate f) d a d'"
  unfolding lupdate_def by (rule does_stmt) simp

lemma does_invalidate: "does t now m d a d' \<Longrightarrow> does t now (linvalidate m) d a d'"
  by (fastforce simp: does_def linvalidate_def invalidate_def alone_def view_def)

lemma does_retry: "does t now m d a d' \<Longrightarrow> does t now (lretry again m) d a d'"
  by (fastforce simp: does_def lretry_def)

lemma does_withTx:
  assumes "does True now m d a d'"
  shows "does False now (withTx m) d a d'"
proof (unfold does_def, intro allI impI)
  fix w
  assume w: "alone False now d w"
  then have "alone True now d (w\<lparr>gw_tx := Some Some\<rparr>)" by (auto simp: alone_def view_def)
  with assms obtain w1 where w1: "m (w\<lparr>gw_tx := Some Some\<rparr>) = (Inr a, w1)" "alone True now d' w1"
    unfolding does_def by blast
  then obtain tx where tx: "gw_tx w1 = Some tx" "tx (gw_db w1) = Some d'" "gw_script w1 = []" "gw_now w1 = now"
    by (auto simp: alone_def view_def)
  have "withTx m w = (Inr a, w1\<lparr>gw_tx := None, gw_db := d'\<rparr>)"
    using w w1(1) tx by (simp add: withTx_def commit_def ledger_tick_def alone_def)
  moreover have "alone False now d' (w1\<lparr>gw_tx := None, gw_db := d'\<rparr>)"
    using tx by (simp add: alone_def view_def)
  ultimately show "\<exists>w'. withTx m w = (Inr a, w') \<and> alone False now d' w'" by blast
qed

lemma does_mapM:
  assumes "ds ! 0 = d" "length ds = length xs + 1" "length ys = length xs"
    "\<And>i. i < length xs \<Longrightarrow> does t now (f (xs ! i)) (ds ! i) (ys ! i) (ds ! Suc i)"
  shows "does t now (lmapM f xs) d ys (ds ! length xs)"
  using assms
proof (induction xs arbitrary: d ds ys)
  case Nil
  then show ?case by (simp add: does_return)
next
  case (Cons x xs)
  obtain y ys' where ys: "ys = y # ys'" using Cons.prems(3) by (cases ys) auto
  obtain e ds' where ds: "ds = e # ds'" using Cons.prems(2) by (cases ds) auto
  have "does t now (lmapM f xs) (ds' ! 0) ys' (ds' ! length xs)"
  proof (rule Cons.IH)
    show "does t now (f (xs ! i)) (ds' ! i) (ys' ! i) (ds' ! Suc i)" if "i < length xs" for i
      using Cons.prems(4) [of "Suc i"] that by (simp add: ys ds)
  qed (use Cons.prems ys ds in simp_all)
  moreover have "does t now (f x) d y (ds' ! 0)" using Cons.prems(1) Cons.prems(4) [of 0] by (simp add: ys ds)
  ultimately show ?case unfolding ys lmapM.simps by (auto simp: ds intro: does_bind does_return)
qed

lemmas does_rules = does_return does_now does_check does_bind does_read does_stmt does_update does_invalidate
  does_withTx does_retry

text \<open>A call that gives a result alone gives it in a world that is alone.\<close>

lemma does_run:
  assumes "does False now m d a d'" "gw_script w = []" "gw_now w = now" "gw_tx w = None" "gw_db w = d"
  shows "\<exists>w'. m w = (Inr a, w') \<and> gw_db w' = d'"
  using assms by (auto simp: does_def alone_outside)

subsection \<open>Statements that succeed\<close>

lemma writeLevel_runs:
  assumes "levels_wf d" "level_checks (written ch)"
    "ch_ExpectVersion ch = version_of (stored_level (ps_scope s) (ch_Family ch) (ch_Class ch) d)"
  obtains d' where "sql_writeLevel s ch d = (Inr (written ch), d')"
proof (cases "stored_level (ps_scope s) (ch_Family ch) (ch_Class ch) d")
  case None
  then have "ch_ExpectVersion ch = 0" using assms(3) by (simp add: version_of_def)
  with None assms(2) show thesis
    using that by (simp add: sql_writeLevel_def insert_level_def written_def Let_def)
next
  case (Some r)
  have "st_Version r \<ge> 1" using stored_level_in [OF Some] assms(1) by (auto simp: levels_wf_def list_all_iff)
  then have "ch_ExpectVersion ch \<noteq> 0" "st_Version r = ch_ExpectVersion ch"
    using assms(3) Some by (simp_all add: version_of_def)
  with Some assms(2) show thesis
    using that by (simp add: sql_writeLevel_def written_def Let_def)
qed

lemma appendEvent_runs:
  assumes "1 \<le> length (en_Actor e)" "length (en_Actor e) \<le> 200" "1 \<le> length (en_Reason e)"
    "length (en_Reason e) \<le> 2000" "name_ok (en_Family e)" "name_ok (en_Class e)"
  shows "sql_appendEvent s e d = (Inr (), d\<lparr>lg_events := lg_events d @ [(ps_scope s, e)]\<rparr>)"
  using assms by (simp add: sql_appendEvent_def)

lemma one_pending:
  assumes "distinct (map proposal_id rows)" "List.find (\<lambda>(sc, p). sc = ps_scope s \<and> pp_ID p = i) rows = Some row"
    "pp_Status (snd row) = StatusPending"
  shows "filter (pending_id s i) rows = [row]"
  using assms
proof (induction rows)
  case (Cons r rows)
  show ?case
  proof (cases "fst r = ps_scope s \<and> pp_ID (snd r) = i")
    case True
    with Cons.prems(2) have r: "row = r" by (cases r) simp
    have "\<not> pending_id s i q" if "q \<in> set rows" for q
      using Cons.prems(1) True that by (cases q) (auto simp: proposal_id_def image_iff)
    then show ?thesis using True Cons.prems(3) by (cases r) (simp add: r filter_empty_conv)
  next
    case False
    with Cons show ?thesis by (cases r) auto
  qed
qed simp

lemma decideProposal_runs:
  assumes "proposals_wf d" "sql_readProposal s i d = Some p" "pp_Status p = StatusPending" "length remark \<le> 2000"
  obtains d' where "sql_decideProposal s i status actor remark now d = (Inr (), d')"
proof -
  from assms(2) obtain row where "List.find (\<lambda>(sc, p). sc = ps_scope s \<and> pp_ID p = i) (lg_proposals d) = Some row"
    "snd row = p" by (auto simp: sql_readProposal_def)
  with assms have "filter (pending_id s i) (lg_proposals d) = [row]"
    by (intro one_pending) (simp_all add: proposals_wf_def)
  then have l: "length (filter (pending_id s i) (lg_proposals d)) = 1" by simp
  show thesis
    by (rule that) (unfold sql_decideProposal_def Let_def, use l assms(4) in \<open>simp only: not_less [symmetric] if_False simp_thms\<close>)
qed

subsection \<open>An approval takes effect\<close>

text \<open>The evidence of a pair as the tables hold it.\<close>

definition evidence_at :: "Service \<Rightarrow> instant \<Rightarrow> Family \<Rightarrow> ActionClass \<Rightarrow> ledger_db \<Rightarrow> Evidence" where
  "evidence_at sv now f c d =
     (let s = sv_store sv; th = lc_Thresholds (sv_cfg sv); ev = Evidence0 f c now;
          violations = sql_safety s f (now - lc_SafetyWindow (sv_cfg sv)) d
      in if IsSelfInitiated f
         then ev\<lparr>evd_Record := Some (sql_classRecord s f c d), evd_Floor := Some (floorStatus (sv_ramp sv) c now)\<rparr>
         else ev\<lparr>evd_Bench := sql_bench s f d, evd_GameDays := sql_gameDays s (now - th_BenchMaxAge th) d,
                evd_Shadow := sql_shadow s f (now - th_ShadowDuration th) d, evd_Live := sql_live s f c d,
                evd_FamilyViolations := fst violations,
                evd_ViolationsClearAt := (if fst violations > 0
                  then Some (snd violations + lc_SafetyWindow (sv_cfg sv)) else None)\<rparr>)"

lemma does_evidence: "does t now (Evidence_of sv f c) d (evidence_at sv now f c d) d"
proof (cases "IsSelfInitiated f")
  case True
  then show ?thesis unfolding Evidence_of_def evidence_at_def Let_def
    by (simp add: does_bind [OF does_now] does_bind [OF does_read] does_return)
next
  case False
  show ?thesis unfolding Evidence_of_def evidence_at_def Let_def if_not_P [OF False]
    by (rule does_bind [OF does_now] does_bind [OF does_read] does_return)+
qed

lemma applicable_names: "list_all (\<lambda>(f, cs). name_ok f \<and> list_all name_ok cs) applicable"
  by code_simp

lemma Applicable_names: "Applicable f c \<Longrightarrow> name_ok f \<and> name_ok c"
proof -
  assume "Applicable f c"
  then obtain cs where "map_of applicable f = Some cs" "c \<in> set cs"
    by (cases "map_of applicable f") (auto simp: Applicable_def ApplicableClasses_def)
  from map_of_SomeD [OF this(1)] this(2) applicable_names show ?thesis by (auto simp: list_all_iff)
qed

lemma noteOr_bounds: "fallback \<noteq> [] \<Longrightarrow> length fallback \<le> 2000 \<Longrightarrow> length remark \<le> 2000 \<Longrightarrow>
    1 \<le> length (noteOr remark fallback) \<and> length (noteOr remark fallback) \<le> 2000"
  by (cases remark) (auto simp: noteOr_def TrimSpace_def Suc_le_eq)

lemma uuid_length: "uuidPattern i \<Longrightarrow> length i \<le> 36"
proof -
  assume "uuidPattern i"
  then have l: "map length (split_on (CHR ''-'') i) = [8, 4, 4, 4, 12]" by (simp add: uuidPattern_def)
  have "sum_list (map length (split_on c s)) + length (split_on c s) = length s + 1" for c :: char and s
    by (induction c s rule: split_on.induct) (auto split: list.splits)
  from this [of "CHR ''-''" i] arg_cong [OF l, of sum_list] arg_cong [OF l, of length] show ?thesis by simp
qed

lemma does_readProposal:
  assumes "uuidPattern i" "sql_readProposal (sv_store sv) i d = Some p"
  shows "does t now (readProposal sv i upd) d p d"
proof -
  have "does t now (if upd then lstmt (\<lambda>db. (Inr (sql_readProposal (sv_store sv) i db), db))
      else lread (sql_readProposal (sv_store sv) i)) d (Some p) d"
    using does_stmt [of "\<lambda>db. (Inr (sql_readProposal (sv_store sv) i db), db)" d "Some p" d]
      does_read [of t now "sql_readProposal (sv_store sv) i" d] assms(2) by simp
  from does_bind [OF this, of "\<lambda>v. case v of None \<Rightarrow> lfail (ErrNotFound i) | Some p \<Rightarrow> lreturn p" p d] assms(1)
  show ?thesis by (simp add: readProposal_def does_return)
qed

lemma does_approval_tx:
  assumes wf: "ledger_wf d" and p: "sql_readProposal (sv_store sv) (pp_ID p) d = Some p" "pp_Status p = StatusPending"
    "uuidPattern (pp_ID p)"
    and start: "pp_From p = level_at (ps_scope (sv_store sv)) (pp_Family p) (pp_Class p) d"
    and ok: "Grantable (pp_To p)" "Applicable (pp_Family p) (pp_Class p)"
      "1 \<le> length approver" "length approver \<le> 200" "length remark \<le> 2000"
  obtains st d' where "does True now (approval_tx sv p approver remark evidence now) d st d'"
    "st_Level st = pp_To p" "stored_level (ps_scope (sv_store sv)) (pp_Family p) (pp_Class p) d' = Some st"
proof -
  let ?s = "sv_store sv" and ?row = "stored_level (ps_scope (sv_store sv)) (pp_Family p) (pp_Class p) d"
  let ?ch = "\<lparr>ch_Family = pp_Family p, ch_Class = pp_Class p, ch_To = pp_To p, ch_ExpectVersion = version_of ?row,
      ch_Actor = approver, ch_Reason = ''promotion '' @ pp_ID p @ '' approved'', ch_Evidence = evidence, ch_At = now\<rparr>"
  let ?e = "(ledger_entry (pp_Family p) (pp_Class p) EventPromotionApproved approver (noteOr remark ''approved'') now)
      \<lparr>en_From := Some (pp_From p), en_To := Some (pp_To p), en_ProposalID := pp_ID p, en_Evidence := evidence\<rparr>"
  have names: "name_ok (pp_Family p)" "name_ok (pp_Class p)" using Applicable_names [OF ok(2)] by simp_all
  have "level_checks (written ?ch)"
    using names ok uuid_length [OF p(3)] by (simp add: level_checks_def written_def Grantable_iff)
  with wf obtain d1 where w: "sql_writeLevel ?s ?ch d = (Inr (written ?ch), d1)"
    by (rule_tac writeLevel_runs [of d ?ch ?s]) (simp_all add: ledger_wf_def)
  note same = writeLevel_proposals [of ?s ?ch d, unfolded w snd_conv]
  have "proposals_wf d1" by (rule proposals_wf_same [OF _ same]) (use wf in \<open>simp add: ledger_wf_def\<close>)
  moreover have "sql_readProposal ?s (pp_ID p) d1 = Some p" using p(1) readProposal_cong [OF same] by simp
  ultimately obtain d2 where dec: "sql_decideProposal ?s (pp_ID p) StatusApproved approver remark now d1 = (Inr (), d2)"
    using p(2) ok(5) by (rule decideProposal_runs)
  have ev: "sql_appendEvent ?s ?e d2 = (Inr (), d2\<lparr>lg_events := lg_events d2 @ [(ps_scope ?s, ?e)]\<rparr>)"
    using names ok noteOr_bounds [of "''approved''" remark] by (intro appendEvent_runs) (simp_all add: ledger_entry_def)
  let ?d = "d2\<lparr>lg_events := lg_events d2 @ [(ps_scope ?s, ?e)]\<rparr>"
  have "does True now (approval_tx sv p approver remark evidence now) d (written ?ch) ?d"
    unfolding approval_tx_def
    apply (rule does_bind [OF does_readProposal [OF p(3) p(1)]])
    apply (simp only: p(2) simp_thms if_False)
    apply (rule does_bind [where a = ?row])
     apply (unfold readLevel_def)
     apply (use does_read [of True now "sql_readLevel ?s (pp_Family p) (pp_Class p)" d] in \<open>simp add: sql_readLevel_def\<close>)
    apply (simp only: level_at_def [symmetric] start [symmetric] simp_thms if_False)
    apply (rule does_bind, rule does_stmt, rule w)
    apply (rule does_bind, rule does_stmt, rule dec)
    apply (unfold appendEvent_def)
    apply (rule does_bind, rule does_stmt, rule ev)
    apply (rule does_return)
    done
  moreover have "lg_levels ?d = lg_levels d1"
    using decideProposal_levels [of ?s "pp_ID p" StatusApproved approver remark now d1, unfolded dec snd_conv] by simp
  then have "stored_level (ps_scope ?s) (pp_Family p) (pp_Class p) ?d = Some (written ?ch)"
    using writeLevel_stored [OF w] stored_level_cong [of ?d d1] by simp
  ultimately show thesis by (rule_tac that) (simp_all add: written_def)
qed

lemma humanActor_nonempty: "humanActor actor \<Longrightarrow> 1 \<le> length actor"
  by (cases actor) (auto simp: humanActor_def TrimSpace_def Let_def)

lemma readProposal_wf:
  assumes "proposals_wf d" "sql_readProposal s i d = Some p"
  shows "0 \<le> pp_From p \<and> pp_To p = pp_From p + 1 \<and> pp_To p \<le> CapForPair (pp_Family p) (pp_Class p)"
proof -
  from assms(2) have "(ps_scope s, p) \<in> set (lg_proposals d)"
    by (auto simp: sql_readProposal_def dest!: find_in_set)
  with assms(1) show ?thesis by (auto simp: proposals_wf_def list_all_iff)
qed


lemma ex_proposal_read: "sql_readProposal (sv_store ex_service) ex_id ex_tables = Some ex_proposal"
  by (simp add: sql_readProposal_def ex_service_def ex_tables_def ps_scope_def ex_scope_def ex_proposal_def ex_id_def)

lemma ex_level: "level_at (ps_scope (sv_store ex_service)) FamilyTuning ClassIndexCreate ex_tables = 1"
  by code_simp

lemma ex_person: "humanActor ''user:1''" "uuidPattern ex_id" "Applicable FamilyTuning ClassIndexCreate"
  by code_simp+

lemma ex_met: "as_Met (Assess (lc_Thresholds (sv_cfg ex_service)) 2
    (evidence_at ex_service ex_instant FamilyTuning ClassIndexCreate ex_tables))"
  by code_simp


subsection \<open>An outcome that counts against a pair lowers it\<close>

lemma closePending_none:
  assumes "sql_closePending s f c status actor remark now d = (ps, d')" "status \<noteq> StatusPending"
  shows "(ps_scope s, f, c) \<notin> waiting_key ` set (filter is_pending (lg_proposals d'))"
  using assms by (auto simp: sql_closePending_def update_pending_def waiting_key_def is_pending_def)

lemma does_writeDemotion:
  assumes wf: "levels_wf d" and st: "stored_level (ps_scope (sv_store sv)) (dm_Family m) (dm_Class m) d = Some st"
    and ok: "Grantable (dm_To m)" "name_ok (dm_Family m)" "name_ok (dm_Class m)" "dm_Detail m \<noteq> []"
  obtains d' where "does True now (writeDemotion sv st m) d () d'"
    "level_at (ps_scope (sv_store sv)) (dm_Family m) (dm_Class m) d' = dm_To m"
    "(ps_scope (sv_store sv), dm_Family m, dm_Class m) \<notin> waiting_key ` set (filter is_pending (lg_proposals d'))"
proof -
  let ?s = "sv_store sv" and ?why = "truncate_to 1000 (dm_Detail m)"
  let ?ch = "\<lparr>ch_Family = dm_Family m, ch_Class = dm_Class m, ch_To = dm_To m, ch_ExpectVersion = st_Version st,
      ch_Actor = ActorPgSage, ch_Reason = ?why, ch_Evidence = RawDemotion m, ch_At = dm_At m\<rparr>"
  let ?e = "(ledger_entry (dm_Family m) (dm_Class m) EventAutoDowngraded ActorPgSage ?why (dm_At m))
      \<lparr>en_From := Some (dm_From m), en_To := Some (dm_To m), en_ActionLogID := dm_ActionLogID m,
       en_Evidence := RawDemotion m\<rparr>"
  have why: "1 \<le> length ?why" "length ?why \<le> 1000" using ok(4) by (cases "dm_Detail m"; simp add: truncate_to_def)+
  have "level_checks (written ?ch)" using ok why by (simp add: level_checks_def written_def Grantable_iff)
  with wf obtain d1 where w: "sql_writeLevel ?s ?ch d = (Inr (written ?ch), d1)"
    by (rule writeLevel_runs [of d ?ch ?s]) (simp_all add: st version_of_def)
  obtain ps d2 where cl: "sql_closePending ?s (dm_Family m) (dm_Class m) StatusSuperseded ActorPgSage
      (''superseded by a demotion: '' @ dm_Cause m) (dm_At m) d1 = (ps, d2)" by fastforce
  have ev: "sql_appendEvent ?s ?e d2 = (Inr (), d2\<lparr>lg_events := lg_events d2 @ [(ps_scope ?s, ?e)]\<rparr>)"
    using ok why by (intro appendEvent_runs) (simp_all add: ledger_entry_def)
  let ?d = "d2\<lparr>lg_events := lg_events d2 @ [(ps_scope ?s, ?e)]\<rparr>"
  have "does True now (writeDemotion sv st m) d () ?d"
    unfolding writeDemotion_def Let_def appendEvent_def
    apply (rule does_bind, rule does_stmt, rule w)
    apply (rule does_bind, rule does_update, rule cl)
    apply (rule does_stmt, rule ev)
    done
  moreover have "lg_levels ?d = lg_levels d1"
    using closePending_levels [of ?s "dm_Family m" "dm_Class m" StatusSuperseded ActorPgSage
        "''superseded by a demotion: '' @ dm_Cause m" "dm_At m" d1, unfolded cl snd_conv] by simp
  then have "stored_level (ps_scope ?s) (dm_Family m) (dm_Class m) ?d = Some (written ?ch)"
    using writeLevel_stored [OF w] stored_level_cong [of ?d d1] by simp
  then have "level_at (ps_scope ?s) (dm_Family m) (dm_Class m) ?d = dm_To m"
    by (simp add: level_at_def level_or_def written_def)
  moreover have "(ps_scope ?s, dm_Family m, dm_Class m) \<notin> waiting_key ` set (filter is_pending (lg_proposals ?d))"
    using closePending_none [OF cl] by simp
  ultimately show thesis by (rule that)
qed

lemma does_demoteOnce:
  assumes wf: "levels_wf d" and st: "stored_level (ps_scope (sv_store sv)) (oc_Family oc) (oc_Class oc) d = Some st"
    and ok: "st_Provenance st \<noteq> ProvenanceCarriedOver" "2 \<le> st_Level st"
      "oc_ObservedAt oc = None \<or> st_ChangedAt st < the (oc_ObservedAt oc)"
  obtains x d' where "does False now (demoteOnce sv oc cause) d x d'"
    "level_at (ps_scope (sv_store sv)) (oc_Family oc) (oc_Class oc) d' = st_Level st - 1"
    "(ps_scope (sv_store sv), oc_Family oc, oc_Class oc) \<notin> waiting_key ` set (filter is_pending (lg_proposals d'))"
proof -
  let ?blank = "\<lparr>dm_Database = ps_database (sv_store sv), dm_Family = oc_Family oc, dm_Class = oc_Class oc,
      dm_From = st_Level st, dm_To = DemotionTarget (st_Level st), dm_Cause = cause,
      dm_ActionLogID = oc_ActionLogID oc, dm_QueueID = oc_QueueID oc, dm_Detail = [], dm_At = now\<rparr>"
  let ?m = "?blank\<lparr>dm_Detail := demotionReason ?blank (oc_Actor oc)\<rparr>"
  have "level_checks st" using stored_level_in [OF st] wf by (auto simp: levels_wf_def list_all_iff)
  moreover have "st_Family st = oc_Family oc" "st_Class st = oc_Class oc" using stored_level_key [OF st] by auto
  ultimately have names: "name_ok (oc_Family oc)" "name_ok (oc_Class oc)" "st_Level st \<le> 3"
    by (auto simp: level_checks_def)
  have target: "DemotionTarget (st_Level st) = st_Level st - 1" using ok(2) by (simp add: DemotionTarget_def)
  have why: "demotionReason ?blank (oc_Actor oc) \<noteq> []" by (simp add: demotionReason_def Let_def)
  obtain d' where w: "does True now (writeDemotion sv st ?m) d () d'"
    "level_at (ps_scope (sv_store sv)) (dm_Family ?m) (dm_Class ?m) d' = dm_To ?m"
    "(ps_scope (sv_store sv), dm_Family ?m, dm_Class ?m) \<notin> waiting_key ` set (filter is_pending (lg_proposals d'))"
    by (rule does_writeDemotion [OF wf, of sv ?m st now])
      (use st names ok(2) target why in \<open>simp_all add: Grantable_iff\<close>)
  have r: "does True now (readLevel sv (oc_Family oc) (oc_Class oc)) d (Some st) d"
    using does_read [of True now "sql_readLevel (sv_store sv) (oc_Family oc) (oc_Class oc)" d] st
    by (simp add: readLevel_def sql_readLevel_def)
  have "does False now (demoteOnce sv oc cause) d (Some ?m) d'"
    unfolding demoteOnce_def Let_def
    apply (rule does_withTx, rule does_bind, rule r)
    using ok target apply (simp only: option.case if_False)
    apply (subst if_not_P)
     apply (auto split: option.splits)[1]
    apply (simp add: target)
    apply (rule does_bind, rule does_now)
    apply (rule does_bind, use w(1) target in simp)
    apply (simp add: target does_return)
    done
  then show thesis by (rule that) (use w(2,3) target in simp_all)
qed

text \<open>C34: An outcome that counts against a pair (a regression, a harmful result of a self-initiated class,
  a rejection or a rollback by an operator) is recorded and, alone and without failures, lowers the
  pair by exactly one level when its row is at L2 or L3, was not carried over and does not postdate what
  was observed; the waiting proposal of the pair is closed.\<close>

theorem demerit_lowers_pair:
  assumes alone: "gw_script w = []" "gw_tx w = None" and wf: "ledger_wf (gw_db w)"
    and oc: "validateOutcome oc = Inr ()" "oc_Database oc = ps_database (sv_store sv)"
      "demeritCause oc = Some cause"
      "fst (sql_insertOutcome (sv_store sv) (oc\<lparr>oc_At := gw_now w\<rparr>) (gw_db w)) = Inr True"
    and st: "stored_level (ps_scope (sv_store sv)) (oc_Family oc) (oc_Class oc) (gw_db w) = Some st"
      "st_Provenance st \<noteq> ProvenanceCarriedOver" "2 \<le> st_Level st"
      "oc_ObservedAt oc = None \<or> st_ChangedAt st < the (oc_ObservedAt oc)"
  shows "\<exists>w'. RecordOutcome sv oc w = (Inr (), w') \<and>
    level_at (ps_scope (sv_store sv)) (oc_Family oc) (oc_Class oc) (gw_db w') = st_Level st - 1 \<and>
    (ps_scope (sv_store sv), oc_Family oc, oc_Class oc)
      \<notin> waiting_key ` set (filter is_pending (lg_proposals (gw_db w')))"
proof -
  let ?s = "sv_store sv" and ?oc = "oc\<lparr>oc_At := gw_now w\<rparr>" and ?now = "gw_now w"
  obtain d1 where ins: "sql_insertOutcome ?s ?oc (gw_db w) = (Inr True, d1)"
    using oc(4) by (cases "sql_insertOutcome ?s ?oc (gw_db w)") simp
  have l: "lg_levels d1 = lg_levels (gw_db w)"
    using insertOutcome_same(1) [of ?s ?oc "gw_db w", unfolded ins snd_conv] .
  have "levels_wf d1" by (rule levels_wf_same [OF _ l]) (use wf in \<open>simp add: ledger_wf_def\<close>)
  moreover have "stored_level (ps_scope ?s) (oc_Family ?oc) (oc_Class ?oc) d1 = Some st"
    using st(1) stored_level_cong [OF l] by simp
  ultimately obtain x d' where d: "does False ?now (demoteOnce sv ?oc cause) d1 x d'"
    "level_at (ps_scope ?s) (oc_Family ?oc) (oc_Class ?oc) d' = st_Level st - 1"
    "(ps_scope ?s, oc_Family ?oc, oc_Class ?oc) \<notin> waiting_key ` set (filter is_pending (lg_proposals d'))"
    by (rule does_demoteOnce) (use st in simp_all)
  have "demeritCause ?oc = demeritCause oc" by (simp add: demeritCause_def)
  with oc(3) have cause: "demeritCause ?oc = Some cause" by simp
  have ins': "does False ?now (linvalidate (insertOutcome sv ?oc)) (gw_db w) True d1"
    unfolding insertOutcome_def
    by (rule does_invalidate, rule does_bind [OF does_check], use oc(2) in \<open>simp add: checkDatabase_def\<close>,
        rule does_stmt, rule ins)
  have "does False ?now (recordOutcomeDemoting sv oc) (gw_db w) (True, x) d'"
    unfolding recordOutcomeDemoting_def Let_def demoteForDemerit_def
    apply (rule does_bind [OF does_check], rule oc(1))
    apply (rule does_bind, rule does_now)
    apply (rule does_bind, rule ins')
    apply (simp only: cause option.case simp_thms if_False)
    apply (rule does_bind, rule does_invalidate, rule does_retry, rule d(1))
    apply (rule does_return)
    done
  then have "does False ?now (RecordOutcome sv oc) (gw_db w) () d'"
    unfolding RecordOutcome_def recordOutcome_def
    by (rule does_bind [OF does_bind [OF _ does_return] does_return])
  from does_run [OF this alone(1) refl alone(2) refl] d(2,3) show ?thesis by auto
qed

lemma ex_demerit_counts:
  "validateOutcome ex_demerit = Inr ()" "demeritCause ex_demerit = Some CauseRegressed"
  "fst (sql_insertOutcome (sv_store ex_service) (ex_demerit\<lparr>oc_At := ex_instant\<rparr>) (ex_trusted 3)) = Inr True"
  by code_simp+

lemma ex_trusted_row:
  "stored_level (ps_scope (sv_store ex_service)) FamilyTuning ClassIndexCreate (ex_trusted 3) = Some (ex_row 3)"
  by (simp add: stored_level_def level_is_def ex_trusted_def ex_row_def ps_scope_def ex_service_def ex_scope_def)

theorem demerit_lowers_pair_witness:
  "\<exists>w'. RecordOutcome ex_service ex_demerit (ex_ledger_world (ex_trusted 3)) = (Inr (), w') \<and>
     level_at ex_scope FamilyTuning ClassIndexCreate (gw_db w') = 2"
  using demerit_lowers_pair [of "ex_ledger_world (ex_trusted 3)" ex_demerit ex_service CauseRegressed "ex_row 3"]
    ex_demerit_counts ex_trusted_row ex_trusted_wf
  by (auto simp: ex_ledger_world_def ex_demerit_def ex_outcome_def ex_row_def ex_service_def ps_scope_def ex_scope_def)

subsection \<open>Approvals that are refused\<close>

definition fails :: "bool \<Rightarrow> instant \<Rightarrow> 'a led \<Rightarrow> ledger_db \<Rightarrow> ledger_error \<Rightarrow> bool" where
  "fails t now m d e \<longleftrightarrow> (\<forall>w. alone t now d w \<longrightarrow> (\<exists>w'. m w = (Inl e, w') \<and> gw_script w' = [] \<and> gw_db w' = gw_db w))"

lemma fails_fail: "fails t now (lfail e) d e"
  by (simp add: fails_def lfail_def alone_def)

lemma fails_bind: "fails t now m d e \<Longrightarrow> fails t now (lbind m f) d e"
  unfolding fails_def lbind_def by fastforce

text \<open>What a call does before it fails must leave the tables as they are.\<close>

lemma fails_after:
  assumes "\<And>w. alone t now d w \<Longrightarrow> m w = (Inr a, w)" "fails t now (f a) d e"
  shows "fails t now (lbind m f) d e"
  using assms unfolding fails_def lbind_def by simp

lemma reads_now: "alone t now d w \<Longrightarrow> lnow w = (Inr now, w)"
  by (simp add: alone_def lnow_def)

lemma reads_read: "alone t now d w \<Longrightarrow> lread g w = (Inr (g d), w)"
  by (auto simp: alone_def view_def lread_def ledger_tick_def split: option.splits)

lemma reads_bind:
  "(\<And>w. alone t now d w \<Longrightarrow> m w = (Inr a, w)) \<Longrightarrow> (\<And>w. alone t now d w \<Longrightarrow> f a w = (Inr b, w)) \<Longrightarrow>
   alone t now d w \<Longrightarrow> lbind m f w = (Inr b, w)"
  by (simp add: lbind_def)

lemma reads_return: "alone t now d w \<Longrightarrow> lreturn a w = (Inr a, w)"
  by (simp add: lreturn_def)

lemma reads_evidence: "alone t now d w \<Longrightarrow> Evidence_of sv f c w = (Inr (evidence_at sv now f c d), w)"
proof (cases "IsSelfInitiated f")
  case True
  show "alone t now d w \<Longrightarrow> ?thesis" unfolding Evidence_of_def evidence_at_def Let_def if_P [OF True]
    by (rule reads_bind [OF reads_now] reads_bind [OF reads_read] reads_return | assumption)+
next
  case False
  show "alone t now d w \<Longrightarrow> ?thesis" unfolding Evidence_of_def evidence_at_def Let_def if_not_P [OF False]
    by (rule reads_bind [OF reads_now] reads_bind [OF reads_read] reads_return | assumption)+
qed

lemma reads_proposal:
  assumes "uuidPattern i" "sql_readProposal (sv_store sv) i d = Some p" "alone t now d w"
  shows "readProposal sv i False w = (Inr p, w)"
  using assms reads_read [OF assms(3), of "sql_readProposal (sv_store sv) i"]
  by (simp add: readProposal_def lbind_def lreturn_def)

lemma fails_invalidate: "fails t now m d e \<Longrightarrow> fails t now (linvalidate m) d e"
  by (fastforce simp: fails_def linvalidate_def invalidate_def)

lemma fails_withTx:
  assumes "fails True now m d e"
  shows "fails False now (withTx m) d e"
proof (unfold fails_def, intro allI impI)
  fix w
  assume w: "alone False now d w"
  then have "alone True now d (w\<lparr>gw_tx := Some Some\<rparr>)" by (auto simp: alone_def view_def)
  with assms obtain w1 where "m (w\<lparr>gw_tx := Some Some\<rparr>) = (Inl e, w1)" "gw_script w1 = []" "gw_db w1 = gw_db w"
    unfolding fails_def by fastforce
  then show "\<exists>w'. withTx m w = (Inl e, w') \<and> gw_script w' = [] \<and> gw_db w' = gw_db w"
    using w by (auto simp: withTx_def ledger_tick_def alone_def)
qed

lemma fails_approval_tx:
  assumes p: "sql_readProposal (sv_store sv) (pp_ID p) d = Some p" "pp_Status p = StatusPending" "uuidPattern (pp_ID p)"
    and moved: "pp_From p \<noteq> level_at (ps_scope (sv_store sv)) (pp_Family p) (pp_Class p) d"
  shows "fails True now (approval_tx sv p approver remark evidence now) d (ErrConflict ''the level moved since the proposal'')"
proof (unfold fails_def, intro allI impI)
  fix w
  assume w: "alone True now d w"
  obtain w1 where w1: "readProposal sv (pp_ID p) True w = (Inr p, w1)" "alone True now d w1" "gw_db w1 = gw_db w"
  proof -
    obtain tx where "gw_tx w = Some tx" "tx (gw_db w) = Some d" "gw_script w = []" "gw_now w = now"
      using w by (auto simp: alone_def view_def)
    then show thesis
      using p that by (auto simp: readProposal_def lbind_def lreturn_def lstmt_def ledger_tick_def alone_def view_def tx_then_def)
  qed
  have "readLevel sv (pp_Family p) (pp_Class p) w1 =
      (Inr (stored_level (ps_scope (sv_store sv)) (pp_Family p) (pp_Class p) d), w1)"
    using reads_read [OF w1(2), of "sql_readLevel (sv_store sv) (pp_Family p) (pp_Class p)"]
    by (simp add: readLevel_def sql_readLevel_def)
  then have "approval_tx sv p approver remark evidence now w =
      (Inl (ErrConflict ''the level moved since the proposal''), w1)"
    using w1(1) p(2) moved by (simp add: approval_tx_def lbind_def lfail_def level_at_def)
  then show "\<exists>w'. approval_tx sv p approver remark evidence now w =
      (Inl (ErrConflict ''the level moved since the proposal''), w') \<and> gw_script w' = [] \<and> gw_db w' = gw_db w"
    using w1 by (simp add: alone_def)
qed

text \<open>A proposal that does not start from the level stored for its own pair is never approved, however
  good its evidence: the approval reports that the level moved, or that the evidence is not met, and
  changes nothing.\<close>

theorem moved_level_refuses_approval:
  assumes alone: "gw_script w = []" "gw_tx w = None" and wf: "ledger_wf (gw_db w)"
    and person: "humanActor approver" "length remark \<le> 2000"
    and p: "sql_readProposal (sv_store sv) i (gw_db w) = Some p" "pp_Status p = StatusPending" "uuidPattern i"
      "gw_now w < pp_ExpiresAt p" "Applicable (pp_Family p) (pp_Class p)"
    and moved: "pp_From p \<noteq> level_at (ps_scope (sv_store sv)) (pp_Family p) (pp_Class p) (gw_db w)"
  shows "\<exists>e w'. Approve sv i approver remark w = (Inl e, w') \<and> gw_db w' = gw_db w \<and>
    (is_conflict e \<or> (\<exists>a. e = EvidenceNotMetError a))"
proof -
  let ?d = "gw_db w" and ?now = "gw_now w"
  let ?ev = "evidence_at sv ?now (pp_Family p) (pp_Class p) ?d"
  let ?a = "Assess (lc_Thresholds (sv_cfg sv)) (pp_To p) ?ev"
  let ?e = "if as_Met ?a then ErrConflict ''the level moved since the proposal'' else EvidenceNotMetError ?a"
  have i: "pp_ID p = i" using p(1) by (rule readProposal_id)
  have to: "pp_To p \<le> CapForPair (pp_Family p) (pp_Class p)" "Grantable (pp_To p)"
    using readProposal_wf [OF _ p(1)] wf CapForPair_range(2) [of "pp_Family p" "pp_Class p"]
    by (auto simp: ledger_wf_def Grantable_iff)
  have check: "checkDecidable sv p v = (Inr (), v)" if "alone False ?now ?d v" for v
    using p(2,4,5) to that by (simp add: checkDecidable_def lbind_def lnow_def lreturn_def alone_def not_less)
  have "fails True ?now (approval_tx sv p approver remark (RawAssessed ?ev ?a) ?now) ?d
      (ErrConflict ''the level moved since the proposal'')"
    by (rule fails_approval_tx) (use p i moved in simp_all)
  then have tx: "fails False ?now (applyApproval sv p approver remark ?ev ?a) ?d
      (ErrConflict ''the level moved since the proposal'')"
    unfolding applyApproval_def by (intro fails_after [OF reads_now] fails_invalidate fails_withTx) simp_all
  have "fails False ?now (lbind (readProposal sv i False) (\<lambda>p. lbind (checkDecidable sv p) (\<lambda>_.
      lbind (Evidence_of sv (pp_Family p) (pp_Class p)) (\<lambda>ev.
        let a = Assess (lc_Thresholds (sv_cfg sv)) (pp_To p) ev
        in if \<not> as_Met a then lfail (EvidenceNotMetError a) else applyApproval sv p approver remark ev a)))) ?d ?e"
    by (rule fails_after [OF reads_proposal [OF p(3,1)]], assumption, rule fails_after [OF check], assumption,
        rule fails_after [OF reads_evidence], assumption) (simp add: Let_def tx fails_fail)
  then obtain w' where "Approve sv i approver remark w = (Inl ?e, w')" "gw_db w' = ?d"
    using alone person unfolding fails_def by (auto simp: Approve_def alone_outside)
  then show ?thesis by (intro exI [of _ ?e] exI [of _ w']) (simp add: is_conflict_def)
qed

lemma ex_moved_wf: "ledger_wf ((ex_trusted 3)\<lparr>lg_proposals := [(ex_scope, ex_proposal)]\<rparr>)"
  by code_simp

lemma ex_moved_level:
  "level_at (ps_scope (sv_store ex_service)) FamilyTuning ClassIndexCreate
     ((ex_trusted 3)\<lparr>lg_proposals := [(ex_scope, ex_proposal)]\<rparr>) = 3"
  by code_simp

theorem moved_level_refuses_approval_witness:
  "\<exists>e w'. Approve ex_service ex_id ''user:1'' []
       (ex_ledger_world ((ex_trusted 3)\<lparr>lg_proposals := [(ex_scope, ex_proposal)]\<rparr>)) = (Inl e, w') \<and>
     (is_conflict e \<or> (\<exists>a. e = EvidenceNotMetError a))"
  using moved_level_refuses_approval [of "ex_ledger_world ((ex_trusted 3)\<lparr>lg_proposals := [(ex_scope, ex_proposal)]\<rparr>)"
      "''user:1''" "[]" ex_service ex_id ex_proposal] ex_person ex_moved_wf ex_moved_level
  by (auto simp: ex_ledger_world_def sql_readProposal_def ex_service_def ps_scope_def ex_scope_def ex_proposal_def
      ex_id_def hour_def minute_def second_def)

end
