(* ===== verification/Limiter_Props.thy ===== *)
theory Limiter_Props
  imports Ledger_Alone
begin

text \<open>
  What the limiter answers the gate: never more than the grant, the class and contract caps and the
  evidence allow, at most L1 under any downgrade signal or unreadable source, and nothing at all when
  the ledger cannot be read. Composed with the gate: what runs unattended holds a level of 3 that the
  ledger's history tells.
\<close>

subsection \<open>Levels read\<close>

lemma composed_lowest:
  "foldl (\<lambda>l p. MinLevel [l, cl p]) l0 comps \<le> l0"
  "p \<in> set comps \<Longrightarrow> foldl (\<lambda>l p. MinLevel [l, cl p]) l0 comps \<le> cl p"
proof -
  show le: "foldl (\<lambda>l p. MinLevel [l, cl p]) l0 comps \<le> l0" for l0 comps
  proof (induction comps arbitrary: l0)
    case (Cons q comps)
    show ?case using Cons [of "MinLevel [l0, cl q]"] by simp
  qed simp
  show "p \<in> set comps \<Longrightarrow> foldl (\<lambda>l p. MinLevel [l, cl p]) l0 comps \<le> cl p" for l0
  proof (induction comps arbitrary: l0)
    case (Cons q comps)
    then show ?case using le [of "MinLevel [l0, cl q]" comps] by auto
  qed simp
qed

lemma composed_level_bounds:
  assumes "ComponentClasses (st_Class st) \<noteq> []"
  shows "list_all (\<lambda>p. st_Level (composedLevel st found cl) \<le> cl p) (ComponentClasses (st_Class st)) \<and>
    st_Level (composedLevel st found cl) \<le> (if found then st_Level st else MaxGrantable) \<and>
    st_Level (composedLevel st found cl) \<le> MaxGrantable"
proof -
  let ?comps = "ComponentClasses (st_Class st)" and ?low = "foldl (\<lambda>l p. MinLevel [l, cl p]) MaxGrantable (ComponentClasses (st_Class st))"
  have "st_Level (composedLevel st found cl) = (if found then MinLevel [st_Level st, ?low] else ?low)"
    using assms by (cases "ComponentClasses (st_Class st)") (simp_all add: composedLevel_def Let_def)
  then show ?thesis
    using composed_lowest(1) [of cl MaxGrantable ?comps] composed_lowest(2) [of _ ?comps cl MaxGrantable]
    by (auto simp: list_all_iff min_le_iff_disj)
qed

text \<open>A composite class is bounded by its parts: its level is at most the level of every component,
  and at most its own row's when it has one, and never above the highest grantable level.\<close>

theorem composite_bounded_by_components:
  assumes "ComponentClasses (st_Class st) \<noteq> []"
  shows "list_all (\<lambda>p. st_Level (composedLevel st found cl) \<le> cl p) (ComponentClasses (st_Class st)) \<and>
    st_Level (composedLevel st found cl) \<le> (if found then st_Level st else MaxGrantable) \<and>
    st_Level (composedLevel st found cl) \<le> MaxGrantable"
  using assms by (rule composed_level_bounds)

theorem composite_bounded_by_components_witness:
  "st_Level (composedLevel ((ex_row 3)\<lparr>st_Class := ClassIndexReplace\<rparr>) True (\<lambda>p. if snd p = ClassIndexDrop then 1 else 3)) \<le> 1"
proof -
  let ?st = "(ex_row 3)\<lparr>st_Class := ClassIndexReplace\<rparr>"
  have c: "ComponentClasses (st_Class ?st) = [(FamilyTuning, ClassIndexCreate), (FamilyHygiene, ClassIndexDrop)]"
    by code_simp
  from composite_bounded_by_components [of ?st True "\<lambda>p. if snd p = ClassIndexDrop then 1 else 3"]
  show ?thesis unfolding c by simp
qed

lemma lbind_ok: "lbind m f w = (Inr b, w') \<longleftrightarrow> (\<exists>a w1. m w = (Inr a, w1) \<and> f a w1 = (Inr b, w'))"
  by (auto simp: lbind_def split: prod.splits sum.splits)

definition reached :: "ledger_world \<Rightarrow> ledger_world \<Rightarrow> bool" where
  "reached w w1 \<longleftrightarrow> ledger_steps (gw_db w) (gw_db w1) \<and> open_ledger w1 \<and> gw_tx w1 = None"

lemma reached_trans: "reached w w1 \<Longrightarrow> reached w1 w2 \<Longrightarrow> reached w w2"
  by (auto simp: reached_def)

lemma reached_call: "ledger_call m \<Longrightarrow> reached w w1 \<Longrightarrow> m w1 = (r, w2) \<Longrightarrow> reached w w2"
  using ledger_call.call [of m w1 r w2] by (auto simp: reached_def)

lemma lmapM_levels:
  assumes "\<And>p. ledger_call (G p)" "reached w w1"
    "lmapM (\<lambda>p. lbind (G p) (\<lambda>cs. lreturn (p, st_Level cs))) ps w1 = (Inr ls, w')"
  shows "map fst ls = ps \<and>
    list_all (\<lambda>(p, l). \<exists>v v' cs. reached w v \<and> G p v = (Inr cs, v') \<and> l = st_Level cs) ls"
  using assms(2,3)
proof (induction ps arbitrary: w1 ls)
  case (Cons p ps)
  from Cons.prems(2) obtain cs w2 ls' where g: "G p w1 = (Inr cs, w2)"
    and m: "lmapM (\<lambda>p. lbind (G p) (\<lambda>cs. lreturn (p, st_Level cs))) ps w2 = (Inr ls', w')"
    and ls: "ls = (p, st_Level cs) # ls'"
    unfolding lmapM.simps lbind_ok by (auto simp: lreturn_def)
  from Cons.IH [OF reached_call [OF assms(1) Cons.prems(1) g] m] g Cons.prems(1) show ?case
    unfolding ls by auto
qed (simp add: lreturn_def)

lemma components_plain: "list_all (\<lambda>(c, ps). list_all (\<lambda>p. ComponentClasses (snd p) = []) ps) composites"
  by code_simp

lemma component_plain: "p \<in> set (ComponentClasses c) \<Longrightarrow> ComponentClasses (snd p) = []"
proof -
  assume p: "p \<in> set (ComponentClasses c)"
  then obtain ps where "map_of composites c = Some ps" "p \<in> set ps"
    by (cases "map_of composites c") (simp_all add: ComponentClasses_def)
  with map_of_SomeD [of composites c ps] components_plain show ?thesis by (auto simp: list_all_iff)
qed

text \<open>Who holds a level above L1 holds a row: its own, or a component's.\<close>

lemma granted_row:
  assumes "reached w0 w" "granted_within n sv f c w = (Inr st, w')" "1 < st_Level st"
  shows "\<exists>f' c' v row. reached w0 v \<and> stored_level (ps_scope (sv_store sv)) f' c' (gw_db v) = Some row \<and>
    st_Level st \<le> st_Level row \<and> (f', c') \<in> set ((f, c) # ComponentClasses c)"
  using assms
proof (induction n arbitrary: f c w w' st)
  case 0
  then show ?case by (simp add: lfail_def)
next
  case (Suc n)
  let ?base = "\<lambda>row. case row of Some st \<Rightarrow> st | None \<Rightarrow> defaultState f c"
  from Suc.prems(2) obtain row w1 where r: "readLevel sv f c w = (Inr row, w1)"
    and b: "boundByComponents (granted_within n sv) (?base row) (row \<noteq> None) w1 = (Inr st, w')"
    unfolding granted_within.simps lbind_ok by blast
  have w1: "reached w0 w1" using reached_call [OF call_readLevel Suc.prems(1) r] .
  have o: "open_ledger w" "gw_tx w = None" using Suc.prems(1) by (simp_all add: reached_def)
  have row: "row = stored_level (ps_scope (sv_store sv)) f c (gw_db w1)"
    using r o(2) by (auto simp: readLevel_def lread_def sql_readLevel_def dest: tick_steps [OF o(1)]
        split: option.splits fault.splits prod.splits)
  have key: "st_Class (?base row) = c"
    using row stored_level_key [of _ f c] by (auto simp: defaultState_def State0_def split: option.splits)
  from b obtain ls w2 where m: "lmapM (\<lambda>p. lbind (granted_within n sv (fst p) (snd p)) (\<lambda>cs. lreturn (p, st_Level cs)))
      (ComponentClasses c) w1 = (Inr ls, w2)"
    and st: "st = composedLevel (?base row) (row \<noteq> None) (\<lambda>p. case map_of ls p of Some l \<Rightarrow> l | None \<Rightarrow> L0)"
    unfolding boundByComponents_def lbind_ok key by (auto simp: lreturn_def)
  note ls = lmapM_levels [OF call_granted_within w1 m]
  show ?case
  proof (cases row)
    case (Some own)
    have "st_Level st \<le> st_Level own"
    proof (cases "ComponentClasses (st_Class (?base row)) = []")
      case True
      then show ?thesis by (simp add: st Some composedLevel_def)
    next
      case False
      from composed_level_bounds [OF this, of True] show ?thesis by (simp add: st Some)
    qed
    with Some row w1 show ?thesis 
      by (rule_tac x = f in exI, rule_tac x = c in exI, rule_tac x = w1 in exI, rule_tac x = own in exI) simp
  next
    case None
    have ne: "ComponentClasses c \<noteq> []"
    proof
      assume "ComponentClasses c = []"
      then have "st_Level st = defaultLevel f"
        using key by (simp add: st None composedLevel_def defaultState_def State0_def)
      then show False using Suc.prems(3) defaultLevel_range(2) [of f] by simp
    qed
    then obtain p where p: "p \<in> set (ComponentClasses c)" by (cases "ComponentClasses c") auto
    with ls obtain l where l: "map_of ls p = Some l"
      by (metis fst_conv list.set_map map_of_eq_None_iff not_Some_eq option.exhaust)
    with ls obtain v v' cs where v: "reached w0 v" "granted_within n sv (fst p) (snd p) v = (Inr cs, v')" "l = st_Level cs"
      by (auto simp: list_all_iff dest!: map_of_SomeD)
    have "st_Level st \<le> l"
      using composed_level_bounds [of "?base row" "row \<noteq> None" "\<lambda>p. case map_of ls p of Some l \<Rightarrow> l | None \<Rightarrow> L0"]
        ne p l unfolding key st by (auto simp: list_all_iff)
    with Suc.prems(3) v(3) have "1 < st_Level cs" by simp
    from Suc.IH [OF v(1,2) this] component_plain [OF p] obtain u row where
      "reached w0 u" "stored_level (ps_scope (sv_store sv)) (fst p) (snd p) (gw_db u) = Some row"
      "st_Level cs \<le> st_Level row" by auto
    with v(3) \<open>st_Level st \<le> l\<close> p show ?thesis
      by (rule_tac x = "fst p" in exI, rule_tac x = "snd p" in exI, rule_tac x = u in exI,
          rule_tac x = row in exI) simp
  qed
qed

subsection \<open>The limit of a request\<close>

text \<open>A limit taken apart: the pair's grant, the evidence where it counts, and the signals.\<close>

definition evidence_counts :: "State \<Rightarrow> ActionRequest \<Rightarrow> Family \<Rightarrow> ActionClass \<Rightarrow> bool" where
  "evidence_counts st req f c \<longleftrightarrow> 2 \<le> capped_level st req f c \<and>
     st_Provenance st \<noteq> ProvenanceCarriedOver \<and> \<not> IsSelfInitiated f"

definition judged :: "Limiter \<Rightarrow> ActionRequest \<Rightarrow> Family \<Rightarrow> ActionClass \<Rightarrow> State \<Rightarrow> ledger_world \<Rightarrow> AutonomyLimit \<Rightarrow> bool" where
  "judged l req f c st w1 limit \<longleftrightarrow> (\<exists>level w2 downs w3. requestDowngrades l req f w2 = (downs, w3) \<and>
     (if evidence_counts st req f c
      then \<exists>supported. supportedLevel (lm_svc l) f c w1 = (Inr supported, w2) \<and>
        level = MinLevel [capped_level st req f c, supported]
      else w2 = w1 \<and> level = capped_level st req f c) \<and>
     al_Reasons limit = map dg_Reason downs \<and>
     (if downs \<noteq> [] then al_Level limit = MinLevel [level, L1] \<and> al_Downgraded limit
      else al_Level limit = level \<and> \<not> al_Downgraded limit))"

lemma Limit_ok:
  assumes "Limit l req w = (Inr limit, w')" "FamilyForRequest req = (f, c)"
  obtains st w1 where "checkDatabase (sv_store (lm_svc l)) (bd_Database (lm_b l)) = Inr ()"
    "Granted (lm_svc l) f c w = (Inr st, w1)" "al_Granted limit = st_Level st" "al_Family limit = f" "al_Class limit = c"
    "if st_Level st < 2 then al_Level limit = capped_level st req f c \<and> \<not> al_Downgraded limit
     else judged l req f c st w1 limit"
proof -
  have "lcheck (checkDatabase (sv_store (lm_svc l)) (bd_Database (lm_b l))) w = (Inr (), w)"
    using assms(1) unfolding Limit_def lbind_ok by (auto simp: lcheck_def)
  then have db: "checkDatabase (sv_store (lm_svc l)) (bd_Database (lm_b l)) = Inr ()" by (simp add: lcheck_def)
  from assms(1) obtain st w1 where g: "Granted (lm_svc l) f c w = (Inr st, w1)"
    and t: "(let level = capped_level st req f c;
             out = \<lparr>al_Level = level, al_Granted = st_Level st, al_Downgraded = False,
                    al_Reasons = [], al_Class = c, al_Family = f\<rparr>
         in if st_Level st < L2 then lreturn out
            else lbind (if level \<ge> L2 \<and> st_Provenance st \<noteq> ProvenanceCarriedOver \<and> \<not> IsSelfInitiated f
                        then lbind (supportedLevel (lm_svc l) f c) (\<lambda>supported. lreturn (MinLevel [level, supported]))
                        else lreturn level) (\<lambda>level w.
              case requestDowngrades l req f w of (downs, w) \<Rightarrow>
                let w = noteTransition l f c downs w
                in (Inr (if downs \<noteq> []
                         then out\<lparr>al_Level := MinLevel [level, L1], al_Downgraded := True,
                                  al_Reasons := map dg_Reason downs\<rparr>
                         else out\<lparr>al_Level := level\<rparr>), w))) w1 = (Inr limit, w')"
    unfolding Limit_def lbind_ok assms(2) prod.case by (auto simp: lcheck_def)
  show thesis
  proof (cases "st_Level st < 2")
    case True
    with t have limit: "limit = \<lparr>al_Level = capped_level st req f c, al_Granted = st_Level st, al_Downgraded = False,
                    al_Reasons = [], al_Class = c, al_Family = f\<rparr>" by (simp add: lreturn_def Let_def)
    show thesis by (rule that [OF db g]) (use True limit in simp_all)
  next
    case False
    let ?out = "\<lparr>al_Level = capped_level st req f c, al_Granted = st_Level st, al_Downgraded = False,
                    al_Reasons = [], al_Class = c, al_Family = f\<rparr>"
    let ?counts = "2 \<le> capped_level st req f c \<and> st_Provenance st \<noteq> ProvenanceCarriedOver \<and> \<not> IsSelfInitiated f"
    obtain level w3 where m: "(if ?counts
          then lbind (supportedLevel (lm_svc l) f c) (\<lambda>supported. lreturn (MinLevel [capped_level st req f c, supported]))
          else lreturn (capped_level st req f c)) w1 = (Inr level, w3)"
      and k: "(case requestDowngrades l req f w3 of (downs, w) \<Rightarrow>
                (Inr (if downs \<noteq> []
                      then ?out\<lparr>al_Level := MinLevel [level, L1], al_Downgraded := True,
                             al_Reasons := map dg_Reason downs\<rparr>
                      else ?out\<lparr>al_Level := level\<rparr>), noteTransition l f c downs w)) =
              (Inr limit :: ledger_error + AutonomyLimit, w')"
      using t unfolding Let_def if_not_P [OF False] lbind_ok by (elim exE conjE) (rule that)
    obtain downs w4 where d: "requestDowngrades l req f w3 = (downs, w4)" by fastforce
    have "if ?counts then \<exists>supported. supportedLevel (lm_svc l) f c w1 = (Inr supported, w3) \<and>
           level = MinLevel [capped_level st req f c, supported]
         else w3 = w1 \<and> level = capped_level st req f c"
    proof (cases ?counts)
      case True
      with m show ?thesis unfolding if_P [OF True] lbind_ok by (auto simp: lreturn_def)
    next
      case False
      with m show ?thesis unfolding if_not_P [OF False] by (auto simp: lreturn_def)
    qed
    note ev = this
    from k d have limit: "limit = (if downs \<noteq> []
                         then \<lparr>al_Level = MinLevel [level, L1], al_Granted = st_Level st, al_Downgraded = True,
                    al_Reasons = map dg_Reason downs, al_Class = c, al_Family = f\<rparr>
                         else \<lparr>al_Level = level, al_Granted = st_Level st, al_Downgraded = False,
                    al_Reasons = [], al_Class = c, al_Family = f\<rparr>)" by (auto split: if_splits)
    show thesis
    proof (rule that [OF db g])
      show "if st_Level st < 2 then al_Level limit = capped_level st req f c \<and> \<not> al_Downgraded limit
        else judged l req f c st w1 limit"
        unfolding judged_def evidence_counts_def if_not_P [OF False]
        by (rule_tac x = level in exI, rule_tac x = w3 in exI, rule_tac x = downs in exI, rule_tac x = w4 in exI)
          (use d ev limit in \<open>auto split: if_splits\<close>)
    qed (simp_all add: limit)
  qed
qed

lemma capped_level_le:
  "capped_level st req f c \<le> st_Level st" "capped_level st req f c \<le> effectiveCap st c"
  "capped_level st req f c \<le> contractCap req" "\<not> Applicable f c \<Longrightarrow> capped_level st req f c \<le> 1"
  by (auto simp: capped_level_def Let_def)

lemma effectiveCap_range: "effectiveCap st c \<le> 3"
  using carryCap_range(2) [of c] CapForPair_range(2) [of "st_Family st" c] CapFor_range(2) [of c]
  by (auto simp: effectiveCap_def)

text \<open>The limiter never answers more than the ledger, the class and the contract allow: at most the
  level it reads as granted, at most the rollback cap of the request's contract (L1 without one) and
  at most L3; at most L1 for a pair that is not applicable, and at most L1, with its reasons, when
  a downgrade signal holds.\<close>

theorem Limit_bounded:
  assumes "Limit l req w = (Inr limit, w')" "FamilyForRequest req = (f, c)"
  shows "al_Level limit \<le> al_Granted limit \<and> al_Level limit \<le> contractCap req \<and> al_Level limit \<le> 3 \<and>
    (\<not> Applicable f c \<longrightarrow> al_Level limit \<le> 1) \<and>
    (al_Downgraded limit \<longrightarrow> al_Level limit \<le> 1 \<and> al_Reasons limit \<noteq> [])"
proof -
  from assms obtain st w1 where st: "al_Granted limit = st_Level st"
    and d: "if st_Level st < 2 then al_Level limit = capped_level st req f c \<and> \<not> al_Downgraded limit
      else judged l req f c st w1 limit" by (rule Limit_ok) blast
  then have "al_Level limit \<le> capped_level st req f c \<and>
      (al_Downgraded limit \<longrightarrow> al_Level limit \<le> 1 \<and> al_Reasons limit \<noteq> [])"
    by (auto simp: judged_def split: if_splits)
  then show ?thesis
    using st capped_level_le(1-3) [of st req f c] capped_level_le(4) [of f c st req] effectiveCap_range [of st c] by force
qed

lemma ex_limit:
  "case fst (Limit ex_ledger_limiter ex_self_request (ex_ledger_world (ex_trusted 3))) of
     Inr limit \<Rightarrow> al_Level limit = 3 | Inl _ \<Rightarrow> False"
  "FamilyForRequest ex_self_request = (FamilyTuning, ClassIndexCreate)"
  by code_simp+

theorem Limit_bounded_witness:
  "case fst (Limit ex_ledger_limiter ex_self_request (ex_ledger_world (ex_trusted 3))) of
     Inr limit \<Rightarrow> al_Level limit \<le> contractCap ex_self_request \<and> al_Level limit \<le> al_Granted limit
   | Inl _ \<Rightarrow> False"
proof -
  obtain limit w' where l: "Limit ex_ledger_limiter ex_self_request (ex_ledger_world (ex_trusted 3)) = (Inr limit, w')"
    using ex_limit(1) by (cases "Limit ex_ledger_limiter ex_self_request (ex_ledger_world (ex_trusted 3))")
      (auto split: sum.splits)
  from Limit_bounded [OF this ex_limit(2)] show ?thesis by (simp add: l)
qed

definition ha_doubt :: "err + HAState \<Rightarrow> bool" where
  "ha_doubt r = (case r of Inl _ \<Rightarrow> True | Inr st \<Rightarrow> ha_Role st \<noteq> RolePrimary \<or> ha_SafeMode st)"

definition budget_doubt :: "err + BudgetState \<Rightarrow> bool" where
  "budget_doubt r = (case r of Inl _ \<Rightarrow> True | Inr st \<Rightarrow> bs_Configured st \<and> (bs_FastBurning st \<or> bs_Unknown st))"

definition concurrency_doubt :: "err + int \<Rightarrow> bool" where
  "concurrency_doubt r = (case r of Inl _ \<Rightarrow> True | Inr n \<Rightarrow> 0 < n)"

text \<open>Doubt about the database, its error budget, or, for an incident's remediation, its evidence or what
  else is running on its objects.\<close>

definition in_doubt :: "Limiter \<Rightarrow> ActionRequest \<Rightarrow> Family \<Rightarrow> bool" where
  "in_doubt l req f \<longleftrightarrow>
     (\<forall>v. case bd_HA (lm_b l) of None \<Rightarrow> True | Some source \<Rightarrow> ha_doubt (source v)) \<or>
     (\<forall>v. case bd_Budget (lm_b l) of None \<Rightarrow> False | Some source \<Rightarrow> budget_doubt (source (bd_Database (lm_b l)) v)) \<or>
     \<not> IsSelfInitiated f \<and>
       (IsZero (r_EvidenceObservedAt req) \<or> r_TargetObjs req = [] \<or>
        (\<forall>v. case bd_Concurrency (lm_b l) of None \<Rightarrow> True
         | Some source \<Rightarrow> concurrency_doubt (source (r_TargetObjs req) (r_LeaseHeld req)
             (lc_ConcurrencyWindow (sv_cfg (lm_svc l))) v)))"

lemma requestDowngrades_doubt:
  assumes "in_doubt l req f" "requestDowngrades l req f w = (downs, w')"
  shows "downs \<noteq> []"
proof -
  have ha: "haState l v \<noteq> []" if "case bd_HA (lm_b l) of None \<Rightarrow> True | Some source \<Rightarrow> ha_doubt (source v)" for v
    using that by (cases "bd_HA (lm_b l)") (auto simp: haState_def ha_doubt_def split: sum.splits)
  have bu: "budget_downgrades l v \<noteq> []"
    if "case bd_Budget (lm_b l) of None \<Rightarrow> False | Some source \<Rightarrow> budget_doubt (source (bd_Database (lm_b l)) v)" for v
    using that by (cases "bd_Budget (lm_b l)") (auto simp: budget_downgrades_def budget_doubt_def split: sum.splits)
  have ev: "evidenceAge l (r_EvidenceObservedAt req) v @ concurrency l req v \<noteq> []"
    if "IsZero (r_EvidenceObservedAt req) \<or> r_TargetObjs req = [] \<or>
        (case bd_Concurrency (lm_b l) of None \<Rightarrow> True
         | Some source \<Rightarrow> concurrency_doubt (source (r_TargetObjs req) (r_LeaseHeld req)
             (lc_ConcurrencyWindow (sv_cfg (lm_svc l))) v))" for v
    using that by (cases "bd_Concurrency (lm_b l)"; cases "r_TargetObjs req")
      (auto simp: evidenceAge_def concurrency_def concurrency_doubt_def Let_def split: sum.splits)
  show ?thesis
  proof (cases "IsSelfInitiated f")
    case True
    then have d: "downs = budget_downgrades l w @ haState l w"
      using assms(2) by (auto simp: requestDowngrades_def selfDowngrades_def)
    from assms(1) True consider "haState l w \<noteq> []" | "budget_downgrades l w \<noteq> []"
      using ha bu unfolding in_doubt_def by blast
    then show ?thesis by cases (simp_all add: d)
  next
    case False
    obtain s v where s: "safety l f w = (s, v)" by fastforce
    with assms(2) False have d: "downs = (budget_downgrades l w @ haState l w) @ s @
        (evidenceAge l (r_EvidenceObservedAt req) v @ concurrency l req v)"
      by (auto simp: requestDowngrades_def databaseDowngrades_def Let_def)
    from assms(1) consider "haState l w \<noteq> []" | "budget_downgrades l w \<noteq> []"
      | "evidenceAge l (r_EvidenceObservedAt req) v @ concurrency l req v \<noteq> []"
      using ha bu ev unfolding in_doubt_def by blast
    then show ?thesis by cases (auto simp: d)
  qed
qed

text \<open>Any doubt holds a request at L1, whatever the ledger granted: no high-availability source, one
  that cannot be read, or one that says the database is not the primary or is in safe mode; an error
  budget that cannot be read, burns fast or is unknown; and for an incident's remediation, evidence
  without a time, no target, or other actions on its objects that run or cannot be counted.\<close>

theorem doubt_holds_at_L1:
  assumes "Limit l req w = (Inr limit, w')" "FamilyForRequest req = (f, c)" "in_doubt l req f"
  shows "al_Level limit \<le> 1"
proof -
  from assms(1,2) obtain st w1 where
    d: "if st_Level st < 2 then al_Level limit = capped_level st req f c \<and> \<not> al_Downgraded limit
      else judged l req f c st w1 limit" by (rule Limit_ok) blast
  show ?thesis
  proof (cases "st_Level st < 2")
    case True
    with d show ?thesis using capped_level_le(1) [of st req f c] by simp
  next
    case False
    with d obtain level w2 downs w3 where "requestDowngrades l req f w2 = (downs, w3)"
      "downs \<noteq> [] \<Longrightarrow> al_Level limit = MinLevel [level, L1]" by (auto simp: judged_def split: if_splits)
    with requestDowngrades_doubt [OF assms(3)] show ?thesis by simp
  qed
qed

subsection \<open>The gate and the ledger\<close>


lemma ex_trusted_replays: "replays (ex_trusted 3)"
  by (auto simp: replays_def told_def level_entry_def level_event_def stored_level_def level_is_def ex_trusted_def
      ex_row_def ledger_entry_def ledger_db0_def)

definition ex_ledger_cfg :: "ledger_world GateConfig" where
  "ex_ledger_cfg = (GateConfig0 ex_clock ex_lib)\<lparr>gc_Autonomy := Some (ledger_limiter ex_ledger_limiter)\<rparr>"

lemma ex_ledger_gate:
  "governedByAutonomy ex_ledger_cfg ex_self_request"
  "d_Verdict (fst (restrictAutonomy ex_ledger_cfg \<lparr>ctx_Principal = None, ctx_Tx = None\<rparr> UnattendedProfile
     RuntimeState0 ex_self_request (blockedAs VerdictExecute ReasonAuthorized) (ex_ledger_world (ex_trusted 3)))) = VerdictExecute"
  "\<not> mandatoryDeadline UnattendedProfile ex_self_request (gate_now ex_ledger_cfg NowMandatory)"
  by code_simp+


subsection \<open>Overrides of a mandatory deadline\<close>

lemma reads_mapM:
  "(\<And>x. x \<in> set xs \<Longrightarrow> f x w = (Inr (g x), w)) \<Longrightarrow> lmapM f xs w = (Inr (map g xs), w)"
  by (induction xs) (simp_all add: lbind_def lreturn_def)

text \<open>The level of a pair as the tables hold it.\<close>

definition own_state :: "Service \<Rightarrow> ledger_db \<Rightarrow> Family \<Rightarrow> ActionClass \<Rightarrow> State" where
  "own_state sv d f c = (case stored_level (ps_scope (sv_store sv)) f c d of Some st \<Rightarrow> st | None \<Rightarrow> defaultState f c)"

lemma own_state_class [simp]: "st_Class (own_state sv d f c) = c"
  using stored_level_key [of "ps_scope (sv_store sv)" f c d]
  by (auto simp: own_state_def defaultState_def State0_def split: option.splits)

definition granted_at :: "Service \<Rightarrow> ledger_db \<Rightarrow> Family \<Rightarrow> ActionClass \<Rightarrow> State" where
  "granted_at sv d f c = composedLevel (own_state sv d f c) (stored_level (ps_scope (sv_store sv)) f c d \<noteq> None)
     (\<lambda>p. case map_of (map (\<lambda>p. (p, st_Level (own_state sv d (fst p) (snd p)))) (ComponentClasses c)) p of
        Some l \<Rightarrow> l | None \<Rightarrow> L0)"

lemma reads_level: "alone t now d w \<Longrightarrow> readLevel sv f c w = (Inr (stored_level (ps_scope (sv_store sv)) f c d), w)"
  using reads_read [of t now d w "sql_readLevel (sv_store sv) f c"] by (simp add: readLevel_def sql_readLevel_def)

lemma reads_granted_plain:
  assumes "ComponentClasses c = []" "alone t now d w"
  shows "granted_within (Suc n) sv f c w = (Inr (own_state sv d f c), w)"
proof -
  have "st_Class (case stored_level (ps_scope (sv_store sv)) f c d of Some st \<Rightarrow> st | None \<Rightarrow> defaultState f c) = c"
    using own_state_class [of sv d f c] by (simp add: own_state_def)
  then show ?thesis
    unfolding granted_within.simps boundByComponents_def
    using reads_level [OF assms(2), of sv f c] assms(1)
    by (simp add: lbind_def lreturn_def composedLevel_def own_state_def)
qed

lemma reads_granted:
  assumes "alone t now d w"
  shows "Granted sv f c w = (Inr (granted_at sv d f c), w)"
proof -
  let ?base = "case stored_level (ps_scope (sv_store sv)) f c d of Some st \<Rightarrow> st | None \<Rightarrow> defaultState f c"
  have b: "st_Class ?base = c" using own_state_class [of sv d f c] by (simp add: own_state_def)
  have "lbind (granted_within 1 sv (fst p) (snd p)) (\<lambda>cs. lreturn (p, st_Level cs)) w =
      (Inr (p, st_Level (own_state sv d (fst p) (snd p))), w)" if "p \<in> set (ComponentClasses c)" for p
    using reads_granted_plain [OF component_plain [OF that] assms, of 0 sv "fst p"] by (simp add: lbind_def lreturn_def)
  note m = reads_mapM [of "ComponentClasses c" "\<lambda>p. lbind (granted_within 1 sv (fst p) (snd p)) (\<lambda>cs. lreturn (p, st_Level cs))"
      w "\<lambda>p. (p, st_Level (own_state sv d (fst p) (snd p)))", OF this]
  have "granted_within (Suc 1) sv f c w = (Inr (granted_at sv d f c), w)"
    unfolding granted_within.simps boundByComponents_def granted_at_def own_state_def [of sv d f c]
    using reads_level [OF assms, of sv f c] m b by (simp add: lbind_def lreturn_def)
  then show ?thesis by (simp add: Granted_def numeral_2_eq_2)
qed

text \<open>A deadline override of a self-initiated request is never recorded: the entry is written under
  the request's incident family, which such a request does not have, and the history refuses
  an entry without a family. The tables stay as they are, and the claim of the override is dropped.\<close>

theorem self_override_unrecorded:
  assumes "gw_script w = []" "gw_tx w = None" "TrimSpace (r_IncidentFamily req) = []"
  shows "gw_db (RecordDeadlineOverride l req d w) = gw_db w"
proof (cases "r_Deadline req")
  case (Some dl)
  let ?c = "ClassFor req"
  obtain k b w1 where cl: "claimOverride [] ?c req dl w = ((k, b), w1)" by (metis prod.exhaust)
  then obtain v where w1: "w1 = w\<lparr>gw_overrides := v\<rparr>"
    by (auto simp: claimOverride_def Let_def split: if_splits)
  then have a: "alone False (gw_now w) (gw_db w) w1" using assms by (simp add: alone_outside)
  have "gw_db (snd (appendOverride l [] ?c req dl d w1)) = gw_db w \<and> isl (fst (appendOverride l [] ?c req dl d w1))"
    using reads_granted [OF a, of "lm_svc l" "[]" ?c] w1 assms(1,2)
    by (simp add: appendOverride_def lbind_def lnow_def appendEvent_def lstmt_def ledger_tick_def
        sql_appendEvent_def name_ok_def ledger_entry_def)
  then show ?thesis
    unfolding RecordDeadlineOverride_def Some option.case Let_def assms(3) cl
    using w1 by (cases b) (auto split: prod.split sum.split)
qed (simp add: RecordDeadlineOverride_def)

definition ex_deadline_request :: ActionRequest where
  "ex_deadline_request = ex_self_request\<lparr>r_Deadline := Some \<lparr>dl_Kind = DeadlineXID, dl_Urgency = UrgencyCritical,
     dl_HardAt = ex_instant + hour\<rparr>\<rparr>"

theorem self_override_unrecorded_witness:
  "gw_db (RecordDeadlineOverride ex_ledger_limiter ex_deadline_request (blockedAs VerdictExecute ReasonAuthorized)
     (ex_ledger_world (ex_trusted 3))) = ex_trusted 3"
  using self_override_unrecorded [of "ex_ledger_world (ex_trusted 3)" ex_deadline_request ex_ledger_limiter
      "blockedAs VerdictExecute ReasonAuthorized"]
  by (simp add: ex_ledger_world_def ex_deadline_request_def ex_self_request_def ActionRequest0_def TrimSpace_def)

definition ex_replica_limiter :: Limiter where
  "ex_replica_limiter = ex_ledger_limiter\<lparr>lm_b := ex_binding\<lparr>bd_HA :=
     Some (\<lambda>_. Inr \<lparr>ha_Role = ''replica'', ha_SafeMode = False, ha_LastRoleChange = 0\<rparr>)\<rparr>\<rparr>"

lemma ex_replica_limit: "\<not> isl (fst (Limit ex_replica_limiter ex_self_request (ex_ledger_world (ex_trusted 3))))"
proof -
  let ?w = "ex_ledger_world (ex_trusted 3)"
  have "alone False ex_instant (ex_trusted 3) ?w" by (simp add: alone_outside ex_ledger_world_def)
  from reads_granted [OF this, of ex_service FamilyTuning ClassIndexCreate]
  have g: "Granted (lm_svc ex_replica_limiter) FamilyTuning ClassIndexCreate ?w =
      (Inr (granted_at ex_service (ex_trusted 3) FamilyTuning ClassIndexCreate), ?w)"
    by (simp add: ex_replica_limiter_def ex_ledger_limiter_def)
  have "checkDatabase (sv_store (lm_svc ex_replica_limiter)) (bd_Database (lm_b ex_replica_limiter)) = Inr ()"
    by (simp add: checkDatabase_def ex_replica_limiter_def ex_ledger_limiter_def ex_service_def ex_binding_def)
  then show ?thesis
    by (simp add: Limit_def lbind_def lcheck_def ex_limit(2) g IsSelfInitiated_def lreturn_def Let_def split: prod.split)
qed

theorem doubt_holds_at_L1_witness:
  "case fst (Limit ex_replica_limiter ex_self_request (ex_ledger_world (ex_trusted 3))) of
     Inr limit \<Rightarrow> al_Level limit \<le> 1 | Inl _ \<Rightarrow> False"
proof -
  obtain limit w' where l: "Limit ex_replica_limiter ex_self_request (ex_ledger_world (ex_trusted 3)) = (Inr limit, w')"
    using ex_replica_limit by (metis isl_def old.sum.exhaust prod.exhaust_sel)
  have "in_doubt ex_replica_limiter ex_self_request FamilyTuning"
    by (simp add: in_doubt_def ex_replica_limiter_def ex_ledger_limiter_def ha_doubt_def)
  from doubt_holds_at_L1 [OF l ex_limit(2) this] show ?thesis by (simp add: l)
qed

end
