(* ===== verification/Audit_Chain.thy ===== *)
theory Audit_Chain
  imports Sha256
begin

text \<open>
  The audit chains of \<^verbatim>\<open>sidecar/internal/auditchain\<close> (\<^verbatim>\<open>spec.go\<close>,
  \<^verbatim>\<open>link.go\<close>, \<^verbatim>\<open>install.go\<close>): the specifications of the chained tables,
  links and their hash, the link table, and what the installed triggers do. A row of an audit table
  is its id, the canonical texts of its sealed and of its state columns (what
  \<^verbatim>\<open>sealedSQL\<close> and \<^verbatim>\<open>stateSQL\<close> evaluate to on it) and its three chain
  columns. A transaction is a list of row operations; the row triggers are deferred to its commit,
  the truncate trigger fires at once.
\<close>

subsection \<open>Specifications\<close>

record Spec =
  sp_Chain :: string
  sp_Table :: string
  sp_Version :: int
  sp_Sealed :: "string list"
  sp_State :: "string list"
  sp_Optional :: bool

datatype audit_error =
    BadChain string
  | BadTable string string
  | BadVersion string
  | NoSealed string
  | NoDatabase string
  | InvalidWindow string int int
  | ErrNotInstalled
  | SqlError string
  | Wrapped string audit_error

definition lower_name :: "nat \<Rightarrow> string \<Rightarrow> bool" where
  "lower_name n s =
     (case s of
        [] \<Rightarrow> False
      | c # cs \<Rightarrow> in_range 97 122 c \<and> length cs \<le> n \<and>
          list_all (\<lambda>c. in_range 97 122 c \<or> is_digit c \<or> c = CHR ''_'') cs)"

definition chainName :: "string \<Rightarrow> bool" where
  "chainName = lower_name 40"

definition tableName :: "string \<Rightarrow> bool" where
  "tableName s = (HasPrefix s ''sage.'' \<and> lower_name 50 (drop 5 s))"

definition validate :: "Spec \<Rightarrow> audit_error + unit" where
  "validate s =
     (if \<not> chainName (sp_Chain s) then Inl (BadChain (sp_Chain s))
      else if \<not> tableName (sp_Table s) then Inl (BadTable (sp_Chain s) (sp_Table s))
      else if sp_Version s < 1 then Inl (BadVersion (sp_Chain s))
      else if length (sp_Sealed s) = 0 then Inl (NoSealed (sp_Chain s))
      else Inr ())"

definition epochUS :: "string \<Rightarrow> string" where
  "epochUS c = ''(extract(epoch FROM %[1]s.'' @ c @ '') * 1000000)::bigint''"

definition col :: "string \<Rightarrow> string" where
  "col name = ''%[1]s.'' @ name"

definition ActionLog :: Spec where
  "ActionLog = \<lparr>sp_Chain = ''action_log'', sp_Table = ''sage.action_log'', sp_Version = 1,
     sp_Sealed = [col ''id'', epochUS ''executed_at'', col ''action_type'', col ''finding_id'',
       col ''sql_executed'', col ''rollback_sql'', col ''before_state'', col ''approved_by'',
       epochUS ''approved_at'', col ''decision_id'', col ''database_id''],
     sp_State = [col ''outcome'', col ''rollback_reason'', epochUS ''measured_at'',
       col ''after_state'', col ''verification_id'', col ''justification'',
       col ''toil_minutes_saved'', col ''toil_model_version''],
     sp_Optional = False\<rparr>"

definition AuthAudit :: Spec where
  "AuthAudit = \<lparr>sp_Chain = ''auth_audit'', sp_Table = ''sage.auth_audit'', sp_Version = 1,
     sp_Sealed = [col ''id'', col ''event'', col ''actor_user_id'', col ''target_user_id'',
       col ''detail'', epochUS ''created_at'', col ''source_ip''],
     sp_State = [], sp_Optional = False\<rparr>"

definition ConfigAudit :: Spec where
  "ConfigAudit = \<lparr>sp_Chain = ''config_audit'', sp_Table = ''sage.config_audit'', sp_Version = 1,
     sp_Sealed = [col ''id'', col ''key'', col ''old_value'', col ''new_value'',
       col ''database_id'', col ''changed_by'', epochUS ''changed_at'', col ''changed_by_actor''],
     sp_State = [], sp_Optional = False\<rparr>"

definition GuardQueryAudit :: Spec where
  "GuardQueryAudit = \<lparr>sp_Chain = ''guard_query_audit'', sp_Table = ''sage.guard_query_audit'',
     sp_Version = 1,
     sp_Sealed = [col ''id'', col ''database_id'' @ ''::text'', col ''principal_id'', col ''task_id'',
       col ''envelope_hash'', col ''verdict'', col ''reason'', col ''row_count'', col ''classes'',
       epochUS ''at''],
     sp_State = [], sp_Optional = True\<rparr>"

definition PGAuditEvents :: Spec where
  "PGAuditEvents = \<lparr>sp_Chain = ''pgaudit_events'', sp_Table = ''sage.guard_pgaudit_events'',
     sp_Version = 1,
     sp_Sealed = [col ''id'', col ''database_name'', epochUS ''logged_at'', col ''session_id'',
       col ''pid'', col ''db_user'', col ''application'', col ''principal_id'', col ''action_id'',
       col ''audit_type'', col ''statement_id'', col ''substatement_id'', col ''class'',
       col ''command'', col ''object_type'', col ''object_name'', col ''statement'',
       col ''correlated_by''],
     sp_State = [], sp_Optional = False\<rparr>"

definition Specs :: "Spec list" where
  "Specs = [ActionLog, AuthAudit, ConfigAudit, GuardQueryAudit, PGAuditEvents]"

definition SpecFor :: "string \<Rightarrow> Spec option" where
  "SpecFor chain = find (\<lambda>s. sp_Chain s = chain) Specs"

lemma builtin_specs:
  "list_all (\<lambda>s. validate s = Inr ()) Specs" "distinct (map sp_Chain Specs)" "distinct (map sp_Table Specs)"
  by code_simp+

subsection \<open>Links\<close>

definition Genesis :: string where
  "Genesis = replicate 64 (CHR ''0'')"

record Link =
  lk_Seq :: int
  lk_RowID :: int
  lk_Op :: string
  lk_V :: int
  lk_SealedHash :: string
  lk_State :: string
  lk_PrevHash :: string
  lk_Hash :: string
  lk_At :: instant
  lk_DBUser :: string
  lk_App :: string

definition preimage :: "Link \<Rightarrow> string" where
  "preimage l = Join [lk_PrevHash l, itoa (lk_Seq l), lk_Op l, itoa (lk_RowID l), itoa (lk_V l),
     lk_SealedHash l, lk_State l] ''|''"

definition sha_hex :: "string \<Rightarrow> string" where
  "sha_hex s = EncodeToString (Sum256 (utf8 s))"

definition LinkHash :: "Link \<Rightarrow> string" where
  "LinkHash l = sha_hex (preimage l)"

subsection \<open>Tables\<close>

record audit_row =
  ar_ID :: int
  ar_Sealed :: string
  ar_State :: string
  ar_ChainSeq :: "int option"
  ar_PrevHash :: "string option"
  ar_Hash :: "string option"

record audit_db =
  ad_Links :: "(string \<times> Link) list"
  ad_Meta :: "(string \<times> int) list"
  ad_Rows :: "string \<Rightarrow> audit_row list option"

text \<open>The boundary that the installation of a chain recorded.\<close>

definition ad_Legacy :: "audit_db \<Rightarrow> string \<Rightarrow> int option" where
  "ad_Legacy db = map_of (ad_Meta db)"

lemma ad_Legacy_simps [simp]:
  "ad_Legacy (db\<lparr>ad_Links := links\<rparr>) = ad_Legacy db" "ad_Legacy (db\<lparr>ad_Rows := rows\<rparr>) = ad_Legacy db"
  "ad_Legacy (db\<lparr>ad_Meta := (c, v) # ad_Meta db\<rparr>) = (ad_Legacy db)(c \<mapsto> v)"
  by (simp_all add: ad_Legacy_def fun_eq_iff)

definition sealedHash :: "audit_row \<Rightarrow> string" where
  "sealedHash r = sha_hex (ar_Sealed r)"

definition stateText :: "Spec \<Rightarrow> audit_row \<Rightarrow> string" where
  "stateText s r = (if sp_State s = [] then [] else ar_State r)"

text \<open>The links of a chain in the order of their positions.\<close>

definition chain_links :: "string \<Rightarrow> audit_db \<Rightarrow> Link list" where
  "chain_links chain db = sort_key lk_Seq (map snd (filter (\<lambda>(c, _). c = chain) (ad_Links db)))"

definition table_rows :: "string \<Rightarrow> audit_db \<Rightarrow> audit_row list" where
  "table_rows t db = (case ad_Rows db t of None \<Rightarrow> [] | Some rows \<Rightarrow> rows)"

definition set_rows :: "string \<Rightarrow> audit_row list \<Rightarrow> audit_db \<Rightarrow> audit_db" where
  "set_rows t rows db = db\<lparr>ad_Rows := (ad_Rows db)(t \<mapsto> rows)\<rparr>"

subsection \<open>Triggers\<close>

text \<open>What a link says of the session that wrote it.\<close>

record session =
  ss_At :: instant
  ss_User :: string
  ss_App :: string

definition audit_chain_append ::
    "session \<Rightarrow> string \<Rightarrow> int \<Rightarrow> string \<Rightarrow> int \<Rightarrow> string \<Rightarrow> string \<Rightarrow> audit_db \<Rightarrow>
     audit_error + (Link \<times> audit_db)" where
  "audit_chain_append ss chain row op v sealed state db =
     (let links = chain_links chain db;
          (seq, prev) = (if links = [] then (0, Genesis) else (lk_Seq (last links), lk_Hash (last links)))
      in if seq + 1 > max64 then Inl (SqlError ''bigint out of range'')
         else (let l = \<lparr>lk_Seq = seq + 1, lk_RowID = row, lk_Op = op, lk_V = v, lk_SealedHash = sealed,
                        lk_State = state, lk_PrevHash = prev, lk_Hash = [], lk_At = ss_At ss,
                        lk_DBUser = ss_User ss, lk_App = ss_App ss\<rparr>;
                   link = l\<lparr>lk_Hash := LinkHash l\<rparr>
               in Inr (link, db\<lparr>ad_Links := ad_Links db @ [(chain, link)]\<rparr>)))"

text \<open>A deferred trigger event with the row it fires for.\<close>

datatype trigger_event = Inserted audit_row | Updated audit_row | Deleted audit_row

primrec event_row :: "trigger_event \<Rightarrow> audit_row" where
  "event_row (Inserted r) = r"
| "event_row (Updated r) = r"
| "event_row (Deleted r) = r"

primrec event_op :: "trigger_event \<Rightarrow> string" where
  "event_op (Inserted r) = ''I''"
| "event_op (Updated r) = ''U''"
| "event_op (Deleted r) = ''D''"

definition event_state :: "Spec \<Rightarrow> trigger_event \<Rightarrow> string" where
  "event_state s ev = (case ev of Deleted _ \<Rightarrow> [] | _ \<Rightarrow> stateText s (event_row ev))"

definition carry :: "Link \<Rightarrow> audit_row \<Rightarrow> audit_row" where
  "carry l r = r\<lparr>ar_ChainSeq := Some (lk_Seq l), ar_PrevHash := Some (lk_PrevHash l),
     ar_Hash := Some (lk_Hash l)\<rparr>"

definition audit_chain_link :: "Spec \<Rightarrow> session \<Rightarrow> trigger_event \<Rightarrow> audit_db \<Rightarrow> audit_error + audit_db" where
  "audit_chain_link s ss ev db =
     (let r = event_row ev
      in ebind (audit_chain_append ss (sp_Chain s) (ar_ID r) (event_op ev) (sp_Version s)
           (sealedHash r) (event_state s ev) db) (\<lambda>(link, db).
         Inr (case ev of
                Inserted _ \<Rightarrow> set_rows (sp_Table s)
                  (map (\<lambda>row. if ar_ID row = ar_ID r then carry link row else row)
                    (table_rows (sp_Table s) db)) db
              | _ \<Rightarrow> db)))"

subsection \<open>Transactions\<close>

datatype row_op =
    InsertRow int string string
  | UpdateRow int string string
  | DeleteRow int
  | TruncateTable

definition new_row :: "int \<Rightarrow> string \<Rightarrow> string \<Rightarrow> audit_row" where
  "new_row i sealed state = \<lparr>ar_ID = i, ar_Sealed = sealed, ar_State = state, ar_ChainSeq = None,
     ar_PrevHash = None, ar_Hash = None\<rparr>"

definition insert_row ::
    "Spec \<Rightarrow> int \<Rightarrow> string \<Rightarrow> string \<Rightarrow> audit_db \<times> trigger_event list \<Rightarrow>
     audit_error + (audit_db \<times> trigger_event list)" where
  "insert_row s i sealed state = (\<lambda>(db, pending).
     let rows = table_rows (sp_Table s) db; r = new_row i sealed state
     in if i \<in> ar_ID ` set rows then Inl (SqlError ''duplicate key value'')
        else Inr (set_rows (sp_Table s) (rows @ [r]) db, pending @ [Inserted r]))"

text \<open>An update fires its trigger only when the state text changes, and only where the table has
  state columns.\<close>

definition update_row ::
    "Spec \<Rightarrow> int \<Rightarrow> string \<Rightarrow> string \<Rightarrow> audit_db \<times> trigger_event list \<Rightarrow> audit_db \<times> trigger_event list" where
  "update_row s i sealed state = (\<lambda>(db, pending).
     let rows = table_rows (sp_Table s) db;
         change = (\<lambda>r. r\<lparr>ar_Sealed := sealed, ar_State := state\<rparr>);
         changed = map change (filter (\<lambda>r. ar_ID r = i \<and> stateText s r \<noteq> stateText s (change r)) rows)
     in (set_rows (sp_Table s) (map (\<lambda>r. if ar_ID r = i then change r else r) rows) db,
         pending @ map Updated changed))"

definition delete_row ::
    "Spec \<Rightarrow> int \<Rightarrow> audit_db \<times> trigger_event list \<Rightarrow> audit_db \<times> trigger_event list" where
  "delete_row s i = (\<lambda>(db, pending).
     let rows = table_rows (sp_Table s) db
     in (set_rows (sp_Table s) (filter (\<lambda>r. ar_ID r \<noteq> i) rows) db,
         pending @ map Deleted (filter (\<lambda>r. ar_ID r = i) rows)))"

text \<open>PostgreSQL refuses to truncate a table with pending trigger events.\<close>

definition truncate_table ::
    "Spec \<Rightarrow> session \<Rightarrow> audit_db \<times> trigger_event list \<Rightarrow> audit_error + (audit_db \<times> trigger_event list)" where
  "truncate_table s ss = (\<lambda>(db, pending).
     if pending \<noteq> [] then Inl (SqlError ''cannot TRUNCATE because it has pending trigger events'')
     else ebind (audit_chain_append ss (sp_Chain s) 0 ''T'' 1 [] [] db) (\<lambda>(_, db).
            Inr (set_rows (sp_Table s) [] db, [])))"

fun row_step ::
    "Spec \<Rightarrow> session \<Rightarrow> row_op \<Rightarrow> audit_db \<times> trigger_event list \<Rightarrow>
     audit_error + (audit_db \<times> trigger_event list)" where
  "row_step s ss (InsertRow i sealed state) x = insert_row s i sealed state x"
| "row_step s ss (UpdateRow i sealed state) x = Inr (update_row s i sealed state x)"
| "row_step s ss (DeleteRow i) x = Inr (delete_row s i x)"
| "row_step s ss TruncateTable x = truncate_table s ss x"

fun row_steps ::
    "Spec \<Rightarrow> session \<Rightarrow> row_op list \<Rightarrow> audit_db \<times> trigger_event list \<Rightarrow>
     audit_error + (audit_db \<times> trigger_event list)" where
  "row_steps s ss [] x = Inr x"
| "row_steps s ss (op # ops) x = ebind (row_step s ss op x) (row_steps s ss ops)"

fun fire :: "Spec \<Rightarrow> session \<Rightarrow> trigger_event list \<Rightarrow> audit_db \<Rightarrow> audit_error + audit_db" where
  "fire s ss [] db = Inr db"
| "fire s ss (ev # evs) db = ebind (audit_chain_link s ss ev db) (fire s ss evs)"

text \<open>A transaction that fails leaves the tables as they were.\<close>

definition audit_tx :: "Spec \<Rightarrow> session \<Rightarrow> row_op list \<Rightarrow> audit_db \<Rightarrow> audit_error + audit_db" where
  "audit_tx s ss ops db = ebind (row_steps s ss ops (db, [])) (\<lambda>(db, pending). fire s ss pending db)"

subsection \<open>Installing\<close>

text \<open>The boundary of the rows that were there before; it is never moved.\<close>

definition install :: "Spec \<Rightarrow> audit_db \<Rightarrow> audit_db" where
  "install s db =
     (case ad_Rows db (sp_Table s) of
        None \<Rightarrow> db
      | Some rows \<Rightarrow>
          (if ad_Legacy db (sp_Chain s) \<noteq> None then db
           else db\<lparr>ad_Meta := (sp_Chain s, if rows = [] then 0 else Max (set (map ar_ID rows))) #
                  ad_Meta db\<rparr>))"

end
