(* ===== verification/Audit_Verify.thy ===== *)
theory Audit_Verify
  imports Audit_Chain "HOL-Library.AList"
begin

text \<open>
  The verifier of the audit chains (\<^verbatim>\<open>verify.go\<close>, \<^verbatim>\<open>rows.go\<close> and the
  reads of \<^verbatim>\<open>link.go\<close>). Every query sees the tables as committed when it runs, so a
  script says, for every query, what other sessions committed before it and whether it fails. Go's
  maps are association lists; where the code's result depends on the order in which a map is
  visited, that order is a function of the world. The walk over the links counts positions with
  64-bit integers and may not end, so it gives an option.
\<close>

subsection \<open>World\<close>

datatype query_fault = QueryFails string | ScanFails string

record audit_event =
  ae_others :: "audit_db \<Rightarrow> audit_db"
  ae_fault :: "query_fault option"

record audit_world =
  aw_db :: audit_db
  aw_script :: "audit_event list"
  aw_visit :: "(string \<times> int) list \<Rightarrow> (string \<times> int) list"
  aw_now :: instant

type_synonym 'a aud = "audit_world \<Rightarrow> (audit_error + 'a) \<times> audit_world"

definition areturn :: "'a \<Rightarrow> 'a aud" where "areturn a w = (Inr a, w)"

definition abind :: "'a aud \<Rightarrow> ('a \<Rightarrow> 'b aud) \<Rightarrow> 'b aud" where
  "abind m f w = (case m w of (Inl e, w) \<Rightarrow> (Inl e, w) | (Inr a, w) \<Rightarrow> f a w)"

definition audit_tick :: "audit_world \<Rightarrow> query_fault option \<times> audit_world" where
  "audit_tick w =
     (case aw_script w of
        [] \<Rightarrow> (None, w)
      | e # es \<Rightarrow> (ae_fault e, w\<lparr>aw_db := ae_others e (aw_db w), aw_script := es\<rparr>))"

text \<open>A query, with the texts its two kinds of error are wrapped in.\<close>

definition aquery :: "string \<Rightarrow> string \<Rightarrow> (audit_db \<Rightarrow> audit_error + 'a) \<Rightarrow> 'a aud" where
  "aquery onQuery onScan f w =
     (case audit_tick w of
        (Some (QueryFails e), w) \<Rightarrow> (Inl (Wrapped onQuery (SqlError e)), w)
      | (Some (ScanFails e), w) \<Rightarrow> (Inl (Wrapped onScan (SqlError e)), w)
      | (None, w) \<Rightarrow>
          (case f (aw_db w) of Inl e \<Rightarrow> (Inl (Wrapped onQuery e), w) | Inr a \<Rightarrow> (Inr a, w)))"

definition of_table :: "string \<Rightarrow> (audit_row list \<Rightarrow> 'a) \<Rightarrow> audit_db \<Rightarrow> audit_error + 'a" where
  "of_table t f db =
     (case ad_Rows db t of
        None \<Rightarrow> Inl (SqlError (''relation '' @ t @ '' does not exist''))
      | Some rows \<Rightarrow> Inr (f rows))"

subsection \<open>Reading links\<close>

definition Head :: "string \<Rightarrow> (int \<times> string) aud" where
  "Head chain = aquery (''auditchain: '' @ chain @ '' head'') (''auditchain: '' @ chain @ '' head'')
     (\<lambda>db. let links = chain_links chain db
           in Inr (if links = [] then (0, []) else (lk_Seq (last links), lk_Hash (last links))))"

definition LinksForRow :: "string \<Rightarrow> int \<Rightarrow> Link list aud" where
  "LinksForRow chain rowID =
     (let what = ''auditchain: '' @ chain @ '' links of row '' @ itoa rowID
      in aquery what what (\<lambda>db. Inr (filter (\<lambda>l. lk_RowID l = rowID) (chain_links chain db))))"

definition links_between :: "int \<Rightarrow> int \<Rightarrow> Link list \<Rightarrow> Link list" where
  "links_between lo hi = filter (\<lambda>l. lo \<le> lk_Seq l \<and> lk_Seq l \<le> hi)"

definition LinksInRange :: "string \<Rightarrow> int \<Rightarrow> int \<Rightarrow> nat \<Rightarrow> Link list aud" where
  "LinksInRange chain lo hi limit =
     (let what = ''auditchain: '' @ chain @ '' links '' @ itoa lo @ ''-'' @ itoa hi
      in aquery what what (\<lambda>db. Inr (take limit (links_between lo hi (chain_links chain db)))))"

subsection \<open>Reports\<close>

definition MaxProblems :: nat where "MaxProblems = 100"
definition linkBatch :: nat where "linkBatch = 2000"
definition rowBatch :: nat where "rowBatch = 500"

datatype Kind =
    KindGap
  | KindPrevMismatch
  | KindHashMismatch
  | KindRowMissing
  | KindRowEdited
  | KindStateEdited
  | KindRowLinkMismatch
  | KindUnchainedRow

record Window =
  wi_FromSeq :: int
  wi_ToSeq :: int

record Problem =
  pr_Kind :: Kind
  pr_Seq :: int
  pr_RowID :: int
  pr_Detail :: string

record Report =
  rp_Chain :: string
  rp_FromSeq :: int
  rp_ToSeq :: int
  rp_Links :: int
  rp_RowsChecked :: int
  rp_Deleted :: int
  rp_Truncations :: int
  rp_LegacyRows :: int
  rp_HeadSeq :: int
  rp_HeadHash :: string
  rp_Problems :: "Problem list"
  rp_ProblemsTruncated :: bool
  rp_VerifiedAt :: instant

definition OK :: "Report \<Rightarrow> bool" where
  "OK r = (length (rp_Problems r) = 0 \<and> \<not> rp_ProblemsTruncated r)"

definition add_problem :: "Problem \<Rightarrow> Report \<Rightarrow> Report" where
  "add_problem p r =
     (if length (rp_Problems r) \<ge> MaxProblems then r\<lparr>rp_ProblemsTruncated := True\<rparr>
      else r\<lparr>rp_Problems := rp_Problems r @ [p]\<rparr>)"

definition problem :: "Kind \<Rightarrow> int \<Rightarrow> int \<Rightarrow> string \<Rightarrow> Problem" where
  "problem k seq row detail = \<lparr>pr_Kind = k, pr_Seq = seq, pr_RowID = row, pr_Detail = detail\<rparr>"

subsection \<open>The verifier\<close>

record rowLinks =
  rl_insert :: "Link option"
  rl_sealed :: "(string \<times> int) list"
  rl_deleted :: bool

record verifier =
  ve_rep :: Report
  ve_prev :: string
  ve_prevKnown :: bool
  ve_rows :: "(int \<times> rowLinks) list"
  ve_legacy :: int

definition complain :: "Problem \<Rightarrow> verifier \<Rightarrow> verifier" where
  "complain p v = v\<lparr>ve_rep := add_problem p (ve_rep v)\<rparr>"

definition no_links :: rowLinks where
  "no_links = \<lparr>rl_insert = None, rl_sealed = [], rl_deleted = False\<rparr>"

definition note_link :: "Link \<Rightarrow> rowLinks \<Rightarrow> rowLinks" where
  "note_link l r =
     (let r = (if map_of (rl_sealed r) (lk_SealedHash l) \<noteq> None then r
               else r\<lparr>rl_sealed := rl_sealed r @ [(lk_SealedHash l, lk_Seq l)]\<rparr>)
      in if lk_Op l = ''I'' then r\<lparr>rl_insert := Some l\<rparr>
         else if lk_Op l = ''D'' then r\<lparr>rl_deleted := True\<rparr>
         else r)"

definition track :: "Link \<Rightarrow> verifier \<Rightarrow> verifier" where
  "track l v =
     (if lk_Op l = ''T''
      then v\<lparr>ve_rep := (ve_rep v)\<lparr>rp_Truncations := rp_Truncations (ve_rep v) + 1\<rparr>\<rparr>
      else (let v = (if lk_Op l = ''D''
                     then v\<lparr>ve_rep := (ve_rep v)\<lparr>rp_Deleted := rp_Deleted (ve_rep v) + 1\<rparr>\<rparr> else v);
                r = (case map_of (ve_rows v) (lk_RowID l) of None \<Rightarrow> no_links | Some r \<Rightarrow> r)
            in v\<lparr>ve_rows := AList.update (lk_RowID l) (note_link l r) (ve_rows v)\<rparr>))"

definition missing :: "int \<Rightarrow> int \<Rightarrow> string" where
  "missing lo hi = ''links '' @ itoa lo @ ''-'' @ itoa hi @ '' are missing''"

definition checkLink :: "Link \<Rightarrow> verifier \<times> int \<Rightarrow> verifier \<times> int" where
  "checkLink l = (\<lambda>(v, expected).
     let v = v\<lparr>ve_rep := (ve_rep v)\<lparr>rp_Links := rp_Links (ve_rep v) + 1\<rparr>\<rparr>;
         v = (if lk_Seq l \<noteq> expected
              then (complain (problem KindGap expected 0 (missing expected (wrap64 (lk_Seq l - 1)))) v)
                     \<lparr>ve_prevKnown := False\<rparr>
              else v);
         v = (if ve_prevKnown v \<and> lk_PrevHash l \<noteq> ve_prev v
              then complain (problem KindPrevMismatch (lk_Seq l) (lk_RowID l)
                ''the link does not follow its predecessor (removed or reordered)'') v
              else v);
         v = (if LinkHash l \<noteq> lk_Hash l
              then complain (problem KindHashMismatch (lk_Seq l) (lk_RowID l)
                ''the link's content was changed after it was written'') v
              else v)
     in (track l (v\<lparr>ve_prev := lk_Hash l, ve_prevKnown := True\<rparr>), wrap64 (lk_Seq l + 1)))"

definition start :: "Spec \<Rightarrow> int \<Rightarrow> verifier \<Rightarrow> verifier aud" where
  "start s lo v =
     (if lo = 1 then areturn (v\<lparr>ve_prev := Genesis, ve_prevKnown := True\<rparr>)
      else abind (aquery (''read link '' @ itoa (lo - 1)) (''read link '' @ itoa (lo - 1))
             (\<lambda>db. Inr (find (\<lambda>l. lk_Seq l = lo - 1) (chain_links (sp_Chain s) db)))) (\<lambda>found.
             areturn (case found of
                 None \<Rightarrow> complain (problem KindGap (lo - 1) 0 ''the link before the window is missing'') v
               | Some l \<Rightarrow> v\<lparr>ve_prev := lk_Hash l, ve_prevKnown := True\<rparr>)))"

partial_function (option) walk_loop ::
    "Spec \<Rightarrow> verifier \<Rightarrow> int \<Rightarrow> int \<Rightarrow> audit_world \<Rightarrow> ((audit_error + verifier) \<times> audit_world) option" where
  "walk_loop s v expected hi w =
     (if expected \<le> hi
      then (case LinksInRange (sp_Chain s) expected hi linkBatch w of
              (Inl e, w) \<Rightarrow> Some (Inl e, w)
            | (Inr links, w) \<Rightarrow>
                (if links = []
                 then Some (Inr (complain (problem KindGap expected 0 (missing expected hi)) v), w)
                 else (case fold checkLink links (v, expected) of
                         (v, expected) \<Rightarrow> walk_loop s v expected hi w)))
      else Some (Inr v, w))"

definition walk ::
    "Spec \<Rightarrow> int \<Rightarrow> int \<Rightarrow> verifier \<Rightarrow> audit_world \<Rightarrow> ((audit_error + verifier) \<times> audit_world) option" where
  "walk s lo hi v w =
     (case start s lo v w of
        (Inl e, w) \<Rightarrow> Some (Inl e, w)
      | (Inr v, w) \<Rightarrow> walk_loop s v lo hi w)"

subsection \<open>Rows\<close>

record liveRow =
  lv_chainSeq :: "int option"
  lv_prev :: "string option"
  lv_hash :: "string option"
  lv_sealed :: string
  lv_state :: string

record latestLink =
  la_seq :: int
  la_state :: string

definition live_of :: "Spec \<Rightarrow> audit_row \<Rightarrow> liveRow" where
  "live_of s r = \<lparr>lv_chainSeq = ar_ChainSeq r, lv_prev = ar_PrevHash r, lv_hash = ar_Hash r,
     lv_sealed = sealedHash r, lv_state = stateText s r\<rparr>"

definition liveRows :: "Spec \<Rightarrow> int list \<Rightarrow> (int \<Rightarrow> liveRow option) aud" where
  "liveRows s ids = aquery ''read rows'' ''scan row'' (of_table (sp_Table s) (\<lambda>rows i.
     if i \<in> set ids then map_option (live_of s) (find (\<lambda>r. ar_ID r = i) rows) else None))"

definition row_link :: "int \<Rightarrow> Link \<Rightarrow> bool" where
  "row_link i l = (lk_RowID l = i \<and> lk_Op l \<in> {''I'', ''U'', ''D''})"

definition rowHistory :: "Spec \<Rightarrow> int list \<Rightarrow> ((int \<Rightarrow> latestLink option) \<times> (int \<Rightarrow> bool)) aud" where
  "rowHistory s ids = aquery ''read row history'' ''scan row history'' (\<lambda>db.
     let newest = (\<lambda>i. if i \<in> set ids
           then find (row_link i) (rev (chain_links (sp_Chain s) db)) else None)
     in Inr (\<lambda>i. case newest i of
               None \<Rightarrow> None
             | Some l \<Rightarrow> if lk_Op l = ''D'' then None
                         else Some \<lparr>la_seq = lk_Seq l, la_state = lk_State l\<rparr>,
             \<lambda>i. case newest i of None \<Rightarrow> False | Some l \<Rightarrow> lk_Op l = ''D''))"

definition truncateSeqs :: "Spec \<Rightarrow> int list aud" where
  "truncateSeqs s = aquery ''read truncations'' ''scan truncation'' (\<lambda>db.
     Inr (map lk_Seq (filter (\<lambda>l. lk_Op l = ''T'') (chain_links (sp_Chain s) db))))"

definition rowCarries :: "liveRow \<Rightarrow> Link \<Rightarrow> bool" where
  "rowCarries r l = (lv_chainSeq r = Some (lk_Seq l) \<and> lv_prev r = Some (lk_PrevHash l) \<and>
     lv_hash r = Some (lk_Hash l))"

definition firstSeq :: "rowLinks \<Rightarrow> int" where
  "firstSeq r = fold (\<lambda>(_, seq) first. if first = 0 \<or> seq < first then seq else first) (rl_sealed r) 0"

definition truncatedAfter :: "int list \<Rightarrow> int \<Rightarrow> bool" where
  "truncatedAfter truncates seq = list_ex (\<lambda>t. t > seq) truncates"

definition checkRow ::
    "Spec \<Rightarrow> ((string \<times> int) list \<Rightarrow> (string \<times> int) list) \<Rightarrow> int \<Rightarrow> liveRow option \<Rightarrow> latestLink option \<Rightarrow>
     bool \<Rightarrow> int list \<Rightarrow> verifier \<Rightarrow> verifier" where
  "checkRow s visit i live latest deleted truncates v =
     (let links = (case map_of (ve_rows v) i of None \<Rightarrow> no_links | Some r \<Rightarrow> r)
      in case live of
           None \<Rightarrow>
             (if deleted \<or> rl_deleted links \<or> truncatedAfter truncates (firstSeq links) then v
              else complain (problem KindRowMissing (firstSeq links) i
                     ''the row is gone and no delete or truncate link records it'') v)
         | Some live \<Rightarrow>
             (let v = v\<lparr>ve_rep := (ve_rep v)\<lparr>rp_RowsChecked := rp_RowsChecked (ve_rep v) + 1\<rparr>\<rparr>;
                  v = (case find (\<lambda>(sealed, _). sealed \<noteq> lv_sealed live) (visit (rl_sealed links)) of
                         None \<Rightarrow> v
                       | Some (_, seq) \<Rightarrow> complain (problem KindRowEdited seq i
                           ''a sealed column differs from what the chain recorded'') v);
                  v = (case latest of
                         None \<Rightarrow> v
                       | Some la \<Rightarrow>
                           if length (sp_State s) > 0 \<and> la_state la \<noteq> lv_state live
                           then complain (problem KindStateEdited (la_seq la) i
                             ''the row's state differs from its last link (changed behind the chain)'') v
                           else v)
              in (case rl_insert links of
                    None \<Rightarrow> v
                  | Some ins \<Rightarrow>
                      if \<not> rowCarries live ins
                      then complain (problem KindRowLinkMismatch (lk_Seq ins) i
                        ''the row's chain columns do not match its insert link'') v
                      else v)))"

function check_batches :: "Spec \<Rightarrow> int list \<Rightarrow> int list \<Rightarrow> verifier \<Rightarrow> verifier aud" where
  "check_batches s truncates ids v w =
     (if ids = [] then areturn v w
      else (let batch = take rowBatch ids
            in abind (liveRows s batch) (\<lambda>live.
               abind (rowHistory s batch) (\<lambda>(latest, deleted) w.
                 check_batches s truncates (drop rowBatch ids)
                   (fold (\<lambda>i. checkRow s (aw_visit w) i (live i) (latest i) (deleted i) truncates) batch v)
                   w)) w))"
  by pat_completeness auto
termination
  by (relation "measure (\<lambda>(s, ts, ids, v, w). length ids)") (auto simp: rowBatch_def)

declare check_batches.simps [simp del]

definition checkRows :: "Spec \<Rightarrow> verifier \<Rightarrow> verifier aud" where
  "checkRows s v =
     (let ids = sort (map fst (ve_rows v))
      in abind (truncateSeqs s) (\<lambda>truncates. check_batches s truncates ids v))"

definition insertRange :: "(int \<times> rowLinks) list \<Rightarrow> int \<times> int" where
  "insertRange rows = fold (\<lambda>(i, r) (lo, hi).
     if rl_insert r = None then (lo, hi)
     else (if lo = 0 \<or> i < lo then i else lo, if i > hi then i else hi)) rows (0, 0)"

definition unchained :: "int \<Rightarrow> int \<Rightarrow> int \<Rightarrow> audit_row list \<Rightarrow> int list" where
  "unchained lo hi legacy rows = take (MaxProblems + 1) (sort (map ar_ID (filter
     (\<lambda>r. ar_ID r \<ge> lo \<and> ar_ID r \<le> hi \<and> ar_ID r > legacy \<and> ar_ChainSeq r = None) rows)))"

definition findUnchained :: "Spec \<Rightarrow> bool \<Rightarrow> verifier \<Rightarrow> verifier aud" where
  "findUnchained s full v =
     (let (lo, hi) = (if full then (wrap64 (ve_legacy v + 1), 2 ^ 62) else insertRange (ve_rows v))
      in if \<not> full \<and> lo = 0 then areturn v
         else abind (aquery ''find unchained rows'' ''scan unchained row''
                (of_table (sp_Table s) (unchained lo hi (ve_legacy v)))) (\<lambda>ids.
                areturn (fold (\<lambda>i. complain (problem KindUnchainedRow 0 i
                  ''the row carries no link: it was written behind the chain'')) ids v)))"

definition countLegacy :: "Spec \<Rightarrow> verifier \<Rightarrow> verifier aud" where
  "countLegacy s v =
     (if ve_legacy v \<le> 0 then areturn v
      else abind (aquery ''count legacy rows'' ''count legacy rows'' (of_table (sp_Table s)
             (\<lambda>rows. int (length (filter (\<lambda>r. ar_ID r \<le> ve_legacy v) rows))))) (\<lambda>n.
             areturn (v\<lparr>ve_rep := (ve_rep v)\<lparr>rp_LegacyRows := n\<rparr>\<rparr>)))"

subsection \<open>Verification\<close>

definition after_walk :: "Spec \<Rightarrow> int \<Rightarrow> bool \<Rightarrow> verifier \<Rightarrow> verifier aud" where
  "after_walk s lo full v =
     abind (findUnchained s full v) (\<lambda>v. if lo = 1 then countLegacy s v else areturn v)"

definition run ::
    "Spec \<Rightarrow> Window \<Rightarrow> verifier \<Rightarrow> audit_world \<Rightarrow> ((audit_error + verifier) \<times> audit_world) option" where
  "run s win v w =
     (case aquery ''read install boundary'' ''read install boundary''
             (\<lambda>db. Inr (ad_Legacy db (sp_Chain s))) w of
        (Inl e, w) \<Rightarrow> Some (Inl e, w)
      | (Inr None, w) \<Rightarrow> Some (Inl ErrNotInstalled, w)
      | (Inr (Some legacy), w) \<Rightarrow>
          (case Head (sp_Chain s) w of
             (Inl e, w) \<Rightarrow> Some (Inl e, w)
           | (Inr (headSeq, hash), w) \<Rightarrow>
               (let lo = max (wi_FromSeq win) 1;
                    hi = (if wi_ToSeq win = 0 \<or> wi_ToSeq win > headSeq then headSeq else wi_ToSeq win);
                    full = (lo = 1 \<and> hi = headSeq);
                    v = v\<lparr>ve_legacy := legacy, ve_rep := (ve_rep v)\<lparr>rp_HeadSeq := headSeq,
                          rp_HeadHash := hash, rp_FromSeq := lo, rp_ToSeq := hi\<rparr>\<rparr>
                in if lo \<le> hi
                   then (case walk s lo hi v w of
                           None \<Rightarrow> None
                         | Some (Inl e, w) \<Rightarrow> Some (Inl e, w)
                         | Some (Inr v, w) \<Rightarrow> Some (abind (checkRows s v) (after_walk s lo full) w))
                   else Some (after_walk s lo full v w))))"

definition new_report :: "string \<Rightarrow> instant \<Rightarrow> Report" where
  "new_report chain now = \<lparr>rp_Chain = chain, rp_FromSeq = 0, rp_ToSeq = 0, rp_Links = 0,
     rp_RowsChecked = 0, rp_Deleted = 0, rp_Truncations = 0, rp_LegacyRows = 0, rp_HeadSeq = 0,
     rp_HeadHash = [], rp_Problems = [], rp_ProblemsTruncated = False, rp_VerifiedAt = now\<rparr>"

definition new_verifier :: "string \<Rightarrow> instant \<Rightarrow> verifier" where
  "new_verifier chain now = \<lparr>ve_rep = new_report chain now, ve_prev = [], ve_prevKnown = False,
     ve_rows = [], ve_legacy = 0\<rparr>"

text \<open>The second argument says whether there is a database to read.\<close>

definition Verify ::
    "Spec \<Rightarrow> bool \<Rightarrow> Window \<Rightarrow> audit_world \<Rightarrow> ((audit_error + Report) \<times> audit_world) option" where
  "Verify s connected win w =
     (case validate s of
        Inl e \<Rightarrow> Some (Inl (Wrapped ''auditchain: invalid spec'' e), w)
      | Inr _ \<Rightarrow>
          if \<not> connected then Some (Inl (NoDatabase (sp_Chain s)), w)
          else if wi_FromSeq win < 0 \<or> wi_ToSeq win < 0 \<or>
                  (wi_ToSeq win > 0 \<and> wi_FromSeq win > wi_ToSeq win)
          then Some (Inl (InvalidWindow (sp_Chain s) (wi_FromSeq win) (wi_ToSeq win)), w)
          else (case run s win (new_verifier (sp_Chain s) (aw_now w)) w of
                  None \<Rightarrow> None
                | Some (Inl e, w) \<Rightarrow> Some (Inl (Wrapped (''auditchain: verify '' @ sp_Chain s) e), w)
                | Some (Inr v, w) \<Rightarrow> Some (Inr (ve_rep v), w)))"

end
