(* ===== verification/Audit_Hash.thy ===== *)
theory Audit_Hash
  imports Audit_Chain
begin

text \<open>
  What a link's hash binds. The text that is hashed determines the fields of the link, provided the
  separator occurs in none but the state; so two chains that agree on the hash of a position agree on
  every field of every link up to it, or two different texts among them have the same SHA-256 digest.
\<close>

subsection \<open>Bytes and hexadecimal digits\<close>

lemma utf8_Cons: "utf8 (c # s) = utf8_char c @ utf8 s"
  by (simp add: utf8_def)

lemma byte_inj: "(of_nat m :: byte) = of_nat n \<longleftrightarrow> m = n" if "m < 256" "n < 256"
proof -
  have "unat (of_nat m :: byte) = m" "unat (of_nat n :: byte) = n"
    using that by (simp_all add: unat_of_nat)
  then show ?thesis by metis
qed

lemma char_code: "(of_char c :: nat) < 256"
  by (metis of_char_of nat_of_char_less_256 order_refl)

lemma utf8_char_Cons:
  assumes "utf8_char c @ s = utf8_char d @ t"
  shows "c = d \<and> s = t"
proof -
  let ?m = "of_char c :: nat" and ?n = "of_char d :: nat"
  have small: "?m < 256" "?n < 256" by (rule char_code)+
  have "?m = ?n \<and> s = t"
  proof (cases "?m < 128")
    case True
    show ?thesis
    proof (cases "?n < 128")
      case t: True
      from assms True t have "(of_nat ?m :: byte) = of_nat ?n" "s = t" by (auto simp: utf8_char_def Let_def)
      then show ?thesis using byte_inj [of ?m ?n] small by simp
    next
      case f: False
      from assms True f have "(of_nat ?m :: byte) = of_nat (192 + ?n div 64)" by (auto simp: utf8_char_def Let_def)
      then have "?m = 192 + ?n div 64" using byte_inj [of ?m "192 + ?n div 64"] small by simp
      with True show ?thesis by simp
    qed
  next
    case False
    show ?thesis
    proof (cases "?n < 128")
      case t: True
      from assms False t have "(of_nat ?n :: byte) = of_nat (192 + ?m div 64)" by (auto simp: utf8_char_def Let_def)
      then have "?n = 192 + ?m div 64" using byte_inj [of ?n "192 + ?m div 64"] small by (simp add: less_mult_imp_div_less)
      with t show ?thesis by simp
    next
      case f: False
      from assms False f have eq: "(of_nat (192 + ?m div 64) :: byte) = of_nat (192 + ?n div 64)"
        "(of_nat (128 + ?m mod 64) :: byte) = of_nat (128 + ?n mod 64)" "s = t"
        by (auto simp: utf8_char_def Let_def)
      have "?m div 64 = ?n div 64"
        using eq(1) byte_inj [of "192 + ?m div 64" "192 + ?n div 64"] small by (simp add: less_mult_imp_div_less)
      moreover have "?m mod 64 = ?n mod 64"
        using eq(2) byte_inj [of "128 + ?m mod 64" "128 + ?n mod 64"] by simp
      ultimately show ?thesis using eq(3) by (metis div_mult_mod_eq)
    qed
  qed
  then show ?thesis by (metis char_of_char)
qed

lemma utf8_char_not_Nil: "utf8_char c \<noteq> []"
  by (simp add: utf8_char_def Let_def)

lemma utf8_inj: "utf8 s = utf8 t \<longleftrightarrow> s = t"
proof
  show "utf8 s = utf8 t \<Longrightarrow> s = t"
  proof (induction s arbitrary: t)
    case Nil
    then show ?case by (cases t) (simp_all add: utf8_Cons utf8_char_not_Nil utf8_def)
  next
    case (Cons c s)
    from Cons.prems obtain d u where t: "t = d # u"
      by (cases t) (simp_all add: utf8_Cons utf8_char_not_Nil utf8_def)
    with Cons.prems utf8_char_Cons [of c "utf8 s" d "utf8 u"] have "c = d" "utf8 s = utf8 u"
      by (simp_all add: utf8_Cons)
    with Cons.IH t show ?case by simp
  qed
qed simp

lemma hex_digit_inj:
  assumes "unat a < 16" "unat b < 16" "hex_digit a = hex_digit b"
  shows "a = b"
proof -
  have less: "d < 10 \<longleftrightarrow> unat d < 10" for d :: byte by (simp add: word_less_nat_alt)
  have code: "of_char (hex_digit d) = (if unat d < 10 then 48 + unat d else 87 + unat d)"
    if "unat d < 16" for d :: byte
    using that by (simp add: hex_digit_def less)
  from code [OF assms(1)] code [OF assms(2)] assms have "unat a = unat b" by (auto split: if_splits)
  then show ?thesis by (simp add: word_unat_eq_iff)
qed

lemma nibbles: "unat (drop_bit 4 b) = unat b div 16" "unat (b AND 15) = unat b mod 16" for b :: byte
proof -
  show "unat (drop_bit 4 b) = unat b div 16" by (simp only: unat_drop_bit_eq) (simp add: drop_bit_eq_div)
  have "b AND 15 = take_bit 4 b" by (simp add: take_bit_eq_mask mask_eq_exp_minus_1)
  then have "unat (b AND 15) = take_bit 4 (unat b)" by (simp only: unsigned_take_bit_eq)
  then show "unat (b AND 15) = unat b mod 16" by (simp add: take_bit_eq_mod)
qed

lemma hex_byte_inj:
  assumes "hex_digit (drop_bit 4 a) = hex_digit (drop_bit 4 b)" "hex_digit (a AND 15) = hex_digit (b AND 15)"
  shows "a = b"
proof -
  have small: "unat c < 256" for c :: byte using unsigned_less [of c, where ?'a = nat] by simp
  have "drop_bit 4 a = drop_bit 4 b"
    by (rule hex_digit_inj [OF _ _ assms(1)]) (use small [of a] small [of b] in \<open>simp_all add: nibbles\<close>)
  moreover have "a AND 15 = b AND 15"
    by (rule hex_digit_inj [OF _ _ assms(2)]) (simp_all add: nibbles)
  ultimately have "unat a div 16 = unat b div 16" "unat a mod 16 = unat b mod 16"
    by (metis nibbles)+
  then show ?thesis by (metis div_mult_mod_eq word_unat_eq_iff)
qed

lemma EncodeToString_inj: "EncodeToString a = EncodeToString b \<longleftrightarrow> a = b"
proof
  show "EncodeToString a = EncodeToString b \<Longrightarrow> a = b"
  proof (induction a arbitrary: b)
    case Nil
    then show ?case by (cases b) (simp_all add: EncodeToString_def)
  next
    case (Cons x a)
    then show ?case by (cases b) (auto simp: EncodeToString_def dest: hex_byte_inj)
  qed
qed simp

lemma hex_digit_code: "of_char (hex_digit d) \<noteq> (124 :: nat)" if "unat d < 16"
  using that by (simp add: hex_digit_def word_less_nat_alt)

lemma EncodeToString_free: "CHR ''|'' \<notin> set (EncodeToString bs)"
proof
  assume "CHR ''|'' \<in> set (EncodeToString bs)"
  then obtain b where "CHR ''|'' = hex_digit (drop_bit 4 b) \<or> CHR ''|'' = hex_digit (b AND 15)"
    by (auto simp: EncodeToString_def)
  moreover have "unat (drop_bit 4 b) < 16" "unat (b AND 15) < 16"
    using unsigned_less [of b, where ?'a = nat] by (simp_all add: nibbles)
  moreover have "of_char (CHR ''|'') = (124 :: nat)" by simp
  ultimately show False using hex_digit_code by metis
qed

lemma sha_hex_free: "CHR ''|'' \<notin> set (sha_hex s)"
  by (simp add: sha_hex_def EncodeToString_free)

lemma sha_hex_eq: "sha_hex s = sha_hex t \<longleftrightarrow> Sum256 (utf8 s) = Sum256 (utf8 t)"
  by (simp add: sha_hex_def EncodeToString_inj)

lemma Genesis_free: "CHR ''|'' \<notin> set Genesis"
  by (simp add: Genesis_def)

subsection \<open>The text of a link\<close>

lemma digits_free: "CHR ''|'' \<notin> set (nat_digits n)"
proof -
  have "\<not> is_digit (CHR ''|'')" by code_simp
  with nat_digits_digits [of n] show ?thesis by (auto simp: list_all_iff)
qed

lemma itoa_free: "CHR ''|'' \<notin> set (itoa i)"
  by (simp add: itoa_def digits_free)

lemma digits_unsigned: "nat_digits n \<noteq> CHR ''-'' # s"
proof
  assume "nat_digits n = CHR ''-'' # s"
  with nat_digits_digits [of n] have "is_digit (CHR ''-'')" by simp
  then show False using digit_not_sign by blast
qed

lemma itoa_inj: "itoa i = itoa j \<longleftrightarrow> i = j"
proof
  assume "itoa i = itoa j"
  then show "i = j"
    using digits_unsigned digits_unsigned [symmetric]
    by (auto simp: itoa_def split: if_splits dest!: nat_digits_inj)
qed simp

lemma bar_eq:
  assumes "c \<notin> set a" "c \<notin> set a'" "a @ c # b = a' @ c # b'"
  shows "a = a' \<and> b = b'"
  using assms by (induction a arbitrary: a') (case_tac [!] a', auto)

definition plain :: "Link \<Rightarrow> bool" where
  "plain l = (CHR ''|'' \<notin> set (lk_PrevHash l) \<and> CHR ''|'' \<notin> set (lk_Op l) \<and> CHR ''|'' \<notin> set (lk_SealedHash l))"

definition content :: "Link \<Rightarrow> string \<times> int \<times> string \<times> int \<times> int \<times> string \<times> string" where
  "content l = (lk_PrevHash l, lk_Seq l, lk_Op l, lk_RowID l, lk_V l, lk_SealedHash l, lk_State l)"

lemma preimage_content:
  assumes "plain l" "plain l'" "preimage l = preimage l'"
  shows "content l = content l'"
proof -
  have free: "CHR ''|'' \<notin> set (lk_PrevHash l)" "CHR ''|'' \<notin> set (lk_PrevHash l')"
    "CHR ''|'' \<notin> set (lk_Op l)" "CHR ''|'' \<notin> set (lk_Op l')"
    "CHR ''|'' \<notin> set (lk_SealedHash l)" "CHR ''|'' \<notin> set (lk_SealedHash l')"
    using assms by (simp_all add: plain_def)
  have a: "lk_PrevHash l = lk_PrevHash l'" and
    r: "itoa (lk_Seq l) @ CHR ''|'' # Join [lk_Op l, itoa (lk_RowID l), itoa (lk_V l), lk_SealedHash l, lk_State l] ''|'' =
        itoa (lk_Seq l') @ CHR ''|'' # Join [lk_Op l', itoa (lk_RowID l'), itoa (lk_V l'), lk_SealedHash l', lk_State l'] ''|''"
    using bar_eq [OF free(1,2)] assms(3) by (simp_all add: preimage_def)
  from bar_eq [OF itoa_free itoa_free r] have b: "lk_Seq l = lk_Seq l'" and
    r: "lk_Op l @ CHR ''|'' # Join [itoa (lk_RowID l), itoa (lk_V l), lk_SealedHash l, lk_State l] ''|'' =
        lk_Op l' @ CHR ''|'' # Join [itoa (lk_RowID l'), itoa (lk_V l'), lk_SealedHash l', lk_State l'] ''|''"
    by (simp_all add: itoa_inj)
  from bar_eq [OF free(3,4) r] have c: "lk_Op l = lk_Op l'" and
    r: "itoa (lk_RowID l) @ CHR ''|'' # Join [itoa (lk_V l), lk_SealedHash l, lk_State l] ''|'' =
        itoa (lk_RowID l') @ CHR ''|'' # Join [itoa (lk_V l'), lk_SealedHash l', lk_State l'] ''|''"
    by simp_all
  from bar_eq [OF itoa_free itoa_free r] have d: "lk_RowID l = lk_RowID l'" and
    r: "itoa (lk_V l) @ CHR ''|'' # Join [lk_SealedHash l, lk_State l] ''|'' =
        itoa (lk_V l') @ CHR ''|'' # Join [lk_SealedHash l', lk_State l'] ''|''"
    by (simp_all add: itoa_inj)
  from bar_eq [OF itoa_free itoa_free r] have e: "lk_V l = lk_V l'" and
    r: "lk_SealedHash l @ CHR ''|'' # lk_State l = lk_SealedHash l' @ CHR ''|'' # lk_State l'"
    by (simp_all add: itoa_inj)
  from bar_eq [OF free(5,6) r] a b c d e show ?thesis by (simp add: content_def)
qed

subsection \<open>Chains\<close>

text \<open>Links that follow each other from a position and a hash, each hashing to itself.\<close>

fun linked :: "string \<Rightarrow> int \<Rightarrow> Link list \<Rightarrow> bool" where
  "linked prev seq [] = True"
| "linked prev seq (l # ls) =
     (lk_Seq l = seq \<and> lk_PrevHash l = prev \<and> LinkHash l = lk_Hash l \<and> linked (lk_Hash l) (seq + 1) ls)"

lemma linked_append:
  "linked prev seq (xs @ ys) \<longleftrightarrow> linked prev seq xs \<and>
     linked (if xs = [] then prev else lk_Hash (last xs)) (seq + int (length xs)) ys"
  by (induction xs arbitrary: prev seq) (auto simp: algebra_simps)

lemma linked_seq: "linked prev seq ls \<Longrightarrow> map lk_Seq ls = map (\<lambda>i. seq + int i) [0..<length ls]"
proof (induction ls arbitrary: prev seq)
  case (Cons l ls)
  then have "map lk_Seq ls = map (\<lambda>i. seq + 1 + int i) [0..<length ls]"
    using Cons.IH [of "lk_Hash l" "seq + 1"] by simp
  moreover have "map (\<lambda>i. seq + int i) [0..<Suc (length ls)] = seq # map (\<lambda>i. seq + 1 + int i) [0..<length ls]"
    by (simp add: upt_conv_Cons map_Suc_upt [symmetric] comp_def algebra_simps del: upt_Suc)
  ultimately show ?case using Cons.prems by simp
qed simp

lemma linked_last: "linked prev seq ls \<Longrightarrow> ls \<noteq> [] \<Longrightarrow> lk_Seq (last ls) = seq + int (length ls) - 1"
  by (induction ls arbitrary: prev seq) auto

lemma linked_nth:
  assumes "linked prev seq ls" "i < length ls"
  shows "LinkHash (ls ! i) = lk_Hash (ls ! i)"
    "lk_PrevHash (ls ! i) = (if i = 0 then prev else lk_Hash (ls ! (i - 1)))"
proof -
  have "LinkHash (ls ! i) = lk_Hash (ls ! i) \<and> lk_PrevHash (ls ! i) = (if i = 0 then prev else lk_Hash (ls ! (i - 1)))"
    using assms
  proof (induction ls arbitrary: prev seq i)
    case (Cons l ls)
    show ?case
    proof (cases i)
      case 0
      with Cons.prems show ?thesis by simp
    next
      case (Suc j)
      with Cons.IH [of "lk_Hash l" "seq + 1" j] Cons.prems show ?thesis by (cases j) simp_all
    qed
  qed simp
  then show "LinkHash (ls ! i) = lk_Hash (ls ! i)"
    "lk_PrevHash (ls ! i) = (if i = 0 then prev else lk_Hash (ls ! (i - 1)))" by simp_all
qed

text \<open>Two links whose different texts have the same digest.\<close>

definition collide :: "Link \<Rightarrow> Link \<Rightarrow> bool" where
  "collide l l' = (utf8 (preimage l) \<noteq> utf8 (preimage l') \<and>
     Sum256 (utf8 (preimage l)) = Sum256 (utf8 (preimage l')))"

lemma same_hash_same_content:
  assumes "plain l" "plain l'" "LinkHash l = LinkHash l'" "\<not> collide l l'"
  shows "content l = content l'"
proof -
  have "Sum256 (utf8 (preimage l)) = Sum256 (utf8 (preimage l'))"
    using assms(3) by (simp add: LinkHash_def sha_hex_eq)
  with assms(4) have "preimage l = preimage l'" by (simp add: collide_def utf8_inj)
  with assms(1,2) show ?thesis by (rule preimage_content)
qed

lemma same_hash_same_prefix:
  assumes "linked prev seq ls" "linked prev seq ls'" "list_all plain ls" "list_all plain ls'"
    and "k < length ls" "k < length ls'" "lk_Hash (ls ! k) = lk_Hash (ls' ! k)"
    and "\<forall>i\<le>k. \<not> collide (ls ! i) (ls' ! i)"
  shows "\<forall>i\<le>k. content (ls ! i) = content (ls' ! i) \<and> lk_Hash (ls ! i) = lk_Hash (ls' ! i)"
  using assms(5-8)
proof (induction k)
  case 0
  have "LinkHash (ls ! 0) = LinkHash (ls' ! 0)"
    using linked_nth(1) [OF assms(1) 0(1)] linked_nth(1) [OF assms(2) 0(2)] 0(3) by simp
  then have "content (ls ! 0) = content (ls' ! 0)"
    using 0 assms(3,4) same_hash_same_content by (simp add: list_all_length)
  with 0 show ?case by simp
next
  case (Suc k)
  have "LinkHash (ls ! Suc k) = LinkHash (ls' ! Suc k)"
    using linked_nth(1) [OF assms(1) Suc.prems(1)] linked_nth(1) [OF assms(2) Suc.prems(2)] Suc.prems(3) by simp
  then have c: "content (ls ! Suc k) = content (ls' ! Suc k)"
    using Suc.prems assms(3,4) same_hash_same_content by (simp add: list_all_length)
  then have "lk_Hash (ls ! k) = lk_Hash (ls' ! k)"
    using linked_nth(2) [OF assms(1) Suc.prems(1)] linked_nth(2) [OF assms(2) Suc.prems(2)]
    by (simp add: content_def)
  with Suc have "\<forall>i\<le>k. content (ls ! i) = content (ls' ! i) \<and> lk_Hash (ls ! i) = lk_Hash (ls' ! i)"
    by simp
  with c Suc.prems(3) show ?case by (simp add: le_Suc_eq)
qed

end
