(* ===== verification/Audit_Walk.thy ===== *)
theory Audit_Walk
  imports Audit_Verify Audit_Hash
begin

text \<open>
  What the verifier finds when nothing else runs: every stage keeps a clean report clean exactly when
  what it looks at is consistent. Batches, the cap on the problem list and the order in which maps
  are visited make no difference to that.
\<close>

named_theorems clean_simps \<open>when a stage of the verifier leaves the report clean\<close>

subsection \<open>Clean reports\<close>

definition clean :: "verifier \<Rightarrow> bool" where
  "clean v = OK (ve_rep v)"

lemma add_problem_OK [simp]: "\<not> OK (add_problem p r)"
  by (simp add: OK_def add_problem_def MaxProblems_def)

lemma complain_simps [simp, clean_simps]:
  "\<not> clean (complain p v)" "ve_rows (complain p v) = ve_rows v" "ve_legacy (complain p v) = ve_legacy v"
  "ve_prev (complain p v) = ve_prev v" "ve_prevKnown (complain p v) = ve_prevKnown v"
  by (simp_all add: clean_def complain_def)

lemma clean_same [clean_simps]:
  "clean (v\<lparr>ve_prev := a\<rparr>) = clean v" "clean (v\<lparr>ve_prevKnown := b\<rparr>) = clean v"
  "clean (v\<lparr>ve_rows := c\<rparr>) = clean v" "clean (v\<lparr>ve_legacy := d\<rparr>) = clean v"
  "clean (v\<lparr>ve_rep := (ve_rep v)\<lparr>rp_Links := n\<rparr>\<rparr>) = clean v"
  "clean (v\<lparr>ve_rep := (ve_rep v)\<lparr>rp_Truncations := n\<rparr>\<rparr>) = clean v"
  "clean (v\<lparr>ve_rep := (ve_rep v)\<lparr>rp_Deleted := n\<rparr>\<rparr>) = clean v"
  "clean (v\<lparr>ve_rep := (ve_rep v)\<lparr>rp_RowsChecked := n\<rparr>\<rparr>) = clean v"
  "clean (v\<lparr>ve_rep := (ve_rep v)\<lparr>rp_LegacyRows := n\<rparr>\<rparr>) = clean v"
  by (simp_all add: clean_def OK_def)

subsection \<open>Tracking rows\<close>

definition track_rows :: "Link \<Rightarrow> (int \<times> rowLinks) list \<Rightarrow> (int \<times> rowLinks) list" where
  "track_rows l rows =
     (if lk_Op l = ''T'' then rows
      else AList.update (lk_RowID l)
             (note_link l (case map_of rows (lk_RowID l) of None \<Rightarrow> no_links | Some r \<Rightarrow> r)) rows)"

lemma track_simps [clean_simps]:
  "clean (track l v) = clean v" "ve_rows (track l v) = track_rows l (ve_rows v)"
  "ve_legacy (track l v) = ve_legacy v" "ve_prev (track l v) = ve_prev v"
  "ve_prevKnown (track l v) = ve_prevKnown v"
  by (simp_all add: track_def track_rows_def Let_def clean_def OK_def)

text \<open>The links that name a row.\<close>

definition names :: "int \<Rightarrow> Link \<Rightarrow> bool" where
  "names i l = (lk_Op l \<noteq> ''T'' \<and> lk_RowID l = i)"

definition row_summary :: "Link list \<Rightarrow> rowLinks" where
  "row_summary ls = fold note_link ls no_links"

lemma fold_track_rows:
  "map_of (fold track_rows ls rows) i =
     (if filter (names i) ls = [] then map_of rows i
      else Some (fold note_link (filter (names i) ls)
             (case map_of rows i of None \<Rightarrow> no_links | Some r \<Rightarrow> r)))"
proof (induction ls arbitrary: rows)
  case (Cons l ls)
  have one: "map_of (track_rows l rows) i =
      (if names i l then Some (note_link l (case map_of rows i of None \<Rightarrow> no_links | Some r \<Rightarrow> r))
       else map_of rows i)"
    by (auto simp: track_rows_def names_def update_conv')
  show ?case unfolding fold_simps Cons.IH one by (auto split: option.split)
qed simp

lemma tracked_row:
  "map_of (fold track_rows ls []) i =
     (if filter (names i) ls = [] then None else Some (row_summary (filter (names i) ls)))"
  by (simp add: fold_track_rows row_summary_def)

lemma track_rows_keys: "distinct (map fst rows) \<Longrightarrow> distinct (map fst (fold track_rows ls rows))"
  by (induction ls arbitrary: rows) (simp_all add: track_rows_def distinct_update)

lemma track_rows_dom: "fst ` set (fold track_rows ls []) = {i. \<exists>l\<in>set ls. names i l}"
proof -
  have "fst ` set (fold track_rows ls []) = dom (map_of (fold track_rows ls []))"
    by (simp add: dom_map_of_conv_image_fst)
  also have "\<dots> = {i. \<exists>l\<in>set ls. names i l}"
    by (auto simp: dom_def tracked_row filter_empty_conv)
  finally show ?thesis .
qed

lemma note_link_simps:
  "fst ` set (rl_sealed (note_link l r)) = insert (lk_SealedHash l) (fst ` set (rl_sealed r))"
  "rl_deleted (note_link l r) = (rl_deleted r \<or> lk_Op l = ''D'')"
  "rl_insert (note_link l r) = (if lk_Op l = ''I'' then Some l else rl_insert r)"
proof -
  have "map_of (rl_sealed r) (lk_SealedHash l) \<noteq> None \<longleftrightarrow> lk_SealedHash l \<in> fst ` set (rl_sealed r)"
    by (simp add: map_of_eq_None_iff)
  then show "fst ` set (rl_sealed (note_link l r)) = insert (lk_SealedHash l) (fst ` set (rl_sealed r))"
    by (auto simp: note_link_def Let_def simp del: map_of_eq_None_iff)
qed (simp_all add: note_link_def Let_def)

lemma summary_sealed: "fst ` set (rl_sealed (row_summary ls)) = lk_SealedHash ` set ls"
proof -
  have "fst ` set (rl_sealed (fold note_link ls r)) = lk_SealedHash ` set ls \<union> fst ` set (rl_sealed r)" for r
    by (induction ls arbitrary: r) (auto simp: note_link_simps)
  then show ?thesis by (simp add: row_summary_def no_links_def)
qed

lemma summary_deleted: "rl_deleted (row_summary ls) \<longleftrightarrow> (\<exists>l\<in>set ls. lk_Op l = ''D'')"
proof -
  have "rl_deleted (fold note_link ls r) \<longleftrightarrow> rl_deleted r \<or> (\<exists>l\<in>set ls. lk_Op l = ''D'')" for r
    by (induction ls arbitrary: r) (auto simp: note_link_simps)
  then show ?thesis by (simp add: row_summary_def no_links_def)
qed

lemma summary_insert: "rl_insert (row_summary ls) = find (\<lambda>l. lk_Op l = ''I'') (rev ls)"
proof (induction ls rule: rev_induct)
  case Nil
  then show ?case by (simp add: row_summary_def no_links_def)
next
  case (snoc l ls)
  then show ?case by (simp add: row_summary_def note_link_simps)
qed

definition stamp :: "Link \<Rightarrow> string \<times> int" where
  "stamp l = (lk_SealedHash l, lk_Seq l)"

lemma sealed_grows: "\<exists>xs. rl_sealed (fold note_link ks r) = rl_sealed r @ xs \<and> set xs \<subseteq> stamp ` set ks"
proof (induction ks arbitrary: r)
  case (Cons k ks)
  from Cons.IH [of "note_link k r"] obtain xs where
    xs: "rl_sealed (fold note_link ks (note_link k r)) = rl_sealed (note_link k r) @ xs" "set xs \<subseteq> stamp ` set ks"
    by blast
  have "rl_sealed (note_link k r) = rl_sealed r \<or> rl_sealed (note_link k r) = rl_sealed r @ [stamp k]"
    by (simp add: note_link_def stamp_def Let_def)
  then show ?case
  proof
    assume "rl_sealed (note_link k r) = rl_sealed r"
    with xs show ?thesis by (intro exI [of _ xs]) auto
  next
    assume "rl_sealed (note_link k r) = rl_sealed r @ [stamp k]"
    with xs show ?thesis by (intro exI [of _ "stamp k # xs"]) auto
  qed
qed simp

lemma summary_first:
  assumes "ls \<noteq> []" "sorted (map lk_Seq ls)" "0 < lk_Seq (hd ls)"
  shows "firstSeq (row_summary ls) = lk_Seq (hd ls)"
proof -
  obtain l ks where ls: "ls = l # ks" using assms(1) by (cases ls) auto
  have first: "rl_sealed (note_link l no_links) = [(lk_SealedHash l, lk_Seq l)]"
    by (simp add: note_link_def no_links_def Let_def)
  from sealed_grows [of ks "note_link l no_links"] obtain xs where
    xs: "rl_sealed (row_summary ls) = (lk_SealedHash l, lk_Seq l) # xs"
      "set xs \<subseteq> stamp ` set ks"
    by (auto simp: ls row_summary_def first)
  have least: "fold (\<lambda>(_, seq) first. if first = 0 \<or> seq < first then seq else first) xs m = m"
    if "\<forall>x\<in>set xs. m \<le> snd x" "m \<noteq> 0" for xs :: "(string \<times> int) list" and m
    using that by (induction xs) auto
  have "\<forall>x\<in>set xs. lk_Seq l \<le> snd x" using xs(2) assms(2) by (auto simp: ls stamp_def)
  then show ?thesis using assms(3) least [of xs "lk_Seq l"] by (simp add: firstSeq_def xs(1) [unfolded ls] ls)
qed

subsection \<open>Links\<close>

lemma checkLink_facts:
  fixes l v e
  defines "v' \<equiv> fst (checkLink l (v, e))"
  shows "clean v' \<longleftrightarrow> clean v \<and> lk_Seq l = e \<and> (ve_prevKnown v \<longrightarrow> lk_PrevHash l = ve_prev v) \<and>
      LinkHash l = lk_Hash l"
    "ve_prev v' = lk_Hash l" "ve_prevKnown v'" "ve_rows v' = track_rows l (ve_rows v)"
    "ve_legacy v' = ve_legacy v" "snd (checkLink l (v, e)) = wrap64 (lk_Seq l + 1)"
  unfolding v'_def by (auto simp: checkLink_def Let_def clean_simps)

lemma fold_checkLink:
  assumes "ls \<noteq> []"
  shows "ve_rows (fst (fold checkLink ls (v, e))) = fold track_rows ls (ve_rows v) \<and>
     ve_legacy (fst (fold checkLink ls (v, e))) = ve_legacy v \<and>
     ve_prev (fst (fold checkLink ls (v, e))) = lk_Hash (last ls) \<and>
     ve_prevKnown (fst (fold checkLink ls (v, e))) \<and>
     snd (fold checkLink ls (v, e)) = wrap64 (lk_Seq (last ls) + 1)"
  using assms
proof (induction ls arbitrary: v e rule: list_nonempty_induct)
  case (single l)
  then show ?case using checkLink_facts [of l v e] by simp
next
  case (cons l ls)
  obtain v' e' where c: "checkLink l (v, e) = (v', e')" by fastforce
  from cons.IH [of v' e'] cons.hyps checkLink_facts [of l v e] c show ?case by simp
qed

lemma fold_checkLink_clean:
  assumes "\<forall>l\<in>set ls. fits64 (lk_Seq l) \<and> lk_Seq l < max64" "ve_prevKnown v"
  shows "clean (fst (fold checkLink ls (v, e))) \<longleftrightarrow> clean v \<and> linked (ve_prev v) e ls"
  using assms
proof (induction ls arbitrary: v e)
  case (Cons l ls)
  obtain v' e' where c: "checkLink l (v, e) = (v', e')" by fastforce
  have f: "clean v' \<longleftrightarrow> clean v \<and> lk_Seq l = e \<and> lk_PrevHash l = ve_prev v \<and> LinkHash l = lk_Hash l"
    "ve_prev v' = lk_Hash l" "ve_prevKnown v'" "e' = wrap64 (lk_Seq l + 1)"
    using checkLink_facts [of l v e] c Cons.prems(2) by simp_all
  have "wrap64 (lk_Seq l + 1) = lk_Seq l + 1"
    using Cons.prems(1) by (intro wrap64_id) (simp add: fits64_def)
  with Cons.IH [of v' e'] Cons.prems f show ?case by (auto simp: c)
qed simp

lemma fold_checkLink_dirty: "\<not> clean v \<Longrightarrow> \<not> clean (fst (fold checkLink ls (v, e)))"
proof (induction ls arbitrary: v e)
  case (Cons l ls)
  obtain v' e' where c: "checkLink l (v, e) = (v', e')" by fastforce
  then have "\<not> clean v'" using checkLink_facts(1) [of l v e] Cons.prems by simp
  with Cons.IH c show ?case by simp
qed simp

subsection \<open>Quiet worlds\<close>

definition quiet :: "audit_world \<Rightarrow> bool" where
  "quiet w = (aw_script w = [] \<and> (\<forall>xs. set (aw_visit w xs) = set xs))"

lemma aquery_quiet:
  "quiet w \<Longrightarrow> aquery a b f w = (case f (aw_db w) of Inl e \<Rightarrow> (Inl (Wrapped a e), w) | Inr x \<Rightarrow> (Inr x, w))"
  by (simp add: aquery_def audit_tick_def quiet_def)

lemma abind_Inr: "m w = (Inr a, w') \<Longrightarrow> abind m f w = f a w'"
  by (simp add: abind_def)

lemma chain_links_sorted: "sorted (map lk_Seq (chain_links c db))"
  by (simp add: chain_links_def)

definition chain_keys :: "string \<Rightarrow> audit_db \<Rightarrow> bool" where
  "chain_keys c db = (distinct (map lk_Seq (chain_links c db)) \<and> (\<forall>l\<in>set (chain_links c db). fits64 (lk_Seq l)))"

lemma sorted_cut:
  assumes "sorted (map f xs)" "distinct (map f xs)" "xs = ys @ zs" "ys \<noteq> []"
  shows "filter (\<lambda>x. f (last ys) + 1 \<le> (f x :: int)) xs = zs"
proof -
  have "sorted (map f (butlast ys @ [last ys]))" using assms by (simp add: sorted_append)
  then have "\<forall>y\<in>set (butlast ys @ [last ys]). f y \<le> f (last ys)" unfolding map_append sorted_append by auto
  then have "f y \<le> f (last ys)" if "y \<in> set ys" for y using that assms(4) by simp
  then have "filter (\<lambda>x. f (last ys) + 1 \<le> f x) ys = []" by (fastforce simp: filter_empty_conv)
  moreover have "f (last ys) < f z" if "z \<in> set zs" for z
  proof -
    have "f (last ys) \<le> f z" using assms that by (auto simp: sorted_append)
    moreover have "f ` set ys \<inter> f ` set zs = {}" "f (last ys) \<in> f ` set ys" "f z \<in> f ` set zs"
      using assms that by simp_all
    then have "f (last ys) \<noteq> f z" by (metis disjoint_iff)
    ultimately show ?thesis by simp
  qed
  then have "filter (\<lambda>x. f (last ys) + 1 \<le> f x) zs = zs" by (force simp: filter_id_conv)
  ultimately show ?thesis by (simp add: assms(3))
qed


lemma links_between_cut:
  assumes "chain_keys c db" "links_between e hi (chain_links c db) = ys @ zs" "ys \<noteq> []"
  shows "links_between (lk_Seq (last ys) + 1) hi (chain_links c db) = zs"
proof -
  let ?P = "\<lambda>l. e \<le> lk_Seq l \<and> lk_Seq l \<le> hi"
  have "sorted (map lk_Seq (filter ?P (chain_links c db)))" "distinct (map lk_Seq (filter ?P (chain_links c db)))"
    using assms(1) chain_links_sorted [of c db]
    by (simp_all add: chain_keys_def sorted_filter distinct_map_filter)
  from sorted_cut [OF this assms(2) [unfolded links_between_def] assms(3)]
  have cut: "filter (\<lambda>l. lk_Seq (last ys) + 1 \<le> lk_Seq l) (filter ?P (chain_links c db)) = zs" .
  have "last ys \<in> set (links_between e hi (chain_links c db))" using assms(2,3) by simp
  then have "e \<le> lk_Seq (last ys)" by (simp add: links_between_def)
  then have "links_between (lk_Seq (last ys) + 1) hi (chain_links c db) =
      filter (\<lambda>l. lk_Seq (last ys) + 1 \<le> lk_Seq l) (filter ?P (chain_links c db))"
    unfolding links_between_def filter_filter by (intro filter_cong) auto
  with cut show ?thesis by simp
qed

lemma walk_loop_quiet:
  assumes "quiet w" "chain_keys (sp_Chain s) (aw_db w)" "hi < max64" "ve_prevKnown v" "fits64 e" "e \<le> hi + 1"
  shows "\<exists>v'. walk_loop s v e hi w = Some (Inr v', w) \<and>
     ve_rows v' = fold track_rows (links_between e hi (chain_links (sp_Chain s) (aw_db w))) (ve_rows v) \<and>
     ve_legacy v' = ve_legacy v \<and>
     (clean v' \<longleftrightarrow> clean v \<and> linked (ve_prev v) e (links_between e hi (chain_links (sp_Chain s) (aw_db w))) \<and>
        int (length (links_between e hi (chain_links (sp_Chain s) (aw_db w)))) = hi + 1 - e)"
  using assms(4-6)
proof (induction "nat (hi + 1 - e)" arbitrary: v e rule: less_induct)
  case less
  let ?L = "links_between e hi (chain_links (sp_Chain s) (aw_db w))"
  let ?b = "take linkBatch ?L" and ?r = "drop linkBatch ?L"
  have q: "LinksInRange (sp_Chain s) e hi linkBatch w = (Inr ?b, w)"
    by (simp add: LinksInRange_def aquery_quiet [OF assms(1)] Let_def)
  consider (over) "hi < e" | (gap) "e \<le> hi" "?b = []" | (batch) "e \<le> hi" "?b \<noteq> []" by linarith
  then show ?case
  proof cases
    case over
    then have "?L = []" by (auto simp: links_between_def filter_empty_conv)
    with over less.prems show ?thesis by (subst walk_loop.simps) simp
  next
    case gap
    then have "?L = []" by (simp add: linkBatch_def)
    with gap q show ?thesis by (subst walk_loop.simps) simp
  next
    case batch
    have split: "?L = ?b @ ?r" by simp
    have "last ?b \<in> set ?L" using batch(2) by (metis in_set_takeD last_in_set)
    then have lst: "e \<le> lk_Seq (last ?b)" "lk_Seq (last ?b) \<le> hi" by (simp_all add: links_between_def)
    have e': "wrap64 (lk_Seq (last ?b) + 1) = lk_Seq (last ?b) + 1" "fits64 (lk_Seq (last ?b) + 1)"
      using lst assms(3) less.prems(2) by (simp_all add: wrap64_id fits64_def)
    obtain v' x where f: "fold checkLink ?b (v, e) = (v', x)" by fastforce
    from fold_checkLink [OF batch(2), of v e] f e' have
      v': "ve_rows v' = fold track_rows ?b (ve_rows v)" "ve_legacy v' = ve_legacy v"
        "ve_prev v' = lk_Hash (last ?b)" "ve_prevKnown v'" "x = lk_Seq (last ?b) + 1" by simp_all
    have "\<forall>l\<in>set ?b. fits64 (lk_Seq l) \<and> lk_Seq l < max64"
      using assms(2,3) by (fastforce simp: chain_keys_def links_between_def dest: in_set_takeD)
    from fold_checkLink_clean [OF this less.prems(1), of e] f
    have c: "clean v' \<longleftrightarrow> clean v \<and> linked (ve_prev v) e ?b" by simp
    have rest: "links_between x hi (chain_links (sp_Chain s) (aw_db w)) = ?r"
      unfolding v'(5) by (rule links_between_cut [OF assms(2) split batch(2)])
    have "nat (hi + 1 - x) < nat (hi + 1 - e)" using lst batch(1) v'(5) by simp
    from less.hyps [OF this v'(4)] e' lst v'(5) rest obtain v2 where
      v2: "walk_loop s v' x hi w = Some (Inr v2, w)" "ve_rows v2 = fold track_rows ?r (ve_rows v')"
        "ve_legacy v2 = ve_legacy v'"
        "clean v2 \<longleftrightarrow> clean v' \<and> linked (ve_prev v') x ?r \<and> int (length ?r) = hi + 1 - x" by auto
    have step: "walk_loop s v e hi w = Some (Inr v2, w)"
      by (subst walk_loop.simps) (use batch q f v2(1) in auto)
    have x: "x = e + int (length ?b)" if "linked (ve_prev v) e ?b"
      using linked_last [OF that batch(2)] by (simp only: v'(5))
    have "linked (ve_prev v) e ?L \<longleftrightarrow> linked (ve_prev v) e ?b \<and> linked (lk_Hash (last ?b)) (e + int (length ?b)) ?r"
      using linked_append [of "ve_prev v" e ?b ?r] batch(2) by (simp only: append_take_drop_id if_False)
    moreover have "int (length ?L) = int (length ?b) + int (length ?r)"
      by (subst split, subst length_append) simp
    moreover have "fold track_rows ?L (ve_rows v) = fold track_rows ?r (fold track_rows ?b (ve_rows v))"
      by (subst split, subst fold_append) simp
    ultimately show ?thesis using v2 v' c x step by auto
  qed
qed

end
