(* ===== verification/Audit_Rows.thy ===== *)
theory Audit_Rows
  imports Audit_Walk
begin

text \<open>
  What the verifier finds in the rows when nothing else runs, and the exact result of a whole
  verification: \<^verbatim>\<open>window_consistent\<close> says what a report without problems means.
\<close>

subsection \<open>One row\<close>

definition newest_link :: "int \<Rightarrow> Link list \<Rightarrow> Link option" where
  "newest_link i links = find (row_link i) (rev links)"

definition carries :: "audit_row \<Rightarrow> Link \<Rightarrow> bool" where
  "carries r l = (ar_ChainSeq r = Some (lk_Seq l) \<and> ar_PrevHash r = Some (lk_PrevHash l) \<and>
     ar_Hash r = Some (lk_Hash l))"

text \<open>A live row agrees with the links of the window that name it, with the state of its newest link and
  with its insertion; a row that is gone was deleted or truncated.\<close>

definition live_consistent :: "Spec \<Rightarrow> Link list \<Rightarrow> Link list \<Rightarrow> audit_row \<Rightarrow> bool" where
  "live_consistent s links win r =
     ((\<forall>l\<in>set win. names (ar_ID r) l \<longrightarrow> lk_SealedHash l = sealedHash r) \<and>
      (case newest_link (ar_ID r) links of
         None \<Rightarrow> True
       | Some l \<Rightarrow> lk_Op l = ''D'' \<or> sp_State s = [] \<or> lk_State l = stateText s r) \<and>
      (case find (\<lambda>l. lk_Op l = ''I'') (rev (filter (names (ar_ID r)) win)) of
         None \<Rightarrow> True | Some l \<Rightarrow> carries r l))"

definition gone_consistent :: "Link list \<Rightarrow> Link list \<Rightarrow> int \<Rightarrow> bool" where
  "gone_consistent links win i =
     ((case newest_link i links of None \<Rightarrow> False | Some l \<Rightarrow> lk_Op l = ''D'') \<or>
      (\<exists>l\<in>set win. names i l \<and> lk_Op l = ''D'') \<or>
      (\<exists>l\<in>set links. lk_Op l = ''T'' \<and> lk_Seq (hd (filter (names i) win)) < lk_Seq l))"

definition row_consistent :: "Spec \<Rightarrow> Link list \<Rightarrow> Link list \<Rightarrow> audit_row list \<Rightarrow> int \<Rightarrow> bool" where
  "row_consistent s links win rows i =
     (case find (\<lambda>r. ar_ID r = i) rows of
        None \<Rightarrow> gone_consistent links win i
      | Some r \<Rightarrow> live_consistent s links win r)"

lemma keep_rows:
  "ve_rows (case x of None \<Rightarrow> v | Some a \<Rightarrow> f a) = ve_rows v" if "\<And>a. ve_rows (f a) = ve_rows v"
  using that by (simp split: option.split)

lemma keep_legacy:
  "ve_legacy (case x of None \<Rightarrow> v | Some a \<Rightarrow> f a) = ve_legacy v" if "\<And>a. ve_legacy (f a) = ve_legacy v"
  using that by (simp split: option.split)

lemma checkRow_rows:
  "ve_rows (checkRow s visit i live latest deleted ts v) = ve_rows v"
  "ve_legacy (checkRow s visit i live latest deleted ts v) = ve_legacy v"
  unfolding checkRow_def Let_def
  by (cases live; simp add: keep_rows keep_legacy case_prod_beta)+

lemma checkRow_gone:
  assumes "map_of (ve_rows v) i = Some r"
  shows "clean (checkRow s visit i None latest deleted ts v) \<longleftrightarrow>
    clean v \<and> (deleted \<or> rl_deleted r \<or> (\<exists>t\<in>set ts. firstSeq r < t))"
  by (auto simp: checkRow_def Let_def assms clean_simps truncatedAfter_def list_ex_iff)

lemma checkRow_live:
  assumes "map_of (ve_rows v) i = Some r" "set (visit (rl_sealed r)) = set (rl_sealed r)"
  shows "clean (checkRow s visit i (Some live) latest deleted ts v) \<longleftrightarrow>
    clean v \<and> (\<forall>h\<in>fst ` set (rl_sealed r). h = lv_sealed live) \<and>
    (case latest of None \<Rightarrow> True | Some la \<Rightarrow> sp_State s = [] \<or> la_state la = lv_state live) \<and>
    (case rl_insert r of None \<Rightarrow> True | Some l \<Rightarrow> rowCarries live l)"
proof -
  have "find (\<lambda>(sealed, _). sealed \<noteq> lv_sealed live) (visit (rl_sealed r)) = None \<longleftrightarrow>
      (\<forall>h\<in>fst ` set (rl_sealed r). h = lv_sealed live)"
    by (auto simp: find_None_iff assms(2))
  then show ?thesis
    by (auto simp: checkRow_def Let_def assms(1) clean_simps split: option.splits)
qed

definition latest_of :: "int \<Rightarrow> Link list \<Rightarrow> latestLink option" where
  "latest_of i links = (case newest_link i links of
     None \<Rightarrow> None
   | Some l \<Rightarrow> if lk_Op l = ''D'' then None else Some \<lparr>la_seq = lk_Seq l, la_state = lk_State l\<rparr>)"

definition deleted_in :: "int \<Rightarrow> Link list \<Rightarrow> bool" where
  "deleted_in i links = (case newest_link i links of None \<Rightarrow> False | Some l \<Rightarrow> lk_Op l = ''D'')"

definition truncations :: "Link list \<Rightarrow> int list" where
  "truncations links = map lk_Seq (filter (\<lambda>l. lk_Op l = ''T'') links)"

definition check_one :: "Spec \<Rightarrow> audit_world \<Rightarrow> Link list \<Rightarrow> audit_row list \<Rightarrow> int \<Rightarrow> verifier \<Rightarrow> verifier" where
  "check_one s w links rows i = checkRow s (aw_visit w) i
     (map_option (live_of s) (find (\<lambda>r. ar_ID r = i) rows)) (latest_of i links) (deleted_in i links) (truncations links)"

lemma check_one_clean:
  assumes "quiet w" "map_of (ve_rows v) i = Some (row_summary (filter (names i) win))"
    "filter (names i) win \<noteq> []" "sorted (map lk_Seq win)" "\<forall>l\<in>set win. 0 < lk_Seq l"
  shows "clean (check_one s w links rows i v) \<longleftrightarrow> clean v \<and> row_consistent s links win rows i"
proof (cases "find (\<lambda>r. ar_ID r = i) rows")
  case None
  have "sorted (map lk_Seq (filter (names i) win))" using assms(4) by (rule sorted_filter)
  moreover have "0 < lk_Seq (hd (filter (names i) win))"
    using assms(3,5) hd_in_set [OF assms(3)] by (simp del: hd_in_set)
  ultimately have "firstSeq (row_summary (filter (names i) win)) = lk_Seq (hd (filter (names i) win))"
    by (rule summary_first [OF assms(3)])
  then show ?thesis
    by (auto simp: check_one_def None checkRow_gone [OF assms(2)] summary_deleted row_consistent_def
        gone_consistent_def deleted_in_def truncations_def)
next
  case (Some r)
  then have i: "ar_ID r = i" by (auto simp: find_Some_iff)
  have perm: "set (aw_visit w xs) = set xs" for xs using assms(1) by (simp add: quiet_def)
  have "(\<forall>h\<in>fst ` set (rl_sealed (row_summary (filter (names i) win))). h = sealedHash r) \<longleftrightarrow>
      (\<forall>l\<in>set win. names i l \<longrightarrow> lk_SealedHash l = sealedHash r)"
    unfolding summary_sealed by auto
  moreover have "rowCarries (live_of s r) l = carries r l" for l
    by (simp add: rowCarries_def carries_def live_of_def)
  ultimately show ?thesis
    by (simp add: check_one_def Some checkRow_live [where visit = "aw_visit w", OF assms(2) perm] row_consistent_def live_consistent_def i
        summary_insert latest_of_def live_of_def split: option.split)
qed

lemma check_one_rows:
  "ve_rows (check_one s w links rows i v) = ve_rows v" "ve_legacy (check_one s w links rows i v) = ve_legacy v"
  by (simp_all add: check_one_def checkRow_rows)

lemma fold_check_one_rows:
  "ve_rows (fold (check_one s w links rows) ids v) = ve_rows v"
  "ve_legacy (fold (check_one s w links rows) ids v) = ve_legacy v"
  by (induction ids arbitrary: v) (simp_all add: check_one_rows)

lemma fold_check_one_clean:
  assumes "quiet w" "sorted (map lk_Seq win)" "\<forall>l\<in>set win. 0 < lk_Seq l"
    "\<forall>i\<in>set ids. filter (names i) win \<noteq> []" "ve_rows v = fold track_rows win []"
  shows "clean (fold (check_one s w links rows) ids v) \<longleftrightarrow>
    clean v \<and> (\<forall>i\<in>set ids. row_consistent s links win rows i)"
  using assms(4,5)
proof (induction ids arbitrary: v)
  case (Cons i ids)
  have "map_of (ve_rows v) i = Some (row_summary (filter (names i) win))"
    using Cons.prems by (simp add: tracked_row)
  from check_one_clean [OF assms(1) this _ assms(2,3)] Cons show ?case
    by (auto simp: check_one_rows)
qed simp

subsection \<open>Batches\<close>

lemma check_batches_quiet:
  assumes "quiet w" "ad_Rows (aw_db w) (sp_Table s) = Some rows"
  shows "check_batches s (truncations (chain_links (sp_Chain s) (aw_db w))) ids v w =
    (Inr (fold (check_one s w (chain_links (sp_Chain s) (aw_db w)) rows) ids v), w)"
proof (induction ids arbitrary: v rule: measure_induct_rule [of length])
  case (less ids)
  let ?L = "chain_links (sp_Chain s) (aw_db w)"
  show ?case
  proof (cases "ids = []")
    case True
    then show ?thesis by (simp add: check_batches.simps areturn_def)
  next
    case False
    let ?b = "take rowBatch ids"
    have shorter: "length (drop rowBatch ids) < length ids" using False by (simp add: rowBatch_def)
    have same: "fold (\<lambda>i. checkRow s (aw_visit w) i
          (if i \<in> set ?b then map_option (live_of s) (find (\<lambda>r. ar_ID r = i) rows) else None)
          (case if i \<in> set ?b then find (row_link i) (rev ?L) else None of None \<Rightarrow> None
             | Some l \<Rightarrow> if lk_Op l = ''D'' then None else Some \<lparr>la_seq = lk_Seq l, la_state = lk_State l\<rparr>)
          (case if i \<in> set ?b then find (row_link i) (rev ?L) else None of None \<Rightarrow> False | Some l \<Rightarrow> lk_Op l = ''D'')
          (truncations ?L)) ?b v = fold (check_one s w ?L rows) ?b v"
      by (rule fold_cong) (simp_all add: check_one_def latest_of_def deleted_in_def newest_link_def)
    have "check_batches s (truncations ?L) ids v w =
        check_batches s (truncations ?L) (drop rowBatch ids) (fold (check_one s w ?L rows) ?b v) w"
      by (subst check_batches.simps)
        (simp add: False Let_def abind_def liveRows_def rowHistory_def aquery_quiet [OF assms(1)] of_table_def assms(2) same)
    also have "\<dots> = (Inr (fold (check_one s w ?L rows) (drop rowBatch ids) (fold (check_one s w ?L rows) ?b v)), w)"
      by (rule less [OF shorter])
    finally show ?thesis by (metis append_take_drop_id fold_append comp_apply)
  qed
qed

lemma checkRows_quiet:
  assumes "quiet w" "ad_Rows (aw_db w) (sp_Table s) = Some rows"
  shows "checkRows s v w =
    (Inr (fold (check_one s w (chain_links (sp_Chain s) (aw_db w)) rows) (sort (map fst (ve_rows v))) v), w)"
  using check_batches_quiet [OF assms]
  by (simp add: checkRows_def abind_def truncateSeqs_def aquery_quiet [OF assms(1)] truncations_def)


subsection \<open>Windows\<close>

definition prev_of :: "int \<Rightarrow> Link list \<Rightarrow> string option" where
  "prev_of lo links = (if lo = 1 then Some Genesis else map_option lk_Hash (find (\<lambda>l. lk_Seq l = lo - 1) links))"

definition searched :: "bool \<Rightarrow> int \<Rightarrow> Link list \<Rightarrow> int \<times> int" where
  "searched full legacy win = (if full then (wrap64 (legacy + 1), 2 ^ 62) else insertRange (fold track_rows win []))"

definition no_unchained :: "bool \<Rightarrow> int \<Rightarrow> Link list \<Rightarrow> audit_row list \<Rightarrow> bool" where
  "no_unchained full legacy win rows =
     (case searched full legacy win of (a, b) \<Rightarrow>
        full \<or> a \<noteq> 0 \<longrightarrow>
        (\<forall>r\<in>set rows. a \<le> ar_ID r \<and> ar_ID r \<le> b \<and> legacy < ar_ID r \<longrightarrow> ar_ChainSeq r \<noteq> None))"

definition links_consistent :: "int \<Rightarrow> int \<Rightarrow> Link list \<Rightarrow> bool" where
  "links_consistent lo hi links =
     (let win = links_between lo hi links
      in (case prev_of lo links of None \<Rightarrow> False | Some prev \<Rightarrow> linked prev lo win) \<and>
         int (length win) = hi + 1 - lo)"

definition rows_consistent :: "Spec \<Rightarrow> Link list \<Rightarrow> Link list \<Rightarrow> audit_row list \<Rightarrow> bool" where
  "rows_consistent s links win rows = (\<forall>l\<in>set win. lk_Op l \<noteq> ''T'' \<longrightarrow> row_consistent s links win rows (lk_RowID l))"

definition window_consistent :: "Spec \<Rightarrow> int \<Rightarrow> Link list \<Rightarrow> audit_row list \<Rightarrow> int \<Rightarrow> int \<Rightarrow> bool \<Rightarrow> bool" where
  "window_consistent s legacy links rows lo hi full =
     ((lo \<le> hi \<longrightarrow> links_consistent lo hi links \<and> rows_consistent s links (links_between lo hi links) rows) \<and>
      no_unchained full legacy (links_between lo hi links) rows)"

lemma start_quiet:
  assumes "quiet w"
  shows "start s lo v w = (Inr (case prev_of lo (chain_links (sp_Chain s) (aw_db w)) of
      None \<Rightarrow> complain (problem KindGap (lo - 1) 0 ''the link before the window is missing'') v
    | Some prev \<Rightarrow> v\<lparr>ve_prev := prev, ve_prevKnown := True\<rparr>), w)"
  by (simp add: start_def prev_of_def abind_def areturn_def aquery_quiet [OF assms] split: option.split)

lemma walk_loop_dirty:
  assumes "quiet w" "chain_keys (sp_Chain s) (aw_db w)" "hi < max64" "fits64 e" "e \<le> hi + 1" "\<not> clean v"
  shows "\<exists>v'. walk_loop s v e hi w = Some (Inr v', w) \<and>
     ve_rows v' = fold track_rows (links_between e hi (chain_links (sp_Chain s) (aw_db w))) (ve_rows v) \<and>
     ve_legacy v' = ve_legacy v \<and> \<not> clean v'"
proof -
  let ?L = "links_between e hi (chain_links (sp_Chain s) (aw_db w))"
  let ?b = "take linkBatch ?L" and ?r = "drop linkBatch ?L"
  have q: "LinksInRange (sp_Chain s) e hi linkBatch w = (Inr ?b, w)"
    by (simp add: LinksInRange_def aquery_quiet [OF assms(1)] Let_def)
  consider (over) "hi < e" | (gap) "e \<le> hi" "?b = []" | (batch) "e \<le> hi" "?b \<noteq> []" by linarith
  then show ?thesis
  proof cases
    case over
    then have "?L = []" by (auto simp: links_between_def filter_empty_conv)
    with over assms(6) show ?thesis by (subst walk_loop.simps) simp
  next
    case gap
    then have "?L = []" by (simp add: linkBatch_def)
    with gap q show ?thesis by (subst walk_loop.simps) simp
  next
    case batch
    have split: "?L = ?b @ ?r" by simp
    have "last ?b \<in> set ?L" using batch(2) by (metis in_set_takeD last_in_set)
    then have lst: "e \<le> lk_Seq (last ?b)" "lk_Seq (last ?b) \<le> hi" by (simp_all add: links_between_def)
    have e': "wrap64 (lk_Seq (last ?b) + 1) = lk_Seq (last ?b) + 1" "fits64 (lk_Seq (last ?b) + 1)"
      using lst assms(3,4) by (simp_all add: wrap64_id fits64_def)
    obtain v' x where f: "fold checkLink ?b (v, e) = (v', x)" by fastforce
    from fold_checkLink [OF batch(2), of v e] f e' have
      v': "ve_rows v' = fold track_rows ?b (ve_rows v)" "ve_legacy v' = ve_legacy v"
        "ve_prevKnown v'" "x = lk_Seq (last ?b) + 1" by simp_all
    have dirty: "\<not> clean v'" using fold_checkLink_dirty [OF assms(6), of ?b e] f by simp
    have rest: "links_between x hi (chain_links (sp_Chain s) (aw_db w)) = ?r"
      unfolding v'(4) by (rule links_between_cut [OF assms(2) split batch(2)])
    from walk_loop_quiet [OF assms(1-3) v'(3), of x] e' lst v'(4) rest dirty obtain v2 where
      v2: "walk_loop s v' x hi w = Some (Inr v2, w)" "ve_rows v2 = fold track_rows ?r (ve_rows v')"
        "ve_legacy v2 = ve_legacy v'" "\<not> clean v2" by auto
    have "walk_loop s v e hi w = Some (Inr v2, w)"
      by (subst walk_loop.simps) (use batch q f v2(1) in auto)
    moreover have "fold track_rows ?L (ve_rows v) = fold track_rows ?r (fold track_rows ?b (ve_rows v))"
      by (subst split, subst fold_append) simp
    ultimately show ?thesis using v2 v' by auto
  qed
qed

lemma walk_quiet:
  assumes "quiet w" "chain_keys (sp_Chain s) (aw_db w)" "hi < max64" "1 \<le> lo" "lo \<le> hi" "clean v" "ve_rows v = []"
  shows "\<exists>v'. walk s lo hi v w = Some (Inr v', w) \<and>
     ve_rows v' = fold track_rows (links_between lo hi (chain_links (sp_Chain s) (aw_db w))) [] \<and>
     ve_legacy v' = ve_legacy v \<and> (clean v' \<longleftrightarrow> links_consistent lo hi (chain_links (sp_Chain s) (aw_db w)))"
proof -
  have lo: "fits64 lo" "lo \<le> hi + 1" using assms(3-5) by (simp_all add: fits64_def min64_def)
  show ?thesis
  proof (cases "prev_of lo (chain_links (sp_Chain s) (aw_db w))")
    case None
    let ?v = "complain (problem KindGap (lo - 1) 0 ''the link before the window is missing'') v"
    have "\<not> clean ?v" by simp
    from walk_loop_dirty [OF assms(1-3) lo this] show ?thesis
      by (simp add: walk_def start_quiet [OF assms(1)] None links_consistent_def assms(7))
  next
    case (Some prev)
    have "ve_prevKnown (v\<lparr>ve_prev := prev, ve_prevKnown := True\<rparr>)" by simp
    from walk_loop_quiet [OF assms(1-3) this lo] show ?thesis
      by (simp add: walk_def start_quiet [OF assms(1)] Some links_consistent_def assms(6,7) clean_simps Let_def)
  qed
qed

lemma unchained_empty:
  "unchained lo hi legacy rows = [] \<longleftrightarrow>
    (\<forall>r\<in>set rows. lo \<le> ar_ID r \<and> ar_ID r \<le> hi \<and> legacy < ar_ID r \<longrightarrow> ar_ChainSeq r \<noteq> None)"
proof -
  have "sort xs = [] \<longleftrightarrow> xs = []" for xs :: "int list" by (metis length_0_conv length_sort)
  then show ?thesis by (auto simp: unchained_def filter_empty_conv)
qed

lemma findUnchained_quiet:
  assumes "quiet w" "ad_Rows (aw_db w) (sp_Table s) = Some rows" "ve_rows v = fold track_rows win []"
  shows "\<exists>v'. findUnchained s full v w = (Inr v', w) \<and> ve_legacy v' = ve_legacy v \<and>
    (clean v' \<longleftrightarrow> clean v \<and> no_unchained full (ve_legacy v) win rows)"
proof -
  obtain a b where ab: "searched full (ve_legacy v) win = (a, b)" by fastforce
  then have ab': "(if full then (wrap64 (ve_legacy v + 1), 2 ^ 62) else insertRange (ve_rows v)) = (a, b)"
    by (simp only: searched_def assms(3))
  let ?p = "\<lambda>i. complain (problem KindUnchainedRow 0 i
    ''the row carries no link: it was written behind the chain'')"
  have complaints: "(clean (fold ?p ids v) \<longleftrightarrow> clean v \<and> ids = []) \<and> ve_legacy (fold ?p ids v) = ve_legacy v" for ids v
  proof (induction ids arbitrary: v)
    case (Cons i ids)
    then show ?case by (cases ids) simp_all
  qed simp
  show ?thesis
  proof (cases "\<not> full \<and> a = 0")
    case True
    then show ?thesis using ab ab' by (simp add: findUnchained_def areturn_def no_unchained_def)
  next
    case False
    then show ?thesis
      unfolding findUnchained_def ab' Let_def prod.case
      by (simp add: abind_def areturn_def aquery_quiet [OF assms(1)] of_table_def assms(2) complaints
          no_unchained_def ab unchained_empty) blast
  qed
qed

lemma countLegacy_quiet:
  assumes "quiet w" "ad_Rows (aw_db w) (sp_Table s) = Some rows"
  shows "\<exists>v'. countLegacy s v w = (Inr v', w) \<and> clean v' = clean v"
  by (simp add: countLegacy_def areturn_def abind_def aquery_quiet [OF assms(1)] of_table_def assms(2) clean_simps)

lemma after_walk_quiet:
  assumes "quiet w" "ad_Rows (aw_db w) (sp_Table s) = Some rows" "ve_rows v = fold track_rows win []"
  shows "\<exists>v'. after_walk s lo full v w = (Inr v', w) \<and>
    (clean v' \<longleftrightarrow> clean v \<and> no_unchained full (ve_legacy v) win rows)"
proof -
  from findUnchained_quiet [OF assms] obtain v1 where
    v1: "findUnchained s full v w = (Inr v1, w)" "clean v1 \<longleftrightarrow> clean v \<and> no_unchained full (ve_legacy v) win rows"
    by blast
  from countLegacy_quiet [OF assms(1,2), of v1] v1 show ?thesis
    by (auto simp: after_walk_def abind_def areturn_def)
qed


subsection \<open>A whole verification\<close>

definition head_seq :: "Link list \<Rightarrow> int" where
  "head_seq links = (if links = [] then 0 else lk_Seq (last links))"

definition window_lo :: "Window \<Rightarrow> int" where
  "window_lo win = max (wi_FromSeq win) 1"

definition window_hi :: "Window \<Rightarrow> Link list \<Rightarrow> int" where
  "window_hi win links =
     (if wi_ToSeq win = 0 \<or> wi_ToSeq win > head_seq links then head_seq links else wi_ToSeq win)"

definition valid_window :: "Window \<Rightarrow> bool" where
  "valid_window win = (0 \<le> wi_FromSeq win \<and> 0 \<le> wi_ToSeq win \<and> (wi_ToSeq win = 0 \<or> wi_FromSeq win \<le> wi_ToSeq win))"

lemma run_quiet:
  fixes s win w v
  defines "links \<equiv> chain_links (sp_Chain s) (aw_db w)"
  defines "lo \<equiv> window_lo win" and "hi \<equiv> window_hi win links"
  assumes w: "quiet w" "chain_keys (sp_Chain s) (aw_db w)" "ad_Rows (aw_db w) (sp_Table s) = Some rows"
    and legacy: "ad_Legacy (aw_db w) (sp_Chain s) = Some legacy"
    and hi: "hi < max64" and v: "clean v" "ve_rows v = []"
  shows "\<exists>v'. run s win v w = Some (Inr v', w) \<and>
    (clean v' \<longleftrightarrow> window_consistent s legacy links rows lo hi (lo = 1 \<and> hi = head_seq links))"
proof -
  have L: "aquery a b (\<lambda>db. Inr (ad_Legacy db (sp_Chain s))) w = (Inr (Some legacy), w)" for a b
    by (simp add: aquery_quiet [OF w(1)] legacy)
  have H: "Head (sp_Chain s) w = (Inr (head_seq links, if links = [] then [] else lk_Hash (last links)), w)"
    by (simp add: Head_def aquery_quiet [OF w(1)] Let_def head_seq_def links_def)
  let ?full = "lo = 1 \<and> hi = head_seq links" and ?hash = "if links = [] then [] else lk_Hash (last links)"
  let ?v = "v\<lparr>ve_legacy := legacy, ve_rep := (ve_rep v)\<lparr>rp_HeadSeq := head_seq links, rp_HeadHash := ?hash,
      rp_FromSeq := lo, rp_ToSeq := hi\<rparr>\<rparr>"
  have v': "clean ?v" "ve_rows ?v = []" "ve_legacy ?v = legacy" using v by (simp_all add: clean_def OK_def)
  have r: "run s win v w =
      (if lo \<le> hi
       then (case walk s lo hi ?v w of
               None \<Rightarrow> None
             | Some (Inl e, w) \<Rightarrow> Some (Inl e, w)
             | Some (Inr v, w) \<Rightarrow> Some (abind (checkRows s v) (after_walk s lo ?full) w))
       else Some (after_walk s lo ?full ?v w))"
    by (simp only: run_def L H prod.case sum.case option.case Let_def lo_def hi_def window_lo_def window_hi_def)
  show ?thesis
  proof (cases "lo \<le> hi")
    case False
    then have "links_between lo hi links = []" by (auto simp: links_between_def filter_empty_conv)
    with after_walk_quiet [OF w(1,3), of ?v "[]" lo ?full] v' False show ?thesis
      by (simp add: r window_consistent_def)
  next
    case True
    let ?win = "links_between lo hi links"
    have lo: "1 \<le> lo" by (simp add: lo_def window_lo_def)
    from walk_quiet [OF w(1,2) hi lo True v'(1,2)] obtain v1 where
      v1: "walk s lo hi ?v w = Some (Inr v1, w)" "ve_rows v1 = fold track_rows ?win []"
        "ve_legacy v1 = legacy" "clean v1 \<longleftrightarrow> links_consistent lo hi links"
      by (auto simp: links_def)
    let ?ids = "sort (map fst (ve_rows v1))" and ?v2 = "fold (check_one s w links rows) (sort (map fst (ve_rows v1))) v1"
    have ids: "set ?ids = {i. \<exists>l\<in>set ?win. names i l}" using track_rows_dom [of ?win] by (simp add: v1(2))
    have sorted: "sorted (map lk_Seq ?win)"
      unfolding links_between_def links_def by (rule sorted_filter [OF chain_links_sorted])
    have pos: "\<forall>l\<in>set ?win. 0 < lk_Seq l" using lo by (auto simp: links_between_def)
    have "\<forall>i\<in>set ?ids. filter (names i) ?win \<noteq> []" unfolding ids by (auto simp: filter_empty_conv)
    from fold_check_one_clean [OF w(1) sorted pos this v1(2)]
    have c2: "clean ?v2 \<longleftrightarrow> clean v1 \<and> rows_consistent s links ?win rows"
      unfolding ids by (auto simp: rows_consistent_def names_def)
    have rows2: "ve_rows ?v2 = fold track_rows ?win []" "ve_legacy ?v2 = legacy"
      by (simp_all add: fold_check_one_rows v1)
    from after_walk_quiet [OF w(1,3) rows2(1), of lo ?full] obtain v3 where
      v3: "after_walk s lo ?full ?v2 w = (Inr v3, w)"
        "clean v3 \<longleftrightarrow> clean ?v2 \<and> no_unchained ?full legacy ?win rows" by (auto simp: rows2(2))
    have "run s win v w = Some (Inr v3, w)"
      using True v1(1) checkRows_quiet [OF w(1,3), of v1] v3(1)
      by (simp add: r abind_def links_def)
    with v3(2) c2 v1(4) True show ?thesis by (auto simp: window_consistent_def)
  qed
qed

lemma Verify_quiet:
  fixes s win w
  defines "links \<equiv> chain_links (sp_Chain s) (aw_db w)"
  defines "lo \<equiv> window_lo win" and "hi \<equiv> window_hi win links"
  assumes "validate s = Inr ()" "valid_window win" "quiet w" "chain_keys (sp_Chain s) (aw_db w)"
    and "ad_Rows (aw_db w) (sp_Table s) = Some rows" "ad_Legacy (aw_db w) (sp_Chain s) = Some legacy"
    and "hi < max64"
  shows "\<exists>rep. Verify s True win w = Some (Inr rep, w) \<and>
    (OK rep \<longleftrightarrow> window_consistent s legacy links rows lo hi (lo = 1 \<and> hi = head_seq links))"
proof -
  have "clean (new_verifier (sp_Chain s) (aw_now w))" "ve_rows (new_verifier (sp_Chain s) (aw_now w)) = []"
    by (simp_all add: clean_def OK_def new_verifier_def new_report_def)
  from run_quiet [OF assms(6-9) _ this, of win] assms(10) obtain v' where
    "run s win (new_verifier (sp_Chain s) (aw_now w)) w = Some (Inr v', w)"
    "clean v' \<longleftrightarrow> window_consistent s legacy links rows lo hi (lo = 1 \<and> hi = head_seq links)"
    by (auto simp: links_def lo_def hi_def)
  with assms(4,5) show ?thesis
    by (auto simp: Verify_def valid_window_def clean_def not_less)
qed

end
