(* ===== verification/Audit_History.thy ===== *)
theory Audit_History
  imports Audit_Rows
begin

text \<open>
  Histories of the chained tables: tables before their chain is installed, the installation, and
  committed transactions of writers that take fresh row ids and leave sealed columns alone. The
  invariant of such histories says that the links are chained and that they and the rows tell the
  same story.
\<close>

subsection \<open>The story a chain tells\<close>

type_synonym entry = "string \<times> int \<times> string \<times> string"

definition link_entry :: "Link \<Rightarrow> entry" where
  "link_entry l = (lk_Op l, lk_RowID l, lk_SealedHash l, lk_State l)"

definition event_entry :: "Spec \<Rightarrow> trigger_event \<Rightarrow> entry" where
  "event_entry s ev = (event_op ev, ar_ID (event_row ev), sealedHash (event_row ev), event_state s ev)"

definition about :: "int \<Rightarrow> entry \<Rightarrow> bool" where
  "about i e = (fst e \<noteq> ''T'' \<and> fst (snd e) = i)"

definition story :: "Spec \<Rightarrow> audit_db \<Rightarrow> trigger_event list \<Rightarrow> entry list" where
  "story s db pending = map link_entry (chain_links (sp_Chain s) db) @ map (event_entry s) pending"

text \<open>The last entry that names the row or empties the table.\<close>

definition last_word :: "int \<Rightarrow> entry list \<Rightarrow> entry option" where
  "last_word i h = find (\<lambda>e. fst e = ''T'' \<or> about i e) (rev h)"

lemma last_word_Nil [simp]: "last_word i [] = None"
  by (simp add: last_word_def)

lemma last_word_snoc [simp]:
  "last_word i (h @ [e]) = (if fst e = ''T'' \<or> about i e then Some e else last_word i h)"
  by (simp add: last_word_def)

definition live_story :: "Spec \<Rightarrow> entry list \<Rightarrow> audit_row \<Rightarrow> bool" where
  "live_story s h r =
     ((\<forall>e\<in>set h. about (ar_ID r) e \<longrightarrow> fst (snd (snd e)) = sealedHash r) \<and>
      (case last_word (ar_ID r) h of
         None \<Rightarrow> True | Some e \<Rightarrow> fst e \<in> {''I'', ''U''} \<and> snd (snd (snd e)) = stateText s r))"

definition gone_story :: "entry list \<Rightarrow> int \<Rightarrow> bool" where
  "gone_story h i = (case last_word i h of None \<Rightarrow> False | Some e \<Rightarrow> fst e \<in> {''D'', ''T''})"

definition true_story :: "Spec \<Rightarrow> entry list \<Rightarrow> audit_row list \<Rightarrow> bool" where
  "true_story s h rows =
     (distinct (map ar_ID rows) \<and> (\<forall>r\<in>set rows. live_story s h r) \<and>
      (\<forall>e\<in>set h. fst e \<noteq> ''T'' \<longrightarrow> fst (snd e) \<notin> ar_ID ` set rows \<longrightarrow> gone_story h (fst (snd e))) \<and>
      distinct (map (fst \<circ> snd) (filter (\<lambda>e. fst e = ''I'') h)))"

text \<open>A row carries its insert link, waits for it, or was there before the chain.\<close>

definition inserts :: "int \<Rightarrow> entry \<Rightarrow> bool" where
  "inserts i e = (fst e = ''I'' \<and> fst (snd e) = i)"

definition chainless :: "audit_row \<Rightarrow> bool" where
  "chainless r = (ar_ChainSeq r = None \<and> ar_PrevHash r = None \<and> ar_Hash r = None)"

definition anchored :: "int \<Rightarrow> Link list \<Rightarrow> trigger_event list \<Rightarrow> audit_row \<Rightarrow> bool" where
  "anchored legacy links pending r =
     ((\<exists>l\<in>set links. lk_Op l = ''I'' \<and> lk_RowID l = ar_ID r \<and> carries r l) \<or>
      chainless r \<and> (\<exists>r'. Inserted r' \<in> set pending \<and> ar_ID r' = ar_ID r) \<or>
      chainless r \<and> ar_ID r \<le> legacy \<and> (\<forall>l\<in>set links. \<not> (lk_Op l = ''I'' \<and> lk_RowID l = ar_ID r)))"

definition tx_inv :: "Spec \<Rightarrow> int \<Rightarrow> audit_db \<times> trigger_event list \<Rightarrow> bool" where
  "tx_inv s legacy x = (case x of (db, pending) \<Rightarrow>
     linked Genesis 1 (chain_links (sp_Chain s) db) \<and>
     int (length (chain_links (sp_Chain s) db)) \<le> max64 \<and>
     (\<forall>l\<in>set (chain_links (sp_Chain s) db). lk_Op l \<in> {''I'', ''U'', ''D'', ''T''} \<and> CHR ''|'' \<notin> set (lk_SealedHash l)) \<and>
     ad_Rows db (sp_Table s) \<noteq> None \<and>
     ad_Legacy db (sp_Chain s) = Some legacy \<and>
     true_story s (story s db pending) (table_rows (sp_Table s) db) \<and>
     (\<forall>r\<in>set (table_rows (sp_Table s) db). anchored legacy (chain_links (sp_Chain s) db) pending r))"

subsection \<open>Appending a link\<close>

lemma insort_key_last: "f x \<le> f z \<Longrightarrow> insort_key f x (ys @ [z]) = insort_key f x ys @ [z]"
  by (induction ys) auto

lemma sort_key_last:
  fixes f :: "'a \<Rightarrow> 'b::linorder"
  shows "\<forall>y\<in>set xs. f y \<le> f x \<Longrightarrow> sort_key f (xs @ [x]) = sort_key f xs @ [x]"
  by (induction xs) (auto simp: insort_key_last)

lemma chain_links_append:
  assumes "\<forall>l\<in>set (chain_links c db). lk_Seq l \<le> lk_Seq link"
  shows "chain_links c (db\<lparr>ad_Links := ad_Links db @ [(c', link)]\<rparr>) =
    chain_links c db @ (if c = c' then [link] else [])"
  using assms by (auto simp: chain_links_def sort_key_last)

lemma sorted_last:
  fixes f :: "'a \<Rightarrow> 'b::linorder"
  shows "sorted (map f xs) \<Longrightarrow> x \<in> set xs \<Longrightarrow> f x \<le> f (last xs)"
  by (induction xs) auto

lemmas last_seq = sorted_last [OF chain_links_sorted]

lemma LinkHash_hash [simp]: "LinkHash (l\<lparr>lk_Hash := h\<rparr>) = LinkHash l"
  by (simp add: LinkHash_def preimage_def)

lemma append_link:
  assumes "audit_chain_append ss c i op v sealed state db = Inr (link, db')"
    and "linked Genesis 1 (chain_links c db)" "int (length (chain_links c db)) \<le> max64"
  shows "chain_links c db' = chain_links c db @ [link]" "linked Genesis 1 (chain_links c db')"
    "int (length (chain_links c db')) \<le> max64" "link_entry link = (op, i, sealed, state)"
    "ad_Rows db' = ad_Rows db" "ad_Legacy db' = ad_Legacy db" "\<And>c'. c' \<noteq> c \<Longrightarrow> chain_links c' db' = chain_links c' db"
proof -
  let ?L = "chain_links c db"
  define seq where "seq = (if ?L = [] then 0 else lk_Seq (last ?L))"
  define prev where "prev = (if ?L = [] then Genesis else lk_Hash (last ?L))"
  have seq: "seq = int (length ?L)" using linked_last [OF assms(2)] by (auto simp: seq_def)
  define l where "l = \<lparr>lk_Seq = seq + 1, lk_RowID = i, lk_Op = op, lk_V = v, lk_SealedHash = sealed,
    lk_State = state, lk_PrevHash = prev, lk_Hash = [], lk_At = ss_At ss, lk_DBUser = ss_User ss, lk_App = ss_App ss\<rparr>"
  have pair: "(if ?L = [] then (0, Genesis) else (lk_Seq (last ?L), lk_Hash (last ?L))) = (seq, prev)"
    by (simp add: seq_def prev_def)
  from assms(1) have le: "seq + 1 \<le> max64" and link: "link = l\<lparr>lk_Hash := LinkHash l\<rparr>"
    and db': "db' = db\<lparr>ad_Links := ad_Links db @ [(c, link)]\<rparr>"
    unfolding audit_chain_append_def Let_def pair prod.case l_def by (auto split: if_splits)
  have fields: "lk_Seq link = seq + 1" "lk_PrevHash link = prev" "LinkHash link = lk_Hash link"
    by (simp_all add: link) (simp_all add: l_def)
  have less: "\<forall>k\<in>set ?L. lk_Seq k \<le> lk_Seq link"
  proof
    fix k assume k: "k \<in> set ?L"
    then have "lk_Seq k \<le> seq" using last_seq [OF k] by (auto simp: seq_def)
    then show "lk_Seq k \<le> lk_Seq link" by (simp add: fields)
  qed
  show new: "chain_links c db' = ?L @ [link]" using chain_links_append [OF less, of c] by (simp add: db')
  show "linked Genesis 1 (chain_links c db')" unfolding new linked_append
    using assms(2) seq fields by (auto simp: prev_def)
  show "int (length (chain_links c db')) \<le> max64" using le seq by (simp add: new)
  show "link_entry link = (op, i, sealed, state)" by (simp add: link_entry_def link l_def)
  show "ad_Rows db' = ad_Rows db" "ad_Legacy db' = ad_Legacy db" by (simp_all add: db')
  show "\<And>c'. c' \<noteq> c \<Longrightarrow> chain_links c' db' = chain_links c' db" by (simp add: db' chain_links_def)
qed

lemma set_rows_simps [simp]:
  "chain_links c (set_rows t rows db) = chain_links c db" "ad_Legacy (set_rows t rows db) = ad_Legacy db"
  "table_rows t (set_rows t rows db) = rows" "t' \<noteq> t \<Longrightarrow> table_rows t' (set_rows t rows db) = table_rows t' db"
  "ad_Rows (set_rows t rows db) t = Some rows" "t' \<noteq> t \<Longrightarrow> ad_Rows (set_rows t rows db) t' = ad_Rows db t'"
  "story s (set_rows t rows db) pending = story s db pending"
  by (simp_all add: set_rows_def chain_links_def table_rows_def story_def)


subsection \<open>Row operations\<close>

lemma live_story_same:
  "ar_ID r' = ar_ID r \<Longrightarrow> ar_Sealed r' = ar_Sealed r \<Longrightarrow> stateText s r' = stateText s r \<Longrightarrow>
    live_story s h r' = live_story s h r"
  by (simp add: live_story_def sealedHash_def cong: option.case_cong)

lemma true_storyI:
  assumes "distinct (map ar_ID rows)" "\<And>r. r \<in> set rows \<Longrightarrow> live_story s h r"
    "\<And>op i sealed state. (op, i, sealed, state) \<in> set h \<Longrightarrow> op \<noteq> ''T'' \<Longrightarrow> i \<notin> ar_ID ` set rows \<Longrightarrow> gone_story h i"
    "distinct (map (fst \<circ> snd) (filter (\<lambda>e. fst e = ''I'') h))"
  shows "true_story s h rows"
  unfolding true_story_def
proof (intro conjI ballI impI)
  fix e assume "e \<in> set h" "fst e \<noteq> ''T''" "fst (snd e) \<notin> ar_ID ` set rows"
  then show "gone_story h (fst (snd e))"
    using assms(3) [of "fst e" "fst (snd e)" "fst (snd (snd e))" "snd (snd (snd e))"] by simp
qed (use assms in auto)

lemma true_storyD:
  assumes "true_story s h rows"
  shows "distinct (map ar_ID rows)" "\<And>r. r \<in> set rows \<Longrightarrow> live_story s h r"
    "\<And>op i sealed state. (op, i, sealed, state) \<in> set h \<Longrightarrow> op \<noteq> ''T'' \<Longrightarrow> i \<notin> ar_ID ` set rows \<Longrightarrow> gone_story h i"
    "distinct (map (fst \<circ> snd) (filter (\<lambda>e. fst e = ''I'') h))"
proof -
  show "distinct (map ar_ID rows)" "\<And>r. r \<in> set rows \<Longrightarrow> live_story s h r"
    "distinct (map (fst \<circ> snd) (filter (\<lambda>e. fst e = ''I'') h))"
    using assms by (simp_all add: true_story_def)
  have "\<forall>e\<in>set h. fst e \<noteq> ''T'' \<longrightarrow> fst (snd e) \<notin> ar_ID ` set rows \<longrightarrow> gone_story h (fst (snd e))"
    using assms by (simp add: true_story_def)
  then show "gone_story h i" if "(op, i, sealed, state) \<in> set h" "op \<noteq> ''T''" "i \<notin> ar_ID ` set rows" for op i sealed state
    using that by (metis fst_conv snd_conv)
qed

lemma true_story_map:
  assumes "true_story s h rows"
    "\<And>r. r \<in> set rows \<Longrightarrow> ar_ID (f r) = ar_ID r \<and> ar_Sealed (f r) = ar_Sealed r \<and> stateText s (f r) = stateText s r"
  shows "true_story s h (map f rows)"
proof -
  have ids: "map ar_ID (map f rows) = map ar_ID rows" using assms(2) by simp
  then have set_ids: "ar_ID ` set (map f rows) = ar_ID ` set rows" by (metis list.set_map)
  show ?thesis
  proof (rule true_storyI)
    show "live_story s h r" if "r \<in> set (map f rows)" for r
    proof -
      from that obtain x where x: "x \<in> set rows" "r = f x" by auto
      with assms(2) have "live_story s h r = live_story s h x" by (intro live_story_same) simp_all
      with true_storyD(2) [OF assms(1) x(1)] show ?thesis by simp
    qed
    show "gone_story h i" if "(op, i, sealed, state) \<in> set h" "op \<noteq> ''T''" "i \<notin> ar_ID ` set (map f rows)"
      for op i sealed state
      using true_storyD(3) [OF assms(1) that(1,2)] that(3) unfolding set_ids .
  qed (use true_storyD(1,4) [OF assms(1)] in \<open>simp_all only: ids\<close>)
qed

lemma live_story_snoc:
  "live_story s h r \<Longrightarrow> fst e \<noteq> ''T'' \<Longrightarrow> fst (snd e) \<noteq> ar_ID r \<Longrightarrow> live_story s (h @ [e]) r"
  by (simp add: live_story_def about_def)

lemma gone_story_snoc:
  "gone_story h i \<Longrightarrow> fst (snd e) \<noteq> i \<or> fst e \<in> {''D'', ''T''} \<Longrightarrow> gone_story (h @ [e]) i"
  by (auto simp: gone_story_def about_def)

lemma story_insert:
  assumes "true_story s h rows" "ar_ID r \<notin> ar_ID ` set rows" "\<forall>e\<in>set h. \<not> about (ar_ID r) e"
  shows "true_story s (h @ [(''I'', ar_ID r, sealedHash r, stateText s r)]) (rows @ [r])"
proof (rule true_storyI)
  let ?e = "(''I'', ar_ID r, sealedHash r, stateText s r)"
  note d = true_storyD [OF assms(1)]
  show "distinct (map ar_ID (rows @ [r]))" using d(1) assms(2) by simp
  show "live_story s (h @ [?e]) x" if "x \<in> set (rows @ [r])" for x
  proof (cases "x = r")
    case True
    then show ?thesis using assms(3) by (auto simp: live_story_def about_def)
  next
    case False
    with that have "x \<in> set rows" by simp
    with d(2) assms(2) show ?thesis by (intro live_story_snoc) auto
  qed
  show "gone_story (h @ [?e]) i"
    if "(op, i, sealed, state) \<in> set (h @ [?e])" "op \<noteq> ''T''" "i \<notin> ar_ID ` set (rows @ [r])" for op i sealed state
    using that by (intro gone_story_snoc d(3)) auto
  have "ar_ID r \<notin> set (map (fst \<circ> snd) (filter (\<lambda>e. fst e = ''I'') h))"
    using assms(3) by (auto simp: about_def)
  then show "distinct (map (fst \<circ> snd) (filter (\<lambda>e. fst e = ''I'') (h @ [?e])))" using d(4) by simp
qed

lemma story_update:
  assumes "true_story s h rows" "r \<in> set rows" "ar_ID r' = ar_ID r" "ar_Sealed r' = ar_Sealed r"
  shows "true_story s (h @ [(''U'', ar_ID r, sealedHash r', stateText s r')])
    (map (\<lambda>x. if ar_ID x = ar_ID r then r' else x) rows)" (is "true_story s (h @ [?e]) ?rows")
proof (rule true_storyI)
  note d = true_storyD [OF assms(1)]
  have ids: "map ar_ID ?rows = map ar_ID rows" using assms(3) by simp
  then have set_ids: "ar_ID ` set ?rows = ar_ID ` set rows" by (metis list.set_map)
  show "distinct (map ar_ID ?rows)" unfolding ids by (rule d(1))
  have new: "live_story s (h @ [?e]) r'"
    using d(2) [OF assms(2)] assms(3,4) by (auto simp: live_story_def about_def sealedHash_def)
  show "live_story s (h @ [?e]) x" if "x \<in> set ?rows" for x
  proof (cases "x = r'")
    case False
    with that have "x \<in> set rows" "ar_ID x \<noteq> ar_ID r" by (auto split: if_splits)
    with d(2) show ?thesis by (intro live_story_snoc) auto
  qed (simp add: new)
  show "gone_story (h @ [?e]) i"
    if "(op, i, sealed, state) \<in> set (h @ [?e])" "op \<noteq> ''T''" "i \<notin> ar_ID ` set ?rows" for op i sealed state
    using that assms(2) unfolding set_ids by (intro gone_story_snoc d(3)) auto
  show "distinct (map (fst \<circ> snd) (filter (\<lambda>e. fst e = ''I'') (h @ [?e])))" using d(4) by simp
qed

lemma story_delete:
  assumes "true_story s h rows" "r \<in> set rows"
  shows "true_story s (h @ [(''D'', ar_ID r, sealedHash r, [])]) (filter (\<lambda>x. ar_ID x \<noteq> ar_ID r) rows)"
    (is "true_story s (h @ [?e]) ?rows")
proof (rule true_storyI)
  note d = true_storyD [OF assms(1)]
  show "distinct (map ar_ID ?rows)" using d(1) by (rule distinct_map_filter)
  show "live_story s (h @ [?e]) x" if "x \<in> set ?rows" for x
    using that d(2) by (intro live_story_snoc) auto
  show "gone_story (h @ [?e]) i"
    if "(op, i, sealed, state) \<in> set (h @ [?e])" "op \<noteq> ''T''" "i \<notin> ar_ID ` set ?rows" for op i sealed state
  proof (cases "i = ar_ID r")
    case True
    then show ?thesis by (simp add: gone_story_def about_def)
  next
    case False
    with that have "(op, i, sealed, state) \<in> set h" "i \<notin> ar_ID ` set rows" by auto
    with d(3) that(2) show ?thesis by (intro gone_story_snoc) auto
  qed
  show "distinct (map (fst \<circ> snd) (filter (\<lambda>e. fst e = ''I'') (h @ [?e])))" using d(4) by simp
qed

lemma story_truncate:
  assumes "true_story s h rows"
  shows "true_story s (h @ [(''T'', 0, [], [])]) []"
  using true_storyD(4) [OF assms] by (intro true_storyI) (auto simp: gone_story_def)

end
