(* ===== verification/Audit_Steps.thy ===== *)
theory Audit_Steps
  imports Audit_History
begin

text \<open>
  Transactions of honest writers and the histories they make, as a step relation, with the invariant
  of \<^verbatim>\<open>Audit_History\<close> by rule induction.
\<close>

subsection \<open>Honest transactions\<close>

text \<open>A writer inserts under an id no entry names, as a sequence gives them, and does not rewrite
  sealed columns.\<close>

definition honest_op :: "Spec \<Rightarrow> audit_db \<times> trigger_event list \<Rightarrow> row_op \<Rightarrow> bool" where
  "honest_op s x op = (case x of (db, pending) \<Rightarrow>
     (case op of
        InsertRow i _ _ \<Rightarrow> list_all (\<lambda>e. \<not> about i e) (story s db pending)
      | UpdateRow i sealed _ \<Rightarrow>
          list_all (\<lambda>r. ar_ID r = i \<longrightarrow> ar_Sealed r = sealed) (table_rows (sp_Table s) db)
      | _ \<Rightarrow> True))"

fun honest_ops :: "Spec \<Rightarrow> session \<Rightarrow> row_op list \<Rightarrow> audit_db \<times> trigger_event list \<Rightarrow> bool" where
  "honest_ops s ss [] x = True"
| "honest_ops s ss (op # ops) x =
     (honest_op s x op \<and> (case row_step s ss op x of Inl _ \<Rightarrow> True | Inr x \<Rightarrow> honest_ops s ss ops x))"

lemma story_event: "story s db (pending @ [ev]) = story s db pending @ [event_entry s ev]"
  by (simp add: story_def)

lemma event_entries:
  "event_entry s (Inserted r) = (''I'', ar_ID r, sealedHash r, stateText s r)"
  "event_entry s (Updated r) = (''U'', ar_ID r, sealedHash r, stateText s r)"
  "event_entry s (Deleted r) = (''D'', ar_ID r, sealedHash r, [])"
  by (simp_all add: event_entry_def event_state_def)

lemma anchored_more: "anchored legacy links pending r \<Longrightarrow> anchored legacy links (pending @ evs) r"
  by (auto simp: anchored_def)

lemma anchored_change:
  "anchored legacy links pending r \<Longrightarrow> anchored legacy links pending (r\<lparr>ar_Sealed := a, ar_State := b\<rparr>)"
  by (auto simp: anchored_def carries_def chainless_def)

lemma tx_invI:
  assumes "tx_inv s legacy (db, pending)"
    and "true_story s (story s db pending') rows" "\<forall>r\<in>set rows. anchored legacy (chain_links (sp_Chain s) db) pending' r"
  shows "tx_inv s legacy (set_rows (sp_Table s) rows db, pending')"
  using assms by (simp add: tx_inv_def)

lemma tx_invD:
  assumes "tx_inv s legacy (db, pending)"
  shows "true_story s (story s db pending) (table_rows (sp_Table s) db)"
    "\<And>r. r \<in> set (table_rows (sp_Table s) db) \<Longrightarrow> anchored legacy (chain_links (sp_Chain s) db) pending r"
    "linked Genesis 1 (chain_links (sp_Chain s) db)" "int (length (chain_links (sp_Chain s) db)) \<le> max64"
    "\<And>l. l \<in> set (chain_links (sp_Chain s) db) \<Longrightarrow>
       lk_Op l \<in> {''I'', ''U'', ''D'', ''T''} \<and> CHR ''|'' \<notin> set (lk_SealedHash l)"
    "ad_Rows db (sp_Table s) \<noteq> None" "ad_Legacy db (sp_Chain s) = Some legacy"
  using assms by (simp_all add: tx_inv_def)

lemma insert_inv:
  assumes inv: "tx_inv s legacy (db, pending)" and hon: "honest_op s (db, pending) (InsertRow i sealed state)"
    and step: "insert_row s i sealed state (db, pending) = Inr x"
  shows "tx_inv s legacy x"
proof -
  let ?rows = "table_rows (sp_Table s) db" and ?r = "new_row i sealed state"
  from step have new: "i \<notin> ar_ID ` set ?rows" and
    x: "x = (set_rows (sp_Table s) (?rows @ [?r]) db, pending @ [Inserted ?r])"
    by (auto simp: insert_row_def Let_def split: if_splits)
  have r: "ar_ID ?r = i" by (simp add: new_row_def)
  have "\<forall>e\<in>set (story s db pending). \<not> about (ar_ID ?r) e" using hon by (simp add: honest_op_def list_all_iff r)
  from story_insert [OF tx_invD(1) [OF inv] _ this] new r
  have "true_story s (story s db (pending @ [Inserted ?r])) (?rows @ [?r])" by (simp add: story_event event_entries)
  moreover have "anchored legacy (chain_links (sp_Chain s) db) (pending @ [Inserted ?r]) ?r"
    by (auto simp: anchored_def chainless_def new_row_def)
  ultimately show ?thesis unfolding x
    using tx_invD(2) [OF inv] by (intro tx_invI [OF inv]) (auto intro: anchored_more)
qed

lemma filter_key:
  "distinct (map f xs) \<Longrightarrow> filter (\<lambda>x. f x = k \<and> P x) xs = [] \<or>
    (\<exists>x\<in>set xs. f x = k \<and> P x \<and> filter (\<lambda>x. f x = k \<and> P x) xs = [x])"
proof (induction xs)
  case (Cons y ys)
  show ?case
  proof (cases "f y = k")
    case True
    then have "filter (\<lambda>x. f x = k \<and> P x) ys = []"
      using Cons.prems by (auto simp: filter_empty_conv image_iff)
    with True show ?thesis by simp
  next
    case False
    with Cons show ?thesis by auto
  qed
qed simp

lemma update_inv:
  assumes inv: "tx_inv s legacy (db, pending)" and hon: "honest_op s (db, pending) (UpdateRow i sealed state)"
  shows "tx_inv s legacy (update_row s i sealed state (db, pending))"
proof -
  let ?rows = "table_rows (sp_Table s) db" and ?c = "\<lambda>r. r\<lparr>ar_Sealed := sealed, ar_State := state\<rparr>"
  let ?rows' = "map (\<lambda>r. if ar_ID r = i then ?c r else r) ?rows"
  let ?P = "\<lambda>r. ar_ID r = i \<and> stateText s r \<noteq> stateText s (?c r)"
  note d = tx_invD [OF inv]
  have same: "ar_Sealed r = sealed" if "r \<in> set ?rows" "ar_ID r = i" for r
    using hon that by (simp add: honest_op_def list_all_iff)
  have x: "update_row s i sealed state (db, pending) =
      (set_rows (sp_Table s) ?rows' db, pending @ map Updated (map ?c (filter ?P ?rows)))"
    by (simp add: update_row_def Let_def)
  have anchor: "\<forall>r\<in>set ?rows'. anchored legacy (chain_links (sp_Chain s) db) (pending @ xs) r" for xs
  proof
    fix r assume "r \<in> set ?rows'"
    then obtain r0 where r0: "r0 \<in> set ?rows" "r = (if ar_ID r0 = i then ?c r0 else r0)" by auto
    have "anchored legacy (chain_links (sp_Chain s) db) pending r"
      using d(2) [OF r0(1)] by (auto simp: r0(2) intro: anchored_change)
    then show "anchored legacy (chain_links (sp_Chain s) db) (pending @ xs) r" by (rule anchored_more)
  qed
  from filter_key [OF true_storyD(1) [OF d(1)], of i "\<lambda>r. stateText s r \<noteq> stateText s (?c r)"]
  consider (none) "filter ?P ?rows = []" | (one) r where "r \<in> set ?rows" "ar_ID r = i" "filter ?P ?rows = [r]"
    by auto
  then show ?thesis
  proof cases
    case none
    then have "stateText s (?c r) = stateText s r" if "r \<in> set ?rows" "ar_ID r = i" for r
      using that by (metis (mono_tags, lifting) filter_empty_conv)
    with same have "true_story s (story s db pending) ?rows'" by (intro true_story_map [OF d(1)]) auto
    with anchor [of "[]"] show ?thesis unfolding x none by (intro tx_invI [OF inv]) simp_all
  next
    case one
    have "?rows' = map (\<lambda>x. if ar_ID x = ar_ID r then ?c r else x) ?rows"
    proof (rule map_cong [OF refl])
      fix y assume y: "y \<in> set ?rows"
      have "y = r" if "ar_ID y = ar_ID r"
        using that y one(1) true_storyD(1) [OF d(1)] by (meson distinct_map inj_onD)
      then show "(if ar_ID y = i then ?c y else y) = (if ar_ID y = ar_ID r then ?c r else y)" using one(2) by auto
    qed
    moreover have "true_story s (story s db pending @ [(''U'', ar_ID r, sealedHash (?c r), stateText s (?c r))])
        (map (\<lambda>x. if ar_ID x = ar_ID r then ?c r else x) ?rows)"
      using same [OF one(1,2)] by (intro story_update [OF d(1) one(1)]) simp_all
    ultimately have "true_story s (story s db (pending @ [Updated (?c r)])) ?rows'"
      by (simp only: story_event event_entries) simp
    with anchor [of "[Updated (?c r)]"] show ?thesis unfolding x one(3) by (intro tx_invI [OF inv]) simp_all
  qed
qed

lemma delete_inv:
  assumes inv: "tx_inv s legacy (db, pending)"
  shows "tx_inv s legacy (delete_row s i (db, pending))"
proof -
  let ?rows = "table_rows (sp_Table s) db"
  let ?rows' = "filter (\<lambda>r. ar_ID r \<noteq> i) ?rows"
  note d = tx_invD [OF inv]
  have x: "delete_row s i (db, pending) =
      (set_rows (sp_Table s) ?rows' db, pending @ map Deleted (filter (\<lambda>r. ar_ID r = i \<and> True) ?rows))"
    by (simp add: delete_row_def Let_def)
  have anchor: "\<forall>r\<in>set ?rows'. anchored legacy (chain_links (sp_Chain s) db) (pending @ xs) r" for xs
    using d(2) by (auto intro: anchored_more)
  from filter_key [OF true_storyD(1) [OF d(1)], of i "\<lambda>_. True"]
  consider (none) "filter (\<lambda>r. ar_ID r = i \<and> True) ?rows = []"
    | (one) r where "r \<in> set ?rows" "ar_ID r = i" "filter (\<lambda>r. ar_ID r = i \<and> True) ?rows = [r]" by blast
  then show ?thesis
  proof cases
    case none
    then have "?rows' = ?rows" by (auto simp: filter_id_conv filter_empty_conv)
    then have "true_story s (story s db pending) ?rows'" using d(1) by simp
    with anchor [of "[]"] show ?thesis unfolding x none by (intro tx_invI [OF inv]) simp_all
  next
    case one
    have "true_story s (story s db (pending @ [Deleted r])) ?rows'"
      using story_delete [OF d(1) one(1)] one(2) by (simp add: story_event event_entries)
    with anchor [of "[Deleted r]"] show ?thesis unfolding x one(3) by (intro tx_invI [OF inv]) simp_all
  qed
qed

lemma truncate_inv:
  assumes inv: "tx_inv s legacy (db, pending)" and step: "truncate_table s ss (db, pending) = Inr x"
  shows "tx_inv s legacy x"
proof -
  note d = tx_invD [OF inv]
  from step obtain link db' where p: "pending = []"
    and app: "audit_chain_append ss (sp_Chain s) 0 ''T'' 1 [] [] db = Inr (link, db')"
    and x: "x = (set_rows (sp_Table s) [] db', [])"
    by (auto simp: truncate_table_def ebind_Inr_iff split: if_splits)
  note a = append_link [OF app d(3,4)]
  have "link_entry link = (''T'', 0, [], [])" by (rule a(4))
  then have link: "lk_Op link = ''T''" "lk_SealedHash link = []" by (simp_all add: link_entry_def)
  have "true_story s (story s db' []) []"
    using story_truncate [OF d(1)] p a(1,4) by (simp add: story_def)
  then show ?thesis unfolding x using a d link by (auto simp: tx_inv_def)
qed

lemma row_step_inv:
  assumes "tx_inv s legacy x" "honest_op s x op" "row_step s ss op x = Inr x'"
  shows "tx_inv s legacy x'"
proof -
  obtain db pending where "x = (db, pending)" by fastforce
  with assms show ?thesis
    by (cases op) (auto intro: insert_inv update_inv delete_inv truncate_inv)
qed

lemma row_steps_inv:
  assumes "tx_inv s legacy x" "honest_ops s ss ops x" "row_steps s ss ops x = Inr x'"
  shows "tx_inv s legacy x'"
  using assms
proof (induction ops arbitrary: x)
  case (Cons op ops)
  then obtain y where y: "row_step s ss op x = Inr y" by (auto simp: ebind_Inr_iff)
  with Cons.prems row_step_inv [of s legacy x op ss y] Cons.IH [of y] show ?case by simp
qed simp


subsection \<open>Deferred triggers\<close>

lemma link_inv:
  assumes inv: "tx_inv s legacy (db, ev # evs)" and step: "audit_chain_link s ss ev db = Inr db'"
  shows "tx_inv s legacy (db', evs)"
proof -
  note d = tx_invD [OF inv]
  let ?r = "event_row ev" and ?rows = "table_rows (sp_Table s) db"
  from step obtain link db1 where
    app: "audit_chain_append ss (sp_Chain s) (ar_ID ?r) (event_op ev) (sp_Version s) (sealedHash ?r)
        (event_state s ev) db = Inr (link, db1)"
    and db': "db' = (case ev of
        Inserted _ \<Rightarrow> set_rows (sp_Table s) (map (\<lambda>row. if ar_ID row = ar_ID ?r then carry link row else row)
          (table_rows (sp_Table s) db1)) db1
      | _ \<Rightarrow> db1)"
    by (auto simp: audit_chain_link_def Let_def ebind_Inr_iff)
  note a = append_link [OF app d(3,4)]
  have rows1: "table_rows (sp_Table s) db1 = ?rows" using a(5) by (simp add: table_rows_def)
  have entry: "link_entry link = event_entry s ev" using a(4) by (simp add: event_entry_def)
  then have link: "lk_Op link = event_op ev" "lk_RowID link = ar_ID ?r" "lk_SealedHash link = sealedHash ?r"
    by (simp_all add: link_entry_def event_entry_def)
  have links: "lk_Op l \<in> {''I'', ''U'', ''D'', ''T''} \<and> CHR ''|'' \<notin> set (lk_SealedHash l)"
    if "l \<in> set (chain_links (sp_Chain s) db1)" for l
    using that d(5) by (cases ev) (auto simp: a(1) link sealedHash_def sha_hex_free)
  have story: "story s db1 evs = story s db (ev # evs)" by (simp add: story_def a(1) entry)
  define rows' where "rows' = table_rows (sp_Table s) db'"
  have rows': "rows' = (case ev of
      Inserted _ \<Rightarrow> map (\<lambda>row. if ar_ID row = ar_ID ?r then carry link row else row) ?rows | _ \<Rightarrow> ?rows)"
    by (cases ev) (simp_all add: rows'_def db' rows1)
  have "true_story s (story s db (ev # evs)) (map (\<lambda>row. if ar_ID row = ar_ID ?r then carry link row else row) ?rows)"
    by (rule true_story_map [OF d(1)]) (auto simp: carry_def stateText_def)
  then have same: "true_story s (story s db1 evs) rows'"
    unfolding story rows' using d(1) by (cases ev) simp_all
  have anchor: "anchored legacy (chain_links (sp_Chain s) db1) evs row" if row: "row \<in> set rows'" for row
  proof (cases "\<exists>r. ev = Inserted r \<and> ar_ID row = ar_ID r")
    case True
    then obtain r row0 where "ev = Inserted r" "ar_ID row = ar_ID r" "row = carry link row0"
      using row by (auto simp: rows' carry_def split: if_splits)
    then show ?thesis by (auto simp: anchored_def a(1) link carries_def carry_def)
  next
    case False
    then have "row \<in> set ?rows" using row by (cases ev) (auto simp: rows' carry_def split: if_splits)
    from d(2) [OF this] False show ?thesis
      by (cases ev) (auto simp: anchored_def a(1) link)
  qed
  have "chain_links (sp_Chain s) db' = chain_links (sp_Chain s) db1" "story s db' evs = story s db1 evs"
    "ad_Legacy db' = ad_Legacy db1" "ad_Rows db' (sp_Table s) \<noteq> None"
    using a(5) d(6) by (cases ev; simp add: db')+
  with a d links same anchor show ?thesis by (auto simp: tx_inv_def rows'_def)
qed

lemma fire_inv:
  "tx_inv s legacy (db, evs) \<Longrightarrow> fire s ss evs db = Inr db' \<Longrightarrow> tx_inv s legacy (db', [])"
proof (induction evs arbitrary: db)
  case (Cons ev evs)
  then obtain db1 where db1: "audit_chain_link s ss ev db = Inr db1" "fire s ss evs db1 = Inr db'"
    by (auto simp: ebind_Inr_iff)
  with Cons.IH [of db1] link_inv [OF Cons.prems(1)] show ?case by simp
qed simp

lemma audit_tx_inv:
  assumes "tx_inv s legacy (db, [])" "honest_ops s ss ops (db, [])" "audit_tx s ss ops db = Inr db'"
  shows "tx_inv s legacy (db', [])"
proof -
  from assms(3) obtain db1 pending where "row_steps s ss ops (db, []) = Inr (db1, pending)" "fire s ss pending db1 = Inr db'"
    by (auto simp: audit_tx_def ebind_Inr_iff)
  with row_steps_inv [OF assms(1,2)] fire_inv show ?thesis by blast
qed

subsection \<open>Other chains\<close>

text \<open>A transaction on one table leaves the others and their chains alone.\<close>

definition unchanged :: "Spec \<Rightarrow> audit_db \<Rightarrow> audit_db \<Rightarrow> bool" where
  "unchanged s db db' = (chain_links (sp_Chain s) db' = chain_links (sp_Chain s) db \<and>
     ad_Rows db' (sp_Table s) = ad_Rows db (sp_Table s) \<and> ad_Legacy db' = ad_Legacy db)"

lemma unchanged_refl [simp]: "unchanged s db db"
  by (simp add: unchanged_def)

lemma unchanged_trans: "unchanged s a b \<Longrightarrow> unchanged s b c \<Longrightarrow> unchanged s a c"
  by (simp add: unchanged_def)

lemma unchanged_rows: "sp_Table s \<noteq> t \<Longrightarrow> unchanged s db (set_rows t rows db)"
  by (simp add: unchanged_def)

lemma unchanged_append:
  "audit_chain_append ss c i op v sealed state db = Inr (link, db') \<Longrightarrow> sp_Chain s \<noteq> c \<Longrightarrow> unchanged s db db'"
  by (auto simp: audit_chain_append_def Let_def unchanged_def chain_links_def split: if_splits)

lemma unchanged_step:
  assumes "row_step s' ss op (db, pending) = Inr (db', pending')" "sp_Chain s \<noteq> sp_Chain s'" "sp_Table s \<noteq> sp_Table s'"
  shows "unchanged s db db'"
  using assms(1)
proof (cases op)
  case TruncateTable
  with assms(1) obtain link db1 where
    "audit_chain_append ss (sp_Chain s') 0 ''T'' 1 [] [] db = Inr (link, db1)" "db' = set_rows (sp_Table s') [] db1"
    by (auto simp: truncate_table_def ebind_Inr_iff split: if_splits)
  then show ?thesis using assms(2,3) by (metis unchanged_append unchanged_rows unchanged_trans)
qed (use assms in \<open>auto simp: insert_row_def update_row_def delete_row_def Let_def unchanged_rows split: if_splits\<close>)

lemma unchanged_steps:
  "row_steps s' ss ops (db, pending) = Inr (db', pending') \<Longrightarrow> sp_Chain s \<noteq> sp_Chain s' \<Longrightarrow>
    sp_Table s \<noteq> sp_Table s' \<Longrightarrow> unchanged s db db'"
proof (induction ops arbitrary: db pending)
  case (Cons op ops)
  then obtain db1 p1 where "row_step s' ss op (db, pending) = Inr (db1, p1)"
    "row_steps s' ss ops (db1, p1) = Inr (db', pending')" by (auto simp: ebind_Inr_iff)
  with Cons.IH unchanged_step Cons.prems unchanged_trans show ?case by metis
qed simp

lemma unchanged_link:
  assumes "audit_chain_link s' ss ev db = Inr db'" "sp_Chain s \<noteq> sp_Chain s'" "sp_Table s \<noteq> sp_Table s'"
  shows "unchanged s db db'"
proof -
  from assms(1) obtain link db1 where
    "audit_chain_append ss (sp_Chain s') (ar_ID (event_row ev)) (event_op ev) (sp_Version s')
       (sealedHash (event_row ev)) (event_state s' ev) db = Inr (link, db1)"
    and db': "db' = db1 \<or> (\<exists>rows. db' = set_rows (sp_Table s') rows db1)"
    by (cases ev) (auto simp: audit_chain_link_def Let_def ebind_Inr_iff)
  then have "unchanged s db db1" using assms(2) unchanged_append by metis
  with db' assms(3) show ?thesis by (metis unchanged_rows unchanged_trans)
qed

lemma unchanged_fire:
  "fire s' ss evs db = Inr db' \<Longrightarrow> sp_Chain s \<noteq> sp_Chain s' \<Longrightarrow> sp_Table s \<noteq> sp_Table s' \<Longrightarrow> unchanged s db db'"
proof (induction evs arbitrary: db)
  case (Cons ev evs)
  then obtain db1 where "audit_chain_link s' ss ev db = Inr db1" "fire s' ss evs db1 = Inr db'"
    by (auto simp: ebind_Inr_iff)
  with Cons.IH unchanged_link Cons.prems unchanged_trans show ?case by metis
qed simp

lemma unchanged_tx:
  assumes "audit_tx s' ss ops db = Inr db'" "sp_Chain s \<noteq> sp_Chain s'" "sp_Table s \<noteq> sp_Table s'"
  shows "unchanged s db db'"
proof -
  from assms(1) obtain db1 pending where
    "row_steps s' ss ops (db, []) = Inr (db1, pending)" "fire s' ss pending db1 = Inr db'"
    by (auto simp: audit_tx_def ebind_Inr_iff)
  with unchanged_steps unchanged_fire assms(2,3) unchanged_trans show ?thesis by metis
qed


subsection \<open>Histories\<close>

text \<open>Before its chain is installed a table changes freely; from then on honest transactions commit.\<close>

inductive audit_step :: "audit_db \<Rightarrow> audit_db \<Rightarrow> bool" where
  before: "s \<in> set Specs \<Longrightarrow> ad_Legacy db (sp_Chain s) = None \<Longrightarrow> distinct (map ar_ID rows) \<Longrightarrow>
    list_all chainless rows \<Longrightarrow> audit_step db (set_rows (sp_Table s) rows db)"
| installs: "s \<in> set Specs \<Longrightarrow> audit_step db (install s db)"
| commits: "s \<in> set Specs \<Longrightarrow> ad_Legacy db (sp_Chain s) \<noteq> None \<Longrightarrow> honest_ops s ss ops (db, []) \<Longrightarrow>
    audit_tx s ss ops db = Inr db' \<Longrightarrow> audit_step db db'"

inductive_cases audit_stepE: "audit_step db db'"

definition audit_db0 :: audit_db where
  "audit_db0 = \<lparr>ad_Links = [], ad_Meta = [], ad_Rows = (\<lambda>_. None)\<rparr>"

definition chain_inv :: "Spec \<Rightarrow> audit_db \<Rightarrow> bool" where
  "chain_inv s db =
     (case ad_Legacy db (sp_Chain s) of
        None \<Rightarrow> chain_links (sp_Chain s) db = [] \<and> distinct (map ar_ID (table_rows (sp_Table s) db)) \<and>
                list_all chainless (table_rows (sp_Table s) db)
      | Some legacy \<Rightarrow> tx_inv s legacy (db, []))"

lemma chain_inv_unchanged:
  assumes "chain_inv s db" "unchanged s db db'"
  shows "chain_inv s db'"
proof -
  have "table_rows (sp_Table s) db' = table_rows (sp_Table s) db" using assms(2) by (simp add: unchanged_def table_rows_def)
  with assms show ?thesis
    by (auto simp: chain_inv_def unchanged_def tx_inv_def story_def split: option.splits)
qed

lemma distinct_specs:
  assumes "s \<in> set Specs" "s' \<in> set Specs"
  shows "sp_Chain s = sp_Chain s' \<longleftrightarrow> s = s'" "sp_Table s = sp_Table s' \<longleftrightarrow> s = s'"
  using assms builtin_specs(2,3) by (meson distinct_map inj_onD)+

lemma install_inv:
  assumes "chain_inv s db" "s \<in> set Specs" "s' \<in> set Specs"
  shows "chain_inv s (install s' db)"
proof (cases "ad_Rows db (sp_Table s') = None \<or> ad_Legacy db (sp_Chain s') \<noteq> None")
  case True
  then have "install s' db = db" by (auto simp: install_def split: option.split)
  with assms(1) show ?thesis by simp
next
  case False
  then obtain rows where rows: "ad_Rows db (sp_Table s') = Some rows" "ad_Legacy db (sp_Chain s') = None" by auto
  define legacy where "legacy = (if rows = [] then 0 else Max (set (map ar_ID rows)))"
  have db': "install s' db = db\<lparr>ad_Meta := (sp_Chain s', legacy) # ad_Meta db\<rparr>"
    by (simp add: install_def rows legacy_def)
  have same: "chain_links c (install s' db) = chain_links c db" "table_rows t (install s' db) = table_rows t db" for c t
    by (simp_all add: db' chain_links_def table_rows_def)
  show ?thesis
  proof (cases "s' = s")
    case True
    have inv: "chain_links (sp_Chain s) db = []" "distinct (map ar_ID rows)" "list_all chainless rows"
      using assms(1) rows True by (simp_all add: chain_inv_def table_rows_def)
    have old: "\<forall>r\<in>set rows. ar_ID r \<le> legacy" by (auto simp: legacy_def)
    have new: "ad_Legacy (install s db) (sp_Chain s) = Some legacy" "chain_links (sp_Chain s) (install s db) = []"
      "table_rows (sp_Table s) (install s db) = rows" "ad_Rows (install s db) (sp_Table s) = Some rows"
      using rows inv(1) db' same True by (simp_all add: table_rows_def)
    with inv old have "tx_inv s legacy (install s db, [])"
      by (simp add: tx_inv_def story_def true_story_def live_story_def anchored_def list_all_iff max64_def)
    then show ?thesis using new(1) True by (simp add: chain_inv_def)
  next
    case False
    then have "sp_Chain s \<noteq> sp_Chain s'" using distinct_specs(1) [OF assms(2,3)] by auto
    with assms(1) show ?thesis
      by (auto simp: chain_inv_def tx_inv_def same db' story_def table_rows_def chain_links_def split: option.splits)
  qed
qed

lemma audit_step_inv:
  assumes "audit_step db db'" "chain_inv s db" "s \<in> set Specs"
  shows "chain_inv s db'"
  using assms(1)
proof cases
  case (before s' rows)
  show ?thesis
  proof (cases "s' = s")
    case True
    with before assms(2) show ?thesis by (simp add: chain_inv_def)
  next
    case False
    then have "sp_Table s \<noteq> sp_Table s'" using distinct_specs(2) [OF assms(3) before(2)] by auto
    with before(1) show ?thesis by (auto intro: chain_inv_unchanged [OF assms(2)] unchanged_rows)
  qed
next
  case (installs s')
  then show ?thesis using install_inv [OF assms(2,3)] by simp
next
  case (commits s' ss ops)
  show ?thesis
  proof (cases "s' = s")
    case True
    with commits assms(2) obtain legacy where "ad_Legacy db (sp_Chain s) = Some legacy" "tx_inv s legacy (db, [])"
      by (auto simp: chain_inv_def split: option.splits)
    with audit_tx_inv commits(3,4) True have "tx_inv s legacy (db', [])" by blast
    then show ?thesis using tx_invD(7) by (fastforce simp: chain_inv_def)
  next
    case False
    then show ?thesis using chain_inv_unchanged [OF assms(2)] unchanged_tx [OF commits(4)]
        distinct_specs [OF assms(3) commits(1)] by auto
  qed
qed

lemma audit_reachable_inv:
  assumes "audit_step\<^sup>*\<^sup>* audit_db0 db" "s \<in> set Specs"
  shows "chain_inv s db"
  using assms(1)
proof (induction rule: rtranclp_induct)
  case base
  show ?case by (simp add: chain_inv_def audit_db0_def ad_Legacy_def chain_links_def table_rows_def)
next
  case (step db1 db2)
  then show ?case using audit_step_inv assms(2) by blast
qed

end
