(* ===== verification/Audit_Example.thy ===== *)
theory Audit_Example
  imports Audit_Steps
begin

text \<open>A small action log for the witnesses: a row is inserted, then its state is updated.\<close>

definition ex_session :: session where
  "ex_session = \<lparr>ss_At = 0, ss_User = ''sage'', ss_App = ''sidecar''\<rparr>"

definition ex_link :: "int \<Rightarrow> string \<Rightarrow> string \<Rightarrow> string \<Rightarrow> Link" where
  "ex_link seq op state prev =
     (let l = \<lparr>lk_Seq = seq, lk_RowID = 1, lk_Op = op, lk_V = 1, lk_SealedHash = sha_hex ''[1]'',
               lk_State = state, lk_PrevHash = prev, lk_Hash = [], lk_At = 0, lk_DBUser = ''sage'',
               lk_App = ''sidecar''\<rparr>
      in l\<lparr>lk_Hash := LinkHash l\<rparr>)"

definition ex_insert :: Link where
  "ex_insert = ex_link 1 ''I'' ''[a]'' Genesis"

definition ex_update :: Link where
  "ex_update = ex_link 2 ''U'' ''[b]'' (lk_Hash ex_insert)"

definition ex_log_row :: "string \<Rightarrow> audit_row" where
  "ex_log_row state = \<lparr>ar_ID = 1, ar_Sealed = ''[1]'', ar_State = state, ar_ChainSeq = Some 1,
     ar_PrevHash = Some Genesis, ar_Hash = Some (lk_Hash ex_insert)\<rparr>"

definition ex_log :: "Link list \<Rightarrow> audit_row list \<Rightarrow> audit_db" where
  "ex_log links rows = \<lparr>ad_Links = map (\<lambda>l. (''action_log'', l)) links, ad_Meta = [(''action_log'', 0)],
     ad_Rows = [''sage.action_log'' \<mapsto> rows]\<rparr>"

definition ex_inserted :: audit_db where
  "ex_inserted = ex_log [ex_insert] [ex_log_row ''[a]'']"

definition ex_updated :: audit_db where
  "ex_updated = ex_log [ex_insert, ex_update] [ex_log_row ''[b]'']"

definition ex_world :: "audit_db \<Rightarrow> audit_event list \<Rightarrow> audit_world" where
  "ex_world db script = \<lparr>aw_db = db, aw_script = script, aw_visit = (\<lambda>xs. xs), aw_now = 0\<rparr>"

lemma ex_link_simps [simp]:
  "lk_Seq (ex_link seq op state prev) = seq" "lk_RowID (ex_link seq op state prev) = 1"
  "lk_Op (ex_link seq op state prev) = op" "lk_SealedHash (ex_link seq op state prev) = sha_hex ''[1]''"
  "lk_State (ex_link seq op state prev) = state" "lk_PrevHash (ex_link seq op state prev) = prev"
  "LinkHash (ex_link seq op state prev) = lk_Hash (ex_link seq op state prev)"
  by (simp_all add: ex_link_def Let_def LinkHash_def preimage_def)

lemma ex_log_simps [simp]:
  "chain_links ''action_log'' (ex_log links rows) = sort_key lk_Seq links"
  "table_rows ''sage.action_log'' (ex_log links rows) = rows"
  "ad_Rows (ex_log links rows) ''sage.action_log'' = Some rows"
  "ad_Legacy (ex_log links rows) ''action_log'' = Some 0"
  "set_rows ''sage.action_log'' rows' (ex_log links rows) = ex_log links rows'"
proof -
  have "filter (\<lambda>(c, _). c = ''action_log'') (map (\<lambda>l. (''action_log'', l)) links) = map (\<lambda>l. (''action_log'', l)) links"
    by (induction links) simp_all
  then show "chain_links ''action_log'' (ex_log links rows) = sort_key lk_Seq links"
    by (simp add: chain_links_def ex_log_def comp_def)
qed (simp_all add: ex_log_def ad_Legacy_def table_rows_def set_rows_def)

lemma ActionLog_simps [simp]:
  "sp_Chain ActionLog = ''action_log''" "sp_Table ActionLog = ''sage.action_log''" "sp_Version ActionLog = 1"
  "sp_State ActionLog \<noteq> []" "ActionLog \<in> set Specs" "validate ActionLog = Inr ()"
  using builtin_specs(1) by (simp_all add: ActionLog_def Specs_def)

lemma ex_append:
  assumes "sort_key lk_Seq links = (if seq = 1 then [] else ks @ [l])" "seq = 1 \<or> lk_Seq l = seq - 1" "seq \<le> 10"
    "prev = (if seq = 1 then Genesis else lk_Hash l)"
  shows "audit_chain_append ex_session ''action_log'' 1 op 1 (sha_hex ''[1]'') state (ex_log links rows) =
    Inr (ex_link seq op state prev, ex_log (links @ [ex_link seq op state prev]) rows)"
proof -
  have "(if sort_key lk_Seq links = [] then (0, Genesis)
      else (lk_Seq (last (sort_key lk_Seq links)), lk_Hash (last (sort_key lk_Seq links)))) = (seq - 1, prev)"
    using assms by auto
  moreover have "\<not> seq - 1 + 1 > max64" using assms(3) by (simp add: max64_def)
  ultimately show ?thesis
    by (simp add: audit_chain_append_def Let_def ex_link_def ex_session_def) (simp add: ex_log_def)
qed

lemma ex_insert_tx:
  "audit_tx ActionLog ex_session [InsertRow 1 ''[1]'' ''[a]''] (ex_log [] []) = Inr ex_inserted"
proof -
  have app: "audit_chain_append ex_session ''action_log'' 1 ''I'' 1 (sha_hex ''[1]'') ''[a]''
      (ex_log [] [new_row 1 ''[1]'' ''[a]'']) = Inr (ex_insert, ex_log [ex_insert] [new_row 1 ''[1]'' ''[a]''])"
    using ex_append [of "[]" 1 "[]" undefined Genesis "''I''" "''[a]''"] by (simp add: ex_insert_def)
  show ?thesis
    by (simp add: audit_tx_def insert_row_def audit_chain_link_def Let_def event_state_def stateText_def sealedHash_def
        app ex_inserted_def)
      (simp add: new_row_def sealedHash_def app [unfolded new_row_def] carry_def ex_log_row_def ex_insert_def)
qed

lemma ex_update_tx:
  "audit_tx ActionLog ex_session [UpdateRow 1 ''[1]'' ''[b]''] ex_inserted = Inr ex_updated"
proof -
  have app: "audit_chain_append ex_session ''action_log'' 1 ''U'' 1 (sha_hex ''[1]'') ''[b]''
      (ex_log [ex_insert] [ex_log_row ''[b]'']) = Inr (ex_update, ex_updated)"
    using ex_append [of "[ex_insert]" 2 "[]" ex_insert "lk_Hash ex_insert" "''U''" "''[b]''"]
    by (simp add: ex_update_def ex_updated_def) (simp add: ex_insert_def)
  have row: "ex_log_row ''[a]''\<lparr>ar_Sealed := ''[1]'', ar_State := ''[b]''\<rparr> = ex_log_row ''[b]''" "ar_ID (ex_log_row x) = 1"
    "ar_Sealed (ex_log_row x) = ''[1]''" "ar_State (ex_log_row x) = x" for x
    by (simp_all add: ex_log_row_def)
  show ?thesis
    by (simp add: audit_tx_def update_row_def audit_chain_link_def Let_def event_state_def stateText_def sealedHash_def
        ex_inserted_def row app)
qed

lemma ex_reachable: "audit_step\<^sup>*\<^sup>* audit_db0 ex_inserted" "audit_step\<^sup>*\<^sup>* audit_db0 ex_updated"
proof -
  have "audit_step audit_db0 (set_rows (sp_Table ActionLog) [] audit_db0)"
    by (rule before) (simp_all add: audit_db0_def ad_Legacy_def)
  moreover have "audit_step (set_rows (sp_Table ActionLog) [] audit_db0) (ex_log [] [])"
  proof -
    have "install ActionLog (set_rows (sp_Table ActionLog) [] audit_db0) = ex_log [] []"
      by (simp add: ad_Legacy_def install_def set_rows_def audit_db0_def ex_log_def)
    then show ?thesis using installs [of ActionLog "set_rows (sp_Table ActionLog) [] audit_db0"] by simp
  qed
  moreover have "audit_step (ex_log [] []) ex_inserted"
    by (rule commits [OF _ _ _ ex_insert_tx]) (simp_all add: honest_op_def story_def insert_row_def Let_def)
  ultimately show ins: "audit_step\<^sup>*\<^sup>* audit_db0 ex_inserted"
    by (meson rtranclp.rtrancl_into_rtrancl rtranclp.rtrancl_refl)
  have "audit_step ex_inserted ex_updated"
    by (rule commits [OF _ _ _ ex_update_tx]) (simp_all add: honest_op_def ex_inserted_def ex_log_row_def)
  with ins show "audit_step\<^sup>*\<^sup>* audit_db0 ex_updated" by simp
qed

lemma ex_world_simps [simp]:
  "aw_db (ex_world db script) = db" "aw_script (ex_world db script) = script" "aw_visit (ex_world db script) = (\<lambda>xs. xs)"
  "aw_now (ex_world db script) = 0"
  by (simp_all add: ex_world_def)

end
