(* ===== verification/Audit_Props.thy ===== *)
theory Audit_Props
  imports Audit_Example
begin

text \<open>
  The properties of the audit chains: what a verification accepts, that honest histories verify, what
  an accepted chain binds, and when the verifier returns.
\<close>

subsection \<open>Segments of a chain\<close>

lemma linked_bounds: "linked p q ls \<Longrightarrow> l \<in> set ls \<Longrightarrow> q \<le> lk_Seq l \<and> lk_Seq l < q + int (length ls)"
  by (induction ls arbitrary: p q) fastforce+

lemma linked_before:
  assumes "linked p q (xs @ t # ys)" "l \<in> set xs"
  shows "lk_Seq l < lk_Seq t"
proof -
  have "linked p q xs" "lk_Seq t = q + int (length xs)" using assms(1) by (simp_all add: linked_append)
  with linked_bounds assms(2) show ?thesis by fastforce
qed

lemma links_between_segment:
  assumes "linked p 1 (A @ B @ C)"
  shows "links_between (1 + int (length A)) (int (length A) + int (length B)) (A @ B @ C) = B"
proof -
  have "linked p 1 A" and rest: "linked (if A = [] then p else lk_Hash (last A)) (1 + int (length A)) (B @ C)"
    using assms by (simp_all add: linked_append)
  have C: "linked (if B = [] then (if A = [] then p else lk_Hash (last A)) else lk_Hash (last B))
      (1 + int (length A) + int (length B)) C"
    and B: "linked (if A = [] then p else lk_Hash (last A)) (1 + int (length A)) B"
    using rest unfolding linked_append by blast+
  have "links_between (1 + int (length A)) (int (length A) + int (length B)) A = []"
    using linked_bounds [OF \<open>linked p 1 A\<close>] by (fastforce simp: links_between_def filter_empty_conv)
  moreover have "links_between (1 + int (length A)) (int (length A) + int (length B)) B = B"
    using linked_bounds [OF B] by (fastforce simp: links_between_def filter_id_conv)
  moreover have "links_between (1 + int (length A)) (int (length A) + int (length B)) C = []"
    using linked_bounds [OF C] by (fastforce simp: links_between_def filter_empty_conv)
  ultimately show ?thesis by (simp add: links_between_def)
qed

lemma find_skip: "\<forall>y\<in>set xs. \<not> P y \<Longrightarrow> P x \<Longrightarrow> find P (xs @ x # ys) = Some x"
  by (induction xs) auto

lemma prev_segment:
  assumes "linked Genesis 1 (A @ B)"
  shows "prev_of (1 + int (length A)) (A @ B) = Some (if A = [] then Genesis else lk_Hash (last A))"
proof (cases "A = []")
  case False
  have A: "linked Genesis 1 (butlast A @ [last A])" using assms False by (simp add: linked_append)
  have "linked Genesis 1 A" using assms by (simp add: linked_append)
  then have "lk_Seq (last A) = int (length A)" using linked_last [of Genesis 1 A] False by simp
  moreover from A have "\<forall>l\<in>set (butlast A). lk_Seq l \<noteq> int (length A)"
    using linked_before [of Genesis 1 "butlast A" "last A" "[]"] calculation by fastforce
  ultimately have "find (\<lambda>l. lk_Seq l = int (length A)) (butlast A @ last A # B) = Some (last A)"
    by (intro find_skip) auto
  moreover have "butlast A @ last A # B = A @ B" using append_butlast_last_id [OF False] by (metis append.assoc append_Cons append_Nil)
  ultimately show ?thesis using False by (simp add: prev_of_def)
qed (simp add: prev_of_def)

lemma linked_consistent:
  assumes "linked Genesis 1 L" "1 \<le> lo" "lo \<le> hi" "hi \<le> int (length L)"
  shows "links_consistent lo hi L"
proof -
  define A where "A = take (nat (lo - 1)) L"
  define B where "B = take (nat (hi - lo + 1)) (drop (nat (lo - 1)) L)"
  define C where "C = drop (nat (hi - lo + 1)) (drop (nat (lo - 1)) L)"
  have L: "L = A @ B @ C" by (simp only: A_def B_def C_def append_take_drop_id)
  have lo: "lo = 1 + int (length A)" and hi: "hi = int (length A) + int (length B)"
    using assms(2-4) by (simp_all add: A_def B_def)
  have win: "links_between lo hi L = B"
    using links_between_segment [of Genesis A B C] assms(1) by (simp only: L lo hi)
  have "prev_of lo L = Some (if A = [] then Genesis else lk_Hash (last A))"
    using prev_segment [of A "B @ C"] assms(1) by (simp only: L lo)
  moreover have "linked (if A = [] then Genesis else lk_Hash (last A)) lo B"
    using assms(1) unfolding L lo linked_append by blast
  ultimately show ?thesis using win hi lo by (simp add: links_consistent_def)
qed

subsection \<open>Honest rows\<close>

lemma about_link: "about i (link_entry l) = names i l"
  by (simp add: about_def link_entry_def names_def)

lemma find_mem: "find P xs = Some x \<Longrightarrow> x \<in> set xs \<and> P x"
  using find_Some_first by fastforce

lemma find_map: "find P (map f xs) = map_option f (find (P \<circ> f) xs)"
  by (induction xs) auto

lemma last_word_link:
  "last_word i (map link_entry L) = map_option link_entry (find (\<lambda>l. lk_Op l = ''T'' \<or> names i l) (rev L))"
proof -
  have "(\<lambda>e. fst e = ''T'' \<or> about i e) \<circ> link_entry = (\<lambda>l. lk_Op l = ''T'' \<or> names i l)"
    by (simp add: fun_eq_iff about_link) (simp add: link_entry_def)
  then show ?thesis by (simp add: last_word_def rev_map find_map)
qed

lemma find_stronger:
  "find P xs = Some x \<Longrightarrow> Q x \<Longrightarrow> (\<And>y. Q y \<Longrightarrow> P y) \<Longrightarrow> find Q xs = Some x"
  by (induction xs) (auto split: if_splits)

lemma newest_of_last_word:
  assumes "find (\<lambda>l. lk_Op l = ''T'' \<or> names i l) (rev L) = Some t" "lk_Op t \<in> {''I'', ''U'', ''D''}"
  shows "newest_link i L = Some t"
proof -
  have "names i t" using find_mem [OF assms(1)] assms(2) by auto
  then have "row_link i t" using assms(2) by (auto simp: row_link_def names_def)
  moreover have "row_link i l \<Longrightarrow> lk_Op l = ''T'' \<or> names i l" for l by (auto simp: row_link_def names_def)
  ultimately show ?thesis unfolding newest_link_def by (rule find_stronger [OF assms(1)])
qed

lemma gone_row:
  assumes "linked Genesis 1 L" "gone_story (map link_entry L) i"
    "set win \<subseteq> set L" "filter (names i) win \<noteq> []"
  shows "gone_consistent L win i"
proof -
  from assms(2) obtain t where t: "find (\<lambda>l. lk_Op l = ''T'' \<or> names i l) (rev L) = Some t"
    and op: "lk_Op t = ''D'' \<or> lk_Op t = ''T''"
    by (auto simp: gone_story_def last_word_link link_entry_def split: option.splits)
  from op show ?thesis
  proof
    assume "lk_Op t = ''D''"
    then show ?thesis using newest_of_last_word [OF t] by (simp add: gone_consistent_def)
  next
    assume T: "lk_Op t = ''T''"
    from t obtain us vs where split: "rev L = us @ t # vs" and us: "\<forall>l\<in>set us. \<not> (lk_Op l = ''T'' \<or> names i l)"
      using find_Some_first [OF t] by blast
    then have L: "L = rev vs @ t # rev us" by (metis append.assoc append_Cons append_Nil rev.simps(2) rev_append rev_rev_ident)
    let ?f = "hd (filter (names i) win)"
    have f: "?f \<in> set L" "names i ?f" using hd_in_set [OF assms(4)] assms(3) by auto
    then have "?f \<noteq> t" using T by (auto simp: names_def)
    with f us have "?f \<in> set (rev vs)" unfolding L by auto
    then have "lk_Seq ?f < lk_Seq t" using linked_before assms(1) unfolding L by blast
    with T show ?thesis unfolding gone_consistent_def using L by auto
  qed
qed

lemma live_row:
  assumes story: "true_story s (map link_entry L) rows" and r: "r \<in> set rows"
    and anch: "anchored legacy L [] r" and win: "set win \<subseteq> set L"
  shows "live_consistent s L win r"
proof -
  let ?i = "ar_ID r"
  have live: "live_story s (map link_entry L) r" by (rule true_storyD(2) [OF story r])
  have sealed: "lk_SealedHash l = sealedHash r" if "l \<in> set win" "names ?i l" for l
  proof -
    have "link_entry l \<in> set (map link_entry L)" "about ?i (link_entry l)" using that win by (auto simp: about_link)
    with live have "fst (snd (snd (link_entry l))) = sealedHash r" unfolding live_story_def by blast
    then show ?thesis by (simp add: link_entry_def)
  qed
  have state: "lk_State l = stateText s r" if n: "newest_link ?i L = Some l" for l
  proof -
    have "l \<in> set L" "names ?i l"
      using n find_mem [of "row_link ?i" "rev L" l] by (auto simp: newest_link_def row_link_def names_def)
    then obtain t where t: "find (\<lambda>l. lk_Op l = ''T'' \<or> names ?i l) (rev L) = Some t"
      by (metis find_None_iff not_None_eq set_rev)
    then have "lk_Op t \<in> {''I'', ''U''}" "lk_State t = stateText s r"
      using live by (simp_all add: live_story_def last_word_link link_entry_def)
    moreover have "newest_link ?i L = Some t" using newest_of_last_word [OF t] calculation(1) by auto
    ultimately show ?thesis using n by simp
  qed
  have ins: "carries r l" if "find (\<lambda>l. lk_Op l = ''I'') (rev (filter (names ?i) win)) = Some l" for l
  proof -
    have "l \<in> set (filter (names ?i) win)" "lk_Op l = ''I''" using find_mem [OF that] by simp_all
    then have l: "l \<in> set L" "lk_Op l = ''I''" "lk_RowID l = ?i" using win by (auto simp: names_def)
    then obtain l' where l': "l' \<in> set L" "lk_Op l' = ''I''" "lk_RowID l' = ?i" "carries r l'"
      using anch by (auto simp: anchored_def)
    have "distinct (map (fst \<circ> snd) (filter (\<lambda>e. fst e = ''I'') (map link_entry L)))"
      by (rule true_storyD(4) [OF story])
    then have "distinct (map lk_RowID (filter (\<lambda>l. lk_Op l = ''I'') L))"
      by (simp add: filter_map comp_def link_entry_def)
    then have "l = l'" using l l' by (simp add: distinct_map inj_on_def)
    with l' show ?thesis by simp
  qed
  show ?thesis using sealed state ins by (auto simp: live_consistent_def split: option.split)
qed

lemma honest_rows:
  assumes inv: "tx_inv s legacy (db, [])" and win: "set win \<subseteq> set (chain_links (sp_Chain s) db)"
  shows "rows_consistent s (chain_links (sp_Chain s) db) win (table_rows (sp_Table s) db)"
proof -
  let ?L = "chain_links (sp_Chain s) db" and ?rows = "table_rows (sp_Table s) db"
  note d = tx_invD [OF inv]
  have story: "true_story s (map link_entry ?L) ?rows" using d(1) by (simp add: story_def)
  have "row_consistent s ?L win ?rows (lk_RowID l)" if l: "l \<in> set win" "lk_Op l \<noteq> ''T''" for l
  proof (cases "find (\<lambda>r. ar_ID r = lk_RowID l) ?rows")
    case None
    then have "lk_RowID l \<notin> ar_ID ` set ?rows" by (auto simp: find_None_iff)
    moreover have "link_entry l \<in> set (map link_entry ?L)" using l(1) win by auto
    ultimately have gone: "gone_story (map link_entry ?L) (lk_RowID l)"
      using true_storyD(3) [OF story] l(2) unfolding link_entry_def by blast
    have "filter (names (lk_RowID l)) win \<noteq> []" using l by (auto simp: filter_empty_conv names_def)
    from gone_row [OF d(3) gone win this] show ?thesis by (simp add: row_consistent_def None)
  next
    case (Some r)
    then have "r \<in> set ?rows" using find_mem by fast
    from live_row [OF story this d(2) [OF this] win] show ?thesis by (simp add: row_consistent_def Some)
  qed
  then show ?thesis by (simp add: rows_consistent_def)
qed


subsection \<open>Honest histories verify\<close>

lemma linked_keys:
  assumes "linked Genesis 1 (chain_links c db)" "int (length (chain_links c db)) \<le> max64"
  shows "chain_keys c db"
proof -
  have "distinct (map (\<lambda>i. 1 + int i) [0..<length (chain_links c db)])" by (simp add: distinct_map inj_on_def)
  then have "distinct (map lk_Seq (chain_links c db))" using linked_seq [OF assms(1)] by simp
  moreover have "fits64 (lk_Seq l)" if "l \<in> set (chain_links c db)" for l
    using linked_bounds [OF assms(1) that] assms(2) by (auto simp: fits64_def min64_def)
  ultimately show ?thesis by (simp add: chain_keys_def)
qed

lemma linked_head: "linked Genesis 1 L \<Longrightarrow> head_seq L = int (length L)"
  using linked_last [of Genesis 1 L] by (auto simp: head_seq_def)

lemma Specs_valid: "s \<in> set Specs \<Longrightarrow> validate s = Inr ()"
  using builtin_specs(1) by (simp add: list_all_iff)

lemma honest_verifies:
  assumes "audit_step\<^sup>*\<^sup>* audit_db0 (aw_db w)" "s \<in> set Specs" "ad_Legacy (aw_db w) (sp_Chain s) = Some legacy"
    and "quiet w" "valid_window win" "int (length (chain_links (sp_Chain s) (aw_db w))) < max64"
  shows "\<exists>rep. Verify s True win w = Some (Inr rep, w) \<and> OK rep"
proof -
  let ?L = "chain_links (sp_Chain s) (aw_db w)" and ?rows = "table_rows (sp_Table s) (aw_db w)"
  have inv: "tx_inv s legacy (aw_db w, [])"
    using audit_reachable_inv [OF assms(1,2)] assms(3) by (simp add: chain_inv_def)
  note d = tx_invD [OF inv]
  have rows: "ad_Rows (aw_db w) (sp_Table s) = Some ?rows" using d(6) by (auto simp: table_rows_def)
  have hi: "window_hi win ?L \<le> int (length ?L)" using linked_head [OF d(3)] by (simp add: window_hi_def)
  have lo: "1 \<le> window_lo win" by (simp add: window_lo_def)
  have "set (links_between a b ?L) \<subseteq> set ?L" for a b by (auto simp: links_between_def)
  then have "rows_consistent s ?L (links_between a b ?L) ?rows" for a b using honest_rows [OF inv] by blast
  moreover have "no_unchained full legacy wl ?rows" for full wl
    using d(2) by (fastforce simp: no_unchained_def anchored_def carries_def split: prod.split)
  moreover have "window_lo win \<le> window_hi win ?L \<Longrightarrow> links_consistent (window_lo win) (window_hi win ?L) ?L"
    using linked_consistent [OF d(3) lo _ hi] .
  ultimately have "window_consistent s legacy ?L ?rows (window_lo win) (window_hi win ?L) full" for full
    by (simp add: window_consistent_def)
  moreover have "window_hi win ?L < max64" using hi assms(6) by simp
  ultimately show ?thesis
    using Verify_quiet [OF Specs_valid [OF assms(2)] assms(5,4) linked_keys [OF d(3,4)] rows assms(3)] by blast
qed

text \<open>C14: Honest histories verify: after any number of committed transactions on any of the chained
  tables, before and after their chains were installed, in which writers take fresh ids and leave sealed
  columns alone (updates of state, deletions and truncations included), a verification of any window of
  any chain, while nothing else runs, returns a report without problems.\<close>

theorem honest_chain_verifies:
  assumes "audit_step\<^sup>*\<^sup>* audit_db0 (aw_db w)" "s \<in> set Specs" "ad_Legacy (aw_db w) (sp_Chain s) = Some legacy"
    and "quiet w" "valid_window win" "int (length (chain_links (sp_Chain s) (aw_db w))) < max64"
  shows "\<exists>rep. Verify s True win w = Some (Inr rep, w) \<and> OK rep"
  using honest_verifies [OF assms] .

lemma ex_quiet: "quiet (ex_world db [])"
  by (simp add: quiet_def)

lemma ex_legacy: "ad_Legacy ex_inserted (sp_Chain ActionLog) = Some 0" "ad_Legacy ex_updated (sp_Chain ActionLog) = Some 0"
  by (simp_all add: ex_inserted_def ex_updated_def)

lemma ex_links:
  "chain_links (sp_Chain ActionLog) ex_inserted = [ex_insert]" "chain_links (sp_Chain ActionLog) ex_updated = [ex_insert, ex_update]"
  by (simp_all add: ex_inserted_def ex_updated_def ex_insert_def ex_update_def)

theorem honest_chain_verifies_witness:
  "\<exists>rep. Verify ActionLog True \<lparr>wi_FromSeq = 2, wi_ToSeq = 2\<rparr> (ex_world ex_updated []) =
     Some (Inr rep, ex_world ex_updated []) \<and> OK rep"
  by (rule honest_chain_verifies)
    (simp_all add: ex_reachable ex_legacy [simplified] ex_links [simplified] ex_quiet valid_window_def max64_def)

subsection \<open>What a full verification accepts\<close>

definition positions :: "Link list \<Rightarrow> Link list" where
  "positions links = filter (\<lambda>l. 1 \<le> lk_Seq l) links"

definition intact :: "Spec \<Rightarrow> int \<Rightarrow> Link list \<Rightarrow> audit_row list \<Rightarrow> bool" where
  "intact s legacy links rows =
     (linked Genesis 1 (positions links) \<and> rows_consistent s links (positions links) rows \<and>
      (\<forall>r\<in>set rows. legacy < ar_ID r \<and> ar_ID r \<le> 2 ^ 62 \<longrightarrow> ar_ChainSeq r \<noteq> None))"

lemma head_bound: "sorted (map lk_Seq L) \<Longrightarrow> l \<in> set L \<Longrightarrow> lk_Seq l \<le> head_seq L"
  using sorted_last [of lk_Seq L l] by (auto simp: head_seq_def)

lemma full_window:
  assumes "sorted (map lk_Seq L)" "fits64 legacy" "\<forall>r\<in>set rows. fits64 (ar_ID r)"
  shows "window_consistent s legacy L rows 1 (head_seq L) True \<longleftrightarrow> intact s legacy L rows"
proof -
  have win: "links_between 1 (head_seq L) L = positions L"
    unfolding links_between_def positions_def using head_bound [OF assms(1)] by (intro filter_cong) auto
  have "wrap64 (legacy + 1) \<le> ar_ID r" if "r \<in> set rows" "legacy < ar_ID r" for r
  proof -
    have "legacy + 1 \<le> max64" using that assms(3) by (auto simp: fits64_def)
    then have "wrap64 (legacy + 1) = legacy + 1" using assms(2) by (intro wrap64_id) (simp add: fits64_def)
    then show ?thesis using that(2) by simp
  qed
  then have un: "no_unchained True legacy (positions L) rows \<longleftrightarrow>
      (\<forall>r\<in>set rows. legacy < ar_ID r \<and> ar_ID r \<le> 2 ^ 62 \<longrightarrow> ar_ChainSeq r \<noteq> None)"
    unfolding no_unchained_def searched_def by auto
  have links: "(1 \<le> head_seq L \<longrightarrow> links_consistent 1 (head_seq L) L) \<longleftrightarrow> linked Genesis 1 (positions L)"
  proof (cases "1 \<le> head_seq L")
    case True
    then have ne: "L \<noteq> []" "1 \<le> lk_Seq (last L)" by (auto simp: head_seq_def split: if_splits)
    have "positions L = positions (butlast L @ [last L])" using ne(1) by simp
    then have p: "positions L \<noteq> []" "last (positions L) = last L" using ne(2) by (simp_all add: positions_def)
    have "linked Genesis 1 (positions L) \<Longrightarrow> int (length (positions L)) = head_seq L"
      using linked_last [of Genesis 1 "positions L"] p ne by (simp add: head_seq_def)
    with True show ?thesis by (auto simp: links_consistent_def win prev_of_def Let_def)
  next
    case False
    then have "positions L = []" using head_bound [OF assms(1)] by (force simp: positions_def filter_empty_conv)
    with False show ?thesis by simp
  qed
  have "positions L = [] \<Longrightarrow> rows_consistent s L (positions L) rows" by (simp add: rows_consistent_def)
  moreover have "positions L = []" if "\<not> 1 \<le> head_seq L"
    using that head_bound [OF assms(1)] by (force simp: positions_def filter_empty_conv)
  ultimately show ?thesis using links un unfolding window_consistent_def win intact_def by auto
qed

definition open_window :: Window where
  "open_window = \<lparr>wi_FromSeq = 0, wi_ToSeq = 0\<rparr>"

lemma Verify_open:
  assumes "validate s = Inr ()" "quiet w" "chain_keys (sp_Chain s) (aw_db w)" "ad_Rows (aw_db w) (sp_Table s) = Some rows"
    "ad_Legacy (aw_db w) (sp_Chain s) = Some legacy" "fits64 legacy" "\<forall>r\<in>set rows. fits64 (ar_ID r)"
    "head_seq (chain_links (sp_Chain s) (aw_db w)) < max64"
  shows "\<exists>rep. Verify s True open_window w = Some (Inr rep, w) \<and>
    (OK rep \<longleftrightarrow> intact s legacy (chain_links (sp_Chain s) (aw_db w)) rows)"
proof -
  let ?L = "chain_links (sp_Chain s) (aw_db w)"
  have "window_lo open_window = 1" "window_hi open_window ?L = head_seq ?L" "valid_window open_window"
    by (simp_all add: window_lo_def window_hi_def open_window_def valid_window_def)
  with Verify_quiet [OF assms(1) _ assms(2-5), of open_window] assms(8)
    full_window [OF chain_links_sorted assms(6,7), of s "sp_Chain s" "aw_db w"]
  show ?thesis by simp
qed



lemma ex_chain_keys: "chain_keys (sp_Chain ActionLog) ex_inserted" "chain_keys (sp_Chain ActionLog) ex_updated"
  unfolding chain_keys_def ex_links by (simp_all add: ex_insert_def ex_update_def fits64_def min64_def max64_def)

lemma ex_rows:
  "ad_Rows ex_inserted (sp_Table ActionLog) = Some [ex_log_row ''[a]'']"
  "ad_Rows ex_updated (sp_Table ActionLog) = Some [ex_log_row ''[b]'']" "ar_ID (ex_log_row state) = 1"
  by (simp_all add: ex_inserted_def ex_updated_def ex_log_row_def)

lemma ex_heads:
  "head_seq (chain_links (sp_Chain ActionLog) ex_inserted) = 1" "head_seq (chain_links (sp_Chain ActionLog) ex_updated) = 2"
  unfolding ex_links by (simp_all add: head_seq_def ex_insert_def ex_update_def)


subsection \<open>What an accepted chain binds\<close>

text \<open>The link at a position.\<close>

definition link_at :: "Link list \<Rightarrow> int \<Rightarrow> Link option" where
  "link_at links k = find (\<lambda>l. lk_Seq l = k) links"

lemma link_at_nth:
  assumes "linked Genesis 1 (positions L)" "1 \<le> k"
  shows "link_at L k = (if nat k \<le> length (positions L) then Some (positions L ! (nat k - 1)) else None)"
proof -
  let ?P = "positions L"
  have "find (\<lambda>l. lk_Seq l = k) L = find (\<lambda>l. lk_Seq l = k) ?P"
    using assms(2) unfolding positions_def by (induction L) auto
  moreover have seq: "lk_Seq (?P ! i) = 1 + int i" if "i < length ?P" for i
    using linked_seq [OF assms(1)] that by (metis (no_types, lifting) add_0 length_map nth_map nth_upt)
  moreover have "find (\<lambda>l. lk_Seq l = k) ?P = (if nat k \<le> length ?P then Some (?P ! (nat k - 1)) else None)"
  proof (cases "nat k \<le> length ?P")
    case True
    let ?i = "nat k - 1"
    have i: "?i < length ?P" using True assms(2) by simp
    have "?P = take ?i ?P @ ?P ! ?i # drop (Suc ?i) ?P" using i by (rule id_take_nth_drop)
    moreover have "lk_Seq (?P ! ?i) = k" using seq [OF i] assms(2) by simp
    moreover have "lk_Seq l \<noteq> k" if "l \<in> set (take ?i ?P)" for l
      using that seq assms(2) by (fastforce simp: in_set_conv_nth)
    ultimately have "find (\<lambda>l. lk_Seq l = k) (take ?i ?P @ ?P ! ?i # drop (Suc ?i) ?P) = Some (?P ! ?i)"
      by (intro find_skip) auto
    with \<open>?P = _\<close> True show ?thesis by simp
  next
    case False
    have "lk_Seq l \<noteq> k" if "l \<in> set ?P" for l
      using linked_bounds [OF assms(1) that] False assms(2) by auto
    then show ?thesis using False by (auto simp: find_None_iff)
  qed
  ultimately show ?thesis by (simp add: link_at_def)
qed

lemma intact_bind:
  assumes i: "intact s legacy L rows" "intact s legacy' L' rows'" and p: "list_all plain L" "list_all plain L'"
    and k: "1 \<le> k" "link_at L k = Some l" "link_at L' k = Some l'" "lk_Hash l = lk_Hash l'"
    and c: "\<forall>i m m'. 1 \<le> i \<and> i \<le> k \<and> link_at L i = Some m \<and> link_at L' i = Some m' \<longrightarrow> \<not> collide m m'"
    and j: "1 \<le> j" "j \<le> k"
  shows "\<exists>m m'. link_at L j = Some m \<and> link_at L' j = Some m' \<and> content m = content m' \<and> lk_Hash m = lk_Hash m'"
proof -
  let ?P = "positions L" and ?Q = "positions L'"
  have lP: "linked Genesis 1 ?P" and lQ: "linked Genesis 1 ?Q" using i by (simp_all add: intact_def)
  have plain: "list_all plain ?P" "list_all plain ?Q" using p by (simp_all add: positions_def list_all_iff)
  have len: "nat k \<le> length ?P" "nat k \<le> length ?Q" and at: "l = ?P ! (nat k - 1)" "l' = ?Q ! (nat k - 1)"
    using k(2,3) link_at_nth [OF lP k(1)] link_at_nth [OF lQ k(1)] by (auto split: if_splits)
  have nc: "\<not> collide (?P ! i) (?Q ! i)" if "i \<le> nat k - 1" for i
  proof -
    have n: "nat (int i + 1) = Suc i" by simp
    have "1 \<le> int i + 1" "int i + 1 \<le> k" using that k(1) by auto
    moreover have "link_at L (int i + 1) = Some (?P ! i)" "link_at L' (int i + 1) = Some (?Q ! i)"
      using link_at_nth [OF lP calculation(1)] link_at_nth [OF lQ calculation(1)] that k(1) len unfolding n by auto
    ultimately show ?thesis using c by blast
  qed
  have "nat k - 1 < length ?P" "nat k - 1 < length ?Q" using len k(1) by auto
  from same_hash_same_prefix [OF lP lQ plain this] k(4) at nc
  have same: "\<forall>i\<le>nat k - 1. content (?P ! i) = content (?Q ! i) \<and> lk_Hash (?P ! i) = lk_Hash (?Q ! i)" by blast
  have "link_at L j = Some (?P ! (nat j - 1))" "link_at L' j = Some (?Q ! (nat j - 1))"
    using link_at_nth [OF lP j(1)] link_at_nth [OF lQ j(1)] len j by auto
  moreover have "nat j - 1 \<le> nat k - 1" using j by auto
  ultimately show ?thesis using same by blast
qed

lemma intact_sealed:
  assumes "intact s legacy L rows" "link_at L j = Some m" "1 \<le> j" "lk_Op m \<noteq> ''T''"
    "find (\<lambda>r. ar_ID r = lk_RowID m) rows = Some r"
  shows "lk_SealedHash m = sealedHash r"
proof -
  have m: "m \<in> set (positions L)" using find_mem [OF assms(2) [unfolded link_at_def]] assms(3) by (simp add: positions_def)
  then have "row_consistent s L (positions L) rows (lk_RowID m)"
    using assms(1,4) by (auto simp: intact_def rows_consistent_def)
  then have "live_consistent s L (positions L) r" by (simp add: row_consistent_def assms(5))
  moreover have "ar_ID r = lk_RowID m" using find_mem [OF assms(5)] by simp
  ultimately show ?thesis using m assms(4) by (simp add: live_consistent_def names_def)
qed


text \<open>The assumptions under which a full verification runs alone.\<close>

definition verifiable :: "Spec \<Rightarrow> audit_world \<Rightarrow> bool" where
  "verifiable s w = (validate s = Inr () \<and> quiet w \<and> chain_keys (sp_Chain s) (aw_db w) \<and>
     (case (ad_Rows (aw_db w) (sp_Table s), ad_Legacy (aw_db w) (sp_Chain s)) of
        (Some rows, Some legacy) \<Rightarrow> fits64 legacy \<and> list_all (\<lambda>r. fits64 (ar_ID r)) rows | _ \<Rightarrow> False) \<and>
     head_seq (chain_links (sp_Chain s) (aw_db w)) < max64)"

definition accepted :: "Spec \<Rightarrow> audit_world \<Rightarrow> bool" where
  "accepted s w = (\<exists>rep. Verify s True open_window w = Some (Inr rep, w) \<and> OK rep)"

lemma accepted_intact:
  assumes "verifiable s w" "accepted s w"
  shows "\<exists>legacy. intact s legacy (chain_links (sp_Chain s) (aw_db w)) (table_rows (sp_Table s) (aw_db w))"
proof -
  from assms(1) obtain rows legacy where r: "ad_Rows (aw_db w) (sp_Table s) = Some rows"
    "ad_Legacy (aw_db w) (sp_Chain s) = Some legacy" "fits64 legacy" "\<forall>r\<in>set rows. fits64 (ar_ID r)"
    by (auto simp: verifiable_def list_all_iff split: option.splits)
  from assms(1) have v: "validate s = Inr ()" "quiet w" "chain_keys (sp_Chain s) (aw_db w)"
    "head_seq (chain_links (sp_Chain s) (aw_db w)) < max64" by (simp_all add: verifiable_def)
  from Verify_open [OF v(1-3) r v(4)] assms(2) r(1) show ?thesis
    by (auto simp: accepted_def table_rows_def)
qed


lemma ex_verifiable: "verifiable ActionLog (ex_world ex_inserted [])" "verifiable ActionLog (ex_world ex_updated [])"
  using ex_chain_keys ex_rows ex_legacy ex_heads ex_quiet
  by (simp_all add: verifiable_def fits64_def min64_def max64_def)

lemma ex_accepted: "accepted ActionLog (ex_world ex_inserted [])" "accepted ActionLog (ex_world ex_updated [])"
proof -
  show "accepted ActionLog (ex_world ex_inserted [])" unfolding accepted_def
    by (rule honest_verifies) (simp_all add: ex_reachable ex_legacy [simplified] ex_links [simplified] ex_quiet
        valid_window_def open_window_def max64_def)
  show "accepted ActionLog (ex_world ex_updated [])" unfolding accepted_def
    by (rule honest_verifies) (simp_all add: ex_reachable ex_legacy [simplified] ex_links [simplified] ex_quiet
        valid_window_def open_window_def max64_def)
qed

lemma ex_plain: "plain ex_insert" "plain ex_update"
proof -
  show ins: "plain ex_insert" by (simp add: plain_def ex_insert_def Genesis_free sha_hex_free)
  have "lk_Hash ex_insert = LinkHash ex_insert" by (simp add: ex_insert_def)
  then show "plain ex_update" by (simp add: plain_def ex_update_def sha_hex_free LinkHash_def)
qed


subsection \<open>When the verifier returns\<close>

text \<open>Every head the verifier may read, now or after other sessions have committed.\<close>

fun heads_below :: "string \<Rightarrow> audit_db \<Rightarrow> audit_event list \<Rightarrow> bool" where
  "heads_below c db [] = (head_seq (chain_links c db) < max64)"
| "heads_below c db (e # es) = (head_seq (chain_links c db) < max64 \<and> heads_below c (ae_others e db) es)"

lemma heads_below_head: "heads_below c db es \<Longrightarrow> head_seq (chain_links c db) < max64"
  by (cases es) simp_all

lemma aquery_result:
  assumes "aquery a b f w = (Inr x, w')"
  shows "f (aw_db w') = Inr x" "heads_below c (aw_db w) (aw_script w) \<Longrightarrow> heads_below c (aw_db w') (aw_script w')"
proof -
  obtain fault w1 where t: "audit_tick w = (fault, w1)" by fastforce
  with assms have "w' = w1" "f (aw_db w1) = Inr x"
    by (auto simp: aquery_def split: option.splits query_fault.splits sum.splits)
  then show "f (aw_db w') = Inr x" by simp
  show "heads_below c (aw_db w') (aw_script w')" if "heads_below c (aw_db w) (aw_script w)"
    using that t \<open>w' = w1\<close> by (auto simp: audit_tick_def split: list.splits)
qed

lemma walk_loop_returns:
  assumes "hi < max64" "min64 \<le> e"
  shows "\<exists>r. walk_loop s v e hi w = Some r"
  using assms(2)
proof (induction "nat (hi + 1 - e)" arbitrary: v e w rule: less_induct)
  case less
  show ?case
  proof (cases "e \<le> hi")
    case False
    then show ?thesis by (subst walk_loop.simps) simp
  next
    case True
    obtain r w' where q: "LinksInRange (sp_Chain s) e hi linkBatch w = (r, w')" by fastforce
    show ?thesis
    proof (cases r)
      case (Inl x)
      then show ?thesis using True q by (subst walk_loop.simps) simp
    next
      case (Inr links)
      show ?thesis
      proof (cases "links = []")
        case True
        then show ?thesis using \<open>e \<le> hi\<close> q Inr by (subst walk_loop.simps) simp
      next
        case False
        have "links = take linkBatch (links_between e hi (chain_links (sp_Chain s) (aw_db w')))"
          using aquery_result(1) [OF q [unfolded LinksInRange_def Let_def Inr]] by simp
        then have "last links \<in> set (links_between e hi (chain_links (sp_Chain s) (aw_db w')))"
          using last_in_set [OF False] by (metis in_set_takeD)
        then have b: "e \<le> lk_Seq (last links)" "lk_Seq (last links) \<le> hi" by (simp_all add: links_between_def)
        obtain v' x where f: "fold checkLink links (v, e) = (v', x)" by fastforce
        then have "x = wrap64 (lk_Seq (last links) + 1)" using fold_checkLink [OF False, of v e] by simp
        then have x: "x = lk_Seq (last links) + 1" using b assms(1) less.prems by (simp add: wrap64_id fits64_def)
        have "nat (hi + 1 - x) < nat (hi + 1 - e)" "min64 \<le> x" using b True less.prems x by simp_all
        from less.hyps [OF this, of v' w'] show ?thesis
          by (subst walk_loop.simps) (simp add: True q Inr False f)
      qed
    qed
  qed
qed

text \<open>C35: The verifier returns, with a report or an error, whatever other sessions do meanwhile and
  whichever queries fail, if the window ends below the largest position or no head it can read is at the
  largest position.\<close>

theorem Verify_returns:
  assumes "0 < wi_ToSeq win \<and> wi_ToSeq win < max64 \<or> heads_below (sp_Chain s) (aw_db w) (aw_script w)"
  shows "\<exists>r. Verify s connected win w = Some r"
proof -
  have "\<exists>r. run s win v w = Some r" for v
  proof -
    obtain r1 w1 where q1: "aquery ''read install boundary'' ''read install boundary''
        (\<lambda>db. Inr (ad_Legacy db (sp_Chain s))) w = (r1, w1)" by fastforce
    show ?thesis
    proof (cases "\<exists>legacy. r1 = Inr (Some legacy)")
      case False
      then show ?thesis using q1 by (auto simp: run_def split: sum.split option.split)
    next
      case True
      then obtain legacy where r1: "r1 = Inr (Some legacy)" by blast
      obtain r2 w2 where q2: "Head (sp_Chain s) w1 = (r2, w2)" by fastforce
      show ?thesis
      proof (cases r2)
        case (Inl e)
        then show ?thesis using q1 q2 r1 by (simp add: run_def)
      next
        case (Inr h)
        obtain headSeq hash where h: "h = (headSeq, hash)" by fastforce
        let ?hi = "if wi_ToSeq win = 0 \<or> wi_ToSeq win > headSeq then headSeq else wi_ToSeq win"
        have head: "headSeq = head_seq (chain_links (sp_Chain s) (aw_db w2))"
          using aquery_result(1) [OF q2 [unfolded Head_def Inr h]] by (auto simp: head_seq_def Let_def split: if_splits)
        have "?hi < max64" using assms
        proof
          assume "heads_below (sp_Chain s) (aw_db w) (aw_script w)"
          then have "heads_below (sp_Chain s) (aw_db w2) (aw_script w2)"
            using aquery_result(2) [OF q1 [unfolded r1]] aquery_result(2) [OF q2 [unfolded Head_def Inr]] by blast
          then have "headSeq < max64" using heads_below_head head by simp
          then show ?thesis by simp
        qed auto
        moreover have "min64 \<le> max (wi_FromSeq win) 1" by (simp add: min64_def)
        ultimately have "\<exists>r. walk s (max (wi_FromSeq win) 1) ?hi v' w2 = Some r" for v'
          using walk_loop_returns by (auto simp: walk_def split: prod.split sum.split)
        then show ?thesis using q1 q2 r1 Inr h
          by (auto simp: run_def Let_def split: option.split prod.split sum.split) (metis option.distinct(1))+
      qed
    qed
  qed
  then obtain r where "run s win (new_verifier (sp_Chain s) (aw_now w)) w = Some r" by blast
  then show ?thesis by (auto simp: Verify_def split: sum.split option.split prod.split)
qed


theorem Verify_returns_witness: "\<exists>r. Verify ActionLog True open_window (ex_world ex_updated []) = Some r"
  by (rule Verify_returns) (use ex_heads in \<open>simp add: max64_def\<close>)

lemma walk_loop_hangs:
  assumes "walk_loop s v e hi w = Some y"
  shows "quiet w \<longrightarrow> (\<exists>l\<in>set (chain_links (sp_Chain s) (aw_db w)). lk_Seq l = max64) \<longrightarrow> hi = max64 \<longrightarrow> e \<le> max64 \<longrightarrow> False"
proof (rule walk_loop.raw_induct [where P = "\<lambda>s v e hi w y. quiet w \<longrightarrow>
      (\<exists>l\<in>set (chain_links (sp_Chain s) (aw_db w)). lk_Seq l = max64) \<longrightarrow> hi = max64 \<longrightarrow> e \<le> max64 \<longrightarrow> False", OF _ assms], goal_cases)
  case 1: (1 loop s v e hi w y)
  show ?case
  proof (intro impI)
    assume q: "quiet w" and l: "\<exists>l\<in>set (chain_links (sp_Chain s) (aw_db w)). lk_Seq l = max64" and hi: "hi = max64" and e: "e \<le> max64"
    let ?b = "take linkBatch (links_between e hi (chain_links (sp_Chain s) (aw_db w)))"
    have r: "LinksInRange (sp_Chain s) e hi linkBatch w = (Inr ?b, w)"
      by (simp add: LinksInRange_def aquery_quiet [OF q] Let_def)
    from l obtain l where "l \<in> set (chain_links (sp_Chain s) (aw_db w))" "lk_Seq l = max64" by blast
    then have "l \<in> set (links_between e hi (chain_links (sp_Chain s) (aw_db w)))"
      using hi e by (simp add: links_between_def)
    then have ne: "?b \<noteq> []" by (auto simp: linkBatch_def)
    obtain v' x where f: "fold checkLink ?b (v, e) = (v', x)" by fastforce
    then have "x = wrap64 (lk_Seq (last ?b) + 1)" using fold_checkLink [OF ne, of v e] by simp
    then have "x \<le> max64" using wrap64_fits [of "lk_Seq (last ?b) + 1"] by (simp add: fits64_def)
    moreover have "loop s v' x hi w = Some y" using 1(2) e hi r ne f by simp
    ultimately show False using 1(1) q \<open>\<exists>l\<in>_. _\<close> hi by blast
  qed
qed

text \<open>A link at the largest position makes the verifier run forever: the next position wraps around
  to a negative one, below the end of the window, so the walk reads the whole chain again and again. Only
  the queries' context ends it.\<close>

theorem planted_link_hangs:
  assumes "validate s = Inr ()" "quiet w" "chain_keys (sp_Chain s) (aw_db w)" "ad_Legacy (aw_db w) (sp_Chain s) = Some legacy"
    and "link_at (chain_links (sp_Chain s) (aw_db w)) max64 = Some l" "valid_window win" "wi_FromSeq win \<le> max64" "wi_ToSeq win = 0"
  shows "Verify s True win w = None"
proof -
  let ?L = "chain_links (sp_Chain s) (aw_db w)"
  have l: "l \<in> set ?L" "lk_Seq l = max64" using find_mem assms(5) unfolding link_at_def by fast+
  have "?L \<noteq> []" using l(1) by auto
  then have "head_seq ?L \<le> max64" using assms(3) by (auto simp: head_seq_def chain_keys_def fits64_def)
  then have head: "head_seq ?L = max64" using head_bound [OF chain_links_sorted l(1)] l(2) by simp
  have "walk_loop s v e max64 w = None" if "e \<le> max64" for v e
    using walk_loop_hangs [of s v e max64 w] assms(2) l that by (cases "walk_loop s v e max64 w") blast+
  then have walk: "walk s e max64 v w = None" if "e \<le> max64" for v e
    using that by (simp add: walk_def start_quiet [OF assms(2)])
  have H: "Head (sp_Chain s) w = (Inr (max64, lk_Hash (last ?L)), w)"
    using \<open>?L \<noteq> []\<close> head by (simp add: Head_def aquery_quiet [OF assms(2)] Let_def head_seq_def)
  have "1 \<le> max64" by (simp add: max64_def)
  then have "run s win v w = None" for v
    using assms(4,7,8) walk by (simp add: run_def aquery_quiet [OF assms(2)] H Let_def)
  then show ?thesis using assms(1,6,8) by (simp add: Verify_def valid_window_def)
qed

definition ex_planted :: audit_db where
  "ex_planted = ex_log [ex_link max64 ''I'' [] []] []"

theorem planted_link_hangs_witness: "Verify ActionLog True open_window (ex_world ex_planted []) = None"
  by (rule planted_link_hangs [where legacy = 0 and l = "ex_link max64 ''I'' [] []"])
    (simp_all add: ex_planted_def ex_quiet chain_keys_def link_at_def valid_window_def open_window_def fits64_def
      min64_def max64_def)

subsection \<open>Writers during a verification\<close>

text \<open>A transaction that commits after the given number of further queries.\<close>

definition ex_race :: "nat \<Rightarrow> audit_event list" where
  "ex_race n = replicate n \<lparr>ae_others = (\<lambda>db. db), ae_fault = None\<rparr> @ [\<lparr>ae_others = (\<lambda>_. ex_updated), ae_fault = None\<rparr>]"

lemma ex_race_query:
  "aquery a b f (ex_world db (ex_race (Suc n))) =
     (case f db of Inl e \<Rightarrow> (Inl (Wrapped a e), ex_world db (ex_race n)) | Inr x \<Rightarrow> (Inr x, ex_world db (ex_race n)))"
  "aquery a b f (ex_world db (ex_race 0)) =
     (case f ex_updated of Inl e \<Rightarrow> (Inl (Wrapped a e), ex_world ex_updated []) | Inr x \<Rightarrow> (Inr x, ex_world ex_updated []))"
  by (simp_all add: aquery_def audit_tick_def ex_race_def ex_world_def split: sum.split)

definition ex_walked :: verifier where
  "ex_walked = fst (checkLink ex_insert (new_verifier ''action_log'' 0\<lparr>ve_legacy := 0,
     ve_rep := (new_report ''action_log'' 0)
     \<lparr>rp_HeadSeq := 1, rp_HeadHash := lk_Hash ex_insert, rp_FromSeq := 1, rp_ToSeq := 1\<rparr>, ve_prev := Genesis, ve_prevKnown := True\<rparr>, 1))"

lemma ex_walked_rows:
  "ve_rows ex_walked = [(1, \<lparr>rl_insert = Some ex_insert, rl_sealed = [(sha_hex ''[1]'', 1)], rl_deleted = False\<rparr>)]"
  "ve_legacy ex_walked = 0" "rp_Problems (ve_rep ex_walked) = []" "\<not> rp_ProblemsTruncated (ve_rep ex_walked)"
  by (simp_all add: ex_walked_def checkLink_def track_def note_link_def no_links_def new_verifier_def new_report_def
      ex_insert_def Let_def)

text \<open>A verification through a connection pool, as the audit job and the API run it, reports an
  honest chain as edited when a state update commits between its reads of the rows and of their newest
  links: the two queries see different snapshots. The example is an action log whose one row was inserted
  before the verification and is updated through the triggers during it.\<close>

theorem concurrent_update_reported_edited:
  "audit_step\<^sup>*\<^sup>* audit_db0 ex_inserted \<and>
   audit_tx ActionLog ex_session [UpdateRow 1 ''[1]'' ''[b]''] ex_inserted = Inr ex_updated \<and>
   (case Verify ActionLog True open_window (ex_world ex_inserted (ex_race 5)) of
      Some (Inr rep, _) \<Rightarrow> map pr_Kind (rp_Problems rep) = [KindStateEdited]
    | _ \<Rightarrow> False)"
proof -
  let ?r = "\<lambda>n. ex_world ex_inserted (ex_race n)"
  let ?v = "new_verifier ''action_log'' 0\<lparr>ve_legacy := 0, ve_rep := (new_report ''action_log'' 0)
     \<lparr>rp_HeadSeq := 1, rp_HeadHash := lk_Hash ex_insert, rp_FromSeq := 1, rp_ToSeq := 1\<rparr>\<rparr>"
  have nums: "5 = Suc 4" "4 = Suc 3" "3 = Suc 2" "2 = Suc 1" "1 = Suc (0 :: nat)" by simp_all
  have L: "chain_links ''action_log'' ex_inserted = [ex_insert]" "chain_links ''action_log'' ex_updated = [ex_insert, ex_update]"
    "ad_Rows ex_inserted ''sage.action_log'' = Some [ex_log_row ''[a]'']" "ad_Rows ex_updated ''sage.action_log'' = Some [ex_log_row ''[b]'']"
    "ad_Legacy ex_inserted ''action_log'' = Some 0"
    using ex_links ex_rows ex_legacy by simp_all
  have seq: "lk_Seq ex_insert = 1" "lk_Op ex_insert = ''I''" "lk_RowID ex_insert = 1" "lk_Op ex_update = ''U''"
    "lk_RowID ex_update = 1" "lk_State ex_update = ''[b]''" "lk_PrevHash ex_insert = Genesis"
    by (simp_all add: ex_insert_def ex_update_def)
  have boundary: "aquery a b (\<lambda>db. Inr (ad_Legacy db ''action_log'')) (?r 5) = (Inr (Some 0), ?r 4)" for a b
    unfolding nums(1) ex_race_query by (simp add: L)
  have head: "Head ''action_log'' (?r 4) = (Inr (1, lk_Hash ex_insert), ?r 3)"
    unfolding nums(2) Head_def ex_race_query by (simp add: L seq)
  have check: "checkLink ex_insert (?v\<lparr>ve_prev := Genesis, ve_prevKnown := True\<rparr>, 1) = (ex_walked, 2)"
    using checkLink_facts(6) [of ex_insert] by (simp add: ex_walked_def prod_eq_iff seq wrap64_def)
  have range: "LinksInRange ''action_log'' 1 1 linkBatch (?r 3) = (Inr [ex_insert], ?r 2)"
    unfolding nums(3) LinksInRange_def ex_race_query Let_def by (simp add: L links_between_def seq linkBatch_def)
  have "walk_loop ActionLog (?v\<lparr>ve_prev := Genesis, ve_prevKnown := True\<rparr>) 1 1 (?r 3) =
      walk_loop ActionLog ex_walked 2 1 (?r 2)"
    by (subst walk_loop.simps) (simp add: range check)
  also have "\<dots> = Some (Inr ex_walked, ?r 2)" by (subst walk_loop.simps) simp
  finally have walk: "walk ActionLog 1 1 ?v (?r 3) = Some (Inr ex_walked, ?r 2)"
    by (simp add: walk_def start_def areturn_def)
  have truncs: "truncateSeqs ActionLog (?r 2) = (Inr [], ?r 1)"
    unfolding nums(4) truncateSeqs_def ex_race_query by (simp add: L seq)
  have live: "liveRows ActionLog [1] (?r 1) = (Inr (\<lambda>i. if i \<in> set [1] then map_option (live_of ActionLog)
      (find (\<lambda>r. ar_ID r = i) [ex_log_row ''[a]'']) else None), ?r 0)"
    unfolding nums(5) liveRows_def ex_race_query by (simp add: of_table_def L)
  obtain latest deleted where hist: "rowHistory ActionLog [1] (?r 0) = (Inr (latest, deleted), ex_world ex_updated [])"
    and latest: "latest 1 = Some \<lparr>la_seq = lk_Seq ex_update, la_state = ''[b]''\<rparr>"
    by (simp add: rowHistory_def ex_race_query L Let_def row_link_def seq)
  define checked where "checked = checkRow ActionLog (\<lambda>xs. xs) 1 (Some (live_of ActionLog (ex_log_row ''[a]''))) (latest 1)
      (deleted 1) [] ex_walked"
  have "check_batches ActionLog [] [1] ex_walked (?r 1) = (Inr checked, ex_world ex_updated [])"
    by (subst check_batches.simps)
      (simp add: abind_def Let_def live [simplified] hist rowBatch_def checked_def ex_rows check_batches.simps areturn_def)
  then have rows: "checkRows ActionLog ex_walked (?r 2) = (Inr checked, ex_world ex_updated [])"
    by (simp add: checkRows_def abind_def truncs ex_walked_rows)
  have probs: "map pr_Kind (rp_Problems (ve_rep checked)) = [KindStateEdited]" "ve_legacy checked = 0"
    by (simp_all add: checked_def checkRow_def latest ex_walked_rows Let_def live_of_def ex_log_row_def sealedHash_def
        stateText_def rowCarries_def seq complain_def add_problem_def MaxProblems_def problem_def)
  have "after_walk ActionLog 1 True checked (ex_world ex_updated []) = (Inr checked, ex_world ex_updated [])"
    by (simp add: after_walk_def findUnchained_def abind_def areturn_def countLegacy_def probs Let_def wrap64_def
        aquery_quiet [OF ex_quiet] of_table_def L unchained_def ex_log_row_def)
  then have "run ActionLog open_window (new_verifier ''action_log'' 0) (?r 5) = Some (Inr checked, ex_world ex_updated [])"
    by (simp add: run_def boundary head Let_def open_window_def walk [unfolded new_verifier_def, simplified] rows abind_def new_verifier_def)
  then show ?thesis
    using ex_reachable(1) ex_update_tx probs(1) by (simp add: Verify_def open_window_def)
qed


subsection \<open>What a verification does not see\<close>

lemma intact_accepted:
  assumes "verifiable s w" "ad_Legacy (aw_db w) (sp_Chain s) = Some legacy"
    "intact s legacy (chain_links (sp_Chain s) (aw_db w)) (table_rows (sp_Table s) (aw_db w))"
  shows "accepted s w"
proof -
  from assms(1,2) obtain rows where r: "ad_Rows (aw_db w) (sp_Table s) = Some rows" "fits64 legacy" "\<forall>r\<in>set rows. fits64 (ar_ID r)"
    by (auto simp: verifiable_def list_all_iff split: option.splits)
  from assms(1) have v: "validate s = Inr ()" "quiet w" "chain_keys (sp_Chain s) (aw_db w)"
    "head_seq (chain_links (sp_Chain s) (aw_db w)) < max64" by (simp_all add: verifiable_def)
  from Verify_open [OF v(1-3) r(1) assms(2) r(2,3) v(4)] assms(3) r(1) show ?thesis
    by (auto simp: accepted_def table_rows_def)
qed

lemma intact_legacy:
  "verifiable s w \<Longrightarrow> accepted s w \<Longrightarrow> \<exists>legacy. ad_Legacy (aw_db w) (sp_Chain s) = Some legacy \<and>
    intact s legacy (chain_links (sp_Chain s) (aw_db w)) (table_rows (sp_Table s) (aw_db w))"
  using Verify_open [of s w] by (fastforce simp: verifiable_def accepted_def table_rows_def list_all_iff split: option.splits)

text \<open>A row written behind the triggers escapes a full verification if its writer fills in its chain
  position: only rows whose position is null are searched for, and no stage looks for the link that a
  row's chain columns name. Adding such a row, with any content, to a table that verifies leaves one that
  verifies.\<close>

theorem forged_row_accepted:
  assumes "verifiable s w" "accepted s w" "fits64 (ar_ID r)" "ar_ChainSeq r \<noteq> None"
    and "list_all (\<lambda>l. lk_RowID l \<noteq> ar_ID r) (chain_links (sp_Chain s) (aw_db w))"
  shows "accepted s (w\<lparr>aw_db := set_rows (sp_Table s) (table_rows (sp_Table s) (aw_db w) @ [r]) (aw_db w)\<rparr>)"
    (is "accepted s ?w")
proof -
  let ?L = "chain_links (sp_Chain s) (aw_db w)" and ?rows = "table_rows (sp_Table s) (aw_db w)"
  from intact_legacy [OF assms(1,2)] obtain legacy where
    leg: "ad_Legacy (aw_db w) (sp_Chain s) = Some legacy" and i: "intact s legacy ?L ?rows" by blast
  have find: "find (\<lambda>x. ar_ID x = lk_RowID l) (?rows @ [r]) = find (\<lambda>x. ar_ID x = lk_RowID l) ?rows" if "l \<in> set ?L" for l
  proof -
    have "find P (xs @ [r]) = find P xs" if "\<not> P r" for P xs using that by (induction xs) auto
    moreover have "ar_ID r \<noteq> lk_RowID l" using assms(5) that by (auto simp: list_all_iff)
    ultimately show ?thesis by simp
  qed
  have "rows_consistent s ?L (positions ?L) (?rows @ [r])"
    using i find by (auto simp: intact_def rows_consistent_def row_consistent_def positions_def)
  then have "intact s legacy ?L (?rows @ [r])" using i assms(4) by (auto simp: intact_def)
  moreover have "verifiable s ?w"
    using assms(1,3) by (auto simp: verifiable_def quiet_def chain_keys_def table_rows_def split: option.splits)
  ultimately show ?thesis using leg intact_accepted [of s ?w legacy] by simp
qed

theorem forged_row_accepted_witness:
  "accepted ActionLog (ex_world ex_updated []\<lparr>aw_db := set_rows (sp_Table ActionLog)
     (table_rows (sp_Table ActionLog) ex_updated @ [(ex_log_row ''[forged]'')\<lparr>ar_ID := 7\<rparr>]) ex_updated\<rparr>)"
  using forged_row_accepted [OF ex_verifiable(2) ex_accepted(2), of "(ex_log_row ''[forged]'')\<lparr>ar_ID := 7\<rparr>"] ex_links(2)
  by (simp add: ex_log_row_def fits64_def min64_def max64_def ex_insert_def ex_update_def)

text \<open>A row whose newest link records its deletion, but which is there (put back behind the triggers
  with its old sealed and chain columns), passes a full verification with any state: the state of such a
  row is compared with nothing, and nothing asks why it is there.\<close>

theorem resurrected_row_accepted:
  "accepted ActionLog (ex_world (ex_log [ex_insert, ex_link 2 ''D'' [] (lk_Hash ex_insert)] [ex_log_row state]) [])"
proof -
  let ?D = "ex_link 2 ''D'' [] (lk_Hash ex_insert)"
  let ?w = "ex_world (ex_log [ex_insert, ?D] [ex_log_row state]) []"
  have L: "chain_links (sp_Chain ActionLog) (aw_db ?w) = [ex_insert, ?D]" by (simp add: ex_insert_def)
  have "verifiable ActionLog ?w"
    using ex_quiet unfolding verifiable_def chain_keys_def L
    by (simp add: ex_rows head_seq_def fits64_def min64_def max64_def) (simp add: ex_insert_def)
  moreover have "positions [ex_insert, ?D] = [ex_insert, ?D]" by (simp add: positions_def ex_insert_def)
  then have "intact ActionLog 0 [ex_insert, ?D] [ex_log_row state]"
    by (simp add: intact_def rows_consistent_def row_consistent_def live_consistent_def newest_link_def row_link_def
        names_def ex_log_row_def carries_def sealedHash_def) (simp add: ex_insert_def)
  ultimately show ?thesis using intact_accepted [of ActionLog ?w 0] L by simp
qed

end
