(* ===== verification/Siem_Value.thy ===== *)
theory Siem_Value
  imports Prelude
begin

text \<open>
  The Go values an exported event is made of, and what \<^verbatim>\<open>fmt.Sprint\<close> and
  \<^verbatim>\<open>json.Marshal\<close> make of them. A string is its bytes. A \<^verbatim>\<open>float64\<close> is its
  shortest decimal, which is what both printers start from. A map is an association list with
  distinct keys; both printers visit it in the order of its keys.
\<close>

text \<open>Sign, significant digits and the position of the decimal point: $0.d_1d_2\dots \cdot 10^{dp}$;
  zero has no digits and point 0.\<close>

datatype decimal = Decimal bool "nat list" int

datatype gval = GNil | GBool bool | GInt int | GFloat decimal | GStr string | GList "gval list"
  | GMap "(string \<times> gval) list"

type_synonym gmap = "(string \<times> gval) list"

definition mget :: "gmap \<Rightarrow> string \<Rightarrow> gval" where
  "mget m k = (case map_of m k of None \<Rightarrow> GNil | Some v \<Rightarrow> v)"

fun mput :: "string \<Rightarrow> gval \<Rightarrow> gmap \<Rightarrow> gmap" where
  "mput k v [] = [(k, v)]"
| "mput k v ((k', v') # m) = (if k' = k then (k, v) # m else (k', v') # mput k v m)"

subsection \<open>Numbers\<close>

definition digit_at :: "nat list \<Rightarrow> int \<Rightarrow> char" where
  "digit_at ds j = digit_char (if 0 \<le> j \<and> nat j < length ds then ds ! nat j else 0)"

definition sign :: "bool \<Rightarrow> string" where
  "sign neg = (if neg then ''-'' else [])"

definition fmtE :: "decimal \<Rightarrow> string" where
  "fmtE d = (case d of Decimal neg ds dp \<Rightarrow>
     let exp = (if ds = [] then 0 else dp - 1)
     in sign neg @ [digit_at ds 0] @
        (if length ds > 1 then ''.'' @ map digit_char (tl ds) else []) @
        ''e'' @ (if exp < 0 then ''-'' else ''+'') @
        (if \<bar>exp\<bar> < 10 then ''0'' else []) @ itoa \<bar>exp\<bar>)"

definition fmtF :: "decimal \<Rightarrow> string" where
  "fmtF d = (case d of Decimal neg ds dp \<Rightarrow>
     let prec = max (int (length ds) - dp) 0
     in sign neg @
        (if dp > 0 then map (\<lambda>i. digit_at ds (int i)) [0..<nat dp] else ''0'') @
        (if prec > 0 then ''.'' @ map (\<lambda>i. digit_at ds (dp + int i)) [0..<nat prec] else []))"

text \<open>\<^verbatim>\<open>%v\<close> is \<^verbatim>\<open>%g\<close> with the shortest precision, which takes the exponent form from
  $10^6$ on (1000000 has its point at 7).\<close>

definition fmtG :: "decimal \<Rightarrow> string" where
  "fmtG d = (case d of Decimal neg ds dp \<Rightarrow> if dp - 1 < -4 \<or> dp - 1 \<ge> 6 then fmtE d else fmtF d)"

text \<open>\<^verbatim>\<open>encoding/json\<close> takes the exponent form below $10^{-6}$ and from $10^{21}$ on, with no
  padding of a negative exponent.\<close>

definition json_float :: "decimal \<Rightarrow> string" where
  "json_float d = (case d of Decimal neg ds dp \<Rightarrow>
     if ds \<noteq> [] \<and> (dp < -5 \<or> dp \<ge> 22)
     then (let s = fmtE d; n = length s
           in if n \<ge> 4 \<and> s ! (n - 4) = CHR ''e'' \<and> s ! (n - 3) = CHR ''-'' \<and> s ! (n - 2) = CHR ''0''
              then take (n - 2) s @ [s ! (n - 1)] else s)
     else fmtF d)"


subsection \<open>Printing\<close>

fun Sprint :: "gval \<Rightarrow> string" where
  "Sprint GNil = ''<nil>''"
| "Sprint (GBool b) = (if b then ''true'' else ''false'')"
| "Sprint (GInt i) = itoa i"
| "Sprint (GFloat d) = fmtG d"
| "Sprint (GStr s) = s"
| "Sprint (GList xs) = ''['' @ Join (map Sprint xs) '' '' @ '']''"
| "Sprint (GMap m) =
     ''map['' @ Join (map (\<lambda>(k, s). k @ '':'' @ s) (sort_key fst (map (\<lambda>(k, v). (k, Sprint v)) m))) '' '' @ '']''"

subsection \<open>Encoding\<close>

definition byte_of :: "char \<Rightarrow> nat" where
  "byte_of c = of_char c"

definition cont :: "nat \<Rightarrow> nat \<Rightarrow> string \<Rightarrow> bool" where
  "cont lo hi s = (case s of [] \<Rightarrow> False | c # _ \<Rightarrow> lo \<le> byte_of c \<and> byte_of c \<le> hi)"

text \<open>The length of the rune that starts a byte sequence at a byte above 127; 0 when it is not valid
  UTF-8.\<close>

definition rune_len :: "string \<Rightarrow> nat" where
  "rune_len s =
     (let b = byte_of (hd s); s1 = drop 1 s; s2 = drop 2 s; s3 = drop 3 s
      in if 194 \<le> b \<and> b \<le> 223 \<and> cont 128 191 s1 then 2
         else if (b = 224 \<and> cont 160 191 s1 \<or> b = 237 \<and> cont 128 159 s1 \<or>
                  225 \<le> b \<and> b \<le> 239 \<and> b \<noteq> 237 \<and> cont 128 191 s1) \<and> cont 128 191 s2 then 3
         else if (b = 240 \<and> cont 144 191 s1 \<or> b = 244 \<and> cont 128 143 s1 \<or>
                  241 \<le> b \<and> b \<le> 243 \<and> cont 128 191 s1) \<and> cont 128 191 s2 \<and> cont 128 191 s3 then 4
         else 0)"

definition hex_char :: "nat \<Rightarrow> char" where
  "hex_char n = (if n < 10 then digit_char n else char_of (87 + n))"

definition json_escape :: "char \<Rightarrow> string" where
  "json_escape c =
     (let b = byte_of c
      in if c = CHR 0x22 then [CHR 0x5C, CHR 0x22]
         else if c = CHR 0x5C then [CHR 0x5C, CHR 0x5C]
         else if b = 8 then [CHR 0x5C, CHR ''b'']
         else if b = 12 then [CHR 0x5C, CHR ''f'']
         else if b = 10 then [CHR 0x5C, CHR ''n'']
         else if b = 13 then [CHR 0x5C, CHR ''r'']
         else if b = 9 then [CHR 0x5C, CHR ''t'']
         else if b < 32 \<or> c = CHR ''<'' \<or> c = CHR ''>'' \<or> c = CHR ''&''
         then CHR 0x5C # ''u00'' @ [hex_char (b div 16), hex_char (b mod 16)]
         else [c])"

definition line_separator :: "string \<Rightarrow> bool" where
  "line_separator s = (map byte_of (take 2 s) = [226, 128] \<and> cont 168 169 (drop 2 s))"

fun json_chars :: "string \<Rightarrow> string" where
  "json_chars [] = []"
| "json_chars (c # cs) =
     (if byte_of c < 128 then json_escape c @ json_chars cs
      else let k = rune_len (c # cs)
           in if k = 0 then CHR 0x5C # ''ufffd'' @ json_chars cs
              else if line_separator (c # cs)
              then CHR 0x5C # ''u202'' @ [hex_char (byte_of (hd (drop 1 cs)) - 160)] @ json_chars (drop (k - 1) cs)
              else take k (c # cs) @ json_chars (drop (k - 1) cs))"

definition json_string :: "string \<Rightarrow> string" where
  "json_string s = CHR 0x22 # json_chars s @ [CHR 0x22]"

fun Marshal :: "gval \<Rightarrow> string" where
  "Marshal GNil = ''null''"
| "Marshal (GBool b) = (if b then ''true'' else ''false'')"
| "Marshal (GInt i) = itoa i"
| "Marshal (GFloat d) = json_float d"
| "Marshal (GStr s) = json_string s"
| "Marshal (GList xs) = ''['' @ Join (map Marshal xs) '','' @ '']''"
| "Marshal (GMap m) =
     ''{'' @ Join (map (\<lambda>(k, s). json_string k @ '':'' @ s)
                    (sort_key fst (map (\<lambda>(k, v). (k, Marshal v)) m))) '','' @ ''}''"

subsection \<open>Lemmas\<close>

lemma mget_mput [simp]: "mget (mput k v m) k' = (if k' = k then v else mget m k')"
  by (induction k v m rule: mput.induct) (auto simp: mget_def)

lemma mget_Cons: "mget ((k', v) # m) k = (if k' = k then v else mget m k)" "mget [] k = GNil"
  by (simp_all add: mget_def)

lemma mput_fresh: "k \<notin> fst ` set m \<Longrightarrow> mput k v m = m @ [(k, v)]"
  by (induction k v m rule: mput.induct) auto

lemma length_json_escape: "1 \<le> length (json_escape c)"
  by (simp add: json_escape_def Let_def)

lemma cont_drop: "cont lo hi (drop n s) \<Longrightarrow> n < length s"
  by (cases "n < length s") (auto simp: cont_def)

lemma rune_len_le: "rune_len s \<le> length s"
proof -
  have "2 \<le> length s" if "cont 128 191 (drop 1 s)" using cont_drop [OF that] by simp
  moreover have "3 \<le> length s" if "cont 128 191 (drop 2 s)" using cont_drop [OF that] by simp
  moreover have "4 \<le> length s" if "cont 128 191 (drop 3 s)" using cont_drop [OF that] by simp
  ultimately show ?thesis unfolding rune_len_def Let_def by (simp del: One_nat_def)
qed

lemma rune_len_4: "rune_len s \<le> 4"
  by (simp add: rune_len_def Let_def)

text \<open>An encoding is never shorter than a string it contains.\<close>

lemma length_json_chars: "length s \<le> length (json_chars s)"
proof (induction s rule: json_chars.induct)
  case (2 c cs)
  then show ?case
    using length_json_escape [of c] rune_len_le [of "c # cs"] rune_len_4 [of "c # cs"]
    by (auto simp: Let_def)
qed simp

lemma length_Join: "x \<in> set xs \<Longrightarrow> length x \<le> length (Join xs sep)"
  by (induction xs sep rule: Join.induct) auto

lemma length_Marshal_map:
  assumes "(k, v) \<in> set m"
  shows "length (Marshal v) + 2 \<le> length (Marshal (GMap m))"
proof -
  let ?f = "\<lambda>(k, s). json_string k @ '':'' @ s"
  have "?f (k, Marshal v) \<in> set (map ?f (sort_key fst (map (\<lambda>(k, v). (k, Marshal v)) m)))"
    using assms by force
  from length_Join [OF this, of "'',''"] show ?thesis by simp
qed

lemma length_Marshal_str: "length s + 2 \<le> length (Marshal (GStr s))"
  using length_json_chars [of s] by (simp add: json_string_def)

end
