(* ===== verification/Siem_Map.thy ===== *)
theory Siem_Map
  imports Siem_Value Audit_Chain Ledger_Class
begin

text \<open>
  The OCSF events of \<^verbatim>\<open>sidecar/internal/siem\<close> (\<^verbatim>\<open>ocsf.go\<close>,
  \<^verbatim>\<open>mappers.go\<close>) and the description of configuration keys they are redacted by
  (\<^verbatim>\<open>config/field_docs.go\<close>). What the code asks of reflection, of the JSON parser and of
  the database is a record of functions: the fields of the configuration struct by their path, the
  parse of a JSON array, and the JSON object of a table's row.
\<close>

subsection \<open>Configuration keys\<close>

record config_field =
  cf_secret :: bool
  cf_showable :: bool

record siem_lib =
  sl_fields :: "string \<Rightarrow> config_field option"
  sl_array :: "string \<Rightarrow> gval list option"
  sl_row :: "string \<Rightarrow> audit_row \<Rightarrow> gmap"

record FieldDoc =
  fd_Secret :: bool
  fd_HasValue :: bool

definition HasSuffix :: "string \<Rightarrow> string \<Rightarrow> bool" where
  "HasSuffix s t = (length t \<le> length s \<and> drop (length s - length t) s = t)"

definition credentialWords :: "string list" where
  "credentialWords = [''password'', ''secret'', ''key'', ''url'', ''dsn'', ''endpoint'', ''credential'',
     ''credentials'', ''db'']"

definition mayCarryCredential :: "string \<Rightarrow> bool" where
  "mayCarryCredential path =
     (let final = ToLower (last (split_on (CHR ''.'') path))
      in final = ''token'' \<or> HasSuffix final ''_token'' \<or>
         list_ex (\<lambda>w. w \<in> set credentialWords) (split_on (CHR ''_'') final))"

definition DescribeField :: "siem_lib \<Rightarrow> string \<Rightarrow> FieldDoc option" where
  "DescribeField lib path =
     (case sl_fields lib path of
        None \<Rightarrow> None
      | Some f \<Rightarrow> Some \<lparr>fd_Secret = cf_secret f,
          fd_HasValue = (if cf_secret f \<or> mayCarryCredential path then False else cf_showable f)\<rparr>)"

definition exportableConfigKey :: "siem_lib \<Rightarrow> string \<Rightarrow> bool" where
  "exportableConfigKey lib key =
     (case DescribeField lib key of None \<Rightarrow> False | Some doc \<Rightarrow> \<not> fd_Secret doc \<and> fd_HasValue doc)"

subsection \<open>Events\<close>

definition OCSFVersion :: string where "OCSFVersion = ''1.3.0''"

definition ClassAccountChange :: int where "ClassAccountChange = 3001"
definition ClassAuthentication :: int where "ClassAuthentication = 3002"
definition ClassEntityManagement :: int where "ClassEntityManagement = 3004"
definition ClassAPIActivity :: int where "ClassAPIActivity = 6003"
definition ClassDatastoreActivity :: int where "ClassDatastoreActivity = 6005"

definition SeverityInformational :: int where "SeverityInformational = 1"
definition SeverityLow :: int where "SeverityLow = 2"
definition SeverityMedium :: int where "SeverityMedium = 3"
definition SeverityHigh :: int where "SeverityHigh = 4"

definition statusUnknown :: int where "statusUnknown = 0"
definition statusSuccess :: int where "statusSuccess = 1"
definition statusFailure :: int where "statusFailure = 2"

definition MaxEventBytes :: nat where "MaxEventBytes = 60000"
definition maxStringBytes :: nat where "maxStringBytes = 4096"
definition maxObjectBytes :: nat where "maxObjectBytes = 8192"

definition lookup :: "(int \<times> string) list \<Rightarrow> int \<Rightarrow> string" where
  "lookup names i = (case map_of names i of None \<Rightarrow> [] | Some s \<Rightarrow> s)"

definition classNames :: "int \<Rightarrow> string" where
  "classNames = lookup [(ClassAccountChange, ''Account Change''), (ClassAuthentication, ''Authentication''),
     (ClassEntityManagement, ''Entity Management''), (ClassAPIActivity, ''API Activity''),
     (ClassDatastoreActivity, ''Datastore Activity'')]"

definition categoryNames :: "int \<Rightarrow> string" where
  "categoryNames = lookup [(3, ''Identity & Access Management''), (6, ''Application Activity'')]"

definition severityNames :: "int \<Rightarrow> string" where
  "severityNames = lookup [(SeverityInformational, ''Informational''), (SeverityLow, ''Low''),
     (SeverityMedium, ''Medium''), (SeverityHigh, ''High'')]"

definition statusNames :: "int \<Rightarrow> string" where
  "statusNames = lookup [(statusUnknown, ''Unknown''), (statusSuccess, ''Success''), (statusFailure, ''Failure'')]"

record Record =
  rc_Source :: string
  rc_Chain :: string
  rc_Link :: Link
  rc_Row :: "gmap option"

record mapping =
  mp_class :: int
  mp_activity :: int
  mp_status :: int
  mp_severity :: int
  mp_activityName :: string
  mp_message :: string
  mp_extra :: gmap

definition str :: "gmap option \<Rightarrow> string \<Rightarrow> string" where
  "str row key =
     (case row of
        None \<Rightarrow> []
      | Some m \<Rightarrow> (case mget m key of GStr v \<Rightarrow> v | GNil \<Rightarrow> [] | v \<Rightarrow> Sprint v))"

definition databaseObject :: "string \<Rightarrow> gval" where
  "databaseObject source = GMap [(''name'', GStr source), (''type'', GStr ''Relational''), (''type_id'', GInt 1)]"

definition capString :: "string \<Rightarrow> string" where
  "capString s =
     (if length s \<le> maxStringBytes then s
      else take maxStringBytes s @ ''... (truncated, '' @ itoa (int (length s)) @ '' bytes)'')"

subsection \<open>Mappers\<close>

definition chainClass :: "string \<Rightarrow> int" where
  "chainClass chain =
     (if chain = sp_Chain ActionLog \<or> chain = sp_Chain GuardQueryAudit \<or> chain = sp_Chain PGAuditEvents
      then ClassDatastoreActivity
      else if chain = sp_Chain AuthAudit then ClassAuthentication
      else if chain = sp_Chain ConfigAudit then ClassEntityManagement
      else ClassAPIActivity)"

definition trailRemoval :: "Record \<Rightarrow> mapping" where
  "trailRemoval r =
     (let l = rc_Link r;
          m = \<lparr>mp_class = chainClass (rc_Chain r), mp_activity = 99, mp_status = statusSuccess,
               mp_severity = SeverityInformational, mp_activityName = ''Audit Record Deleted'',
               mp_message = ''audit record '' @ itoa (lk_RowID l) @ '' of '' @ rc_Chain r @ '' deleted by '' @
                 lk_DBUser l @ '' ('' @ lk_App l @ '')'',
               mp_extra = []\<rparr>;
          m = (if \<not> HasPrefix (lk_App l) ''pg_sage'' then m\<lparr>mp_severity := SeverityMedium\<rparr> else m)
      in if lk_Op l = ''T''
         then m\<lparr>mp_activityName := ''Audit Trail Truncated'', mp_severity := SeverityHigh,
                mp_message := rc_Chain r @ '' truncated by '' @ lk_DBUser l @ '' ('' @ lk_App l @ '')''\<rparr>
         else m)"

definition stateOutcome :: "siem_lib \<Rightarrow> string \<Rightarrow> string" where
  "stateOutcome lib state =
     (if state = [] then []
      else (case sl_array lib state of Some (GStr s # _) \<Rightarrow> s | _ \<Rightarrow> []))"

definition outcomeStatus :: "string \<Rightarrow> int" where
  "outcomeStatus outcome =
     (if outcome \<in> {''success'', ''rolled_back'', ''verified''} then statusSuccess
      else if outcome \<in> {''failed'', ''rollback_failed''} then statusFailure
      else statusUnknown)"

definition sqlActivity :: "string \<Rightarrow> int \<times> string" where
  "sqlActivity sql =
     (let fields = Fields (ToUpper sql); verb = (if fields = [] then [] else hd fields)
      in if verb = ''CREATE'' then (6, ''Create'')
         else if verb \<in> {''DROP'', ''DELETE'', ''TRUNCATE''} then (7, ''Delete'')
         else if verb \<in> {''ALTER'', ''VACUUM'', ''ANALYZE'', ''REINDEX'', ''CLUSTER'', ''UPDATE'', ''SET'',
           ''RESET'', ''COMMENT'', ''GRANT'', ''REVOKE''} then (2, ''Update'')
         else if verb = ''SELECT'' then (4, ''Query'')
         else if verb \<in> {''INSERT'', ''COPY''} then (5, ''Write'')
         else (99, ''Other''))"

definition actionMapping :: "siem_lib \<Rightarrow> Record \<Rightarrow> mapping" where
  "actionMapping lib r =
     (let l = rc_Link r;
          recorded = stateOutcome lib (lk_State l);
          outcome = (if recorded = [] then str (rc_Row r) ''outcome'' else recorded);
          sql = str (rc_Row r) ''sql_executed'';
          m = \<lparr>mp_class = ClassDatastoreActivity, mp_activity = 0, mp_status = outcomeStatus outcome,
               mp_severity = SeverityInformational, mp_activityName = [], mp_message = [],
               mp_extra = [(''database'', databaseObject (rc_Source r)),
                 (''query_info'', GMap [(''query_string'', GStr (capString sql))])]\<rparr>
      in if lk_Op l = ''U''
         then m\<lparr>mp_activity := 99, mp_activityName := ''Outcome Changed'',
                mp_message := ''pg_sage action '' @ itoa (lk_RowID l) @ '' is now '' @ outcome\<rparr>
         else m\<lparr>mp_activity := fst (sqlActivity sql), mp_activityName := snd (sqlActivity sql),
                mp_message := ''pg_sage action '' @ itoa (lk_RowID l) @ '' ('' @
                  str (rc_Row r) ''action_type'' @ ''): '' @ outcome,
                mp_severity := (if mp_status m = statusFailure then SeverityLow else mp_severity m)\<rparr>)"

definition authMapping :: "Record \<Rightarrow> mapping" where
  "authMapping r =
     (let ev = str (rc_Row r) ''event'';
          m = \<lparr>mp_class = ClassAccountChange, mp_activity = 0, mp_status = statusSuccess,
               mp_severity = SeverityInformational, mp_activityName = [], mp_message = ''pg_sage '' @ ev,
               mp_extra = [(''user'', GMap [(''uid'', GStr (str (rc_Row r) ''target_user_id''))]),
                 (''src_endpoint'', GMap [(''ip'', GStr (str (rc_Row r) ''source_ip''))])]\<rparr>
      in if ev \<in> {''login_succeeded'', ''login_failed'', ''break_glass_login'', ''break_glass_login_failed''}
         then let m = m\<lparr>mp_class := ClassAuthentication, mp_activity := 1, mp_activityName := ''Logon''\<rparr>;
                  m = (if HasSuffix ev ''_failed''
                       then m\<lparr>mp_status := statusFailure, mp_severity := SeverityLow\<rparr> else m)
              in if HasPrefix ev ''break_glass'' then m\<lparr>mp_severity := SeverityMedium\<rparr> else m
         else if ev = ''user_created'' then m\<lparr>mp_activity := 1, mp_activityName := ''Create''\<rparr>
         else if ev = ''user_deleted'' then m\<lparr>mp_activity := 6, mp_activityName := ''Delete''\<rparr>
         else if ev = ''user_role_changed'' then m\<lparr>mp_activity := 99, mp_activityName := ''Role Change''\<rparr>
         else m\<lparr>mp_activity := 99, mp_activityName := ''Other''\<rparr>)"

definition configMapping :: "siem_lib \<Rightarrow> Record \<Rightarrow> mapping" where
  "configMapping lib r =
     (let key = str (rc_Row r) ''key'';
          entity = [(''name'', GStr key), (''type'', GStr ''pg_sage configuration'')];
          entity = (if exportableConfigKey lib key
                    then mput ''data'' (GMap [(''old_value'', GStr (str (rc_Row r) ''old_value'')),
                           (''new_value'', GStr (str (rc_Row r) ''new_value''))]) entity
                    else entity)
      in \<lparr>mp_class = ClassEntityManagement, mp_activity = 3, mp_status = statusSuccess,
          mp_severity = SeverityInformational, mp_activityName = ''Update'',
          mp_message = ''pg_sage configuration changed: '' @ key,
          mp_extra = [(''entity'', GMap entity)]\<rparr>)"

definition queryAuditMapping :: "Record \<Rightarrow> mapping" where
  "queryAuditMapping r =
     (let v = str (rc_Row r) ''verdict''
      in \<lparr>mp_class = ClassDatastoreActivity, mp_activity = 4,
          mp_status = (if v \<noteq> ''allowed'' \<and> v \<noteq> ''allow'' \<and> v \<noteq> [] then statusFailure else statusSuccess),
          mp_severity = SeverityInformational, mp_activityName = ''Query'',
          mp_message = ''brokered agent query by '' @ str (rc_Row r) ''principal_id'',
          mp_extra = [(''database'', databaseObject (rc_Source r))]\<rparr>)"

definition pgauditMapping :: "Record \<Rightarrow> mapping" where
  "pgauditMapping r =
     (let cls = str (rc_Row r) ''class''; command = str (rc_Row r) ''command'';
          (activity, name) =
            (if cls = ''READ'' then (1, ''Read'')
             else if cls = ''WRITE'' then (5, ''Write'')
             else if cls \<in> {''DDL'', ''ROLE''} then sqlActivity command
             else (99, ''Other''))
      in \<lparr>mp_class = ClassDatastoreActivity, mp_activity = activity, mp_status = statusSuccess,
          mp_severity = SeverityInformational, mp_activityName = name,
          mp_message = ''pgaudit '' @ cls @ '' '' @ command,
          mp_extra = [(''database'', databaseObject (rc_Source r)),
            (''query_info'', GMap [(''query_string'', GStr (capString (str (rc_Row r) ''statement'')))])]\<rparr>)"

definition classify :: "siem_lib \<Rightarrow> Record \<Rightarrow> mapping" where
  "classify lib r =
     (if lk_Op (rc_Link r) = ''D'' \<or> lk_Op (rc_Link r) = ''T'' then trailRemoval r
      else if rc_Chain r = sp_Chain ActionLog then actionMapping lib r
      else if rc_Chain r = sp_Chain AuthAudit then authMapping r
      else if rc_Chain r = sp_Chain ConfigAudit then configMapping lib r
      else if rc_Chain r = sp_Chain GuardQueryAudit then queryAuditMapping r
      else if rc_Chain r = sp_Chain PGAuditEvents then pgauditMapping r
      else \<lparr>mp_class = ClassAPIActivity, mp_activity = 99, mp_status = statusSuccess,
            mp_severity = SeverityInformational, mp_activityName = ''Other'',
            mp_message = ''pg_sage audit event ('' @ rc_Chain r @ '')'', mp_extra = []\<rparr>)"

subsection \<open>The row copy\<close>

definition redactRow :: "siem_lib \<Rightarrow> Record \<Rightarrow> gmap option" where
  "redactRow lib r =
     (if rc_Chain r \<noteq> sp_Chain ConfigAudit \<or> rc_Row r = None \<or> exportableConfigKey lib (str (rc_Row r) ''key'')
      then rc_Row r
      else map_option (map (\<lambda>(k, v). (k, if k = ''old_value'' \<or> k = ''new_value'' then GStr ''(redacted)'' else v)))
             (rc_Row r))"

definition sanitize :: "gval \<Rightarrow> gval" where
  "sanitize v =
     (case v of
        GStr s \<Rightarrow> GStr (capString s)
      | GMap _ \<Rightarrow> if length (Marshal v) > maxObjectBytes
                  then GStr (''(truncated, '' @ itoa (int (length (Marshal v))) @ '' bytes)'') else v
      | GList _ \<Rightarrow> if length (Marshal v) > maxObjectBytes
                   then GStr (''(truncated, '' @ itoa (int (length (Marshal v))) @ '' bytes)'') else v
      | _ \<Rightarrow> v)"

definition sanitizeRow :: "gmap option \<Rightarrow> gmap option" where
  "sanitizeRow row = map_option (map (\<lambda>(k, v). (k, sanitize v))) row"

definition row_value :: "gmap option \<Rightarrow> gval" where
  "row_value row = (case row of None \<Rightarrow> GNil | Some m \<Rightarrow> GMap m)"

definition chainProof :: "siem_lib \<Rightarrow> Record \<Rightarrow> gmap" where
  "chainProof lib r =
     (let l = rc_Link r
      in [(''source'', GStr (rc_Source r)), (''chain'', GStr (rc_Chain r)), (''seq'', GInt (lk_Seq l)),
          (''op'', GStr (lk_Op l)), (''row_id'', GInt (lk_RowID l)), (''v'', GInt (lk_V l)),
          (''hash'', GStr (lk_Hash l)), (''prev_hash'', GStr (lk_PrevHash l)),
          (''sealed_hash'', GStr (lk_SealedHash l)), (''state'', GStr (lk_State l)),
          (''row'', row_value (sanitizeRow (redactRow lib r)))])"

subsection \<open>The event\<close>

type_synonym Event = gmap

text \<open>A type assertion on a value the event was just built from.\<close>

definition as_map :: "gval \<Rightarrow> gmap" where
  "as_map v = (case v of GMap m \<Rightarrow> m | _ \<Rightarrow> [])"

definition fit :: "Event \<Rightarrow> Event" where
  "fit e =
     (if length (Marshal (GMap e)) \<le> MaxEventBytes then e
      else let unmapped = as_map (mget e ''unmapped'');
               ext = mput ''row'' (GStr ''(truncated: row too large)'') (as_map (mget unmapped ''pg_sage''));
               e = mput ''unmapped'' (GMap (mput ''pg_sage'' (GMap ext) unmapped)) e
           in if length (Marshal (GMap e)) \<le> MaxEventBytes then e
              else (case mget e ''query_info'' of
                      GMap qi \<Rightarrow> mput ''query_info'' (GMap (mput ''query_string'' (GStr ''(truncated)'') qi)) e
                    | _ \<Rightarrow> e))"

definition UnixMilli :: "instant \<Rightarrow> int" where
  "UnixMilli t = t div 1000000"

definition event_base :: "siem_lib \<Rightarrow> Record \<Rightarrow> mapping \<Rightarrow> Event" where
  "event_base lib r m =
     (let l = rc_Link r
      in [(''class_uid'', GInt (mp_class m)), (''class_name'', GStr (classNames (mp_class m))),
          (''category_uid'', GInt (mp_class m div 1000)),
          (''category_name'', GStr (categoryNames (mp_class m div 1000))),
          (''activity_id'', GInt (mp_activity m)), (''activity_name'', GStr (mp_activityName m)),
          (''type_uid'', GInt (mp_class m * 100 + mp_activity m)),
          (''type_name'', GStr (classNames (mp_class m) @ '': '' @ mp_activityName m)),
          (''severity_id'', GInt (mp_severity m)), (''severity'', GStr (severityNames (mp_severity m))),
          (''status_id'', GInt (mp_status m)), (''status'', GStr (statusNames (mp_status m))),
          (''time'', GInt (UnixMilli (lk_At l))), (''message'', GStr (mp_message m)),
          (''metadata'', GMap [(''version'', GStr OCSFVersion), (''log_name'', GStr (rc_Chain r)),
             (''uid'', GStr (rc_Source r @ ''/'' @ rc_Chain r @ ''/'' @ itoa (lk_Seq l))),
             (''logged_time'', GInt (UnixMilli (lk_At l))),
             (''product'', GMap [(''name'', GStr ''pg_sage''), (''vendor_name'', GStr ''pg_sage'')])]),
          (''actor'', GMap [(''app_name'', GStr (lk_App l)), (''user'', GMap [(''name'', GStr (lk_DBUser l))])]),
          (''unmapped'', GMap [(''pg_sage'', GMap (chainProof lib r))])])"

definition Map :: "siem_lib \<Rightarrow> Record \<Rightarrow> Event" where
  "Map lib r =
     (let m = classify lib r
      in fit (fold (\<lambda>(k, v). mput k v) (mp_extra m) (event_base lib r m)))"


subsection \<open>Lemmas\<close>

lemma mget_fold_mput:
  "k \<notin> fst ` set extra \<Longrightarrow> mget (fold (\<lambda>(k, v). mput k v) extra e) k = mget e k"
  by (induction extra arbitrary: e) auto

text \<open>What a mapper adds never touches the link the event carries.\<close>

definition extra_keys :: "string set" where
  "extra_keys = {''database'', ''query_info'', ''user'', ''src_endpoint'', ''entity''}"

lemma classify_extra: "fst ` set (mp_extra (classify lib r)) \<subseteq> extra_keys"
proof -
  have "fst ` set (mp_extra (trailRemoval r)) \<subseteq> extra_keys" by (simp add: trailRemoval_def Let_def)
  moreover have "fst ` set (mp_extra (actionMapping lib r)) \<subseteq> extra_keys"
    by (simp add: actionMapping_def Let_def extra_keys_def)
  moreover have "fst ` set (mp_extra (authMapping r)) \<subseteq> extra_keys"
    by (simp add: authMapping_def Let_def extra_keys_def)
  moreover have "fst ` set (mp_extra (configMapping lib r)) \<subseteq> extra_keys"
    by (simp add: configMapping_def Let_def extra_keys_def)
  moreover have "fst ` set (mp_extra (queryAuditMapping r)) \<subseteq> extra_keys"
    by (simp add: queryAuditMapping_def Let_def extra_keys_def)
  moreover have "fst ` set (mp_extra (pgauditMapping r)) \<subseteq> extra_keys"
    by (simp add: pgauditMapping_def Let_def extra_keys_def split: prod.split)
  ultimately show ?thesis by (simp add: classify_def)
qed

lemma mget_unfitted:
  assumes "k \<notin> extra_keys"
  shows "mget (fold (\<lambda>(k, v). mput k v) (mp_extra (classify lib r)) (event_base lib r m)) k =
    mget (event_base lib r m) k"
  using assms classify_extra [of lib r] by (intro mget_fold_mput) blast

lemma mget_fit: "k \<noteq> ''unmapped'' \<Longrightarrow> k \<noteq> ''query_info'' \<Longrightarrow> mget (fit e) k = mget e k"
  by (simp add: fit_def Let_def split: gval.split)

text \<open>The proof an event carries: fitting it to a datagram gives up the row copy only.\<close>

definition event_proof :: "Event \<Rightarrow> gmap" where
  "event_proof e = as_map (mget (as_map (mget e ''unmapped'')) ''pg_sage'')"

lemma event_proof_mput: "k \<noteq> ''unmapped'' \<Longrightarrow> event_proof (mput k v e) = event_proof e"
  by (simp add: event_proof_def)

lemma event_proof_fit: "k \<noteq> ''row'' \<Longrightarrow> mget (event_proof (fit e)) k = mget (event_proof e) k"
  by (simp add: fit_def Let_def event_proof_mput split: gval.split) (simp add: event_proof_def as_map_def)

lemma event_proof_Map:
  assumes "k \<noteq> ''row''"
  shows "mget (event_proof (Map lib r)) k = mget (chainProof lib r) k"
proof -
  have "mget (event_base lib r m) ''unmapped'' = GMap [(''pg_sage'', GMap (chainProof lib r))]" for m
    by (simp add: event_base_def mget_def Let_def)
  then have "event_proof (fold (\<lambda>(k, v). mput k v) (mp_extra (classify lib r)) (event_base lib r m)) = chainProof lib r" for m
    by (simp add: event_proof_def mget_unfitted extra_keys_def) (simp add: as_map_def mget_def)
  then show ?thesis by (simp add: Map_def Let_def event_proof_fit [OF assms])
qed

lemma Map_field:
  assumes "k \<notin> extra_keys" "k \<noteq> ''unmapped''"
  shows "mget (Map lib r) k = mget (event_base lib r (classify lib r)) k"
  using assms by (simp add: Map_def Let_def mget_fit mget_unfitted extra_keys_def)

end
