(* ===== verification/Leader.thy ===== *)
theory Leader
  imports Prelude
begin

text \<open>
  Leader election of \<^verbatim>\<open>sidecar/internal/leader\<close> (\<^verbatim>\<open>elector.go\<close>,
  \<^verbatim>\<open>postgres.go\<close>): the lease table and its three statements, the store's calls as
  functions of what their statements answer, and the elector. A local instant is in nanoseconds; an
  instant of the database is in microseconds, the resolution of \<^verbatim>\<open>timestamptz\<close>.
  \<^verbatim>\<open>micros\<close> is the argument that stands for what PostgreSQL makes of
  \<^verbatim>\<open>ttl.Seconds()::float8 * interval '1 second'\<close>. A nil elector is \<^term>\<open>None\<close>.
\<close>

subsection \<open>The lease table\<close>

record Lease =
  ls_Holder :: string
  ls_Epoch :: int
  ls_ExpiresAt :: instant

definition no_lease :: Lease where
  "no_lease = \<lparr>ls_Holder = [], ls_Epoch = 0, ls_ExpiresAt = 0\<rparr>"

record lease_row =
  lr_holder :: string
  lr_epoch :: int
  lr_acquired_at :: instant
  lr_renewed_at :: instant
  lr_expires_at :: instant

type_synonym lease_table = "string \<Rightarrow> lease_row option"

definition row_lease :: "lease_row \<Rightarrow> Lease" where
  "row_lease r = \<lparr>ls_Holder = lr_holder r, ls_Epoch = lr_epoch r, ls_ExpiresAt = lr_expires_at r\<rparr>"

text \<open>The row the statement writes, for the row it found.\<close>

definition upsert_row :: "instant \<Rightarrow> string \<Rightarrow> int \<Rightarrow> lease_row option \<Rightarrow> lease_row" where
  "upsert_row now holder us old =
     (let own = (case old of None \<Rightarrow> False | Some l \<Rightarrow> lr_holder l = holder)
      in \<lparr>lr_holder = holder,
          lr_epoch = (case old of None \<Rightarrow> 1 | Some l \<Rightarrow> if own then lr_epoch l else lr_epoch l + 1),
          lr_acquired_at = (case old of None \<Rightarrow> now | Some l \<Rightarrow> if own then lr_acquired_at l else now),
          lr_renewed_at = now, lr_expires_at = now + us\<rparr>)"

text \<open>The statement on a transaction that began at \<^verbatim>\<open>now\<close>: no row answers when another
  holder's lease is alive.\<close>

definition acquireSQL ::
    "instant \<Rightarrow> string \<Rightarrow> string \<Rightarrow> int \<Rightarrow> lease_table \<Rightarrow> (err + Lease option) \<times> lease_table" where
  "acquireSQL now scope holder us tbl =
     (let r = upsert_row now holder us (tbl scope);
          written = (Inr (Some (row_lease r)), tbl(scope \<mapsto> r))
      in case tbl scope of
           None \<Rightarrow> written
         | Some l \<Rightarrow>
             if \<not> (lr_holder l = holder \<or> lr_expires_at l \<le> now) then (Inr None, tbl)
             else if \<not> fits64 (lr_epoch r) then (Inl ''bigint out of range'', tbl)
             else written)"

definition currentSQL :: "string \<Rightarrow> lease_table \<Rightarrow> Lease option" where
  "currentSQL scope tbl = map_option row_lease (tbl scope)"

definition releaseSQL :: "instant \<Rightarrow> string \<Rightarrow> string \<Rightarrow> lease_table \<Rightarrow> lease_table" where
  "releaseSQL now scope holder tbl =
     (case tbl scope of
        None \<Rightarrow> tbl
      | Some l \<Rightarrow> if lr_holder l = holder then tbl(scope \<mapsto> l\<lparr>lr_expires_at := now\<rparr>) else tbl)"

subsection \<open>The store\<close>

text \<open>What a statement answered: a failure of the connection, or its row.\<close>

type_synonym answer = "err + Lease option"

definition errNoPool :: err where
  "errNoPool = ''no connection pool''"

definition Current :: "bool \<Rightarrow> string \<Rightarrow> answer \<Rightarrow> err + Lease \<times> bool" where
  "Current pool scope answer =
     (if \<not> pool then Inl (''read lease: '' @ errNoPool)
      else (case answer of
              Inr (Some l) \<Rightarrow> Inr (l, True)
            | Inr None \<Rightarrow> Inr (no_lease, False)
            | Inl e \<Rightarrow> Inl (''read lease '' @ scope @ '': '' @ e)))"

definition Acquire :: "bool \<Rightarrow> string \<Rightarrow> answer \<Rightarrow> answer \<Rightarrow> err + Lease \<times> bool" where
  "Acquire pool scope acquired current =
     (if \<not> pool then Inl (''acquire lease: '' @ errNoPool)
      else (case acquired of
              Inr (Some l) \<Rightarrow> Inr (l, True)
            | Inl e \<Rightarrow> Inl (''acquire lease '' @ scope @ '': '' @ e)
            | Inr None \<Rightarrow> ebind (Current pool scope current) (\<lambda>(cur, _). Inr (cur, False))))"

definition store_Release :: "bool \<Rightarrow> string \<Rightarrow> err option \<Rightarrow> err option" where
  "store_Release pool scope failure =
     (if \<not> pool then Some (''release lease: '' @ errNoPool)
      else map_option (\<lambda>e. ''release lease '' @ scope @ '': '' @ e) failure)"

subsection \<open>The elector\<close>

definition DefaultTTL :: duration where
  "DefaultTTL = 30 * second"

definition SafetyDivisor :: int where
  "SafetyDivisor = 5"

record Elector =
  el_store :: bool
  el_scope :: string
  el_holder :: string
  el_ttl :: duration
  el_held :: bool
  el_epoch :: int
  el_deadline :: instant
  el_current :: string
  el_lastErr :: err
  el_transitions :: int

definition NewElector :: "bool \<Rightarrow> string \<Rightarrow> string \<Rightarrow> duration \<Rightarrow> Elector" where
  "NewElector store scope holder ttl =
     \<lparr>el_store = store, el_scope = scope, el_holder = holder,
      el_ttl = (if ttl \<le> 0 then DefaultTTL else ttl), el_held = False, el_epoch = 0,
      el_deadline = 0, el_current = [], el_lastErr = [], el_transitions = 0\<rparr>"

text \<open>How long leadership lasts from the instant before the call; the duration is positive, so the
  truncating division of the code is this one.\<close>

definition safe_span :: "duration \<Rightarrow> duration" where
  "safe_span ttl = ttl - ttl div SafetyDivisor"

definition leaderLocked :: "instant \<Rightarrow> Elector \<Rightarrow> bool" where
  "leaderLocked now e = (el_held e \<and> now < el_deadline e)"

definition misconfigured :: err where
  "misconfigured = ''leader: elector needs a store, a scope and a holder''"

definition ready :: "Elector \<Rightarrow> bool" where
  "ready e = (el_store e \<and> el_scope e \<noteq> [] \<and> el_holder e \<noteq> [])"

text \<open>A tick on the reply of \<^term>\<open>Acquire\<close>: \<^verbatim>\<open>start\<close> was read before the call,
  \<^verbatim>\<open>n1\<close> and \<^verbatim>\<open>n2\<close> are the clock's readings after it. The last component is
  whether leadership changed, which is logged.\<close>

definition Tick ::
    "instant \<Rightarrow> err + Lease \<times> bool \<Rightarrow> instant \<Rightarrow> instant \<Rightarrow> Elector \<Rightarrow> err option \<times> Elector \<times> bool" where
  "Tick start reply n1 n2 e =
     (if \<not> ready e then (Some misconfigured, e, False)
      else (case reply of
              Inl er \<Rightarrow> (Some (''leader: renew lease of '' @ el_scope e @ '': '' @ er),
                         e\<lparr>el_lastErr := er\<rparr>, False)
            | Inr (lease, held) \<Rightarrow>
                let e1 = e\<lparr>el_lastErr := [], el_current := ls_Holder lease\<rparr>;
                    was = leaderLocked n1 e1;
                    e2 = (if held
                          then e1\<lparr>el_held := True, el_epoch := ls_Epoch lease,
                                  el_deadline := start + safe_span (el_ttl e)\<rparr>
                          else e1\<lparr>el_held := False\<rparr>)
                in if leaderLocked n2 e2 \<noteq> was
                   then (None, e2\<lparr>el_transitions := wrap64 (el_transitions e2 + 1)\<rparr>, True)
                   else (None, e2, False)))"

definition IsLeader :: "instant \<Rightarrow> Elector option \<Rightarrow> bool" where
  "IsLeader now e = (case e of None \<Rightarrow> True | Some e \<Rightarrow> leaderLocked now e)"

definition Fence :: "instant \<Rightarrow> Elector option \<Rightarrow> string \<times> int \<times> bool" where
  "Fence now e =
     (case e of
        None \<Rightarrow> ([], 0, False)
      | Some e \<Rightarrow> if leaderLocked now e then (el_holder e, el_epoch e, True) else ([], 0, False))"

text \<open>Release gives up locally first; then the store's statement runs, if there is a store.\<close>

definition Release_local :: "Elector \<Rightarrow> Elector" where
  "Release_local e = e\<lparr>el_held := False\<rparr>"

definition Release_result :: "bool \<Rightarrow> err option \<Rightarrow> Elector \<Rightarrow> err option" where
  "Release_result pool failure e =
     (if \<not> el_store e then None
      else map_option (\<lambda>er. ''leader: release lease of '' @ el_scope e @ '': '' @ er)
             (store_Release pool (el_scope e) failure))"

record Status =
  st_Enabled :: bool
  st_Scope :: string
  st_Self :: string
  st_Holder :: string
  st_Leader :: bool
  st_Epoch :: int
  st_Deadline :: instant
  st_LeaseTTL :: duration
  st_LastError :: err
  st_Transitions :: int

definition elector_Status :: "instant \<Rightarrow> Elector option \<Rightarrow> Status" where
  "elector_Status now e =
     (case e of
        None \<Rightarrow> \<lparr>st_Enabled = False, st_Scope = [], st_Self = [], st_Holder = [], st_Leader = True,
                  st_Epoch = 0, st_Deadline = 0, st_LeaseTTL = 0, st_LastError = [], st_Transitions = 0\<rparr>
      | Some e \<Rightarrow>
          let leads = leaderLocked now e
          in \<lparr>st_Enabled = True, st_Scope = el_scope e, st_Self = el_holder e, st_Holder = el_current e,
              st_Leader = leads, st_Epoch = (if leads then el_epoch e else 0),
              st_Deadline = (if leads then el_deadline e else 0), st_LeaseTTL = el_ttl e,
              st_LastError = el_lastErr e, st_Transitions = el_transitions e\<rparr>)"

subsection \<open>Lemmas\<close>

lemma NewElector_fields [simp]:
  "el_scope (NewElector st sc h ttl) = sc" "el_holder (NewElector st sc h ttl) = h"
  "el_held (NewElector st sc h ttl) = False" "el_store (NewElector st sc h ttl) = st"
  by (simp_all add: NewElector_def)

lemma NewElector_ttl_pos: "el_ttl (NewElector st sc h ttl) > 0"
  by (simp add: NewElector_def DefaultTTL_def second_def)

text \<open>Leadership ends before the lease does, for every lease of five nanoseconds or more.\<close>

lemma safe_span_bounds: "0 < ttl \<Longrightarrow> 0 < safe_span ttl" "5 \<le> ttl \<Longrightarrow> safe_span ttl < ttl"
  by (simp_all add: safe_span_def SafetyDivisor_def)

text \<open>The identity of an elector never changes.\<close>

lemma Tick_identity [simp]:
  "el_scope (fst (snd (Tick start reply n1 n2 e))) = el_scope e"
  "el_holder (fst (snd (Tick start reply n1 n2 e))) = el_holder e"
  "el_ttl (fst (snd (Tick start reply n1 n2 e))) = el_ttl e"
  "el_store (fst (snd (Tick start reply n1 n2 e))) = el_store e"
  by (simp_all add: Tick_def Let_def split: sum.split)

lemma Tick_cases:
  assumes "Tick start reply n1 n2 e = (er, e', c)"
  obtains (bad) "\<not> ready e" "e' = e" "er = Some misconfigured"
  | (failed) m where "ready e" "reply = Inl m" "e' = e\<lparr>el_lastErr := m\<rparr>" "er \<noteq> None"
  | (won) lease where "ready e" "reply = Inr (lease, True)" "er = None" "el_held e'"
      "el_epoch e' = ls_Epoch lease" "el_deadline e' = start + safe_span (el_ttl e)"
  | (lost) lease where "ready e" "reply = Inr (lease, False)" "er = None" "\<not> el_held e'"
proof (cases "ready e")
  case False
  show ?thesis using assms False by (intro bad [OF False]) (auto simp: Tick_def)
next
  case True
  show ?thesis
  proof (cases reply)
    case (Inl m)
    show ?thesis using assms True Inl by (intro failed [OF True Inl]) (auto simp: Tick_def)
  next
    case (Inr p)
    obtain lease held where p: "p = (lease, held)" by fastforce
    show ?thesis
    proof (cases held)
      case True': True
      show ?thesis using assms True Inr p True'
        by (intro won [OF True, of lease]) (auto simp: Tick_def Let_def split: if_splits)
    next
      case False
      show ?thesis using assms True Inr p False
        by (intro lost [OF True, of lease]) (auto simp: Tick_def Let_def split: if_splits)
    qed
  qed
qed

text \<open>The statement leaves other scopes alone, and on its own scope it either refuses or leaves the
  caller's row, alive for the whole lease.\<close>

lemma acquireSQL_other: "acquireSQL now sc h us tbl = (a, tbl') \<Longrightarrow> sc' \<noteq> sc \<Longrightarrow> tbl' sc' = tbl sc'"
  by (auto simp: acquireSQL_def Let_def split: option.splits if_splits)

lemma upsert_row_fields [simp]:
  "lr_holder (upsert_row now h us old) = h" "lr_renewed_at (upsert_row now h us old) = now"
  "lr_expires_at (upsert_row now h us old) = now + us"
  "lr_epoch (upsert_row now h us None) = 1"
  "lr_epoch (upsert_row now h us (Some l)) = (if lr_holder l = h then lr_epoch l else lr_epoch l + 1)"
  by (simp_all add: upsert_row_def Let_def)

lemma acquireSQL_cases:
  assumes "acquireSQL now sc h us tbl = (a, tbl')"
  obtains (fresh) "tbl sc = None" "a = Inr (Some (row_lease (upsert_row now h us None)))"
      "tbl' = tbl(sc \<mapsto> upsert_row now h us None)"
  | (own) l where "tbl sc = Some l" "lr_holder l = h" "a = Inr (Some (row_lease (upsert_row now h us (Some l))))"
      "tbl' = tbl(sc \<mapsto> upsert_row now h us (Some l))"
  | (takeover) l where "tbl sc = Some l" "lr_holder l \<noteq> h" "lr_expires_at l \<le> now"
      "fits64 (lr_epoch l + 1)" "a = Inr (Some (row_lease (upsert_row now h us (Some l))))"
      "tbl' = tbl(sc \<mapsto> upsert_row now h us (Some l))"
  | (refused) l where "tbl sc = Some l" "lr_holder l \<noteq> h" "now < lr_expires_at l" "a = Inr None" "tbl' = tbl"
  | (overflow) l m where "tbl sc = Some l" "a = Inl m" "tbl' = tbl"
proof (cases "tbl sc")
  case None
  show ?thesis using assms by (intro fresh [OF None]) (auto simp: acquireSQL_def Let_def None)
next
  case (Some l)
  note d = assms [unfolded acquireSQL_def Some option.case Let_def]
  consider "lr_holder l = h" "fits64 (lr_epoch l)" | "lr_holder l = h" "\<not> fits64 (lr_epoch l)"
    | "lr_holder l \<noteq> h" "now < lr_expires_at l"
    | "lr_holder l \<noteq> h" "lr_expires_at l \<le> now" "fits64 (lr_epoch l + 1)"
    | "lr_holder l \<noteq> h" "lr_expires_at l \<le> now" "\<not> fits64 (lr_epoch l + 1)"
    by linarith
  then show ?thesis
  proof cases
    case 1 show ?thesis using d 1 by (intro own [OF Some 1(1)]) auto
  next
    case 2 show ?thesis using d 2 by (intro overflow [OF Some]) auto
  next
    case 3 show ?thesis using d 3 by (intro refused [OF Some 3]) auto
  next
    case 4 show ?thesis using d 4 by (intro takeover [OF Some 4]) auto
  next
    case 5 show ?thesis using d 5 by (intro overflow [OF Some]) auto
  qed
qed

lemma releaseSQL_other: "sc' \<noteq> sc \<Longrightarrow> releaseSQL now sc h tbl sc' = tbl sc'"
  by (simp add: releaseSQL_def split: option.splits)

text \<open>A released lease is free at once: the next holder takes it in a transaction that begins no
  earlier, and bumps the epoch.\<close>

lemma release_then_acquire:
  assumes "tbl sc = Some l" "lr_holder l = h" "h' \<noteq> h" "t \<le> now" "fits64 (lr_epoch l + 1)"
  shows "\<exists>r. acquireSQL now sc h' us (releaseSQL t sc h tbl) =
      (Inr (Some (row_lease r)), (releaseSQL t sc h tbl)(sc \<mapsto> r)) \<and>
    lr_holder r = h' \<and> lr_epoch r = lr_epoch l + 1"
  using assms by (auto simp: acquireSQL_def releaseSQL_def Let_def)


subsection \<open>Epochs as fencing tokens\<close>

text \<open>What the users of a lease table rely on when they fence their writes with an epoch: a row
  never goes away, and its epoch moves up whenever its holder changes and never down.\<close>

locale epoch_table =
  fixes writes :: "lease_table \<Rightarrow> lease_table \<Rightarrow> bool"
  assumes kept: "writes tbl tbl' \<Longrightarrow> tbl sc = Some r \<Longrightarrow>
    \<exists>r'. tbl' sc = Some r' \<and>
      (lr_epoch r < lr_epoch r' \<or> lr_epoch r' = lr_epoch r \<and> lr_holder r' = lr_holder r)"
begin

lemma kept_for_good:
  assumes "writes\<^sup>*\<^sup>* tbl tbl'" "tbl sc = Some r"
  shows "\<exists>r'. tbl' sc = Some r' \<and>
    (lr_epoch r < lr_epoch r' \<or> lr_epoch r' = lr_epoch r \<and> lr_holder r' = lr_holder r)"
  using assms
proof (induction rule: rtranclp_induct)
  case base
  then show ?case by simp
next
  case (step y z)
  then obtain r' where r': "y sc = Some r'"
    "lr_epoch r < lr_epoch r' \<or> lr_epoch r' = lr_epoch r \<and> lr_holder r' = lr_holder r" by blast
  from kept [OF step.hyps(2) r'(1)] r'(2) show ?case by fastforce
qed

lemma epoch_identifies_holder:
  assumes "writes\<^sup>*\<^sup>* tbl tbl'" "tbl sc = Some r" "tbl' sc = Some r'" "lr_epoch r' = lr_epoch r"
  shows "lr_holder r' = lr_holder r"
  using kept_for_good [OF assms(1,2)] assms(3,4) by auto

end

text \<open>The statements of the package write a table that way.\<close>

inductive lease_write :: "lease_table \<Rightarrow> lease_table \<Rightarrow> bool" where
  acquired: "acquireSQL now sc h us tbl = (a, tbl') \<Longrightarrow> lease_write tbl tbl'"
| released: "lease_write tbl (releaseSQL now sc h tbl)"

inductive_cases lease_writeE: "lease_write tbl tbl'"

lemma acquireSQL_kept:
  assumes "acquireSQL now sc h us tbl = (a, tbl')" "tbl sc' = Some r"
  shows "\<exists>r'. tbl' sc' = Some r' \<and>
    (lr_epoch r < lr_epoch r' \<or> lr_epoch r' = lr_epoch r \<and> lr_holder r' = lr_holder r)"
  using assms(1) by (cases rule: acquireSQL_cases) (use assms(2) in auto)

lemma releaseSQL_kept:
  assumes "tbl sc' = Some r"
  shows "\<exists>r'. releaseSQL now sc h tbl sc' = Some r' \<and> lr_epoch r' = lr_epoch r \<and> lr_holder r' = lr_holder r"
  using assms by (auto simp: releaseSQL_def split: option.splits)

interpretation leases: epoch_table lease_write
  by unfold_locales (elim lease_writeE; use acquireSQL_kept releaseSQL_kept in blast)

end
