(* ===== verification/Siem_Export.thy ===== *)
theory Siem_Export
  imports Siem_Map Leader
begin

text \<open>
  The exporter of \<^verbatim>\<open>sidecar/internal/siem\<close> (\<^verbatim>\<open>cursor.go\<close>,
  \<^verbatim>\<open>records.go\<close>, \<^verbatim>\<open>exporter.go\<close>), \<^verbatim>\<open>auditchain.Installed\<close> and the
  wiring of sources and fence (\<^verbatim>\<open>audit_wiring.go\<close>). The shared state is the control
  database (leases and cursors), the audited databases, and the batches each sink has accepted.
  A script says, for every call, what others did to the shared state before it and whether and
  where it fails; a failed call may still have taken effect. The loop over a chain may not end, so
  it gives an option.
\<close>

subsection \<open>World\<close>

record export_db =
  xd_leases :: lease_table
  xd_now :: instant
  xd_cursors :: "string \<times> string \<times> string \<Rightarrow> int option"
  xd_audit :: "nat \<Rightarrow> audit_db"
  xd_sent :: "(string \<times> Event list) list"

text \<open>The stage a call fails in, the message, and whether the call took effect all the same.\<close>

datatype fault = Fault nat err bool

record export_event =
  xe_others :: "export_db \<Rightarrow> export_db"
  xe_fault :: "fault option"

record SinkStatus =
  sk_Name :: string
  sk_Delivered :: int
  sk_LastSuccess :: instant
  sk_LastError :: err
  sk_Failures :: int

record export_world =
  xw_db :: export_db
  xw_script :: "export_event list"
  xw_status :: SinkStatus
  xw_clock :: instant

datatype export_error = ErrFenced | ErrNoControl | CallFailed err | InContext err export_error

type_synonym 'a exp = "export_world \<Rightarrow> (export_error + 'a) \<times> export_world"

fun err_text :: "export_error \<Rightarrow> err" where
  "err_text ErrFenced = ''siem: leader lease lost; export stopped''"
| "err_text ErrNoControl = ''siem: no control database for export cursors''"
| "err_text (CallFailed e) = e"
| "err_text (InContext c e) = c @ '': '' @ err_text e"

definition xcall :: "(fault option \<Rightarrow> export_db \<Rightarrow> (export_error + 'a) \<times> export_db) \<Rightarrow> 'a exp" where
  "xcall f w =
     (case xw_script w of
        [] \<Rightarrow> (case f None (xw_db w) of (r, db) \<Rightarrow> (r, w\<lparr>xw_db := db\<rparr>))
      | ev # evs \<Rightarrow>
          (case f (xe_fault ev) (xe_others ev (xw_db w)) of
             (r, db) \<Rightarrow> (r, w\<lparr>xw_db := db, xw_script := evs\<rparr>)))"

text \<open>A query: it reads, or fails with its context.\<close>

definition xquery :: "err \<Rightarrow> (export_db \<Rightarrow> export_error + 'a) \<Rightarrow> 'a exp" where
  "xquery context f = xcall (\<lambda>fault db.
     (case fault of
        Some (Fault _ e _) \<Rightarrow> (Inl (InContext context (CallFailed e)), db)
      | None \<Rightarrow> (f db, db)))"

subsection \<open>Cursors\<close>

record Fence =
  fn_Scope :: string
  fn_Holder :: string
  fn_Epoch :: int

definition no_fence :: Fence where
  "no_fence = \<lparr>fn_Scope = [], fn_Holder = [], fn_Epoch = 0\<rparr>"

definition fenceSQL :: "Fence \<Rightarrow> export_db \<Rightarrow> bool" where
  "fenceSQL f db =
     (case xd_leases db (fn_Scope f) of
        None \<Rightarrow> False
      | Some l \<Rightarrow> lr_holder l = fn_Holder f \<and> lr_epoch l = fn_Epoch f \<and> lr_expires_at l > xd_now db)"

definition cursor_name :: "string \<Rightarrow> string \<Rightarrow> string \<Rightarrow> err" where
  "cursor_name sink source chain = sink @ ''/'' @ source @ ''/'' @ chain"

definition Load :: "bool \<Rightarrow> string \<Rightarrow> string \<Rightarrow> string \<Rightarrow> int exp" where
  "Load pool sink source chain =
     (if \<not> pool then (\<lambda>w. (Inl ErrNoControl, w))
      else xquery (''siem: load cursor '' @ cursor_name sink source chain)
             (\<lambda>db. Inr (case xd_cursors db (sink, source, chain) of None \<Rightarrow> 0 | Some seq \<Rightarrow> seq)))"

definition CheckFence :: "bool \<Rightarrow> Fence \<Rightarrow> unit exp" where
  "CheckFence pool f =
     (if fn_Holder f = [] then (\<lambda>w. (Inr (), w))
      else if \<not> pool then (\<lambda>w. (Inl ErrNoControl, w))
      else xquery ''siem: check lease'' (\<lambda>db. if fenceSQL f db then Inr () else Inl ErrFenced))"

definition move_cursor :: "string \<times> string \<times> string \<Rightarrow> int \<Rightarrow> export_db \<Rightarrow> export_db" where
  "move_cursor key seq db =
     (case xd_cursors db key of
        None \<Rightarrow> db\<lparr>xd_cursors := (xd_cursors db)(key \<mapsto> seq)\<rparr>
      | Some old \<Rightarrow> if old < seq then db\<lparr>xd_cursors := (xd_cursors db)(key \<mapsto> seq)\<rparr> else db)"

text \<open>One transaction; the share lock on the lease row holds the fence until it commits. Its stages
  are the begin, the fence, the write and the commit, which may take effect and still fail.\<close>

definition save_tx ::
    "Fence \<Rightarrow> string \<Rightarrow> string \<Rightarrow> string \<Rightarrow> int \<Rightarrow> fault option \<Rightarrow> export_db \<Rightarrow> (export_error + unit) \<times> export_db" where
  "save_tx f sink source chain seq fault db =
     (let fails = (\<lambda>stage. case fault of Some (Fault n e _) \<Rightarrow> if n = stage then Some e else None | None \<Rightarrow> None);
          moved = move_cursor (sink, source, chain) seq db
      in case fails 0 of
           Some e \<Rightarrow> (Inl (InContext ''siem: save cursor: begin'' (CallFailed e)), db)
         | None \<Rightarrow>
         (case (if fn_Holder f = [] then None else fails 1) of
            Some e \<Rightarrow> (Inl (InContext ''siem: save cursor: check lease'' (CallFailed e)), db)
          | None \<Rightarrow>
            if fn_Holder f \<noteq> [] \<and> \<not> fenceSQL f db then (Inl ErrFenced, db)
            else (case fails 2 of
                    Some e \<Rightarrow> (Inl (InContext (''siem: save cursor '' @ cursor_name sink source chain) (CallFailed e)), db)
                  | None \<Rightarrow>
                  (case fault of
                     Some (Fault n e applied) \<Rightarrow>
                       if n \<ge> 3 then (Inl (InContext ''siem: save cursor: commit'' (CallFailed e)), if applied then moved else db)
                       else (Inr (), moved)
                   | None \<Rightarrow> (Inr (), moved)))))"

definition Save :: "bool \<Rightarrow> Fence \<Rightarrow> string \<Rightarrow> string \<Rightarrow> string \<Rightarrow> int \<Rightarrow> unit exp" where
  "Save pool f sink source chain seq =
     (if \<not> pool then (\<lambda>w. (Inl ErrNoControl, w)) else xcall (save_tx f sink source chain seq))"

subsection \<open>Records\<close>

record Source =
  so_Name :: string
  so_DB :: nat

text \<open>The installed chains of a database, none when it has no chain tables.\<close>

definition Installed :: "nat \<Rightarrow> string list exp" where
  "Installed i = xquery ''auditchain: list chains'' (\<lambda>db. Inr (sort (map fst (ad_Meta (xd_audit db i)))))"

definition links_after :: "string \<Rightarrow> int \<Rightarrow> audit_db \<Rightarrow> Link list" where
  "links_after chain after a = filter (\<lambda>l. after < lk_Seq l) (chain_links chain a)"

definition record_of :: "siem_lib \<Rightarrow> string \<Rightarrow> string \<Rightarrow> audit_db \<Rightarrow> Link \<Rightarrow> Record" where
  "record_of lib source chain a l =
     \<lparr>rc_Source = source, rc_Chain = chain, rc_Link = l,
      rc_Row = (case SpecFor chain of
                  None \<Rightarrow> None
                | Some s \<Rightarrow> map_option (sl_row lib (sp_Table s))
                             (find (\<lambda>r. ar_ID r = lk_RowID l) (table_rows (sp_Table s) a)))\<rparr>"

definition readRecords :: "siem_lib \<Rightarrow> Source \<Rightarrow> string \<Rightarrow> int \<Rightarrow> nat \<Rightarrow> Record list exp" where
  "readRecords lib src chain after limit =
     xquery (''read '' @ chain @ '' links of '' @ so_Name src) (\<lambda>db.
       let a = xd_audit db (so_DB src)
       in case SpecFor chain of
            Some s \<Rightarrow>
              if ad_Rows a (sp_Table s) = None then Inl (CallFailed (''relation '' @ sp_Table s @ '' does not exist''))
              else Inr (map (record_of lib (so_Name src) chain a) (take limit (links_after chain after a)))
          | None \<Rightarrow> Inr (map (record_of lib (so_Name src) chain a) (take limit (links_after chain after a))))"

subsection \<open>The exporter\<close>

record Options =
  op_BatchSize :: int
  op_Interval :: duration
  op_MaxBackoff :: duration

definition NewExporter_opts :: "Options \<Rightarrow> Options" where
  "NewExporter_opts o1 =
     (let o1 = (if op_BatchSize o1 \<le> 0 then o1\<lparr>op_BatchSize := 200\<rparr> else o1);
          o1 = (if op_Interval o1 \<le> 0 then o1\<lparr>op_Interval := 10 * second\<rparr> else o1)
      in if op_MaxBackoff o1 < op_Interval o1 then o1\<lparr>op_MaxBackoff := op_Interval o1\<rparr> else o1)"

definition new_status :: "string \<Rightarrow> SinkStatus" where
  "new_status name = \<lparr>sk_Name = name, sk_Delivered = 0, sk_LastSuccess = 0, sk_LastError = [], sk_Failures = 0\<rparr>"

fun backoff_loop :: "nat \<Rightarrow> duration \<Rightarrow> duration \<Rightarrow> duration" where
  "backoff_loop 0 wait longest = wait"
| "backoff_loop (Suc n) wait longest = (if wait < longest then backoff_loop n (wait * 2) longest else wait)"

definition backoff :: "Options \<Rightarrow> SinkStatus \<Rightarrow> duration" where
  "backoff opts st =
     min (backoff_loop (nat (sk_Failures st - 1)) (op_Interval opts) (op_MaxBackoff opts)) (op_MaxBackoff opts)"

definition wants :: "string list \<Rightarrow> string \<Rightarrow> bool" where
  "wants names chain = (names = [] \<or> chain \<in> set names)"

text \<open>A sink accepts a batch, or refuses it; what it kept of a refused batch is its own.\<close>

definition Send :: "string \<Rightarrow> Event list \<Rightarrow> unit exp" where
  "Send name events = xcall (\<lambda>fault db.
     let accepted = db\<lparr>xd_sent := xd_sent db @ [(name, events)]\<rparr>
     in case fault of
          Some (Fault _ e applied) \<Rightarrow> (Inl (CallFailed e), if applied then accepted else db)
        | None \<Rightarrow> (Inr (), accepted))"

definition note_delivered :: "nat \<Rightarrow> export_world \<Rightarrow> export_world" where
  "note_delivered n w =
     w\<lparr>xw_status := (xw_status w)\<lparr>sk_Delivered := sk_Delivered (xw_status w) + int n, sk_LastSuccess := xw_clock w\<rparr>\<rparr>"

definition batch_size :: "Options \<Rightarrow> nat" where
  "batch_size opts = nat (op_BatchSize opts)"

partial_function (option) drain ::
    "siem_lib \<Rightarrow> Options \<Rightarrow> bool \<Rightarrow> Source \<Rightarrow> string \<Rightarrow> Fence \<Rightarrow> export_world \<Rightarrow>
     ((export_error + unit) \<times> export_world) option" where
  "drain lib opts pool src chain fence w =
     (case Load pool (sk_Name (xw_status w)) (so_Name src) chain w of
        (Inl e, w1) \<Rightarrow> Some (Inl e, w1)
      | (Inr after, w1) \<Rightarrow>
          (case readRecords lib src chain after (batch_size opts) w1 of
             (Inl e, w2) \<Rightarrow> Some (Inl e, w2)
           | (Inr recs, w2) \<Rightarrow>
               if recs = [] then Some (Inr (), w2)
               else (case Send (sk_Name (xw_status w)) (map (Map lib) recs) w2 of
                       (Inl e, w3) \<Rightarrow> Some (Inl e, w3)
                     | (Inr _, w3) \<Rightarrow>
                         (case Save pool fence (sk_Name (xw_status w)) (so_Name src) chain
                                 (lk_Seq (rc_Link (last recs))) w3 of
                            (Inl e, w4) \<Rightarrow> Some (Inl e, w4)
                          | (Inr _, w4) \<Rightarrow>
                              if length recs < batch_size opts then Some (Inr (), note_delivered (length recs) w4)
                              else drain lib opts pool src chain fence (note_delivered (length recs) w4)))))"

text \<open>\<^verbatim>\<open>fail\<close> counts the failure and wraps the error; every tenth is logged.\<close>

definition fail_status :: "export_error \<Rightarrow> SinkStatus \<Rightarrow> SinkStatus" where
  "fail_status e st = st\<lparr>sk_Failures := sk_Failures st + 1, sk_LastError := err_text e\<rparr>"

definition fail_logged :: "SinkStatus \<Rightarrow> bool" where
  "fail_logged st = (sk_Failures st = 1 \<or> sk_Failures st mod 10 = 0)"

definition fail :: "export_error \<Rightarrow> export_world \<Rightarrow> (export_error + unit) \<times> export_world" where
  "fail e w =
     (Inl (InContext (''siem sink '' @ sk_Name (xw_status w)) e), w\<lparr>xw_status := fail_status e (xw_status w)\<rparr>)"

definition succeed :: "export_world \<Rightarrow> (export_error + unit) \<times> export_world" where
  "succeed w = (Inr (), w\<lparr>xw_status := (xw_status w)\<lparr>sk_Failures := 0, sk_LastError := []\<rparr>\<rparr>)"

fun drain_chains ::
    "siem_lib \<Rightarrow> Options \<Rightarrow> bool \<Rightarrow> string list \<Rightarrow> Source \<Rightarrow> Fence \<Rightarrow> string list \<Rightarrow> export_world \<Rightarrow>
     ((export_error + unit) \<times> export_world) option" where
  "drain_chains lib opts pool names src fence [] w = Some (Inr (), w)"
| "drain_chains lib opts pool names src fence (chain # cs) w =
     (if \<not> wants names chain then drain_chains lib opts pool names src fence cs w
      else (case drain lib opts pool src chain fence w of
              None \<Rightarrow> None
            | Some (Inl e, w1) \<Rightarrow> Some (Inl e, w1)
            | Some (Inr _, w1) \<Rightarrow> drain_chains lib opts pool names src fence cs w1))"

fun drain_sources ::
    "siem_lib \<Rightarrow> Options \<Rightarrow> bool \<Rightarrow> string list \<Rightarrow> Fence \<Rightarrow> Source list \<Rightarrow> export_world \<Rightarrow>
     ((export_error + unit) \<times> export_world) option" where
  "drain_sources lib opts pool names fence [] w = Some (Inr (), w)"
| "drain_sources lib opts pool names fence (src # srcs) w =
     (case Installed (so_DB src) w of
        (Inl e, w1) \<Rightarrow> Some (Inl (InContext (''source '' @ so_Name src) e), w1)
      | (Inr cs, w1) \<Rightarrow>
          (case drain_chains lib opts pool names src fence cs w1 of
             None \<Rightarrow> None
           | Some (Inl e, w2) \<Rightarrow> Some (Inl e, w2)
           | Some (Inr _, w2) \<Rightarrow> drain_sources lib opts pool names fence srcs w2))"

definition pass ::
    "siem_lib \<Rightarrow> Options \<Rightarrow> bool \<Rightarrow> string list \<Rightarrow> Source list \<Rightarrow> Fence \<times> bool \<Rightarrow> export_world \<Rightarrow>
     ((export_error + unit) \<times> export_world) option" where
  "pass lib opts pool names sources allowed w =
     (case allowed of (fence, ok) \<Rightarrow>
        if \<not> ok then Some (Inr (), w)
        else (case CheckFence pool fence w of
                (Inl e, w1) \<Rightarrow> Some (fail e w1)
              | (Inr _, w1) \<Rightarrow>
                  (case drain_sources lib opts pool names fence sources w1 of
                     None \<Rightarrow> None
                   | Some (Inl e, w2) \<Rightarrow> Some (fail e w2)
                   | Some (Inr _, w2) \<Rightarrow> Some (succeed w2))))"

text \<open>One pass per sink, in turn: each sink with the chains it receives and what its pass is
  allowed; the errors are joined.\<close>

record sinkState =
  si_status :: SinkStatus
  si_chains :: "string list"

fun RunOnce ::
    "siem_lib \<Rightarrow> Options \<Rightarrow> bool \<Rightarrow> Source list \<Rightarrow> (sinkState \<times> Fence \<times> bool) list \<Rightarrow> export_world \<Rightarrow>
     (export_error list \<times> sinkState list \<times> export_world) option" where
  "RunOnce lib opts pool sources [] w = Some ([], [], w)"
| "RunOnce lib opts pool sources ((s, allowed) # rest) w =
     (case pass lib opts pool (si_chains s) sources allowed (w\<lparr>xw_status := si_status s\<rparr>) of
        None \<Rightarrow> None
      | Some (r, w1) \<Rightarrow>
          (case RunOnce lib opts pool sources rest w1 of
             None \<Rightarrow> None
           | Some (errs, sinks, w2) \<Rightarrow>
               Some ((case r of Inl e \<Rightarrow> [e] | Inr _ \<Rightarrow> []) @ errs, s\<lparr>si_status := xw_status w1\<rparr> # sinks, w2)))"

definition exporter_Status :: "sinkState list \<Rightarrow> SinkStatus list" where
  "exporter_Status sinks = map si_status sinks"

text \<open>The wait before the next pass.\<close>

definition next_wait :: "Options \<Rightarrow> (export_error + unit) \<times> export_world \<Rightarrow> duration" where
  "next_wait opts res = (case res of (Inl _, w) \<Rightarrow> backoff opts (xw_status w) | (Inr _, w) \<Rightarrow> op_Interval opts)"

subsection \<open>Wiring\<close>

text \<open>The sources of a sidecar: the fleet's databases by name, each connection pool once, and the
  control database under a name of its own unless it is one of them.\<close>

fun fleet_sources :: "(string \<times> nat option) list \<Rightarrow> nat list \<Rightarrow> Source list" where
  "fleet_sources [] seen = []"
| "fleet_sources ((name, pool) # rest) seen =
     (case pool of
        None \<Rightarrow> fleet_sources rest seen
      | Some p \<Rightarrow> if p \<in> set seen then fleet_sources rest seen
                  else \<lparr>so_Name = name, so_DB = p\<rparr> # fleet_sources rest (p # seen))"

definition auditSources :: "nat option \<Rightarrow> (string \<times> nat option) list \<Rightarrow> Source list" where
  "auditSources control instances =
     (let out = fleet_sources (sort_key fst instances) []
      in case control of
           None \<Rightarrow> out
         | Some c \<Rightarrow> if c \<in> set (map so_DB out) then out else out @ [\<lparr>so_Name = ''control'', so_DB = c\<rparr>])"

definition auditLeaderFence :: "string \<Rightarrow> instant \<Rightarrow> Elector option \<Rightarrow> Fence \<times> bool" where
  "auditLeaderFence scope now leader =
     (if \<not> IsLeader now leader then (no_fence, False)
      else if leader = None then (no_fence, True)
      else (case Leader.Fence now leader of
              (holder, epoch, ok) \<Rightarrow>
                if \<not> ok then (no_fence, False)
                else (\<lparr>fn_Scope = scope, fn_Holder = holder, fn_Epoch = epoch\<rparr>, True)))"

end
