(* ===== verification/Siem_Steps.thy ===== *)
theory Siem_Steps
  imports Siem_Export Audit_Steps
begin

text \<open>
  What everybody does to the shared state of the export, as a step relation: writers commit to the
  audited databases, electors write leases, time passes, sinks accept batches, and exporters move
  cursors up to what their sink has accepted. The relation is both what a pass relies on (the other
  sidecars in its script take only such steps) and what it guarantees (its own calls are such
  steps), so any number of passes may interleave.
\<close>

subsection \<open>Growing chains\<close>

text \<open>A chain grows at its end only, and stays installed.\<close>

definition grows :: "audit_db \<Rightarrow> audit_db \<Rightarrow> bool" where
  "grows a a' = (set (ad_Meta a) \<subseteq> set (ad_Meta a') \<and> (\<forall>c. \<exists>new. chain_links c a' = chain_links c a @ new \<and>
     distinct (map lk_Seq new) \<and> (\<forall>l\<in>set new. 1 \<le> lk_Seq l) \<and>
     (\<forall>l\<in>set new. \<forall>k\<in>set (chain_links c a). lk_Seq k < lk_Seq l)))"

definition numbered :: "audit_db \<Rightarrow> bool" where
  "numbered a = (\<forall>c. distinct (map lk_Seq (chain_links c a)) \<and> (\<forall>l\<in>set (chain_links c a). 1 \<le> lk_Seq l))"

lemma distinct_later:
  fixes f :: "'a \<Rightarrow> 'b::linorder"
  assumes "distinct (map f xs)" "distinct (map f ys)" "\<forall>y\<in>set ys. \<forall>x\<in>set xs. f x < f y"
  shows "distinct (map f (xs @ ys))"
proof -
  have "f ` set xs \<inter> f ` set ys = {}" using assms(3) by (auto dest: less_imp_neq)
  with assms(1,2) show ?thesis by simp
qed

lemma cgrows_refl [simp]: "grows a a"
  by (simp add: grows_def)

lemma cgrows_same: "ad_Links a' = ad_Links a \<Longrightarrow> set (ad_Meta a) \<subseteq> set (ad_Meta a') \<Longrightarrow> grows a a'"
  by (simp add: grows_def chain_links_def)

lemma cgrows_trans:
  assumes "grows a b" "grows b c"
  shows "grows a c"
  unfolding grows_def
proof (intro conjI allI)
  show "set (ad_Meta a) \<subseteq> set (ad_Meta c)" using assms unfolding grows_def by blast
next
  fix ch
  obtain n1 where n1: "chain_links ch b = chain_links ch a @ n1" "distinct (map lk_Seq n1)" "\<forall>l\<in>set n1. 1 \<le> lk_Seq l"
    "\<forall>l\<in>set n1. \<forall>k\<in>set (chain_links ch a). lk_Seq k < lk_Seq l" using assms(1) unfolding grows_def by blast
  obtain n2 where n2: "chain_links ch c = chain_links ch b @ n2" "distinct (map lk_Seq n2)" "\<forall>l\<in>set n2. 1 \<le> lk_Seq l"
    "\<forall>l\<in>set n2. \<forall>k\<in>set (chain_links ch b). lk_Seq k < lk_Seq l" using assms(2) unfolding grows_def by blast
  have "distinct (map lk_Seq (n1 @ n2))" by (rule distinct_later [OF n1(2) n2(2)]) (use n1(1) n2(4) in auto)
  then show "\<exists>new. chain_links ch c = chain_links ch a @ new \<and> distinct (map lk_Seq new) \<and>
      (\<forall>l\<in>set new. 1 \<le> lk_Seq l) \<and> (\<forall>l\<in>set new. \<forall>k\<in>set (chain_links ch a). lk_Seq k < lk_Seq l)"
    using n1 n2 by (intro exI [of _ "n1 @ n2"]) auto
qed

lemma grows_numbered:
  assumes "numbered a" "grows a a'"
  shows "numbered a'"
  unfolding numbered_def
proof
  fix c
  obtain new where new: "chain_links c a' = chain_links c a @ new" "distinct (map lk_Seq new)"
    "\<forall>l\<in>set new. 1 \<le> lk_Seq l" "\<forall>l\<in>set new. \<forall>k\<in>set (chain_links c a). lk_Seq k < lk_Seq l"
    using assms(2) unfolding grows_def by blast
  with assms(1) distinct_later [OF _ new(2,4)] show "distinct (map lk_Seq (chain_links c a')) \<and> (\<forall>l\<in>set (chain_links c a'). 1 \<le> lk_Seq l)"
    unfolding numbered_def new(1) by (metis Un_iff set_append)
qed

lemma append_grows:
  assumes "audit_chain_append ss c i op v sealed state a = Inr (link, a')" "numbered a"
  shows "grows a a'"
proof -
  let ?L = "chain_links c a"
  from assms(1) have seq: "lk_Seq link = (if ?L = [] then 0 else lk_Seq (last ?L)) + 1"
    and a': "a' = a\<lparr>ad_Links := ad_Links a @ [(c, link)]\<rparr>"
    by (auto simp: audit_chain_append_def Let_def split: if_splits prod.splits)
  have less: "\<forall>k\<in>set ?L. lk_Seq k < lk_Seq link" using last_seq seq by fastforce
  have pos: "1 \<le> lk_Seq link" using assms(2) seq last_in_set [of ?L] by (fastforce simp: numbered_def)
  show ?thesis unfolding grows_def
  proof (intro conjI allI)
    show "set (ad_Meta a) \<subseteq> set (ad_Meta a')" by (simp add: a')
  next
    fix c'
    show "\<exists>new. chain_links c' a' = chain_links c' a @ new \<and> distinct (map lk_Seq new) \<and>
        (\<forall>l\<in>set new. 1 \<le> lk_Seq l) \<and> (\<forall>l\<in>set new. \<forall>k\<in>set (chain_links c' a). lk_Seq k < lk_Seq l)"
    proof (cases "c' = c")
      case True
      with less have "chain_links c' a' = chain_links c' a @ [link]"
        using chain_links_append [of c a link c] by (fastforce simp: a')
      with less pos True show ?thesis by auto
    next
      case False
      then have "chain_links c' a' = chain_links c' a" by (simp add: a' chain_links_def)
      then show ?thesis by simp
    qed
  qed
qed

lemma set_rows_links [simp]: "ad_Links (set_rows t rows a) = ad_Links a" "ad_Meta (set_rows t rows a) = ad_Meta a"
  by (simp_all add: set_rows_def)

lemma grows_rows: "grows a b \<Longrightarrow> grows a (set_rows t rows b)"
  using cgrows_trans [OF _ cgrows_same [of "set_rows t rows b" b]] by auto

lemma row_step_grows:
  assumes "row_step s ss op (a, pending) = Inr (a', pending')" "numbered a"
  shows "grows a a'"
proof (cases op)
  case TruncateTable
  with assms(1) obtain link b where
    "audit_chain_append ss (sp_Chain s) 0 ''T'' 1 [] [] a = Inr (link, b)" "a' = set_rows (sp_Table s) [] b"
    by (auto simp: truncate_table_def ebind_Inr_iff split: if_splits)
  then show ?thesis using append_grows assms(2) grows_rows by blast
qed (use assms in \<open>auto simp: insert_row_def update_row_def delete_row_def Let_def grows_rows split: if_splits\<close>)

lemma row_steps_grow:
  "row_steps s ss ops (a, pending) = Inr (a', pending') \<Longrightarrow> numbered a \<Longrightarrow> grows a a'"
proof (induction ops arbitrary: a pending)
  case (Cons op ops)
  then obtain b p where "row_step s ss op (a, pending) = Inr (b, p)" "row_steps s ss ops (b, p) = Inr (a', pending')"
    by (auto simp: ebind_Inr_iff)
  with Cons.IH row_step_grows Cons.prems(2) grows_numbered cgrows_trans show ?case by metis
qed simp

lemma link_grows:
  assumes "audit_chain_link s ss ev a = Inr a'" "numbered a"
  shows "grows a a'"
proof -
  from assms(1) obtain link b where
    b: "audit_chain_append ss (sp_Chain s) (ar_ID (event_row ev)) (event_op ev) (sp_Version s)
       (sealedHash (event_row ev)) (event_state s ev) a = Inr (link, b)"
    and "a' = b \<or> (\<exists>rows. a' = set_rows (sp_Table s) rows b)"
    by (cases ev) (auto simp: audit_chain_link_def Let_def ebind_Inr_iff)
  then show ?thesis using append_grows [OF b assms(2)] grows_rows by blast
qed

lemma fire_grows: "fire s ss evs a = Inr a' \<Longrightarrow> numbered a \<Longrightarrow> grows a a'"
proof (induction evs arbitrary: a)
  case (Cons ev evs)
  then obtain b where "audit_chain_link s ss ev a = Inr b" "fire s ss evs b = Inr a'" by (auto simp: ebind_Inr_iff)
  with Cons.IH link_grows Cons.prems(2) grows_numbered cgrows_trans show ?case by metis
qed simp

lemma audit_step_grows:
  assumes "audit_step a a'" "numbered a"
  shows "grows a a'"
  using assms(1)
proof cases
  case (before s rows)
  then show ?thesis by (simp add: cgrows_same)
next
  case (installs s)
  then show ?thesis by (auto simp: install_def intro!: cgrows_same split: option.split)
next
  case (commits s ss ops)
  then obtain b pending where "row_steps s ss ops (a, []) = Inr (b, pending)" "fire s ss pending b = Inr a'"
    by (auto simp: audit_tx_def ebind_Inr_iff)
  with row_steps_grow fire_grows assms(2) grows_numbered cgrows_trans show ?thesis by metis
qed


subsection \<open>Steps\<close>

definition source_links :: "(string \<Rightarrow> nat) \<Rightarrow> string \<Rightarrow> string \<Rightarrow> export_db \<Rightarrow> Link list" where
  "source_links dbof source chain db = chain_links chain (xd_audit db (dbof source))"

text \<open>A sink has accepted an event of a link, with the row as it was when the link was read.\<close>

definition delivered :: "siem_lib \<Rightarrow> string \<Rightarrow> string \<Rightarrow> string \<Rightarrow> Link \<Rightarrow> export_db \<Rightarrow> bool" where
  "delivered lib sink source chain l db =
     (\<exists>batch row. (sink, batch) \<in> set (xd_sent db) \<and>
        Map lib \<lparr>rc_Source = source, rc_Chain = chain, rc_Link = l, rc_Row = row\<rparr> \<in> set batch)"

text \<open>A sink has everything up to a position of a chain.\<close>

definition delivered_upto ::
    "siem_lib \<Rightarrow> (string \<Rightarrow> nat) \<Rightarrow> string \<times> string \<times> string \<Rightarrow> int \<Rightarrow> export_db \<Rightarrow> bool" where
  "delivered_upto lib dbof key n db = (case key of (sink, source, chain) \<Rightarrow>
     (n \<le> 0 \<or> (\<exists>l\<in>set (source_links dbof source chain db). lk_Seq l = n)) \<and>
     (\<forall>l\<in>set (source_links dbof source chain db). lk_Seq l \<le> n \<longrightarrow> delivered lib sink source chain l db))"

inductive export_step :: "siem_lib \<Rightarrow> (string \<Rightarrow> nat) \<Rightarrow> export_db \<Rightarrow> export_db \<Rightarrow> bool"
  for lib :: siem_lib and dbof :: "string \<Rightarrow> nat" where
  commits_to: "audit_step (xd_audit db i) a \<Longrightarrow>
    export_step lib dbof db (db\<lparr>xd_audit := (xd_audit db)(i := a)\<rparr>)"
| leases_to: "lease_write (xd_leases db) tbl \<Longrightarrow> export_step lib dbof db (db\<lparr>xd_leases := tbl\<rparr>)"
| time_passes: "xd_now db \<le> t \<Longrightarrow> export_step lib dbof db (db\<lparr>xd_now := t\<rparr>)"
| accepts: "export_step lib dbof db (db\<lparr>xd_sent := xd_sent db @ [(sink, batch)]\<rparr>)"
| moves: "delivered_upto lib dbof key seq db \<Longrightarrow> export_step lib dbof db (move_cursor key seq db)"

inductive_cases export_stepE: "export_step lib dbof db db'"

abbreviation export_steps :: "siem_lib \<Rightarrow> (string \<Rightarrow> nat) \<Rightarrow> export_db \<Rightarrow> export_db \<Rightarrow> bool" where
  "export_steps lib dbof \<equiv> (export_step lib dbof)\<^sup>*\<^sup>*"

text \<open>The invariant: no cursor is past what its sink has accepted.\<close>

definition export_inv :: "siem_lib \<Rightarrow> (string \<Rightarrow> nat) \<Rightarrow> export_db \<Rightarrow> bool" where
  "export_inv lib dbof db =
     ((\<forall>i. numbered (xd_audit db i)) \<and>
      (\<forall>key c. xd_cursors db key = Some c \<longrightarrow> delivered_upto lib dbof key c db))"

text \<open>What every step keeps: chains only grow, and nothing a sink accepted is taken back.\<close>

definition onward :: "export_db \<Rightarrow> export_db \<Rightarrow> bool" where
  "onward db db' = ((\<forall>i. grows (xd_audit db i) (xd_audit db' i)) \<and> set (xd_sent db) \<subseteq> set (xd_sent db'))"

lemma onward_refl [simp]: "onward db db"
  by (simp add: onward_def)

lemma onward_trans: "onward a b \<Longrightarrow> onward b c \<Longrightarrow> onward a c"
  unfolding onward_def using cgrows_trans by blast

lemma move_cursor_same [simp]:
  "xd_audit (move_cursor key n db) = xd_audit db" "xd_sent (move_cursor key n db) = xd_sent db"
  "xd_leases (move_cursor key n db) = xd_leases db" "xd_now (move_cursor key n db) = xd_now db"
  by (simp_all add: move_cursor_def split: option.split)

lemma export_step_onward:
  assumes "export_step lib dbof db db'" "\<forall>i. numbered (xd_audit db i)"
  shows "onward db db'"
  using assms(1) by cases (use assms(2) audit_step_grows in \<open>auto simp: onward_def\<close>)

lemma delivered_onward: "delivered lib sink source chain l db \<Longrightarrow> onward db db' \<Longrightarrow> delivered lib sink source chain l db'"
  by (auto simp: delivered_def onward_def)

lemma source_links_onward:
  assumes "onward db db'"
  shows "\<exists>new. source_links dbof source chain db' = source_links dbof source chain db @ new \<and>
    (\<forall>l\<in>set new. 1 \<le> lk_Seq l) \<and>
    (\<forall>l\<in>set new. \<forall>k\<in>set (source_links dbof source chain db). lk_Seq k < lk_Seq l)"
  using assms unfolding onward_def grows_def source_links_def by blast

text \<open>A link at or before the position of another one was there with it.\<close>

lemma old_link:
  assumes "onward db db'" "l \<in> set (source_links dbof source chain db')"
    and "lk_Seq l \<le> n" "n \<le> 0 \<or> (\<exists>k\<in>set (source_links dbof source chain db). lk_Seq k = n)"
  shows "l \<in> set (source_links dbof source chain db)"
proof -
  obtain new where new: "source_links dbof source chain db' = source_links dbof source chain db @ new"
    "\<forall>l\<in>set new. 1 \<le> lk_Seq l" "\<forall>l\<in>set new. \<forall>k\<in>set (source_links dbof source chain db). lk_Seq k < lk_Seq l"
    using source_links_onward [OF assms(1)] by blast
  have "l \<notin> set new" using new(2,3) assms(3,4) by fastforce
  then show ?thesis using assms(2) new(1) by auto
qed

lemma links_onward: "onward db db' \<Longrightarrow> set (source_links dbof source chain db) \<subseteq> set (source_links dbof source chain db')"
  using source_links_onward by fastforce

lemma delivered_upto_onward:
  assumes "delivered_upto lib dbof key n db" "onward db db'"
  shows "delivered_upto lib dbof key n db'"
proof (cases key)
  case (fields sink source chain)
  with assms(1) have n: "n \<le> 0 \<or> (\<exists>l\<in>set (source_links dbof source chain db). lk_Seq l = n)"
    and d: "\<And>l. l \<in> set (source_links dbof source chain db) \<Longrightarrow> lk_Seq l \<le> n \<Longrightarrow> delivered lib sink source chain l db"
    by (simp_all add: delivered_upto_def)
  have "n \<le> 0 \<or> (\<exists>l\<in>set (source_links dbof source chain db'). lk_Seq l = n)"
    using n links_onward [OF assms(2)] by blast
  moreover have "delivered lib sink source chain l db'"
    if l: "l \<in> set (source_links dbof source chain db')" "lk_Seq l \<le> n" for l
    using d [OF old_link [OF assms(2) l n] l(2)] delivered_onward assms(2) by blast
  ultimately show ?thesis by (simp add: delivered_upto_def fields)
qed

lemma export_step_inv:
  assumes "export_step lib dbof db db'" "export_inv lib dbof db"
  shows "export_inv lib dbof db' \<and> onward db db'"
proof -
  have on: "onward db db'" using export_step_onward [OF assms(1)] assms(2) by (simp add: export_inv_def)
  have pos: "numbered (xd_audit db' i)" for i
    using assms(2) on grows_numbered unfolding export_inv_def onward_def by blast
  have "delivered_upto lib dbof key c db'" if c: "xd_cursors db' key = Some c" for key c
  proof (cases "xd_cursors db key = Some c")
    case True
    with assms(2) have "delivered_upto lib dbof key c db" unfolding export_inv_def by blast
    then show ?thesis using delivered_upto_onward on by blast
  next
    case False
    from assms(1) show ?thesis
    proof cases
      case (moves key' seq)
      with c False have "key' = key" "c = seq" by (auto simp: move_cursor_def split: option.splits if_splits)
      with moves delivered_upto_onward [OF moves(2)] on show ?thesis by simp
    qed (use c False in auto)
  qed
  with pos on show ?thesis unfolding export_inv_def by blast
qed

lemma export_steps_inv:
  assumes "export_steps lib dbof db db'" "export_inv lib dbof db"
  shows "export_inv lib dbof db' \<and> onward db db'"
  using assms
proof (induction rule: rtranclp_induct)
  case (step b c)
  then show ?case using export_step_inv onward_trans by blast
qed simp

text \<open>No step moves a cursor back.\<close>

lemma move_cursor_forward:
  assumes "xd_cursors db key = Some c"
  shows "\<exists>c'. xd_cursors (move_cursor key' n db) key = Some c' \<and> c \<le> c'"
  using assms by (auto simp: move_cursor_def split: option.split)

lemma export_steps_forward:
  assumes "export_steps lib dbof db db'" "xd_cursors db key = Some c"
  shows "\<exists>c'. xd_cursors db' key = Some c' \<and> c \<le> c'"
  using assms
proof (induction rule: rtranclp_induct)
  case (step y z)
  then obtain c1 where c1: "xd_cursors y key = Some c1" "c \<le> c1" by blast
  from step.hyps(2) have "\<exists>c'. xd_cursors z key = Some c' \<and> c1 \<le> c'"
    by cases (use c1 move_cursor_forward in auto)
  with c1(2) show ?case by fastforce
qed auto

lemma export_steps_leases:
  assumes "export_steps lib dbof db db'"
  shows "lease_write\<^sup>*\<^sup>* (xd_leases db) (xd_leases db')"
  using assms
proof (induction rule: rtranclp_induct)
  case (step y z)
  from step.hyps(2) have "lease_write\<^sup>=\<^sup>= (xd_leases y) (xd_leases z)" by cases auto
  with step.IH show ?case by (auto intro: rtranclp.rtrancl_into_rtrancl)
qed simp

end
