(* ===== verification/Siem_Pass.thy ===== *)
theory Siem_Pass
  imports Siem_Steps
begin

text \<open>
  What a pass does to the shared state: under a script of others that take only the steps of
  \<^verbatim>\<open>Siem_Steps\<close>, its calls are such steps too; and it always returns.
\<close>

subsection \<open>Calls\<close>

definition script_ok :: "siem_lib \<Rightarrow> (string \<Rightarrow> nat) \<Rightarrow> export_world \<Rightarrow> bool" where
  "script_ok lib dbof w = (\<forall>ev\<in>set (xw_script w). \<forall>db. export_steps lib dbof db (xe_others ev db))"

text \<open>A world moves on: by steps of the shared state, with what is left of the script and under the
  same sink.\<close>

definition moves_on :: "siem_lib \<Rightarrow> (string \<Rightarrow> nat) \<Rightarrow> export_world \<Rightarrow> export_world \<Rightarrow> bool" where
  "moves_on lib dbof w w' =
     (export_steps lib dbof (xw_db w) (xw_db w') \<and> set (xw_script w') \<subseteq> set (xw_script w) \<and>
      sk_Name (xw_status w') = sk_Name (xw_status w))"

lemma moves_on_refl [simp]: "moves_on lib dbof w w"
  by (simp add: moves_on_def)

lemma moves_on_trans: "moves_on lib dbof w1 w2 \<Longrightarrow> moves_on lib dbof w2 w3 \<Longrightarrow> moves_on lib dbof w1 w3"
  unfolding moves_on_def by (metis rtranclp_trans subset_trans)

lemma moves_on_script: "script_ok lib dbof w \<Longrightarrow> moves_on lib dbof w w' \<Longrightarrow> script_ok lib dbof w'"
  by (auto simp: script_ok_def moves_on_def)

lemma moves_on_inv:
  assumes "moves_on lib dbof w w'" "export_inv lib dbof (xw_db w)"
  shows "export_inv lib dbof (xw_db w')" "onward (xw_db w) (xw_db w')"
  using export_steps_inv assms by (auto simp: moves_on_def)

text \<open>A call happens after the others' steps.\<close>

lemma xcall_cases:
  assumes "xcall f w = (r, w')" "script_ok lib dbof w"
  obtains fault db db' where "export_steps lib dbof (xw_db w) db" "f fault db = (r, db')" "xw_db w' = db'"
    "set (xw_script w') \<subseteq> set (xw_script w)" "xw_status w' = xw_status w"
proof (cases "xw_script w")
  case Nil
  obtain r0 db' where f: "f None (xw_db w) = (r0, db')" by fastforce
  with assms(1) Nil have "r0 = r" "w' = w\<lparr>xw_db := db'\<rparr>" by (simp_all add: xcall_def)
  with f show ?thesis by (intro that [of "xw_db w" None db']) simp_all
next
  case (Cons ev evs)
  obtain r0 db' where f: "f (xe_fault ev) (xe_others ev (xw_db w)) = (r0, db')" by fastforce
  with assms(1) Cons have "r0 = r" "w' = w\<lparr>xw_db := db', xw_script := evs\<rparr>" by (simp_all add: xcall_def)
  with f assms(2) Cons show ?thesis
    by (intro that [of "xe_others ev (xw_db w)" "xe_fault ev" db']) (auto simp: script_ok_def)
qed

text \<open>A query leaves the state it read, and its answer is of that state.\<close>

lemma xquery_cases:
  assumes "xquery ctx f w = (r, w')" "script_ok lib dbof w"
  shows "moves_on lib dbof w w' \<and> ((\<exists>e. r = Inl e) \<or> r = f (xw_db w'))"
proof -
  obtain fault db db' where c: "export_steps lib dbof (xw_db w) db"
    "(case fault of Some (Fault _ e _) \<Rightarrow> (Inl (InContext ctx (CallFailed e)), db) | None \<Rightarrow> (f db, db)) = (r, db')"
    "xw_db w' = db'" "set (xw_script w') \<subseteq> set (xw_script w)" "xw_status w' = xw_status w"
    using assms unfolding xquery_def by (rule xcall_cases)
  then have "db' = db" "(\<exists>e. r = Inl e) \<or> r = f db" by (auto split: option.splits fault.splits)
  with c show ?thesis by (auto simp: moves_on_def)
qed

lemma Load_upto:
  assumes "Load pool sink source chain w = (r, w')" "script_ok lib dbof w" "export_inv lib dbof (xw_db w)"
  shows "moves_on lib dbof w w'" "r = Inr after \<Longrightarrow> delivered_upto lib dbof (sink, source, chain) after (xw_db w')"
proof -
  have m: "moves_on lib dbof w w'" and r: "(\<exists>e. r = Inl e) \<or>
      r = Inr (case xd_cursors (xw_db w') (sink, source, chain) of None \<Rightarrow> 0 | Some seq \<Rightarrow> seq)"
    using assms(1) xquery_cases [OF _ assms(2)] by (fastforce simp: Load_def split: if_splits)+
  show "moves_on lib dbof w w'" by (rule m)
  note inv = moves_on_inv(1) [OF m assms(3)]
  show "delivered_upto lib dbof (sink, source, chain) after (xw_db w')" if "r = Inr after"
  proof (cases "xd_cursors (xw_db w') (sink, source, chain)")
    case None
    with r that have "after = 0" by auto
    with inv show ?thesis by (fastforce simp: export_inv_def delivered_upto_def source_links_def numbered_def)
  next
    case (Some c)
    with r that have "after = c" by auto
    with inv Some show ?thesis unfolding export_inv_def by blast
  qed
qed

text \<open>The records read after a position are every link up to the last of them.\<close>

definition segment :: "(string \<Rightarrow> nat) \<Rightarrow> string \<Rightarrow> string \<Rightarrow> int \<Rightarrow> Record list \<Rightarrow> export_db \<Rightarrow> bool" where
  "segment dbof source chain after recs db =
     ((\<exists>l\<in>set (source_links dbof source chain db). lk_Seq l = lk_Seq (rc_Link (last recs))) \<and>
      (\<forall>l\<in>set (source_links dbof source chain db). after < lk_Seq l \<longrightarrow>
         lk_Seq l \<le> lk_Seq (rc_Link (last recs)) \<longrightarrow> l \<in> rc_Link ` set recs) \<and>
      (\<forall>r\<in>set recs. rc_Source r = source \<and> rc_Chain r = chain))"

lemma sorted_take_last:
  fixes f :: "'a \<Rightarrow> 'b::linorder"
  assumes "sorted (map f xs)" "distinct (map f xs)" "x \<in> set xs" "f x \<le> f (last (take n xs))" "take n xs \<noteq> []"
  shows "x \<in> set (take n xs)"
proof (rule ccontr)
  assume "x \<notin> set (take n xs)"
  then have x: "x \<in> set (drop n xs)" using assms(3) by (metis Un_iff append_take_drop_id set_append)
  have "sorted (map f (take n xs) @ map f (drop n xs))" "distinct (map f (take n xs) @ map f (drop n xs))"
    using assms(1,2) by (metis append_take_drop_id map_append)+
  then have "f (last (take n xs)) < f x"
    using x last_in_set [OF assms(5)] unfolding sorted_append distinct_append
    by (metis disjoint_iff image_eqI image_set order_le_less)
  then show False using assms(4) by simp
qed


lemma links_after_sorted:
  assumes "numbered a"
  shows "sorted (map lk_Seq (links_after chain after a))" "distinct (map lk_Seq (links_after chain after a))"
  using assms chain_links_sorted [of chain a]
  by (auto simp: links_after_def numbered_def distinct_map_filter intro: sorted_filter)

lemma read_segment:
  assumes "readRecords lib src chain after limit w = (r, w')" "script_ok lib dbof w" "export_inv lib dbof (xw_db w)"
    and "so_DB src = dbof (so_Name src)"
  shows "moves_on lib dbof w w'"
    and "r = Inr recs \<Longrightarrow> map rc_Link recs = take limit (links_after chain after (xd_audit (xw_db w') (so_DB src)))"
    and "r = Inr recs \<Longrightarrow> recs \<noteq> [] \<Longrightarrow> segment dbof (so_Name src) chain after recs (xw_db w')"
proof -
  let ?a = "xd_audit (xw_db w') (so_DB src)" and ?f = "record_of lib (so_Name src) chain (xd_audit (xw_db w') (so_DB src))"
  have m: "moves_on lib dbof w w'" and r: "(\<exists>e. r = Inl e) \<or> r = Inr (map ?f (take limit (links_after chain after ?a)))"
    using xquery_cases [OF assms(1) [unfolded readRecords_def] assms(2)]
    by (auto simp: Let_def split: option.splits if_splits)
  have f: "map rc_Link (map ?f ls) = ls" for ls by (induction ls) (simp_all add: record_of_def)
  show "moves_on lib dbof w w'" by (rule m)
  show links: "map rc_Link recs = take limit (links_after chain after ?a)" if "r = Inr recs" for recs
    using r that f by auto
  have num: "numbered ?a" using moves_on_inv(1) [OF m assms(3)] by (simp add: export_inv_def)
  show "segment dbof (so_Name src) chain after recs (xw_db w')" if recs: "r = Inr recs" "recs \<noteq> []"
  proof -
    note L = links [OF recs(1)]
    have ne: "take limit (links_after chain after ?a) \<noteq> []" using L recs(2) by (metis map_is_Nil_conv)
    have end_rec: "rc_Link (last recs) = last (take limit (links_after chain after ?a))"
      using L recs(2) by (metis last_map)
    have "last (take limit (links_after chain after ?a)) \<in> set (chain_links chain ?a)"
      using last_in_set [OF ne] by (auto simp: links_after_def dest: in_set_takeD)
    moreover have "l \<in> rc_Link ` set recs"
      if l: "l \<in> set (chain_links chain ?a)" "after < lk_Seq l" "lk_Seq l \<le> lk_Seq (rc_Link (last recs))" for l
    proof -
      have "l \<in> set (links_after chain after ?a)" using l(1,2) by (simp add: links_after_def)
      then have "l \<in> set (take limit (links_after chain after ?a))"
        using sorted_take_last [OF links_after_sorted [OF num] _ _ ne] l(3) end_rec by simp
      then show ?thesis using L by (metis set_map)
    qed
    moreover have "\<forall>r\<in>set recs. rc_Source r = so_Name src \<and> rc_Chain r = chain"
      using r recs(1) by (auto simp: record_of_def)
    ultimately show ?thesis by (auto simp: segment_def source_links_def end_rec assms(4))
  qed
qed

text \<open>The segment read stays the segment while others go on.\<close>

lemma segment_onward:
  assumes "segment dbof source chain after recs db" "onward db db'"
  shows "segment dbof source chain after recs db'"
proof -
  let ?n = "lk_Seq (rc_Link (last recs))"
  have "\<exists>l\<in>set (source_links dbof source chain db'). lk_Seq l = ?n"
    using assms(1) links_onward [OF assms(2)] by (fastforce simp: segment_def)
  moreover have "l \<in> rc_Link ` set recs"
    if "l \<in> set (source_links dbof source chain db')" "after < lk_Seq l" "lk_Seq l \<le> ?n" for l
    using old_link [OF assms(2) that(1,3)] that(2,3) assms(1) by (simp add: segment_def)
  ultimately show ?thesis using assms(1) by (simp add: segment_def)
qed

lemma sent_delivered:
  assumes "(sink, map (Map lib) recs) \<in> set (xd_sent db)" "segment dbof source chain after recs db0"
    "l \<in> rc_Link ` set recs"
  shows "delivered lib sink source chain l db"
proof -
  obtain r where r: "r \<in> set recs" "rc_Link r = l" "rc_Source r = source" "rc_Chain r = chain"
    using assms(2,3) by (auto simp: segment_def)
  then have "r = \<lparr>rc_Source = source, rc_Chain = chain, rc_Link = l, rc_Row = rc_Row r\<rparr>" by simp
  then have "Map lib \<lparr>rc_Source = source, rc_Chain = chain, rc_Link = l, rc_Row = rc_Row r\<rparr> \<in> set (map (Map lib) recs)"
    using r(1) by (metis image_eqI set_map)
  then show ?thesis using assms(1) unfolding delivered_def by blast
qed

lemma segment_sent:
  assumes "delivered_upto lib dbof (sink, source, chain) after db" "segment dbof source chain after recs db"
    and "(sink, map (Map lib) recs) \<in> set (xd_sent db)"
  shows "delivered_upto lib dbof (sink, source, chain) (lk_Seq (rc_Link (last recs))) db"
proof -
  let ?n = "lk_Seq (rc_Link (last recs))"
  have "delivered lib sink source chain l db"
    if l: "l \<in> set (source_links dbof source chain db)" "lk_Seq l \<le> ?n" for l
  proof (cases "lk_Seq l \<le> after")
    case True
    then show ?thesis using assms(1) l(1) by (simp add: delivered_upto_def)
  next
    case False
    then show ?thesis using sent_delivered [OF assms(3,2)] assms(2) l by (simp add: segment_def)
  qed
  then show ?thesis using assms(2) by (auto simp: delivered_upto_def segment_def)
qed

lemma Send_moves:
  assumes "Send sink events w = (r, w')" "script_ok lib dbof w"
  shows "moves_on lib dbof w w'" "r = Inr () \<Longrightarrow> (sink, events) \<in> set (xd_sent (xw_db w'))"
proof -
  obtain fault db db' where c: "export_steps lib dbof (xw_db w) db"
    "(let accepted = db\<lparr>xd_sent := xd_sent db @ [(sink, events)]\<rparr>
      in case fault of
           Some (Fault _ e applied) \<Rightarrow> (Inl (CallFailed e), if applied then accepted else db)
         | None \<Rightarrow> (Inr (), accepted)) = (r, db')"
    "xw_db w' = db'" "set (xw_script w') \<subseteq> set (xw_script w)" "xw_status w' = xw_status w"
    using assms unfolding Send_def by (rule xcall_cases)
  let ?acc = "db\<lparr>xd_sent := xd_sent db @ [(sink, events)]\<rparr>"
  have r: "db' = db \<and> (\<exists>e. r = Inl e) \<or> db' = ?acc"
    using c(2) by (auto simp: Let_def split: option.splits fault.splits if_splits)
  moreover have "export_steps lib dbof db ?acc" by (intro r_into_rtranclp accepts)
  ultimately have "export_steps lib dbof (xw_db w) db'" using c(1) by (metis rtranclp_trans)
  with c show "moves_on lib dbof w w'" by (simp add: moves_on_def)
  show "(sink, events) \<in> set (xd_sent (xw_db w'))" if "r = Inr ()" using r that c(3) by auto
qed

text \<open>A save is a step when its sink has accepted everything up to the new position.\<close>

lemma save_tx_effect:
  assumes "save_tx f sink source chain n fault db = (r, db')"
  shows "db' = db \<and> r \<noteq> Inr () \<or> db' = move_cursor (sink, source, chain) n db"
    "r = Inr () \<Longrightarrow> fn_Holder f = [] \<or> fenceSQL f db"
  using assms by (auto simp: save_tx_def Let_def split: option.splits fault.splits if_splits)

lemma Save_moves:
  assumes "Save pool f sink source chain n w = (r, w')" "script_ok lib dbof w" "export_inv lib dbof (xw_db w)"
    and "delivered_upto lib dbof (sink, source, chain) n (xw_db w)"
  shows "moves_on lib dbof w w'"
proof (cases pool)
  case False
  with assms(1) show ?thesis by (simp add: Save_def)
next
  case True
  with assms(1) have "xcall (save_tx f sink source chain n) w = (r, w')" by (simp add: Save_def)
  then obtain fault db db' where c: "export_steps lib dbof (xw_db w) db" "save_tx f sink source chain n fault db = (r, db')"
    "xw_db w' = db'" "set (xw_script w') \<subseteq> set (xw_script w)" "xw_status w' = xw_status w"
    using assms(2) by (rule xcall_cases)
  have "delivered_upto lib dbof (sink, source, chain) n db"
    using assms(4) export_steps_inv [OF c(1) assms(3)] delivered_upto_onward by blast
  then have "export_steps lib dbof db db'" using save_tx_effect(1) [OF c(2)] moves by blast
  with c show ?thesis by (auto simp: moves_on_def)
qed

lemma note_delivered_simps [simp]:
  "xw_db (note_delivered n w) = xw_db w" "xw_script (note_delivered n w) = xw_script w"
  "sk_Name (xw_status (note_delivered n w)) = sk_Name (xw_status w)"
  by (simp_all add: note_delivered_def)

lemma moves_on_noted: "moves_on lib dbof w w' \<Longrightarrow> moves_on lib dbof w (note_delivered n w')"
  by (simp add: moves_on_def)

subsection \<open>One round of a chain\<close>

text \<open>The body of the loop, up to its decision to go round again.\<close>

definition drain_round ::
    "siem_lib \<Rightarrow> Options \<Rightarrow> bool \<Rightarrow> Source \<Rightarrow> string \<Rightarrow> Fence \<Rightarrow> export_world \<Rightarrow> (export_error + bool) \<times> export_world" where
  "drain_round lib opts pool src chain fence w =
     (case Load pool (sk_Name (xw_status w)) (so_Name src) chain w of
        (Inl e, w1) \<Rightarrow> (Inl e, w1)
      | (Inr after, w1) \<Rightarrow>
          (case readRecords lib src chain after (batch_size opts) w1 of
             (Inl e, w2) \<Rightarrow> (Inl e, w2)
           | (Inr recs, w2) \<Rightarrow>
               if recs = [] then (Inr False, w2)
               else (case Send (sk_Name (xw_status w)) (map (Map lib) recs) w2 of
                       (Inl e, w3) \<Rightarrow> (Inl e, w3)
                     | (Inr _, w3) \<Rightarrow>
                         (case Save pool fence (sk_Name (xw_status w)) (so_Name src) chain
                                 (lk_Seq (rc_Link (last recs))) w3 of
                            (Inl e, w4) \<Rightarrow> (Inl e, w4)
                          | (Inr _, w4) \<Rightarrow> (Inr (\<not> length recs < batch_size opts), note_delivered (length recs) w4)))))"

lemma drain_unfold:
  "drain lib opts pool src chain fence w =
     (case drain_round lib opts pool src chain fence w of
        (Inl e, w') \<Rightarrow> Some (Inl e, w')
      | (Inr again, w') \<Rightarrow> if again then drain lib opts pool src chain fence w' else Some (Inr (), w'))"
  by (subst drain.simps) (simp add: drain_round_def split: prod.split sum.split)

lemma drain_round_moves:
  assumes "drain_round lib opts pool src chain fence w = (r, w')" "script_ok lib dbof w"
    "export_inv lib dbof (xw_db w)" "so_DB src = dbof (so_Name src)"
  shows "moves_on lib dbof w w'"
proof -
  let ?sink = "sk_Name (xw_status w)" and ?key = "(sk_Name (xw_status w), so_Name src, chain)"
  obtain r1 w1 where L: "Load pool ?sink (so_Name src) chain w = (r1, w1)" by fastforce
  note m1 = Load_upto(1) [OF L assms(2,3)]
  note s1 = moves_on_script [OF assms(2) m1] and i1 = moves_on_inv(1) [OF m1 assms(3)]
  show ?thesis
  proof (cases r1)
    case (Inl e)
    with L assms(1) m1 show ?thesis by (simp add: drain_round_def)
  next
    case (Inr after)
    obtain r2 w2 where R: "readRecords lib src chain after (batch_size opts) w1 = (r2, w2)" by fastforce
    note m2 = read_segment(1) [OF R s1 i1 assms(4)]
    note s2 = moves_on_script [OF s1 m2] and i2 = moves_on_inv [OF m2 i1]
    have up2: "delivered_upto lib dbof ?key after (xw_db w2)"
      using Load_upto(2) [OF L assms(2,3) Inr] i2(2) delivered_upto_onward by blast
    consider (stop) "moves_on lib dbof w2 w'" | (go) recs where "r2 = Inr recs" "recs \<noteq> []"
      using L Inr R assms(1) by (cases r2) (auto simp: drain_round_def split: if_splits)
    then have "moves_on lib dbof w2 w'"
    proof cases
      case (go recs)
      obtain r3 w3 where S: "Send ?sink (map (Map lib) recs) w2 = (r3, w3)" by fastforce
      note m3 = Send_moves(1) [OF S s2]
      note s3 = moves_on_script [OF s2 m3] and i3 = moves_on_inv [OF m3 i2(1)]
      show ?thesis
      proof (cases r3)
        case (Inl e)
        with L Inr R go S assms(1) m3 show ?thesis by (auto simp: drain_round_def)
      next
        case sent: (Inr u)
        have "delivered_upto lib dbof ?key (lk_Seq (rc_Link (last recs))) (xw_db w3)"
          by (rule segment_sent [OF delivered_upto_onward [OF up2 i3(2)]
                segment_onward [OF read_segment(3) [OF R s1 i1 assms(4) go] i3(2)]])
            (use Send_moves(2) [OF S s2] sent in simp)
        moreover obtain r4 w4 where V: "Save pool fence ?sink (so_Name src) chain (lk_Seq (rc_Link (last recs))) w3 = (r4, w4)"
          by fastforce
        ultimately have m4: "moves_on lib dbof w3 w4" using Save_moves s3 i3(1) by blast
        have "w' = w4 \<or> w' = note_delivered (length recs) w4"
          using L Inr R go S sent V assms(1) by (cases r4) (auto simp: drain_round_def)
        then have "moves_on lib dbof w3 w'" using m4 moves_on_noted by blast
        then show ?thesis using m3 moves_on_trans by blast
      qed
    qed simp
    then show ?thesis using m1 m2 moves_on_trans by blast
  qed
qed


subsection \<open>The loop ends\<close>

text \<open>Every call takes an event of the script; once the script is over, every round leaves fewer
  links after the cursor.\<close>

definition cursor_at :: "string \<Rightarrow> Source \<Rightarrow> string \<Rightarrow> export_db \<Rightarrow> int" where
  "cursor_at sink src chain db = (case xd_cursors db (sink, so_Name src, chain) of None \<Rightarrow> 0 | Some c \<Rightarrow> c)"

definition backlog :: "Source \<Rightarrow> string \<Rightarrow> export_world \<Rightarrow> nat" where
  "backlog src chain w =
     length (links_after chain (cursor_at (sk_Name (xw_status w)) src chain (xw_db w)) (xd_audit (xw_db w) (so_DB src)))"

lemma xcall_script: "xcall f w = (r, w') \<Longrightarrow> xw_script w' = tl (xw_script w)"
  by (auto simp: xcall_def split: list.splits prod.splits)

lemma xquery_script: "xquery ctx f w = (r, w') \<Longrightarrow> xw_script w' = tl (xw_script w)"
  unfolding xquery_def by (rule xcall_script)

lemma length_tl_less: "xs \<noteq> [] \<Longrightarrow> length (tl xs) < length xs"
  by (cases xs) simp_all

lemma drain_round_again:
  assumes "drain_round lib opts pool src chain fence w = (Inr True, w')"
  obtains after recs w1 w2 w3 w4 where "pool" "Load pool (sk_Name (xw_status w)) (so_Name src) chain w = (Inr after, w1)"
    "readRecords lib src chain after (batch_size opts) w1 = (Inr recs, w2)" "recs \<noteq> []"
    "Send (sk_Name (xw_status w)) (map (Map lib) recs) w2 = (Inr (), w3)"
    "Save pool fence (sk_Name (xw_status w)) (so_Name src) chain (lk_Seq (rc_Link (last recs))) w3 = (Inr (), w4)"
    "w' = note_delivered (length recs) w4"
  using assms
  by (auto simp: drain_round_def Load_def split: prod.splits sum.splits if_splits)

lemma drain_round_script:
  assumes "drain_round lib opts pool src chain fence w = (Inr True, w')"
  shows "xw_script w' = drop 4 (xw_script w)"
  using assms
proof (rule drain_round_again)
  fix after recs w1 w2 w3 w4
  assume c: "pool" "Load pool (sk_Name (xw_status w)) (so_Name src) chain w = (Inr after, w1)"
    "readRecords lib src chain after (batch_size opts) w1 = (Inr recs, w2)" "recs \<noteq> []"
    "Send (sk_Name (xw_status w)) (map (Map lib) recs) w2 = (Inr (), w3)"
    "Save pool fence (sk_Name (xw_status w)) (so_Name src) chain (lk_Seq (rc_Link (last recs))) w3 = (Inr (), w4)"
    "w' = note_delivered (length recs) w4"
  have "xw_script w1 = tl (xw_script w)" using c(1,2) xquery_script by (fastforce simp: Load_def)
  moreover have "xw_script w2 = tl (xw_script w1)" using c(3) xquery_script by (fastforce simp: readRecords_def)
  moreover have "xw_script w3 = tl (xw_script w2)" using c(5) xcall_script by (fastforce simp: Send_def)
  moreover have "xw_script w4 = tl (xw_script w3)" using c(1,6) xcall_script by (fastforce simp: Save_def)
  ultimately show ?thesis using c(7) by (simp add: tl_drop drop_Suc numeral_eq_Suc)
qed

lemma links_after_less:
  assumes "l \<in> set (links_after chain after a)" "after \<le> lk_Seq l"
  shows "length (links_after chain (lk_Seq l) a) < length (links_after chain after a)"
proof -
  have "links_after chain (lk_Seq l) a = filter (\<lambda>k. lk_Seq l < lk_Seq k) (links_after chain after a)"
    using assms(2) by (auto simp: links_after_def intro!: filter_cong)
  then show ?thesis using assms(1) by (simp add: length_filter_less)
qed

lemma move_cursor_at:
  assumes "cursor_at sink src chain db < n"
  shows "cursor_at sink src chain (move_cursor (sink, so_Name src, chain) n db) = n"
  using assms by (auto simp: cursor_at_def move_cursor_def split: option.splits)

lemma drain_round_backlog:
  assumes round: "drain_round lib opts pool src chain fence w = (Inr True, w')" and quiet: "xw_script w = []"
  shows "backlog src chain w' < backlog src chain w" "xw_script w' = []"
proof -
  let ?sink = "sk_Name (xw_status w)"
  let ?a = "xd_audit (xw_db w) (so_DB src)" and ?n = "cursor_at ?sink src chain (xw_db w)"
  obtain after recs w1 w2 w3 w4 where c: "pool" "Load pool ?sink (so_Name src) chain w = (Inr after, w1)"
    "readRecords lib src chain after (batch_size opts) w1 = (Inr recs, w2)" "recs \<noteq> []"
    "Send ?sink (map (Map lib) recs) w2 = (Inr (), w3)"
    "Save pool fence ?sink (so_Name src) chain (lk_Seq (rc_Link (last recs))) w3 = (Inr (), w4)"
    "w' = note_delivered (length recs) w4"
    using round by (rule drain_round_again)
  have w1: "w1 = w" "after = ?n"
    using c(1,2) quiet by (auto simp: Load_def xquery_def xcall_def cursor_at_def)
  have w2: "w2 = w" and recs: "recs = map (record_of lib (so_Name src) chain ?a) (take (batch_size opts) (links_after chain ?n ?a))"
    using c(3) quiet by (auto simp: w1 readRecords_def xquery_def xcall_def Let_def split: option.splits if_splits)
  have w3: "xw_db w3 = (xw_db w)\<lparr>xd_sent := xd_sent (xw_db w) @ [(?sink, map (Map lib) recs)]\<rparr>"
    "xw_script w3 = []" "xw_status w3 = xw_status w"
    using c(5) quiet by (auto simp: w2 Send_def xcall_def)
  let ?l = "rc_Link (last recs)"
  have ne: "take (batch_size opts) (links_after chain ?n ?a) \<noteq> []" using c(4) recs by auto
  have l: "?l \<in> set (links_after chain ?n ?a)"
    using in_set_takeD [OF last_in_set [OF ne]] ne by (simp add: recs last_map record_of_def)
  then have less: "?n < lk_Seq ?l" by (simp add: links_after_def)
  have w4: "xw_db w4 = move_cursor (?sink, so_Name src, chain) (lk_Seq ?l) (xw_db w3)" "xw_script w4 = []"
    "xw_status w4 = xw_status w"
    using c(1,6) w3(2,3) by (auto simp: Save_def xcall_def dest!: save_tx_effect(1) split: prod.splits)
  have "cursor_at ?sink src chain (xw_db w3) = ?n" by (simp add: cursor_at_def w3(1))
  then have "cursor_at ?sink src chain (xw_db w4) = lk_Seq ?l" using less w4(1) move_cursor_at by simp
  moreover have "xd_audit (xw_db w4) = xd_audit (xw_db w)" by (simp add: w4(1) w3(1))
  ultimately show "backlog src chain w' < backlog src chain w"
    using links_after_less [OF l] less by (simp add: backlog_def c(7) w4(3))
  show "xw_script w' = []" using c(7) w4(2) by simp
qed

lemma drain_round_smaller:
  assumes "drain_round lib opts pool src chain fence w = (Inr True, w')"
  shows "(w', w) \<in> measures [\<lambda>w. length (xw_script w), backlog src chain]"
proof (cases "xw_script w = []")
  case True
  then show ?thesis using drain_round_backlog [OF assms] by simp
next
  case False
  then have "length (xw_script w') < length (xw_script w)" using drain_round_script [OF assms] by simp
  then show ?thesis by simp
qed

lemma drain_total: "\<exists>res. drain lib opts pool src chain fence w = Some res"
proof (induction w rule: wf_induct_rule [OF wf_measures [of "[\<lambda>w. length (xw_script w), backlog src chain]"]])
  case (1 w)
  show ?case
  proof (cases "drain_round lib opts pool src chain fence w")
    case (Pair r w')
    then show ?thesis using 1 [OF drain_round_smaller] by (cases r) (auto simp: drain_unfold [of _ _ _ _ _ _ w])
  qed
qed

lemma drain_moves:
  assumes "drain lib opts pool src chain fence w = Some (r, w')" "script_ok lib dbof w"
    "export_inv lib dbof (xw_db w)" "so_DB src = dbof (so_Name src)"
  shows "moves_on lib dbof w w'"
  using assms(1-3)
proof (induction w rule: wf_induct_rule [OF wf_measures [of "[\<lambda>w. length (xw_script w), backlog src chain]"]])
  case (1 w)
  obtain r1 w1 where R: "drain_round lib opts pool src chain fence w = (r1, w1)" by fastforce
  note m = drain_round_moves [OF R 1(3,4) assms(4)]
  show ?case
  proof (cases "r1 = Inr True")
    case True
    with 1(2) R have "drain lib opts pool src chain fence w1 = Some (r, w')" by (simp add: drain_unfold [of _ _ _ _ _ _ w])
    then have "moves_on lib dbof w1 w'"
      using 1(1) [OF drain_round_smaller] R True moves_on_script [OF 1(3) m] moves_on_inv(1) [OF m 1(4)] by blast
    then show ?thesis using m moves_on_trans by blast
  next
    case False
    with 1(2) R have "w' = w1" by (auto simp: drain_unfold [of _ _ _ _ _ _ w] split: sum.splits)
    with m show ?thesis by simp
  qed
qed


subsection \<open>A whole pass\<close>

lemma drain_chains_total: "\<exists>res. drain_chains lib opts pool ns src fence cs w = Some res"
proof (induction lib opts pool ns src fence cs w rule: drain_chains.induct)
  case (2 lib opts pool ns src fence chain cs w)
  obtain r w1 where d: "drain lib opts pool src chain fence w = Some (r, w1)"
    using drain_total [of lib opts pool src chain fence w] by fastforce
  show ?case
  proof (cases "wants ns chain")
    case True
    then show ?thesis using 2(2) [OF _ d] d by (cases r) auto
  next
    case False
    then show ?thesis using 2(1) by simp
  qed
qed simp

lemma drain_sources_total: "\<exists>res. drain_sources lib opts pool ns fence srcs w = Some res"
proof (induction lib opts pool ns fence srcs w rule: drain_sources.induct)
  case (2 lib opts pool ns fence src srcs w)
  obtain r w1 where I: "Installed (so_DB src) w = (r, w1)" by fastforce
  show ?case
  proof (cases r)
    case (Inr cs)
    obtain r2 w2 where d: "drain_chains lib opts pool ns src fence cs w1 = Some (r2, w2)"
      using drain_chains_total [of lib opts pool ns src fence cs w1] by fastforce
    show ?thesis using 2 [OF I [symmetric] _ d] I Inr d by (cases r2) auto
  qed (simp add: I)
qed simp

lemma pass_total: "\<exists>res. pass lib opts pool ns sources allowed w = Some res"
proof -
  obtain fence ok where a: "allowed = (fence, ok)" by fastforce
  obtain r1 w1 where C: "CheckFence pool fence w = (r1, w1)" by fastforce
  obtain r2 w2 where "drain_sources lib opts pool ns fence sources w1 = Some (r2, w2)"
    using drain_sources_total [of lib opts pool ns fence sources w1] by fastforce
  then show ?thesis using C by (cases r1; cases r2) (auto simp: pass_def a)
qed

lemma RunOnce_total: "\<exists>res. RunOnce lib opts pool sources sinks w = Some res"
proof (induction sinks arbitrary: w)
  case (Cons sa sinks)
  obtain s allowed where sa: "sa = (s, allowed)" by (cases sa)
  obtain r w1 where "pass lib opts pool (si_chains s) sources allowed (w\<lparr>xw_status := si_status s\<rparr>) = Some (r, w1)"
    using pass_total [of lib opts pool "si_chains s" sources allowed "w\<lparr>xw_status := si_status s\<rparr>"] by fastforce
  with Cons.IH [of w1] show ?case by (cases r) (auto simp: sa)
qed simp

lemma drain_chains_move:
  assumes "drain_chains lib opts pool ns src fence cs w = Some (r, w')" "script_ok lib dbof w"
    "export_inv lib dbof (xw_db w)" "so_DB src = dbof (so_Name src)"
  shows "moves_on lib dbof w w'"
  using assms(1-3)
proof (induction cs arbitrary: w)
  case (Cons chain cs)
  show ?case
  proof (cases "wants ns chain")
    case True
    obtain r1 w1 where d: "drain lib opts pool src chain fence w = Some (r1, w1)"
      using drain_total [of lib opts pool src chain fence w] by fastforce
    note m = drain_moves [OF d Cons.prems(2,3) assms(4)]
    show ?thesis
    proof (cases r1)
      case (Inl e)
      with Cons.prems(1) True d m show ?thesis by simp
    next
      case (Inr u)
      with Cons.prems(1) True d have "drain_chains lib opts pool ns src fence cs w1 = Some (r, w')" by simp
      from Cons.IH [OF this moves_on_script [OF Cons.prems(2) m] moves_on_inv(1) [OF m Cons.prems(3)]]
      show ?thesis using m moves_on_trans by blast
    qed
  qed (use Cons in simp)
qed simp

lemma drain_sources_move:
  assumes "drain_sources lib opts pool ns fence srcs w = Some (r, w')" "script_ok lib dbof w"
    "export_inv lib dbof (xw_db w)" "\<forall>src\<in>set srcs. so_DB src = dbof (so_Name src)"
  shows "moves_on lib dbof w w'"
  using assms
proof (induction srcs arbitrary: w)
  case (Cons src srcs)
  obtain r1 w1 where I: "Installed (so_DB src) w = (r1, w1)" by fastforce
  have m1: "moves_on lib dbof w w1"
    using xquery_cases [OF I [unfolded Installed_def] Cons.prems(2)] by blast
  note s1 = moves_on_script [OF Cons.prems(2) m1] and i1 = moves_on_inv(1) [OF m1 Cons.prems(3)]
  show ?case
  proof (cases r1)
    case (Inl e)
    with Cons.prems(1) I m1 show ?thesis by simp
  next
    case (Inr cs)
    obtain r2 w2 where d: "drain_chains lib opts pool ns src fence cs w1 = Some (r2, w2)"
      using drain_chains_total [of lib opts pool ns src fence cs w1] by fastforce
    have m2: "moves_on lib dbof w1 w2" by (rule drain_chains_move [OF d s1 i1]) (use Cons.prems(4) in simp)
    have "moves_on lib dbof w2 w'"
    proof (cases r2)
      case (Inl e)
      with Cons.prems(1) I Inr d show ?thesis by simp
    next
      case (Inr u)
      with Cons.prems(1) I \<open>r1 = Inr cs\<close> d have "drain_sources lib opts pool ns fence srcs w2 = Some (r, w')" by simp
      then show ?thesis
        using Cons.IH moves_on_script [OF s1 m2] moves_on_inv(1) [OF m2 i1] Cons.prems(4) by simp
    qed
    then show ?thesis using m1 m2 moves_on_trans by blast
  qed
qed simp

lemma CheckFence_moves:
  assumes "CheckFence pool fence w = (r, w')" "script_ok lib dbof w"
  shows "moves_on lib dbof w w'"
proof -
  consider "w' = w" | ctx f where "xquery ctx f w = (r, w')" "f = (\<lambda>db. if fenceSQL fence db then Inr () else Inl ErrFenced)"
    using assms(1) by (auto simp: CheckFence_def split: if_splits)
  then show ?thesis using xquery_cases [OF _ assms(2)] by cases auto
qed

lemma fail_succeed_move:
  "moves_on lib dbof w w' \<Longrightarrow> moves_on lib dbof w (snd (fail e w'))" "moves_on lib dbof w w' \<Longrightarrow> moves_on lib dbof w (snd (succeed w'))"
  by (simp_all add: moves_on_def fail_def fail_status_def succeed_def)

lemma pass_moves:
  assumes "pass lib opts pool ns sources allowed w = Some (r, w')" "script_ok lib dbof w"
    "export_inv lib dbof (xw_db w)" "\<forall>src\<in>set sources. so_DB src = dbof (so_Name src)"
  shows "moves_on lib dbof w w'"
proof -
  obtain fence ok where a: "allowed = (fence, ok)" by fastforce
  show ?thesis
  proof (cases ok)
    case True
    obtain r1 w1 where C: "CheckFence pool fence w = (r1, w1)" by fastforce
    note m1 = CheckFence_moves [OF C assms(2)]
    note s1 = moves_on_script [OF assms(2) m1] and i1 = moves_on_inv(1) [OF m1 assms(3)]
    obtain r2 w2 where D: "drain_sources lib opts pool ns fence sources w1 = Some (r2, w2)"
      using drain_sources_total [of lib opts pool ns fence sources w1] by fastforce
    note m = moves_on_trans [OF m1 drain_sources_move [OF D s1 i1 assms(4)]]
    have eq: "(case (r1, w1) of (Inl e, w1) \<Rightarrow> Some (fail e w1)
        | (Inr _, w1) \<Rightarrow> (case Some (r2, w2) of None \<Rightarrow> None | Some (Inl e, w2) \<Rightarrow> Some (fail e w2)
            | Some (Inr _, w2) \<Rightarrow> Some (succeed w2))) = Some (r, w')"
      using assms(1) a True C D by (cases r1) (auto simp: pass_def)
    consider e where "fail e w1 = (r, w')" | e where "fail e w2 = (r, w')" | "succeed w2 = (r, w')"
      using eq by (cases r1; cases r2) auto
    then show ?thesis using fail_succeed_move [OF m] fail_succeed_move(1) [OF m1] by cases (metis snd_conv)+
  qed (use assms(1) a in \<open>simp add: pass_def\<close>)
qed


subsection \<open>What a successful pass has delivered\<close>

text \<open>A chain is out when its sink has every link of it.\<close>

definition all_out :: "siem_lib \<Rightarrow> (string \<Rightarrow> nat) \<Rightarrow> string \<Rightarrow> string \<Rightarrow> string \<Rightarrow> export_db \<Rightarrow> export_db \<Rightarrow> bool" where
  "all_out lib dbof sink source chain db db' =
     (\<forall>l\<in>set (source_links dbof source chain db). delivered lib sink source chain l db')"

lemma all_out_onward:
  assumes "all_out lib dbof sink source chain db db'" "onward db0 db" "onward db' db''"
  shows "all_out lib dbof sink source chain db0 db''"
  using assms links_onward delivered_onward unfolding all_out_def by blast

lemma read_everything:
  assumes "readRecords lib src chain after (batch_size opts) w = (Inr recs, w')" "script_ok lib dbof w"
    "export_inv lib dbof (xw_db w)" "so_DB src = dbof (so_Name src)" "length recs < batch_size opts"
    and l: "l \<in> set (source_links dbof (so_Name src) chain (xw_db w'))" "after < lk_Seq l"
  shows "l \<in> rc_Link ` set recs"
proof -
  let ?L = "links_after chain after (xd_audit (xw_db w') (so_DB src))"
  have recs: "map rc_Link recs = take (batch_size opts) ?L" by (rule read_segment(2) [OF assms(1-4) refl])
  have "length recs = min (length ?L) (batch_size opts)" using arg_cong [OF recs, of length] by simp
  with assms(5) have "take (batch_size opts) ?L = ?L" by simp
  with recs have "rc_Link ` set recs = set ?L" by (metis set_map)
  with l show ?thesis by (simp add: links_after_def source_links_def assms(4))
qed

text \<open>What a round has sent, when it saved and did not go round again.\<close>

lemma short_round:
  assumes round: "drain_round lib opts pool src chain fence w = (Inr False, w')"
    and L: "Load pool (sk_Name (xw_status w)) (so_Name src) chain w = (Inr after, w1)"
    and R: "readRecords lib src chain after (batch_size opts) w1 = (Inr recs, w2)" "recs \<noteq> []"
    and ok: "script_ok lib dbof w2" "export_inv lib dbof (xw_db w2)"
    and up: "delivered_upto lib dbof (sk_Name (xw_status w), so_Name src, chain) after (xw_db w2)"
      "segment dbof (so_Name src) chain after recs (xw_db w2)"
  shows "length recs < batch_size opts \<and> onward (xw_db w2) (xw_db w') \<and>
    (sk_Name (xw_status w), map (Map lib) recs) \<in> set (xd_sent (xw_db w'))"
proof -
  let ?sink = "sk_Name (xw_status w)"
  obtain w3 where S: "Send ?sink (map (Map lib) recs) w2 = (Inr (), w3)"
    using round L R by (auto simp: drain_round_def split: prod.splits sum.splits)
  note m3 = Send_moves(1) [OF S ok(1)] and sent = Send_moves(2) [OF S ok(1) refl]
  note s3 = moves_on_script [OF ok(1) m3] and i3 = moves_on_inv [OF m3 ok(2)]
  have up3: "delivered_upto lib dbof (?sink, so_Name src, chain) (lk_Seq (rc_Link (last recs))) (xw_db w3)"
    by (rule segment_sent [OF delivered_upto_onward [OF up(1) i3(2)] segment_onward [OF up(2) i3(2)] sent])
  obtain w4 where V: "Save pool fence ?sink (so_Name src) chain (lk_Seq (rc_Link (last recs))) w3 = (Inr (), w4)"
    and short: "length recs < batch_size opts" and w': "w' = note_delivered (length recs) w4"
    using round L R S by (auto simp: drain_round_def split: prod.splits sum.splits)
  have "onward (xw_db w3) (xw_db w')"
    using moves_on_inv(2) [OF Save_moves [OF V s3 i3(1) up3] i3(1)] w' by simp
  with i3(2) sent short show ?thesis using onward_trans by (auto simp: onward_def [of "xw_db w3"])
qed

lemma drain_round_done:
  assumes round: "drain_round lib opts pool src chain fence w = (Inr False, w')" and "script_ok lib dbof w"
    "export_inv lib dbof (xw_db w)" "so_DB src = dbof (so_Name src)" "0 < batch_size opts"
  shows "all_out lib dbof (sk_Name (xw_status w)) (so_Name src) chain (xw_db w) (xw_db w')"
proof -
  let ?sink = "sk_Name (xw_status w)" and ?key = "(sk_Name (xw_status w), so_Name src, chain)"
  obtain after w1 where L: "Load pool ?sink (so_Name src) chain w = (Inr after, w1)"
    using round by (auto simp: drain_round_def split: prod.splits sum.splits)
  note m1 = Load_upto(1) [OF L assms(2,3)]
  note s1 = moves_on_script [OF assms(2) m1] and i1 = moves_on_inv [OF m1 assms(3)]
  obtain recs w2 where R: "readRecords lib src chain after (batch_size opts) w1 = (Inr recs, w2)"
    using round L by (auto simp: drain_round_def split: prod.splits sum.splits)
  note m2 = read_segment(1) [OF R s1 i1(1) assms(4)]
  note s2 = moves_on_script [OF s1 m2] and i2 = moves_on_inv [OF m2 i1(1)]
  have up2: "delivered_upto lib dbof ?key after (xw_db w2)"
    using Load_upto(2) [OF L assms(2,3) refl] i2(2) delivered_upto_onward by blast
  note every = read_everything [OF R s1 i1(1) assms(4)]
  have "delivered lib ?sink (so_Name src) chain l (xw_db w')"
    if l: "l \<in> set (source_links dbof (so_Name src) chain (xw_db w2))" for l
  proof (cases "recs = []")
    case True
    then have "w' = w2" using round L R by (simp add: drain_round_def)
    moreover have "lk_Seq l \<le> after" using every [OF _ l] True assms(5) by force
    ultimately show ?thesis using up2 l by (simp add: delivered_upto_def)
  next
    case False
    note seg = read_segment(3) [OF R s1 i1(1) assms(4) refl False]
    note sr = short_round [OF round L R False s2 i2(1) up2 seg]
    show ?thesis
    proof (cases "lk_Seq l \<le> after")
      case True
      then have "delivered lib ?sink (so_Name src) chain l (xw_db w2)" using up2 l by (simp add: delivered_upto_def)
      then show ?thesis using delivered_onward sr by blast
    next
      case False
      then have "l \<in> rc_Link ` set recs" using every [OF _ l] sr by simp
      then show ?thesis using sent_delivered [OF _ seg] sr by blast
    qed
  qed
  then have "all_out lib dbof ?sink (so_Name src) chain (xw_db w2) (xw_db w')" by (simp add: all_out_def)
  then show ?thesis using all_out_onward i1(2) i2(2) onward_trans onward_refl by blast
qed

lemma drain_done:
  assumes "drain lib opts pool src chain fence w = Some (Inr (), w')" "script_ok lib dbof w"
    "export_inv lib dbof (xw_db w)" "so_DB src = dbof (so_Name src)" "0 < batch_size opts"
  shows "all_out lib dbof (sk_Name (xw_status w)) (so_Name src) chain (xw_db w) (xw_db w')"
  using assms(1-3)
proof (induction w rule: wf_induct_rule [OF wf_measures [of "[\<lambda>w. length (xw_script w), backlog src chain]"]])
  case (1 w)
  obtain r1 w1 where R: "drain_round lib opts pool src chain fence w = (r1, w1)" by fastforce
  note m = drain_round_moves [OF R 1(3,4) assms(4)]
  show ?case
  proof (cases "r1 = Inr True")
    case True
    with 1(2) R have d: "drain lib opts pool src chain fence w1 = Some (Inr (), w')"
      by (simp add: drain_unfold [of _ _ _ _ _ _ w])
    have "all_out lib dbof (sk_Name (xw_status w1)) (so_Name src) chain (xw_db w1) (xw_db w')"
      using 1(1) [OF drain_round_smaller d] R True moves_on_script [OF 1(3) m] moves_on_inv(1) [OF m 1(4)] by blast
    then show ?thesis
      using m all_out_onward [OF _ moves_on_inv(2) [OF m 1(4)] onward_refl] by (simp add: moves_on_def)
  next
    case False
    with 1(2) R have "w' = w1" "r1 = Inr False"
      by (auto simp: drain_unfold [of _ _ _ _ _ _ w] split: sum.splits if_splits)
    with R drain_round_done [OF _ 1(3,4) assms(4,5)] show ?thesis by simp
  qed
qed


lemma drain_chains_done:
  assumes "drain_chains lib opts pool ns src fence cs w = Some (Inr (), w')" "script_ok lib dbof w"
    "export_inv lib dbof (xw_db w)" "so_DB src = dbof (so_Name src)" "0 < batch_size opts" "chain \<in> set cs" "wants ns chain"
  shows "all_out lib dbof (sk_Name (xw_status w)) (so_Name src) chain (xw_db w) (xw_db w')"
  using assms(1-3,6)
proof (induction cs arbitrary: w)
  case (Cons c cs)
  show ?case
  proof (cases "wants ns c")
    case True
    obtain w1 where d: "drain lib opts pool src c fence w = Some (Inr (), w1)"
      and rest: "drain_chains lib opts pool ns src fence cs w1 = Some (Inr (), w')"
      using Cons.prems(1) True by (auto split: option.splits prod.splits sum.splits)
    note m1 = drain_moves [OF d Cons.prems(2,3) assms(4)]
    note s1 = moves_on_script [OF Cons.prems(2) m1] and i1 = moves_on_inv [OF m1 Cons.prems(3)]
    note i2 = moves_on_inv [OF drain_chains_move [OF rest s1 i1(1) assms(4)] i1(1)]
    show ?thesis
    proof (cases "chain = c")
      case True
      with drain_done [OF d Cons.prems(2,3) assms(4,5)] all_out_onward [OF _ onward_refl i2(2)] show ?thesis by simp
    next
      case False
      then have "all_out lib dbof (sk_Name (xw_status w1)) (so_Name src) chain (xw_db w1) (xw_db w')"
        using Cons.IH [OF rest s1 i1(1)] Cons.prems(4) by simp
      then show ?thesis using m1 all_out_onward [OF _ i1(2) onward_refl] by (simp add: moves_on_def)
    qed
  next
    case False
    with assms(7) Cons.prems have "chain \<in> set cs" "drain_chains lib opts pool ns src fence cs w = Some (Inr (), w')" by auto
    then show ?thesis using Cons.IH Cons.prems by simp
  qed
qed simp

text \<open>The chains to deliver are those installed when the pass began.\<close>

definition installed :: "string \<Rightarrow> (string \<Rightarrow> nat) \<Rightarrow> string \<Rightarrow> export_db \<Rightarrow> bool" where
  "installed source dbof chain db = (chain \<in> fst ` set (ad_Meta (xd_audit db (dbof source))))"

lemma installed_onward: "installed source dbof chain db \<Longrightarrow> onward db db' \<Longrightarrow> installed source dbof chain db'"
  unfolding installed_def onward_def grows_def by blast

lemma drain_sources_done:
  assumes "drain_sources lib opts pool ns fence srcs w = Some (Inr (), w')" "script_ok lib dbof w"
    "export_inv lib dbof (xw_db w)" "\<forall>src\<in>set srcs. so_DB src = dbof (so_Name src)" "0 < batch_size opts"
    "src \<in> set srcs" "installed (so_Name src) dbof chain (xw_db w)" "wants ns chain"
  shows "all_out lib dbof (sk_Name (xw_status w)) (so_Name src) chain (xw_db w) (xw_db w')"
  using assms(1-4,6,7)
proof (induction srcs arbitrary: w)
  case (Cons s srcs)
  obtain cs w1 where I: "Installed (so_DB s) w = (Inr cs, w1)"
    using Cons.prems(1) by (auto split: prod.splits sum.splits)
  obtain w2 where d: "drain_chains lib opts pool ns s fence cs w1 = Some (Inr (), w2)"
    and rest: "drain_sources lib opts pool ns fence srcs w2 = Some (Inr (), w')"
    using Cons.prems(1) I by (auto split: option.splits prod.splits sum.splits)
  have m1: "moves_on lib dbof w w1" and cs: "set cs = fst ` set (ad_Meta (xd_audit (xw_db w1) (so_DB s)))"
    using xquery_cases [OF I [unfolded Installed_def] Cons.prems(2)] by auto
  note s1 = moves_on_script [OF Cons.prems(2) m1] and i1 = moves_on_inv [OF m1 Cons.prems(3)]
  have db: "so_DB s = dbof (so_Name s)" using Cons.prems(4) by simp
  note m2 = drain_chains_move [OF d s1 i1(1) db]
  note s2 = moves_on_script [OF s1 m2] and i2 = moves_on_inv [OF m2 i1(1)]
  have m3: "moves_on lib dbof w2 w'" by (rule drain_sources_move [OF rest s2 i2(1)]) (use Cons.prems(4) in simp)
  show ?case
  proof (cases "src = s")
    case True
    have "chain \<in> set cs" using installed_onward [OF Cons.prems(6) i1(2)] True db cs by (simp add: installed_def)
    from drain_chains_done [OF d s1 i1(1) db assms(5) this assms(8)]
    have "all_out lib dbof (sk_Name (xw_status w1)) (so_Name s) chain (xw_db w1) (xw_db w2)" .
    from all_out_onward [OF this i1(2) moves_on_inv(2) [OF m3 i2(1)]] m1 True show ?thesis by (simp add: moves_on_def)
  next
    case False
    have on: "onward (xw_db w) (xw_db w2)" using i1(2) i2(2) onward_trans by blast
    have "all_out lib dbof (sk_Name (xw_status w2)) (so_Name src) chain (xw_db w2) (xw_db w')"
      using Cons.IH [OF rest s2 i2(1)] Cons.prems(4-6) False installed_onward [OF _ on] by simp
    from all_out_onward [OF this on onward_refl] m1 m2 show ?thesis by (simp add: moves_on_def)
  qed
qed simp

lemma pass_done:
  assumes "pass lib opts pool ns sources (fence, True) w = Some (Inr (), w')" "script_ok lib dbof w"
    "export_inv lib dbof (xw_db w)" "\<forall>src\<in>set sources. so_DB src = dbof (so_Name src)" "0 < batch_size opts"
    "src \<in> set sources" "installed (so_Name src) dbof chain (xw_db w)" "wants ns chain"
  shows "all_out lib dbof (sk_Name (xw_status w)) (so_Name src) chain (xw_db w) (xw_db w')"
proof -
  obtain w1 where C: "CheckFence pool fence w = (Inr (), w1)"
    using assms(1) by (auto simp: pass_def fail_def split: prod.splits sum.splits)
  obtain w2 where D: "drain_sources lib opts pool ns fence sources w1 = Some (Inr (), w2)" and w': "xw_db w' = xw_db w2"
    using assms(1) C by (auto simp: pass_def fail_def succeed_def split: option.splits prod.splits sum.splits)
  note m1 = CheckFence_moves [OF C assms(2)]
  note s1 = moves_on_script [OF assms(2) m1] and i1 = moves_on_inv [OF m1 assms(3)]
  from drain_sources_done [OF D s1 i1(1) assms(4-6) installed_onward [OF assms(7) i1(2)] assms(8)]
  have "all_out lib dbof (sk_Name (xw_status w1)) (so_Name src) chain (xw_db w1) (xw_db w2)" .
  from all_out_onward [OF this i1(2) onward_refl] m1 w' show ?thesis by (simp add: moves_on_def)
qed

end
