(* ===== verification/Leader_Steps.thy ===== *)
theory Leader_Steps
  imports Leader
begin

text \<open>
  Several sidecars electing a leader over one control database, as a step relation. The database's
  clock is the reference; each elector reads a clock of its own that runs at least at
  \<^verbatim>\<open>den/num\<close> of its rate. A tick is the steps of \<^verbatim>\<open>Tick\<close>: the local clock is read
  (\<^verbatim>\<open>calls\<close>), the statement's transaction begins and fixes its \<^verbatim>\<open>now()\<close>
  (\<^verbatim>\<open>begins\<close>), the statement takes effect (\<^verbatim>\<open>executes\<close>), the reply arrives
  (\<^verbatim>\<open>replies\<close>); in between, time passes and other sidecars act. A call may fail at any
  point; its statement may then still begin and take effect later (\<^verbatim>\<open>strays\<close>). The one
  assumption on the database is that statements of one holder take effect in the order in which
  their transactions began (\<^verbatim>\<open>in_order\<close>). Holders are unique, as \<^verbatim>\<open>HolderID\<close>
  makes them.
\<close>

datatype pc =
    Idle
  | Calling instant
  | Running instant instant
  | Returned instant answer
  | Stopping "instant option"

record elector_run =
  er_elector :: Elector
  er_clock :: instant
  er_pc :: pc

record leader_world =
  lw_time :: int
  lw_leases :: lease_table
  lw_runs :: "string \<Rightarrow> elector_run option"
  lw_strays :: "(string \<times> instant option) list"

definition db_now :: "leader_world \<Rightarrow> instant" where
  "db_now w = lw_time w div 1000"

text \<open>The margin of a lease absorbs the drift, and the rounding of its duration and of the
  database's clock to microseconds.\<close>

definition drift_ok :: "int \<Rightarrow> int \<Rightarrow> (duration \<Rightarrow> int) \<Rightarrow> duration \<Rightarrow> bool" where
  "drift_ok num den micros ttl = (num * safe_span ttl \<le> den * (1000 * (micros ttl - 1)))"

definition in_order :: "instant \<Rightarrow> Elector \<Rightarrow> lease_table \<Rightarrow> bool" where
  "in_order t e tbl =
     (case tbl (el_scope e) of
        None \<Rightarrow> True
      | Some r \<Rightarrow> lr_holder r = el_holder e \<longrightarrow> lr_renewed_at r \<le> t)"

definition set_run :: "string \<Rightarrow> elector_run \<Rightarrow> leader_world \<Rightarrow> leader_world" where
  "set_run h r w = w\<lparr>lw_runs := (lw_runs w)(h \<mapsto> r)\<rparr>"

definition upsert :: "(duration \<Rightarrow> int) \<Rightarrow> instant \<Rightarrow> Elector \<Rightarrow> lease_table \<Rightarrow> answer \<times> lease_table" where
  "upsert micros t e = acquireSQL t (el_scope e) (el_holder e) (micros (el_ttl e))"

text \<open>The elector after a reply: the statement's answer, and the answer of the second statement when
  the first found another holder's lease alive.\<close>

definition after_reply :: "instant \<Rightarrow> answer \<Rightarrow> answer \<Rightarrow> instant \<Rightarrow> instant \<Rightarrow> Elector \<Rightarrow> Elector" where
  "after_reply start acquired current n1 n2 e =
     fst (snd (Tick start (Acquire True (el_scope e) acquired current) n1 n2 e))"

inductive leader_step :: "int \<Rightarrow> int \<Rightarrow> (duration \<Rightarrow> int) \<Rightarrow> leader_world \<Rightarrow> leader_world \<Rightarrow> bool"
  for num den :: int and micros :: "duration \<Rightarrow> int" where
  time: "0 \<le> d \<Longrightarrow> (\<And>h. 0 \<le> adv h) \<Longrightarrow> (\<And>h. den * d \<le> num * adv h) \<Longrightarrow>
    leader_step num den micros w
      (w\<lparr>lw_time := lw_time w + d,
         lw_runs := (\<lambda>h. map_option (\<lambda>r. r\<lparr>er_clock := er_clock r + adv h\<rparr>) (lw_runs w h))\<rparr>)"
| starts: "lw_runs w h = None \<Longrightarrow> e = NewElector True scope h ttl \<Longrightarrow> ready e \<Longrightarrow>
    drift_ok num den micros (el_ttl e) \<Longrightarrow>
    leader_step num den micros w (set_run h \<lparr>er_elector = e, er_clock = c, er_pc = Idle\<rparr> w)"
| calls: "lw_runs w h = Some r \<Longrightarrow> er_pc r = Idle \<Longrightarrow>
    leader_step num den micros w (set_run h (r\<lparr>er_pc := Calling (er_clock r)\<rparr>) w)"
| begins: "lw_runs w h = Some r \<Longrightarrow> er_pc r = Calling start \<Longrightarrow>
    leader_step num den micros w (set_run h (r\<lparr>er_pc := Running start (db_now w)\<rparr>) w)"
| executes: "lw_runs w h = Some r \<Longrightarrow> er_pc r = Running start t \<Longrightarrow>
    in_order t (er_elector r) (lw_leases w) \<Longrightarrow>
    upsert micros t (er_elector r) (lw_leases w) = (a, tbl) \<Longrightarrow>
    leader_step num den micros w (set_run h (r\<lparr>er_pc := Returned start a\<rparr>) (w\<lparr>lw_leases := tbl\<rparr>))"
| replies: "lw_runs w h = Some r \<Longrightarrow> er_pc r = Returned start a \<Longrightarrow> n1 \<le> n2 \<Longrightarrow> n2 \<le> er_clock r \<Longrightarrow>
    cur = Inr (currentSQL (el_scope (er_elector r)) (lw_leases w)) \<or> cur = Inl m \<Longrightarrow>
    leader_step num den micros w
      (set_run h (r\<lparr>er_elector := after_reply start a cur n1 n2 (er_elector r), er_pc := Idle\<rparr>) w)"
| fails: "lw_runs w h = Some r \<Longrightarrow>
    (er_pc r = Calling start \<and> left = [(h, None)]) \<or> (er_pc r = Running start t \<and> left = [(h, Some t)]) \<or>
    (er_pc r = Returned start a \<and> left = []) \<Longrightarrow>
    leader_step num den micros w
      (set_run h (r\<lparr>er_elector := after_reply start (Inl m) cur n1 n2 (er_elector r), er_pc := Idle\<rparr>)
        (w\<lparr>lw_strays := left @ lw_strays w\<rparr>))"
| stray_begins: "lw_strays w = xs @ (h, None) # ys \<Longrightarrow>
    leader_step num den micros w (w\<lparr>lw_strays := xs @ (h, Some (db_now w)) # ys\<rparr>)"
| stray_executes: "lw_strays w = xs @ (h, Some t) # ys \<Longrightarrow> lw_runs w h = Some r \<Longrightarrow>
    in_order t (er_elector r) (lw_leases w) \<Longrightarrow>
    upsert micros t (er_elector r) (lw_leases w) = (a, tbl) \<Longrightarrow>
    leader_step num den micros w (w\<lparr>lw_leases := tbl, lw_strays := xs @ ys\<rparr>)"
| stops: "lw_runs w h = Some r \<Longrightarrow> er_pc r = Idle \<Longrightarrow>
    leader_step num den micros w
      (set_run h (r\<lparr>er_elector := Release_local (er_elector r), er_pc := Stopping None\<rparr>) w)"
| stop_begins: "lw_runs w h = Some r \<Longrightarrow> er_pc r = Stopping None \<Longrightarrow>
    leader_step num den micros w (set_run h (r\<lparr>er_pc := Stopping (Some (db_now w))\<rparr>) w)"
| stop_executes: "lw_runs w h = Some r \<Longrightarrow> er_pc r = Stopping (Some t) \<Longrightarrow>
    leader_step num den micros w
      (w\<lparr>lw_leases := releaseSQL t (el_scope (er_elector r)) (el_holder (er_elector r)) (lw_leases w)\<rparr>)"

definition leader_world0 :: "int \<Rightarrow> leader_world" where
  "leader_world0 t = \<lparr>lw_time = t, lw_leases = (\<lambda>_. None), lw_runs = (\<lambda>_. None), lw_strays = []\<rparr>"

text \<open>A holder leads: its elector says so on its own clock.\<close>

definition leads :: "leader_world \<Rightarrow> string \<Rightarrow> bool" where
  "leads w h = (case lw_runs w h of None \<Rightarrow> False | Some r \<Rightarrow> IsLeader (er_clock r) (Some (er_elector r)))"

definition scope_of :: "leader_world \<Rightarrow> string \<Rightarrow> string option" where
  "scope_of w h = map_option (\<lambda>r. el_scope (er_elector r)) (lw_runs w h)"

subsection \<open>The invariant\<close>

text \<open>A local deadline is covered while the holder's row outlives it on the slowest clock.\<close>

definition within :: "int \<Rightarrow> int \<Rightarrow> leader_world \<Rightarrow> elector_run \<Rightarrow> instant \<Rightarrow> instant \<Rightarrow> bool" where
  "within num den w r dl expires = (num * (dl - er_clock r) \<le> den * (1000 * expires - lw_time w))"

definition covered :: "int \<Rightarrow> int \<Rightarrow> leader_world \<Rightarrow> elector_run \<Rightarrow> instant \<Rightarrow> int \<Rightarrow> bool" where
  "covered num den w r dl ep =
     (er_clock r < dl \<longrightarrow>
        (\<exists>row. lw_leases w (el_scope (er_elector r)) = Some row \<and> lr_holder row = el_holder (er_elector r) \<and>
               lr_epoch row = ep \<and> within num den w r dl (lr_expires_at row)))"

definition run_inv ::
    "int \<Rightarrow> int \<Rightarrow> (duration \<Rightarrow> int) \<Rightarrow> leader_world \<Rightarrow> string \<Rightarrow> elector_run \<Rightarrow> bool" where
  "run_inv num den micros w h r =
     (el_holder (er_elector r) = h \<and> ready (er_elector r) \<and> drift_ok num den micros (el_ttl (er_elector r)) \<and>
      (el_held (er_elector r) \<longrightarrow>
         covered num den w r (el_deadline (er_elector r)) (el_epoch (er_elector r))) \<and>
      (case er_pc r of
         Idle \<Rightarrow> True
       | Calling start \<Rightarrow> start \<le> er_clock r
       | Running start t \<Rightarrow> t \<le> db_now w \<and>
           within num den w r (start + safe_span (el_ttl (er_elector r))) (t + micros (el_ttl (er_elector r)))
       | Returned start a \<Rightarrow>
           (case a of Inr (Some l) \<Rightarrow> covered num den w r (start + safe_span (el_ttl (er_elector r))) (ls_Epoch l)
            | _ \<Rightarrow> True)
       | Stopping t \<Rightarrow> \<not> el_held (er_elector r) \<and> (case t of None \<Rightarrow> True | Some t \<Rightarrow> t \<le> db_now w)))"

definition active :: "elector_run \<Rightarrow> bool" where
  "active r = (case er_pc r of Stopping _ \<Rightarrow> False | _ \<Rightarrow> True)"

text \<open>The row of a holder that has not stopped lives for the whole lease from its last renewal.\<close>

definition rows_inv :: "(duration \<Rightarrow> int) \<Rightarrow> leader_world \<Rightarrow> bool" where
  "rows_inv micros w =
     (\<forall>h r row. lw_runs w h = Some r \<longrightarrow> active r \<longrightarrow> lw_leases w (el_scope (er_elector r)) = Some row \<longrightarrow>
        lr_holder row = h \<longrightarrow> lr_expires_at row = lr_renewed_at row + micros (el_ttl (er_elector r)))"

definition holders_inv :: "leader_world \<Rightarrow> bool" where
  "holders_inv w = (\<forall>sc row. lw_leases w sc = Some row \<longrightarrow> lw_runs w (lr_holder row) \<noteq> None)"

definition strays_inv :: "leader_world \<Rightarrow> bool" where
  "strays_inv w = (\<forall>h t. (h, Some t) \<in> set (lw_strays w) \<longrightarrow> t \<le> db_now w)"

definition leader_inv :: "int \<Rightarrow> int \<Rightarrow> (duration \<Rightarrow> int) \<Rightarrow> leader_world \<Rightarrow> bool" where
  "leader_inv num den micros w =
     ((\<forall>h r. lw_runs w h = Some r \<longrightarrow> run_inv num den micros w h r) \<and> rows_inv micros w \<and>
      holders_inv w \<and> strays_inv w)"


lemma leader_invD:
  assumes "leader_inv num den micros w"
  shows "lw_runs w h = Some r \<Longrightarrow> run_inv num den micros w h r" "rows_inv micros w" "strays_inv w"
    "holders_inv w"
  using assms by (auto simp: leader_inv_def)

lemma within_alive:
  assumes "within num den w r dl x" "er_clock r < dl" "0 < num" "0 < den"
  shows "db_now w < x"
proof -
  have "0 < num * (dl - er_clock r)" using assms(2,3) by simp
  with assms(1) have "0 < den * (1000 * x - lw_time w)" by (simp add: within_def)
  then have "lw_time w < 1000 * x" using assms(4) by (simp add: zero_less_mult_iff)
  then show ?thesis by (simp add: db_now_def)
qed

text \<open>A transaction that begins after the local clock was read covers the deadline counted from
  that reading.\<close>

lemma within_begins:
  assumes "start \<le> er_clock r" "drift_ok num den micros ttl" "0 < num" "0 < den"
  shows "within num den w r (start + safe_span ttl) (db_now w + micros ttl)"
proof -
  have "num * (start + safe_span ttl - er_clock r) \<le> num * safe_span ttl" using assms(1,3) by simp
  also have "\<dots> \<le> den * (1000 * (micros ttl - 1))" using assms(2) by (simp add: drift_ok_def)
  also have "\<dots> \<le> den * (1000 * (db_now w + micros ttl) - lw_time w)"
  proof (rule mult_left_mono)
    show "1000 * (micros ttl - 1) \<le> 1000 * (db_now w + micros ttl) - lw_time w"
      unfolding db_now_def by presburger
  qed (use assms(4) in simp)
  finally show ?thesis by (simp add: within_def)
qed

lemma within_time:
  assumes "within num den w r dl x" "den * d \<le> num * a"
  shows "within num den (w\<lparr>lw_time := lw_time w + d, lw_runs := f\<rparr>) (r\<lparr>er_clock := er_clock r + a\<rparr>) dl x"
  using assms by (simp add: within_def algebra_simps)

lemma covered_time:
  assumes "covered num den w r dl ep" "den * d \<le> num * a" "0 \<le> a"
  shows "covered num den (w\<lparr>lw_time := lw_time w + d, lw_runs := f\<rparr>) (r\<lparr>er_clock := er_clock r + a\<rparr>) dl ep"
  using assms within_time [OF _ assms(2)] by (auto simp: covered_def)

lemma db_now_time: "0 \<le> d \<Longrightarrow> t \<le> db_now w \<Longrightarrow> t \<le> db_now (w\<lparr>lw_time := lw_time w + d, lw_runs := f\<rparr>)"
  using zdiv_mono1 [of "lw_time w" "lw_time w + d" 1000] by (simp add: db_now_def)

lemma run_inv_time:
  assumes "run_inv num den micros w h r" "0 \<le> d" "den * d \<le> num * a" "0 \<le> a"
  shows "run_inv num den micros (w\<lparr>lw_time := lw_time w + d, lw_runs := f\<rparr>) h (r\<lparr>er_clock := er_clock r + a\<rparr>)"
  using assms covered_time [OF _ assms(3,4)] within_time [OF _ assms(3)] db_now_time [OF assms(2)]
  by (auto simp: run_inv_def split: pc.splits sum.splits option.splits)

text \<open>The invariant of a run reads the time and the lease table only.\<close>

lemma run_inv_cong:
  assumes "lw_time w' = lw_time w" "lw_leases w' = lw_leases w"
  shows "run_inv num den micros w' h r = run_inv num den micros w h r"
  unfolding run_inv_def covered_def within_def db_now_def assms ..

lemma set_run_fields [simp]:
  "lw_time (set_run h r w) = lw_time w" "lw_leases (set_run h r w) = lw_leases w"
  "lw_runs (set_run h r w) = (lw_runs w)(h \<mapsto> r)" "lw_strays (set_run h r w) = lw_strays w"
  "db_now (set_run h r w) = db_now w"
  by (simp_all add: set_run_def db_now_def)

lemma run_inv_set_run [simp]: "run_inv num den micros (set_run k q w) h r = run_inv num den micros w h r"
  by (rule run_inv_cong) simp_all

lemma leader_inv_set_run:
  assumes inv: "leader_inv num den micros w" and r: "run_inv num den micros w h r'"
    and old: "lw_runs w h = Some r" "el_scope (er_elector r') = el_scope (er_elector r)"
      "el_ttl (er_elector r') = el_ttl (er_elector r)" "active r' \<Longrightarrow> active r"
  shows "leader_inv num den micros (set_run h r' w)"
proof -
  have "run_inv num den micros (set_run h r' w) k q" if "lw_runs (set_run h r' w) k = Some q" for k q
    using that r leader_invD(1) [OF inv, of k q]
    by (auto split: if_splits)
  moreover have "rows_inv micros (set_run h r' w)"
    using leader_invD(2) [OF inv] old by (auto simp: rows_inv_def)
  moreover have "holders_inv (set_run h r' w)"
    using leader_invD(4) [OF inv] by (auto simp: holders_inv_def)
  moreover have "strays_inv (set_run h r' w)"
    using leader_invD(3) [OF inv] by (auto simp: strays_inv_def)
  ultimately show ?thesis by (simp add: leader_inv_def)
qed

subsection \<open>Writes to the lease table\<close>

text \<open>A statement of one elector keeps what every other running elector relies on.\<close>

lemma upsert_covered:
  assumes up: "upsert micros t e (lw_leases w) = (a, tbl)" and t: "t \<le> db_now w"
    and order: "in_order t e (lw_leases w)" and pos: "0 < num" "0 < den"
    and cov: "covered num den w r dl ep"
    and same: "el_holder e = el_holder (er_elector r) \<Longrightarrow> el_ttl e = el_ttl (er_elector r)"
    and len: "\<And>row. lw_leases w (el_scope (er_elector r)) = Some row \<Longrightarrow> lr_holder row = el_holder (er_elector r) \<Longrightarrow>
      lr_expires_at row = lr_renewed_at row + micros (el_ttl (er_elector r))"
  shows "covered num den (w\<lparr>lw_leases := tbl\<rparr>) r dl ep"
proof (cases "er_clock r < dl \<and> el_scope e = el_scope (er_elector r)")
  case False
  with cov acquireSQL_other [OF up [unfolded upsert_def]] show ?thesis
    by (auto simp: covered_def within_def)
next
  case True
  with cov obtain row where row: "lw_leases w (el_scope e) = Some row" "lr_holder row = el_holder (er_elector r)"
      "lr_epoch row = ep" "within num den w r dl (lr_expires_at row)" by (auto simp: covered_def)
  have alive: "t < lr_expires_at row" using within_alive [OF row(4) _ pos] True t by simp
  from up [unfolded upsert_def] show ?thesis
  proof (cases rule: acquireSQL_cases)
    case (own l)
    with row have l: "l = row" and h: "el_holder e = el_holder (er_elector r)" by auto
    have "lr_renewed_at row \<le> t" using order row(1,2) h by (simp add: in_order_def)
    moreover have "lr_expires_at row = lr_renewed_at row + micros (el_ttl e)"
      using len row(1,2) True same [OF h] by simp
    ultimately have "lr_expires_at row \<le> t + micros (el_ttl e)" by simp
    with row(4) pos(2) have "within num den w r dl (t + micros (el_ttl e))"
      unfolding within_def by (smt (verit) mult_less_cancel_left_pos)
    then show ?thesis using own row True h l by (auto simp: covered_def within_def)
  qed (use row alive cov in \<open>auto simp: covered_def within_def\<close>)
qed

lemma upsert_own_covered:
  assumes up: "upsert micros t (er_elector r) (lw_leases w) = (Inr (Some l), tbl)"
    and "within num den w r dl (t + micros (el_ttl (er_elector r)))"
  shows "covered num den (w\<lparr>lw_leases := tbl\<rparr>) r dl (ls_Epoch l)"
  using up [unfolded upsert_def]
  by (cases rule: acquireSQL_cases) (use assms(2) in \<open>auto simp: covered_def within_def row_lease_def\<close>)

lemma upsert_rows:
  assumes up: "upsert micros t e tbl = (a, tbl')" and row: "tbl' (el_scope e) = Some row"
  shows "tbl (el_scope e) = Some row \<or>
    lr_holder row = el_holder e \<and> lr_expires_at row = lr_renewed_at row + micros (el_ttl e)"
  using up [unfolded upsert_def] by (cases rule: acquireSQL_cases) (use row in auto)

text \<open>So a statement whose transaction has begun keeps the invariant, whoever sent it.\<close>

lemma upsert_inv:
  assumes inv: "leader_inv num den micros w" and h: "lw_runs w h = Some r"
    and up: "upsert micros t (er_elector r) (lw_leases w) = (a, tbl)" and t: "t \<le> db_now w"
    and order: "in_order t (er_elector r) (lw_leases w)" and pos: "0 < num" "0 < den"
  shows "leader_inv num den micros (w\<lparr>lw_leases := tbl\<rparr>)"
proof -
  note ri = leader_invD(1) [OF inv] and rows = leader_invD(2) [OF inv]
  have hh: "el_holder (er_elector r) = h" using ri [OF h] by (simp add: run_inv_def)
  have keep: "covered num den (w\<lparr>lw_leases := tbl\<rparr>) q dl ep"
    if q: "lw_runs w k = Some q" "active q" and c: "covered num den w q dl ep" for k q dl ep
  proof (rule upsert_covered [OF up t order pos c])
    have kk: "el_holder (er_elector q) = k" using ri [OF q(1)] by (simp add: run_inv_def)
    show "el_ttl (er_elector r) = el_ttl (er_elector q)"
      if "el_holder (er_elector r) = el_holder (er_elector q)"
      using that kk hh h q(1) by simp
    show "lr_expires_at row = lr_renewed_at row + micros (el_ttl (er_elector q))"
      if "lw_leases w (el_scope (er_elector q)) = Some row" "lr_holder row = el_holder (er_elector q)" for row
      using rows q that kk by (simp add: rows_inv_def)
  qed
  have "run_inv num den micros (w\<lparr>lw_leases := tbl\<rparr>) k q" if q: "lw_runs w k = Some q" for k q
  proof (cases "active q")
    case True
    from ri [OF q] keep [OF q True] show ?thesis
      by (auto simp: run_inv_def within_def db_now_def split: pc.splits sum.splits option.splits)
  next
    case False
    with ri [OF q] show ?thesis
      by (auto simp: run_inv_def active_def db_now_def split: pc.splits option.splits)
  qed
  moreover have "rows_inv micros (w\<lparr>lw_leases := tbl\<rparr>)"
    unfolding rows_inv_def
  proof (intro allI impI)
    fix k q row
    assume *: "lw_runs (w\<lparr>lw_leases := tbl\<rparr>) k = Some q" "active q"
      "lw_leases (w\<lparr>lw_leases := tbl\<rparr>) (el_scope (er_elector q)) = Some row" "lr_holder row = k"
    show "lr_expires_at row = lr_renewed_at row + micros (el_ttl (er_elector q))"
    proof (cases "lw_leases w (el_scope (er_elector q)) = Some row")
      case True
      with * rows show ?thesis by (simp add: rows_inv_def)
    next
      case False
      with *(3) acquireSQL_other [OF up [unfolded upsert_def]]
      have "el_scope (er_elector q) = el_scope (er_elector r)" by force
      with upsert_rows [OF up, of row] *(3) False
      have "lr_holder row = h" "lr_expires_at row = lr_renewed_at row + micros (el_ttl (er_elector r))"
        by (auto simp: hh)
      with *(1,4) h show ?thesis by simp
    qed
  qed
  moreover have "holders_inv (w\<lparr>lw_leases := tbl\<rparr>)"
    using leader_invD(4) [OF inv] h up [unfolded upsert_def] hh unfolding holders_inv_def
    by (elim acquireSQL_cases) (auto split: if_splits)
  moreover have "strays_inv (w\<lparr>lw_leases := tbl\<rparr>)"
    using leader_invD(3) [OF inv] by (simp add: strays_inv_def db_now_def)
  ultimately show ?thesis by (simp add: leader_inv_def)
qed


text \<open>A release keeps the invariant: the elector that sends it no longer leads.\<close>

lemma release_inv:
  assumes inv: "leader_inv num den micros w" and h: "lw_runs w h = Some r" "er_pc r = Stopping (Some t)"
  shows "leader_inv num den micros
    (w\<lparr>lw_leases := releaseSQL t (el_scope (er_elector r)) (el_holder (er_elector r)) (lw_leases w)\<rparr>)"
    (is "leader_inv num den micros ?w")
proof -
  note ri = leader_invD(1) [OF inv] and rows = leader_invD(2) [OF inv]
  have hh: "el_holder (er_elector r) = h" using ri [OF h(1)] by (simp add: run_inv_def)
  have row: "lw_leases ?w sc = Some row" if "lw_leases w sc = Some row" "lr_holder row \<noteq> h" for sc row
    using that by (auto simp: releaseSQL_def hh split: option.splits)
  have row': "lw_leases w sc = Some row" if "lw_leases ?w sc = Some row" "lr_holder row \<noteq> h" for sc row
    using that by (auto simp: releaseSQL_def hh split: option.splits if_splits)
  have other: "k \<noteq> h" if "lw_runs w k = Some q" "active q" for k q
    using that h by (auto simp: active_def)
  have keep: "covered num den ?w q dl ep"
    if q: "lw_runs w k = Some q" "active q" and c: "covered num den w q dl ep" for k q dl ep
    using c row [of "el_scope (er_elector q)"] other [OF q] ri [OF q(1)]
    by (fastforce simp: covered_def within_def run_inv_def)
  have "run_inv num den micros ?w k q" if q: "lw_runs w k = Some q" for k q
  proof (cases "active q")
    case True
    from ri [OF q] keep [OF q True] show ?thesis
      by (auto simp: run_inv_def within_def db_now_def split: pc.splits sum.splits option.splits)
  next
    case False
    with ri [OF q] show ?thesis
      by (auto simp: run_inv_def active_def db_now_def split: pc.splits option.splits)
  qed
  moreover have "rows_inv micros ?w"
    using rows row' other unfolding rows_inv_def by fastforce
  moreover have "holders_inv ?w"
    using leader_invD(4) [OF inv] h(1) unfolding holders_inv_def
    by (auto simp: releaseSQL_def hh split: option.splits if_splits)
  moreover have "strays_inv ?w"
    using leader_invD(3) [OF inv] by (simp add: strays_inv_def db_now_def)
  ultimately show ?thesis by (simp add: leader_inv_def)
qed

subsection \<open>The invariant is kept\<close>

text \<open>A reply keeps the invariant of its run: a lost or failed call claims nothing new.\<close>

lemma after_reply_identity [simp]:
  "el_scope (after_reply start a cur n1 n2 e) = el_scope e"
  "el_holder (after_reply start a cur n1 n2 e) = el_holder e"
  "el_ttl (after_reply start a cur n1 n2 e) = el_ttl e"
  "el_store (after_reply start a cur n1 n2 e) = el_store e"
  by (simp_all add: after_reply_def)

lemma ready_after_reply [simp]: "ready (after_reply start a cur n1 n2 e) = ready e"
  by (simp add: ready_def)

lemma after_reply_held:
  assumes "ready e" "el_held (after_reply start a cur n1 n2 e)"
  shows "(\<exists>l. a = Inr (Some l) \<and> el_epoch (after_reply start a cur n1 n2 e) = ls_Epoch l \<and>
      el_deadline (after_reply start a cur n1 n2 e) = start + safe_span (el_ttl e)) \<or>
    ((\<exists>m. a = Inl m) \<or> a = Inr None) \<and> el_held e \<and>
      el_epoch (after_reply start a cur n1 n2 e) = el_epoch e \<and>
      el_deadline (after_reply start a cur n1 n2 e) = el_deadline e"
proof -
  obtain er e' c where T: "Tick start (Acquire True (el_scope e) a cur) n1 n2 e = (er, e', c)"
    by (metis prod_cases3)
  then have e': "after_reply start a cur n1 n2 e = e'" by (simp add: after_reply_def)
  from T show ?thesis
  proof (cases rule: Tick_cases)
    case (failed m)
    then show ?thesis using assms(2) e' by (auto simp: Acquire_def split: sum.splits option.splits)
  next
    case (won lease)
    then show ?thesis using e'
      by (auto simp: Acquire_def ebind_def split: sum.splits option.splits)
  qed (use assms e' in auto)
qed

lemma run_inv_reply:
  assumes r: "run_inv num den micros w h r"
    and a: "\<And>l. a = Inr (Some l) \<Longrightarrow> covered num den w r (start + safe_span (el_ttl (er_elector r))) (ls_Epoch l)"
  shows "run_inv num den micros w h (r\<lparr>er_elector := after_reply start a cur n1 n2 (er_elector r), er_pc := Idle\<rparr>)"
proof -
  have c: "covered num den w (r\<lparr>er_elector := after_reply start a cur n1 n2 (er_elector r), er_pc := Idle\<rparr>) dl ep =
      covered num den w r dl ep" for dl ep
    by (simp add: covered_def within_def)
  have "ready (er_elector r)" using r by (simp add: run_inv_def)
  note held = after_reply_held [OF this, of start a cur n1 n2]
  show ?thesis
    using r held a by (auto simp: run_inv_def c)
qed

text \<open>The steps, one kind at a time.\<close>

lemma time_inv:
  assumes inv: "leader_inv num den micros w"
    and "0 \<le> d" "\<And>h. 0 \<le> adv h" "\<And>h. den * d \<le> num * adv h"
  shows "leader_inv num den micros (w\<lparr>lw_time := lw_time w + d,
    lw_runs := (\<lambda>h. map_option (\<lambda>r. r\<lparr>er_clock := er_clock r + adv h\<rparr>) (lw_runs w h))\<rparr>)"
    (is "leader_inv num den micros ?w")
proof -
  have "run_inv num den micros ?w h r" if "lw_runs ?w h = Some r" for h r
    using that run_inv_time [OF leader_invD(1) [OF inv] assms(2,4,3)] by auto
  moreover have "rows_inv micros ?w"
    using leader_invD(2) [OF inv] unfolding rows_inv_def by (fastforce simp: active_def)
  moreover have "holders_inv ?w"
    using leader_invD(4) [OF inv] by (auto simp: holders_inv_def)
  moreover have "strays_inv ?w"
    using leader_invD(3) [OF inv] db_now_time [OF assms(2)] by (auto simp: strays_inv_def)
  ultimately show ?thesis by (simp add: leader_inv_def)
qed

lemma new_run_inv:
  assumes inv: "leader_inv num den micros w" and none: "lw_runs w h = None"
    and e: "e = NewElector True scope h ttl" "ready e" "drift_ok num den micros (el_ttl e)"
  shows "leader_inv num den micros (set_run h \<lparr>er_elector = e, er_clock = c, er_pc = Idle\<rparr> w)"
    (is "leader_inv num den micros ?w")
proof -
  have "run_inv num den micros ?w k r" if "lw_runs ?w k = Some r" for k r
    using that leader_invD(1) [OF inv, of k r] e
    by (auto simp: run_inv_def [of num den micros w h] split: if_splits)
  moreover have "rows_inv micros ?w"
    unfolding rows_inv_def
  proof (intro allI impI)
    fix k r row
    assume *: "lw_runs ?w k = Some r" "active r" "lw_leases ?w (el_scope (er_elector r)) = Some row"
      "lr_holder row = k"
    then have "lw_runs w k \<noteq> None" using leader_invD(4) [OF inv] *(3,4) unfolding holders_inv_def by auto
    then have "k \<noteq> h" using none by auto
    with * leader_invD(2) [OF inv]
    show "lr_expires_at row = lr_renewed_at row + micros (el_ttl (er_elector r))"
      by (simp add: rows_inv_def)
  qed
  moreover have "holders_inv ?w" "strays_inv ?w"
    using leader_invD(3,4) [OF inv] by (auto simp: holders_inv_def strays_inv_def)
  ultimately show ?thesis by (simp add: leader_inv_def)
qed

lemma execute_inv:
  assumes inv: "leader_inv num den micros w" and h: "lw_runs w h = Some r" "er_pc r = Running start t"
    and ex: "in_order t (er_elector r) (lw_leases w)" "upsert micros t (er_elector r) (lw_leases w) = (a, tbl)"
    and pos: "0 < num" "0 < den"
  shows "leader_inv num den micros (set_run h (r\<lparr>er_pc := Returned start a\<rparr>) (w\<lparr>lw_leases := tbl\<rparr>))"
proof -
  have t: "t \<le> db_now w"
    and own: "within num den w r (start + safe_span (el_ttl (er_elector r))) (t + micros (el_ttl (er_elector r)))"
    using leader_invD(1) [OF inv h(1)] h(2) by (auto simp: run_inv_def)
  have inv': "leader_inv num den micros (w\<lparr>lw_leases := tbl\<rparr>)"
    by (rule upsert_inv [OF inv h(1) ex(2) t ex(1) pos])
  have r': "lw_runs (w\<lparr>lw_leases := tbl\<rparr>) h = Some r" using h(1) by simp
  have "covered num den (w\<lparr>lw_leases := tbl\<rparr>) r (start + safe_span (el_ttl (er_elector r))) (ls_Epoch l)"
    if "a = Inr (Some l)" for l
    using upsert_own_covered [OF ex(2) [unfolded that] own] .
  with leader_invD(1) [OF inv' r'] h(2) show ?thesis
    by (intro leader_inv_set_run [OF inv' _ r'])
      (auto simp: run_inv_def covered_def within_def active_def split: sum.splits option.splits)
qed

lemma reply_inv:
  assumes inv: "leader_inv num den micros w" and h: "lw_runs w h = Some r" "er_pc r = Returned start a"
  shows "leader_inv num den micros
    (set_run h (r\<lparr>er_elector := after_reply start a cur n1 n2 (er_elector r), er_pc := Idle\<rparr>) w)"
proof -
  note r = leader_invD(1) [OF inv h(1)]
  have "covered num den w r (start + safe_span (el_ttl (er_elector r))) (ls_Epoch l)" if "a = Inr (Some l)" for l
    using r h(2) that by (simp add: run_inv_def)
  with r have "run_inv num den micros w h
      (r\<lparr>er_elector := after_reply start a cur n1 n2 (er_elector r), er_pc := Idle\<rparr>)"
    by (rule run_inv_reply)
  then show ?thesis
    by (rule leader_inv_set_run [OF inv _ h(1)]) (use h(2) in \<open>simp_all add: active_def\<close>)
qed

text \<open>Statements that nobody waits for any more may be added and dropped.\<close>

lemma strays_change_inv:
  assumes "leader_inv num den micros w" "\<And>h t. (h, Some t) \<in> set xs \<Longrightarrow> t \<le> db_now w"
  shows "leader_inv num den micros (w\<lparr>lw_strays := xs\<rparr>)"
proof -
  have c: "run_inv num den micros (w\<lparr>lw_strays := xs\<rparr>) k q = run_inv num den micros w k q" for k q
    by (rule run_inv_cong) simp_all
  show ?thesis
    using assms by (simp add: leader_inv_def c) (auto simp: rows_inv_def holders_inv_def strays_inv_def db_now_def)
qed

lemma fail_inv:
  assumes inv: "leader_inv num den micros w" and h: "lw_runs w h = Some r"
    and left: "(er_pc r = Calling start \<and> left = [(h, None)]) \<or>
      (er_pc r = Running start t \<and> left = [(h, Some t)]) \<or> (er_pc r = Returned start a \<and> left = [])"
  shows "leader_inv num den micros
    (set_run h (r\<lparr>er_elector := after_reply start (Inl m) cur n1 n2 (er_elector r), er_pc := Idle\<rparr>)
      (w\<lparr>lw_strays := left @ lw_strays w\<rparr>))"
proof -
  let ?w = "w\<lparr>lw_strays := left @ lw_strays w\<rparr>"
  note r = leader_invD(1) [OF inv h]
  have "leader_inv num den micros ?w"
    by (rule strays_change_inv [OF inv])
      (use left r leader_invD(3) [OF inv] in \<open>auto simp: strays_inv_def run_inv_def\<close>)
  moreover have "run_inv num den micros ?w h
      (r\<lparr>er_elector := after_reply start (Inl m) cur n1 n2 (er_elector r), er_pc := Idle\<rparr>)"
    using run_inv_reply [OF r, of "Inl m"] by (simp add: run_inv_cong [of ?w w])
  moreover have "lw_runs ?w h = Some r" using h by simp
  ultimately show ?thesis
    by (rule leader_inv_set_run) (use left in \<open>auto simp: active_def\<close>)
qed

lemma leader_step_inv:
  assumes "leader_step num den micros w w'" "leader_inv num den micros w" "0 < num" "0 < den"
  shows "leader_inv num den micros w'"
  using assms(1)
proof cases
  case (time d adv)
  show ?thesis unfolding time(1) by (rule time_inv [OF assms(2) time(2-4)])
next
  case (starts h e scope ttl c)
  show ?thesis unfolding starts(1) by (rule new_run_inv [OF assms(2) starts(2-5)])
next
  case (calls h r)
  with leader_invD(1) [OF assms(2) calls(2)] show ?thesis unfolding calls(1)
    by (intro leader_inv_set_run [OF assms(2) _ calls(2)])
      (auto simp: run_inv_def covered_def within_def active_def)
next
  case (begins h r start)
  note r = leader_invD(1) [OF assms(2) begins(2)]
  then have "within num den w r (start + safe_span (el_ttl (er_elector r))) (db_now w + micros (el_ttl (er_elector r)))"
    using begins(3) by (intro within_begins [OF _ _ assms(3,4)]) (auto simp: run_inv_def)
  with r begins(3) show ?thesis unfolding begins(1)
    by (intro leader_inv_set_run [OF assms(2) _ begins(2)])
      (auto simp: run_inv_def covered_def within_def active_def)
next
  case (executes h r start t a tbl)
  show ?thesis unfolding executes(1) by (rule execute_inv [OF assms(2) executes(2-5) assms(3,4)])
next
  case (replies h r start a n1 n2 cur m)
  show ?thesis unfolding replies(1) by (rule reply_inv [OF assms(2) replies(2,3)])
next
  case (fails h r start left t a m cur n1 n2)
  show ?thesis unfolding fails(1) by (rule fail_inv [OF assms(2) fails(2,3)])
next
  case (stray_begins xs h ys)
  show ?thesis unfolding stray_begins(1)
    by (rule strays_change_inv [OF assms(2)])
      (use leader_invD(3) [OF assms(2)] stray_begins(2) in \<open>auto simp: strays_inv_def\<close>)
next
  case (stray_executes xs h t ys r a tbl)
  have st: "\<And>k u. (k, Some u) \<in> set (xs @ (h, Some t) # ys) \<Longrightarrow> u \<le> db_now w"
    using leader_invD(3) [OF assms(2)] stray_executes(2) by (auto simp: strays_inv_def)
  have "leader_inv num den micros (w\<lparr>lw_leases := tbl\<rparr>)"
    by (rule upsert_inv [OF assms(2) stray_executes(3,5) st [of h] stray_executes(4) assms(3,4)]) simp
  from strays_change_inv [OF this, of "xs @ ys"] st
  have "leader_inv num den micros (w\<lparr>lw_leases := tbl, lw_strays := xs @ ys\<rparr>)"
    by (auto simp: db_now_def)
  then show ?thesis unfolding stray_executes(1) .
next
  case (stops h r)
  with leader_invD(1) [OF assms(2) stops(2)] show ?thesis unfolding stops(1)
    by (intro leader_inv_set_run [OF assms(2) _ stops(2)])
      (auto simp: run_inv_def Release_local_def ready_def active_def)
next
  case (stop_begins h r)
  with leader_invD(1) [OF assms(2) stop_begins(2)] show ?thesis unfolding stop_begins(1)
    by (intro leader_inv_set_run [OF assms(2) _ stop_begins(2)]) (auto simp: run_inv_def active_def)
next
  case (stop_executes h r t)
  show ?thesis unfolding stop_executes(1) by (rule release_inv [OF assms(2) stop_executes(2,3)])
qed

lemma leader_reachable_inv:
  assumes "(leader_step num den micros)\<^sup>*\<^sup>* (leader_world0 t0) w" "0 < num" "0 < den"
  shows "leader_inv num den micros w"
  using assms(1)
proof (induction rule: rtranclp_induct)
  case base
  show ?case by (simp add: leader_inv_def leader_world0_def rows_inv_def holders_inv_def strays_inv_def)
next
  case (step w w')
  then show ?case using leader_step_inv assms(2,3) by blast
qed

text \<open>So whoever leads holds the row of its scope, alive, with its own epoch.\<close>

lemma leads_row:
  assumes "(leader_step num den micros)\<^sup>*\<^sup>* (leader_world0 t0) w" "0 < num" "0 < den"
    and "leads w h" "scope_of w h = Some sc"
  shows "\<exists>r row. lw_runs w h = Some r \<and> lw_leases w sc = Some row \<and> lr_holder row = h \<and>
    lr_epoch row = el_epoch (er_elector r) \<and> db_now w < lr_expires_at row"
proof -
  obtain r where r: "lw_runs w h = Some r" "el_held (er_elector r)" "er_clock r < el_deadline (er_elector r)"
      "el_scope (er_elector r) = sc"
    using assms(4,5) by (auto simp: leads_def scope_of_def IsLeader_def leaderLocked_def split: option.splits)
  have inv: "run_inv num den micros w h r" using leader_invD(1) [OF leader_reachable_inv [OF assms(1-3)] r(1)] .
  then obtain row where row: "lw_leases w sc = Some row" "lr_holder row = h" "lr_epoch row = el_epoch (er_elector r)"
      "within num den w r (el_deadline (er_elector r)) (lr_expires_at row)"
    using r by (auto simp: run_inv_def covered_def)
  from within_alive [OF row(4) r(3) assms(2,3)] row(1-3) r(1) show ?thesis by blast
qed


text \<open>Every step of the system writes the lease table by the package's statements, or not at all.\<close>

lemma leader_step_writes:
  assumes "leader_step num den micros w w'"
  shows "lease_write (lw_leases w) (lw_leases w') \<or> lw_leases w' = lw_leases w"
  using assms by cases (auto simp: upsert_def intro: lease_write.intros)

lemma leader_steps_write:
  assumes "(leader_step num den micros)\<^sup>*\<^sup>* w w'"
  shows "lease_write\<^sup>*\<^sup>* (lw_leases w) (lw_leases w')"
  using assms
  by (induction rule: rtranclp_induct) (auto dest: leader_step_writes intro: rtranclp.rtrancl_into_rtrancl)

end
