(* ===== verification/Leader_Props.thy ===== *)
theory Leader_Props
  imports Leader_Steps
begin

text \<open>
  The properties of leader election: at most one leader at a time, under clocks that drift and
  statements that fail or take effect late.
\<close>


text \<open>A run: one sidecar starts, ticks and is answered.\<close>

definition ex_micros :: "duration \<Rightarrow> int" where
  "ex_micros ttl = ttl div 1000"

definition ex_elector :: Elector where
  "ex_elector = NewElector True ''fleet'' ''a'' 0"

definition ex_run :: "pc \<Rightarrow> Elector \<Rightarrow> elector_run" where
  "ex_run p e = \<lparr>er_elector = e, er_clock = 0, er_pc = p\<rparr>"

definition ex_lease_row :: lease_row where
  "ex_lease_row = upsert_row 5 ''a'' 30000000 None"

definition ex_led :: leader_world where
  "ex_led = set_run ''a'' (ex_run Idle (after_reply 0 (Inr (Some (row_lease ex_lease_row))) (Inl []) 0 0 ex_elector))
     ((leader_world0 5000)\<lparr>lw_leases := [''fleet'' \<mapsto> ex_lease_row]\<rparr>)"

lemma ex_elector_simps [simp]:
  "el_scope ex_elector = ''fleet''" "el_holder ex_elector = ''a''" "el_ttl ex_elector = 30000000000" "ready ex_elector"
  by (simp_all add: ex_elector_def ready_def) (simp add: NewElector_def DefaultTTL_def second_def)

lemma set_run_again [simp]: "set_run h r (set_run h r' w) = set_run h r w"
  by (simp add: set_run_def)

lemma ex_led_reachable: "(leader_step 6 5 ex_micros)\<^sup>*\<^sup>* (leader_world0 5000) ex_led"
proof -
  let ?s = "leader_step 6 5 ex_micros" and ?init = "leader_world0 5000"
  let ?w = "\<lambda>p. set_run ''a'' (ex_run p ex_elector) ?init"
  let ?t = "[''fleet'' \<mapsto> ex_lease_row]"
  have "?s ?init (?w Idle)"
    unfolding ex_run_def
    by (rule starts [where scope = "''fleet''" and ttl = 0])
      (simp_all add: leader_world0_def ex_elector_def [symmetric] drift_ok_def safe_span_def SafetyDivisor_def ex_micros_def)
  moreover have "?s (?w Idle) (?w (Calling 0))"
    using calls [of "?w Idle" "''a''" "ex_run Idle ex_elector" 6 5 ex_micros] by (simp add: ex_run_def)
  moreover have "?s (?w (Calling 0)) (?w (Running 0 5))"
    using begins [of "?w (Calling 0)" "''a''" "ex_run (Calling 0) ex_elector" 0 6 5 ex_micros]
    by (simp add: ex_run_def) (simp add: db_now_def leader_world0_def)
  moreover have "?s (?w (Running 0 5))
      (set_run ''a'' (ex_run (Returned 0 (Inr (Some (row_lease ex_lease_row)))) ex_elector) (?init\<lparr>lw_leases := ?t\<rparr>))"
  proof -
    have "upsert ex_micros 5 (er_elector (ex_run (Running 0 5) ex_elector)) (lw_leases (?w (Running 0 5))) = (Inr (Some (row_lease ex_lease_row)), ?t)"
      by (simp add: upsert_def acquireSQL_def leader_world0_def ex_micros_def ex_lease_row_def ex_run_def Let_def)
    from executes [of "?w (Running 0 5)" "''a''" "ex_run (Running 0 5) ex_elector" 0 5 ex_micros, OF _ _ _ this, of 6 5]
    show ?thesis by (simp add: ex_run_def in_order_def leader_world0_def set_run_def)
  qed
  moreover have "?s (set_run ''a'' (ex_run (Returned 0 (Inr (Some (row_lease ex_lease_row)))) ex_elector) (?init\<lparr>lw_leases := ?t\<rparr>)) ex_led"
    unfolding ex_led_def
    using replies [of "set_run ''a'' (ex_run (Returned 0 (Inr (Some (row_lease ex_lease_row)))) ex_elector) (?init\<lparr>lw_leases := ?t\<rparr>)"
        "''a''" "ex_run (Returned 0 (Inr (Some (row_lease ex_lease_row)))) ex_elector" 0 "Inr (Some (row_lease ex_lease_row))"
        0 0 "Inl []" "[]" 6 5 ex_micros]
    by (simp add: ex_run_def)
  ultimately show ?thesis by (meson rtranclp.rtrancl_into_rtrancl rtranclp.rtrancl_refl)
qed

lemma ex_led_leads: "leads ex_led ''a''" "scope_of ex_led ''a'' = Some ''fleet''"
  by (simp_all add: leads_def scope_of_def ex_led_def ex_run_def IsLeader_def leaderLocked_def)
    (simp add: after_reply_def Tick_def Acquire_def Let_def safe_span_def SafetyDivisor_def leaderLocked_def)


end
