(* ===== verification/Siem_Props.thy ===== *)
theory Siem_Props
  imports Siem_Pass Leader_Props Audit_Example
begin

text \<open>
  The properties of the SIEM export: what the cursors promise, what a successful pass has delivered,
  how leadership fences it, and what an event reveals and carries.
\<close>

subsection \<open>Delivery\<close>

text \<open>An export that has not begun: no cursor, and audited databases with honest histories.\<close>

definition fresh_export :: "export_db \<Rightarrow> bool" where
  "fresh_export db = (xd_cursors db = (\<lambda>_. None) \<and> (\<forall>i. audit_step\<^sup>*\<^sup>* audit_db0 (xd_audit db i)))"

lemma numbered_reachable: "audit_step\<^sup>*\<^sup>* audit_db0 a \<Longrightarrow> numbered a"
proof (induction rule: rtranclp_induct)
  case base
  show ?case by (simp add: numbered_def audit_db0_def chain_links_def)
next
  case (step a b)
  then show ?case using audit_step_grows grows_numbered by blast
qed

lemma fresh_inv:
  assumes "fresh_export db0" "export_steps lib dbof db0 db"
  shows "export_inv lib dbof db"
  using export_steps_inv [OF assms(2)] assms(1) numbered_reachable
  by (simp add: fresh_export_def export_inv_def)



text \<open>A delivery pass always returns, whatever others do and whichever calls fail: every round of
  the loop over a chain uses up an event of the world around it or leaves fewer links after the
  cursor.\<close>

theorem pass_returns:
  "\<exists>r w'. pass lib opts pool ns sources allowed w = Some (r, w')"
  using pass_total [of lib opts pool ns sources allowed w] by auto

subsection \<open>Fencing\<close>


text \<open>The shared state as a call finds it.\<close>

definition left_by_others :: "export_world \<Rightarrow> export_db" where
  "left_by_others w = (case xw_script w of [] \<Rightarrow> xw_db w | ev # _ \<Rightarrow> xe_others ev (xw_db w))"

lemma xcall_left: "xcall f w = (r, w') \<Longrightarrow> \<exists>fault. f fault (left_by_others w) = (r, xw_db w')"
  by (auto simp: xcall_def left_by_others_def split: list.splits prod.splits)

lemma left_by_others_steps: "script_ok lib dbof w \<Longrightarrow> export_steps lib dbof (xw_db w) (left_by_others w)"
  by (auto simp: left_by_others_def script_ok_def split: list.split)

lemma fence_lost_for_good:
  assumes "lease_write\<^sup>*\<^sup>* (xd_leases db) (xd_leases db')" "fenceSQL f db"
    and "xd_leases db' (fn_Scope f) = Some row" "lr_holder row \<noteq> fn_Holder f"
    and "lease_write\<^sup>*\<^sup>* (xd_leases db') (xd_leases db'')"
  shows "\<not> fenceSQL f db''"
proof -
  obtain r0 where r0: "xd_leases db (fn_Scope f) = Some r0" "lr_holder r0 = fn_Holder f" "lr_epoch r0 = fn_Epoch f"
    using assms(2) by (auto simp: fenceSQL_def split: option.splits)
  have "fn_Epoch f < lr_epoch row"
    using leases.kept_for_good [OF assms(1) r0(1)] assms(3,4) r0 by auto
  moreover obtain r2 where "xd_leases db'' (fn_Scope f) = Some r2" "lr_epoch row \<le> lr_epoch r2"
    using leases.kept_for_good [OF assms(5,3)] by fastforce
  ultimately show ?thesis by (simp add: fenceSQL_def)
qed

text \<open>C18: A deposed leader cannot move a cursor: once another sidecar has taken the lease, every later
  save under the old fence fails and writes nothing, even if the old holder takes the lease again.\<close>

theorem deposed_leader_cannot_save:
  assumes "export_steps lib dbof db db'" "fenceSQL f db" "fn_Holder f \<noteq> []"
    and "xd_leases db' (fn_Scope f) = Some row" "lr_holder row \<noteq> fn_Holder f"
    and "export_steps lib dbof db' (xw_db w)" "script_ok lib dbof w"
    and "Save True f sink source chain n w = (r, w')"
  shows "r \<noteq> Inr () \<and> xw_db w' = left_by_others w"
proof -
  have "lease_write\<^sup>*\<^sup>* (xd_leases db') (xd_leases (left_by_others w))"
    using export_steps_leases [OF rtranclp_trans [OF assms(6) left_by_others_steps [OF assms(7)]]] .
  from fence_lost_for_good [OF export_steps_leases [OF assms(1)] assms(2,4,5) this]
  have lost: "\<not> fenceSQL f (left_by_others w)" .
  obtain fault where "save_tx f sink source chain n fault (left_by_others w) = (r, xw_db w')"
    using xcall_left [of "save_tx f sink source chain n" w r w'] assms(8) by (auto simp: Save_def)
  with lost assms(3) show ?thesis
    by (auto simp: save_tx_def Let_def split: option.splits fault.splits if_splits)
qed


subsection \<open>Events\<close>

text \<open>Two rows that differ in nothing but the old and the new value.\<close>

definition differ_in_values :: "gmap \<Rightarrow> gmap \<Rightarrow> bool" where
  "differ_in_values =
     list_all2 (\<lambda>(k, v) (k', v'). k' = k \<and> (k = ''old_value'' \<or> k = ''new_value'' \<or> v' = v))"

lemma differ_mget:
  assumes "differ_in_values m m'" "k \<noteq> ''old_value''" "k \<noteq> ''new_value''"
  shows "mget m' k = mget m k"
  using assms unfolding differ_in_values_def
  by (induction m m' rule: list_all2_induct) (auto simp: mget_def split: if_splits)

lemma differ_redacted:
  assumes "differ_in_values m m'"
  shows "map (\<lambda>(k, v). (k, if k = ''old_value'' \<or> k = ''new_value'' then GStr ''(redacted)'' else v)) m' =
    map (\<lambda>(k, v). (k, if k = ''old_value'' \<or> k = ''new_value'' then GStr ''(redacted)'' else v)) m"
  using assms unfolding differ_in_values_def by (induction m m' rule: list_all2_induct) auto

lemma credential_keys_hidden: "mayCarryCredential key \<Longrightarrow> \<not> exportableConfigKey lib key"
  by (auto simp: exportableConfigKey_def DescribeField_def split: option.splits)


text \<open>The link as a receiver reads it off an event.\<close>

definition as_str :: "gval \<Rightarrow> string" where
  "as_str v = (case v of GStr s \<Rightarrow> s | _ \<Rightarrow> [])"

definition as_int :: "gval \<Rightarrow> int" where
  "as_int v = (case v of GInt i \<Rightarrow> i | _ \<Rightarrow> 0)"

definition event_link :: "Event \<Rightarrow> Link" where
  "event_link e =
     (let p = event_proof e; actor = as_map (mget e ''actor'')
      in \<lparr>lk_Seq = as_int (mget p ''seq''), lk_RowID = as_int (mget p ''row_id''), lk_Op = as_str (mget p ''op''),
          lk_V = as_int (mget p ''v''), lk_SealedHash = as_str (mget p ''sealed_hash''),
          lk_State = as_str (mget p ''state''), lk_PrevHash = as_str (mget p ''prev_hash''),
          lk_Hash = as_str (mget p ''hash''), lk_At = as_int (mget e ''time'') * 1000000,
          lk_DBUser = as_str (mget (as_map (mget actor ''user'')) ''name''),
          lk_App = as_str (mget actor ''app_name'')\<rparr>)"

lemma chainProof_fields:
  "mget (chainProof lib r) ''seq'' = GInt (lk_Seq (rc_Link r))" "mget (chainProof lib r) ''row_id'' = GInt (lk_RowID (rc_Link r))"
  "mget (chainProof lib r) ''op'' = GStr (lk_Op (rc_Link r))" "mget (chainProof lib r) ''v'' = GInt (lk_V (rc_Link r))"
  "mget (chainProof lib r) ''sealed_hash'' = GStr (lk_SealedHash (rc_Link r))"
  "mget (chainProof lib r) ''state'' = GStr (lk_State (rc_Link r))"
  "mget (chainProof lib r) ''prev_hash'' = GStr (lk_PrevHash (rc_Link r))"
  "mget (chainProof lib r) ''hash'' = GStr (lk_Hash (rc_Link r))"
  by (simp_all add: chainProof_def mget_def Let_def)

lemma event_base_fields:
  "mget (event_base lib r m) ''time'' = GInt (UnixMilli (lk_At (rc_Link r)))"
  "mget (event_base lib r m) ''actor'' =
     GMap [(''app_name'', GStr (lk_App (rc_Link r))), (''user'', GMap [(''name'', GStr (lk_DBUser (rc_Link r)))])]"
  by (simp_all add: event_base_def mget_def Let_def)

text \<open>Every event carries its chain link: whatever was truncated or redacted to export it, a
  receiver reads the link off the event again, with its time to the millisecond, so the receiver's
  copy verifies exactly when the link does.\<close>

theorem event_carries_link:
  "event_link (Map lib r) = (rc_Link r)\<lparr>lk_At := UnixMilli (lk_At (rc_Link r)) * 1000000\<rparr> \<and>
   (LinkHash (event_link (Map lib r)) = lk_Hash (event_link (Map lib r)) \<longleftrightarrow>
    LinkHash (rc_Link r) = lk_Hash (rc_Link r))"
proof -
  have "event_link (Map lib r) = (rc_Link r)\<lparr>lk_At := UnixMilli (lk_At (rc_Link r)) * 1000000\<rparr>"
    by (simp add: event_link_def Let_def event_proof_Map chainProof_fields Map_field extra_keys_def event_base_fields
        as_int_def as_str_def as_map_def mget_Cons)
  then show ?thesis by (simp add: LinkHash_def preimage_def)
qed

lemma length_Marshal_mget:
  assumes "mget m k = v" "v \<noteq> GNil"
  shows "length (Marshal v) + 2 \<le> length (Marshal (GMap m))"
proof -
  have "(k, v) \<in> set m" using assms by (auto simp: mget_def split: option.splits dest: map_of_SomeD)
  then show ?thesis by (rule length_Marshal_map)
qed

lemma as_map_mget: "mget m k \<noteq> GNil \<Longrightarrow> as_map v = m \<Longrightarrow> v = GMap m"
  by (auto simp: as_map_def mget_def split: gval.splits)

text \<open>The size limit of an event is not kept: the state of a link is copied whole, so an event of a
  link with a state longer than the limit is longer than the limit, after the row copy and the query
  were dropped to make it fit.\<close>

theorem event_over_limit:
  assumes "MaxEventBytes < length (lk_State (rc_Link r))"
  shows "MaxEventBytes < length (Marshal (GMap (Map lib r)))"
proof -
  let ?p = "event_proof (Map lib r)" and ?u = "as_map (mget (Map lib r) ''unmapped'')"
  have state: "mget ?p ''state'' = GStr (lk_State (rc_Link r))" by (simp add: event_proof_Map chainProof_fields)
  then have p: "mget ?u ''pg_sage'' = GMap ?p" by (intro as_map_mget [of _ "''state''"]) (simp_all add: event_proof_def)
  then have u: "mget (Map lib r) ''unmapped'' = GMap ?u" by (intro as_map_mget [of _ "''pg_sage''"]) simp_all
  have "length (lk_State (rc_Link r)) \<le> length (Marshal (GStr (lk_State (rc_Link r))))"
    using length_Marshal_str [of "lk_State (rc_Link r)"] by linarith
  also have "\<dots> \<le> length (Marshal (GMap ?p))" using length_Marshal_mget [OF state] by simp
  also have "\<dots> \<le> length (Marshal (GMap ?u))" using length_Marshal_mget [OF p] by simp
  also have "\<dots> \<le> length (Marshal (GMap (Map lib r)))" using length_Marshal_mget [OF u] by simp
  finally show ?thesis using assms by simp
qed


subsection \<open>Witnesses\<close>

definition ex_siem_lib :: siem_lib where
  "ex_siem_lib = \<lparr>sl_fields = (\<lambda>_. None), sl_array = (\<lambda>_. None), sl_row = (\<lambda>_ _. [])\<rparr>"

definition ex_export :: "(nat \<Rightarrow> audit_db) \<Rightarrow> export_db" where
  "ex_export dbs = \<lparr>xd_leases = (\<lambda>_. None), xd_now = 0, xd_cursors = (\<lambda>_. None), xd_audit = dbs, xd_sent = []\<rparr>"

definition ex_exporting :: "export_db \<Rightarrow> export_world" where
  "ex_exporting db = \<lparr>xw_db = db, xw_script = [], xw_status = new_status ''siem'', xw_clock = 0\<rparr>"

definition ex_options :: Options where
  "ex_options = NewExporter_opts \<lparr>op_BatchSize = 0, op_Interval = 0, op_MaxBackoff = 0\<rparr>"

definition ex_orders :: Source where
  "ex_orders = \<lparr>so_Name = ''orders'', so_DB = 0\<rparr>"

definition ex_record :: "string \<Rightarrow> audit_db \<Rightarrow> Link \<Rightarrow> Record" where
  "ex_record source = record_of ex_siem_lib source ''action_log''"

definition ex_moved :: "string \<Rightarrow> audit_db \<Rightarrow> Link list \<Rightarrow> export_world \<Rightarrow> export_world" where
  "ex_moved source a ls w = note_delivered (length ls)
     (w\<lparr>xw_db := move_cursor (''siem'', source, ''action_log'') (lk_Seq (last ls))
         ((xw_db w)\<lparr>xd_sent := xd_sent (xw_db w) @ [(''siem'', map (Map ex_siem_lib \<circ> ex_record source a) ls)]\<rparr>)\<rparr>)"

lemma ex_batch: "batch_size ex_options = 200" "0 < op_BatchSize ex_options"
  by (simp_all add: batch_size_def ex_options_def NewExporter_opts_def second_def)

lemma ex_SpecFor: "SpecFor ''action_log'' = Some ActionLog"
  by (simp add: SpecFor_def Specs_def ActionLog_def)

text \<open>One round of a quiet world sends what is after the cursor and moves the cursor to its end.\<close>

lemma ex_round:
  assumes "xw_script w = []" "sk_Name (xw_status w) = ''siem''" "ad_Rows (xd_audit (xw_db w) (so_DB src)) ''sage.action_log'' \<noteq> None"
    and ls: "links_after ''action_log'' (cursor_at ''siem'' src ''action_log'' (xw_db w)) (xd_audit (xw_db w) (so_DB src)) = ls"
    and "length ls < 200"
  shows "drain ex_siem_lib ex_options True src ''action_log'' no_fence w =
    Some (Inr (), if ls = [] then w else ex_moved (so_Name src) (xd_audit (xw_db w) (so_DB src)) ls w)"
proof -
  let ?a = "xd_audit (xw_db w) (so_DB src)"
  have L: "Load True ''siem'' (so_Name src) ''action_log'' w = (Inr (cursor_at ''siem'' src ''action_log'' (xw_db w)), w)"
    using assms(1) by (simp add: Load_def xquery_def xcall_def cursor_at_def)
  have R: "readRecords ex_siem_lib src ''action_log'' (cursor_at ''siem'' src ''action_log'' (xw_db w)) 200 w =
      (Inr (map (ex_record (so_Name src) ?a) ls), w)"
    using assms(1,3,5) ls by (auto simp: readRecords_def xquery_def xcall_def Let_def ex_SpecFor ActionLog_def ex_record_def)
  show ?thesis
  proof (cases "ls = []")
    case True
    then show ?thesis by (simp add: drain_unfold drain_round_def assms(2) L R ex_batch(1))
  next
    case False
    then have "rc_Link (last (map (ex_record (so_Name src) ?a) ls)) = last ls"
      by (simp add: last_map ex_record_def record_of_def)
    with False assms(1,5) show ?thesis
      by (simp add: drain_unfold drain_round_def assms(2) L R ex_batch(1) Send_def Save_def xcall_def save_tx_def
          no_fence_def ex_moved_def Let_def)
  qed
qed


definition ex_start :: export_world where
  "ex_start = ex_exporting (ex_export (\<lambda>_. ex_inserted))"

definition ex_end :: export_world where
  "ex_end = snd (succeed (ex_moved ''orders'' ex_inserted [ex_insert] ex_start))"

lemma ex_start_simps [simp]:
  "xw_db ex_start = ex_export (\<lambda>_. ex_inserted)" "xw_script ex_start = []" "sk_Name (xw_status ex_start) = ''siem''"
  "xd_audit (ex_export dbs) = dbs" "xd_cursors (ex_export dbs) = (\<lambda>_. None)" "xd_sent (ex_export dbs) = []"
  by (simp_all add: ex_start_def ex_exporting_def ex_export_def new_status_def)

lemma ex_installed: "Installed i w = (Inr [''action_log''], w)" if "xw_script w = []" "xd_audit (xw_db w) i = ex_log links rows"
  using that by (simp add: Installed_def xquery_def xcall_def ex_log_def)

lemma ex_pass: "pass ex_siem_lib ex_options True [] [ex_orders] (no_fence, True) ex_start = Some (Inr (), ex_end)"
proof -
  have "drain ex_siem_lib ex_options True ex_orders ''action_log'' no_fence ex_start =
      Some (Inr (), ex_moved ''orders'' ex_inserted [ex_insert] ex_start)"
    using ex_round [of ex_start ex_orders "[ex_insert]"]
    by (simp add: ex_orders_def cursor_at_def links_after_def ex_inserted_def) (simp add: ex_insert_def)
  then show ?thesis
    by (simp add: pass_def CheckFence_def no_fence_def [THEN arg_cong [of _ _ fn_Holder]] ex_installed
        ex_inserted_def wants_def ex_end_def succeed_def)
qed

lemma ex_end_cursor: "xd_cursors (xw_db ex_end) (''siem'', ''orders'', ''action_log'') = Some 1"
  "ex_insert \<in> set (source_links (\<lambda>_. 0) ''orders'' ''action_log'' (xw_db ex_end))" "lk_Seq ex_insert \<le> 1"
  by (simp_all add: ex_end_def succeed_def ex_moved_def move_cursor_def source_links_def ex_inserted_def) (simp_all add: ex_insert_def)

lemma ex_fresh: "fresh_export (ex_export (\<lambda>_. ex_inserted))"
  by (simp add: fresh_export_def ex_reachable)



text \<open>The leader of \<^verbatim>\<open>Leader_Props\<close> exports under its fence; then another sidecar takes the lease.\<close>

definition ex_fence :: Fence where
  "ex_fence = \<lparr>fn_Scope = ''fleet'', fn_Holder = ''a'', fn_Epoch = 1\<rparr>"

definition ex_leased :: "lease_table \<Rightarrow> instant \<Rightarrow> export_db" where
  "ex_leased tbl now = (ex_export (\<lambda>_. ex_inserted))\<lparr>xd_leases := tbl, xd_now := now\<rparr>"


definition ex_table :: "string \<Rightarrow> int \<Rightarrow> instant \<Rightarrow> lease_table" where
  "ex_table holder epoch now = [''fleet'' \<mapsto> \<lparr>lr_holder = holder, lr_epoch = epoch, lr_acquired_at = now,
     lr_renewed_at = now, lr_expires_at = now + 30\<rparr>]"

lemma ex_takeover: "export_steps ex_siem_lib (\<lambda>_. 0) (ex_leased (ex_table ''a'' 1 0) 5) (ex_leased (ex_table ''b'' 2 40) 40)"
proof -
  let ?s = "export_step ex_siem_lib (\<lambda>_. 0)"
  have "?s (ex_leased (ex_table ''a'' 1 0) 5) (ex_leased (ex_table ''a'' 1 0) 40)"
    using time_passes [of "ex_leased (ex_table ''a'' 1 0) 5" 40] by (simp add: ex_leased_def)
  moreover have "acquireSQL 40 ''fleet'' ''b'' 30 (ex_table ''a'' 1 0) = (Inr (Some (row_lease (upsert_row 40 ''b'' 30 (ex_table ''a'' 1 0 ''fleet'')))), ex_table ''b'' 2 40)"
    by (simp add: acquireSQL_def ex_table_def upsert_row_def Let_def fits64_def min64_def max64_def)
  then have "?s (ex_leased (ex_table ''a'' 1 0) 40) (ex_leased (ex_table ''b'' 2 40) 40)"
    using leases_to [of "ex_leased (ex_table ''a'' 1 0) 40" "ex_table ''b'' 2 40"]
    by (simp add: ex_leased_def ex_export_def lease_write.acquired)
  ultimately show ?thesis by (meson rtranclp.rtrancl_into_rtrancl rtranclp.rtrancl_refl)
qed

theorem deposed_leader_cannot_save_witness:
  "fst (Save True ex_fence ''siem'' ''orders'' ''action_log'' 1 (ex_exporting (ex_leased (ex_table ''b'' 2 40) 40))) \<noteq> Inr ()"
proof -
  let ?w = "ex_exporting (ex_leased (ex_table ''b'' 2 40) 40)"
  have "fenceSQL ex_fence (ex_leased (ex_table ''a'' 1 0) 5)"
    by (simp add: fenceSQL_def ex_fence_def ex_leased_def ex_table_def)
  moreover have "xd_leases (ex_leased (ex_table ''b'' 2 40) 40) (fn_Scope ex_fence) =
      Some \<lparr>lr_holder = ''b'', lr_epoch = 2, lr_acquired_at = 40, lr_renewed_at = 40, lr_expires_at = 70\<rparr>"
    by (simp add: ex_fence_def ex_leased_def ex_table_def)
  ultimately show ?thesis
    using deposed_leader_cannot_save [OF ex_takeover, of ex_fence _ ?w "''siem''" "''orders''" "''action_log''" 1
        "fst (Save True ex_fence ''siem'' ''orders'' ''action_log'' 1 ?w)" "snd (Save True ex_fence ''siem'' ''orders'' ''action_log'' 1 ?w)"]
    by (simp add: ex_fence_def ex_exporting_def script_ok_def)
qed

definition ex_config :: "string \<Rightarrow> Record" where
  "ex_config v = \<lparr>rc_Source = ''control'', rc_Chain = ''config_audit'', rc_Link = ex_insert,
     rc_Row = Some [(''key'', GStr ''llm.api_key''), (''old_value'', GNil), (''new_value'', GStr v)]\<rparr>"


definition ex_long :: Record where
  "ex_long = \<lparr>rc_Source = ''orders'', rc_Chain = ''action_log'',
     rc_Link = ex_insert\<lparr>lk_State := replicate 60001 (CHR ''x'')\<rparr>, rc_Row = None\<rparr>"

theorem event_over_limit_witness: "MaxEventBytes < length (Marshal (GMap (Map ex_siem_lib ex_long)))"
  by (rule event_over_limit) (simp add: ex_long_def MaxEventBytes_def)


subsection \<open>Sources that share a name\<close>

text \<open>A fleet with a database called \<^verbatim>\<open>control\<close>, beside a control database of its own.\<close>

definition ex_other :: Link where
  "ex_other = ex_link 1 ''I'' ''[c]'' Genesis"

definition ex_two :: "nat \<Rightarrow> audit_db" where
  "ex_two i = (if i = 0 then ex_updated else ex_log [ex_other] [ex_log_row ''[c]''])"

definition ex_sources :: "Source list" where
  "ex_sources = auditSources (Some 1) [(''control'', Some 0)]"

definition ex_passed :: export_world where
  "ex_passed = ex_moved ''control'' ex_updated [ex_insert, ex_update] (ex_exporting (ex_export ex_two))"

lemma ex_sources_eq: "ex_sources = [\<lparr>so_Name = ''control'', so_DB = 0\<rparr>, \<lparr>so_Name = ''control'', so_DB = 1\<rparr>]"
  by (simp add: ex_sources_def auditSources_def)

lemma ex_passed_simps [simp]:
  "xw_script ex_passed = []" "sk_Name (xw_status ex_passed) = ''siem''" "xd_audit (xw_db ex_passed) = ex_two"
  "xd_cursors (xw_db ex_passed) (''siem'', ''control'', ''action_log'') = Some 2"
  by (simp_all add: ex_passed_def ex_moved_def ex_exporting_def new_status_def move_cursor_def) (simp add: ex_update_def)

lemma ex_pass_two:
  "pass ex_siem_lib ex_options True [] ex_sources (no_fence, True) (ex_exporting (ex_export ex_two)) = Some (succeed ex_passed)"
proof -
  let ?w = "ex_exporting (ex_export ex_two)"
  let ?s1 = "\<lparr>so_Name = ''control'', so_DB = 0\<rparr>" and ?s2 = "\<lparr>so_Name = ''control'', so_DB = 1\<rparr>"
  have w: "xw_script ?w = []" "sk_Name (xw_status ?w) = ''siem''" "xw_db ?w = ex_export ex_two"
    by (simp_all add: ex_exporting_def new_status_def)
  have "drain ex_siem_lib ex_options True ?s1 ''action_log'' no_fence ?w = Some (Inr (), ex_passed)"
    using ex_round [of ?w ?s1 "[ex_insert, ex_update]"] w
    by (simp add: cursor_at_def links_after_def ex_two_def ex_updated_def ex_passed_def) (simp add: ex_insert_def ex_update_def)
  moreover have "drain ex_siem_lib ex_options True ?s2 ''action_log'' no_fence ex_passed = Some (Inr (), ex_passed)"
    using ex_round [of ex_passed ?s2 "[]"]
    by (simp add: cursor_at_def links_after_def ex_two_def) (simp add: ex_other_def)
  moreover have "Installed 0 ?w = (Inr [''action_log''], ?w)" "Installed 1 ex_passed = (Inr [''action_log''], ex_passed)"
    using w by (auto intro!: ex_installed simp: ex_two_def ex_updated_def)
  ultimately show ?thesis
    by (simp add: pass_def CheckFence_def no_fence_def [THEN arg_cong [of _ _ fn_Holder]] ex_sources_eq wants_def)
qed

text \<open>The cursors are kept by the name of a source, and a fleet database called
  control shares its cursors with the control database: a pass over both reports success
  while a link of the second was never sent and, being behind the cursor, never will be.\<close>

theorem shared_source_name_skips:
  "\<exists>w'. pass ex_siem_lib ex_options True [] ex_sources (no_fence, True) (ex_exporting (ex_export ex_two)) = Some (Inr (), w') \<and>
     chain_links ''action_log'' (xd_audit (xw_db w') 1) = [ex_other] \<and>
     xd_cursors (xw_db w') (''siem'', ''control'', ''action_log'') = Some 2 \<and>
     list_all (\<lambda>(_, batch). list_all (\<lambda>e. lk_State (event_link e) \<noteq> lk_State ex_other) batch) (xd_sent (xw_db w'))"
proof -
  have st: "lk_State (event_link (Map lib (ex_record source a l))) = lk_State l" for lib source a l
    by (simp add: event_link_def Let_def event_proof_Map chainProof_fields as_str_def) (simp add: ex_record_def record_of_def)
  have sent: "xd_sent (xw_db ex_passed) = [(''siem'', map (Map ex_siem_lib \<circ> ex_record ''control'' ex_updated) [ex_insert, ex_update])]"
    by (simp add: ex_passed_def ex_moved_def ex_exporting_def)
  have "list_all (\<lambda>(_, batch). list_all (\<lambda>e. lk_State (event_link e) \<noteq> lk_State ex_other) batch) (xd_sent (xw_db ex_passed))"
    by (simp add: sent st) (simp add: ex_insert_def ex_update_def ex_other_def)
  moreover have "chain_links ''action_log'' (ex_two 1) = [ex_other]" by (simp add: ex_two_def)
  ultimately show ?thesis using ex_pass_two by (simp add: succeed_def)
qed

text \<open>A number of the row is rendered as \<^verbatim>\<open>fmt.Sprint\<close> renders a \<^verbatim>\<open>float64\<close>, so the id of
  the millionth user is not its decimal.\<close>

lemma user_id_rendering: "str (Some [(''target_user_id'', GFloat (Decimal False [1, 2, 3, 4, 5, 6, 7] 7))]) ''target_user_id'' = ''1.234567e+06''"
  by code_simp

end
