(* ===== verification/Go_Error.thy ===== *)
theory Go_Error
  imports Prelude
begin

text \<open>
  Go errors as trees: a text, an error wrapped by \<^verbatim>\<open>%w\<close> with the texts around it, joined
  errors, and the two typed errors of agent governance, a denial
  (\<^verbatim>\<open>agentguard.DeniedError\<close>) and a refused label (\<^verbatim>\<open>envbind.RefusedError\<close>) with
  their reason, detail and fix.
\<close>

text \<open>The verb \<^verbatim>\<open>%q\<close>: quotes, backslashes and the ASCII control characters are escaped; the
  bytes of a character beyond ASCII stay, as they do for a printable one.\<close>

definition quote_escape :: "char \<Rightarrow> string" where
  "quote_escape c =
     (let n = of_char c :: nat; esc = (\<lambda>t. CHR 0x5C # t)
      in if n = 34 \<or> n = 92 then esc [c]
         else if n = 7 then esc ''a'' else if n = 8 then esc ''b'' else if n = 12 then esc ''f''
         else if n = 10 then esc ''n'' else if n = 13 then esc ''r'' else if n = 9 then esc ''t''
         else if n = 11 then esc ''v''
         else if n < 32 \<or> n = 127
         then esc [CHR ''x'', ''0123456789abcdef'' ! (n div 16), ''0123456789abcdef'' ! (n mod 16)]
         else [c])"

definition quoted :: "string \<Rightarrow> string" where
  "quoted s = CHR 0x22 # concat (map quote_escape s) @ [CHR 0x22]"

datatype go_error =
    ErrorText string
  | Wrap string go_error string
  | Joined "go_error list"
  | DeniedError string string string
  | RefusedError string string string

definition ErrLabelRefused :: go_error where
  "ErrLabelRefused = ErrorText ''envbind: environment label refused''"

fun errors_Is :: "go_error \<Rightarrow> go_error \<Rightarrow> bool" where
  "errors_Is (ErrorText s) t \<longleftrightarrow> ErrorText s = t"
| "errors_Is (Wrap p e q) t \<longleftrightarrow> errors_Is e t"
| "errors_Is (Joined es) t \<longleftrightarrow> (\<exists>e\<in>set es. errors_Is e t)"
| "errors_Is (DeniedError r d f) t \<longleftrightarrow> False"
| "errors_Is (RefusedError r d f) t \<longleftrightarrow> ErrLabelRefused = t"

fun Error_text :: "go_error \<Rightarrow> string" where
  "Error_text (ErrorText s) = s"
| "Error_text (Wrap p e q) = p @ Error_text e @ q"
| "Error_text (Joined es) = Join (map Error_text es) [CHR 0x0A]"
| "Error_text (DeniedError r d f) =
     ''agentguard: denied: '' @ r @ (if d = [] then [] else '': '' @ d)"
| "Error_text (RefusedError r d f) = ''envbind: environment label refused'' @ '': '' @ r @ '': '' @ d"

text \<open>\<^verbatim>\<open>IsDenied\<close>: the first denial in the chain.\<close>

fun IsDenied :: "go_error \<Rightarrow> (string \<times> string \<times> string) option" where
  "IsDenied (DeniedError r d f) = Some (r, d, f)"
| "IsDenied (Wrap p e q) = IsDenied e"
| "IsDenied (Joined es) = foldr (\<lambda>e q. case IsDenied e of None \<Rightarrow> q | Some x \<Rightarrow> Some x) es None"
| "IsDenied _ = None"

text \<open>\<^verbatim>\<open>errors.Join\<close> drops nil errors and is nil when none is left.\<close>

definition errors_Join :: "go_error option list \<Rightarrow> go_error option" where
  "errors_Join es = (case List.map_filter id es of [] \<Rightarrow> None | xs \<Rightarrow> Some (Joined xs))"

end
