(* ===== verification/Rollout.thy ===== *)
theory Rollout
  imports Float64 Go_Error
begin

text \<open>
  The rollout engine of \<^verbatim>\<open>sidecar/internal/rollout\<close> (\<^verbatim>\<open>types.go\<close>,
  \<^verbatim>\<open>policy.go\<close>, \<^verbatim>\<open>engine.go\<close>): policies and their inheritance, and a
  rollout that re-verifies, applies and measures one instance after another. The engine's
  \<^verbatim>\<open>ReVerifier\<close>, \<^verbatim>\<open>Applier\<close> and \<^verbatim>\<open>Rollbacker\<close> are a record of functions over
  a world, which they may change in any way; the world also decides when the context is cancelled.
  A map of instance results is a
  function to options; a nil slice is the empty list.
\<close>

subsection \<open>Errors\<close>

definition ErrPolicyUnavailable :: go_error where
  "ErrPolicyUnavailable = ErrorText ''rollout policy unavailable''"
definition ErrInvalidPolicy :: go_error where
  "ErrInvalidPolicy = ErrorText ''invalid rollout policy''"
definition ErrPriorRequired :: go_error where
  "ErrPriorRequired = ErrorText ''validated prior is required''"
definition context_Canceled :: go_error where
  "context_Canceled = ErrorText ''context canceled''"

subsection \<open>Floating point\<close>

text \<open>The sum and the quotient of two \<^verbatim>\<open>float64\<close> values: rounding to 53 bits, below the
  normal range to the subnormal grid, above the range to an infinity.\<close>

definition ieee :: "rat \<Rightarrow> float64" where
  "ieee x =
     (if \<bar>x\<bar> < 1 / 2 ^ 1022 then Finite (of_int (round_even (x * 2 ^ 1074)) / 2 ^ 1074)
      else if \<bar>f64 x\<bar> \<ge> 2 ^ 1024 then Infinite (0 < x)
      else Finite (f64 x))"

fun float_add :: "float64 \<Rightarrow> float64 \<Rightarrow> float64" where
  "float_add (Finite a) (Finite b) = ieee (a + b)"
| "float_add (Infinite p) (Infinite q) = (if p = q then Infinite p else NaN)"
| "float_add (Infinite p) (Finite b) = Infinite p"
| "float_add (Finite a) (Infinite q) = Infinite q"
| "float_add _ _ = NaN"

text \<open>The quotient by a positive count.\<close>

fun float_quot :: "float64 \<Rightarrow> nat \<Rightarrow> float64" where
  "float_quot (Finite a) n = ieee (a / of_nat n)"
| "float_quot (Infinite p) n = Infinite p"
| "float_quot NaN n = NaN"

subsection \<open>Policies\<close>

record RolloutPolicy =
  ro_CanaryInstances :: int
  ro_MaxAffectedInstances :: int
  ro_AggregateRegressionLimitPct :: float64
  ro_RequireLocalReverification :: bool
  ro_Sources :: "string list"

record PolicyPatch =
  pp_CanaryInstances :: "int option"
  pp_MaxAffectedInstances :: "int option"
  pp_AggregateRegressionLimitPct :: "float64 option"
  pp_RequireLocalReverification :: "bool option"

record PolicySet =
  ps_FleetDefault :: "RolloutPolicy option"
  ps_ClassDefaults :: "string \<Rightarrow> PolicyPatch option"
  ps_TagDefaults :: "string \<Rightarrow> PolicyPatch option"
  ps_InstanceOverrides :: "string \<Rightarrow> PolicyPatch option"

record Instance =
  in_ID :: string
  in_Class :: string
  in_Tags :: "string list"

definition or_else :: "'a option \<Rightarrow> 'a \<Rightarrow> 'a" where
  "or_else q d = (case q of None \<Rightarrow> d | Some x \<Rightarrow> x)"

definition applyPatch :: "PolicyPatch \<Rightarrow> RolloutPolicy \<Rightarrow> RolloutPolicy" where
  "applyPatch patch p =
     p\<lparr>ro_CanaryInstances := or_else (pp_CanaryInstances patch) (ro_CanaryInstances p),
       ro_MaxAffectedInstances := or_else (pp_MaxAffectedInstances patch) (ro_MaxAffectedInstances p),
       ro_AggregateRegressionLimitPct :=
         or_else (pp_AggregateRegressionLimitPct patch) (ro_AggregateRegressionLimitPct p),
       ro_RequireLocalReverification :=
         or_else (pp_RequireLocalReverification patch) (ro_RequireLocalReverification p)\<rparr>"

definition validatePolicy :: "RolloutPolicy \<Rightarrow> go_error + unit" where
  "validatePolicy p =
     (if ro_CanaryInstances p \<le> 0 \<or> ro_MaxAffectedInstances p \<le> 0 \<or>
         ro_CanaryInstances p > ro_MaxAffectedInstances p \<or>
         float_less (ro_AggregateRegressionLimitPct p) (Finite 0) \<or>
         \<not> ro_RequireLocalReverification p
      then Inl ErrInvalidPolicy else Inr ())"

text \<open>One layer of \<^verbatim>\<open>Resolve\<close>: the patch of a key, if there is one, and its name among
  the sources.\<close>

definition overlay :: "(string \<Rightarrow> PolicyPatch option) \<Rightarrow> string \<Rightarrow> string \<Rightarrow> RolloutPolicy \<Rightarrow> RolloutPolicy" where
  "overlay patches kind key p =
     (case patches key of
        None \<Rightarrow> p
      | Some patch \<Rightarrow>
          let q = applyPatch patch p in q\<lparr>ro_Sources := ro_Sources q @ [kind @ '':'' @ key]\<rparr>)"

definition Resolve :: "PolicySet \<Rightarrow> Instance \<Rightarrow> go_error + RolloutPolicy" where
  "Resolve ps inst =
     (case ps_FleetDefault ps of
        None \<Rightarrow> Inl ErrPolicyUnavailable
      | Some fleet \<Rightarrow>
          let base = fleet\<lparr>ro_Sources := [''fleet'']\<rparr>;
              classed = overlay (ps_ClassDefaults ps) ''class'' (in_Class inst) base;
              tagged = fold (overlay (ps_TagDefaults ps) ''tag'') (in_Tags inst) classed;
              result = overlay (ps_InstanceOverrides ps) ''instance'' (in_ID inst) tagged
          in ebind (validatePolicy result) (\<lambda>_. Inr result))"

subsection \<open>Requests, outcomes and results\<close>

record Prior =
  pr_EvidenceID :: string
  pr_ValidatedInstanceID :: string
  pr_Intent :: string

record RolloutRequest =
  rq_Prior :: Prior
  rq_Instances :: "Instance list"
  rq_Policy :: RolloutPolicy

record Reverification =
  rv_Eligible :: bool
  rv_Reason :: string
  rv_LocalEvidenceID :: string

record AppliedChange =
  ac_Handle :: string

record RolloutOutcome =
  om_RegressionPct :: float64
  om_EvidenceID :: string
  om_Failed :: bool
  om_Detail :: string

datatype InstanceStatus =
    StatusApplied | StatusNotLocallyVerified | StatusRolledBack | StatusRollbackFailed
  | StatusRollbackUnavailable | StatusNone \<comment> \<open>the empty string of a zero result\<close>

record InstanceResult =
  ir_Status :: InstanceStatus
  ir_EvidenceID :: string
  ir_RegressionPct :: float64
  ir_Detail :: string

definition InstanceResult0 :: InstanceResult where
  "InstanceResult0 =
     \<lparr>ir_Status = StatusNone, ir_EvidenceID = [], ir_RegressionPct = Finite 0, ir_Detail = []\<rparr>"

record RolloutResult =
  rs_Halted :: bool
  rs_HaltReason :: string
  rs_AppliedInstances :: int
  rs_CanaryInstanceIDs :: "string list"
  rs_AggregateRegressionPct :: float64
  rs_Instances :: "string \<Rightarrow> InstanceResult option"
  rs_RolledBack :: int
  rs_RollbackErrors :: "string list"

definition Result0 :: RolloutResult where
  "Result0 = \<lparr>rs_Halted = False, rs_HaltReason = [], rs_AppliedInstances = 0,
     rs_CanaryInstanceIDs = [], rs_AggregateRegressionPct = Finite 0, rs_Instances = (\<lambda>_. None),
     rs_RolledBack = 0, rs_RollbackErrors = []\<rparr>"

subsection \<open>The engine\<close>

text \<open>The engine's verifier and applier; the rollback is there when the applier implements
  \<^verbatim>\<open>Rollbacker\<close>. \<^verbatim>\<open>ctx.Err()\<close> is a function of the world.\<close>

record 'w Backend =
  bk_Reverify :: "Instance \<Rightarrow> Prior \<Rightarrow> 'w \<Rightarrow> (go_error + Reverification) \<times> 'w"
  bk_Apply :: "Instance \<Rightarrow> Reverification \<Rightarrow> 'w \<Rightarrow> (go_error + AppliedChange) \<times> 'w"
  bk_Measure :: "Instance \<Rightarrow> AppliedChange \<Rightarrow> 'w \<Rightarrow> (go_error + RolloutOutcome) \<times> 'w"
  bk_Rollback :: "(Instance \<Rightarrow> AppliedChange \<Rightarrow> 'w \<Rightarrow> go_error option \<times> 'w) option"
  bk_ctx_Err :: "'w \<Rightarrow> go_error option"

record rolloutRun =
  run_request :: RolloutRequest
  run_result :: RolloutResult
  run_canaryOutcomes :: "RolloutOutcome list"
  run_changed :: "(Instance \<times> AppliedChange) list"

definition set_result :: "(RolloutResult \<Rightarrow> RolloutResult) \<Rightarrow> rolloutRun \<Rightarrow> rolloutRun" where
  "set_result f run = run\<lparr>run_result := f (run_result run)\<rparr>"

definition set_instance :: "string \<Rightarrow> InstanceResult \<Rightarrow> rolloutRun \<Rightarrow> rolloutRun" where
  "set_instance i res = set_result (\<lambda>r. r\<lparr>rs_Instances := (rs_Instances r)(i \<mapsto> res)\<rparr>)"

definition averageRegression :: "RolloutOutcome list \<Rightarrow> float64" where
  "averageRegression outcomes =
     (if outcomes = [] then Finite 0
      else float_quot (fold (\<lambda>oc total. float_add total (om_RegressionPct oc)) outcomes (Finite 0))
             (length outcomes))"

definition judge :: "Instance \<Rightarrow> RolloutOutcome \<Rightarrow> rolloutRun \<Rightarrow> string \<times> rolloutRun" where
  "judge inst oc run =
     (let policy = rq_Policy (run_request run);
          limit = ro_AggregateRegressionLimitPct policy
      in if om_Failed oc then (''verification_failed'', run)
         else if int (length (rs_CanaryInstanceIDs (run_result run))) < ro_CanaryInstances policy then
           let run1 = (set_result
                 (\<lambda>r. r\<lparr>rs_CanaryInstanceIDs := rs_CanaryInstanceIDs r @ [in_ID inst]\<rparr>) run)
                 \<lparr>run_canaryOutcomes := run_canaryOutcomes run @ [oc]\<rparr>
           in if int (length (run_canaryOutcomes run1)) = ro_CanaryInstances policy then
                let avg = averageRegression (run_canaryOutcomes run1);
                    run2 = set_result (\<lambda>r. r\<lparr>rs_AggregateRegressionPct := avg\<rparr>) run1
                in (if float_less limit avg then ''aggregate_regression'' else [], run2)
              else ([], run1)
         else if float_less limit (om_RegressionPct oc) then (''instance_regression'', run)
         else ([], run))"

text \<open>The answer of a step: an error, or the reason to halt (none when empty).\<close>

definition rollout_step ::
    "'w Backend \<Rightarrow> rolloutRun \<Rightarrow> Instance \<Rightarrow> 'w \<Rightarrow> (go_error + string) \<times> rolloutRun \<times> 'w" where
  "rollout_step bk run inst w =
     (case bk_Reverify bk inst (rq_Prior (run_request run)) w of
        (Inl e, w1) \<Rightarrow> (Inl (Wrap (''local verifier for '' @ in_ID inst @ '': '') e []), run, w1)
      | (Inr cand, w1) \<Rightarrow>
          if \<not> rv_Eligible cand then
            (Inr [], set_instance (in_ID inst)
               (InstanceResult0\<lparr>ir_Status := StatusNotLocallyVerified, ir_Detail := rv_Reason cand\<rparr>)
               run, w1)
          else
            (case bk_Apply bk inst cand w1 of
               (Inl e, w2) \<Rightarrow> (Inl (Wrap (''apply to '' @ in_ID inst @ '': '') e []), run, w2)
             | (Inr change, w2) \<Rightarrow>
                 let run1 = (set_result (\<lambda>r. r\<lparr>rs_AppliedInstances := rs_AppliedInstances r + 1\<rparr>) run)
                       \<lparr>run_changed := run_changed run @ [(inst, change)]\<rparr>
                 in (case bk_Measure bk inst change w2 of
                       (Inl e, w3) \<Rightarrow> (Inl (Wrap (''measure '' @ in_ID inst @ '': '') e []), run1, w3)
                     | (Inr oc, w3) \<Rightarrow>
                         let run2 = set_instance (in_ID inst)
                               \<lparr>ir_Status = StatusApplied, ir_EvidenceID = om_EvidenceID oc,
                                ir_RegressionPct = om_RegressionPct oc, ir_Detail = om_Detail oc\<rparr> run1;
                             (halt, run3) = judge inst oc run2
                         in (Inr halt, run3, w3))))"

text \<open>One round of \<^verbatim>\<open>rollbackAll\<close>.\<close>

definition rollback_one ::
    "'w Backend \<Rightarrow> Instance \<times> AppliedChange \<Rightarrow> rolloutRun \<times> 'w \<Rightarrow> rolloutRun \<times> 'w" where
  "rollback_one bk c s =
     (let (run, w) = s; (inst, change) = c;
          res = or_else (rs_Instances (run_result run) (in_ID inst)) InstanceResult0
      in case bk_Rollback bk of
           None \<Rightarrow> (set_instance (in_ID inst) (res\<lparr>ir_Status := StatusRollbackUnavailable\<rparr>) run, w)
         | Some undo \<Rightarrow>
             (case undo inst change w of
                (Some e, w1) \<Rightarrow>
                  (set_instance (in_ID inst) (res\<lparr>ir_Status := StatusRollbackFailed\<rparr>)
                     (set_result (\<lambda>r. r\<lparr>rs_RollbackErrors :=
                        rs_RollbackErrors r @ [in_ID inst @ '': '' @ Error_text e]\<rparr>) run), w1)
              | (None, w1) \<Rightarrow>
                  (set_instance (in_ID inst) (res\<lparr>ir_Status := StatusRolledBack\<rparr>)
                     (set_result (\<lambda>r. r\<lparr>rs_RolledBack := rs_RolledBack r + 1\<rparr>) run), w1)))"

definition rollbackAll :: "'w Backend \<Rightarrow> rolloutRun \<Rightarrow> 'w \<Rightarrow> rolloutRun \<times> 'w" where
  "rollbackAll bk run w = fold (rollback_one bk) (rev (run_changed run)) (run, w)"

fun rollout_loop ::
    "'w Backend \<Rightarrow> Instance list \<Rightarrow> rolloutRun \<Rightarrow> 'w \<Rightarrow> go_error option \<times> rolloutRun \<times> 'w" where
  "rollout_loop bk [] run w = (None, run, w)"
| "rollout_loop bk (inst # rest) run w =
     (case bk_ctx_Err bk w of
        Some e \<Rightarrow> (Some e, run, w)
      | None \<Rightarrow>
          if ro_MaxAffectedInstances (rq_Policy (run_request run)) \<le> rs_AppliedInstances (run_result run)
          then (None, set_result (\<lambda>r. r\<lparr>rs_Halted := True, rs_HaltReason := ''blast_radius_limit''\<rparr>) run, w)
          else (case rollout_step bk run inst w of
                  (Inl e, run1, w1) \<Rightarrow> (Some e, run1, w1)
                | (Inr halt, run1, w1) \<Rightarrow>
                    if halt \<noteq> [] then
                      let (run2, w2) = rollbackAll bk
                            (set_result (\<lambda>r. r\<lparr>rs_Halted := True, rs_HaltReason := halt\<rparr>) run1) w1
                      in (None, run2, w2)
                    else rollout_loop bk rest run1 w1))"

definition validPrior :: "Prior \<Rightarrow> bool" where
  "validPrior p \<longleftrightarrow> pr_EvidenceID p \<noteq> [] \<and> pr_ValidatedInstanceID p \<noteq> [] \<and> pr_Intent p \<noteq> []"

definition run0 :: "RolloutRequest \<Rightarrow> rolloutRun" where
  "run0 req = \<lparr>run_request = req, run_result = Result0, run_canaryOutcomes = [], run_changed = []\<rparr>"

definition rollout_run :: "'w Backend \<Rightarrow> RolloutRequest \<Rightarrow> 'w \<Rightarrow> go_error option \<times> rolloutRun \<times> 'w" where
  "rollout_run bk req w =
     (if pr_EvidenceID (rq_Prior req) = [] \<or> pr_ValidatedInstanceID (rq_Prior req) = [] \<or>
         pr_Intent (rq_Prior req) = []
      then (Some ErrPriorRequired, run0 req, w)
      else case validatePolicy (rq_Policy req) of
             Inl e \<Rightarrow> (Some e, run0 req, w)
           | Inr _ \<Rightarrow> rollout_loop bk (rq_Instances req) (run0 req) w)"

definition Engine_Rollout :: "'w Backend \<Rightarrow> RolloutRequest \<Rightarrow> 'w \<Rightarrow> (RolloutResult \<times> go_error option) \<times> 'w" where
  "Engine_Rollout bk req w =
     (case rollout_run bk req w of (e, run, w1) \<Rightarrow> ((run_result run, e), w1))"

end
