(* ===== verification/Rollout_Trace.thy ===== *)
theory Rollout_Trace
  imports Rollout
begin

text \<open>
  What a rollout does to the fleet. A logged backend keeps, beside the world, the calls made to it in
  order; the engine runs on it unchanged. The invariant of the loop relates the run's record to the
  calls: what was changed, what was measured, and the conditions under which an instance may be
  changed. Then the rollback of everything that was changed.
\<close>

subsection \<open>Calls\<close>

datatype backend_call =
    Reverified Instance "go_error + Reverification"
  | Applied Instance "go_error + AppliedChange"
  | Measured Instance AppliedChange "go_error + RolloutOutcome"
  | Undone Instance AppliedChange "go_error option"

definition logged :: "'w Backend \<Rightarrow> ('w \<times> backend_call list) Backend" where
  "logged bk =
     \<lparr>bk_Reverify = (\<lambda>i p (w, tr). case bk_Reverify bk i p w of (r, w1) \<Rightarrow> (r, w1, tr @ [Reverified i r])),
      bk_Apply = (\<lambda>i cand (w, tr). case bk_Apply bk i cand w of (r, w1) \<Rightarrow> (r, w1, tr @ [Applied i r])),
      bk_Measure = (\<lambda>i c (w, tr). case bk_Measure bk i c w of (r, w1) \<Rightarrow> (r, w1, tr @ [Measured i c r])),
      bk_Rollback = map_option (\<lambda>undo i c (w, tr).
        case undo i c w of (e, w1) \<Rightarrow> (e, w1, tr @ [Undone i c e])) (bk_Rollback bk),
      bk_ctx_Err = (\<lambda>(w, tr). bk_ctx_Err bk w)\<rparr>"

fun changes :: "backend_call list \<Rightarrow> (Instance \<times> AppliedChange) list" where
  "changes [] = []"
| "changes (Applied i (Inr c) # tr) = (i, c) # changes tr"
| "changes (_ # tr) = changes tr"

fun outcomes :: "backend_call list \<Rightarrow> RolloutOutcome list" where
  "outcomes [] = []"
| "outcomes (Measured i c (Inr oc) # tr) = oc # outcomes tr"
| "outcomes (_ # tr) = outcomes tr"

fun undone :: "backend_call list \<Rightarrow> (Instance \<times> AppliedChange) list" where
  "undone [] = []"
| "undone (Undone i c e # tr) = (i, c) # undone tr"
| "undone (_ # tr) = undone tr"

lemma changes_append [simp]: "changes (xs @ ys) = changes xs @ changes ys"
  by (induction xs rule: changes.induct) auto

lemma outcomes_append [simp]: "outcomes (xs @ ys) = outcomes xs @ outcomes ys"
  by (induction xs rule: outcomes.induct) auto

lemma undone_append [simp]: "undone (xs @ ys) = undone xs @ undone ys"
  by (induction xs rule: undone.induct) auto

subsection \<open>When an instance may be changed\<close>

definition canary_size :: "RolloutRequest \<Rightarrow> nat" where
  "canary_size req = nat (ro_CanaryInstances (rq_Policy req))"

definition regression_limit :: "RolloutRequest \<Rightarrow> float64" where
  "regression_limit req = ro_AggregateRegressionLimitPct (rq_Policy req)"

text \<open>The outcomes so far do not halt: nothing failed, a complete canary is within the limit on
  average, and every later instance is within it by itself.\<close>

definition within_limits :: "RolloutRequest \<Rightarrow> RolloutOutcome list \<Rightarrow> bool" where
  "within_limits req ocs \<longleftrightarrow>
     (\<forall>oc\<in>set ocs. \<not> om_Failed oc) \<and>
     (canary_size req \<le> length ocs \<longrightarrow>
        \<not> float_less (regression_limit req) (averageRegression (take (canary_size req) ocs)) \<and>
        (\<forall>oc\<in>set (drop (canary_size req) ocs). \<not> float_less (regression_limit req) (om_RegressionPct oc)))"

text \<open>After the calls of the trace, changing the instance is in order: it has just been re-verified
  on its own database, the blast radius leaves room, every change so far has been measured and the
  measurements are within the limits.\<close>

definition may_apply :: "RolloutRequest \<Rightarrow> backend_call list \<Rightarrow> Instance \<Rightarrow> bool" where
  "may_apply req tr i \<longleftrightarrow>
     (\<exists>tr0 cand. tr = tr0 @ [Reverified i (Inr cand)] \<and> rv_Eligible cand) \<and>
     int (length (changes tr)) < ro_MaxAffectedInstances (rq_Policy req) \<and>
     length (outcomes tr) = length (changes tr) \<and> undone tr = [] \<and>
     within_limits req (outcomes tr)"

definition disciplined :: "RolloutRequest \<Rightarrow> backend_call list \<Rightarrow> bool" where
  "disciplined req tr \<longleftrightarrow>
     (\<forall>n i r. n < length tr \<longrightarrow> tr ! n = Applied i r \<longrightarrow> may_apply req (take n tr) i)"

lemma disciplined_Nil [simp]: "disciplined req []"
  by (simp add: disciplined_def)

lemma disciplined_snoc:
  "disciplined req (tr @ [x]) \<longleftrightarrow>
     disciplined req tr \<and> (\<forall>i r. x = Applied i r \<longrightarrow> may_apply req tr i)"
  unfolding disciplined_def by (auto simp: nth_append less_Suc_eq)

definition quiet :: "backend_call \<Rightarrow> bool" where
  "quiet x = (case x of Applied _ _ \<Rightarrow> False | _ \<Rightarrow> True)"

lemma disciplined_quiet: "quiet x \<Longrightarrow> disciplined req (tr @ [x]) = disciplined req tr"
  by (auto simp: disciplined_snoc quiet_def)

lemma quiet_simps [simp]:
  "quiet (Reverified i r)" "quiet (Measured i c q)" "quiet (Undone i c e)" "\<not> quiet (Applied i p)"
  by (simp_all add: quiet_def)

subsection \<open>One step\<close>

lemmas run_updates = set_result_def set_instance_def

inductive step_calls :: "Instance \<Rightarrow> rolloutRun \<Rightarrow> backend_call list \<Rightarrow> go_error + string \<Rightarrow> rolloutRun \<Rightarrow> bool"
  for i :: Instance and run :: rolloutRun where
  reverify_fails: "step_calls i run [Reverified i (Inl e)] (Inl e') run"
| not_eligible: "\<not> rv_Eligible cand \<Longrightarrow>
    step_calls i run [Reverified i (Inr cand)] (Inr []) (set_instance (in_ID i) res run)"
| apply_fails: "rv_Eligible cand \<Longrightarrow>
    step_calls i run [Reverified i (Inr cand), Applied i (Inl e)] (Inl e') run"
| measure_fails: "rv_Eligible cand \<Longrightarrow>
    run1 = (set_result (\<lambda>r. r\<lparr>rs_AppliedInstances := rs_AppliedInstances r + 1\<rparr>) run)
      \<lparr>run_changed := run_changed run @ [(i, c)]\<rparr> \<Longrightarrow>
    step_calls i run [Reverified i (Inr cand), Applied i (Inr c), Measured i c (Inl e)] (Inl e') run1"
| step_measured: "rv_Eligible cand \<Longrightarrow>
    run1 = (set_result (\<lambda>r. r\<lparr>rs_AppliedInstances := rs_AppliedInstances r + 1\<rparr>) run)
      \<lparr>run_changed := run_changed run @ [(i, c)]\<rparr> \<Longrightarrow>
    judge i oc (set_instance (in_ID i) \<lparr>ir_Status = StatusApplied, ir_EvidenceID = om_EvidenceID oc,
      ir_RegressionPct = om_RegressionPct oc, ir_Detail = om_Detail oc\<rparr> run1) = (halt, run2) \<Longrightarrow>
    step_calls i run [Reverified i (Inr cand), Applied i (Inr c), Measured i c (Inr oc)] (Inr halt) run2"

lemma rollout_step_calls:
  assumes "rollout_step (logged bk) run i (w, tr) = (a, run', w', tr')"
  shows "\<exists>cs. tr' = tr @ cs \<and> step_calls i run cs a run'"
  using assms unfolding rollout_step_def logged_def
  by (auto simp: Let_def split: prod.splits sum.splits if_splits intro: step_calls.intros)

subsection \<open>The invariant of the loop\<close>

definition going :: "RolloutRequest \<Rightarrow> rolloutRun \<Rightarrow> backend_call list \<Rightarrow> bool" where
  "going req run tr \<longleftrightarrow>
     run_request run = req \<and> run_changed run = changes tr \<and> undone tr = [] \<and>
     rs_AppliedInstances (run_result run) = int (length (changes tr)) \<and>
     int (length (changes tr)) \<le> ro_MaxAffectedInstances (rq_Policy req) \<and>
     length (outcomes tr) = length (changes tr) \<and> within_limits req (outcomes tr) \<and>
     run_canaryOutcomes run = take (canary_size req) (outcomes tr) \<and>
     length (rs_CanaryInstanceIDs (run_result run)) = length (run_canaryOutcomes run) \<and>
     \<not> rs_Halted (run_result run) \<and> rs_RolledBack (run_result run) = 0 \<and>
     rs_RollbackErrors (run_result run) = [] \<and> disciplined req tr"

text \<open>The state when a measurement halts the rollout, before anything is rolled back.\<close>

definition stopping :: "RolloutRequest \<Rightarrow> rolloutRun \<Rightarrow> backend_call list \<Rightarrow> bool" where
  "stopping req run tr \<longleftrightarrow>
     run_request run = req \<and> run_changed run = changes tr \<and> undone tr = [] \<and>
     rs_AppliedInstances (run_result run) = int (length (changes tr)) \<and>
     int (length (changes tr)) \<le> ro_MaxAffectedInstances (rq_Policy req) \<and>
     \<not> rs_Halted (run_result run) \<and> rs_RolledBack (run_result run) = 0 \<and>
     rs_RollbackErrors (run_result run) = [] \<and> disciplined req tr"

lemma going_stopping: "going req run tr \<Longrightarrow> stopping req run tr"
  by (simp add: going_def stopping_def)


lemma judge_frame:
  assumes "judge i oc run = (halt, run')"
  shows "run_request run' = run_request run" "run_changed run' = run_changed run"
    "rs_AppliedInstances (run_result run') = rs_AppliedInstances (run_result run)"
    "rs_Halted (run_result run') = rs_Halted (run_result run)"
    "rs_RolledBack (run_result run') = rs_RolledBack (run_result run)"
    "rs_RollbackErrors (run_result run') = rs_RollbackErrors (run_result run)"
    "rs_Instances (run_result run') = rs_Instances (run_result run)"
    "halt \<in> {[], ''verification_failed'', ''aggregate_regression'', ''instance_regression''}"
  using assms by (auto simp: judge_def Let_def run_updates split: if_splits)

lemma judge_goes_on:
  assumes j: "judge i oc run = ([], run')"
    and req: "run_request run = req" and ocs: "run_canaryOutcomes run = take (canary_size req) ocs"
    and ids: "length (rs_CanaryInstanceIDs (run_result run)) = length (run_canaryOutcomes run)"
    and lim: "within_limits req ocs" and pos: "0 < ro_CanaryInstances (rq_Policy req)"
  shows "within_limits req (ocs @ [oc])" "run_canaryOutcomes run' = take (canary_size req) (ocs @ [oc])"
    "length (rs_CanaryInstanceIDs (run_result run')) = length (run_canaryOutcomes run')"
proof -
  let ?k = "canary_size req"
  have k: "0 < ?k" "int ?k = ro_CanaryInstances (rq_Policy req)" using pos by (auto simp: canary_size_def)
  have "within_limits req (ocs @ [oc]) \<and> run_canaryOutcomes run' = take ?k (ocs @ [oc]) \<and>
    length (rs_CanaryInstanceIDs (run_result run')) = length (run_canaryOutcomes run')"
  proof (cases "length ocs < ?k")
    case True
    then have "take ?k ocs = ocs" by simp
    with j req ocs ids lim True k show ?thesis
      by (auto simp: judge_def Let_def run_updates within_limits_def regression_limit_def split: if_splits)
  next
    case False
    then have "int (length (take ?k ocs)) = ro_CanaryInstances (rq_Policy req)" using k by simp
    with j req ocs ids lim False k show ?thesis
      by (auto simp: judge_def Let_def run_updates within_limits_def regression_limit_def split: if_splits)
  qed
  then show "within_limits req (ocs @ [oc])" "run_canaryOutcomes run' = take (canary_size req) (ocs @ [oc])"
    "length (rs_CanaryInstanceIDs (run_result run')) = length (run_canaryOutcomes run')" by auto
qed

lemma step_keeps:
  assumes "step_calls i run cs a run'" "going req run tr"
    and room: "\<not> ro_MaxAffectedInstances (rq_Policy req) \<le> rs_AppliedInstances (run_result run)"
    and pos: "0 < ro_CanaryInstances (rq_Policy req)"
  shows "stopping req run' (tr @ cs)" "a = Inr [] \<Longrightarrow> going req run' (tr @ cs)"
proof -
  from assms(2) have g: "run_request run = req" "run_changed run = changes tr" "undone tr = []"
    "rs_AppliedInstances (run_result run) = int (length (changes tr))"
    "length (outcomes tr) = length (changes tr)" "within_limits req (outcomes tr)"
    "run_canaryOutcomes run = take (canary_size req) (outcomes tr)"
    "length (rs_CanaryInstanceIDs (run_result run)) = length (run_canaryOutcomes run)"
    "\<not> rs_Halted (run_result run)" "rs_RolledBack (run_result run) = 0"
    "rs_RollbackErrors (run_result run) = []" "disciplined req tr"
    by (simp_all add: going_def)
  have d1: "disciplined req (tr @ [Reverified i r])" for r using g(12) by (simp add: disciplined_quiet)
  have may: "may_apply req (tr @ [Reverified i (Inr cand)]) i" if "rv_Eligible cand" for cand
    using that g room by (simp add: may_apply_def)
  have d2: "disciplined req ((tr @ [Reverified i (Inr cand)]) @ [Applied i r])" if "rv_Eligible cand" for cand r
    using d1 may [OF that] by (simp only: disciplined_snoc) blast
  have d3: "disciplined req (((tr @ [Reverified i (Inr cand)]) @ [Applied i r]) @ [Measured i c q])"
    if "rv_Eligible cand" for cand r c q
    using d2 [OF that] by (subst disciplined_quiet) simp_all
  note d = d1 d2 [simplified] d3 [simplified]
  have "stopping req run' (tr @ cs) \<and> (a = Inr [] \<longrightarrow> going req run' (tr @ cs))"
    using assms(1)
  proof cases
    case (measure_fails cand c e e')
    then show ?thesis using g d room by (simp add: stopping_def run_updates)
  next
    case (step_measured cand run1 c oc halt)
    let ?run = "set_instance (in_ID i) \<lparr>ir_Status = StatusApplied, ir_EvidenceID = om_EvidenceID oc,
      ir_RegressionPct = om_RegressionPct oc, ir_Detail = om_Detail oc\<rparr> run1"
    note fr = judge_frame [OF step_measured(5)]
    have st: "stopping req run' (tr @ cs)"
      using g d room step_measured fr by (simp add: stopping_def run_updates)
    have "going req run' (tr @ cs)" if "halt = []"
    proof -
      have "run_request ?run = req" "run_canaryOutcomes ?run = take (canary_size req) (outcomes tr)"
        "length (rs_CanaryInstanceIDs (run_result ?run)) = length (run_canaryOutcomes ?run)"
        using g step_measured(4) by (simp_all add: run_updates)
      from judge_goes_on [OF step_measured(5) [unfolded that] this g(6) pos]
      show ?thesis using st g step_measured(1) by (simp add: stopping_def going_def)
    qed
    with st step_measured(2) show ?thesis by simp
  qed (use g d room in \<open>auto simp: stopping_def going_def run_updates\<close>)
  then show "stopping req run' (tr @ cs)" "a = Inr [] \<Longrightarrow> going req run' (tr @ cs)" by auto
qed

subsection \<open>Rolling back\<close>

text \<open>What no rollback changes.\<close>

definition same_rollout :: "rolloutRun \<Rightarrow> rolloutRun \<Rightarrow> bool" where
  "same_rollout run run' \<longleftrightarrow>
     rs_AppliedInstances (run_result run') = rs_AppliedInstances (run_result run) \<and>
     rs_Halted (run_result run') = rs_Halted (run_result run) \<and>
     rs_HaltReason (run_result run') = rs_HaltReason (run_result run) \<and>
     rs_AggregateRegressionPct (run_result run') = rs_AggregateRegressionPct (run_result run)"

definition rolled_back :: "rolloutRun \<Rightarrow> string \<Rightarrow> bool" where
  "rolled_back run j \<longleftrightarrow> map_option ir_Status (rs_Instances (run_result run) j) = Some StatusRolledBack"

lemma rollback_one_logged:
  assumes "rollback_one (logged bk) (i, c) (run, w, tr) = (run', w', tr')" "bk_Rollback bk \<noteq> None"
  obtains e where "tr' = tr @ [Undone i c e]" "same_rollout run run'"
    "rs_RolledBack (run_result run') + int (length (rs_RollbackErrors (run_result run'))) =
     rs_RolledBack (run_result run) + int (length (rs_RollbackErrors (run_result run))) + 1"
    "length (rs_RollbackErrors (run_result run)) \<le> length (rs_RollbackErrors (run_result run'))"
    "length (rs_RollbackErrors (run_result run')) = length (rs_RollbackErrors (run_result run)) \<longrightarrow>
       rolled_back run' (in_ID i) \<and> (\<forall>j. rolled_back run j \<longrightarrow> rolled_back run' j)"
  using assms unfolding rollback_one_def logged_def same_rollout_def rolled_back_def
  by (auto simp: Let_def run_updates split: prod.splits option.splits)

text \<open>The effect of rolling back the given changes in order.\<close>

definition rollback_effect ::
    "(Instance \<times> AppliedChange) list \<Rightarrow> rolloutRun \<Rightarrow> rolloutRun \<Rightarrow> backend_call list \<Rightarrow> bool" where
  "rollback_effect cs run run' us \<longleftrightarrow>
     undone us = cs \<and> changes us = [] \<and> outcomes us = [] \<and> list_all quiet us \<and>
     (\<forall>x\<in>set us. \<exists>i c e. x = Undone i c e) \<and> same_rollout run run' \<and>
     rs_RolledBack (run_result run') + int (length (rs_RollbackErrors (run_result run'))) =
     rs_RolledBack (run_result run) + int (length (rs_RollbackErrors (run_result run))) + int (length cs) \<and>
     length (rs_RollbackErrors (run_result run)) \<le> length (rs_RollbackErrors (run_result run')) \<and>
     (length (rs_RollbackErrors (run_result run')) = length (rs_RollbackErrors (run_result run)) \<longrightarrow>
       (\<forall>(i, c)\<in>set cs. rolled_back run' (in_ID i)) \<and> (\<forall>j. rolled_back run j \<longrightarrow> rolled_back run' j))"

lemma rollbacks_logged:
  assumes "fold (rollback_one (logged bk)) cs (run, w, tr) = (run', w', tr')" "bk_Rollback bk \<noteq> None"
  shows "\<exists>us. tr' = tr @ us \<and> rollback_effect cs run run' us"
  using assms(1)
proof (induction cs arbitrary: run w tr)
  case Nil
  then show ?case by (auto simp: rollback_effect_def same_rollout_def)
next
  case (Cons x cs)
  obtain i c where x: "x = (i, c)" by (cases x)
  obtain run1 w1 tr1 where one: "rollback_one (logged bk) (i, c) (run, w, tr) = (run1, w1, tr1)"
    by (cases "rollback_one (logged bk) (i, c) (run, w, tr)") auto
  with Cons.prems x have "fold (rollback_one (logged bk)) cs (run1, w1, tr1) = (run', w', tr')" by simp
  from Cons.IH [OF this] obtain us where us: "tr' = tr1 @ us" "rollback_effect cs run1 run' us" by blast
  from one assms(2) obtain e where "tr1 = tr @ [Undone i c e]" "same_rollout run run1"
    "rs_RolledBack (run_result run1) + int (length (rs_RollbackErrors (run_result run1))) =
     rs_RolledBack (run_result run) + int (length (rs_RollbackErrors (run_result run))) + 1"
    "length (rs_RollbackErrors (run_result run)) \<le> length (rs_RollbackErrors (run_result run1))"
    "length (rs_RollbackErrors (run_result run1)) = length (rs_RollbackErrors (run_result run)) \<longrightarrow>
       rolled_back run1 (in_ID i) \<and> (\<forall>j. rolled_back run j \<longrightarrow> rolled_back run1 j)"
    by (rule rollback_one_logged)
  with us have "tr' = tr @ Undone i c e # us" "rollback_effect (x # cs) run run' (Undone i c e # us)"
    by (auto simp: rollback_effect_def same_rollout_def x)
  then show ?case by blast
qed

lemma disciplined_quiets: "list_all quiet us \<Longrightarrow> disciplined req (tr @ us) = disciplined req tr"
proof (induction us rule: rev_induct)
  case (snoc u us)
  then show ?case using disciplined_quiet [of u req "tr @ us"] by simp
qed simp

subsection \<open>The whole rollout\<close>

text \<open>How a rollout ends: it has stopped by itself, on an error or at the blast radius and nothing is
  rolled back, or a measurement halted it and everything it changed is rolled back, newest
  first.\<close>

definition ended :: "bool \<Rightarrow> RolloutRequest \<Rightarrow> go_error option \<Rightarrow> rolloutRun \<Rightarrow> backend_call list \<Rightarrow> bool" where
  "ended undo req e run tr \<longleftrightarrow>
     disciplined req tr \<and> rs_AppliedInstances (run_result run) = int (length (changes tr)) \<and>
     int (length (changes tr)) \<le> ro_MaxAffectedInstances (rq_Policy req) \<and>
     (if e = None \<and> rs_Halted (run_result run) \<and> rs_HaltReason (run_result run) \<noteq> ''blast_radius_limit''
      then rs_HaltReason (run_result run) \<in>
             {''verification_failed'', ''aggregate_regression'', ''instance_regression''} \<and>
           (undo \<longrightarrow> undone tr = rev (changes tr) \<and>
             rs_RolledBack (run_result run) + int (length (rs_RollbackErrors (run_result run))) =
               int (length (changes tr)) \<and>
             (rs_RollbackErrors (run_result run) = [] \<longrightarrow>
               (\<forall>(i, c)\<in>set (changes tr). rolled_back run (in_ID i))))
      else undone tr = [] \<and> (e \<noteq> None \<longrightarrow> \<not> rs_Halted (run_result run)))"

lemma rollback_without:
  "bk_Rollback bk = None \<Longrightarrow> fold (rollback_one bk) cs (run, s) = (run', s') \<Longrightarrow>
    same_rollout run run' \<and> s' = s"
proof (induction cs arbitrary: run)
  case (Cons x cs)
  then show ?case
    by (cases x) (force simp: rollback_one_def Let_def run_updates same_rollout_def)
qed (simp add: same_rollout_def)

lemma halted_ended:
  assumes st: "stopping req run tr" and halt: "halt \<in> {''verification_failed'', ''aggregate_regression'', ''instance_regression''}"
    and rb: "rollbackAll (logged bk) (set_result (\<lambda>r. r\<lparr>rs_Halted := True, rs_HaltReason := halt\<rparr>) run) (w, tr) = (run', w', tr')"
  shows "ended (bk_Rollback bk \<noteq> None) req None run' tr'"
proof -
  let ?run = "set_result (\<lambda>r. r\<lparr>rs_Halted := True, rs_HaltReason := halt\<rparr>) run"
  from rb st have f: "fold (rollback_one (logged bk)) (rev (changes tr)) (?run, w, tr) = (run', w', tr')"
    by (simp add: rollbackAll_def stopping_def run_updates)
  show ?thesis
  proof (cases "bk_Rollback bk")
    case None
    then have "bk_Rollback (logged bk) = None" by (simp add: logged_def)
    from rollback_without [OF this f] st halt None show ?thesis
      by (auto simp: ended_def stopping_def same_rollout_def run_updates)
  next
    case (Some undo)
    with rollbacks_logged [OF f] obtain us where "tr' = tr @ us" "rollback_effect (rev (changes tr)) ?run run' us"
      by auto
    with st halt Some show ?thesis
      by (auto simp: ended_def stopping_def rollback_effect_def same_rollout_def run_updates disciplined_quiets)
  qed
qed

lemma rollout_loop_ended:
  assumes "going req run tr" "rollout_loop (logged bk) is run (w, tr) = (e, run', w', tr')"
    and pos: "0 < ro_CanaryInstances (rq_Policy req)"
  shows "ended (bk_Rollback bk \<noteq> None) req e run' tr'"
  using assms(1,2)
proof (induction "is" arbitrary: run w tr)
  case Nil
  then show ?case by (auto simp: ended_def going_def)
next
  case (Cons i rest)
  show ?case
  proof (cases "bk_ctx_Err (logged bk) (w, tr) = None \<and>
      \<not> ro_MaxAffectedInstances (rq_Policy req) \<le> rs_AppliedInstances (run_result run)")
    case False
    with Cons.prems show ?thesis
      by (auto simp: ended_def going_def run_updates split: option.splits if_splits)
  next
    case True
    obtain a run1 w1 tr1 where s: "rollout_step (logged bk) run i (w, tr) = (a, run1, w1, tr1)"
      by (cases "rollout_step (logged bk) run i (w, tr)") auto
    from rollout_step_calls [OF this] obtain cs where cs: "tr1 = tr @ cs" "step_calls i run cs a run1" by blast
    note keeps = step_keeps [OF cs(2) Cons.prems(1) conjunct2 [OF True] pos]
    have req: "run_request run = req" using Cons.prems(1) by (simp add: going_def)
    show ?thesis
    proof (cases a)
      case (Inl e')
      with keeps(1) Cons.prems(2) True s cs(1) req show ?thesis by (auto simp: ended_def stopping_def)
    next
      case (Inr halt)
      show ?thesis
      proof (cases "halt = []")
        case True': True
        with Inr Cons.prems(2) True s req have "rollout_loop (logged bk) rest run1 (w1, tr1) = (e, run', w', tr')"
          by simp
        with Cons.IH keeps(2) Inr True' cs(1) show ?thesis by blast
      next
        case False
        with Inr Cons.prems(2) True s req have rb: "e = None"
          "rollbackAll (logged bk) (set_result (\<lambda>r. r\<lparr>rs_Halted := True, rs_HaltReason := halt\<rparr>) run1) (w1, tr1) =
           (run', w', tr')" by (auto split: prod.splits)
        have "halt \<in> {''verification_failed'', ''aggregate_regression'', ''instance_regression''}"
          using cs(2) Inr False by (cases rule: step_calls.cases) (use judge_frame(8) in force)+
        from halted_ended [OF keeps(1) [folded cs(1)] this rb(2)] rb(1) show ?thesis by simp
      qed
    qed
  qed
qed

lemma run0_going: "validatePolicy (rq_Policy req) = Inr () \<Longrightarrow> going req (run0 req) []"
  by (auto simp: going_def run0_def Result0_def within_limits_def canary_size_def validatePolicy_def
      split: if_splits)

lemma rollout_run_ended:
  assumes "rollout_run (logged bk) req (w, []) = (e, run, w', tr)"
  shows "ended (bk_Rollback bk \<noteq> None) req e run tr \<or>
    (e \<noteq> None \<and> run = run0 req \<and> tr = [])"
proof (cases "validPrior (rq_Prior req) \<and> validatePolicy (rq_Policy req) = Inr ()")
  case True
  then have pos: "0 < ro_CanaryInstances (rq_Policy req)" by (auto simp: validatePolicy_def split: if_splits)
  from assms True have l: "rollout_loop (logged bk) (rq_Instances req) (run0 req) (w, []) = (e, run, w', tr)"
    by (simp add: rollout_run_def validPrior_def)
  from rollout_loop_ended [OF run0_going [OF conjunct2 [OF True]] l pos] show ?thesis by simp
next
  case False
  with assms show ?thesis by (auto simp: rollout_run_def validPrior_def split: sum.splits if_splits)
qed

end
