(* ===== verification/Rollout_Store.thy ===== *)
theory Rollout_Store
  imports Rollout Sha256
begin

text \<open>
  The run store and the trigger of \<^verbatim>\<open>sidecar/internal/rollout\<close>
  (\<^verbatim>\<open>postgres.go\<close>, \<^verbatim>\<open>postgres_canary.go\<close>, \<^verbatim>\<open>runtime.go\<close>): the two tables with
  their constraints, every statement a function of them, and the runtime that selects a prior, rolls
  it out and records the run. A statement is executed, refused before it ran, or executed with its
  answer lost, as the world says. \<^verbatim>\<open>st_numeric\<close> stands for what PostgreSQL makes of a
  \<^verbatim>\<open>double precision\<close> stored as \<^verbatim>\<open>numeric\<close> and read back. An instant is
  stored in microseconds. The rows of a run are written by the process that runs it only.
\<close>

subsection \<open>Records and tables\<close>

record RunRecord =
  rr_EvidenceID :: string
  rr_SourceInstance :: string
  rr_PriorEvidenceID :: string
  rr_Policy :: RolloutPolicy
  rr_State :: string
  rr_HaltReason :: string
  rr_AppliedInstances :: int
  rr_CanaryInstanceIDs :: "string list"
  rr_AggregateRegressionPct :: float64
  rr_CreatedAt :: instant
  rr_UpdatedAt :: instant
  rr_Family :: string
  rr_Class :: string
  rr_StartedBy :: string

record InstanceRecord =
  ic_InstanceID :: string
  ic_Ordinal :: int
  ic_Status :: InstanceStatus
  ic_EvidenceID :: string
  ic_ActionLogID :: int
  ic_RegressionPct :: float64
  ic_Detail :: string
  ic_UpdatedAt :: instant

text \<open>The rows of \<^verbatim>\<open>sage.rollout_run\<close> and \<^verbatim>\<open>sage.rollout_instance\<close>.\<close>

record run_row =
  ru_id :: int
  ru_evidence_id :: string
  ru_source_instance :: string
  ru_prior_evidence_id :: string
  ru_policy :: RolloutPolicy
  ru_state :: string
  ru_aggregate :: "float64 option"
  ru_applied :: int
  ru_created_at :: instant
  ru_updated_at :: instant
  ru_halt_reason :: "string option"
  ru_family :: "string option"
  ru_action_class :: "string option"
  ru_started_by :: "string option"

record instance_row =
  io_run :: string
  io_instance :: string
  io_ordinal :: int
  io_status :: InstanceStatus
  io_evidence_id :: "string option"
  io_action_log_id :: "int option"
  io_regression :: float64
  io_detail :: "string option"
  io_updated_at :: instant

record rollout_db =
  rd_runs :: "run_row list"
  rd_next_id :: int
  rd_instances :: "instance_row list"

datatype exec_answer = Executed | Refused go_error | Lost go_error

record 'w RunStore =
  st_pool :: bool
  st_exec :: "'w \<Rightarrow> exec_answer \<times> 'w"
  st_numeric :: "float64 \<Rightarrow> float64"

text \<open>A call of the store among the statements' fates.\<close>

type_synonym ('w, 'a) stored = "'w \<times> rollout_db \<Rightarrow> (go_error + 'a) \<times> 'w \<times> rollout_db"

definition statement ::
    "'w RunStore \<Rightarrow> (rollout_db \<Rightarrow> go_error + 'a \<times> rollout_db) \<Rightarrow> ('w, 'a) stored" where
  "statement st f s =
     (case s of (w, db) \<Rightarrow>
        (case st_exec st w of
           (Executed, w1) \<Rightarrow> (case f db of Inl e \<Rightarrow> (Inl e, w1, db) | Inr (a, db1) \<Rightarrow> (Inr a, w1, db1))
         | (Refused e, w1) \<Rightarrow> (Inl e, w1, db)
         | (Lost e, w1) \<Rightarrow> (Inl e, w1, (case f db of Inl _ \<Rightarrow> db | Inr (_, db1) \<Rightarrow> db1))))"

definition errStore :: go_error where
  "errStore = ErrorText ''rollout run store is unavailable''"

definition ErrNoRows :: go_error where
  "ErrNoRows = ErrorText ''no rows in result set''"

subsection \<open>Values in the tables\<close>

definition NULLIF :: "'a \<Rightarrow> 'a \<Rightarrow> 'a option" where
  "NULLIF x y = (if x = y then None else Some x)"

definition micros :: "instant \<Rightarrow> instant" where
  "micros t = t - t mod 1000"

definition fits32 :: "int \<Rightarrow> bool" where
  "fits32 i \<longleftrightarrow> - (2 ^ 31) \<le> i \<and> i < 2 ^ 31"

definition run_states :: "string list" where
  "run_states = [''canary'', ''expanding'', ''halted'', ''complete'', ''failed'']"

text \<open>\<^verbatim>\<open>json.Marshal\<close> refuses an infinity and NaN; everything else comes back from
  \<^verbatim>\<open>jsonb\<close> as it was.\<close>

definition policy_json :: "RolloutPolicy \<Rightarrow> go_error + RolloutPolicy" where
  "policy_json p =
     (case ro_AggregateRegressionLimitPct p of
        Finite _ \<Rightarrow> Inr p
      | _ \<Rightarrow> Inl (Wrap ''encode rollout policy: '' (ErrorText ''json: unsupported value'') []))"

definition run_checks :: "run_row \<Rightarrow> go_error + unit" where
  "run_checks r =
     (if \<not> fits32 (ru_applied r) then Inl (ErrorText ''integer out of range'')
      else if ru_state r \<notin> set run_states then Inl (ErrorText ''check constraint violated'')
      else Inr ())"

text \<open>The columns both statements write.\<close>

definition run_columns :: "'w RunStore \<Rightarrow> RolloutPolicy \<Rightarrow> RunRecord \<Rightarrow> run_row \<Rightarrow> run_row" where
  "run_columns st policy rec r =
     r\<lparr>ru_source_instance := rr_SourceInstance rec, ru_prior_evidence_id := rr_PriorEvidenceID rec,
       ru_policy := policy, ru_state := rr_State rec,
       ru_aggregate := map_option (st_numeric st) (NULLIF (rr_AggregateRegressionPct rec) (Finite 0)),
       ru_applied := rr_AppliedInstances rec, ru_updated_at := micros (rr_UpdatedAt rec),
       ru_halt_reason := NULLIF (rr_HaltReason rec) [], ru_family := NULLIF (rr_Family rec) [],
       ru_action_class := NULLIF (rr_Class rec) [], ru_started_by := NULLIF (rr_StartedBy rec) []\<rparr>"

definition blank_row :: "int \<Rightarrow> string \<Rightarrow> RolloutPolicy \<Rightarrow> instant \<Rightarrow> run_row" where
  "blank_row i ev policy created =
     \<lparr>ru_id = i, ru_evidence_id = ev, ru_source_instance = [], ru_prior_evidence_id = [],
      ru_policy = policy, ru_state = [], ru_aggregate = None, ru_applied = 0,
      ru_created_at = created, ru_updated_at = 0, ru_halt_reason = None, ru_family = None,
      ru_action_class = None, ru_started_by = None\<rparr>"

subsection \<open>The run table\<close>

definition sql_insert_run :: "'w RunStore \<Rightarrow> RolloutPolicy \<Rightarrow> RunRecord \<Rightarrow> rollout_db \<Rightarrow> go_error + unit \<times> rollout_db" where
  "sql_insert_run st policy rec db =
     (let r = run_columns st policy rec
                (blank_row (rd_next_id db) (rr_EvidenceID rec) policy (micros (rr_CreatedAt rec)))
      in ebind (run_checks r) (\<lambda>_.
         if \<exists>r0\<in>set (rd_runs db). ru_evidence_id r0 = rr_EvidenceID rec
         then Inl (ErrorText ''unique constraint violated'')
         else Inr ((), db\<lparr>rd_runs := rd_runs db @ [r], rd_next_id := rd_next_id db + 1\<rparr>)))"

definition store_Create :: "'w RunStore \<Rightarrow> RunRecord \<Rightarrow> ('w, unit) stored" where
  "store_Create st rec s =
     (if \<not> st_pool st then (Inl errStore, s)
      else case policy_json (rr_Policy rec) of
             Inl e \<Rightarrow> (Inl e, s)
           | Inr policy \<Rightarrow>
               (case statement st (sql_insert_run st policy rec) s of
                  (Inl e, s1) \<Rightarrow> (Inl (Wrap ''insert rollout run: '' e []), s1)
                | (Inr _, s1) \<Rightarrow> (Inr (), s1)))"

text \<open>The number of rows written; \<^verbatim>\<open>evidence_id\<close> is unique.\<close>

definition sql_update_run :: "'w RunStore \<Rightarrow> RolloutPolicy \<Rightarrow> RunRecord \<Rightarrow> rollout_db \<Rightarrow> go_error + int \<times> rollout_db" where
  "sql_update_run st policy rec db =
     (let hit = (\<lambda>r. ru_evidence_id r = rr_EvidenceID rec);
          n = int (length (filter hit (rd_runs db)))
      in ebind (eall (\<lambda>r. run_checks (run_columns st policy rec r)) (filter hit (rd_runs db))) (\<lambda>_.
         Inr (n, db\<lparr>rd_runs :=
           map (\<lambda>r. if hit r then run_columns st policy rec r else r) (rd_runs db)\<rparr>)))"

definition store_Update :: "'w RunStore \<Rightarrow> RunRecord \<Rightarrow> ('w, unit) stored" where
  "store_Update st rec s =
     (if \<not> st_pool st then (Inl errStore, s)
      else case policy_json (rr_Policy rec) of
             Inl e \<Rightarrow> (Inl e, s)
           | Inr policy \<Rightarrow>
               (case statement st (sql_update_run st policy rec) s of
                  (Inl e, s1) \<Rightarrow> (Inl (Wrap ''update rollout run: '' e []), s1)
                | (Inr n, s1) \<Rightarrow>
                    if n \<noteq> 1 then (Inl (ErrorText (''rollout run '' @ CHR 0x22 # rr_EvidenceID rec @ CHR 0x22 # '' not found'')), s1)
                    else (Inr (), s1)))"

definition scanRunRecord :: "run_row \<Rightarrow> RunRecord" where
  "scanRunRecord r =
     \<lparr>rr_EvidenceID = ru_evidence_id r, rr_SourceInstance = ru_source_instance r,
      rr_PriorEvidenceID = ru_prior_evidence_id r, rr_Policy = ru_policy r, rr_State = ru_state r,
      rr_HaltReason = or_else (ru_halt_reason r) [], rr_AppliedInstances = ru_applied r,
      rr_CanaryInstanceIDs = [], rr_AggregateRegressionPct = or_else (ru_aggregate r) (Finite 0),
      rr_CreatedAt = ru_created_at r, rr_UpdatedAt = ru_updated_at r,
      rr_Family = or_else (ru_family r) [], rr_Class = or_else (ru_action_class r) [],
      rr_StartedBy = or_else (ru_started_by r) []\<rparr>"

definition store_Get :: "'w RunStore \<Rightarrow> string \<Rightarrow> ('w, RunRecord) stored" where
  "store_Get st ev s =
     (if \<not> st_pool st then (Inl errStore, s)
      else statement st (\<lambda>db.
             case List.find (\<lambda>r. ru_evidence_id r = ev) (rd_runs db) of
               None \<Rightarrow> Inl ErrNoRows
             | Some r \<Rightarrow> Inr (scanRunRecord r, db)) s)"

text \<open>\<^verbatim>\<open>ORDER BY updated_at DESC, id DESC\<close>.\<close>

definition newest_first :: "run_row list \<Rightarrow> run_row list" where
  "newest_first rs = sort_key (\<lambda>r. - ru_updated_at r) (sort_key (\<lambda>r. - ru_id r) rs)"

definition store_Latest :: "'w RunStore \<Rightarrow> ('w, RunRecord option) stored" where
  "store_Latest st s =
     (if \<not> st_pool st then (Inl errStore, s)
      else statement st (\<lambda>db.
             case newest_first (rd_runs db) of
               [] \<Rightarrow> Inr (None, db)
             | r # _ \<Rightarrow> Inr (Some (scanRunRecord r), db)) s)"

definition store_List :: "'w RunStore \<Rightarrow> int \<Rightarrow> ('w, RunRecord list) stored" where
  "store_List st limit s =
     (if \<not> st_pool st then (Inl errStore, s)
      else let n = (if limit < 1 \<or> limit > 200 then 50 else limit)
           in case statement st
                (\<lambda>db. Inr (map scanRunRecord (take (nat n) (newest_first (rd_runs db))), db)) s of
                (Inl e, s1) \<Rightarrow> (Inl (Wrap ''list rollout runs: '' e []), s1)
              | (Inr rs, s1) \<Rightarrow> (Inr rs, s1))"

subsection \<open>The instance table\<close>

text \<open>Go cuts a string at a byte; when that splits a character, PostgreSQL refuses the text.\<close>

definition utf8_len :: "string \<Rightarrow> nat" where
  "utf8_len s = length (utf8 s)"

fun cut_bytes :: "nat \<Rightarrow> string \<Rightarrow> string" where
  "cut_bytes n [] = []"
| "cut_bytes n (c # cs) = (if utf8_len [c] \<le> n then c # cut_bytes (n - utf8_len [c]) cs else [])"

definition truncateDetail :: "string \<Rightarrow> go_error + string" where
  "truncateDetail s =
     (if utf8_len s > 2000 then
        let t = cut_bytes 2000 s
        in if utf8_len t = 2000 then Inr t
           else Inl (ErrorText ''invalid byte sequence for encoding \"UTF8\"'')
      else Inr s)"

definition instance_row_of :: "string \<Rightarrow> InstanceRecord \<Rightarrow> string \<Rightarrow> instance_row" where
  "instance_row_of ev r detail =
     \<lparr>io_run = ev, io_instance = ic_InstanceID r, io_ordinal = ic_Ordinal r, io_status = ic_Status r,
      io_evidence_id = NULLIF (ic_EvidenceID r) [],
      io_action_log_id = (if ic_ActionLogID r > 0 then Some (ic_ActionLogID r) else None),
      io_regression = ic_RegressionPct r, io_detail = NULLIF detail [],
      io_updated_at = micros (ic_UpdatedAt r)\<rparr>"

definition sql_upsert_instance :: "string \<Rightarrow> InstanceRecord \<Rightarrow> rollout_db \<Rightarrow> go_error + unit \<times> rollout_db" where
  "sql_upsert_instance ev r db =
     ebind (truncateDetail (ic_Detail r)) (\<lambda>detail.
       let row = instance_row_of ev r detail;
           same = (\<lambda>i. io_run i = ev \<and> io_instance i = ic_InstanceID r)
       in if \<not> (0 < ic_Ordinal r \<and> fits32 (ic_Ordinal r)) \<or> ic_Status r = StatusNone
          then Inl (ErrorText ''check constraint violated'')
          else if \<not> (\<exists>u\<in>set (rd_runs db). ru_evidence_id u = ev)
          then Inl (ErrorText ''foreign key violated'')
          else Inr ((), db\<lparr>rd_instances :=
                 (if \<exists>i\<in>set (rd_instances db). same i
                  then map (\<lambda>i. if same i then row else i) (rd_instances db)
                  else rd_instances db @ [row])\<rparr>))"

fun save_instances :: "'w RunStore \<Rightarrow> string \<Rightarrow> InstanceRecord list \<Rightarrow> ('w, unit) stored" where
  "save_instances st ev [] s = (Inr (), s)"
| "save_instances st ev (r # rs) s =
     (case statement st (sql_upsert_instance ev r) s of
        (Inl e, s1) \<Rightarrow> (Inl (Wrap (''save rollout instance '' @ ic_InstanceID r @ '': '') e []), s1)
      | (Inr _, s1) \<Rightarrow> save_instances st ev rs s1)"

definition SaveInstances :: "'w RunStore \<Rightarrow> string \<Rightarrow> InstanceRecord list \<Rightarrow> ('w, unit) stored" where
  "SaveInstances st ev rs s = (if \<not> st_pool st then (Inl errStore, s) else save_instances st ev rs s)"

definition scan_instance :: "instance_row \<Rightarrow> InstanceRecord" where
  "scan_instance i =
     \<lparr>ic_InstanceID = io_instance i, ic_Ordinal = io_ordinal i, ic_Status = io_status i,
      ic_EvidenceID = or_else (io_evidence_id i) [], ic_ActionLogID = or_else (io_action_log_id i) 0,
      ic_RegressionPct = io_regression i, ic_Detail = or_else (io_detail i) [],
      ic_UpdatedAt = io_updated_at i\<rparr>"

definition store_Instances :: "'w RunStore \<Rightarrow> string \<Rightarrow> ('w, InstanceRecord list) stored" where
  "store_Instances st ev s =
     (if \<not> st_pool st then (Inl errStore, s)
      else case statement st (\<lambda>db. Inr (map scan_instance (sort_key io_ordinal
                  (filter (\<lambda>i. io_run i = ev) (rd_instances db))), db)) s of
             (Inl e, s1) \<Rightarrow> (Inl (Wrap ''list rollout instances: '' e []), s1)
           | (Inr rs, s1) \<Rightarrow> (Inr rs, s1))"

subsection \<open>The runtime\<close>

record PriorEvidence =
  pe_Prior :: Prior
  pe_Verdict :: string
  pe_CompletedAt :: instant

record 'w RolloutRuntime =
  rt_Engine :: "(RolloutRequest \<Rightarrow> 'w \<Rightarrow> (RolloutResult \<times> go_error option) \<times> 'w) option"
  rt_Evidence :: "('w \<Rightarrow> (go_error + PriorEvidence list) \<times> 'w) option"
  rt_Cohort :: "(Prior \<Rightarrow> 'w \<Rightarrow> (go_error + Instance list) \<times> 'w) option"
  rt_Policies :: PolicySet
  rt_Runs :: "'w RunStore option"
  rt_Now :: "'w \<Rightarrow> instant \<times> 'w"
  rt_ctx_Err :: "'w \<Rightarrow> go_error option"
  rt_MinVerifiedSuccesses :: int
  rt_TriggerInterval :: duration

definition NewRuntime :: "'w RolloutRuntime \<Rightarrow> 'w RolloutRuntime" where
  "NewRuntime rt =
     rt\<lparr>rt_MinVerifiedSuccesses :=
          (if rt_MinVerifiedSuccesses rt \<le> 0 then 1 else rt_MinVerifiedSuccesses rt),
        rt_TriggerInterval := (if rt_TriggerInterval rt \<le> 0 then hour else rt_TriggerInterval rt)\<rparr>"

text \<open>The dependencies once they are known to be there.\<close>

definition runtime_ready ::
    "'w RolloutRuntime \<Rightarrow> 'w \<Rightarrow> go_error +
       (RolloutRequest \<Rightarrow> 'w \<Rightarrow> (RolloutResult \<times> go_error option) \<times> 'w) \<times>
       ('w \<Rightarrow> (go_error + PriorEvidence list) \<times> 'w) \<times>
       (Prior \<Rightarrow> 'w \<Rightarrow> (go_error + Instance list) \<times> 'w) \<times> 'w RunStore" where
  "runtime_ready rt w =
     (case rt_ctx_Err rt w of
        Some e \<Rightarrow> Inl e
      | None \<Rightarrow>
          (case (rt_Engine rt, rt_Evidence rt, rt_Cohort rt, rt_Runs rt) of
             (Some eng, Some evi, Some coh, Some runs) \<Rightarrow> Inr (eng, evi, coh, runs)
           | _ \<Rightarrow> Inl (ErrorText ''rollout runtime dependencies are unavailable'')))"

text \<open>The stable sort by completion, newest first, and the first usable success.\<close>

definition first_success :: "PriorEvidence list \<Rightarrow> go_error + Prior" where
  "first_success evidence =
     (case List.find (\<lambda>c. pe_Verdict c = ''success'' \<and> \<not> IsZero (pe_CompletedAt c) \<and>
                          validPrior (pe_Prior c))
            (sort_key (\<lambda>e. - pe_CompletedAt e) evidence) of
        None \<Rightarrow> Inl ErrPriorRequired
      | Some c \<Rightarrow> Inr (pe_Prior c))"

definition selectPrior :: "('w \<Rightarrow> (go_error + PriorEvidence list) \<times> 'w) \<Rightarrow> 'w \<Rightarrow> (go_error + Prior) \<times> 'w" where
  "selectPrior evi w =
     (case evi w of
        (Inl e, w1) \<Rightarrow> (Inl (Wrap ''list prior evidence: '' e []), w1)
      | (Inr evidence, w1) \<Rightarrow> (first_success evidence, w1))"

text \<open>\<^verbatim>\<open>reflect.DeepEqual\<close> of two policies: NaN differs from itself.\<close>

fun float_eq :: "float64 \<Rightarrow> float64 \<Rightarrow> bool" where
  "float_eq NaN _ \<longleftrightarrow> False"
| "float_eq a b \<longleftrightarrow> a = b"

definition DeepEqual :: "RolloutPolicy \<Rightarrow> RolloutPolicy \<Rightarrow> bool" where
  "DeepEqual p q \<longleftrightarrow>
     p = q \<and> float_eq (ro_AggregateRegressionLimitPct p) (ro_AggregateRegressionLimitPct q)"

definition resolvePolicy :: "PolicySet \<Rightarrow> Instance list \<Rightarrow> go_error + RolloutPolicy" where
  "resolvePolicy ps insts =
     (case insts of
        [] \<Rightarrow> Inl (ErrorText ''rollout cohort is empty'')
      | i # rest \<Rightarrow>
          ebind (Resolve ps i) (\<lambda>policy.
            ebind (eall (\<lambda>j. ebind (Resolve ps j) (\<lambda>cand.
                     if DeepEqual cand policy then Inr ()
                     else Inl (ErrorText ''rollout cohort resolves to mixed policies''))) rest)
              (\<lambda>_. Inr policy)))"

definition UnixNano :: "instant \<Rightarrow> int" where
  "UnixNano t = wrap64 (t - 62135596800 * second)"

definition RunRecord0 :: RunRecord where
  "RunRecord0 = \<lparr>rr_EvidenceID = [], rr_SourceInstance = [], rr_PriorEvidenceID = [],
     rr_Policy = \<lparr>ro_CanaryInstances = 0, ro_MaxAffectedInstances = 0,
       ro_AggregateRegressionLimitPct = Finite 0, ro_RequireLocalReverification = False, ro_Sources = []\<rparr>,
     rr_State = [], rr_HaltReason = [], rr_AppliedInstances = 0, rr_CanaryInstanceIDs = [],
     rr_AggregateRegressionPct = Finite 0, rr_CreatedAt = 0, rr_UpdatedAt = 0, rr_Family = [],
     rr_Class = [], rr_StartedBy = []\<rparr>"

definition newRecord :: "instant \<Rightarrow> Prior \<Rightarrow> RolloutPolicy \<Rightarrow> RunRecord" where
  "newRecord now prior policy =
     RunRecord0\<lparr>rr_EvidenceID := ''rollout-'' @ itoa (UnixNano now),
       rr_SourceInstance := pr_ValidatedInstanceID prior, rr_PriorEvidenceID := pr_EvidenceID prior,
       rr_Policy := policy, rr_State := ''canary'', rr_CreatedAt := now, rr_UpdatedAt := now\<rparr>"

definition finalizeRecord :: "instant \<Rightarrow> RolloutResult \<Rightarrow> go_error option \<Rightarrow> RunRecord \<Rightarrow> RunRecord" where
  "finalizeRecord now res rerr rec =
     (let r = rec\<lparr>rr_AppliedInstances := rs_AppliedInstances res,
                  rr_CanaryInstanceIDs := rs_CanaryInstanceIDs res,
                  rr_AggregateRegressionPct := rs_AggregateRegressionPct res, rr_UpdatedAt := now\<rparr>
      in case rerr of
           Some e \<Rightarrow> r\<lparr>rr_State := ''failed'',
             rr_HaltReason := (if errors_Is e context_Canceled then ''context_canceled'' else ''rollout_error'')\<rparr>
         | None \<Rightarrow>
             if rs_Halted res then r\<lparr>rr_State := ''halted'', rr_HaltReason := rs_HaltReason res\<rparr>
             else r\<lparr>rr_State := ''complete''\<rparr>)"

definition Runtime_RunOnce ::
    "'w RolloutRuntime \<Rightarrow> 'w \<times> rollout_db \<Rightarrow> (RunRecord \<times> go_error option) \<times> 'w \<times> rollout_db" where
  "Runtime_RunOnce rt s =
     (case s of (w, db) \<Rightarrow>
      (case runtime_ready rt w of
         Inl e \<Rightarrow> ((RunRecord0, Some e), w, db)
       | Inr (eng, evi, coh, runs) \<Rightarrow>
           (case selectPrior evi w of
              (Inl e, w1) \<Rightarrow> ((RunRecord0, Some e), w1, db)
            | (Inr prior, w1) \<Rightarrow>
                (case coh prior w1 of
                   (Inl e, w2) \<Rightarrow> ((RunRecord0, Some (Wrap ''select rollout cohort: '' e [])), w2, db)
                 | (Inr insts, w2) \<Rightarrow>
                     (case resolvePolicy (rt_Policies rt) insts of
                        Inl e \<Rightarrow> ((RunRecord0, Some e), w2, db)
                      | Inr policy \<Rightarrow>
                          let (now, w3) = rt_Now rt w2;
                              rec = newRecord now prior policy
                          in (case store_Create runs rec (w3, db) of
                                (Inl e, s4) \<Rightarrow> ((rec, Some (Wrap ''create rollout run: '' e [])), s4)
                              | (Inr _, (w4, db4)) \<Rightarrow>
                                  let ((res, rerr), w5) = eng \<lparr>rq_Prior = prior, rq_Instances = insts,
                                        rq_Policy = policy\<rparr> w4;
                                      (now2, w6) = rt_Now rt w5;
                                      rec2 = finalizeRecord now2 res rerr rec
                                  in (case store_Update runs rec2 (w6, db4) of
                                        (Inl e, s7) \<Rightarrow>
                                          ((rec2, errors_Join [rerr, Some (Wrap ''update rollout run: '' e [])]), s7)
                                      | (Inr _, s7) \<Rightarrow> ((rec2, rerr), s7))))))))"

definition countVerifiedSince :: "PriorEvidence list \<Rightarrow> instant \<Rightarrow> int" where
  "countVerifiedSince evidence since =
     int (length (filter (\<lambda>c. pe_Verdict c = ''success'' \<and> pe_CompletedAt c > since \<and>
                              validPrior (pe_Prior c)) evidence))"

definition RunDue ::
    "'w RolloutRuntime \<Rightarrow> 'w \<times> rollout_db \<Rightarrow> (bool \<times> go_error option) \<times> 'w \<times> rollout_db" where
  "RunDue rt s =
     (case runtime_ready rt (fst s) of
        Inl e \<Rightarrow> ((False, Some e), s)
      | Inr (eng, evi, coh, runs) \<Rightarrow>
          (case store_Latest runs s of
             (Inl e, s1) \<Rightarrow> ((False, Some (Wrap ''load latest rollout run: '' e [])), s1)
           | (Inr latest, (w1, db1)) \<Rightarrow>
               let (now, w2) = rt_Now rt w1;
                   updated = (case latest of None \<Rightarrow> 0 | Some r \<Rightarrow> rr_UpdatedAt r)
               in if latest \<noteq> None \<and> time_Sub now updated < rt_TriggerInterval rt
                  then ((False, None), w2, db1)
                  else (case evi w2 of
                          (Inl e, w3) \<Rightarrow> ((False, Some (Wrap ''list verified successes: '' e [])), w3, db1)
                        | (Inr evidence, w3) \<Rightarrow>
                            if countVerifiedSince evidence updated < rt_MinVerifiedSuccesses rt
                            then ((False, None), w3, db1)
                            else (case Runtime_RunOnce rt (w3, db1) of
                                    ((_, e), s4) \<Rightarrow> ((e = None, e), s4)))))"

end
