(* ===== verification/Canary.thy ===== *)
theory Canary
  imports Rollout_Store Siem_Value Ledger_Db
begin

text \<open>
  The fleet canary of \<^verbatim>\<open>sidecar/internal/rollout/canary.go\<close>, and the matching of
  recommendations of \<^verbatim>\<open>cmd/pg_sage_sidecar/autonomy_fleet.go\<close>: starting a canary of a
  verified action, its backend over the fleet's databases, and the record it leaves. A
  \<^verbatim>\<open>CanaryTarget\<close> is a record of functions over the world; the resolver reads the world.
  The wait of \<^verbatim>\<open>settle\<close> ends when the world says so, by the timer or by the context.
  The eight random bytes of a run's name are an argument.
\<close>

subsection \<open>Targets and the service\<close>

record SourceAction =
  sa_SQL :: string
  sa_RollbackSQL :: string
  sa_ActionType :: string
  sa_Outcome :: string
  sa_Verification :: string

record 'w CanaryTarget =
  ct_SourceAction :: "int \<Rightarrow> 'w \<Rightarrow> (go_error + SourceAction) \<times> 'w"
  ct_MatchingFinding :: "string \<Rightarrow> 'w \<Rightarrow> (go_error + int option) \<times> 'w"
  ct_Execute :: "int \<Rightarrow> string \<Rightarrow> string \<Rightarrow> int option \<Rightarrow> 'w \<Rightarrow> (go_error + int) \<times> 'w"
  ct_Rollback :: "int \<Rightarrow> string \<Rightarrow> 'w \<Rightarrow> go_error option \<times> 'w"
  ct_ActionResult :: "int \<Rightarrow> 'w \<Rightarrow> (go_error + string \<times> string) \<times> 'w"

type_synonym 'w TargetResolver = "string \<Rightarrow> 'w \<Rightarrow> go_error + 'w CanaryTarget"

record 'w CanaryOptions =
  co_CanaryInstances :: int
  co_RegressionLimitPct :: float64
  co_Settle :: duration
  co_Now :: "'w \<Rightarrow> instant \<times> 'w"
  co_wait :: "duration \<Rightarrow> 'w \<Rightarrow> go_error option \<times> 'w" \<comment> \<open>the timer against the context\<close>
  co_ctx_Err :: "'w \<Rightarrow> go_error option"

record StartRequest =
  sq_SourceDatabase :: string
  sq_ActionLogID :: int
  sq_Targets :: "string list"
  sq_Family :: string
  sq_Class :: string
  sq_StartedBy :: string
  sq_ApprovedBy :: "int option"

record 'w CanaryService =
  cs_resolve :: "'w TargetResolver"
  cs_runs :: "'w RunStore"
  cs_opts :: "'w CanaryOptions"

definition ErrInvalidCanary :: go_error where
  "ErrInvalidCanary = ErrorText ''invalid canary request''"
definition ErrSourceNotVerified :: go_error where
  "ErrSourceNotVerified = ErrorText ''the source action is not a verified success with a rollback''"
definition ErrCanaryRunning :: go_error where
  "ErrCanaryRunning = ErrorText ''a canary rollout is already running''"

definition NewCanaryService ::
    "'w TargetResolver option \<Rightarrow> 'w RunStore option \<Rightarrow> 'w CanaryOptions \<Rightarrow> go_error + 'w CanaryService" where
  "NewCanaryService resolve runs opts =
     (case (resolve, runs) of
        (Some f, Some st) \<Rightarrow> Inr \<lparr>cs_resolve = f, cs_runs = st,
          cs_opts = (if co_CanaryInstances opts < 1 then opts\<lparr>co_CanaryInstances := 1\<rparr> else opts)\<rparr>
      | _ \<Rightarrow> Inl (ErrorText ''canary service needs a target resolver and a run store''))"

definition settle :: "'w CanaryService \<Rightarrow> 'w \<Rightarrow> go_error option \<times> 'w" where
  "settle svc w =
     (if co_Settle (cs_opts svc) \<le> 0 then (None, w) else co_wait (cs_opts svc) (co_Settle (cs_opts svc)) w)"

subsection \<open>Validation\<close>

definition humanStarter :: "string \<Rightarrow> bool" where
  "humanStarter actor \<longleftrightarrow>
     (let a = TrimSpace actor
      in (\<forall>p\<in>{ActorPgSage, ''system'', ''mcp''}. \<not> HasPrefix a p) \<and> a \<noteq> [])"

definition knownClass :: "string \<Rightarrow> bool" where
  "knownClass class \<longleftrightarrow> Spec class \<noteq> None"

fun check_targets :: "string \<Rightarrow> string list \<Rightarrow> string list \<Rightarrow> go_error + unit" where
  "check_targets src seen [] = Inr ()"
| "check_targets src seen (t # ts) =
     (if TrimSpace t = [] \<or> t \<in> set seen \<or> t = src
      then Inl (Wrap [] ErrInvalidCanary ('': target '' @ quoted t @ '' is empty, repeated or the source''))
      else check_targets src (t # seen) ts)"

definition validateStart :: "StartRequest \<Rightarrow> go_error + unit" where
  "validateStart req =
     ebind (check_targets (sq_SourceDatabase req) [] (sq_Targets req)) (\<lambda>_.
       if TrimSpace (sq_SourceDatabase req) = [] \<or> sq_ActionLogID req \<le> 0
       then Inl (Wrap [] ErrInvalidCanary '': a source database and action are required'')
       else if sq_Targets req = [] \<or> length (sq_Targets req) > 100
       then Inl (Wrap [] ErrInvalidCanary '': 1-100 target databases'')
       else if \<not> humanStarter (sq_StartedBy req)
       then Inl (Wrap [] ErrInvalidCanary '': a canary is started by a person'')
       else if sq_Family req \<noteq> [] \<and> \<not> KnownFamily (sq_Family req)
       then Inl (Wrap [] ErrInvalidCanary ('': unknown family '' @ quoted (sq_Family req)))
       else if sq_Class req \<noteq> [] \<and> \<not> knownClass (sq_Class req)
       then Inl (Wrap [] ErrInvalidCanary ('': unknown action class '' @ quoted (sq_Class req)))
       else Inr ())"

definition verifiedSource :: "'w CanaryService \<Rightarrow> StartRequest \<Rightarrow> 'w \<Rightarrow> (go_error + SourceAction) \<times> 'w" where
  "verifiedSource svc req w =
     (case cs_resolve svc (sq_SourceDatabase req) w of
        Inl e \<Rightarrow> (Inl (Wrap [] ErrInvalidCanary ('': '' @ Error_text e)), w)
      | Inr target \<Rightarrow>
          (case ct_SourceAction target (sq_ActionLogID req) w of
             (Inl e, w1) \<Rightarrow> (Inl (Wrap [] ErrSourceNotVerified ('': '' @ Error_text e)), w1)
           | (Inr src, w1) \<Rightarrow>
               let verified = (sa_Verification src = [] \<or> sa_Verification src = ''success'')
               in if sa_Outcome src \<noteq> ''success'' \<or> \<not> verified \<or> TrimSpace (sa_SQL src) = [] \<or>
                     TrimSpace (sa_RollbackSQL src) = []
                  then (Inl (Wrap [] ErrSourceNotVerified ('': outcome '' @ quoted (sa_Outcome src) @
                         '', verification '' @ quoted (sa_Verification src))), w1)
                  else (Inr src, w1)))"

subsection \<open>Preparing a run\<close>

record preparedCanary =
  pc_record :: RunRecord
  pc_request :: RolloutRequest
  pc_source :: SourceAction
  pc_approvedB :: "int option"

definition policyFor :: "'w CanaryService \<Rightarrow> nat \<Rightarrow> RolloutPolicy" where
  "policyFor svc targets =
     \<lparr>ro_CanaryInstances = min (co_CanaryInstances (cs_opts svc)) (int targets),
      ro_MaxAffectedInstances = int targets,
      ro_AggregateRegressionLimitPct = co_RegressionLimitPct (cs_opts svc),
      ro_RequireLocalReverification = True, ro_Sources = []\<rparr>"

definition bytes_of :: "string \<Rightarrow> string" where
  "bytes_of s = map (\<lambda>b. char_of (unat b)) (utf8 s)"

definition canary_intent :: "SourceAction \<Rightarrow> string" where
  "canary_intent src = Marshal (GMap [(''action_type'', GStr (bytes_of (sa_ActionType src))),
     (''rollback_sql'', GStr (bytes_of (sa_RollbackSQL src))), (''sql'', GStr (bytes_of (sa_SQL src)))])"

definition newRunID :: "nat list \<Rightarrow> string" where
  "newRunID bytes = concat (map (\<lambda>b. [hex_char (b div 16), hex_char (b mod 16)]) bytes)"

definition canary_request :: "'w CanaryService \<Rightarrow> StartRequest \<Rightarrow> SourceAction \<Rightarrow> RolloutRequest" where
  "canary_request svc req src =
     \<lparr>rq_Prior = \<lparr>pr_EvidenceID = ''action_log:'' @ sq_SourceDatabase req @ '':'' @ itoa (sq_ActionLogID req),
        pr_ValidatedInstanceID = sq_SourceDatabase req, pr_Intent = canary_intent src\<rparr>,
      rq_Instances = map (\<lambda>t. \<lparr>in_ID = t, in_Class = ''fleet'', in_Tags = []\<rparr>) (sq_Targets req),
      rq_Policy = policyFor svc (length (sq_Targets req))\<rparr>"

definition prepare ::
    "'w CanaryService \<Rightarrow> nat list \<Rightarrow> StartRequest \<Rightarrow> ('w, preparedCanary) stored" where
  "prepare svc rnd req s =
     (case s of (w, db) \<Rightarrow>
      (case validateStart req of
         Inl e \<Rightarrow> (Inl e, w, db)
       | Inr _ \<Rightarrow>
           (case verifiedSource svc req w of
              (Inl e, w1) \<Rightarrow> (Inl e, w1, db)
            | (Inr src, w1) \<Rightarrow>
                let request = canary_request svc req src;
                    (now, w2) = co_Now (cs_opts svc) w1;
                    rec = RunRecord0\<lparr>rr_EvidenceID := ''canary-'' @ newRunID rnd,
                      rr_SourceInstance := sq_SourceDatabase req,
                      rr_PriorEvidenceID := pr_EvidenceID (rq_Prior request),
                      rr_Policy := rq_Policy request, rr_State := ''canary'', rr_CreatedAt := now,
                      rr_UpdatedAt := now, rr_Family := sq_Family req, rr_Class := sq_Class req,
                      rr_StartedBy := sq_StartedBy req\<rparr>
                in (case store_Create (cs_runs svc) rec (w2, db) of
                      (Inl e, s3) \<Rightarrow> (Inl e, s3)
                    | (Inr _, s3) \<Rightarrow> (Inr \<lparr>pc_record = rec, pc_request = request, pc_source = src,
                        pc_approvedB = sq_ApprovedBy req\<rparr>, s3)))))"

subsection \<open>The backend\<close>

record canaryBackend =
  cb_findings :: "string \<Rightarrow> int option"
  cb_actions :: "string \<Rightarrow> int option"
  cb_order :: "string list"

definition canaryBackend0 :: canaryBackend where
  "canaryBackend0 = \<lparr>cb_findings = (\<lambda>_. None), cb_actions = (\<lambda>_. None), cb_order = []\<rparr>"

definition canary_Reverify ::
    "'w CanaryService \<Rightarrow> SourceAction \<Rightarrow> Instance \<Rightarrow> Prior \<Rightarrow> 'w \<times> canaryBackend \<Rightarrow>
      (go_error + Reverification) \<times> 'w \<times> canaryBackend" where
  "canary_Reverify svc src inst prior s =
     (case s of (w, b) \<Rightarrow>
      let b1 = b\<lparr>cb_order := cb_order b @ [in_ID inst]\<rparr>
      in case cs_resolve svc (in_ID inst) w of
           Inl e \<Rightarrow> (Inl e, w, b1)
         | Inr target \<Rightarrow>
             (case ct_MatchingFinding target (sa_SQL src) w of
                (Inl e, w1) \<Rightarrow> (Inl e, w1, b1)
              | (Inr None, w1) \<Rightarrow> (Inr \<lparr>rv_Eligible = False,
                  rv_Reason = ''no matching local recommendation'', rv_LocalEvidenceID = []\<rparr>, w1, b1)
              | (Inr (Some i), w1) \<Rightarrow> (Inr \<lparr>rv_Eligible = True, rv_Reason = [],
                  rv_LocalEvidenceID = ''finding:'' @ itoa i\<rparr>, w1,
                  b1\<lparr>cb_findings := (cb_findings b1)(in_ID inst \<mapsto> i)\<rparr>)))"

definition canary_Apply ::
    "'w CanaryService \<Rightarrow> SourceAction \<Rightarrow> int option \<Rightarrow> Instance \<Rightarrow> Reverification \<Rightarrow>
      'w \<times> canaryBackend \<Rightarrow> (go_error + AppliedChange) \<times> 'w \<times> canaryBackend" where
  "canary_Apply svc src approvedBy inst cand s =
     (case s of (w, b) \<Rightarrow>
      (case cs_resolve svc (in_ID inst) w of
         Inl e \<Rightarrow> (Inl e, w, b)
       | Inr target \<Rightarrow>
           (case ct_Execute target (or_else (cb_findings b (in_ID inst)) 0) (sa_SQL src)
                   (sa_RollbackSQL src) approvedBy w of
              (Inl e, w1) \<Rightarrow> (Inl e, w1, b)
            | (Inr action, w1) \<Rightarrow> (Inr \<lparr>ac_Handle = itoa action\<rparr>, w1,
                b\<lparr>cb_actions := (cb_actions b)(in_ID inst \<mapsto> action)\<rparr>))))"

text \<open>\<^verbatim>\<open>strconv.ParseInt\<close> with its error dropped: 0 on text that is no number, the nearest
  bound on one out of range.\<close>

definition parse_int64 :: "string \<Rightarrow> int" where
  "parse_int64 s =
     (let neg = HasPrefix s ''-'';
          body = (if neg \<or> HasPrefix s ''+'' then tl s else s);
          v = (if neg then - digits_val body else digits_val body)
      in if body \<noteq> [] \<and> list_all is_digit body then max min64 (min max64 v) else 0)"

definition canary_outcome :: "string \<Rightarrow> string \<Rightarrow> string \<Rightarrow> RolloutOutcome" where
  "canary_outcome handle outcome verification =
     (let failed = (verification \<in> {''failed'', ''revert'', ''unverifiable''} \<or> outcome \<noteq> ''success'')
      in \<lparr>om_RegressionPct = (if failed then Finite 100 else Finite 0),
          om_EvidenceID = ''action_log:'' @ handle, om_Failed = failed,
          om_Detail = ''outcome '' @ outcome @ '', verification '' @ quoted verification\<rparr>)"

definition canary_Measure ::
    "'w CanaryService \<Rightarrow> Instance \<Rightarrow> AppliedChange \<Rightarrow> 'w \<times> canaryBackend \<Rightarrow>
      (go_error + RolloutOutcome) \<times> 'w \<times> canaryBackend" where
  "canary_Measure svc inst change s =
     (case s of (w, b) \<Rightarrow>
      (case settle svc w of
         (Some e, w1) \<Rightarrow> (Inl e, w1, b)
       | (None, w1) \<Rightarrow>
           (case cs_resolve svc (in_ID inst) w1 of
              Inl e \<Rightarrow> (Inl e, w1, b)
            | Inr target \<Rightarrow>
                (case ct_ActionResult target (parse_int64 (ac_Handle change)) w1 of
                   (Inl e, w2) \<Rightarrow> (Inl e, w2, b)
                 | (Inr (outcome, verification), w2) \<Rightarrow>
                     (Inr (canary_outcome (ac_Handle change) outcome verification), w2, b)))))"

definition canary_Rollback ::
    "'w CanaryService \<Rightarrow> Instance \<Rightarrow> AppliedChange \<Rightarrow> 'w \<times> canaryBackend \<Rightarrow>
      go_error option \<times> 'w \<times> canaryBackend" where
  "canary_Rollback svc inst change s =
     (case s of (w, b) \<Rightarrow>
      (case cs_resolve svc (in_ID inst) w of
         Inl e \<Rightarrow> (Some e, w, b)
       | Inr target \<Rightarrow>
           (case ct_Rollback target (parse_int64 (ac_Handle change)) ''fleet canary halted: rolled back'' w of
              (e, w1) \<Rightarrow> (e, w1, b))))"

definition canary_backend ::
    "'w CanaryService \<Rightarrow> SourceAction \<Rightarrow> int option \<Rightarrow> ('w \<times> canaryBackend) Backend" where
  "canary_backend svc src approvedBy =
     \<lparr>bk_Reverify = canary_Reverify svc src, bk_Apply = canary_Apply svc src approvedBy,
      bk_Measure = canary_Measure svc, bk_Rollback = Some (canary_Rollback svc),
      bk_ctx_Err = (\<lambda>(w, b). co_ctx_Err (cs_opts svc) w)\<rparr>"

definition instance_record :: "canaryBackend \<Rightarrow> RolloutResult \<Rightarrow> instant \<Rightarrow> nat \<times> string \<Rightarrow> InstanceRecord option" where
  "instance_record b res when p =
     (case p of (i, ident) \<Rightarrow>
        map_option (\<lambda>r. \<lparr>ic_InstanceID = ident, ic_Ordinal = int i + 1, ic_Status = ir_Status r,
          ic_EvidenceID = ir_EvidenceID r, ic_ActionLogID = or_else (cb_actions b ident) 0,
          ic_RegressionPct = ir_RegressionPct r, ic_Detail = ir_Detail r, ic_UpdatedAt = when\<rparr>)
          (rs_Instances res ident))"

definition canary_records :: "canaryBackend \<Rightarrow> RolloutResult \<Rightarrow> instant \<Rightarrow> InstanceRecord list" where
  "canary_records b res when = List.map_filter (instance_record b res when) (List.enumerate 0 (cb_order b))"

subsection \<open>Running\<close>

definition canary_final :: "instant \<Rightarrow> RolloutResult \<Rightarrow> go_error option \<Rightarrow> RunRecord \<Rightarrow> RunRecord" where
  "canary_final now res rerr rec =
     (let r = rec\<lparr>rr_AppliedInstances := rs_AppliedInstances res,
                  rr_CanaryInstanceIDs := rs_CanaryInstanceIDs res,
                  rr_AggregateRegressionPct := rs_AggregateRegressionPct res, rr_UpdatedAt := now\<rparr>
      in if rerr \<noteq> None then r\<lparr>rr_State := ''failed'', rr_HaltReason := ''rollout_error''\<rparr>
         else if rs_Halted res then r\<lparr>rr_State := ''halted'', rr_HaltReason := rs_HaltReason res\<rparr>
         else r\<lparr>rr_State := ''complete''\<rparr>)"

definition err_of :: "go_error + unit \<Rightarrow> go_error option" where
  "err_of r = (case r of Inl e \<Rightarrow> Some e | Inr _ \<Rightarrow> None)"

definition execute ::
    "'w CanaryService \<Rightarrow> preparedCanary \<Rightarrow> 'w \<times> rollout_db \<Rightarrow> (RunRecord \<times> go_error option) \<times> 'w \<times> rollout_db" where
  "execute svc p s =
     (case s of (w, db) \<Rightarrow>
      let ((res, rerr), (w1, b)) = Engine_Rollout
            (canary_backend svc (pc_source p) (pc_approvedB p)) (pc_request p) (w, canaryBackend0);
          (now, w2) = co_Now (cs_opts svc) w1;
          rec = canary_final now res rerr (pc_record p);
          (u, s3) = store_Update (cs_runs svc) rec (w2, db);
          (v, s4) = SaveInstances (cs_runs svc) (rr_EvidenceID rec) (canary_records b res now) s3
      in ((rec, errors_Join [rerr, err_of u, err_of v]), s4))"

text \<open>The service with its flag. \<^verbatim>\<open>Start\<close> answers once the run is recorded and leaves the
  prepared canary to the background, which ends with \<^verbatim>\<open>finish\<close>.\<close>

definition canary_Run ::
    "'w CanaryService \<Rightarrow> nat list \<Rightarrow> StartRequest \<Rightarrow> bool \<times> 'w \<times> rollout_db \<Rightarrow>
      (RunRecord \<times> go_error option) \<times> bool \<times> 'w \<times> rollout_db" where
  "canary_Run svc rnd req st =
     (case st of (running, s) \<Rightarrow>
      if running then ((RunRecord0, Some ErrCanaryRunning), running, s)
      else case prepare svc rnd req s of
             (Inl e, s1) \<Rightarrow> ((RunRecord0, Some e), False, s1)
           | (Inr p, s1) \<Rightarrow> (case execute svc p s1 of (a, s2) \<Rightarrow> (a, False, s2)))"

definition canary_Start ::
    "'w CanaryService \<Rightarrow> nat list \<Rightarrow> StartRequest \<Rightarrow> bool \<times> 'w \<times> rollout_db \<Rightarrow>
      (RunRecord \<times> go_error option) \<times> preparedCanary option \<times> bool \<times> 'w \<times> rollout_db" where
  "canary_Start svc rnd req st =
     (case st of (running, s) \<Rightarrow>
      if running then ((RunRecord0, Some ErrCanaryRunning), None, running, s)
      else case prepare svc rnd req s of
             (Inl e, s1) \<Rightarrow> ((RunRecord0, Some e), None, False, s1)
           | (Inr p, s1) \<Rightarrow> ((pc_record p, None), Some p, True, s1))"

definition canary_finish ::
    "'w CanaryService \<Rightarrow> preparedCanary \<Rightarrow> bool \<times> 'w \<times> rollout_db \<Rightarrow> bool \<times> 'w \<times> rollout_db" where
  "canary_finish svc p st = (case st of (running, s) \<Rightarrow> (False, snd (execute svc p s)))"

definition canary_Get ::
    "'w CanaryService \<Rightarrow> string \<Rightarrow> ('w, RunRecord \<times> InstanceRecord list) stored" where
  "canary_Get svc ident s =
     (case store_Get (cs_runs svc) ident s of
        (Inl e, s1) \<Rightarrow> (Inl (Wrap (''read canary '' @ ident @ '': '') e []), s1)
      | (Inr run, s1) \<Rightarrow>
          (case store_Instances (cs_runs svc) ident s1 of
             (Inl e, s2) \<Rightarrow> (Inl e, s2)
           | (Inr is, s2) \<Rightarrow> (Inr (run, is), s2)))"

definition canary_List :: "'w CanaryService \<Rightarrow> int \<Rightarrow> ('w, RunRecord list) stored" where
  "canary_List svc limit = store_List (cs_runs svc) limit"

subsection \<open>Matching recommendations\<close>

text \<open>\<^verbatim>\<open>normalizeSQL\<close> of the source's statement, and the expression of the query it is
  compared with: \<^verbatim>\<open>btrim\<close> trims spaces, \<^verbatim>\<open>rtrim\<close> all trailing
  semicolons, and every run of white space becomes a space.\<close>

definition TrimSuffix :: "string \<Rightarrow> string \<Rightarrow> string" where
  "TrimSuffix s suf = (if suffix suf s then take (length s - length suf) s else s)"

definition normalizeSQL :: "string \<Rightarrow> string" where
  "normalizeSQL sql = ToLower (Join (Fields (TrimSuffix (TrimSpace sql) '';'')) '' '')"

definition btrim :: "string \<Rightarrow> string" where
  "btrim s = rev (dropWhile (\<lambda>c. c = CHR '' '') (rev (dropWhile (\<lambda>c. c = CHR '' '') s)))"

definition rtrim_semicolons :: "string \<Rightarrow> string" where
  "rtrim_semicolons s = rev (dropWhile (\<lambda>c. c = CHR '';'') (rev s))"

fun collapse_space :: "bool \<Rightarrow> string \<Rightarrow> string" where
  "collapse_space inside [] = []"
| "collapse_space inside (c # cs) =
     (if is_space c then (if inside then [] else '' '') @ collapse_space True cs
      else c # collapse_space False cs)"

definition finding_sql :: "string \<Rightarrow> string" where
  "finding_sql recommended = ToLower (collapse_space False (rtrim_semicolons (btrim recommended)))"

record finding =
  fi_id :: int
  fi_open :: bool \<comment> \<open>open, not acted on and not resolved\<close>
  fi_recommended_sql :: string

text \<open>\<^verbatim>\<open>ORDER BY id DESC LIMIT 1\<close>.\<close>

definition MatchingFinding :: "finding list \<Rightarrow> string \<Rightarrow> int option" where
  "MatchingFinding fs sql =
     (case filter (\<lambda>f. fi_open f \<and> finding_sql (fi_recommended_sql f) = normalizeSQL sql) fs of
        [] \<Rightarrow> None
      | ms \<Rightarrow> Some (Max (set (map fi_id ms))))"

end
