(* ===== verification/Rollout_Props.thy ===== *)
theory Rollout_Props
  imports Rollout_Trace Canary
begin

text \<open>
  What rollouts and fleet canaries promise: an instance is changed only after its own re-verification
  and while the canary and every later instance are within the limits; a failed measurement or a
  regression undoes everything, newest first; an error undoes nothing. Backends whose measurements
  are verdicts are a locale, which the canary's backend interprets.
\<close>

subsection \<open>Verdicts instead of regressions\<close>

lemma ieee_0 [simp]: "ieee 0 = Finite 0"
  using round_even_of_int [of 0] by (simp add: ieee_def)

lemma averageRegression_0:
  assumes "\<forall>oc\<in>set ocs. om_RegressionPct oc = Finite 0"
  shows "averageRegression ocs = Finite 0"
proof -
  from assms have "fold (\<lambda>oc total. float_add total (om_RegressionPct oc)) ocs (Finite 0) = Finite 0"
    by (induction ocs) auto
  then show ?thesis by (simp add: averageRegression_def)
qed

text \<open>A backend that measures no regression where the change did not fail.\<close>

locale verdict_backend =
  fixes bk :: "'w Backend"
  assumes no_regression:
    "bk_Measure bk i c w = (Inr oc, w') \<Longrightarrow> \<not> om_Failed oc \<Longrightarrow> om_RegressionPct oc = Finite 0"
begin

definition unmeasured :: "rolloutRun \<Rightarrow> bool" where
  "unmeasured run \<longleftrightarrow>
     (\<forall>oc\<in>set (run_canaryOutcomes run). om_RegressionPct oc = Finite 0) \<and>
     rs_AggregateRegressionPct (run_result run) = Finite 0 \<and>
     \<not> float_less (ro_AggregateRegressionLimitPct (rq_Policy (run_request run))) (Finite 0)"

lemma judge_unmeasured:
  assumes "judge i oc run = (halt, run')" "unmeasured run"
    and "\<not> om_Failed oc \<longrightarrow> om_RegressionPct oc = Finite 0"
  shows "unmeasured run' \<and> halt \<in> {[], ''verification_failed''}"
proof -
  have "averageRegression (run_canaryOutcomes run @ [oc]) = Finite 0" if "\<not> om_Failed oc"
    using averageRegression_0 assms(2,3) that by (simp add: unmeasured_def)
  with assms show ?thesis
    by (auto simp: judge_def Let_def run_updates unmeasured_def split: if_splits)
qed

lemma step_unmeasured:
  assumes "rollout_step bk run i w = (a, run', w')" "unmeasured run"
  shows "unmeasured run'" "a = Inr halt \<Longrightarrow> halt \<in> {[], ''verification_failed''}"
proof -
  have "unmeasured run' \<and> (\<forall>halt. a = Inr halt \<longrightarrow> halt \<in> {[], ''verification_failed''})"
  proof -
    have one: "unmeasured r2 \<and> h \<in> {[], ''verification_failed''}"
      if "judge i oc r1 = (h, r2)" "unmeasured r1" "bk_Measure bk j c w1 = (Inr oc, w2)"
      for oc r1 h r2 j c w1 w2
      using judge_unmeasured [OF that(1,2)] no_regression [OF that(3)] by blast
    have base: "unmeasured (set_instance j res (set_result f run\<lparr>run_changed := cs\<rparr>))"
      if "\<And>r. rs_AggregateRegressionPct (f r) = rs_AggregateRegressionPct r" for j res f cs
      using assms(2) that by (simp add: unmeasured_def run_updates)
    show ?thesis using assms(1,2) unfolding rollout_step_def
      by (auto simp: Let_def split: prod.splits sum.splits if_splits dest!: one [OF _ base])
        (simp_all add: unmeasured_def run_updates)
  qed
  then show "unmeasured run'" "a = Inr halt \<Longrightarrow> halt \<in> {[], ''verification_failed''}" by auto
qed

lemma rollback_unmeasured:
  "fold (rollback_one bk) cs (run, w) = (run', w') \<Longrightarrow> same_rollout run run'"
proof (induction cs arbitrary: run w)
  case (Cons x cs)
  then show ?case
    by (cases x; cases "rollback_one bk x (run, w)")
      (force simp: rollback_one_def Let_def run_updates same_rollout_def
        split: option.splits prod.splits)
qed (simp add: same_rollout_def)

text \<open>Only a failed verification halts, when the blast radius covers every instance.\<close>

lemma verdict_halts:
  assumes "rollout_loop bk is run w = (e, run', w')" "unmeasured run" "\<not> rs_Halted (run_result run)"
    and "rs_AppliedInstances (run_result run) + int (length is) \<le> ro_MaxAffectedInstances (rq_Policy (run_request run))"
  shows "rs_AggregateRegressionPct (run_result run') = Finite 0 \<and>
    (rs_Halted (run_result run') \<longrightarrow> rs_HaltReason (run_result run') = ''verification_failed'')"
  using assms
proof (induction "is" arbitrary: run w)
  case Nil
  then show ?case by (simp add: unmeasured_def)
next
  case (Cons i rest)
  obtain a run1 w1 where s: "rollout_step bk run i w = (a, run1, w1)"
    by (cases "rollout_step bk run i w") auto
  note un = step_unmeasured [OF s Cons.prems(2)]
  have same: "run_request run1 = run_request run" "\<not> rs_Halted (run_result run1)"
    "rs_AppliedInstances (run_result run1) \<le> rs_AppliedInstances (run_result run) + 1"
    using s Cons.prems(3) judge_frame unfolding rollout_step_def
    by (auto simp: Let_def run_updates split: prod.splits sum.splits if_splits)
  show ?case
  proof (cases "bk_ctx_Err bk w")
    case (Some e')
    with Cons.prems show ?thesis by (auto simp: unmeasured_def)
  next
    case None
    note room = Cons.prems(4)
    show ?thesis
    proof (cases a)
      case (Inl e')
      with Cons.prems(1) None room s un(1) same show ?thesis by (auto simp: unmeasured_def)
    next
      case (Inr halt)
      show ?thesis
      proof (cases "halt = []")
        case True
        with Cons.prems(1) None room s Inr have "rollout_loop bk rest run1 w1 = (e, run', w')" by simp
        from Cons.IH [OF this un(1) same(2)] room same(1,3) show ?thesis by simp
      next
        case False
        with Cons.prems(1) None room s Inr have
          "fold (rollback_one bk) (rev (run_changed run1))
             (set_result (\<lambda>r. r\<lparr>rs_Halted := True, rs_HaltReason := halt\<rparr>) run1, w1) = (run', w')"
          by (auto simp: rollbackAll_def run_updates split: prod.splits)
        from rollback_unmeasured [OF this] un(1) un(2) [OF Inr] False show ?thesis
          by (auto simp: same_rollout_def unmeasured_def run_updates)
      qed
    qed
  qed
qed

end

interpretation cv: verdict_backend "canary_backend svc src approvedBy" for svc src approvedBy
  by unfold_locales
    (auto simp: canary_backend_def canary_Measure_def canary_outcome_def Let_def
      split: prod.splits sum.splits option.splits if_splits)

subsection \<open>An example fleet\<close>

text \<open>Two databases that re-verify and execute; the measurement of each is an argument.\<close>

definition ex_inst :: "string \<Rightarrow> Instance" where
  "ex_inst n = \<lparr>in_ID = n, in_Class = ''fleet'', in_Tags = []\<rparr>"

definition ex_change :: "string \<Rightarrow> AppliedChange" where
  "ex_change n = \<lparr>ac_Handle = n\<rparr>"

definition ex_good :: RolloutOutcome where
  "ex_good = \<lparr>om_RegressionPct = Finite 0, om_EvidenceID = ''good'', om_Failed = False, om_Detail = []\<rparr>"

definition ex_bad :: RolloutOutcome where
  "ex_bad = \<lparr>om_RegressionPct = Finite 100, om_EvidenceID = ''bad'', om_Failed = True, om_Detail = []\<rparr>"

definition ex_cand :: Reverification where
  "ex_cand = \<lparr>rv_Eligible = True, rv_Reason = [], rv_LocalEvidenceID = ''finding:1''\<rparr>"

definition ex_backend :: "(string \<Rightarrow> go_error + RolloutOutcome) \<Rightarrow> unit Backend" where
  "ex_backend m = \<lparr>bk_Reverify = (\<lambda>i p w. (Inr ex_cand, w)), bk_Apply = (\<lambda>i cand w. (Inr (ex_change (in_ID i)), w)),
     bk_Measure = (\<lambda>i c w. (m (in_ID i), w)), bk_Rollback = Some (\<lambda>i c w. (None, w)), bk_ctx_Err = (\<lambda>w. None)\<rparr>"

definition ex_rollout :: RolloutRequest where
  "ex_rollout = \<lparr>rq_Prior = \<lparr>pr_EvidenceID = ''action_log:src:1'', pr_ValidatedInstanceID = ''src'', pr_Intent = ''{}''\<rparr>,
     rq_Instances = [ex_inst ''a'', ex_inst ''b''],
     rq_Policy = \<lparr>ro_CanaryInstances = 1, ro_MaxAffectedInstances = 2, ro_AggregateRegressionLimitPct = Finite 10,
       ro_RequireLocalReverification = True, ro_Sources = []\<rparr>\<rparr>"

definition ex_halt_measures :: "string \<Rightarrow> go_error + RolloutOutcome" where
  "ex_halt_measures n = Inr (if n = ''a'' then ex_good else ex_bad)"

definition ex_error_measures :: "string \<Rightarrow> go_error + RolloutOutcome" where
  "ex_error_measures n = (if n = ''a'' then Inr ex_good else Inl context_Canceled)"

definition ex_result :: "RolloutOutcome \<Rightarrow> InstanceStatus \<Rightarrow> InstanceResult" where
  "ex_result oc st = \<lparr>ir_Status = st, ir_EvidenceID = om_EvidenceID oc, ir_RegressionPct = om_RegressionPct oc,
     ir_Detail = om_Detail oc\<rparr>"

definition ex_halt_result :: RolloutResult where
  "ex_halt_result = \<lparr>rs_Halted = True, rs_HaltReason = ''verification_failed'', rs_AppliedInstances = 2,
     rs_CanaryInstanceIDs = [''a''], rs_AggregateRegressionPct = Finite 0,
     rs_Instances = [''a'' \<mapsto> ex_result ex_good StatusRolledBack, ''b'' \<mapsto> ex_result ex_bad StatusRolledBack],
     rs_RolledBack = 2, rs_RollbackErrors = []\<rparr>"

definition ex_calls :: "string \<Rightarrow> (go_error + RolloutOutcome) \<Rightarrow> backend_call list" where
  "ex_calls n m = [Reverified (ex_inst n) (Inr ex_cand), Applied (ex_inst n) (Inr (ex_change n)),
     Measured (ex_inst n) (ex_change n) m]"

definition ex_undo :: "string \<Rightarrow> backend_call" where
  "ex_undo n = Undone (ex_inst n) (ex_change n) None"

lemmas ex_rollout_defs = ex_inst_def ex_change_def ex_good_def ex_bad_def ex_cand_def ex_backend_def
  ex_rollout_def ex_result_def ex_calls_def ex_undo_def

lemma ex_halts:
  "Engine_Rollout (logged (ex_backend ex_halt_measures)) ex_rollout ((), []) =
    ((ex_halt_result, None), (), ex_calls ''a'' (Inr ex_good) @ ex_calls ''b'' (Inr ex_bad) @ [ex_undo ''b'', ex_undo ''a''])"
  by (simp add: Engine_Rollout_def rollout_run_def validatePolicy_def rollout_step_def judge_def Let_def
      run_updates run0_def Result0_def rollbackAll_def rollback_one_def logged_def or_else_def
      averageRegression_def ex_halt_measures_def ex_halt_result_def ex_rollout_defs fun_upd_twist)

lemma ex_errors:
  "Engine_Rollout (logged (ex_backend ex_error_measures)) ex_rollout ((), []) =
    ((\<lparr>rs_Halted = False, rs_HaltReason = [], rs_AppliedInstances = 2, rs_CanaryInstanceIDs = [''a''],
       rs_AggregateRegressionPct = Finite 0, rs_Instances = [''a'' \<mapsto> ex_result ex_good StatusApplied],
       rs_RolledBack = 0, rs_RollbackErrors = []\<rparr>,
      Some (Wrap ''measure b: '' context_Canceled [])), (),
     ex_calls ''a'' (Inr ex_good) @ ex_calls ''b'' (Inl context_Canceled))"
  by (simp add: Engine_Rollout_def rollout_run_def validatePolicy_def rollout_step_def judge_def Let_def
      run_updates run0_def Result0_def logged_def averageRegression_def ex_error_measures_def
      ex_rollout_defs)

subsection \<open>Properties\<close>

text \<open>The engine's result is the one of its run.\<close>

lemma Engine_Rollout_run:
  "Engine_Rollout bk req w = ((res, e), w') \<Longrightarrow>
    \<exists>run. rollout_run bk req w = (e, run, w') \<and> run_result run = res"
  by (auto simp: Engine_Rollout_def split: prod.splits)




text \<open>C22: Whatever a rollout's backend answers, it changes an instance only right after the
  instance's own database re-verified the prior, never more instances than the blast radius, never
  while a change is unmeasured or once a change was undone, and never after a failed verification, a
  canary whose average regression is past the limit, or a later instance past it; and it reports as
  many changed instances as it changed.\<close>

theorem rollout_disciplined:
  assumes "Engine_Rollout (logged bk) req (w, []) = ((res, e), w', tr)"
  shows "disciplined req tr \<and> rs_AppliedInstances res = int (length (changes tr)) \<and>
    (validatePolicy (rq_Policy req) = Inr () \<longrightarrow>
      int (length (changes tr)) \<le> ro_MaxAffectedInstances (rq_Policy req))"
proof -
  from Engine_Rollout_run [OF assms] obtain run where
    run: "rollout_run (logged bk) req (w, []) = (e, run, w', tr)" "run_result run = res" by blast
  from rollout_run_ended [OF run(1)] run(2) show ?thesis
    by (auto simp: ended_def run0_def Result0_def validatePolicy_def split: if_splits)
qed

theorem rollout_disciplined_witness:
  "disciplined ex_rollout (ex_calls ''a'' (Inr ex_good) @ ex_calls ''b'' (Inr ex_bad) @ [ex_undo ''b'', ex_undo ''a''])"
  using rollout_disciplined [OF ex_halts] by simp

subsection \<open>Changes an error leaves behind\<close>

definition measure_error :: "backend_call list \<Rightarrow> bool" where
  "measure_error tr \<longleftrightarrow> (\<exists>i c e. last tr = Measured i c (Inl e))"

lemma step_dom:
  "step_calls i run cs a run' \<Longrightarrow>
    dom (rs_Instances (run_result run')) \<subseteq> insert (in_ID i) (dom (rs_Instances (run_result run)))"
  by (erule step_calls.cases) (auto simp: run_updates dest: judge_frame(7))

lemma step_last:
  "step_calls i run cs (Inr halt) run' \<Longrightarrow> cs \<noteq> [] \<and> \<not> measure_error (tr @ cs)"
  by (erule step_calls.cases) (auto simp: measure_error_def)

lemma disjoint_rest:
  assumes "D' \<subseteq> insert x D" "D \<inter> insert x X = {}" "x \<notin> X"
  shows "D' \<inter> X = {}"
  using assms by blast

lemma loop_measure_error:
  assumes "rollout_loop (logged bk) is run (w, tr) = (e, run', w', tr0 @ [Measured i c (Inl e0)])"
    and "tr = [] \<or> \<not> measure_error tr" "dom (rs_Instances (run_result run)) \<inter> in_ID ` set is = {}"
    "distinct (map in_ID is)"
  shows "e \<noteq> None \<and> rs_Instances (run_result run') (in_ID i) = None \<and> (\<exists>us. tr0 = us @ [Applied i (Inr c)])"
  using assms
proof (induction "is" arbitrary: run w tr)
  case Nil
  then show ?case by (auto simp: measure_error_def)
next
  case (Cons j rest)
  let ?tr = "tr0 @ [Measured i c (Inl e0)]"
  obtain a run1 w1 tr1 where s: "rollout_step (logged bk) run j (w, tr) = (a, run1, w1, tr1)"
    by (cases "rollout_step (logged bk) run j (w, tr)") auto
  from rollout_step_calls [OF this] obtain cs where cs: "tr1 = tr @ cs" "step_calls j run cs a run1" by blast
  have runs: "bk_ctx_Err (logged bk) (w, tr) = None"
    "\<not> ro_MaxAffectedInstances (rq_Policy (run_request run)) \<le> rs_AppliedInstances (run_result run)"
    using Cons.prems(1,2) by (auto simp: measure_error_def split: option.splits if_splits)
  show ?case
  proof (cases a)
    case (Inl e')
    with Cons.prems(1) runs s cs(1) have "e \<noteq> None" "run' = run1" "tr @ cs = ?tr" by auto
    with cs(2) [unfolded Inl] Cons.prems(3) show ?thesis
      by (cases rule: step_calls.cases) (auto simp: run_updates)
  next
    case (Inr halt)
    note last = step_last [OF cs(2) [unfolded Inr], of tr]
    show ?thesis
    proof (cases "halt = []")
      case True
      with Inr Cons.prems(1) runs s have l: "rollout_loop (logged bk) rest run1 (w1, tr1) = (e, run', w', ?tr)"
        by simp
      have "dom (rs_Instances (run_result run1)) \<inter> in_ID ` set rest = {}"
        using disjoint_rest [OF step_dom [OF cs(2)]] Cons.prems(3,4) by simp
      with Cons.IH [OF l] last cs(1) Cons.prems(4) show ?thesis by simp
    next
      case False
      let ?run = "set_result (\<lambda>r. r\<lparr>rs_Halted := True, rs_HaltReason := halt\<rparr>) run1"
      from False Inr Cons.prems(1) runs s have f:
        "fold (rollback_one (logged bk)) (rev (run_changed run1)) (?run, w1, tr1) = (run', w', ?tr)"
        by (auto simp: rollbackAll_def run_updates split: prod.splits)
      have "\<not> measure_error ?tr"
      proof (cases "bk_Rollback bk")
        case None
        then have "bk_Rollback (logged bk) = None" by (simp add: logged_def)
        from rollback_without [OF this f] last cs(1) show ?thesis by auto
      next
        case (Some undo)
        with rollbacks_logged [OF f] obtain us where "?tr = tr1 @ us" "\<forall>x\<in>set us. \<exists>i c e. x = Undone i c e"
          by (auto simp: rollback_effect_def)
        with last cs(1) show ?thesis unfolding measure_error_def
          by (cases us rule: rev_cases) auto
      qed
      then show ?thesis by (auto simp: measure_error_def)
    qed
  qed
qed

text \<open>When the measurement of a changed instance fails with an error (the wait was cancelled, the
  database could not be read), the rollout ends with the change in place: nothing it changed is rolled
  back, and the changed instance has no entry in the result.\<close>

theorem failed_measurement_unrecorded:
  assumes "Engine_Rollout (logged bk) req (w, []) = ((res, e), w', tr)"
    and "tr = tr0 @ [Measured i c (Inl e0)]" "distinct (map in_ID (rq_Instances req))"
  shows "(i, c) \<in> set (changes tr) \<and> undone tr = [] \<and> rs_Instances res (in_ID i) = None"
proof -
  from Engine_Rollout_run [OF assms(1)] obtain run where
    run: "rollout_run (logged bk) req (w, []) = (e, run, w', tr)" "run_result run = res" by blast
  then have l: "rollout_loop (logged bk) (rq_Instances req) (run0 req) (w, []) = (e, run, w', tr)"
    using assms(2) by (auto simp: rollout_run_def split: if_splits sum.splits)
  from loop_measure_error [OF l [unfolded assms(2)]] assms(3)
  have m: "e \<noteq> None" "rs_Instances (run_result run) (in_ID i) = None" "\<exists>us. tr0 = us @ [Applied i (Inr c)]"
    by (auto simp: run0_def Result0_def)
  with rollout_run_ended [OF run(1)] assms(2) run(2) show ?thesis by (auto simp: ended_def)
qed

theorem failed_measurement_unrecorded_witness:
  "(ex_inst ''b'', ex_change ''b'') \<in> set (changes (ex_calls ''a'' (Inr ex_good) @ ex_calls ''b'' (Inl context_Canceled)))"
  using failed_measurement_unrecorded [OF ex_errors, of "ex_calls ''a'' (Inr ex_good) @
      [Reverified (ex_inst ''b'') (Inr ex_cand), Applied (ex_inst ''b'') (Inr (ex_change ''b''))]"
      "ex_inst ''b''" "ex_change ''b''" context_Canceled]
  by (simp add: ex_calls_def ex_rollout_def ex_inst_def)

text \<open>The instances a canary saves are those of the result.\<close>

lemma canary_records_recorded:
  "r \<in> set (canary_records b res at0) \<Longrightarrow> rs_Instances res (ic_InstanceID r) \<noteq> None"
  by (auto simp: canary_records_def List.map_filter_def instance_record_def)

text \<open>A fleet canary never halts on a regression: whatever limit it is configured with, its
  average regression is 0 and the only reason a prepared canary halts for is a failed
  verification.\<close>

theorem canary_halts_on_verdicts_only:
  assumes "prepare svc rnd req s = (Inr p, s1)" "execute svc p s1 = ((rec, e), s2)"
  shows "rr_AggregateRegressionPct rec = Finite 0 \<and>
    (rr_State rec = ''halted'' \<longrightarrow> rr_HaltReason rec = ''verification_failed'')"
proof -
  from assms(1) obtain src where p: "pc_request p = canary_request svc req src"
    by (auto simp: prepare_def Let_def split: prod.splits sum.splits)
  let ?bk = "canary_backend svc (pc_source p) (pc_approvedB p)"
  obtain res rerr w1 b where eng: "Engine_Rollout ?bk (pc_request p) (fst s1, canaryBackend0) = ((res, rerr), w1, b)"
    by (metis surj_pair)
  from Engine_Rollout_run [OF this] obtain run where
    run: "rollout_run ?bk (pc_request p) (fst s1, canaryBackend0) = (rerr, run, w1, b)" "run_result run = res"
    by blast
  have "rs_AggregateRegressionPct res = Finite 0 \<and>
    (rs_Halted res \<longrightarrow> rs_HaltReason res = ''verification_failed'')"
  proof (cases "run = run0 (pc_request p)")
    case True
    then show ?thesis using run(2) [symmetric] by (simp add: run0_def Result0_def)
  next
    case False
    with run(1) have l: "rollout_loop ?bk (rq_Instances (pc_request p)) (run0 (pc_request p)) (fst s1, canaryBackend0) =
      (rerr, run, w1, b)" and v: "validatePolicy (rq_Policy (pc_request p)) = Inr ()"
      by (auto simp: rollout_run_def split: if_splits sum.splits)
    have "cv.unmeasured (run0 (pc_request p))"
      using v by (auto simp: cv.unmeasured_def run0_def Result0_def validatePolicy_def split: if_splits)
    from cv.verdict_halts [OF l this] run(2) show ?thesis
      by (simp add: run0_def Result0_def p canary_request_def policyFor_def)
  qed
  with assms(2) eng show ?thesis
    by (cases s1) (auto simp: execute_def canary_final_def Let_def split: prod.splits if_splits)
qed

subsection \<open>An example canary\<close>

text \<open>A source action that was never verified, and targets that recommend and execute it; the verdict
  of each target is an argument.\<close>

definition ex_source :: SourceAction where
  "ex_source = \<lparr>sa_SQL = ''REINDEX INDEX i'', sa_RollbackSQL = ''SELECT 1'', sa_ActionType = ''reindex'',
     sa_Outcome = ''success'', sa_Verification = []\<rparr>"

definition ex_target :: "string \<Rightarrow> unit CanaryTarget" where
  "ex_target verdict = \<lparr>ct_SourceAction = (\<lambda>n w. (Inr ex_source, w)), ct_MatchingFinding = (\<lambda>q w. (Inr (Some 1), w)),
     ct_Execute = (\<lambda>f q r a w. (Inr 7, w)), ct_Rollback = (\<lambda>n r w. (None, w)),
     ct_ActionResult = (\<lambda>n w. (Inr (''success'', verdict), w))\<rparr>"

definition ex_service :: "(string \<Rightarrow> string) \<Rightarrow> unit CanaryService" where
  "ex_service verdicts = \<lparr>cs_resolve = (\<lambda>n w. Inr (ex_target (verdicts n))),
     cs_runs = \<lparr>st_pool = True, st_exec = (\<lambda>w. (Executed, w)), st_numeric = id\<rparr>,
     cs_opts = \<lparr>co_CanaryInstances = 1, co_RegressionLimitPct = Finite 10, co_Settle = 0,
       co_Now = (\<lambda>w. (1000, w)), co_wait = (\<lambda>d w. (None, w)), co_ctx_Err = (\<lambda>w. None)\<rparr>\<rparr>"

definition ex_start :: StartRequest where
  "ex_start = \<lparr>sq_SourceDatabase = ''src'', sq_ActionLogID = 1, sq_Targets = [''a'', ''b''], sq_Family = [],
     sq_Class = [], sq_StartedBy = ''alice'', sq_ApprovedBy = Some 1\<rparr>"

definition ex_db :: rollout_db where
  "ex_db = \<lparr>rd_runs = [], rd_next_id = 1, rd_instances = []\<rparr>"

definition ex_verdicts :: "string \<Rightarrow> string" where
  "ex_verdicts n = (if n = ''b'' then ''failed'' else ''success'')"

lemma canary_intent_not_Nil [simp]: "canary_intent src \<noteq> []"
  by (simp add: canary_intent_def)

lemma ex_source_verified: "verifiedSource (ex_service v) ex_start () = (Inr ex_source, ())"
proof -
  have "TrimSpace (sa_SQL ex_source) \<noteq> []" "TrimSpace (sa_RollbackSQL ex_source) \<noteq> []" by code_simp+
  then show ?thesis
    by (simp add: verifiedSource_def ex_service_def ex_target_def) (simp add: ex_source_def)
qed

lemma ex_prepare:
  "\<exists>p db. prepare (ex_service v) [] ex_start ((), ex_db) = (Inr p, (), db) \<and>
     pc_request p = canary_request (ex_service v) ex_start ex_source \<and> pc_source p = ex_source \<and>
     pc_approvedB p = Some 1"
proof -
  have "validateStart ex_start = Inr ()" by code_simp
  then show ?thesis
    by (simp add: prepare_def ex_source_verified Let_def)
      (simp add: ex_service_def store_Create_def statement_def canary_request_def policyFor_def policy_json_def
        sql_insert_run_def run_checks_def run_columns_def blank_row_def RunRecord0_def run_states_def fits32_def
        ex_db_def ex_start_def)
qed

lemmas canary_eval = Engine_Rollout_def rollout_run_def validatePolicy_def rollout_step_def judge_def Let_def
  run_updates run0_def Result0_def rollbackAll_def rollback_one_def or_else_def averageRegression_def
  canary_backend_def canary_Reverify_def canary_Apply_def canary_Measure_def canary_Rollback_def settle_def
  canary_outcome_def canary_request_def policyFor_def ex_service_def ex_target_def ex_start_def

definition ex_engine :: "(string \<Rightarrow> string) \<Rightarrow> (RolloutResult \<times> go_error option) \<times> unit \<times> canaryBackend" where
  "ex_engine v = Engine_Rollout (canary_backend (ex_service v) ex_source (Some 1))
     (canary_request (ex_service v) ex_start ex_source) ((), canaryBackend0)"

lemma ex_engine_halts: "rs_Halted (fst (fst (ex_engine ex_verdicts)))" "snd (fst (ex_engine ex_verdicts)) = None"
  by (simp_all add: ex_engine_def canary_eval ex_verdicts_def)

lemma ex_engine_pending:
  "\<not> rs_Halted (fst (fst (ex_engine (\<lambda>_. ''pending''))))" "snd (fst (ex_engine (\<lambda>_. ''pending''))) = None"
  "rs_AppliedInstances (fst (fst (ex_engine (\<lambda>_. ''pending'')))) = 2"
  by (simp_all add: ex_engine_def canary_eval)

lemma execute_record:
  assumes "Engine_Rollout (canary_backend svc (pc_source p) (pc_approvedB p)) (pc_request p) (w, canaryBackend0) = ((res, e), s)"
    "execute svc p (w, db) = ((rec, e'), s')"
  shows "\<exists>now. rec = canary_final now res e (pc_record p)"
  using assms by (auto simp: execute_def Let_def split: prod.splits)

text \<open>Databases whose verification is still pending count as verified: the example widens to the
  second database and completes, from a source action that has no verification either.\<close>

lemma canary_widens_unverified:
  "\<exists>p s1 rec e s2. prepare (ex_service (\<lambda>_. ''pending'')) [] ex_start ((), ex_db) = (Inr p, s1) \<and>
     execute (ex_service (\<lambda>_. ''pending'')) p s1 = ((rec, e), s2) \<and>
     rr_State rec = ''complete'' \<and> rr_AppliedInstances rec = 2"
proof -
  let ?svc = "ex_service (\<lambda>_. ''pending'')"
  from ex_prepare [of "\<lambda>_. ''pending''"] obtain p db where p: "prepare ?svc [] ex_start ((), ex_db) = (Inr p, (), db)"
    "pc_request p = canary_request ?svc ex_start ex_source" "pc_source p = ex_source" "pc_approvedB p = Some 1" by blast
  obtain rec e s2 where x: "execute ?svc p ((), db) = ((rec, e), s2)" by (metis surj_pair)
  obtain res e' s where eng: "ex_engine (\<lambda>_. ''pending'') = ((res, e'), s)" by (metis surj_pair)
  with execute_record [OF _ x] p obtain now where "rec = canary_final now res e' (pc_record p)"
    by (auto simp: ex_engine_def)
  with ex_engine_pending eng have "rr_State rec = ''complete'' \<and> rr_AppliedInstances rec = 2"
    by (simp add: canary_final_def)
  with p(1) x show ?thesis by blast
qed

theorem canary_halts_on_verdicts_only_witness:
  "\<exists>p s1 rec e s2. prepare (ex_service ex_verdicts) [] ex_start ((), ex_db) = (Inr p, s1) \<and>
     execute (ex_service ex_verdicts) p s1 = ((rec, e), s2) \<and>
     rr_State rec = ''halted'' \<and> rr_HaltReason rec = ''verification_failed''"
proof -
  let ?svc = "ex_service ex_verdicts"
  from ex_prepare [of ex_verdicts] obtain p db where p: "prepare ?svc [] ex_start ((), ex_db) = (Inr p, (), db)"
    "pc_request p = canary_request ?svc ex_start ex_source" "pc_source p = ex_source" "pc_approvedB p = Some 1" by blast
  obtain rec e s2 where x: "execute ?svc p ((), db) = ((rec, e), s2)" by (metis surj_pair)
  obtain res e' s where eng: "ex_engine ex_verdicts = ((res, e'), s)" by (metis surj_pair)
  with execute_record [OF _ x] p obtain now where "rec = canary_final now res e' (pc_record p)"
    by (auto simp: ex_engine_def)
  with ex_engine_halts eng have "rr_State rec = ''halted''" by (simp add: canary_final_def)
  with canary_halts_on_verdicts_only [OF p(1) x] p(1) x show ?thesis by blast
qed

text \<open>A finding that recommends the very statement does not match it when white space surrounds the
  semicolon: PostgreSQL trims spaces and then semicolons, the source's side the other way round.\<close>

lemma matching_misses_itself:
  "MatchingFinding [\<lparr>fi_id = 1, fi_open = True, fi_recommended_sql = ''REINDEX INDEX i ;''\<rparr>] ''REINDEX INDEX i ;'' = None"
  by code_simp

text \<open>The policy of a triggered rollout is valid and the one every instance of the cohort resolves to,
  so instances with overrides of their own never roll out together.\<close>

lemma resolvePolicy_uniform:
  assumes "resolvePolicy ps insts = Inr p" "i \<in> set insts"
  shows "Resolve ps i = Inr p \<and> validatePolicy p = Inr ()"
proof -
  have valid: "validatePolicy q = Inr ()" if "Resolve ps j = Inr q" for j q
    using that by (auto simp: Resolve_def Let_def ebind_Inr_iff split: option.splits)
  from assms obtain j rest where i: "insts = j # rest" "Resolve ps j = Inr p"
    "isOk (eall (\<lambda>j. ebind (Resolve ps j) (\<lambda>cand. if DeepEqual cand p then Inr ()
      else Inl (ErrorText ''rollout cohort resolves to mixed policies''))) rest)"
    by (auto simp: resolvePolicy_def ebind_Inr_iff isOk_iff split: list.splits)
  from i(3) have "\<forall>k\<in>set rest. \<exists>cand. Resolve ps k = Inr cand \<and> DeepEqual cand p"
    unfolding isOk_eall by (auto simp: isOk_ebind split: if_splits)
  then have "Resolve ps i = Inr p" using assms(2) i(1,2) by (auto simp: DeepEqual_def)
  with valid show ?thesis by blast
qed

end
