(* ===== verification/Agent_Core.thy ===== *)
theory Agent_Core
  imports Sha256
begin

text \<open>
  The core of agent governance, \<^verbatim>\<open>sidecar/internal/agentguard\<close> (\<^verbatim>\<open>principal.go\<close>,
  \<^verbatim>\<open>access.go\<close>, \<^verbatim>\<open>errors.go\<close>): principals and their names, the two cluster roles of
  a principal, and how far a principal may go with a kind of tool. The Go string types of
  environments, statuses, tool kinds and reasons are strings here too, since values from outside are
  converted to them unchecked.
\<close>

type_synonym Env = string
type_synonym Status = string
type_synonym ToolKind = string
type_synonym AgentReason = string

abbreviation EnvBranch :: Env where "EnvBranch \<equiv> ''branch''"
abbreviation EnvDev :: Env where "EnvDev \<equiv> ''dev''"
abbreviation EnvStage :: Env where "EnvStage \<equiv> ''stage''"
abbreviation EnvProd :: Env where "EnvProd \<equiv> ''prod''"

abbreviation StatusActive :: Status where "StatusActive \<equiv> ''active''"
abbreviation StatusFrozen :: Status where "StatusFrozen \<equiv> ''frozen''"
abbreviation StatusRetired :: Status where "StatusRetired \<equiv> ''retired''"

abbreviation ToolRead :: ToolKind where "ToolRead \<equiv> ''read''"
abbreviation ToolPropose :: ToolKind where "ToolPropose \<equiv> ''propose''"
abbreviation ToolAgent :: ToolKind where "ToolAgent \<equiv> ''agent''"

abbreviation ReasonFrozen :: AgentReason where "ReasonFrozen \<equiv> ''agent_frozen''"
abbreviation ReasonUnsponsored :: AgentReason where "ReasonUnsponsored \<equiv> ''agent_unsponsored''"
abbreviation ReasonLevel0 :: AgentReason where "ReasonLevel0 \<equiv> ''agent_level0''"
abbreviation ReasonRetired :: AgentReason where "ReasonRetired \<equiv> ''agent_retired''"

subsection \<open>Principals\<close>

text \<open>Order of environments; an invalid one ranks 0.\<close>

definition guard_Rank :: "Env \<Rightarrow> int" where
  "guard_Rank e = (if e = EnvBranch then 1 else if e = EnvDev then 2 else if e = EnvStage then 3
     else if e = EnvProd then 4 else 0)"

definition guard_Valid :: "Env \<Rightarrow> bool" where
  "guard_Valid e \<longleftrightarrow> guard_Rank e > 0"

definition MinEnv :: "Env \<Rightarrow> Env \<Rightarrow> Env" where
  "MinEnv a b =
     (if \<not> guard_Valid a \<or> \<not> guard_Valid b then EnvBranch
      else if guard_Rank a \<le> guard_Rank b then a else b)"

definition status_Valid :: "Status \<Rightarrow> bool" where
  "status_Valid s \<longleftrightarrow> s = StatusActive \<or> s = StatusFrozen \<or> s = StatusRetired"

record Principal =
  gp_ID :: string
  gp_Name :: string
  gp_SponsorUserID :: "int option"
  gp_Tenant :: string
  gp_Profile :: string
  gp_EnvCeiling :: Env
  gp_Status :: Status
  gp_FrozenReason :: string
  gp_CreatedBy :: string
  gp_CreatedAt :: instant
  gp_UpdatedAt :: instant
  gp_SponsorActive :: bool
  gp_Tainted :: bool

definition Principal0 :: Principal where
  "Principal0 = \<lparr>gp_ID = [], gp_Name = [], gp_SponsorUserID = None, gp_Tenant = [], gp_Profile = [],
     gp_EnvCeiling = [], gp_Status = [], gp_FrozenReason = [], gp_CreatedBy = [], gp_CreatedAt = 0,
     gp_UpdatedAt = 0, gp_SponsorActive = False, gp_Tainted = False\<rparr>"

definition Sponsored :: "Principal \<Rightarrow> bool" where
  "Sponsored p \<longleftrightarrow> gp_SponsorUserID p \<noteq> None \<and> gp_SponsorActive p"

definition Frozen :: "Principal \<Rightarrow> bool" where
  "Frozen p \<longleftrightarrow> gp_Status p = StatusFrozen"

definition Retired :: "Principal \<Rightarrow> bool" where
  "Retired p \<longleftrightarrow> gp_Status p = StatusRetired"

subsection \<open>Identifiers and roles\<close>

definition is_base32 :: "char \<Rightarrow> bool" where
  "is_base32 c \<longleftrightarrow> in_range 97 122 c \<or> in_range 50 55 c"

definition is_slug :: "char \<Rightarrow> bool" where
  "is_slug c \<longleftrightarrow> in_range 97 122 c \<or> is_digit c \<or> c = CHR ''-''"

definition ValidID :: "string \<Rightarrow> bool" where
  "ValidID s \<longleftrightarrow> HasPrefix s ''agp_'' \<and> length s = 24 \<and> list_all is_base32 (drop 4 s)"

definition ValidName :: "string \<Rightarrow> bool" where
  "ValidName s \<longleftrightarrow>
     (case s of [] \<Rightarrow> False
      | c # cs \<Rightarrow> in_range 97 122 c \<and> 1 \<le> length cs \<and> length cs \<le> 62 \<and> list_all is_slug cs)"

definition IsAgentRoleName :: "string \<Rightarrow> bool" where
  "IsAgentRoleName s \<longleftrightarrow>
     (let t = (if HasPrefix s ''sage_agentb_'' then drop 12 s
               else if HasPrefix s ''sage_agent_'' then drop 11 s else [])
      in length t = 10 \<and> list_all is_base32 t)"

text \<open>Base 32 in lower case without padding: the bits of the bytes in groups of five, the last group
  filled with zeros.\<close>

definition byte_bits :: "byte \<Rightarrow> bool list" where
  "byte_bits b = map (\<lambda>i. bit b (7 - i)) [0..<8]"

definition base32_char :: "nat \<Rightarrow> char" where
  "base32_char v = (if v < 26 then char_of (97 + v) else char_of (24 + v))"

definition bits_val :: "bool list \<Rightarrow> nat" where
  "bits_val bs = foldl (\<lambda>n b. 2 * n + of_bool b) 0 bs"

fun base32_bits :: "bool list \<Rightarrow> string" where
  "base32_bits [] = []"
| "base32_bits (b # bs) =
     base32_char (bits_val (take 5 ((b # bs) @ replicate 4 False))) # base32_bits (drop 4 bs)"

definition lowerBase32 :: "byte list \<Rightarrow> string" where
  "lowerBase32 bs = base32_bits (concat (map byte_bits bs))"

text \<open>The identifier made of random bytes.\<close>

definition NewID :: "byte list \<Rightarrow> string" where
  "NewID rnd = ''agp_'' @ take 20 (lowerBase32 rnd)"

definition roleSuffix :: "string \<Rightarrow> string" where
  "roleSuffix ident = take 10 (ToLower (lowerBase32 (Sum256 (utf8 ident))))"

definition LoginRoleName :: "string \<Rightarrow> string" where
  "LoginRoleName ident = ''sage_agent_'' @ roleSuffix ident"

definition BrokerRoleName :: "string \<Rightarrow> string" where
  "BrokerRoleName ident = ''sage_agentb_'' @ roleSuffix ident"

subsection \<open>Access\<close>

record Access =
  ax_Allowed :: bool
  ax_MaxLevel :: int
  ax_Reason :: AgentReason

definition ProposeCap :: int where "ProposeCap = 2"

definition refused :: "AgentReason \<Rightarrow> Access" where
  "refused r = \<lparr>ax_Allowed = False, ax_MaxLevel = 0, ax_Reason = r\<rparr>"

definition admitted :: "int \<Rightarrow> Access" where
  "admitted n = \<lparr>ax_Allowed = True, ax_MaxLevel = n, ax_Reason = []\<rparr>"

definition ToolAccess :: "Principal \<Rightarrow> ToolKind \<Rightarrow> Access" where
  "ToolAccess p kind =
     (if Retired p \<or> \<not> status_Valid (gp_Status p) then refused ReasonRetired
      else if kind = ToolRead then admitted 3
      else if kind \<noteq> ToolPropose \<and> kind \<noteq> ToolAgent then refused ReasonLevel0
      else if Frozen p then refused ReasonFrozen
      else if kind = ToolAgent \<and> \<not> Sponsored p then refused ReasonUnsponsored
      else if kind = ToolPropose \<or> gp_Tainted p then admitted ProposeCap
      else admitted 3)"

subsection \<open>Lemmas\<close>

lemma bits_val_bound: "bits_val bs < 2 ^ length bs"
proof (induction bs rule: rev_induct)
  case (snoc b bs)
  then show ?case by (auto simp: bits_val_def)
qed (simp add: bits_val_def)

lemma base32_char_ok: "v < 32 \<Longrightarrow> is_base32 (base32_char v)"
  by (auto simp: is_base32_def base32_char_def in_range_def of_char_of)

lemma base32_bits_ok: "list_all is_base32 (base32_bits bs)"
proof (induction bs rule: base32_bits.induct)
  case (2 b bs)
  have "length (take 5 ((b # bs) @ replicate 4 False)) = 5" by simp
  then have "bits_val (take 5 ((b # bs) @ replicate 4 False)) < 2 ^ 5"
    using bits_val_bound by metis
  with 2 base32_char_ok show ?case by simp
qed simp

lemma base32_bits_length: "5 * length (base32_bits bs) \<ge> length bs"
  by (induction bs rule: base32_bits.induct) auto

lemma lowerBase32_length: "5 * length (lowerBase32 bs) \<ge> 8 * length bs"
proof -
  have "length (concat (map byte_bits bs)) = 8 * length bs"
    by (induction bs) (simp_all add: byte_bits_def)
  then show ?thesis using base32_bits_length [of "concat (map byte_bits bs)"] by (simp add: lowerBase32_def)
qed

lemma is_base32_lower: "is_base32 c \<Longrightarrow> to_lower c = c"
  by (auto simp: is_base32_def to_lower_def is_upper_def in_range_def)

lemma base32_ToLower: "list_all is_base32 s \<Longrightarrow> ToLower s = s"
  by (induction s) (simp_all add: ToLower_def is_base32_lower)

lemma roleSuffix_ok: "length (roleSuffix ident) = 10" "list_all is_base32 (roleSuffix ident)"
proof -
  let ?s = "lowerBase32 (Sum256 (utf8 ident))"
  have b: "list_all is_base32 ?s" by (simp add: lowerBase32_def base32_bits_ok)
  have "length ?s \<ge> 10" using lowerBase32_length [of "Sum256 (utf8 ident)"] by (simp add: Sum256_length)
  then show "length (roleSuffix ident) = 10" using b by (simp add: roleSuffix_def base32_ToLower)
  show "list_all is_base32 (roleSuffix ident)"
    using b by (auto simp: roleSuffix_def base32_ToLower list_all_iff dest: in_set_takeD)
qed

lemma not_base32_underscore: "\<not> is_base32 CHR ''_''"
  by (simp add: is_base32_def in_range_def)

end
