(* ===== verification/Env_Bind.thy ===== *)
theory Env_Bind
  imports Agent_Core Go_Error Leader
begin

text \<open>
  Environment labels, \<^verbatim>\<open>sidecar/internal/agentguard/envbind\<close>: the identity of a monitored
  database, the evaluation of its label, and the table of labels with the transactions that observe
  identities and set labels. What the statements of one observation answered is a record of answers;
  the statements of a transaction that may fail are named by their place. A transaction commits as a
  whole: it holds the lock on the label's row from reading it to the end. The peers are read in a
  statement of their own, so their table is an argument. Instants of the control database are in
  microseconds; the time a pending label lives is the interval PostgreSQL makes of
  \<^verbatim>\<open>ttl.Seconds()\<close>.
\<close>

subsection \<open>Environments\<close>

definition env_rank :: "Env \<Rightarrow> int" where
  "env_rank e = (if e = EnvBranch then 0 else if e = EnvDev then 1 else if e = EnvStage then 2 else 3)"

definition environments :: "Env list" where
  "environments = [EnvBranch, EnvDev, EnvStage, EnvProd]"

definition ErrInvalidEnv :: go_error where
  "ErrInvalidEnv = ErrorText ''envbind: environment must be branch, dev, stage or prod''"

definition ParseEnv :: "string \<Rightarrow> go_error + Env" where
  "ParseEnv s = (if s \<in> set environments then Inr s else Inl (Wrap [] ErrInvalidEnv ('': got '' @ s)))"

definition Within :: "Env \<Rightarrow> Env \<Rightarrow> bool" where
  "Within e ceiling \<longleftrightarrow> env_rank e \<le> env_rank ceiling"

definition env_Widens :: "Env \<Rightarrow> Env \<Rightarrow> bool" where
  "env_Widens from to \<longleftrightarrow> env_rank to < env_rank from"

subsection \<open>Identities\<close>

datatype Strength = StrengthConfigured | StrengthProvider | StrengthCluster

record Identity =
  id_ProviderRef :: string
  id_RefSource :: string
  id_SystemIdentifier :: string
  id_DBOID :: int
  id_Target :: string
  id_InRecovery :: bool

definition Identity0 :: Identity where
  "Identity0 = \<lparr>id_ProviderRef = [], id_RefSource = [], id_SystemIdentifier = [], id_DBOID = 0,
     id_Target = [], id_InRecovery = False\<rparr>"

abbreviation RefCloudTel :: string where "RefCloudTel \<equiv> ''cloudtel''"
abbreviation RefReceipt :: string where "RefReceipt \<equiv> ''receipt''"

definition PhysicalKey :: "Identity \<Rightarrow> string" where
  "PhysicalKey i = (if id_SystemIdentifier i = [] \<or> id_DBOID i = 0 then []
     else id_SystemIdentifier i @ ''/'' @ itoa (id_DBOID i))"

definition id_Strength :: "Identity \<Rightarrow> Strength" where
  "id_Strength i = (if PhysicalKey i \<noteq> [] then StrengthCluster
     else if id_ProviderRef i \<noteq> [] then StrengthProvider else StrengthConfigured)"

definition Epoch :: "Identity \<Rightarrow> string" where
  "Epoch i = (if PhysicalKey i \<noteq> [] then PhysicalKey i
     else if id_ProviderRef i \<noteq> [] then id_ProviderRef i else ''unknown'')"

definition Diff :: "Identity \<Rightarrow> Identity \<Rightarrow> string list" where
  "Diff i other =
     (if id_ProviderRef i \<noteq> id_ProviderRef other then [''provider_ref''] else []) @
     (if id_SystemIdentifier i \<noteq> id_SystemIdentifier other then [''system_identifier''] else []) @
     (if id_DBOID i \<noteq> id_DBOID other then [''db_oid''] else []) @
     (if id_Target i \<noteq> id_Target other then [''target''] else [])"

definition distinguished :: "Identity \<Rightarrow> Identity \<Rightarrow> bool" where
  "distinguished a b \<longleftrightarrow>
     id_ProviderRef a \<noteq> id_ProviderRef b \<and>
     (id_RefSource a = RefReceipt \<or> id_RefSource b = RefReceipt \<or>
      id_ProviderRef a \<noteq> [] \<and> id_ProviderRef b \<noteq> [])"

text \<open>Of a clone receipt the evaluation reads the resource it names.\<close>

record Receipt =
  rc_Adapter :: string
  rc_Ref :: string

definition receipt_ProviderRef :: "Receipt \<Rightarrow> string" where
  "receipt_ProviderRef r = (if rc_Ref r = [] then [] else rc_Adapter r @ '':'' @ rc_Ref r)"

subsection \<open>Evaluation\<close>

record LabelRecord =
  lb_DatabaseID :: string
  lb_Label :: Env
  lb_Identity :: Identity
  lb_Verified :: bool
  lb_SetBy :: string
  lb_SetAt :: instant
  lb_Observed :: "Identity option"
  lb_ObservedAt :: "instant option"
  lb_Pending :: "(Env \<times> string \<times> instant) option" \<comment> \<open>label, by, at\<close>

record Peer =
  pe_DatabaseID :: string
  pe_Label :: Env
  pe_Identity :: Identity

record Evidence =
  ev_DatabaseID :: string
  ev_Database :: string
  ev_Label :: Env
  ev_Effective :: Env
  ev_Verified :: bool
  ev_Reasons :: "string list"
  ev_Critical :: bool
  ev_Strength :: Strength
  ev_Live :: Identity
  ev_Snapshot :: "Identity option"
  ev_Changed :: "string list"
  ev_Conflicts :: "Peer list"
  ev_Receipt :: "Receipt option"
  ev_SetBy :: string
  ev_SetAt :: "instant option"

definition conflicts :: "Env \<Rightarrow> Identity \<Rightarrow> Peer list \<Rightarrow> Peer list" where
  "conflicts label live peers =
     (if PhysicalKey live = [] then []
      else filter (\<lambda>p. PhysicalKey (pe_Identity p) = PhysicalKey live \<and> pe_Label p \<noteq> label \<and>
                       \<not> distinguished live (pe_Identity p)) peers)"

definition receiptReason :: "Identity \<Rightarrow> Receipt option \<Rightarrow> string" where
  "receiptReason live r =
     (case r of
        None \<Rightarrow> ''receipt_missing''
      | Some rc \<Rightarrow> if receipt_ProviderRef rc = [] then ''receipt_missing''
          else if id_ProviderRef live \<noteq> receipt_ProviderRef rc then ''receipt_mismatch'' else [])"

text \<open>\<^verbatim>\<open>checkNonProd\<close> adds to the reasons, the changed fields and the critical flag.\<close>

definition checkNonProd :: "LabelRecord \<Rightarrow> Identity \<Rightarrow> Receipt option \<Rightarrow> Evidence \<Rightarrow> Evidence" where
  "checkNonProd row live receipt ev =
     (let changed = Diff (lb_Identity row) live;
          branch = (if lb_Label row = EnvBranch then receiptReason live receipt else [])
      in ev\<lparr>ev_Reasons := ev_Reasons ev @
              (if lb_Verified row then [] else [''label_unverified'']) @
              (if changed = [] then [] else [''binding_changed'']) @
              (if id_Strength live = StrengthConfigured then [''identity_unverifiable''] else []) @
              (if branch = [] then [] else [branch]),
            ev_Changed := changed,
            ev_Critical := ev_Critical ev \<or> changed \<noteq> [] \<or> branch \<noteq> []\<rparr>)"

definition env_evaluate :: "LabelRecord option \<Rightarrow> Identity \<Rightarrow> Peer list \<Rightarrow> Receipt option \<Rightarrow> Evidence" where
  "env_evaluate row live peers receipt =
     (let ev = \<lparr>ev_DatabaseID = [], ev_Database = [], ev_Label = EnvProd, ev_Effective = EnvProd,
            ev_Verified = False, ev_Reasons = [], ev_Critical = False, ev_Strength = id_Strength live,
            ev_Live = live, ev_Snapshot = None, ev_Changed = [], ev_Conflicts = [],
            ev_Receipt = receipt, ev_SetBy = [], ev_SetAt = None\<rparr>
      in case row of
           None \<Rightarrow> let cs = conflicts EnvProd live peers
                   in ev\<lparr>ev_Reasons := [''default_prod''], ev_Conflicts := cs, ev_Critical := cs \<noteq> []\<rparr>
         | Some r \<Rightarrow>
             let cs = conflicts (lb_Label r) live peers;
                 ev1 = ev\<lparr>ev_Label := lb_Label r, ev_Snapshot := Some (lb_Identity r), ev_SetBy := lb_SetBy r,
                         ev_SetAt := Some (lb_SetAt r), ev_Conflicts := cs,
                         ev_Reasons := (if cs = [] then [] else [''two_labels'']), ev_Critical := cs \<noteq> []\<rparr>
             in if lb_Label r = EnvProd then ev1\<lparr>ev_Reasons := ''label_prod'' # ev_Reasons ev1\<rparr>
                else let ev2 = checkNonProd r live receipt ev1
                     in if ev_Reasons ev2 = []
                        then ev2\<lparr>ev_Effective := lb_Label r, ev_Verified := True, ev_Reasons := [''verified'']\<rparr>
                        else ev2)"

definition checkLabel :: "Env \<Rightarrow> Identity \<Rightarrow> Peer list \<Rightarrow> Receipt option \<Rightarrow> go_error + unit" where
  "checkLabel label live peers receipt =
     (let reason = receiptReason live receipt; cs = conflicts label live peers
      in if label = EnvProd then Inr ()
         else if id_Strength live = StrengthConfigured
         then Inl (RefusedError ''identity_unverifiable'' (''only the connection target is known; a non-prod label needs the '' @
                ''system identifier or a provider resource id'')
                ''GRANT EXECUTE ON FUNCTION pg_catalog.pg_control_system() TO <pg_sage role>'')
         else if label = EnvBranch \<and> reason \<noteq> []
         then Inl (RefusedError reason ''a branch label needs an active clone receipt naming this database''
                ''create the branch through pg_sage so it has a receipt, or label it dev'')
         else case cs of
                [] \<Rightarrow> Inr ()
              | c # _ \<Rightarrow> Inl (RefusedError ''two_labels''
                  (''database '' @ id_Target live @ '' has the same physical identity ('' @ PhysicalKey live @
                   '') as '' @ pe_DatabaseID c @ '', labelled '' @ pe_Label c)
                  (''this is a copy, standby or re-pointed DSN of that database; give it its '' @
                   ''own provider resource id or keep it prod'')))"

subsection \<open>Observing a database\<close>

datatype sys_answer =
    SysIdentifier string
  | SysRefused \<comment> \<open>an error of the server, on a live context\<close>
  | SysFailed go_error

record probe =
  pb_Target :: "string option" \<comment> \<open>host:port/dbname of the pool, if there is one\<close>
  pb_OID :: "go_error + int \<times> bool"
  pb_System :: sys_answer
  pb_Receipt :: "(go_error + Receipt option) option" \<comment> \<open>of the receipt source, if there is one\<close>

record Database =
  db_ID :: string
  db_Name :: string
  db_ProviderRef :: string

definition ReadIdentity :: "probe \<Rightarrow> string \<Rightarrow> Identity \<times> go_error option" where
  "ReadIdentity pb providerRef =
     (case pb_Target pb of
        None \<Rightarrow> (Identity0, Some (ErrorText ''envbind: read identity: no connection pool''))
      | Some target \<Rightarrow>
          let i = Identity0\<lparr>id_ProviderRef := providerRef, id_Target := target,
                    id_RefSource := (if providerRef = [] then [] else RefCloudTel)\<rparr>
          in case pb_OID pb of
               Inl e \<Rightarrow> (i, Some (Wrap (''envbind: read identity of '' @ target @ '': '') e []))
             | Inr (oid, recovery) \<Rightarrow>
                 let i1 = i\<lparr>id_DBOID := oid mod 2 ^ 32, id_InRecovery := recovery\<rparr>
                 in case pb_System pb of
                      SysIdentifier s \<Rightarrow> (i1\<lparr>id_SystemIdentifier := s\<rparr>, None)
                    | SysRefused \<Rightarrow> (i1, None)
                    | SysFailed e \<Rightarrow>
                        (i1, Some (Wrap (''envbind: read system identifier of '' @ target @ '': '') e [])))"

definition observe :: "probe \<Rightarrow> Database \<Rightarrow> Identity \<times> Receipt option \<times> go_error option" where
  "observe pb db =
     (case ReadIdentity pb (db_ProviderRef db) of
        (live, Some e) \<Rightarrow> (live, None, Some e)
      | (live, None) \<Rightarrow>
          (case pb_Receipt pb of
             None \<Rightarrow> (live, None, None)
           | Some (Inl e) \<Rightarrow> (live, None, Some (Wrap (''envbind: read clone receipt of '' @ db_Name db @ '': '') e []))
           | Some (Inr None) \<Rightarrow> (live, None, None)
           | Some (Inr (Some r)) \<Rightarrow>
               (if id_ProviderRef live = []
                then live\<lparr>id_ProviderRef := receipt_ProviderRef r, id_RefSource := RefReceipt\<rparr> else live,
                Some r, None)))"

subsection \<open>The table of labels\<close>

type_synonym label_db = "(string \<times> LabelRecord) list"

definition known_identity :: "LabelRecord \<Rightarrow> Identity" where
  "known_identity r = (case lb_Observed r of None \<Rightarrow> lb_Identity r | Some i \<Rightarrow> i)"

definition readPeers :: "string \<Rightarrow> Identity \<Rightarrow> label_db \<Rightarrow> Peer list" where
  "readPeers ident live db =
     (if PhysicalKey live = [] then []
      else map (\<lambda>(k, r). \<lparr>pe_DatabaseID = k, pe_Label = lb_Label r, pe_Identity = known_identity r\<rparr>)
             (filter (\<lambda>(k, r). k \<noteq> ident \<and>
                        id_SystemIdentifier (known_identity r) = id_SystemIdentifier live \<and>
                        id_DBOID (known_identity r) = id_DBOID live) db))"

definition put_row :: "string \<Rightarrow> LabelRecord \<Rightarrow> label_db \<Rightarrow> label_db" where
  "put_row k r db = (if map_of db k = None then db @ [(k, r)]
     else map (\<lambda>(j, q). if j = k then (j, r) else (j, q)) db)"

abbreviation DefaultSetBy :: string where "DefaultSetBy \<equiv> ''pg_sage''"

definition default_row :: "instant \<Rightarrow> string \<Rightarrow> Identity \<Rightarrow> LabelRecord" where
  "default_row now k live = \<lparr>lb_DatabaseID = k, lb_Label = EnvProd, lb_Identity = live, lb_Verified = False,
     lb_SetBy = DefaultSetBy, lb_SetAt = now, lb_Observed = Some live, lb_ObservedAt = Some now,
     lb_Pending = None\<rparr>"

definition ensureRow :: "instant \<Rightarrow> string \<Rightarrow> Identity \<Rightarrow> label_db \<Rightarrow> label_db" where
  "ensureRow now k live db = (if map_of db k = None then put_row k (default_row now k live) db else db)"

definition observeRow :: "instant \<Rightarrow> string \<Rightarrow> Identity \<Rightarrow> label_db \<Rightarrow> label_db" where
  "observeRow now k live db =
     (let db1 = ensureRow now k live db
      in case map_of db1 k of
           None \<Rightarrow> db1
         | Some r \<Rightarrow> if lb_Observed r = Some live then db1
             else put_row k (r\<lparr>lb_Observed := Some live, lb_ObservedAt := Some now\<rparr>) db1)"

definition applyLabel :: "instant \<Rightarrow> Env \<Rightarrow> Identity \<Rightarrow> string \<Rightarrow> LabelRecord \<Rightarrow> LabelRecord" where
  "applyLabel now label live actor r =
     r\<lparr>lb_Label := label, lb_Identity := live, lb_Verified := (label \<noteq> EnvProd), lb_SetBy := actor,
       lb_SetAt := now, lb_Observed := Some live, lb_ObservedAt := Some now, lb_Pending := None\<rparr>"

definition setPending :: "instant \<Rightarrow> Env \<Rightarrow> string \<Rightarrow> LabelRecord \<Rightarrow> LabelRecord" where
  "setPending now label actor r = r\<lparr>lb_Pending := Some (label, actor, now)\<rparr>"

definition pendingFresh :: "instant \<Rightarrow> int \<Rightarrow> LabelRecord \<Rightarrow> bool" where
  "pendingFresh now ttl r = (case lb_Pending r of None \<Rightarrow> False | Some (l, a, t) \<Rightarrow> t > now - ttl)"

subsection \<open>Setting a label\<close>

record SetResult =
  sr_Applied :: bool
  sr_Pending :: bool
  sr_Record :: "LabelRecord option" \<comment> \<open>the zero record is none\<close>

definition SetResult0 :: SetResult where
  "SetResult0 = \<lparr>sr_Applied = False, sr_Pending = False, sr_Record = None\<rparr>"

datatype label_stmt = SObserve | SReadRow | SPeers | SFresh | SWrite | SCommit

definition ErrNoControl :: go_error where
  "ErrNoControl = ErrorText ''envbind: agent governance needs mode: meta or agents.control_database''"
definition ErrUnbound :: go_error where
  "ErrUnbound = ErrorText ''envbind: the database has no database_id yet''"
definition ErrInvalidActor :: go_error where
  "ErrInvalidActor = ErrorText ''envbind: a label change names who made it''"
definition ErrFenced :: go_error where
  "ErrFenced = ErrorText ''envbind: the leader lease moved; write fenced off''"

definition is_control :: "char \<Rightarrow> bool" where
  "is_control c \<longleftrightarrow> in_range 0 31 c \<or> in_range 127 159 c"

definition validActor :: "string \<Rightarrow> go_error + string" where
  "validActor actor =
     (let a = TrimSpace actor
      in if a = [] \<or> length (utf8 a) > 200 \<or> \<not> list_all (\<lambda>c. \<not> is_control c) a then Inl ErrInvalidActor
         else Inr a)"

text \<open>The decision of the transaction on the locked row: refuse, ask for a second admin, or apply.\<close>

definition label_decision ::
    "(label_stmt \<Rightarrow> go_error option) \<Rightarrow> instant \<Rightarrow> int \<Rightarrow> Env \<Rightarrow> string \<Rightarrow> Identity \<Rightarrow> Receipt option \<Rightarrow>
      Peer list \<Rightarrow> LabelRecord \<Rightarrow> go_error + SetResult" where
  "label_decision fail now ttl label actor live receipt peers row =
     ebind (checkLabel label live peers receipt) (\<lambda>_.
       let current = env_evaluate (Some row) live peers receipt;
           applied = applyLabel now label live actor row;
           pending = setPending now label actor row;
           other = (case lb_Pending row of None \<Rightarrow> True | Some (l, a, t) \<Rightarrow> l \<noteq> label \<or> a = actor)
       in if env_Widens (ev_Effective current) label
          then (case fail SFresh of
                  Some e \<Rightarrow> Inl e
                | None \<Rightarrow>
                    if \<not> pendingFresh now ttl row \<or> other
                    then Inr \<lparr>sr_Applied = False, sr_Pending = True, sr_Record = Some pending\<rparr>
                    else Inr \<lparr>sr_Applied = True, sr_Pending = False, sr_Record = Some applied\<rparr>)
          else Inr \<lparr>sr_Applied = True, sr_Pending = False, sr_Record = Some applied\<rparr>)"

definition setInTx ::
    "(label_stmt \<Rightarrow> go_error option) \<Rightarrow> instant \<Rightarrow> int \<Rightarrow> label_db \<Rightarrow> Database \<Rightarrow> Env \<Rightarrow> string \<Rightarrow>
      Identity \<Rightarrow> Receipt option \<Rightarrow> label_db \<Rightarrow> (go_error + SetResult) \<times> label_db" where
  "setInTx fail now ttl peers_db d label actor live receipt db =
     (let db1 = observeRow now (db_ID d) live db;
          peers = readPeers (db_ID d) live peers_db;
          unread = (if PhysicalKey live = [] then None else fail SPeers)
      in case (fail SObserve, fail SReadRow, map_of db1 (db_ID d), unread) of
           (Some e, _, _, _) \<Rightarrow> (Inl e, db)
         | (None, Some e, _, _) \<Rightarrow> (Inl e, db)
         | (None, None, None, _) \<Rightarrow> (Inl (ErrorText ''envbind: label row vanished under its lock''), db)
         | (None, None, Some row, Some e) \<Rightarrow> (Inl e, db)
         | (None, None, Some row, None) \<Rightarrow>
             (case label_decision fail now ttl label actor live receipt peers row of
                Inl e \<Rightarrow> (Inl e, db)
              | Inr res \<Rightarrow>
                  (case (fail SWrite, fail SCommit, sr_Record res) of
                     (None, None, Some rec) \<Rightarrow> (Inr res, put_row (db_ID d) rec db1)
                   | (Some e, _, _) \<Rightarrow> (Inl e, db)
                   | (None, Some e, _) \<Rightarrow> (Inl e, db)
                   | (None, None, None) \<Rightarrow> (Inr res, db1))))"

definition SetLabel ::
    "(label_stmt \<Rightarrow> go_error option) \<Rightarrow> instant \<Rightarrow> int \<Rightarrow> bool \<Rightarrow> label_db \<Rightarrow> probe \<Rightarrow> Database \<Rightarrow> Env \<Rightarrow> string \<Rightarrow>
      label_db \<Rightarrow> (go_error + SetResult) \<times> label_db" where
  "SetLabel fail now ttl control peers_db pb d label actor db =
     (case ParseEnv label of
        Inl e \<Rightarrow> (Inl e, db)
      | Inr _ \<Rightarrow>
          (case validActor actor of
             Inl e \<Rightarrow> (Inl e, db)
           | Inr a \<Rightarrow>
               if \<not> control then (Inl ErrNoControl, db)
               else if db_ID d = [] then (Inl ErrUnbound, db)
               else (case observe pb d of
                       (_, _, Some e) \<Rightarrow> (Inl e, db)
                     | (live, receipt, None) \<Rightarrow> setInTx fail now ttl peers_db d label a live receipt db)))"

subsection \<open>Reading the environment\<close>

record Binding =
  bn_Env :: Env
  bn_Evidence :: Evidence

definition prodBinding :: "Database \<Rightarrow> string \<Rightarrow> Identity \<Rightarrow> Binding" where
  "prodBinding d reason live =
     \<lparr>bn_Env = EnvProd, bn_Evidence = \<lparr>ev_DatabaseID = db_ID d, ev_Database = db_Name d, ev_Label = EnvProd,
        ev_Effective = EnvProd, ev_Verified = False, ev_Reasons = [reason], ev_Critical = False,
        ev_Strength = id_Strength live, ev_Live = live, ev_Snapshot = None, ev_Changed = [],
        ev_Conflicts = [], ev_Receipt = None, ev_SetBy = [], ev_SetAt = None\<rparr>\<rparr>"

definition evaluateLive ::
    "(label_stmt \<Rightarrow> go_error option) \<Rightarrow> label_db \<Rightarrow> Database \<Rightarrow> Identity \<Rightarrow> Receipt option \<Rightarrow> label_db \<Rightarrow>
      Binding \<times> go_error option" where
  "evaluateLive fail peers_db d live receipt db =
     (case (fail SReadRow, if PhysicalKey live = [] then None else fail SPeers) of
        (Some e, _) \<Rightarrow> (prodBinding d ''identity_unreadable'' live, Some e)
      | (None, Some e) \<Rightarrow> (prodBinding d ''identity_unreadable'' live, Some e)
      | (None, None) \<Rightarrow>
          let ev = (env_evaluate (map_of db (db_ID d)) live (readPeers (db_ID d) live peers_db) receipt)
                     \<lparr>ev_DatabaseID := db_ID d, ev_Database := db_Name d\<rparr>
          in (\<lparr>bn_Env = ev_Effective ev, bn_Evidence = ev\<rparr>, None))"

definition EnvironmentOf ::
    "(label_stmt \<Rightarrow> go_error option) \<Rightarrow> bool \<Rightarrow> label_db \<Rightarrow> probe \<Rightarrow> Database \<Rightarrow> label_db \<Rightarrow> Binding \<times> go_error option" where
  "EnvironmentOf fail control peers_db pb d db =
     (if \<not> control then (prodBinding d ''no_control_database'' Identity0, None)
      else if db_ID d = [] then (prodBinding d ''unbound'' Identity0, None)
      else case observe pb d of
             (live, _, Some e) \<Rightarrow> (prodBinding d ''identity_unreadable'' live, Some e)
           | (live, receipt, None) \<Rightarrow> evaluateLive fail peers_db d live receipt db)"

definition binder_Record ::
    "(label_stmt \<Rightarrow> go_error option) \<Rightarrow> bool \<Rightarrow> string \<Rightarrow> label_db \<Rightarrow> go_error + LabelRecord option" where
  "binder_Record fail control ident db =
     (if \<not> control then Inl ErrNoControl
      else case fail SReadRow of Some e \<Rightarrow> Inl e | None \<Rightarrow> Inr (map_of db ident))"

subsection \<open>Reconciling\<close>

record EnvFence =
  fe_Scope :: string
  fe_Holder :: string
  fe_Epoch :: int

text \<open>The fence reads the lease at the control database's time; a failing statement is
  \<^verbatim>\<open>e\<close>.\<close>

definition env_checkFence :: "go_error option \<Rightarrow> instant \<Rightarrow> lease_table \<Rightarrow> EnvFence \<Rightarrow> go_error option" where
  "env_checkFence e now leases f =
     (if fe_Holder f = [] then None
      else case e of
             Some x \<Rightarrow> Some (Wrap ''envbind: check leader lease: '' x [])
           | None \<Rightarrow>
               (case leases (fe_Scope f) of
                  Some l \<Rightarrow> if lr_holder l = fe_Holder f \<and> lr_epoch l = fe_Epoch f \<and> lr_expires_at l > now
                           then None else Some ErrFenced
                | None \<Rightarrow> Some ErrFenced))"

text \<open>What a reconcile pass writes: the table of labels, the identity strength and epoch of the SRE
  bindings, and the titles of the open findings, by database id.\<close>

record env_state =
  es_labels :: label_db
  es_sre :: "string \<Rightarrow> (Strength \<times> string) option"
  es_findings :: "string \<Rightarrow> string option"

definition fillSREBinding :: "string \<Rightarrow> Identity \<Rightarrow> env_state \<Rightarrow> env_state" where
  "fillSREBinding ident live es =
     (if es_sre es ident = None then es
      else es\<lparr>es_sre := (es_sre es)(ident \<mapsto> (id_Strength live, take 128 (Epoch live)))\<rparr>)"

record observed_db =
  ob_db :: Database
  ob_live :: Identity
  ob_receipt :: "Receipt option"

definition record_one :: "instant \<Rightarrow> observed_db \<Rightarrow> env_state \<Rightarrow> env_state" where
  "record_one now o1 es = fillSREBinding (db_ID (ob_db o1)) (ob_live o1)
     (es\<lparr>es_labels := observeRow now (db_ID (ob_db o1)) (ob_live o1) (es_labels es)\<rparr>)"

definition recordObserved ::
    "go_error option \<Rightarrow> go_error option \<Rightarrow> instant \<Rightarrow> lease_table \<Rightarrow> EnvFence \<Rightarrow> observed_db list \<Rightarrow> env_state \<Rightarrow>
      go_error option \<times> env_state" where
  "recordObserved fence_err write_err now leases f seen es =
     (if seen = [] then (None, es)
      else case env_checkFence fence_err now leases f of
             Some e \<Rightarrow> (Some e, es)
           | None \<Rightarrow> (case write_err of
                 Some e \<Rightarrow> (Some e, es)
               | None \<Rightarrow> (None, fold (record_one now) seen es)))"

definition finding_title :: "Database \<Rightarrow> Evidence \<Rightarrow> string" where
  "finding_title d ev =
     ''Agent environment of '' @ db_Name d @ '' is evaluated as prod: '' @ Join (ev_Reasons ev) '', ''"

text \<open>Raising or resolving one database's finding; the answer tells whether it is critical.\<close>

definition reconcileFinding ::
    "(label_stmt \<Rightarrow> go_error option) \<Rightarrow> go_error option \<Rightarrow> go_error option \<Rightarrow> instant \<Rightarrow> lease_table \<Rightarrow> EnvFence \<Rightarrow>
      observed_db \<Rightarrow> env_state \<Rightarrow> (go_error + bool) \<times> env_state" where
  "reconcileFinding fail fence_err finding_err now leases f o1 es =
     (case evaluateLive fail (es_labels es) (ob_db o1) (ob_live o1) (ob_receipt o1) (es_labels es) of
        (_, Some e) \<Rightarrow> (Inl e, es)
      | (bind, None) \<Rightarrow>
          (case env_checkFence fence_err now leases f of
             Some e \<Rightarrow> (Inl e, es)
           | None \<Rightarrow>
               let ev = bn_Evidence bind; d = ob_db o1
               in case finding_err of
                    Some e \<Rightarrow> (Inl (Wrap ((if ev_Critical ev then ''raise'' else ''resolve'') @
                        '' binding finding of '' @ db_Name d @ '': '') e []), es)
                  | None \<Rightarrow>
                      if ev_Critical ev
                      then (Inr True, es\<lparr>es_findings := (es_findings es)(db_ID d \<mapsto> finding_title d ev)\<rparr>)
                      else (Inr False, es\<lparr>es_findings := (es_findings es)(db_ID d := None)\<rparr>)))"

text \<open>A whole pass. The answers of the statements about one database, with the lease table and time they
  see, are a record per database id.\<close>

record reconcile_answers =
  ra_fail :: "label_stmt \<Rightarrow> go_error option"
  ra_fence :: "go_error option"
  ra_finding :: "go_error option"
  ra_now :: instant
  ra_leases :: lease_table

record ReconcileReport =
  rp_Observed :: int
  rp_Critical :: "string list"
  rp_Failed :: "(string \<times> go_error) list"

fun observe_all :: "(Database \<times> probe) list \<Rightarrow> (string \<times> go_error) list \<times> observed_db list" where
  "observe_all [] = ([], [])"
| "observe_all ((d, pb) # rest) =
     (case observe_all rest of (failed, seen) \<Rightarrow>
        if db_ID d = [] \<or> pb_Target pb = None then ((db_Name d, ErrUnbound) # failed, seen)
        else case observe pb d of
               (_, _, Some e) \<Rightarrow> ((db_Name d, e) # failed, seen)
             | (live, receipt, None) \<Rightarrow>
                 (failed, \<lparr>ob_db = d, ob_live = live, ob_receipt = receipt\<rparr> # seen))"

fun reconcile_findings ::
    "(string \<Rightarrow> reconcile_answers) \<Rightarrow> EnvFence \<Rightarrow> observed_db list \<Rightarrow> ReconcileReport \<Rightarrow> env_state \<Rightarrow>
      (ReconcileReport \<times> go_error option) \<times> env_state" where
  "reconcile_findings ra f [] rep es = ((rep, None), es)"
| "reconcile_findings ra f (o1 # rest) rep es =
     (let a = ra (db_ID (ob_db o1)); name = db_Name (ob_db o1)
      in case reconcileFinding (ra_fail a) (ra_fence a) (ra_finding a) (ra_now a) (ra_leases a) f o1 es of
           (Inl e, es1) \<Rightarrow>
             if errors_Is e ErrFenced then ((rep, Some e), es1)
             else reconcile_findings ra f rest (rep\<lparr>rp_Failed := rp_Failed rep @ [(name, e)]\<rparr>) es1
         | (Inr critical, es1) \<Rightarrow>
             reconcile_findings ra f rest
               (if critical then rep\<lparr>rp_Critical := rp_Critical rep @ [name]\<rparr> else rep) es1)"

definition Reconcile ::
    "bool \<Rightarrow> reconcile_answers \<Rightarrow> go_error option \<Rightarrow> (string \<Rightarrow> reconcile_answers) \<Rightarrow> EnvFence \<Rightarrow>
      (Database \<times> probe) list \<Rightarrow> env_state \<Rightarrow> (ReconcileReport \<times> go_error option) \<times> env_state" where
  "Reconcile control tx write_err ra f dbs es =
     (let rep = \<lparr>rp_Observed = 0, rp_Critical = [], rp_Failed = []\<rparr>
      in if \<not> control then ((rep, Some ErrNoControl), es)
         else case observe_all dbs of (failed, seen) \<Rightarrow>
                (case recordObserved (ra_fence tx) write_err (ra_now tx) (ra_leases tx) f seen es of
                   (Some e, es1) \<Rightarrow> ((rep\<lparr>rp_Failed := failed\<rparr>, Some e), es1)
                 | (None, es1) \<Rightarrow>
                     reconcile_findings ra f seen
                       (rep\<lparr>rp_Failed := failed, rp_Observed := int (length seen)\<rparr>) es1))"

end
