(* ===== verification/Env_Props.thy ===== *)
theory Env_Props
  imports Env_Bind
begin

text \<open>
  What environment labels promise: a database is below prod exactly when its label is verified on its
  live identity, and every label below prod goes back to two different admins. The history of a
  control database is a step relation over its table and the log of committed label changes.
\<close>

subsection \<open>Evaluation\<close>

text \<open>What a label below prod needs.\<close>

definition label_holds :: "LabelRecord \<Rightarrow> Identity \<Rightarrow> Peer list \<Rightarrow> Receipt option \<Rightarrow> bool" where
  "label_holds row live peers receipt \<longleftrightarrow>
     lb_Verified row \<and> Diff (lb_Identity row) live = [] \<and> id_Strength live \<noteq> StrengthConfigured \<and>
     conflicts (lb_Label row) live peers = [] \<and>
     (lb_Label row = EnvBranch \<longrightarrow>
       (\<exists>rc. receipt = Some rc \<and> receipt_ProviderRef rc \<noteq> [] \<and> id_ProviderRef live = receipt_ProviderRef rc))"

lemma receiptReason_Nil:
  "receiptReason live receipt = [] \<longleftrightarrow>
    (\<exists>rc. receipt = Some rc \<and> receipt_ProviderRef rc \<noteq> [] \<and> id_ProviderRef live = receipt_ProviderRef rc)"
  by (auto simp: receiptReason_def split: option.splits)

lemma env_evaluate_effective:
  "ev_Effective (env_evaluate (Some row) live peers receipt) =
    (if lb_Label row \<noteq> EnvProd \<and> label_holds row live peers receipt then lb_Label row else EnvProd)"
  by (auto simp: env_evaluate_def checkNonProd_def Let_def label_holds_def receiptReason_Nil)

lemma env_evaluate_none [simp]: "ev_Effective (env_evaluate None live peers receipt) = EnvProd"
  by (simp add: env_evaluate_def Let_def)

subsection \<open>The table\<close>

lemma map_of_put_row [simp]: "map_of (put_row k r db) j = (if j = k then Some r else map_of db j)"
proof (cases "map_of db k = None")
  case True
  then show ?thesis by (auto simp: put_row_def map_add_def split: option.splits)
next
  case False
  have "map_of (map (\<lambda>(i, q). if i = k then (i, r) else (i, q)) db) j =
    (if j = k then map_option (\<lambda>_. r) (map_of db j) else map_of db j)"
    by (induction db) auto
  with False show ?thesis by (auto simp: put_row_def)
qed

lemma observeRow_row:
  "map_of (observeRow now k live db) j =
    (if j = k then Some ((case map_of db k of None \<Rightarrow> default_row now k live | Some r \<Rightarrow> r)
       \<lparr>lb_Observed := Some live,
        lb_ObservedAt := (case map_of db k of None \<Rightarrow> Some now | Some r \<Rightarrow>
          if lb_Observed r = Some live then lb_ObservedAt r else Some now)\<rparr>)
     else map_of db j)"
  by (cases "map_of db k") (auto simp: observeRow_def ensureRow_def default_row_def Let_def)

subsection \<open>Histories\<close>

datatype label_event = Asked string Env string instant | Set string Env string instant

definition two_admins :: "int \<Rightarrow> label_event list \<Rightarrow> string \<Rightarrow> Env \<Rightarrow> bool" where
  "two_admins ttl log k label \<longleftrightarrow>
     (\<exists>l a b t t'. Asked k l a t \<in> set log \<and> Set k l b t' \<in> set log \<and> a \<noteq> b \<and> t > t' - ttl \<and>
       env_rank l \<le> env_rank label)"

definition event_of :: "string \<Rightarrow> Env \<Rightarrow> string \<Rightarrow> instant \<Rightarrow> SetResult \<Rightarrow> label_event" where
  "event_of k label actor now res = (if sr_Applied res then Set k label actor now else Asked k label actor now)"

text \<open>Committed steps: setting a label, observing an identity.\<close>

inductive label_steps :: "int \<Rightarrow> label_db \<Rightarrow> label_event list \<Rightarrow> bool" for ttl :: int where
  labels_empty: "label_steps ttl [] []"
| labels_set: "label_steps ttl db log \<Longrightarrow> validActor actor = Inr a \<Longrightarrow>
    SetLabel fail now ttl control peers_db pb d label actor db = (Inr res, db') \<Longrightarrow>
    label_steps ttl db' (log @ [event_of (db_ID d) label a now res])"
| labels_observed: "label_steps ttl db log \<Longrightarrow> label_steps ttl (observeRow now k live db) log"

definition labels_inv :: "int \<Rightarrow> label_db \<Rightarrow> label_event list \<Rightarrow> bool" where
  "labels_inv ttl db log \<longleftrightarrow>
     (\<forall>k r. map_of db k = Some r \<longrightarrow>
        lb_Label r \<in> set environments \<and> (lb_Verified r \<longleftrightarrow> lb_Label r \<noteq> EnvProd) \<and>
        (\<forall>l a t. lb_Pending r = Some (l, a, t) \<longrightarrow> Asked k l a t \<in> set log) \<and>
        (lb_Label r \<noteq> EnvProd \<longrightarrow> two_admins ttl log k (lb_Label r)))"

lemma two_admins_mono:
  "two_admins ttl log k l \<Longrightarrow> set log \<subseteq> set log' \<Longrightarrow> env_rank l \<le> env_rank l' \<Longrightarrow> two_admins ttl log' k l'"
  unfolding two_admins_def by (meson order_trans subsetD)

lemma SetLabel_commit:
  assumes "SetLabel fail now ttl control peers_db pb d label actor db = (Inr res, db')"
  obtains a live receipt row rec where "label \<in> set environments" "validActor actor = Inr a" "db_ID d \<noteq> []"
    "map_of (observeRow now (db_ID d) live db) (db_ID d) = Some row"
    "label_decision fail now ttl label a live receipt (readPeers (db_ID d) live peers_db) row = Inr res"
    "sr_Record res = Some rec" "db' = put_row (db_ID d) rec (observeRow now (db_ID d) live db)"
proof -
  from assms obtain a live receipt where s: "label \<in> set environments" "validActor actor = Inr a" "db_ID d \<noteq> []"
    "setInTx fail now ttl peers_db d label a live receipt db = (Inr res, db')"
    by (auto simp: SetLabel_def ParseEnv_def split: sum.splits if_splits prod.splits option.splits)
  then obtain row where r: "map_of (observeRow now (db_ID d) live db) (db_ID d) = Some row"
    "label_decision fail now ttl label a live receipt (readPeers (db_ID d) live peers_db) row = Inr res"
    by (auto simp: setInTx_def Let_def split: option.splits sum.splits)
  from r(2) obtain rec where rec: "sr_Record res = Some rec"
    by (auto simp: label_decision_def ebind_Inr_iff Let_def split: if_splits option.splits)
  from s(4) r rec have "db' = put_row (db_ID d) rec (observeRow now (db_ID d) live db)"
    by (auto simp: setInTx_def Let_def split: option.splits)
  with s r rec that show thesis by blast
qed

text \<open>What a decision to apply or to wait rests on.\<close>

lemma label_decision_cases:
  assumes "label_decision fail now ttl label a live receipt peers row = Inr res" "sr_Record res = Some rec"
  shows "(sr_Applied res \<and> rec = applyLabel now label live a row \<and>
      (env_rank label < env_rank (ev_Effective (env_evaluate (Some row) live peers receipt)) \<longrightarrow>
        (\<exists>b t. lb_Pending row = Some (label, b, t) \<and> b \<noteq> a \<and> t > now - ttl))) \<or>
    (\<not> sr_Applied res \<and> rec = setPending now label a row)"
  using assms
  by (auto simp: label_decision_def ebind_Inr_iff Let_def env_Widens_def pendingFresh_def
      split: if_splits option.splits)

lemma observed_row_cases:
  assumes "map_of (observeRow now k live db) j = Some r"
  obtains "lb_Label r = EnvProd" "\<not> lb_Verified r" "lb_Pending r = None"
  | r0 where "map_of db j = Some r0" "lb_Label r = lb_Label r0" "lb_Verified r = lb_Verified r0"
      "lb_Pending r = lb_Pending r0"
  using assms by (auto simp: observeRow_row default_row_def split: if_splits option.splits)

lemma observed_row_inv:
  assumes "labels_inv ttl db log" "map_of (observeRow now k live db) j = Some r"
  shows "lb_Label r \<in> set environments" "lb_Verified r \<longleftrightarrow> lb_Label r \<noteq> EnvProd"
    "lb_Pending r = Some (l, a, t) \<Longrightarrow> Asked j l a t \<in> set log"
    "lb_Label r \<noteq> EnvProd \<Longrightarrow> two_admins ttl log j (lb_Label r)"
  using assms(2)
  by (rule observed_row_cases; use assms(1) in \<open>simp add: labels_inv_def environments_def\<close>)+

lemma labels_inv_set:
  assumes inv: "labels_inv ttl db log" and va: "validActor actor = Inr a"
    and set: "SetLabel fail now ttl control peers_db pb d label actor db = (Inr res, db')"
  shows "labels_inv ttl db' (log @ [event_of (db_ID d) label a now res])"
proof -
  let ?k = "db_ID d" and ?log = "log @ [event_of (db_ID d) label a now res]"
  from set va obtain live receipt row rec where s: "label \<in> set environments"
    "map_of (observeRow now ?k live db) ?k = Some row"
    "label_decision fail now ttl label a live receipt (readPeers ?k live peers_db) row = Inr res"
    "sr_Record res = Some rec" "db' = put_row ?k rec (observeRow now ?k live db)"
    by (elim SetLabel_commit) auto
  note row = observed_row_inv [OF inv s(2)]
  let ?eff = "ev_Effective (env_evaluate (Some row) live (readPeers ?k live peers_db) receipt)"
  have new: "lb_Label rec \<in> set environments \<and> (lb_Verified rec \<longleftrightarrow> lb_Label rec \<noteq> EnvProd) \<and>
    (\<forall>l b t. lb_Pending rec = Some (l, b, t) \<longrightarrow> Asked ?k l b t \<in> set ?log) \<and>
    (lb_Label rec \<noteq> EnvProd \<longrightarrow> two_admins ttl ?log ?k (lb_Label rec))"
    using label_decision_cases [OF s(3,4)]
  proof (elim disjE conjE)
    assume "\<not> sr_Applied res" "rec = setPending now label a row"
    then show ?thesis
      using row by (auto simp: setPending_def event_of_def intro: two_admins_mono)
  next
    assume ap: "sr_Applied res" "rec = applyLabel now label live a row"
      and wide: "env_rank label < env_rank ?eff \<longrightarrow>
        (\<exists>b t. lb_Pending row = Some (label, b, t) \<and> b \<noteq> a \<and> t > now - ttl)"
    have "two_admins ttl ?log ?k label" if np: "label \<noteq> EnvProd"
    proof (cases "env_rank label < env_rank ?eff")
      case True
      with wide row(3) ap(1) show ?thesis unfolding two_admins_def event_of_def by fastforce
    next
      case False
      then have "?eff \<noteq> EnvProd" using np s(1) by (auto simp: env_rank_def environments_def)
      then have "lb_Label row \<noteq> EnvProd" "?eff = lb_Label row"
        by (auto simp: env_evaluate_effective split: if_splits)
      with row(4) False show ?thesis by (auto intro: two_admins_mono)
    qed
    with ap s(1) show ?thesis by (simp add: applyLabel_def)
  qed
  show ?thesis unfolding labels_inv_def
  proof (intro allI impI)
    fix j r assume r: "map_of db' j = Some r"
    show "lb_Label r \<in> set environments \<and> (lb_Verified r \<longleftrightarrow> lb_Label r \<noteq> EnvProd) \<and>
      (\<forall>l b t. lb_Pending r = Some (l, b, t) \<longrightarrow> Asked j l b t \<in> set ?log) \<and>
      (lb_Label r \<noteq> EnvProd \<longrightarrow> two_admins ttl ?log j (lb_Label r))"
    proof (cases "j = ?k")
      case True
      with r s(5) new show ?thesis by simp
    next
      case False
      with r s(5) have "map_of (observeRow now ?k live db) j = Some r" by simp
      from observed_row_inv [OF inv this] show ?thesis by (auto intro: two_admins_mono)
    qed
  qed
qed

lemma label_steps_inv: "label_steps ttl db log \<Longrightarrow> labels_inv ttl db log"
proof (induction rule: label_steps.induct)
  case labels_empty
  then show ?case by (simp add: labels_inv_def)
next
  case (labels_set db log actor a fail now control peers_db pb d label res db')
  then show ?case by (rule_tac labels_inv_set) assumption+
next
  case (labels_observed db log now k live)
  note row = observed_row_inv [OF labels_observed.IH]
  show ?case unfolding labels_inv_def
    by (intro allI impI conjI) (rule row; assumption)+
qed

subsection \<open>Below prod\<close>


text \<open>An example: two admins label a cluster dev.\<close>

definition ex_probe :: probe where
  "ex_probe = \<lparr>pb_Target = Some ''h:5432/app'', pb_OID = Inr (5, False), pb_System = SysIdentifier ''7'',
     pb_Receipt = None\<rparr>"

definition ex_envdb :: Database where
  "ex_envdb = \<lparr>db_ID = ''d1'', db_Name = ''app'', db_ProviderRef = []\<rparr>"

definition ex_asked :: "(go_error + SetResult) \<times> label_db" where
  "ex_asked = SetLabel (\<lambda>_. None) 100 50 True [] ex_probe ex_envdb EnvDev ''a'' []"

definition ex_set :: "(go_error + SetResult) \<times> label_db" where
  "ex_set = SetLabel (\<lambda>_. None) 120 50 True [] ex_probe ex_envdb EnvDev ''b'' (snd ex_asked)"

lemma ex_actors: "validActor ''a'' = Inr ''a''" "validActor ''b'' = Inr ''b''"
  by (simp_all add: validActor_def TrimSpace_def is_space_def is_control_def in_range_def utf8_def utf8_char_def Let_def)

lemmas env_eval = SetLabel_def setInTx_def label_decision_def checkLabel_def ParseEnv_def environments_def observe_def
  ReadIdentity_def ex_probe_def ex_envdb_def observeRow_def ensureRow_def put_row_def default_row_def readPeers_def
  env_evaluate_def conflicts_def env_Widens_def env_rank_def pendingFresh_def setPending_def applyLabel_def
  id_Strength_def PhysicalKey_def Identity0_def checkNonProd_def Diff_def EnvironmentOf_def evaluateLive_def Let_def
  ex_actors

lemma ex_asked_ok: "isOk (fst ex_asked)"
  by (simp add: ex_asked_def env_eval)

lemma ex_set_ok: "isOk (fst ex_set)"
  by (simp add: ex_set_def ex_asked_def env_eval)

lemma ex_set_env: "bn_Env (fst (EnvironmentOf (\<lambda>_. None) True [] ex_probe ex_envdb (snd ex_set))) = EnvDev"
  by (simp add: ex_set_def ex_asked_def env_eval)


text \<open>Every principal has two cluster roles whose names are agent role names, and no login role is
  ever a broker role, of the same or of another principal.\<close>

theorem agent_roles_named:
  "IsAgentRoleName (LoginRoleName p) \<and> IsAgentRoleName (BrokerRoleName q) \<and> LoginRoleName p \<noteq> BrokerRoleName q"
proof -
  have "IsAgentRoleName (LoginRoleName p)"
    using roleSuffix_ok [of p] by (simp add: IsAgentRoleName_def LoginRoleName_def HasPrefix_def)
  moreover have "IsAgentRoleName (BrokerRoleName q)"
    using roleSuffix_ok [of q] by (simp add: IsAgentRoleName_def BrokerRoleName_def HasPrefix_def)
  ultimately show ?thesis by (simp add: LoginRoleName_def BrokerRoleName_def)
qed

end
