(* ===== verification/Regex_Find.thy ===== *)
theory Regex_Find
  imports Regex
begin

text \<open>
  Searching with \<^verbatim>\<open>regexp\<close>: the leftmost match, of those the first that a backtracking
  engine would find (greedy repetitions prefer more, lazy ones less), with the texts of its groups; all
  matches one after the other; and replacing them. The expressions are those of Regex with
  groups, the end of the text and two kinds of repetition.
\<close>

datatype rxp =
    PChar "char \<Rightarrow> bool"
  | PEps
  | PSeq rxp rxp
  | PAlt rxp rxp
  | PStar bool rxp \<comment> \<open>greedy\<close>
  | PWordB
  | PBegin
  | PEnd
  | PGroup nat rxp

text \<open>Where a match has come to: the character before, the text left, the groups, newest first.\<close>

type_synonym pstate = "char option \<times> string \<times> (nat \<times> string) list"

abbreviation p_rest :: "pstate \<Rightarrow> string" where "p_rest s \<equiv> fst (snd s)"

fun pstar :: "(pstate \<Rightarrow> pstate list) \<Rightarrow> bool \<Rightarrow> nat \<Rightarrow> pstate \<Rightarrow> pstate list" where
  "pstar f greedy 0 s = [s]"
| "pstar f greedy (Suc n) s =
     (let more = concat (map (pstar f greedy n) (filter (\<lambda>t. length (p_rest t) < length (p_rest s)) (f s)))
      in if greedy then more @ [s] else s # more)"

primrec pends :: "rxp \<Rightarrow> pstate \<Rightarrow> pstate list" where
  "pends (PChar p) = (\<lambda>(q, cs, g). case cs of [] \<Rightarrow> [] | c # cs \<Rightarrow> if p c then [(Some c, cs, g)] else [])"
| "pends PEps = (\<lambda>s. [s])"
| "pends (PSeq a b) = (\<lambda>s. concat (map (pends b) (pends a s)))"
| "pends (PAlt a b) = (\<lambda>s. pends a s @ pends b s)"
| "pends (PStar greedy r) = (\<lambda>s. pstar (pends r) greedy (length (p_rest s)) s)"
| "pends PWordB = (\<lambda>(q, cs, g). if boundary (q, cs) then [(q, cs, g)] else [])"
| "pends PBegin = (\<lambda>(q, cs, g). if q = None then [(q, cs, g)] else [])"
| "pends PEnd = (\<lambda>(q, cs, g). if cs = [] then [(q, cs, g)] else [])"
| "pends (PGroup n r) = (\<lambda>(q, cs, g).
     map (\<lambda>(q1, cs1, g1). (q1, cs1, (n, take (length cs - length cs1) cs) # g1)) (pends r (q, cs, g)))"

text \<open>The text before the leftmost match, and the state after it.\<close>

fun find_from :: "rxp \<Rightarrow> char option \<Rightarrow> string \<Rightarrow> (string \<times> pstate) option" where
  "find_from r q [] = (case pends r (q, [], []) of [] \<Rightarrow> None | t # _ \<Rightarrow> Some ([], t))"
| "find_from r q (c # cs) =
     (case pends r (q, c # cs, []) of
        t # _ \<Rightarrow> Some ([], t)
      | [] \<Rightarrow> map_option (\<lambda>(pre, t). (c # pre, t)) (find_from r (Some c) cs))"

definition p_matches :: "rxp \<Rightarrow> string \<Rightarrow> bool" where
  "p_matches r s \<longleftrightarrow> find_from r None s \<noteq> None"

definition group_of :: "nat \<Rightarrow> pstate \<Rightarrow> string" where
  "group_of n t = (case map_of (snd (snd t)) n of None \<Rightarrow> [] | Some x \<Rightarrow> x)"

definition FindStringSubmatch :: "rxp \<Rightarrow> string \<Rightarrow> (nat \<Rightarrow> string) option" where
  "FindStringSubmatch r s = map_option (\<lambda>(pre, t) n. group_of n t) (find_from r None s)"

text \<open>The matches one after the other, for an expression that matches no empty text; the first argument
  bounds their number and is the length of the text.\<close>

fun find_all :: "nat \<Rightarrow> rxp \<Rightarrow> char option \<Rightarrow> string \<Rightarrow> (string \<times> pstate) list" where
  "find_all 0 r q s = []"
| "find_all (Suc n) r q s =
     (case find_from r q s of
        None \<Rightarrow> []
      | Some (pre, t) \<Rightarrow>
          if length (p_rest t) < length s then (pre, t) # find_all n r (fst t) (p_rest t)
          else [(pre, t)])"

definition FindAllStringSubmatch :: "rxp \<Rightarrow> string \<Rightarrow> (nat \<Rightarrow> string) list" where
  "FindAllStringSubmatch r s = map (\<lambda>(pre, t) n. group_of n t) (find_all (length s) r None s)"

fun replace_from :: "nat \<Rightarrow> rxp \<Rightarrow> string \<Rightarrow> char option \<Rightarrow> string \<Rightarrow> string" where
  "replace_from 0 r new q s = s"
| "replace_from (Suc n) r new q s =
     (case find_from r q s of
        None \<Rightarrow> s
      | Some (pre, t) \<Rightarrow>
          if length (p_rest t) < length s then pre @ new @ replace_from n r new (fst t) (p_rest t)
          else s)"

definition ReplaceAllString :: "rxp \<Rightarrow> string \<Rightarrow> string \<Rightarrow> string" where
  "ReplaceAllString r s new = replace_from (length s) r new None s"

subsection \<open>Building expressions\<close>

fun pseqs :: "rxp list \<Rightarrow> rxp" where
  "pseqs [] = PEps"
| "pseqs [r] = r"
| "pseqs (r # s # rs) = PSeq r (pseqs (s # rs))"

fun palts :: "rxp list \<Rightarrow> rxp" where
  "palts [] = PChar (\<lambda>_. False)"
| "palts [r] = r"
| "palts (r # s # rs) = PAlt r (palts (s # rs))"

definition popt :: "rxp \<Rightarrow> rxp" where "popt r = PAlt r PEps"
definition pplus :: "rxp \<Rightarrow> rxp" where "pplus r = PSeq r (PStar True r)"
definition plazy :: "rxp \<Rightarrow> rxp" where "plazy r = PSeq r (PStar False r)"
definition pspace :: rxp where "pspace = PChar re_space"
definition pspaces :: rxp where "pspaces = pplus pspace"
definition pdot :: rxp where "pdot = PChar (\<lambda>c. of_char c \<noteq> (10::nat))"
definition pchr :: "char \<Rightarrow> rxp" where "pchr c = PChar (\<lambda>d. d = c)"

text \<open>A word under \<^verbatim>\<open>(?i)\<close>.\<close>

primrec pword :: "string \<Rightarrow> rxp" where
  "pword [] = PEps"
| "pword (c # cs) = PSeq (PChar (\<lambda>d. to_lower d = to_lower c)) (pword cs)"

text \<open>Words with white space between them: \<^verbatim>\<open>A\s+B\<close>.\<close>

fun pwords :: "string list \<Rightarrow> rxp" where
  "pwords [] = PEps"
| "pwords [w] = pword w"
| "pwords (w # v # ws) = PSeq (pword w) (PSeq pspaces (pwords (v # ws)))"

subsection \<open>Lemmas\<close>

text \<open>The first character of a match.\<close>

primrec starts :: "rxp \<Rightarrow> (char \<Rightarrow> bool) \<Rightarrow> bool" where
  "starts (PChar p) = (\<lambda>P. \<forall>c. p c \<longrightarrow> P c)"
| "starts PEps = (\<lambda>P. False)"
| "starts (PSeq a b) = (\<lambda>P. starts a P)"
| "starts (PAlt a b) = (\<lambda>P. starts a P \<and> starts b P)"
| "starts (PStar g r) = (\<lambda>P. False)"
| "starts PWordB = (\<lambda>P. False)"
| "starts PBegin = (\<lambda>P. False)"
| "starts PEnd = (\<lambda>P. False)"
| "starts (PGroup n r) = starts r"

lemma pends_starts: "starts r P \<Longrightarrow> pends r (q, cs, g) \<noteq> [] \<Longrightarrow> cs \<noteq> [] \<and> P (hd cs)"
proof (induction r arbitrary: q cs g)
  case (PChar p)
  then show ?case by (cases cs) (auto split: if_splits)
next
  case (PSeq a b)
  then have "pends a (q, cs, g) \<noteq> []" by (cases "pends a (q, cs, g)") auto
  with PSeq show ?case by simp
next
  case (PAlt a b)
  then show ?case by (cases "pends a (q, cs, g) = []") auto
qed auto

lemma find_from_starts: "starts r P \<Longrightarrow> \<forall>c\<in>set s. \<not> P c \<Longrightarrow> find_from r q s = None"
proof (induction s arbitrary: q)
  case Nil
  then show ?case using pends_starts [of r P q "[]" "[]"] by (auto split: list.split)
next
  case (Cons c cs)
  have "pends r (q, c # cs, []) = []"
    using pends_starts [OF Cons.prems(1), of q "c # cs" "[]"] Cons.prems(2) by auto
  with Cons show ?case by simp
qed

lemma ReplaceAllString_none: "starts r P \<Longrightarrow> \<forall>c\<in>set s. \<not> P c \<Longrightarrow> ReplaceAllString r s new = s"
  unfolding ReplaceAllString_def
  by (cases s) (simp_all add: find_from_starts [of r P] del: find_from.simps)

lemma find_from_append:
  assumes "pends r ((if a = [] then q else Some (List.last a)), s, []) \<noteq> []"
  shows "find_from r q (a @ s) \<noteq> None"
  using assms
proof (induction a arbitrary: q)
  case Nil
  then show ?case by (cases s) (auto split: list.split)
next
  case (Cons c cs)
  then have "find_from r (Some c) (cs @ s) \<noteq> None" by (cases cs) auto
  then show ?case by (auto split: list.split)
qed

lemma pends_pword:
  "map to_lower v = map to_lower w \<Longrightarrow>
    pends (pword w) (q, v @ s, g) = [((if v = [] then q else Some (List.last v)), s, g)]"
proof (induction w arbitrary: v q)
  case (Cons c w)
  then obtain d u where "v = d # u" "to_lower d = to_lower c" "map to_lower u = map to_lower w"
    by (cases v) auto
  with Cons.IH [of u "Some d"] show ?case by simp
qed simp

end
