(* ===== verification/Ddl_Class.thy ===== *)
theory Ddl_Class
  imports Regex_Find Ledger_Class
begin

text \<open>
  The classifier of schema changes, \<^verbatim>\<open>sidecar/internal/migration\<close>
  (\<^verbatim>\<open>egress.go\<close>, \<^verbatim>\<open>rules.go\<close>, \<^verbatim>\<open>classifier*.go\<close>): sanitizing
  and splitting SQL text, the patterns and the rules they fire. The scanner keeps the text before its
  position reversed, for the two places that look back.
\<close>

subsection \<open>Sanitizing\<close>

abbreviation quote_char :: char where "quote_char \<equiv> CHR 0x27"
abbreviation dquote_char :: char where "dquote_char \<equiv> CHR 0x22"

definition redactedLiteral :: string where
  "redactedLiteral = quote_char # ''***'' @ [quote_char]"

definition isIdentByte :: "char \<Rightarrow> bool" where
  "isIdentByte c \<longleftrightarrow> c = CHR ''_'' \<or> c = CHR ''$'' \<or> in_range 97 122 c \<or> in_range 65 90 c \<or> in_range 48 57 c \<or>
     in_range 128 255 c"

text \<open>The lengths of a comment, of the rest of a literal after its quote, and of the rest of a quoted
  identifier.\<close>

fun block_len :: "nat \<Rightarrow> string \<Rightarrow> nat" where
  "block_len depth (a # b # r) =
     (if a = CHR ''/'' \<and> b = CHR ''*'' then 2 + block_len (depth + 1) r
      else if a = CHR ''*'' \<and> b = CHR ''/'' then (if depth = 1 then 2 else 2 + block_len (depth - 1) r)
      else 1 + block_len depth (b # r))"
| "block_len depth [a] = 1"
| "block_len depth [] = 0"

fun skipQuoted :: "bool \<Rightarrow> string \<Rightarrow> nat" where
  "skipQuoted esc [] = 0"
| "skipQuoted esc [c] = 1"
| "skipQuoted esc (c # d # r) =
     (if esc \<and> c = CHR 0x5C then 2 + skipQuoted esc r
      else if c = quote_char then (if d = quote_char then 2 + skipQuoted esc r else 1)
      else 1 + skipQuoted esc (d # r))"

fun skipIdentifier :: "string \<Rightarrow> nat" where
  "skipIdentifier [] = 0"
| "skipIdentifier [c] = 1"
| "skipIdentifier (c # d # r) =
     (if c = dquote_char then (if d = dquote_char then 2 + skipIdentifier r else 1)
      else 1 + skipIdentifier (d # r))"

definition isEscapeString :: "string \<Rightarrow> bool" where
  "isEscapeString before =
     (case before of
        c # r \<Rightarrow> (c = CHR ''E'' \<or> c = CHR ''e'') \<and> (case r of [] \<Rightarrow> True | d # _ \<Rightarrow> \<not> isIdentByte d)
      | [] \<Rightarrow> False)"

fun index_of :: "string \<Rightarrow> string \<Rightarrow> nat option" where
  "index_of pat [] = (if pat = [] then Some 0 else None)"
| "index_of pat (c # cs) = (if prefix pat (c # cs) then Some 0 else map_option Suc (index_of pat cs))"

text \<open>The length of a dollar-quoted literal; the text starts at its dollar.\<close>

definition skipDollarQuoted :: "string \<Rightarrow> string \<Rightarrow> nat option" where
  "skipDollarQuoted before s =
     (let body = tl s;
          word = takeWhile (\<lambda>c. isIdentByte c \<and> c \<noteq> CHR ''$'') body;
          rest = drop (length word) body
      in if (case before of c # _ \<Rightarrow> isIdentByte c | [] \<Rightarrow> False) then None
         else if (case body of c # _ \<Rightarrow> in_range 48 57 c | [] \<Rightarrow> False) then None
         else if (case rest of c # _ \<Rightarrow> c \<noteq> CHR ''$'' | [] \<Rightarrow> True) then None
         else let tag = ''$'' @ word @ ''$''
              in case index_of tag (tl rest) of
                   None \<Rightarrow> Some (length s)
                 | Some n \<Rightarrow> Some (length tag + n + length tag))"

definition line_len :: "string \<Rightarrow> nat" where
  "line_len s = length (takeWhile (\<lambda>c. of_char c \<noteq> (10::nat)) s)"

text \<open>The length of the token at the position and its replacement.\<close>

definition scanToken :: "string \<Rightarrow> string \<Rightarrow> nat \<times> string" where
  "scanToken before s =
     (let plain = (1, take 1 s)
      in if prefix ''--'' s then (line_len s, '' '')
         else if prefix ''/*'' s then (block_len 0 s, '' '')
         else if prefix [quote_char] s then (1 + skipQuoted (isEscapeString before) (tl s), redactedLiteral)
         else if prefix [dquote_char] s then
           let n = 1 + skipIdentifier (tl s) in (n, take n s)
         else if prefix ''$'' s then
           (case skipDollarQuoted before s of Some n \<Rightarrow> (n, redactedLiteral) | None \<Rightarrow> plain)
         else plain)"

function sanitize_from :: "string \<Rightarrow> string \<Rightarrow> string" where
  "sanitize_from before [] = []"
| "sanitize_from before (c # cs) =
     (case scanToken before (c # cs) of (n, tok) \<Rightarrow>
        tok @ sanitize_from (rev (take (Suc (n - 1)) (c # cs)) @ before) (drop (n - 1) cs))"
  by pat_completeness auto
termination by (relation "measure (length \<circ> snd)") auto

definition sanitizeDDL :: "string \<Rightarrow> string" where
  "sanitizeDDL sql = TrimSpace (sanitize_from [] sql)"

definition appendStatement :: "string \<Rightarrow> string list \<Rightarrow> string list" where
  "appendStatement stmt out = (if TrimSpace stmt = [] then out else TrimSpace stmt # out)"

text \<open>The statements after the text collected so far.\<close>

function split_from :: "string \<Rightarrow> string \<Rightarrow> string list" where
  "split_from cur [] = appendStatement cur []"
| "split_from cur (c # cs) =
     (if c = dquote_char then
        let n = skipIdentifier cs in split_from (cur @ c # take n cs) (drop n cs)
      else if c = CHR '';'' then appendStatement cur (split_from [] cs)
      else split_from (cur @ [c]) cs)"
  by pat_completeness auto
termination by (relation "measure (length \<circ> snd)") auto

definition splitStatements :: "string \<Rightarrow> string list" where
  "splitStatements clean = split_from [] clean"

definition collapseWhitespace :: "string \<Rightarrow> string" where
  "collapseWhitespace s = ReplaceAllString pspaces s '' ''"

subsection \<open>Patterns\<close>

definition pident_char :: rxp where
  "pident_char = PChar (\<lambda>c. is_word c \<or> c = CHR ''$'')"

definition identRE :: rxp where
  "identRE = PAlt
     (pseqs [pchr dquote_char,
        pplus (PAlt (PChar (\<lambda>c. c \<noteq> dquote_char)) (PSeq (pchr dquote_char) (pchr dquote_char))),
        pchr dquote_char])
     (pplus pident_char)"

text \<open>The groups of a qualified name: schema 1, name 2.\<close>

definition qualifiedRE :: rxp where
  "qualifiedRE = PSeq (popt (PSeq (PGroup 1 identRE) (pchr CHR ''.''))) (PGroup 2 identRE)"

definition pstart :: rxp where "pstart = PSeq PBegin (PStar True pspace)"

definition poption :: "string \<Rightarrow> rxp" where "poption w = popt (PSeq (pword w) pspaces)"

definition if_not_exists :: rxp where
  "if_not_exists = popt (PSeq (pwords [''IF'', ''NOT'', ''EXISTS'']) pspaces)"

definition if_exists :: rxp where
  "if_exists = popt (PSeq (pwords [''IF'', ''EXISTS'']) pspaces)"

definition reCreateIndex :: rxp where
  "reCreateIndex = pseqs [pstart, pword ''CREATE'', pspaces, popt (PGroup 1 (PSeq (pword ''UNIQUE'') pspaces)),
     pword ''INDEX'', PWordB]"
definition reCreateIndexConcurrently :: rxp where
  "reCreateIndexConcurrently = pseqs [pstart, pword ''CREATE'', pspaces,
     popt (PGroup 1 (PSeq (pword ''UNIQUE'') pspaces)), pwords [''INDEX'', ''CONCURRENTLY''], PWordB]"
definition reCreateIndexPrefix :: rxp where
  "reCreateIndexPrefix = pseqs [pstart, pword ''CREATE'', pspaces,
     popt (PGroup 1 (PSeq (pword ''UNIQUE'') pspaces)), pword ''INDEX'', pspaces]"
definition reIndexOnTable :: rxp where
  "reIndexOnTable = pseqs [PWordB, pword ''ON'', pspaces, poption ''ONLY'', qualifiedRE]"

definition add_constraint :: rxp where
  "add_constraint = pseqs [PWordB, pword ''ADD'', pspaces,
     popt (pseqs [pword ''CONSTRAINT'', pspaces, identRE, pspaces])]"

definition reAddCheckConstraint :: rxp where
  "reAddCheckConstraint = pseqs [add_constraint, pword ''CHECK'', PWordB]"
definition reNotValid :: rxp where
  "reNotValid = pseqs [PWordB, pwords [''NOT'', ''VALID''], PWordB]"
definition reAddFK :: rxp where
  "reAddFK = pseqs [add_constraint, pwords [''FOREIGN'', ''KEY''], PWordB]"
definition reAddKey :: rxp where
  "reAddKey = pseqs [add_constraint, PAlt (pwords [''PRIMARY'', ''KEY'']) (pword ''UNIQUE''), PWordB]"
definition reKeyUsingIndex :: rxp where
  "reKeyUsingIndex = pseqs [PWordB, PAlt (pwords [''PRIMARY'', ''KEY'']) (pword ''UNIQUE''), pspaces,
     pwords [''USING'', ''INDEX''], PWordB]"

definition reSetNotNull :: rxp where
  "reSetNotNull = pseqs [PWordB, pword ''ALTER'', pspaces, poption ''COLUMN'', PGroup 1 identRE, pspaces,
     pwords [''SET'', ''NOT'', ''NULL''], PWordB]"

definition reAlterType :: rxp where
  "reAlterType = pseqs [PWordB, pword ''ALTER'', pspaces, poption ''COLUMN'', PGroup 1 identRE, pspaces,
     popt (PSeq (pwords [''SET'', ''DATA'']) pspaces), pword ''TYPE'', pspaces,
     PGroup 2 (plazy (PChar (\<lambda>c. c \<noteq> CHR '','' \<and> c \<noteq> CHR '';''))),
     popt (pseqs [pspaces, PAlt (pword ''USING'') (pword ''COLLATE''), PWordB, PStar True pdot]),
     palts [pchr CHR '','', pchr CHR '';'', PEnd]]"

definition add_column :: rxp where
  "add_column = pseqs [PWordB, pword ''ADD'', pspaces, poption ''COLUMN'', if_not_exists, PGroup 1 identRE, pspaces]"

definition pnonspaces :: rxp where "pnonspaces = pplus (PChar (\<lambda>c. \<not> re_space c))"

definition reAddColumnDefault :: rxp where
  "reAddColumnDefault = pseqs [add_column, pnonspaces, PStar True pdot, PWordB, pword ''DEFAULT'', pspaces,
     PGroup 2 (plazy pdot),
     palts [PSeq (PStar True pspace) (pchr CHR '',''), PSeq (PStar True pspace) (pchr CHR '';''),
            PSeq (PStar True pspace) (pchr CHR '')''), PEnd]]"

definition reAddColumnGenerated :: rxp where
  "reAddColumnGenerated = PSeq add_column
     (PAlt (pseqs [popt (PAlt (pword ''small'') (pword ''big'')), pword ''serial'',
              popt (PChar (\<lambda>c. c \<in> {CHR ''2'', CHR ''4'', CHR ''8''})), PWordB])
       (pseqs [pnonspaces, PStar True pdot, PWordB, pword ''GENERATED'', pspaces,
          PAlt (pword ''ALWAYS'') (pwords [''BY'', ''DEFAULT'']), pspaces, pword ''AS'', pspaces,
          PAlt (PSeq (pword ''IDENTITY'') PWordB)
            (pseqs [pchr CHR ''('', PStar True pdot, pchr CHR '')'', PStar True pspace, pword ''STORED'', PWordB])]))"

definition reAddColumnNotNull :: rxp where
  "reAddColumnNotNull = pseqs [add_column, pnonspaces, pspaces, pwords [''NOT'', ''NULL''], PWordB]"
definition reHasDefault :: rxp where
  "reHasDefault = pseqs [PWordB, pword ''DEFAULT'', PWordB]"
definition reDropColumn :: rxp where
  "reDropColumn = pseqs [PWordB, pword ''DROP'', pspaces, popt (PGroup 1 (PSeq (pword ''COLUMN'') pspaces)),
     if_exists, PGroup 2 identRE]"
definition reDropTable :: rxp where
  "reDropTable = pseqs [pstart, pwords [''DROP'', ''TABLE''], pspaces, if_exists, qualifiedRE]"

definition paren_opts :: rxp where
  "paren_opts = popt (pseqs [pchr CHR ''('', PStar True (PChar (\<lambda>c. c \<noteq> CHR '')'')), pchr CHR '')'', PStar True pspace])"

definition reReindex :: rxp where
  "reReindex = pseqs [pstart, pword ''REINDEX'', PWordB]"
definition reReindexConcurrently :: rxp where
  "reReindexConcurrently = pseqs [pstart, pword ''REINDEX'', pspaces, PStar True pdot, PWordB, pword ''CONCURRENTLY'', PWordB]"
definition reReindexTarget :: rxp where
  "reReindexTarget = pseqs [pstart, pword ''REINDEX'', pspaces, paren_opts, pword ''TABLE'', pspaces,
     poption ''CONCURRENTLY'', qualifiedRE]"
definition reVacuumFull :: rxp where
  "reVacuumFull = pseqs [pstart, pword ''VACUUM'', pspaces, PStar True pdot, PWordB, pword ''FULL'', PWordB]"
definition reVacuumTarget :: rxp where
  "reVacuumTarget = pseqs [pstart, pword ''VACUUM'', pspaces, paren_opts,
     PStar True (PSeq (palts (map pword [''FULL'', ''FREEZE'', ''VERBOSE'', ''ANALYZE'', ''ANALYSE''])) pspaces),
     qualifiedRE]"
definition reRefreshMatView :: rxp where
  "reRefreshMatView = pseqs [pstart, pwords [''REFRESH'', ''MATERIALIZED'', ''VIEW''], PWordB]"
definition reRefreshConcurrently :: rxp where
  "reRefreshConcurrently = pseqs [pstart, pwords [''REFRESH'', ''MATERIALIZED'', ''VIEW'', ''CONCURRENTLY''], PWordB]"
definition reRefreshTarget :: rxp where
  "reRefreshTarget = pseqs [pstart, pwords [''REFRESH'', ''MATERIALIZED'', ''VIEW''], pspaces,
     poption ''CONCURRENTLY'', qualifiedRE]"
definition reCluster :: rxp where
  "reCluster = pseqs [pstart, pword ''CLUSTER'', PWordB]"
definition reClusterTarget :: rxp where
  "reClusterTarget = pseqs [pstart, pword ''CLUSTER'', pspaces, paren_opts, poption ''VERBOSE'', qualifiedRE]"
definition reSetTablespace :: rxp where
  "reSetTablespace = pseqs [PWordB, pwords [''SET'', ''TABLESPACE''], PWordB]"
definition reAttachPartition :: rxp where
  "reAttachPartition = pseqs [PWordB, pwords [''ATTACH'', ''PARTITION''], PWordB]"
definition reAlterTable :: rxp where
  "reAlterTable = pseqs [pstart, pwords [''ALTER'', ''TABLE''], pspaces, if_exists, poption ''ONLY'', qualifiedRE]"
definition reLockTimeout :: rxp where
  "reLockTimeout = pseqs [PWordB, pword ''SET'', pspaces, poption ''LOCAL'', pword ''lock_timeout'', PWordB]"
definition reFuncCall :: rxp where
  "reFuncCall = pseqs [PGroup 1 (pplus pident_char), PStar True pspace, pchr CHR ''('']"

definition reservedAfterKeyword :: "string list" where
  "reservedAfterKeyword = [''constraint'', ''check'', ''foreign'', ''primary'', ''unique'', ''exclude'',
     ''default'', ''not'', ''table'', ''index'', ''expression'', ''identity'', ''column'', ''statistics'',
     ''storage'', ''compression'', ''full'', ''freeze'', ''verbose'', ''analyze'', ''analyse'',
     ''concurrently'', ''only'', ''if'']"

definition isColumnIdent :: "string \<Rightarrow> bool" where
  "isColumnIdent ident \<longleftrightarrow> prefix [dquote_char] ident \<or> ToLower ident \<notin> set reservedAfterKeyword"

fun undouble :: "string \<Rightarrow> string" where
  "undouble (a # b # r) = (if a = dquote_char \<and> b = dquote_char then dquote_char # undouble r else a # undouble (b # r))"
| "undouble s = s"

definition unquoteIdent :: "string \<Rightarrow> string" where
  "unquoteIdent ident =
     (if length ident \<ge> 2 \<and> hd ident = dquote_char \<and> List.last ident = dquote_char
      then undouble (butlast (tl ident)) else ToLower ident)"

definition immutableDefaults :: "string list" where
  "immutableDefaults = [''now'', ''current_timestamp'', ''current_date'', ''current_time'', ''localtime'',
     ''localtimestamp'', ''transaction_timestamp'', ''statement_timestamp'']"

definition isVolatileDefault :: "string \<Rightarrow> bool" where
  "isVolatileDefault expr \<longleftrightarrow>
     (\<exists>m\<in>set (FindAllStringSubmatch reFuncCall expr). ToLower (m 1) \<notin> set immutableDefaults)"

subsection \<open>Rules\<close>

record ruleDefinition =
  ru_ID :: string
  ru_LockLevel :: string
  ru_RequiresRewrite :: bool
  ru_MinPGVersion :: int
  ru_Description :: string
  ru_SafeAltTemplate :: string

definition rule :: "string \<Rightarrow> string \<Rightarrow> bool \<Rightarrow> int \<Rightarrow> string \<Rightarrow> string \<Rightarrow> ruleDefinition" where
  "rule ident lock rewrite minver desc alt = \<lparr>ru_ID = ident, ru_LockLevel = lock, ru_RequiresRewrite = rewrite,
     ru_MinPGVersion = minver, ru_Description = desc, ru_SafeAltTemplate = alt\<rparr>"

abbreviation AccessExclusive :: string where "AccessExclusive \<equiv> ''ACCESS EXCLUSIVE''"

definition schemaRules :: "ruleDefinition list" where
  "schemaRules =
     [rule ''ddl_index_not_concurrent'' ''SHARE'' False 0 ''CREATE INDEX without CONCURRENTLY blocks writes''
        ''Use CREATE INDEX CONCURRENTLY with the same definition'',
      rule ''ddl_constraint_not_valid'' AccessExclusive False 0 ''ADD CHECK without NOT VALID scans the whole table''
        ''ADD ... NOT VALID, then VALIDATE CONSTRAINT'',
      rule ''ddl_fk_not_valid'' ''SHARE ROW EXCLUSIVE'' False 0 ''ADD FK without NOT VALID scans the table''
        ''ADD ... NOT VALID, then VALIDATE CONSTRAINT'',
      rule ''ddl_drop_column'' AccessExclusive False 0 ''DROP COLUMN: verify no dependent views/functions''
        ''Verify no dependent views/functions before dropping'',
      rule ''ddl_drop_table'' AccessExclusive False 0 ''DROP TABLE: verify no foreign key references''
        ''Verify no foreign key references before dropping'',
      rule ''ddl_attach_partition_no_check'' AccessExclusive False 0
        ''ATTACH PARTITION without prior CHECK scans the partition''
        ''Add CHECK matching partition bound on child before ATTACH'',
      rule ''ddl_add_key_builds_index'' AccessExclusive False 0
        ''ADD PRIMARY KEY/UNIQUE builds an index while holding ACCESS EXCLUSIVE''
        ''CREATE UNIQUE INDEX CONCURRENTLY, then ADD CONSTRAINT ... USING INDEX'']"

definition columnRules :: "ruleDefinition list" where
  "columnRules =
     [rule ''ddl_set_not_null'' AccessExclusive False 0 ''SET NOT NULL requires full table scan to verify''
        ''Add CHECK (col IS NOT NULL) NOT VALID, VALIDATE, then SET NOT NULL'',
      rule ''ddl_alter_type_rewrite'' AccessExclusive True 0 ''Changing column type rewrites the entire table''
        ''New column + trigger + backfill + swap'',
      rule ''ddl_add_column_volatile_default'' AccessExclusive True 0
        (''ADD COLUMN with a volatile DEFAULT (or serial, IDENTITY, '' @
         ''GENERATED ... STORED) rewrites the whole table'')
        ''Add nullable, backfill in batches, then add constraint'',
      rule ''ddl_add_column_not_null'' AccessExclusive True 0
        ''ADD COLUMN NOT NULL without DEFAULT rewrites on PG < 11''
        ''PG11+: safe with DEFAULT. PG<11: add nullable, backfill'']"

definition maintenanceRules :: "ruleDefinition list" where
  "maintenanceRules =
     [rule ''ddl_reindex_not_concurrent'' AccessExclusive False 12
        ''REINDEX blocks all access; use CONCURRENTLY on PG12+'' ''REINDEX CONCURRENTLY'',
      rule ''ddl_vacuum_full'' AccessExclusive True 0 ''VACUUM FULL rewrites the table and blocks all access''
        ''Use pg_repack or regular VACUUM instead'',
      rule ''ddl_refresh_not_concurrent'' AccessExclusive True 0
        ''REFRESH MATERIALIZED VIEW without CONCURRENTLY blocks reads''
        ''REFRESH MATERIALIZED VIEW CONCURRENTLY (needs unique index)'',
      rule ''ddl_cluster'' AccessExclusive True 0 ''CLUSTER rewrites the table and blocks all access''
        ''Schedule during maintenance window or use pg_repack'',
      rule ''ddl_set_tablespace'' AccessExclusive True 0 ''SET TABLESPACE moves data under ACCESS EXCLUSIVE lock''
        ''Schedule during low-traffic window'',
      rule ''ddl_missing_lock_timeout'' [] False 0
        ''ACCESS EXCLUSIVE DDL without SET lock_timeout risks blocking''
        (''SET lock_timeout = '' @ quote_char # ''5s'' @ quote_char # '' before running the DDL'')]"

definition ruleCatalog :: "ruleDefinition list" where
  "ruleCatalog = schemaRules @ columnRules @ maintenanceRules"

record DDLClassification =
  dc_RuleID :: string
  dc_Statement :: string
  dc_LockLevel :: string
  dc_RequiresRewrite :: bool
  dc_SafeAlternative :: string
  dc_TableName :: string
  dc_SchemaName :: string
  dc_MinPGVersion :: int
  dc_Description :: string
  dc_ColumnName :: string
  dc_TargetType :: string

definition newClassification :: "ruleDefinition \<Rightarrow> string \<Rightarrow> DDLClassification" where
  "newClassification r sql = \<lparr>dc_RuleID = ru_ID r, dc_Statement = sql, dc_LockLevel = ru_LockLevel r,
     dc_RequiresRewrite = ru_RequiresRewrite r, dc_SafeAlternative = ru_SafeAltTemplate r, dc_TableName = [],
     dc_SchemaName = [], dc_MinPGVersion = ru_MinPGVersion r, dc_Description = ru_Description r,
     dc_ColumnName = [], dc_TargetType = []\<rparr>"

text \<open>\<^verbatim>\<open>ruleByID\<close> on an identifier of the catalog, and the classification it starts; the panic on
  any other identifier is never reached.\<close>

definition ruleByID :: "string \<Rightarrow> ruleDefinition option" where
  "ruleByID ident = List.find (\<lambda>r. ru_ID r = ident) ruleCatalog"

definition fire :: "string \<Rightarrow> string \<Rightarrow> DDLClassification list" where
  "fire ident sql = (case ruleByID ident of None \<Rightarrow> [] | Some r \<Rightarrow> [newClassification r sql])"

definition fillTarget :: "rxp \<Rightarrow> string \<Rightarrow> DDLClassification \<Rightarrow> DDLClassification" where
  "fillTarget re sql c =
     (case FindStringSubmatch re sql of
        None \<Rightarrow> c
      | Some m \<Rightarrow>
          if \<not> isColumnIdent (m 2) then c
          else (if m 1 = [] then c else c\<lparr>dc_SchemaName := unquoteIdent (m 1)\<rparr>)
                 \<lparr>dc_TableName := unquoteIdent (m 2)\<rparr>)"

definition concurrentIndexSQL :: "string \<Rightarrow> string \<Rightarrow> string" where
  "concurrentIndexSQL sql fallback =
     (if index_of redactedLiteral sql \<noteq> None then fallback
      else case find_from reCreateIndexPrefix None (TrimSpace sql) of
             None \<Rightarrow> TrimSpace sql
           | Some (pre, t) \<Rightarrow> pre @ ''CREATE '' @ group_of 1 t @ ''INDEX CONCURRENTLY '' @ p_rest t)"

definition matchIndexRules :: "string \<Rightarrow> DDLClassification list" where
  "matchIndexRules sql =
     (if p_matches reCreateIndexConcurrently sql \<or> \<not> p_matches reCreateIndex sql then []
      else map (\<lambda>c. fillTarget reIndexOnTable sql
             (c\<lparr>dc_SafeAlternative := concurrentIndexSQL sql (dc_SafeAlternative c)\<rparr>))
             (fire ''ddl_index_not_concurrent'' sql))"

definition fire_alter :: "string \<Rightarrow> string \<Rightarrow> DDLClassification list" where
  "fire_alter ident sql = map (fillTarget reAlterTable sql) (fire ident sql)"

definition matchConstraintRules :: "string \<Rightarrow> DDLClassification list" where
  "matchConstraintRules sql =
     (let hasNotValid = p_matches reNotValid sql
      in (if p_matches reAddCheckConstraint sql \<and> \<not> hasNotValid then fire_alter ''ddl_constraint_not_valid'' sql else []) @
         (if p_matches reAddFK sql \<and> \<not> hasNotValid then fire_alter ''ddl_fk_not_valid'' sql else []) @
         (if p_matches reAddKey sql \<and> \<not> p_matches reKeyUsingIndex sql
          then fire_alter ''ddl_add_key_builds_index'' sql else []))"

definition matchAlterColumnRules :: "string \<Rightarrow> DDLClassification list" where
  "matchAlterColumnRules sql =
     (case FindStringSubmatch reSetNotNull sql of
        None \<Rightarrow> []
      | Some m \<Rightarrow> if isColumnIdent (m 1)
          then map (\<lambda>c. c\<lparr>dc_ColumnName := unquoteIdent (m 1)\<rparr>) (fire_alter ''ddl_set_not_null'' sql) else []) @
     (case FindStringSubmatch reAlterType sql of
        None \<Rightarrow> []
      | Some m \<Rightarrow> if isColumnIdent (m 1)
          then map (\<lambda>c. c\<lparr>dc_ColumnName := unquoteIdent (m 1), dc_TargetType := TrimSpace (m 2)\<rparr>)
                 (fire_alter ''ddl_alter_type_rewrite'' sql) else [])"

definition matchAddColumnRules :: "string \<Rightarrow> int \<Rightarrow> DDLClassification list" where
  "matchAddColumnRules sql pgVersion =
     (let old = (pgVersion > 0 \<and> pgVersion < 11);
          default_rewrites = (case FindStringSubmatch reAddColumnDefault sql of
             None \<Rightarrow> False | Some m \<Rightarrow> isColumnIdent (m 1) \<and> (old \<or> isVolatileDefault (m 2)));
          generated = (case FindStringSubmatch reAddColumnGenerated sql of
             None \<Rightarrow> False | Some m \<Rightarrow> isColumnIdent (m 1));
          not_null = (case FindStringSubmatch reAddColumnNotNull sql of
             None \<Rightarrow> False | Some m \<Rightarrow> isColumnIdent (m 1) \<and> \<not> p_matches reHasDefault sql \<and> old)
      in (if default_rewrites \<or> generated then fire_alter ''ddl_add_column_volatile_default'' sql else []) @
         (if not_null then fire_alter ''ddl_add_column_not_null'' sql else []))"

definition hasDroppedColumn :: "string \<Rightarrow> bool" where
  "hasDroppedColumn sql \<longleftrightarrow>
     (\<exists>m\<in>set (FindAllStringSubmatch reDropColumn sql). m 1 \<noteq> [] \<or> isColumnIdent (m 2))"

definition matchDropRules :: "string \<Rightarrow> DDLClassification list" where
  "matchDropRules sql =
     (if p_matches reAlterTable sql \<and> hasDroppedColumn sql then fire_alter ''ddl_drop_column'' sql else []) @
     (if p_matches reDropTable sql then map (fillTarget reDropTable sql) (fire ''ddl_drop_table'' sql) else [])"

definition matchReindex :: "string \<Rightarrow> int \<Rightarrow> DDLClassification list" where
  "matchReindex sql pgVersion =
     (if \<not> p_matches reReindex sql \<or> p_matches reReindexConcurrently sql \<or> pgVersion > 0 \<and> pgVersion < 12 then []
      else map (fillTarget reReindexTarget sql) (fire ''ddl_reindex_not_concurrent'' sql))"

definition matchVacuumFull :: "string \<Rightarrow> DDLClassification list" where
  "matchVacuumFull sql =
     (if p_matches reVacuumFull sql then map (fillTarget reVacuumTarget sql) (fire ''ddl_vacuum_full'' sql) else [])"

definition matchRefresh :: "string \<Rightarrow> DDLClassification list" where
  "matchRefresh sql =
     (if \<not> p_matches reRefreshMatView sql \<or> p_matches reRefreshConcurrently sql then []
      else map (fillTarget reRefreshTarget sql) (fire ''ddl_refresh_not_concurrent'' sql))"

definition matchCluster :: "string \<Rightarrow> DDLClassification list" where
  "matchCluster sql =
     (if p_matches reCluster sql then map (fillTarget reClusterTarget sql) (fire ''ddl_cluster'' sql) else [])"

definition matchSetTablespace :: "string \<Rightarrow> DDLClassification list" where
  "matchSetTablespace sql = (if p_matches reSetTablespace sql then fire_alter ''ddl_set_tablespace'' sql else [])"

definition matchAttachPartition :: "string \<Rightarrow> DDLClassification list" where
  "matchAttachPartition sql =
     (if p_matches reAttachPartition sql then fire_alter ''ddl_attach_partition_no_check'' sql else [])"

definition matchMaintenanceRules :: "string \<Rightarrow> int \<Rightarrow> DDLClassification list" where
  "matchMaintenanceRules sql pgVersion =
     matchReindex sql pgVersion @ matchVacuumFull sql @ matchRefresh sql @ matchCluster sql @
     matchSetTablespace sql @ matchAttachPartition sql"

definition checkLockTimeout :: "string \<Rightarrow> DDLClassification list \<Rightarrow> DDLClassification list" where
  "checkLockTimeout sql prior =
     (if p_matches reLockTimeout sql then []
      else case List.find (\<lambda>c. dc_LockLevel c = AccessExclusive) prior of
             None \<Rightarrow> []
           | Some c \<Rightarrow> map (\<lambda>lt. lt\<lparr>dc_TableName := dc_TableName c, dc_SchemaName := dc_SchemaName c\<rparr>)
                         (fire ''ddl_missing_lock_timeout'' sql))"

definition classifyStatement :: "string \<Rightarrow> int \<Rightarrow> DDLClassification list" where
  "classifyStatement sql pgVersion =
     matchIndexRules sql @
     (if p_matches reAlterTable sql
      then matchConstraintRules sql @ matchAlterColumnRules sql @ matchAddColumnRules sql pgVersion else []) @
     matchDropRules sql @ matchMaintenanceRules sql pgVersion"

fun classify_stmts :: "int \<Rightarrow> bool \<Rightarrow> string list \<Rightarrow> DDLClassification list" where
  "classify_stmts ver timeout [] = []"
| "classify_stmts ver timeout (stmt # rest) =
     (let s = collapseWhitespace stmt; found = classifyStatement s ver
      in if p_matches reLockTimeout s then classify_stmts ver True rest
         else found @ (if timeout then [] else checkLockTimeout s found) @ classify_stmts ver timeout rest)"

definition Classify :: "string \<Rightarrow> int \<Rightarrow> DDLClassification list" where
  "Classify sql pgVersion = classify_stmts pgVersion False (splitStatements (sanitizeDDL sql))"

subsection \<open>What may be sent to a language model\<close>

definition llmTablePrefixes :: "string list" where
  "llmTablePrefixes = [''ALTER TABLE '', ''ALTER INDEX '', ''ALTER MATERIALIZED VIEW '', ''DROP TABLE '', ''DROP INDEX '',
     ''CREATE INDEX '', ''CREATE UNIQUE INDEX '', ''REINDEX '', ''CLUSTER'', ''VACUUM'', ''REFRESH MATERIALIZED VIEW '']"

definition llmCredentialMarkers :: "string list" where
  "llmCredentialMarkers = [''PASSWORD'', ''USER MAPPING'', ''SUBSCRIPTION'', ''CONNECTION'', ''CONNINFO'', ''SERVER '', ''SECRET'']"

definition llmProvablySafeMarkers :: "string list" where
  "llmProvablySafeMarkers = ['' CONCURRENTLY'', ''NOT VALID'', ''VALIDATE CONSTRAINT'']"

definition hasAnyPrefix :: "string \<Rightarrow> string list \<Rightarrow> bool" where
  "hasAnyPrefix s ps \<longleftrightarrow> (\<exists>p\<in>set ps. HasPrefix s p)"

definition containsAny :: "string \<Rightarrow> string list \<Rightarrow> bool" where
  "containsAny s needles \<longleftrightarrow> (\<exists>n\<in>set needles. index_of n s \<noteq> None)"

definition llmEgressAllowed :: "string \<Rightarrow> bool" where
  "llmEgressAllowed clean =
     (case splitStatements clean of
        [stmt] \<Rightarrow>
          (let upper = ToUpper (collapseWhitespace stmt) @ '' ''
           in hasAnyPrefix upper llmTablePrefixes \<and> \<not> containsAny upper llmCredentialMarkers \<and>
              \<not> containsAny upper llmProvablySafeMarkers)
      | _ \<Rightarrow> False)"

definition formatPGVersion :: "int \<Rightarrow> string" where
  "formatPGVersion v =
     (if v \<ge> 100000 then itoa (v div 10000) @ ''.'' @ itoa (v mod 10000) else itoa v)"

end
