(* ===== verification/Decide.thy ===== *)
theory Decide
  imports Env_Bind Ddl_Class Gate
begin

text \<open>
  The agent decider, \<^verbatim>\<open>sidecar/internal/agentguard/decide\<close>: the steps D1 to D10 every
  request of an agent passes, the classes of the MCP tools, and the adapter through which the gate calls
  it. The sources of the configuration are functions over the world, each of them optional; the state of
  the decider is the times of the requests of the last hour, per principal. The clock is read at two
  places of a decision.
\<close>

subsection \<open>Capabilities and requests\<close>

type_synonym Capability = string

abbreviation CapRead :: Capability where "CapRead \<equiv> ''read''"
abbreviation CapWriteInsert :: Capability where "CapWriteInsert \<equiv> ''write_insert''"
abbreviation CapWriteUpdate :: Capability where "CapWriteUpdate \<equiv> ''write_update''"
abbreviation CapWriteDelete :: Capability where "CapWriteDelete \<equiv> ''write_delete''"
abbreviation CapDDLAdditive :: Capability where "CapDDLAdditive \<equiv> ''ddl_additive''"
abbreviation CapDDLLocking :: Capability where "CapDDLLocking \<equiv> ''ddl_locking''"
abbreviation CapDDLDestructive :: Capability where "CapDDLDestructive \<equiv> ''ddl_destructive''"
abbreviation CapMaint :: Capability where "CapMaint \<equiv> ''maint''"
abbreviation CapSandbox :: Capability where "CapSandbox \<equiv> ''sandbox''"
abbreviation CapPolicyProposal :: Capability where "CapPolicyProposal \<equiv> ''policy_proposal''"

definition cap_Valid :: "Capability \<Rightarrow> bool" where
  "cap_Valid c \<longleftrightarrow> c \<in> {CapRead, CapWriteInsert, CapWriteUpdate, CapWriteDelete, CapDDLAdditive, CapDDLLocking,
     CapDDLDestructive, CapMaint, CapSandbox, CapPolicyProposal}"

definition cap_Writes :: "Capability \<Rightarrow> bool" where
  "cap_Writes c \<longleftrightarrow> c = CapWriteInsert \<or> c = CapWriteUpdate \<or> c = CapWriteDelete"

definition cap_DDL :: "Capability \<Rightarrow> bool" where
  "cap_DDL c \<longleftrightarrow> c = CapDDLAdditive \<or> c = CapDDLLocking \<or> c = CapDDLDestructive"

definition cap_Mutates :: "Capability \<Rightarrow> bool" where
  "cap_Mutates c \<longleftrightarrow> cap_Writes c \<or> cap_DDL c \<or> c = CapMaint"

record Object =
  ob_Schema :: string
  ob_Relation :: string
  ob_Column :: string

record DRequest =
  dr_PrincipalID :: string
  dr_Tool :: string
  dr_Kind :: ToolKind
  dr_Capability :: Capability
  dr_Database :: string
  dr_Objects :: "Object list"
  dr_GrantID :: string
  dr_Narrowing :: bool
  dr_OperatorApproved :: bool
  dr_TaskID :: string

record DVerdict =
  dv_Allowed :: bool
  dv_MaxLevel :: int
  dv_Park :: bool
  dv_RetryAfter :: duration
  dv_Reason :: AgentReason
  dv_Step :: string
  dv_Detail :: string
  dv_Fix :: string
  dv_Env :: Env
  dv_Capability :: Capability
  dv_Principal :: Principal

definition DVerdict0 :: DVerdict where
  "DVerdict0 = \<lparr>dv_Allowed = False, dv_MaxLevel = 0, dv_Park = False, dv_RetryAfter = 0, dv_Reason = [],
     dv_Step = [], dv_Detail = [], dv_Fix = [], dv_Env = [], dv_Capability = [], dv_Principal = Principal0\<rparr>"

definition deny :: "AgentReason \<Rightarrow> string \<Rightarrow> string \<Rightarrow> string \<Rightarrow> DVerdict" where
  "deny reason step detail fix1 = DVerdict0\<lparr>dv_Reason := reason, dv_Step := step, dv_Detail := detail, dv_Fix := fix1\<rparr>"

abbreviation ReasonEnvCeiling :: AgentReason where "ReasonEnvCeiling \<equiv> ''agent_env_ceiling''"
abbreviation ReasonCapability :: AgentReason where "ReasonCapability \<equiv> ''agent_capability''"
abbreviation ReasonClassification :: AgentReason where "ReasonClassification \<equiv> ''agent_classification''"
abbreviation ReasonChangeFreeze :: AgentReason where "ReasonChangeFreeze \<equiv> ''agent_change_freeze''"
abbreviation ReasonNoPITR :: AgentReason where "ReasonNoPITR \<equiv> ''agent_no_pitr''"
abbreviation ReasonRate :: AgentReason where "ReasonRate \<equiv> ''agent_rate''"
abbreviation ReasonBudget :: AgentReason where "ReasonBudget \<equiv> ''agent_budget''"
abbreviation ReasonLeaseExpired :: AgentReason where "ReasonLeaseExpired \<equiv> ''agent_lease_expired''"
abbreviation ReasonUnavailable :: AgentReason where "ReasonUnavailable \<equiv> ''agent_governance_unavailable''"

definition unavailable :: "string \<Rightarrow> string \<Rightarrow> go_error \<Rightarrow> DVerdict" where
  "unavailable step what e = deny ReasonUnavailable step
     (''agent governance failed '' @ what @ '': '' @ Error_text e) ''check the control database connection''"

subsection \<open>Tools\<close>

abbreviation KindApprove :: ToolKind where "KindApprove \<equiv> ''approve''"

text \<open>Kind, class, and whether the class comes from the SQL.\<close>

type_synonym toolClass = "ToolKind \<times> Capability \<times> bool"

definition t_read :: toolClass where "t_read = (ToolRead, [], False)"
definition t_propose :: "Capability \<Rightarrow> toolClass" where "t_propose c = (ToolPropose, c, False)"
definition t_approve :: toolClass where "t_approve = (KindApprove, [], False)"
definition t_agent :: "Capability \<Rightarrow> toolClass" where "t_agent c = (ToolAgent, c, False)"

definition toolClasses :: "(string \<times> toolClass) list" where
  "toolClasses =
     [(''apply_migration'', (ToolPropose, [], True)), (''request_change'', (ToolPropose, [], True)),
      (''optimize_query'', t_propose CapDDLAdditive), (''ensure_fk_indexes'', t_propose CapDDLAdditive),
      (''sre_propose_action'', t_propose CapMaint), (''sre_request_execution'', t_propose CapMaint),
      (''specialist_request_remediation'', t_propose CapMaint),
      (''set_maintenance_policy'', t_propose CapPolicyProposal),
      (''propose_policy_change'', t_propose CapPolicyProposal),
      (''sre_draft_runbook'', t_propose CapPolicyProposal),
      (''sre_compile_runbook'', t_propose CapPolicyProposal),
      (''propose_fact'', t_propose []), (''mark_object'', t_propose []),
      (''report_source_fix'', t_propose []), (''sre_evaluate_autonomy'', t_propose []),
      (''decide_fact'', t_approve), (''declare_table_contract'', t_approve),
      (''register_consumer'', t_approve), (''sre_downgrade_autonomy'', t_approve),
      (''sre_review_investigation'', t_approve),
      (''ask_sage'', t_read), (''explain_query'', t_read), (''fleet_findings'', t_read),
      (''get_guarantee_status'', t_read), (''get_ledger'', t_read), (''get_policy'', t_read),
      (''get_source_fix_packet'', t_read), (''get_value'', t_read), (''lint_migration'', t_read),
      (''list_databases'', t_read), (''list_facts'', t_read), (''query_sources'', t_read),
      (''specialist_investigation_result'', t_read), (''specialist_investigation_status'', t_read),
      (''specialist_investigation_transcript'', t_read),
      (''specialist_open_investigation'', t_read), (''sre_get_autonomy'', t_read),
      (''sre_get_evidence'', t_read), (''sre_get_investigation'', t_read),
      (''sre_get_runbook'', t_read), (''sre_get_slo'', t_read), (''sre_get_transcript'', t_read),
      (''sre_list_changes'', t_read),
      (''sre_list_incidents'', t_read), (''sre_list_runbooks'', t_read), (''sre_list_slos'', t_read),
      (''sre_runbook_runs'', t_read), (''sre_similar_incidents'', t_read), (''top_queries'', t_read),
      (''whatif_index'', t_read),
      (''agent_query'', t_agent CapRead), (''agent_whoami'', t_agent CapRead),
      (''agent_request_capability'', t_agent CapRead)]"

definition KindFor :: "string \<Rightarrow> ToolKind" where
  "KindFor tool = (case map_of toolClasses tool of Some (k, c, d) \<Rightarrow> k | None \<Rightarrow> ToolAgent)"

definition destructiveDDL :: rxp where
  "destructiveDDL = pseqs [PWordB, PAlt (pword ''DROP'') (pword ''TRUNCATE''), PWordB]"

text \<open>\<^verbatim>\<open>(?s)--[^\n]*|/\*.*?\*/\<close> and \<^verbatim>\<open>'(?:[^']|'')*'\<close>.\<close>

definition sqlComment :: rxp where
  "sqlComment = PAlt
     (pseqs [pchr CHR ''-'', pchr CHR ''-'', PStar True (PChar (\<lambda>c. of_char c \<noteq> (10::nat)))])
     (pseqs [pchr CHR ''/'', pchr CHR ''*'', PStar False (PChar (\<lambda>_. True)), pchr CHR ''*'', pchr CHR ''/''])"

definition sqlString :: rxp where
  "sqlString = pseqs [pchr quote_char,
     PStar True (PAlt (PChar (\<lambda>c. c \<noteq> quote_char)) (PSeq (pchr quote_char) (pchr quote_char))), pchr quote_char]"

definition ddl_text :: "string \<Rightarrow> string" where
  "ddl_text sql = ReplaceAllString sqlString (ReplaceAllString sqlComment sql '' '') [quote_char, quote_char]"

definition oldestSupportedPG :: int where "oldestSupportedPG = 140000"

definition ClassifyDDL :: "string \<Rightarrow> Capability" where
  "ClassifyDDL sql =
     (let text = ddl_text sql
      in if TrimSpace text = [] \<or> p_matches destructiveDDL text then CapDDLDestructive
         else if \<exists>c\<in>set (Classify text oldestSupportedPG). dc_RuleID c \<noteq> ''ddl_missing_lock_timeout''
         then CapDDLLocking else CapDDLAdditive)"

definition CapabilityFor :: "string \<Rightarrow> string \<Rightarrow> Capability" where
  "CapabilityFor tool sql =
     (case map_of toolClasses tool of
        None \<Rightarrow> []
      | Some (k, c, fromSQL) \<Rightarrow> if fromSQL then ClassifyDDL sql else c)"

subsection \<open>Configuration\<close>

record Profile =
  pf_Classes :: "Capability list"
  pf_EnvCeiling :: Env
  pf_DirectLane :: bool

definition Allows :: "Profile \<Rightarrow> Capability \<Rightarrow> bool" where
  "Allows p c \<longleftrightarrow> c \<in> set (pf_Classes p)"

datatype now_site = NowDrill | NowAdmit

record 'w DConfig =
  dg_Principals :: "(string \<Rightarrow> 'w \<Rightarrow> go_error + Principal) option"
  dg_Environments :: "(string \<Rightarrow> 'w \<Rightarrow> Binding \<times> go_error option) option"
  dg_Profiles :: "(string \<Rightarrow> Profile option) option"
  dg_Freezes :: "(string \<Rightarrow> string \<Rightarrow> 'w \<Rightarrow> go_error + bool \<times> string) option"
  dg_Objects :: "(Principal \<Rightarrow> string \<Rightarrow> Env \<Rightarrow> Object list \<Rightarrow> 'w \<Rightarrow> go_error option) option"
  dg_ChangeFreeze :: "(string \<Rightarrow> 'w \<Rightarrow> go_error + bool) option"
  dg_Recovery :: "(string \<Rightarrow> 'w \<Rightarrow> go_error + bool \<times> instant) option"
  dg_Pending :: "(string \<Rightarrow> 'w \<Rightarrow> go_error + int) option"
  dg_Leases :: "(string \<Rightarrow> string \<Rightarrow> string \<Rightarrow> 'w \<Rightarrow> go_error + bool) option"
  dg_MaxRequestsPerHour :: int
  dg_MaxPendingPerPrincipal :: int
  dg_RestoreDrillDays :: int
  dg_Now :: "now_site \<Rightarrow> 'w \<Rightarrow> instant"

definition NewDecider :: "'w DConfig \<Rightarrow> 'w DConfig" where
  "NewDecider cfg =
     cfg\<lparr>dg_MaxRequestsPerHour := (if dg_MaxRequestsPerHour cfg \<le> 0 then 30 else dg_MaxRequestsPerHour cfg),
         dg_MaxPendingPerPrincipal := (if dg_MaxPendingPerPrincipal cfg \<le> 0 then 10 else dg_MaxPendingPerPrincipal cfg),
         dg_RestoreDrillDays := (if dg_RestoreDrillDays cfg \<le> 0 then 14 else dg_RestoreDrillDays cfg)\<rparr>"

definition DefaultProfiles :: "string \<Rightarrow> Profile option" where
  "DefaultProfiles = map_of
     [(''readonly-analyst'', \<lparr>pf_Classes = [CapRead], pf_EnvCeiling = EnvProd, pf_DirectLane = False\<rparr>),
      (''app-writer'', \<lparr>pf_Classes = [CapRead, CapWriteInsert, CapWriteUpdate], pf_EnvCeiling = EnvProd,
         pf_DirectLane = True\<rparr>),
      (''coding-agent'', \<lparr>pf_Classes = [CapRead, CapWriteInsert, CapWriteUpdate, CapWriteDelete, CapDDLAdditive,
         CapDDLLocking, CapSandbox], pf_EnvCeiling = EnvStage, pf_DirectLane = False\<rparr>),
      (''legacy'', \<lparr>pf_Classes = [CapRead], pf_EnvCeiling = EnvProd, pf_DirectLane = False\<rparr>)]"

subsection \<open>The steps\<close>

text \<open>One decision in progress. The requests of the last hour are threaded through the steps.\<close>

record dstate =
  ds_req :: DRequest
  ds_p :: Principal
  ds_access :: Access
  ds_profile :: "Profile option"
  ds_env :: Env
  ds_level :: int

type_synonym hits = "string \<Rightarrow> instant list"

text \<open>A step stops with a verdict or goes on with the state.\<close>

definition d1 :: "'w DConfig \<Rightarrow> 'w \<Rightarrow> dstate \<Rightarrow> DVerdict + dstate" where
  "d1 cfg w s =
     (let req = ds_req s; p = ds_p s
      in if \<not> ax_Allowed (ds_access s) \<and> ax_Reason (ds_access s) \<noteq> ReasonUnsponsored
         then Inl (deny (ax_Reason (ds_access s)) ''D1''
                (''principal '' @ gp_Name p @ '' is '' @ gp_Status p @
                 (if gp_FrozenReason p = [] then [] else '': '' @ gp_FrozenReason p)) [])
         else case dg_Freezes cfg of
                None \<Rightarrow> Inr s
              | Some isFrozen \<Rightarrow>
                  if dr_Capability req = CapRead \<or> dr_Kind req = ToolRead then Inr s
                  else (case isFrozen (dr_PrincipalID req) (dr_Database req) w of
                          Inl e \<Rightarrow> Inl (unavailable ''D1'' ''reading the freeze flags'' e)
                        | Inr (frozen, why) \<Rightarrow>
                            if frozen then Inl (deny ReasonFrozen ''D1'' (''agent changes are frozen: '' @ why)
                              ''an admin lifts the freeze in pg_sage'')
                            else Inr s))"

definition d2 :: "dstate \<Rightarrow> DVerdict + dstate" where
  "d2 s = (if ax_Reason (ds_access s) = ReasonUnsponsored
     then Inl (deny ReasonUnsponsored ''D2'' (''principal '' @ gp_Name (ds_p s) @ '' has no active sponsor'')
            ''an admin assigns an active sponsor to the agent'')
     else Inr s)"

definition ceilingOf :: "Env \<Rightarrow> Env" where
  "ceilingOf e = (case ParseEnv e of Inr env \<Rightarrow> env | Inl _ \<Rightarrow> EnvBranch)"

definition environment :: "'w DConfig \<Rightarrow> 'w \<Rightarrow> string \<Rightarrow> Env" where
  "environment cfg w database =
     (case dg_Environments cfg of
        None \<Rightarrow> EnvProd
      | Some Environment \<Rightarrow>
          (case Environment database w of
             (b, Some e) \<Rightarrow> EnvProd
           | (b, None) \<Rightarrow> (case ParseEnv (bn_Env b) of Inr env \<Rightarrow> env | Inl _ \<Rightarrow> EnvProd)))"

definition effective_ceiling :: "dstate \<Rightarrow> Env" where
  "effective_ceiling s =
     (let ceiling = ceilingOf (gp_EnvCeiling (ds_p s))
      in case ds_profile s of
           None \<Rightarrow> ceiling
         | Some pf \<Rightarrow>
             if pf_EnvCeiling pf \<noteq> [] \<and> env_rank (ceilingOf (pf_EnvCeiling pf)) < env_rank ceiling
             then ceilingOf (pf_EnvCeiling pf) else ceiling)"

definition d3 :: "'w DConfig \<Rightarrow> 'w \<Rightarrow> dstate \<Rightarrow> (DVerdict + dstate) \<times> dstate" where
  "d3 cfg w s =
     (if dr_Database (ds_req s) = [] then (Inr s, s)
      else let s1 = s\<lparr>ds_env := environment cfg w (dr_Database (ds_req s))\<rparr>
           in if Within (ds_env s1) (effective_ceiling s1) then (Inr s1, s1)
              else (Inl (deny ReasonEnvCeiling ''D3'' (''database '' @ dr_Database (ds_req s) @ '' evaluates as '' @
                     ds_env s1 @ '', above the agent'' @ quote_char # ''s effective ceiling '' @ effective_ceiling s1)
                     (''verify the database'' @ quote_char # ''s environment label, or have two admins raise the '' @
                      ''agent'' @ quote_char # ''s env_ceiling'')), s1))"

definition d4 :: "dstate \<Rightarrow> DVerdict + dstate" where
  "d4 s =
     (let req = ds_req s; p = ds_p s; q = quoted
      in if dr_Kind req \<noteq> ToolAgent then Inr s
         else if \<not> cap_Valid (dr_Capability req)
         then Inl (deny ReasonCapability ''D4'' (q (dr_Capability req) @ '' is not a capability class'') [])
         else case ds_profile s of
                None \<Rightarrow> Inl (deny ReasonCapability ''D4'' (''profile '' @ q (gp_Profile p) @ '' is not configured'')
                          (''configure agents.profiles.'' @ gp_Profile p))
              | Some pf \<Rightarrow>
                  if \<not> Allows pf (dr_Capability req)
                  then Inl (deny ReasonCapability ''D4'' (''profile '' @ q (gp_Profile p) @ '' does not allow '' @
                         dr_Capability req)
                         (''an admin adds the class to the agent'' @ quote_char # ''s profile (two people)''))
                  else Inr s)"

definition d5 :: "'w DConfig \<Rightarrow> 'w \<Rightarrow> dstate \<Rightarrow> DVerdict + dstate" where
  "d5 cfg w s =
     (let req = ds_req s
      in if dr_Objects req = [] then Inr s
         else case dg_Objects cfg of
                None \<Rightarrow> Inl (deny ReasonClassification ''D5''
                          ''no classification checker is configured, so no object can be checked'' [])
              | Some CheckObjects \<Rightarrow>
                  (case CheckObjects (ds_p s) (dr_Database req) (ds_env s) (dr_Objects req) w of
                     None \<Rightarrow> Inr s
                   | Some e \<Rightarrow>
                       (case IsDenied e of
                          Some (reason, detail, fix1) \<Rightarrow>
                            Inl (deny ReasonClassification ''D5'' (if detail = [] then reason else detail) fix1)
                        | None \<Rightarrow> Inl (unavailable ''D5'' ''checking objects'' e))))"

definition d6 :: "'w DConfig \<Rightarrow> 'w \<Rightarrow> dstate \<Rightarrow> DVerdict + dstate" where
  "d6 cfg w s =
     (let req = ds_req s
      in case dg_ChangeFreeze cfg of
           None \<Rightarrow> Inr s
         | Some freezeOf \<Rightarrow>
             if \<not> cap_Mutates (dr_Capability req) then Inr s
             else (case freezeOf (dr_Database req) w of
                     Inl e \<Rightarrow> Inl (unavailable ''D6'' ''reading the change freeze'' e)
                   | Inr frozen \<Rightarrow>
                       if frozen then Inl (deny ReasonChangeFreeze ''D6'' (''a change freeze is on for '' @ dr_Database req)
                         ''wait for the operator to lift the change freeze'')
                       else Inr s))"

text \<open>\<^verbatim>\<open>RestoreDrillDays * 24 * time.Hour\<close> wraps at 64 bits.\<close>

definition drillCap :: "'w DConfig \<Rightarrow> 'w \<Rightarrow> instant \<Rightarrow> int \<Rightarrow> int" where
  "drillCap cfg w t level =
     (let maxAge = wrap64 (wrap64 (dg_RestoreDrillDays cfg * 24) * hour)
      in if IsZero t \<or> time_Sub (dg_Now cfg NowDrill w) t > maxAge then min level 2 else level)"

definition d7 :: "'w DConfig \<Rightarrow> 'w \<Rightarrow> dstate \<Rightarrow> DVerdict + dstate" where
  "d7 cfg w s =
     (let req = ds_req s;
          fix1 = ''enable point-in-time recovery (WAL archiving or the provider'' @ quote_char # ''s PITR)''
      in if ds_env s \<noteq> EnvProd \<or> \<not> cap_Writes (dr_Capability req) \<and> \<not> cap_DDL (dr_Capability req) then Inr s
         else case dg_Recovery cfg of
                None \<Rightarrow> Inl (deny ReasonNoPITR ''D7'' (''recovery posture is unknown for '' @ dr_Database req) fix1)
              | Some Recovery \<Rightarrow>
                  (case Recovery (dr_Database req) w of
                     Inl e \<Rightarrow> Inl (unavailable ''D7'' ''reading recovery posture'' e)
                   | Inr (pitr, drill) \<Rightarrow>
                       if \<not> pitr then Inl (deny ReasonNoPITR ''D7'' (dr_Database req @ '' has no PITR posture'') fix1)
                       else Inr (s\<lparr>ds_level := drillCap cfg w drill (ds_level s)\<rparr>)))"

definition hit_key :: "string \<Rightarrow> string" where
  "hit_key who = (if who = [] then ''stdio:unbound'' else who)"

text \<open>The wait until there is room, if the hour is full.\<close>

definition admit :: "int \<Rightarrow> instant \<Rightarrow> string \<Rightarrow> hits \<Rightarrow> duration option \<times> hits" where
  "admit limit now who hits =
     (let key = hit_key who;
          recent = filter (\<lambda>t. time_Sub now t < hour) (hits key)
      in if int (length recent) \<ge> limit
         then (Some (time_Sub (hd recent + hour) now), hits(key := recent))
         else (None, hits(key := recent @ [now])))"

definition d9 :: "'w DConfig \<Rightarrow> 'w \<Rightarrow> dstate \<Rightarrow> hits \<Rightarrow> (DVerdict + dstate) \<times> hits" where
  "d9 cfg w s hits =
     (let req = ds_req s; limit = dg_MaxPendingPerPrincipal cfg;
          go = (case admit (dg_MaxRequestsPerHour cfg) (dg_Now cfg NowAdmit w) (dr_PrincipalID req) hits of
                  (None, hits1) \<Rightarrow> (Inr s, hits1)
                | (Some wait, hits1) \<Rightarrow>
                    (Inl ((deny ReasonRate ''D9'' (''more than '' @ itoa (dg_MaxRequestsPerHour cfg) @
                       '' requests in an hour; retry_after='' @ itoa (wait div second) @ ''s'') [])
                       \<lparr>dv_Park := True, dv_RetryAfter := wait\<rparr>), hits1))
      in if dr_OperatorApproved req \<or> dr_Capability req = CapRead then (Inr s, hits)
         else case dg_Pending cfg of
                None \<Rightarrow> go
              | Some Pending \<Rightarrow>
                  if dr_PrincipalID req = [] then go
                  else (case Pending (dr_PrincipalID req) w of
                          Inl e \<Rightarrow> (Inl (unavailable ''D9'' ''counting pending approvals'' e), hits)
                        | Inr pending \<Rightarrow>
                            if pending \<ge> limit
                            then (Inl (deny ReasonBudget ''D9'' (itoa pending @
                                   '' approvals are already pending for this agent (limit '' @ itoa limit @ '')'')
                                   ''people decide the pending approvals first''), hits)
                            else go))"

definition d10 :: "'w DConfig \<Rightarrow> 'w \<Rightarrow> dstate \<Rightarrow> DVerdict + dstate" where
  "d10 cfg w s =
     (let req = ds_req s; fix1 = ''request the capability again; a person approves the new grant''
      in if dr_GrantID req = [] then Inr s
         else case dg_Leases cfg of
                None \<Rightarrow> Inl (deny ReasonLeaseExpired ''D10'' (''no lease registry is configured, so grant '' @
                          dr_GrantID req @ '' has no lease'') fix1)
              | Some LeaseActive \<Rightarrow>
                  (case LeaseActive (dr_PrincipalID req) (dr_GrantID req) (dr_Database req) w of
                     Inl e \<Rightarrow> Inl (unavailable ''D10'' ''reading the grant lease'' e)
                   | Inr active \<Rightarrow>
                       if active then Inr s
                       else Inl (deny ReasonLeaseExpired ''D10'' (''the lease of grant '' @ dr_GrantID req @
                              '' has expired'') fix1)))"

subsection \<open>Deciding\<close>

definition normalize :: "DRequest \<Rightarrow> DRequest" where
  "normalize req =
     (let req1 = (if dr_Kind req = [] then req\<lparr>dr_Kind := KindFor (dr_Tool req)\<rparr> else req)
      in if dr_Capability req1 = [] then req1\<lparr>dr_Capability := CapabilityFor (dr_Tool req1) []\<rparr> else req1)"

definition ErrNotFound :: go_error where
  "ErrNotFound = ErrorText ''agentguard: not found''"

definition profileOf :: "'w DConfig \<Rightarrow> Principal \<Rightarrow> Profile option" where
  "profileOf cfg p =
     (case dg_Profiles cfg of None \<Rightarrow> None | Some profile \<Rightarrow> if gp_Profile p = [] then None else profile (gp_Profile p))"

definition stdio_principal :: Principal where
  "stdio_principal = Principal0\<lparr>gp_Name := ''stdio'', gp_Status := StatusActive, gp_EnvCeiling := EnvProd\<rparr>"

definition load_principal :: "'w DConfig \<Rightarrow> 'w \<Rightarrow> DRequest \<Rightarrow> DVerdict + Principal" where
  "load_principal cfg w req =
     (if dr_PrincipalID req = [] then Inr stdio_principal
      else case dg_Principals cfg of
             None \<Rightarrow> Inl (deny ReasonUnavailable ''D1''
                       ''agent governance has no principal store (no control database)'' [])
           | Some get \<Rightarrow>
               (case get (dr_PrincipalID req) w of
                  Inl e \<Rightarrow>
                    if errors_Is e ErrNotFound
                    then Inl (deny ReasonRetired ''D1'' (''principal '' @ dr_PrincipalID req @ '' does not exist'') [])
                    else Inl (unavailable ''D1'' ''loading the principal'' e)
                | Inr p \<Rightarrow> Inr p))"

definition load :: "'w DConfig \<Rightarrow> 'w \<Rightarrow> DRequest \<Rightarrow> DVerdict + dstate" where
  "load cfg w req =
     ebind (load_principal cfg w req) (\<lambda>p.
       let access = ToolAccess p (dr_Kind req)
       in Inr \<lparr>ds_req = req, ds_p = p, ds_access = access, ds_profile = profileOf cfg p, ds_env = [],
               ds_level = ax_MaxLevel access\<rparr>)"

definition finalLevel :: "dstate \<Rightarrow> int" where
  "finalLevel s = (if dr_Capability (ds_req s) \<noteq> CapRead then min (ds_level s) 2 else ds_level s)"

text \<open>The stopping verdict carries the environment seen so far, the class and the principal.\<close>

definition stamped :: "DRequest \<Rightarrow> dstate \<Rightarrow> DVerdict \<Rightarrow> DVerdict" where
  "stamped req s v = v\<lparr>dv_Env := ds_env s, dv_Capability := dr_Capability req, dv_Principal := ds_p s\<rparr>"

text \<open>The steps before D9, which alone changes the decider's state; the second component is the state a
  stopping step left.\<close>

definition steps_to_d7 :: "'w DConfig \<Rightarrow> 'w \<Rightarrow> dstate \<Rightarrow> (DVerdict + dstate) \<times> dstate" where
  "steps_to_d7 cfg w s =
     (case ebind (d1 cfg w s) d2 of
        Inl v \<Rightarrow> (Inl v, s)
      | Inr s1 \<Rightarrow>
          (case d3 cfg w s1 of
             (Inl v, s3) \<Rightarrow> (Inl v, s3)
           | (Inr s3, _) \<Rightarrow>
               (ebind (ebind (ebind (d4 s3) (d5 cfg w)) (d6 cfg w)) (d7 cfg w), s3)))"

definition Decide :: "'w DConfig \<Rightarrow> DRequest \<Rightarrow> 'w \<Rightarrow> hits \<Rightarrow> DVerdict \<times> hits" where
  "Decide cfg req0 w hits =
     (let req = normalize req0
      in if dr_Narrowing req
         then (DVerdict0\<lparr>dv_Allowed := True, dv_MaxLevel := 3, dv_Capability := dr_Capability req\<rparr>, hits)
         else case load cfg w req of
                Inl v \<Rightarrow> (v, hits)
              | Inr s \<Rightarrow>
                  (case steps_to_d7 cfg w s of
                     (Inl v, s1) \<Rightarrow> (stamped req s1 v, hits)
                   | (Inr s7, _) \<Rightarrow>
                       (case d9 cfg w s7 hits of
                          (Inl v, hits1) \<Rightarrow> (stamped req s7 v, hits1)
                        | (Inr s9, hits1) \<Rightarrow>
                            (case d10 cfg w s9 of
                               Inl v \<Rightarrow> (stamped req s9 v, hits1)
                             | Inr s10 \<Rightarrow>
                                 (stamped req s10 (DVerdict0\<lparr>dv_Allowed := True, dv_MaxLevel := finalLevel s10\<rparr>),
                                  hits1)))))"

subsection \<open>The gate's decider\<close>

definition toRequest :: "string \<Rightarrow> ActionRequest \<Rightarrow> PrincipalRef \<Rightarrow> DRequest" where
  "toRequest database req ref =
     (let kind = KindFor (p_Tool ref)
      in \<lparr>dr_PrincipalID = p_ID ref, dr_Tool = p_Tool ref,
          dr_Kind = (if kind = ToolRead then ToolPropose else kind),
          dr_Capability = (if r_CapabilityClass req = [] then CapabilityFor (p_Tool ref) (r_SQL req)
                           else r_CapabilityClass req),
          dr_Database = database, dr_Objects = [], dr_GrantID = [], dr_Narrowing = IsNarrowing req,
          dr_OperatorApproved = r_OperatorApproved req, dr_TaskID = p_TaskID ref\<rparr>)"

definition policy_reason :: "AgentReason \<Rightarrow> Reason" where
  "policy_reason r = (if r = ReasonLevel0 then ReasonAgentLevel0 else ReasonOther r)"

definition gateAdapter_Decide ::
    "'w DConfig \<Rightarrow> string \<Rightarrow> ActionRequest \<Rightarrow> 'w \<Rightarrow> hits \<Rightarrow> (Decision \<times> int \<times> bool) \<times> hits" where
  "gateAdapter_Decide cfg database req w hits =
     (case r_Principal req of
        None \<Rightarrow> ((Decision0\<lparr>d_Verdict := VerdictBlocked, d_Reason := ReasonOther ReasonUnavailable,
                  d_Detail := ''an agent request reached agent governance without its principal''\<rparr>, 0, True), hits)
      | Some ref \<Rightarrow>
          (case Decide cfg (toRequest database req ref) w hits of (v, hits1) \<Rightarrow>
             (if dv_Allowed v then (Decision0, dv_MaxLevel v, False)
              else (Decision0\<lparr>d_Verdict := (if dv_Park v then VerdictPark else VerdictBlocked),
                     d_Reason := policy_reason (dv_Reason v),
                     d_Detail := dv_Detail v @ (if dv_Fix v = [] then [] else ''. Fix: '' @ dv_Fix v)\<rparr>, 0, True), hits1)))"

subsection \<open>Holding a principal\<close>

definition ErrInvalid :: go_error where
  "ErrInvalid = ErrorText ''agentguard: invalid request''"

definition ErrUnavailable :: go_error where
  "ErrUnavailable = ErrorText ''agentguard: control database unavailable''"

text \<open>What the locking read of the principal's row answers; the lock lasts until the hold is released.\<close>

datatype hold_read = HoldNoRows | HoldStatus string | HoldFailed go_error

text \<open>\<^verbatim>\<open>HoldActive\<close>: the error, or unit when the transaction with the share lock stays open. In
  every other case the transaction, if it began, is rolled back. The arguments tell whether there is a
  control database, whether beginning fails, and what the read answers.\<close>

definition HoldActive :: "string \<Rightarrow> bool \<Rightarrow> go_error option \<Rightarrow> hold_read \<Rightarrow> go_error + unit" where
  "HoldActive principalID control begin_err answer =
     (let wrap = (\<lambda>e. Wrap (''agentguard: holding principal '' @ principalID @ '': '') e [])
      in if principalID = [] then Inl (Wrap [] ErrInvalid '': a hold needs a principal id'')
         else if \<not> control then Inl ErrUnavailable
         else case begin_err of
                Some e \<Rightarrow> Inl (wrap e)
              | None \<Rightarrow>
                  (case answer of
                     HoldStatus st \<Rightarrow>
                       if st = StatusActive then Inr ()
                       else if st = StatusFrozen
                       then Inl (DeniedError ReasonFrozen
                              (''principal '' @ principalID @ '' was frozen before its change committed'') [])
                       else Inl (DeniedError ReasonRetired (''principal '' @ principalID @ '' is '' @ st) [])
                   | HoldNoRows \<Rightarrow> Inl (DeniedError ReasonRetired (''principal '' @ principalID @ '' does not exist'') [])
                   | HoldFailed e \<Rightarrow> Inl (wrap e)))"

end
