(* ===== verification/Decide_Spec.thy ===== *)
theory Decide_Spec
  imports Decide
begin

text \<open>
  What agent governance promises, stated without the order of the steps: when a principal may go on with
  a request, and how far. The lemmas decide each step against it; the theorems are in
  \<open>Decide_Props\<close>.
\<close>

subsection \<open>Specification\<close>

definition principal_loaded :: "'w DConfig \<Rightarrow> 'w \<Rightarrow> DRequest \<Rightarrow> Principal \<Rightarrow> bool" where
  "principal_loaded cfg w req p \<longleftrightarrow>
     (if dr_PrincipalID req = [] then p = stdio_principal
      else \<exists>get. dg_Principals cfg = Some get \<and> get (dr_PrincipalID req) w = Inr p)"

text \<open>The standing of the principal and of its profile for the kind of the tool.\<close>

definition standing :: "'w DConfig \<Rightarrow> DRequest \<Rightarrow> Principal \<Rightarrow> bool" where
  "standing cfg req p \<longleftrightarrow>
     (dr_Kind req = ToolRead \<and> (gp_Status p = StatusActive \<or> gp_Status p = StatusFrozen)) \<or>
     (dr_Kind req = ToolPropose \<and> gp_Status p = StatusActive) \<or>
     (dr_Kind req = ToolAgent \<and> gp_Status p = StatusActive \<and> Sponsored p \<and> cap_Valid (dr_Capability req) \<and>
        (\<exists>pf. profileOf cfg p = Some pf \<and> Allows pf (dr_Capability req)))"

definition reads_only :: "DRequest \<Rightarrow> bool" where
  "reads_only req \<longleftrightarrow> dr_Capability req = CapRead \<or> dr_Kind req = ToolRead"

definition not_frozen :: "'w DConfig \<Rightarrow> 'w \<Rightarrow> DRequest \<Rightarrow> bool" where
  "not_frozen cfg w req \<longleftrightarrow>
     (\<forall>f. dg_Freezes cfg = Some f \<and> \<not> reads_only req \<longrightarrow>
        (\<exists>why. f (dr_PrincipalID req) (dr_Database req) w = Inr (False, why))) \<and>
     (\<forall>f. dg_ChangeFreeze cfg = Some f \<and> cap_Mutates (dr_Capability req) \<longrightarrow> f (dr_Database req) w = Inr False)"

text \<open>The environment of the request: none without a database.\<close>

definition request_env :: "'w DConfig \<Rightarrow> 'w \<Rightarrow> DRequest \<Rightarrow> Env" where
  "request_env cfg w req = (if dr_Database req = [] then [] else environment cfg w (dr_Database req))"

definition under_ceilings :: "'w DConfig \<Rightarrow> 'w \<Rightarrow> DRequest \<Rightarrow> Principal \<Rightarrow> bool" where
  "under_ceilings cfg w req p \<longleftrightarrow>
     (dr_Database req \<noteq> [] \<longrightarrow>
        Within (request_env cfg w req) (ceilingOf (gp_EnvCeiling p)) \<and>
        (\<forall>pf. profileOf cfg p = Some pf \<and> pf_EnvCeiling pf \<noteq> [] \<longrightarrow>
           Within (request_env cfg w req) (ceilingOf (pf_EnvCeiling pf))))"

definition objects_admitted :: "'w DConfig \<Rightarrow> 'w \<Rightarrow> DRequest \<Rightarrow> Principal \<Rightarrow> bool" where
  "objects_admitted cfg w req p \<longleftrightarrow>
     (dr_Objects req \<noteq> [] \<longrightarrow>
        (\<exists>f. dg_Objects cfg = Some f \<and>
           f p (dr_Database req) (request_env cfg w req) (dr_Objects req) w = None))"

definition needs_pitr :: "'w DConfig \<Rightarrow> 'w \<Rightarrow> DRequest \<Rightarrow> bool" where
  "needs_pitr cfg w req \<longleftrightarrow>
     request_env cfg w req = EnvProd \<and> (cap_Writes (dr_Capability req) \<or> cap_DDL (dr_Capability req))"

definition recoverable :: "'w DConfig \<Rightarrow> 'w \<Rightarrow> DRequest \<Rightarrow> bool" where
  "recoverable cfg w req \<longleftrightarrow>
     (needs_pitr cfg w req \<longrightarrow> (\<exists>f drill. dg_Recovery cfg = Some f \<and> f (dr_Database req) w = Inr (True, drill)))"

definition under_limits :: "'w DConfig \<Rightarrow> 'w \<Rightarrow> DRequest \<Rightarrow> hits \<Rightarrow> bool" where
  "under_limits cfg w req hits \<longleftrightarrow>
     (\<not> dr_OperatorApproved req \<and> dr_Capability req \<noteq> CapRead \<longrightarrow>
        (\<forall>f. dg_Pending cfg = Some f \<and> dr_PrincipalID req \<noteq> [] \<longrightarrow>
           (\<exists>n. f (dr_PrincipalID req) w = Inr n \<and> n < dg_MaxPendingPerPrincipal cfg)) \<and>
        fst (admit (dg_MaxRequestsPerHour cfg) (dg_Now cfg NowAdmit w) (dr_PrincipalID req) hits) = None)"

definition lease_held :: "'w DConfig \<Rightarrow> 'w \<Rightarrow> DRequest \<Rightarrow> bool" where
  "lease_held cfg w req \<longleftrightarrow>
     (dr_GrantID req \<noteq> [] \<longrightarrow>
        (\<exists>f. dg_Leases cfg = Some f \<and> f (dr_PrincipalID req) (dr_GrantID req) (dr_Database req) w = Inr True))"

definition governed :: "'w DConfig \<Rightarrow> 'w \<Rightarrow> DRequest \<Rightarrow> Principal \<Rightarrow> bool" where
  "governed cfg w req p \<longleftrightarrow>
     principal_loaded cfg w req p \<and> standing cfg req p \<and> not_frozen cfg w req \<and> under_ceilings cfg w req p \<and>
     objects_admitted cfg w req p \<and> recoverable cfg w req \<and> lease_held cfg w req"

subsection \<open>The steps against it\<close>

named_theorems step_defs \<open>the definitions of the steps\<close>

declare d1_def [step_defs] d2_def [step_defs] d3_def [step_defs] d4_def [step_defs] d5_def [step_defs]
  d6_def [step_defs] d7_def [step_defs] d10_def [step_defs]

lemma denied_not_allowed [simp]:
  "\<not> dv_Allowed (deny r st d f)" "\<not> dv_Allowed (unavailable st what e)" "\<not> dv_Allowed DVerdict0"
  by (simp_all add: deny_def unavailable_def DVerdict0_def)

lemma denied_level [simp]:
  "dv_MaxLevel (deny r st d f) = 0" "dv_MaxLevel (unavailable st what e) = 0"
  by (simp_all add: deny_def unavailable_def DVerdict0_def)

text \<open>A step that stops denies.\<close>

definition denying :: "DVerdict \<Rightarrow> bool" where
  "denying v \<longleftrightarrow> \<not> dv_Allowed v \<and> dv_MaxLevel v = 0"

lemma denying_simps [simp]:
  "denying (deny r st d f)" "denying (unavailable st what e)" "denying (stamped req s v) = denying v"
  "denying ((deny r st d f)\<lparr>dv_Park := b, dv_RetryAfter := wt\<rparr>)"
  by (simp_all add: denying_def stamped_def)

lemma steps_deny:
  "d1 cfg w s = Inl v \<Longrightarrow> denying v" "d2 s = Inl v \<Longrightarrow> denying v" "d3 cfg w s = (Inl v, s') \<Longrightarrow> denying v"
  "d4 s = Inl v \<Longrightarrow> denying v" "d5 cfg w s = Inl v \<Longrightarrow> denying v" "d6 cfg w s = Inl v \<Longrightarrow> denying v"
  "d7 cfg w s = Inl v \<Longrightarrow> denying v" "d10 cfg w s = Inl v \<Longrightarrow> denying v"
  by (auto simp: step_defs Let_def split: if_splits option.splits sum.splits prod.splits)

lemma d9_deny: "d9 cfg w s hits = (Inl v, h) \<Longrightarrow> denying v"
  by (auto simp: d9_def Let_def split: if_splits option.splits sum.splits prod.splits)

lemma load_deny: "load cfg w req = Inl v \<Longrightarrow> denying v"
  by (auto simp: load_def load_principal_def Let_def split: if_splits option.splits sum.splits)

lemma ebind_Inl_iff: "ebind r f = Inl e \<longleftrightarrow> r = Inl e \<or> (\<exists>a. r = Inr a \<and> f a = Inl e)"
  by (cases r) auto

lemma steps_to_d7_deny: "steps_to_d7 cfg w s = (Inl v, s') \<Longrightarrow> denying v"
  by (auto simp: steps_to_d7_def ebind_Inl_iff dest: steps_deny split: sum.splits prod.splits)

text \<open>The state a decision starts with, and the one it has after D7.\<close>

definition started :: "'w DConfig \<Rightarrow> DRequest \<Rightarrow> Principal \<Rightarrow> dstate" where
  "started cfg req p = \<lparr>ds_req = req, ds_p = p, ds_access = ToolAccess p (dr_Kind req), ds_profile = profileOf cfg p,
     ds_env = [], ds_level = ax_MaxLevel (ToolAccess p (dr_Kind req))\<rparr>"

lemma started_simps [simp]:
  "ds_req (started cfg req p) = req" "ds_p (started cfg req p) = p"
  "ds_access (started cfg req p) = ToolAccess p (dr_Kind req)"
  "ds_profile (started cfg req p) = profileOf cfg p" "ds_env (started cfg req p) = []"
  "ds_level (started cfg req p) = ax_MaxLevel (ToolAccess p (dr_Kind req))"
  by (simp_all add: started_def)

lemma load_iff: "load cfg w req = Inr s \<longleftrightarrow> (\<exists>p. principal_loaded cfg w req p \<and> s = started cfg req p)"
  by (auto simp: load_def load_principal_def principal_loaded_def started_def Let_def ebind_Inr_iff
      split: option.splits sum.splits if_splits)

lemma principal_loaded_unique: "principal_loaded cfg w req p \<Longrightarrow> principal_loaded cfg w req p' \<Longrightarrow> p' = p"
  by (auto simp: principal_loaded_def split: if_splits)

text \<open>D1 and D2: the standing of the principal, apart from the profile, and the freeze flags.\<close>

lemma access_passes:
  "ax_Allowed (ToolAccess p kind) \<longleftrightarrow>
     (kind = ToolRead \<and> (gp_Status p = StatusActive \<or> gp_Status p = StatusFrozen)) \<or>
     ((kind = ToolPropose \<or> kind = ToolAgent \<and> Sponsored p) \<and> gp_Status p = StatusActive)"
  "ax_Allowed (ToolAccess p kind) \<Longrightarrow> ax_Reason (ToolAccess p kind) = []"
  unfolding ToolAccess_def refused_def admitted_def Retired_def Frozen_def status_Valid_def
  by (cases "kind = ToolRead"; cases "kind = ToolPropose"; cases "kind = ToolAgent";
      cases "gp_Status p = StatusActive"; cases "gp_Status p = StatusFrozen"; simp)
    (cases "kind = ToolRead"; cases "kind = ToolPropose"; cases "kind = ToolAgent";
      cases "gp_Status p = StatusActive"; cases "gp_Status p = StatusFrozen"; simp split: if_splits)

lemma d12_iff:
  "ebind (d1 cfg w s) d2 = Inr s' \<longleftrightarrow>
     s' = s \<and> (ax_Allowed (ds_access s) \<or> ax_Reason (ds_access s) = ReasonUnsponsored) \<and>
     ax_Reason (ds_access s) \<noteq> ReasonUnsponsored \<and>
     (\<forall>f. dg_Freezes cfg = Some f \<and> \<not> reads_only (ds_req s) \<longrightarrow>
        (\<exists>why. f (dr_PrincipalID (ds_req s)) (dr_Database (ds_req s)) w = Inr (False, why)))"
  by (auto simp: ebind_Inr_iff d1_def d2_def reads_only_def Let_def split: if_splits option.splits sum.splits)

lemma effective_ceiling_Within:
  "Within e (effective_ceiling s) \<longleftrightarrow>
     Within e (ceilingOf (gp_EnvCeiling (ds_p s))) \<and>
     (\<forall>pf. ds_profile s = Some pf \<and> pf_EnvCeiling pf \<noteq> [] \<longrightarrow> Within e (ceilingOf (pf_EnvCeiling pf)))"
  by (auto simp: effective_ceiling_def Within_def Let_def split: option.splits)

lemma d3_iff:
  "d3 cfg w (started cfg req p) = (Inr s', s2) \<longleftrightarrow>
     s' = (started cfg req p)\<lparr>ds_env := request_env cfg w req\<rparr> \<and> s2 = s' \<and> under_ceilings cfg w req p"
  by (auto simp: d3_def request_env_def under_ceilings_def effective_ceiling_Within Let_def started_def)

lemma d4_iff:
  "d4 s = Inr s' \<longleftrightarrow> s' = s \<and>
     (dr_Kind (ds_req s) = ToolAgent \<longrightarrow> cap_Valid (dr_Capability (ds_req s)) \<and>
        (\<exists>pf. ds_profile s = Some pf \<and> Allows pf (dr_Capability (ds_req s))))"
  by (auto simp: d4_def Let_def split: option.splits)

lemma d5_iff:
  "d5 cfg w s = Inr s' \<longleftrightarrow> s' = s \<and>
     (dr_Objects (ds_req s) \<noteq> [] \<longrightarrow>
        (\<exists>f. dg_Objects cfg = Some f \<and>
           f (ds_p s) (dr_Database (ds_req s)) (ds_env s) (dr_Objects (ds_req s)) w = None))"
  by (auto simp: d5_def Let_def split: option.splits)

lemma d6_iff:
  "d6 cfg w s = Inr s' \<longleftrightarrow> s' = s \<and>
     (\<forall>f. dg_ChangeFreeze cfg = Some f \<and> cap_Mutates (dr_Capability (ds_req s)) \<longrightarrow>
        f (dr_Database (ds_req s)) w = Inr False)"
  by (auto simp: d6_def Let_def split: option.splits sum.splits)

lemma d7_iff:
  "d7 cfg w s = Inr s' \<longleftrightarrow>
     (if ds_env s = EnvProd \<and> (cap_Writes (dr_Capability (ds_req s)) \<or> cap_DDL (dr_Capability (ds_req s)))
      then \<exists>f drill. dg_Recovery cfg = Some f \<and> f (dr_Database (ds_req s)) w = Inr (True, drill) \<and>
             s' = s\<lparr>ds_level := drillCap cfg w drill (ds_level s)\<rparr>
      else s' = s)"
  by (auto simp: d7_def Let_def split: option.splits sum.splits prod.splits)

lemma d10_iff: "d10 cfg w s = Inr s' \<longleftrightarrow> s' = s \<and> lease_held cfg w (ds_req s)"
  by (auto simp: d10_def lease_held_def Let_def split: option.splits sum.splits)

lemma d9_iff: "fst (d9 cfg w s hits) = Inr s' \<longleftrightarrow> s' = s \<and> under_limits cfg w (ds_req s) hits"
  by (auto simp: d9_def under_limits_def Let_def split: option.splits sum.splits prod.splits)

lemma standing_split:
  "standing cfg req p \<longleftrightarrow>
     ax_Allowed (ToolAccess p (dr_Kind req)) \<and>
     (dr_Kind req = ToolAgent \<longrightarrow> cap_Valid (dr_Capability req) \<and>
        (\<exists>pf. profileOf cfg p = Some pf \<and> Allows pf (dr_Capability req)))"
  unfolding standing_def access_passes(1)
  by (cases "dr_Kind req = ToolAgent"; cases "dr_Kind req = ToolPropose"; simp) blast

text \<open>What the steps before D9 check.\<close>

definition checked :: "'w DConfig \<Rightarrow> 'w \<Rightarrow> DRequest \<Rightarrow> Principal \<Rightarrow> bool" where
  "checked cfg w req p \<longleftrightarrow>
     standing cfg req p \<and> not_frozen cfg w req \<and> under_ceilings cfg w req p \<and> objects_admitted cfg w req p \<and>
     recoverable cfg w req"

lemma governed_split:
  "governed cfg w req p \<longleftrightarrow> principal_loaded cfg w req p \<and> checked cfg w req p \<and> lease_held cfg w req"
  by (auto simp: governed_def checked_def)

lemma access_split:
  "(ax_Allowed (ToolAccess p k) \<or> ax_Reason (ToolAccess p k) = ReasonUnsponsored) \<and>
   ax_Reason (ToolAccess p k) \<noteq> ReasonUnsponsored \<longleftrightarrow> ax_Allowed (ToolAccess p k)"
  using access_passes(2) [of p k] by (cases "ax_Allowed (ToolAccess p k)") simp_all

definition level_after :: "'w DConfig \<Rightarrow> 'w \<Rightarrow> DRequest \<Rightarrow> int \<Rightarrow> int \<Rightarrow> bool" where
  "level_after cfg w req l l' \<longleftrightarrow>
     (if needs_pitr cfg w req
      then \<exists>f drill. dg_Recovery cfg = Some f \<and> f (dr_Database req) w = Inr (True, drill) \<and> l' = drillCap cfg w drill l
      else l' = l)"

lemma level_after_recoverable: "(\<exists>l'. level_after cfg w req l l') \<longleftrightarrow> recoverable cfg w req"
  by (auto simp: level_after_def recoverable_def)

lemma steps_to_d7_iff:
  "steps_to_d7 cfg w (started cfg req p) = (Inr s7, s') \<longleftrightarrow>
     standing cfg req p \<and> not_frozen cfg w req \<and> under_ceilings cfg w req p \<and> objects_admitted cfg w req p \<and>
     s' = (started cfg req p)\<lparr>ds_env := request_env cfg w req\<rparr> \<and>
     (\<exists>l. level_after cfg w req (ax_MaxLevel (ToolAccess p (dr_Kind req))) l \<and>
        s7 = (started cfg req p)\<lparr>ds_env := request_env cfg w req, ds_level := l\<rparr>)"
    (is "?lhs \<longleftrightarrow> ?rhs")
proof -
  let ?s = "started cfg req p" and ?e = "request_env cfg w req"
  let ?s3 = "?s\<lparr>ds_env := ?e\<rparr>"
  have "?lhs \<longleftrightarrow> ebind (d1 cfg w ?s) d2 = Inr ?s \<and> under_ceilings cfg w req p \<and> s' = ?s3 \<and>
      d4 ?s3 = Inr ?s3 \<and> d5 cfg w ?s3 = Inr ?s3 \<and> d6 cfg w ?s3 = Inr ?s3 \<and> d7 cfg w ?s3 = Inr s7"
  proof (cases "ebind (d1 cfg w ?s) d2")
    case (Inr s1)
    then have "s1 = ?s" by (simp add: d12_iff)
    moreover obtain r s2 where d3: "d3 cfg w ?s = (r, s2)" by fastforce
    moreover have "r = Inr ?s3 \<and> s2 = ?s3 \<and> under_ceilings cfg w req p \<or> (\<exists>v. r = Inl v) \<and> \<not> under_ceilings cfg w req p"
      using d3_iff [of cfg w req p _ s2] d3 d3_iff [of cfg w req p ?s3 ?s3] by (cases r) auto
    ultimately show ?thesis using Inr
      by (auto simp: steps_to_d7_def ebind_Inr_iff d4_iff d5_iff d6_iff)
  qed (auto simp: steps_to_d7_def)
  also have "\<dots> \<longleftrightarrow> ?rhs"
  proof -
    have a: "ebind (d1 cfg w ?s) d2 = Inr ?s \<longleftrightarrow> ax_Allowed (ToolAccess p (dr_Kind req)) \<and>
        (\<forall>f. dg_Freezes cfg = Some f \<and> \<not> reads_only req \<longrightarrow>
           (\<exists>why. f (dr_PrincipalID req) (dr_Database req) w = Inr (False, why)))"
      using access_split [of p "dr_Kind req"] by (simp only: d12_iff started_simps) blast
    have b: "d4 ?s3 = Inr ?s3 \<longleftrightarrow> (dr_Kind req = ToolAgent \<longrightarrow> cap_Valid (dr_Capability req) \<and>
        (\<exists>pf. profileOf cfg p = Some pf \<and> Allows pf (dr_Capability req)))"
      by (simp add: d4_iff)
    have c: "d5 cfg w ?s3 = Inr ?s3 \<longleftrightarrow> objects_admitted cfg w req p"
      by (simp add: d5_iff objects_admitted_def)
    have d: "d6 cfg w ?s3 = Inr ?s3 \<longleftrightarrow>
        (\<forall>f. dg_ChangeFreeze cfg = Some f \<and> cap_Mutates (dr_Capability req) \<longrightarrow> f (dr_Database req) w = Inr False)"
      by (simp add: d6_iff)
    have e: "d7 cfg w ?s3 = Inr s7 \<longleftrightarrow>
        (\<exists>l. level_after cfg w req (ax_MaxLevel (ToolAccess p (dr_Kind req))) l \<and>
           s7 = ?s\<lparr>ds_env := ?e, ds_level := l\<rparr>)"
    proof -
      have n: "(ds_env ?s3 = EnvProd \<and> (cap_Writes (dr_Capability (ds_req ?s3)) \<or> cap_DDL (dr_Capability (ds_req ?s3)))) =
          needs_pitr cfg w req"
        by (simp add: needs_pitr_def)
      show ?thesis unfolding d7_iff n level_after_def
        by (cases "needs_pitr cfg w req") (simp_all add: started_def, blast)
    qed
    show ?thesis unfolding a b c d e standing_split not_frozen_def by blast
  qed
  finally show ?thesis .
qed

lemma steps_to_d7_checked:
  "(\<exists>s7 s'. steps_to_d7 cfg w (started cfg req p) = (Inr s7, s')) \<longleftrightarrow> checked cfg w req p"
  unfolding steps_to_d7_iff checked_def
  using level_after_recoverable [of cfg w req "ax_MaxLevel (ToolAccess p (dr_Kind req))"] by auto

end
