(* ===== verification/Decide_Props.thy ===== *)
theory Decide_Props
  imports Decide_Spec Gate_Props
begin

text \<open>
  The theorems of the agent decider: it allows exactly what its specification allows, the levels it
  answers, the bound on the requests of an hour and the wait it answers, and its composition with the
  authorization gate.
\<close>

subsection \<open>Decisions\<close>

definition allowing :: "'w DConfig \<Rightarrow> 'w \<Rightarrow> DRequest \<Rightarrow> Principal \<Rightarrow> int \<Rightarrow> DVerdict" where
  "allowing cfg w req p l =
     DVerdict0\<lparr>dv_Allowed := True, dv_MaxLevel := (if dr_Capability req \<noteq> CapRead then min l 2 else l),
       dv_Env := request_env cfg w req, dv_Capability := dr_Capability req, dv_Principal := p\<rparr>"

text \<open>The end of a decision: D9, D10 and the verdict.\<close>

definition closing :: "'w DConfig \<Rightarrow> DRequest \<Rightarrow> 'w \<Rightarrow> hits \<Rightarrow> dstate \<Rightarrow> DVerdict \<times> hits" where
  "closing cfg req w hits s7 =
     (case d9 cfg w s7 hits of
        (Inl v, hits1) \<Rightarrow> (stamped req s7 v, hits1)
      | (Inr s9, hits1) \<Rightarrow>
          (case d10 cfg w s9 of
             Inl v \<Rightarrow> (stamped req s9 v, hits1)
           | Inr s10 \<Rightarrow>
               (stamped req s10 (DVerdict0\<lparr>dv_Allowed := True, dv_MaxLevel := finalLevel s10\<rparr>), hits1)))"

lemma closing_cases:
  assumes "s7 = (started cfg req p)\<lparr>ds_env := request_env cfg w req, ds_level := l\<rparr>"
  shows "if under_limits cfg w req hits \<and> lease_held cfg w req
         then fst (closing cfg req w hits s7) = allowing cfg w req p l
         else denying (fst (closing cfg req w hits s7))"
proof -
  have req: "ds_req s7 = req" by (simp add: assms)
  obtain r h where d9: "d9 cfg w s7 hits = (r, h)" by fastforce
  show ?thesis
  proof (cases r)
    case (Inl v)
    then have "\<not> under_limits cfg w req hits" using d9_iff [of cfg w s7 hits s7] d9 req by simp
    then show ?thesis using Inl d9 d9_deny [of cfg w s7 hits v h] by (simp add: closing_def)
  next
    case (Inr s9)
    then have s9: "s9 = s7" "under_limits cfg w req hits" using d9_iff [of cfg w s7 hits s9] d9 req by simp_all
    show ?thesis
    proof (cases "d10 cfg w s7")
      case (Inl v)
      then have "\<not> lease_held cfg w req" using d10_iff [of cfg w s7 s7] req by simp
      then show ?thesis using Inl Inr s9 d9 steps_deny(8) [OF Inl] by (simp add: closing_def)
    next
      case s10: (Inr s10)
      then have "s10 = s7" "lease_held cfg w req" using d10_iff [of cfg w s7 s10] req by simp_all
      then show ?thesis using s10 Inr s9 d9
        by (simp add: closing_def allowing_def stamped_def finalLevel_def assms DVerdict0_def)
    qed
  qed
qed

lemma Decide_cases:
  assumes "\<not> dr_Narrowing req0" "req = normalize req0"
  obtains (denied) "denying (fst (Decide cfg req0 w hits))"
      "\<not> (\<exists>p. governed cfg w req p \<and> under_limits cfg w req hits)"
  | (allowed) p l where "governed cfg w req p" "under_limits cfg w req hits"
      "level_after cfg w req (ax_MaxLevel (ToolAccess p (dr_Kind req))) l"
      "fst (Decide cfg req0 w hits) = allowing cfg w req p l"
proof -
  have n: "\<not> dr_Narrowing req" using assms by (simp add: normalize_def Let_def)
  have D: "Decide cfg req0 w hits =
      (case load cfg w req of Inl v \<Rightarrow> (v, hits)
       | Inr s \<Rightarrow> (case steps_to_d7 cfg w s of
            (Inl v, s1) \<Rightarrow> (stamped req s1 v, hits) | (Inr s7, _) \<Rightarrow> closing cfg req w hits s7))"
    unfolding Decide_def Let_def closing_def assms(2) [symmetric] using n by simp
  show thesis
  proof (cases "load cfg w req")
    case (Inl v)
    then have "\<nexists>p. principal_loaded cfg w req p" using load_iff [of cfg w req] by auto
    then show thesis using denied Inl load_deny [OF Inl] by (simp add: D governed_def)
  next
    case (Inr s)
    then obtain p where p: "principal_loaded cfg w req p" "s = started cfg req p" by (auto simp: load_iff)
    have q: "governed cfg w req q \<longleftrightarrow> q = p \<and> checked cfg w req p \<and> lease_held cfg w req" for q
      unfolding governed_split using p(1) principal_loaded_unique [OF p(1), of q] by blast
    obtain r s' where st: "steps_to_d7 cfg w (started cfg req p) = (r, s')" by fastforce
    show thesis
    proof (cases r)
      case (Inl v)
      then have "\<not> checked cfg w req p" using st steps_to_d7_checked [of cfg w req p] by simp
      moreover have "denying (fst (Decide cfg req0 w hits))"
        using Inl Inr p(2) st steps_to_d7_deny [of cfg w "started cfg req p" v s'] by (simp add: D)
      ultimately show thesis using denied q by blast
    next
      case s7: (Inr s7)
      have c: "checked cfg w req p" using st s7 steps_to_d7_checked [of cfg w req p] by blast
      have st7: "steps_to_d7 cfg w (started cfg req p) = (Inr s7, s')" using st s7 by simp
      obtain l where l: "level_after cfg w req (ax_MaxLevel (ToolAccess p (dr_Kind req))) l"
          "s7 = (started cfg req p)\<lparr>ds_env := request_env cfg w req, ds_level := l\<rparr>"
        using st7 [unfolded steps_to_d7_iff] by blast
      have e: "Decide cfg req0 w hits = closing cfg req w hits s7" using Inr p(2) st s7 by (simp add: D)
      show thesis
        using closing_cases [OF l(2), of hits] denied allowed [of p l] c l(1) q unfolding e by (auto split: if_splits)
    qed
  qed
qed

lemma Decide_allowed:
  "dv_Allowed (fst (Decide cfg req w hits)) \<longleftrightarrow>
     dr_Narrowing req \<or> (\<exists>p. governed cfg w (normalize req) p \<and> under_limits cfg w (normalize req) hits)"
proof (cases "dr_Narrowing req")
  case True
  then show ?thesis by (auto simp: Decide_def normalize_def Let_def)
next
  case False
  show ?thesis
    by (rule Decide_cases [OF False refl, of cfg w hits]) (use False in \<open>auto simp: denying_def allowing_def\<close>)
qed

text \<open>
  C19: Agent governance allows a request exactly when it only takes access away or everything holds at
  once: its principal exists and may use the tool's kind (a sponsored, active principal whose profile has
  the class, for the agents' own tools), no freeze covers it, the database's environment is within the
  ceilings of the principal and of its profile, its objects are admitted, production writes and DDL have
  point-in-time recovery, the limits on pending approvals and hourly requests leave room, and a brokered
  grant has a live lease.\<close>

theorem decide_allows_iff:
  "dv_Allowed (fst (Decide cfg req w hits)) \<longleftrightarrow>
     dr_Narrowing req \<or> (\<exists>p. governed cfg w (normalize req) p \<and> under_limits cfg w (normalize req) hits)"
  by (rule Decide_allowed)

lemma access_levels:
  "0 \<le> ax_MaxLevel (ToolAccess p k)" "ax_MaxLevel (ToolAccess p k) \<le> 3"
  "k \<noteq> ToolRead \<Longrightarrow> k = ToolPropose \<or> gp_Tainted p \<Longrightarrow> ax_MaxLevel (ToolAccess p k) \<le> 2"
  by (auto simp: ToolAccess_def refused_def admitted_def ProposeCap_def)

lemma level_after_le:
  "level_after cfg w req l l' \<Longrightarrow> l' \<le> l" "level_after cfg w req l l' \<Longrightarrow> 0 \<le> l \<Longrightarrow> 0 \<le> l'"
  by (auto simp: level_after_def drillCap_def Let_def split: if_splits)

text \<open>
  C39: The levels of agent governance. A verdict's level is between 0 and 3 and 0 for a denial; beyond
  narrowing requests, every class but reading is capped at 2, and so is every proposing tool and every
  tool but the read ones of a tainted principal.\<close>

theorem decide_levels:
  assumes "Decide cfg req0 w hits = (v, hits')" "req = normalize req0"
  shows "0 \<le> dv_MaxLevel v \<and> dv_MaxLevel v \<le> 3 \<and> (\<not> dv_Allowed v \<longrightarrow> dv_MaxLevel v = 0) \<and>
    (\<not> dr_Narrowing req \<and>
       (dr_Capability req \<noteq> CapRead \<or> dr_Kind req = ToolPropose \<or>
        dr_Kind req \<noteq> ToolRead \<and> gp_Tainted (dv_Principal v)) \<longrightarrow> dv_MaxLevel v \<le> 2)"
proof (cases "dr_Narrowing req0")
  case True
  then show ?thesis using assms by (auto simp: Decide_def normalize_def DVerdict0_def Let_def split: if_splits)
next
  case False
  have v: "v = fst (Decide cfg req0 w hits)" using assms(1) by simp
  show ?thesis
  proof (rule Decide_cases [OF False assms(2), of cfg w hits])
    assume "denying (fst (Decide cfg req0 w hits))"
    then show ?thesis by (simp add: v denying_def)
  next
    fix p l
    assume l: "level_after cfg w req (ax_MaxLevel (ToolAccess p (dr_Kind req))) l"
      and e: "fst (Decide cfg req0 w hits) = allowing cfg w req p l"
    show ?thesis unfolding v e
      using level_after_le [OF l] access_levels(1,2) [of p "dr_Kind req"] access_levels(3) [of "dr_Kind req" p] by (auto simp: allowing_def DVerdict0_def)
  qed
qed

subsection \<open>Limits\<close>

text \<open>The calls of \<^verbatim>\<open>admit\<close> that are let through, each with its time and principal.\<close>

fun admissions :: "int \<Rightarrow> (instant \<times> string) list \<Rightarrow> hits \<Rightarrow> (instant \<times> string) list" where
  "admissions limit [] hits = []"
| "admissions limit ((now, who) # calls) hits =
     (case admit limit now who hits of
        (None, hits1) \<Rightarrow> (now, who) # admissions limit calls hits1
      | (Some _, hits1) \<Rightarrow> admissions limit calls hits1)"

lemma time_Sub_hour: "time_Sub a b < hour \<longleftrightarrow> a - b < hour"
  by (auto simp: time_Sub_def hour_def minute_def second_def min64_def max64_def min_def max_def)

lemma hour_pos: "0 < hour"
  by (simp add: hour_def minute_def second_def)

text \<open>The times of a key's admissions.\<close>

definition admit_times :: "string \<Rightarrow> (instant \<times> string) list \<Rightarrow> instant list" where
  "admit_times k log = map fst (filter (\<lambda>c. hit_key (snd c) = k) log)"

lemma admit_times_simps [simp]:
  "admit_times k [] = []" "admit_times k (log @ log') = admit_times k log @ admit_times k log'"
  "admit_times k ((n, who) # log) = (if hit_key who = k then n # admit_times k log else admit_times k log)"
  by (simp_all add: admit_times_def)

lemma filter_times:
  "filter P (admit_times k log) = map fst (filter (\<lambda>(now, who). hit_key who = k \<and> P now) log)"
  by (induction log) (auto split: if_splits)

text \<open>The kept times of a key are its admissions, as far as the last hour goes.\<close>

definition kept :: "(instant \<times> string) list \<Rightarrow> hits \<Rightarrow> instant \<Rightarrow> bool" where
  "kept log hits n \<longleftrightarrow> (\<forall>k. filter (\<lambda>x. n - x < hour) (hits k) = filter (\<lambda>x. n - x < hour) (admit_times k log))"

definition spaced :: "int \<Rightarrow> (instant \<times> string) list \<Rightarrow> bool" where
  "spaced limit log \<longleftrightarrow> (\<forall>k t. int (length (filter (\<lambda>x. t \<le> x \<and> x < t + hour) (admit_times k log))) \<le> limit)"

lemma kept_later:
  assumes "kept log hits n" "n \<le> n'"
  shows "kept log hits n'"
proof -
  have "filter (\<lambda>x. n' - x < hour) xs = filter (\<lambda>x. n' - x < hour) (filter (\<lambda>x. n - x < hour) xs)" for xs
    using assms(2) by (auto intro!: filter_cong)
  then show ?thesis using assms(1) by (metis kept_def)
qed

lemma admit_kept:
  assumes "admit limit now who hits = (r, hits1)" "kept log hits now"
  shows "kept (log @ (if r = None then [(now, who)] else [])) hits1 now"
  using assms
  by (auto simp: admit_def kept_def Let_def time_Sub_hour hour_pos split: if_splits)

lemma admit_spaced:
  assumes "admit limit now who hits = (None, hits1)" "kept log hits now" "spaced limit log"
  shows "spaced limit (log @ [(now, who)])"
proof -
  let ?k = "hit_key who"
  have room: "int (length (filter (\<lambda>x. now - x < hour) (admit_times ?k log))) < limit"
    using assms(1,2) by (auto simp: admit_def kept_def Let_def time_Sub_hour split: if_splits)
  have "length (filter (\<lambda>x. t \<le> x \<and> x < t + hour) xs) \<le> length (filter (\<lambda>x. now - x < hour) xs)" if "now < t + hour" for t xs
    using that by (induction xs) auto
  with room have "int (length (filter (\<lambda>x. t \<le> x \<and> x < t + hour) (admit_times ?k log))) < limit" if "now < t + hour" for t
    using that by (meson of_nat_le_iff order.strict_trans1)
  with assms(3) show ?thesis by (fastforce simp: spaced_def)
qed

lemma admissions_spaced:
  assumes "sorted (map fst calls)" "\<forall>c\<in>set calls. n \<le> fst c" "kept log hits n" "spaced limit log"
  shows "spaced limit (log @ admissions limit calls hits)"
  using assms
proof (induction calls arbitrary: log hits n)
  case (Cons c calls)
  obtain now who where c: "c = (now, who)" by fastforce
  obtain r hits1 where r: "admit limit now who hits = (r, hits1)" by fastforce
  let ?log = "log @ (if r = None then [(now, who)] else [])"
  have k: "kept log hits now" using Cons.prems(2,3) c kept_later by simp
  have "spaced limit ?log" using admit_spaced [OF _ k Cons.prems(4)] r Cons.prems(4) by auto
  then have "spaced limit (?log @ admissions limit calls hits1)"
    using Cons.IH [of now ?log hits1] Cons.prems(1) c admit_kept [OF r k] by auto
  then show ?case using r c by (cases r) simp_all
qed simp

text \<open>
  C40: The hourly limit. When the clock does not run backwards, at most the configured number of the
  counted requests of one principal are let through in any hour, however the requests of several
  principals interleave.\<close>

theorem admit_rate_bounded:
  assumes "sorted (map fst calls)" "0 < limit"
  shows "int (length (filter (\<lambda>(now, who). hit_key who = k \<and> t \<le> now \<and> now < t + hour)
           (admissions limit calls (\<lambda>_. [])))) \<le> limit"
proof -
  let ?a = "admissions limit calls (\<lambda>_. [])"
  have "\<forall>c\<in>set calls. (case calls of [] \<Rightarrow> 0 | c # _ \<Rightarrow> fst c) \<le> fst c"
    using assms(1) by (cases calls) auto
  then have "spaced limit ([] @ ?a)"
    using assms by (intro admissions_spaced) (auto simp: kept_def spaced_def)
  then have "int (length (filter (\<lambda>x. t \<le> x \<and> x < t + hour) (admit_times k ?a))) \<le> limit" by (simp add: spaced_def)
  then show ?thesis by (simp only: filter_times length_map)
qed

text \<open>
  The wait answered with a rate limit is enough and at most an hour: no recorded request being in the
  future, the principal's next request after the wait is let through.\<close>

theorem retry_after_admits:
  assumes "admit limit now who hits = (Some wait, hits1)" "0 < limit"
    and "int (length (hits (hit_key who))) \<le> limit" "\<forall>x\<in>set (hits (hit_key who)). x \<le> now"
    and "now + wait \<le> later"
  shows "0 < wait \<and> wait \<le> hour \<and> fst (admit limit later who hits1) = None"
proof -
  let ?rec = "filter (\<lambda>t. now - t < hour) (hits (hit_key who))"
  have full: "limit \<le> int (length ?rec)" and w: "wait = time_Sub (hd ?rec + hour) now"
    and h: "hits1 (hit_key who) = ?rec"
    using assms(1) by (auto simp: admit_def Let_def time_Sub_hour split: if_splits)
  then obtain x xs where x: "?rec = x # xs" using assms(2) by (cases ?rec) auto
  then have "x \<in> set ?rec" by simp
  then have "x \<le> now" "now - x < hour" using assms(4) by auto
  then have wait: "wait = x + hour - now" "0 < wait" "wait \<le> hour"
    using w x by (auto simp: time_Sub_def hour_def minute_def second_def min64_def max64_def)
  have a: "length (filter (\<lambda>t. later - t < hour) ?rec) \<le> length xs"
    using wait assms(5) unfolding x by simp
  have b: "int (length xs) < limit"
    using assms(3) x length_filter_le [of "\<lambda>t. now - t < hour" "hits (hit_key who)"] by simp
  from a b have "int (length (filter (\<lambda>t. later - t < hour) ?rec)) < limit" by (meson of_nat_le_iff order.strict_trans1)
  then have "fst (admit limit later who hits1) = None" by (simp only: admit_def Let_def time_Sub_hour h) simp
  with wait show ?thesis by simp
qed

subsection \<open>Composition with the gate\<close>

lemma KindFor_known: "KindFor tool \<in> {ToolRead, ToolPropose, KindApprove, ToolAgent}"
proof (cases "map_of toolClasses tool")
  case (Some c)
  have "\<forall>(t, k, c, b)\<in>set toolClasses. k \<in> {ToolRead, ToolPropose, KindApprove, ToolAgent}"
    by (simp add: toolClasses_def t_read_def t_propose_def t_approve_def t_agent_def)
  with map_of_SomeD [OF Some] Some show ?thesis by (cases c) (auto simp: KindFor_def)
qed (simp add: KindFor_def)

lemma toRequest_kind:
  "dr_Kind (toRequest db req ref) \<noteq> ToolRead" "dr_Kind (toRequest db req ref) \<noteq> []"
  using KindFor_known [of "p_Tool ref"] by (auto simp: toRequest_def Let_def)

lemma normalize_toRequest:
  "dr_Kind (normalize (toRequest db req ref)) = dr_Kind (toRequest db req ref)"
  "dr_Database (normalize (toRequest db req ref)) = db"
  "dr_Narrowing (normalize (toRequest db req ref)) = IsNarrowing req"
  "dr_PrincipalID (normalize (toRequest db req ref)) = p_ID ref"
  using toRequest_kind [of db req ref] by (simp_all add: normalize_def toRequest_def Let_def)

text \<open>
  C20: The decider behind the gate. When the gate of a database lets an agent's request run, and the
  request does more than take access away, a person has approved it and agent governance admits it: its
  principal is the unbound local agent or one the store knows, it is active, the environment of the
  database, production when nothing says otherwise, is within its ceiling, and a production write or
  schema change has point-in-time recovery.\<close>

theorem agent_execution_governed:
  assumes "gc_Agents gcfg = Some (\<lambda>ctx req w. fst (gateAdapter_Decide cfg db req w hits))"
    and "d_Verdict (fst (evaluate gcfg ctx req w)) = VerdictExecute"
    and "r_Principal req = Some ref" "\<not> IsNarrowing req" "dreq = normalize (toRequest db req ref)"
  shows "r_OperatorApproved req \<and>
    (\<exists>p. governed cfg w dreq p \<and> principal_loaded cfg w dreq p \<and> gp_Status p = StatusActive \<and>
       (db \<noteq> [] \<longrightarrow> Within (environment cfg w db) (ceilingOf (gp_EnvCeiling p))) \<and>
       (db \<noteq> [] \<and> environment cfg w db = EnvProd \<and>
          (cap_Writes (dr_Capability dreq) \<or> cap_DDL (dr_Capability dreq)) \<longrightarrow>
          (\<exists>f drill. dg_Recovery cfg = Some f \<and> f db w = Inr (True, drill))))"
proof -
  have perm: "r_OperatorApproved req" "dv_Allowed (fst (Decide cfg (toRequest db req ref) w hits))"
    using assms(1-4) unfolding evaluate_permitted permitted_def agent_permitted_def
    by (auto simp: gateAdapter_Decide_def split: prod.splits if_splits)
  have "\<not> dr_Narrowing (toRequest db req ref)" using assms(4) by (simp add: toRequest_def Let_def)
  with perm(2) obtain p where p: "governed cfg w dreq p"
    unfolding Decide_allowed assms(5) by blast
  then have g: "principal_loaded cfg w dreq p" "standing cfg dreq p" "under_ceilings cfg w dreq p" "recoverable cfg w dreq"
    by (simp_all add: governed_def)
  have d: "dr_Database dreq = db" "dr_Kind dreq \<noteq> ToolRead"
    by (simp_all add: assms(5) normalize_toRequest toRequest_kind)
  have "gp_Status p = StatusActive" using g(2) d(2) by (auto simp: standing_def)
  moreover have "db \<noteq> [] \<longrightarrow> Within (environment cfg w db) (ceilingOf (gp_EnvCeiling p))"
    using g(3) d(1) by (simp add: under_ceilings_def request_env_def)
  moreover have "db \<noteq> [] \<and> environment cfg w db = EnvProd \<and>
      (cap_Writes (dr_Capability dreq) \<or> cap_DDL (dr_Capability dreq)) \<longrightarrow>
      (\<exists>f drill. dg_Recovery cfg = Some f \<and> f db w = Inr (True, drill))"
    using g(4) d(1) by (simp add: recoverable_def needs_pitr_def request_env_def)
  ultimately show ?thesis using perm(1) p g(1) by blast
qed

subsection \<open>Schema changes\<close>

definition word_free :: "char option \<Rightarrow> bool" where
  "word_free q = (case q of None \<Rightarrow> True | Some c \<Rightarrow> \<not> is_word c)"

text \<open>The last character of a text, and the first.\<close>

definition last_of :: "string \<Rightarrow> char option" where
  "last_of s = (if s = [] then None else Some (List.last s))"

definition first_of :: "string \<Rightarrow> char option" where
  "first_of s = (case s of [] \<Rightarrow> None | c # _ \<Rightarrow> Some c)"

lemma destructive_matches:
  assumes "map to_lower v = ''drop'' \<or> map to_lower v = ''truncate''"
    and "word_free (last_of a)" "word_free (first_of b)"
  shows "p_matches destructiveDDL (a @ v @ b)"
proof -
  have low: "map to_lower ''DROP'' = ''drop''" "map to_lower ''TRUNCATE'' = ''truncate''" by code_simp+
  have ends: "to_lower (hd v) = hd (map to_lower v)" "to_lower (List.last v) = List.last (map to_lower v)" "v \<noteq> []"
    using assms(1) by (auto simp: hd_map last_map)
  have "is_word (to_lower (hd v))" "is_word (to_lower (List.last v))"
    unfolding ends using assms(1) by (auto simp: is_word_def in_range_def)
  then have w: "is_word (hd v)" "is_word (List.last v)" by simp_all
  have "(Some (List.last v), b, []) \<in> set (pends (PAlt (pword ''DROP'') (pword ''TRUNCATE'')) (last_of a, v @ b, []))"
    using assms(1) low ends(3) pends_pword [of v "''DROP''" "last_of a" b "[]"] pends_pword [of v "''TRUNCATE''" "last_of a" b "[]"]
    by (auto simp del: pword.simps)
  moreover have "boundary (last_of a, v @ b)" "boundary (Some (List.last v), b)"
    using w ends(3) assms(2,3) by (cases v; auto simp: boundary_def opt_word_def word_free_def first_of_def split: option.splits list.splits)+
  ultimately have "pends destructiveDDL (last_of a, v @ b, []) \<noteq> []"
    by (auto simp: destructiveDDL_def simp del: pword.simps intro!: bexI)
  then show ?thesis using find_from_append [of destructiveDDL a None "v @ b"]
    by (simp add: p_matches_def last_of_def if_distrib)
qed

text \<open>Comments are taken out before literals: a literal that opens a comment and one that closes it hide
  the statements between them.\<close>

definition hidden_drop :: string where
  "hidden_drop = ''SELECT '' @ [quote_char] @ ''/*'' @ [quote_char] @ ''; DROP TABLE t; SELECT '' @
     [quote_char] @ ''*/'' @ [quote_char]"

lemma hidden_drop_text: "ddl_text hidden_drop = ''SELECT '' @ [quote_char, quote_char]"
  by code_simp

lemma hidden_drop_additive: "ClassifyDDL hidden_drop = CapDDLAdditive"
proof -
  let ?s = "''SELECT '' @ [quote_char, quote_char]"
  have stmts: "splitStatements (sanitizeDDL ?s) = [''SELECT '' @ redactedLiteral]" by code_simp
  let ?c = "collapseWhitespace (''SELECT '' @ redactedLiteral)"
  have "matchIndexRules ?c = []" by code_simp
  moreover have "\<not> p_matches reAlterTable ?c" by code_simp
  moreover have "matchDropRules ?c = []" by code_simp
  moreover have "matchMaintenanceRules ?c oldestSupportedPG = []" by code_simp
  ultimately have "classifyStatement ?c oldestSupportedPG = []" by (simp only: classifyStatement_def) simp
  moreover have "checkLockTimeout ?c [] = []" "\<not> p_matches reLockTimeout ?c" by code_simp+
  ultimately have "Classify ?s oldestSupportedPG = []" unfolding Classify_def stmts by (simp only: classify_stmts.simps Let_def) simp
  moreover have "TrimSpace ?s \<noteq> []" "\<not> p_matches destructiveDDL ?s" by code_simp+
  ultimately show ?thesis by (simp only: ClassifyDDL_def Let_def hidden_drop_text) simp
qed

text \<open>
  A statement text without comments or literals that has DROP or TRUNCATE as a word, in any case of
  letters, is classed as destructive.\<close>

theorem plain_drop_destructive:
  assumes "map to_lower v = ''drop'' \<or> map to_lower v = ''truncate''"
    and "word_free (last_of a)" "word_free (first_of b)"
    and "\<forall>c\<in>set (a @ v @ b). c \<notin> {CHR ''-'', CHR ''/'', quote_char}"
  shows "ClassifyDDL (a @ v @ b) = CapDDLDestructive"
proof -
  let ?s = "a @ v @ b"
  have "ReplaceAllString sqlComment ?s '' '' = ?s"
    by (rule ReplaceAllString_none [of _ "\<lambda>c. c = CHR ''-'' \<or> c = CHR ''/''"])
      (use assms(4) in \<open>auto simp: sqlComment_def pchr_def\<close>)
  moreover have "ReplaceAllString sqlString ?s [quote_char, quote_char] = ?s"
    by (rule ReplaceAllString_none [of _ "\<lambda>c. c = quote_char"]) (use assms(4) in \<open>auto simp: sqlString_def pchr_def\<close>)
  ultimately have "ddl_text ?s = ?s" by (simp add: ddl_text_def)
  then show ?thesis using destructive_matches [OF assms(1-3)] by (simp add: ClassifyDDL_def Let_def)
qed

theorem plain_drop_destructive_witness: "ClassifyDDL (''alter table t '' @ ''Drop'' @ '' column c'') = CapDDLDestructive"
  by (rule plain_drop_destructive; code_simp)

subsection \<open>Examples\<close>

definition ex_coder :: Principal where
  "ex_coder = Principal0\<lparr>gp_ID := ''agp_1'', gp_Name := ''coder'', gp_SponsorUserID := Some 7, gp_Profile := ''app-writer'',
     gp_EnvCeiling := EnvProd, gp_Status := StatusActive, gp_SponsorActive := True\<rparr>"

definition ex_decider :: "unit DConfig" where
  "ex_decider = NewDecider
     \<lparr>dg_Principals = Some (\<lambda>i _. if i = ''agp_1'' then Inr ex_coder else Inl ErrNotFound), dg_Environments = None,
      dg_Profiles = Some DefaultProfiles, dg_Freezes = None, dg_Objects = None, dg_ChangeFreeze = Some (\<lambda>_ _. Inr False),
      dg_Recovery = Some (\<lambda>_ _. Inr (True, ex_now)), dg_Pending = Some (\<lambda>_ _. Inr 3), dg_Leases = None,
      dg_MaxRequestsPerHour = 0, dg_MaxPendingPerPrincipal = 0, dg_RestoreDrillDays = 0, dg_Now = (\<lambda>_ _. ex_now)\<rparr>"

definition ex_dreq :: DRequest where
  "ex_dreq = \<lparr>dr_PrincipalID = ''agp_1'', dr_Tool = ''ensure_fk_indexes'', dr_Kind = [], dr_Capability = [],
     dr_Database = ''app'', dr_Objects = [], dr_GrantID = [], dr_Narrowing = False, dr_OperatorApproved = False,
     dr_TaskID = []\<rparr>"

theorem decide_levels_witness:
  "dv_Allowed (fst (Decide ex_decider ex_dreq () (\<lambda>_. []))) \<and>
   dv_MaxLevel (fst (Decide ex_decider ex_dreq () (\<lambda>_. []))) \<le> 2"
proof -
  have "dv_Allowed (fst (Decide ex_decider ex_dreq () (\<lambda>_. [])))" by code_simp
  moreover have "\<not> dr_Narrowing (normalize ex_dreq)" "dr_Capability (normalize ex_dreq) \<noteq> CapRead" by code_simp+
  ultimately show ?thesis
    using decide_levels [OF prod.collapse [symmetric] refl, of ex_decider ex_dreq "()" "\<lambda>_. []"] by blast
qed

definition ex_calls :: "(instant \<times> string) list" where
  "ex_calls = [(0, ''a''), (10, ''b''), (20, ''a''), (30, ''a''), (hour + 5, ''a'')]"

theorem admit_rate_bounded_witness:
  "admissions 2 ex_calls (\<lambda>_. []) = [(0, ''a''), (10, ''b''), (20, ''a''), (hour + 5, ''a'')] \<and>
   int (length (filter (\<lambda>(now, who). hit_key who = ''a'' \<and> 0 \<le> now \<and> now < 0 + hour)
     (admissions 2 ex_calls (\<lambda>_. [])))) \<le> 2"
proof
  show "admissions 2 ex_calls (\<lambda>_. []) = [(0, ''a''), (10, ''b''), (20, ''a''), (hour + 5, ''a'')]" by code_simp
  have "sorted (map fst ex_calls)" by code_simp
  then show "int (length (filter (\<lambda>(now, who). hit_key who = ''a'' \<and> 0 \<le> now \<and> now < 0 + hour)
     (admissions 2 ex_calls (\<lambda>_. [])))) \<le> 2"
    by (rule admit_rate_bounded) simp
qed

theorem retry_after_admits_witness:
  "fst (admit 1 20 ''a'' (\<lambda>_. [5])) = Some (hour - 15) \<and>
   fst (admit 1 (hour + 5) ''a'' (snd (admit 1 20 ''a'' (\<lambda>_. [5])))) = None"
proof -
  have a: "admit 1 20 ''a'' (\<lambda>_. [5]) = (Some (hour - 15), (\<lambda>_. [5])(''a'' := [5]))"
    by (simp add: admit_def hit_key_def Let_def time_Sub_def hour_def minute_def second_def min64_def max64_def)
  show ?thesis using retry_after_admits [OF a, of "hour + 5"] a by simp
qed

definition ex_agent_index :: ActionRequest where
  "ex_agent_index = ex_index\<lparr>r_OperatorApproved := True, r_Principal := Some \<lparr>p_ID = ''agp_1'',
     p_SponsorID = 7, p_TaskID = [], p_OnBehalfOf = [], p_Tool = ''ensure_fk_indexes''\<rparr>\<rparr>"

definition ex_governed_gate :: "unit GateConfig" where
  "ex_governed_gate = (ex_running ex_doc)\<lparr>gc_Agents :=
     Some (\<lambda>ctx req w. fst (gateAdapter_Decide ex_decider ''app'' req w (\<lambda>_. [])))\<rparr>"

theorem agent_execution_governed_witness:
  "\<exists>p. governed ex_decider () (normalize (toRequest ''app'' ex_agent_index (the (r_Principal ex_agent_index)))) p \<and>
     gp_Status p = StatusActive"
proof -
  have "d_Verdict (fst (evaluate ex_governed_gate ex_ctx ex_agent_index ())) = VerdictExecute" by code_simp
  moreover have "r_Principal ex_agent_index = Some (the (r_Principal ex_agent_index))" "\<not> IsNarrowing ex_agent_index"
    by code_simp+
  moreover have "gc_Agents ex_governed_gate =
      Some (\<lambda>ctx req w. fst (gateAdapter_Decide ex_decider ''app'' req w (\<lambda>_. [])))"
    by (simp add: ex_governed_gate_def)
  ultimately show ?thesis using agent_execution_governed [of ex_governed_gate ex_decider "''app''" "\<lambda>_. []"] by blast
qed

end
