(* ===== verification/Spec2Isabelle.thy ===== *)
theory Spec2Isabelle
  imports Authorize Store_Props Queue_Props Limiter_Props Audit_Props Siem_Props
    Rollout_Props Env_Props Decide_Props
begin

text \<open>
  pg_sage is a sidecar that tunes and repairs PostgreSQL databases. Every change it makes, and
  every change an operator, an agent or a cloud provider makes through it, goes through one
  package, \<^verbatim>\<open>src/sidecar/internal/policy\<close>; how far pg_sage may act on its own is kept in the
  ledger of \<^verbatim>\<open>src/sidecar/internal/earned\<close>; what it did is kept in audit tables that
  \<^verbatim>\<open>src/sidecar/internal/auditchain\<close> makes tamper-evident and that the leader of the sidecars
  (\<^verbatim>\<open>src/sidecar/internal/leader\<close>) exports to SIEM systems
  (\<^verbatim>\<open>src/sidecar/internal/siem\<close>); a change that worked on one database of a fleet is rolled
  out to others by \<^verbatim>\<open>src/sidecar/internal/rollout\<close>; and what agents may ask for is decided by
  \<^verbatim>\<open>src/sidecar/internal/agentguard\<close> (principals, environment labels, the decider) with the
  DDL classifier of \<^verbatim>\<open>src/sidecar/internal/migration\<close>. This development models these
  packages and proves what they promise. File names below are relative to them.

  \<^bold>\<open>How the parts interact.\<close> A caller builds an \<^verbatim>\<open>ActionRequest\<close> (contract, SQL,
  target, origin) and calls \<^verbatim>\<open>Gate.Authorize\<close>. The gate reads the runtime state, the
  standing policy document of the fleet and database (from the policy store), the usage in the
  current budget window, the confirmed facts of the database, the earned-autonomy ledger and the
  changes still awaiting verification, through the callbacks of its \<^verbatim>\<open>GateConfig\<close>;
  decides one of execute, queue for approval or block; records the decision; and returns it. The
  policy store keeps the documents: an agent or a person proposes one, the store marks it when it
  widens the current one (\<^verbatim>\<open>Widens\<close>), and ratification replaces the current document
  once the needed people have approved. The ledger keeps, for every incident family or
  self-initiated family and every action class, a level from 0 to 3: it proposes a promotion of one
  level when the evidence supports it, a person approves it, a demerit lowers it, and its limiter is
  the callback that tells the gate the level of a request. The agent decider is another callback: it
  reads the agent's principal, the label of the database's environment, recovery posture and limits.
  A fleet canary takes an action that the gate let run on one database, and applies it on others
  through their gates, a few first, rolling all of them back when one fails its verification.

  \<^bold>\<open>Theories and the code they model.\<close>
  \<^item> Prelude: result types, list and string functions of Go's standard library
    (\<^verbatim>\<open>strings\<close>, \<^verbatim>\<open>strconv\<close>, \<^verbatim>\<open>slices\<close>), numbers as text, the
    named theorem collections.
  \<^item> Policy_Types (\<^verbatim>\<open>types.go\<close>): verdicts, tiers, reasons, contracts, requests,
    decisions, runtime state and usage, one datatype or record per Go type.
  \<^item> Windows (\<^verbatim>\<open>window.go\<close>, \<^verbatim>\<open>window_days.go\<close>,
    \<^verbatim>\<open>window_cron.go\<close>): maintenance windows, from text to membership of an instant.
    The step loop of a cron field wraps at 64 bits; parsing always returns.
  \<^item> Regex and Refusal (\<^verbatim>\<open>refusal.go\<close>): the refusal set and the regular expressions its
    predicates use, as a syntax of expressions with a matcher.
  \<^item> Document and Wire (\<^verbatim>\<open>document.go\<close>, \<^verbatim>\<open>budget_document.go\<close>,
    \<^verbatim>\<open>agent_classes.go\<close>, \<^verbatim>\<open>lock_ceiling.go\<close>, \<^verbatim>\<open>widen.go\<close>): the
    standing policy document, its profiles, validation, strict decoding and encoding, execution
    bounds and the widening check.
  \<^item> Budget (\<^verbatim>\<open>budget.go\<close>): budget kinds, the limit stage and its bypass.
  \<^item> Gate_Config (\<^verbatim>\<open>types.go\<close>, \<^verbatim>\<open>agent_gate.go\<close>): the gate's callbacks as
    a record of functions over the world, one field per callback.
  \<^item> Autonomy (\<^verbatim>\<open>autonomy.go\<close>, \<^verbatim>\<open>autonomy_trusted.go\<close>) and
    Verification_Wait (\<^verbatim>\<open>verification_wait.go\<close>): the two stages that can only
    withhold an execute.
  \<^item> Gate and Authorize (\<^verbatim>\<open>gate.go\<close>, \<^verbatim>\<open>gate_operator.go\<close>,
    \<^verbatim>\<open>agent_gate.go\<close>, \<^verbatim>\<open>facts.go\<close>, \<^verbatim>\<open>provider_decision.go\<close>,
    \<^verbatim>\<open>window_status.go\<close>, \<^verbatim>\<open>budget_lock.go\<close>): the evaluation stage by
    stage, and authorizing, explaining and recording.
  \<^item> Gate_Spec, Gate_Sound and Gate_Props: the specification of the gate as a conjunction of
    independent authorities, the refinement of every stage to its authority, and the properties
    of the whole evaluation.
  \<^item> Restrict: the locales of the gate's stages (a stage that only stops, a stage that only
    blocks, a stage that only restricts) with the lemmas the gate's proofs share; each stage of the
    gate interprets one of them.
  \<^item> Widening: the order of documents by permission as a locale, interpreted on the documents of
    the code, and the soundness of \<^verbatim>\<open>Widens\<close> for the gate.
  \<^item> Store (\<^verbatim>\<open>store.go\<close>, \<^verbatim>\<open>store_types.go\<close>,
    \<^verbatim>\<open>store_queries.go\<close>, \<^verbatim>\<open>store_approvals.go\<close>): the tables and every
    transaction of the policy store. Store_Props: the step relation of interleaved transactions,
    its invariants by rule induction and the properties of ratification.
  \<^item> Sha256: the standard library's SHA-256, big-endian reads and hexadecimal text.
    Lease_Target (\<^verbatim>\<open>lease.go\<close>, \<^verbatim>\<open>typed_target.go\<close>,
    \<^verbatim>\<open>change_table.go\<close>): the names of a change's targets, their resolution through the
    catalog, canonical names and lease keys. Target_Props: its properties.
  \<^item> Lease_Db: the tables of the leases and of their queue, every SQL statement as a function of
    them, the step relation of the other sessions, and the script of events between two
    statements. Lease_Manager (\<^verbatim>\<open>postgres_lease.go\<close>,
    \<^verbatim>\<open>lease_conflict.go\<close>): acquiring and releasing statement by statement.
    Lease_Props: the locale of operations that leave the locks of a session as they were, its
    interpretations, mutual exclusion of changes that touch a relation.
  \<^item> Lease_Queue (\<^verbatim>\<open>lease_queue.go\<close>, \<^verbatim>\<open>lease_queue_wait.go\<close>): the
    durable queue. Lease_Steps: the locale of operations that are sequences of statements,
    interpreted on each operation. Queue_Props: the invariant of the tables, the order of grants
    and the end of a wait.
  \<^item> Ledger_Class (\<^verbatim>\<open>level.go\<close>, \<^verbatim>\<open>class.go\<close>, \<^verbatim>\<open>selfinit.go\<close>,
    \<^verbatim>\<open>carryover.go\<close>): levels, families, classes, caps, composites, the pair of a request.
    Float64: the arithmetic of \<^verbatim>\<open>float64\<close> rates (division and comparison of rounded
    rationals, infinities and NaN). Ledger_Evidence (\<^verbatim>\<open>evidence.go\<close>,
    \<^verbatim>\<open>selfinit_evidence.go\<close>, \<^verbatim>\<open>selfinit_shadow.go\<close>,
    \<^verbatim>\<open>guidance.go\<close>): thresholds, the checks of every level, assessments.
  \<^item> Ledger_Db (\<^verbatim>\<open>store.go\<close>, \<^verbatim>\<open>store_*.go\<close>, the autonomy tables of
    \<^verbatim>\<open>src/sidecar/internal/schema\<close>): the tables with their constraints, every statement a
    function of them. Ledger_World: statements and transactions among other sessions, with failing
    and lost statements. Ledger_Service (\<^verbatim>\<open>service.go\<close>,
    \<^verbatim>\<open>service_decide.go\<close>, \<^verbatim>\<open>evaluate.go\<close>, \<^verbatim>\<open>demote.go\<close>,
    \<^verbatim>\<open>legacy.go\<close>, \<^verbatim>\<open>grandfather.go\<close>, \<^verbatim>\<open>provenance.go\<close>):
    every operation that changes the ledger. Limiter (\<^verbatim>\<open>limiter.go\<close>,
    \<^verbatim>\<open>deadline.go\<close>, \<^verbatim>\<open>signals.go\<close>, \<^verbatim>\<open>budget.go\<close>,
    \<^verbatim>\<open>concurrency.go\<close>): the gate's callback.
  \<^item> Ledger_Steps: the step relation of the ledger and the locale of calls that are sequences of
    its steps; Ledger_Calls: the logic of transactions that puts every operation into that locale.
    Ledger_Props: the interpretations, replay of the history, the invariant of the tables and the
    rise of levels; Ledger_Alone: what an approval and a demerit do when nothing interferes;
    Limiter_Props: the bounds of the limiter and its composition with the gate; Ledger_Example:
    the concrete ledger of the witnesses.
  \<^item> Audit_Chain (\<^verbatim>\<open>auditchain/spec.go\<close>, \<^verbatim>\<open>link.go\<close>,
    \<^verbatim>\<open>install.go\<close>): the chained tables, links and their hash, and transactions with the
    triggers the installation creates. Audit_Verify (\<^verbatim>\<open>verify.go\<close>,
    \<^verbatim>\<open>rows.go\<close>): the verifier query by query, other sessions committing between two
    queries. Audit_Hash: what the hash of a link binds. Audit_Walk and Audit_Rows: the exact result of
    every stage and of a whole verification that runs alone. Audit_History and Audit_Steps: the
    invariant of honest histories and the step relation of committed transactions. Audit_Props: the
    properties; Audit_Example: the action log of the witnesses.
  \<^item> Leader (\<^verbatim>\<open>leader/elector.go\<close>, \<^verbatim>\<open>leader/postgres.go\<close>): the lease
    table and its statements, the store, the elector, and the locale of lease tables whose epochs can
    fence writes, interpreted on the statements. Leader_Steps: several electors as a step relation
    (reading the local clock, beginning and executing a statement, replying, failing, stopping) and
    its invariant. Leader_Props: at most one leader.
  \<^item> Siem_Value: Go values, \<^verbatim>\<open>fmt.Sprint\<close> and \<^verbatim>\<open>json.Marshal\<close>. Siem_Map
    (\<^verbatim>\<open>siem/ocsf.go\<close>, \<^verbatim>\<open>siem/mappers.go\<close>,
    \<^verbatim>\<open>config/field_docs.go\<close>): OCSF events, redaction and truncation. Siem_Export
    (\<^verbatim>\<open>siem/cursor.go\<close>, \<^verbatim>\<open>siem/records.go\<close>,
    \<^verbatim>\<open>siem/exporter.go\<close>, \<^verbatim>\<open>cmd/pg_sage_sidecar/audit_wiring.go\<close>): cursors, the
    delivery loop, passes and the sources. Siem_Steps: the steps everybody takes on the shared state,
    which a pass relies on and guarantees. Siem_Pass: a pass takes such steps, returns, and what it
    has delivered. Siem_Props: the properties.
  \<^item> Go_Error: Go's error values, wrapping, joining, \<^verbatim>\<open>errors.Is\<close> and \<^verbatim>\<open>%q\<close>.
    Rollout (\<^verbatim>\<open>rollout/types.go\<close>, \<^verbatim>\<open>policy.go\<close>, \<^verbatim>\<open>engine.go\<close>): policies
    and the engine. Rollout_Store (\<^verbatim>\<open>postgres.go\<close>, \<^verbatim>\<open>postgres_canary.go\<close>,
    \<^verbatim>\<open>runtime.go\<close>): the tables of runs and the runtime. Canary
    (\<^verbatim>\<open>canary.go\<close>, \<^verbatim>\<open>cmd/pg_sage_sidecar/autonomy_fleet.go\<close>): the fleet canary.
    Rollout_Trace: the engine with a log of its calls and the protocol they follow. Rollout_Props: the
    locale of backends whose regressions are verdicts, interpreted on the canary, and the properties.
  \<^item> Agent_Core (\<^verbatim>\<open>agentguard/principal.go\<close>, \<^verbatim>\<open>access.go\<close>,
    \<^verbatim>\<open>errors.go\<close>): principals, role names, access by kind of tool. Env_Bind
    (\<^verbatim>\<open>agentguard/envbind\<close>): environment labels. Env_Props: the steps of the label table
    and the properties. Regex_Find: leftmost matching with groups and replacing. Ddl_Class
    (\<^verbatim>\<open>migration/egress.go\<close>, \<^verbatim>\<open>rules.go\<close>, \<^verbatim>\<open>classifier*.go\<close>): the
    classifier of schema changes. Decide (\<^verbatim>\<open>agentguard/decide\<close>): the decider step by step.
    Decide_Spec: what it promises, without the order of the steps, and every step against it.
    Decide_Props: the properties and the composition with the gate.

  \<^bold>\<open>What the theorems show.\<close> The staged evaluation says execute exactly when the
  specification permits (Gate_Props); what an execute implies for a self-initiated mutation, for an
  agent, under a hard stop, with unreadable authorities and with confirmed facts (Gate_Props); an
  execute is recorded before it is returned (Authorize); a document that the store does not mark as
  widening permits nothing the replaced one refused (Widening); at most one active document per
  scope and the quorum of its approvals (Store_Props); exact characterizations of the limit stage,
  the waits, the ledger's restriction, cron fields and windows; round trips of documents and clock
  ranges; the locks of a lease are restored on every error path and exclude every change that
  touches the same relation (Lease_Props), the queue grants in order and its wait ends (Queue_Props);
  the ledger's history replays to its levels, its tables stay well formed and a level rises only by
  approvals of people (Ledger_Props), approvals and demerits take effect (Ledger_Alone), the limiter
  stays within every cap and what the gate runs unattended was earned (Limiter_Props);
  a full verification of an audit chain accepts exactly the intact ones, honest histories are
  accepted, accepted chains with a common hash agree up to it or exhibit a collision of SHA-256, and
  the verifier returns (Audit_Props);
  at most one sidecar leads at a time and a deposed leader cannot write (Leader_Props, Siem_Props);
  a sink's cursor never passes what the sink accepted, a successful pass has delivered everything,
  a pass returns, events carry their link and reveal no secret value (Siem_Props);
  a rollout changes an instance only after its own verification, never more than its limit, and a halt
  rolls back everything it changed (Rollout_Props); a database counts as less than production only by
  the word of two admins (Env_Props); the decider allows exactly what its specification allows, its
  levels and hourly limits are bounded, and what the gate runs for an agent is governed (Decide_Props);
  and nineteen theorems where the code does not do what its comments or tests say.

  \<^bold>\<open>Modelling choices.\<close> Callbacks are functions of the world that return a result or an
  error; a theorem about an evaluation holds for every such function. A stored document is the JSON
  value of its text, so the tokenizer of \<^verbatim>\<open>encoding/json\<close> is not modelled; strict decoding
  of the value is. Zone data and \<^verbatim>\<open>time.ParseDuration\<close> are arguments (the record of
  library functions). The one loop whose arithmetic can overflow (the cron step)
  wraps at 64 bits; counts and
  limits whose arithmetic cannot overflow in the code, or which the code only compares, are
  integers. A transaction of the store is one step; the advisory lock of the code makes it so.
  A lease operation is a sequence of statements; between two of them a script decides what other
  sessions do, whether the statement fails and whether the context is cancelled, and theorems hold
  for every script. Releasing an advisory lock always takes effect (closing the connection releases
  it too); the enqueue transaction is one step under its advisory lock.
  A ledger operation is a sequence of statements, in a transaction or not; a script decides what
  other sessions commit before each statement, what the clock reads then, whether it fails and
  whether its answer is lost. The writes of a transaction take effect at its commit and the row
  locks it took exclude other writers. The ramp configuration of a service is constant. The gate's
  callback is a function of the world, so what the limiter itself writes (transition and override
  events, its memory) is a result of \<^term>\<open>Limit\<close> and of
  \<^term>\<open>RecordDeadlineOverride\<close> and not seen by the gate.
  The walk of the audit verifier counts positions with 64-bit integers and may not return, so it gives
  an option; where a result depends on the order in which Go visits a map, the order is a function
  of the world. Hashes are those of the modelled SHA-256; no theorem assumes it free of collisions.
  An elector's clock runs at least at a given fraction of the database clock's rate, and statements of
  one holder take effect in the order in which their transactions began; a call may fail at any point
  and its statement take effect later. An export pass is a sequence of calls; a script decides what
  others do to the shared state before each call, whether it fails and whether it took effect all the
  same. What reflection, the JSON parser and the database's row-to-JSON conversion return are
  arguments. A string of an event is its bytes, a float64 its shortest decimal.
  The backend of a rollout is a record of functions of the world that return a result or an error, so
  other sessions act between two calls; the rates of its outcomes are rationals rounded to float64. The
  background run of a canary is two steps, starting and finishing. A label transaction holds its row
  lock, and its peers are read from a table other sessions may have changed. The decider's sources are
  functions of the world, and its clock is read once per place. Matching a regular expression follows
  the order of a backtracking engine, which \<^verbatim>\<open>regexp\<close> reproduces.
  Fuel: a composite class is granted within two levels of recursion, enough because no component is
  itself a composite; the repetition of the regular expression matcher takes the length of the text that is left,
  enough because an iteration consumes a character, and the matcher is proved equal to an inductive
  matching relation; the poll loop of the lease queue takes a bound on its polls, and a poll at or
  after the deadline is proved to end it. The cron loop is an option-valued partial function that is proved to
  return; every other function is total.

  \<^bold>\<open>Not modelled.\<close> Batch explanation (\<^verbatim>\<open>gate_batch.go\<close>) of the
  policy package; of the ledger the reconcilers that copy outcomes of other tables, model lift,
  root-authority events, the read-only views, the parsing of bench reports (a parameter of the
  ingest) and the instruction texts of unmet checks; the executor, which runs what the gate allows; of
  agent governance the storage of principals, cluster roles, the kill switch, the broker and the
  grants, whose answers are arguments of the decider; the parts of the migration advisor that query
  catalogs or a language model; the network clients of the SIEM sinks. The database driver, connection failures,
  logging and the text of SQL statements are not modelled.
\<close>

end
